(* ===== verification/Prelude.thy ===== *)
theory Prelude
  imports Main "HOL-Library.Sublist"
begin

text \<open>
  Shared vocabulary of the development: Python exceptions as values, the guards
  that the scripts write as \<open>require(condition, message)\<close>, sequencing of fallible
  computations, and small facts on lists and strings used by every component.
\<close>

subsection \<open>Exceptions and fallible results\<close>

text \<open>
  The exception classes the modelled code raises or catches.  Subclasses that no
  handler tells apart are merged into the class the handlers name:
  \<open>JSONDecodeError\<close> and \<open>UnicodeDecodeError\<close> are \<open>ValueError\<close>s.  Two values are no Python exceptions:
  \<open>OutOfModel\<close> marks inputs outside the text domain of the development (code points
  above 255), and \<open>OutOfFuel\<close> a recursion cut short, which each theory that uses fuel
  shows not to happen with the fuel it supplies.  The subclasses of \<open>OSError\<close> that a
  handler names are kept apart by \<open>os_class\<close>; \<open>ResourceError\<close> is the subclass of
  \<open>RuntimeError\<close> of the capacity probes, \<open>OtherError\<close> any other class,
  with its name.
\<close>

datatype os_class =
    FileNotFoundError
  | BlockingIOError
  | InterruptedError
  | ProcessLookupError
  | BrokenPipeError
  | ChildProcessError

datatype exn =
    ValueError string
  | RuntimeError string
  | ResourceError string
  | OSError string
  | SubOSError os_class string
  | TypeError string
  | KeyError string
  | IndexError string
  | AssertionError string
  | OtherError string string
  | OutOfModel
  | OutOfFuel

type_synonym 'a res = "exn + 'a"

fun exn_str :: "exn \<Rightarrow> string" where
  "exn_str (ValueError m) = m"
| "exn_str (RuntimeError m) = m"
| "exn_str (ResourceError m) = m"
| "exn_str (OSError m) = m"
| "exn_str (SubOSError k m) = m"
| "exn_str (TypeError m) = m"
| "exn_str (KeyError m) = [CHR 0x27] @ m @ [CHR 0x27]"
| "exn_str (IndexError m) = m"
| "exn_str (AssertionError m) = m"
| "exn_str (OtherError n m) = m"
| "exn_str OutOfModel = []"
| "exn_str OutOfFuel = []"

text \<open>The clause \<open>except (OSError, ValueError, RuntimeError)\<close> of the supervising loops.\<close>

fun caught :: "exn \<Rightarrow> bool" where
  "caught (ValueError m) = True"
| "caught (RuntimeError m) = True"
| "caught (ResourceError m) = True"
| "caught (OSError m) = True"
| "caught (SubOSError k m) = True"
| "caught _ = False"

text \<open>\<open>isinstance(exc, OSError)\<close>, one named subclass of it, and \<open>type(exc).__name__\<close>.\<close>

fun is_oserror :: "exn \<Rightarrow> bool" where
  "is_oserror (OSError m) = True"
| "is_oserror (SubOSError k m) = True"
| "is_oserror _ = False"

fun is_os_class :: "os_class \<Rightarrow> exn \<Rightarrow> bool" where
  "is_os_class c (SubOSError k m) = (k = c)"
| "is_os_class c _ = False"

fun os_class_name :: "os_class \<Rightarrow> string" where
  "os_class_name FileNotFoundError = ''FileNotFoundError''"
| "os_class_name BlockingIOError = ''BlockingIOError''"
| "os_class_name InterruptedError = ''InterruptedError''"
| "os_class_name ProcessLookupError = ''ProcessLookupError''"
| "os_class_name BrokenPipeError = ''BrokenPipeError''"
| "os_class_name ChildProcessError = ''ChildProcessError''"

fun exn_name :: "exn \<Rightarrow> string" where
  "exn_name (ValueError m) = ''ValueError''"
| "exn_name (RuntimeError m) = ''RuntimeError''"
| "exn_name (ResourceError m) = ''ResourceError''"
| "exn_name (OSError m) = ''OSError''"
| "exn_name (SubOSError k m) = os_class_name k"
| "exn_name (TypeError m) = ''TypeError''"
| "exn_name (KeyError m) = ''KeyError''"
| "exn_name (IndexError m) = ''IndexError''"
| "exn_name (AssertionError m) = ''AssertionError''"
| "exn_name (OtherError n m) = n"
| "exn_name OutOfModel = []"
| "exn_name OutOfFuel = []"

named_theorems res_simps \<open>inversion of fallible results\<close>

definition require :: "bool \<Rightarrow> string \<Rightarrow> 'a res \<Rightarrow> 'a res" where
  "require c m k = (if c then k else Inl (ValueError m))"

definition bindE :: "'a res \<Rightarrow> ('a \<Rightarrow> 'b res) \<Rightarrow> 'b res" where
  "bindE m f = (case m of Inl e \<Rightarrow> Inl e | Inr x \<Rightarrow> f x)"

fun eachE :: "('a \<Rightarrow> unit res) \<Rightarrow> 'a list \<Rightarrow> unit res" where
  "eachE f [] = Inr ()"
| "eachE f (x # xs) = bindE (f x) (\<lambda>_. eachE f xs)"

fun foldE :: "('s \<Rightarrow> 'a \<Rightarrow> 's res) \<Rightarrow> 's \<Rightarrow> 'a list \<Rightarrow> 's res" where
  "foldE f s [] = Inr s"
| "foldE f s (x # xs) = bindE (f s x) (\<lambda>s'. foldE f s' xs)"

lemma require_True [simp]: "require True m k = k"
  by (simp add: require_def)

lemma require_False [simp]: "require False m k = Inl (ValueError m)"
  by (simp add: require_def)

lemma require_Inr [res_simps]: "require c m k = Inr x \<longleftrightarrow> c \<and> k = Inr x"
  by (simp add: require_def)

lemma require_Inl [res_simps]:
  "require c m k = Inl e \<longleftrightarrow> (\<not> c \<and> e = ValueError m) \<or> (c \<and> k = Inl e)"
  by (auto simp: require_def)

lemma bindE_simps [simp]:
  "bindE (Inl e) f = Inl e"
  "bindE (Inr x) f = f x"
  by (simp_all add: bindE_def)

lemma bindE_Inr [res_simps]: "bindE m f = Inr y \<longleftrightarrow> (\<exists>x. m = Inr x \<and> f x = Inr y)"
  by (cases m) auto

lemma Inr_bindE [res_simps]: "Inr y = bindE m f \<longleftrightarrow> (\<exists>x. m = Inr x \<and> f x = Inr y)"
  by (cases m) auto

lemma bindE_Inl [res_simps]:
  "bindE m f = Inl e \<longleftrightarrow> m = Inl e \<or> (\<exists>x. m = Inr x \<and> f x = Inl e)"
  by (cases m) auto

lemma bindE_cong [fundef_cong]:
  "m = m' \<Longrightarrow> (\<And>x. m' = Inr x \<Longrightarrow> f x = f' x) \<Longrightarrow> bindE m f = bindE m' f'"
  by (cases m') auto

lemma require_cong [fundef_cong]:
  "c = c' \<Longrightarrow> m = m' \<Longrightarrow> (c' \<Longrightarrow> k = k') \<Longrightarrow> require c m k = require c' m' k'"
  by (simp add: require_def)

lemma bindE_require [simp]: "bindE (require c m k) f = require c m (bindE k f)"
  by (simp add: require_def)

lemma bindE_assoc: "bindE (bindE m f) g = bindE m (\<lambda>x. bindE (f x) g)"
  by (cases m) auto

lemma eachE_Inr [res_simps]: "eachE f xs = Inr u \<longleftrightarrow> (\<forall>x \<in> set xs. f x = Inr ())"
  by (induction xs) (auto simp: bindE_Inr)

lemma eachE_append: "eachE f (xs @ ys) = bindE (eachE f xs) (\<lambda>_. eachE f ys)"
  by (induction xs) (simp_all add: bindE_assoc)

lemma foldE_append: "foldE f s (xs @ ys) = bindE (foldE f s xs) (\<lambda>s'. foldE f s' ys)"
  by (induction xs arbitrary: s) (simp_all add: bindE_assoc)

text \<open>An invariant of the loop body is an invariant of the loop.\<close>

lemma foldE_invariant:
  assumes "foldE f s xs = Inr s'" and "I s"
    and "\<And>s x t. x \<in> set xs \<Longrightarrow> I s \<Longrightarrow> f s x = Inr t \<Longrightarrow> I t"
  shows "I s'"
  using assms
proof (induction xs arbitrary: s)
  case Nil
  then show ?case by simp
next
  case (Cons x xs)
  from Cons.prems(1) obtain t where "f s x = Inr t" and "foldE f t xs = Inr s'"
    by (auto simp: bindE_Inr)
  with Cons.prems(2,3) show ?case
    by (intro Cons.IH [of t]) auto
qed

subsection \<open>Lists\<close>

definition startswith :: "string \<Rightarrow> string \<Rightarrow> bool" where
  "startswith s p = prefix p s"

definition endswith :: "string \<Rightarrow> string \<Rightarrow> bool" where
  "endswith s p = suffix p s"

lemma startswith_code [code]: "startswith s p = (take (length p) s = p)"
  by (simp add: startswith_def) (metis append_eq_conv_conj prefix_def take_is_prefix)

lemma endswith_code [code]: "endswith s p = startswith (rev s) (rev p)"
  by (simp add: endswith_def startswith_def suffix_to_prefix)

text \<open>Python's slices \<open>s[i:j]\<close> for non-negative bounds.\<close>

definition slice :: "nat \<Rightarrow> nat \<Rightarrow> 'a list \<Rightarrow> 'a list" where
  "slice i j s = take (j - i) (drop i s)"

lemma length_slice: "length (slice i j s) = min (j - i) (length s - i)"
  by (simp add: slice_def)

text \<open>\<open>str.split(sep, 1)\<close>, \<open>str.partition(sep)\<close> and \<open>str.split(sep)\<close> for a one-character separator.\<close>

fun split1 :: "'a \<Rightarrow> 'a list \<Rightarrow> ('a list \<times> 'a list) option" where
  "split1 c [] = None"
| "split1 c (x # xs) =
     (if x = c then Some ([], xs)
      else map_option (\<lambda>(l, r). (x # l, r)) (split1 c xs))"

fun split_all :: "'a \<Rightarrow> 'a list \<Rightarrow> 'a list list" where
  "split_all c [] = [[]]"
| "split_all c (x # xs) =
     (if x = c then [] # split_all c xs
      else case split_all c xs of [] \<Rightarrow> [[x]] | l # ls \<Rightarrow> (x # l) # ls)"

lemma split1_Some: "split1 c xs = Some (l, r) \<longleftrightarrow> xs = l @ c # r \<and> c \<notin> set l"
proof (induction xs arbitrary: l)
  case Nil
  then show ?case by simp
next
  case (Cons x xs)
  then show ?case by (cases l) auto
qed

lemma split1_None: "split1 c xs = None \<longleftrightarrow> c \<notin> set xs"
  by (induction xs) auto

lemma split1_append [simp]: "c \<notin> set l \<Longrightarrow> split1 c (l @ c # r) = Some (l, r)"
  by (simp add: split1_Some)

lemma split_all_nonempty [simp]: "split_all c xs \<noteq> []"
  by (induction xs) (auto split: list.splits)

lemma split_all_no_sep: "p \<in> set (split_all c xs) \<Longrightarrow> c \<notin> set p"
proof (induction xs arbitrary: p)
  case (Cons x xs)
  then show ?case
    by (cases "split_all c xs") (auto split: if_splits)
qed simp

fun join :: "'a list \<Rightarrow> 'a list list \<Rightarrow> 'a list" where
  "join sep [] = []"
| "join sep [x] = x"
| "join sep (x # xs) = x @ sep @ join sep xs"

lemma join_Cons: "xs \<noteq> [] \<Longrightarrow> join sep (x # xs) = x @ sep @ join sep xs"
  by (cases xs) auto

lemma join_split_all: "join [c] (split_all c xs) = xs"
proof (induction xs)
  case (Cons x xs)
  then show ?case
    by (cases "split_all c xs"; cases "tl (split_all c xs)") auto
qed simp

subsection \<open>Association lists\<close>

lemma map_of_eq_Some_distinct:
  "distinct (map fst d) \<Longrightarrow> (k, v) \<in> set d \<Longrightarrow> map_of d k = Some v"
  by simp

lemma dom_map_of: "k \<in> fst ` set d \<longleftrightarrow> map_of d k \<noteq> None"
  by (simp add: map_of_eq_None_iff)

subsection \<open>Character classes\<close>

definition is_digit :: "char \<Rightarrow> bool" where
  "is_digit c = (48 \<le> (of_char c :: nat) \<and> (of_char c :: nat) \<le> 57)"

definition is_hex :: "char \<Rightarrow> bool" where
  "is_hex c = (is_digit c \<or> (97 \<le> (of_char c :: nat) \<and> (of_char c :: nat) \<le> 102))"

definition is_upper_hex :: "char \<Rightarrow> bool" where
  "is_upper_hex c = (is_digit c \<or> (65 \<le> (of_char c :: nat) \<and> (of_char c :: nat) \<le> 70))"

definition is_lower :: "char \<Rightarrow> bool" where
  "is_lower c = (97 \<le> (of_char c :: nat) \<and> (of_char c :: nat) \<le> 122)"

definition is_upper :: "char \<Rightarrow> bool" where
  "is_upper c = (65 \<le> (of_char c :: nat) \<and> (of_char c :: nat) \<le> 90)"

definition is_alnum :: "char \<Rightarrow> bool" where
  "is_alnum c = (is_digit c \<or> is_lower c \<or> is_upper c)"

lemma is_digit_hex: "is_digit c \<Longrightarrow> is_hex c"
  by (simp add: is_hex_def)

end
