(* ===== verification/PyVal.thy ===== *)
theory PyVal
  imports Prelude Complex_Main
begin

text \<open>
  The Python values that the validators inspect: what \<open>json.loads\<close> can return.  A
  \<open>str\<close> is a list of code points below 256, a \<open>dict\<close> is an association list in
  insertion order, a finite \<open>float\<close> is the rational it denotes.
  Python's \<open>==\<close> (which identifies \<open>True\<close>, \<open>1\<close> and \<open>1.0\<close>, and ignores the order
  of a dict) is \<open>pyeq\<close>; \<open>type(x) is int\<close> is a test of the constructor.
\<close>

subsection \<open>Values\<close>

datatype pyfloat = Fin rat | PosInf | NegInf

datatype pyval =
    PNone
  | PBool bool
  | PInt int
  | PFloat pyfloat
  | PStr string
  | PList "pyval list"
  | PDict "(string \<times> pyval) list"

fun is_int :: "pyval \<Rightarrow> bool" where
  "is_int (PInt _) = True" | "is_int _ = False"

fun is_bool :: "pyval \<Rightarrow> bool" where
  "is_bool (PBool _) = True" | "is_bool _ = False"

fun is_str :: "pyval \<Rightarrow> bool" where
  "is_str (PStr _) = True" | "is_str _ = False"

fun is_list :: "pyval \<Rightarrow> bool" where
  "is_list (PList _) = True" | "is_list _ = False"

fun is_dict :: "pyval \<Rightarrow> bool" where
  "is_dict (PDict _) = True" | "is_dict _ = False"

text \<open>\<open>hash(x)\<close> raises \<open>TypeError\<close> on lists and dicts, so \<open>x in {...}\<close> does too.\<close>

fun hashable :: "pyval \<Rightarrow> bool" where
  "hashable (PList _) = False" | "hashable (PDict _) = False" | "hashable _ = True"

text \<open>Truth testing, as in \<open>not x\<close> and \<open>bool(x)\<close>.\<close>

fun truthy :: "pyval \<Rightarrow> bool" where
  "truthy PNone = False"
| "truthy (PBool b) = b"
| "truthy (PInt n) = (n \<noteq> 0)"
| "truthy (PFloat (Fin q)) = (q \<noteq> 0)"
| "truthy (PFloat _) = True"
| "truthy (PStr s) = (s \<noteq> [])"
| "truthy (PList xs) = (xs \<noteq> [])"
| "truthy (PDict d) = (d \<noteq> [])"

text \<open>\<open>type(x) in (int, float) and math.isfinite(x)\<close>, and the number such a value denotes.\<close>

fun finite_num :: "pyval \<Rightarrow> rat option" where
  "finite_num (PInt n) = Some (of_int n)"
| "finite_num (PFloat (Fin q)) = Some q"
| "finite_num _ = None"

fun int_of :: "pyval \<Rightarrow> int" where
  "int_of (PInt n) = n" | "int_of _ = 0"

fun str_of :: "pyval \<Rightarrow> string" where
  "str_of (PStr s) = s" | "str_of _ = []"

fun list_of :: "pyval \<Rightarrow> pyval list" where
  "list_of (PList xs) = xs" | "list_of _ = []"

fun dict_of :: "pyval \<Rightarrow> (string \<times> pyval) list" where
  "dict_of (PDict d) = d" | "dict_of _ = []"

lemma is_int_iff: "is_int v \<longleftrightarrow> (\<exists>n. v = PInt n)" by (cases v) auto
lemma is_bool_iff: "is_bool v \<longleftrightarrow> (\<exists>b. v = PBool b)" by (cases v) auto
lemma is_str_iff: "is_str v \<longleftrightarrow> (\<exists>s. v = PStr s)" by (cases v) auto
lemma is_list_iff: "is_list v \<longleftrightarrow> (\<exists>xs. v = PList xs)" by (cases v) auto
lemma is_dict_iff: "is_dict v \<longleftrightarrow> (\<exists>d. v = PDict d)" by (cases v) auto

lemmas is_type_iff = is_int_iff is_bool_iff is_str_iff is_list_iff is_dict_iff

subsection \<open>Lookups and field sets\<close>

text \<open>
  \<open>value["k"]\<close> raises \<open>KeyError\<close> or \<open>TypeError\<close>; \<open>value.get("k")\<close> gives \<open>None\<close>.
  Where the code has already checked the field set with \<open>check_fields\<close>, the lookup cannot
  fail (\<open>item_fields\<close> below) and the model writes the total \<open>fld\<close>.
\<close>

definition fld :: "pyval \<Rightarrow> string \<Rightarrow> pyval" where
  "fld v k = (case map_of (dict_of v) k of None \<Rightarrow> PNone | Some w \<Rightarrow> w)"

fun item :: "pyval \<Rightarrow> string \<Rightarrow> pyval res" where
  "item (PDict d) k = (case map_of d k of None \<Rightarrow> Inl (KeyError k) | Some w \<Rightarrow> Inr w)"
| "item _ k = Inl (TypeError ''not subscriptable'')"

definition has_fields :: "pyval \<Rightarrow> string list \<Rightarrow> bool" where
  "has_fields v names = (is_dict v \<and> set (map fst (dict_of v)) = set names)"

text \<open>\<open>fields(value, names)\<close>: exactly the named fields.\<close>

definition check_fields :: "pyval \<Rightarrow> string list \<Rightarrow> unit res" where
  "check_fields v names = require (has_fields v names) ''unknown or missing fields'' (Inr ())"

lemma check_fields_Inr [res_simps]: "check_fields v names = Inr u \<longleftrightarrow> has_fields v names"
  by (simp add: check_fields_def require_Inr)

lemma item_fields:
  assumes "has_fields v names" and "k \<in> set names"
  shows "item v k = Inr (fld v k)"
proof -
  obtain d where v: "v = PDict d" using assms(1) by (auto simp: has_fields_def is_dict_iff)
  with assms have "k \<in> fst ` set d" by (simp add: has_fields_def)
  then show ?thesis unfolding v by (auto simp: fld_def dom_map_of split: option.splits)
qed

lemma fld_simps [simp]:
  "fld (PDict ((k, v) # d)) k' = (if k' = k then v else fld (PDict d) k')"
  by (simp add: fld_def)

subsection \<open>Equality\<close>

fun num_eq :: "pyfloat \<Rightarrow> int \<Rightarrow> bool" where
  "num_eq (Fin q) n = (q = of_int n)"
| "num_eq _ n = False"

function (sequential) pyeq :: "pyval \<Rightarrow> pyval \<Rightarrow> bool" where
  "pyeq PNone PNone = True"
| "pyeq (PBool a) (PBool b) = (a = b)"
| "pyeq (PBool a) (PInt n) = (n = of_bool a)"
| "pyeq (PInt n) (PBool a) = (n = of_bool a)"
| "pyeq (PBool a) (PFloat f) = num_eq f (of_bool a)"
| "pyeq (PFloat f) (PBool a) = num_eq f (of_bool a)"
| "pyeq (PInt m) (PInt n) = (m = n)"
| "pyeq (PInt m) (PFloat f) = num_eq f m"
| "pyeq (PFloat f) (PInt m) = num_eq f m"
| "pyeq (PFloat f) (PFloat g) = (f = g)"
| "pyeq (PStr s) (PStr t) = (s = t)"
| "pyeq (PList xs) (PList ys) =
     (length xs = length ys \<and> list_all (\<lambda>(x, y). pyeq x y) (zip xs ys))"
| "pyeq (PDict d) (PDict e) =
     (set (map fst d) = set (map fst e) \<and>
      list_all (\<lambda>(k, v). case map_of e k of None \<Rightarrow> False | Some w \<Rightarrow> pyeq v w) d)"
| "pyeq _ _ = False"
  by pat_completeness auto

lemma size_pyval_zip: "(a, b) \<in> set (zip xs ys) \<Longrightarrow> size a < Suc (size_list size xs)"
  by (auto dest!: set_zip_leftD size_list_estimation' [where y = "size a" and f = size])

lemma size_pyval_dict:
  "(k, v) \<in> set d \<Longrightarrow> size v < Suc (size_list (size_prod (\<lambda>_. 0) size) d)"
  by (induction d) auto

termination pyeq
  by (relation "measure (size \<circ> fst)") (auto dest: size_pyval_zip size_pyval_dict)

text \<open>
  A well-formed value has no duplicate key in any of its dicts, as every Python dict.
\<close>

function (sequential) wf :: "pyval \<Rightarrow> bool" where
  "wf (PList xs) = list_all wf xs"
| "wf (PDict d) = (distinct (map fst d) \<and> list_all (\<lambda>(k, v). wf v) d)"
| "wf _ = True"
  by pat_completeness auto

termination wf
  by (relation "measure size")
    (auto dest: size_pyval_dict size_list_estimation' [where f = size, OF _ order_refl])

lemma wf_PList: "wf (PList xs) \<longleftrightarrow> (\<forall>x \<in> set xs. wf x)"
  by (simp add: list_all_iff)

lemma wf_PDict: "wf (PDict d) \<longleftrightarrow> distinct (map fst d) \<and> (\<forall>(k, v) \<in> set d. wf v)"
  by (simp add: list_all_iff)

lemma wf_fld: "wf v \<Longrightarrow> wf (fld v k)"
  by (cases v) (auto simp: fld_def list_all_iff dest!: map_of_SomeD split: option.splits)

text \<open>\<open>==\<close> is reflexive on well-formed values (there is no \<open>nan\<close> among them).\<close>

lemma pyeq_refl: "wf v \<Longrightarrow> pyeq v v"
proof (induction v)
  case (PList xs)
  then show ?case by (auto simp: list_all_iff in_set_zip)
next
  case (PDict d)
  show ?case
  proof -
    have "case map_of d k of None \<Rightarrow> False | Some w \<Rightarrow> pyeq v w" if m: "(k, v) \<in> set d" for k v
    proof -
      from PDict.prems m have "map_of d k = Some v" and "wf v" by (auto simp: list_all_iff)
      moreover have "pyeq v v" using PDict.IH [OF m] \<open>wf v\<close> by simp
      ultimately show ?thesis by simp
    qed
    then show ?thesis by (auto simp: list_all_iff)
  qed
qed simp_all

text \<open>The trap the validators guard against with \<open>type(x) is int\<close>.\<close>

lemma pyeq_one_True: "pyeq (PBool True) (PInt 1) \<and> PBool True \<noteq> PInt 1"
  by simp

end
