(* ===== verification/Text.thy ===== *)
theory Text
  imports PyVal
begin

text \<open>
  The string methods and regular expressions of the scripts, on code points below 256:
  \<open>splitlines\<close>, \<open>strip\<close>, \<open>split\<close>, \<open>partition\<close>, \<open>isdigit\<close>, \<open>int\<close>, \<open>lower\<close>,
  and \<open>re.fullmatch\<close> by derivatives, which is shown to decide the language of the pattern.
\<close>

subsection \<open>Whitespace and lines\<close>

definition code :: "char \<Rightarrow> nat" where
  "code c = of_char c"

definition is_space :: "char \<Rightarrow> bool" where
  "is_space c = (code c \<in> {9, 10, 11, 12, 13, 28, 29, 30, 31, 32, 0x85, 0xA0})"

definition is_break :: "char \<Rightarrow> bool" where
  "is_break c = (code c \<in> {10, 11, 12, 13, 28, 29, 30, 0x85})"

text \<open>\<open>s.splitlines()\<close>: no empty last line, and \<open>\\r\\n\<close> is one break.\<close>

fun splitlines_from :: "string \<Rightarrow> string \<Rightarrow> string list" where
  "splitlines_from acc [] = (if acc = [] then [] else [rev acc])"
| "splitlines_from acc (c # cs) =
     (if is_break c then
        rev acc # splitlines_from [] (if c = CHR 0x0D \<and> take 1 cs = [CHR 0x0A] then tl cs else cs)
      else splitlines_from (c # acc) cs)"

definition splitlines :: "string \<Rightarrow> string list" where
  "splitlines s = splitlines_from [] s"

definition lstrip :: "string \<Rightarrow> string" where "lstrip s = dropWhile is_space s"

definition strip :: "string \<Rightarrow> string" where "strip s = rev (lstrip (rev (lstrip s)))"

text \<open>\<open>s.split()\<close>: the maximal runs without whitespace.\<close>

fun words_from :: "string \<Rightarrow> string \<Rightarrow> string list" where
  "words_from acc [] = (if acc = [] then [] else [rev acc])"
| "words_from acc (c # cs) =
     (if is_space c then (if acc = [] then words_from [] cs else rev acc # words_from [] cs)
      else words_from (c # acc) cs)"

definition words :: "string \<Rightarrow> string list" where
  "words s = words_from [] s"

text \<open>\<open>s.partition(sep)\<close> for one character; the flag says whether it was found.\<close>

definition partition1 :: "char \<Rightarrow> string \<Rightarrow> string \<times> bool \<times> string" where
  "partition1 c s = (case split1 c s of None \<Rightarrow> (s, False, []) | Some (l, r) \<Rightarrow> (l, True, r))"

text \<open>\<open>str.isdigit\<close> also holds of the superscripts, which \<open>int\<close> then rejects.\<close>

definition isdigit :: "string \<Rightarrow> bool" where
  "isdigit s = (s \<noteq> [] \<and> list_all (\<lambda>c. is_digit c \<or> code c \<in> {0xB2, 0xB3, 0xB9}) s)"

fun digits_value :: "nat \<Rightarrow> string \<Rightarrow> nat" where
  "digits_value acc [] = acc"
| "digits_value acc (c # cs) = digits_value (10 * acc + (code c - 48)) cs"

text \<open>\<open>int(s)\<close> for a string of decimal digits without sign, space or underscore.\<close>

definition int_text :: "string \<Rightarrow> int res" where
  "int_text s = require (s \<noteq> [] \<and> list_all is_digit s) ''invalid literal for int()''
     (require (length s \<le> 4300) ''Exceeds the limit for integer string conversion'' (Inr (int (digits_value 0 s))))"

definition lower_char :: "char \<Rightarrow> char" where
  "lower_char c = (if is_upper c \<or> (0xC0 \<le> code c \<and> code c \<le> 0xDE \<and> code c \<noteq> 0xD7) then char_of (code c + 32) else c)"

definition lower :: "string \<Rightarrow> string" where "lower s = map lower_char s"

fun infix_of :: "string \<Rightarrow> string \<Rightarrow> bool" where
  "infix_of p [] = (p = [])"
| "infix_of p (c # cs) = (startswith (c # cs) p \<or> infix_of p cs)"

lemma splitlines_from_line:
  "list_all (\<lambda>c. \<not> is_break c) l \<Longrightarrow>
     splitlines_from acc (l @ CHR 0x0A # r) = (rev acc @ l) # splitlines_from [] r"
  by (induction l arbitrary: acc) (simp_all add: is_break_def code_def)

lemma splitlines_line:
  "list_all (\<lambda>c. \<not> is_break c) l \<Longrightarrow> splitlines (l @ CHR 0x0A # r) = l # splitlines r"
  by (simp add: splitlines_def splitlines_from_line)

text \<open>Text built line by line is read back line by line.\<close>

lemma splitlines_unlines:
  "list_all (list_all (\<lambda>c. \<not> is_break c)) ls \<Longrightarrow>
     splitlines (concat (map (\<lambda>l. l @ [CHR 0x0A]) ls)) = ls"
  by (induction ls) (simp_all add: splitlines_line, simp add: splitlines_def)

lemma words_from_no_space:
  "x \<in> set (words_from acc s) \<Longrightarrow> list_all (\<lambda>c. \<not> is_space c) acc \<Longrightarrow> x \<noteq> [] \<and> list_all (\<lambda>c. \<not> is_space c) x"
proof (induction acc s arbitrary: x rule: words_from.induct)
  case (1 acc)
  then show ?case by (simp add: list_all_iff split: if_splits)
next
  case (2 acc c cs)
  show ?case
  proof (cases "is_space c")
    case True
    then show ?thesis
      using 2 by (cases "acc = []") (simp_all, elim disjE, simp_all add: list_all_iff)
  next
    case False
    then show ?thesis using 2 by simp
  qed
qed

lemma words_no_space: "x \<in> set (words s) \<Longrightarrow> x \<noteq> [] \<and> list_all (\<lambda>c. \<not> is_space c) x"
  by (auto simp: words_def dest: words_from_no_space)

lemma dropWhile_id: "s = [] \<or> \<not> p (hd s) \<Longrightarrow> dropWhile p s = s"
  by (cases s) auto

lemma strip_id: "s = [] \<or> (\<not> is_space (hd s) \<and> \<not> is_space (last s)) \<Longrightarrow> strip s = s"
proof -
  assume s: "s = [] \<or> (\<not> is_space (hd s) \<and> \<not> is_space (last s))"
  then have "lstrip s = s" unfolding lstrip_def by (intro dropWhile_id) blast
  moreover have "lstrip (rev s) = rev s" unfolding lstrip_def using s
    by (intro dropWhile_id) (cases s rule: rev_cases; simp)
  ultimately show ?thesis by (simp add: strip_def)
qed

subsection \<open>Regular expressions\<close>

datatype rx =
    Never
  | Empty
  | Cls "char \<Rightarrow> bool"
  | Cat rx rx
  | Alt rx rx
  | Rep rx

fun nullable :: "rx \<Rightarrow> bool" where
  "nullable Never = False"
| "nullable Empty = True"
| "nullable (Cls p) = False"
| "nullable (Cat a b) = (nullable a \<and> nullable b)"
| "nullable (Alt a b) = (nullable a \<or> nullable b)"
| "nullable (Rep a) = True"

fun deriv :: "char \<Rightarrow> rx \<Rightarrow> rx" where
  "deriv c Never = Never"
| "deriv c Empty = Never"
| "deriv c (Cls p) = (if p c then Empty else Never)"
| "deriv c (Cat a b) =
     (if nullable a then Alt (Cat (deriv c a) b) (deriv c b) else Cat (deriv c a) b)"
| "deriv c (Alt a b) = Alt (deriv c a) (deriv c b)"
| "deriv c (Rep a) = Cat (deriv c a) (Rep a)"

text \<open>\<open>re.fullmatch(r, s) is not None\<close>, and \<open>re.search\<close> as a full match with free ends.\<close>

fun fullmatch :: "rx \<Rightarrow> string \<Rightarrow> bool" where
  "fullmatch r [] = nullable r"
| "fullmatch r (c # cs) = fullmatch (deriv c r) cs"

inductive_set star :: "string set \<Rightarrow> string set" for L where
  star_Nil: "[] \<in> star L"
| star_app: "u \<in> L \<Longrightarrow> v \<in> star L \<Longrightarrow> u @ v \<in> star L"

fun lang :: "rx \<Rightarrow> string set" where
  "lang Never = {}"
| "lang Empty = {[]}"
| "lang (Cls p) = {[c] | c. p c}"
| "lang (Cat a b) = {u @ v | u v. u \<in> lang a \<and> v \<in> lang b}"
| "lang (Alt a b) = lang a \<union> lang b"
| "lang (Rep a) = star (lang a)"

lemma nullable_lang: "nullable r \<longleftrightarrow> [] \<in> lang r"
  by (induction r) (auto intro: star_Nil)

lemma star_Cons: "c # w \<in> star L \<longleftrightarrow> (\<exists>u v. w = u @ v \<and> c # u \<in> L \<and> v \<in> star L)"
proof
  assume "c # w \<in> star L"
  then show "\<exists>u v. w = u @ v \<and> c # u \<in> L \<and> v \<in> star L"
  proof (induction "c # w" rule: star.induct)
    case (star_app u v)
    then show ?case by (cases u) auto
  qed
next
  assume "\<exists>u v. w = u @ v \<and> c # u \<in> L \<and> v \<in> star L"
  then show "c # w \<in> star L" using star_app [of "c # _" L] by fastforce
qed

lemma deriv_lang: "w \<in> lang (deriv c r) \<longleftrightarrow> c # w \<in> lang r"
proof (induction r arbitrary: w)
  case (Cat a b)
  show ?case
    by (auto simp: Cat nullable_lang Cons_eq_append_conv)
qed (auto simp: star_Cons)

text \<open>The matcher decides the language.\<close>

theorem fullmatch_lang: "fullmatch r s \<longleftrightarrow> s \<in> lang r"
  by (induction s arbitrary: r) (simp_all add: nullable_lang deriv_lang)

subsection \<open>Pattern building\<close>

fun lit :: "string \<Rightarrow> rx" where
  "lit [] = Empty"
| "lit [c] = Cls (\<lambda>d. d = c)"
| "lit (c # cs) = Cat (Cls (\<lambda>d. d = c)) (lit cs)"

definition plus :: "rx \<Rightarrow> rx" where "plus r = Cat r (Rep r)"
definition opt :: "rx \<Rightarrow> rx" where "opt r = Alt r Empty"
definition any_char :: rx where "any_char = Cls (\<lambda>c. c \<noteq> CHR 0x0A)"

fun cats :: "rx list \<Rightarrow> rx" where
  "cats [] = Empty"
| "cats [r] = r"
| "cats (r # rs) = Cat r (cats rs)"

definition one_of :: "string \<Rightarrow> char \<Rightarrow> bool" where "one_of cs c = (c \<in> set cs)"

lemma star_Cls: "w \<in> star {[c] | c. p c} \<longleftrightarrow> list_all p w"
proof (induction w)
  case Nil
  then show ?case by (simp add: star_Nil)
next
  case (Cons a w)
  then show ?case by (auto simp: star_Cons)
qed

lemma fullmatch_Rep_Cls: "fullmatch (Rep (Cls p)) s \<longleftrightarrow> list_all p s"
  by (simp add: fullmatch_lang star_Cls)

lemma fullmatch_first_rest: "fullmatch (Cat (Cls p) (Rep (Cls q))) s \<longleftrightarrow> s \<noteq> [] \<and> p (hd s) \<and> list_all q (tl s)"
proof (cases s)
  case Nil
  then show ?thesis by (simp add: fullmatch_lang)
next
  case (Cons c w)
  have "p c \<Longrightarrow> list_all q w \<Longrightarrow> \<exists>u v. c # w = u @ v \<and> u \<in> {[c] |c. p c} \<and> list_all q v"
    by (rule exI [of _ "[c]"], rule exI [of _ w]) simp
  then have "c # w \<in> lang (Cat (Cls p) (Rep (Cls q))) \<longleftrightarrow> p c \<and> list_all q w"
    unfolding lang.simps star_Cls by auto
  with Cons show ?thesis by (simp add: fullmatch_lang del: lang.simps)
qed

lemma fullmatch_plus_Cls: "fullmatch (plus (Cls p)) s \<longleftrightarrow> s \<noteq> [] \<and> list_all p s"
  unfolding plus_def fullmatch_first_rest by (cases s) auto

end
