(* ===== verification/Json.thy ===== *)
theory Json
  imports PyVal "HOL-Library.List_Lexorder" "HOL-Library.Char_ord" "HOL-Library.Log_Nat"
begin

text \<open>
  The JSON text layer: what \<open>json.dumps\<close> with compact separators writes, what
  \<open>json.loads\<close> with the hooks of \<open>apt.decode\<close> accepts, and the three functions of the
  scripts built on them: \<open>channels.encode\<close>, \<open>rpc.encode\<close> and \<open>apt.decode\<close>
  (with \<open>apt.unique\<close>).  Text is a list of code points below 256; a document that
  contains a larger one, or that \<open>json.loads\<close> would read as UTF-16 or UTF-32, is
  \<open>OutOfModel\<close>.  The text of a float (the shortest representation that reads back)
  is a parameter of the encoders; reading a float rounds to binary64.
\<close>

subsection \<open>Writing\<close>

definition digit_char :: "nat \<Rightarrow> char" where
  "digit_char n = char_of (48 + n)"

fun show_nat :: "nat \<Rightarrow> string" where
  "show_nat n =
     (if n < 10 then [digit_char n] else show_nat (n div 10) @ [digit_char (n mod 10)])"

declare show_nat.simps [simp del]

definition show_int :: "int \<Rightarrow> string" where
  "show_int n = (if n < 0 then CHR ''-'' # show_nat (nat (- n)) else show_nat (nat n))"

definition hex_char :: "nat \<Rightarrow> char" where
  "hex_char n = (if n < 10 then char_of (48 + n) else char_of (87 + n))"

text \<open>\<open>ensure_ascii\<close>: every character outside \<open>' '..'~'\<close> is escaped.\<close>

definition esc_char :: "char \<Rightarrow> string" where
  "esc_char c =
     (if c = CHR 0x22 then [CHR 0x5C, CHR 0x22]
      else if c = CHR 0x5C then [CHR 0x5C, CHR 0x5C]
      else if c = CHR 0x0A then [CHR 0x5C, CHR ''n'']
      else if c = CHR 0x0D then [CHR 0x5C, CHR ''r'']
      else if c = CHR 0x09 then [CHR 0x5C, CHR ''t'']
      else if c = CHR 0x08 then [CHR 0x5C, CHR ''b'']
      else if c = CHR 0x0C then [CHR 0x5C, CHR ''f'']
      else if 32 \<le> (of_char c :: nat) \<and> (of_char c :: nat) \<le> 126 then [c]
      else [CHR 0x5C, CHR ''u'', CHR ''0'', CHR ''0'',
            hex_char (of_char c div 16), hex_char (of_char c mod 16)])"

definition quote :: "string \<Rightarrow> string" where
  "quote s = CHR 0x22 # concat (map esc_char s) @ [CHR 0x22]"

fun show_float :: "(rat \<Rightarrow> string) \<Rightarrow> pyfloat \<Rightarrow> string" where
  "show_float fr (Fin q) = fr q"
| "show_float fr PosInf = ''Infinity''"
| "show_float fr NegInf = ''-Infinity''"

function (sequential) dumps :: "(rat \<Rightarrow> string) \<Rightarrow> pyval \<Rightarrow> string" where
  "dumps fr PNone = ''null''"
| "dumps fr (PBool b) = (if b then ''true'' else ''false'')"
| "dumps fr (PInt n) = show_int n"
| "dumps fr (PFloat f) = show_float fr f"
| "dumps fr (PStr s) = quote s"
| "dumps fr (PList xs) = CHR ''['' # join '','' (map (dumps fr) xs) @ '']''"
| "dumps fr (PDict d) =
     CHR ''{'' # join '','' (map (\<lambda>(k, v). quote k @ CHR '':'' # dumps fr v) d) @ ''}''"
  by pat_completeness auto

termination dumps
  by (relation "measure (size \<circ> snd)")
    (auto dest: size_pyval_dict size_list_estimation' [where f = size, OF _ order_refl])

text \<open>The default separators of \<open>json.dumps\<close>, and \<open>indent=2\<close>.\<close>

function (sequential) dumps_spaced :: "(rat \<Rightarrow> string) \<Rightarrow> pyval \<Rightarrow> string" where
  "dumps_spaced fr (PList xs) = CHR ''['' # join '', '' (map (dumps_spaced fr) xs) @ '']''"
| "dumps_spaced fr (PDict d) =
     CHR ''{'' # join '', '' (map (\<lambda>(k, v). quote k @ '': '' @ dumps_spaced fr v) d) @ ''}''"
| "dumps_spaced fr v = dumps fr v"
  by pat_completeness auto

termination dumps_spaced
  by (relation "measure (size \<circ> snd)")
    (auto dest: size_pyval_dict size_list_estimation' [where f = size, OF _ order_refl])

function (sequential) dumps_indent :: "(rat \<Rightarrow> string) \<Rightarrow> nat \<Rightarrow> pyval \<Rightarrow> string" where
  "dumps_indent fr n (PList (x # xs)) =
     CHR ''['' # CHR 0x0A # join (CHR '','' # [CHR 0x0A]) (map (\<lambda>v. replicate (n + 2) CHR '' '' @ dumps_indent fr (n + 2) v) (x # xs)) @
       CHR 0x0A # replicate n CHR '' '' @ '']''"
| "dumps_indent fr n (PDict (p # d)) =
     CHR ''{'' # CHR 0x0A # join (CHR '','' # [CHR 0x0A])
       (map (\<lambda>(k, v). replicate (n + 2) CHR '' '' @ quote k @ '': '' @ dumps_indent fr (n + 2) v) (p # d)) @
       CHR 0x0A # replicate n CHR '' '' @ ''}''"
| "dumps_indent fr n v = dumps fr v"
  by pat_completeness auto

termination dumps_indent
  by (relation "measure (size \<circ> snd \<circ> snd)")
    (auto dest: size_pyval_dict size_list_estimation' [where f = size, OF _ order_refl])

text \<open>\<open>sort_keys=True\<close>: the keys of every dict in code point order.\<close>

function (sequential) sort_keys :: "pyval \<Rightarrow> pyval" where
  "sort_keys (PList xs) = PList (map sort_keys xs)"
| "sort_keys (PDict d) = PDict (sort_key fst (map (\<lambda>(k, v). (k, sort_keys v)) d))"
| "sort_keys v = v"
  by pat_completeness auto

termination sort_keys
  by (relation "measure size")
    (auto dest: size_pyval_dict size_list_estimation' [where f = size, OF _ order_refl])

text \<open>\<open>channels.encode\<close>: compact separators, one trailing newline.\<close>

definition encode :: "(rat \<Rightarrow> string) \<Rightarrow> pyval \<Rightarrow> string" where
  "encode fr v = dumps fr v @ [CHR 0x0A]"

text \<open>\<open>rpc.encode\<close>: sorted keys, no newline; \<open>allow_nan=False\<close> raises on an infinity.\<close>

function (sequential) has_nonfinite :: "pyval \<Rightarrow> bool" where
  "has_nonfinite (PFloat (Fin q)) = False"
| "has_nonfinite (PFloat _) = True"
| "has_nonfinite (PList xs) = list_ex has_nonfinite xs"
| "has_nonfinite (PDict d) = list_ex (\<lambda>(k, v). has_nonfinite v) d"
| "has_nonfinite _ = False"
  by pat_completeness auto

termination has_nonfinite
  by (relation "measure size")
    (auto dest: size_pyval_dict size_list_estimation' [where f = size, OF _ order_refl])

definition rpc_encode :: "(rat \<Rightarrow> string) \<Rightarrow> pyval \<Rightarrow> string res" where
  "rpc_encode fr v =
     require (\<not> has_nonfinite v) ''Out of range float values are not JSON compliant''
       (Inr (dumps fr (sort_keys v)))"

subsection \<open>Reading numbers\<close>

fun nat_of_digits :: "nat \<Rightarrow> string \<Rightarrow> nat" where
  "nat_of_digits acc [] = acc"
| "nat_of_digits acc (c # cs) = nat_of_digits (10 * acc + (of_char c - 48)) cs"

text \<open>
  Rounding the exact value \<open>num / den\<close> of a decimal literal to binary64: the scale
  \<open>s\<close> leaves at most 53 bits (fewer for subnormals), ties go to the even multiple.
\<close>

definition scaled :: "nat \<Rightarrow> nat \<Rightarrow> int \<Rightarrow> nat \<times> nat" where
  "scaled num den s = (if s \<ge> 0 then (num, den * 2 ^ nat s) else (num * 2 ^ nat (- s), den))"

definition round_half_even :: "nat \<times> nat \<Rightarrow> nat" where
  "round_half_even p = (let q = fst p div snd p; r = fst p mod snd p in
     if 2 * r < snd p then q
     else if 2 * r > snd p then q + 1
     else if even q then q else q + 1)"

definition round_double :: "bool \<Rightarrow> nat \<Rightarrow> nat \<Rightarrow> pyfloat" where
  "round_double neg num den =
     (if num = 0 then Fin 0 else
      let e = int (floorlog 2 num) - int (floorlog 2 den);
          s0 = max (e - 53) (-1074);
          s = (if fst (scaled num den s0) div snd (scaled num den s0) < 2 ^ 53 then s0 else s0 + 1);
          m = round_half_even (scaled num den s);
          q = (of_nat m :: rat) * (if s \<ge> 0 then 2 ^ nat s else 1 / 2 ^ nat (- s))
      in if q \<ge> 2 ^ 1024 then (if neg then NegInf else PosInf)
         else Fin (if neg then - q else q))"

definition float_literal :: "bool \<Rightarrow> string \<Rightarrow> string \<Rightarrow> int \<Rightarrow> pyfloat" where
  "float_literal neg ints fs ex =
     (let n = nat_of_digits 0 (ints @ fs); x = ex - int (length fs) in
      if x \<ge> 0 then round_double neg (n * 10 ^ nat x) 1 else round_double neg n (10 ^ nat (- x)))"

definition json_err :: exn where
  "json_err = ValueError ''invalid JSON''"

text \<open>\<open>sys.get_int_max_str_digits()\<close>: longer integer literals raise \<open>ValueError\<close>.\<close>

definition int_digits_limit :: nat where
  "int_digits_limit = 4300"

definition read_exponent :: "string \<Rightarrow> (int \<times> string) option" where
  "read_exponent s =
     (case s of [] \<Rightarrow> None
      | c # r \<Rightarrow>
        if c = CHR ''e'' \<or> c = CHR ''E'' then
          (let neg = (case r of [] \<Rightarrow> False | x # _ \<Rightarrow> x = CHR ''-'');
               r1 = (case r of [] \<Rightarrow> [] | x # xs \<Rightarrow> if x = CHR ''-'' \<or> x = CHR ''+'' then xs else r);
               ds = takeWhile is_digit r1
           in if ds = [] then None
              else Some ((if neg then - int (nat_of_digits 0 ds) else int (nat_of_digits 0 ds)),
                         dropWhile is_digit r1))
        else None)"

definition read_fraction :: "string \<Rightarrow> (string \<times> string) option" where
  "read_fraction s =
     (case s of [] \<Rightarrow> None
      | c # r \<Rightarrow> if c = CHR ''.'' \<and> takeWhile is_digit r \<noteq> []
                 then Some (takeWhile is_digit r, dropWhile is_digit r) else None)"

definition number_tail :: "bool \<Rightarrow> string \<Rightarrow> string \<Rightarrow> (pyval \<times> string) res" where
  "number_tail neg ds r =
     (case read_fraction r of
        Some (fs, r1) \<Rightarrow>
          (case read_exponent r1 of
             Some (ex, r2) \<Rightarrow> Inr (PFloat (float_literal neg ds fs ex), r2)
           | None \<Rightarrow> Inr (PFloat (float_literal neg ds fs 0), r1))
      | None \<Rightarrow>
          (case read_exponent r of
             Some (ex, r2) \<Rightarrow> Inr (PFloat (float_literal neg ds [] ex), r2)
           | None \<Rightarrow>
               if length ds > int_digits_limit then Inl (ValueError ''integer string conversion limit'')
               else Inr (PInt (if neg then - int (nat_of_digits 0 ds) else int (nat_of_digits 0 ds)), r)))"

definition parse_number :: "string \<Rightarrow> (pyval \<times> string) res" where
  "parse_number s =
     (let neg = (case s of [] \<Rightarrow> False | c # _ \<Rightarrow> c = CHR ''-'');
          t = (if neg then tl s else s)
      in case t of [] \<Rightarrow> Inl json_err
         | c # cs \<Rightarrow>
             if c = CHR ''0'' then number_tail neg ''0'' cs
             else if is_digit c then number_tail neg (takeWhile is_digit t) (dropWhile is_digit t)
             else Inl json_err)"

subsection \<open>Reading strings\<close>

definition hex_val :: "char \<Rightarrow> nat option" where
  "hex_val c =
     (let n = of_char c :: nat in
      if 48 \<le> n \<and> n \<le> 57 then Some (n - 48)
      else if 97 \<le> n \<and> n \<le> 102 then Some (n - 87)
      else if 65 \<le> n \<and> n \<le> 70 then Some (n - 55)
      else None)"

definition hex4 :: "char \<Rightarrow> char \<Rightarrow> char \<Rightarrow> char \<Rightarrow> nat option" where
  "hex4 a b c d =
     (case (hex_val a, hex_val b, hex_val c, hex_val d) of
        (Some w, Some x, Some y, Some z) \<Rightarrow> Some (w * 4096 + x * 256 + y * 16 + z)
      | _ \<Rightarrow> None)"

definition simple_escape :: "char \<Rightarrow> char option" where
  "simple_escape e =
     (if e = CHR 0x22 \<or> e = CHR 0x5C \<or> e = CHR ''/'' then Some e
      else if e = CHR ''b'' then Some (CHR 0x08)
      else if e = CHR ''f'' then Some (CHR 0x0C)
      else if e = CHR ''n'' then Some (CHR 0x0A)
      else if e = CHR ''r'' then Some (CHR 0x0D)
      else if e = CHR ''t'' then Some (CHR 0x09)
      else None)"

definition cons_char :: "char \<Rightarrow> (string \<times> string) res \<Rightarrow> (string \<times> string) res" where
  "cons_char c m = bindE m (\<lambda>(s, r). Inr (c # s, r))"

text \<open>The body of a string literal after its opening quote (\<open>strict=True\<close>).\<close>

fun parse_str :: "string \<Rightarrow> (string \<times> string) res" where
  "parse_str [] = Inl json_err"
| "parse_str (c # cs) =
     (if c = CHR 0x22 then Inr ([], cs)
      else if c = CHR 0x5C then
        (case cs of
           [] \<Rightarrow> Inl json_err
         | e # es \<Rightarrow>
             if e = CHR ''u'' then
               (case es of
                  w # x # y # z # r \<Rightarrow>
                    (case hex4 w x y z of
                       None \<Rightarrow> Inl json_err
                     | Some n \<Rightarrow> if n < 256 then cons_char (char_of n) (parse_str r)
                                  else Inl OutOfModel)
                | _ \<Rightarrow> Inl json_err)
             else (case simple_escape e of
                     None \<Rightarrow> Inl json_err
                   | Some x \<Rightarrow> cons_char x (parse_str es)))
      else if (of_char c :: nat) < 32 then Inl json_err
      else cons_char c (parse_str cs))"

subsection \<open>Reading values\<close>

definition is_ws :: "char \<Rightarrow> bool" where
  "is_ws c = (c = CHR 0x20 \<or> c = CHR 0x09 \<or> c = CHR 0x0A \<or> c = CHR 0x0D)"

definition skip_ws :: "string \<Rightarrow> string" where
  "skip_ws s = dropWhile is_ws s"

text \<open>\<open>apt.unique\<close>, the \<open>object_pairs_hook\<close>.\<close>

definition unique_add :: "(string \<times> pyval) list \<Rightarrow> string \<times> pyval \<Rightarrow> (string \<times> pyval) list res" where
  "unique_add result kv =
     require (fst kv \<notin> set (map fst result)) (''duplicate JSON field: '' @ fst kv)
       (Inr (result @ [kv]))"

definition unique :: "(string \<times> pyval) list \<Rightarrow> (string \<times> pyval) list res" where
  "unique pairs = foldE unique_add [] pairs"

text \<open>
  The scanner.  \<open>fuel\<close> bounds the recursion (shown sufficient below); \<open>d\<close> is the
  number of containers that may still be opened before CPython raises
  \<open>RecursionError\<close>, which \<open>apt.decode\<close> turns into a \<open>ValueError\<close>.
\<close>

fun parse_value :: "nat \<Rightarrow> nat \<Rightarrow> string \<Rightarrow> (pyval \<times> string) res"
  and parse_elems :: "nat \<Rightarrow> nat \<Rightarrow> string \<Rightarrow> (pyval list \<times> string) res"
  and parse_members :: "nat \<Rightarrow> nat \<Rightarrow> string \<Rightarrow> ((string \<times> pyval) list \<times> string) res" where
  "parse_value 0 d s = Inl OutOfFuel"
| "parse_value (Suc f) d s =
     (case s of [] \<Rightarrow> Inl json_err
      | c # cs \<Rightarrow>
        if c = CHR 0x22 then bindE (parse_str cs) (\<lambda>(t, r). Inr (PStr t, r))
        else if c = CHR ''{'' then
          (if d = 0 then Inl (ValueError ''JSON nesting limit'')
           else case skip_ws cs of [] \<Rightarrow> Inl json_err
           | c1 # r1 \<Rightarrow>
               if c1 = CHR ''}'' then Inr (PDict [], r1)
               else bindE (parse_members f (d - 1) (c1 # r1))
                      (\<lambda>(ps, r). bindE (unique ps) (\<lambda>m. Inr (PDict m, r))))
        else if c = CHR ''['' then
          (if d = 0 then Inl (ValueError ''JSON nesting limit'')
           else case skip_ws cs of [] \<Rightarrow> Inl json_err
           | c1 # r1 \<Rightarrow>
               if c1 = CHR '']'' then Inr (PList [], r1)
               else bindE (parse_elems f (d - 1) (c1 # r1)) (\<lambda>(vs, r). Inr (PList vs, r)))
        else if startswith s ''null'' then Inr (PNone, drop 4 s)
        else if startswith s ''true'' then Inr (PBool True, drop 4 s)
        else if startswith s ''false'' then Inr (PBool False, drop 5 s)
        else if startswith s ''NaN'' \<or> startswith s ''Infinity'' \<or> startswith s ''-Infinity''
          then Inl (ValueError ''nonfinite JSON value'')
        else parse_number s)"
| "parse_elems 0 d s = Inl OutOfFuel"
| "parse_elems (Suc f) d s =
     bindE (parse_value f d s) (\<lambda>(v, r).
       case skip_ws r of [] \<Rightarrow> Inl json_err
       | c # r1 \<Rightarrow>
           if c = CHR '']'' then Inr ([v], r1)
           else if c = CHR '','' then
             bindE (parse_elems f d (skip_ws r1)) (\<lambda>(vs, r2). Inr (v # vs, r2))
           else Inl json_err)"
| "parse_members 0 d s = Inl OutOfFuel"
| "parse_members (Suc f) d s =
     (case s of [] \<Rightarrow> Inl json_err
      | q # s1 \<Rightarrow>
        if q \<noteq> CHR 0x22 then Inl json_err
        else bindE (parse_str s1) (\<lambda>(k, r0).
          case skip_ws r0 of [] \<Rightarrow> Inl json_err
          | col # r1 \<Rightarrow>
            if col \<noteq> CHR '':'' then Inl json_err
            else bindE (parse_value f d (skip_ws r1)) (\<lambda>(v, r).
              case skip_ws r of [] \<Rightarrow> Inl json_err
              | c # r2 \<Rightarrow>
                  if c = CHR ''}'' then Inr ([(k, v)], r2)
                  else if c = CHR '','' then
                    bindE (parse_members f d (skip_ws r2)) (\<lambda>(ps, r3). Inr ((k, v) # ps, r3))
                  else Inl json_err)))"

text \<open>CPython's default recursion limit, taken as the number of nested containers.\<close>

definition json_depth :: nat where
  "json_depth = 1000"

definition loads :: "string \<Rightarrow> pyval res" where
  "loads s =
     bindE (parse_value (2 * length s + 2) json_depth (skip_ws s)) (\<lambda>(v, r).
       require (skip_ws r = []) ''invalid JSON'' (Inr v))"

text \<open>
  \<open>json.loads(bytes)\<close> guesses the encoding from the first bytes.  Only UTF-8 is
  modelled; two-byte sequences for U+0080..U+00FF are the only non-ASCII text.
\<close>

definition wide_encoding :: "string \<Rightarrow> bool" where
  "wide_encoding b =
     (startswith b [CHR 0xFE, CHR 0xFF] \<or> startswith b [CHR 0xFF, CHR 0xFE] \<or>
      (4 \<le> length b \<and> (b ! 0 = CHR 0x00 \<or> b ! 1 = CHR 0x00)) \<or>
      (length b = 2 \<and> (b ! 0 = CHR 0x00 \<or> b ! 1 = CHR 0x00)))"

fun utf8 :: "string \<Rightarrow> string res" where
  "utf8 [] = Inr []"
| "utf8 (c # cs) =
     (if (of_char c :: nat) < 128 then bindE (utf8 cs) (\<lambda>r. Inr (c # r))
      else if (of_char c :: nat) < 194 \<or> (of_char c :: nat) > 244 then Inl (ValueError ''invalid start byte'')
      else if (of_char c :: nat) > 195 then Inl OutOfModel
      else case cs of [] \<Rightarrow> Inl (ValueError ''unexpected end of data'')
        | x # xs \<Rightarrow>
            if 128 \<le> (of_char x :: nat) \<and> (of_char x :: nat) < 192
            then bindE (utf8 xs) (\<lambda>r. Inr (char_of (64 * (of_char c - 194) + (of_char x :: nat)) # r))
            else Inl (ValueError ''invalid continuation byte''))"

definition bytes_text :: "string \<Rightarrow> string res" where
  "bytes_text b =
     (if startswith b [CHR 0xFF, CHR 0xFE, CHR 0x00, CHR 0x00] \<or> wide_encoding b then Inl OutOfModel
      else if startswith b [CHR 0xEF, CHR 0xBB, CHR 0xBF] then utf8 (drop 3 b)
      else utf8 b)"

text \<open>\<open>apt.decode\<close> on bytes, and on text that was decoded before.\<close>

definition decode :: "string \<Rightarrow> nat \<Rightarrow> pyval res" where
  "decode raw limit = require (length raw \<le> limit) ''JSON byte limit'' (bindE (bytes_text raw) loads)"

definition decode_text :: "string \<Rightarrow> nat \<Rightarrow> pyval res" where
  "decode_text s limit = require (length s \<le> limit) ''JSON byte limit'' (loads s)"

end
