(* ===== verification/Effects.thy ===== *)
theory Effects
  imports Prelude
begin

text \<open>
  Computations with effects: a function from a state to an outcome (an exception or a
  value) and the state left behind.  The components that talk to the kernel, to other
  processes or to injected adapters are written in these combinators, with the outside
  world a component of the state.
\<close>

subsection \<open>Combinators\<close>

type_synonym ('s, 'a) act = "'s \<Rightarrow> 'a res \<times> 's"

definition ret :: "'a \<Rightarrow> ('s, 'a) act" where
  "ret x = (\<lambda>s. (Inr x, s))"

definition lft :: "'a res \<Rightarrow> ('s, 'a) act" where
  "lft r = (\<lambda>s. (r, s))"

definition bnd :: "('s, 'a) act \<Rightarrow> ('a \<Rightarrow> ('s, 'b) act) \<Rightarrow> ('s, 'b) act" where
  "bnd m f = (\<lambda>s. case m s of (Inl e, s') \<Rightarrow> (Inl e, s') | (Inr x, s') \<Rightarrow> f x s')"

definition sqn :: "('s, 'a) act \<Rightarrow> ('s, 'b) act \<Rightarrow> ('s, 'b) act" where
  "sqn m k = bnd m (\<lambda>_. k)"

definition get :: "('s \<Rightarrow> 'a) \<Rightarrow> ('s, 'a) act" where
  "get f = (\<lambda>s. (Inr (f s), s))"

definition upd :: "('s \<Rightarrow> 's) \<Rightarrow> ('s, unit) act" where
  "upd f = (\<lambda>s. (Inr (), f s))"

text \<open>\<open>require(c, m)\<close> as a statement.\<close>

definition ensure :: "bool \<Rightarrow> string \<Rightarrow> ('s, unit) act" where
  "ensure c m = (\<lambda>s. (if c then Inr () else Inl (ValueError m), s))"

definition whenA :: "bool \<Rightarrow> ('s, unit) act \<Rightarrow> ('s, unit) act" where
  "whenA c m = (if c then m else ret ())"

text \<open>\<open>try: m except (OSError, ValueError, RuntimeError) as e: h e\<close>.\<close>

definition handle :: "('s, 'a) act \<Rightarrow> (exn \<Rightarrow> ('s, 'a) act) \<Rightarrow> ('s, 'a) act" where
  "handle m h = (\<lambda>s. case m s of
     (Inl e, s') \<Rightarrow> (if caught e then h e s' else (Inl e, s'))
   | (Inr x, s') \<Rightarrow> (Inr x, s'))"

text \<open>The same with another tuple of exception classes.\<close>

definition handle_if :: "(exn \<Rightarrow> bool) \<Rightarrow> ('s, 'a) act \<Rightarrow> (exn \<Rightarrow> ('s, 'a) act) \<Rightarrow> ('s, 'a) act" where
  "handle_if p m h = (\<lambda>s. case m s of
     (Inl e, s') \<Rightarrow> (if p e then h e s' else (Inl e, s'))
   | (Inr x, s') \<Rightarrow> (Inr x, s'))"

text \<open>Loops over a list.\<close>

fun eachA :: "('a \<Rightarrow> ('s, unit) act) \<Rightarrow> 'a list \<Rightarrow> ('s, unit) act" where
  "eachA f [] = ret ()"
| "eachA f (x # xs) = sqn (f x) (eachA f xs)"

fun foldA :: "('b \<Rightarrow> 'a \<Rightarrow> ('s, 'b) act) \<Rightarrow> 'b \<Rightarrow> 'a list \<Rightarrow> ('s, 'b) act" where
  "foldA f b [] = ret b"
| "foldA f b (x # xs) = bnd (f b x) (\<lambda>c. foldA f c xs)"

text \<open>
  \<open>try: m finally: k\<close>.  A run whose fuel is exhausted has not finished \<open>m\<close>, so nothing
  more happens in it.
\<close>

definition try_finally :: "('s, 'a) act \<Rightarrow> ('s, unit) act \<Rightarrow> ('s, 'a) act" where
  "try_finally m k = (\<lambda>s. case m s of (r, s') \<Rightarrow>
     (if r = Inl OutOfFuel then (r, s')
      else case k s' of (Inl e, s'') \<Rightarrow> (Inl e, s'') | (Inr _, s'') \<Rightarrow> (r, s'')))"

subsection \<open>Inversion\<close>

named_theorems act_simps \<open>inversion of effectful computations\<close>

lemma ret_eq [act_simps]: "ret x s = (r, s') \<longleftrightarrow> r = Inr x \<and> s' = s"
  by (auto simp: ret_def)

lemma lft_eq [act_simps]: "lft x s = (r, s') \<longleftrightarrow> r = x \<and> s' = s"
  by (auto simp: lft_def)

lemma get_eq [act_simps]: "get f s = (r, s') \<longleftrightarrow> r = Inr (f s) \<and> s' = s"
  by (auto simp: get_def)

lemma upd_eq [act_simps]: "upd f s = (r, s') \<longleftrightarrow> r = Inr () \<and> s' = f s"
  by (auto simp: upd_def)

lemma ensure_eq [act_simps]:
  "ensure c m s = (r, s') \<longleftrightarrow> s' = s \<and> r = (if c then Inr () else Inl (ValueError m))"
  by (auto simp: ensure_def)

lemma bnd_Inr [act_simps]:
  "bnd m f s = (Inr y, s') \<longleftrightarrow> (\<exists>x t. m s = (Inr x, t) \<and> f x t = (Inr y, s'))"
  by (auto simp: bnd_def split: prod.splits sum.splits)

lemma bnd_Inl [act_simps]:
  "bnd m f s = (Inl e, s') \<longleftrightarrow> m s = (Inl e, s') \<or> (\<exists>x t. m s = (Inr x, t) \<and> f x t = (Inl e, s'))"
  by (auto simp: bnd_def split: prod.splits sum.splits)

lemma sqn_Inr [act_simps]:
  "sqn m k s = (Inr y, s') \<longleftrightarrow> (\<exists>x t. m s = (Inr x, t) \<and> k t = (Inr y, s'))"
  by (simp add: sqn_def bnd_Inr)

lemma sqn_Inl [act_simps]:
  "sqn m k s = (Inl e, s') \<longleftrightarrow> m s = (Inl e, s') \<or> (\<exists>x t. m s = (Inr x, t) \<and> k t = (Inl e, s'))"
  by (simp add: sqn_def bnd_Inl)

lemma handle_Inr [act_simps]:
  "handle m h s = (Inr y, s') \<longleftrightarrow> m s = (Inr y, s') \<or> (\<exists>e t. m s = (Inl e, t) \<and> caught e \<and> h e t = (Inr y, s'))"
  by (auto simp: handle_def split: prod.splits sum.splits)

lemma handle_Inl [act_simps]:
  "handle m h s = (Inl x, s') \<longleftrightarrow> (m s = (Inl x, s') \<and> \<not> caught x) \<or>
     (\<exists>e t. m s = (Inl e, t) \<and> caught e \<and> h e t = (Inl x, s'))"
  by (auto simp: handle_def split: prod.splits sum.splits)

lemma try_finally_Inr [act_simps]:
  "try_finally m k s = (Inr y, s') \<longleftrightarrow> (\<exists>t. m s = (Inr y, t) \<and> k t = (Inr (), s'))"
  by (auto simp: try_finally_def split: prod.splits sum.splits)

text \<open>Peeling one statement off a sequence that returned.\<close>

lemma bndE:
  assumes "bnd m f s = (Inr y, s')"
  obtains x t where "m s = (Inr x, t)" and "f x t = (Inr y, s')"
  using assms by (auto simp: bnd_Inr)

lemma sqnE:
  assumes "sqn m k s = (Inr y, s')"
  obtains x t where "m s = (Inr x, t)" and "k t = (Inr y, s')"
  using assms by (auto simp: sqn_Inr)

lemma upd_InrE:
  assumes "upd f s = (Inr y, s')"
  obtains "s' = f s"
  using assms by (simp add: upd_eq)

lemma bnd_run [simp]:
  "m s = (Inr x, t) \<Longrightarrow> bnd m f s = f x t"
  "m s = (Inl e, t) \<Longrightarrow> bnd m f s = (Inl e, t)"
  by (simp_all add: bnd_def)

lemma sqn_run [simp]:
  "m s = (Inr x, t) \<Longrightarrow> sqn m k s = k t"
  "m s = (Inl e, t) \<Longrightarrow> sqn m k s = (Inl e, t)"
  by (simp_all add: sqn_def)

lemma prim_run [simp]:
  "ret x s = (Inr x, s)" "lft r s = (r, s)" "get f s = (Inr (f s), s)" "upd g s = (Inr (), g s)"
  "ensure c m s = (if c then Inr () else Inl (ValueError m), s)"
  by (simp_all add: act_simps)

subsection \<open>Relations kept by a computation\<close>

text \<open>
  \<open>keeps R m\<close>: however \<open>m\<close> ends, the state it leaves is related to the state it started
  in.  For a reflexive and transitive \<open>R\<close> (a frame condition, a growing log, a counter that
  never falls) the combinators keep what their parts keep.
\<close>

definition keeps :: "('s \<Rightarrow> 's \<Rightarrow> bool) \<Rightarrow> ('s, 'a) act \<Rightarrow> bool" where
  "keeps R m = (\<forall>s. R s (snd (m s)))"

lemma keepsD: "keeps R m \<Longrightarrow> m s = (r, s') \<Longrightarrow> R s s'"
  by (metis keeps_def snd_conv)

locale state_order =
  fixes R :: "'s \<Rightarrow> 's \<Rightarrow> bool"
  assumes R_refl: "R s s"
    and R_trans: "R s t \<Longrightarrow> R t u \<Longrightarrow> R s u"
begin

lemma keeps_ret: "keeps R (ret x)"
  by (simp add: keeps_def R_refl)

lemma keeps_lft: "keeps R (lft r)"
  by (simp add: keeps_def R_refl)

lemma keeps_get: "keeps R (get f)"
  by (simp add: keeps_def R_refl)

lemma keeps_ensure: "keeps R (ensure c m)"
  by (simp add: keeps_def R_refl)

lemma keeps_upd: "(\<And>s. R s (f s)) \<Longrightarrow> keeps R (upd f)"
  by (simp add: keeps_def)

lemma keeps_bnd:
  assumes "keeps R m" and "\<And>x. keeps R (f x)"
  shows "keeps R (bnd m f)"
  unfolding keeps_def
proof
  fix s
  obtain r t where m: "m s = (r, t)" by (cases "m s")
  then have st: "R s t" using assms(1) by (rule keepsD [rotated])
  show "R s (snd (bnd m f s))"
  proof (cases r)
    case (Inl e)
    with m st show ?thesis by simp
  next
    case (Inr x)
    have "R t (snd (f x t))" using assms(2) by (simp add: keeps_def)
    with m st Inr show ?thesis by (auto intro: R_trans)
  qed
qed

lemma keeps_sqn: "keeps R m \<Longrightarrow> keeps R k \<Longrightarrow> keeps R (sqn m k)"
  by (simp add: sqn_def keeps_bnd)

lemma keeps_whenA: "(c \<Longrightarrow> keeps R m) \<Longrightarrow> keeps R (whenA c m)"
  by (simp add: whenA_def keeps_ret)

lemma keeps_handle:
  assumes "keeps R m" and "\<And>e. keeps R (h e)"
  shows "keeps R (handle m h)"
  unfolding keeps_def
proof
  fix s
  obtain r t where m: "m s = (r, t)" by (cases "m s")
  then have st: "R s t" using assms(1) by (rule keepsD [rotated])
  have "R t (snd (h e t))" for e using assms(2) by (simp add: keeps_def)
  with m st show "R s (snd (handle m h s))"
    by (cases r) (auto simp: handle_def intro: R_trans)
qed

lemma keeps_handle_if:
  assumes "keeps R m" and "\<And>e. p e \<Longrightarrow> keeps R (h e)"
  shows "keeps R (handle_if p m h)"
  unfolding keeps_def
proof
  fix s
  obtain r t where m: "m s = (r, t)" by (cases "m s")
  then have st: "R s t" using assms(1) by (rule keepsD [rotated])
  have "p e \<Longrightarrow> R t (snd (h e t))" for e using assms(2) by (simp add: keeps_def)
  with m st show "R s (snd (handle_if p m h s))"
    by (cases r) (auto simp: handle_if_def intro: R_trans)
qed

lemma keeps_if: "(c \<Longrightarrow> keeps R a) \<Longrightarrow> (\<not> c \<Longrightarrow> keeps R b) \<Longrightarrow> keeps R (if c then a else b)"
  by simp

lemma keeps_option:
  "(x = None \<Longrightarrow> keeps R a) \<Longrightarrow> (\<And>y. x = Some y \<Longrightarrow> keeps R (f y)) \<Longrightarrow> keeps R (case x of None \<Rightarrow> a | Some y \<Rightarrow> f y)"
  by (simp split: option.split)

lemma keeps_prod: "(\<And>a b. x = (a, b) \<Longrightarrow> keeps R (f a b)) \<Longrightarrow> keeps R (case x of (a, b) \<Rightarrow> f a b)"
  by (simp split: prod.split)

lemma keeps_Let: "(\<And>y. y = x \<Longrightarrow> keeps R (f y)) \<Longrightarrow> keeps R (let y = x in f y)"
  by simp

lemma keeps_eachA: "(\<And>x. x \<in> set xs \<Longrightarrow> keeps R (f x)) \<Longrightarrow> keeps R (eachA f xs)"
  by (induction xs) (simp_all add: keeps_ret keeps_sqn)

lemma keeps_foldA: "(\<And>x b. x \<in> set xs \<Longrightarrow> keeps R (f b x)) \<Longrightarrow> keeps R (foldA f b xs)"
  by (induction xs arbitrary: b) (simp_all add: keeps_ret keeps_bnd)

lemma keeps_try_finally:
  assumes "keeps R m" and "keeps R k"
  shows "keeps R (try_finally m k)"
  unfolding keeps_def
proof
  fix s
  obtain r t where m: "m s = (r, t)" by (cases "m s")
  obtain r' u where k: "k t = (r', u)" by (cases "k t")
  from m assms(1) have st: "R s t" by (rule keepsD [rotated])
  from k assms(2) have tu: "R t u" by (rule keepsD [rotated])
  from R_trans [OF st tu] m k st show "R s (snd (try_finally m k s))"
    by (cases r') (auto simp: try_finally_def)
qed

lemmas keeps_intros = keeps_ret keeps_lft keeps_get keeps_ensure keeps_bnd keeps_sqn keeps_whenA
  keeps_handle keeps_handle_if keeps_try_finally keeps_eachA keeps_foldA

lemmas keeps_branches = keeps_if keeps_option keeps_prod keeps_Let

end

text \<open>Equality of an observation, and growth of a log, are such relations.\<close>

interpretation same: state_order "\<lambda>s t. obs s = obs t" for obs :: "'s \<Rightarrow> 'o"
  by unfold_locales auto

interpretation grows: state_order "\<lambda>s t. prefix (log s) (log t)" for log :: "'s \<Rightarrow> 'e list"
  by unfold_locales (auto intro: prefix_order.trans)

end
