(* ===== verification/Paths.thy ===== *)
theory Paths
  imports Text Json Effects
begin

text \<open>
  POSIX paths as \<open>pathlib\<close> reads them, the file status the scripts inspect, and the
  kernel interface of the Linux components as a record of effectful calls over an
  arbitrary world.
\<close>

subsection \<open>Pure paths\<close>

text \<open>
  \<open>Path(s)\<close>: the root (empty, one slash, or exactly two) and the components; repeated
  slashes and single dots vanish, \<open>..\<close> stays.
\<close>

datatype path = Path (path_root: string) (comps: "string list")

definition root_of :: "string \<Rightarrow> string" where
  "root_of s = (if \<not> startswith s ''/'' then []
     else if startswith s ''//'' \<and> \<not> startswith s ''///'' then ''//'' else ''/'')"

definition path_of :: "string \<Rightarrow> path" where
  "path_of s = Path (root_of s) (filter (\<lambda>c. c \<noteq> [] \<and> c \<noteq> ''.'') (split_all (CHR ''/'') s))"

definition path_str :: "path \<Rightarrow> string" where
  "path_str p = (if path_root p = [] \<and> comps p = [] then ''.'' else path_root p @ join ''/'' (comps p))"

definition is_absolute :: "path \<Rightarrow> bool" where
  "is_absolute p = (path_root p \<noteq> [])"

text \<open>\<open>len(p.parts)\<close>: the root counts as a part.\<close>

definition part_count :: "path \<Rightarrow> nat" where
  "part_count p = (if path_root p = [] then 0 else 1) + length (comps p)"

text \<open>\<open>p / s\<close>; an absolute \<open>s\<close> replaces \<open>p\<close>.\<close>

definition path_join :: "path \<Rightarrow> string \<Rightarrow> path" where
  "path_join p s = (let q = path_of s in
     if is_absolute q then q else Path (path_root p) (comps p @ comps q))"

text \<open>\<open>path == root or root in path.parents\<close>.\<close>

definition below :: "path \<Rightarrow> path \<Rightarrow> bool" where
  "below p r = (path_root p = path_root r \<and> prefix (comps r) (comps p))"

definition path_name :: "path \<Rightarrow> string" where
  "path_name p = (if comps p = [] then [] else List.last (comps p))"

lemma below_code [code]:
  "below p r = (path_root p = path_root r \<and> take (length (comps r)) (comps p) = comps r)"
  by (auto simp: below_def prefix_def) (metis append_take_drop_id)

lemma below_refl [simp]: "below p p"
  by (simp add: below_def)

lemma below_trans: "below p q \<Longrightarrow> below q r \<Longrightarrow> below p r"
  by (auto simp: below_def)

lemma below_antisym: "below p q \<Longrightarrow> below q p \<Longrightarrow> p = q"
  by (cases p; cases q) (auto simp: below_def)

text \<open>Two directories above the same path are comparable, so equal when equally deep.\<close>

lemma below_same_depth:
  assumes "below p a" and "below p b" and "part_count a = part_count b"
  shows "a = b"
proof -
  from assms have "path_root a = path_root b" "prefix (comps a) (comps p)" "prefix (comps b) (comps p)"
    and "length (comps a) = length (comps b)"
    by (auto simp: below_def part_count_def split: if_splits)
  then show ?thesis by (cases a; cases b) (metis path.sel prefix_length_prefix prefix_order.antisym order_refl)
qed

text \<open>\<open>s.replace(old, new)\<close> for a nonempty \<open>old\<close>.\<close>

function (sequential) replace_from :: "string \<Rightarrow> string \<Rightarrow> string \<Rightarrow> string" where
  "replace_from old new [] = []"
| "replace_from old new (c # cs) =
     (if old \<noteq> [] \<and> startswith (c # cs) old then new @ replace_from old new (drop (length old) (c # cs))
      else c # replace_from old new cs)"
  by pat_completeness auto

termination replace_from
  by (relation "measure (length \<circ> snd \<circ> snd)") (auto simp: neq_Nil_conv)

definition replace_text :: "string \<Rightarrow> string \<Rightarrow> string \<Rightarrow> string" where
  "replace_text s old new = replace_from old new s"

text \<open>\<open>s.removeprefix(p)\<close> and \<open>s.lstrip("/")\<close>.\<close>

definition removeprefix :: "string \<Rightarrow> string \<Rightarrow> string" where
  "removeprefix s p = (if startswith s p then drop (length p) s else s)"

subsection \<open>File status\<close>

text \<open>\<open>st_dev\<close> as the pair that \<open>os.major\<close> and \<open>os.minor\<close> read off it.\<close>

record stat_info =
  st_dev :: "nat \<times> nat"
  st_ino :: int
  st_mode :: nat
  st_uid :: int
  st_gid :: int
  st_nlink :: int
  st_size :: int
  st_mtime_ns :: int
  st_ctime_ns :: int

definition S_IS :: "nat \<Rightarrow> stat_info \<Rightarrow> bool" where
  "S_IS t i = (st_mode i div 4096 mod 16 = t)"

abbreviation S_ISFIFO where "S_ISFIFO \<equiv> S_IS 1"
abbreviation S_ISCHR where "S_ISCHR \<equiv> S_IS 2"
abbreviation S_ISDIR where "S_ISDIR \<equiv> S_IS 4"
abbreviation S_ISBLK where "S_ISBLK \<equiv> S_IS 6"
abbreviation S_ISREG where "S_ISREG \<equiv> S_IS 8"
abbreviation S_ISLNK where "S_ISLNK \<equiv> S_IS 10"

definition permissions :: "stat_info \<Rightarrow> nat" where
  "permissions i = st_mode i mod 512"

text \<open>\<open>info.st_mode & 0o022 == 0\<close>: neither group nor others may write.\<close>

definition not_shared_writable :: "stat_info \<Rightarrow> bool" where
  "not_shared_writable i = (st_mode i div 16 mod 2 = 0 \<and> st_mode i div 2 mod 2 = 0)"

definition device_text :: "nat \<times> nat \<Rightarrow> string" where
  "device_text d = show_nat (fst d) @ '':'' @ show_nat (snd d)"

record space =
  f_frsize :: int
  f_blocks :: int
  f_bfree :: int
  f_bavail :: int
  f_files :: int
  f_ffree :: int
  f_favail :: int
  f_fsid :: int

subsection \<open>The kernel\<close>

text \<open>The system calls of the setup child, with the arguments the code passes.\<close>

datatype syscall =
    Unshare nat
  | MountPrivate nat
  | MountTmpfs path nat string
  | MountSetattr nat path nat nat
  | Prctl nat nat
  | Setrlimit string nat
  | Setgroups "int list"
  | Setresgid int
  | Setresuid int
  | Capset nat
  | SeccompFilter "(nat \<times> nat \<times> nat \<times> nat) list"
  | Dup2 int int

record 'w kernel =
  k_uname :: "('w, string \<times> string) act"
  k_geteuid :: "('w, int) act"
  k_getpid :: "('w, int) act"
  k_resolve :: "path \<Rightarrow> ('w, path) act"
  k_stat :: "path \<Rightarrow> ('w, stat_info) act"
  k_lstat :: "path \<Rightarrow> ('w, stat_info) act"
  k_statvfs :: "path \<Rightarrow> ('w, space) act"
  k_exists :: "path \<Rightarrow> ('w, bool) act"
  k_read_text :: "path \<Rightarrow> ('w, string) act"
  k_read_path :: "path \<Rightarrow> nat \<Rightarrow> ('w, string) act"
  k_readlink :: "path \<Rightarrow> ('w, string) act"
  k_iterdir :: "path \<Rightarrow> ('w, string list) act"
  k_open :: "path \<Rightarrow> string list \<Rightarrow> ('w, int) act"
  k_open_at :: "int \<Rightarrow> string \<Rightarrow> string list \<Rightarrow> ('w, int) act"
  k_read :: "int \<Rightarrow> nat \<Rightarrow> ('w, string) act"
  k_write :: "int \<Rightarrow> string \<Rightarrow> ('w, nat) act"
  k_close :: "int \<Rightarrow> ('w, unit) act"
  k_fstat :: "int \<Rightarrow> ('w, stat_info) act"
  k_stat_at :: "int \<Rightarrow> string \<Rightarrow> ('w, stat_info) act"
  k_listdir :: "int \<Rightarrow> ('w, string list) act"
  k_fstatfs :: "int \<Rightarrow> ('w, int) act"
  k_call :: "syscall \<Rightarrow> ('w, int) act"

subsection \<open>Statements\<close>

text \<open>\<open>require(c, m)\<close> of \<open>sw_i5_resources.py\<close>, which raises \<open>ResourceError\<close>.\<close>

definition demand :: "bool \<Rightarrow> string \<Rightarrow> 'a res \<Rightarrow> 'a res" where
  "demand c m k = (if c then k else Inl (ResourceError m))"

definition demandA :: "bool \<Rightarrow> string \<Rightarrow> ('s, unit) act" where
  "demandA c m = (\<lambda>s. (if c then Inr () else Inl (ResourceError m), s))"

lemma demand_Inr [res_simps]: "demand c m k = Inr x \<longleftrightarrow> c \<and> k = Inr x"
  by (simp add: demand_def)

lemma demandA_eq [act_simps]:
  "demandA c m s = (r, s') \<longleftrightarrow> s' = s \<and> r = (if c then Inr () else Inl (ResourceError m))"
  by (auto simp: demandA_def)

lemma demandA_Inr: "demandA c m s = (Inr u, t) \<longleftrightarrow> c \<and> t = s"
  by (auto simp: demandA_def)

lemma ensure_Inr: "ensure c m s = (Inr u, t) \<longleftrightarrow> c \<and> t = s"
  by (auto simp: ensure_def)

lemma demandA_run [simp]:
  "c \<Longrightarrow> demandA c m s = (Inr (), s)"
  "\<not> c \<Longrightarrow> demandA c m s = (Inl (ResourceError m), s)"
  by (simp_all add: demandA_def)

text \<open>A list comprehension with an effectful body.\<close>

fun mapA :: "('a \<Rightarrow> ('s, 'b) act) \<Rightarrow> 'a list \<Rightarrow> ('s, 'b list) act" where
  "mapA f [] = ret []"
| "mapA f (x # xs) = bnd (f x) (\<lambda>y. bnd (mapA f xs) (\<lambda>ys. ret (y # ys)))"

fun mapE :: "('a \<Rightarrow> 'b res) \<Rightarrow> 'a list \<Rightarrow> 'b list res" where
  "mapE f [] = Inr []"
| "mapE f (x # xs) = bindE (f x) (\<lambda>y. bindE (mapE f xs) (\<lambda>ys. Inr (y # ys)))"

text \<open>\<open>try: m except BaseException: k; raise\<close>.\<close>

definition on_error :: "('s, 'a) act \<Rightarrow> ('s, unit) act \<Rightarrow> ('s, 'a) act" where
  "on_error m k = (\<lambda>s. case m s of
     (Inl e, s') \<Rightarrow> (if e = OutOfFuel then (Inl e, s')
       else case k s' of (Inl e', s'') \<Rightarrow> (Inl e', s'') | (Inr _, s'') \<Rightarrow> (Inl e, s''))
   | (Inr x, s') \<Rightarrow> (Inr x, s'))"

lemma on_error_Inr [act_simps]: "on_error m k s = (Inr x, s') \<longleftrightarrow> m s = (Inr x, s')"
  by (auto simp: on_error_def split: prod.splits sum.splits if_splits)

lemma mapE_Inr: "mapE f xs = Inr ys \<longleftrightarrow> list_all2 (\<lambda>x y. f x = Inr y) xs ys"
proof (induction xs arbitrary: ys)
  case Nil
  then show ?case by auto
next
  case (Cons x xs)
  then show ?case by (cases ys) (auto simp: res_simps)
qed

context state_order
begin

lemma keeps_demandA: "keeps R (demandA c m)"
  by (simp add: keeps_def demandA_def R_refl)

lemma keeps_mapA: "(\<And>x. x \<in> set xs \<Longrightarrow> keeps R (f x)) \<Longrightarrow> keeps R (mapA f xs)"
  by (induction xs) (simp_all add: keeps_ret keeps_bnd)

lemma keeps_on_error:
  assumes "keeps R m" and "keeps R k"
  shows "keeps R (on_error m k)"
  unfolding keeps_def
proof
  fix s
  obtain r t where m: "m s = (r, t)" by (cases "m s")
  then have st: "R s t" using assms(1) by (rule keepsD [rotated])
  have "R t (snd (k t))" using assms(2) by (simp add: keeps_def)
  with m st show "R s (snd (on_error m k s))"
    by (cases r; cases "k t"; cases "fst (k t)") (auto simp: on_error_def intro: R_trans)
qed

end

end
