(* ===== verification/Resources.thy ===== *)
theory Resources
  imports Paths
begin

text \<open>
  The capacity probes of \<open>sw_i5_resources.py\<close>: the configuration, the mount table, the
  choice of the mount that covers a path, the inspection of the four block domains, and the
  guard that makes a failed probe fatal for the rest of the stage.  The probe and the
  kernel behind it are records of effectful calls over an arbitrary world.
\<close>

subsection \<open>Configuration\<close>

definition RES_MIB :: int where "RES_MIB = 1024 * 1024"

definition CAPS :: "(string \<times> int) list" where
  "CAPS = [(''build'', 256 * RES_MIB), (''daemon'', 160 * RES_MIB),
           (''evidence'', 240 * RES_MIB), (''diagnostic'', 64 * RES_MIB)]"

definition HOST_FREE :: int where "HOST_FREE = 1024 * RES_MIB"

definition absolute_path :: "pyval \<Rightarrow> path res" where
  "absolute_path v =
     demand (is_str v \<and> startswith (str_of v) ''/'') ''absolute path required'' (
     let p = path_of (str_of v) in
     demand (path_str p = str_of v \<and> ''..'' \<notin> set (comps p) \<and> p \<noteq> path_of ''/'')
       ''noncanonical or root path'' (Inr p))"

definition unique_object :: "(string \<times> pyval) list \<Rightarrow> (string \<times> pyval) list res" where
  "unique_object pairs =
     foldE (\<lambda>result (key, v). demand (key \<notin> fst ` set result) (''duplicate configuration key: '' @ key)
              (Inr (result @ [(key, v)]))) [] pairs"

record config =
  cf_root :: path
  cf_host_path :: path
  cf_devices :: "(string \<times> string) list"

definition device_rx :: rx where
  "device_rx = cats [plus (Cls is_digit), lit '':'', plus (Cls is_digit)]"

definition config_decode :: "pyval \<Rightarrow> config res" where
  "config_decode obj =
     demand (has_fields obj [''schema_version'', ''root'', ''host_path'', ''devices'']) ''configuration fields'' (
     demand (fld obj ''schema_version'' = PInt 1) ''unsupported configuration version'' (
     bindE (absolute_path (fld obj ''root'')) (\<lambda>root.
     bindE (absolute_path (fld obj ''host_path'')) (\<lambda>host.
     demand (\<not> below host root) ''host free-space path must be outside capacity domains'' (
     let devices = fld obj ''devices'' in
     demand (has_fields devices (map fst CAPS)) ''four domains required'' (
     demand (list_all (\<lambda>(_, v). is_str v \<and> fullmatch device_rx (str_of v)) (dict_of devices))
       ''expected major:minor required'' (
     demand (card (set (map (str_of \<circ> snd) (dict_of devices))) = 4) ''devices must be distinct'' (
     Inr \<lparr> cf_root = root, cf_host_path = host,
           cf_devices = map (\<lambda>(k, v). (k, str_of v)) (dict_of devices) \<rparr>))))))))"

subsection \<open>The mount table\<close>

record mount =
  m_ident :: int
  m_device :: string
  m_root :: string
  m_path :: path
  m_options :: "string set"
  m_kind :: string
  m_source :: string
  m_super_options :: "string set"

definition mount_path :: "string \<Rightarrow> string res" where
  "mount_path raw =
     (let bs = CHR 0x5C;
          r = foldl (\<lambda>r (escaped, v). replace_text r (bs # escaped) [v]) raw
                [(''040'', CHR '' ''), (''011'', CHR 0x09), (''012'', CHR 0x0A), (''134'', bs)]
      in demand (bs \<notin> set r \<and> CHR 0x0A \<notin> set r \<and> CHR 0x09 \<notin> set r) ''unsupported mount path'' (Inr r))"

definition index_of :: "'a list \<Rightarrow> 'a \<Rightarrow> nat" where
  "index_of xs x = length (takeWhile (\<lambda>y. y \<noteq> x) xs)"

definition parse_mount :: "mount list \<Rightarrow> string \<Rightarrow> mount list res" where
  "parse_mount mounts line =
     (let row = words line in
      demand (count_list row ''-'' = 1) ''invalid mountinfo separator'' (
      let split = index_of row ''-'' in
      demand (6 \<le> split \<and> length row = split + 4) ''invalid mountinfo fields'' (
      demand (isdigit (row ! 0) \<and> isdigit (row ! 1) \<and> fullmatch device_rx (row ! 2)) ''invalid mountinfo identity'' (
      bindE (int_text (row ! 0)) (\<lambda>ident.
      bindE (mount_path (row ! 4)) (\<lambda>p.
      let path = path_of p in
      demand (0 < ident \<and> ident \<notin> m_ident ` set mounts \<and> is_absolute path) ''duplicate mount identity'' (
      bindE (mount_path (row ! 3)) (\<lambda>root.
      bindE (mount_path (row ! (split + 2))) (\<lambda>source.
      Inr (mounts @ [\<lparr> m_ident = ident, m_device = row ! 2, m_root = root, m_path = path,
        m_options = set (split_all (CHR '','') (row ! 5)), m_kind = row ! (split + 1), m_source = source,
        m_super_options = set (split_all (CHR '','') (row ! (split + 3))) \<rparr>]))))))))))"

definition parse_mounts :: "string \<Rightarrow> mount list res" where
  "parse_mounts raw =
     bindE (foldE parse_mount [] (splitlines raw)) (\<lambda>mounts.
     demand (mounts \<noteq> []) ''empty mountinfo'' (Inr mounts))"

definition covering :: "mount list \<Rightarrow> path \<Rightarrow> mount res" where
  "covering mounts path =
     (let candidates = filter (\<lambda>m. below path (m_path m)) mounts in
      demand (candidates \<noteq> []) (''path without mount: '' @ path_str path) (
      let longest = Max (set (map (part_count \<circ> m_path) candidates));
          selected = filter (\<lambda>m. part_count (m_path m) = longest) candidates in
      demand (length selected = 1) (''overmounted/ambiguous path: '' @ path_str path) (Inr (hd selected))))"

subsection \<open>Probes\<close>

record 'w probe =
  pr_mounts :: "('w, mount list) act"
  pr_directory :: "path \<Rightarrow> ('w, stat_info) act"
  pr_space :: "path \<Rightarrow> ('w, space) act"
  pr_device :: "mount \<Rightarrow> ('w, string \<times> int) act"
  pr_geteuid :: "('w, int) act"

definition linux_mounts :: "'w kernel \<Rightarrow> ('w, mount list) act" where
  "linux_mounts k =
     bnd (k_uname k) (\<lambda>(sysname, _).
     sqn (demandA (sysname = ''Linux'') ''Linux kernel required'') (
     bnd (k_read_text k (path_of ''/proc/self/mountinfo'')) (\<lambda>raw. lft (parse_mounts raw))))"

definition linux_directory :: "'w kernel \<Rightarrow> path \<Rightarrow> ('w, stat_info) act" where
  "linux_directory k path =
     bnd (k_resolve k path) (\<lambda>p.
     sqn (demandA (p = path) (''symlink in path: '' @ path_str path)) (
     bnd (k_stat k path) (\<lambda>info.
     sqn (demandA (S_ISDIR info) (''directory required: '' @ path_str path)) (ret info))))"

definition whole_disk_rx :: rx where
  "whole_disk_rx =
     Alt (Cat (lit ''vd'') (plus (Cls is_lower))) (
     Alt (Cat (lit ''sd'') (plus (Cls is_lower)))
         (cats [lit ''nvme'', plus (Cls is_digit), lit ''n'', plus (Cls is_digit)]))"

definition linux_device :: "'w kernel \<Rightarrow> (stat_info \<Rightarrow> nat \<times> nat) \<Rightarrow> mount \<Rightarrow> ('w, string \<times> int) act" where
  "linux_device k st_rdev mount =
     bnd (k_stat k (path_of (m_source mount))) (\<lambda>info.
     sqn (demandA (S_ISBLK info) ''mount source is not a block device'') (
     sqn (demandA (device_text (st_rdev info) = m_device mount) ''mount source device differs from mountinfo'') (
     let sys = path_join (path_of ''/sys/dev/block'') (m_device mount) in
     bnd (k_resolve k sys) (\<lambda>resolved.
     bnd (if fullmatch whole_disk_rx (path_name resolved)
          then bnd (k_exists k (path_join sys ''partition'')) (\<lambda>b. ret (\<not> b)) else ret False) (\<lambda>whole.
     sqn (demandA whole ''unsupported block backend (requires an independent whole disk)'') (
     bnd (k_read_text k (path_join sys ''size'')) (\<lambda>t.
     let sectors = strip t in
     bnd (if isdigit sectors then bnd (lft (int_text sectors)) (\<lambda>n. ret (0 < n)) else ret False) (\<lambda>valid.
     sqn (demandA valid ''invalid block capacity'') (
     bnd (lft (int_text sectors)) (\<lambda>n.
     ret (path_str resolved, n * 512)))))))))))"

definition linux_probe :: "'w kernel \<Rightarrow> (stat_info \<Rightarrow> nat \<times> nat) \<Rightarrow> 'w probe" where
  "linux_probe k st_rdev = \<lparr> pr_mounts = linux_mounts k, pr_directory = linux_directory k,
     pr_space = k_statvfs k, pr_device = linux_device k st_rdev, pr_geteuid = k_geteuid k \<rparr>"

subsection \<open>Inspection of the domains\<close>

definition check_space :: "'w probe \<Rightarrow> path \<Rightarrow> int \<Rightarrow> int option \<Rightarrow> ('w, space) act" where
  "check_space probe path minimum capacity =
     bnd (pr_space probe path) (\<lambda>s.
     sqn (demandA (0 < f_frsize s \<and> 0 \<le> f_bavail s \<and> f_bavail s \<le> f_bfree s \<and> f_bfree s \<le> f_blocks s \<and>
                   0 < f_favail s \<and> f_favail s \<le> f_ffree s \<and> f_ffree s \<le> f_files s)
            (''invalid space/inode inventory: '' @ path_str path)) (
     sqn (demandA (minimum \<le> f_bavail s * f_frsize s) (''insufficient available bytes: '' @ path_str path)) (
     sqn (case capacity of None \<Rightarrow> ret ()
          | Some c \<Rightarrow> demandA (0 < f_blocks s * f_frsize s \<and> f_blocks s * f_frsize s \<le> c)
              (''filesystem exceeds device capacity: '' @ path_str path)) (
     ret s))))"

definition mount_flags_ok :: "bool \<Rightarrow> string \<Rightarrow> mount \<Rightarrow> bool" where
  "mount_flags_ok build_scope name m =
     (let access = (if build_scope \<and> name \<noteq> ''build'' then ''ro'' else ''rw'') in
      {access, ''nosuid'', ''nodev''} \<subseteq> m_options m \<and>
      {''rw'', ''ro''} \<inter> m_options m = {access} \<and> ''rw'' \<in> m_super_options m)"

definition domain_record :: "mount \<Rightarrow> string \<Rightarrow> int \<Rightarrow> space \<Rightarrow> stat_info \<Rightarrow> pyval" where
  "domain_record m device_path sz s info = PDict
     [(''mount_id'', PInt (m_ident m)), (''device'', PStr (m_device m)), (''sysfs'', PStr device_path),
      (''capacity'', PInt sz), (''fsid'', PInt (f_fsid s)), (''root_inode'', PInt (st_ino info)),
      (''available'', PInt (f_bavail s * f_frsize s)), (''available_inodes'', PInt (f_favail s))]"

definition inspect_domain ::
    "config \<Rightarrow> 'w probe \<Rightarrow> bool \<Rightarrow> mount list \<Rightarrow> (string \<times> pyval) list \<Rightarrow> string \<times> int \<Rightarrow> ('w, (string \<times> pyval) list) act" where
  "inspect_domain cfg probe build_scope mounts records = (\<lambda>(name, cap).
     let path = path_join (cf_root cfg) name in
     bnd (pr_directory probe path) (\<lambda>info.
     bnd (lft (covering mounts path)) (\<lambda>m.
     sqn (demandA (m_path m = path \<and> m_root m = ''/'' \<and> m_kind m = ''ext4'')
            (''independent full ext4 mount required: '' @ name)) (
     sqn (demandA (map_of (cf_devices cfg) name = Some (m_device m) \<and> device_text (st_dev info) = m_device m)
            (''domain device mismatch: '' @ name)) (
     sqn (demandA (mount_flags_ok build_scope name m) (''domain mount options: '' @ name)) (
     sqn (demandA (count_list (map m_device mounts) (m_device m) = 1) (''domain device alias: '' @ name)) (
     sqn (demandA (\<not> list_ex (\<lambda>x. m_path x \<noteq> path \<and> below (m_path x) path) mounts) (''nested domain mount: '' @ name)) (
     bnd (pr_geteuid probe) (\<lambda>euid.
     sqn (demandA (st_uid info = euid \<and> permissions info = 448)
            (''domain must be owned by caller with mode 0700: '' @ name)) (
     bnd (pr_device probe m) (\<lambda>(device_path, sz).
     sqn (demandA (0 < sz \<and> sz \<le> cap) (''block domain exceeds cap: '' @ name)) (
     bnd (check_space probe path 1 (Some sz)) (\<lambda>s.
     ret (records @ [(name, domain_record m device_path sz s info)]))))))))))))))"

definition snapshot_value :: "mount \<Rightarrow> space \<Rightarrow> (string \<times> pyval) list \<Rightarrow> pyval" where
  "snapshot_value hm host records =
     PDict [(''schema_version'', PInt 1), (''scope'', PStr ''local-block-domains-only''),
       (''host'', PDict [(''mount_id'', PInt (m_ident hm)), (''device'', PStr (m_device hm)),
          (''fsid'', PInt (f_fsid host)), (''available'', PInt (f_bavail host * f_frsize host))]),
       (''domains'', PDict records), (''i5_ready'', PBool False)]"

definition inspect_domains :: "config \<Rightarrow> 'w probe \<Rightarrow> bool \<Rightarrow> ('w, pyval) act" where
  "inspect_domains cfg probe build_scope =
     bnd (pr_mounts probe) (\<lambda>mounts.
     bnd (pr_directory probe (cf_root cfg)) (\<lambda>root_info.
     bnd (pr_directory probe (cf_host_path cfg)) (\<lambda>host_info.
     bnd (lft (covering mounts (cf_host_path cfg))) (\<lambda>hm.
     sqn (demandA (m_kind hm = ''ext4'' \<and> st_dev root_info = st_dev host_info)
            ''host path must share the ext4 filesystem containing the batch root'') (
     sqn (demandA (m_device hm \<notin> snd ` set (cf_devices cfg)) ''host path is a domain alias'') (
     sqn (demandA (device_text (st_dev host_info) = m_device hm) ''host path device mismatch'') (
     bnd (check_space probe (cf_host_path cfg) HOST_FREE None) (\<lambda>host.
     bnd (foldA (inspect_domain cfg probe build_scope mounts) [] CAPS) (\<lambda>records.
     sqn (demandA (list_all (\<lambda>m. below (m_path m) (cf_root cfg) \<longrightarrow>
              m_path m = cf_root cfg \<or> m_path m \<in> path_join (cf_root cfg) ` fst ` set CAPS) mounts)
            ''unexpected batch mount'') (
     sqn (whenA build_scope (demandA (list_all (\<lambda>m. m_path m \<noteq> path_join (cf_root cfg) ''build'' \<longrightarrow>
              ''ro'' \<in> m_options m \<and> ''rw'' \<notin> m_options m) mounts)
            ''build namespace has another writable mount'')) (
     bnd (pr_mounts probe) (\<lambda>again.
     sqn (demandA (mounts = again) ''mount inventory changed during probe'') (
     ret (snapshot_value hm host records))))))))))))))"

definition without :: "string list \<Rightarrow> pyval \<Rightarrow> pyval" where
  "without ks v = PDict (filter (\<lambda>(k, _). k \<notin> set ks) (dict_of v))"

definition identity :: "pyval \<Rightarrow> pyval" where
  "identity snapshot = PDict
     [(''host'', without [''available''] (fld snapshot ''host'')),
      (''domains'', PDict (map (\<lambda>(n, r). (n, without [''available'', ''available_inodes''] r))
         (dict_of (fld snapshot ''domains''))))]"

subsection \<open>The guard\<close>

record 'w domain_guard =
  dg_world :: 'w
  dg_initial :: "pyval option"
  dg_failure :: "exn option"

text \<open>\<open>except (OSError, ValueError, ResourceError)\<close>.\<close>

fun probe_caught :: "exn \<Rightarrow> bool" where
  "probe_caught (RuntimeError m) = False"
| "probe_caught e = caught e"

definition on_world :: "('w, 'a) act \<Rightarrow> ('w domain_guard, 'a) act" where
  "on_world m = (\<lambda>s. let (r, w) = m (dg_world s) in (r, s\<lparr>dg_world := w\<rparr>))"

definition domain_check :: "config \<Rightarrow> 'w probe \<Rightarrow> bool \<Rightarrow> ('w domain_guard, pyval) act" where
  "domain_check cfg probe build_scope =
     bnd (on_world (inspect_domains cfg probe build_scope)) (\<lambda>snapshot.
     bnd (get dg_initial) (\<lambda>i.
     sqn (whenA (i = None) (upd (\<lambda>s. s\<lparr>dg_initial := Some (identity snapshot)\<rparr>))) (
     bnd (get dg_initial) (\<lambda>i.
     sqn (demandA (pyeq (identity snapshot) (the i)) ''capacity domain identity changed'') (
     ret snapshot)))))"

definition domain_guard_check :: "config \<Rightarrow> 'w probe \<Rightarrow> bool \<Rightarrow> ('w domain_guard, pyval) act" where
  "domain_guard_check cfg probe build_scope =
     bnd (get dg_failure) (\<lambda>f. case f of Some e \<Rightarrow> lft (Inl e) | None \<Rightarrow>
     handle_if probe_caught
       (domain_check cfg probe build_scope)
       (\<lambda>x. let e = ResourceError (''capacity probe stopped: '' @ exn_str x) in
            sqn (upd (\<lambda>s. s\<lparr>dg_failure := Some e\<rparr>)) (lft (Inl e))))"

definition domain_guard :: "'w \<Rightarrow> 'w domain_guard" where
  "domain_guard w = \<lparr> dg_world = w, dg_initial = None, dg_failure = None \<rparr>"

end
