(* ===== verification/JsonProps.thy ===== *)
theory JsonProps
  imports Json
begin

text \<open>
  Facts about the JSON layer: reading what was written gives the value back
  (\<open>decode_enc\<close>), every value read is free of duplicate keys
  (\<open>decode_wf\<close>), and the fuel that \<open>loads\<close> supplies is always enough
  (\<open>loads_fuel\<close>).
\<close>

subsection \<open>Numbers\<close>

lemma of_char_digit_char: "n < 10 \<Longrightarrow> of_char (digit_char n) = 48 + n"
  by (simp add: digit_char_def)

lemma is_digit_digit_char: "n < 10 \<Longrightarrow> is_digit (digit_char n)"
  by (simp add: is_digit_def of_char_digit_char)

lemma show_nat_digits: "c \<in> set (show_nat n) \<Longrightarrow> is_digit c"
proof (induction n rule: show_nat.induct)
  case (1 n)
  then show ?case
    by (subst (asm) (2) show_nat.simps) (auto split: if_splits simp: is_digit_digit_char)
qed

lemma show_nat_nonempty [simp]: "show_nat n \<noteq> []"
  by (subst show_nat.simps) simp

lemma nat_of_digits_append:
  "nat_of_digits acc (xs @ ys) = nat_of_digits (nat_of_digits acc xs) ys"
  by (induction xs arbitrary: acc) simp_all

lemma nat_of_digits_show_nat: "nat_of_digits 0 (show_nat n) = n"
proof (induction n rule: show_nat.induct)
  case (1 n)
  show ?case
  proof (cases "n < 10")
    case True
    then show ?thesis by (subst show_nat.simps) (simp add: of_char_digit_char)
  next
    case False
    with "1.IH" show ?thesis
      by (subst show_nat.simps) (simp add: nat_of_digits_append of_char_digit_char)
  qed
qed

lemma length_show_nat: "n < 10 ^ k \<Longrightarrow> 0 < k \<Longrightarrow> length (show_nat n) \<le> k"
proof (induction n arbitrary: k rule: show_nat.induct)
  case (1 n)
  show ?case
  proof (cases "n < 10")
    case True
    with "1.prems" show ?thesis by (subst show_nat.simps) simp
  next
    case False
    obtain j where k: "k = Suc j" using "1.prems" by (cases k) auto
    with "1.prems" False have "n div 10 < 10 ^ j" and "0 < j" by (cases j; simp)+
    with "1.IH" [OF False, of j] False k show ?thesis by (subst show_nat.simps) simp
  qed
qed

lemma show_nat_zero: "show_nat 0 = ''0''"
  by code_simp

lemma hd_show_nat: "0 < n \<Longrightarrow> hd (show_nat n) \<noteq> CHR ''0''"
proof (induction n rule: show_nat.induct)
  case (1 n)
  show ?case
  proof (cases "n < 10")
    case True
    have "of_char (digit_char n) \<noteq> (of_char (CHR ''0'') :: nat)"
      using True "1.prems" by (simp add: of_char_digit_char)
    then show ?thesis using True by (subst show_nat.simps) auto
  next
    case False
    with "1.IH" show ?thesis by (subst show_nat.simps) simp
  qed
qed

text \<open>Text that may follow a value: nothing, or a character that ends a number.\<close>

definition ends_number :: "string \<Rightarrow> bool" where
  "ends_number r = (case r of [] \<Rightarrow> True
     | c # _ \<Rightarrow> c = CHR '','' \<or> c = CHR '']'' \<or> c = CHR ''}'' \<or> c = CHR 0x0A)"

lemma ends_number_simps [simp]:
  "ends_number []" "ends_number (CHR '','' # r)" "ends_number (CHR '']'' # r)"
  "ends_number (CHR ''}'' # r)" "ends_number (CHR 0x0A # r)"
  by (simp_all add: ends_number_def)

lemma ends_number_tail:
  assumes "ends_number r"
  shows "read_fraction r = None" and "read_exponent r = None"
    and "takeWhile is_digit r = []" and "dropWhile is_digit r = r"
  using assms
  by (auto simp: ends_number_def read_fraction_def read_exponent_def is_digit_def split: list.splits)

lemma number_tail_int:
  assumes "ends_number r" and "length ds \<le> int_digits_limit"
  shows "number_tail neg ds r =
    Inr (PInt (if neg then - int (nat_of_digits 0 ds) else int (nat_of_digits 0 ds)), r)"
  using assms by (simp add: number_tail_def ends_number_tail)

definition int_ok :: "int \<Rightarrow> bool" where
  "int_ok n = (\<bar>n\<bar> < 10 ^ int_digits_limit)"

lemma parse_nat_text:
  assumes r: "ends_number r" and n: "n < 10 ^ int_digits_limit"
    and t: "t = show_nat n @ r"
  shows "(case t of [] \<Rightarrow> Inl json_err
     | c # cs \<Rightarrow>
         if c = CHR ''0'' then number_tail neg ''0'' cs
         else if is_digit c then number_tail neg (takeWhile is_digit t) (dropWhile is_digit t)
         else Inl json_err) = Inr (PInt (if neg then - int n else int n), r)"
proof (cases "n = 0")
  case True
  then show ?thesis
    using number_tail_int [OF r, of "''0''" neg] by (simp add: t show_nat_zero int_digits_limit_def)
next
  case False
  obtain c cs where s: "show_nat n = c # cs" by (cases "show_nat n") auto
  with False have c: "c \<noteq> CHR ''0''" using hd_show_nat [of n] by simp
  have digits: "\<forall>x \<in> set (show_nat n). is_digit x" by (blast intro: show_nat_digits)
  have span: "takeWhile is_digit t = show_nat n" "dropWhile is_digit t = r"
    using digits r by (simp_all add: t ends_number_tail)
  have "length (show_nat n) \<le> int_digits_limit"
    using length_show_nat [OF n] by (simp add: int_digits_limit_def)
  then have res: "number_tail neg (takeWhile is_digit t) (dropWhile is_digit t)
      = Inr (PInt (if neg then - int n else int n), r)"
    unfolding span by (simp add: number_tail_int [OF r] nat_of_digits_show_nat)
  have "t = c # (cs @ r)" and "is_digit c" using s digits by (simp_all add: t)
  with c res show ?thesis by simp
qed

lemma show_int_head:
  obtains c cs where "show_int n = c # cs" and "is_digit c \<or> (c = CHR ''-'' \<and> cs \<noteq> [] \<and> is_digit (hd cs))"
proof (cases "n < 0")
  case True
  obtain c cs where "show_nat (nat (- n)) = c # cs" by (cases "show_nat (nat (- n))") auto
  then show ?thesis
    using True that [of "CHR ''-''" "c # cs"] show_nat_digits [of c "nat (- n)"]
    by (simp add: show_int_def)
next
  case False
  obtain c cs where "show_nat (nat n) = c # cs" by (cases "show_nat (nat n)") auto
  then show ?thesis
    using False that [of c cs] show_nat_digits [of c "nat n"] by (simp add: show_int_def)
qed

lemma parse_number_show_int:
  assumes "ends_number r" and "int_ok n"
  shows "parse_number (show_int n @ r) = Inr (PInt n, r)"
proof (cases "n < 0")
  case True
  with assms(2) have "nat (- n) < 10 ^ int_digits_limit" by (simp add: int_ok_def nat_less_iff)
  with True show ?thesis
    using parse_nat_text [OF assms(1), of "nat (- n)" _ True]
    by (simp add: parse_number_def show_int_def)
next
  case False
  obtain c cs where s: "show_nat (nat n) = c # cs" by (cases "show_nat (nat n)") auto
  then have "is_digit c" using show_nat_digits [of c "nat n"] by simp
  then have "c \<noteq> CHR ''-''" by (auto simp: is_digit_def)
  moreover from assms(2) False have "nat n < 10 ^ int_digits_limit"
    by (simp add: int_ok_def nat_less_iff)
  ultimately show ?thesis
    using False s parse_nat_text [OF assms(1), of "nat n" _ False]
    by (simp add: parse_number_def show_int_def)
qed

subsection \<open>Strings\<close>

lemma hex_val_hex_char: "n < 16 \<Longrightarrow> hex_val (hex_char n) = Some n"
  by (auto simp: hex_val_def hex_char_def)

lemma parse_str_esc: "parse_str (esc_char c @ t) = cons_char c (parse_str t)"
proof -
  have "hex4 (CHR ''0'') (CHR ''0'') (hex_char (of_char c div 16)) (hex_char (of_char c mod 16))
      = Some (of_char c)"
  proof -
    have "of_char c div 16 < (16::nat)"
      using nat_of_char_less_256 [of c] by (simp add: less_mult_imp_div_less)
    moreover have "hex_val (CHR ''0'') = Some 0" by (simp add: hex_val_def)
    ultimately show ?thesis by (simp add: hex4_def hex_val_hex_char)
  qed
  then show ?thesis
    by (auto simp: esc_char_def simple_escape_def)
qed

lemma parse_str_quote: "parse_str (concat (map esc_char s) @ CHR 0x22 # r) = Inr (s, r)"
  by (induction s) (simp_all add: parse_str_esc cons_char_def)

lemma parse_value_quote: "parse_value (Suc f) d (quote s @ r) = Inr (PStr s, r)"
  by (simp add: quote_def parse_str_quote)

subsection \<open>Reading back what was written\<close>

text \<open>Values the encoders write without loss: no floats, bounded integers and nesting.\<close>

function (sequential) json_ok :: "nat \<Rightarrow> pyval \<Rightarrow> bool" where
  "json_ok d (PInt n) = int_ok n"
| "json_ok d (PFloat f) = False"
| "json_ok d (PList xs) = (0 < d \<and> list_all (json_ok (d - 1)) xs)"
| "json_ok d (PDict m) =
     (0 < d \<and> distinct (map fst m) \<and> list_all (\<lambda>(k, v). json_ok (d - 1) v) m)"
| "json_ok d _ = True"
  by pat_completeness auto

termination json_ok
  by (relation "measure (size \<circ> snd)")
    (auto dest: size_pyval_dict size_list_estimation' [where f = size, OF _ order_refl])

text \<open>
  The same without the demand that the keys of an object differ, and the key that a reader
  meets a second time first: inside the members in their order, then among the keys.
\<close>

function (sequential) json_shape :: "nat \<Rightarrow> pyval \<Rightarrow> bool" where
  "json_shape d (PInt n) = int_ok n"
| "json_shape d (PFloat f) = False"
| "json_shape d (PList xs) = (0 < d \<and> list_all (json_shape (d - 1)) xs)"
| "json_shape d (PDict m) = (0 < d \<and> list_all (\<lambda>(k, v). json_shape (d - 1) v) m)"
| "json_shape d _ = True"
  by pat_completeness auto

termination json_shape
  by (relation "measure (size \<circ> snd)")
    (auto dest: size_pyval_dict size_list_estimation' [where f = size, OF _ order_refl])

fun first_some :: "'a option list \<Rightarrow> 'a option" where
  "first_some [] = None"
| "first_some (x # xs) = (case x of None \<Rightarrow> first_some xs | Some k \<Rightarrow> Some k)"

fun repeated :: "string set \<Rightarrow> string list \<Rightarrow> string option" where
  "repeated seen [] = None"
| "repeated seen (k # ks) = (if k \<in> seen then Some k else repeated (insert k seen) ks)"

function (sequential) first_dup :: "pyval \<Rightarrow> string option" where
  "first_dup (PList xs) = first_some (map first_dup xs)"
| "first_dup (PDict m) =
     (case first_some (map (\<lambda>(k, v). first_dup v) m) of None \<Rightarrow> repeated {} (map fst m) | Some k \<Rightarrow> Some k)"
| "first_dup _ = None"
  by pat_completeness auto

termination first_dup
  by (relation "measure size")
    (auto dest: size_pyval_dict size_list_estimation' [where f = size, OF _ order_refl])

lemma first_some_None: "first_some xs = None \<longleftrightarrow> (\<forall>x \<in> set xs. x = None)"
  by (induction xs) (auto split: option.splits)

lemma repeated_None: "repeated seen ks = None \<longleftrightarrow> distinct ks \<and> seen \<inter> set ks = {}"
  by (induction ks arbitrary: seen) auto

text \<open>Nothing repeats exactly in the values with distinct keys everywhere.\<close>

lemma first_dup_wf: "first_dup v = None \<longleftrightarrow> wf v"
proof (induction v)
  case (PDict m)
  have "(\<forall>x \<in> set (map (\<lambda>(k, v). first_dup v) m). x = None) \<longleftrightarrow> (\<forall>(k, v) \<in> set m. wf v)"
    using PDict by fastforce
  then show ?case
    by (simp add: first_some_None repeated_None wf_PDict split: option.split del: wf.simps set_map)
      (metis first_some_None not_None_eq)
qed (simp_all add: first_some_None list_all_iff)

lemma json_ok_shape: "json_ok d v \<longleftrightarrow> json_shape d v \<and> wf v"
proof (induction v arbitrary: d)
  case (PDict m)
  have "(\<forall>(k, v) \<in> set m. json_ok (d - 1) v) \<longleftrightarrow> (\<forall>(k, v) \<in> set m. json_shape (d - 1) v \<and> wf v)"
    using PDict by fastforce
  then show ?case by (auto simp: list_all_iff)
qed (auto simp: list_all_iff)

definition duplicate :: "string \<Rightarrow> exn" where
  "duplicate k = ValueError (''duplicate JSON field: '' @ k)"

lemma unique_repeated: "unique ps = (case repeated {} (map fst ps) of None \<Rightarrow> Inr ps | Some k \<Rightarrow> Inl (duplicate k))"
proof -
  have "foldE unique_add acc ps =
      (case repeated (fst ` set acc) (map fst ps) of None \<Rightarrow> Inr (acc @ ps) | Some k \<Rightarrow> Inl (duplicate k))" for acc
  proof (induction ps arbitrary: acc)
    case (Cons p ps)
    have "unique_add acc p = (if fst p \<in> fst ` set acc then Inl (duplicate (fst p)) else Inr (acc @ [p]))"
      by (simp add: unique_add_def duplicate_def)
    then show ?case by (simp add: Cons.IH split: option.split)
  qed simp
  from this [of "[]"] show ?thesis by (simp add: unique_def split: option.split)
qed

lemma unique_Inr: "unique ps = Inr m \<longleftrightarrow> distinct (map fst ps) \<and> m = ps"
  using repeated_None [of "{}" "map fst ps"] by (auto simp: unique_repeated split: option.splits)

lemma dumps_head: "json_shape d v \<Longrightarrow> \<exists>c cs. dumps fr v = c # cs \<and> \<not> is_ws c \<and> c \<noteq> CHR '']'' \<and> c \<noteq> CHR ''}''"
proof (cases v)
  case (PInt n)
  obtain c cs where s: "show_nat (nat n) = c # cs" by (cases "show_nat (nat n)") auto
  then have "is_digit c" using show_nat_digits [of c "nat n"] by simp
  then show ?thesis using s PInt by (auto simp: show_int_def is_ws_def is_digit_def)
qed (auto simp: is_ws_def quote_def)

lemma skip_ws_dumps: "json_shape d v \<Longrightarrow> skip_ws (dumps fr v @ r) = dumps fr v @ r"
  using dumps_head [of d v fr] by (auto simp: skip_ws_def)

lemma skip_ws_nonws: "\<not> is_ws c \<Longrightarrow> skip_ws (c # r) = c # r"
  by (simp add: skip_ws_def)

lemma is_ws_punct [simp]:
  "\<not> is_ws (CHR '','')" "\<not> is_ws (CHR '']'')" "\<not> is_ws (CHR ''}'')" "\<not> is_ws (CHR '':'')"
  "\<not> is_ws (CHR 0x22)" "\<not> is_ws (CHR ''['')" "\<not> is_ws (CHR ''{'')" "is_ws (CHR 0x0A)"
  by (simp_all add: is_ws_def)

text \<open>
  What the scanner makes of the text of one value, followed by anything that cannot go on a
  number: the value and the rest, or the complaint about its first repeated key.
\<close>

definition outcome :: "string option \<Rightarrow> 'a \<Rightarrow> 'a res" where
  "outcome dup x = (case dup of None \<Rightarrow> Inr x | Some k \<Rightarrow> Inl (duplicate k))"

lemma outcome_simps [simp]: "outcome None x = Inr x" "outcome (Some k) x = Inl (duplicate k)"
  by (simp_all add: outcome_def)

definition reads_back :: "(rat \<Rightarrow> string) \<Rightarrow> nat \<Rightarrow> pyval \<Rightarrow> bool" where
  "reads_back fr d v =
     (\<forall>f r. ends_number r \<longrightarrow> 2 * length (dumps fr v) \<le> f \<longrightarrow>
        parse_value f d (dumps fr v @ r) = outcome (first_dup v) (v, r))"

lemma reads_backD:
  "reads_back fr d v \<Longrightarrow> ends_number r \<Longrightarrow> 2 * length (dumps fr v) \<le> f \<Longrightarrow>
     parse_value f d (dumps fr v @ r) = outcome (first_dup v) (v, r)"
  by (simp add: reads_back_def)

lemma parse_elems_dumps:
  assumes "xs \<noteq> []" and "\<And>x. x \<in> set xs \<Longrightarrow> json_shape d x \<and> reads_back fr d x"
    and "2 * length (join '','' (map (dumps fr) xs)) < f"
  shows "parse_elems f d (join '','' (map (dumps fr) xs) @ CHR '']'' # r) = outcome (first_some (map first_dup xs)) (xs, r)"
  using assms
proof (induction xs arbitrary: f)
  case Nil
  then show ?case by simp
next
  case (Cons x xs)
  obtain g where f: "f = Suc g" using Cons.prems(3) by (cases f) auto
  have x: "reads_back fr d x" using Cons.prems(2) by simp
  show ?case
  proof (cases xs)
    case Nil
    with Cons.prems(3) f have "2 * length (dumps fr x) \<le> g" by simp
    with Nil f show ?thesis by (simp add: reads_backD [OF x] skip_ws_nonws split: option.split)
  next
    case (Cons y ys)
    have j: "join '','' (map (dumps fr) (x # xs)) = dumps fr x @ CHR '','' # join '','' (map (dumps fr) xs)"
      using Cons by simp
    with Cons.prems(3) f have len: "2 * length (dumps fr x) \<le> g"
      "2 * length (join '','' (map (dumps fr) xs)) < g" by simp_all
    obtain z where z: "join '','' (map (dumps fr) xs) = dumps fr y @ z"
      using Cons by (cases ys) auto
    have "json_shape d y" using Cons.prems(2) Cons by simp
    then have ws: "skip_ws (join '','' (map (dumps fr) xs) @ CHR '']'' # r)
        = join '','' (map (dumps fr) xs) @ CHR '']'' # r"
      using skip_ws_dumps [of d y fr] by (simp add: z)
    have IH: "parse_elems g d (join '','' (map (dumps fr) xs) @ CHR '']'' # r) = outcome (first_some (map first_dup xs)) (xs, r)"
      using Cons.IH [of g] Cons.prems(2) len(2) Cons by simp
    show ?thesis
      unfolding j f using reads_backD [OF x, of "CHR '','' # join '','' (map (dumps fr) xs) @ CHR '']'' # r" g] len(1) ws IH
      by (simp add: skip_ws_nonws split: option.split) (simp add: outcome_def split: option.split)
  qed
qed

definition member_text :: "(rat \<Rightarrow> string) \<Rightarrow> string \<times> pyval \<Rightarrow> string" where
  "member_text fr = (\<lambda>(k, v). quote k @ CHR '':'' # dumps fr v)"

definition member_dups :: "(string \<times> pyval) list \<Rightarrow> string option" where
  "member_dups m = first_some (map (\<lambda>(k, v). first_dup v) m)"

lemma member_dups_simps [simp]:
  "member_dups [] = None"
  "member_dups ((k, v) # m) = (case first_dup v of None \<Rightarrow> member_dups m | Some k \<Rightarrow> Some k)"
  by (auto simp: member_dups_def split: option.split)

lemma parse_members_dumps:
  assumes "m \<noteq> []" and "\<And>k v. (k, v) \<in> set m \<Longrightarrow> json_shape d v \<and> reads_back fr d v"
    and "2 * length (join '','' (map (member_text fr) m)) < f"
  shows "parse_members f d (join '','' (map (member_text fr) m) @ CHR ''}'' # r) = outcome (member_dups m) (m, r)"
  using assms
proof (induction m arbitrary: f)
  case Nil
  then show ?case by simp
next
  case (Cons p m)
  obtain k v where p: "p = (k, v)" by (cases p)
  obtain g where f: "f = Suc g" using Cons.prems(3) by (cases f) auto
  have v: "reads_back fr d v" "json_shape d v" using Cons.prems(2) [of k v] p by simp_all
  have q: "parse_members (Suc g) d (member_text fr p @ c # t) =
      bindE (parse_value g d (dumps fr v @ c # t)) (\<lambda>(v, r).
              case skip_ws r of [] \<Rightarrow> Inl json_err
              | c # r2 \<Rightarrow>
                  if c = CHR ''}'' then Inr ([(k, v)], r2)
                  else if c = CHR '','' then
                    bindE (parse_members g d (skip_ws r2)) (\<lambda>(ps, r3). Inr ((k, v) # ps, r3))
                  else Inl json_err)" for c t
    using skip_ws_dumps [OF v(2), of fr]
    by (simp add: member_text_def p quote_def parse_str_quote skip_ws_nonws)
  show ?case
  proof (cases m)
    case Nil
    with Cons.prems(3) f p have "2 * length (dumps fr v) \<le> g" by (simp add: member_text_def)
    with Nil f show ?thesis
      using q [of "CHR ''}''" r]
      by (simp add: reads_backD [OF v(1)] skip_ws_nonws p del: parse_members.simps split: option.split)
  next
    case (Cons p' m')
    let ?J = "join '','' (map (member_text fr) m)"
    have j: "join '','' (map (member_text fr) (p # m)) = member_text fr p @ CHR '','' # ?J"
      using Cons by simp
    with Cons.prems(3) f p have len: "2 * length (dumps fr v) \<le> g" "2 * length ?J < g"
      by (simp_all add: member_text_def)
    obtain z where "?J = CHR 0x22 # z"
      using Cons by (cases p'; cases m') (auto simp: member_text_def quote_def)
    then have ws: "skip_ws (?J @ CHR ''}'' # r) = ?J @ CHR ''}'' # r"
      by (simp add: skip_ws_nonws)
    have IH: "parse_members g d (?J @ CHR ''}'' # r) = outcome (member_dups m) (m, r)"
      by (rule Cons.IH) (use Cons Cons.prems(2) len(2) in auto)
    show ?thesis
      unfolding j f using q [of "CHR '',''" "?J @ CHR ''}'' # r"] len(1) ws IH
      by (cases "first_dup v"; cases "member_dups m") (simp_all add: reads_backD [OF v(1)] skip_ws_nonws p del: parse_members.simps)
  qed
qed

lemma dumps_PDict: "dumps fr (PDict m) = CHR ''{'' # join '','' (map (member_text fr) m) @ ''}''"
  by (simp add: member_text_def)

theorem parse_value_dumps: "json_shape d v \<Longrightarrow> reads_back fr d v"
proof (induction v arbitrary: d)
  case (PBool b)
  show ?case unfolding reads_back_def
  proof (intro allI impI)
    fix f r assume "2 * length (dumps fr (PBool b)) \<le> f"
    then obtain g where "f = Suc g" by (cases f) (auto split: if_splits)
    then show "parse_value f d (dumps fr (PBool b) @ r) = outcome (first_dup (PBool b)) (PBool b, r)"
      by (simp add: startswith_code)
  qed
next
  case PNone
  show ?case unfolding reads_back_def
  proof (intro allI impI)
    fix f r assume "2 * length (dumps fr PNone) \<le> f"
    then obtain g where "f = Suc g" by (cases f) auto
    then show "parse_value f d (dumps fr PNone @ r) = outcome (first_dup PNone) (PNone, r)"
      by (simp add: startswith_code)
  qed
next
  case (PInt n)
  show ?case unfolding reads_back_def
  proof (intro allI impI)
    fix f r assume r: "ends_number r" and f: "2 * length (dumps fr (PInt n)) \<le> f"
    obtain c cs where s: "show_int n = c # cs"
      and c: "is_digit c \<or> (c = CHR ''-'' \<and> cs \<noteq> [] \<and> is_digit (hd cs))"
      by (rule show_int_head)
    then obtain g where g: "f = Suc g" using f by (cases f) auto
    have no: "c \<noteq> CHR 0x22" "c \<noteq> CHR ''{''" "c \<noteq> CHR ''[''" "c \<noteq> CHR ''n''" "c \<noteq> CHR ''t''"
      "c \<noteq> CHR ''f''" "c \<noteq> CHR ''N''" "c \<noteq> CHR ''I''"
      using c by (auto simp: is_digit_def)
    have "\<not> startswith (show_int n @ r) ''-Infinity''"
      using c s by (cases cs) (auto simp: startswith_def is_digit_def)
    then show "parse_value f d (dumps fr (PInt n) @ r) = outcome (first_dup (PInt n)) (PInt n, r)"
      using no s g parse_number_show_int [OF r, of n] PInt
      by (simp add: startswith_def)
  qed
next
  case (PFloat x)
  then show ?case by simp
next
  case (PStr s)
  show ?case unfolding reads_back_def
  proof (intro allI impI)
    fix f r assume "2 * length (dumps fr (PStr s)) \<le> f"
    then obtain g where "f = Suc g" by (cases f) (auto simp: quote_def)
    then show "parse_value f d (dumps fr (PStr s) @ r) = outcome (first_dup (PStr s)) (PStr s, r)"
      using parse_value_quote by (simp del: parse_value.simps)
  qed
next
  case (PList xs)
  from PList.prems have d: "0 < d" and ok: "\<And>x. x \<in> set xs \<Longrightarrow> json_shape (d - 1) x"
    by (auto simp: list_all_iff)
  show ?case unfolding reads_back_def
  proof (intro allI impI)
    fix f r assume f: "2 * length (dumps fr (PList xs)) \<le> f"
    then obtain g where g: "f = Suc g" by (cases f) auto
    show "parse_value f d (dumps fr (PList xs) @ r) = outcome (first_dup (PList xs)) (PList xs, r)"
    proof (cases xs)
      case Nil
      with d g show ?thesis by (simp add: skip_ws_nonws)
    next
      case (Cons x ys)
      let ?J = "join '','' (map (dumps fr) xs)"
      obtain c cs where c: "?J = c # cs" "\<not> is_ws c" "c \<noteq> CHR '']''"
        using dumps_head [OF ok [of x], of fr] Cons by (cases ys) auto
      have "parse_elems g (d - 1) (?J @ CHR '']'' # r) = outcome (first_some (map first_dup xs)) (xs, r)"
        using Cons f g ok PList.IH by (intro parse_elems_dumps) auto
      with c d g show ?thesis by (cases "first_some (map first_dup xs)") (simp_all add: skip_ws_nonws)
    qed
  qed
next
  case (PDict m)
  from PDict.prems have d: "0 < d" and ok: "\<And>k v. (k, v) \<in> set m \<Longrightarrow> json_shape (d - 1) v"
    by (auto simp: list_all_iff)
  have dup: "first_dup (PDict m) = (case member_dups m of None \<Rightarrow> repeated {} (map fst m) | Some k \<Rightarrow> Some k)"
    by (simp add: member_dups_def)
  show ?case unfolding reads_back_def
  proof (intro allI impI)
    fix f r assume f: "2 * length (dumps fr (PDict m)) \<le> f"
    then obtain g where g: "f = Suc g" by (cases f) auto
    show "parse_value f d (dumps fr (PDict m) @ r) = outcome (first_dup (PDict m)) (PDict m, r)"
    proof (cases m)
      case Nil
      with d g show ?thesis by (simp add: skip_ws_nonws)
    next
      case (Cons p m')
      let ?J = "join '','' (map (member_text fr) m)"
      obtain cs where c: "?J = CHR 0x22 # cs"
        using Cons by (cases p; cases m') (auto simp: member_text_def quote_def)
      have IH: "json_shape (d - 1) v \<and> reads_back fr (d - 1) v" if "(k, v) \<in> set m" for k v
        using PDict.IH [OF that] ok [OF that] by simp
      have e: "parse_members g (d - 1) (?J @ CHR ''}'' # r) = outcome (member_dups m) (m, r)"
        using Cons f g IH by (intro parse_members_dumps) (auto simp: dumps_PDict simp del: dumps.simps)
      have "parse_value (Suc g) d (dumps fr (PDict m) @ r) =
          bindE (parse_members g (d - 1) (?J @ CHR ''}'' # r)) (\<lambda>(ps, r). bindE (unique ps) (\<lambda>m. Inr (PDict m, r)))"
        using c d by (simp add: dumps_PDict skip_ws_nonws del: dumps.simps)
      then show ?thesis unfolding g e dup unique_repeated
        by (cases "member_dups m"; cases "repeated {} (map fst m)") simp_all
    qed
  qed
qed

subsection \<open>Whole documents\<close>

definition printable :: "char \<Rightarrow> bool" where
  "printable c = (32 \<le> (of_char c :: nat) \<and> (of_char c :: nat) \<le> 126)"

lemma printable_show_nat: "c \<in> set (show_nat n) \<Longrightarrow> printable c"
  by (drule show_nat_digits) (simp add: printable_def is_digit_def)

lemma printable_show_int: "c \<in> set (show_int n) \<Longrightarrow> printable c"
  by (auto simp: show_int_def printable_show_nat split: if_splits) (simp add: printable_def)

lemma printable_hex_char: "n < 16 \<Longrightarrow> printable (hex_char n)"
  by (simp add: printable_def hex_char_def)

lemma printable_esc_char: "x \<in> set (esc_char c) \<Longrightarrow> printable x"
proof -
  have "of_char c div 16 < (16::nat)"
    using nat_of_char_less_256 [of c] by (simp add: less_mult_imp_div_less)
  then show "x \<in> set (esc_char c) \<Longrightarrow> printable x"
    by (auto simp: esc_char_def printable_hex_char split: if_splits) (simp_all add: printable_def)
qed

lemma printable_quote: "x \<in> set (quote s) \<Longrightarrow> printable x"
  by (auto simp: quote_def printable_esc_char) (simp_all add: printable_def)

lemma set_join: "set (join sep xs) \<subseteq> set sep \<union> \<Union> (set ` set xs)"
  by (induction sep xs rule: join.induct) auto

lemma printable_dumps: "json_shape d v \<Longrightarrow> x \<in> set (dumps fr v) \<Longrightarrow> printable x"
proof (induction v arbitrary: d x)
  case (PList xs)
  have p: "printable (CHR ''['')" "printable (CHR '']'')" "printable (CHR '','')"
    by (simp_all add: printable_def)
  from PList.prems(2) consider "x \<in> {CHR ''['', CHR '']'', CHR '',''}"
    | v where "v \<in> set xs" "x \<in> set (dumps fr v)"
    using set_join [of "'','' " "map (dumps fr) xs"] set_join [of "'',''" "map (dumps fr) xs"] by auto
  then show ?case
  proof cases
    case 1
    then show ?thesis using p by auto
  next
    case 2
    then show ?thesis using PList.IH [of v "d - 1" x] PList.prems(1) by (auto simp: list_all_iff)
  qed
next
  case (PDict m)
  have p: "printable (CHR ''{'')" "printable (CHR ''}'')" "printable (CHR '','')" "printable (CHR '':'')"
    by (simp_all add: printable_def)
  from PDict.prems(2) consider "x \<in> {CHR ''{'', CHR ''}'', CHR '','', CHR '':''}"
    | k v where "(k, v) \<in> set m" "x \<in> set (quote k) \<union> set (dumps fr v)"
    using set_join [of "'',''" "map (member_text fr) m"]
    by (fastforce simp: dumps_PDict member_text_def simp del: dumps.simps)
  then show ?case
  proof cases
    case 1
    then show ?thesis using p by auto
  next
    case 2
    then show ?thesis
      using PDict.IH [of "(k, v)" v "d - 1" x] PDict.prems(1) by (auto simp: list_all_iff printable_quote)
  qed
qed (auto simp: printable_show_int printable_quote split: if_splits, simp_all add: printable_def)

definition ascii_text :: "string \<Rightarrow> bool" where
  "ascii_text s = (\<forall>c \<in> set s. 0 < (of_char c :: nat) \<and> (of_char c :: nat) < 128)"

lemma utf8_ascii: "ascii_text s \<Longrightarrow> utf8 s = Inr s"
  by (induction s) (simp_all add: ascii_text_def)

lemma bytes_text_ascii:
  assumes "ascii_text s"
  shows "bytes_text s = Inr s"
proof -
  have nul: "CHR 0x00 \<notin> set s" and hi: "\<And>c. 128 \<le> (of_char c :: nat) \<Longrightarrow> c \<notin> set s"
    using assms by (auto simp: ascii_text_def)
  have no: "\<not> startswith s (c # cs)" if "128 \<le> (of_char c :: nat)" for c cs
    using hi [OF that] by (auto simp: startswith_def prefix_def)
  have nz: "s ! i \<noteq> CHR 0x00" if "i < length s" for i
    using nul that by (metis nth_mem)
  have "\<not> wide_encoding s"
    using nz [of 0] nz [of 1] no
    by (cases s; cases "tl s") (auto simp: wide_encoding_def)
  then show ?thesis by (simp add: bytes_text_def no utf8_ascii [OF assms])
qed

lemma ascii_text_dumps: "json_shape d v \<Longrightarrow> ascii_text (dumps fr v)"
  using printable_dumps [of d v _ fr] by (fastforce simp: ascii_text_def printable_def)

lemma loads_dumps:
  assumes ok: "json_shape json_depth v" and r: "r = [] \<or> r = [CHR 0x0A]"
  shows "loads (dumps fr v @ r) = outcome (first_dup v) v"
proof -
  have e: "ends_number r" and ws: "skip_ws r = []" using r by (auto simp: skip_ws_def)
  have "parse_value (2 * length (dumps fr v @ r) + 2) json_depth (dumps fr v @ r) = outcome (first_dup v) (v, r)"
    by (rule reads_backD [OF parse_value_dumps [OF ok] e]) simp
  then show ?thesis
    by (cases "first_dup v") (simp_all add: loads_def skip_ws_dumps [OF ok] ws)
qed

lemma decode_dumps:
  assumes "json_shape json_depth v" and "r = [] \<or> r = [CHR 0x0A]" and "length (dumps fr v @ r) \<le> limit"
  shows "decode (dumps fr v @ r) limit = outcome (first_dup v) v"
proof -
  have "ascii_text (dumps fr v @ r)"
    using ascii_text_dumps [OF assms(1), of fr] assms(2) by (auto simp: ascii_text_def)
  then show ?thesis
    using assms(3) loads_dumps [OF assms(1,2), of fr] by (simp add: decode_def bytes_text_ascii)
qed

lemma decode_enc:
  assumes "json_ok json_depth v" and "length (encode fr v) \<le> limit"
  shows "decode (encode fr v) limit = Inr v"
  using decode_dumps [of v "[CHR 0x0A]" fr limit] assms first_dup_wf [of v] by (simp add: json_ok_shape encode_def)

lemma decode_line:
  assumes "json_ok json_depth v" and "length (dumps fr v) \<le> limit"
  shows "decode (dumps fr v) limit = Inr v"
  using decode_dumps [of v "[]" fr limit] assms first_dup_wf [of v] by (simp add: json_ok_shape)

lemma decode_limit: "decode raw limit = Inr v \<Longrightarrow> length raw \<le> limit"
  by (simp add: decode_def require_Inr)

text \<open>The encoders never write a raw newline inside a document.\<close>

lemma newline_not_in_dumps: "json_ok d v \<Longrightarrow> CHR 0x0A \<notin> set (dumps fr v)"
  using printable_dumps [of d v "CHR 0x0A" fr] by (auto simp: printable_def json_ok_shape)

subsection \<open>One step of the scanner\<close>

text \<open>
  The shape of one unfolding of each scanner function.  The facts below about whole
  documents (no duplicate keys, input consumed, fuel) are inductions over these.
\<close>

lemma length_skip_ws: "length (skip_ws s) \<le> length s"
  by (simp add: skip_ws_def length_dropWhile_le)

lemma skip_ws_Cons_length: "skip_ws s = c # r \<Longrightarrow> length r < length s"
  using length_skip_ws [of s] by simp

lemma parse_str_step:
  "(\<exists>e. parse_str (c # cs) = Inl e \<and> e \<noteq> OutOfFuel) \<or> parse_str (c # cs) = Inr ([], cs) \<or>
   (\<exists>x es. length es \<le> length cs \<and> parse_str (c # cs) = cons_char x (parse_str es))"
proof -
  consider (quote) "c = CHR 0x22" | (esc) "c = CHR 0x5C" | (plain) "c \<noteq> CHR 0x22" "c \<noteq> CHR 0x5C"
    by blast
  then show ?thesis
  proof cases
    case esc
    show ?thesis
    proof (cases cs)
      case (Cons e es)
      show ?thesis
      proof (cases "e = CHR ''u''")
        case True
        show ?thesis
        proof (cases "\<exists>w x y z r. es = w # x # y # z # r")
          case True
          then obtain w x y z r where "es = w # x # y # z # r" by blast
          then show ?thesis
            using esc Cons \<open>e = CHR ''u''\<close>
            by (cases "hex4 w x y z") (auto simp: json_err_def intro!: exI [of _ r])
        next
          case False
          then show ?thesis using esc Cons \<open>e = CHR ''u''\<close>
            by (auto simp: json_err_def split: list.splits)
        qed
      next
        case False
        then show ?thesis using esc Cons
          by (cases "simple_escape e") (auto simp: json_err_def intro!: exI [of _ es])
      qed
    qed (simp add: esc json_err_def)
  qed (auto simp: json_err_def)
qed

declare parse_str.simps(2) [simp del]

lemma parse_str_length: "parse_str s = Inr (t, r) \<Longrightarrow> length r < length s"
proof (induction s arbitrary: t rule: length_induct)
  case (1 s)
  show ?case
  proof (cases s)
    case (Cons c cs)
    from parse_str_step [of c cs] 1(2) Cons consider (stop) "r = cs"
      | (more) t' es where "length es \<le> length cs" "parse_str es = Inr (t', r)"
      by (auto simp: cons_char_def bindE_Inr Inr_bindE)
    then show ?thesis
    proof cases
      case more
      with 1(1) Cons have "length r < length es" by simp
      with more Cons show ?thesis by simp
    qed (simp add: Cons)
  qed (use 1 in simp)
qed

lemma parse_str_fuel: "parse_str s \<noteq> Inl OutOfFuel"
proof (induction s rule: length_induct)
  case (1 s)
  show ?case
  proof (cases s)
    case (Cons c cs)
    with 1 have "parse_str es \<noteq> Inl OutOfFuel" if "length es \<le> length cs" for es
      using that by simp
    with parse_str_step [of c cs] Cons show ?thesis by (auto simp: cons_char_def bindE_Inl)
  qed (simp add: json_err_def)
qed

text \<open>An atom: an error of the scanner, or a value that consumed some of the text.\<close>

definition atomic_result :: "nat \<Rightarrow> (pyval \<times> string) res \<Rightarrow> bool" where
  "atomic_result n m = (case m of Inl e \<Rightarrow> e \<noteq> OutOfFuel | Inr (v, r) \<Rightarrow> wf v \<and> length r < n)"

lemma atomic_result_simps [simp]:
  "atomic_result n (Inl e) = (e \<noteq> OutOfFuel)"
  "atomic_result n (Inr (v, r)) = (wf v \<and> length r < n)"
  by (simp_all add: atomic_result_def)

lemma number_tail_atomic: "length s < n \<Longrightarrow> atomic_result n (number_tail neg ds s)"
proof -
  assume n: "length s < n"
  have frac: "length r1 \<le> length s" if "read_fraction s = Some (fs, r1)" for fs r1
    using that le_SucI [OF length_dropWhile_le] by (auto simp: read_fraction_def split: list.splits if_splits)
  have ex: "length r1 \<le> length t" if "read_exponent t = Some (x, r1)" for t x r1
  proof (cases t)
    case (Cons c u)
    define r0 where "r0 = (case u of [] \<Rightarrow> [] | x # xs \<Rightarrow> if x = CHR ''-'' \<or> x = CHR ''+'' then xs else u)"
    have "length r0 \<le> length u" by (auto simp: r0_def split: list.splits)
    moreover have "r1 = dropWhile is_digit r0"
      using that Cons by (auto simp: read_exponent_def Let_def r0_def split: if_splits)
    ultimately show ?thesis using Cons length_dropWhile_le [of is_digit r0] by simp
  qed (use that in \<open>simp add: read_exponent_def\<close>)
  show ?thesis
  proof (cases "read_fraction s")
    case None
    then show ?thesis using n ex [of s]
      by (cases "read_exponent s") (auto simp: number_tail_def)
  next
    case (Some p)
    then obtain fs r1 where p: "read_fraction s = Some (fs, r1)" by (cases p) auto
    then show ?thesis using n frac [OF p] ex [of r1]
      by (cases "read_exponent r1") (auto simp: number_tail_def)
  qed
qed

lemma parse_number_atomic: "atomic_result (length s) (parse_number s)"
proof -
  have step: "atomic_result (length s)
      (case t of [] \<Rightarrow> Inl json_err
         | c # cs \<Rightarrow>
             if c = CHR ''0'' then number_tail neg ''0'' cs
             else if is_digit c then number_tail neg (takeWhile is_digit t) (dropWhile is_digit t)
             else Inl json_err)" if t: "length t \<le> length s" for t neg
  proof (cases t)
    case (Cons c cs)
    have "length (dropWhile is_digit t) < length s" if "is_digit c"
      using that Cons t length_dropWhile_le [of is_digit cs] by simp
    with Cons t show ?thesis
      by (auto simp: json_err_def intro!: number_tail_atomic simp del: dropWhile.simps)
  qed (simp add: json_err_def)
  have "length (if b then tl s else s) \<le> length s" for b by simp
  from step [OF this] show ?thesis unfolding parse_number_def Let_def .
qed

lemma startswith_drop: "startswith s p \<Longrightarrow> p \<noteq> [] \<Longrightarrow> n = length p \<Longrightarrow> length (drop n s) < length s"
  by (auto simp: startswith_def prefix_def)

lemma parse_value_step:
  "atomic_result (length (c # cs)) (parse_value (Suc f) d (c # cs)) \<or>
   (\<exists>c1 r1. skip_ws cs = c1 # r1 \<and> 0 < d \<and> parse_value (Suc f) d (c # cs) =
      bindE (parse_members f (d - 1) (c1 # r1)) (\<lambda>(ps, r). bindE (unique ps) (\<lambda>m. Inr (PDict m, r)))) \<or>
   (\<exists>c1 r1. skip_ws cs = c1 # r1 \<and> 0 < d \<and> parse_value (Suc f) d (c # cs) =
      bindE (parse_elems f (d - 1) (c1 # r1)) (\<lambda>(vs, r). Inr (PList vs, r)))"
proof -
  consider (str) "c = CHR 0x22" | (obj) "c = CHR ''{''" | (arr) "c = CHR ''[''"
    | (other) "c \<noteq> CHR 0x22" "c \<noteq> CHR ''{''" "c \<noteq> CHR ''[''"
    by blast
  then show ?thesis
  proof cases
    case str
    then show ?thesis
      using parse_str_length [of cs] parse_str_fuel [of cs] by (cases "parse_str cs") auto
  next
    case obj
    then show ?thesis
      using skip_ws_Cons_length [of cs] by (cases "skip_ws cs") (auto simp: json_err_def less_SucI)
  next
    case arr
    then show ?thesis
      using skip_ws_Cons_length [of cs] by (cases "skip_ws cs") (auto simp: json_err_def less_SucI)
  next
    case other
    have "atomic_result (length (c # cs)) (parse_value (Suc f) d (c # cs))"
      using parse_number_atomic [of "c # cs"] startswith_drop [of "c # cs" "''null''" 4]
        startswith_drop [of "c # cs" "''true''" 4] startswith_drop [of "c # cs" "''false''" 5] other
      by (simp del: length_drop drop_Cons_numeral)
    then show ?thesis ..
  qed
qed

definition elems_tail :: "nat \<Rightarrow> nat \<Rightarrow> pyval \<Rightarrow> string \<Rightarrow> (pyval list \<times> string) res \<Rightarrow> bool" where
  "elems_tail f d v t m =
     ((\<exists>e. m = Inl e \<and> e \<noteq> OutOfFuel) \<or>
      (\<exists>r. length r < length t \<and> m = Inr ([v], r)) \<or>
      (\<exists>u. length u < length t \<and> m = bindE (parse_elems f d u) (\<lambda>(vs, r2). Inr (v # vs, r2))))"

lemma parse_elems_step:
  "(\<exists>e. parse_value f d s = Inl e \<and> parse_elems (Suc f) d s = Inl e) \<or>
   (\<exists>v t. parse_value f d s = Inr (v, t) \<and> elems_tail f d v t (parse_elems (Suc f) d s))"
proof (cases "parse_value f d s")
  case (Inr p)
  obtain v t where p: "p = (v, t)" by (cases p)
  have "elems_tail f d v t (parse_elems (Suc f) d s)"
  proof (cases "skip_ws t")
    case (Cons c r1)
    then have "length (skip_ws r1) < length t"
      using skip_ws_Cons_length [OF Cons] length_skip_ws [of r1] by simp
    then show ?thesis using Cons skip_ws_Cons_length [OF Cons] Inr p
      by (auto simp: elems_tail_def json_err_def)
  qed (simp add: Inr p elems_tail_def json_err_def)
  with Inr p show ?thesis by blast
qed simp

definition members_tail ::
    "nat \<Rightarrow> nat \<Rightarrow> string \<Rightarrow> pyval \<Rightarrow> string \<Rightarrow> ((string \<times> pyval) list \<times> string) res \<Rightarrow> bool" where
  "members_tail f d k v t m =
     ((\<exists>e. m = Inl e \<and> e \<noteq> OutOfFuel) \<or>
      (\<exists>r. length r < length t \<and> m = Inr ([(k, v)], r)) \<or>
      (\<exists>u. length u < length t \<and> m = bindE (parse_members f d u) (\<lambda>(ps, r2). Inr ((k, v) # ps, r2))))"

lemma parse_members_step:
  "(\<exists>e. parse_members (Suc f) d s = Inl e \<and> e \<noteq> OutOfFuel) \<or>
   (\<exists>u. length u < length s \<and>
      ((\<exists>e. parse_value f d u = Inl e \<and> parse_members (Suc f) d s = Inl e) \<or>
       (\<exists>k v t. parse_value f d u = Inr (v, t) \<and> members_tail f d k v t (parse_members (Suc f) d s))))"
proof (cases s)
  case (Cons q s1)
  show ?thesis
  proof (cases "q = CHR 0x22")
    case True
    show ?thesis
    proof (cases "parse_str s1")
      case (Inl e)
      then show ?thesis using Cons True parse_str_fuel [of s1] by auto
    next
      case (Inr p)
      obtain k r0 where p: "p = (k, r0)" by (cases p)
      have r0: "length r0 < length s1" using parse_str_length [of s1 k r0] Inr p by simp
      show ?thesis
      proof (cases "skip_ws r0")
        case Nil
        then show ?thesis using Cons True Inr p by (simp add: json_err_def)
      next
        case col: (Cons col r1)
        let ?u = "skip_ws r1"
        have u: "length ?u < length s"
          using r0 skip_ws_Cons_length [OF col] length_skip_ws [of r1] Cons by simp
        show ?thesis
        proof (cases "col = CHR '':''")
          case colon: True
          show ?thesis
          proof (cases "parse_value f d ?u")
            case (Inl e)
            then have "parse_members (Suc f) d s = Inl e" using Cons True Inr p col colon
              by simp
            with Inl u show ?thesis by blast
          next
            case val: (Inr w)
            obtain v t where w: "w = (v, t)" by (cases w)
            have "members_tail f d k v t (parse_members (Suc f) d s)"
            proof (cases "skip_ws t")
              case Nil
              then show ?thesis using Cons True Inr p col colon val w
                by (simp add: members_tail_def json_err_def)
            next
              case sep: (Cons c r2)
              then have "length (skip_ws r2) < length t"
                using skip_ws_Cons_length [OF sep] length_skip_ws [of r2] by simp
              then show ?thesis using Cons True Inr p col colon val w sep skip_ws_Cons_length [OF sep]
                by (auto simp: members_tail_def json_err_def)
            qed
            with u val w show ?thesis by blast
          qed
        next
          case False
          then show ?thesis using Cons True Inr p col by (simp add: json_err_def)
        qed
      qed
    qed
  next
    case False
    then show ?thesis using Cons by (simp add: json_err_def)
  qed
qed (simp add: json_err_def)

subsection \<open>Every value read is a Python value without duplicate keys\<close>

declare parse_value.simps(2) [simp del] parse_elems.simps(2) [simp del] parse_members.simps(2) [simp del]

lemma parse_consumes:
  "parse_value f d s = Inr (v, r) \<Longrightarrow> wf v \<and> length r < length s"
  "parse_elems f d s = Inr (vs, r) \<Longrightarrow> (\<forall>v \<in> set vs. wf v) \<and> length r < length s"
  "parse_members f d s = Inr (ps, r) \<Longrightarrow> (\<forall>(k, v) \<in> set ps. wf v) \<and> length r < length s"
proof (induction f arbitrary: d s v r vs ps)
  case (Suc f)
  {
    case 1
    show ?case
    proof (cases s)
      case Nil
      with 1 show ?thesis by (simp add: parse_value.simps(2))
    next
      case (Cons c cs)
      have len: "length (c1 # r1) < length s" if "skip_ws cs = c1 # r1" for c1 r1
        using skip_ws_Cons_length [OF that] Cons by simp
      from parse_value_step [of c cs f d] 1 Cons
      consider (atom) "wf v" "length r < length s"
        | (obj) c1 r1 ps where "skip_ws cs = c1 # r1" "parse_members f (d - 1) (c1 # r1) = Inr (ps, r)"
            "distinct (map fst ps)" "v = PDict ps"
        | (arr) c1 r1 vs where "skip_ws cs = c1 # r1" "parse_elems f (d - 1) (c1 # r1) = Inr (vs, r)"
            "v = PList vs"
        by (auto simp: bindE_Inr Inr_bindE unique_Inr)
      then show ?thesis
      proof cases
        case obj
        then show ?thesis using Suc.IH(3) [OF obj(2)] len [OF obj(1)] by (auto simp: wf_PDict simp del: wf.simps)
      next
        case arr
        then show ?thesis using Suc.IH(2) [OF arr(2)] len [OF arr(1)] by (auto simp: wf_PList simp del: wf.simps)
      qed simp
    qed
  next
    case 2
    with parse_elems_step [of f d s] obtain v t
      where v: "parse_value f d s = Inr (v, t)" and tail: "elems_tail f d v t (Inr (vs, r))" by auto
    from tail consider "vs = [v]" "length r < length t"
      | u us where "length u < length t" "parse_elems f d u = Inr (us, r)" "vs = v # us"
      by (auto simp: elems_tail_def Inr_bindE)
    then show ?case using Suc.IH(1) [OF v] Suc.IH(2) by cases fastforce+
  next
    case 3
    with parse_members_step [of f d s] obtain u k v t
      where u: "length u < length s" and v: "parse_value f d u = Inr (v, t)"
        and tail: "members_tail f d k v t (Inr (ps, r))" by auto
    from tail consider "ps = [(k, v)]" "length r < length t"
      | w us where "length w < length t" "parse_members f d w = Inr (us, r)" "ps = (k, v) # us"
      by (auto simp: members_tail_def Inr_bindE)
    then show ?case using Suc.IH(1) [OF v] Suc.IH(3) u by cases fastforce+
  }
qed simp_all

theorem loads_wf: "loads s = Inr v \<Longrightarrow> wf v"
  by (auto simp: loads_def bindE_Inr require_Inr dest: parse_consumes(1))

theorem decode_wf: "decode raw limit = Inr v \<Longrightarrow> wf v"
  by (auto simp: decode_def bindE_Inr require_Inr dest: loads_wf)

lemma decode_text_wf: "decode_text s limit = Inr v \<Longrightarrow> wf v"
  by (auto simp: decode_text_def require_Inr dest: loads_wf)

subsection \<open>The fuel is enough\<close>

lemma parse_fuel:
  "2 * length s < f \<Longrightarrow> parse_value f d s \<noteq> Inl OutOfFuel"
  "2 * length s + 1 < f \<Longrightarrow> parse_elems f d s \<noteq> Inl OutOfFuel"
  "2 * length s + 1 < f \<Longrightarrow> parse_members f d s \<noteq> Inl OutOfFuel"
proof (induction f arbitrary: d s)
  case (Suc f)
  have uniq: "unique ps \<noteq> Inl OutOfFuel" for ps
  proof -
    have "foldE unique_add acc ps \<noteq> Inl OutOfFuel" for acc
      by (induction ps arbitrary: acc) (auto simp: bindE_Inl unique_add_def require_Inl)
    then show ?thesis by (simp add: unique_def)
  qed
  {
    case 1
    show ?case
    proof (cases s)
      case Nil
      then show ?thesis by (simp add: json_err_def parse_value.simps(2))
    next
      case (Cons c cs)
      have "2 * length (c1 # r1) + 1 < f" if "skip_ws cs = c1 # r1" for c1 r1
        using skip_ws_Cons_length [OF that] Cons 1 by simp
      with parse_value_step [of c cs f d] Cons Suc.IH(2,3) uniq show ?thesis
        by (elim disjE exE conjE)
          (auto simp: bindE_Inl atomic_result_def simp del: parse_value.simps split: sum.splits)
    qed
  next
    case 2
    show ?case
    proof (cases "parse_value f d s")
      case (Inl e)
      with parse_elems_step [of f d s] Suc.IH(1) [of s d] 2 show ?thesis by auto
    next
      case (Inr p)
      obtain v t where p: "p = (v, t)" by (cases p)
      have "parse_elems f d u \<noteq> Inl OutOfFuel" if "length u < length t" for u
        using Suc.IH(2) [of u d] that parse_consumes(1) [of f d s v t] Inr p 2 by simp
      with parse_elems_step [of f d s] Inr p show ?thesis
        by (auto simp: elems_tail_def bindE_Inl)
    qed
  next
    case 3
    have val: "parse_value f d u \<noteq> Inl OutOfFuel" if "length u < length s" for u
      using Suc.IH(1) [of u d] that 3 by simp
    have rest: "parse_members f d w \<noteq> Inl OutOfFuel"
      if "parse_value f d u = Inr (v, t)" "length w < length t" "length u < length s" for v t u w
      using Suc.IH(3) [of w d] parse_consumes(1) [OF that(1)] that(2,3) 3 by simp
    from parse_members_step [of f d s] val rest show ?case
      by (auto simp: members_tail_def bindE_Inl)
  }
qed simp_all

theorem loads_fuel: "loads s \<noteq> Inl OutOfFuel"
proof -
  have "2 * length (skip_ws s) < 2 * length s + 2" using length_skip_ws [of s] by simp
  then show ?thesis
    using parse_fuel(1) [of "skip_ws s" "2 * length s + 2" json_depth]
    by (auto simp: loads_def bindE_Inl require_Inl)
qed

theorem decode_fuel: "decode raw limit \<noteq> Inl OutOfFuel"
proof -
  have "utf8 s \<noteq> Inl OutOfFuel" for s
    by (induction s rule: utf8.induct) (auto simp: bindE_Inl split: list.splits)
  then show ?thesis using loads_fuel
    by (auto simp: decode_def bindE_Inl require_Inl bytes_text_def)
qed

subsection \<open>Sizes\<close>

lemma int_ok_small: "\<bar>n\<bar> < 10 ^ 18 \<Longrightarrow> int_ok n"
proof -
  assume "\<bar>n\<bar> < 10 ^ 18"
  moreover have "(10 :: int) ^ 18 \<le> 10 ^ int_digits_limit"
    by (rule power_increasing) (simp_all add: int_digits_limit_def)
  ultimately show ?thesis unfolding int_ok_def by linarith
qed

lemma length_quote: "length (quote s) \<le> 6 * length s + 2"
proof -
  have "length (esc_char c) \<le> 6" for c by (simp add: esc_char_def)
  then have "length (concat (map esc_char s)) \<le> 6 * length s"
    by (induction s) (simp_all add: add_mono)
  then show ?thesis by (simp add: quote_def)
qed

lemma length_join: "length (join sep xs) \<le> (\<Sum>x \<leftarrow> xs. length x + length sep)"
  by (induction sep xs rule: join.induct) simp_all

lemma length_dumps_dict:
  "length (dumps fr (PDict d)) \<le> 2 + (\<Sum>(k, v) \<leftarrow> d. 6 * length k + 4 + length (dumps fr v))"
proof -
  have "(\<Sum>x \<leftarrow> map (\<lambda>(k, v). quote k @ CHR '':'' # dumps fr v) d. length x + length '','')
    \<le> (\<Sum>(k, v) \<leftarrow> d. 6 * length k + 4 + length (dumps fr v))"
  proof (induction d)
    case (Cons p d)
    show ?case using Cons length_quote [of "fst p"] by (cases p) simp
  qed simp
  with length_join [of "'',''" "map (\<lambda>(k, v). quote k @ CHR '':'' # dumps fr v) d"]
  show ?thesis by simp
qed

lemma length_dumps_list:
  "length (dumps fr (PList xs)) \<le> 2 + (\<Sum>v \<leftarrow> xs. 1 + length (dumps fr v))"
proof -
  have "(\<Sum>x \<leftarrow> map (dumps fr) xs. length x + length '','') \<le> (\<Sum>v \<leftarrow> xs. 1 + length (dumps fr v))"
    by (induction xs) simp_all
  with length_join [of "'',''" "map (dumps fr) xs"] show ?thesis by simp
qed

text \<open>Decoding any bytes comes to an end with an error, or with a value within the limit.\<close>

lemma decode_well_formed:
  "case decode raw limit of Inl x \<Rightarrow> x \<noteq> OutOfFuel | Inr v \<Rightarrow> wf v \<and> length raw \<le> limit"
  using decode_fuel [of raw limit] decode_wf [of raw limit]
  by (auto simp: decode_def require_Inr split: sum.split)

text \<open>
  C40: No key of a document is lost.  The text of any value without floats, within the bounds of
  integers, nesting and length, also of one whose objects repeat a key, is either read back as
  exactly that value, when no object at any depth repeats a key, or is rejected with the first
  repeated key; it is never read with one member in place of another.
\<close>

theorem decode_exact:
  assumes "json_shape json_depth v" and "r = [] \<or> r = [CHR 0x0A]" and "length (dumps fr v @ r) \<le> limit"
  shows "decode (dumps fr v @ r) limit =
    (case first_dup v of None \<Rightarrow> Inr v | Some k \<Rightarrow> Inl (ValueError (''duplicate JSON field: '' @ k))) \<and>
    (first_dup v = None \<longleftrightarrow> wf v)"
  using decode_dumps [OF assms] first_dup_wf [of v] by (auto simp: outcome_def duplicate_def split: option.split)

theorem decode_exact_witness:
  "decode (dumps (\<lambda>_. []) (PDict [(''a'', PInt 1), (''b'', PList [PDict [(''a'', PNone)]])])) 100 =
     Inr (PDict [(''a'', PInt 1), (''b'', PList [PDict [(''a'', PNone)]])]) \<and>
   decode (dumps (\<lambda>_. []) (PDict [(''b'', PList [PDict [(''a'', PNone), (''a'', PInt 1)]])])) 100 =
     Inl (ValueError ''duplicate JSON field: a'')"
proof -
  let ?v = "PDict [(''a'', PInt 1), (''b'', PList [PDict [(''a'', PNone)]])]"
    and ?w = "PDict [(''b'', PList [PDict [(''a'', PNone), (''a'', PInt 1)]])]"
  have i: "int_ok 1" by (rule int_ok_small) simp
  have l: "length (dumps (\<lambda>_. []) ?v @ []) \<le> 100" "length (dumps (\<lambda>_. []) ?w @ []) \<le> 100" by code_simp+
  have s: "json_shape json_depth ?v" "json_shape json_depth ?w" by (simp_all add: json_depth_def i)
  have d: "first_dup ?v = None" "first_dup ?w = Some ''a''" by simp_all
  show ?thesis
    using decode_exact [OF s(1) disjI1 [OF refl] l(1)] decode_exact [OF s(2) disjI1 [OF refl] l(2)]
    unfolding d append_Nil2 by simp
qed

end
