(* ===== verification/Lease.thy ===== *)
theory Lease
  imports JsonProps
begin

text \<open>
  The bounded lease protocol (\<open>sw_i5_preparation_supervisor.Lease\<close>, \<open>drain_lease\<close>)
  and the constants and small validators of \<open>sw_i5_apt\<close> it uses.  A lease is renewed
  by complete, newline-terminated JSON frames that carry the binding (UUID, nonce,
  manifest digest) and the next sequence number.  Times are exact rationals where the
  code has Python numbers; the clock reading of each operation is an argument.
  Each operation returns the lease it leaves behind with its outcome, because the code
  mutates the object before some of its checks fail.
\<close>

subsection \<open>Constants and small validators\<close>

definition UUID :: string where
  "UUID = ''B86E1A47-9A67-4ECF-A51F-2B2F29CDB726''"

definition GUEST_SECONDS :: rat where "GUEST_SECONDS = 540"
definition HOST_SECONDS :: rat where "HOST_SECONDS = 620"
definition LEASE_SECONDS :: rat where "LEASE_SECONDS = 15"
definition MAX_FRAME :: nat where "MAX_FRAME = 512"

definition hex_string :: "nat \<Rightarrow> string \<Rightarrow> bool" where
  "hex_string n s = (length s = n \<and> list_all is_hex s)"

text \<open>\<open>apt.digest\<close>.\<close>

definition digest :: "pyval \<Rightarrow> bool" where
  "digest v = (is_str v \<and> hex_string 64 (str_of v))"

definition nonce_ok :: "pyval \<Rightarrow> bool" where
  "nonce_ok v = (is_str v \<and> hex_string 32 (str_of v))"

subsection \<open>The lease\<close>

record lease =
  l_side :: string
  l_scope :: string
  l_nonce :: string
  l_manifest :: string
  l_deadline :: rat
  l_last :: rat
  l_silence :: rat
  l_sequence :: int
  l_buffer :: string
  l_cancelled :: bool

definition lease_init :: "pyval \<Rightarrow> pyval \<Rightarrow> pyval \<Rightarrow> pyval \<Rightarrow> pyval \<Rightarrow> pyval \<Rightarrow> lease res" where
  "lease_init nonce manifest started total_v silence side =
     require (nonce_ok nonce \<and> digest manifest) ''lease binding'' (
     if \<not> hashable side then Inl (TypeError ''unhashable type'') else
     require (side = PStr ''guest'' \<or> side = PStr ''host'') ''lease side'' (
     let maximum = (if side = PStr ''guest'' then GUEST_SECONDS else HOST_SECONDS) in
     case (finite_num started, finite_num total_v, finite_num silence) of
       (Some t0, Some tot, Some sil) \<Rightarrow>
         require (0 < sil \<and> sil \<le> LEASE_SECONDS \<and> sil \<le> tot \<and> tot \<le> maximum) ''lease deadlines'' (
         Inr \<lparr> l_side = str_of side,
               l_scope = (if side = PStr ''guest'' then ''i5-preparation-lease''
                          else ''i5-preparation-host-lease''),
               l_nonce = str_of nonce, l_manifest = str_of manifest,
               l_deadline = t0 + tot, l_last = t0, l_silence = sil,
               l_sequence = -1, l_buffer = [], l_cancelled = False \<rparr>)
     | _ \<Rightarrow> Inl (ValueError ''lease deadlines'')))"

definition lease_check :: "lease \<Rightarrow> pyval \<Rightarrow> bool \<Rightarrow> unit res" where
  "lease_check l now require_started =
     (case finite_num now of
        None \<Rightarrow> Inl (ValueError ''monotonic clock moved backwards'')
      | Some t \<Rightarrow>
          require (l_last l \<le> t) ''monotonic clock moved backwards'' (
          require (\<not> l_cancelled l) ''lease cancelled'' (
          require (t < l_deadline l) ''absolute preparation deadline'' (
          require (t - l_last l < l_silence l) ''lease expired'' (
          require (\<not> require_started \<or> 0 \<le> l_sequence l) ''initial lease required'' (
          Inr ()))))))"

definition lease_fields :: "string list" where
  "lease_fields = [''schema_version'', ''scope'', ''uuid'', ''nonce'', ''manifest_sha256'',
                   ''sequence'', ''action'']"

definition lease_message :: "lease \<Rightarrow> pyval \<Rightarrow> unit res" where
  "lease_message l v =
     bindE (check_fields v lease_fields) (\<lambda>_.
     require (fld v ''schema_version'' = PInt 1 \<and> fld v ''scope'' = PStr (l_scope l) \<and>
              fld v ''uuid'' = PStr UUID \<and> fld v ''nonce'' = PStr (l_nonce l) \<and>
              fld v ''manifest_sha256'' = PStr (l_manifest l) \<and>
              fld v ''sequence'' = PInt (l_sequence l + 1)) ''stale/invalid lease message'' (
     if \<not> hashable (fld v ''action'') then Inl (TypeError ''unhashable type'') else
     require (fld v ''action'' = PStr ''renew'' \<or> fld v ''action'' = PStr ''cancel'')
       ''stale/invalid lease message'' (Inr ())))"

text \<open>
  One read of at most \<open>MAX_FRAME\<close> bytes.  \<open>Inr (Some n)\<close>: a frame was accepted and
  \<open>acknowledge(n)\<close> is called, as the last thing \<open>feed\<close> does; \<open>Inr None\<close>: the frame is
  not complete yet.
\<close>

definition lease_accept :: "lease \<Rightarrow> pyval \<Rightarrow> pyval \<Rightarrow> lease \<times> int option res" where
  "lease_accept l v now =
     (let l' = l\<lparr>l_sequence := int_of (fld v ''sequence''),
                 l_last := (case finite_num now of None \<Rightarrow> 0 | Some t \<Rightarrow> t),
                 l_cancelled := (fld v ''action'' = PStr ''cancel'')\<rparr>
      in (l', bindE (lease_check l' now True) (\<lambda>_. Inr (Some (l_sequence l')))))"

definition lease_feed :: "lease \<Rightarrow> string \<Rightarrow> pyval \<Rightarrow> lease \<times> int option res" where
  "lease_feed l raw now =
     (case lease_check l now False of
        Inl e \<Rightarrow> (l, Inl e)
      | Inr _ \<Rightarrow>
          if \<not> (0 < length raw \<and> length raw \<le> MAX_FRAME)
          then (l, Inl (ValueError ''invalid lease read''))
          else
            let l1 = l\<lparr>l_buffer := l_buffer l @ raw\<rparr> in
            if length (l_buffer l1) > MAX_FRAME then (l1, Inl (ValueError ''lease frame limit''))
            else
              case split1 (CHR 0x0A) (l_buffer l1) of
                None \<Rightarrow> (l1, Inr None)
              | Some (line, remaining) \<Rightarrow>
                  if remaining \<noteq> [] then (l1, Inl (ValueError ''multiple buffered lease frames''))
                  else
                    let l2 = l1\<lparr>l_buffer := []\<rparr> in
                    case decode line MAX_FRAME of
                      Inl e \<Rightarrow> (l2, Inl e)
                    | Inr v \<Rightarrow>
                        (case lease_message l2 v of
                           Inl e \<Rightarrow> (l2, Inl e)
                         | Inr _ \<Rightarrow> lease_accept l2 v now))"

definition frame_value :: "lease \<Rightarrow> int \<Rightarrow> string \<Rightarrow> pyval" where
  "frame_value l sequence action =
     PDict [(''schema_version'', PInt 1), (''scope'', PStr (l_scope l)), (''uuid'', PStr UUID),
            (''nonce'', PStr (l_nonce l)), (''manifest_sha256'', PStr (l_manifest l)),
            (''sequence'', PInt sequence), (''action'', PStr action)]"

text \<open>A frame holds no float, so the float formatter of \<open>dumps\<close> is irrelevant.\<close>

definition lease_frame :: "lease \<Rightarrow> int \<Rightarrow> string \<Rightarrow> string" where
  "lease_frame l sequence action = dumps (\<lambda>_. []) (frame_value l sequence action) @ [CHR 0x0A]"

text \<open>
  \<open>drain_lease\<close>: what one poll of the channel saw.  A descriptor that is not readable
  and a mailbox without a new frame give \<open>None\<close>; an empty read of a descriptor is the
  end of the channel.
\<close>

definition drain_lease ::
    "bool \<Rightarrow> string option \<Rightarrow> lease \<Rightarrow> pyval \<Rightarrow> bool \<Rightarrow> lease \<times> (bool \<times> int option) res" where
  "drain_lease is_fd raw l now require_started =
     (if is_fd \<and> raw = Some [] then (l, Inl (ValueError ''lease channel closed''))
      else
        let fed = (case raw of None \<Rightarrow> (l, Inr None) | Some b \<Rightarrow> lease_feed l b now) in
        (fst fed,
         bindE (snd fed) (\<lambda>ack.
         bindE (lease_check (fst fed) now require_started) (\<lambda>_.
         Inr (l_sequence (fst fed) \<noteq> l_sequence l, ack)))))"

subsection \<open>Inversion\<close>

lemma lease_check_Inr [res_simps]:
  "lease_check l now rs = Inr u \<longleftrightarrow>
     (\<exists>t. finite_num now = Some t \<and> l_last l \<le> t \<and> \<not> l_cancelled l \<and> t < l_deadline l \<and>
          t - l_last l < l_silence l \<and> (rs \<longrightarrow> 0 \<le> l_sequence l))"
  by (auto simp: lease_check_def require_Inr split: option.splits)

lemma lease_message_Inr [res_simps]:
  "lease_message l v = Inr u \<longleftrightarrow>
     has_fields v lease_fields \<and> fld v ''schema_version'' = PInt 1 \<and>
     fld v ''scope'' = PStr (l_scope l) \<and> fld v ''uuid'' = PStr UUID \<and>
     fld v ''nonce'' = PStr (l_nonce l) \<and> fld v ''manifest_sha256'' = PStr (l_manifest l) \<and>
     fld v ''sequence'' = PInt (l_sequence l + 1) \<and>
     (fld v ''action'' = PStr ''renew'' \<or> fld v ''action'' = PStr ''cancel'')"
  by (auto simp: lease_message_def res_simps)

lemma lease_init_Inr [res_simps]:
  "lease_init nonce manifest started total_v silence side = Inr l \<longleftrightarrow>
     (\<exists>t0 tot sil. finite_num started = Some t0 \<and> finite_num total_v = Some tot \<and>
        finite_num silence = Some sil \<and> nonce_ok nonce \<and> digest manifest \<and>
        (side = PStr ''guest'' \<or> side = PStr ''host'') \<and>
        0 < sil \<and> sil \<le> LEASE_SECONDS \<and> sil \<le> tot \<and>
        tot \<le> (if side = PStr ''guest'' then GUEST_SECONDS else HOST_SECONDS) \<and>
        l = \<lparr> l_side = str_of side,
              l_scope = (if side = PStr ''guest'' then ''i5-preparation-lease''
                         else ''i5-preparation-host-lease''),
              l_nonce = str_of nonce, l_manifest = str_of manifest,
              l_deadline = t0 + tot, l_last = t0, l_silence = sil,
              l_sequence = -1, l_buffer = [], l_cancelled = False \<rparr>)"
  by (auto simp: lease_init_def res_simps Let_def split: option.splits if_splits)

text \<open>The five ways \<open>feed\<close> can leave the lease.\<close>

lemma lease_feed_cases:
  obtains (refused) e where "lease_feed l raw now = (l, Inl e)"
  | (stuck) e where "lease_feed l raw now = (l\<lparr>l_buffer := l_buffer l @ raw\<rparr>, Inl e)"
  | (partial) "lease_feed l raw now = (l\<lparr>l_buffer := l_buffer l @ raw\<rparr>, Inr None)"
      "lease_check l now False = Inr ()" "length (l_buffer l @ raw) \<le> MAX_FRAME"
      "CHR 0x0A \<notin> set (l_buffer l @ raw)"
  | (bad) line e where "lease_feed l raw now = (l\<lparr>l_buffer := []\<rparr>, Inl e)"
      "l_buffer l @ raw = line @ [CHR 0x0A]" "CHR 0x0A \<notin> set line" "length (l_buffer l @ raw) \<le> MAX_FRAME"
      "raw \<noteq> []"
  | (accepted) line v where "l_buffer l @ raw = line @ [CHR 0x0A]" "CHR 0x0A \<notin> set line"
      "length (l_buffer l @ raw) \<le> MAX_FRAME" "raw \<noteq> []"
      "decode line MAX_FRAME = Inr v" "lease_message (l\<lparr>l_buffer := []\<rparr>) v = Inr ()"
      "lease_check l now False = Inr ()"
      "lease_feed l raw now = lease_accept (l\<lparr>l_buffer := []\<rparr>) v now"
proof (cases "lease_check l now False")
  case (Inl e)
  then show ?thesis by (intro refused [of e]) (simp add: lease_feed_def)
next
  case (Inr u)
  show ?thesis
  proof (cases "0 < length raw \<and> length raw \<le> MAX_FRAME \<and> length (l_buffer l @ raw) \<le> MAX_FRAME")
    case False
    then consider "\<not> (0 < length raw \<and> length raw \<le> MAX_FRAME)"
      | "0 < length raw" "length raw \<le> MAX_FRAME" "\<not> length (l_buffer l @ raw) \<le> MAX_FRAME" by blast
    then show ?thesis
    proof cases
      case 1
      with Inr show ?thesis by (intro refused) (simp add: lease_feed_def)
    next
      case 2
      with Inr show ?thesis by (intro stuck) (simp add: lease_feed_def)
    qed
  next
    case size: True
    show ?thesis
    proof (cases "split1 (CHR 0x0A) (l_buffer l @ raw)")
      case None
      then have "CHR 0x0A \<notin> set (l_buffer l @ raw)" by (rule split1_None [THEN iffD1])
      moreover have "lease_feed l raw now = (l\<lparr>l_buffer := l_buffer l @ raw\<rparr>, Inr None)"
        using None Inr size by (simp add: lease_feed_def)
      ultimately show ?thesis using Inr size by (intro partial) auto
    next
      case (Some p)
      obtain line remaining where p: "p = (line, remaining)" by (cases p)
      show ?thesis
      proof (cases "remaining = []")
        case False
        with Some p Inr size show ?thesis by (intro stuck) (simp add: lease_feed_def)
      next
        case True
        then have line: "l_buffer l @ raw = line @ [CHR 0x0A]" "CHR 0x0A \<notin> set line"
          using Some p by (auto simp: split1_Some)
        show ?thesis
        proof (cases "bindE (decode line MAX_FRAME) (lease_message (l\<lparr>l_buffer := []\<rparr>))")
          case (Inl e)
          with True Some p Inr size show ?thesis
            by (intro bad [OF _ line]) (auto simp: lease_feed_def Let_def bindE_Inl)
        next
          case ok: (Inr w)
          then obtain v where "decode line MAX_FRAME = Inr v"
            "lease_message (l\<lparr>l_buffer := []\<rparr>) v = Inr ()" by (auto simp: bindE_Inr)
          moreover from this True Some p Inr size
          have "lease_feed l raw now = lease_accept (l\<lparr>l_buffer := []\<rparr>) v now"
            by (simp add: lease_feed_def)
          ultimately show ?thesis using Inr size by (intro accepted [OF line]) auto
        qed
      qed
    qed
  qed
qed

end
