(* ===== verification/Apt.thy ===== *)
theory Apt
  imports Lease Text "HOL-Library.AList"
begin

text \<open>
  The preparation contracts of \<open>sw_i5_apt.py\<close>: the fixed sources, roots and tools, the
  manifest of the input media, the checks of a file tree against it, the readers of the
  formats the tools emit (gpg key listings, deb822 records, Release indices, dpkg status,
  apt configuration dumps, apt simulations), and the result document.
  SHA-256, the RFC 2822 date reader and the decompressors are arguments.
\<close>

subsection \<open>Constants\<close>

abbreviation nl :: string where "nl \<equiv> [CHR 0x0A]"
abbreviation dq :: string where "dq \<equiv> [CHR 0x22]"

definition MIB :: nat where "MIB = 1024 * 1024"
definition SCOPE :: string where "SCOPE = ''guest-preparation-apt''"
definition STOP :: string where "STOP = ''I5_PREPARATION_ISOLATION_REQUIRED''"
definition RESULT_LIMIT :: nat where "RESULT_LIMIT = 2 * MIB"

record source =
  so_repo :: string
  so_suite :: string
  so_component :: string
  so_codec :: string
  so_key :: string
  so_fingerprint :: string

definition SOURCES :: "(string \<times> source) list" where
  "SOURCES =
    [(''debian'', \<lparr> so_repo = ''debian'', so_suite = ''trixie'', so_component = ''main'', so_codec = ''xz'',
        so_key = ''debian-archive-13'', so_fingerprint = ''04B54C3CDCA79751B16BC6B5225629DF75B188BD'' \<rparr>),
     (''updates'', \<lparr> so_repo = ''debian'', so_suite = ''trixie-updates'', so_component = ''main'', so_codec = ''xz'',
        so_key = ''debian-archive-13'', so_fingerprint = ''04B54C3CDCA79751B16BC6B5225629DF75B188BD'' \<rparr>),
     (''security'', \<lparr> so_repo = ''security'', so_suite = ''trixie-security'', so_component = ''main'', so_codec = ''xz'',
        so_key = ''debian-security-13'', so_fingerprint = ''5E04A1E3223A19A20706E20F9904613D4CCE68C6'' \<rparr>),
     (''docker'', \<lparr> so_repo = ''docker'', so_suite = ''trixie'', so_component = ''stable'', so_codec = ''gz'',
        so_key = ''docker'', so_fingerprint = ''9DC858229FC7DD38854AE2D88D81803C0EBFCD88'' \<rparr>)]"

definition ROOTS :: "(string \<times> string) list" where
  "ROOTS =
    [(''docker-ce:arm64'', ''5:29.8.2-1~debian.13~trixie''),
     (''docker-ce-cli:arm64'', ''5:29.8.2-1~debian.13~trixie''),
     (''containerd.io:arm64'', ''2.3.6-1~debian.13~trixie''),
     (''docker-buildx-plugin:arm64'', ''0.37.1-1~debian.13~trixie''),
     (''git:arm64'', ''1:2.47.3-0+deb13u1''), (''iptables:arm64'', ''1.8.11-2'')]"

definition TOOLS :: "(string \<times> string) list" where
  "TOOLS = [(''gpg'', ''gpg''), (''sqv'', ''sqv''), (''apt-get'', ''apt''), (''apt-config'', ''apt''),
            (''dpkg'', ''dpkg''), (''dpkg-query'', ''dpkg'')]"

definition BASE_PATHS :: "(string \<times> string) list" where
  "BASE_PATHS = [(''status'', ''/var/lib/dpkg/status''), (''extended_states'', ''/var/lib/apt/extended_states''),
                 (''crypto_policy'', ''/etc/crypto-policies/back-ends/sequoia.config'')]"

definition STEP_LABELS :: "string list" where
  "STEP_LABELS = [''native-arch'', ''foreign-arch''] @
     concat (map (\<lambda>(n, _). [''owner-'' @ n, ''version-'' @ n]) TOOLS) @
     concat (map (\<lambda>(n, _). [''key-'' @ n, ''verify-'' @ n]) SOURCES) @
     [''apt-config'', ''apt-update'', ''apt-simulate'']"

subsection \<open>The manifest\<close>

definition blob :: "pyval \<Rightarrow> nat \<Rightarrow> unit res" where
  "blob v limit =
     bindE (check_fields v [''bytes'', ''sha256'']) (\<lambda>_.
     require (is_int (fld v ''bytes'') \<and> 0 < int_of (fld v ''bytes'') \<and> int_of (fld v ''bytes'') \<le> int limit \<and>
              digest (fld v ''sha256'')) ''invalid bounded blob'' (Inr ()))"

text \<open>\<open>(InRelease, Packages index, key)\<close> of a source.\<close>

definition source_paths :: "source \<Rightarrow> string \<times> string \<times> string" where
  "source_paths s =
     (let base = so_repo s @ ''/dists/'' @ so_suite s;
          index = base @ ''/'' @ so_component s @ ''/binary-arm64/Packages.'' @ so_codec s
      in (base @ ''/InRelease'', index, ''keys/'' @ so_key s @ ''.asc''))"

definition version_rx :: rx where
  "version_rx = Cat (Cls is_digit) (Rep (Cls (\<lambda>c. is_alnum c \<or> one_of ''.+:~-'' c)))"

definition version :: "pyval \<Rightarrow> bool" where
  "version v = (is_str v \<and> length (str_of v) \<le> 256 \<and> fullmatch version_rx (str_of v))"

definition source_files :: "string set" where
  "source_files = (\<Union>(_, s) \<in> set SOURCES. case source_paths s of (r, i, k) \<Rightarrow> {r, i, k})"

definition file_limit :: "string \<Rightarrow> nat" where
  "file_limit path = (if endswith path ''.xz'' \<or> endswith path ''.gz'' then 64 * MIB else MIB)"

definition validate_tool :: "string \<times> pyval \<Rightarrow> unit res" where
  "validate_tool = (\<lambda>(name, r).
     bindE (check_fields r [''package'', ''version'', ''sha256'']) (\<lambda>_.
     require (map_of TOOLS name = Some (str_of (fld r ''package'')) \<and> is_str (fld r ''package'') \<and>
              version (fld r ''version'') \<and> digest (fld r ''sha256''))
       ''tool ownership/version/hash binding required'' (Inr ())))"

definition validate_baseline :: "pyval \<Rightarrow> unit res" where
  "validate_baseline b =
     bindE (check_fields b [''status'', ''extended_states'', ''crypto_policy'', ''architecture'',
                            ''foreign_architectures'', ''tools'']) (\<lambda>_.
     bindE (blob (fld b ''status'') (16 * MIB)) (\<lambda>_.
     bindE (eachE (\<lambda>n. if fld b n \<noteq> PNone then blob (fld b n) MIB else Inr ())
              [''extended_states'', ''crypto_policy'']) (\<lambda>_.
     require (fld b ''architecture'' = PStr ''arm64'' \<and> fld b ''foreign_architectures'' = PList [])
       ''native arm64 without foreign architectures required'' (
     require (is_dict (fld b ''tools'') \<and> fst ` set (dict_of (fld b ''tools'')) = fst ` set TOOLS)
       ''tool baseline required'' (
     eachE validate_tool (dict_of (fld b ''tools'')))))))"

definition validate_manifest :: "string \<Rightarrow> string \<Rightarrow> pyval res" where
  "validate_manifest raw nonce =
     bindE (decode raw (64 * 1024)) (\<lambda>v.
     bindE (check_fields v [''schema_version'', ''scope'', ''nonce'', ''uuid'', ''files'', ''baseline'',
                            ''install_authorized'', ''i5_ready'']) (\<lambda>_.
     require (fld v ''schema_version'' = PInt 1 \<and> fld v ''scope'' = PStr ''i5-preparation-apt-input'' \<and>
              fld v ''uuid'' = PStr UUID \<and> hex_string 32 nonce \<and> fld v ''nonce'' = PStr nonce)
       ''manifest scope/schema/nonce/UUID mismatch'' (
     require (fld v ''install_authorized'' = PBool False \<and> fld v ''i5_ready'' = PBool False) ''preparation only'' (
     require (is_dict (fld v ''files'') \<and> fst ` set (dict_of (fld v ''files'')) = source_files)
       ''exact source whitelist required'' (
     bindE (eachE (\<lambda>(p, r). blob r (file_limit p)) (dict_of (fld v ''files''))) (\<lambda>_.
     require ((\<Sum>(_, r) \<leftarrow> dict_of (fld v ''files''). int_of (fld r ''bytes'')) \<le> int (128 * MIB))
       ''input budget including by-hash copies exceeds 256 MiB'' (
     bindE (validate_baseline (fld v ''baseline'')) (\<lambda>_. Inr v))))))))"

subsection \<open>Files\<close>

text \<open>
  A snapshot of a file system: what \<open>Path.resolve\<close> gives, what \<open>lstat\<close> says, the bytes
  of a regular file and the relative names below a directory.
\<close>

datatype kind = Regular | Directory | Symlink | Special

record fs =
  fs_resolve :: "string \<Rightarrow> string"
  fs_kind :: "string \<Rightarrow> kind option"
  fs_bytes :: "string \<Rightarrow> string"
  fs_walk :: "string \<Rightarrow> string list"

definition regular :: "fs \<Rightarrow> string \<Rightarrow> string res" where
  "regular f path =
     (if startswith path ''/'' \<and> fs_resolve f path = path then
        (case fs_kind f path of
           None \<Rightarrow> Inl (OSError ''No such file or directory'')
         | Some k \<Rightarrow> require (k = Regular) (''regular canonical file required: '' @ path) (Inr path))
      else Inl (ValueError (''regular canonical file required: '' @ path)))"

text \<open>The reads of a file in blocks of 64 KiB.\<close>

function chunks :: "nat \<Rightarrow> 'a list \<Rightarrow> 'a list list" where
  "chunks n xs = (if n = 0 \<or> xs = [] then [] else take n xs # chunks n (drop n xs))"
  by pat_completeness auto

termination chunks
  by (relation "measure (length \<circ> snd)") auto

declare chunks.simps [simp del]

definition blob_value :: "int \<Rightarrow> string \<Rightarrow> pyval" where
  "blob_value n h = PDict [(''bytes'', PInt n), (''sha256'', PStr h)]"

definition file_blob :: "(string \<Rightarrow> string) \<Rightarrow> fs \<Rightarrow> string \<Rightarrow> nat \<Rightarrow> pyval res" where
  "file_blob sha f path limit =
     bindE (regular f path) (\<lambda>p.
     bindE (foldE (\<lambda>(size, seen) c.
              require (size + length c \<le> limit) (''file byte limit: '' @ p) (Inr (size + length c, seen @ c)))
            (0, []) (chunks 65536 (fs_bytes f p))) (\<lambda>(size, seen).
     Inr (blob_value (int size) (sha seen))))"

definition read_bounded :: "fs \<Rightarrow> string \<Rightarrow> nat \<Rightarrow> string res" where
  "read_bounded f path limit =
     bindE (regular f path) (\<lambda>p.
     let data = take (limit + 1) (fs_bytes f p) in
     require (length data \<le> limit) ''file read limit'' (Inr data))"

text \<open>\<open>Path.parents\<close> of a relative name without its last entry \<open>.\<close>, and \<open>Path.parent\<close>.\<close>

definition parents :: "string \<Rightarrow> string set" where
  "parents name = set (map (\<lambda>n. take n name) (filter (\<lambda>n. name ! n = CHR ''/'') [0..<length name]))"

definition parent :: "string \<Rightarrow> string" where
  "parent name = (case split1 (CHR ''/'') (rev name) of None \<Rightarrow> ''.'' | Some (_, r) \<Rightarrow> rev r)"

definition expected_inputs :: "pyval \<Rightarrow> (string \<times> pyval) list" where
  "expected_inputs manifest =
     (let files = dict_of (fld manifest ''files'') in
      foldl (\<lambda>e (_, s). case source_paths s of (_, index, _) \<Rightarrow>
          let item = fld (PDict e) index
          in AList.update (parent index @ ''/by-hash/SHA256/'' @ str_of (fld item ''sha256'')) item e) files SOURCES)"

definition check_entry :: "fs \<Rightarrow> string \<Rightarrow> (string \<times> pyval) list \<Rightarrow> string set \<Rightarrow> string \<Rightarrow> string set res" where
  "check_entry f media expected actual relative =
     (let path = media @ ''/'' @ relative in
      require (fs_kind f path \<noteq> Some Symlink) ''symlink on input media'' (
      if fs_kind f path = Some Directory then
        require (\<exists>(n, _) \<in> set expected. relative \<in> parents n) ''input media directory set mismatch'' (Inr actual)
      else
        require (relative \<in> fst ` set expected) ''input media file set mismatch'' (Inr (insert relative actual))))"

definition check_inputs :: "(string \<Rightarrow> string) \<Rightarrow> fs \<Rightarrow> string \<Rightarrow> pyval \<Rightarrow> unit res" where
  "check_inputs sha f media manifest =
     require (startswith media ''/'' \<and> fs_resolve f media = media \<and> fs_kind f media = Some Directory)
       ''canonical input root required'' (
     let expected = expected_inputs manifest in
     bindE (foldE (check_entry f media expected) {} (fs_walk f media)) (\<lambda>actual.
     require (actual = fst ` set expected) ''input media file set mismatch'' (
     eachE (\<lambda>(path, item).
       bindE (file_blob sha f (media @ ''/'' @ path) (nat (int_of (fld item ''bytes'')))) (\<lambda>b.
       require (pyeq b item) (''input digest mismatch: '' @ path) (Inr ()))) expected)))"

end
