(* ===== verification/Cgroups.thy ===== *)
theory Cgroups
  imports Resources Apt
begin

text \<open>
  The first half of \<open>sw_i5_preparation_isolation.py\<close>: the fixed limits, the isolation
  contract, the checks of a cgroup snapshot, and the operations on a pinned cgroup
  directory (\<open>CgroupV2\<close>) over the kernel interface.
\<close>

subsection \<open>Constants\<close>

definition STORAGE :: "(string \<times> nat) list" where
  "STORAGE = [(''input'', 256 * MIB), (''work'', 128 * MIB), (''result'', 8 * MIB)]"

definition NATIVE_ROOT_BYTES :: nat where "NATIVE_ROOT_BYTES = MIB"
definition NATIVE_ROOT_INODES :: nat where "NATIVE_ROOT_INODES = 1024"
definition NATIVE_CGROUP2 :: int where "NATIVE_CGROUP2 = 0x63677270"
definition NATIVE_TMPFS :: int where "NATIVE_TMPFS = 0x01021994"

definition NATIVE_INPUT_FS :: "(string \<times> int) list" where
  "NATIVE_INPUT_FS = [(''iso9660'', 0x9660), (''squashfs'', 0x73717368)]"

definition NATIVE_CREATE_ORDER :: "string list" where
  "NATIVE_CREATE_ORDER = [''guest_root'', ''work'', ''result'', ''cgroup_parent'', ''cgroup_supervisor'',
     ''cgroup_worker'', ''control'', ''lease'', ''ack'']"

definition NATIVE_CLEAN_ORDER :: "string list" where
  "NATIVE_CLEAN_ORDER = rev NATIVE_CREATE_ORDER"

definition NATIVE_FALSE_FLAGS :: "string list" where
  "NATIVE_FALSE_FLAGS = [''authorized'', ''install_authorized'', ''physical_verified'', ''i5_ready'']"

definition limits_of :: "nat \<Rightarrow> nat \<Rightarrow> nat \<Rightarrow> string \<Rightarrow> (string \<times> string) list" where
  "limits_of memory pids oom cpu =
     [(''memory.max'', show_nat (memory * MIB)), (''memory.swap.max'', ''0''), (''pids.max'', show_nat pids),
      (''memory.oom.group'', show_nat oom), (''cpu.max'', cpu)]"

definition LIMITS :: "(string \<times> (string \<times> string) list) list" where
  "LIMITS = [(''parent'', limits_of 512 48 0 ''200000 100000''),
             (''supervisor'', limits_of 64 8 1 ''25000 100000''),
             (''worker'', limits_of 384 32 1 ''100000 100000'')]"

definition limit_files :: "string list" where
  "limit_files = [''memory.max'', ''memory.swap.max'', ''pids.max'', ''memory.oom.group'', ''cpu.max'']"

definition READ_FILES :: "string set" where
  "READ_FILES = set ([''cgroup.type'', ''cgroup.procs'', ''cgroup.subtree_control'', ''cgroup.events'',
     ''memory.events'', ''pids.events''] @ limit_files)"

subsection \<open>The contract\<close>

record contract =
  ic_nonce :: string
  ic_manifest :: string
  ic_root :: path
  ic_input :: path
  ic_uid :: int
  ic_gid :: int

definition isolation_path_rx :: rx where
  "isolation_path_rx = Cat (lit ''/'') (plus (Cls (\<lambda>c. is_alnum c \<or> c \<in> set ''_./-'')))"

definition contract_path :: "pyval \<Rightarrow> path res" where
  "contract_path v =
     require (is_str v \<and> fullmatch isolation_path_rx (str_of v)) ''invalid isolation path'' (
     let p = path_of (str_of v) in
     require (path_str p = str_of v \<and> ''..'' \<notin> set (comps p) \<and> p \<noteq> path_of ''/'') ''noncanonical isolation path'' (Inr p))"

definition contract_parse :: "string \<Rightarrow> pyval \<Rightarrow> pyval \<Rightarrow> contract res" where
  "contract_parse raw nonce manifest_sha256 =
     bindE (decode raw 8192) (\<lambda>v.
     bindE (check_fields v [''schema_version'', ''scope'', ''nonce'', ''uuid'', ''manifest_sha256'', ''root'',
              ''input'', ''uid'', ''gid'', ''i5_ready'']) (\<lambda>_.
     require (fld v ''schema_version'' = PInt 1 \<and> fld v ''scope'' = PStr ''i5-preparation-isolation'' \<and>
              fld v ''uuid'' = PStr UUID \<and> nonce_ok nonce \<and> fld v ''nonce'' = nonce \<and>
              digest manifest_sha256 \<and> fld v ''manifest_sha256'' = manifest_sha256 \<and>
              fld v ''i5_ready'' = PBool False) ''isolation contract binding'' (
     bindE (contract_path (fld v ''root'')) (\<lambda>root.
     bindE (contract_path (fld v ''input'')) (\<lambda>inp.
     require (root = path_join (path_of ''/run/radishlink-i5-preparation'') (str_of nonce) \<and>
              \<not> below inp root \<and> \<not> below root inp) ''fixed disjoint preparation paths required'' (
     require (list_all (\<lambda>k. is_int (fld v k) \<and> 1000 \<le> int_of (fld v k) \<and> int_of (fld v k) < 65534) [''uid'', ''gid''])
       ''reviewed unprivileged identity required'' (
     Inr \<lparr> ic_nonce = str_of nonce, ic_manifest = str_of manifest_sha256, ic_root = root, ic_input = inp,
           ic_uid = int_of (fld v ''uid''), ic_gid = int_of (fld v ''gid'') \<rparr>)))))))"

definition work_path :: "contract \<Rightarrow> path" where
  "work_path c = path_join (ic_root c) ''work''"

definition result_path :: "contract \<Rightarrow> path" where
  "result_path c = path_join (ic_root c) ''result''"

definition cgroup_path :: "contract \<Rightarrow> path" where
  "cgroup_path c = path_join (path_of ''/sys/fs/cgroup/radishlink-i5-preparation'') (ic_nonce c)"

definition role_path :: "contract \<Rightarrow> string \<Rightarrow> path" where
  "role_path c role = (if role = ''parent'' then cgroup_path c else path_join (cgroup_path c) role)"

subsection \<open>Snapshots\<close>

definition counters :: "string \<Rightarrow> (string \<times> int) list res" where
  "counters s =
     foldE (\<lambda>result row.
       let parts = words row in
       require (length parts = 2 \<and> parts ! 0 \<notin> fst ` set result \<and> isdigit (parts ! 1)) ''invalid kernel counters'' (
       bindE (int_text (parts ! 1)) (\<lambda>n. Inr (result @ [(parts ! 0, n)])))) [] (splitlines s)"

text \<open>
  The dict that \<open>CgroupV2.snapshot\<close> builds; its field set and the types of its entries
  hold by construction.  \<open>makedev\<close> is the device number whose halves \<open>st_dev\<close> keeps.
\<close>

record cgroup_state =
  cs_path :: string
  cs_identity :: "int \<times> int"
  cs_type :: string
  cs_procs :: "int list"
  cs_children :: "string list"
  cs_subtree :: string
  cs_limits :: "(string \<times> string) list"
  cs_events :: "(string \<times> int) list"
  cs_memory_events :: "(string \<times> int) list"
  cs_pids_events :: "(string \<times> int) list"

definition makedev :: "nat \<times> nat \<Rightarrow> int" where
  "makedev d = int ((fst d mod 4096) * 256 + (fst d div 4096) * 2 ^ 44 + snd d mod 256 + (snd d div 256) * 2 ^ 20)"

definition inode_key :: "stat_info \<Rightarrow> int \<times> int" where
  "inode_key i = (makedev (st_dev i), st_ino i)"

definition verify_cgroup :: "cgroup_state \<Rightarrow> string \<Rightarrow> unit res" where
  "verify_cgroup s role =
     require (role \<in> fst ` set LIMITS \<and> cs_type s = ''domain'' \<and>
              set (cs_limits s) = set (the (map_of LIMITS role))) ''cgroup hard limits mismatch'' (
     require (0 < fst (cs_identity s) \<and> 0 < snd (cs_identity s)) ''cgroup inode binding required'' (
     require (cs_subtree s = (if role = ''parent'' then ''cpu memory pids'' else [])) ''unexpected cgroup delegation'' (
     require (cs_children s = (if role = ''parent'' then [''supervisor'', ''worker''] else []))
       ''unexpected cgroup descendants'' (
     require (list_all (\<lambda>n. 0 < n) (cs_procs s)) ''invalid cgroup PIDs'' (
     require (role \<noteq> ''parent'' \<or> cs_procs s = []) ''parent cgroup must have no processes'' (
     require (map_of (cs_events s) ''populated'' \<in> {Some 0, Some 1} \<and> map_of (cs_events s) ''frozen'' = Some 0)
       ''cgroup population/frozen state unknown'' (
     bindE (eachE (\<lambda>key. require (map_of (cs_memory_events s) key = Some 0) (''memory limit/OOM event: '' @ key) (Inr ()))
              [''max'', ''oom'', ''oom_kill'', ''oom_group_kill'']) (\<lambda>_.
     require (map_of (cs_pids_events s) ''max'' = Some 0) ''PID limit event'' (Inr ())))))))))"

subsection \<open>A pinned cgroup directory\<close>

record cgroup =
  cv_path :: path
  cv_fd :: int
  cv_identity :: "int \<times> int"

definition cgroup_rx :: rx where
  "cgroup_rx = cats [lit ''/sys/fs/cgroup/radishlink-i5-preparation/'',
     cats (replicate 32 (Cls is_hex)), opt (Cat (lit ''/'') (Alt (lit ''worker'') (lit ''supervisor'')))]"

definition andA :: "('s, bool) act \<Rightarrow> ('s, bool) act \<Rightarrow> ('s, bool) act" where
  "andA a b = bnd a (\<lambda>x. if x then b else ret False)"

definition check_identity :: "'w kernel \<Rightarrow> cgroup \<Rightarrow> ('w, unit) act" where
  "check_identity k g =
     bnd (k_lstat k (cv_path g)) (\<lambda>current.
     bnd (k_fstat k (cv_fd g)) (\<lambda>info.
     ensure (S_ISDIR current \<and> inode_key current = cv_identity g \<and> inode_key info = cv_identity g \<and>
             st_uid info = 0 \<and> not_shared_writable info) ''cgroup replaced or delegated to worker''))"

definition cgroup_open :: "'w kernel \<Rightarrow> path \<Rightarrow> ('w, cgroup) act" where
  "cgroup_open k path =
     bnd (andA (bnd (k_uname k) (\<lambda>(sysname, _). ret (sysname = ''Linux'')))
          (andA (bnd (k_resolve k path) (\<lambda>p. ret (p = path)))
                (ret (fullmatch cgroup_rx (path_str path))))) (\<lambda>exact.
     sqn (ensure exact ''exact Linux preparation cgroup required'') (
     bnd (k_open k path [''RDONLY'', ''DIRECTORY'', ''NOFOLLOW'', ''CLOEXEC'']) (\<lambda>fd.
     on_error
       (bnd (k_fstatfs k fd) (\<lambda>t.
        sqn (ensure (t = NATIVE_CGROUP2) ''cgroup2 filesystem required'') (
        bnd (k_fstat k fd) (\<lambda>info.
        let g = \<lparr> cv_path = path, cv_fd = fd, cv_identity = inode_key info \<rparr> in
        sqn (check_identity k g) (ret g)))))
       (k_close k fd))))"

definition cgroup_close :: "'w kernel \<Rightarrow> cgroup \<Rightarrow> ('w, unit) act" where
  "cgroup_close k g = k_close k (cv_fd g)"

definition ascii :: "string \<Rightarrow> string res" where
  "ascii s = require (list_all (\<lambda>c. code c < 128) s) ''ordinal not in range(128)'' (Inr s)"

definition cgroup_read :: "'w kernel \<Rightarrow> cgroup \<Rightarrow> string \<Rightarrow> ('w, string) act" where
  "cgroup_read k g name =
     sqn (ensure (name \<in> READ_FILES) ''unknown cgroup read'') (
     sqn (check_identity k g) (
     bnd (k_open_at k (cv_fd g) name [''RDONLY'', ''NOFOLLOW'', ''CLOEXEC'']) (\<lambda>fd.
     try_finally
       (bnd (k_read k fd 8193) (\<lambda>data.
        sqn (ensure (length data \<le> 8192) ''cgroup read limit'') (
        bnd (lft (ascii data)) (\<lambda>t. ret (strip t)))))
       (k_close k fd))))"

definition cpu_max_rx :: rx where
  "cpu_max_rx = cats [plus (Cls is_digit), lit '' '', plus (Cls is_digit)]"

definition cgroup_write :: "'w kernel \<Rightarrow> cgroup \<Rightarrow> string \<Rightarrow> string \<Rightarrow> ('w, unit) act" where
  "cgroup_write k g name data =
     sqn (ensure (name \<in> set limit_files \<union> {''cgroup.kill'', ''cgroup.procs''} \<and>
                  (if name = ''cpu.max'' then fullmatch cpu_max_rx data else isdigit data)) ''unknown cgroup mutation'') (
     sqn (check_identity k g) (
     bnd (k_open_at k (cv_fd g) name [''WRONLY'', ''NOFOLLOW'', ''CLOEXEC'']) (\<lambda>fd.
     try_finally
       (bnd (lft (ascii (data @ nl))) (\<lambda>raw.
        bnd (k_write k fd raw) (\<lambda>n.
        ensure (n = length raw) ''short cgroup write'')))
       (k_close k fd))))"

definition cgroup_snapshot :: "'w kernel \<Rightarrow> cgroup \<Rightarrow> ('w, cgroup_state) act" where
  "cgroup_snapshot k g =
     bnd (cgroup_read k g ''cgroup.procs'') (\<lambda>t.
     let procs = words t in
     sqn (ensure (list_all isdigit procs) ''invalid cgroup process list'') (
     bnd (k_listdir k (cv_fd g)) (\<lambda>entries.
     sqn (ensure (length entries \<le> 256) ''cgroup entry count limit'') (
     bnd (mapA (\<lambda>n. bnd (k_stat_at k (cv_fd g) n) (\<lambda>i. ret (n, S_ISDIR i))) entries) (\<lambda>kinds.
     bnd (cgroup_read k g ''cgroup.type'') (\<lambda>type.
     bnd (lft (mapE int_text procs)) (\<lambda>pids.
     bnd (cgroup_read k g ''cgroup.subtree_control'') (\<lambda>subtree.
     bnd (mapA (\<lambda>n. bnd (cgroup_read k g n) (\<lambda>v. ret (n, v))) limit_files) (\<lambda>limits.
     bnd (bnd (cgroup_read k g ''cgroup.events'') (\<lambda>t. lft (counters t))) (\<lambda>events.
     bnd (bnd (cgroup_read k g ''memory.events'') (\<lambda>t. lft (counters t))) (\<lambda>memory.
     bnd (bnd (cgroup_read k g ''pids.events'') (\<lambda>t. lft (counters t))) (\<lambda>pevents.
     ret \<lparr> cs_path = path_str (cv_path g), cs_identity = cv_identity g, cs_type = type, cs_procs = pids,
           cs_children = sort (map fst (filter snd kinds)), cs_subtree = join '' '' (sort (words subtree)),
           cs_limits = limits, cs_events = events, cs_memory_events = memory, cs_pids_events = pevents \<rparr>))))))))))))"

definition cgroup_configure :: "'w kernel \<Rightarrow> cgroup \<Rightarrow> string \<Rightarrow> ('w, unit) act" where
  "cgroup_configure k g role =
     bnd (andA (ret (role \<in> fst ` set LIMITS))
          (andA (bnd (cgroup_read k g ''cgroup.procs'') (\<lambda>t. ret (t = [])))
                (bnd (cgroup_read k g ''cgroup.type'') (\<lambda>t. ret (t = ''domain''))))) (\<lambda>fresh.
     sqn (ensure fresh ''fresh empty domain required before limits'') (
     sqn (eachA (\<lambda>(name, v). cgroup_write k g name v) (the (map_of LIMITS role))) (
     bnd (cgroup_snapshot k g) (\<lambda>s. lft (verify_cgroup s role)))))"

definition cgroup_attach :: "'w kernel \<Rightarrow> cgroup \<Rightarrow> int \<Rightarrow> ('w, unit) act" where
  "cgroup_attach k g pid =
     bnd (andA (ret (1 < pid)) (bnd (cgroup_read k g ''cgroup.procs'') (\<lambda>t. ret (t = [])))) (\<lambda>exclusive.
     sqn (ensure exclusive ''exclusive blocked child required'') (
     sqn (cgroup_write k g ''cgroup.procs'' (show_int pid)) (
     bnd (cgroup_read k g ''cgroup.procs'') (\<lambda>t.
     ensure (t = show_int pid) ''child cgroup admission failed''))))"

definition cgroup_kill :: "'w kernel \<Rightarrow> cgroup \<Rightarrow> ('w, unit) act" where
  "cgroup_kill k g = cgroup_write k g ''cgroup.kill'' ''1''"

definition cgroup_populated :: "'w kernel \<Rightarrow> cgroup \<Rightarrow> ('w, bool) act" where
  "cgroup_populated k g =
     bnd (cgroup_read k g ''cgroup.events'') (\<lambda>t.
     bnd (lft (counters t)) (\<lambda>events.
     sqn (ensure (map_of events ''populated'' \<in> {Some 0, Some 1}) ''unknown cgroup population'') (
     ret (map_of events ''populated'' = Some 1))))"

end
