(* ===== verification/Isolation.thy ===== *)
theory Isolation
  imports Cgroups
begin

text \<open>
  The second half of \<open>sw_i5_preparation_isolation.py\<close>: the checks of the worker's mount
  table and identity, the observations of \<open>LinuxPreparationProbe\<close>, and the guard with its
  sticky failure and current identity.
\<close>

subsection \<open>Mounts and identity of the worker\<close>

text \<open>\<open>(mount id, device, inode, bytes, inodes)\<close> of one domain.\<close>

type_synonym domain_key = "int \<times> string \<times> int \<times> int \<times> int"

definition utf8_length :: "string \<Rightarrow> nat" where
  "utf8_length s = sum_list (map (\<lambda>c. if code c < 128 then 1 else 2) s)"

definition domain_paths :: "contract \<Rightarrow> (string \<times> path) list" where
  "domain_paths c = [(''input'', ic_input c), (''work'', work_path c), (''result'', result_path c)]"

definition domain_flags_ok :: "string \<Rightarrow> mount \<Rightarrow> bool" where
  "domain_flags_ok role m =
     (let flags = (if role = ''input'' then {''ro''} else {''rw'', ''nosuid'', ''nodev'', ''noexec''}) in
      flags \<subseteq> m_options m \<and> ({''ro'', ''rw''} - flags) \<inter> m_options m = {})"

definition space_ok :: "string \<Rightarrow> mount \<Rightarrow> pyval \<Rightarrow> bool" where
  "space_ok role m info =
     (has_fields info [''bytes'', ''inodes'', ''device'', ''inode''] \<and>
      is_int (fld info ''bytes'') \<and> 0 < int_of (fld info ''bytes'') \<and>
      int_of (fld info ''bytes'') \<le> int (the (map_of STORAGE role)) \<and>
      is_int (fld info ''inodes'') \<and> 0 < int_of (fld info ''inodes'') \<and>
      int_of (fld info ''inodes'') \<le> (if role = ''work'' then 32768 else 4096) \<and>
      fld info ''device'' = PStr (m_device m) \<and> is_int (fld info ''inode'') \<and> 0 < int_of (fld info ''inode''))"

definition worker_domain ::
    "mount list \<Rightarrow> pyval \<Rightarrow> (string \<times> domain_key) list \<Rightarrow> string \<times> path \<Rightarrow> (string \<times> domain_key) list res" where
  "worker_domain mounts spaces domains = (\<lambda>(role, path).
     bindE (covering mounts path) (\<lambda>m.
     require (m_path m = path \<and> m_root m = ''/'') ''independent preparation domain required'' (
     require (domain_flags_ok role m) ''preparation mount flags'' (
     bindE (if role = ''input'' then
              require (m_kind m \<in> {''iso9660'', ''squashfs''} \<and> ''ro'' \<in> m_super_options m)
                ''immutable input filesystem required'' (Inr ())
            else
              require (m_kind m = ''tmpfs'' \<and> ''noswap'' \<in> m_super_options m) ''noswap tmpfs required'' (
              require (''rw'' \<in> m_super_options m) ''writable tmpfs superblock required'' (Inr ()))) (\<lambda>_.
     bindE (item spaces role) (\<lambda>info.
     require (space_ok role m info) ''filesystem hard capacity/inode binding'' (
     require (count_list (map m_device mounts) (m_device m) = 1) ''preparation domain alias'' (
     require (\<not> list_ex (\<lambda>x. m_path x \<noteq> path \<and> below (m_path x) path) mounts) ''nested preparation domain'' (
     Inr (domains @ [(role, (m_ident m, m_device m, int_of (fld info ''inode''), int_of (fld info ''bytes''),
                             int_of (fld info ''inodes'')))]))))))))))"

definition identity_fields :: "string list" where
  "identity_fields = [''uid'', ''gid'', ''groups'', ''capabilities'', ''no_new_privs'', ''namespace'',
     ''supervisor_namespace'', ''net_namespace'', ''supervisor_net_namespace'', ''ipc_namespace'',
     ''supervisor_ipc_namespace'', ''interfaces'', ''inherited_fds'', ''seccomp'', ''exclusive_uid'', ''admission_fd'']"

definition verify_identity :: "contract \<Rightarrow> pyval \<Rightarrow> unit res" where
  "verify_identity c v =
     bindE (check_fields v identity_fields) (\<lambda>_.
     let fd = fld v ''admission_fd'' in
     require (fd = PNone \<or> (is_int fd \<and> 3 \<le> int_of fd)) ''invalid admission descriptor'' (
     let expected_fds = PList ([PInt 0, PInt 1, PInt 2] @ (if fd = PNone then [] else [fd])) in
     bindE (eachE (\<lambda>(name, supervisor).
         require (is_int (fld v name) \<and> is_int (fld v supervisor) \<and> 0 < int_of (fld v name) \<and>
                  0 < int_of (fld v supervisor) \<and> fld v name \<noteq> fld v supervisor) ''private namespace identity'' (Inr ()))
       [(''namespace'', ''supervisor_namespace''), (''net_namespace'', ''supervisor_net_namespace''),
        (''ipc_namespace'', ''supervisor_ipc_namespace'')]) (\<lambda>_.
     require (pyeq (fld v ''uid'') (PInt (ic_uid c)) \<and> pyeq (fld v ''gid'') (PInt (ic_gid c)) \<and>
              pyeq (fld v ''groups'') (PList []) \<and> pyeq (fld v ''capabilities'') (PList (replicate 5 (PInt 0))) \<and>
              pyeq (fld v ''no_new_privs'') (PInt 1) \<and> fld v ''namespace'' \<noteq> fld v ''supervisor_namespace'' \<and>
              pyeq (fld v ''interfaces'') (PList [PStr ''lo'']) \<and> pyeq (fld v ''inherited_fds'') expected_fds \<and>
              pyeq (fld v ''seccomp'') (PInt 2) \<and> fld v ''exclusive_uid'' = PBool True)
       ''worker privilege/namespace/FD boundary'' (Inr ()))))"

definition verify_worker_mounts ::
    "contract \<Rightarrow> string \<Rightarrow> pyval \<Rightarrow> pyval \<Rightarrow> (string \<times> domain_key) list res" where
  "verify_worker_mounts c raw spaces v =
     require (utf8_length raw \<le> 256 * 1024) ''mount inventory limit'' (
     bindE (parse_mounts raw) (\<lambda>mounts.
     require (list_all (\<lambda>line. index_of (words line) ''-'' = 6) (splitlines raw)) ''private mount propagation required'' (
     require (card (set (map m_path mounts)) = length mounts) ''stacked mount rejected'' (
     bindE (foldE (worker_domain mounts spaces) [] (domain_paths c)) (\<lambda>domains.
     require (list_all (\<lambda>m. m_path m \<in> {work_path c, result_path c} \<or> (''ro'' \<in> m_options m \<and> ''rw'' \<notin> m_options m)) mounts)
       ''writable path outside work/result'' (
     require (card (set (map (fst \<circ> snd \<circ> snd) domains)) = 3) ''independent domain devices required'' (
     bindE (verify_identity c v) (\<lambda>_. Inr domains))))))))"

subsection \<open>Kernel text\<close>

definition kernel_text :: "'w kernel \<Rightarrow> path \<Rightarrow> nat \<Rightarrow> ('w, string) act" where
  "kernel_text k path limit =
     bnd (k_read_path k path (limit + 1)) (\<lambda>raw.
     sqn (ensure (length raw \<le> limit) ''kernel observation limit'') (lft (ascii raw)))"

definition proc_path :: "int \<Rightarrow> string \<Rightarrow> path" where
  "proc_path pid s = path_join (path_join (path_of ''/proc'') (show_int pid)) s"

definition status_line :: "(string \<times> string) list \<Rightarrow> string \<Rightarrow> (string \<times> string) list res" where
  "status_line result line =
     (case partition1 (CHR '':'') line of (key, separator, v) \<Rightarrow>
      require (separator \<and> key \<notin> fst ` set result) ''invalid process status'' (Inr (result @ [(key, strip v)])))"

definition process_status :: "'w kernel \<Rightarrow> int \<Rightarrow> ('w, (string \<times> string) list) act" where
  "process_status k pid =
     bnd (kernel_text k (proc_path pid ''status'') 8192) (\<lambda>t. lft (foldE status_line [] (splitlines t)))"

text \<open>\<open>int(s, base)\<close>: an optional sign and prefix, and digits with single underscores.\<close>

definition digit_value :: "char \<Rightarrow> nat" where
  "digit_value c = (if is_digit c then code c - 48 else if is_lower c then code c - 87
     else if is_upper c then code c - 55 else 99)"

definition base_int :: "nat \<Rightarrow> string \<Rightarrow> int res" where
  "base_int b s =
     (let t = strip s;
          neg = (take 1 t = ''-'');
          u = (if take 1 t = ''-'' \<or> take 1 t = ''+'' then tl t else t);
          p = (if (b = 16 \<and> lower (take 2 u) = ''0x'') \<or> (b = 8 \<and> lower (take 2 u) = ''0o'') then drop 2 u else u);
          w = (if length p < length u \<and> take 1 p = ''_'' then tl p else p);
          ds = plus (Cls (\<lambda>c. digit_value c < b))
      in require (fullmatch (Cat ds (Rep (Cat (lit ''_'') ds))) w) ''invalid literal for int()''
           (let n = foldl (\<lambda>a c. a * b + digit_value c) 0 (filter (\<lambda>c. c \<noteq> CHR ''_'') w)
            in Inr (if neg then - int n else int n)))"

definition status_field :: "(string \<times> string) list \<Rightarrow> string \<Rightarrow> string res" where
  "status_field status key = (case map_of status key of None \<Rightarrow> Inl (KeyError key) | Some v \<Rightarrow> Inr v)"

definition status_ints :: "(string \<times> string) list \<Rightarrow> string \<Rightarrow> int list res" where
  "status_ints status key = bindE (status_field status key) (\<lambda>v. mapE (base_int 10) (words v))"

subsection \<open>The probe\<close>

type_synonym cgroup_states = "(string \<times> cgroup_state) list"

record preparation_probe =
  pp_contract :: contract
  pp_pid :: "int option"
  pp_admission :: "int option"
  pp_groups :: "(string \<times> cgroup) list"

definition close_groups :: "'w kernel \<Rightarrow> (string \<times> cgroup) list \<Rightarrow> ('w, unit) act" where
  "close_groups k gs = eachA (\<lambda>(_, g). cgroup_close k g) gs"

fun open_groups :: "'w kernel \<Rightarrow> contract \<Rightarrow> (string \<times> cgroup) list \<Rightarrow> string list \<Rightarrow> ('w, (string \<times> cgroup) list) act" where
  "open_groups k c gs [] = ret gs"
| "open_groups k c gs (role # roles) =
     bnd (on_error (cgroup_open k (role_path c role)) (close_groups k gs)) (\<lambda>g.
     open_groups k c (gs @ [(role, g)]) roles)"

definition probe_init :: "'w kernel \<Rightarrow> contract \<Rightarrow> ('w, preparation_probe) act" where
  "probe_init k c =
     bnd (open_groups k c [] (map fst LIMITS)) (\<lambda>gs.
     ret \<lparr> pp_contract = c, pp_pid = None, pp_admission = None, pp_groups = gs \<rparr>)"

definition probe_close :: "'w kernel \<Rightarrow> preparation_probe \<Rightarrow> ('w, preparation_probe) act" where
  "probe_close k p = sqn (close_groups k (pp_groups p)) (ret (p\<lparr>pp_groups := []\<rparr>))"

definition probe_bind :: "preparation_probe \<Rightarrow> pyval \<Rightarrow> pyval \<Rightarrow> preparation_probe res" where
  "probe_bind p pid admission_fd =
     require (pp_pid p = None \<and> is_int pid \<and> 1 < int_of pid \<and> is_int admission_fd \<and> 3 \<le> int_of admission_fd)
       ''one owned blocked worker required''
       (Inr (p\<lparr>pp_pid := Some (int_of pid), pp_admission := Some (int_of admission_fd)\<rparr>))"

definition group_snapshot :: "'w kernel \<Rightarrow> preparation_probe \<Rightarrow> ('w, cgroup_states) act" where
  "group_snapshot k p = mapA (\<lambda>(role, g). bnd (cgroup_snapshot k g) (\<lambda>s. ret (role, s))) (pp_groups p)"

definition worker_membership :: "contract \<Rightarrow> string" where
  "worker_membership c = ''0::'' @ removeprefix (path_str (cgroup_path c)) ''/sys/fs/cgroup'' @ ''/worker''"

definition domain_space :: "'w kernel \<Rightarrow> int \<Rightarrow> string \<times> path \<Rightarrow> ('w, string \<times> pyval) act" where
  "domain_space k pid = (\<lambda>(role, path).
     let target = path_join (proc_path pid ''root'') (dropWhile (\<lambda>c. c = CHR ''/'') (path_str path)) in
     bnd (k_stat k target) (\<lambda>info.
     bnd (k_statvfs k target) (\<lambda>s.
     sqn (ensure (S_ISDIR info) ''worker domain is not a directory'') (
     ret (role, PDict [(''bytes'', PInt (f_blocks s * f_frsize s)), (''inodes'', PInt (f_files s)),
                       (''device'', PStr (device_text (st_dev info))), (''inode'', PInt (st_ino info))])))))"

definition check_admission :: "'w kernel \<Rightarrow> int \<Rightarrow> int \<Rightarrow> ('w, unit) act" where
  "check_admission k pid fd =
     bnd (k_stat k (proc_path pid (''fd/'' @ show_int fd))) (\<lambda>info.
     sqn (ensure (S_ISFIFO info) ''admission must be a read-only pipe'') (
     bnd (kernel_text k (proc_path pid (''fdinfo/'' @ show_int fd)) 8192) (\<lambda>t.
     bnd (lft (mapE (\<lambda>line. case words line of _ # w # _ \<Rightarrow> Inr w | _ \<Rightarrow> Inl (IndexError ''list index out of range''))
                (filter (\<lambda>l. startswith l ''flags:'') (splitlines t)))) (\<lambda>flags.
     bnd (if length flags = 1 then bnd (lft (base_int 8 (hd flags))) (\<lambda>n. ret (n mod 4 = 0)) else ret False) (\<lambda>readonly.
     ensure readonly ''writable admission channel'')))))"

definition check_stdio :: "'w kernel \<Rightarrow> contract \<Rightarrow> int \<Rightarrow> pyval \<Rightarrow> ('w, unit) act" where
  "check_stdio k c pid result_device =
     bnd (andA (bnd (k_readlink k (proc_path pid ''fd/0'')) (\<lambda>l. ret (l = ''/dev/null'')))
          (andA (bnd (k_readlink k (proc_path pid ''fd/1'')) (\<lambda>l. ret (l = path_str (path_join (result_path c) ''worker.stdout''))))
                (bnd (k_readlink k (proc_path pid ''fd/2'')) (\<lambda>l. ret (l = path_str (path_join (result_path c) ''worker.stderr'')))))) (\<lambda>bounded.
     sqn (ensure bounded ''unbounded worker stdio'') (
     eachA (\<lambda>fd. bnd (k_stat k (proc_path pid (''fd/'' @ show_int fd))) (\<lambda>info.
         ensure (S_ISREG info \<and> PStr (device_text (st_dev info)) = result_device)
           ''worker output outside bounded result filesystem'')) [1, 2]))"

definition check_process :: "'w kernel \<Rightarrow> contract \<Rightarrow> string \<Rightarrow> ('w, unit) act" where
  "check_process k c name =
     handle_if (is_os_class FileNotFoundError)
       (bnd (lft (base_int 10 name)) (\<lambda>pid.
        bnd (process_status k pid) (\<lambda>other.
        bnd (lft (status_ints other ''Uid'')) (\<lambda>uids.
        whenA (ic_uid c \<in> set uids)
          (bnd (kernel_text k (path_join (path_join (path_of ''/proc'') name) ''cgroup'') 8192) (\<lambda>t.
           ensure (strip t = worker_membership c) ''UID used outside worker cgroup''))))))
       (\<lambda>_. ret ())"

definition worker_identity ::
    "'w kernel \<Rightarrow> int \<Rightarrow> (string \<times> string) list \<Rightarrow> int list \<Rightarrow> int list \<Rightarrow> int list \<Rightarrow> int option \<Rightarrow> ('w, pyval) act" where
  "worker_identity k pid status uids gids fds admission =
     bnd (lft (status_ints status ''Groups'')) (\<lambda>groups.
     bnd (lft (mapE (\<lambda>key. bindE (status_field status key) (base_int 16))
                [''CapInh'', ''CapPrm'', ''CapEff'', ''CapBnd'', ''CapAmb''])) (\<lambda>caps.
     bnd (lft (bindE (status_field status ''NoNewPrivs'') (base_int 10))) (\<lambda>nnp.
     bnd (lft (bindE (status_field status ''Seccomp'') (base_int 10))) (\<lambda>seccomp.
     bnd (kernel_text k (proc_path pid ''net/dev'') 8192) (\<lambda>net.
     let interfaces = sort (map (\<lambda>line. strip (hd (split_all (CHR '':'') line))) (drop 2 (splitlines net))) in
     bnd (mapA (\<lambda>(name, ns).
            bnd (k_stat k (proc_path pid (''ns/'' @ ns))) (\<lambda>own.
            bnd (k_stat k (path_join (path_of ''/proc/self/ns'') ns)) (\<lambda>sup.
            ret [(name, PInt (st_ino own)), (''supervisor_'' @ name, PInt (st_ino sup))])))
          [(''namespace'', ''mnt''), (''net_namespace'', ''net''), (''ipc_namespace'', ''ipc'')]) (\<lambda>nss.
     ret (PDict ([(''uid'', PInt (hd uids)), (''gid'', PInt (hd gids)), (''groups'', PList (map PInt groups)),
        (''capabilities'', PList (map PInt caps)), (''no_new_privs'', PInt nnp), (''seccomp'', PInt seccomp),
        (''exclusive_uid'', PBool True), (''inherited_fds'', PList (map PInt fds)),
        (''admission_fd'', case admission of None \<Rightarrow> PNone | Some n \<Rightarrow> PInt n),
        (''interfaces'', PList (map PStr interfaces))] @ concat nss))))))))"

type_synonym observation = "string \<times> pyval \<times> pyval \<times> cgroup_states"

definition probe_observe :: "'w kernel \<Rightarrow> preparation_probe \<Rightarrow> ('w, observation) act" where
  "probe_observe k p =
     bnd (group_snapshot k p) (\<lambda>groups.
     case pp_pid p of None \<Rightarrow> ret ([], PDict [], PDict [], groups) | Some pid \<Rightarrow>
     let c = pp_contract p in
     bnd (kernel_text k (proc_path pid ''cgroup'') 8192) (\<lambda>t.
     sqn (ensure (strip t = worker_membership c) ''worker escaped bound cgroup'') (
     bnd (kernel_text k (proc_path pid ''mountinfo'') (256 * 1024)) (\<lambda>raw.
     bnd (mapA (domain_space k pid) (domain_paths c)) (\<lambda>spaces.
     bnd (process_status k pid) (\<lambda>status.
     bnd (lft (status_ints status ''Uid'')) (\<lambda>uids.
     bnd (lft (status_ints status ''Gid'')) (\<lambda>gids.
     sqn (ensure (uids = replicate 4 (ic_uid c) \<and> gids = replicate 4 (ic_gid c)) ''saved/filesystem identity mismatch'') (
     bnd (k_iterdir k (proc_path pid ''fd'')) (\<lambda>names.
     bnd (lft (mapE (base_int 10) names)) (\<lambda>ns.
     let fds = sort ns;
         admission = (case pp_admission p of None \<Rightarrow> None | Some a \<Rightarrow> if a \<in> set fds then Some a else None) in
     sqn (case admission of None \<Rightarrow> ret () | Some a \<Rightarrow> check_admission k pid a) (
     sqn (check_stdio k c pid (fld (fld (PDict spaces) ''result'') ''device'')) (
     bnd (k_iterdir k (path_of ''/proc'')) (\<lambda>all_names.
     let entries = filter isdigit all_names in
     sqn (ensure (length entries \<le> 8192) ''process inventory limit'') (
     sqn (eachA (check_process k c) entries) (
     bnd (worker_identity k pid status uids gids fds admission) (\<lambda>v.
     ret (raw, PDict spaces, v, groups))))))))))))))))))"

subsection \<open>The guard\<close>

text \<open>
  The probe object of the guard: its observation, \<open>group_snapshot\<close> where it has one, and
  \<open>bind_worker\<close>.
\<close>

record 'w isolation_probe =
  ip_observe :: "('w, observation) act"
  ip_groups :: "('w, cgroup_states) act option"
  ip_bind :: "pyval \<Rightarrow> pyval \<Rightarrow> ('w, unit) act"

definition linux_isolation_probe :: "'w kernel \<Rightarrow> ('w \<Rightarrow> preparation_probe) \<Rightarrow> (preparation_probe \<Rightarrow> 'w \<Rightarrow> 'w) \<Rightarrow> 'w isolation_probe" where
  "linux_isolation_probe k look store =
     \<lparr> ip_observe = bnd (get look) (probe_observe k), ip_groups = Some (bnd (get look) (group_snapshot k)),
       ip_bind = (\<lambda>pid fd. bnd (get look) (\<lambda>p. bnd (lft (probe_bind p pid fd)) (\<lambda>p'. upd (store p')))) \<rparr>"

type_synonym boundary = "(string \<times> domain_key) list \<times> (string \<times> int \<times> int) list"

record 'w isolation_guard =
  ig_world :: 'w
  ig_initial :: "boundary option"
  ig_failure :: "string option"
  ig_groups :: "(string \<times> int \<times> int) list option"

definition isolation_guard :: "'w \<Rightarrow> 'w isolation_guard" where
  "isolation_guard w = \<lparr> ig_world = w, ig_initial = None, ig_failure = None, ig_groups = None \<rparr>"

definition guarded :: "('w, 'a) act \<Rightarrow> ('w isolation_guard, 'a) act" where
  "guarded m = (\<lambda>s. let (r, w) = m (ig_world s) in (r, s\<lparr>ig_world := w\<rparr>))"

definition iso_caught :: "exn \<Rightarrow> bool" where
  "iso_caught e = (caught e \<or> (\<exists>m. e = KeyError m))"

lemma iso_caught_code [code]: "iso_caught e = (caught e \<or> (case e of KeyError _ \<Rightarrow> True | _ \<Rightarrow> False))"
  by (simp add: iso_caught_def split: exn.split)

definition stop_isolation :: "exn \<Rightarrow> ('w isolation_guard, 'a) act" where
  "stop_isolation x =
     (let m = ''preparation isolation stopped: '' @ exn_str x in
      sqn (upd (\<lambda>s. s\<lparr>ig_failure := Some m\<rparr>)) (lft (Inl (ValueError m))))"

definition admit_supervisor :: "'w kernel \<Rightarrow> contract \<Rightarrow> ('w, unit) act" where
  "admit_supervisor k c =
     bnd (cgroup_open k (role_path c ''supervisor'')) (\<lambda>g.
     try_finally
       (bnd (cgroup_snapshot k g) (\<lambda>s.
        sqn (lft (verify_cgroup s ''supervisor'')) (
        bnd (k_getpid k) (\<lambda>pid. cgroup_attach k g pid))))
       (cgroup_close k g))"

definition group_identities :: "cgroup_states \<Rightarrow> (string \<times> int \<times> int) list" where
  "group_identities groups = map (\<lambda>(role, s). (role, cs_identity s)) groups"

definition check_group :: "contract \<Rightarrow> string \<times> cgroup_state \<Rightarrow> unit res" where
  "check_group c = (\<lambda>(role, s).
     bindE (verify_cgroup s role) (\<lambda>_.
     require (cs_path s = path_str (role_path c role)) ''cgroup hierarchy path mismatch'' (Inr ())))"

definition check_hierarchy :: "contract \<Rightarrow> cgroup_states \<Rightarrow> int \<Rightarrow> unit res" where
  "check_hierarchy c groups pid =
     require (fst ` set groups = fst ` set LIMITS) ''complete cgroup hierarchy required'' (
     bindE (eachE (check_group c) groups) (\<lambda>_.
     require (card (set (map snd (group_identities groups))) = 3) ''supervisor must be outside worker cgroup'' (
     require (cs_procs (the (map_of groups ''supervisor'')) = [pid]) ''supervisor cgroup membership required'' (Inr ()))))"

definition groups_body :: "'w kernel \<Rightarrow> contract \<Rightarrow> 'w isolation_probe \<Rightarrow> ('w isolation_guard, cgroup_states) act" where
  "groups_body k c probe =
     bnd (guarded (case ip_groups probe of Some m \<Rightarrow> m
                   | None \<Rightarrow> bnd (ip_observe probe) (\<lambda>(_, _, _, groups). ret groups))) (\<lambda>groups.
     bnd (guarded (k_getpid k)) (\<lambda>pid.
     sqn (lft (check_hierarchy c groups pid)) (
     bnd (get ig_groups) (\<lambda>i.
     sqn (whenA (i = None) (upd (\<lambda>s. s\<lparr>ig_groups := Some (group_identities groups)\<rparr>))) (
     bnd (get ig_groups) (\<lambda>i.
     sqn (ensure (set (group_identities groups) = set (the i)) ''cgroup identity changed'') (ret groups)))))))"

definition check_cgroups :: "'w kernel \<Rightarrow> contract \<Rightarrow> 'w isolation_probe \<Rightarrow> ('w isolation_guard, cgroup_states) act" where
  "check_cgroups k c probe =
     bnd (get ig_failure) (\<lambda>f. case f of Some m \<Rightarrow> lft (Inl (ValueError m)) | None \<Rightarrow>
     handle_if iso_caught (groups_body k c probe) stop_isolation)"

definition before_admission :: "'w kernel \<Rightarrow> contract \<Rightarrow> 'w isolation_probe \<Rightarrow> ('w isolation_guard, unit) act" where
  "before_admission k c probe =
     bnd (check_cgroups k c probe) (\<lambda>groups.
     let w = the (map_of groups ''worker'') in
     if cs_procs w \<noteq> [] \<or> map_of (cs_events w) ''populated'' \<noteq> Some 0
     then sqn (upd (\<lambda>s. s\<lparr>ig_failure := Some ''worker cgroup already in use''\<rparr>))
            (lft (Inl (ValueError ''worker cgroup already in use'')))
     else ret ())"

definition settle_boundary :: "boundary \<Rightarrow> ('w isolation_guard, boundary) act" where
  "settle_boundary current =
     bnd (get ig_initial) (\<lambda>i.
     sqn (whenA (i = None) (upd (\<lambda>s. s\<lparr>ig_initial := Some current\<rparr>))) (
     bnd (get ig_initial) (\<lambda>i.
     sqn (ensure (fst current = fst (the i) \<and> set (snd current) = set (snd (the i))) ''preparation boundary identity changed'') (
     ret current))))"

definition boundary_body :: "'w kernel \<Rightarrow> contract \<Rightarrow> 'w isolation_probe \<Rightarrow> ('w isolation_guard, boundary) act" where
  "boundary_body k c probe =
     bnd (guarded (ip_observe probe)) (\<lambda>(raw, spaces, v, _).
     bnd (lft (verify_worker_mounts c raw spaces v)) (\<lambda>domains.
     bnd (check_cgroups k c probe) (\<lambda>groups.
     settle_boundary (domains, group_identities groups))))"

definition isolation_check :: "'w kernel \<Rightarrow> contract \<Rightarrow> 'w isolation_probe \<Rightarrow> ('w isolation_guard, boundary) act" where
  "isolation_check k c probe =
     bnd (get ig_failure) (\<lambda>f. case f of Some m \<Rightarrow> lft (Inl (ValueError m)) | None \<Rightarrow>
     handle_if iso_caught (boundary_body k c probe) stop_isolation)"

end
