(* ===== verification/Base64.thy ===== *)
theory Base64
  imports Text
begin

text \<open>
  Base64 as the export channel uses it: \<open>base64.b64encode\<close>, and
  \<open>base64.b64decode(s, validate=True)\<close> with the state machine of \<open>binascii.a2b_base64\<close>
  (a quantum position, a count of pads, and the bits left over).
\<close>

definition b64_char :: "nat \<Rightarrow> char" where
  "b64_char n = (if n < 26 then char_of (65 + n) else if n < 52 then char_of (71 + n)
     else if n < 62 then char_of (n - 4) else if n = 62 then CHR ''+'' else CHR ''/'')"

definition b64_value :: "char \<Rightarrow> nat option" where
  "b64_value c =
     (let n = code c in
      if 65 \<le> n \<and> n \<le> 90 then Some (n - 65)
      else if 97 \<le> n \<and> n \<le> 122 then Some (n - 71)
      else if 48 \<le> n \<and> n \<le> 57 then Some (n + 4)
      else if c = CHR ''+'' then Some 62
      else if c = CHR ''/'' then Some 63
      else None)"

fun b64encode :: "string \<Rightarrow> string" where
  "b64encode [] = []"
| "b64encode [a] = [b64_char (code a div 4), b64_char (code a mod 4 * 16), CHR ''='', CHR ''='']"
| "b64encode [a, b] =
     [b64_char (code a div 4), b64_char (code a mod 4 * 16 + code b div 16), b64_char (code b mod 16 * 4), CHR ''='']"
| "b64encode (a # b # c # r) =
     b64_char (code a div 4) # b64_char (code a mod 4 * 16 + code b div 16) #
     b64_char (code b mod 16 * 4 + code c div 64) # b64_char (code c mod 64) # b64encode r"

definition byte :: "nat \<Rightarrow> char" where
  "byte n = char_of (n mod 256)"

definition cons_byte :: "nat \<Rightarrow> string res \<Rightarrow> string res" where
  "cons_byte n m = bindE m (\<lambda>r. Inr (byte n # r))"

text \<open>\<open>q\<close>: position in the quantum; \<open>p\<close>: pads seen; \<open>l\<close>: leftover bits.\<close>

fun a2b :: "nat \<Rightarrow> nat \<Rightarrow> nat \<Rightarrow> string \<Rightarrow> string res" where
  "a2b q p l [] = (if q = 0 then Inr [] else Inl (ValueError ''Incorrect padding''))"
| "a2b q p l (c # cs) =
     (if c = CHR ''='' then
        (if 2 \<le> q \<and> 4 \<le> q + (p + 1) then Inr [] else a2b q (if 2 \<le> q then p + 1 else p) l cs)
      else case b64_value c of
        None \<Rightarrow> a2b q p l cs
      | Some v \<Rightarrow>
          if q = 0 then a2b 1 0 v cs
          else if q = 1 then cons_byte (l * 4 + v div 16) (a2b 2 0 (v mod 16) cs)
          else if q = 2 then cons_byte (l * 16 + v div 4) (a2b 3 0 (v mod 4) cs)
          else cons_byte (l * 64 + v) (a2b 0 0 0 cs))"

definition b64_rx :: rx where
  "b64_rx = cats [Rep (Cls (\<lambda>c. is_alnum c \<or> c = CHR ''+'' \<or> c = CHR ''/'')), opt (lit ''=''), opt (lit ''='')]"

definition b64decode :: "string \<Rightarrow> string res" where
  "b64decode s = require (fullmatch b64_rx s) ''Non-base64 digit found'' (a2b 0 0 0 s)"

subsection \<open>Decoding what was encoded\<close>

lemma code_lt: "code c < 256"
  by (simp add: code_def)

lemma byte_code: "byte (code c) = c"
  by (simp add: byte_def code_def of_char_mod_256)

lemma b64_value_char: "n < 64 \<Longrightarrow> b64_value (b64_char n) = Some n"
  by (auto simp: b64_value_def b64_char_def code_def Let_def)

lemma b64_char_not_pad: "n < 64 \<Longrightarrow> b64_char n \<noteq> CHR ''=''"
proof
  assume n: "n < 64" and "b64_char n = CHR ''=''"
  then have "b64_value (CHR ''='') = Some n" using b64_value_char by metis
  then show False by (simp add: b64_value_def code_def)
qed

lemma a2b_step:
  assumes "n < 64"
  shows "a2b 0 p l (b64_char n # cs) = a2b (Suc 0) 0 n cs"
    "a2b (Suc 0) p l (b64_char n # cs) = cons_byte (l * 4 + n div 16) (a2b 2 0 (n mod 16) cs)"
    "a2b 2 p l (b64_char n # cs) = cons_byte (l * 16 + n div 4) (a2b 3 0 (n mod 4) cs)"
    "a2b 3 p l (b64_char n # cs) = cons_byte (l * 64 + n) (a2b 0 0 0 cs)"
  using assms by (simp_all add: b64_char_not_pad b64_value_char)

lemma cons_byte_Inr [simp]: "cons_byte n (Inr r) = Inr (byte n # r)"
  by (simp add: cons_byte_def)

lemma sextets:
  assumes "a < 256" and "b < 256" and "c < (256::nat)"
  shows "a div 4 < 64" "a mod 4 * 16 < 64" "a mod 4 * 16 + b div 16 < 64" "b mod 16 * 4 < 64"
    "b mod 16 * 4 + c div 64 < 64" "c mod 64 < 64"
    "a div 4 * 4 + (a mod 4 * 16) div 16 = a" "a div 4 * 4 + (a mod 4 * 16 + b div 16) div 16 = a"
    "(a mod 4 * 16 + b div 16) mod 16 * 16 + (b mod 16 * 4) div 4 = b"
    "(a mod 4 * 16 + b div 16) mod 16 * 16 + (b mod 16 * 4 + c div 64) div 4 = b"
    "(b mod 16 * 4 + c div 64) mod 4 * 64 + c mod 64 = c"
proof -
  have lt: "b div 16 < 16" "c div 64 < 4" "a mod 4 < 4" "b mod 16 < 16" "a div 4 < 64" using assms by auto
  have p16: "y < 16 \<Longrightarrow> (x * 16 + y) div 16 = x \<and> (x * 16 + y) mod 16 = y" for x y :: nat by simp
  have p4: "y < 4 \<Longrightarrow> (x * 4 + y) div 4 = x \<and> (x * 4 + y) mod 4 = y" for x y :: nat by simp
  show "a div 4 < 64" "c mod 64 < 64" "a mod 4 * 16 < 64" "b mod 16 * 4 < 64" using lt by linarith+
  show "a mod 4 * 16 + b div 16 < 64" "b mod 16 * 4 + c div 64 < 64" using lt by linarith+
  show "a div 4 * 4 + (a mod 4 * 16) div 16 = a" by simp
  show "a div 4 * 4 + (a mod 4 * 16 + b div 16) div 16 = a" using p16 [OF lt(1)] by simp
  show "(a mod 4 * 16 + b div 16) mod 16 * 16 + (b mod 16 * 4) div 4 = b" using p16 [OF lt(1)] by simp
  show "(a mod 4 * 16 + b div 16) mod 16 * 16 + (b mod 16 * 4 + c div 64) div 4 = b"
    using p16 [OF lt(1)] p4 [OF lt(2)] by simp
  show "(b mod 16 * 4 + c div 64) mod 4 * 64 + c mod 64 = c" using p4 [OF lt(2)] by simp
qed

lemma a2b_encode: "a2b 0 0 0 (b64encode s) = Inr s"
proof (induction s rule: b64encode.induct)
  case 1
  then show ?case by simp
next
  case (2 a)
  note s = sextets [OF code_lt [of a] code_lt [of a] code_lt [of a]]
  show ?case by (simp only: b64encode.simps a2b_step s) (simp add: byte_code)
next
  case (3 a b)
  note s = sextets [OF code_lt [of a] code_lt [of b] code_lt [of b]]
  show ?case by (simp only: b64encode.simps a2b_step s) (simp add: byte_code)
next
  case (4 a b c r)
  note s = sextets [OF code_lt [of a] code_lt [of b] code_lt [of c]]
  from 4 show ?case by (simp only: b64encode.simps a2b_step s) (simp add: byte_code)
qed

definition b64_letter :: "char \<Rightarrow> bool" where
  "b64_letter c = (is_alnum c \<or> c = CHR ''+'' \<or> c = CHR ''/'')"

lemma b64_letter_char: "n < 64 \<Longrightarrow> b64_letter (b64_char n)"
  by (auto simp: b64_letter_def b64_char_def is_alnum_def is_digit_def is_lower_def is_upper_def)

lemma b64encode_shape:
  "\<exists>u v. b64encode s = u @ v \<and> list_all b64_letter u \<and> v \<in> {[], ''='', ''==''}"
proof (induction s rule: b64encode.induct)
  case (2 a)
  note s = sextets [OF code_lt [of a] code_lt [of a] code_lt [of a]]
  show ?case
    by (rule exI [of _ "[b64_char (code a div 4), b64_char (code a mod 4 * 16)]"], rule exI [of _ "''==''"])
      (simp add: b64_letter_char s)
next
  case (3 a b)
  note s = sextets [OF code_lt [of a] code_lt [of b] code_lt [of b]]
  show ?case
    by (rule exI [of _ "[b64_char (code a div 4), b64_char (code a mod 4 * 16 + code b div 16), b64_char (code b mod 16 * 4)]"],
        rule exI [of _ "''=''"]) (simp add: b64_letter_char s)
next
  case (4 a b c r)
  note s = sextets [OF code_lt [of a] code_lt [of b] code_lt [of c]]
  from 4 obtain u v where "b64encode r = u @ v" "list_all b64_letter u" "v \<in> {[], ''='', ''==''}" by blast
  then show ?case
    by (intro exI [of _ "b64_char (code a div 4) # b64_char (code a mod 4 * 16 + code b div 16) #
          b64_char (code b mod 16 * 4 + code c div 64) # b64_char (code c mod 64) # u"] exI [of _ v])
      (simp add: b64_letter_char s)
qed simp

lemma b64_rx_encode: "fullmatch b64_rx (b64encode s)"
proof -
  obtain u v where e: "b64encode s = u @ v" and u: "list_all b64_letter u" and v: "v \<in> {[], ''='', ''==''}"
    using b64encode_shape by blast
  have "u \<in> lang (Rep (Cls b64_letter))" using u by (simp add: star_Cls)
  moreover have "v \<in> lang (Cat (opt (lit ''='')) (opt (lit ''='')))" using v by (auto simp: opt_def intro: exI [of _ "''=''"])
  ultimately have "u @ v \<in> lang (Cat (Rep (Cls b64_letter)) (Cat (opt (lit ''='')) (opt (lit ''=''))))"
    by (simp only: lang.simps) blast
  then show ?thesis by (simp only: e fullmatch_lang b64_rx_def cats.simps b64_letter_def [abs_def])
qed

lemma b64decode_encode: "b64decode (b64encode s) = Inr s"
  by (simp add: b64decode_def b64_rx_encode a2b_encode)

lemma length_b64encode: "length (b64encode s) = 4 * ((length s + 2) div 3)"
proof (induction s rule: b64encode.induct)
  case (4 a b c r)
  have "(length (a # b # c # r) + 2) div 3 = Suc ((length r + 2) div 3)" by simp
  with 4 show ?case by simp
qed simp_all

end
