(* ===== verification/AptResult.thy ===== *)
theory AptResult
  imports Apt
begin

text \<open>
  The result document of a preparation (\<open>blocked_result\<close>, \<open>validate_result\<close>): in this
  version of the protocol it can only be a blocked or a synthetic result, and a passed one
  carries every step in order, each with exit status 0.
\<close>

subsection \<open>The document\<close>

definition blocked_result :: "string \<Rightarrow> string \<Rightarrow> pyval" where
  "blocked_result nonce manifest_sha256 = PDict
    [(''schema_version'', PInt 1), (''scope'', PStr SCOPE), (''nonce'', PStr nonce), (''uuid'', PStr UUID),
     (''manifest_sha256'', PStr manifest_sha256), (''i5_ready'', PBool False), (''install_authorized'', PBool False),
     (''passed'', PBool False), (''signature_verified'', PBool False), (''apt_resolved'', PBool False),
     (''failure'', PStr STOP), (''evidence_kind'', PStr ''blocked''), (''steps'', PList []), (''added'', PDict [])]"

definition result_fields :: "string list" where
  "result_fields = [''schema_version'', ''scope'', ''nonce'', ''uuid'', ''manifest_sha256'', ''i5_ready'',
     ''install_authorized'', ''passed'', ''signature_verified'', ''apt_resolved'', ''failure'', ''evidence_kind'',
     ''steps'', ''added'']"

definition label_rx :: rx where "label_rx = plus (Cls (\<lambda>c. is_lower c \<or> c = CHR ''-''))"

definition check_step :: "pyval \<Rightarrow> unit res" where
  "check_step s =
     bindE (check_fields s [''label'', ''exit_code'', ''failure'', ''cleanup_errors'']) (\<lambda>_.
     require (is_str (fld s ''label'') \<and> fullmatch label_rx (str_of (fld s ''label'')) \<and>
              (fld s ''exit_code'' = PNone \<or> is_int (fld s ''exit_code'')) \<and>
              (fld s ''failure'' = PNone \<or> is_str (fld s ''failure'')) \<and>
              is_list (fld s ''cleanup_errors'') \<and> list_all is_str (list_of (fld s ''cleanup_errors'')))
       ''invalid step evidence'' (Inr ()))"

definition added_rx :: rx where
  "added_rx = Cat (Cls (\<lambda>c. is_lower c \<or> is_digit c))
     (Cat (plus (Cls (\<lambda>c. is_lower c \<or> is_digit c \<or> one_of ''+.-'' c))) (lit '':arm64''))"

definition check_added :: "string \<times> pyval \<Rightarrow> unit res" where
  "check_added = (\<lambda>(name, ver). require (fullmatch added_rx name \<and> version ver) ''invalid added package'' (Inr ()))"

definition step_ok :: "pyval \<Rightarrow> bool" where
  "step_ok s = (fld s ''exit_code'' = PInt 0 \<and> fld s ''failure'' = PNone \<and> list_of (fld s ''cleanup_errors'') = [])"

text \<open>The binding of a result to the request, and the flags that v1 never sets.\<close>

definition result_binding :: "pyval \<Rightarrow> string \<Rightarrow> string \<Rightarrow> bool" where
  "result_binding r nonce manifest_sha256 =
     (fld r ''schema_version'' = PInt 1 \<and> fld r ''scope'' = PStr SCOPE \<and> hex_string 32 nonce \<and>
      fld r ''nonce'' = PStr nonce \<and> fld r ''uuid'' = PStr UUID \<and> digest (PStr manifest_sha256) \<and>
      fld r ''manifest_sha256'' = PStr manifest_sha256)"

definition result_closed :: "pyval \<Rightarrow> bool" where
  "result_closed r =
     (fld r ''i5_ready'' = PBool False \<and> fld r ''install_authorized'' = PBool False \<and>
      fld r ''signature_verified'' = PBool False \<and> fld r ''apt_resolved'' = PBool False)"

definition result_state :: "pyval \<Rightarrow> bool" where
  "result_state r =
     ((fld r ''passed'' = PBool True \<and> fld r ''evidence_kind'' = PStr ''synthetic'' \<and> fld r ''failure'' = PNone) \<or>
      (fld r ''passed'' = PBool False \<and> is_str (fld r ''failure'') \<and> str_of (fld r ''failure'') \<noteq> []))"

definition step_labels :: "pyval \<Rightarrow> pyval list" where
  "step_labels r = map (\<lambda>s. fld s ''label'') (list_of (fld r ''steps''))"

definition check_result :: "pyval \<Rightarrow> string \<Rightarrow> string \<Rightarrow> pyval res" where
  "check_result r nonce manifest_sha256 =
     bindE (check_fields r result_fields) (\<lambda>_.
     require (result_binding r nonce manifest_sha256) ''preparation result binding mismatch'' (
     require (result_closed r) ''no real verification evidence in v1'' (
     if \<not> hashable (fld r ''evidence_kind'') then Inl (TypeError ''unhashable type'') else
     require (fld r ''evidence_kind'' = PStr ''blocked'' \<or> fld r ''evidence_kind'' = PStr ''synthetic'')
       ''no real verification evidence in v1'' (
     require (is_bool (fld r ''passed'') \<and> is_list (fld r ''steps'') \<and> is_dict (fld r ''added''))
       ''invalid preparation result'' (
     require (result_state r) ''invalid result state'' (
     require (length (list_of (fld r ''steps'')) \<le> 32) ''step count limit'' (
     bindE (eachE check_step (list_of (fld r ''steps''))) (\<lambda>_.
     bindE (eachE check_added (dict_of (fld r ''added''))) (\<lambda>_.
     let labels = step_labels r in
     require (labels = map PStr (take (length labels) STEP_LABELS)) ''stage evidence order mismatch'' (
     require (fld r ''evidence_kind'' = PStr ''blocked'' \<longrightarrow>
                fld r ''failure'' = PStr STOP \<and> list_of (fld r ''steps'') = [] \<and> dict_of (fld r ''added'') = [])
       ''invalid blocked result'' (
     require (fld r ''passed'' = PBool True \<longrightarrow>
                labels = map PStr STEP_LABELS \<and> list_all step_ok (list_of (fld r ''steps'')))
       ''failed or missing step cannot pass'' (Inr r))))))))))))"

definition validate_result :: "string \<Rightarrow> string \<Rightarrow> string \<Rightarrow> pyval res" where
  "validate_result raw nonce manifest_sha256 =
     bindE (decode raw RESULT_LIMIT) (\<lambda>r. check_result r nonce manifest_sha256)"

end
