(* ===== verification/LeaseProps.thy ===== *)
theory LeaseProps
  imports Lease
begin

text \<open>
  What the lease protocol guarantees: a renewal is accepted exactly when it carries the
  next sequence number and the binding of the lease; no operation ever moves the absolute
  deadline; cancellation, a burst of buffered frames and an oversized buffer are permanent;
  how a frame is split into reads does not matter.
\<close>

subsection \<open>Reachable leases\<close>

text \<open>The operations that change a lease are \<open>feed\<close> and, through it, \<open>drain_lease\<close>.\<close>

inductive lease_step :: "lease \<Rightarrow> lease \<Rightarrow> bool" where
  feed: "lease_feed l raw now = (l', out) \<Longrightarrow> lease_step l l'"
| drain: "drain_lease is_fd obs l now rs = (l', out') \<Longrightarrow> lease_step l l'"

inductive_cases lease_stepE: "lease_step l l'"

definition lease_binding :: "lease \<Rightarrow> string \<times> string \<times> string \<times> string \<times> rat \<times> rat" where
  "lease_binding l = (l_side l, l_scope l, l_nonce l, l_manifest l, l_deadline l, l_silence l)"

text \<open>How a lease relates to the one it was before some operations.\<close>

definition lease_later :: "lease \<Rightarrow> lease \<Rightarrow> bool" where
  "lease_later l l' =
     (lease_binding l' = lease_binding l \<and> l_sequence l \<le> l_sequence l' \<and>
      l_last l \<le> l_last l' \<and> (l_cancelled l \<longrightarrow> l_cancelled l') \<and>
      (l_sequence l < l_sequence l' \<longrightarrow> \<not> l_cancelled l \<and> l_last l' < l_deadline l) \<and>
      (l_sequence l = l_sequence l' \<longrightarrow> l_last l' = l_last l \<and> l_cancelled l' = l_cancelled l))"

lemma lease_later_refl [simp]: "lease_later l l"
  by (simp add: lease_later_def)

lemma lease_later_buffer [simp]: "lease_later l (l\<lparr>l_buffer := b\<rparr>)"
  by (simp add: lease_later_def lease_binding_def)

lemma lease_later_trans: "lease_later l l' \<Longrightarrow> lease_later l' l'' \<Longrightarrow> lease_later l l''"
  by (auto simp: lease_later_def lease_binding_def)

lemma lease_accept_fields:
  assumes "lease_message (l\<lparr>l_buffer := []\<rparr>) v = Inr ()" and "finite_num now = Some t"
  shows "fst (lease_accept (l\<lparr>l_buffer := []\<rparr>) v now) =
    l\<lparr>l_buffer := [], l_sequence := l_sequence l + 1, l_last := t,
      l_cancelled := (fld v ''action'' = PStr ''cancel'')\<rparr>"
  using assms by (simp add: lease_accept_def Let_def res_simps)

lemma lease_feed_later: "lease_feed l raw now = (l', out) \<Longrightarrow> lease_later l l'"
proof -
  assume f: "lease_feed l raw now = (l', out)"
  show ?thesis
  proof (cases rule: lease_feed_cases [of l raw now])
    case (accepted line v)
    from accepted(7) obtain t where t: "finite_num now = Some t" "l_last l \<le> t" "t < l_deadline l"
      "\<not> l_cancelled l"
      by (auto simp: res_simps)
    have "l' = fst (lease_accept (l\<lparr>l_buffer := []\<rparr>) v now)" using f accepted(8) by simp
    with lease_accept_fields [OF accepted(6) t(1)] t show ?thesis
      by (simp add: lease_later_def lease_binding_def)
  qed (use f in auto)
qed

lemma lease_step_later: "lease_step l l' \<Longrightarrow> lease_later l l'"
proof (erule lease_stepE)
  fix is_fd obs now rs out'
  assume "drain_lease is_fd obs l now rs = (l', out')"
  then consider "l' = l" | b out where "lease_feed l b now = (l', out)"
    by (cases obs) (auto simp: drain_lease_def Let_def prod_eq_iff split: if_splits)
  then show "lease_later l l'" by cases (auto intro: lease_feed_later)
qed (auto intro: lease_feed_later)

lemma lease_steps_later: "rtranclp lease_step l l' \<Longrightarrow> lease_later l l'"
  by (induction rule: rtranclp_induct) (auto intro: lease_later_trans lease_step_later)

subsection \<open>A concrete lease\<close>

definition demo_nonce :: string where "demo_nonce = replicate 32 (CHR ''0'')"
definition demo_manifest :: string where "demo_manifest = replicate 64 (CHR ''a'')"

definition demo_lease :: lease where
  "demo_lease = \<lparr> l_side = ''guest'', l_scope = ''i5-preparation-lease'', l_nonce = demo_nonce,
     l_manifest = demo_manifest, l_deadline = 540, l_last = 0, l_silence = 15, l_sequence = -1,
     l_buffer = [], l_cancelled = False \<rparr>"

lemma demo_lease_init:
  "lease_init (PStr demo_nonce) (PStr demo_manifest) (PInt 0) (PInt 540) (PInt 15) (PStr ''guest'')
     = Inr demo_lease"
  by (simp add: lease_init_Inr nonce_ok_def digest_def hex_string_def demo_nonce_def demo_manifest_def
      is_hex_def is_digit_def demo_lease_def GUEST_SECONDS_def LEASE_SECONDS_def list_all_iff)

lemma demo_lease_check: "lease_check demo_lease (PInt 1) False = Inr ()"
  by (simp add: lease_check_Inr demo_lease_def)

text \<open>C15: Absolute deadline. Whatever frames a guest or host lease is fed, in whatever
  fragments and at whatever clock readings, a check that still passes does so before the
  deadline fixed at construction (at most 540 or 620 seconds after the start), less than
  15 seconds after the last accepted renewal, and, if a start is required, only after a
  renewal was accepted.\<close>
theorem lease_deadline:
  assumes "lease_init nonce manifest started total_v silence side = Inr l0"
    and "rtranclp lease_step l0 l" and "lease_check l now rs = Inr ()"
    and "finite_num started = Some t0" and "finite_num total_v = Some tot"
    and "finite_num now = Some t"
  shows "t < t0 + tot \<and> tot \<le> (if side = PStr ''guest'' then 540 else 620) \<and>
    t < l_last l + 15 \<and> (rs \<longrightarrow> 0 \<le> l_sequence l) \<and> (l_sequence l = -1 \<longrightarrow> t < t0 + 15)"
proof -
  from assms(2) have later: "lease_later l0 l" by (rule lease_steps_later)
  from assms(1,4,5) obtain sil where l0: "l_deadline l0 = t0 + tot" "l_silence l0 = sil" "l_last l0 = t0"
      "l_sequence l0 = -1" and sil: "sil \<le> 15"
    and tot: "tot \<le> (if side = PStr ''guest'' then 540 else 620)"
    by (fastforce simp: lease_init_Inr GUEST_SECONDS_def HOST_SECONDS_def LEASE_SECONDS_def)
  from later l0 have l: "l_deadline l = t0 + tot" "l_silence l = sil"
    and fresh: "l_sequence l = -1 \<Longrightarrow> l_last l = t0"
    by (simp_all add: lease_later_def lease_binding_def)
  from assms(3,6) l have t: "t < t0 + tot" "t < l_last l + sil" "rs \<longrightarrow> 0 \<le> l_sequence l"
    by (auto simp: lease_check_Inr)
  with sil have "t < l_last l + 15" by simp
  with t tot fresh show ?thesis by auto
qed

theorem lease_deadline_witness:
  "(1::rat) < 0 + 540 \<and> (1::rat) < l_last demo_lease + 15"
  using lease_deadline [OF demo_lease_init rtranclp.rtrancl_refl demo_lease_check, of 0 540 1] by simp

subsection \<open>Frames\<close>

definition lease_ok :: "lease \<Rightarrow> bool" where
  "lease_ok l = (hex_string 32 (l_nonce l) \<and> hex_string 64 (l_manifest l) \<and>
     (l_scope l = ''i5-preparation-lease'' \<or> l_scope l = ''i5-preparation-host-lease'') \<and>
     -1 \<le> l_sequence l)"

lemma lease_init_ok: "lease_init nonce manifest started total_v silence side = Inr l \<Longrightarrow> lease_ok l"
  by (auto simp: res_simps lease_ok_def nonce_ok_def digest_def is_str_iff)

lemma demo_lease_ok: "lease_ok demo_lease"
  by (rule lease_init_ok [OF demo_lease_init])

lemma lease_ok_later: "lease_ok l \<Longrightarrow> lease_later l l' \<Longrightarrow> lease_ok l'"
  by (auto simp: lease_ok_def lease_later_def lease_binding_def)

definition plain_char :: "char \<Rightarrow> bool" where
  "plain_char c = (printable c \<and> c \<noteq> CHR 0x22 \<and> c \<noteq> CHR 0x5C)"

lemma esc_char_plain: "plain_char c \<Longrightarrow> esc_char c = [c]"
  by (auto simp: esc_char_def plain_char_def printable_def)

lemma quote_plain: "list_all plain_char s \<Longrightarrow> quote s = CHR 0x22 # s @ [CHR 0x22]"
  by (induction s) (auto simp: quote_def esc_char_plain)

lemma is_hex_plain: "is_hex c \<Longrightarrow> plain_char c"
  by (auto simp: plain_char_def is_hex_def is_digit_def printable_def)

lemma hex_string_quote: "hex_string n s \<Longrightarrow> length (quote s) = n + 2"
  by (subst quote_plain) (auto simp: hex_string_def list_all_iff is_hex_plain)

lemma length_show_int: "0 \<le> n \<Longrightarrow> n < 10 ^ k \<Longrightarrow> 0 < k \<Longrightarrow> length (show_int n) \<le> k"
  by (simp add: show_int_def length_show_nat nat_less_iff)

lemma quote_literals:
  "length (quote ''schema_version'') = 16" "length (quote ''scope'') = 7" "length (quote ''uuid'') = 6"
  "length (quote ''nonce'') = 7" "length (quote ''manifest_sha256'') = 17"
  "length (quote ''sequence'') = 10" "length (quote ''action'') = 8"
  "length (quote ''i5-preparation-lease'') = 22" "length (quote ''i5-preparation-host-lease'') = 27"
  "length (quote ''renew'') = 7" "length (quote ''cancel'') = 8" "length (quote UUID) = 38"
  by code_simp+

text \<open>A document with the fields of a frame and an arbitrary action.\<close>

definition message_value :: "lease \<Rightarrow> int \<Rightarrow> pyval \<Rightarrow> pyval" where
  "message_value l n a =
     PDict [(''schema_version'', PInt 1), (''scope'', PStr (l_scope l)), (''uuid'', PStr UUID),
            (''nonce'', PStr (l_nonce l)), (''manifest_sha256'', PStr (l_manifest l)),
            (''sequence'', PInt n), (''action'', a)]"

lemma frame_value_message: "frame_value l n a = message_value l n (PStr a)"
  by (simp add: frame_value_def message_value_def)

lemma has_fields_message: "has_fields (message_value l n a) lease_fields"
  by (auto simp: message_value_def has_fields_def lease_fields_def)

lemma int_ok_sequence: "0 \<le> n \<Longrightarrow> n < 10 ^ 100 \<Longrightarrow> int_ok n"
proof -
  assume n: "0 \<le> n" "n < 10 ^ 100"
  have "(10::int) ^ 100 \<le> 10 ^ int_digits_limit"
    by (rule power_increasing) (simp_all add: int_digits_limit_def)
  with n show ?thesis by (simp add: int_ok_def)
qed

lemma json_ok_message:
  assumes "0 \<le> n" and "n < 10 ^ 100" and "json_ok (json_depth - 1) a"
  shows "json_ok json_depth (message_value l n a)"
proof -
  have "int_ok 1" by (rule int_ok_sequence) simp_all
  with assms int_ok_sequence [of n] show ?thesis
    by (simp add: message_value_def json_depth_def)
qed

lemma length_message:
  assumes "lease_ok l" and "0 \<le> n" and "n < 10 ^ 100"
  shows "length (dumps fr (message_value l n a)) \<le> 400 + length (dumps fr a)"
proof -
  have s: "length (quote (l_scope l)) \<le> 27"
    using assms(1) by (auto simp: lease_ok_def quote_literals)
  have m: "length (show_int n) \<le> 100" using assms by (intro length_show_int) auto
  have one: "length (show_int 1) = 1" by code_simp
  have h: "length (quote (l_nonce l)) = 34" "length (quote (l_manifest l)) = 66"
    using assms(1) by (auto simp: lease_ok_def hex_string_quote)
  show ?thesis
    using s m by (simp add: message_value_def quote_literals h one)
qed

lemma decode_message:
  assumes "lease_ok l" and "0 \<le> n" and "n < 10 ^ 100" and "json_ok (json_depth - 1) a"
    and "length (dumps fr a) \<le> 100"
  shows "decode (dumps fr (message_value l n a)) MAX_FRAME = Inr (message_value l n a)"
    and "CHR 0x0A \<notin> set (dumps fr (message_value l n a))"
    and "length (dumps fr (message_value l n a) @ [CHR 0x0A]) \<le> MAX_FRAME"
proof -
  have len: "length (dumps fr (message_value l n a)) \<le> 500"
    using length_message [OF assms(1-3), of fr a] assms(5) by simp
  show "decode (dumps fr (message_value l n a)) MAX_FRAME = Inr (message_value l n a)"
    by (rule decode_line [OF json_ok_message [OF assms(2-4)]]) (use len in \<open>simp add: MAX_FRAME_def\<close>)
  show "CHR 0x0A \<notin> set (dumps fr (message_value l n a))"
    by (rule newline_not_in_dumps [OF json_ok_message [OF assms(2-4)]])
  show "length (dumps fr (message_value l n a) @ [CHR 0x0A]) \<le> MAX_FRAME"
    using len by (simp add: MAX_FRAME_def)
qed

text \<open>What \<open>feed\<close> does with one complete document on an empty buffer.\<close>

lemma lease_feed_document:
  assumes "l_buffer l = []" and "lease_check l now False = Inr ()" and "json_ok json_depth v"
    and "length (dumps fr v) < MAX_FRAME"
  shows "lease_feed l (dumps fr v @ [CHR 0x0A]) now =
    (case lease_message l v of Inl e \<Rightarrow> (l, Inl e) | Inr _ \<Rightarrow> lease_accept l v now)"
proof -
  have d: "decode (dumps fr v) MAX_FRAME = Inr v" using assms(4) by (intro decode_line [OF assms(3)]) simp
  have n: "CHR 0x0A \<notin> set (dumps fr v)" by (rule newline_not_in_dumps [OF assms(3)])
  have l: "l\<lparr>l_buffer := []\<rparr> = l" using assms(1) by simp
  show ?thesis
    using d n assms(1,2,4) by (simp add: lease_feed_def Let_def del: dumps.simps) (simp only: l)
qed

lemma lease_feed_message:
  assumes "lease_ok l" and "l_buffer l = []" and "lease_check l now False = Inr ()"
    and "0 \<le> n" and "n < 10 ^ 100" and "json_ok (json_depth - 1) a" and "length (dumps fr a) \<le> 100"
  shows "lease_feed l (dumps fr (message_value l n a) @ [CHR 0x0A]) now =
    (case lease_message l (message_value l n a) of Inl e \<Rightarrow> (l, Inl e)
     | Inr _ \<Rightarrow> lease_accept l (message_value l n a) now)"
  using length_message [OF assms(1,4,5), of fr a] assms(7)
  by (intro lease_feed_document [OF assms(2,3) json_ok_message [OF assms(4-6)]]) (simp add: MAX_FRAME_def)

lemma lease_message_ok:
  "lease_message l (message_value l (l_sequence l + 1) (PStr ''renew'')) = Inr ()"
  using has_fields_message [of l "l_sequence l + 1" "PStr ''renew''"]
  by (simp add: res_simps message_value_def)

text \<open>Renewal round trip. The frame that the holder of a lease writes for the next
  sequence number is accepted by that lease (in one read, while it is alive), advances the
  sequence by one, restarts the silence period at the clock reading, and is acknowledged
  with that sequence number.\<close>
lemma lease_frame_accepted:
  assumes "lease_ok l" and "l_buffer l = []" and "lease_check l now False = Inr ()"
    and "l_sequence l + 1 < 10 ^ 100" and "finite_num now = Some t" and "0 < l_silence l"
  shows "lease_feed l (lease_frame l (l_sequence l + 1) ''renew'') now =
    (l\<lparr>l_sequence := l_sequence l + 1, l_last := t\<rparr>, Inr (Some (l_sequence l + 1)))"
proof -
  let ?m = "message_value l (l_sequence l + 1) (PStr ''renew'')"
  have n: "0 \<le> l_sequence l + 1" using assms(1) by (simp add: lease_ok_def)
  have "length (dumps (\<lambda>_. []) (PStr ''renew'')) \<le> 100" by (simp add: quote_literals)
  then have "lease_feed l (lease_frame l (l_sequence l + 1) ''renew'') now = lease_accept l ?m now"
    using lease_feed_message [OF assms(1-3) n assms(4), of "PStr ''renew''" "\<lambda>_. []"]
    by (simp add: lease_frame_def frame_value_message lease_message_ok del: dumps.simps)
  moreover have "fld ?m ''sequence'' = PInt (l_sequence l + 1)" "fld ?m ''action'' = PStr ''renew''"
    by (simp_all add: message_value_def)
  ultimately show ?thesis
    using assms(3,5,6) n by (simp add: lease_accept_def Let_def lease_check_def res_simps)
qed

lemma lease_feed_ack:
  assumes "lease_feed l raw now = (l', Inr (Some n))"
  shows "n = l_sequence l + 1 \<and> finite_num now = Some (l_last l') \<and>
    l' = l\<lparr>l_buffer := [], l_sequence := n, l_last := l_last l'\<rparr> \<and>
    (\<exists>line v. l_buffer l @ raw = line @ [CHR 0x0A] \<and> decode line MAX_FRAME = Inr v \<and>
       has_fields v lease_fields \<and> fld v ''uuid'' = PStr UUID \<and>
       fld v ''scope'' = PStr (l_scope l) \<and> fld v ''nonce'' = PStr (l_nonce l) \<and>
       fld v ''manifest_sha256'' = PStr (l_manifest l) \<and> fld v ''sequence'' = PInt n \<and>
       fld v ''action'' = PStr ''renew'')"
proof (cases rule: lease_feed_cases [of l raw now])
  case (accepted line v)
  from accepted(7) obtain t where t: "finite_num now = Some t" "\<not> l_cancelled l"
    by (auto simp: res_simps)
  have l': "l' = fst (lease_accept (l\<lparr>l_buffer := []\<rparr>) v now)"
    and out: "snd (lease_accept (l\<lparr>l_buffer := []\<rparr>) v now) = Inr (Some n)"
    using assms accepted(8) by simp_all
  note f = lease_accept_fields [OF accepted(6) t(1)]
  from out have live: "\<not> l_cancelled l'" and n: "n = l_sequence l'"
    unfolding l' by (auto simp: lease_accept_def Let_def res_simps)
  from live have "fld v ''action'' \<noteq> PStr ''cancel''" unfolding l' f by simp
  with accepted(1,5,6) n t show ?thesis
    unfolding l' f by (auto simp: res_simps)
qed (use assms in auto)

text \<open>C16: No replay, no foreign frame. When \<open>feed\<close> acknowledges a sequence number, it is
  the one after the last accepted, the frame was one complete line whose JSON carries exactly
  the seven fields with this lease's scope, UUID, nonce and manifest digest, the action is
  a renewal, and the only other change to the lease is the time of the last renewal.\<close>
theorem lease_feed_acknowledged:
  assumes "lease_feed l raw now = (l', Inr (Some n))"
  shows "n = l_sequence l + 1 \<and> finite_num now = Some (l_last l') \<and>
    l' = l\<lparr>l_buffer := [], l_sequence := n, l_last := l_last l'\<rparr> \<and>
    (\<exists>line v. l_buffer l @ raw = line @ [CHR 0x0A] \<and> decode line MAX_FRAME = Inr v \<and>
       has_fields v lease_fields \<and> fld v ''uuid'' = PStr UUID \<and>
       fld v ''scope'' = PStr (l_scope l) \<and> fld v ''nonce'' = PStr (l_nonce l) \<and>
       fld v ''manifest_sha256'' = PStr (l_manifest l) \<and> fld v ''sequence'' = PInt n \<and>
       fld v ''action'' = PStr ''renew'')"
  by (rule lease_feed_ack [OF assms])

text \<open>C35: Fragmentation. Splitting the bytes of a frame into two reads at the same clock
  reading gives the same lease and the same outcome as one read, as long as the first
  fragment holds no newline.\<close>
theorem lease_feed_fragments:
  assumes "a \<noteq> []" and "b \<noteq> []" and "CHR 0x0A \<notin> set (l_buffer l @ a)"
    and "length (l_buffer l) + length a + length b \<le> MAX_FRAME"
  shows "lease_feed (fst (lease_feed l a now)) b now =
    (if lease_check l now False = Inr () then lease_feed l (a @ b) now
     else (l, map_sum id (\<lambda>_. None) (lease_check l now False)))"
proof (cases "lease_check l now False")
  case (Inl e)
  then show ?thesis by (simp add: lease_feed_def)
next
  case (Inr u)
  have "split1 (CHR 0x0A) (l_buffer l @ a) = None" using assms(3) by (simp only: split1_None) simp
  with Inr assms have a: "lease_feed l a now = (l\<lparr>l_buffer := l_buffer l @ a\<rparr>, Inr None)"
    by (simp add: lease_feed_def)
  have c: "lease_check (l\<lparr>l_buffer := x\<rparr>) t r = lease_check l t r" for x t r
    by (simp add: lease_check_def split: option.split)
  show ?thesis using assms Inr unfolding a by (simp add: lease_feed_def c)
qed

theorem lease_feed_fragments_witness:
  "lease_feed (fst (lease_feed demo_lease ''x'' (PInt 1))) ''y'' (PInt 1) = lease_feed demo_lease ''xy'' (PInt 1)"
proof -
  have "CHR 0x0A \<notin> set (l_buffer demo_lease @ ''x'')" by (simp add: demo_lease_def)
  from lease_feed_fragments [OF _ _ this, of "''y''" "PInt 1"] show ?thesis
    using demo_lease_check by (simp add: MAX_FRAME_def demo_lease_def)
qed

theorem lease_feed_acknowledged_witness:
  "lease_feed demo_lease (lease_frame demo_lease 0 ''renew'') (PInt 1) =
     (demo_lease\<lparr>l_sequence := 0, l_last := 1\<rparr>, Inr (Some 0)) \<and> (0::int) = l_sequence demo_lease + 1"
proof -
  let ?m = "message_value demo_lease 0 (PStr ''renew'')"
  have a: "lease_message demo_lease ?m = Inr ()"
    using lease_message_ok [of demo_lease] by (simp add: demo_lease_def)
  have "lease_feed demo_lease (lease_frame demo_lease 0 ''renew'') (PInt 1) = lease_accept demo_lease ?m (PInt 1)"
    using lease_feed_message [OF demo_lease_ok _ demo_lease_check, of 0 "PStr ''renew''" "\<lambda>_. []"] a
    by (simp add: lease_frame_def frame_value_message quote_literals demo_lease_def)
  moreover have "lease_accept demo_lease ?m (PInt 1) = (demo_lease\<lparr>l_sequence := 0, l_last := 1\<rparr>, Inr (Some 0))"
    by (simp add: lease_accept_def message_value_def Let_def lease_check_def demo_lease_def)
  ultimately have f: "lease_feed demo_lease (lease_frame demo_lease 0 ''renew'') (PInt 1) =
     (demo_lease\<lparr>l_sequence := 0, l_last := 1\<rparr>, Inr (Some 0))" by simp
  from lease_feed_acknowledged [OF f] f show ?thesis by simp
qed

text \<open>Cancellation is final. Once a cancel frame was processed, no sequence of later
  operations makes a check or a renewal of the lease succeed again.\<close>
lemma lease_cancel_final:
  assumes "l_cancelled l" and "rtranclp lease_step l l'"
  shows "(\<forall>now rs. lease_check l' now rs \<noteq> Inr ()) \<and> (\<forall>raw now. \<exists>e. lease_feed l' raw now = (l', Inl e))"
proof -
  have "l_cancelled l'" using lease_steps_later [OF assms(2)] assms(1) by (simp add: lease_later_def)
  then have no: "lease_check l' now rs \<noteq> Inr ()" for now rs by (simp add: res_simps)
  have "\<exists>e. lease_feed l' raw now = (l', Inl e)" for raw now
    using no [of now False] by (cases "lease_check l' now False") (auto simp: lease_feed_def)
  with no show ?thesis by blast
qed

text \<open>A buffer that can never be drained: a burst of frames, or more than \<open>MAX_FRAME\<close> bytes.\<close>

definition jammed :: "lease \<Rightarrow> bool" where
  "jammed l = (length (l_buffer l) > MAX_FRAME \<or>
     (\<exists>a b. l_buffer l = a @ CHR 0x0A # b \<and> CHR 0x0A \<notin> set a \<and> b \<noteq> []))"

lemma jammed_complete_line:
  assumes "jammed l" and "l_buffer l @ raw = line @ [CHR 0x0A]" and "CHR 0x0A \<notin> set line"
    and "length (l_buffer l @ raw) \<le> MAX_FRAME"
  shows False
proof -
  from assms(1,4) obtain a b where ab: "l_buffer l = a @ CHR 0x0A # b" "CHR 0x0A \<notin> set a" "b \<noteq> []"
    by (auto simp: jammed_def)
  have "split1 (CHR 0x0A) (l_buffer l @ raw) = Some (a, b @ raw)" using ab by simp
  moreover have "split1 (CHR 0x0A) (l_buffer l @ raw) = Some (line, [])"
    unfolding assms(2) using assms(3) by simp
  ultimately show False using ab(3) by simp
qed

lemma jammed_feed:
  assumes "jammed l" and "lease_feed l raw now = (l', out)"
  shows "jammed l' \<and> (\<exists>e. out = Inl e)"
proof (cases rule: lease_feed_cases [of l raw now])
  case stuck
  with assms show ?thesis by (fastforce simp: jammed_def)
next
  case partial
  with assms(1) show ?thesis by (auto simp: jammed_def)
next
  case (bad line e)
  with jammed_complete_line [OF assms(1), of raw line] show ?thesis by simp
next
  case (accepted line v)
  with jammed_complete_line [OF assms(1), of raw line] show ?thesis by simp
qed (use assms in auto)

lemma jammed_step: "lease_step l l' \<Longrightarrow> jammed l \<Longrightarrow> jammed l'"
proof (erule lease_stepE)
  fix is_fd obs now rs out'
  assume j: "jammed l" and "drain_lease is_fd obs l now rs = (l', out')"
  then consider "l' = l" | b out where "lease_feed l b now = (l', out)"
    by (cases obs) (auto simp: drain_lease_def Let_def prod_eq_iff split: if_splits)
  then show "jammed l'" using j by cases (auto dest: jammed_feed)
qed (auto dest: jammed_feed)

text \<open>A burst is fatal. If a read leaves more than one frame, or more than 512 bytes, in
  the buffer, \<open>feed\<close> raises then and at every later call, whatever is sent: a burst
  cannot extend a lease after its sender has disappeared.\<close>
lemma lease_burst_fatal:
  assumes "lease_feed l raw now = (l1, Inl (ValueError m))"
    and "m = ''multiple buffered lease frames'' \<or> m = ''lease frame limit''"
    and "lease_check l now False = Inr ()" and "l_buffer l1 \<noteq> []"
    and "rtranclp lease_step l1 l2"
  shows "\<exists>e. snd (lease_feed l2 raw' now') = Inl e"
proof -
  have "jammed l1"
  proof -
    from assms(1-3) have size: "length raw \<le> MAX_FRAME" "raw \<noteq> []"
      by (auto simp: lease_feed_def split: if_splits)
    show ?thesis
    proof (cases "length (l_buffer l @ raw) \<le> MAX_FRAME")
      case False
      with assms(1,3) size show ?thesis by (auto simp: lease_feed_def jammed_def)
    next
      case True
      then obtain a b where ab: "split1 (CHR 0x0A) (l_buffer l @ raw) = Some (a, b)"
        using assms(1,3) size by (cases "split1 (CHR 0x0A) (l_buffer l @ raw)") (auto simp: lease_feed_def)
      have "b \<noteq> []"
      proof
        assume "b = []"
        with ab True size assms(1,3) have "l_buffer l1 = []"
          by (auto simp: lease_feed_def Let_def lease_accept_def split: sum.splits)
        with assms(4) show False ..
      qed
      have "l_buffer l1 = l_buffer l @ raw"
        using ab True size assms(1,3) \<open>b \<noteq> []\<close> by (auto simp: lease_feed_def)
      with ab \<open>b \<noteq> []\<close> show ?thesis unfolding jammed_def split1_Some by metis
    qed
  qed
  with assms(5) have "jammed l2" by (induction rule: rtranclp_induct) (auto intro: jammed_step)
  then show ?thesis using jammed_feed [of l2 raw' now' "fst (lease_feed l2 raw' now')"]
    by (metis prod.collapse)
qed

lemma drain_lease_check:
  "drain_lease is_fd obs l now rs = (l', Inr x) \<Longrightarrow> lease_check l' now rs = Inr ()"
  by (auto simp: drain_lease_def Let_def res_simps split: if_splits)

text \<open>What one poll proves. If \<open>drain_lease\<close> returns, the lease it leaves is alive at
  the clock reading (not cancelled, before the deadline, within the silence period, started
  if required); it reports a renewal exactly when a frame was acknowledged, and then the
  sequence number grew by one.\<close>
lemma drain_lease_alive:
  assumes "drain_lease is_fd obs l now rs = (l', Inr (renewed, ack))"
  shows "lease_check l' now rs = Inr () \<and> (renewed \<longleftrightarrow> ack = Some (l_sequence l + 1)) \<and>
    l_sequence l' = l_sequence l + (if renewed then 1 else 0) \<and>
    (obs = None \<longrightarrow> l' = l \<and> ack = None)"
proof (cases obs)
  case None
  with assms show ?thesis by (auto simp: drain_lease_def Let_def res_simps)
next
  case (Some b)
  obtain m where f: "lease_feed l b now = (l', m)"
    using assms Some by (auto simp: drain_lease_def Let_def prod_eq_iff split: if_splits)
  with assms Some have m: "m = Inr ack" "lease_check l' now rs = Inr ()"
    "renewed = (l_sequence l' \<noteq> l_sequence l)"
    by (auto simp: drain_lease_def Let_def res_simps split: if_splits)
  show ?thesis
  proof (cases ack)
    case None
    from f m None have "l_sequence l' = l_sequence l"
      by (cases rule: lease_feed_cases [of l b now])
        (auto simp: lease_accept_def Let_def res_simps)
    with m None Some show ?thesis by simp
  next
    case a: (Some n)
    with lease_feed_ack [of l b now l' n] f m
    have "n = l_sequence l + 1" "l_sequence l' = n" by (metis lease.select_convs lease.surjective lease.update_convs)+
    with m a Some show ?thesis by simp
  qed
qed

text \<open>
  C36: An action that is not hashable.  A frame that is correct in every field but whose action
  is a list or an object, any that fits a frame, makes \<open>feed\<close> raise \<open>TypeError\<close> from the set
  membership test, with the lease unchanged; no handler of the form
  \<open>except (OSError, ValueError, RuntimeError)\<close> catches it.
\<close>

theorem lease_feed_unhashable_action:
  assumes "lease_ok l" and "l_buffer l = []" and "lease_check l now False = Inr ()"
    and "l_sequence l + 1 < 10 ^ 100" and "is_list a \<or> is_dict a" and "json_ok (json_depth - 1) a"
    and "length (dumps fr (message_value l (l_sequence l + 1) a)) < MAX_FRAME"
  shows "lease_feed l (dumps fr (message_value l (l_sequence l + 1) a) @ [CHR 0x0A]) now =
      (l, Inl (TypeError ''unhashable type'')) \<and> \<not> caught (TypeError ''unhashable type'')"
proof -
  have n: "0 \<le> l_sequence l + 1" using assms(1) by (simp add: lease_ok_def)
  have "\<not> hashable a" using assms(5) by (cases a) simp_all
  then have "lease_message l (message_value l (l_sequence l + 1) a) = Inl (TypeError ''unhashable type'')"
    using has_fields_message [of l "l_sequence l + 1" a]
    by (simp add: lease_message_def check_fields_def message_value_def)
  then show ?thesis
    using lease_feed_document [OF assms(2,3) json_ok_message [OF n assms(4,6)] assms(7)] by simp
qed

theorem lease_feed_unhashable_action_witness:
  "lease_feed demo_lease (dumps (\<lambda>_. []) (message_value demo_lease (l_sequence demo_lease + 1) (PList [PStr ''renew''])) @ [CHR 0x0A])
     (PInt 1) = (demo_lease, Inl (TypeError ''unhashable type'')) \<and>
   lease_feed demo_lease (dumps (\<lambda>_. []) (message_value demo_lease (l_sequence demo_lease + 1) (PDict [(''renew'', PNone)])) @ [CHR 0x0A])
     (PInt 1) = (demo_lease, Inl (TypeError ''unhashable type''))"
proof -
  have fits: "length (dumps (\<lambda>_. []) (message_value demo_lease (l_sequence demo_lease + 1) a)) < MAX_FRAME"
    if "length (dumps (\<lambda>_. []) a) \<le> 100" for a
    using length_message [OF demo_lease_ok, of "l_sequence demo_lease + 1" "\<lambda>_. []" a] that
    by (simp add: demo_lease_def MAX_FRAME_def)
  have l: "length (dumps (\<lambda>_. []) (PList [PStr ''renew''])) \<le> 100" "length (dumps (\<lambda>_. []) (PDict [(''renew'', PNone)])) \<le> 100"
    by code_simp+
  have b: "l_buffer demo_lease = []" "l_sequence demo_lease + 1 < 10 ^ 100" by (simp_all add: demo_lease_def)
  have ok: "json_ok (json_depth - 1) (PList [PStr ''renew''])" "json_ok (json_depth - 1) (PDict [(''renew'', PNone)])"
    by (simp_all add: json_depth_def)
  show ?thesis
    using lease_feed_unhashable_action [OF demo_lease_ok b(1) demo_lease_check b(2) _ ok(1) fits [OF l(1)]]
      lease_feed_unhashable_action [OF demo_lease_ok b(1) demo_lease_check b(2) _ ok(2) fits [OF l(2)]] by simp
qed

end
