(* ===== verification/Channels.thy ===== *)
theory Channels
  imports Isolation Base64 AptResult LeaseProps
begin

text \<open>
  The byte channels of \<open>sw_i5_preparation_channels.py\<close>: bounded sends and receives on
  nonblocking descriptors, the first lease of a process, waiting for a child, and the
  bounded recovery adapter.  The kernel's pipe and process calls are a record over an
  arbitrary world; a loop that the deadline bounds takes fuel.
\<close>

subsection \<open>Constants\<close>

definition EXPORT_LIMIT :: nat where "EXPORT_LIMIT = RESULT_LIMIT"
definition DATA_LIMIT :: nat where "DATA_LIMIT = 1024 * 1024"
definition FILE_LIMIT :: nat where "FILE_LIMIT = 64 * 1024"
definition SUMMARY_LIMIT :: nat where "SUMMARY_LIMIT = 256 * 1024"
definition HOST_REPORT_LIMIT :: nat where "HOST_REPORT_LIMIT = 3 * 1024 * 1024"
definition EXPORT_SCOPE :: string where "EXPORT_SCOPE = ''i5-preparation-export''"

definition artifact_names :: "string \<Rightarrow> string list" where
  "artifact_names label = map (\<lambda>stream. ''result/'' @ label @ ''.'' @ stream) [''stdout'', ''stderr'']"

definition ARTIFACTS :: "string list" where
  "ARTIFACTS = [''result/result.json'', ''result/worker.stdout'', ''result/worker.stderr''] @
     concat (map artifact_names STEP_LABELS)"

subsection \<open>Environment\<close>

record 'w ipc =
  io_now :: "('w, rat) act"
  io_sleep :: "rat \<Rightarrow> ('w, unit) act"
  io_nonblocking :: "int \<Rightarrow> ('w, unit) act"
  io_readable :: "int list \<Rightarrow> rat \<Rightarrow> ('w, int list) act"
  io_writable :: "int \<Rightarrow> rat \<Rightarrow> ('w, bool) act"
  io_read :: "int \<Rightarrow> nat \<Rightarrow> ('w, string) act"
  io_write :: "int \<Rightarrow> string \<Rightarrow> ('w, nat) act"
  io_close :: "int \<Rightarrow> ('w, unit) act"
  io_closerange :: "int \<Rightarrow> int \<Rightarrow> ('w, unit) act"
  io_open_max :: "('w, int) act"
  io_pipe :: "('w, int \<times> int) act"
  io_fork :: "('w, int) act"
  io_detach :: "('w, unit) act"
  io_waitpid :: "int \<Rightarrow> ('w, int option) act"
  io_kill :: "int \<Rightarrow> string \<Rightarrow> ('w, unit) act"
  io_killpg :: "int \<Rightarrow> string \<Rightarrow> ('w, unit) act"
  io_float :: "rat \<Rightarrow> string"

text \<open>Running a computation on one component of a larger state.\<close>

definition zoom :: "('s \<Rightarrow> 'w) \<Rightarrow> (('w \<Rightarrow> 'w) \<Rightarrow> 's \<Rightarrow> 's) \<Rightarrow> ('w, 'a) act \<Rightarrow> ('s, 'a) act" where
  "zoom look change m = (\<lambda>s. let (r, w) = m (look s) in (r, change (\<lambda>_. w) s))"

definition any_exn :: "exn \<Rightarrow> bool" where
  "any_exn e = (e \<noteq> OutOfFuel)"

text \<open>The outcome of a computation as a value, for handlers of \<open>BaseException\<close>.\<close>

definition trial :: "('w, 'a) act \<Rightarrow> ('w, 'a res) act" where
  "trial m = handle_if any_exn (bnd m (\<lambda>x. ret (Inr x))) (\<lambda>e. ret (Inl e))"

definition would_block :: "exn \<Rightarrow> bool" where
  "would_block e = (is_os_class BlockingIOError e \<or> is_os_class InterruptedError e)"

definition time_value :: "rat \<Rightarrow> pyval" where
  "time_value t = PFloat (Fin t)"

subsection \<open>Sending and receiving\<close>

fun send_loop :: "nat \<Rightarrow> 'w ipc \<Rightarrow> int \<Rightarrow> string \<Rightarrow> rat \<Rightarrow> ('w, unit) act" where
  "send_loop 0 e fd raw deadline = lft (Inl OutOfFuel)"
| "send_loop (Suc n) e fd raw deadline =
     (if raw = [] then ret () else
      bnd (io_now e) (\<lambda>t. sqn (ensure (t < deadline) ''staging IPC write deadline'') (
      bnd (io_now e) (\<lambda>t. bnd (io_writable e fd (min (1 / 100) (max 0 (deadline - t)))) (\<lambda>ready.
      if \<not> ready then send_loop n e fd raw deadline else
      bnd (handle_if would_block (bnd (io_write e fd (take 65536 raw)) (\<lambda>c. ret (Some c))) (\<lambda>_. ret None)) (\<lambda>count.
      case count of None \<Rightarrow> send_loop n e fd raw deadline
      | Some c \<Rightarrow> sqn (ensure (0 < c) ''staging IPC zero write'') (send_loop n e fd (drop c raw) deadline)))))))"

definition send :: "nat \<Rightarrow> 'w ipc \<Rightarrow> int \<Rightarrow> string \<Rightarrow> rat \<Rightarrow> ('w, unit) act" where
  "send fuel e fd raw deadline = sqn (io_nonblocking e fd) (send_loop fuel e fd raw deadline)"

fun receive_loop :: "nat \<Rightarrow> 'w ipc \<Rightarrow> int \<Rightarrow> rat \<Rightarrow> nat \<Rightarrow> bool \<Rightarrow> bool \<Rightarrow> string \<Rightarrow> ('w, string) act" where
  "receive_loop 0 e fd deadline limit line allow_eof raw = lft (Inl OutOfFuel)"
| "receive_loop (Suc n) e fd deadline limit line allow_eof raw =
     bnd (io_now e) (\<lambda>t. sqn (ensure (t < deadline) ''staging IPC read deadline'') (
     bnd (io_now e) (\<lambda>t. bnd (io_readable e [fd] (min (1 / 100) (max 0 (deadline - t)))) (\<lambda>ready.
     if ready = [] then receive_loop n e fd deadline limit line allow_eof raw else
     bnd (handle_if would_block (bnd (io_read e fd (if line then 1 else min 65536 (limit - length raw))) (\<lambda>c. ret (Some c)))
            (\<lambda>_. ret None)) (\<lambda>chunk.
     case chunk of None \<Rightarrow> receive_loop n e fd deadline limit line allow_eof raw
     | Some c \<Rightarrow>
         if c = [] \<and> raw = [] \<and> allow_eof then ret [] else
         sqn (ensure (c \<noteq> []) ''staging IPC EOF'') (
         sqn (ensure (length (raw @ c) \<le> limit) ''staging IPC byte limit'') (
         if (line \<and> endswith (raw @ c) nl) \<or> (\<not> line \<and> length (raw @ c) = limit)
         then bnd (io_now e) (\<lambda>t. sqn (ensure (t < deadline) ''late staging IPC bytes'') (ret (raw @ c)))
         else receive_loop n e fd deadline limit line allow_eof (raw @ c))))))))"

definition receive :: "nat \<Rightarrow> 'w ipc \<Rightarrow> int \<Rightarrow> rat \<Rightarrow> nat \<Rightarrow> bool \<Rightarrow> bool \<Rightarrow> ('w, string) act" where
  "receive fuel e fd deadline limit line allow_eof =
     sqn (io_nonblocking e fd) (receive_loop fuel e fd deadline limit line allow_eof [])"

fun close_ranges :: "'w ipc \<Rightarrow> int \<Rightarrow> int list \<Rightarrow> ('w, int) act" where
  "close_ranges e first [] = ret first"
| "close_ranges e first (fd # fds) =
     sqn (ensure (3 \<le> fd) ''private descriptor required'') (
     sqn (io_closerange e first fd) (close_ranges e (fd + 1) fds))"

definition close_except :: "'w ipc \<Rightarrow> int list \<Rightarrow> ('w, unit) act" where
  "close_except e fds =
     bnd (close_ranges e 3 (sorted_list_of_set (set fds))) (\<lambda>first.
     bnd (io_open_max e) (\<lambda>m. io_closerange e first m))"

definition write_frame :: "'w ipc \<Rightarrow> int \<Rightarrow> string \<Rightarrow> ('w, unit) act" where
  "write_frame e fd raw =
     sqn (ensure (0 < length raw \<and> length raw \<le> MAX_FRAME) ''control frame limit'') (
     sqn (io_nonblocking e fd) (
     bnd (io_write e fd raw) (\<lambda>n. ensure (n = length raw) ''control frame short write'')))"

fun write_loop :: "nat \<Rightarrow> 'w ipc \<Rightarrow> int \<Rightarrow> string \<Rightarrow> rat \<Rightarrow> ('w, unit) act \<Rightarrow> ('w, unit) act" where
  "write_loop 0 e fd raw deadline checkpoint = lft (Inl OutOfFuel)"
| "write_loop (Suc n) e fd raw deadline checkpoint =
     (if raw = [] then ret () else
      sqn checkpoint (
      bnd (io_now e) (\<lambda>t. sqn (ensure (0 < deadline - t) ''result consumer deadline'') (
      bnd (io_writable e fd (min (deadline - t) (1 / 20))) (\<lambda>ready.
      if \<not> ready then write_loop n e fd raw deadline checkpoint else
      bnd (handle_if (is_os_class BlockingIOError)
             (bnd (io_write e fd (take 65536 raw)) (\<lambda>c. ret (Some c))) (\<lambda>_. ret None)) (\<lambda>written.
      case written of None \<Rightarrow> write_loop n e fd raw deadline checkpoint
      | Some c \<Rightarrow> sqn (ensure (0 < c) ''result channel zero write'') (
          write_loop n e fd (drop c raw) deadline checkpoint)))))))"

definition write_bounded :: "nat \<Rightarrow> 'w ipc \<Rightarrow> int \<Rightarrow> string \<Rightarrow> rat \<Rightarrow> ('w, unit) act \<Rightarrow> ('w, unit) act" where
  "write_bounded fuel e fd raw deadline checkpoint =
     sqn (ensure (0 < length raw \<and> length raw \<le> HOST_REPORT_LIMIT) ''channel output limit'') (
     sqn (io_nonblocking e fd) (write_loop fuel e fd raw deadline checkpoint))"

fun initial_lease :: "nat \<Rightarrow> 'w ipc \<Rightarrow> int \<Rightarrow> lease \<Rightarrow> ('w, unit) act \<Rightarrow> ('w, lease) act" where
  "initial_lease 0 e fd l checkpoint = lft (Inl OutOfFuel)"
| "initial_lease (Suc n) e fd l checkpoint =
     (if 0 \<le> l_sequence l then ret l else
      sqn checkpoint (
      bnd (io_now e) (\<lambda>t. sqn (lft (lease_check l (time_value t) False)) (
      bnd (io_readable e [fd] (1 / 20)) (\<lambda>ready.
      if ready = [] then initial_lease n e fd l checkpoint else
      bnd (io_read e fd MAX_FRAME) (\<lambda>raw.
      sqn (ensure (raw \<noteq> []) ''initial lease channel closed'') (
      bnd (io_now e) (\<lambda>t.
      case lease_feed l raw (time_value t) of (l', r) \<Rightarrow>
        sqn (lft r) (initial_lease n e fd l' checkpoint)))))))))"

fun wait_child :: "nat \<Rightarrow> 'w ipc \<Rightarrow> int \<Rightarrow> rat \<Rightarrow> ('w, int option) act" where
  "wait_child 0 e pid deadline = lft (Inl OutOfFuel)"
| "wait_child (Suc n) e pid deadline =
     bnd (io_waitpid e pid) (\<lambda>done.
     case done of Some status \<Rightarrow> ret (Some status) | None \<Rightarrow>
     bnd (io_now e) (\<lambda>t.
     if deadline \<le> t then ret None else sqn (io_sleep e (1 / 100)) (wait_child n e pid deadline)))"

subsection \<open>Bounded recovery\<close>

text \<open>
  \<open>os.fork\<close> returns the child's pid here; what the child runs until its \<open>os._exit\<close> is
  \<open>recovery_child\<close>, whose value is the exit status.
\<close>

definition recovery_failure :: "exn \<Rightarrow> pyval" where
  "recovery_failure x = PDict [(''passed'', PBool False), (''stopped'', PBool False),
     (''failure'', PStr (take 2048 (exn_name x @ '': '' @ exn_str x))), (''cleanup_errors'', PList [])]"

definition recovery_child ::
    "nat \<Rightarrow> 'w ipc \<Rightarrow> ('w, pyval) act \<Rightarrow> int \<Rightarrow> rat \<Rightarrow> ('w, int) act" where
  "recovery_child fuel e recover writer seconds =
     handle_if any_exn
       (sqn (close_except e [writer]) (
        sqn (io_detach e) (
        bnd recover (\<lambda>v.
        let raw = encode (io_float e) v in
        sqn (ensure (length raw \<le> 65536) ''recovery report limit'') (
        bnd (io_now e) (\<lambda>t.
        sqn (write_bounded fuel e writer raw (t + min 2 seconds) (ret ())) (ret 0)))))))
       (\<lambda>x. handle_if any_exn
          (bnd (io_now e) (\<lambda>t.
           sqn (write_bounded fuel e writer (encode (io_float e) (recovery_failure x)) (t + min 2 seconds) (ret ())) (ret 2)))
          (\<lambda>_. ret 2))"

record 'w recovery =
  rv_world :: 'w
  rv_code :: "int option"
  rv_failure :: "string option"
  rv_cleanup :: "string list"

abbreviation rv :: "('w, 'a) act \<Rightarrow> ('w recovery, 'a) act" where
  "rv \<equiv> zoom rv_world rv_world_update"

fun recovery_read :: "nat \<Rightarrow> 'w ipc \<Rightarrow> int \<Rightarrow> rat \<Rightarrow> string \<Rightarrow> ('w, string) act" where
  "recovery_read 0 e reader deadline raw = lft (Inl OutOfFuel)"
| "recovery_read (Suc n) e reader deadline raw =
     bnd (io_now e) (\<lambda>t. sqn (ensure (t < deadline) ''host recovery adapter deadline'') (
     bnd (io_readable e [reader] (1 / 100)) (\<lambda>ready.
     if ready = [] then recovery_read n e reader deadline raw else
     bnd (io_read e reader (min 8192 (65536 - length raw + 1))) (\<lambda>chunk.
     if chunk = [] then ret raw else
     sqn (ensure (length (raw @ chunk) \<le> 65536) ''recovery report overflow'') (
     recovery_read n e reader deadline (raw @ chunk))))))"

text \<open>\<open>value.get(key, default)\<close> of a dict.\<close>

definition get_or :: "pyval \<Rightarrow> string \<Rightarrow> pyval \<Rightarrow> pyval" where
  "get_or v k d = (case map_of (dict_of v) k of None \<Rightarrow> d | Some w \<Rightarrow> w)"

definition recovery_value :: "string \<Rightarrow> int \<Rightarrow> pyval res" where
  "recovery_value raw status =
     bindE (decode raw 65536) (\<lambda>v.
     require (is_dict v \<and> is_bool (get_or v ''stopped'' PNone) \<and> get_or v ''passed'' PNone = PBool False \<and>
              get_or v ''i5_ready'' (PBool False) = PBool False) ''invalid recovery result'' (
     require (status = 0 \<or> (fld v ''stopped'' = PBool False \<and> is_str (get_or v ''failure'' PNone) \<and>
                          str_of (fld v ''failure'') \<noteq> [])) ''failed recovery process cannot claim stopped'' (Inr v)))"

definition recovery_body :: "nat \<Rightarrow> 'w ipc \<Rightarrow> int \<Rightarrow> int \<Rightarrow> rat \<Rightarrow> ('w recovery, pyval) act" where
  "recovery_body fuel e pid reader deadline =
     bnd (rv (recovery_read fuel e reader deadline [])) (\<lambda>raw.
     bnd (rv (wait_child fuel e pid deadline)) (\<lambda>status.
     sqn (upd (\<lambda>s. s\<lparr>rv_code := status\<rparr>)) (
     sqn (ensure (status = Some 0 \<or> status = Some 2) ''recovery adapter failed or did not exit'') (
     bnd (lft (recovery_value raw (the status))) (\<lambda>v.
     bnd (handle_if (is_os_class ProcessLookupError) (sqn (rv (io_killpg e pid ''0'')) (ret True)) (\<lambda>_. ret False)) (\<lambda>present.
     if present then lft (Inl (ValueError ''recovery adapter descendants remain'')) else ret v))))))"

definition recovery_cleanup :: "nat \<Rightarrow> 'w ipc \<Rightarrow> int \<Rightarrow> int \<Rightarrow> ('w recovery, unit) act" where
  "recovery_cleanup fuel e pid reader =
     sqn (rv (io_close e reader)) (
     bnd (get rv_failure) (\<lambda>f.
     bnd (get rv_code) (\<lambda>status.
     whenA (f \<noteq> None \<and> f \<noteq> Some [])
       (sqn (handle_if (is_os_class ProcessLookupError) (rv (io_killpg e pid ''KILL''))
               (\<lambda>_. whenA (status = None)
                  (handle_if (is_os_class ProcessLookupError) (rv (io_kill e pid ''KILL'')) (\<lambda>_. ret ())))) (
        whenA (status = None)
          (bnd (rv (io_now e)) (\<lambda>t.
           bnd (rv (wait_child fuel e pid (t + 2))) (\<lambda>c.
           sqn (upd (\<lambda>s. s\<lparr>rv_code := c\<rparr>)) (
           whenA (c = None) (upd (\<lambda>s. s\<lparr>rv_cleanup := rv_cleanup s @ [''recovery adapter kill/reap unconfirmed'']\<rparr>)))))))))))"

definition recovery_result :: "'w recovery \<Rightarrow> pyval" where
  "recovery_result s = PDict [(''passed'', PBool False), (''stopped'', PBool False),
     (''failure'', case rv_failure s of None \<Rightarrow> PNone | Some m \<Rightarrow> PStr m),
     (''cleanup_errors'', PList (map PStr (rv_cleanup s)))]"

definition bounded_recovery :: "nat \<Rightarrow> 'w ipc \<Rightarrow> rat \<Rightarrow> ('w, pyval) act" where
  "bounded_recovery fuel e seconds =
     sqn (ensure (0 < seconds \<and> seconds \<le> 120) ''host recovery deadline'') (
     bnd (io_pipe e) (\<lambda>(reader, writer).
     bnd (on_error (io_fork e) (sqn (io_close e reader) (io_close e writer))) (\<lambda>pid.
     sqn (io_close e writer) (
     bnd (io_now e) (\<lambda>t. (\<lambda>w.
       case try_finally
              (handle
                (bnd (recovery_body fuel e pid reader (t + seconds)) (\<lambda>v. ret (Some v)))
                (\<lambda>x. sqn (upd (\<lambda>s. s\<lparr>rv_failure := Some (take 2048 (exn_str x))\<rparr>)) (ret None)))
              (recovery_cleanup fuel e pid reader)
              \<lparr> rv_world = w, rv_code = None, rv_failure = None, rv_cleanup = [] \<rparr> of
         (Inl x, s) \<Rightarrow> (Inl x, rv_world s)
       | (Inr (Some v), s) \<Rightarrow> (Inr v, rv_world s)
       | (Inr None, s) \<Rightarrow> (Inr (recovery_result s), rv_world s)))))))"

end
