(* ===== verification/Triples.thy ===== *)
theory Triples
  imports Channels
begin

text \<open>
  Triples for effectful computations: from a state with the precondition a computation ends in
  the postcondition of its value, or, when it raises, in the exceptional postcondition.  The
  frame rule takes what a computation keeps (\<open>keeps\<close>) as the frame.
\<close>

definition triple :: "('s \<Rightarrow> bool) \<Rightarrow> ('s, 'a) act \<Rightarrow> ('a \<Rightarrow> 's \<Rightarrow> bool) \<Rightarrow> ('s \<Rightarrow> bool) \<Rightarrow> bool" where
  "triple P m Q E = (\<forall>s. P s \<longrightarrow> (case m s of (Inr x, t) \<Rightarrow> Q x t | (Inl e, t) \<Rightarrow> E t))"

lemma tripleD_Inr: "triple P m Q E \<Longrightarrow> P s \<Longrightarrow> m s = (Inr x, t) \<Longrightarrow> Q x t"
  by (force simp: triple_def)

lemma tripleD_Inl: "triple P m Q E \<Longrightarrow> P s \<Longrightarrow> m s = (Inl x, t) \<Longrightarrow> E t"
  by (force simp: triple_def)

lemma tripleI:
  assumes "\<And>s x t. P s \<Longrightarrow> m s = (Inr x, t) \<Longrightarrow> Q x t" and "\<And>s e t. P s \<Longrightarrow> m s = (Inl e, t) \<Longrightarrow> E t"
  shows "triple P m Q E"
  using assms by (auto simp: triple_def split: prod.split sum.split)

lemma triple_weaken:
  assumes "triple P m Q E" and "\<And>s. P' s \<Longrightarrow> P s" and "\<And>x s. Q x s \<Longrightarrow> Q' x s" and "\<And>s. E s \<Longrightarrow> E' s"
  shows "triple P' m Q' E'"
  by (rule tripleI) (meson assms(2-4) tripleD_Inr [OF assms(1)] tripleD_Inl [OF assms(1)])+

lemma triple_bnd:
  assumes m: "triple P m Q E" and f: "\<And>x. triple (Q x) (f x) R E"
  shows "triple P (bnd m f) R E"
  by (rule tripleI) (auto simp: bnd_Inr bnd_Inl dest: tripleD_Inr [OF m] tripleD_Inl [OF m] tripleD_Inr [OF f] tripleD_Inl [OF f])

lemma triple_sqn: "triple P m (\<lambda>_. Q) E \<Longrightarrow> triple Q k R E \<Longrightarrow> triple P (sqn m k) R E"
  unfolding sqn_def by (rule triple_bnd)

lemma triple_upd: "(\<And>s. P s \<Longrightarrow> Q (f s)) \<Longrightarrow> triple P (upd f) (\<lambda>_. Q) E"
  by (rule tripleI) (auto simp: act_simps)

lemma triple_get: "(\<And>s. P s \<Longrightarrow> Q (f s) s) \<Longrightarrow> triple P (get f) Q E"
  by (rule tripleI) (auto simp: act_simps)

lemma triple_ret: "(\<And>s. P s \<Longrightarrow> Q x s) \<Longrightarrow> triple P (ret x) Q E"
  by (rule tripleI) (auto simp: act_simps)

lemma triple_whenA: "(c \<Longrightarrow> triple P m (\<lambda>_. Q) E) \<Longrightarrow> (\<And>s. \<not> c \<Longrightarrow> P s \<Longrightarrow> Q s) \<Longrightarrow> triple P (whenA c m) (\<lambda>_. Q) E"
  by (auto simp: whenA_def intro: triple_ret)

lemma triple_handle_if:
  assumes m: "triple P m Q E'" and h: "\<And>e. p e \<Longrightarrow> triple E' (h e) Q E" and e: "\<And>s. E' s \<Longrightarrow> E s"
  shows "triple P (handle_if p m h) Q E"
proof (rule tripleI)
  fix s x t assume "P s" and "handle_if p m h s = (Inr x, t)"
  then show "Q x t"
    by (auto simp: handle_if_def split: prod.splits sum.splits if_splits
        dest: tripleD_Inr [OF m] tripleD_Inl [OF m] tripleD_Inr [OF h])
next
  fix s x t assume "P s" and "handle_if p m h s = (Inl x, t)"
  then show "E t"
    by (auto simp: handle_if_def split: prod.splits sum.splits if_splits
        dest: tripleD_Inl [OF m] tripleD_Inl [OF h] e)
qed

lemma triple_ensure: "(\<And>s. P s \<Longrightarrow> c \<Longrightarrow> Q s) \<Longrightarrow> (\<And>s. P s \<Longrightarrow> E s) \<Longrightarrow> triple P (ensure c m) (\<lambda>_. Q) E"
  by (rule tripleI) (auto simp: act_simps split: if_splits)

lemma triple_foldA: "(\<And>b x. x \<in> set xs \<Longrightarrow> triple P (f b x) (\<lambda>_. P) E) \<Longrightarrow> triple P (foldA f b xs) (\<lambda>_. P) E"
proof (induction xs arbitrary: b)
  case (Cons x xs)
  show ?case unfolding foldA.simps by (rule triple_bnd [OF Cons.prems Cons.IH]) (auto intro: Cons.prems)
qed (auto intro: triple_ret)

lemma triple_option:
  "(x = None \<Longrightarrow> triple P a Q E) \<Longrightarrow> (\<And>y. x = Some y \<Longrightarrow> triple P (f y) Q E) \<Longrightarrow> triple P (case x of None \<Rightarrow> a | Some y \<Rightarrow> f y) Q E"
  by (cases x) auto

lemma triple_prod: "(\<And>a b. x = (a, b) \<Longrightarrow> triple P (f a b) Q E) \<Longrightarrow> triple P (case x of (a, b) \<Rightarrow> f a b) Q E"
  by (cases x) simp

lemma triple_if: "(c \<Longrightarrow> triple P a Q E) \<Longrightarrow> (\<not> c \<Longrightarrow> triple P b Q E) \<Longrightarrow> triple P (if c then a else b) Q E"
  by simp

text \<open>A condition on the final state, however the computation ends.\<close>

lemma triple_final: "triple P m (\<lambda>_. Q) Q \<Longrightarrow> P s \<Longrightarrow> Q (snd (m s))"
  by (cases "m s"; cases "fst (m s)") (auto dest: tripleD_Inr tripleD_Inl)

text \<open>The frame rule, and what is known of a returned value.\<close>

lemma triple_keeps: "keeps R m \<Longrightarrow> (\<And>s t. R s t \<Longrightarrow> P s \<Longrightarrow> P t) \<Longrightarrow> triple P m (\<lambda>_. P) P"
  by (rule tripleI) (auto dest: keepsD)

lemma triple_value:
  assumes "triple P m Q E" and "\<And>s x t. m s = (Inr x, t) \<Longrightarrow> V x"
  shows "triple P m (\<lambda>x s. V x \<and> Q x s) E"
  by (rule tripleI) (auto dest: assms(2) tripleD_Inr [OF assms(1)] tripleD_Inl [OF assms(1)])

text \<open>A component of the state in focus keeps what its computation keeps.\<close>

lemma keeps_zoom:
  assumes "keeps R m" and "\<And>s w. look (change (\<lambda>_. w) s) = w"
  shows "keeps (\<lambda>s t. R (look s) (look t)) (zoom look change m)"
  using assms(1) by (auto simp: keeps_def zoom_def assms(2) split: prod.splits) (metis snd_conv)

lemma keeps_zoom_frame: "(\<And>s w. R s (change (\<lambda>_. w) s)) \<Longrightarrow> keeps R (zoom look change m)"
  by (auto simp: keeps_def zoom_def split: prod.splits)

end
