(* ===== verification/ChannelProps.thy ===== *)
theory ChannelProps
  imports Triples
begin

text \<open>
  What a bounded write of the channels (\<open>write_bounded\<close>) delivers, for any observation of the
  outside world that an \<open>os.write\<close> extends by the bytes it reports as written.
\<close>

definition same_out :: "('w \<Rightarrow> string) \<Rightarrow> 'w \<Rightarrow> 'w \<Rightarrow> bool" where
  "same_out out w w' = (out w' = out w)"

interpretation same_out: state_order "same_out out" for out :: "'w \<Rightarrow> string"
  by unfold_locales (auto simp: same_out_def)

text \<open>\<open>os.write\<close> takes some leading bytes and returns their number, or raises and takes none.\<close>

definition accepts :: "('w \<Rightarrow> string) \<Rightarrow> 'w ipc \<Rightarrow> int \<Rightarrow> bool" where
  "accepts out e fd = (\<forall>raw w. case io_write e fd raw w of
     (Inr c, w') \<Rightarrow> c \<le> length raw \<and> out w' = out w @ take c raw
   | (Inl _, w') \<Rightarrow> out w' = out w)"

lemma acceptsD_Inr: "accepts out e fd \<Longrightarrow> io_write e fd raw w = (Inr c, w') \<Longrightarrow> c \<le> length raw \<and> out w' = out w @ take c raw"
  unfolding accepts_def by (drule spec [of _ raw], drule spec [of _ w]) simp

lemma acceptsD_Inl: "accepts out e fd \<Longrightarrow> io_write e fd raw w = (Inl x, w') \<Longrightarrow> out w' = out w"
  unfolding accepts_def by (drule spec [of _ raw], drule spec [of _ w]) simp

text \<open>What a write has delivered: the first \<open>k\<close> bytes, and all of them when it returns.\<close>

definition delivered :: "string \<Rightarrow> string \<Rightarrow> unit res \<Rightarrow> string \<Rightarrow> bool" where
  "delivered before raw r after = ((\<exists>k\<le>length raw. after = before @ take k raw) \<and> (r = Inr () \<longrightarrow> after = before @ raw))"

definition delivers :: "('w \<Rightarrow> string) \<Rightarrow> string \<Rightarrow> ('w, unit) act \<Rightarrow> bool" where
  "delivers out raw m = (\<forall>w. delivered (out w) raw (fst (m w)) (out (snd (m w))))"

lemma deliversD: "delivers out raw m \<Longrightarrow> m w = (r, w') \<Longrightarrow> delivered (out w) raw r (out w')"
  by (metis delivers_def fst_conv snd_conv)

lemma deliversI: "(\<And>w r w'. m w = (r, w') \<Longrightarrow> delivered (out w) raw r (out w')) \<Longrightarrow> delivers out raw m"
  by (simp add: delivers_def)

lemma delivered_none: "r \<noteq> Inr () \<Longrightarrow> delivered before raw r before"
  by (auto simp: delivered_def intro: exI [of _ 0])

lemma delivered_empty: "delivered before [] r before"
  by (simp add: delivered_def)

lemma delivered_more:
  assumes "c \<le> length raw" and "delivered (before @ take c raw) (drop c raw) r after"
  shows "delivered before raw r after"
proof -
  from assms(2) obtain k where k: "k \<le> length (drop c raw)" "after = (before @ take c raw) @ take k (drop c raw)"
    and all: "r = Inr () \<longrightarrow> after = (before @ take c raw) @ drop c raw" by (auto simp: delivered_def)
  have "after = before @ take (c + k) raw" using k(2) by (simp add: take_add)
  moreover have "c + k \<le> length raw" using k(1) assms(1) by simp
  moreover have "r = Inr () \<longrightarrow> after = before @ raw" using all by simp
  ultimately show ?thesis by (auto simp: delivered_def)
qed

lemma delivers_after:
  assumes "keeps (same_out out) m" and "\<And>x. delivers out raw (f x)"
  shows "delivers out raw (bnd m f)"
proof (rule deliversI)
  fix w r w' assume run: "bnd m f w = (r, w')"
  obtain q v where m: "m w = (q, v)" by (cases "m w")
  then have o: "out v = out w" using keepsD [OF assms(1) m] by (simp add: same_out_def)
  show "delivered (out w) raw r (out w')"
  proof (cases q)
    case (Inl x)
    with m o run show ?thesis by (auto simp: bnd_def intro: delivered_none)
  next
    case (Inr x)
    with m run have "f x v = (r, w')" by (simp add: bnd_def)
    from deliversD [OF assms(2) this] o show ?thesis by simp
  qed
qed

lemma delivers_after_unit: "keeps (same_out out) m \<Longrightarrow> delivers out raw k \<Longrightarrow> delivers out raw (sqn m k)"
  unfolding sqn_def by (rule delivers_after)

lemma delivers_piece:
  assumes "accepts out e fd" and "\<And>c. delivers out (drop c raw) (f (Some c))" and "delivers out raw (f None)"
  shows "delivers out raw (bnd (handle_if p (bnd (io_write e fd (take n raw)) (\<lambda>c. ret (Some c))) (\<lambda>_. ret None)) f)"
proof (rule deliversI)
  fix w r w'
  assume run: "bnd (handle_if p (bnd (io_write e fd (take n raw)) (\<lambda>c. ret (Some c))) (\<lambda>_. ret None)) f w = (r, w')"
  obtain q v where w: "io_write e fd (take n raw) w = (q, v)" by (cases "io_write e fd (take n raw) w")
  show "delivered (out w) raw r (out w')"
  proof (cases q)
    case (Inl x)
    have o: "out v = out w" using acceptsD_Inl [OF assms(1), of "take n raw" w x v] w Inl by simp
    show ?thesis
    proof (cases "p x")
      case True
      with run w Inl have "f None v = (r, w')" by (simp add: bnd_def handle_if_def)
      from deliversD [OF assms(3) this] o show ?thesis by simp
    next
      case False
      with run w Inl have "r = Inl x" "w' = v" by (simp_all add: bnd_def handle_if_def)
      with o show ?thesis by (simp add: delivered_none)
    qed
  next
    case (Inr c)
    from acceptsD_Inr [OF assms(1), of "take n raw" w c v] w Inr
    have c: "c \<le> length (take n raw)" "out v = out w @ take c (take n raw)" by simp_all
    from run w Inr have "f (Some c) v = (r, w')" by (simp add: bnd_def handle_if_def)
    from deliversD [OF assms(2) this] c(2) have "delivered (out w @ take c (take n raw)) (drop c raw) r (out w')" by simp
    moreover from c(1) have "c \<le> length raw" "c \<le> n" by auto
    ultimately show ?thesis by (simp add: delivered_more min_absorb1)
  qed
qed

lemma write_loop_delivers:
  assumes "accepts out e fd" and "keeps (same_out out) (io_now e)" and "\<And>d. keeps (same_out out) (io_writable e fd d)"
    and "keeps (same_out out) cp"
  shows "delivers out raw (write_loop n e fd raw deadline cp)"
proof (induction n arbitrary: raw)
  case 0
  show ?case by (simp add: delivers_def delivered_none)
next
  case (Suc n)
  have piece: "delivers out raw (bnd (handle_if p (bnd (io_write e fd (take 65536 raw)) (\<lambda>c. ret (Some c))) (\<lambda>_. ret None)) (\<lambda>written.
      case written of None \<Rightarrow> write_loop n e fd raw deadline cp
      | Some c \<Rightarrow> sqn (ensure (0 < c) m) (write_loop n e fd (drop c raw) deadline cp)))" for p m
    by (rule delivers_piece [OF assms(1)]) (simp_all only: option.case Suc.IH delivers_after_unit same_out.keeps_ensure)
  have turn: "delivers out raw (if \<not> ready then write_loop n e fd raw deadline cp else k)" if "delivers out raw k" for ready k
    using that Suc.IH by simp
  show ?case
  proof (cases "raw = []")
    case True
    then show ?thesis by (simp add: delivers_def delivered_empty)
  next
    case False
    then show ?thesis unfolding write_loop.simps if_not_P [OF False]
      by (intro delivers_after_unit delivers_after turn piece assms(2-4) same_out.keeps_ensure)
  qed
qed

text \<open>
  C34: a bounded write delivers what it was given or fails.  Whatever the descriptor, the clock
  and the short or refused writes of the kernel are, the bytes delivered are always a leading
  part of the message, without a gap or a repetition, and a write that returns has delivered all
  of it; then the message is not empty and within the limit of a channel.
\<close>

theorem write_bounded_delivers:
  assumes "accepts out e fd" and "keeps (same_out out) (io_now e)" and "keeps (same_out out) (io_nonblocking e fd)"
    and "\<And>d. keeps (same_out out) (io_writable e fd d)" and "keeps (same_out out) cp"
  shows "case write_bounded n e fd raw deadline cp w of (r, w') \<Rightarrow>
     (\<exists>k\<le>length raw. out w' = out w @ take k raw) \<and>
     (r = Inr () \<longrightarrow> out w' = out w @ raw \<and> 0 < length raw \<and> length raw \<le> HOST_REPORT_LIMIT)"
proof -
  have d: "delivers out raw (write_bounded n e fd raw deadline cp)"
    unfolding write_bounded_def
    by (intro delivers_after_unit same_out.keeps_ensure assms(3) write_loop_delivers assms(1,2,4,5))
  obtain r w' where run: "write_bounded n e fd raw deadline cp w = (r, w')" by (cases "write_bounded n e fd raw deadline cp w")
  moreover have "r = Inr () \<Longrightarrow> 0 < length raw \<and> length raw \<le> HOST_REPORT_LIMIT"
    using run by (auto simp: write_bounded_def act_simps split: if_splits)
  ultimately show ?thesis using deliversD [OF d run] by (simp add: delivered_def)
qed

text \<open>A pipe that takes at most two bytes at a time, as the list of the bytes it has taken.\<close>

definition slow_pipe :: "string ipc" where
  "slow_pipe = \<lparr> io_now = ret 0, io_sleep = (\<lambda>_. ret ()), io_nonblocking = (\<lambda>_. ret ()), io_readable = (\<lambda>_ _. ret []),
     io_writable = (\<lambda>_ _. ret True), io_read = (\<lambda>_ _. ret []),
     io_write = (\<lambda>_ raw w. (Inr (min 2 (length raw)), w @ take 2 raw)), io_close = (\<lambda>_. ret ()),
     io_closerange = (\<lambda>_ _. ret ()), io_open_max = ret 256, io_pipe = ret (3, 4), io_fork = ret 7, io_detach = ret (),
     io_waitpid = (\<lambda>_. ret (Some 0)), io_kill = (\<lambda>_ _. ret ()), io_killpg = (\<lambda>_ _. ret ()), io_float = (\<lambda>_. []) \<rparr>"

lemma slow_pipe_accepts: "accepts id slow_pipe fd"
  by (simp add: accepts_def slow_pipe_def min_def)

definition slow_write :: "nat \<Rightarrow> unit res \<times> string" where
  "slow_write n = write_bounded n slow_pipe 4 ''hello'' 1 (ret ()) ''>''"

lemma slow_pipe_run: "slow_write (Suc (Suc (Suc (Suc 0)))) = (Inr (), ''>hello'')"
  by (simp add: slow_write_def write_bounded_def slow_pipe_def HOST_REPORT_LIMIT_def handle_if_def bnd_def sqn_def ensure_def)

theorem write_bounded_delivers_witness:
  "(\<exists>k\<le>length ''hello''. snd (slow_write (Suc 0)) = ''>'' @ take k ''hello'') \<and>
   snd (slow_write (Suc (Suc (Suc (Suc 0))))) = ''>'' @ ''hello''"
proof -
  have quiet: "keeps (same_out id) (io_now slow_pipe)" "keeps (same_out id) (io_nonblocking slow_pipe 4)"
    "keeps (same_out id) (io_writable slow_pipe 4 d)" "keeps (same_out id) (ret ())" for d
    by (simp_all add: slow_pipe_def same_out.keeps_ret)
  note law = write_bounded_delivers [OF slow_pipe_accepts quiet, where raw = "''hello''" and deadline = 1 and w = "''>''",
      folded slow_write_def, unfolded case_prod_beta id_apply]
  show ?thesis using law [of "Suc 0"] law [of "Suc (Suc (Suc (Suc 0)))"] arg_cong [OF slow_pipe_run, of fst]
    by (simp only: fst_conv simp_thms)
qed

end
