(* ===== verification/Supervise.thy ===== *)
theory Supervise
  imports Effects LeaseProps
begin

text \<open>
  The independent supervisor (\<open>sw_i5_preparation_supervisor.supervise\<close>): it admits a
  blocked worker to its cgroup, releases it, watches it under the lease and, once a worker
  was started, always kills the owned group and waits for the population to vanish.
  Everything the code is handed (boundary, guard, worker, clock, lease channel, reaper,
  exporter, registration callback) is an environment \<open>sup_env\<close> over an arbitrary world;
  each call is recorded in a trace with whether it returned or raised.
\<close>

subsection \<open>Environment and state\<close>

datatype sup_op =
    BeforeAdmission | Populated | Spawn | RegisterWorker | Attach | BindWorker | AdmitSetup
  | Ready | CheckCgroups | GuardCheck | Pin | Release | Poll | CancelAdmission | Kill | Reap | Drain

record 'w sup_env =
  e_clock :: "'w \<Rightarrow> rat \<times> 'w"
  e_is_fd :: bool
  e_read :: "'w \<Rightarrow> string option res \<times> 'w"
  e_acknowledge :: "int \<Rightarrow> 'w \<Rightarrow> unit res \<times> 'w"
  e_interrupted :: "'w \<Rightarrow> bool \<times> 'w"
  e_pause :: "rat \<Rightarrow> 'w \<Rightarrow> 'w"
  e_before_admission :: "'w \<Rightarrow> unit res \<times> 'w"
  e_populated :: "'w \<Rightarrow> bool res \<times> 'w"
  e_spawn :: "'w \<Rightarrow> int res \<times> 'w"
  e_register_worker :: "(int \<Rightarrow> 'w \<Rightarrow> unit res \<times> 'w) option"
  e_attach :: "int \<Rightarrow> 'w \<Rightarrow> unit res \<times> 'w"
  e_bind_worker :: "int \<Rightarrow> 'w \<Rightarrow> unit res \<times> 'w"
  e_admit_setup :: "'w \<Rightarrow> unit res \<times> 'w"
  e_ready :: "'w \<Rightarrow> bool res \<times> 'w"
  e_check_cgroups :: "'w \<Rightarrow> unit res \<times> 'w"
  e_guard_check :: "'w \<Rightarrow> unit res \<times> 'w"
  e_pin :: "(int \<Rightarrow> 'w \<Rightarrow> unit res \<times> 'w) option"
  e_release :: "'w \<Rightarrow> unit res \<times> 'w"
  e_poll :: "'w \<Rightarrow> int option res \<times> 'w"
  e_cancel_admission :: "'w \<Rightarrow> unit res \<times> 'w"
  e_kill :: "'w \<Rightarrow> unit res \<times> 'w"
  e_reap :: "('w \<Rightarrow> bool res \<times> 'w) option"

record 'w sup =
  s_world :: 'w
  s_lease :: lease
  s_trace :: "(sup_op \<times> bool) list"
  s_started :: bool
  s_admitted :: bool
  r_failure :: "string option"
  r_cleanup_errors :: "string list"
  r_admitted :: bool
  r_worker_exit :: "int option"
  r_population_empty :: bool
  r_reaped :: bool

text \<open>One injected call: run it on the world and log it.\<close>

definition call :: "sup_op \<Rightarrow> ('w \<Rightarrow> 'a res \<times> 'w) \<Rightarrow> ('w sup, 'a) act" where
  "call n f = (\<lambda>s. let (r, w) = f (s_world s) in
     (r, s\<lparr>s_world := w, s_trace := s_trace s @ [(n, \<not> isl r)]\<rparr>))"

definition clock :: "'w sup_env \<Rightarrow> ('w sup, rat) act" where
  "clock e = (\<lambda>s. let (t, w) = e_clock e (s_world s) in (Inr t, s\<lparr>s_world := w\<rparr>))"

definition pause :: "'w sup_env \<Rightarrow> rat \<Rightarrow> ('w sup, unit) act" where
  "pause e d = upd (\<lambda>s. s\<lparr>s_world := e_pause e d (s_world s)\<rparr>)"

definition interrupted :: "'w sup_env \<Rightarrow> ('w sup, bool) act" where
  "interrupted e = (\<lambda>s. let (b, w) = e_interrupted e (s_world s) in (Inr b, s\<lparr>s_world := w\<rparr>))"

text \<open>
  \<open>drain_lease(lease_fd, lease, clock())\<close>: the clock is read first, then the channel, whose
  read may raise (a mailbox checks the identity of its file).
\<close>

definition drain_poll :: "'w sup_env \<Rightarrow> rat \<Rightarrow> 'w sup \<Rightarrow> bool res \<times> 'w sup" where
  "drain_poll e t = (\<lambda>s.
     case e_read e (s_world s) of
       (Inl x, w1) \<Rightarrow> (Inl x, s\<lparr>s_world := w1\<rparr>)
     | (Inr obs, w1) \<Rightarrow>
        (let (l', r) = drain_lease (e_is_fd e) obs (s_lease s) (PFloat (Fin t)) True;
             s1 = s\<lparr>s_world := w1, s_lease := l'\<rparr>
         in case r of
              Inl x \<Rightarrow> (Inl x, s1)
            | Inr (renewed, None) \<Rightarrow> (Inr renewed, s1)
            | Inr (renewed, Some n) \<Rightarrow>
                (let (a, w2) = e_acknowledge e n (s_world s1)
                 in (bindE a (\<lambda>_. Inr renewed), s1\<lparr>s_world := w2\<rparr>))))"

definition drain :: "'w sup_env \<Rightarrow> ('w sup, bool) act" where
  "drain e = bnd (clock e) (\<lambda>t s. let (r, s') = drain_poll e t s in
     (r, s'\<lparr>s_trace := s_trace s' @ [(Drain, \<not> isl r)]\<rparr>))"

definition require_not_interrupted :: "'w sup_env \<Rightarrow> string \<Rightarrow> ('w sup, unit) act" where
  "require_not_interrupted e m = bnd (interrupted e) (\<lambda>b. ensure (\<not> b) m)"

subsection \<open>The guarded body\<close>

text \<open>The loop \<open>while not worker.ready()\<close>.\<close>

fun setup_loop :: "nat \<Rightarrow> 'w sup_env \<Rightarrow> ('w sup, unit) act" where
  "setup_loop 0 e = lft (Inl OutOfFuel)"
| "setup_loop (Suc n) e =
     bnd (call Ready (e_ready e)) (\<lambda>ready.
     if ready then ret () else
     sqn (require_not_interrupted e ''supervisor cancelled during setup'') (
     sqn (drain e) (
     sqn (call CheckCgroups (e_check_cgroups e)) (
     sqn (pause e (1 / 100)) (
     setup_loop n e)))))"

text \<open>The loop that watches the released worker.\<close>

fun watch_loop :: "nat \<Rightarrow> 'w sup_env \<Rightarrow> ('w sup, unit) act" where
  "watch_loop 0 e = lft (Inl OutOfFuel)"
| "watch_loop (Suc n) e =
     sqn (require_not_interrupted e ''supervisor cancelled'') (
     sqn (drain e) (
     sqn (call CheckCgroups (e_check_cgroups e)) (
     bnd (call Poll (e_poll e)) (\<lambda>code.
     case code of
       Some c \<Rightarrow>
         sqn (upd (\<lambda>s. s\<lparr>r_worker_exit := Some c\<rparr>)) (
         sqn (ensure (c = 0) (''preparation worker failed: '' @ show_int c)) (
         bnd (call Populated (e_populated e)) (\<lambda>p.
         sqn (ensure (\<not> p) ''worker descendants remain'') (
         sqn (drain e) (ret ())))))
     | None \<Rightarrow>
         bnd (clock e) (\<lambda>t. bnd (get s_lease) (\<lambda>l.
         sqn (pause e (min (1 / 20) (max 0 (l_deadline l - t)))) (
         watch_loop n e)))))))"

definition before_spawn :: "'w sup_env \<Rightarrow> ('w sup, unit) act" where
  "before_spawn e =
     sqn (drain e) (
     sqn (call BeforeAdmission (e_before_admission e)) (
     bnd (call Populated (e_populated e)) (\<lambda>p.
     ensure (\<not> p) ''worker cgroup not empty before admission'')))"

definition until_release :: "nat \<Rightarrow> 'w sup_env \<Rightarrow> int \<Rightarrow> ('w sup, unit) act" where
  "until_release fuel e pid =
     sqn (case e_register_worker e of None \<Rightarrow> ret () | Some f \<Rightarrow> call RegisterWorker (f pid)) (
     sqn (call Attach (e_attach e pid)) (
     sqn (upd (\<lambda>s. s\<lparr>s_admitted := True\<rparr>)) (
     sqn (call BindWorker (e_bind_worker e pid)) (
     sqn (call AdmitSetup (e_admit_setup e)) (
     sqn (setup_loop fuel e) (
     sqn (call GuardCheck (e_guard_check e)) (
     sqn (case e_pin e of None \<Rightarrow> ret () | Some f \<Rightarrow> call Pin (f pid)) (
     sqn (drain e) (
     require_not_interrupted e ''supervisor cancelled before release'')))))))))"

definition admit_and_watch :: "nat \<Rightarrow> 'w sup_env \<Rightarrow> ('w sup, unit) act" where
  "admit_and_watch fuel e =
     sqn (before_spawn e) (
     bnd (call Spawn (e_spawn e)) (\<lambda>pid.
     sqn (upd (\<lambda>s. s\<lparr>s_started := True\<rparr>)) (
     sqn (until_release fuel e pid) (
     sqn (call Release (e_release e)) (
     sqn (upd (\<lambda>s. s\<lparr>r_admitted := True\<rparr>)) (
     watch_loop fuel e))))))"

subsection \<open>Cleanup\<close>

definition cleanup_error :: "string \<Rightarrow> string \<Rightarrow> ('w sup, unit) act" where
  "cleanup_error what m = upd (\<lambda>s. s\<lparr>r_cleanup_errors := r_cleanup_errors s @ [what @ m]\<rparr>)"

text \<open>One observation of the population; \<open>True\<close> when everything is gone.\<close>

definition cleanup_observe :: "'w sup_env \<Rightarrow> ('w sup, bool) act" where
  "cleanup_observe e =
     bnd (call Poll (e_poll e)) (\<lambda>code0.
     bnd (call Populated (e_populated e)) (\<lambda>p.
     bnd (case e_reap e of None \<Rightarrow> ret (code0 \<noteq> None) | Some f \<Rightarrow> call Reap f) (\<lambda>reaped.
     bnd (if e_reap e \<noteq> None then call Poll (e_poll e) else ret code0) (\<lambda>code.
     sqn (upd (\<lambda>s. s\<lparr>r_worker_exit := (if code \<noteq> None then code else r_worker_exit s),
                      r_population_empty := \<not> p, r_reaped := reaped\<rparr>)) (
     ret (\<not> p \<and> reaped \<and> code \<noteq> None))))))"

text \<open>\<open>None\<close>: an observation failed, the loop is left; \<open>Some b\<close>: all gone or not.\<close>

definition cleanup_try :: "'w sup_env \<Rightarrow> ('w sup, bool option) act" where
  "cleanup_try e =
     handle (bnd (cleanup_observe e) (\<lambda>b. ret (Some b)))
       (\<lambda>x. sqn (cleanup_error ''cleanup observation: '' (exn_str x)) (ret None))"

fun cleanup_loop :: "nat \<Rightarrow> 'w sup_env \<Rightarrow> rat \<Rightarrow> ('w sup, unit) act" where
  "cleanup_loop 0 e until = lft (Inl OutOfFuel)"
| "cleanup_loop (Suc n) e until =
     bnd (cleanup_try e) (\<lambda>obs.
     if obs = None \<or> obs = Some True then ret () else
     bnd (clock e) (\<lambda>t.
     if until \<le> t then cleanup_error ''population/reaping deadline'' [] else
     bnd (clock e) (\<lambda>t'.
     sqn (pause e (min (1 / 50) (max 0 (until - t')))) (
     cleanup_loop n e until))))"

definition cleanup :: "nat \<Rightarrow> 'w sup_env \<Rightarrow> rat \<Rightarrow> rat option \<Rightarrow> ('w sup, unit) act" where
  "cleanup fuel e cleanup_seconds absolute_deadline =
     bnd (get s_started) (\<lambda>started.
     if started then
       sqn (call CancelAdmission (e_cancel_admission e)) (
       sqn (handle (call Kill (e_kill e)) (\<lambda>x. cleanup_error ''cgroup kill: '' (exn_str x))) (
       bnd (clock e) (\<lambda>t.
       sqn (cleanup_loop fuel e (case absolute_deadline of None \<Rightarrow> t + cleanup_seconds
                                 | Some d \<Rightarrow> min (t + cleanup_seconds) d)) (
       handle (call CheckCgroups (e_check_cgroups e))
         (\<lambda>x. cleanup_error ''postflight: '' (exn_str x))))))
     else upd (\<lambda>s. s\<lparr>r_population_empty := False\<rparr>))"

subsection \<open>The whole supervision\<close>

record supervision =
  v_nonce :: string
  v_manifest :: string
  v_passed :: bool
  v_failure :: "string option"
  v_cleanup_errors :: "string list"
  v_admitted :: bool
  v_worker_exit :: "int option"
  v_population_empty :: bool
  v_reaped :: bool

definition report_of :: "'w sup \<Rightarrow> supervision" where
  "report_of s = \<lparr> v_nonce = l_nonce (s_lease s), v_manifest = l_manifest (s_lease s),
     v_passed = (s_admitted s \<and> r_worker_exit s = Some 0 \<and> r_population_empty s \<and> r_reaped s \<and>
       (case r_failure s of None \<Rightarrow> True | Some m \<Rightarrow> m = []) \<and> r_cleanup_errors s = []),
     v_failure = r_failure s, v_cleanup_errors = r_cleanup_errors s, v_admitted = r_admitted s,
     v_worker_exit = r_worker_exit s, v_population_empty = r_population_empty s,
     v_reaped = r_reaped s \<rparr>"

definition CLEANUP_SECONDS :: rat where "CLEANUP_SECONDS = 20"

definition sup_start :: "'w \<Rightarrow> lease \<Rightarrow> 'w sup" where
  "sup_start w l = \<lparr> s_world = w, s_lease = l, s_trace = [], s_started = False, s_admitted = False,
     r_failure = None, r_cleanup_errors = [], r_admitted = False, r_worker_exit = None,
     r_population_empty = False, r_reaped = False \<rparr>"

definition supervised_body :: "nat \<Rightarrow> 'w sup_env \<Rightarrow> ('w sup, unit) act" where
  "supervised_body fuel e =
     handle (admit_and_watch fuel e) (\<lambda>x. upd (\<lambda>s. s\<lparr>r_failure := Some (exn_str x)\<rparr>))"

definition supervise ::
    "nat \<Rightarrow> 'w sup_env \<Rightarrow> rat \<Rightarrow> rat option \<Rightarrow> ('w sup, supervision) act" where
  "supervise fuel e cleanup_seconds absolute_deadline =
     sqn (ensure (0 < cleanup_seconds \<and> cleanup_seconds \<le> CLEANUP_SECONDS) ''cleanup deadline'') (
     sqn (case absolute_deadline of None \<Rightarrow> ret ()
          | Some d \<Rightarrow> bnd (clock e) (\<lambda>t. ensure (t < d) ''supervisor outer deadline'')) (
     sqn (try_finally (supervised_body fuel e) (cleanup fuel e cleanup_seconds absolute_deadline)) (
     get report_of)))"

end
