(* ===== verification/SuperviseProps.thy ===== *)
theory SuperviseProps
  imports Supervise
begin

text \<open>
  Safety of the supervisor, for every environment: the worker is released only after
  admission, binding and a live lease; once a worker was spawned its group is killed, and a
  run that never spawned one kills nothing; a report that claims success is the report of
  such a run.
\<close>

subsection \<open>What a step may log\<close>

definition core :: "'w sup \<Rightarrow> bool \<times> string option \<times> string list \<times> bool" where
  "core s = (s_started s, r_failure s, r_cleanup_errors s, r_admitted s)"

definition logs :: "sup_op set \<Rightarrow> 'w sup \<Rightarrow> 'w sup \<Rightarrow> bool" where
  "logs ops s t = (core t = core s \<and> (\<exists>es. s_trace t = s_trace s @ es \<and> fst ` set es \<subseteq> ops))"

interpretation logs: state_order "logs ops" for ops
  by unfold_locales (fastforce simp: logs_def)+

text \<open>The flags that only the body itself sets.\<close>

definition flags :: "'w sup \<Rightarrow> bool \<times> bool \<times> string option \<times> string list \<times> bool" where
  "flags s = (s_admitted s, core s)"

text \<open>A state keeps its flags and logs only some operations; the binding of the lease never changes.\<close>

definition quiet :: "sup_op set \<Rightarrow> 'w sup \<Rightarrow> 'w sup \<Rightarrow> bool" where
  "quiet ops s t = (logs ops s t \<and> flags t = flags s)"

interpretation quiet: state_order "quiet ops" for ops
  by unfold_locales (auto simp: quiet_def intro: logs.R_refl logs.R_trans)

lemma quiet_call: "n \<in> ops \<Longrightarrow> keeps (quiet ops) (call n f)"
  by (auto simp: keeps_def quiet_def logs_def flags_def core_def call_def split: prod.splits)

lemma drain_poll_frame:
  "drain_poll e t s = (r, s') \<Longrightarrow> s_trace s' = s_trace s \<and> flags s' = flags s"
  by (auto simp: drain_poll_def flags_def core_def Let_def split: prod.splits sum.splits option.splits)

lemma quiet_drain: "Drain \<in> ops \<Longrightarrow> keeps (quiet ops) (drain e)"
proof -
  assume d: "Drain \<in> ops"
  have "keeps (quiet ops) (clock e)"
    by (auto simp: keeps_def quiet_def logs_def flags_def core_def clock_def split: prod.splits)
  moreover have "keeps (quiet ops) (\<lambda>s. let (r, s') = drain_poll e t s in
     (r, s'\<lparr>s_trace := s_trace s' @ [(Drain, \<not> isl r)]\<rparr>))" for t
    unfolding keeps_def
  proof
    fix s
    obtain r s' where p: "drain_poll e t s = (r, s')" by (cases "drain_poll e t s")
    from drain_poll_frame [OF p] d show "quiet ops s (snd (let (r, s') = drain_poll e t s in
     (r, s'\<lparr>s_trace := s_trace s' @ [(Drain, \<not> isl r)]\<rparr>)))"
      by (simp add: p quiet_def logs_def flags_def core_def)
  qed
  ultimately show ?thesis unfolding drain_def by (rule quiet.keeps_bnd)
qed

lemma quiet_world:
  "keeps (quiet ops) (clock e)" "keeps (quiet ops) (pause e d)" "keeps (quiet ops) (interrupted e)"
  "keeps (quiet ops) (require_not_interrupted e m)"
proof -
  show "keeps (quiet ops) (clock e)" "keeps (quiet ops) (pause e d)"
    and i: "keeps (quiet ops) (interrupted e)"
    by (auto simp: keeps_def quiet_def logs_def flags_def core_def clock_def pause_def interrupted_def upd_def
        split: prod.splits)
  show "keeps (quiet ops) (require_not_interrupted e m)"
    unfolding require_not_interrupted_def by (intro quiet.keeps_intros i)
qed

lemma quiet_upd_exit: "keeps (quiet ops) (upd (\<lambda>s. s\<lparr>r_worker_exit := c\<rparr>))"
  by (rule quiet.keeps_upd) (simp add: quiet_def logs_def flags_def core_def)

lemmas quiet_intros = quiet.keeps_intros quiet_call quiet_drain quiet_world quiet_upd_exit

lemma quiet_setup_loop: "keeps (quiet {Ready, Drain, CheckCgroups}) (setup_loop n e)"
proof (induction n)
  case (Suc n)
  have "keeps (quiet {Ready, Drain, CheckCgroups}) (if b then ret () else
     sqn (require_not_interrupted e ''supervisor cancelled during setup'') (sqn (drain e)
     (sqn (call CheckCgroups (e_check_cgroups e)) (sqn (pause e (1 / 100)) (setup_loop n e)))))" for b
    using Suc by (cases b) (auto intro!: quiet_intros)
  then show ?case by (auto intro!: quiet_intros)
qed (simp only: setup_loop.simps watch_loop.simps quiet.keeps_lft)

lemma quiet_watch_loop: "keeps (quiet {Drain, CheckCgroups, Poll, Populated}) (watch_loop n e)"
proof (induction n)
  case (Suc n)
  show ?case
    using Suc by (auto intro!: quiet_intros split: option.split)
qed (simp only: setup_loop.simps watch_loop.simps quiet.keeps_lft)

definition setup_ops :: "sup_op set" where
  "setup_ops = {RegisterWorker, Attach, BindWorker, AdmitSetup, Ready, Drain, CheckCgroups, GuardCheck, Pin}"

lemma quiet_before_spawn: "keeps (quiet {Drain, BeforeAdmission, Populated}) (before_spawn e)"
  unfolding before_spawn_def by (auto intro!: quiet_intros)

lemma quiet_mono: "quiet A s t \<Longrightarrow> A \<subseteq> B \<Longrightarrow> quiet B s t"
  by (fastforce simp: quiet_def logs_def)

lemma keeps_quiet_mono: "keeps (quiet A) m \<Longrightarrow> A \<subseteq> B \<Longrightarrow> keeps (quiet B) m"
  by (auto simp: keeps_def intro: quiet_mono)

lemma logs_until_release: "keeps (logs setup_ops) (until_release n e pid)"
proof -
  have q: "keeps (logs A) m" if "keeps (quiet A) m" for A and m :: "('a sup, 'b) act"
    using that by (simp add: keeps_def quiet_def)
  have loop: "keeps (logs setup_ops) (setup_loop n e)"
    by (rule q, rule keeps_quiet_mono [OF quiet_setup_loop]) (auto simp: setup_ops_def)
  have adm: "keeps (logs setup_ops) (upd (\<lambda>s. s\<lparr>s_admitted := True\<rparr>))"
    by (rule logs.keeps_upd) (simp add: logs_def core_def)
  have calls: "m \<in> setup_ops \<Longrightarrow> keeps (logs setup_ops) (call m f)" for m and f :: "'a \<Rightarrow> 'c res \<times> 'a"
    by (rule q, rule quiet_call)
  have dr: "keeps (logs setup_ops) (drain e)" by (rule q, rule quiet_drain) (simp add: setup_ops_def)
  have ri: "keeps (logs setup_ops) (require_not_interrupted e m)" for m by (rule q, rule quiet_world)
  have mem: "RegisterWorker \<in> setup_ops" "Attach \<in> setup_ops" "BindWorker \<in> setup_ops"
    "AdmitSetup \<in> setup_ops" "GuardCheck \<in> setup_ops" "Pin \<in> setup_ops"
    by (simp_all add: setup_ops_def)
  show ?thesis unfolding until_release_def
    by (auto intro!: logs.keeps_intros loop adm calls dr ri mem split: option.split)
qed

subsection \<open>What a step that returned has done\<close>

lemma call_Inr:
  "call n f s = (Inr x, t) \<Longrightarrow>
     s_trace t = s_trace s @ [(n, True)] \<and> flags t = flags s \<and> s_lease t = s_lease s"
  by (auto simp: call_def flags_def core_def split: prod.splits)

lemma call_trace: "call n f s = (r, t) \<Longrightarrow> s_trace t = s_trace s @ [(n, \<not> isl r)] \<and> flags t = flags s"
  by (auto simp: call_def flags_def core_def split: prod.splits)

definition alive :: "'w sup \<Rightarrow> bool" where
  "alive s = (\<exists>t. lease_check (s_lease s) (PFloat (Fin t)) True = Inr ())"

lemma drain_poll_Inr: "drain_poll e t s = (Inr b, s') \<Longrightarrow> alive s'"
  unfolding drain_poll_def
  by (auto simp: Let_def alive_def bindE_Inr split: prod.splits sum.splits option.splits
      dest!: drain_lease_check)

lemma drain_Inr:
  "drain e s = (Inr b, t) \<Longrightarrow> s_trace t = s_trace s @ [(Drain, True)] \<and> flags t = flags s \<and> alive t"
proof -
  assume d: "drain e s = (Inr b, t)"
  then obtain tm u where c: "clock e s = (Inr tm, u)"
    and u: "(let (r, s') = drain_poll e tm u in (r, s'\<lparr>s_trace := s_trace s' @ [(Drain, \<not> isl r)]\<rparr>)) = (Inr b, t)"
    by (auto simp: drain_def bnd_Inr)
  obtain r' s' where "drain_poll e tm u = (r', s')" by (cases "drain_poll e tm u")
  with u have p: "drain_poll e tm u = (Inr b, s')"
    and t: "t = s'\<lparr>s_trace := s_trace s' @ [(Drain, True)]\<rparr>" by auto
  have "s_trace u = s_trace s" "flags u = flags s"
    using c by (auto simp: clock_def flags_def core_def split: prod.splits)
  with drain_poll_frame [OF p] drain_poll_Inr [OF p] show ?thesis
    by (simp add: t flags_def core_def alive_def)
qed

lemma require_not_interrupted_Inr:
  "require_not_interrupted e m s = (Inr u, t) \<Longrightarrow>
     s_trace t = s_trace s \<and> flags t = flags s \<and> s_lease t = s_lease s"
  by (auto simp: require_not_interrupted_def interrupted_def flags_def core_def act_simps split: prod.splits)

text \<open>Admission: everything that must have succeeded before \<open>worker.release()\<close>.\<close>

definition admission :: "(sup_op \<times> bool) list \<Rightarrow> bool" where
  "admission es = (\<exists>xs. es = xs @ [(Drain, True)] \<and>
     {(Attach, True), (BindWorker, True), (AdmitSetup, True), (GuardCheck, True)} \<subseteq> set xs \<and>
     fst ` set xs \<subseteq> setup_ops)"

text \<open>What a step that returned has logged, and the state it left.\<close>

definition post :: "((sup_op \<times> bool) list \<Rightarrow> 'w sup \<Rightarrow> bool) \<Rightarrow> ('w sup, 'a) act \<Rightarrow> bool" where
  "post P m = (\<forall>s x t. m s = (Inr x, t) \<longrightarrow> (\<exists>es. s_trace t = s_trace s @ es \<and> P es t))"

lemma post_sqn:
  assumes "post P m" and "post Q k" and PQ: "\<And>a b u t. P a u \<Longrightarrow> Q b t \<Longrightarrow> R (a @ b) t"
  shows "post R (sqn m k)"
  unfolding post_def
proof (intro allI impI)
  fix s x t assume "sqn m k s = (Inr x, t)"
  then obtain y u where "m s = (Inr y, u)" and "k u = (Inr x, t)" by (rule sqnE)
  with assms(1,2) obtain a b where "s_trace u = s_trace s @ a" "P a u" "s_trace t = s_trace u @ b" "Q b t"
    unfolding post_def by blast
  then show "\<exists>es. s_trace t = s_trace s @ es \<and> R es t"
    by (intro exI [of _ "a @ b"]) (auto intro: PQ)
qed

text \<open>A log of setup operations that holds the wanted events and ends with a live lease.\<close>

definition admits :: "(sup_op \<times> bool) set \<Rightarrow> (sup_op \<times> bool) list \<Rightarrow> 'w sup \<Rightarrow> bool" where
  "admits need es t = (\<exists>xs. es = xs @ [(Drain, True)] \<and> need \<subseteq> set xs \<and> fst ` set xs \<subseteq> setup_ops \<and> alive t)"

lemma admits_cons: "admits need b t \<Longrightarrow> fst ` set a \<subseteq> setup_ops \<Longrightarrow> admits (need \<union> set a) (a @ b) t"
  unfolding admits_def by (elim exE conjE, rule_tac x = "a @ xs" in exI) auto

lemma admits_mono: "admits B es t \<Longrightarrow> A \<subseteq> B \<Longrightarrow> admits A es t"
  unfolding admits_def by blast

lemma post_admits_quiet:
  assumes "keeps (quiet A) m" "A \<subseteq> setup_ops" "post (admits need) k"
  shows "post (admits need) (sqn m k)"
proof (rule post_sqn [OF _ assms(3)])
  show "post (\<lambda>es t. fst ` set es \<subseteq> setup_ops) m"
    unfolding post_def using assms(1,2) by (fastforce simp: quiet_def logs_def dest: keepsD)
qed (blast intro: admits_mono admits_cons)

lemma post_admits_call:
  assumes "n \<in> setup_ops" "post (admits need) k"
  shows "post (admits (insert (n, True) need)) (sqn (call n f) k)"
proof (rule post_sqn [OF _ assms(2)])
  show "post (\<lambda>es t. es = [(n, True)]) (call n f)"
    unfolding post_def by (auto dest: call_Inr)
next
  fix a b and t :: "'a sup" assume "a = [(n, True)]" "admits need b t"
  then show "admits (insert (n, True) need) (a @ b) t"
    using assms(1) admits_cons [of need b t a] by simp
qed

lemma post_admits_final:
  "post (admits {}) (sqn (drain e) (require_not_interrupted e m))"
  unfolding post_def
proof (intro allI impI)
  fix s x t
  assume "sqn (drain e) (require_not_interrupted e m) s = (Inr x, t)"
  then obtain b v where "drain e s = (Inr b, v)"
    and "require_not_interrupted e m v = (Inr x, t)" by (rule sqnE)
  from drain_Inr [OF this(1)] require_not_interrupted_Inr [OF this(2)]
  show "\<exists>es. s_trace t = s_trace s @ es \<and> admits {} es t" by (simp add: alive_def admits_def)
qed

lemma until_release_Inr:
  assumes "until_release n e pid s = (Inr u, t)"
  shows "\<exists>es. s_trace t = s_trace s @ es \<and> admission es \<and> alive t"
proof -
  have reg: "keeps (quiet {RegisterWorker}) (case e_register_worker e of None \<Rightarrow> ret () | Some f \<Rightarrow> call RegisterWorker (f pid))"
    and pin: "keeps (quiet {Pin}) (case e_pin e of None \<Rightarrow> ret () | Some f \<Rightarrow> call Pin (f pid))"
    by (auto intro!: quiet_intros split: option.split)
  have ops: "{RegisterWorker} \<subseteq> setup_ops" "{Pin} \<subseteq> setup_ops" "{Ready, Drain, CheckCgroups} \<subseteq> setup_ops"
    and mem: "Attach \<in> setup_ops" "BindWorker \<in> setup_ops" "AdmitSetup \<in> setup_ops" "GuardCheck \<in> setup_ops"
    by (simp_all add: setup_ops_def)
  have set: "post (admits need) (sqn (upd (\<lambda>s. s\<lparr>s_admitted := True\<rparr>)) k)"
    if "post (admits need) k" for need and k :: "('a sup, unit) act"
    by (rule post_sqn [OF _ that, where P = "\<lambda>es t. es = []"]) (simp_all add: post_def upd_eq)
  have "post (admits {(Attach, True), (BindWorker, True), (AdmitSetup, True), (GuardCheck, True)})
      (until_release n e pid)"
    unfolding until_release_def
    by (rule post_admits_quiet [OF reg ops(1)], rule post_admits_call [OF mem(1)], rule set,
        rule post_admits_call [OF mem(2)], rule post_admits_call [OF mem(3)],
        rule post_admits_quiet [OF quiet_setup_loop ops(3)], rule post_admits_call [OF mem(4)],
        rule post_admits_quiet [OF pin ops(2)], rule post_admits_final)
  then obtain es where "s_trace t = s_trace s @ es"
    "admits {(Attach, True), (BindWorker, True), (AdmitSetup, True), (GuardCheck, True)} es t"
    using assms unfolding post_def by (elim allE impE exE conjE) (assumption, rule that)
  then show ?thesis by (intro exI [of _ es]) (auto simp: admits_def admission_def)
qed

subsection \<open>The body\<close>

text \<open>Where the body stopped: before a worker, with a blocked worker, or with a released one.\<close>

definition pre_ops :: "sup_op set" where "pre_ops = {Drain, BeforeAdmission, Populated}"
definition run_ops :: "sup_op set" where "run_ops = {Drain, CheckCgroups, Poll, Populated}"

lemma admit_and_watch_cases:
  assumes "admit_and_watch n e s = (r, t)" and "s_trace s = []" and "\<not> s_started s" and "\<not> r_admitted s"
  obtains (unspawned) "isl r" "\<not> s_started t" "\<not> s_admitted s \<longrightarrow> \<not> s_admitted t" "\<not> r_admitted t"
      "(Spawn, True) \<notin> set (s_trace t)" "fst ` set (s_trace t) \<subseteq> insert Spawn pre_ops"
  | (blocked) xs ys where "isl r" "s_started t" "\<not> r_admitted t"
      "s_trace t = xs @ (Spawn, True) # ys" "fst ` set xs \<subseteq> pre_ops" "fst ` set ys \<subseteq> insert Release setup_ops"
      "(Release, True) \<notin> set ys" "\<And>b. (Release, b) \<in> set ys \<Longrightarrow> \<exists>es. ys = es @ [(Release, b)] \<and> admission es"
  | (released) xs es ys where "s_started t" "r_admitted t"
      "s_trace t = xs @ (Spawn, True) # es @ (Release, True) # ys" "fst ` set xs \<subseteq> pre_ops"
      "admission es" "fst ` set ys \<subseteq> run_ops"
proof -
  obtain r1 s1 where b: "before_spawn e s = (r1, s1)" by (cases "before_spawn e s")
  from keepsD [OF quiet_before_spawn b] assms(2) have t1: "fst ` set (s_trace s1) \<subseteq> pre_ops"
    and f1: "flags s1 = flags s" by (auto simp: quiet_def logs_def pre_ops_def)
  show ?thesis
  proof (cases r1)
    case (Inl x)
    then have "r = Inl x" "t = s1" using assms(1) b by (auto simp: admit_and_watch_def)
    then show ?thesis using t1 f1 assms(3,4)
      by (intro unspawned) (auto simp: flags_def core_def pre_ops_def)
  next
    case ok1: (Inr u1)
    obtain r2 s2 where sp: "call Spawn (e_spawn e) s1 = (r2, s2)" by (cases "call Spawn (e_spawn e) s1")
    note c2 = call_trace [OF sp]
    show ?thesis
    proof (cases r2)
      case (Inl x)
      then have "r = Inl x" "t = s2" using assms(1) b sp ok1 by (auto simp: admit_and_watch_def)
      then show ?thesis using t1 f1 c2 assms(3,4) Inl
        by (intro unspawned) (auto simp: flags_def core_def pre_ops_def)
    next
      case ok2: (Inr pid)
      let ?s3 = "s2\<lparr>s_started := True\<rparr>"
      obtain r4 s4 where un: "until_release n e pid ?s3 = (r4, s4)" by (cases "until_release n e pid ?s3")
      from keepsD [OF logs_until_release un] obtain ys where ys: "s_trace s4 = s_trace s2 @ ys"
        "fst ` set ys \<subseteq> setup_ops" and c4: "core s4 = core ?s3" by (auto simp: logs_def)
      have fl: "s_started s4 \<and> \<not> r_admitted s4"
        using c4 c2 f1 assms(4) by (simp add: flags_def core_def)
      have tr: "s_trace s4 = s_trace s1 @ (Spawn, True) # ys" using ys c2 ok2 by simp
      show ?thesis
      proof (cases r4)
        case (Inl x)
        then have "r = Inl x" "t = s4" using assms(1) b sp ok1 ok2 un by (auto simp: admit_and_watch_def)
        then show ?thesis using fl tr ys t1
          by (intro blocked [of "s_trace s1" ys]) (auto simp: setup_ops_def)
      next
        case ok4: (Inr u4)
        with until_release_Inr [of n e pid ?s3 u4 s4] un obtain es where es: "s_trace s4 = s_trace s2 @ es"
          "admission es" by auto
        with ys have "ys = es" by simp
        obtain r5 s5 where rel: "call Release (e_release e) s4 = (r5, s5)" by (cases "call Release (e_release e) s4")
        note c5 = call_trace [OF rel]
        show ?thesis
        proof (cases r5)
          case (Inl x)
          then have rt: "r = Inl x" "t = s5" using assms(1) b sp ok1 ok2 un ok4 rel
            by (auto simp: admit_and_watch_def)
          have "(Release, b) \<notin> set ys" for b using ys(2) by (force simp: setup_ops_def)
          then show ?thesis using fl tr ys t1 rt c5 Inl es \<open>ys = es\<close>
            by (intro blocked [of "s_trace s1" "ys @ [(Release, False)]"]) (auto simp: flags_def core_def)
        next
          case ok5: (Inr u5)
          have w: "watch_loop n e (s5\<lparr>r_admitted := True\<rparr>) = (r, t)"
            using assms(1) b sp ok1 ok2 un ok4 rel ok5 by (auto simp: admit_and_watch_def)
          from keepsD [OF quiet_watch_loop w] obtain zs where "s_trace t = s_trace s5 @ zs"
            "fst ` set zs \<subseteq> run_ops" "flags t = flags (s5\<lparr>r_admitted := True\<rparr>)"
            by (auto simp: quiet_def logs_def run_ops_def)
          then show ?thesis using fl tr es c5 ok5 t1 \<open>ys = es\<close>
            by (intro released [of "s_trace s1" es zs]) (auto simp: flags_def core_def)
        qed
      qed
    qed
  qed
qed

subsection \<open>Cleanup\<close>

definition clean_ops :: "sup_op set" where "clean_ops = {Poll, Populated, Reap, CheckCgroups}"

definition cleans :: "'w sup \<Rightarrow> 'w sup \<Rightarrow> bool" where
  "cleans s t = ((s_started t, s_admitted t, r_failure t, r_admitted t) = (s_started s, s_admitted s, r_failure s, r_admitted s) \<and>
     s_lease t = s_lease s \<and> prefix (r_cleanup_errors s) (r_cleanup_errors t) \<and>
     (\<exists>es. s_trace t = s_trace s @ es \<and> fst ` set es \<subseteq> clean_ops))"

interpretation cleans: state_order cleans
proof
  fix s t u :: "'w sup" assume "cleans s t" "cleans t u"
  then show "cleans s u"
    unfolding cleans_def by (elim conjE exE) (auto intro: prefix_order.trans)
qed (simp add: cleans_def)

lemma cleans_call: "n \<in> clean_ops \<Longrightarrow> keeps cleans (call n f)"
  by (auto simp: keeps_def cleans_def call_def split: prod.splits)

lemma cleans_world: "keeps cleans (clock e)" "keeps cleans (pause e d)"
  by (auto simp: keeps_def cleans_def clock_def pause_def upd_def split: prod.splits)

lemma cleans_error: "keeps cleans (cleanup_error what m)"
  unfolding cleanup_error_def by (rule cleans.keeps_upd) (simp add: cleans_def)

lemma clean_ops_mem: "Poll \<in> clean_ops" "Populated \<in> clean_ops" "Reap \<in> clean_ops" "CheckCgroups \<in> clean_ops"
  by (simp_all add: clean_ops_def)

lemmas cleans_intros = cleans.keeps_intros cleans_call cleans_world cleans_error clean_ops_mem

lemma cleans_cleanup_try: "keeps cleans (cleanup_try e)"
proof -
  have up: "keeps cleans (upd (\<lambda>s. s\<lparr>r_worker_exit := f s, r_population_empty := p, r_reaped := q\<rparr>))"
    for f :: "'a sup \<Rightarrow> int option" and p q
    by (rule cleans.keeps_upd) (simp add: cleans_def)
  have "keeps cleans (cleanup_observe e)"
    unfolding cleanup_observe_def by (cases "e_reap e") (auto intro!: cleans_intros up)
  then show ?thesis unfolding cleanup_try_def by (auto intro!: cleans_intros)
qed

lemma cleans_cleanup_loop: "keeps cleans (cleanup_loop n e until)"
proof (induction n)
  case (Suc n)
  have "keeps cleans (if c then cleanup_error a b else bnd (clock e) (\<lambda>t'.
      sqn (pause e (d t')) (cleanup_loop n e until)))" for c a b d
    using Suc by (auto intro!: cleans_intros)
  then have "keeps cleans (if c then ret () else bnd (clock e) (\<lambda>t.
      if until \<le> t then cleanup_error a b else bnd (clock e) (\<lambda>t'.
      sqn (pause e (d t')) (cleanup_loop n e until))))" for c a b d
    by (auto intro!: cleans.keeps_bnd cleans.keeps_ret cleans_world)
  then show ?case by (auto intro!: cleans.keeps_bnd cleans_cleanup_try)
qed (simp only: cleanup_loop.simps cleans.keeps_lft)

text \<open>
  Without a worker nothing is done.  With one, the admission is cancelled and the group is
  killed exactly once; a kill that failed leaves a cleanup error.
\<close>

lemma cleanup_unstarted:
  "\<not> s_started s \<Longrightarrow> cleanup n e cs ad s = (Inr (), s\<lparr>r_population_empty := False\<rparr>)"
  by (simp add: cleanup_def bnd_def get_def upd_def)

lemma cleanup_started:
  assumes "s_started s" and "cleanup n e cs ad s = (r, t)"
  obtains (cancel_failed) "isl r" "s_trace t = s_trace s @ [(CancelAdmission, False)]"
  | (killed) b zs where "s_trace t = s_trace s @ (CancelAdmission, True) # (Kill, b) # zs"
      "fst ` set zs \<subseteq> clean_ops" "r_failure t = r_failure s" "r_admitted t = r_admitted s"
      "s_admitted t = s_admitted s" "\<not> b \<Longrightarrow> \<not> isl r \<Longrightarrow> r_cleanup_errors t \<noteq> []"
proof -
  obtain r1 s1 where c: "call CancelAdmission (e_cancel_admission e) s = (r1, s1)"
    by (cases "call CancelAdmission (e_cancel_admission e) s")
  note ct = call_trace [OF c]
  show ?thesis
  proof (cases r1)
    case (Inl x)
    then have "r = Inl x" "t = s1" using assms c by (auto simp: cleanup_def bnd_def get_def sqn_def)
    with ct Inl show ?thesis by (intro cancel_failed) auto
  next
    case (Inr u)
    define rest where "rest = bnd (clock e) (\<lambda>t. sqn (cleanup_loop n e
        (case ad of None \<Rightarrow> t + cs | Some d \<Rightarrow> min (t + cs) d))
        (handle (call CheckCgroups (e_check_cgroups e)) (\<lambda>x. cleanup_error ''postflight: '' (exn_str x))))"
    define hk where "hk = handle (call Kill (e_kill e)) (\<lambda>x. cleanup_error ''cgroup kill: '' (exn_str x))"
    have run: "sqn hk rest s1 = (r, t)"
      using assms c Inr by (simp add: cleanup_def bnd_def [of "get s_started"] get_def hk_def rest_def)
    obtain r2 s2 where k: "call Kill (e_kill e) s1 = (r2, s2)" by (cases "call Kill (e_kill e) s1")
    note kt = call_trace [OF k]
    obtain r3 s3 where h: "hk s1 = (r3, s3)" by (cases "hk s1")
    have h3: "s_trace s3 = s_trace s2 \<and> (r_failure s3, r_admitted s3, s_admitted s3) = (r_failure s2, r_admitted s2, s_admitted s2)
        \<and> (isl r2 \<longrightarrow> \<not> isl r3 \<longrightarrow> r_cleanup_errors s3 \<noteq> [])"
      using h k unfolding hk_def handle_def cleanup_error_def upd_def
      by (auto split: sum.splits if_splits)
    have "keeps cleans rest" unfolding rest_def
      by (auto intro!: cleans_intros cleans_cleanup_loop)
    then have "r3 = Inr v \<Longrightarrow> cleans s3 t" for v using run h by (auto dest: keepsD)
    moreover have "r3 = Inl v \<Longrightarrow> r = Inl v \<and> t = s3" for v using run h by auto
    moreover have "cleans s3 s3" by (rule cleans.R_refl)
    ultimately have s3t: "cleans s3 t" by (cases r3) auto
    then obtain zs where zs: "s_trace t = s_trace s3 @ zs" "fst ` set zs \<subseteq> clean_ops"
      and fr: "r_failure t = r_failure s3" "r_admitted t = r_admitted s3" "s_admitted t = s_admitted s3"
      and pe: "prefix (r_cleanup_errors s3) (r_cleanup_errors t)" by (auto simp: cleans_def)
    have "\<not> isl r \<Longrightarrow> \<not> isl r3" using run h by (cases r3) auto
    with h3 pe have "isl r2 \<Longrightarrow> \<not> isl r \<Longrightarrow> r_cleanup_errors t \<noteq> []" by auto
    with zs h3 kt ct Inr fr show ?thesis
      by (intro killed [of "\<not> isl r2" zs]) (auto simp: flags_def core_def)
  qed
qed

subsection \<open>The whole run\<close>

text \<open>A supervision either rejects its arguments, or runs the body and then the cleanup.\<close>

lemma supervised_body_cases:
  assumes "supervised_body n e s = (r, t)"
  obtains rb where "admit_and_watch n e s = (rb, t)" "r = rb"
      "r = Inr () \<or> (\<exists>x. r = Inl x \<and> \<not> caught x)"
  | x sb where "admit_and_watch n e s = (Inl x, sb)" "caught x" "r = Inr ()" "t = sb\<lparr>r_failure := Some (exn_str x)\<rparr>"
  using assms unfolding supervised_body_def
  by (cases "admit_and_watch n e s") (auto simp: handle_def upd_def split: sum.splits if_splits)

lemma supervise_cases:
  assumes "supervise n e cs ad (sup_start w l) = (r, t)" and "r \<noteq> Inl OutOfFuel"
  obtains (rejected) "isl r" "s_trace t = []"
  | (ran) w' rb sb rc where "supervised_body n e (sup_start w' l) = (rb, sb)"
      "cleanup n e cs ad sb = (rc, t)" "rb \<noteq> Inl OutOfFuel"
      "\<not> isl r \<Longrightarrow> rb = Inr () \<and> rc = Inr () \<and> r = Inr (report_of t)"
proof -
  define whole where "whole = try_finally (supervised_body n e) (cleanup n e cs ad)"
  have clk: "\<exists>w'. (case ad of None \<Rightarrow> ret () | Some d \<Rightarrow> bnd (clock e) (\<lambda>t. ensure (t < d) m)) (sup_start w l)
      = (rr, sup_start w' l)" if "rr = fst ((case ad of None \<Rightarrow> ret () | Some d \<Rightarrow> bnd (clock e) (\<lambda>t. ensure (t < d) m)) (sup_start w l))"
    for rr m
    using that by (cases ad) (auto simp: ret_def bnd_def clock_def ensure_def sup_start_def split: prod.splits)
  define r0 where "r0 = fst ((case ad of None \<Rightarrow> ret () | Some d \<Rightarrow>
      bnd (clock e) (\<lambda>t. ensure (t < d) ''supervisor outer deadline'')) (sup_start w l))"
  from clk [OF r0_def] obtain w' where c: "(case ad of None \<Rightarrow> ret () | Some d \<Rightarrow>
      bnd (clock e) (\<lambda>t. ensure (t < d) ''supervisor outer deadline'')) (sup_start w l) = (r0, sup_start w' l)" by blast
  show ?thesis
  proof (cases "0 < cs \<and> cs \<le> CLEANUP_SECONDS \<and> \<not> isl r0")
    case False
    then show ?thesis using assms(1) c
      by (intro rejected) (cases r0; auto simp: supervise_def sqn_def bnd_def ensure_def sup_start_def split: if_splits)+
  next
    case True
    then obtain u where "r0 = Inr u" by (cases r0) auto
    with True c assms(1) have run: "sqn whole (get report_of) (sup_start w' l) = (r, t)"
      by (simp add: supervise_def whole_def)
    obtain rb sb where b: "supervised_body n e (sup_start w' l) = (rb, sb)" by (cases "supervised_body n e (sup_start w' l)")
    obtain rc sc where cl: "cleanup n e cs ad sb = (rc, sc)" by (cases "cleanup n e cs ad sb")
    have "rb \<noteq> Inl OutOfFuel" using run b assms(2)
      by (auto simp: whole_def sqn_def bnd_def try_finally_def)
    moreover from this have "sc = t" and "\<not> isl r \<Longrightarrow> rb = Inr () \<and> rc = Inr () \<and> r = Inr (report_of t)"
      using run b cl by (auto simp: whole_def sqn_def bnd_def try_finally_def get_def split: sum.splits prod.splits if_splits)
    ultimately show ?thesis using b cl by (intro ran [of w' rb sb rc]) auto
  qed
qed

text \<open>
  The log of a run: nothing but pre-admission operations; or a spawned worker and the cleanup
  of its group; in between, at most one release, behind an admission.
\<close>

definition cleanup_log :: "(sup_op \<times> bool) list \<Rightarrow> bool" where
  "cleanup_log cl = (cl = [(CancelAdmission, False)] \<or>
     (\<exists>b zs. cl = (CancelAdmission, True) # (Kill, b) # zs \<and> fst ` set zs \<subseteq> clean_ops))"

definition released_log :: "(sup_op \<times> bool) list \<Rightarrow> bool" where
  "released_log ys = (fst ` set ys \<subseteq> setup_ops \<or>
     (\<exists>es b zs. ys = es @ (Release, b) # zs \<and> admission es \<and> fst ` set zs \<subseteq> run_ops))"

lemma supervised_log:
  assumes "supervise n e cs ad (sup_start w l) = (r, t)" and "r \<noteq> Inl OutOfFuel"
  obtains (unspawned) "(Spawn, True) \<notin> set (s_trace t)" "fst ` set (s_trace t) \<subseteq> insert Spawn pre_ops"
      "\<And>v. r = Inr v \<Longrightarrow> \<not> v_passed v"
  | (spawned) xs ys cl where "s_trace t = xs @ (Spawn, True) # ys @ cl" "fst ` set xs \<subseteq> pre_ops"
      "released_log ys" "cleanup_log cl" "\<And>v. r = Inr v \<Longrightarrow> v_failure v = None \<Longrightarrow> (Release, True) \<in> set ys"
      "\<And>v. r = Inr v \<Longrightarrow> v_cleanup_errors v = [] \<Longrightarrow> (Kill, True) \<in> set cl"
      "\<not> isl r \<Longrightarrow> (CancelAdmission, False) \<notin> set cl"
  using assms
proof (cases rule: supervise_cases)
  case rejected
  then show ?thesis by (intro unspawned) auto
next
  case (ran w' rb sb rc)
  let ?s0 = "sup_start w' l"
  from ran(1) obtain ra sa where a: "admit_and_watch n e ?s0 = (ra, sa)"
    and tr: "s_trace sb = s_trace sa" "s_started sb = s_started sa" "s_admitted sb = s_admitted sa"
    and fl: "rb = Inr () \<Longrightarrow> r_failure sb = None \<Longrightarrow> ra = Inr ()"
    by (cases rule: supervised_body_cases) auto
  have s0: "s_trace ?s0 = []" "\<not> s_started ?s0" "\<not> r_admitted ?s0" "\<not> s_admitted ?s0"
    by (simp_all add: sup_start_def)
  have rep: "\<And>v. r = Inr v \<Longrightarrow> rb = Inr () \<and> rc = Inr () \<and> v = report_of t" using ran(4) by auto
  have spawned_case: ?thesis
    if st: "s_started sa" and sp: "s_trace sa = xs @ (Spawn, True) # ys" "fst ` set xs \<subseteq> pre_ops"
      "released_log ys" and rel: "ra = Inr () \<Longrightarrow> (Release, True) \<in> set ys" for xs ys
  proof -
    from st tr have "s_started sb" by simp
    from this ran(2) show ?thesis
    proof (cases rule: cleanup_started)
      case cancel_failed
      then have "isl r" using rep by (cases r) auto
      with cancel_failed show ?thesis using sp tr rep
        by (intro spawned [of xs ys "[(CancelAdmission, False)]"]) (auto simp: cleanup_log_def)
    next
      case (killed b zs)
      have "\<And>v. r = Inr v \<Longrightarrow> v_failure v = None \<Longrightarrow> (Release, True) \<in> set ys"
        using rep fl rel killed(3) by (fastforce simp: report_of_def)
      moreover have "\<And>v. r = Inr v \<Longrightarrow> v_cleanup_errors v = [] \<Longrightarrow> b"
        using rep killed(6) by (fastforce simp: report_of_def)
      moreover have "(CancelAdmission, False) \<notin> set zs" using killed(2) by (auto simp: clean_ops_def)
      ultimately show ?thesis using sp tr killed(1,2)
        by (intro spawned [of xs ys "(CancelAdmission, True) # (Kill, b) # zs"]) (auto simp: cleanup_log_def)
    qed
  qed
  from a s0(1-3) show ?thesis
  proof (cases rule: admit_and_watch_cases)
    case unspawned
    with tr s0(4) ran(2) have "s_trace t = s_trace sa" "\<not> s_admitted t" by (auto simp: cleanup_unstarted)
    with unspawned rep show ?thesis by (intro that(1)) (auto simp: report_of_def)
  next
    case (blocked xs ys)
    show ?thesis
    proof (cases "Release \<in> fst ` set ys")
      case True
      then obtain b es where "ys = es @ [(Release, b)]" "admission es" using blocked(8) by force
      then have "released_log ys" unfolding released_log_def
        by (intro disjI2 exI [of _ es] exI [of _ b] exI [of _ "[]"]) simp
      from blocked(2,4,5) this show ?thesis
        by (rule spawned_case) (use blocked(1) in simp)
    next
      case False
      have "fst ` set ys \<subseteq> setup_ops" using blocked(6) False by (simp only: subset_insert not_False_eq_True)
      then have "released_log ys" unfolding released_log_def ..
      from blocked(2,4,5) this show ?thesis
        by (rule spawned_case) (use blocked(1) in simp)
    qed
  next
    case (released xs es ys)
    then have "released_log (es @ (Release, True) # ys)" by (auto simp: released_log_def)
    with released show ?thesis by (intro spawned_case) auto
  qed
qed

subsection \<open>A concrete environment\<close>

text \<open>A world whose calls all succeed and whose clock stands still at 0; the worker exits at once.\<close>

definition demo_env :: "nat sup_env" where
  "demo_env = \<lparr> e_clock = (\<lambda>w. (0, w)), e_is_fd = False, e_read = (\<lambda>w. (Inr None, w)),
     e_acknowledge = (\<lambda>_ w. (Inr (), w)), e_interrupted = (\<lambda>w. (False, w)), e_pause = (\<lambda>_ w. w),
     e_before_admission = (\<lambda>w. (Inr (), w)), e_populated = (\<lambda>w. (Inr False, w)),
     e_spawn = (\<lambda>w. (Inr 7, w)), e_register_worker = None, e_attach = (\<lambda>_ w. (Inr (), w)),
     e_bind_worker = (\<lambda>_ w. (Inr (), w)), e_admit_setup = (\<lambda>w. (Inr (), w)),
     e_ready = (\<lambda>w. (Inr True, w)), e_check_cgroups = (\<lambda>w. (Inr (), w)),
     e_guard_check = (\<lambda>w. (Inr (), w)), e_pin = None, e_release = (\<lambda>w. (Inr (), w)),
     e_poll = (\<lambda>w. (Inr (Some 0), w)), e_cancel_admission = (\<lambda>w. (Inr (), w)),
     e_kill = (\<lambda>w. (Inr (), w)), e_reap = None \<rparr>"

definition demo_live :: lease where
  "demo_live = demo_lease\<lparr>l_sequence := 0\<rparr>"

lemma demo_live_drain:
  "s_lease s = demo_live \<Longrightarrow> drain demo_env s =
     (Inr False, s\<lparr>s_world := s_world s, s_lease := demo_live, s_trace := s_trace s @ [(Drain, True)]\<rparr>)"
proof -
  assume l: "s_lease s = demo_live"
  have c: "lease_check demo_live (PFloat (Fin 0)) True = Inr ()"
    by (simp add: lease_check_Inr demo_live_def demo_lease_def)
  show ?thesis
    by (simp add: drain_def clock_def bnd_def drain_poll_def drain_lease_def demo_env_def l c Let_def bindE_def)
qed

definition demo_run :: "supervision res \<times> nat sup" where
  "demo_run = supervise 3 demo_env 20 None (sup_start 0 demo_live)"

lemma demo_call: "call n f s = (fst (f (s_world s)),
    s\<lparr>s_world := snd (f (s_world s)), s_trace := s_trace s @ [(n, \<not> isl (fst (f (s_world s))))]\<rparr>)"
  by (simp add: call_def split: prod.split)

lemma demo_run_value:
  "s_trace (snd demo_run) =
    [(Drain, True), (BeforeAdmission, True), (Populated, True), (Spawn, True), (Attach, True), (BindWorker, True),
     (AdmitSetup, True), (Ready, True), (GuardCheck, True), (Drain, True), (Release, True), (Drain, True),
     (CheckCgroups, True), (Poll, True), (Populated, True), (Drain, True), (CancelAdmission, True), (Kill, True),
     (Poll, True), (Populated, True), (CheckCgroups, True)] \<and>
   fst demo_run = Inr (report_of (snd demo_run)) \<and> v_passed (report_of (snd demo_run))"
proof -
  have env: "e_clock demo_env = (\<lambda>w. (0, w))" "e_interrupted demo_env = (\<lambda>w. (False, w))"
    "e_before_admission demo_env = (\<lambda>w. (Inr (), w))" "e_populated demo_env = (\<lambda>w. (Inr False, w))"
    "e_spawn demo_env = (\<lambda>w. (Inr 7, w))" "e_register_worker demo_env = None" "e_attach demo_env = (\<lambda>_ w. (Inr (), w))"
    "e_bind_worker demo_env = (\<lambda>_ w. (Inr (), w))" "e_admit_setup demo_env = (\<lambda>w. (Inr (), w))"
    "e_ready demo_env = (\<lambda>w. (Inr True, w))" "e_check_cgroups demo_env = (\<lambda>w. (Inr (), w))"
    "e_guard_check demo_env = (\<lambda>w. (Inr (), w))" "e_pin demo_env = None" "e_release demo_env = (\<lambda>w. (Inr (), w))"
    "e_poll demo_env = (\<lambda>w. (Inr (Some 0), w))" "e_cancel_admission demo_env = (\<lambda>w. (Inr (), w))"
    "e_kill demo_env = (\<lambda>w. (Inr (), w))" "e_reap demo_env = None"
    by (simp_all add: demo_env_def)
  show ?thesis
    by (simp add: demo_run_def supervise_def sup_start_def CLEANUP_SECONDS_def numeral_3_eq_3 supervised_body_def
        admit_and_watch_def before_spawn_def until_release_def require_not_interrupted_def interrupted_def
        cleanup_def cleanup_try_def cleanup_observe_def demo_live_drain demo_call env bnd_def sqn_def handle_def
        try_finally_def ensure_def ret_def get_def upd_def clock_def report_of_def)
qed


subsection \<open>The properties\<close>

lemma split_at_unique:
  assumes "xs @ a # ys = us @ b # vs" and "P a" and "P b" and "\<And>x. x \<in> set us \<Longrightarrow> \<not> P x" and "\<And>x. x \<in> set vs \<Longrightarrow> \<not> P x"
  shows "xs = us \<and> a = b \<and> ys = vs"
  using assms
  by (auto simp: append_eq_append_conv2 append_eq_Cons_conv Cons_eq_append_conv)

lemma ops_not_release:
  "Release \<notin> setup_ops" "Release \<notin> pre_ops" "Release \<notin> run_ops" "Release \<notin> clean_ops"
  "Kill \<notin> setup_ops" "Kill \<notin> pre_ops" "Kill \<notin> run_ops" "Kill \<notin> clean_ops"
  "CancelAdmission \<notin> setup_ops" "CancelAdmission \<notin> pre_ops" "CancelAdmission \<notin> run_ops" "CancelAdmission \<notin> clean_ops"
  by (simp_all add: setup_ops_def pre_ops_def run_ops_def clean_ops_def)

lemma not_in_ops: "fst ` set xs \<subseteq> A \<Longrightarrow> n \<notin> A \<Longrightarrow> (n, b) \<notin> set xs"
  by force

lemma admission_ops: "admission es \<Longrightarrow> fst ` set es \<subseteq> setup_ops"
  unfolding admission_def by (elim exE conjE) (simp, simp add: setup_ops_def)

lemma cleanup_log_ops: "cleanup_log cl \<Longrightarrow> fst ` set cl \<subseteq> insert CancelAdmission (insert Kill clean_ops)"
  unfolding cleanup_log_def by (elim disjE exE conjE) (simp_all, blast)

lemma released_log_ops: "released_log ys \<Longrightarrow> fst ` set ys \<subseteq> insert Release (setup_ops \<union> run_ops)"
  unfolding released_log_def by (elim disjE exE conjE) (blast, drule admission_ops, simp, blast)

text \<open>
  C8: The blocked worker is released at most once, and only behind a full admission: in the
  log of any supervision that finished, a release (whether or not it succeeded) comes after
  the spawn, a successful attach, binding, setup admission and domain check, and directly
  after a lease drain that found the lease alive; no second release follows.
\<close>

theorem supervise_release_gate:
  assumes "supervise n e cs ad (sup_start w l) = (r, t)" and "r \<noteq> Inl OutOfFuel"
    and "s_trace t = xs @ (Release, b) # ys"
  shows "(\<exists>pre es. xs = pre @ (Spawn, True) # es \<and> admission es) \<and> Release \<notin> fst ` set ys"
  using assms(1,2)
proof (cases rule: supervised_log)
  case unspawned
  have "Release \<in> fst ` set (s_trace t)" using assms(3) by force
  with unspawned(2) show ?thesis by (auto simp: pre_ops_def)
next
  case (spawned us vs cl)
  let ?P = "\<lambda>x :: sup_op \<times> bool. fst x = Release"
  have no: "\<And>x. x \<in> set us \<Longrightarrow> \<not> ?P x" "\<And>x. x \<in> set cl \<Longrightarrow> \<not> ?P x"
    using spawned(2) cleanup_log_ops [OF spawned(4)] by (auto simp: ops_not_release dest!: subsetD)
  show ?thesis
  proof (cases "fst ` set vs \<subseteq> setup_ops")
    case True
    then have "\<And>x. x \<in> set vs \<Longrightarrow> \<not> ?P x" by (auto simp: ops_not_release dest!: subsetD)
    with no have "(Release, b) \<notin> set (s_trace t)" unfolding spawned(1) by fastforce
    with assms(3) show ?thesis by simp
  next
    case False
    with spawned(3) obtain es c zs where vs: "vs = es @ (Release, c) # zs" and adm: "admission es"
      and zs: "fst ` set zs \<subseteq> run_ops" by (auto simp: released_log_def)
    have eq: "xs @ (Release, b) # ys = (us @ (Spawn, True) # es) @ (Release, c) # (zs @ cl)"
      using assms(3) spawned(1) vs by simp
    have l: "\<And>x. x \<in> set (us @ (Spawn, True) # es) \<Longrightarrow> \<not> ?P x"
      using no admission_ops [OF adm] by (auto simp: ops_not_release dest!: subsetD)
    have r: "\<And>x. x \<in> set (zs @ cl) \<Longrightarrow> \<not> ?P x"
      using no zs by (auto simp: ops_not_release dest!: subsetD)
    have "xs = us @ (Spawn, True) # es \<and> (Release, b) = (Release, c) \<and> ys = zs @ cl"
      by (rule split_at_unique [OF eq, of ?P, OF _ _ l r]) (simp_all only: fst_conv)
    moreover have "Release \<notin> fst ` set (zs @ cl)" using r by (metis imageE)
    ultimately show ?thesis using adm by blast
  qed
qed

lemma supervise_release_gate_witness:
  "\<exists>pre es. [(Drain, True), (BeforeAdmission, True), (Populated, True), (Spawn, True), (Attach, True),
     (BindWorker, True), (AdmitSetup, True), (Ready, True), (GuardCheck, True), (Drain, True)]
     = pre @ (Spawn, True) # es \<and> admission es"
proof -
  obtain r t where run: "supervise 3 demo_env 20 None (sup_start 0 demo_live) = (r, t)"
    by (cases "supervise 3 demo_env 20 None (sup_start 0 demo_live)")
  with demo_run_value have "r \<noteq> Inl OutOfFuel"
    "s_trace t = [(Drain, True), (BeforeAdmission, True), (Populated, True), (Spawn, True), (Attach, True),
       (BindWorker, True), (AdmitSetup, True), (Ready, True), (GuardCheck, True), (Drain, True)] @ (Release, True) #
      [(Drain, True), (CheckCgroups, True), (Poll, True), (Populated, True), (Drain, True), (CancelAdmission, True),
       (Kill, True), (Poll, True), (Populated, True), (CheckCgroups, True)]"
    unfolding demo_run_def by simp_all
  from supervise_release_gate [OF run this] show ?thesis by blast
qed



text \<open>
  C31: A report that claims success is earned: the worker left with status 0, its cgroup was
  seen empty and its descendants reaped, no cleanup step failed, the group was killed
  successfully; and unless the body recorded a failure with an empty message, the worker was
  really released.
\<close>

theorem supervise_passed:
  assumes "supervise n e cs ad (sup_start w l) = (Inr v, t)" and "v_passed v"
  shows "v_worker_exit v = Some 0 \<and> v_population_empty v \<and> v_reaped v \<and> v_cleanup_errors v = [] \<and>
    (Spawn, True) \<in> set (s_trace t) \<and> (Kill, True) \<in> set (s_trace t) \<and>
    (v_failure v = None \<and> (Release, True) \<in> set (s_trace t) \<or> v_failure v = Some [])"
proof -
  have ok: "Inr v \<noteq> Inl OutOfFuel" by simp
  from supervise_cases [OF assms(1) ok] have "v = report_of t" by (cases rule: supervise_cases [OF assms(1) ok]) auto
  with assms(2) have f: "v_worker_exit v = Some 0" "v_population_empty v" "v_reaped v" "v_cleanup_errors v = []"
      "v_failure v = None \<or> v_failure v = Some []"
    by (auto simp: report_of_def split: option.splits)
  from assms(1) ok show ?thesis
  proof (cases rule: supervised_log)
    case unspawned
    with assms(2) show ?thesis by simp
  next
    case (spawned xs ys cl)
    with f show ?thesis by auto
  qed
qed

lemma supervise_passed_witness:
  "\<exists>v. fst demo_run = Inr v \<and> v_worker_exit v = Some 0 \<and> v_population_empty v \<and> v_reaped v"
proof -
  have "supervise 3 demo_env 20 None (sup_start 0 demo_live) = (Inr (report_of (snd demo_run)), snd demo_run)"
    using demo_run_value by (simp add: demo_run_def prod_eq_iff)
  from supervise_passed [OF this] demo_run_value show ?thesis by blast
qed

end
