(* ===== verification/SuperviseTime.thy ===== *)
theory SuperviseTime
  imports SuperviseProps
begin

text \<open>
  The supervisor always returns.  What it relies on is documented behaviour of its
  environment: the monotonic clock never goes backwards, \<open>time.sleep(d)\<close> takes at least
  \<open>d\<close> seconds, and each injected operation returns or raises.  Every round of its three
  loops then either ends or brings the lease or cleanup deadline nearer.
\<close>

subsection \<open>Time passing in the environment\<close>

text \<open>\<open>tick\<close> reads the real time of a world.  \<open>passing\<close>: the operation returns, later or now.\<close>

definition passing :: "('w \<Rightarrow> rat) \<Rightarrow> ('w \<Rightarrow> 'a res \<times> 'w) \<Rightarrow> bool" where
  "passing tick f = (\<forall>w. fst (f w) \<noteq> Inl OutOfFuel \<and> tick w \<le> tick (snd (f w)))"

definition real_clock :: "('w \<Rightarrow> rat) \<Rightarrow> 'w sup_env \<Rightarrow> bool" where
  "real_clock tick e =
     ((\<forall>w. tick w \<le> fst (e_clock e w) \<and> fst (e_clock e w) \<le> tick (snd (e_clock e w))) \<and>
      (\<forall>w. tick w \<le> tick (snd (e_interrupted e w))) \<and>
      (\<forall>d w. 0 \<le> d \<longrightarrow> tick w + d \<le> tick (e_pause e d w)))"

definition optional_passing :: "('w \<Rightarrow> rat) \<Rightarrow> (int \<Rightarrow> 'w \<Rightarrow> 'a res \<times> 'w) option \<Rightarrow> bool" where
  "optional_passing tick f = (case f of None \<Rightarrow> True | Some g \<Rightarrow> \<forall>pid. passing tick (g pid))"

definition real_time :: "('w \<Rightarrow> rat) \<Rightarrow> 'w sup_env \<Rightarrow> bool" where
  "real_time tick e =
     (real_clock tick e \<and> passing tick (e_read e) \<and> (\<forall>n. passing tick (e_acknowledge e n)) \<and>
      passing tick (e_before_admission e) \<and> passing tick (e_populated e) \<and> passing tick (e_spawn e) \<and>
      optional_passing tick (e_register_worker e) \<and> (\<forall>pid. passing tick (e_attach e pid)) \<and>
      (\<forall>pid. passing tick (e_bind_worker e pid)) \<and> passing tick (e_admit_setup e) \<and> passing tick (e_ready e) \<and>
      passing tick (e_check_cgroups e) \<and> passing tick (e_guard_check e) \<and> optional_passing tick (e_pin e) \<and>
      passing tick (e_release e) \<and> passing tick (e_poll e) \<and> passing tick (e_cancel_admission e) \<and>
      passing tick (e_kill e) \<and> (case e_reap e of None \<Rightarrow> True | Some f \<Rightarrow> passing tick f))"

subsection \<open>Returning computations\<close>

definition onward :: "('w \<Rightarrow> rat) \<Rightarrow> 'w sup \<Rightarrow> 'w sup \<Rightarrow> bool" where
  "onward tick s t = (tick (s_world s) \<le> tick (s_world t) \<and> l_deadline (s_lease t) = l_deadline (s_lease s))"

definition returns :: "('w \<Rightarrow> rat) \<Rightarrow> ('w sup, 'a) act \<Rightarrow> 'w sup \<Rightarrow> bool" where
  "returns tick m s = (fst (m s) \<noteq> Inl OutOfFuel \<and> onward tick s (snd (m s)))"

lemma onward_refl [simp]: "onward tick s s"
  by (simp add: onward_def)

lemma onward_trans: "onward tick s t \<Longrightarrow> onward tick t u \<Longrightarrow> onward tick s u"
  by (auto simp: onward_def)

lemma returns_prims [simp, intro]:
  "returns tick (ret x) s" "returns tick (get f) s" "returns tick (ensure c m) s"
  by (simp_all add: returns_def ret_def get_def ensure_def)

lemma returns_upd: "onward tick s (f s) \<Longrightarrow> returns tick (upd f) s"
  by (simp add: returns_def upd_def)

lemma returns_bnd:
  assumes "returns tick m s" and "\<And>x t. m s = (Inr x, t) \<Longrightarrow> onward tick s t \<Longrightarrow> returns tick (f x) t"
  shows "returns tick (bnd m f) s"
proof -
  obtain r t where m: "m s = (r, t)" by (cases "m s")
  with assms show ?thesis
    by (cases r) (auto simp: returns_def intro: onward_trans)
qed

lemma returns_sqn:
  assumes "returns tick m s" and "\<And>x t. m s = (Inr x, t) \<Longrightarrow> onward tick s t \<Longrightarrow> returns tick k t"
  shows "returns tick (sqn m k) s"
  unfolding sqn_def using assms by (intro returns_bnd) auto

lemma returns_handle:
  assumes "returns tick m s" and "\<And>e t. onward tick s t \<Longrightarrow> returns tick (h e) t"
  shows "returns tick (handle m h) s"
proof -
  obtain r t where m: "m s = (r, t)" by (cases "m s")
  have "onward tick s t" using assms(1) m by (simp add: returns_def)
  with assms m show ?thesis
    by (cases r) (auto simp: returns_def handle_def intro: onward_trans)
qed

lemma returns_try_finally:
  assumes "returns tick m s" and "\<And>t. onward tick s t \<Longrightarrow> returns tick k t"
  shows "returns tick (try_finally m k) s"
proof -
  obtain r t where m: "m s = (r, t)" by (cases "m s")
  obtain q u where k: "k t = (q, u)" by (cases "k t")
  have st: "onward tick s t" using assms(1) m by (simp add: returns_def)
  then have "returns tick k t" by (rule assms(2))
  with k have "q \<noteq> Inl OutOfFuel" "onward tick s u" using st by (auto simp: returns_def intro: onward_trans)
  with assms(1) m k st show ?thesis
    by (cases q) (auto simp: returns_def try_finally_def)
qed

lemma returns_call: "passing tick f \<Longrightarrow> returns tick (call n f) s"
  by (auto simp: returns_def call_def passing_def onward_def split: prod.splits) (metis fst_conv snd_conv)+

lemma returns_optional: "optional_passing tick f \<Longrightarrow> returns tick (case f of None \<Rightarrow> ret () | Some g \<Rightarrow> call n (g pid)) s"
  by (auto simp: optional_passing_def returns_call split: option.splits)

lemma onward_fields [simp]:
  "onward tick s (s\<lparr>r_worker_exit := c\<rparr>)" "onward tick s (s\<lparr>s_admitted := b\<rparr>)" "onward tick s (s\<lparr>s_started := b\<rparr>)"
  "onward tick s (s\<lparr>r_admitted := b\<rparr>)" "onward tick s (s\<lparr>r_failure := x\<rparr>)" "onward tick s (s\<lparr>r_cleanup_errors := es\<rparr>)"
  "onward tick s (s\<lparr>r_worker_exit := c, r_population_empty := p, r_reaped := q\<rparr>)" "onward tick s (s\<lparr>r_population_empty := p\<rparr>)"
  by (simp_all add: onward_def)

lemma real_clockD:
  assumes "real_clock tick e"
  shows "e_clock e w = (t, w') \<Longrightarrow> tick w \<le> t \<and> t \<le> tick w'"
    and "e_interrupted e w = (b, w') \<Longrightarrow> tick w \<le> tick w'"
    and "0 \<le> d \<Longrightarrow> tick w + d \<le> tick (e_pause e d w)"
  using assms unfolding real_clock_def by (metis fst_conv snd_conv)+

lemma clock_run:
  assumes "real_clock tick e" and "clock e s = (r, s')"
  shows "\<exists>t. r = Inr t \<and> tick (s_world s) \<le> t \<and> t \<le> tick (s_world s') \<and> s_lease s' = s_lease s"
proof -
  obtain t w' where c: "e_clock e (s_world s) = (t, w')" by (cases "e_clock e (s_world s)")
  with assms(2) have "r = Inr t" "s' = s\<lparr>s_world := w'\<rparr>" by (simp_all add: clock_def)
  with real_clockD(1) [OF assms(1) c] show ?thesis by simp
qed

lemma returns_clock: "real_clock tick e \<Longrightarrow> returns tick (clock e) s"
  using clock_run [of tick e s "fst (clock e s)" "snd (clock e s)"] by (auto simp: returns_def onward_def)

lemma returns_interrupted:
  assumes "real_clock tick e"
  shows "returns tick (require_not_interrupted e m) s"
proof -
  obtain b w' where i: "e_interrupted e (s_world s) = (b, w')" by (cases "e_interrupted e (s_world s)")
  with real_clockD(2) [OF assms i] have "returns tick (interrupted e) s"
    by (simp add: returns_def interrupted_def onward_def)
  then show ?thesis unfolding require_not_interrupted_def by (intro returns_bnd returns_prims)
qed

lemma pause_run:
  assumes "real_clock tick e" and "0 \<le> d" and "pause e d s = (r, t)"
  shows "r = Inr () \<and> tick (s_world s) + d \<le> tick (s_world t) \<and> s_lease t = s_lease s"
  using real_clockD(3) [OF assms(1,2), of "s_world s"] assms(3) by (auto simp: pause_def upd_eq)

lemma returns_pause: "real_clock tick e \<Longrightarrow> 0 \<le> d \<Longrightarrow> returns tick (pause e d) s"
  using pause_run [of tick e d s "fst (pause e d s)" "snd (pause e d s)"] by (auto simp: returns_def onward_def)

text \<open>A poll of the lease returns, keeps the deadline, and succeeds only before it.\<close>

lemma lease_check_fuel [simp]: "lease_check l now rs \<noteq> Inl OutOfFuel"
  by (auto simp: lease_check_def require_def split: option.splits)

lemma lease_message_fuel: "lease_message l v \<noteq> Inl OutOfFuel"
  by (auto simp: lease_message_def require_def check_fields_def bindE_Inl split: if_splits)

lemma lease_feed_fuel: "snd (lease_feed l raw now) \<noteq> Inl OutOfFuel"
  using decode_fuel lease_message_fuel
  by (auto simp: lease_feed_def lease_accept_def Let_def bindE_Inl split: sum.splits option.splits prod.splits)

lemma drain_lease_fuel: "snd (drain_lease fd raw l now rs) \<noteq> Inl OutOfFuel"
  using lease_feed_fuel by (auto simp: drain_lease_def Let_def bindE_Inl split: option.splits)

lemma drain_lease_deadline: "l_deadline (fst (drain_lease fd raw l now rs)) = l_deadline l"
proof -
  obtain l' out where "drain_lease fd raw l now rs = (l', out)" by (cases "drain_lease fd raw l now rs")
  note d = this
  from lease_step_later [OF lease_step.drain [OF d]] d show ?thesis
    by (simp add: lease_later_def lease_binding_def)
qed

text \<open>The laws of one environment.\<close>

lemma real_timeD:
  assumes "real_time tick e"
  shows "real_clock tick e" "passing tick (e_read e)" "passing tick (e_acknowledge e n)" "passing tick (e_before_admission e)"
    "passing tick (e_populated e)" "passing tick (e_spawn e)" "optional_passing tick (e_register_worker e)"
    "passing tick (e_attach e pid)" "passing tick (e_bind_worker e pid)" "passing tick (e_admit_setup e)"
    "passing tick (e_ready e)" "passing tick (e_check_cgroups e)" "passing tick (e_guard_check e)"
    "optional_passing tick (e_pin e)" "passing tick (e_release e)" "passing tick (e_poll e)"
    "passing tick (e_cancel_admission e)" "passing tick (e_kill e)" "e_reap e = Some f \<Longrightarrow> passing tick f"
  using assms by (auto simp: real_time_def)

lemma passingD: "passing tick f \<Longrightarrow> f w = (r, w') \<Longrightarrow> r \<noteq> Inl OutOfFuel \<and> tick w \<le> tick w'"
  unfolding passing_def by (metis fst_conv snd_conv)

lemma drain_poll_returns:
  assumes "real_time tick e"
  shows "returns tick (drain_poll e t) s"
proof -
  obtain obs w1 where r: "e_read e (s_world s) = (obs, w1)" by (cases "e_read e (s_world s)")
  from passingD [OF real_timeD(2) [OF assms] r] have w1: "obs \<noteq> Inl OutOfFuel" "tick (s_world s) \<le> tick w1" by simp_all
  show ?thesis
  proof (cases obs)
    case (Inl x)
    with r w1 show ?thesis by (auto simp: returns_def drain_poll_def onward_def)
  next
    case (Inr raw)
    obtain l' out where d: "drain_lease (e_is_fd e) raw (s_lease s) (PFloat (Fin t)) True = (l', out)"
      by (cases "drain_lease (e_is_fd e) raw (s_lease s) (PFloat (Fin t)) True")
    have l': "l_deadline l' = l_deadline (s_lease s)" "out \<noteq> Inl OutOfFuel"
      using drain_lease_deadline [of "e_is_fd e" raw "s_lease s" "PFloat (Fin t)" True]
        drain_lease_fuel [of "e_is_fd e" raw "s_lease s" "PFloat (Fin t)" True] d by simp_all
    note start = r w1 Inr d l'
    show ?thesis
    proof (cases out)
      case (Inl y)
      with start show ?thesis by (auto simp: returns_def drain_poll_def onward_def)
    next
      case out: (Inr p)
      obtain renewed ack where p: "p = (renewed, ack)" by (cases p)
      show ?thesis
      proof (cases ack)
        case None
        with start out p show ?thesis by (auto simp: returns_def drain_poll_def onward_def)
      next
        case (Some n)
        obtain q w2 where q: "e_acknowledge e n w1 = (q, w2)" by (cases "e_acknowledge e n w1")
        from passingD [OF real_timeD(3) [OF assms] q] have "q \<noteq> Inl OutOfFuel" "tick w1 \<le> tick w2" by simp_all
        with start out p Some q show ?thesis
          by (cases q) (auto simp: returns_def drain_poll_def onward_def)
      qed
    qed
  qed
qed

lemma drain_returns:
  assumes "real_time tick e"
  shows "returns tick (drain e) s"
proof -
  have "returns tick (\<lambda>s. let (r, s') = drain_poll e t s in (r, s'\<lparr>s_trace := s_trace s' @ [(Drain, \<not> isl r)]\<rparr>)) s" for t s
    using drain_poll_returns [OF assms, of t s] by (auto simp: returns_def onward_def split: prod.splits)
  then show ?thesis unfolding drain_def by (intro returns_bnd returns_clock real_timeD(1) [OF assms])
qed

text \<open>A poll that succeeds read a clock before the deadline.\<close>

lemma drain_before_deadline:
  assumes "real_time tick e" and "drain e s = (Inr x, t)"
  shows "tick (s_world s) < l_deadline (s_lease s)"
proof -
  from assms(2) obtain now s1 where c: "clock e s = (Inr now, s1)"
    and p: "(let (r, s') = drain_poll e now s1 in (r, s'\<lparr>s_trace := s_trace s' @ [(Drain, \<not> isl r)]\<rparr>)) = (Inr x, t)"
    by (auto simp: drain_def bnd_Inr)
  then obtain t' where d: "drain_poll e now s1 = (Inr x, t')"
    by (cases "drain_poll e now s1") auto
  from clock_run [OF real_timeD(1) [OF assms(1)] c] have s1: "tick (s_world s) \<le> now" "s_lease s1 = s_lease s" by auto
  from d obtain is_fd raw l' out where "drain_lease is_fd raw (s_lease s1) (PFloat (Fin now)) True = (l', Inr out)"
    by (auto simp: drain_poll_def Let_def split: prod.splits sum.splits option.splits)
  then have "lease_check l' (PFloat (Fin now)) True = Inr ()" "l_deadline l' = l_deadline (s_lease s1)"
    using drain_lease_check drain_lease_deadline by (blast, metis fst_conv)
  with s1 show ?thesis by (simp add: lease_check_Inr)
qed

lemmas returns_intros = returns_prims returns_upd returns_bnd returns_sqn returns_handle returns_try_finally returns_call

subsection \<open>The loops\<close>

text \<open>The real time left until the lease ends.\<close>

definition time_left :: "('w \<Rightarrow> rat) \<Rightarrow> 'w sup \<Rightarrow> rat" where
  "time_left tick s = l_deadline (s_lease s) - tick (s_world s)"

lemma time_left_onward: "onward tick s t \<Longrightarrow> time_left tick t \<le> time_left tick s"
  by (simp add: time_left_def onward_def)

lemma drain_time_left: "real_time tick e \<Longrightarrow> drain e s = (Inr x, t) \<Longrightarrow> 0 < time_left tick s"
  using drain_before_deadline by (simp add: time_left_def)

text \<open>A round goes on only with time left, and its pause takes some of it.\<close>

lemma returns_if: "(c \<Longrightarrow> returns tick a s) \<Longrightarrow> (\<not> c \<Longrightarrow> returns tick b s) \<Longrightarrow> returns tick (if c then a else b) s"
  by simp

lemma returns_drain_then:
  assumes "real_time tick e" and "\<And>t. 0 < time_left tick s \<Longrightarrow> onward tick s t \<Longrightarrow> returns tick k t"
  shows "returns tick (sqn (drain e) k) s"
  by (intro returns_sqn drain_returns assms) (auto intro: assms(2) dest: drain_time_left [OF assms(1)])

lemma returns_pause_then:
  assumes "real_time tick e" and "0 \<le> d"
    and "\<And>t. tick (s_world s) + d \<le> tick (s_world t) \<Longrightarrow> s_lease t = s_lease s \<Longrightarrow> returns tick k t"
  shows "returns tick (sqn (pause e d) k) s"
  using assms pause_run [OF real_timeD(1) [OF assms(1)] assms(2)]
  by (intro returns_sqn returns_pause real_timeD(1)) blast+

lemma setup_round:
  fixes s :: "'w sup"
  assumes "real_time tick e"
    and "\<And>t. 0 < time_left tick s \<Longrightarrow> time_left tick t \<le> time_left tick s - 1 / 100 \<Longrightarrow> returns tick (setup_loop n e) t"
  shows "returns tick (setup_loop (Suc n) e) s"
  unfolding setup_loop.simps(2)
proof (intro returns_bnd returns_if returns_prims returns_sqn [OF returns_interrupted] returns_call real_timeD [OF assms(1)]
    returns_drain_then [OF assms(1)] returns_sqn [OF returns_call] returns_pause_then [OF assms(1)])
  fix ready xa xc and t ta tb tc td :: "'w sup"
  assume o: "onward tick s t" "onward tick t ta" "0 < time_left tick ta" "onward tick ta tb" "onward tick tb tc"
    and p: "tick (s_world tc) + 1 / 100 \<le> tick (s_world td)" "s_lease td = s_lease tc"
  from o have "time_left tick ta \<le> time_left tick s" "time_left tick tc \<le> time_left tick s"
    by (blast intro: time_left_onward onward_trans)+
  with o p show "returns tick (setup_loop n e) td"
    by (intro assms(2)) (simp_all add: time_left_def)
qed simp_all

lemma of_nat_Suc_part: "of_nat (Suc k) / d = of_nat k / d + 1 / (d :: rat)"
  by (simp add: add_divide_distrib)

lemma setup_returns:
  assumes "real_time tick e"
  shows "time_left tick s \<le> of_nat k / 100 \<Longrightarrow> returns tick (setup_loop (Suc k) e) s"
proof (induction k arbitrary: s)
  case 0
  then show ?case by (intro setup_round [OF assms]) simp
next
  case (Suc k)
  show ?case
    by (intro setup_round [OF assms] Suc.IH) (use Suc.prems in \<open>simp only: of_nat_Suc_part\<close>)
qed

text \<open>The watch pauses until the lease ends at the latest.\<close>

lemma returns_clock_then:
  assumes "real_time tick e"
    and "\<And>now t. tick (s_world s) \<le> now \<Longrightarrow> now \<le> tick (s_world t) \<Longrightarrow> s_lease t = s_lease s \<Longrightarrow> returns tick (f now) t"
  shows "returns tick (bnd (clock e) f) s"
  using clock_run [OF real_timeD(1) [OF assms(1)]]
  by (intro returns_bnd returns_clock real_timeD [OF assms(1)]) (auto intro!: assms(2))

lemma returns_get_then: "returns tick (f (g s)) s \<Longrightarrow> returns tick (bnd (get g) f) s"
  by (simp add: returns_def)

lemma watch_exit:
  assumes "real_time tick e"
  shows "returns tick (sqn (upd (\<lambda>s. s\<lparr>r_worker_exit := Some c\<rparr>)) (sqn (ensure (c = 0) m)
     (bnd (call Populated (e_populated e)) (\<lambda>p. sqn (ensure (\<not> p) m') (sqn (drain e) (ret ())))))) s"
  by (intro returns_sqn returns_bnd returns_upd returns_prims returns_call drain_returns real_timeD [OF assms] assms) simp

lemma returns_case_option:
  "(x = None \<Longrightarrow> returns tick a s) \<Longrightarrow> (\<And>c. x = Some c \<Longrightarrow> returns tick (b c) s) \<Longrightarrow>
     returns tick (case x of None \<Rightarrow> a | Some c \<Rightarrow> b c) s"
  by (cases x) simp_all

lemma watch_round:
  fixes s :: "'w sup"
  assumes "real_time tick e"
    and "\<And>t. 0 < time_left tick s \<Longrightarrow> time_left tick t \<le> max 0 (time_left tick s - 1 / 20) \<Longrightarrow> returns tick (watch_loop n e) t"
  shows "returns tick (watch_loop (Suc n) e) s"
  unfolding watch_loop.simps(2)
proof (intro returns_sqn [OF returns_interrupted] returns_drain_then [OF assms(1)] returns_sqn [OF returns_call]
    returns_bnd [OF returns_call] returns_case_option watch_exit [OF assms(1)] real_timeD [OF assms(1)])
  fix xa xb xc and t ta tb tc :: "'w sup"
  assume o: "onward tick s t" "0 < time_left tick t" "onward tick t ta" "onward tick ta tb" "onward tick tb tc"
  show "returns tick (bnd (clock e) (\<lambda>t. bnd (get s_lease) (\<lambda>l.
      sqn (pause e (min (1 / 20) (max 0 (l_deadline l - t)))) (watch_loop n e)))) tc"
  proof (rule returns_clock_then [OF assms(1)])
    fix now and td :: "'w sup" assume c: "tick (s_world tc) \<le> now" "now \<le> tick (s_world td)" "s_lease td = s_lease tc"
    show "returns tick (bnd (get s_lease) (\<lambda>l. sqn (pause e (min (1 / 20) (max 0 (l_deadline l - now)))) (watch_loop n e))) td"
    proof (rule returns_get_then, rule returns_pause_then [OF assms(1)])
      fix te :: "'w sup" assume p: "tick (s_world td) + min (1 / 20) (max 0 (l_deadline (s_lease td) - now)) \<le> tick (s_world te)"
        "s_lease te = s_lease td"
      from o have "time_left tick t \<le> time_left tick s" "time_left tick tc \<le> time_left tick s"
        by (blast intro: time_left_onward onward_trans)+
      with o c p show "returns tick (watch_loop n e) te"
        by (intro assms(2)) (auto simp: time_left_def min_def max_def split: if_splits)
    qed simp
  qed
qed

lemma watch_returns:
  assumes "real_time tick e"
  shows "time_left tick s \<le> of_nat k / 100 \<Longrightarrow> returns tick (watch_loop (Suc k) e) s"
proof (induction k arbitrary: s)
  case 0
  then show ?case by (intro watch_round [OF assms]) simp
next
  case (Suc k)
  show ?case
    by (intro watch_round [OF assms] Suc.IH) (use Suc.prems in \<open>auto simp: of_nat_Suc_part max_def split: if_splits\<close>)
qed

subsection \<open>Cleanup\<close>

lemma cleanup_error_returns: "returns tick (cleanup_error what m) s"
  unfolding cleanup_error_def by (intro returns_upd) simp

lemma cleanup_try_returns:
  assumes "real_time tick e"
  shows "returns tick (cleanup_try e) s"
  unfolding cleanup_try_def cleanup_observe_def
  by (intro returns_handle returns_bnd returns_call returns_sqn returns_prims returns_upd cleanup_error_returns
      returns_case_option returns_if real_timeD [OF assms]) simp_all

lemma cleanup_round:
  fixes s :: "'w sup"
  assumes "real_time tick e"
    and "\<And>t. 0 < until - tick (s_world s) \<Longrightarrow> until - tick (s_world t) \<le> max 0 (until - tick (s_world s) - 1 / 50) \<Longrightarrow>
      returns tick (cleanup_loop n e until) t"
  shows "returns tick (cleanup_loop (Suc n) e until) s"
  unfolding cleanup_loop.simps(2)
proof (intro returns_bnd [OF cleanup_try_returns [OF assms(1)]] returns_if returns_prims returns_clock_then [OF assms(1)]
    cleanup_error_returns returns_pause_then [OF assms(1)])
  fix obs now now' and t ta tb tc :: "'w sup"
  assume "onward tick s t" "tick (s_world t) \<le> now" "now \<le> tick (s_world ta)" "\<not> until \<le> now"
    "tick (s_world ta) \<le> now'" "now' \<le> tick (s_world tb)"
    "tick (s_world tb) + min (1 / 50) (max 0 (until - now')) \<le> tick (s_world tc)"
  then show "returns tick (cleanup_loop n e until) tc"
    by (intro assms(2)) (auto simp: onward_def min_def max_def split: if_splits)
qed simp_all

lemma cleanup_loop_returns:
  assumes "real_time tick e"
  shows "until - tick (s_world s) \<le> of_nat k / 50 \<Longrightarrow> returns tick (cleanup_loop (Suc k) e until) s"
proof (induction k arbitrary: s)
  case 0
  then show ?case by (intro cleanup_round [OF assms]) simp
next
  case (Suc k)
  show ?case
    by (intro cleanup_round [OF assms] Suc.IH) (use Suc.prems in \<open>auto simp: of_nat_Suc_part max_def split: if_splits\<close>)
qed

lemma cleanup_returns:
  assumes "real_time tick e" and "seconds \<le> of_nat k / 50"
  shows "returns tick (cleanup (Suc k) e seconds absolute) s"
proof -
  have "returns tick (cleanup_loop (Suc k) e (case absolute of None \<Rightarrow> t + seconds | Some d \<Rightarrow> min (t + seconds) d)) u"
    if "t \<le> tick (s_world u)" for t u
    using assms that by (intro cleanup_loop_returns) (auto simp: min_def split: option.split)
  then show ?thesis
    unfolding cleanup_def
    by (intro returns_bnd [OF returns_prims(2)] returns_if returns_sqn [OF returns_call] returns_sqn [OF returns_handle]
        returns_call returns_handle returns_clock_then [OF assms(1)] returns_sqn cleanup_error_returns returns_upd
        real_timeD [OF assms(1)]) simp_all
qed

subsection \<open>The whole supervision\<close>

lemma admit_and_watch_returns:
  fixes s :: "'w sup"
  assumes "real_time tick e" and "time_left tick s \<le> of_nat k / 100"
  shows "returns tick (admit_and_watch (Suc k) e) s"
proof -
  note D = real_timeD [OF assms(1)]
  have ready: "returns tick (setup_loop (Suc k) e) t" and watch: "returns tick (watch_loop (Suc k) e) t"
    if "onward tick s t" for t
    by (rule setup_returns [OF assms(1) order_trans [OF time_left_onward [OF that] assms(2)]],
        rule watch_returns [OF assms(1) order_trans [OF time_left_onward [OF that] assms(2)]])
  have until: "returns tick (until_release (Suc k) e pid) t" if "onward tick s t" for pid t
    unfolding until_release_def
    by (intro returns_sqn [OF returns_optional] returns_sqn [OF returns_call] returns_sqn [OF returns_upd] returns_sqn [OF ready]
        returns_drain_then [OF assms(1)] returns_interrupted D) (use that in \<open>auto simp: onward_def\<close>)
  moreover have "returns tick (before_spawn e) s"
    unfolding before_spawn_def
    by (intro returns_drain_then [OF assms(1)] returns_sqn [OF returns_call] returns_bnd [OF returns_call] returns_prims D)
  ultimately show ?thesis
    unfolding admit_and_watch_def
    by (intro returns_sqn returns_bnd returns_call returns_upd D watch until) (auto simp: onward_def)
qed

text \<open>
  C11: Termination.  When the clock of the environment never goes backwards, its sleep lasts
  at least as long as asked and its operations return, a supervision always returns: for a
  lease that ends within the 620 seconds of a host lease, 62001 rounds per loop are enough,
  whatever the worker, the guest and the kernel do.
\<close>

theorem supervise_returns:
  assumes "real_time tick e" and "l_deadline l \<le> tick w + HOST_SECONDS" and "62001 \<le> fuel"
  shows "fst (supervise fuel e seconds absolute (sup_start w l)) \<noteq> Inl OutOfFuel"
proof -
  let ?s = "sup_start w l"
  note D = real_timeD [OF assms(1)]
  from assms(3) obtain k where k: "fuel = Suc k" "62000 \<le> k" by (cases fuel) auto
  then have "(620 :: rat) \<le> of_nat k / 100" "(20 :: rat) \<le> of_nat k / 50" by simp_all
  then have body: "returns tick (supervised_body fuel e) t" and clean: "0 < seconds \<and> seconds \<le> 20 \<Longrightarrow> returns tick (cleanup fuel e seconds absolute) t"
    if "onward tick ?s t" for t
    using time_left_onward [OF that] assms(2) k
    by (auto simp: supervised_body_def time_left_def sup_start_def HOST_SECONDS_def
        intro!: returns_handle admit_and_watch_returns returns_upd cleanup_returns assms(1))
  have "returns tick (supervise fuel e seconds absolute) ?s"
  proof (cases "0 < seconds \<and> seconds \<le> CLEANUP_SECONDS")
    case False
    then show ?thesis by (auto simp: supervise_def returns_def)
  next
    case True
    then show ?thesis
      unfolding supervise_def
      by (intro returns_sqn returns_prims returns_case_option returns_bnd returns_clock D returns_try_finally body clean)
        (auto simp: CLEANUP_SECONDS_def intro: onward_trans)
  qed
  then show ?thesis by (simp add: returns_def)
qed

text \<open>A worker that never becomes ready, on a world that is its own clock.\<close>

definition stuck_env :: "rat sup_env" where
  "stuck_env = \<lparr> e_clock = (\<lambda>w. (w, w)), e_is_fd = False, e_read = (\<lambda>w. (Inr None, w)),
     e_acknowledge = (\<lambda>_ w. (Inr (), w)), e_interrupted = (\<lambda>w. (False, w)), e_pause = (\<lambda>d w. w + d),
     e_before_admission = (\<lambda>w. (Inr (), w)), e_populated = (\<lambda>w. (Inr False, w)), e_spawn = (\<lambda>w. (Inr 7, w)),
     e_register_worker = None, e_attach = (\<lambda>_ w. (Inr (), w)), e_bind_worker = (\<lambda>_ w. (Inr (), w)),
     e_admit_setup = (\<lambda>w. (Inr (), w)), e_ready = (\<lambda>w. (Inr False, w)), e_check_cgroups = (\<lambda>w. (Inr (), w)),
     e_guard_check = (\<lambda>w. (Inr (), w)), e_pin = None, e_release = (\<lambda>w. (Inr (), w)), e_poll = (\<lambda>w. (Inr None, w)),
     e_cancel_admission = (\<lambda>w. (Inr (), w)), e_kill = (\<lambda>w. (Inr (), w)), e_reap = None \<rparr>"

lemma stuck_real_time: "real_time (\<lambda>w. w) stuck_env"
  by (simp add: real_time_def real_clock_def passing_def optional_passing_def stuck_env_def)

theorem supervise_returns_witness:
  "fst (supervise 62001 stuck_env 20 None (sup_start 0 demo_live)) \<noteq> Inl OutOfFuel"
  by (rule supervise_returns [OF stuck_real_time]) (simp_all add: demo_live_def demo_lease_def HOST_SECONDS_def)

end
