(* ===== verification/AptText.thy ===== *)
theory AptText
  imports Apt
begin

text \<open>
  The readers of \<open>sw_i5_apt.py\<close> for what the tools print: gpg key listings, deb822
  records, authenticated Release files, the dpkg status, generated apt configuration and
  its dump, and apt simulations.
\<close>

subsection \<open>Key listings\<close>

text \<open>The three variables of the loop: primary fingerprints, subkeys, and the pending record.\<close>

record keys =
  k_primary :: "string list"
  k_subkeys :: "string list"
  k_pending :: "string option"

definition fingerprint :: "string \<Rightarrow> bool" where
  "fingerprint s = (length s = 40 \<and> list_all is_upper_hex s)"

definition key_line :: "keys \<Rightarrow> string \<Rightarrow> keys res" where
  "key_line k line =
     (let row = split_all (CHR '':'') line; tag = hd row in
      if tag = ''pub'' \<or> tag = ''sub'' then
        require (k_pending k = None) ''missing full fingerprint'' (Inr (k\<lparr>k_pending := Some tag\<rparr>))
      else if tag = ''fpr'' then
        require (k_pending k \<noteq> None \<and> length row > 9 \<and> fingerprint (row ! 9)) ''invalid full fingerprint''
          (Inr (if k_pending k = Some ''pub''
                then k\<lparr>k_primary := k_primary k @ [row ! 9], k_pending := None\<rparr>
                else k\<lparr>k_subkeys := k_subkeys k @ [row ! 9], k_pending := None\<rparr>))
      else if tag \<in> {''uid'', ''uat'', ''tru'', ''grp'', ''rvk''} then Inr k
      else Inl (ValueError ''unknown key listing record''))"

definition key_fingerprints :: "string \<Rightarrow> string \<Rightarrow> (string \<times> string list) res" where
  "key_fingerprints raw expected =
     bindE (utf8 raw) (\<lambda>text.
     bindE (foldE key_line \<lparr> k_primary = [], k_subkeys = [], k_pending = None \<rparr> (splitlines text)) (\<lambda>k.
     require (k_pending k = None \<and> k_primary k = [expected] \<and> distinct (k_subkeys k))
       ''wrong or multiple primary certificates'' (Inr (hd (k_primary k), k_subkeys k))))"

subsection \<open>deb822 records\<close>

type_synonym deb = "(string \<times> string) list"

definition deb_name_rx :: rx where
  "deb_name_rx = Cat (Cls (\<lambda>c. is_lower c \<or> is_upper c)) (Rep (Cls (\<lambda>c. is_alnum c \<or> c = CHR ''-'')))"

definition continuation :: "string \<Rightarrow> bool" where
  "continuation line = (startswith line '' '' \<or> startswith line [CHR 0x09])"

text \<open>The generator: the records it yields, and how it ends.\<close>

fun deb_lines :: "deb \<Rightarrow> string option \<Rightarrow> string list \<Rightarrow> deb list \<times> unit res" where
  "deb_lines rec prev [] = (if rec = [] then [] else [rec], Inr ())"
| "deb_lines rec prev (l # ls) =
     (if l = [] then
        (let (rs, e) = deb_lines [] None ls in (if rec = [] then rs else rec # rs, e))
      else if continuation l then
        (case prev of None \<Rightarrow> ([], Inl (ValueError ''orphan continuation''))
         | Some k \<Rightarrow> deb_lines (AList.update k (the (map_of rec k) @ nl @ tl l) rec) prev ls)
      else
        (case partition1 (CHR '':'') l of (name, sep, v) \<Rightarrow>
         if sep \<and> fullmatch deb_name_rx name \<and> name \<notin> fst ` set rec
         then deb_lines (AList.update name (strip v) rec) (Some name) ls
         else ([], Inl (ValueError ''invalid/duplicate deb822 field''))))"

definition deb822 :: "string \<Rightarrow> deb list \<times> unit res" where
  "deb822 raw = (case utf8 raw of Inl e \<Rightarrow> ([], Inl e) | Inr text \<Rightarrow> deb_lines [] None (splitlines text))"

definition deb_get :: "deb \<Rightarrow> string \<Rightarrow> string" where
  "deb_get r k = (case map_of r k of None \<Rightarrow> [] | Some v \<Rightarrow> v)"

subsection \<open>Release files\<close>

text \<open>\<open>date(name)\<close>, from the reader of RFC 2822 dates: is there a time zone, and the instant.\<close>

definition release_date :: "(string \<Rightarrow> (bool \<times> int) res) \<Rightarrow> deb \<Rightarrow> string \<Rightarrow> int res" where
  "release_date pdate r name =
     (case map_of r name of None \<Rightarrow> Inl (KeyError name)
      | Some v \<Rightarrow> bindE (pdate v) (\<lambda>(aware, t). require aware ''Release timezone required'' (Inr t)))"

definition release_hash :: "(string \<times> pyval) list \<Rightarrow> string \<Rightarrow> (string \<times> pyval) list res" where
  "release_hash hs line =
     (if strip line = [] then Inr hs else
      let parts = words line in
      require (length parts = 3 \<and> digest (PStr (parts ! 0)) \<and> isdigit (parts ! 1) \<and> parts ! 2 \<notin> fst ` set hs)
        ''invalid/duplicate Release SHA256 entry''
        (bindE (int_text (parts ! 1)) (\<lambda>n.
         Inr (hs @ [(parts ! 2, PDict [(''sha256'', PStr (parts ! 0)), (''bytes'', PInt n)])]))))"

definition release_expiry :: "(string \<Rightarrow> (bool \<times> int) res) \<Rightarrow> deb \<Rightarrow> source \<Rightarrow> int \<Rightarrow> unit res" where
  "release_expiry pdate r spec now =
     bindE (release_date pdate r ''Date'') (\<lambda>d.
     require (d \<le> now) ''future Release'' (
     require (so_suite spec \<in> {''trixie-updates'', ''trixie-security''} \<longrightarrow> map_of r ''Valid-Until'' \<noteq> None)
       ''Release expiry required'' (
     if map_of r ''Valid-Until'' = None then Inr () else
       bindE (release_date pdate r ''Date'') (\<lambda>d.
       bindE (release_date pdate r ''Valid-Until'') (\<lambda>u.
       require (d < u \<and> now < u) ''expired Release'' (Inr ()))))))"

definition release_index :: "(string \<Rightarrow> (bool \<times> int) res) \<Rightarrow> string \<Rightarrow> source \<Rightarrow> int \<Rightarrow> (pyval \<times> pyval) res" where
  "release_index pdate raw spec now =
     (case deb822 raw of (records, ended) \<Rightarrow>
     bindE ended (\<lambda>_.
     require (length records = 1) ''single authenticated Release required'' (
     let r = hd records; identity = (if so_repo spec = ''docker'' then ''Suite'' else ''Codename'') in
     require (map_of r identity = Some (so_suite spec) \<and> ''arm64'' \<in> set (words (deb_get r ''Architectures'')) \<and>
              so_component spec \<in> set (words (deb_get r ''Components''))) ''Release source identity mismatch'' (
     bindE (release_expiry pdate r spec now) (\<lambda>_.
     bindE (foldE release_hash [] (splitlines (deb_get r ''SHA256''))) (\<lambda>hs.
     let p = so_component spec @ ''/binary-arm64/Packages'' in
     (case (map_of hs p, map_of hs (p @ ''.'' @ so_codec spec)) of
        (Some plain, Some packed) \<Rightarrow> bindE (blob plain (64 * MIB)) (\<lambda>_. Inr (packed, plain))
      | _ \<Rightarrow> Inl (ValueError ''missing complete Packages hashes''))))))))"

subsection \<open>Installed packages\<close>

definition package_rx :: rx where
  "package_rx = Cat (Cls (\<lambda>c. is_lower c \<or> is_digit c)) (plus (Cls (\<lambda>c. is_lower c \<or> is_digit c \<or> one_of ''+.-'' c)))"

definition installed_row :: "(string \<times> string) list \<Rightarrow> deb \<Rightarrow> (string \<times> string) list res" where
  "installed_row acc row =
     (let status = deb_get row ''Status'' in
      require (status \<in> {''install ok installed'', ''deinstall ok config-files'', ''purge ok not-installed''})
        ''unsettled dpkg status'' (
      if status \<noteq> ''install ok installed'' then Inr acc else
      let name = deb_get row ''Package''; arch = map_of row ''Architecture'';
          ver = (case map_of row ''Version'' of None \<Rightarrow> PNone | Some v \<Rightarrow> PStr v) in
      require (length name \<le> 200 \<and> fullmatch package_rx name \<and> arch \<in> {Some ''arm64'', Some ''all''} \<and> version ver)
        ''invalid installed package'' (
      let identity = name @ '':'' @ (if arch = Some ''all'' then ''arm64'' else the arch) in
      require (identity \<notin> fst ` set acc) ''duplicate installed package'' (
      let acc' = acc @ [(identity, str_of ver)] in
      require (length acc' \<le> 8192) ''installed package count limit'' (Inr acc')))))"

definition installed_packages :: "string \<Rightarrow> (string \<times> string) list res" where
  "installed_packages raw =
     (case deb822 raw of (rows, ended) \<Rightarrow>
      bindE (foldE installed_row [] rows) (\<lambda>acc.
      bindE ended (\<lambda>_.
      require (acc \<noteq> []) ''empty installed baseline'' (Inr acc))))"

subsection \<open>The generated configuration\<close>

definition safe_path_rx :: rx where
  "safe_path_rx = Cat (Cls (\<lambda>c. c = CHR ''/'')) (plus (Cls (\<lambda>c. is_alnum c \<or> one_of ''_./-'' c)))"

definition safe_path :: "fs \<Rightarrow> string \<Rightarrow> unit res" where
  "safe_path f path = require (fullmatch safe_path_rx path \<and> fs_resolve f path = path)
     ''safe canonical APT path required'' (Inr ())"

definition add_pin :: "(string \<times> string) list \<Rightarrow> string \<times> string \<Rightarrow> (string \<times> string) list res" where
  "add_pin pins = (\<lambda>(name, ver).
     require (name \<notin> fst ` set pins \<or> map_of pins name = Some ver)
       ''requested root would change installed package'' (Inr (AList.update name ver pins)))"

definition pin_text :: "string \<times> string \<Rightarrow> string" where
  "pin_text = (\<lambda>(name, ver).
     ''Package: '' @ name @ nl @ ''Pin: version '' @ ver @ nl @ ''Pin-Priority: 1001'' @ nl @ nl @
     ''Package: '' @ name @ nl @ ''Pin: version *'' @ nl @ ''Pin-Priority: -1'' @ nl @ nl)"

definition source_text :: "string \<Rightarrow> string \<times> source \<Rightarrow> string" where
  "source_text input = (\<lambda>(_, s).
     ''deb [arch=arm64 signed-by='' @ input @ ''/keys/'' @ so_key s @ ''.asc] '' @
     ''file:'' @ input @ ''/'' @ so_repo s @ '' '' @ so_suite s @ '' '' @ so_component s @ nl)"

definition apt_settings :: "string \<Rightarrow> (string \<times> string) list" where
  "apt_settings work =
    [(''Dir::Etc::main'', ''/dev/null''), (''Dir::Etc::parts'', work @ ''/empty''),
     (''Dir::Etc::sourcelist'', work @ ''/sources.list''), (''Dir::Etc::sourceparts'', work @ ''/empty''),
     (''Dir::Etc::preferences'', work @ ''/preferences''), (''Dir::Etc::preferencesparts'', work @ ''/empty''),
     (''Dir::Etc::trusted'', ''/dev/null''), (''Dir::Etc::trustedparts'', work @ ''/empty''),
     (''Dir::Etc::netrc'', ''/dev/null''), (''Dir::Etc::netrcparts'', work @ ''/empty''),
     (''Dir::State'', work @ ''/state''), (''Dir::State::lists'', work @ ''/state/lists''),
     (''Dir::State::status'', work @ ''/status''), (''Dir::State::extended_states'', work @ ''/extended_states''),
     (''Dir::Cache'', work @ ''/cache''), (''Dir::Cache::archives'', work @ ''/cache/archives''),
     (''Dir::Cache::pkgcache'', ''''), (''Dir::Cache::srcpkgcache'', ''''), (''Dir::Log'', work @ ''/log''),
     (''APT::Architecture'', ''arm64''), (''APT::Install-Recommends'', ''false''), (''APT::Install-Suggests'', ''false''),
     (''Acquire::Languages::'', ''none''), (''Acquire::PDiffs'', ''false''), (''Acquire::Check-Date'', ''true''),
     (''Acquire::Check-Valid-Until'', ''true''), (''Acquire::AllowInsecureRepositories'', ''false''),
     (''Acquire::AllowWeakRepositories'', ''false''), (''Acquire::AllowDowngradeToInsecureRepositories'', ''false''),
     (''APT::Get::AllowUnauthenticated'', ''false''), (''APT::Architectures::'', ''arm64''),
     (''Acquire::IndexTargets::deb::Packages::MetaKey'', ''$(COMPONENT)/binary-$(ARCHITECTURE)/Packages''),
     (''Acquire::IndexTargets::deb::Packages::ShortDescription'', ''Packages''),
     (''Acquire::IndexTargets::deb::Packages::Description'', ''$(RELEASE)/$(COMPONENT) $(ARCHITECTURE) Packages'')]"

definition cleared_keys :: "string list" where
  "cleared_keys = [''Binary'', ''APT::Update'', ''DPkg::Pre-Install-Pkgs'', ''DPkg::Pre-Invoke'',
     ''DPkg::Post-Invoke'', ''DPkg::Options'', ''Acquire::IndexTargets'', ''Acquire::Languages'', ''APT::Architectures'']"

definition setting_text :: "string \<times> string \<Rightarrow> string" where
  "setting_text = (\<lambda>(k, v). k @ '' '' @ dq @ v @ dq @ '';'' @ nl)"

definition apt_files ::
    "fs \<Rightarrow> string \<Rightarrow> string \<Rightarrow> (string \<times> string) list \<Rightarrow> ((string \<times> string) list \<times> (string \<times> string) list) res" where
  "apt_files f input work installed =
     bindE (eachE (safe_path f) [input, work]) (\<lambda>_.
     bindE (foldE add_pin installed ROOTS) (\<lambda>pins.
     let preferences = concat (map pin_text (sort_key fst pins));
         sources = concat (map (source_text input) SOURCES);
         settings = apt_settings work;
         config = concat (map (\<lambda>k. ''#clear '' @ k @ '';'' @ nl) cleared_keys) @ concat (map setting_text settings);
         files = [(''sources.list'', sources), (''preferences'', preferences), (''apt.conf'', config)] in
     require ((\<Sum>(_, t) \<leftarrow> files. length t) \<le> MIB) ''generated configuration byte limit'' (Inr (files, settings))))"

subsection \<open>The configuration dump\<close>

definition dump_rx :: rx where
  "dump_rx = cats [plus (Cls (\<lambda>c. is_alnum c \<or> one_of ''/.:_+-'' c)), lit ('' '' @ dq),
     Rep (Cls (\<lambda>c. c \<noteq> CHR 0x22 \<and> c \<noteq> CHR 0x5C)), lit (dq @ '';'')]"

definition any_text :: rx where "any_text = Rep (Cls (\<lambda>_. True))"

definition proxy_rx :: rx where
  "proxy_rx = cats [opt (Cat any_text (lit ''::'')),
     Alt (lit ''proxy'') (Alt (lit ''proxy-auto-detect'') (lit ''proxyautodetect'')),
     opt (Cat (lit ''::'') any_text)]"

definition dump_line ::
    "(string \<times> string) list \<Rightarrow> (string \<times> string) list \<Rightarrow> string \<Rightarrow> (string \<times> string) list res" where
  "dump_line settings parsed line =
     require (fullmatch dump_rx line) ''unexpected apt-config dump syntax'' (
     let key = lower (takeWhile (\<lambda>c. c \<noteq> CHR '' '') line);
         value = takeWhile (\<lambda>c. c \<noteq> CHR 0x22) (tl (dropWhile (\<lambda>c. c \<noteq> CHR 0x22) line)) in
     require (key \<notin> fst ` set parsed) ''duplicate apt-config key'' (
     require (value = [] \<or> \<not> (startswith key ''binary::'' \<or> startswith key ''dpkg::options'' \<or>
                infix_of ''pre-invoke'' key \<or> infix_of ''post-invoke'' key \<or> infix_of ''pre-install-pkgs'' key))
       ''APT hook/Binary override'' (
     require (value = [] \<or> \<not> fullmatch proxy_rx key) ''APT proxy override'' (
     require (startswith key ''acquire::indextargets::'' \<and> value \<noteq> [] \<longrightarrow>
                key \<in> lower ` set (filter (\<lambda>k. startswith k ''Acquire::IndexTargets::'') (map fst settings)))
       ''unexpected APT index target'' (Inr (parsed @ [(key, value)]))))))"

definition validate_config_dump :: "string \<Rightarrow> (string \<times> string) list \<Rightarrow> unit res" where
  "validate_config_dump raw settings =
     bindE (utf8 raw) (\<lambda>text.
     bindE (foldE (dump_line settings) [] (splitlines text)) (\<lambda>parsed.
     eachE (\<lambda>(k, v). require (map_of parsed (lower k) = Some v) (''effective APT config mismatch: '' @ k) (Inr ()))
       settings))"

subsection \<open>Simulations\<close>

record sim =
  m_added :: "(string \<times> string) list"
  m_configured :: "(string \<times> string) list"
  m_summary :: "int option"

definition arch_rx :: rx where "arch_rx = Alt (lit ''arm64'') (lit ''all'')"

definition action_rx :: rx where
  "action_rx = cats [Alt (lit ''Inst'') (lit ''Conf''), lit '' '', package_rx, opt (Cat (lit '':'') arch_rx),
     lit '' ('', plus (Cls (\<lambda>c. c \<noteq> CHR '' '')), lit '' '', plus any_char, lit '' ['', arch_rx, lit ''])'']"

definition upgraded_rx :: rx where
  "upgraded_rx = cats [plus (Cls is_digit), lit '' upgraded,'', any_text]"

definition summary_rx :: rx where
  "summary_rx = cats [lit ''0 upgraded, '', plus (Cls is_digit), lit '' newly installed, 0 to remove and '',
     plus (Cls is_digit), lit '' not upgraded.'']"

definition sim_line :: "(string \<times> string) list \<Rightarrow> sim \<Rightarrow> string \<Rightarrow> sim res" where
  "sim_line installed m line =
     (if startswith line ''Remv '' \<or> startswith line ''Purg '' \<or> startswith line ''E:'' \<or> startswith line ''W:''
      then Inl (ValueError ''APT removal/error/warning'')
      else if startswith line ''Inst '' \<or> startswith line ''Conf '' then
        require (fullmatch action_rx line) ''unsupported APT transaction record'' (
        let name = takeWhile (\<lambda>c. c \<noteq> CHR '' '' \<and> c \<noteq> CHR '':'') (drop 5 line);
            ver = takeWhile (\<lambda>c. c \<noteq> CHR '' '') (tl (dropWhile (\<lambda>c. c \<noteq> CHR ''('') line));
            identity = name @ '':arm64'' in
        require (identity \<notin> fst ` set installed \<and> version (PStr ver)) ''APT changes existing package'' (
        if startswith line ''Inst '' then
          require (identity \<notin> fst ` set (m_added m)) ''duplicate APT action''
            (Inr (m\<lparr>m_added := m_added m @ [(identity, ver)]\<rparr>))
        else
          require (identity \<notin> fst ` set (m_configured m)) ''duplicate APT action''
            (Inr (m\<lparr>m_configured := m_configured m @ [(identity, ver)]\<rparr>))))
      else if fullmatch upgraded_rx line then
        require (m_summary m = None) ''duplicate APT summary'' (
        require (fullmatch summary_rx line) ''APT non-additive transaction'' (
        bindE (int_text (takeWhile is_digit (drop 12 line))) (\<lambda>n. Inr (m\<lparr>m_summary := Some n\<rparr>))))
      else Inr m)"

definition simulation :: "string \<Rightarrow> (string \<times> string) list \<Rightarrow> (string \<times> string) list res" where
  "simulation raw installed =
     bindE (utf8 raw) (\<lambda>text.
     bindE (foldE (sim_line installed) \<lparr> m_added = [], m_configured = [], m_summary = None \<rparr> (splitlines text)) (\<lambda>m.
     require (m_summary m = Some (int (length (m_added m))) \<and> set (m_configured m) = set (m_added m))
       ''incomplete APT transaction'' (
     bindE (eachE (\<lambda>(name, ver).
              require ((case map_of (m_added m) name of None \<Rightarrow> map_of installed name | Some v \<Rightarrow> Some v) = Some ver)
                ''missing exact requested root'' (Inr ())) ROOTS) (\<lambda>_.
     Inr (m_added m)))))"

end
