(* ===== verification/AptProps.thy ===== *)
theory AptProps
  imports AptText AptResult JsonProps
begin

text \<open>
  Properties of the preparation contracts: block-wise hashing equals hashing the file, the
  deb822 reader inverts the writer, an accepted simulation only adds packages, an accepted
  configuration dump is the generated configuration, and a blocked result survives its own
  encoder and validator.
\<close>

subsection \<open>Files\<close>

lemma concat_chunks: "0 < n \<Longrightarrow> concat (chunks n xs) = xs"
proof (induction n xs rule: chunks.induct)
  case (1 n xs)
  then show ?case by (subst chunks.simps) simp
qed

lemma blob_fold:
  "n \<le> limit \<Longrightarrow>
   foldE (\<lambda>(size, seen) c. require (size + length c \<le> limit) m (Inr (size + length c, seen @ c))) (n, s) cs =
   (if n + length (concat cs) \<le> limit then Inr (n + length (concat cs), s @ concat cs) else Inl (ValueError m))"
  by (induction cs arbitrary: n s) (auto simp: require_def)

lemma file_blob_eq:
  "file_blob sha f path limit =
     bindE (regular f path) (\<lambda>p.
       require (length (fs_bytes f p) \<le> limit) (''file byte limit: '' @ p)
         (Inr (blob_value (int (length (fs_bytes f p))) (sha (fs_bytes f p)))))"
proof (cases "regular f path")
  case (Inr p)
  have "(if 0 + length (concat (chunks 65536 (fs_bytes f p))) \<le> limit
      then Inr (0 + length (concat (chunks 65536 (fs_bytes f p))), [] @ concat (chunks 65536 (fs_bytes f p)))
      else Inl (ValueError m)) = require (length (fs_bytes f p) \<le> limit) m (Inr (length (fs_bytes f p), fs_bytes f p))" for m
    by (simp add: concat_chunks require_def)
  then show ?thesis unfolding file_blob_def Inr bindE_simps blob_fold [OF le0] by simp
qed (simp add: file_blob_def)

text \<open>
  C39: Hashing a file in blocks of 64 KiB under a size limit is hashing the whole file after
  one comparison of its size with the limit.
\<close>

theorem file_blob_whole:
  "file_blob sha f path limit =
     bindE (regular f path) (\<lambda>p.
       require (length (fs_bytes f p) \<le> limit) (''file byte limit: '' @ p)
         (Inr (blob_value (int (length (fs_bytes f p))) (sha (fs_bytes f p)))))"
  by (rule file_blob_eq)

subsection \<open>deb822\<close>

definition deb_field :: "string \<times> string \<Rightarrow> string list" where
  "deb_field = (\<lambda>(k, v). case split_all (CHR 0x0A) v of
     [] \<Rightarrow> [k @ '': ''] | l # ls \<Rightarrow> (k @ '': '' @ l) # map (\<lambda>x. CHR '' '' # x) ls)"

definition deb_record :: "deb \<Rightarrow> string list" where
  "deb_record r = concat (map deb_field r) @ [[]]"

text \<open>The text of a list of records: one field per line, continuations indented by a space.\<close>

definition print_deb :: "deb list \<Rightarrow> string" where
  "print_deb rs = concat (map (\<lambda>l. l @ nl) (concat (map deb_record rs)))"

definition plain_line :: "string \<Rightarrow> bool" where
  "plain_line l = list_all (\<lambda>c. \<not> is_break c \<and> code c < 128) l"

definition deb_value :: "string \<Rightarrow> bool" where
  "deb_value v = (list_all plain_line (split_all (CHR 0x0A) v) \<and> strip (hd (split_all (CHR 0x0A) v)) = hd (split_all (CHR 0x0A) v))"

definition deb_ok :: "deb \<Rightarrow> bool" where
  "deb_ok r = (r \<noteq> [] \<and> distinct (map fst r) \<and> list_all (\<lambda>(k, v). fullmatch deb_name_rx k \<and> deb_value v) r)"

lemma update_new: "k \<notin> fst ` set r \<Longrightarrow> AList.update k v r = r @ [(k, v)]"
  by (induction r) auto

lemma update_last: "k \<notin> fst ` set r \<Longrightarrow> AList.update k w (r @ [(k, v)]) = r @ [(k, w)]"
  by (induction r) auto

lemma map_of_last: "k \<notin> fst ` set r \<Longrightarrow> map_of (r @ [(k, v)]) k = Some v"
  by (simp add: map_add_Some_iff map_of_eq_None_iff)

lemma strip_space_lead: "strip (CHR '' '' # l) = strip l"
  by (simp add: strip_def lstrip_def is_space_def code_def)

lemma deb_lines_rest:
  "k \<notin> fst ` set r \<Longrightarrow>
   deb_lines (r @ [(k, v)]) (Some k) (map (\<lambda>x. CHR '' '' # x) rest @ ls) =
   deb_lines (r @ [(k, v @ concat (map (\<lambda>x. nl @ x) rest))]) (Some k) ls"
proof (induction rest arbitrary: v)
  case (Cons x rest)
  then show ?case
    by (simp add: continuation_def startswith_def update_last map_of_last del: map_of_append)
qed simp

lemma join_concat: "join nl (x # xs) = x @ concat (map (\<lambda>y. nl @ y) xs)"
  by (induction xs arbitrary: x) (simp_all add: join_Cons)

lemma deb_name_chars: "fullmatch deb_name_rx k \<Longrightarrow> k \<noteq> [] \<and> (\<forall>c \<in> set k. is_alnum c \<or> c = CHR ''-'')"
  by (cases k) (auto simp: deb_name_rx_def fullmatch_first_rest list_all_iff is_alnum_def simp del: fullmatch.simps)

lemma alnum_plain: "is_alnum c \<or> c = CHR ''-'' \<Longrightarrow> \<not> is_break c \<and> code c < 128 \<and> c \<noteq> CHR '':'' \<and> c \<noteq> CHR '' '' \<and> c \<noteq> CHR 0x09"
  by (auto simp: is_alnum_def is_digit_def is_lower_def is_upper_def is_break_def code_def)

lemma deb_lines_field:
  assumes "fullmatch deb_name_rx k" and "k \<notin> fst ` set r" and "deb_value v"
  shows "deb_lines r prev (deb_field (k, v) @ ls) = deb_lines (r @ [(k, v)]) (Some k) ls"
proof -
  obtain l rest where sp: "split_all (CHR 0x0A) v = l # rest" by (cases "split_all (CHR 0x0A) v") auto
  have v: "v = l @ concat (map (\<lambda>y. nl @ y) rest)"
    using join_split_all [of "CHR 0x0A" v] unfolding sp join_concat by (rule sym)
  note k = deb_name_chars [OF assms(1)]
  have colon: "CHR '':'' \<notin> set k" using k alnum_plain by blast
  from k obtain c cs where kc: "k = c # cs" and c: "is_alnum c \<or> c = CHR ''-''" by (cases k) auto
  have nc: "\<not> continuation (k @ x)" for x
    using alnum_plain [OF c] by (auto simp: kc continuation_def startswith_def)
  have part: "partition1 (CHR '':'') (k @ '': '' @ l) = (k, True, CHR '' '' # l)"
    using split1_append [OF colon, of "CHR '' '' # l"] by (simp add: partition1_def)
  have "strip (CHR '' '' # l) = l" using assms(3) sp by (simp add: deb_value_def strip_space_lead)
  then have step: "deb_lines r prev ((k @ '': '' @ l) # x) = deb_lines (r @ [(k, l)]) (Some k) x" for x
    using nc [of "'': '' @ l"] part assms(1,2) by (simp add: update_new del: fullmatch.simps)
  define h where "h = k @ '': '' @ l"
  have eq: "deb_field (k, v) = h # map (\<lambda>x. CHR '' '' # x) rest" by (simp add: deb_field_def sp h_def)
  have "deb_lines r prev (deb_field (k, v) @ ls) = deb_lines r prev (h # (map (\<lambda>x. CHR '' '' # x) rest @ ls))"
    by (simp only: eq append_Cons)
  also have "\<dots> = deb_lines (r @ [(k, l)]) (Some k) (map (\<lambda>x. CHR '' '' # x) rest @ ls)"
    by (rule step [folded h_def])
  also have "\<dots> = deb_lines (r @ [(k, v)]) (Some k) ls"
    using deb_lines_rest [OF assms(2), of l rest ls] by (simp only: v [symmetric])
  finally show ?thesis .
qed

lemma deb_lines_record:
  assumes "distinct (map fst (r @ s))" and "list_all (\<lambda>(k, v). fullmatch deb_name_rx k \<and> deb_value v) s"
    and "r @ s \<noteq> []"
  shows "deb_lines r prev (concat (map deb_field s) @ [] # ls) =
    (case deb_lines [] None ls of (rs, e) \<Rightarrow> ((r @ s) # rs, e))"
  using assms
proof (induction s arbitrary: r prev)
  case Nil
  then show ?case by (simp split: prod.split)
next
  case (Cons p s)
  obtain k v where p: "p = (k, v)" by (cases p)
  have "deb_lines r prev (deb_field (k, v) @ concat (map deb_field s) @ [] # ls) =
    deb_lines (r @ [(k, v)]) (Some k) (concat (map deb_field s) @ [] # ls)"
    using Cons.prems p by (intro deb_lines_field) auto
  then show ?case using Cons.IH [of "r @ [(k, v)]" "Some k"] Cons.prems p by simp
qed

lemma utf8_low: "list_all (\<lambda>c. code c < 128) s \<Longrightarrow> utf8 s = Inr s"
  by (induction s) (simp_all add: code_def)

lemma deb_field_plain:
  assumes "fullmatch deb_name_rx k" and "deb_value v" shows "list_all plain_line (deb_field (k, v))"
proof -
  obtain l rest where sp: "split_all (CHR 0x0A) v = l # rest" by (cases "split_all (CHR 0x0A) v") auto
  have "plain_line k" using deb_name_chars [OF assms(1)] alnum_plain by (auto simp: plain_line_def list_all_iff)
  with assms(2) sp show ?thesis
    by (auto simp: deb_field_def plain_line_def deb_value_def list_all_iff is_break_def code_def)
qed

text \<open>
  C37: The deb822 reader inverts the writer: records with distinct well-formed field names,
  and values of printable lines, are read back exactly, and the reader ends without error.
\<close>

theorem deb822_print:
  assumes "list_all deb_ok rs"
  shows "deb822 (print_deb rs) = (rs, Inr ())"
proof -
  let ?ls = "concat (map deb_record rs)"
  have plain: "list_all plain_line ?ls"
  proof -
    have "list_all plain_line (deb_record r)" if "deb_ok r" for r
    proof -
      have "list_all plain_line (deb_field (k, v))" if "(k, v) \<in> set r" for k v
        using \<open>deb_ok r\<close> that by (intro deb_field_plain) (auto simp: deb_ok_def list_all_iff)
      then show ?thesis by (auto simp: deb_record_def list_all_iff plain_line_def)
    qed
    with assms show ?thesis by (auto simp: list_all_iff)
  qed
  have "list_all (\<lambda>c. code c < 128) (print_deb rs)"
    using plain by (auto simp: print_deb_def list_all_iff plain_line_def code_def)
  then have u: "utf8 (print_deb rs) = Inr (print_deb rs)" by (rule utf8_low)
  have sl: "splitlines (print_deb rs) = ?ls"
    unfolding print_deb_def using plain by (intro splitlines_unlines) (simp add: plain_line_def list_all_iff)
  have "deb_lines [] None ?ls = (rs, Inr ())"
    using assms
  proof (induction rs)
    case (Cons r rs)
    then have "deb_lines [] None (concat (map deb_field r) @ [] # concat (map deb_record rs)) =
      (case deb_lines [] None (concat (map deb_record rs)) of (x, e) \<Rightarrow> (([] @ r) # x, e))"
      by (intro deb_lines_record) (auto simp: deb_ok_def)
    moreover have "deb_lines [] None (concat (map deb_record rs)) = (rs, Inr ())" using Cons by simp
    moreover have "concat (map deb_record (r # rs)) = concat (map deb_field r) @ [] # concat (map deb_record rs)"
      by (simp add: deb_record_def [of r])
    ultimately show ?case by simp
  qed simp
  then show ?thesis by (simp add: deb822_def u sl)
qed

theorem deb822_print_witness:
  "deb822 (print_deb [[(''Package'', ''git''), (''Status'', ''a'' @ nl @ ''b'')]]) =
     ([[(''Package'', ''git''), (''Status'', ''a'' @ nl @ ''b'')]], Inr ())"
  by (rule deb822_print) code_simp

subsection \<open>Simulations\<close>

lemma sim_line_additive:
  assumes "sim_line installed m line = Inr m'"
    and "\<forall>(n, v) \<in> set (m_added m). map_of installed n = None \<and> version (PStr v)" and "distinct (map fst (m_added m))"
  shows "(\<forall>(n, v) \<in> set (m_added m'). map_of installed n = None \<and> version (PStr v)) \<and> distinct (map fst (m_added m'))"
proof -
  have "m_added m' = m_added m \<or> (\<exists>n v. m_added m' = m_added m @ [(n, v)] \<and> map_of installed n = None \<and>
      version (PStr v) \<and> n \<notin> fst ` set (m_added m))"
    using assms(1) unfolding sim_line_def Let_def by (auto simp: res_simps map_of_eq_None_iff simp del: fullmatch.simps split: if_splits)
  with assms(2,3) show ?thesis by auto
qed

text \<open>
  C26: An accepted simulation only adds.  No added package was installed before, each has a
  valid version and is named once, every requested root is satisfied by the exact version,
  added or already installed, and no line of the output announces a removal, an error or a
  warning.
\<close>

theorem simulation_additive:
  assumes "simulation raw installed = Inr added"
  shows "(\<forall>(n, v) \<in> set added. map_of installed n = None \<and> version (PStr v)) \<and> distinct (map fst added) \<and>
    (\<forall>(n, v) \<in> set ROOTS. map_of (added @ installed) n = Some v) \<and>
    (\<forall>text. utf8 raw = Inr text \<longrightarrow> (\<forall>line \<in> set (splitlines text).
       \<not> startswith line ''Remv '' \<and> \<not> startswith line ''Purg '' \<and> \<not> startswith line ''E:'' \<and> \<not> startswith line ''W:''))"
proof -
  let ?m0 = "\<lparr> m_added = [], m_configured = [], m_summary = None \<rparr>"
  from assms obtain tx m where tx: "utf8 raw = Inr tx"
    and fold: "foldE (sim_line installed) ?m0 (splitlines tx) = Inr m" and added: "added = m_added m"
    and roots: "\<forall>x \<in> set ROOTS. (case map_of (m_added m) (fst x) of None \<Rightarrow> map_of installed (fst x) | Some v \<Rightarrow> Some v) = Some (snd x)"
    by (auto simp: simulation_def res_simps split_beta)
  have "(\<forall>(n, v) \<in> set (m_added m). map_of installed n = None \<and> version (PStr v)) \<and> distinct (map fst (m_added m))"
    by (rule foldE_invariant [OF fold]) (simp, blast dest: sim_line_additive)
  moreover have "\<forall>(n, v) \<in> set ROOTS. map_of (added @ installed) n = Some v"
    using roots unfolding added by (fastforce simp: map_add_def split: option.splits)
  moreover have "\<forall>line \<in> set (splitlines tx). \<not> startswith line ''Remv '' \<and> \<not> startswith line ''Purg '' \<and>
      \<not> startswith line ''E:'' \<and> \<not> startswith line ''W:''"
  proof -
    have "\<forall>l \<in> set ls. \<exists>s t. sim_line installed s l = Inr t" if "foldE (sim_line installed) s0 ls = Inr m" for s0 ls
      using that by (induction ls arbitrary: s0) (auto simp: res_simps)
    from this [OF fold] show ?thesis by (auto simp: sim_line_def split: if_splits)
  qed
  ultimately show ?thesis using tx added by simp
qed

text \<open>A simulation on a baseline that has five of the six roots.\<close>

definition demo_simulation :: string where
  "demo_simulation = ''Inst iptables (1.8.11-2 s [arm64])'' @ nl @ ''Conf iptables (1.8.11-2 s [arm64])'' @ nl @
     ''0 upgraded, 1 newly installed, 0 to remove and 0 not upgraded.'' @ nl"

theorem simulation_additive_witness:
  "\<exists>added. simulation demo_simulation (butlast ROOTS) = Inr added \<and>
     (\<forall>(n, v) \<in> set ROOTS. map_of (added @ butlast ROOTS) n = Some v)"
proof -
  have "simulation demo_simulation (butlast ROOTS) = Inr [last ROOTS]" by code_simp
  from simulation_additive [OF this] this show ?thesis by blast
qed

subsection \<open>The input media\<close>

lemma check_entry_Inr:
  assumes "check_entry f media expected actual p = Inr actual'"
  shows "fs_kind f (media @ ''/'' @ p) \<noteq> Some Symlink \<and>
    (if fs_kind f (media @ ''/'' @ p) = Some Directory then actual' = actual
     else p \<in> fst ` set expected \<and> actual' = insert p actual)"
  using assms by (auto simp: check_entry_def Let_def res_simps split: if_splits)

lemma check_entries_Inr:
  "foldE (check_entry f media expected) actual ps = Inr actual' \<Longrightarrow>
   (\<forall>p \<in> set ps. fs_kind f (media @ ''/'' @ p) \<noteq> Some Symlink) \<and>
   actual' = actual \<union> {p \<in> set ps. fs_kind f (media @ ''/'' @ p) \<noteq> Some Directory}"
proof (induction ps arbitrary: actual)
  case (Cons p ps)
  then obtain a where "check_entry f media expected actual p = Inr a"
    and "foldE (check_entry f media expected) a ps = Inr actual'" by (auto simp: res_simps)
  with Cons.IH [of a] check_entry_Inr [of f media expected actual p a] show ?case
    by (auto split: if_splits)
qed simp

text \<open>
  C25: Accepted media hold exactly the declared files.  If \<open>check_inputs\<close> returns, no entry
  of the tree is a symbolic link, the entries that are not directories are exactly the
  declared files and their by-hash copies, and the size and digest of every one of them are
  the declared ones.
\<close>

theorem check_inputs_exact:
  assumes "check_inputs sha f media manifest = Inr ()"
  shows "(\<forall>p \<in> set (fs_walk f media). fs_kind f (media @ ''/'' @ p) \<noteq> Some Symlink) \<and>
    {p \<in> set (fs_walk f media). fs_kind f (media @ ''/'' @ p) \<noteq> Some Directory} = fst ` set (expected_inputs manifest) \<and>
    (\<forall>(p, i) \<in> set (expected_inputs manifest).
       pyeq (blob_value (int (length (fs_bytes f (media @ ''/'' @ p)))) (sha (fs_bytes f (media @ ''/'' @ p)))) i)"
proof -
  let ?e = "expected_inputs manifest"
  from assms obtain actual where fold: "foldE (check_entry f media ?e) {} (fs_walk f media) = Inr actual"
    and eq: "actual = fst ` set ?e"
    and each: "\<forall>x \<in> set ?e. bindE (file_blob sha f (media @ ''/'' @ fst x) (nat (int_of (fld (snd x) ''bytes''))))
      (\<lambda>b. require (pyeq b (snd x)) (''input digest mismatch: '' @ fst x) (Inr ())) = Inr ()"
    by (auto simp: check_inputs_def Let_def res_simps split_beta)
  have "pyeq (blob_value (int (length (fs_bytes f (media @ ''/'' @ p)))) (sha (fs_bytes f (media @ ''/'' @ p)))) i"
    if "(p, i) \<in> set ?e" for p i
  proof -
    from bspec [OF each that] obtain b where "file_blob sha f (media @ ''/'' @ p) (nat (int_of (fld i ''bytes''))) = Inr b"
      and b: "pyeq b i" by (auto simp: bindE_Inr require_Inr)
    then have "b = blob_value (int (length (fs_bytes f (media @ ''/'' @ p)))) (sha (fs_bytes f (media @ ''/'' @ p)))"
      by (auto simp: file_blob_eq bindE_Inr require_Inr regular_def split: if_splits option.splits)
    with b show ?thesis by simp
  qed
  with check_entries_Inr [OF fold] eq show ?thesis by auto
qed

text \<open>Media whose files all hold the same three bytes.\<close>

definition demo_item :: pyval where
  "demo_item = blob_value 3 ''00''"

definition demo_files :: pyval where
  "demo_files = PDict [(''files'', PDict (map (\<lambda>(_, s). (fst (snd (source_paths s)), demo_item)) SOURCES))]"

definition demo_media :: fs where
  "demo_media = \<lparr> fs_resolve = (\<lambda>p. p), fs_kind = (\<lambda>p. Some (if p = ''/m'' then Directory else Regular)),
     fs_bytes = (\<lambda>_. ''abc''), fs_walk = (\<lambda>_. map fst (expected_inputs demo_files)) \<rparr>"

lemma demo_expected: "list_all (\<lambda>(p, i). i = demo_item) (expected_inputs demo_files)"
  by code_simp

lemma check_entries_regular:
  "(\<And>p. p \<in> set ps \<Longrightarrow> fs_kind f (media @ ''/'' @ p) = Some Regular \<and> p \<in> fst ` set expected) \<Longrightarrow>
   foldE (check_entry f media expected) actual ps = Inr (actual \<union> set ps)"
  by (induction ps arbitrary: actual) (simp_all add: check_entry_def Let_def)

theorem check_inputs_exact_witness:
  "set (fs_walk demo_media ''/m'') = fst ` set (expected_inputs demo_files) \<and>
   check_inputs (\<lambda>_. ''00'') demo_media ''/m'' demo_files = Inr ()"
proof -
  have fold: "foldE (check_entry demo_media ''/m'' (expected_inputs demo_files)) {} (fs_walk demo_media ''/m'') =
      Inr ({} \<union> set (fs_walk demo_media ''/m''))"
    by (rule check_entries_regular) (simp add: demo_media_def)
  have blb: "file_blob (\<lambda>_. ''00'') demo_media (''/m/'' @ p) 3 = Inr demo_item" for p
    by (simp add: file_blob_eq regular_def demo_media_def startswith_def demo_item_def)
  have "\<forall>(p, i) \<in> set (expected_inputs demo_files). bindE (file_blob (\<lambda>_. ''00'') demo_media (''/m'' @ ''/'' @ p)
      (nat (int_of (fld i ''bytes'')))) (\<lambda>b. require (pyeq b i) (''input digest mismatch: '' @ p) (Inr ())) = Inr ()"
  proof (intro ballI, clarify)
    fix p i assume "(p, i) \<in> set (expected_inputs demo_files)"
    then have i: "i = demo_item" using demo_expected by (auto simp: list_all_iff)
    have "nat (int_of (fld demo_item ''bytes'')) = 3" "pyeq demo_item demo_item"
      by (simp_all add: demo_item_def blob_value_def)
    then show "bindE (file_blob (\<lambda>_. ''00'') demo_media (''/m'' @ ''/'' @ p) (nat (int_of (fld i ''bytes''))))
      (\<lambda>b. require (pyeq b i) (''input digest mismatch: '' @ p) (Inr ())) = Inr ()"
      using blb [of p] by (simp add: i)
  qed
  then have run: "check_inputs (\<lambda>_. ''00'') demo_media ''/m'' demo_files = Inr ()"
    using fold unfolding check_inputs_def Let_def
    by (auto simp: demo_media_def startswith_def eachE_Inr split_beta)
  from check_inputs_exact [OF run] show ?thesis using run by (auto simp: demo_media_def)
qed

subsection \<open>The blocked result\<close>

lemma blocked_length:
  assumes "length nonce = 32" and "length m = 64"
  shows "length (encode fr (blocked_result nonce m)) \<le> RESULT_LIMIT"
proof -
  have "length (dumps fr (blocked_result nonce m)) \<le> 3000"
    unfolding blocked_result_def
    by (rule order_trans [OF length_dumps_dict])
       (use length_quote [of nonce] length_quote [of m] length_quote [of SCOPE] length_quote [of UUID]
          length_quote [of STOP] length_quote [of "''blocked''"] assms
        in \<open>simp add: SCOPE_def UUID_def STOP_def show_int_def show_nat.simps\<close>)
  then show ?thesis by (simp add: encode_def RESULT_LIMIT_def MIB_def)
qed

text \<open>
  C38: The result of a closed entry point is a valid document: for every nonce and digest,
  encoding the blocked result and validating it against the same binding gives it back.
\<close>

theorem blocked_result_valid:
  assumes "hex_string 32 nonce" and "hex_string 64 m"
  shows "validate_result (encode fr (blocked_result nonce m)) nonce m = Inr (blocked_result nonce m)"
proof -
  have "length (encode fr (blocked_result nonce m)) \<le> RESULT_LIMIT"
    using assms by (intro blocked_length) (simp_all add: hex_string_def)
  moreover have "json_ok json_depth (blocked_result nonce m)"
    by (simp add: blocked_result_def json_depth_def int_ok_small)
  ultimately have "decode (encode fr (blocked_result nonce m)) RESULT_LIMIT = Inr (blocked_result nonce m)"
    by (intro decode_enc)
  moreover have "check_result (blocked_result nonce m) nonce m = Inr (blocked_result nonce m)"
    using assms by (simp add: check_result_def blocked_result_def check_fields_def has_fields_def result_fields_def
        result_binding_def result_closed_def result_state_def step_labels_def digest_def STOP_def)
  ultimately show ?thesis by (simp add: validate_result_def)
qed

theorem blocked_result_valid_witness:
  "validate_result (encode (\<lambda>_. []) (blocked_result (replicate 32 CHR ''0'') (replicate 64 CHR ''a'')))
     (replicate 32 CHR ''0'') (replicate 64 CHR ''a'') = Inr (blocked_result (replicate 32 CHR ''0'') (replicate 64 CHR ''a''))"
  by (rule blocked_result_valid) (simp_all add: hex_string_def is_hex_def is_digit_def list_all_iff)

subsection \<open>The configuration dump\<close>

lemma lang_lit: "lang (lit s) = {s}"
  by (induction s rule: lit.induct) auto

lemma fullmatch_cats: "fullmatch a u \<Longrightarrow> fullmatch (cats (r # rs)) v \<Longrightarrow> fullmatch (cats (a # r # rs)) (u @ v)"
  unfolding fullmatch_lang by auto

lemma fullmatch_lit: "fullmatch (lit s) s"
  by (simp add: fullmatch_lang lang_lit)

definition dump_key :: "string \<Rightarrow> bool" where
  "dump_key k = (k \<noteq> [] \<and> list_all (\<lambda>c. is_alnum c \<or> one_of ''/.:_+-'' c) k)"

definition dump_value :: "string \<Rightarrow> bool" where
  "dump_value v = list_all (\<lambda>c. c \<noteq> CHR 0x22 \<and> c \<noteq> CHR 0x5C \<and> \<not> is_break c \<and> code c < 128) v"

text \<open>The line of one setting without its line break.\<close>

definition setting_line :: "string \<times> string \<Rightarrow> string" where
  "setting_line = (\<lambda>(k, v). k @ '' '' @ dq @ v @ dq @ '';'')"

lemma setting_line_match: "dump_key k \<Longrightarrow> dump_value v \<Longrightarrow> fullmatch dump_rx (setting_line (k, v))"
proof -
  assume k: "dump_key k" and v: "dump_value v"
  have "fullmatch (Rep (Cls (\<lambda>c. c \<noteq> CHR 0x22 \<and> c \<noteq> CHR 0x5C))) v"
    using v by (auto simp: fullmatch_Rep_Cls dump_value_def list_all_iff)
  moreover have "fullmatch (cats [lit (dq @ '';'')]) (dq @ '';'')" unfolding cats.simps by (rule fullmatch_lit)
  ultimately have "fullmatch (cats [Rep (Cls (\<lambda>c. c \<noteq> CHR 0x22 \<and> c \<noteq> CHR 0x5C)), lit (dq @ '';'')]) (v @ dq @ '';'')"
    by (rule fullmatch_cats)
  then have "fullmatch (cats [lit ('' '' @ dq), Rep (Cls (\<lambda>c. c \<noteq> CHR 0x22 \<and> c \<noteq> CHR 0x5C)), lit (dq @ '';'')])
      (('' '' @ dq) @ (v @ dq @ '';''))" by (rule fullmatch_cats [OF fullmatch_lit])
  moreover have "fullmatch (plus (Cls (\<lambda>c. is_alnum c \<or> one_of ''/.:_+-'' c))) k"
    unfolding fullmatch_plus_Cls using k by (simp add: dump_key_def)
  ultimately have "fullmatch dump_rx (k @ ('' '' @ dq) @ (v @ dq @ '';''))" unfolding dump_rx_def by (rule fullmatch_cats [rotated])
  then show ?thesis by (simp add: setting_line_def)
qed

lemma dump_key_chars: "dump_key k \<Longrightarrow> c \<in> set k \<Longrightarrow> c \<noteq> CHR '' '' \<and> c \<noteq> CHR 0x22 \<and> \<not> is_break c \<and> code c < 128"
  by (auto simp: dump_key_def list_all_iff one_of_def is_alnum_def is_digit_def is_lower_def is_upper_def is_break_def code_def)

lemma setting_line_parts:
  assumes "dump_key k" and "dump_value v"
  shows "takeWhile (\<lambda>c. c \<noteq> CHR '' '') (setting_line (k, v)) = k"
    and "takeWhile (\<lambda>c. c \<noteq> CHR 0x22) (tl (dropWhile (\<lambda>c. c \<noteq> CHR 0x22) (setting_line (k, v)))) = v"
proof -
  have k: "\<And>c. c \<in> set k \<Longrightarrow> c \<noteq> CHR '' ''" "\<And>c. c \<in> set k \<Longrightarrow> c \<noteq> CHR 0x22"
    using dump_key_chars [OF assms(1)] by blast+
  have v: "\<And>c. c \<in> set v \<Longrightarrow> c \<noteq> CHR 0x22" using assms(2) by (auto simp: dump_value_def list_all_iff)
  show "takeWhile (\<lambda>c. c \<noteq> CHR '' '') (setting_line (k, v)) = k"
    unfolding setting_line_def prod.case using k(1) by (subst takeWhile_append2) auto
  show "takeWhile (\<lambda>c. c \<noteq> CHR 0x22) (tl (dropWhile (\<lambda>c. c \<noteq> CHR 0x22) (setting_line (k, v)))) = v"
    unfolding setting_line_def prod.case using k(2) v
    by (subst dropWhile_append2) (auto simp: takeWhile_append2)
qed

text \<open>A key, with its lower-case form, that no guard of the dump reader refuses.\<close>

definition lower_safe :: "string \<Rightarrow> string \<Rightarrow> bool" where
  "lower_safe k l = (dump_key k \<and> \<not> startswith l ''binary::'' \<and> \<not> startswith l ''dpkg::options'' \<and>
     \<not> infix_of ''pre-invoke'' l \<and> \<not> infix_of ''post-invoke'' l \<and> \<not> infix_of ''pre-install-pkgs'' l \<and>
     \<not> fullmatch proxy_rx l \<and> (\<not> startswith l ''acquire::indextargets::'' \<or>
       startswith k ''Acquire::IndexTargets::''))"

definition setting_safe :: "string \<Rightarrow> bool" where
  "setting_safe k = lower_safe k (lower k)"

lemma dump_fold:
  assumes "distinct (map (lower \<circ> fst) (done @ s))" and "set s \<subseteq> set settings"
    and "\<forall>(k, v) \<in> set s. setting_safe k \<and> dump_value v"
  shows "foldE (dump_line settings) (map (\<lambda>(k, v). (lower k, v)) done) (map setting_line s) =
    Inr (map (\<lambda>(k, v). (lower k, v)) (done @ s))"
  using assms
proof (induction s arbitrary: "done")
  case (Cons p s)
  obtain k v where p: "p = (k, v)" by (cases p)
  from Cons.prems p have safe: "setting_safe k" and val: "dump_value v" and mem: "(k, v) \<in> set settings"
    by auto
  then have key: "dump_key k" by (simp add: setting_safe_def lower_safe_def)
  have new: "lower k \<notin> fst ` set (map (\<lambda>(k, v). (lower k, v)) done)"
    using Cons.prems(1) p by (force simp: image_iff)
  have idx: "startswith k ''Acquire::IndexTargets::'' \<Longrightarrow>
      lower k \<in> lower ` set (filter (\<lambda>k. startswith k ''Acquire::IndexTargets::'') (map fst settings))"
    using mem by (intro imageI) force
  have "dump_line settings (map (\<lambda>(k, v). (lower k, v)) done) (setting_line (k, v)) =
      Inr (map (\<lambda>(k, v). (lower k, v)) (done @ [p]))"
    using safe new p idx unfolding dump_line_def Let_def setting_line_parts [OF key val]
    by (auto simp: setting_line_match [OF key val] setting_safe_def lower_safe_def require_def simp del: fullmatch.simps)
  moreover have "foldE (dump_line settings) (map (\<lambda>(k, v). (lower k, v)) (done @ [p])) (map setting_line s) =
      Inr (map (\<lambda>(k, v). (lower k, v)) ((done @ [p]) @ s))"
    using Cons.prems by (intro Cons.IH) auto
  ultimately show ?case using p by simp
qed simp

text \<open>
  A configuration is accepted when the tool reports it unchanged: for settings whose
  case-insensitive names differ, with printable values and names that are no hook, option
  override, proxy or foreign index target, the dump that prints exactly these settings, one
  per line in the syntax of the generated file, passes \<open>validate_config_dump\<close>.
\<close>

lemma config_dump_accepted:
  assumes "distinct (map (lower \<circ> fst) settings)" and "\<forall>(k, v) \<in> set settings. setting_safe k \<and> dump_value v"
  shows "validate_config_dump (concat (map setting_text settings)) settings = Inr ()"
proof -
  let ?s = settings
  have line: "setting_text p = setting_line p @ nl" for p by (simp add: setting_text_def setting_line_def split: prod.split)
  have plain: "list_all (\<lambda>c. \<not> is_break c \<and> code c < 128) (setting_line p)" if "p \<in> set ?s" for p
  proof -
    obtain k v where p: "p = (k, v)" by (cases p)
    have "dump_key k" "dump_value v" using assms(2) that p by (auto simp: setting_safe_def lower_safe_def)
    then have "list_all (\<lambda>c. \<not> is_break c \<and> code c < 128) k" "list_all (\<lambda>c. \<not> is_break c \<and> code c < 128) v"
      by (auto simp: list_all_iff dump_value_def dest: dump_key_chars)
    moreover have "list_all (\<lambda>c. \<not> is_break c \<and> code c < 128) ('' '' @ dq)" "list_all (\<lambda>c. \<not> is_break c \<and> code c < 128) (dq @ '';'')"
      by code_simp+
    ultimately show ?thesis by (simp add: p setting_line_def)
  qed
  have eq: "concat (map setting_text ?s) = concat (map (\<lambda>l. l @ nl) (map setting_line ?s))"
    by (simp add: line [abs_def] comp_def)
  have lines: "splitlines (concat (map setting_text ?s)) = map setting_line ?s"
    unfolding eq using plain by (intro splitlines_unlines) (auto simp: list_all_iff)
  have "list_all (\<lambda>c. code c < 128) (concat (map setting_text ?s))"
    using plain by (auto simp: line list_all_iff code_def)
  then have u: "utf8 (concat (map setting_text ?s)) = Inr (concat (map setting_text ?s))" by (rule utf8_low)
  from dump_fold [of "[]" ?s ?s] assms
  have fold: "foldE (dump_line ?s) [] (map setting_line ?s) = Inr (map (\<lambda>(k, v). (lower k, v)) ?s)" by simp
  have "map_of (map (\<lambda>(k, v). (lower k, v)) ?s) (lower k) = Some v" if "(k, v) \<in> set ?s" for k v
    using that assms(1) by (intro map_of_is_SomeI) (force simp: comp_def split_beta)+
  then show ?thesis unfolding validate_config_dump_def u bindE_simps lines fold
    by (auto simp: eachE_Inr require_def)
qed

text \<open>
  What an accepted dump guarantees: every setting the scripts generate is in force, under
  its case-insensitive name, and no key with a value names a hook or a proxy.
\<close>

lemma config_dump_effective:
  assumes "validate_config_dump raw settings = Inr ()"
  shows "\<exists>parsed. distinct (map fst parsed) \<and> (\<forall>(k, v) \<in> set settings. map_of parsed (lower k) = Some v) \<and>
    (\<forall>(k, v) \<in> set parsed. v = [] \<or> \<not> (startswith k ''binary::'' \<or> startswith k ''dpkg::options'' \<or>
       infix_of ''pre-invoke'' k \<or> infix_of ''post-invoke'' k \<or> infix_of ''pre-install-pkgs'' k \<or> fullmatch proxy_rx k))"
proof -
  let ?ok = "\<lambda>parsed. distinct (map fst parsed) \<and> (\<forall>(k, v) \<in> set parsed. v = [] \<or>
      \<not> (startswith k ''binary::'' \<or> startswith k ''dpkg::options'' \<or> infix_of ''pre-invoke'' k \<or>
         infix_of ''post-invoke'' k \<or> infix_of ''pre-install-pkgs'' k \<or> fullmatch proxy_rx k))"
  from assms obtain tx parsed where fold: "foldE (dump_line settings) [] (splitlines tx) = Inr parsed"
    and eff: "\<forall>x \<in> set settings. map_of parsed (lower (fst x)) = Some (snd x)"
    by (auto simp: validate_config_dump_def res_simps split_beta)
  have "?ok parsed"
  proof (rule foldE_invariant [OF fold, where I = ?ok])
    show "?ok []" by simp
  next
    fix line s t assume "?ok s" and "dump_line settings s line = Inr t"
    then show "?ok t" unfolding dump_line_def Let_def
      by (auto simp: res_simps simp del: fullmatch.simps)
  qed
  with eff show ?thesis by (intro exI [of _ parsed]) (auto simp: split_beta)
qed

end
