(* ===== verification/AptRun.thy ===== *)
theory AptRun
  imports AptText AptResult Effects
begin

text \<open>
  The bounded runner (\<open>run_bounded\<close>): it streams the two outputs of a tool under byte
  budgets, a deadline and cancellation, then kills and reaps the process group.  The
  kernel and the process are an environment over an arbitrary world.
\<close>

subsection \<open>Environment\<close>

datatype stream = Stdout | Stderr

datatype kill_result = Delivered | NoProcess | KillError string

record 'w run_env =
  x_clock :: "'w \<Rightarrow> rat \<times> 'w"
  x_cancelled :: "'w \<Rightarrow> bool \<times> 'w"
  x_signal :: "'w \<Rightarrow> int option \<times> 'w"
  x_popen :: "'w \<Rightarrow> unit res \<times> 'w"
  x_poll :: "'w \<Rightarrow> int option \<times> 'w"
  x_select :: "rat \<Rightarrow> 'w \<Rightarrow> stream list res \<times> 'w"
  x_read :: "stream \<Rightarrow> nat \<Rightarrow> 'w \<Rightarrow> string res \<times> 'w"
  x_killpg :: "bool \<Rightarrow> 'w \<Rightarrow> kill_result \<times> 'w"
  x_wait :: "rat \<Rightarrow> 'w \<Rightarrow> int option \<times> 'w"
  x_sleep :: "rat \<Rightarrow> 'w \<Rightarrow> 'w"

record 'w run =
  u_world :: 'w
  u_started :: bool
  u_open :: "stream list"
  u_buffer :: "stream \<Rightarrow> string"
  u_failure :: "string option"
  u_cleanup_errors :: "string list"
  u_exit :: "int option"
  u_kills :: "(bool \<times> kill_result) list"

definition see :: "('w \<Rightarrow> 'a \<times> 'w) \<Rightarrow> ('w run, 'a) act" where
  "see f = (\<lambda>s. let (x, w) = f (u_world s) in (Inr x, s\<lparr>u_world := w\<rparr>))"

definition try_call :: "('w \<Rightarrow> 'a res \<times> 'w) \<Rightarrow> ('w run, 'a) act" where
  "try_call f = (\<lambda>s. let (r, w) = f (u_world s) in (r, s\<lparr>u_world := w\<rparr>))"

definition killpg :: "'w run_env \<Rightarrow> bool \<Rightarrow> ('w run, kill_result) act" where
  "killpg e final = (\<lambda>s. let (k, w) = x_killpg e final (u_world s) in
     (Inr k, s\<lparr>u_world := w, u_kills := u_kills s @ [(final, k)]\<rparr>))"

definition fail_run :: "string \<Rightarrow> ('w run, unit) act" where
  "fail_run m = upd (\<lambda>s. s\<lparr>u_failure := Some m\<rparr>)"

definition run_error :: "string \<Rightarrow> ('w run, unit) act" where
  "run_error m = upd (\<lambda>s. s\<lparr>u_cleanup_errors := u_cleanup_errors s @ [m]\<rparr>)"

subsection \<open>The streaming loop\<close>

fun stream_name :: "stream \<Rightarrow> string" where
  "stream_name Stdout = ''stdout''" | "stream_name Stderr = ''stderr''"

definition append_bytes :: "stream \<Rightarrow> string \<Rightarrow> ('w run, unit) act" where
  "append_bytes n c = upd (\<lambda>s. s\<lparr>u_buffer := (u_buffer s)(n := u_buffer s n @ c)\<rparr>)"

text \<open>One pass over the ready streams; \<open>True\<close> when a budget was exceeded.\<close>

fun read_ready :: "'w run_env \<Rightarrow> (stream \<Rightarrow> nat) \<Rightarrow> stream list \<Rightarrow> ('w run, bool) act" where
  "read_ready e limits [] = ret False"
| "read_ready e limits (n # ns) =
     bnd (get u_buffer) (\<lambda>b.
     let budget = limits n - length (b n) in
     bnd (try_call (x_read e n (min 65536 (budget + 1)))) (\<lambda>chunk.
     if chunk = [] then
       sqn (upd (\<lambda>s. s\<lparr>u_open := remove1 n (u_open s)\<rparr>)) (read_ready e limits ns)
     else if length chunk > budget then
       sqn (append_bytes n (take budget chunk)) (sqn (fail_run (stream_name n @ ''-limit'')) (ret True))
     else
       sqn (append_bytes n chunk) (read_ready e limits ns)))"

fun stream_loop :: "nat \<Rightarrow> 'w run_env \<Rightarrow> (stream \<Rightarrow> nat) \<Rightarrow> rat \<Rightarrow> ('w run, unit) act" where
  "stream_loop 0 e limits deadline = lft (Inl OutOfFuel)"
| "stream_loop (Suc fuel) e limits deadline =
     bnd (get u_open) (\<lambda>streams.
     bnd (if streams \<noteq> [] then ret True else bnd (see (x_poll e)) (\<lambda>c. ret (c = None))) (\<lambda>go.
     if \<not> go then ret () else
     bnd (see (x_signal e)) (\<lambda>sg.
     bnd (if sg \<noteq> None then ret True else see (x_cancelled e)) (\<lambda>stop.
     if stop then
       fail_run (case sg of None \<Rightarrow> ''cancelled'' | Some n \<Rightarrow> ''cancelled-signal-'' @ show_int n)
     else
     bnd (see (x_clock e)) (\<lambda>t.
     if deadline - t \<le> 0 then fail_run ''deadline'' else
     bnd (try_call (x_select e (min (deadline - t) (1 / 20)))) (\<lambda>ready.
     bnd (read_ready e limits ready) (\<lambda>over.
     if over then ret () else stream_loop fuel e limits deadline)))))))"

subsection \<open>Killing the group\<close>

fun gone_loop :: "nat \<Rightarrow> 'w run_env \<Rightarrow> rat \<Rightarrow> ('w run, unit) act" where
  "gone_loop 0 e until = lft (Inl OutOfFuel)"
| "gone_loop (Suc fuel) e until =
     bnd (killpg e False) (\<lambda>k.
     case k of NoProcess \<Rightarrow> ret () | KillError m \<Rightarrow> run_error m
     | Delivered \<Rightarrow>
         bnd (see (x_clock e)) (\<lambda>t.
         if until \<le> t then run_error ''process group still present''
         else sqn (upd (\<lambda>s. s\<lparr>u_world := x_sleep e (1 / 50) (u_world s)\<rparr>)) (gone_loop fuel e until)))"

definition kill_group :: "nat \<Rightarrow> 'w run_env \<Rightarrow> rat \<Rightarrow> ('w run, unit) act" where
  "kill_group fuel e cleanup_seconds =
     bnd (see (x_poll e)) (\<lambda>code.
     bnd (killpg e False) (\<lambda>k0.
     sqn (case k0 of NoProcess \<Rightarrow> ret () | KillError m \<Rightarrow> run_error m
          | Delivered \<Rightarrow>
              sqn (bnd (get u_failure) (\<lambda>f. whenA (code \<noteq> None \<and> (f = None \<or> f = Some [])) (fail_run ''descendants-remained'')))
                (bnd (killpg e True) (\<lambda>k. case k of KillError m \<Rightarrow> run_error m | _ \<Rightarrow> ret ()))) (
     sqn (bnd (see (x_wait e cleanup_seconds)) (\<lambda>c.
            case c of None \<Rightarrow> run_error ''leader wait timeout'' | Some n \<Rightarrow> upd (\<lambda>s. s\<lparr>u_exit := Some n\<rparr>))) (
     bnd (see (x_clock e)) (\<lambda>t. gone_loop fuel e (t + cleanup_seconds))))))"

subsection \<open>The runner\<close>

record run_result =
  rr_exit_code :: "int option"
  rr_stdout :: string
  rr_stderr :: string
  rr_failure :: "string option"
  rr_cleanup_errors :: "string list"

definition run_start :: "'w \<Rightarrow> 'w run" where
  "run_start w = \<lparr> u_world = w, u_started = False, u_open = [], u_buffer = (\<lambda>_. []), u_failure = None,
     u_cleanup_errors = [], u_exit = None, u_kills = [] \<rparr>"

definition run_result_of :: "'w run \<Rightarrow> run_result" where
  "run_result_of s = \<lparr> rr_exit_code = u_exit s, rr_stdout = u_buffer s Stdout, rr_stderr = u_buffer s Stderr,
     rr_failure = u_failure s, rr_cleanup_errors = u_cleanup_errors s \<rparr>"

definition run_streams :: "nat \<Rightarrow> 'w run_env \<Rightarrow> (stream \<Rightarrow> nat) \<Rightarrow> rat \<Rightarrow> ('w run, unit) act" where
  "run_streams fuel e limits deadline = (\<lambda>s.
     case sqn (try_call (x_popen e))
            (sqn (upd (\<lambda>s. s\<lparr>u_started := True, u_open := [Stdout, Stderr]\<rparr>)) (stream_loop fuel e limits deadline)) s of
       (Inl e, s') \<Rightarrow>
         (if is_oserror e then (Inr (), s'\<lparr>u_failure := Some (exn_name e @ '': '' @ exn_str e)\<rparr>) else (Inl e, s'))
     | (r, s') \<Rightarrow> (r, s'))"

definition run_bounded ::
    "nat \<Rightarrow> 'w run_env \<Rightarrow> rat \<Rightarrow> nat \<Rightarrow> nat \<Rightarrow> rat \<Rightarrow> ('w run, run_result) act" where
  "run_bounded fuel e timeout stdout_limit stderr_limit cleanup_seconds =
     sqn (ensure (0 < timeout) ''invalid execution budget'') (
     bnd (see (x_cancelled e)) (\<lambda>c.
     if c then sqn (fail_run ''cancelled'') (get run_result_of) else
     bnd (see (x_clock e)) (\<lambda>t.
     let limits = (\<lambda>n. case n of Stdout \<Rightarrow> stdout_limit | Stderr \<Rightarrow> stderr_limit) in
     sqn (try_finally (run_streams fuel e limits (t + timeout))
           (bnd (get u_started) (\<lambda>b. whenA b (kill_group fuel e cleanup_seconds)))) (
     sqn (bnd (see (x_signal e)) (\<lambda>sg. bnd (get u_failure) (\<lambda>f.
           case sg of None \<Rightarrow> ret ()
           | Some n \<Rightarrow> whenA (f = None \<or> f = Some []) (fail_run (''cancelled-signal-'' @ show_int n))))) (
     get run_result_of)))))"

end
