(* ===== verification/AptPrepare.thy ===== *)
theory AptPrepare
  imports AptRun
begin

text \<open>
  The staged preparation (\<open>exercise_preparation\<close>): the order of the tool runs, the evidence
  budget, the checks between them, and the postflight check of the baseline.  The runner,
  the file system, the clock and the decompressors are an environment over an arbitrary
  world; every tool run leaves one step in the state.
\<close>

subsection \<open>Environment and state\<close>

text \<open>
  A decompressor object: \<open>decompress(chunk, max_length)\<close>, and its attributes \<open>eof\<close>,
  \<open>unused_data\<close>, \<open>needs_input\<close>, \<open>unconsumed_tail\<close>.
\<close>

record 'd decoder =
  d_new :: "string \<Rightarrow> 'd"
  d_step :: "'d \<Rightarrow> string \<Rightarrow> nat \<Rightarrow> (string \<times> 'd) res"
  d_eof :: "'d \<Rightarrow> bool"
  d_unused :: "'d \<Rightarrow> string"
  d_needs_input :: "'d \<Rightarrow> bool"
  d_tail :: "'d \<Rightarrow> string"

record 'w prep_env =
  q_clock :: "'w \<Rightarrow> rat \<times> 'w"
  q_cancelled :: "'w \<Rightarrow> bool \<times> 'w"
  q_fs :: "'w \<Rightarrow> fs \<times> 'w"
  q_now :: "'w \<Rightarrow> int \<times> 'w"
  q_runner :: "string list \<Rightarrow> rat \<Rightarrow> nat \<Rightarrow> 'w \<Rightarrow> run_result res \<times> 'w"
  q_save :: "string \<Rightarrow> string \<Rightarrow> 'w \<Rightarrow> unit res \<times> 'w"
  q_mkdir :: "string \<Rightarrow> 'w \<Rightarrow> unit res \<times> 'w"
  q_write :: "string \<Rightarrow> string \<Rightarrow> 'w \<Rightarrow> unit res \<times> 'w"
  q_sha :: "string \<Rightarrow> string"
  q_pdate :: "string \<Rightarrow> (bool \<times> int) res"
  q_show_float :: "rat \<Rightarrow> string"

record 'w prep =
  p_world :: 'w
  p_retained :: nat
  p_steps :: "pyval list"
  p_added :: "(string \<times> string) list"
  p_passed :: bool
  p_failure :: "string option"

definition look :: "('w \<Rightarrow> 'a \<times> 'w) \<Rightarrow> ('w prep, 'a) act" where
  "look f = (\<lambda>s. let (x, w) = f (p_world s) in (Inr x, s\<lparr>p_world := w\<rparr>))"

definition attempt :: "('w \<Rightarrow> 'a res \<times> 'w) \<Rightarrow> ('w prep, 'a) act" where
  "attempt f = (\<lambda>s. let (r, w) = f (p_world s) in (r, s\<lparr>p_world := w\<rparr>))"

definition checkpoint :: "'w prep_env \<Rightarrow> rat \<Rightarrow> ('w prep, unit) act" where
  "checkpoint e deadline =
     bnd (look (q_cancelled e)) (\<lambda>c. sqn (ensure (\<not> c) ''cancelled'') (
     bnd (look (q_clock e)) (\<lambda>t. ensure (t < deadline) ''guest preparation deadline'')))"

subsection \<open>Compressed indices\<close>

fun unpack_chunk :: "nat \<Rightarrow> ('s, unit) act \<Rightarrow> 'd decoder \<Rightarrow> string \<Rightarrow> nat \<Rightarrow> string \<Rightarrow> 'd \<times> string \<Rightarrow> ('s, 'd \<times> string) act" where
  "unpack_chunk 0 chk D codec limit chunk st = lft (Inl OutOfFuel)"
| "unpack_chunk (Suc n) chk D codec limit chunk (d, seen) =
     sqn chk (
     bnd (lft (d_step D d chunk (min 65536 (limit - length seen + 1)))) (\<lambda>(out, d').
     sqn (ensure (length (seen @ out) \<le> limit) ''uncompressed index limit'') (
     if d_eof D d' then sqn (ensure (d_unused D d' = []) ''trailing compressed bytes'') (ret (d', seen @ out))
     else if codec = ''xz'' then
       (if d_needs_input D d' then ret (d', seen @ out) else unpack_chunk n chk D codec limit [] (d', seen @ out))
     else if d_tail D d' = [] then ret (d', seen @ out)
     else unpack_chunk n chk D codec limit (d_tail D d') (d', seen @ out))))"

definition unpacked_blob ::
    "(string \<Rightarrow> string) \<Rightarrow> nat \<Rightarrow> ('s, unit) act \<Rightarrow> 'd decoder \<Rightarrow> fs \<Rightarrow> string \<Rightarrow> string \<Rightarrow> nat \<Rightarrow> ('s, pyval) act" where
  "unpacked_blob sha fuel chk D f path codec limit =
     bnd (lft (regular f path)) (\<lambda>p.
     bnd (foldA (\<lambda>(d, seen) chunk.
              sqn (ensure (\<not> d_eof D d) ''trailing compressed stream'') (unpack_chunk fuel chk D codec limit chunk (d, seen)))
            (d_new D codec, []) (chunks 65536 (fs_bytes f p))) (\<lambda>(d, seen).
     sqn (ensure (d_eof D d) ''truncated compressed index'') (ret (blob_value (int (length seen)) (sha seen)))))"

subsection \<open>The baseline\<close>

definition tool_record :: "pyval \<Rightarrow> string \<Rightarrow> pyval" where
  "tool_record manifest name = fld (fld (fld manifest ''baseline'') ''tools'') name"

definition baseline_entry :: "'w prep_env \<Rightarrow> pyval \<Rightarrow> string \<times> string \<Rightarrow> ('w prep, unit) act" where
  "baseline_entry e manifest = (\<lambda>(name, path).
     let expected = fld (fld manifest ''baseline'') name in
     bnd (look (q_fs e)) (\<lambda>f.
     if expected = PNone then ensure (fs_kind f path = None) (''baseline presence changed: '' @ name)
     else bnd (lft (file_blob (q_sha e) f path (16 * MIB))) (\<lambda>b.
       ensure (pyeq b expected) (''baseline changed: '' @ name))))"

definition tool_entry :: "'w prep_env \<Rightarrow> pyval \<Rightarrow> string \<times> string \<Rightarrow> ('w prep, unit) act" where
  "tool_entry e manifest = (\<lambda>(name, path).
     bnd (look (q_fs e)) (\<lambda>f.
     bnd (lft (file_blob (q_sha e) f path (64 * MIB))) (\<lambda>b.
     ensure (fld b ''sha256'' = fld (tool_record manifest name) ''sha256'') (''tool binary changed: '' @ name))))"

definition baseline_check ::
    "'w prep_env \<Rightarrow> pyval \<Rightarrow> (string \<times> string) list \<Rightarrow> (string \<times> string) list \<Rightarrow> ('w prep, unit) act" where
  "baseline_check e manifest baseline_paths tool_paths =
     sqn (eachA (baseline_entry e manifest) baseline_paths) (eachA (tool_entry e manifest) tool_paths)"

subsection \<open>One tool run\<close>

definition step_value :: "string \<Rightarrow> run_result \<Rightarrow> pyval" where
  "step_value label out = PDict
     [(''exit_code'', case rr_exit_code out of None \<Rightarrow> PNone | Some n \<Rightarrow> PInt n),
      (''failure'', case rr_failure out of None \<Rightarrow> PNone | Some m \<Rightarrow> PStr m),
      (''cleanup_errors'', PList (map PStr (rr_cleanup_errors out))), (''label'', PStr label)]"

definition save_stream :: "'w prep_env \<Rightarrow> string \<Rightarrow> string \<Rightarrow> nat \<Rightarrow> ('w prep, unit) act" where
  "save_stream e name data limit =
     sqn (ensure (length data \<le> limit) ''runner stream contract violated'') (
     sqn (attempt (q_save e name data)) (
     upd (\<lambda>s. s\<lparr>p_retained := p_retained s + length data\<rparr>)))"

definition run_command ::
    "'w prep_env \<Rightarrow> rat \<Rightarrow> string \<Rightarrow> string list \<Rightarrow> rat \<Rightarrow> ('w prep, string) act" where
  "run_command e deadline label argv seconds =
     sqn (checkpoint e deadline) (
     bnd (get p_retained) (\<lambda>retained.
     sqn (ensure (65536 + retained \<le> 7 * MIB) ''aggregate tool evidence limit'') (
     let out_limit = min RESULT_LIMIT (7 * MIB - retained - 65536) in
     bnd (look (q_clock e)) (\<lambda>t.
     bnd (attempt (q_runner e argv (min seconds (deadline - t)) out_limit)) (\<lambda>out.
     sqn (save_stream e (label @ ''.stdout'') (rr_stdout out) out_limit) (
     sqn (save_stream e (label @ ''.stderr'') (rr_stderr out) 65536) (
     sqn (upd (\<lambda>s. s\<lparr>p_steps := p_steps s @ [step_value label out]\<rparr>)) (
     sqn (ensure (rr_failure out = None \<and> rr_cleanup_errors out = [] \<and> rr_exit_code out = Some 0)
            (label @ '': tool failed; inspect retained streams'')) (
     sqn (ensure (rr_stderr out = [] \<or> startswith label ''key-'' \<or> startswith label ''verify-'')
            (label @ '': unexpected stderr; inspect retained stream'')) (
     sqn (checkpoint e deadline) (ret (rr_stdout out))))))))))))"

subsection \<open>The stages\<close>

definition work_dirs :: "string list" where
  "work_dirs = [''home'', ''tmp'', ''gnupg'', ''verified'', ''empty'', ''state/lists/partial'', ''cache/archives/partial'', ''log'']"

definition owner_stage :: "'w prep_env \<Rightarrow> rat \<Rightarrow> pyval \<Rightarrow> string \<times> string \<Rightarrow> ('w prep, unit) act" where
  "owner_stage e deadline manifest = (\<lambda>(name, owner).
     bnd (run_command e deadline (''owner-'' @ name) [''/usr/bin/dpkg-query'', ''-S'', ''/usr/bin/'' @ name] 30) (\<lambda>out.
     sqn (ensure (out = owner @ '': /usr/bin/'' @ name @ nl) ''tool ownership mismatch'') (
     bnd (run_command e deadline (''version-'' @ name)
            [''/usr/bin/dpkg-query'', ''-W'', ''-f=${Version}'' @ [CHR 0x5C, CHR ''n''], owner] 30) (\<lambda>out.
     ensure (out = str_of (fld (tool_record manifest name) ''version'') @ nl) ''tool version mismatch''))))"

definition source_stage ::
    "nat \<Rightarrow> 'd decoder \<Rightarrow> 'w prep_env \<Rightarrow> rat \<Rightarrow> pyval \<Rightarrow> string \<Rightarrow> string \<Rightarrow> string \<times> source \<Rightarrow> ('w prep, unit) act" where
  "source_stage fuel D e deadline manifest input work = (\<lambda>(name, spec).
     case source_paths spec of (release, index, key) \<Rightarrow>
     bnd (run_command e deadline (''key-'' @ name)
            [''/usr/bin/gpg'', ''--no-options'', ''--batch'', ''--no-autostart'', ''--disable-dirmngr'', ''--homedir'',
             work @ ''/gnupg'', ''--with-colons'', ''--with-fingerprint'', ''--with-subkey-fingerprint'', ''--show-keys'',
             input @ ''/'' @ key] 30) (\<lambda>listing.
     bnd (lft (key_fingerprints listing (so_fingerprint spec))) (\<lambda>_.
     let authenticated = work @ ''/verified/'' @ name @ ''.Release'' in
     bnd (run_command e deadline (''verify-'' @ name)
            [''/usr/bin/sqv'', ''--keyring'', input @ ''/'' @ key, ''--signatures'', ''1'', ''--cleartext'', ''--output'',
             authenticated, input @ ''/'' @ release] 30) (\<lambda>_.
     bnd (look (q_fs e)) (\<lambda>f.
     bnd (lft (read_bounded f authenticated MIB)) (\<lambda>raw.
     bnd (look (q_now e)) (\<lambda>now.
     bnd (lft (release_index (q_pdate e) raw spec now)) (\<lambda>(compressed, unpacked).
     sqn (ensure (pyeq compressed (fld (fld manifest ''files'') index)) ''authenticated compressed index mismatch'') (
     bnd (look (q_fs e)) (\<lambda>f.
     bnd (unpacked_blob (q_sha e) fuel (checkpoint e deadline) D f (input @ ''/'' @ index) (so_codec spec)
            (nat (int_of (fld unpacked ''bytes'')))) (\<lambda>b.
     ensure (pyeq b unpacked) ''authenticated uncompressed index mismatch'')))))))))))"

text \<open>The body of the \<open>try\<close> block.\<close>

definition copy_baseline :: "'w prep_env \<Rightarrow> pyval \<Rightarrow> (string \<times> string) list \<Rightarrow> string \<Rightarrow> string \<Rightarrow> ('w prep, unit) act" where
  "copy_baseline e manifest baseline_paths work name =
     bnd (if fld (fld manifest ''baseline'') name = PNone then ret []
          else bnd (look (q_fs e)) (\<lambda>f. lft (read_bounded f (the (map_of baseline_paths name)) (16 * MIB)))) (\<lambda>data.
     attempt (q_write e (work @ ''/'' @ name) data))"

definition prepare_body ::
    "nat \<Rightarrow> 'd decoder \<Rightarrow> 'w prep_env \<Rightarrow> rat \<Rightarrow> pyval \<Rightarrow> (string \<times> string) list \<Rightarrow> (string \<times> string) list \<Rightarrow>
     string \<Rightarrow> string \<Rightarrow> ('w prep, unit) act" where
  "prepare_body fuel D e deadline manifest baseline_paths tool_paths input work =
     sqn (checkpoint e deadline) (
     bnd (look (q_fs e)) (\<lambda>f.
     sqn (lft (check_inputs (q_sha e) f input manifest)) (
     sqn (baseline_check e manifest baseline_paths tool_paths) (
     sqn (eachA (\<lambda>d. attempt (q_mkdir e (work @ ''/'' @ d))) work_dirs) (
     bnd (run_command e deadline ''native-arch'' [''/usr/bin/dpkg'', ''--print-architecture''] 30) (\<lambda>out.
     sqn (ensure (out = ''arm64'' @ nl) ''wrong native architecture'') (
     bnd (run_command e deadline ''foreign-arch'' [''/usr/bin/dpkg'', ''--print-foreign-architectures''] 30) (\<lambda>out.
     sqn (ensure (out = []) ''foreign architecture'') (
     sqn (eachA (owner_stage e deadline manifest) TOOLS) (
     bnd (look (q_fs e)) (\<lambda>f.
     bnd (lft (bindE (read_bounded f (the (map_of baseline_paths ''status'')) (16 * MIB)) installed_packages)) (\<lambda>installed.
     sqn (eachA (copy_baseline e manifest baseline_paths work) [''status'', ''extended_states'']) (
     bnd (look (q_fs e)) (\<lambda>f.
     bnd (lft (apt_files f input work installed)) (\<lambda>(generated, settings).
     sqn (eachA (\<lambda>(name, content). attempt (q_write e (work @ ''/'' @ name) content)) generated) (
     sqn (eachA (source_stage fuel D e deadline manifest input work) SOURCES) (
     bnd (run_command e deadline ''apt-config'' [''/usr/bin/apt-config'', ''dump''] 30) (\<lambda>dump.
     sqn (lft (validate_config_dump dump settings)) (
     sqn (run_command e deadline ''apt-update'' [''/usr/bin/apt-get'', ''--error-on=any'', ''update''] 150) (
     bnd (run_command e deadline ''apt-simulate''
            ([''/usr/bin/apt-get'', ''-s'', ''--no-download'', ''--no-install-recommends'', ''--no-remove'', ''-o'',
              ''APT::Install-Suggests=false'', ''install''] @ map (\<lambda>(n, v). n @ ''='' @ v) ROOTS) 150) (\<lambda>out.
     bnd (lft (simulation out installed)) (\<lambda>added.
     sqn (upd (\<lambda>s. s\<lparr>p_added := added\<rparr>)) (
     bnd (look (q_fs e)) (\<lambda>f.
     sqn (lft (check_inputs (q_sha e) f input manifest)) (
     sqn (checkpoint e deadline) (
     upd (\<lambda>s. s\<lparr>p_passed := True\<rparr>)))))))))))))))))))))))))))"

subsection \<open>The whole preparation\<close>

definition prep_value :: "string \<Rightarrow> string \<Rightarrow> 'w prep \<Rightarrow> pyval" where
  "prep_value nonce manifest_sha256 s = PDict
    [(''schema_version'', PInt 1), (''scope'', PStr SCOPE), (''nonce'', PStr nonce), (''uuid'', PStr UUID),
     (''manifest_sha256'', PStr manifest_sha256), (''i5_ready'', PBool False), (''install_authorized'', PBool False),
     (''passed'', PBool (p_passed s)), (''signature_verified'', PBool False), (''apt_resolved'', PBool False),
     (''failure'', case p_failure s of None \<Rightarrow> PNone | Some m \<Rightarrow> PStr m), (''evidence_kind'', PStr ''synthetic''),
     (''steps'', PList (p_steps s)), (''added'', PDict (map (\<lambda>(n, v). (n, PStr v)) (p_added s)))]"

text \<open>
  \<open>except (OSError, ValueError, RuntimeError, KeyError, lzma.LZMAError, zlib.error)\<close>, whose last two
  classes are named \<open>LZMAError\<close> and \<open>error\<close>, and \<open>except (OSError, ValueError)\<close>.
\<close>

definition prep_caught :: "exn \<Rightarrow> bool" where
  "prep_caught x = (case x of KeyError _ \<Rightarrow> True | OtherError n _ \<Rightarrow> n \<in> {''LZMAError'', ''error''} | _ \<Rightarrow> caught x)"

definition postflight_caught :: "exn \<Rightarrow> bool" where
  "postflight_caught x = (is_oserror x \<or> (case x of ValueError _ \<Rightarrow> True | _ \<Rightarrow> False))"

definition postflight :: "('w prep, unit) act \<Rightarrow> ('w prep, unit) act" where
  "postflight check =
     sqn (handle_if postflight_caught check (\<lambda>x. upd (\<lambda>s. s\<lparr>p_failure := Some
            ((case p_failure s of None \<Rightarrow> [] | Some [] \<Rightarrow> [] | Some m \<Rightarrow> m @ ''; '') @ ''postflight: '' @ exn_str x)\<rparr>))) (
     bnd (get p_failure) (\<lambda>f. whenA (f \<noteq> None \<and> f \<noteq> Some []) (upd (\<lambda>s. s\<lparr>p_passed := False\<rparr>))))"

definition is_relative_to :: "string \<Rightarrow> string \<Rightarrow> bool" where
  "is_relative_to p q = (p = q \<or> startswith p (q @ ''/''))"

definition prepare_paths :: "fs \<Rightarrow> (string \<times> string) list \<Rightarrow> (string \<times> string) list \<Rightarrow> string \<Rightarrow> string \<Rightarrow> unit res" where
  "prepare_paths f baseline_paths tool_paths input work =
     require (fst ` set baseline_paths = fst ` set BASE_PATHS \<and> fst ` set tool_paths = fst ` set TOOLS)
       ''complete baseline paths required'' (
     require (startswith work ''/'' \<and> fs_resolve f work = work \<and> fs_kind f work = None \<and>
              \<not> is_relative_to work input \<and> \<not> is_relative_to input work) ''fresh disjoint workspace required'' (Inr ()))"

definition evidence_path :: "fs \<Rightarrow> string \<Rightarrow> string \<Rightarrow> unit res" where
  "evidence_path f evidence input =
     require (startswith evidence ''/'' \<and> fs_resolve f evidence = evidence \<and> fs_kind f evidence = Some Directory \<and>
              \<not> is_relative_to evidence input \<and> \<not> is_relative_to input evidence)
       ''canonical disjoint evidence directory required'' (Inr ())"

definition exercise_preparation ::
    "nat \<Rightarrow> 'd decoder \<Rightarrow> 'w prep_env \<Rightarrow> string \<Rightarrow> string \<Rightarrow> string \<Rightarrow> string \<Rightarrow>
     (string \<times> string) list \<Rightarrow> (string \<times> string) list \<Rightarrow> string option \<Rightarrow> ('w prep, pyval) act" where
  "exercise_preparation fuel D e raw nonce input work baseline_paths tool_paths evidence_root =
     bnd (lft (validate_manifest raw nonce)) (\<lambda>manifest.
     let sha = q_sha e raw in
     bnd (look (q_clock e)) (\<lambda>t0. let deadline = t0 + GUEST_SECONDS in
     bnd (look (q_fs e)) (\<lambda>f.
     sqn (lft (prepare_paths f baseline_paths tool_paths input work)) (
     sqn (attempt (q_mkdir e work)) (
     bnd (look (q_fs e)) (\<lambda>f.
     sqn (lft (evidence_path f (case evidence_root of None \<Rightarrow> work | Some p \<Rightarrow> p) input)) (
     let check = baseline_check e manifest baseline_paths tool_paths in
     sqn (try_finally
            (handle_if prep_caught (prepare_body fuel D e deadline manifest baseline_paths tool_paths input work)
               (\<lambda>x. upd (\<lambda>s. s\<lparr>p_failure := Some (exn_str x)\<rparr>)))
            (postflight check)) (
     bnd (get (prep_value nonce sha)) (\<lambda>v.
     sqn (lft (validate_result (dumps_spaced (q_show_float e) v) nonce sha)) (
     sqn (attempt (q_save e ''result.json'' (dumps_indent (q_show_float e) 0 v @ nl))) (
     ret v)))))))))))"

definition prep_start :: "'w \<Rightarrow> 'w prep" where
  "prep_start w = \<lparr> p_world = w, p_retained = 0, p_steps = [], p_added = [], p_passed = False, p_failure = None \<rparr>"

end
