(* ===== verification/AptPrepareProps.thy ===== *)
theory AptPrepareProps
  imports AptPrepare
begin

text \<open>
  Properties of the bounded runner and of the staged preparation, for every environment:
  no stream exceeds its budget, a clean run has seen its process group vanish, the tool
  runs happen in the fixed order and stop at the first failure, and the retained evidence
  stays within seven MiB.
\<close>

subsection \<open>The stream budgets\<close>

definition in_budget :: "(stream \<Rightarrow> nat) \<Rightarrow> 'w run \<Rightarrow> bool" where
  "in_budget limits s = (\<forall>n. length (u_buffer s n) \<le> limits n)"

definition kept :: "(stream \<Rightarrow> nat) \<Rightarrow> 'w run \<Rightarrow> 'w run \<Rightarrow> bool" where
  "kept limits s t = (in_budget limits s \<longrightarrow> in_budget limits t)"

interpretation kept: state_order "kept limits" for limits
  by unfold_locales (auto simp: kept_def)

lemma kept_prims:
  "keeps (kept limits) (see f)" "keeps (kept limits) (try_call g)" "keeps (kept limits) (killpg e b)"
  "keeps (kept limits) (fail_run m)" "keeps (kept limits) (run_error m)"
  by (auto simp: keeps_def kept_def in_budget_def see_def try_call_def killpg_def fail_run_def run_error_def upd_def
      split: prod.splits)

lemma read_ready_kept: "keeps (kept limits) (read_ready e limits ns)"
  unfolding keeps_def kept_def
proof (intro allI impI)
  fix s :: "'a run" assume "in_budget limits s"
  then show "in_budget limits (snd (read_ready e limits ns s))"
  proof (induction ns arbitrary: s)
    case Nil
    then show ?case by simp
  next
    case (Cons n ns)
    obtain r w where r: "x_read e n (min 65536 (limits n - length (u_buffer s n) + 1)) (u_world s) = (r, w)"
      by (cases "x_read e n (min 65536 (limits n - length (u_buffer s n) + 1)) (u_world s)")
    have wb: "\<And>k. length (u_buffer s k) \<le> limits k" using Cons.prems by (simp add: in_budget_def)
    show ?case
    proof (cases r)
      case (Inl x)
      then show ?thesis using r wb by (simp add: bnd_def get_def try_call_def Let_def in_budget_def)
    next
      case (Inr chunk)
      consider "chunk = []" | "chunk \<noteq> []" "length chunk > limits n - length (u_buffer s n)"
        | "chunk \<noteq> []" "length chunk \<le> limits n - length (u_buffer s n)" by linarith
      then show ?thesis
      proof cases
        case 1
        have "in_budget limits (s\<lparr>u_world := w, u_open := remove1 n (u_open s)\<rparr>)" using wb by (simp add: in_budget_def)
        from Cons.IH [OF this] show ?thesis using r Inr 1
          by (simp add: bnd_def sqn_def get_def try_call_def Let_def upd_def)
      next
        case 2
        then show ?thesis using r Inr wb
          by (simp add: bnd_def sqn_def get_def try_call_def Let_def upd_def append_bytes_def fail_run_def ret_def in_budget_def)
      next
        case 3
        have fits: "length (u_buffer s n) + length chunk \<le> limits n" using wb [of n] 3 by linarith
        have "in_budget limits (s\<lparr>u_world := w, u_buffer := (u_buffer s)(n := u_buffer s n @ chunk)\<rparr>)"
          using wb fits by (simp add: in_budget_def)
        from Cons.IH [OF this] show ?thesis using r Inr 3
          by (simp add: bnd_def sqn_def get_def try_call_def Let_def upd_def append_bytes_def)
      qed
    qed
  qed
qed

lemmas kept_intros = kept.keeps_intros kept.keeps_branches kept_prims read_ready_kept

lemma kept_stream_loop: "keeps (kept limits) (stream_loop fuel e limits deadline)"
proof (induction fuel)
  case (Suc fuel)
  show ?case
    unfolding stream_loop.simps by (intro kept_intros Suc)
qed (simp only: stream_loop.simps kept.keeps_lft)

lemma kept_kill_group: "keeps (kept limits) (kill_group fuel e c)"
proof -
  have gone: "keeps (kept limits) (gone_loop n e u)" for n u
  proof (induction n)
    case (Suc n)
    have sleep: "keeps (kept limits) (upd (\<lambda>s. s\<lparr>u_world := x_sleep e (1 / 50) (u_world s)\<rparr>))"
      by (rule kept.keeps_upd) (simp add: kept_def in_budget_def)
    note kill = kept.keeps_bnd [OF kept_prims(3)]
    show ?case unfolding gone_loop.simps
    proof (rule kill)
      fix k
      have "keeps (kept limits) (bnd (see (x_clock e)) (\<lambda>t. if u \<le> t then run_error ''process group still present''
         else sqn (upd (\<lambda>s. s\<lparr>u_world := x_sleep e (1 / 50) (u_world s)\<rparr>)) (gone_loop n e u)))"
        by (intro kept_intros Suc sleep)
      then show "keeps (kept limits) (case k of NoProcess \<Rightarrow> ret () | KillError m \<Rightarrow> run_error m
        | Delivered \<Rightarrow> bnd (see (x_clock e)) (\<lambda>t. if u \<le> t then run_error ''process group still present''
         else sqn (upd (\<lambda>s. s\<lparr>u_world := x_sleep e (1 / 50) (u_world s)\<rparr>)) (gone_loop n e u)))"
        by (auto intro: kept_intros split: kill_result.split)
    qed
  qed (simp only: gone_loop.simps kept.keeps_lft)
  have "keeps (kept limits) (upd (\<lambda>s. s\<lparr>u_exit := x\<rparr>))" for x
    by (rule kept.keeps_upd) (simp add: kept_def in_budget_def)
  then show ?thesis unfolding kill_group_def
    by (auto intro!: kept_intros gone split: kill_result.split option.split)
qed

lemma kept_run_streams: "keeps (kept limits) (run_streams fuel e limits d)"
proof -
  have "keeps (kept limits) (upd (\<lambda>s. s\<lparr>u_started := True, u_open := [Stdout, Stderr]\<rparr>))"
    by (rule kept.keeps_upd) (simp add: kept_def in_budget_def)
  then have inner: "keeps (kept limits) (sqn (try_call (x_popen e))
      (sqn (upd (\<lambda>s. s\<lparr>u_started := True, u_open := [Stdout, Stderr]\<rparr>)) (stream_loop fuel e limits d)))"
    by (intro kept_intros kept_stream_loop)
  show ?thesis unfolding keeps_def
  proof
    fix s
    obtain r t where m: "sqn (try_call (x_popen e))
      (sqn (upd (\<lambda>s. s\<lparr>u_started := True, u_open := [Stdout, Stderr]\<rparr>)) (stream_loop fuel e limits d)) s = (r, t)"
      by (cases "sqn (try_call (x_popen e))
        (sqn (upd (\<lambda>s. s\<lparr>u_started := True, u_open := [Stdout, Stderr]\<rparr>)) (stream_loop fuel e limits d)) s")
    from keepsD [OF inner m] show "kept limits s (snd (run_streams fuel e limits d s))"
      unfolding run_streams_def m by (auto simp: kept_def in_budget_def split: sum.split)
  qed
qed

lemma run_bounded_buffers:
  "\<forall>n. length (u_buffer (snd (run_bounded fuel e timeout out_limit err_limit c (run_start w))) n)
     \<le> (case n of Stdout \<Rightarrow> out_limit | Stderr \<Rightarrow> err_limit)"
proof -
  let ?limits = "\<lambda>n. case n of Stdout \<Rightarrow> out_limit | Stderr \<Rightarrow> err_limit"
  have "keeps (kept ?limits) (run_bounded fuel e timeout out_limit err_limit c)"
    unfolding run_bounded_def Let_def
    by (auto intro!: kept_intros kept_run_streams kept_kill_group split: option.split)
  moreover have "in_budget ?limits (run_start w)" by (simp add: in_budget_def run_start_def)
  ultimately show ?thesis by (auto simp: keeps_def kept_def in_budget_def)
qed

lemma run_bounded_result:
  "run_bounded fuel e timeout ol el c s = (Inr v, t) \<Longrightarrow> v = run_result_of t"
  by (auto simp: run_bounded_def Let_def act_simps split: if_splits)

text \<open>
  The runner never keeps more bytes of a stream than its budget: whatever the tool, the
  kernel and the clock do, a returned result has at most \<open>stdout_limit\<close> bytes of output and
  at most \<open>stderr_limit\<close> bytes of errors.
\<close>

lemma run_bounded_budget:
  "case fst (run_bounded fuel e timeout stdout_limit stderr_limit cleanup_seconds (run_start w)) of
     Inl _ \<Rightarrow> True
   | Inr v \<Rightarrow> length (rr_stdout v) \<le> stdout_limit \<and> length (rr_stderr v) \<le> stderr_limit"
proof -
  obtain r t where rt: "run_bounded fuel e timeout stdout_limit stderr_limit cleanup_seconds (run_start w) = (r, t)"
    by (cases "run_bounded fuel e timeout stdout_limit stderr_limit cleanup_seconds (run_start w)")
  show ?thesis
  proof (cases r)
    case (Inr v)
    with rt have "v = run_result_of t" by (auto dest: run_bounded_result)
    with run_bounded_buffers [of fuel e timeout stdout_limit stderr_limit cleanup_seconds w] rt Inr show ?thesis
      by (auto simp: run_result_of_def dest: spec [of _ Stdout] spec [of _ Stderr])
  qed (simp add: rt)
qed

subsection \<open>The order of the stages\<close>

definition labels :: "pyval list \<Rightarrow> pyval list" where
  "labels es = map (\<lambda>s. fld s ''label'') es"

text \<open>
  \<open>stages ls m\<close>: a successful \<open>m\<close> has run exactly the tools \<open>ls\<close>, each without failure;
  a failed one has run a prefix of them, at most the last with a failure.
\<close>

definition stages :: "string list \<Rightarrow> ('w prep, 'a) act \<Rightarrow> bool" where
  "stages ls m = (\<forall>s. \<exists>es. p_steps (snd (m s)) = p_steps s @ es \<and>
     (if isl (fst (m s)) then prefix (labels es) (map PStr ls) \<and> list_all step_ok (butlast es)
      else labels es = map PStr ls \<and> list_all step_ok es))"

lemma stages_bnd:
  assumes m: "stages a m" and f: "\<And>x. stages b (f x)"
  shows "stages (a @ b) (bnd m f)"
  unfolding stages_def
proof
  fix s
  obtain r t where r: "m s = (r, t)" by (cases "m s")
  from m r obtain es where es: "p_steps t = p_steps s @ es"
    "if isl r then prefix (labels es) (map PStr a) \<and> list_all step_ok (butlast es)
     else labels es = map PStr a \<and> list_all step_ok es"
    unfolding stages_def by (metis fst_conv snd_conv)
  show "\<exists>es. p_steps (snd (bnd m f s)) = p_steps s @ es \<and>
     (if isl (fst (bnd m f s)) then prefix (labels es) (map PStr (a @ b)) \<and> list_all step_ok (butlast es)
      else labels es = map PStr (a @ b) \<and> list_all step_ok es)"
  proof (cases r)
    case (Inl x)
    with es r show ?thesis by (intro exI [of _ es]) (auto intro: prefix_order.trans)
  next
    case (Inr x)
    from f [of x] obtain es' where es': "p_steps (snd (f x t)) = p_steps t @ es'"
      "if isl (fst (f x t)) then prefix (labels es') (map PStr b) \<and> list_all step_ok (butlast es')
       else labels es' = map PStr b \<and> list_all step_ok es'"
      unfolding stages_def by meson
    have "list_all step_ok (butlast es') \<Longrightarrow> list_all step_ok es \<Longrightarrow> list_all step_ok (butlast (es @ es'))"
      by (auto simp: butlast_append list_all_iff dest: in_set_butlastD)
    with es es' r Inr show ?thesis by (intro exI [of _ "es @ es'"]) (auto simp: labels_def split: if_splits)
  qed
qed

lemma stages_sqn: "stages a m \<Longrightarrow> stages b k \<Longrightarrow> stages (a @ b) (sqn m k)"
  by (simp add: sqn_def stages_bnd)

text \<open>A computation that runs no tool.\<close>

definition no_step :: "'w prep \<Rightarrow> 'w prep \<Rightarrow> bool" where
  "no_step s t = (p_steps t = p_steps s)"

interpretation no_step: state_order no_step
  by unfold_locales (simp_all add: no_step_def)

lemma no_step_prims: "keeps no_step (look f)" "keeps no_step (attempt g)"
  by (auto simp: keeps_def no_step_def look_def attempt_def split: prod.splits)

lemma no_step_checkpoint: "keeps no_step (checkpoint e d)"
  unfolding checkpoint_def by (intro no_step.keeps_intros no_step_prims)

lemmas no_step_intros = no_step.keeps_intros no_step.keeps_branches no_step_prims no_step_checkpoint

lemma no_step_unpack: "keeps no_step (unpack_chunk n (checkpoint e dl) D c l ch st)"
proof (induction n arbitrary: ch st)
  case (Suc n)
  show ?case by (cases st) (simp only: unpack_chunk.simps, intro no_step_intros Suc)
qed (simp only: unpack_chunk.simps no_step.keeps_lft)

lemma no_step_unpacked: "keeps no_step (unpacked_blob sha n (checkpoint e dl) D f p c l)"
proof -
  have "keeps no_step ((case b of (d, seen) \<Rightarrow> \<lambda>chunk. sqn (ensure (\<not> d_eof D d) m)
      (unpack_chunk n (checkpoint e dl) D c l chunk (d, seen))) x)" for b x m
    by (cases b) (simp, intro no_step_intros no_step_unpack)
  then show ?thesis unfolding unpacked_blob_def by (intro no_step_intros)
qed

lemma no_step_baseline: "keeps no_step (baseline_check e m bp tp)"
  unfolding baseline_check_def baseline_entry_def tool_entry_def by (intro no_step_intros)

lemma stages_none: "keeps no_step m \<Longrightarrow> stages [] m"
  unfolding stages_def keeps_def no_step_def by (auto simp: labels_def intro!: exI [of _ "[]"])

lemma stages_skip: "keeps no_step m \<Longrightarrow> stages ls k \<Longrightarrow> stages ls (sqn m k)"
  using stages_sqn [OF stages_none, of m ls k] by simp

lemma stages_get: "keeps no_step m \<Longrightarrow> (\<And>x. stages ls (f x)) \<Longrightarrow> stages ls (bnd m f)"
  using stages_bnd [OF stages_none, of m ls f] by simp

lemma stages_then: "stages [a] m \<Longrightarrow> (\<And>x. stages ls (f x)) \<Longrightarrow> stages (a # ls) (bnd m f)"
  using stages_bnd [of "[a]" m ls f] by simp

lemma stages_then_sqn: "stages [a] m \<Longrightarrow> stages ls k \<Longrightarrow> stages (a # ls) (sqn m k)"
  using stages_sqn [of "[a]" m ls k] by simp

lemma stages_eachA: "(\<And>x. stages (g x) (f x)) \<Longrightarrow> stages (concat (map g xs)) (eachA f xs)"
proof (induction xs)
  case Nil
  show ?case by (simp only: eachA.simps list.map concat.simps stages_none no_step.keeps_ret)
qed (simp add: stages_sqn)

lemma no_step_upd: "(\<And>s. p_steps (f s) = p_steps s) \<Longrightarrow> keeps no_step (upd f)"
  by (rule no_step.keeps_upd) (simp add: no_step_def)

lemma no_step_save: "keeps no_step (save_stream e n d l)"
  unfolding save_stream_def by (intro no_step_intros no_step_upd) simp

lemma stages_run_command: "stages [label] (run_command e d label argv t)"
proof -
  have one: "stages [label] (sqn (upd (\<lambda>s. s\<lparr>p_steps := p_steps s @ [step_value label out]\<rparr>)) (
      sqn (ensure (rr_failure out = None \<and> rr_cleanup_errors out = [] \<and> rr_exit_code out = Some 0) m1) (
      sqn (ensure c m2) (sqn (checkpoint e d) (ret (rr_stdout out))))))" for out c m1 m2
    unfolding stages_def
  proof
    fix s
    define k where "k = sqn (ensure c m2) (sqn (checkpoint e d) (ret (rr_stdout out)))"
    have "keeps no_step k" unfolding k_def by (intro no_step_intros)
    then have k: "p_steps (snd (k t)) = p_steps t" for t by (simp add: keeps_def no_step_def)
    have "fld (step_value label out) ''label'' = PStr label" by (simp add: step_value_def)
    moreover have "rr_failure out = None \<and> rr_cleanup_errors out = [] \<and> rr_exit_code out = Some 0 \<Longrightarrow> step_ok (step_value label out)"
      by (simp add: step_value_def step_ok_def)
    ultimately have "\<exists>es. p_steps (snd (sqn (upd (\<lambda>s. s\<lparr>p_steps := p_steps s @ [step_value label out]\<rparr>)) (
        sqn (ensure (rr_failure out = None \<and> rr_cleanup_errors out = [] \<and> rr_exit_code out = Some 0) m1) k) s)) = p_steps s @ es \<and>
       (if isl (fst (sqn (upd (\<lambda>s. s\<lparr>p_steps := p_steps s @ [step_value label out]\<rparr>)) (
          sqn (ensure (rr_failure out = None \<and> rr_cleanup_errors out = [] \<and> rr_exit_code out = Some 0) m1) k) s))
        then prefix (labels es) (map PStr [label]) \<and> list_all step_ok (butlast es)
        else labels es = map PStr [label] \<and> list_all step_ok es)"
      by (intro exI [of _ "[step_value label out]"])
        (auto simp: sqn_def bnd_def upd_def ensure_def labels_def k)
    then show "\<exists>es. p_steps (snd (sqn (upd (\<lambda>s. s\<lparr>p_steps := p_steps s @ [step_value label out]\<rparr>)) (
        sqn (ensure (rr_failure out = None \<and> rr_cleanup_errors out = [] \<and> rr_exit_code out = Some 0) m1)
          (sqn (ensure c m2) (sqn (checkpoint e d) (ret (rr_stdout out))))) s)) = p_steps s @ es \<and>
       (if isl (fst (sqn (upd (\<lambda>s. s\<lparr>p_steps := p_steps s @ [step_value label out]\<rparr>)) (
          sqn (ensure (rr_failure out = None \<and> rr_cleanup_errors out = [] \<and> rr_exit_code out = Some 0) m1)
            (sqn (ensure c m2) (sqn (checkpoint e d) (ret (rr_stdout out))))) s))
        then prefix (labels es) (map PStr [label]) \<and> list_all step_ok (butlast es)
        else labels es = map PStr [label] \<and> list_all step_ok es)"
      unfolding k_def .
  qed
  show ?thesis unfolding run_command_def Let_def
    by (intro stages_skip stages_get one no_step_intros no_step_save)
qed

text \<open>Peeling one statement off a stage.\<close>

lemma stages_run: "(\<And>x. stages ls (f x)) \<Longrightarrow> stages (label # ls) (bnd (run_command e d label argv t) f)"
  by (rule stages_then [OF stages_run_command])

lemma stages_runs: "stages ls k \<Longrightarrow> stages (label # ls) (sqn (run_command e d label argv t) k)"
  by (rule stages_then_sqn [OF stages_run_command])

lemma stages_look: "(\<And>x. stages ls (f x)) \<Longrightarrow> stages ls (bnd (look g) f)"
  by (rule stages_get [OF no_step_prims(1)])

lemma stages_lft: "(\<And>x. stages ls (f x)) \<Longrightarrow> stages ls (bnd (lft r) f)"
  by (rule stages_get [OF no_step.keeps_lft])

lemma stages_ensure: "stages ls k \<Longrightarrow> stages ls (sqn (ensure c m) k)"
  by (rule stages_skip [OF no_step.keeps_ensure])

lemma stages_check: "stages ls k \<Longrightarrow> stages ls (sqn (lft r) k)"
  by (rule stages_skip [OF no_step.keeps_lft])

lemma stages_pair: "(\<And>a b. stages ls (f a b)) \<Longrightarrow> stages ls (case x of (a, b) \<Rightarrow> f a b)"
  by (cases x) simp

lemma stages_ends: "stages [] (ensure c m)"
  by (rule stages_none [OF no_step.keeps_ensure])

lemmas stages_intros = stages_run stages_runs stages_look stages_lft stages_ensure stages_check stages_pair stages_ends

lemma stages_owner: "stages [''owner-'' @ fst p, ''version-'' @ fst p] (owner_stage e d m p)"
  unfolding owner_stage_def by (cases p) (simp only: prod.case fst_conv, intro stages_intros)

lemma stages_source: "stages [''key-'' @ fst p, ''verify-'' @ fst p] (source_stage n D e d m i w p)"
proof (cases p)
  case (Pair name spec)
  obtain a b c where sp: "source_paths spec = (a, b, c)" by (cases "source_paths spec")
  show ?thesis unfolding source_stage_def Pair Let_def
    by (simp only: prod.case fst_conv sp, intro stages_intros stages_get [OF no_step_unpacked])
qed

lemma step_labels_split:
  "STEP_LABELS = ''native-arch'' # ''foreign-arch'' #
     (concat (map (\<lambda>p. [''owner-'' @ fst p, ''version-'' @ fst p]) TOOLS) @
      (concat (map (\<lambda>p. [''key-'' @ fst p, ''verify-'' @ fst p]) SOURCES) @
       [''apt-config'', ''apt-update'', ''apt-simulate'']))"
  unfolding STEP_LABELS_def split_def by (simp only: append.simps)

lemma stages_body: "stages STEP_LABELS (prepare_body n D e d m bp tp i w)"
proof -
  have dirs: "keeps no_step (eachA (\<lambda>x. attempt (q_mkdir e (w @ ''/'' @ x))) xs)" for xs
    by (intro no_step_intros)
  have copy: "keeps no_step (eachA (copy_baseline e m bp w) xs)" for xs
    unfolding copy_baseline_def by (intro no_step_intros)
  have files: "keeps no_step (eachA (\<lambda>(name, content). attempt (q_write e (w @ ''/'' @ name) content)) xs)" for xs
    by (intro no_step_intros)
  have added: "keeps no_step (upd (\<lambda>s. s\<lparr>p_added := x\<rparr>))" "keeps no_step (upd (\<lambda>s. s\<lparr>p_passed := True\<rparr>))" for x
    by (intro no_step_upd, simp)+
  show ?thesis unfolding prepare_body_def step_labels_split
    by (rule stages_skip [OF no_step_checkpoint], intro stages_intros stages_skip [OF no_step_baseline]
        stages_skip [OF dirs] stages_sqn [OF stages_eachA [OF stages_owner]] stages_skip [OF copy]
        stages_skip [OF files] stages_sqn [OF stages_eachA [OF stages_source]] stages_skip [OF added(1)]
        stages_skip [OF no_step_checkpoint] stages_none [OF added(2)])
qed

subsection \<open>When the result passes\<close>

definition same_passed :: "'w prep \<Rightarrow> 'w prep \<Rightarrow> bool" where
  "same_passed s t = (p_passed t = p_passed s)"

interpretation same_passed: state_order same_passed
  by unfold_locales (simp_all add: same_passed_def)

lemma same_passed_prims: "keeps same_passed (look f)" "keeps same_passed (attempt g)"
  by (auto simp: keeps_def same_passed_def look_def attempt_def split: prod.splits)

lemma same_passed_upd: "(\<And>s. p_passed (f s) = p_passed s) \<Longrightarrow> keeps same_passed (upd f)"
  by (rule same_passed.keeps_upd) (simp add: same_passed_def)

lemmas same_passed_intros = same_passed.keeps_intros same_passed.keeps_branches same_passed_prims

lemma same_passed_checkpoint: "keeps same_passed (checkpoint e d)"
  unfolding checkpoint_def by (intro same_passed_intros)

lemma same_passed_run_command: "keeps same_passed (run_command e d l a t)"
  unfolding run_command_def save_stream_def
  by (intro same_passed_intros same_passed_checkpoint same_passed_upd; simp)

lemma same_passed_unpack: "keeps same_passed (unpack_chunk n (checkpoint e dl) D c l ch st)"
proof (induction n arbitrary: ch st)
  case (Suc n)
  show ?case by (cases st) (simp only: unpack_chunk.simps, intro same_passed_intros same_passed_checkpoint Suc)
qed (simp only: unpack_chunk.simps same_passed.keeps_lft)

lemma same_passed_unpacked: "keeps same_passed (unpacked_blob sha n (checkpoint e dl) D f p c l)"
proof -
  have "keeps same_passed ((case b of (d, seen) \<Rightarrow> \<lambda>chunk. sqn (ensure (\<not> d_eof D d) m)
      (unpack_chunk n (checkpoint e dl) D c l chunk (d, seen))) x)" for b x m
    by (cases b) (simp, intro same_passed_intros same_passed_unpack)
  then show ?thesis unfolding unpacked_blob_def by (intro same_passed_intros)
qed

lemma same_passed_baseline: "keeps same_passed (baseline_check e m bp tp)"
  unfolding baseline_check_def baseline_entry_def tool_entry_def by (intro same_passed_intros)

lemma same_passed_stages:
  "keeps same_passed (owner_stage e d m p)" "keeps same_passed (source_stage n D e d m i w q)"
  "keeps same_passed (copy_baseline e m bp w x)"
  unfolding owner_stage_def source_stage_def copy_baseline_def
  by (intro same_passed_intros same_passed_run_command same_passed_unpacked)+

text \<open>A computation that marks the result as passed can no longer fail.\<close>

definition late :: "('w prep, 'a) act \<Rightarrow> bool" where
  "late m = (\<forall>s. isl (fst (m s)) \<longrightarrow> p_passed (snd (m s)) = p_passed s)"

lemma late_bnd:
  assumes "keeps same_passed m" and "\<And>x. late (f x)"
  shows "late (bnd m f)"
  unfolding late_def
proof (intro allI impI)
  fix s assume l: "isl (fst (bnd m f s))"
  obtain r t where r: "m s = (r, t)" by (cases "m s")
  from keepsD [OF assms(1) r] have t: "p_passed t = p_passed s" by (simp add: same_passed_def)
  show "p_passed (snd (bnd m f s)) = p_passed s"
  proof (cases r)
    case (Inr x)
    with assms(2) [of x] l r t show ?thesis by (simp add: late_def)
  qed (use r t in simp)
qed

lemma late_sqn: "keeps same_passed m \<Longrightarrow> late k \<Longrightarrow> late (sqn m k)"
  by (simp add: sqn_def late_bnd)

lemma late_pair: "(\<And>a b. late (f a b)) \<Longrightarrow> late (case x of (a, b) \<Rightarrow> f a b)"
  by (cases x) simp

lemma late_body: "late (prepare_body n D e d m bp tp i w)"
proof -
  have fin: "late (upd (\<lambda>s. s\<lparr>p_passed := True\<rparr>))" by (simp add: late_def)
  have add: "keeps same_passed (upd (\<lambda>s. s\<lparr>p_added := x\<rparr>))" for x by (rule same_passed_upd) simp
  show ?thesis unfolding prepare_body_def
    by (intro late_bnd late_sqn late_pair fin add same_passed_intros same_passed_checkpoint same_passed_run_command
        same_passed_baseline same_passed_stages)
qed

lemma check_keeps:
  "p_steps (snd (baseline_check e m bp tp s)) = p_steps s" "p_passed (snd (baseline_check e m bp tp s)) = p_passed s"
  using no_step_baseline [of e m bp tp] same_passed_baseline [of e m bp tp]
  by (simp_all add: keeps_def no_step_def same_passed_def)

definition steps_sound :: "bool \<Rightarrow> pyval list \<Rightarrow> bool" where
  "steps_sound passed es =
     (if passed then labels es = map PStr STEP_LABELS \<and> list_all step_ok es
      else prefix (labels es) (map PStr STEP_LABELS) \<and> list_all step_ok (butlast es))"

lemma guarded_body_sound:
  assumes "handle_if prep_caught (prepare_body n D e d m bp tp i w) (\<lambda>x. upd (\<lambda>s. s\<lparr>p_failure := Some (exn_str x)\<rparr>)) s = (r, t)"
    and "p_steps s = []" and "\<not> p_passed s"
  shows "steps_sound (p_passed t) (p_steps t)"
proof -
  obtain rb tb where b: "prepare_body n D e d m bp tp i w s = (rb, tb)" by (cases "prepare_body n D e d m bp tp i w s")
  from assms(1) b have t: "p_steps t = p_steps tb" "p_passed t = p_passed tb"
    by (auto simp: handle_if_def upd_def split: sum.splits if_splits)
  have es: "if isl rb then prefix (labels (p_steps tb)) (map PStr STEP_LABELS) \<and> list_all step_ok (butlast (p_steps tb))
      else labels (p_steps tb) = map PStr STEP_LABELS \<and> list_all step_ok (p_steps tb)"
    using stages_body [of n D e d m bp tp i w] b assms(2) unfolding stages_def by (metis append_Nil fst_conv snd_conv)
  have "isl rb \<Longrightarrow> \<not> p_passed tb"
    using late_body [of n D e d m bp tp i w] b assms(3) unfolding late_def by (metis fst_conv snd_conv)
  moreover have "list_all step_ok xs \<Longrightarrow> list_all step_ok (butlast xs)" for xs
    by (auto simp: list_all_iff dest: in_set_butlastD)
  ultimately show ?thesis using es by (auto simp: steps_sound_def t split: if_splits)
qed

lemma postflight_sound:
  assumes "steps_sound (p_passed s) (p_steps s)"
  shows "steps_sound (p_passed (snd (postflight (baseline_check e m bp tp) s))) (p_steps (snd (postflight (baseline_check e m bp tp) s)))"
proof -
  have weak: "steps_sound p xs \<Longrightarrow> steps_sound False xs" for p xs
    by (cases p) (auto simp: steps_sound_def list_all_iff dest: in_set_butlastD)
  obtain r t where c: "baseline_check e m bp tp s = (r, t)" by (cases "baseline_check e m bp tp s")
  with check_keeps [of e m bp tp s] have "p_steps t = p_steps s" "p_passed t = p_passed s" by simp_all
  with assms weak [OF assms] c show ?thesis
    by (auto simp: postflight_def sqn_def bnd_def handle_if_def whenA_def get_def upd_def ret_def split: sum.splits)
qed

text \<open>
  C10: A preparation passes only with complete evidence.  Whatever the environment does, the
  steps of a returned result are a prefix of the fixed order of which all but the last
  succeeded, and a result with \<open>passed\<close> has every step, in order, each with status 0, no
  failure and no cleanup error.
\<close>

theorem exercise_preparation_evidence:
  "case fst (exercise_preparation fuel D e raw nonce input work baseline_paths tool_paths evidence_root (prep_start w)) of
     Inl _ \<Rightarrow> True
   | Inr v \<Rightarrow> steps_sound (fld v ''passed'' = PBool True) (list_of (fld v ''steps''))"
proof -
  obtain r t where run: "exercise_preparation fuel D e raw nonce input work baseline_paths tool_paths evidence_root (prep_start w) = (r, t)"
    by (cases "exercise_preparation fuel D e raw nonce input work baseline_paths tool_paths evidence_root (prep_start w)")
  show ?thesis
  proof (cases r)
    case (Inr v)
    have fs: "look f s = (Inr x, u) \<Longrightarrow> p_steps u = p_steps s \<and> p_passed u = p_passed s"
      and at: "attempt g s = (Inr y, u) \<Longrightarrow> p_steps u = p_steps s \<and> p_passed u = p_passed s" for f g s x y u
      by (auto simp: look_def attempt_def split: prod.splits)
    from run Inr obtain m d s t' where guarded: "try_finally
            (handle_if prep_caught (prepare_body fuel D e d m baseline_paths tool_paths input work)
               (\<lambda>x. upd (\<lambda>s. s\<lparr>p_failure := Some (exn_str x)\<rparr>)))
            (postflight (baseline_check e m baseline_paths tool_paths)) s = (Inr (), t')"
      and s: "p_steps s = []" "\<not> p_passed s" and v: "v = prep_value nonce (q_sha e raw) t'"
      unfolding exercise_preparation_def Let_def
      by (auto simp: bnd_Inr sqn_Inr lft_eq get_eq ret_eq prep_start_def dest!: fs at)
    from guarded obtain u where "handle_if prep_caught (prepare_body fuel D e d m baseline_paths tool_paths input work)
               (\<lambda>x. upd (\<lambda>s. s\<lparr>p_failure := Some (exn_str x)\<rparr>)) s = (Inr (), u)"
      and p: "postflight (baseline_check e m baseline_paths tool_paths) u = (Inr (), t')" by (auto simp: try_finally_Inr)
    from guarded_body_sound [OF this(1) s] have "steps_sound (p_passed u) (p_steps u)" .
    from postflight_sound [OF this, of e m baseline_paths tool_paths] p show ?thesis
      by (simp add: run Inr v prep_value_def)
  qed (simp add: run)
qed

subsection \<open>The evidence budget\<close>

definition in_evidence :: "'w prep \<Rightarrow> 'w prep \<Rightarrow> bool" where
  "in_evidence s t = (p_retained s \<le> 7 * MIB \<longrightarrow> p_retained t \<le> 7 * MIB)"

interpretation in_evidence: state_order in_evidence
  by unfold_locales (auto simp: in_evidence_def)

text \<open>How many bytes a computation may add to the retained evidence.\<close>

definition adds :: "nat \<Rightarrow> ('w prep, 'a) act \<Rightarrow> bool" where
  "adds k m = (\<forall>s. p_retained (snd (m s)) \<le> p_retained s + k)"

lemma adds_bnd:
  assumes "adds a m" and "\<And>x. adds b (f x)"
  shows "adds (a + b) (bnd m f)"
  unfolding adds_def
proof
  fix s
  obtain r t where r: "m s = (r, t)" by (cases "m s")
  with assms(1) have t: "p_retained t \<le> p_retained s + a" unfolding adds_def by (metis snd_conv)
  show "p_retained (snd (bnd m f s)) \<le> p_retained s + (a + b)"
  proof (cases r)
    case (Inr x)
    have "p_retained (snd (f x t)) \<le> p_retained t + b" using assms(2) by (simp add: adds_def)
    with t r Inr show ?thesis by simp
  qed (use r t in simp)
qed

lemma adds_free: "adds 0 m \<Longrightarrow> (\<And>x. adds k (f x)) \<Longrightarrow> adds k (bnd m f)"
  using adds_bnd [of 0 m k f] by simp

lemma adds_free_sqn: "adds 0 m \<Longrightarrow> adds k n \<Longrightarrow> adds k (sqn m n)"
  unfolding sqn_def by (rule adds_free)

lemma adds_none:
  "adds 0 (look f)" "adds 0 (attempt g)" "adds 0 (ensure c m)" "adds 0 (ret x)" "adds 0 (lft r)" "adds 0 (get h)"
  by (auto simp: adds_def look_def attempt_def ensure_def ret_def lft_def get_def split: prod.splits)

lemma adds_upd: "(\<And>s. p_retained (f s) = p_retained s) \<Longrightarrow> adds 0 (upd f)"
  by (simp add: adds_def)

lemma adds_checkpoint: "adds 0 (checkpoint e d)"
  unfolding checkpoint_def by (intro adds_free adds_free_sqn adds_none)

lemma adds_save: "adds k (save_stream e n d k)"
proof (cases "length d \<le> k")
  case True
  then have "adds k (upd (\<lambda>s. s\<lparr>p_retained := p_retained s + length d\<rparr>))" by (simp add: adds_def)
  then show ?thesis unfolding save_stream_def by (intro adds_free_sqn adds_none)
qed (simp add: adds_def save_stream_def sqn_def bnd_def ensure_def)

lemma in_evidence_run_command: "keeps in_evidence (run_command e d label argv t)"
proof -
  define body where "body = (\<lambda>retained. let out_limit = min RESULT_LIMIT (7 * MIB - retained - 65536) in
     bnd (look (q_clock e)) (\<lambda>now.
     bnd (attempt (q_runner e argv (min t (d - now)) out_limit)) (\<lambda>out.
     sqn (save_stream e (label @ ''.stdout'') (rr_stdout out) out_limit) (
     sqn (save_stream e (label @ ''.stderr'') (rr_stderr out) 65536) (
     sqn (upd (\<lambda>s. s\<lparr>p_steps := p_steps s @ [step_value label out]\<rparr>)) (
     sqn (ensure (rr_failure out = None \<and> rr_cleanup_errors out = [] \<and> rr_exit_code out = Some 0)
            (label @ '': tool failed; inspect retained streams'')) (
     sqn (ensure (rr_stderr out = [] \<or> startswith label ''key-'' \<or> startswith label ''verify-'')
            (label @ '': unexpected stderr; inspect retained stream'')) (
     sqn (checkpoint e d) (ret (rr_stdout out))))))))))"
  have save2: "adds (k + 65536) (sqn (save_stream e n1 x k) (sqn (save_stream e n2 y 65536) m))" if "adds 0 m"
    for k n1 n2 x y and m :: "('a prep, string) act"
  proof -
    have "adds (65536 + 0) (sqn (save_stream e n2 y 65536) m)" unfolding sqn_def
      by (rule adds_bnd [OF adds_save]) (rule that)
    then have b: "adds 65536 (sqn (save_stream e n2 y 65536) m)" by simp
    show ?thesis unfolding sqn_def [of "save_stream e n1 x k"] by (rule adds_bnd [OF adds_save b])
  qed
  have body: "adds (min RESULT_LIMIT (7 * MIB - r - 65536) + 65536) (body r)" for r
    unfolding body_def Let_def
    by (intro adds_free save2 adds_free_sqn adds_none adds_checkpoint adds_upd) simp
  have rest: "keeps in_evidence (bnd (get p_retained) (\<lambda>retained.
      sqn (ensure (65536 + retained \<le> 7 * MIB) ''aggregate tool evidence limit'') (body retained)))"
    unfolding keeps_def
  proof
    fix s :: "'a prep"
    have "p_retained (snd (body (p_retained s) s)) \<le> p_retained s + (min RESULT_LIMIT (7 * MIB - p_retained s - 65536) + 65536)"
      using body [of "p_retained s"] by (simp add: adds_def)
    then show "in_evidence s (snd (bnd (get p_retained) (\<lambda>retained.
      sqn (ensure (65536 + retained \<le> 7 * MIB) ''aggregate tool evidence limit'') (body retained)) s))"
      by (auto simp: in_evidence_def bnd_def sqn_def get_def ensure_def)
  qed
  have "run_command e d label argv t = sqn (checkpoint e d) (bnd (get p_retained) (\<lambda>retained.
      sqn (ensure (65536 + retained \<le> 7 * MIB) ''aggregate tool evidence limit'') (body retained)))"
    by (simp only: run_command_def body_def)
  moreover have "keeps in_evidence (checkpoint e d)"
    using adds_checkpoint [of e d] by (auto simp: keeps_def in_evidence_def adds_def intro: le_trans)
  ultimately show ?thesis using rest by (simp add: in_evidence.keeps_sqn)
qed

lemma in_evidence_adds: "adds 0 m \<Longrightarrow> keeps in_evidence m"
  by (auto simp: keeps_def in_evidence_def adds_def intro: le_trans)

lemmas in_evidence_intros = in_evidence.keeps_intros in_evidence.keeps_branches
  in_evidence_adds [OF adds_none(1)] in_evidence_adds [OF adds_none(2)] in_evidence_adds [OF adds_checkpoint]
  in_evidence_run_command

lemma in_evidence_upd: "(\<And>s. p_retained (f s) = p_retained s) \<Longrightarrow> keeps in_evidence (upd f)"
  by (rule in_evidence_adds [OF adds_upd])

lemma in_evidence_unpack: "keeps in_evidence (unpack_chunk n (checkpoint e dl) D c l ch st)"
proof (induction n arbitrary: ch st)
  case (Suc n)
  show ?case by (cases st) (simp only: unpack_chunk.simps, intro in_evidence_intros Suc)
qed (simp only: unpack_chunk.simps in_evidence.keeps_lft)

lemma in_evidence_unpacked: "keeps in_evidence (unpacked_blob sha n (checkpoint e dl) D f p c l)"
proof -
  have "keeps in_evidence ((case b of (d, seen) \<Rightarrow> \<lambda>chunk. sqn (ensure (\<not> d_eof D d) m)
      (unpack_chunk n (checkpoint e dl) D c l chunk (d, seen))) x)" for b x m
    by (cases b) (simp, intro in_evidence_intros in_evidence_unpack)
  then show ?thesis unfolding unpacked_blob_def by (intro in_evidence_intros)
qed

lemma in_evidence_baseline: "keeps in_evidence (baseline_check e m bp tp)"
  unfolding baseline_check_def baseline_entry_def tool_entry_def by (intro in_evidence_intros)

lemma in_evidence_body: "keeps in_evidence (prepare_body n D e d m bp tp i w)"
  unfolding prepare_body_def owner_stage_def source_stage_def copy_baseline_def
  by (intro in_evidence_intros in_evidence_unpacked in_evidence_baseline in_evidence_upd; simp)

text \<open>
  The tool evidence that a preparation retains never exceeds seven MiB, however many
  bytes the tools produce and whatever the outcome.
\<close>

lemma exercise_preparation_budget:
  "p_retained (snd (exercise_preparation fuel D e raw nonce input work baseline_paths tool_paths evidence_root (prep_start w)))
     \<le> 7 * MIB"
proof -
  have "keeps in_evidence (exercise_preparation fuel D e raw nonce input work baseline_paths tool_paths evidence_root)"
    unfolding exercise_preparation_def postflight_def
    by (intro in_evidence_intros in_evidence_body in_evidence_baseline in_evidence_upd; simp add: in_evidence_baseline)
  then show ?thesis by (auto simp: keeps_def in_evidence_def prep_start_def)
qed

subsection \<open>The process group\<close>

definition unsettled :: "'w run \<Rightarrow> bool" where
  "unsettled s = (u_cleanup_errors s \<noteq> [])"

lemma gone_loop_settles:
  "gone_loop n e until s = (Inr u, t) \<Longrightarrow>
     unsettled t \<or> (u_kills t \<noteq> [] \<and> last (u_kills t) = (False, NoProcess))"
proof (induction n arbitrary: s)
  case (Suc n)
  obtain k w where k: "x_killpg e False (u_world s) = (k, w)" by (cases "x_killpg e False (u_world s)")
  show ?case
  proof (cases k)
    case Delivered
    let ?s = "s\<lparr>u_world := w, u_kills := u_kills s @ [(False, Delivered)]\<rparr>"
    obtain now v where c: "x_clock e w = (now, v)" by (cases "x_clock e w")
    show ?thesis
    proof (cases "until \<le> now")
      case True
      with Suc.prems k Delivered c show ?thesis
        by (auto simp: bnd_def killpg_def see_def run_error_def upd_def unsettled_def)
    next
      case False
      with Suc.prems k Delivered c
      have "gone_loop n e until (?s\<lparr>u_world := x_sleep e (1 / 50) v\<rparr>) = (Inr u, t)"
        by (simp add: bnd_def sqn_def killpg_def see_def upd_def)
      then show ?thesis by (rule Suc.IH)
    qed
  qed (use Suc.prems k in \<open>auto simp: bnd_def killpg_def run_error_def upd_def ret_def unsettled_def\<close>)
qed (simp add: lft_def)

lemma kill_group_settles:
  "kill_group n e c s = (Inr u, t) \<Longrightarrow> unsettled t \<or> (u_kills t \<noteq> [] \<and> last (u_kills t) = (False, NoProcess))"
  unfolding kill_group_def by (elim bndE sqnE) (rule gone_loop_settles)

definition same_started :: "'w run \<Rightarrow> 'w run \<Rightarrow> bool" where
  "same_started s t = (u_started t = u_started s)"

interpretation same_started: state_order same_started
  by unfold_locales (simp_all add: same_started_def)

lemma same_started_prims:
  "keeps same_started (see f)" "keeps same_started (killpg e b)" "keeps same_started (fail_run m)"
  "keeps same_started (run_error m)"
  by (auto simp: keeps_def same_started_def see_def killpg_def fail_run_def run_error_def upd_def split: prod.splits)

lemma same_started_upd: "(\<And>s. u_started (f s) = u_started s) \<Longrightarrow> keeps same_started (upd f)"
  by (rule same_started.keeps_upd) (simp add: same_started_def)

lemma keeps_kill_result: "keeps R a \<Longrightarrow> keeps R b \<Longrightarrow> (\<And>m. keeps R (f m)) \<Longrightarrow>
    keeps R (case k of Delivered \<Rightarrow> a | NoProcess \<Rightarrow> b | KillError m \<Rightarrow> f m)"
  by (cases k) simp_all

lemmas same_started_intros = same_started.keeps_intros same_started.keeps_branches same_started_prims keeps_kill_result

lemma same_started_kill_group: "keeps same_started (kill_group n e c)"
proof -
  have gone: "keeps same_started (gone_loop n e u)" for n u
  proof (induction n)
    case (Suc n)
    show ?case unfolding gone_loop.simps by (intro same_started_intros Suc same_started_upd) simp
  qed (simp only: gone_loop.simps same_started.keeps_lft)
  show ?thesis unfolding kill_group_def by (intro same_started_intros gone same_started_upd) simp
qed

text \<open>
  C33: A clean run has seen its process group vanish: if a tool was started and the returned
  result lists no cleanup error, then the last probe of the process group by the runner
  found no process.
\<close>

theorem run_bounded_group_gone:
  assumes "run_bounded fuel e timeout stdout_limit stderr_limit cleanup_seconds (run_start w) = (Inr v, t)"
    and "u_started t" and "rr_cleanup_errors v = []"
  shows "u_kills t \<noteq> [] \<and> last (u_kills t) = (False, NoProcess)"
proof -
  have clean: "\<not> unsettled t" using run_bounded_result [OF assms(1)] assms(3) by (simp add: run_result_of_def unsettled_def)
  define fin where "fin = (bnd (see (x_signal e)) (\<lambda>sg. bnd (get u_failure) (\<lambda>f.
           case sg of None \<Rightarrow> ret ()
           | Some n \<Rightarrow> whenA (f = None \<or> f = Some []) (fail_run (''cancelled-signal-'' @ show_int n)))))"
  have fin: "fin s = (r, s') \<Longrightarrow> u_kills s' = u_kills s \<and> u_cleanup_errors s' = u_cleanup_errors s \<and> u_started s' = u_started s" for s r s'
    unfolding fin_def by (auto simp: bnd_def see_def get_def ret_def whenA_def fail_run_def upd_def split: prod.splits option.splits if_splits)
  obtain c wc where c: "x_cancelled e w = (c, wc)" by (cases "x_cancelled e w")
  have "\<not> c"
  proof
    assume c' : c
    have "u_started t = False" using assms(1) c c'
      by (auto simp: run_bounded_def sqn_def bnd_def see_def ensure_def fail_run_def upd_def get_def run_start_def split: if_splits)
    with assms(2) show False by simp
  qed
  with assms(1) c obtain lim d s0 s1 x y where
    tf: "try_finally (run_streams fuel e lim d) (bnd (get u_started) (\<lambda>b. whenA b (kill_group fuel e cleanup_seconds))) s0 = (Inr x, s1)"
    and f: "fin s1 = (Inr y, t)"
    unfolding run_bounded_def fin_def [symmetric] Let_def
    by (auto simp: sqn_Inr bnd_Inr ensure_eq get_eq see_def run_start_def split: prod.splits if_splits)
  from tf obtain s2 where k: "whenA (u_started s2) (kill_group fuel e cleanup_seconds) s2 = (Inr (), s1)"
    by (auto simp: try_finally_Inr bnd_Inr get_eq)
  from fin [OF f] assms(2) clean have s1: "u_started s1" "\<not> unsettled s1" "u_kills t = u_kills s1"
    by (auto simp: unsettled_def)
  have "u_started s2"
  proof (rule ccontr)
    assume "\<not> u_started s2"
    with k s1(1) show False by (simp add: whenA_def ret_eq)
  qed
  with k have "kill_group fuel e cleanup_seconds s2 = (Inr (), s1)" by (simp add: whenA_def)
  from kill_group_settles [OF this] s1 show ?thesis by simp
qed

text \<open>A tool that exits at once with no output, and whose group is gone at the first probe.\<close>

definition demo_runner :: "unit run_env" where
  "demo_runner = \<lparr> x_clock = (\<lambda>w. (0, w)), x_cancelled = (\<lambda>w. (False, w)), x_signal = (\<lambda>w. (None, w)),
     x_popen = (\<lambda>w. (Inr (), w)), x_poll = (\<lambda>w. (Some 0, w)), x_select = (\<lambda>_ w. (Inr [Stdout, Stderr], w)),
     x_read = (\<lambda>_ _ w. (Inr [], w)), x_killpg = (\<lambda>_ w. (NoProcess, w)), x_wait = (\<lambda>_ w. (Some 0, w)),
     x_sleep = (\<lambda>_ w. w) \<rparr>"

theorem run_bounded_group_gone_witness:
  "\<exists>v t. run_bounded 3 demo_runner 1 10 10 2 (run_start ()) = (Inr v, t) \<and> rr_failure v = None \<and>
     u_kills t \<noteq> [] \<and> last (u_kills t) = (False, NoProcess)"
proof -
  let ?t = "(run_start ())\<lparr>u_started := True, u_exit := Some 0, u_kills := [(False, NoProcess), (False, NoProcess)]\<rparr>"
  have "run_bounded 3 demo_runner 1 10 10 2 (run_start ()) = (Inr (run_result_of ?t), ?t)"
    by (simp add: run_bounded_def demo_runner_def run_start_def numeral_3_eq_3 run_streams_def kill_group_def
        bnd_def sqn_def ensure_def see_def try_call_def get_def upd_def ret_def whenA_def try_finally_def killpg_def)
  moreover from this have "u_kills ?t \<noteq> [] \<and> last (u_kills ?t) = (False, NoProcess)"
    by (rule run_bounded_group_gone) (simp_all add: run_result_of_def run_start_def)
  moreover have "rr_failure (run_result_of ?t) = None" by (simp add: run_result_of_def run_start_def)
  ultimately show ?thesis by blast
qed

end
