(* ===== verification/Namespace.thy ===== *)
theory Namespace
  imports Isolation "HOL-Library.Word"
begin

text \<open>
  The setup child of \<open>sw_i5_preparation_isolation.py\<close>: the seccomp filter as a classic BPF
  program, the fixed system calls of \<open>LinuxNamespace\<close>, and \<open>confine_worker\<close>.
\<close>

unbundle bit_operations_syntax

subsection \<open>The seccomp program\<close>

text \<open>\<open>struct sock_filter\<close>: code, jump if true, jump if false, constant.\<close>

type_synonym filter_row = "nat \<times> nat \<times> nat \<times> nat"

definition seccomp_tables :: "(string \<times> nat \<times> nat \<times> nat list) list" where
  "seccomp_tables =
     [(''x86_64'', 0xC000003E, 56, [41, 42, 44, 46, 53, 101, 272, 308, 310, 311, 321, 323]),
      (''aarch64'', 0xC00000B7, 220, [198, 199, 203, 206, 211, 117, 97, 268, 270, 271, 280, 282])]"

definition seccomp_program :: "string \<Rightarrow> filter_row list res" where
  "seccomp_program machine =
     (case map_of seccomp_tables machine of
        None \<Rightarrow> Inl (ValueError ''unsupported seccomp architecture'')
      | Some (arch, clone, denied) \<Rightarrow> Inr (
          [(0x20, 0, 0, 4), (0x15, 1, 0, arch), (0x06, 0, 0, 0x80000000),
           (0x20, 0, 0, 0), (0x45, 0, 1, 0x40000000), (0x06, 0, 0, 0x80000000)] @
          concat (map (\<lambda>number. [(0x15, 0, 1, number), (0x06, 0, 0, 0x00050001)]) (denied @ [425, 426, 427, 435])) @
          [(0x15, 0, 3, clone), (0x20, 0, 0, 16), (0x45, 0, 1, 0x7E020000),
           (0x06, 0, 0, 0x00050001), (0x06, 0, 0, 0x7FFF0000)]))"

text \<open>
  The machine that runs it: one accumulator, 32-bit loads from \<open>struct seccomp_data\<close>
  (system call number at 0, architecture at 4, low half of the first argument at 16),
  relative forward jumps, and a returned action.  \<open>None\<close> is a program the kernel refuses.
\<close>

record seccomp_data =
  sd_nr :: "32 word"
  sd_arch :: "32 word"
  sd_arg0 :: "32 word"

definition load :: "seccomp_data \<Rightarrow> nat \<Rightarrow> 32 word option" where
  "load d k = (if k = 0 then Some (sd_nr d) else if k = 4 then Some (sd_arch d)
     else if k = 16 then Some (sd_arg0 d) else None)"

function (sequential) bpf :: "seccomp_data \<Rightarrow> filter_row list \<Rightarrow> 32 word \<Rightarrow> 32 word option" where
  "bpf d [] a = None"
| "bpf d ((opcode, jt, jf, k) # p) a =
     (if opcode = 0x20 then (case load d k of None \<Rightarrow> None | Some x \<Rightarrow> bpf d p x)
      else if opcode = 0x15 then bpf d (drop (if a = of_nat k then jt else jf) p) a
      else if opcode = 0x45 then bpf d (drop (if a AND of_nat k \<noteq> 0 then jt else jf) p) a
      else if opcode = 0x06 then Some (of_nat k)
      else None)"
  by pat_completeness auto

termination bpf
  by (relation "measure (\<lambda>(d, p, a). length p)") auto

text \<open>What the filter promises, without the program.\<close>

datatype verdict = Kill | Eperm | Allow

fun action :: "verdict \<Rightarrow> 32 word" where
  "action Kill = 0x80000000" | "action Eperm = 0x00050001" | "action Allow = 0x7FFF0000"

definition policy :: "nat \<times> nat \<times> nat list \<Rightarrow> seccomp_data \<Rightarrow> verdict" where
  "policy = (\<lambda>(arch, clone, denied) d.
     if sd_arch d \<noteq> of_nat arch then Kill
     else if sd_nr d AND 0x40000000 \<noteq> 0 then Kill
     else if sd_nr d \<in> of_nat ` set (denied @ [425, 426, 427, 435]) then Eperm
     else if sd_nr d = of_nat clone \<and> sd_arg0 d AND 0x7E020000 \<noteq> 0 then Eperm
     else Allow)"

subsection \<open>Fixed system calls\<close>

definition checked :: "int \<Rightarrow> string \<Rightarrow> ('w, unit) act" where
  "checked result label = (if result < 0 then lft (Inl (OSError label)) else ret ())"

definition syscall :: "'w kernel \<Rightarrow> syscall \<Rightarrow> string \<Rightarrow> ('w, unit) act" where
  "syscall k c label = bnd (k_call k c) (\<lambda>r. checked r label)"

definition namespace_init :: "'w kernel \<Rightarrow> ('w, unit) act" where
  "namespace_init k =
     bnd (k_uname k) (\<lambda>(sysname, machine).
     ensure (sysname = ''Linux'' \<and> machine \<in> {''aarch64'', ''x86_64''}) ''supported Linux namespace ABI required'')"

definition mountpoint :: "'w kernel \<Rightarrow> contract \<Rightarrow> path \<Rightarrow> ('w, unit) act" where
  "mountpoint k c path =
     bnd (k_resolve k path) (\<lambda>p.
     sqn (ensure (p = path) ''canonical prepared mountpoint required'') (
     bnd (k_stat k path) (\<lambda>info.
     sqn (ensure (S_ISDIR info \<and> st_uid info = 0 \<and> not_shared_writable info) ''root-owned prepared mountpoint required'') (
     whenA (path \<noteq> ic_root c)
       (bnd (k_iterdir k path) (\<lambda>names. ensure (names = []) ''fresh empty mountpoint required''))))))"

definition mountpoints :: "'w kernel \<Rightarrow> contract \<Rightarrow> ('w, unit) act" where
  "mountpoints k c =
     bnd (k_geteuid k) (\<lambda>uid.
     sqn (ensure (uid = 0) ''privileged setup child required'') (
     eachA (mountpoint k c) [ic_root c, work_path c, result_path c]))"

definition private_namespace :: "'w kernel \<Rightarrow> ('w, unit) act" where
  "private_namespace k =
     sqn (syscall k (Unshare (0x00020000 + 0x40000000 + 0x08000000)) ''unshare preparation'')
         (syscall k (MountPrivate (2 ^ 18 + 2 ^ 14)) ''private mounts'')"

definition tmpfs_options :: "nat \<Rightarrow> nat \<Rightarrow> int \<Rightarrow> int \<Rightarrow> string" where
  "tmpfs_options cap inodes uid gid =
     ''size='' @ show_nat cap @ '',nr_inodes='' @ show_nat inodes @ '',noswap,mode=0700,uid='' @ show_int uid @
     '',gid='' @ show_int gid"

definition tmpfs :: "'w kernel \<Rightarrow> path \<Rightarrow> nat \<Rightarrow> nat \<Rightarrow> int \<Rightarrow> int \<Rightarrow> ('w, unit) act" where
  "tmpfs k path cap inodes uid gid =
     syscall k (MountTmpfs path (2 + 4 + 8) (tmpfs_options cap inodes uid gid)) ''bounded tmpfs''"

definition readonly :: "'w kernel \<Rightarrow> path \<Rightarrow> bool \<Rightarrow> ('w, unit) act" where
  "readonly k path recursive =
     syscall k (MountSetattr 442 path (if recursive then 0x8000 else 0) 1) ''recursive read-only mount_setattr''"

definition drop_identity :: "'w kernel \<Rightarrow> int \<Rightarrow> int \<Rightarrow> ('w, unit) act" where
  "drop_identity k uid gid =
     sqn (syscall k (Setrlimit ''RLIMIT_CORE'' 0) ''setrlimit'') (
     sqn (syscall k (Setrlimit ''RLIMIT_FSIZE'' (128 * MIB)) ''setrlimit'') (
     sqn (syscall k (Prctl 38 1) ''no_new_privs'') (
     bnd (k_read_text k (path_of ''/proc/sys/kernel/cap_last_cap'')) (\<lambda>t.
     bnd (lft (base_int 10 t)) (\<lambda>last_cap.
     sqn (ensure (0 \<le> last_cap \<and> last_cap < 64) ''unsupported capability range'') (
     sqn (eachA (\<lambda>cap. syscall k (Prctl 24 cap) ''capability bounding set'') [0..<Suc (nat last_cap)]) (
     sqn (syscall k (Prctl 47 4) ''ambient capabilities'') (
     sqn (syscall k (Setgroups []) ''setgroups'') (
     sqn (syscall k (Setresgid gid) ''setresgid'') (
     sqn (syscall k (Setresuid uid) ''setresuid'') (
     syscall k (Capset 0x20080522) ''clear capability sets'')))))))))))"

definition restrict_syscalls :: "'w kernel \<Rightarrow> ('w, unit) act" where
  "restrict_syscalls k =
     bnd (k_uname k) (\<lambda>(_, machine).
     bnd (lft (seccomp_program machine)) (\<lambda>program.
     syscall k (SeccompFilter program) ''seccomp preparation filter''))"

definition stdio_target :: "'w kernel \<Rightarrow> int \<times> path \<times> string list \<Rightarrow> ('w, unit) act" where
  "stdio_target k = (\<lambda>(destination, path, flags).
     bnd (k_open k path (flags @ [''NOFOLLOW'', ''CLOEXEC''])) (\<lambda>fd.
     try_finally (syscall k (Dup2 fd destination) ''dup2'')
       (whenA (fd \<noteq> destination) (k_close k fd))))"

definition stdio :: "'w kernel \<Rightarrow> path \<Rightarrow> ('w, unit) act" where
  "stdio k result =
     eachA (stdio_target k)
       [(0, path_of ''/dev/null'', [''RDONLY'']),
        (1, path_join result ''worker.stdout'', [''WRONLY'', ''CREAT'', ''EXCL'']),
        (2, path_join result ''worker.stderr'', [''WRONLY'', ''CREAT'', ''EXCL''])]"

definition confine_worker :: "'w kernel \<Rightarrow> contract \<Rightarrow> ('w, unit) act \<Rightarrow> ('w, unit) act" where
  "confine_worker k c validate =
     sqn (mountpoints k c) (
     sqn (private_namespace k) (
     sqn (readonly k (path_of ''/'') True) (
     sqn (tmpfs k (work_path c) (the (map_of STORAGE ''work'')) 32768 (ic_uid c) (ic_gid c)) (
     sqn (tmpfs k (result_path c) (the (map_of STORAGE ''result'')) 4096 (ic_uid c) (ic_gid c)) (
     sqn (drop_identity k (ic_uid c) (ic_gid c)) (
     sqn (stdio k (result_path c)) (
     sqn (restrict_syscalls k) validate)))))))"

end
