(* ===== verification/Guards.thy ===== *)
theory Guards
  imports Paths
begin

text \<open>
  The contract that the two guards of the preparation share: the first successful check
  fixes an identity that every later one must show again, and a failed check is final.
\<close>

text \<open>
  The outcomes of successive checks, with the rest of the program acting in between
  (\<open>gs\<close>, one change of the state before each check).
\<close>

fun check_run :: "('s, 'a) act \<Rightarrow> ('s \<Rightarrow> 's) list \<Rightarrow> 's \<Rightarrow> 'a res list" where
  "check_run c [] s = []"
| "check_run c (g # gs) s = (case c (g s) of (r, t) \<Rightarrow> r # check_run c gs t)"

lemma length_check_run [simp]: "length (check_run c gs s) = length gs"
  by (induction gs arbitrary: s) (auto split: prod.split)

locale sticky_guard =
  fixes check :: "('s, 'a) act" and failed :: "'s \<Rightarrow> exn option" and initial :: "'s \<Rightarrow> 'i option"
    and same :: "'a \<Rightarrow> 'i \<Rightarrow> bool" and fatal :: "exn \<Rightarrow> bool" and foreign :: "('s \<Rightarrow> 's) \<Rightarrow> bool"
  assumes check_failed: "failed s = Some e \<Longrightarrow> check s = (Inl e, s)"
    and check_fails: "check s = (Inl e, t) \<Longrightarrow> fatal e \<Longrightarrow> failed t = Some e"
    and check_passes: "check s = (Inr x, t) \<Longrightarrow> \<exists>i. initial t = Some i \<and> same x i"
    and initial_kept: "check s = (r, t) \<Longrightarrow> initial s = Some i \<Longrightarrow> initial t = Some i"
    and foreign_failed: "foreign g \<Longrightarrow> failed (g s) = failed s"
    and foreign_initial: "foreign g \<Longrightarrow> initial (g s) = initial s"
begin

text \<open>After a failure every check raises the same exception, whatever the world does.\<close>

lemma stays_failed:
  assumes "failed s = Some e" and "list_all foreign gs"
  shows "list_all (\<lambda>r. r = Inl e) (check_run check gs s)"
  using assms
proof (induction gs arbitrary: s)
  case Nil
  then show ?case by simp
next
  case (Cons g gs)
  then have "failed (g s) = Some e" by (simp add: foreign_failed)
  then have "check (g s) = (Inl e, g s)" by (rule check_failed)
  with Cons \<open>failed (g s) = Some e\<close> show ?case by simp
qed

lemma failure_is_final:
  assumes "list_all foreign gs" and "i < j" and "j < length gs"
    and "check_run check gs s ! i = Inl e" and "fatal e"
  shows "check_run check gs s ! j = Inl e"
  using assms
proof (induction gs arbitrary: s i j)
  case Nil
  then show ?case by simp
next
  case (Cons g gs)
  obtain r t where r: "check (g s) = (r, t)" by (cases "check (g s)")
  from Cons.prems(2) obtain j' where j: "j = Suc j'" by (cases j) auto
  show ?case
  proof (cases i)
    case 0
    with Cons.prems r have "failed t = Some e" by (auto intro: check_fails)
    then have "list_all (\<lambda>r. r = Inl e) (check_run check gs t)"
      using Cons.prems by (intro stays_failed) auto
    with Cons.prems j r show ?thesis by (simp add: list_all_length)
  next
    case (Suc i')
    with Cons.prems j r show ?thesis by (auto intro: Cons.IH)
  qed
qed

text \<open>All successful checks show one identity.\<close>

lemma identity_from:
  assumes "initial s = Some i" and "list_all foreign gs"
  shows "list_all (\<lambda>r. case r of Inl _ \<Rightarrow> True | Inr x \<Rightarrow> same x i) (check_run check gs s)"
  using assms
proof (induction gs arbitrary: s)
  case Nil
  then show ?case by simp
next
  case (Cons g gs)
  obtain r t where r: "check (g s) = (r, t)" by (cases "check (g s)")
  from Cons.prems have "initial (g s) = Some i" by (simp add: foreign_initial)
  then have t: "initial t = Some i" using r by (auto intro: initial_kept)
  moreover have "case r of Inl _ \<Rightarrow> True | Inr x \<Rightarrow> same x i"
  proof (cases r)
    case (Inr x)
    with r have "\<exists>i. initial t = Some i \<and> same x i" by (auto intro: check_passes)
    with t Inr show ?thesis by simp
  qed simp
  ultimately show ?case using Cons r by simp
qed

lemma one_identity:
  assumes "list_all foreign gs"
  shows "\<exists>i. list_all (\<lambda>r. case r of Inl _ \<Rightarrow> True | Inr x \<Rightarrow> same x i) (check_run check gs s)"
  using assms
proof (induction gs arbitrary: s)
  case Nil
  then show ?case by simp
next
  case (Cons g gs)
  obtain r t where r: "check (g s) = (r, t)" by (cases "check (g s)")
  show ?case
  proof (cases r)
    case (Inl e)
    from Cons obtain i where "list_all (\<lambda>r. case r of Inl _ \<Rightarrow> True | Inr x \<Rightarrow> same x i) (check_run check gs t)"
      by fastforce
    with r Inl show ?thesis by auto
  next
    case (Inr x)
    with r obtain i where "initial t = Some i" "same x i" using check_passes by blast
    moreover from this Cons.prems
    have "list_all (\<lambda>r. case r of Inl _ \<Rightarrow> True | Inr x \<Rightarrow> same x i) (check_run check gs t)"
      by (intro identity_from) auto
    ultimately show ?thesis using r Inr by auto
  qed
qed

end

end
