(* ===== verification/ResourcesProps.thy ===== *)
theory ResourcesProps
  imports Resources Guards
begin

text \<open>
  Properties of the capacity probes: which mount covers a path, what an accepted inventory
  guarantees, and the guard as an instance of the sticky contract.
\<close>

subsection \<open>The covering mount\<close>

lemma covering_Inr [res_simps]:
  "covering ms p = Inr m \<longleftrightarrow>
     (\<exists>xs. filter (\<lambda>x. below p (m_path x)) ms = xs \<and> xs \<noteq> [] \<and>
        filter (\<lambda>x. part_count (m_path x) = Max (part_count ` m_path ` set xs)) xs = [m])"
  by (auto simp: covering_def demand_Inr Let_def image_image o_def length_Suc_conv)

lemma count_list_filter: "count_list (map f xs) q = length (filter (\<lambda>x. f x = q) xs)"
  by (induction xs) auto

lemma covering_deepest:
  assumes "covering ms p = Inr m" and "x \<in> set ms" and "below p (m_path x)"
  shows "below (m_path m) (m_path x)"
proof -
  let ?xs = "filter (\<lambda>x. below p (m_path x)) ms"
  from assms(1) have f: "filter (\<lambda>x. part_count (m_path x) = Max (part_count ` m_path ` set ?xs)) ?xs = [m]"
    by (auto simp: covering_Inr)
  then have "m \<in> set (filter (\<lambda>x. part_count (m_path x) = Max (part_count ` m_path ` set ?xs)) ?xs)" by simp
  then have m: "below p (m_path m)" "part_count (m_path m) = Max (part_count ` m_path ` set ?xs)" by auto
  have "x \<in> set ?xs" using assms by simp
  then have "part_count (m_path x) \<le> Max (part_count ` m_path ` set ?xs)" by (intro Max_ge) auto
  then have "part_count (m_path x) \<le> part_count (m_path m)" by (simp only: m(2))
  with m(1) assms(3) show ?thesis
    by (auto simp: below_def part_count_def split: if_splits intro: prefix_length_prefix)
qed

lemma covering_sound:
  assumes "covering ms p = Inr m"
  shows "m \<in> set ms \<and> below p (m_path m)"
proof -
  let ?xs = "filter (\<lambda>x. below p (m_path x)) ms"
  from assms have f: "filter (\<lambda>x. part_count (m_path x) = Max (part_count ` m_path ` set ?xs)) ?xs = [m]"
    by (auto simp: covering_Inr)
  have "m \<in> set (filter (\<lambda>x. part_count (m_path x) = Max (part_count ` m_path ` set ?xs)) ?xs)"
    unfolding f by simp
  then show ?thesis by simp
qed

lemma covering_single:
  assumes "covering ms p = Inr m"
  shows "count_list (map m_path ms) (m_path m) = 1"
proof -
  let ?xs = "filter (\<lambda>x. below p (m_path x)) ms"
  let ?d = "Max (part_count ` m_path ` set ?xs)"
  from assms have f: "filter (\<lambda>x. part_count (m_path x) = ?d) ?xs = [m]" by (auto simp: covering_Inr)
  have pm: "below p (m_path m)" using covering_sound [OF assms] by simp
  have "m \<in> set (filter (\<lambda>x. part_count (m_path x) = ?d) ?xs)" unfolding f by simp
  then have dm: "part_count (m_path m) = ?d" by auto
  have "filter (\<lambda>x. m_path x = m_path m) ms = filter (\<lambda>x. part_count (m_path x) = ?d) ?xs"
    using pm dm by (auto simp: filter_filter intro!: filter_cong below_same_depth)
  then have "filter (\<lambda>x. m_path x = m_path m) ms = [m]" unfolding f .
  then have "length (filter (\<lambda>x. m_path x = m_path m) ms) = 1" by simp
  then show ?thesis by (simp only: count_list_filter)
qed

text \<open>
  The covering mount.  The mount that \<open>covering\<close> returns is in the table, its mount
  point is the path or a directory above it, no other entry has the same mount point, and
  every other mount above the path is mounted at or above it: it is the mount the path
  is really on, and nothing is stacked over it.
\<close>

lemma covering_unique_longest:
  assumes "covering ms p = Inr m"
  shows "m \<in> set ms \<and> below p (m_path m) \<and> count_list (map m_path ms) (m_path m) = 1 \<and>
    (\<forall>x \<in> set ms. below p (m_path x) \<longrightarrow> below (m_path m) (m_path x))"
  using assms covering_sound covering_single covering_deepest by blast

definition demo_mount :: "int \<Rightarrow> string \<Rightarrow> path \<Rightarrow> mount" where
  "demo_mount i dev p = \<lparr> m_ident = i, m_device = dev, m_root = ''/'', m_path = p,
     m_options = {''rw'', ''nosuid'', ''nodev''}, m_kind = ''ext4'', m_source = ''/dev/vd'',
     m_super_options = {''rw''} \<rparr>"

subsection \<open>The guard is sticky\<close>

lemma handle_if_Inr [act_simps]:
  "handle_if p m h s = (Inr y, s') \<longleftrightarrow> m s = (Inr y, s') \<or> (\<exists>e t. m s = (Inl e, t) \<and> p e \<and> h e t = (Inr y, s'))"
  by (auto simp: handle_if_def split: prod.splits sum.splits)

lemma handle_if_Inl [act_simps]:
  "handle_if p m h s = (Inl x, s') \<longleftrightarrow> (m s = (Inl x, s') \<and> \<not> p x) \<or>
     (\<exists>e t. m s = (Inl e, t) \<and> p e \<and> h e t = (Inl x, s'))"
  by (auto simp: handle_if_def split: prod.splits sum.splits)

lemma on_world_eq [act_simps]:
  "on_world m s = (r, t) \<longleftrightarrow> (\<exists>w. m (dg_world s) = (r, w) \<and> t = s\<lparr>dg_world := w\<rparr>)"
  by (auto simp: on_world_def split: prod.split)

text \<open>What a check may do to the guard: it never clears the identity, and sets no failure itself.\<close>

definition keeps_guard :: "'w domain_guard \<Rightarrow> 'w domain_guard \<Rightarrow> bool" where
  "keeps_guard s t = (dg_failure t = dg_failure s \<and> (dg_initial s = None \<or> dg_initial t = dg_initial s))"

interpretation kg: state_order keeps_guard
  by unfold_locales (auto simp: keeps_guard_def)

lemma keeps_on_world: "keeps keeps_guard (on_world m)"
  by (simp add: keeps_def on_world_def keeps_guard_def split: prod.split)

lemma keeps_domain_check: "keeps keeps_guard (domain_check cfg probe bs)"
  unfolding domain_check_def
  by (rule kg.keeps_bnd [OF keeps_on_world])
    (auto simp: keeps_def keeps_guard_def bnd_def sqn_def get_def whenA_def upd_def ret_def demandA_def)

lemma domain_check_Inr:
  assumes "domain_check cfg probe bs s = (Inr x, t)"
  shows "\<exists>i. dg_initial t = Some i \<and> pyeq (identity x) i"
  using assms unfolding domain_check_def
  by (elim bndE sqnE) (auto simp: whenA_def get_eq upd_eq ret_eq demandA_Inr split: if_splits)

lemma domain_guard_check_open:
  assumes "dg_failure s = None"
  shows "domain_guard_check cfg probe bs s = (case domain_check cfg probe bs s of
     (Inr x, t) \<Rightarrow> (Inr x, t)
   | (Inl e, t) \<Rightarrow> (if probe_caught e
       then (Inl (ResourceError (''capacity probe stopped: '' @ exn_str e)),
             t\<lparr>dg_failure := Some (ResourceError (''capacity probe stopped: '' @ exn_str e))\<rparr>)
       else (Inl e, t)))"
  using assms
  by (simp add: domain_guard_check_def handle_if_def Let_def split: prod.splits sum.splits)

lemma domain_guard_check_shut:
  "dg_failure s = Some e \<Longrightarrow> domain_guard_check cfg probe bs s = (Inl e, s)"
  by (simp add: domain_guard_check_def)

interpretation dg: sticky_guard "domain_guard_check cfg probe bs" dg_failure dg_initial
    "\<lambda>snap i. pyeq (identity snap) i" "\<lambda>e. \<exists>m. e = ResourceError m"
    "\<lambda>g. \<forall>s. dg_failure (g s) = dg_failure s \<and> dg_initial (g s) = dg_initial s"
  for cfg :: config and probe :: "'w probe" and bs :: bool
proof unfold_locales
  fix s :: "'w domain_guard" and e t
  assume c: "domain_guard_check cfg probe bs s = (Inl e, t)" and fatal: "\<exists>m. e = ResourceError m"
  show "dg_failure t = Some e"
  proof (cases "dg_failure s")
    case None
    from c fatal show ?thesis
      unfolding domain_guard_check_open [OF None] by (auto split: prod.splits sum.splits if_splits)
  next
    case (Some x)
    with c show ?thesis by (simp add: domain_guard_check_shut)
  qed
next
  fix s :: "'w domain_guard" and x t
  assume c: "domain_guard_check cfg probe bs s = (Inr x, t)"
  show "\<exists>i. dg_initial t = Some i \<and> pyeq (identity x) i"
  proof (cases "dg_failure s")
    case None
    from c have "domain_check cfg probe bs s = (Inr x, t)"
      unfolding domain_guard_check_open [OF None] by (auto split: prod.splits sum.splits if_splits)
    then show ?thesis by (rule domain_check_Inr)
  next
    case (Some e)
    with c show ?thesis by (simp add: domain_guard_check_shut)
  qed
next
  fix s :: "'w domain_guard" and r t i
  assume c: "domain_guard_check cfg probe bs s = (r, t)" and i: "dg_initial s = Some i"
  show "dg_initial t = Some i"
  proof (cases "dg_failure s")
    case None
    obtain r' u where b: "domain_check cfg probe bs s = (r', u)" by (rule prod.exhaust)
    then have "keeps_guard s u" using keeps_domain_check by (rule keepsD [rotated])
    with i have "dg_initial u = Some i" by (simp add: keeps_guard_def)
    with c show ?thesis
      unfolding domain_guard_check_open [OF None] b by (auto split: sum.splits if_splits)
  next
    case (Some e)
    with c i show ?thesis by (simp add: domain_guard_check_shut)
  qed
qed (simp_all add: domain_guard_check_shut)

text \<open>
  One identity.  However the world changes between the checks of a guard, all the
  snapshots it ever returns show the same identity (host and domain mounts, devices,
  sizes, inodes), and it is the one the first success recorded.
\<close>

lemma domain_guard_identity:
  "\<exists>i. list_all (\<lambda>r. case r of Inl _ \<Rightarrow> True | Inr snapshot \<Rightarrow> pyeq (identity snapshot) i)
     (check_run (domain_guard_check cfg probe bs) (map (\<lambda>g s. s\<lparr>dg_world := g (dg_world s)\<rparr>) gs) (domain_guard w))"
  by (rule dg.one_identity) (simp add: list_all_iff)

text \<open>
  Failure is final.  Once a check has failed, every later check of the guard raises the
  very same error, whatever has changed in between: there is no implicit retry.
\<close>

lemma domain_guard_sticky:
  assumes "i < j" and "j < length gs"
    and "check_run (domain_guard_check cfg probe bs) (map (\<lambda>g s. s\<lparr>dg_world := g (dg_world s)\<rparr>) gs) (domain_guard w) ! i
      = Inl (ResourceError m)"
  shows "check_run (domain_guard_check cfg probe bs) (map (\<lambda>g s. s\<lparr>dg_world := g (dg_world s)\<rparr>) gs) (domain_guard w) ! j
      = Inl (ResourceError m)"
  by (rule dg.failure_is_final [OF _ assms(1) _ assms(3)]) (simp_all add: list_all_iff assms(2))

definition demo_gone :: "nat probe" where
  "demo_gone = \<lparr> pr_mounts = (\<lambda>w. (Inl (OSError (if w = 0 then ''gone'' else ''busy'')), w)),
     pr_directory = (\<lambda>_. lft (Inl (OSError []))), pr_space = (\<lambda>_. lft (Inl (OSError []))),
     pr_device = (\<lambda>_. lft (Inl (OSError []))), pr_geteuid = ret 0 \<rparr>"

definition demo_config :: config where
  "demo_config = \<lparr> cf_root = path_of ''/srv'', cf_host_path = path_of ''/'', cf_devices = [] \<rparr>"

subsection \<open>What an accepted inventory guarantees\<close>

lemma foldA_append:
  assumes "\<And>b x s y t. x \<in> set xs \<Longrightarrow> f b x s = (Inr y, t) \<Longrightarrow> \<exists>r. y = b @ [r] \<and> P x r"
    and "foldA f b xs s = (Inr y, t)"
  shows "\<exists>rs. y = b @ rs \<and> list_all2 P xs rs"
  using assms
proof (induction xs arbitrary: b s)
  case Nil
  then show ?case by (simp add: act_simps)
next
  case (Cons x xs)
  from Cons.prems(2) obtain c u where c: "f b x s = (Inr c, u)" "foldA f c xs u = (Inr y, t)"
    by (auto simp: act_simps)
  from Cons.prems(1) [OF _ c(1)] obtain r where r: "c = b @ [r]" "P x r" by auto
  have "\<exists>rs. y = c @ rs \<and> list_all2 P xs rs"
    by (rule Cons.IH [OF _ c(2)]) (rule Cons.prems(1), simp_all)
  with r show ?case by auto
qed

definition domain_ok :: "config \<Rightarrow> string \<times> int \<Rightarrow> string \<times> pyval \<Rightarrow> bool" where
  "domain_ok cfg = (\<lambda>(name, cap) (n, r). n = name \<and> is_int (fld r ''capacity'') \<and>
     0 < int_of (fld r ''capacity'') \<and> int_of (fld r ''capacity'') \<le> cap \<and>
     is_str (fld r ''device'') \<and> map_of (cf_devices cfg) name = Some (str_of (fld r ''device'')))"

lemma inspect_domain_Inr:
  assumes "inspect_domain cfg probe bs mounts recs x s = (Inr recs', t)"
  shows "\<exists>r. recs' = recs @ [r] \<and> domain_ok cfg x r"
proof -
  obtain name cap where x: "x = (name, cap)" by (cases x)
  from assms show ?thesis unfolding inspect_domain_def x prod.case Let_def
    apply (elim bndE sqnE)
    apply (split prod.split_asm)
    apply (elim bndE sqnE)
    apply (simp only: demandA_Inr ret_eq lft_eq sum.inject)
    apply (elim conjE)
    apply (rule exI)
    apply (rule conjI)
     apply (rule refl)
    apply (simp add: domain_ok_def domain_record_def)
    done
qed

lemma config_decode_devices:
  assumes "config_decode obj = Inr cfg" and "wf obj"
  shows "distinct (map fst (cf_devices cfg)) \<and> fst ` set (cf_devices cfg) = fst ` set CAPS \<and>
    card (snd ` set (cf_devices cfg)) = 4"
proof -
  let ?d = "dict_of (fld obj ''devices'')"
  from assms(1) obtain root host where f: "has_fields (fld obj ''devices'') (map fst CAPS)"
    and c: "card (set (map (str_of \<circ> snd) ?d)) = 4"
    and r: "Inr \<lparr> cf_root = root, cf_host_path = host, cf_devices = map (\<lambda>(k, v). (k, str_of v)) ?d \<rparr> = (Inr cfg :: config res)"
    unfolding config_decode_def Let_def demand_Inr bindE_Inr
    apply (elim exE conjE)
    apply (rule that)
      apply assumption+
    done
  from r have cfg: "cf_devices cfg = map (\<lambda>(k, v). (k, str_of v)) ?d" by auto
  from f have "is_dict (fld obj ''devices'')" and k: "fst ` set ?d = fst ` set CAPS" by (simp_all add: has_fields_def)
  moreover from assms(2) have "wf (fld obj ''devices'')" by (rule wf_fld)
  ultimately have "distinct (map fst ?d)" by (auto simp: is_dict_iff)
  moreover have "map fst (cf_devices cfg) = map fst ?d" by (simp add: cfg split_def)
  moreover have "snd ` set (cf_devices cfg) = set (map (str_of \<circ> snd) ?d)" by (auto simp: cfg image_image split_def)
  moreover have "fst ` set (cf_devices cfg) = fst ` set ?d" by (auto simp: cfg image_image split_def)
  ultimately show ?thesis using k c by simp
qed

lemma four_devices_distinct:
  assumes "distinct (map fst d)" and "fst ` set d = fst ` set CAPS" and "card (snd ` set d) = 4"
  shows "distinct (map (\<lambda>(n, _). the (map_of d n)) CAPS) \<and> set (map (\<lambda>(n, _). the (map_of d n)) CAPS) = snd ` set d"
proof -
  have "snd ` set d = (\<lambda>n. the (map_of d n)) ` fst ` set d"
    using assms(1) by (force simp: image_image)
  also have "\<dots> = (\<lambda>n. the (map_of d n)) ` fst ` set CAPS" by (simp only: assms(2))
  also have "\<dots> = set (map (\<lambda>(n, _). the (map_of d n)) CAPS)" by (force simp: image_image)
  finally have s: "set (map (\<lambda>(n, _). the (map_of d n)) CAPS) = snd ` set d" by simp
  have "length (map (\<lambda>(n, _). the (map_of d n)) CAPS) = 4" by (simp add: CAPS_def)
  with s assms(3) have "distinct (map (\<lambda>(n, _). the (map_of d n)) CAPS)" by (intro card_distinct) simp
  with s show ?thesis by simp
qed

lemma inspect_domains_Inr:
  assumes "inspect_domains cfg probe bs s = (Inr snap, t)"
  shows "list_all2 (domain_ok cfg) CAPS (dict_of (fld snap ''domains'')) \<and>
     is_str (fld (fld snap ''host'') ''device'') \<and> str_of (fld (fld snap ''host'') ''device'') \<notin> snd ` set (cf_devices cfg)"
proof -
  from assms obtain mounts hm host records u v where
    f: "foldA (inspect_domain cfg probe bs mounts) [] CAPS u = (Inr records, v)"
    and h: "m_device hm \<notin> snd ` set (cf_devices cfg)"
    and snap: "snap = snapshot_value hm host records"
    unfolding inspect_domains_def
    apply (elim bndE sqnE)
    apply (simp only: demandA_Inr ret_eq lft_eq sum.inject)
    apply (elim conjE)
    apply (rule that)
      apply assumption+
    done
  from f have "\<exists>rs. records = [] @ rs \<and> list_all2 (domain_ok cfg) CAPS rs"
    by (rule foldA_append [rotated]) (rule inspect_domain_Inr)
  with h show ?thesis by (simp add: snap snapshot_value_def)
qed

lemma list_all2_domain_names: "list_all2 (domain_ok cfg) xs rs \<Longrightarrow> map fst rs = map fst xs"
  by (induction rule: list_all2_induct) (auto simp: domain_ok_def)

lemma list_all2_domain_devices:
  "list_all2 (domain_ok cfg) xs rs \<Longrightarrow>
     map (\<lambda>(_, r). str_of (fld r ''device'')) rs = map (\<lambda>(n, _). the (map_of (cf_devices cfg) n)) xs"
  by (induction rule: list_all2_induct) (auto simp: domain_ok_def)

lemma list_all2_domain_capacity:
  "list_all2 (domain_ok cfg) xs rs \<Longrightarrow>
     (\<Sum>(_, r) \<leftarrow> rs. int_of (fld r ''capacity'')) \<le> (\<Sum>(_, cap) \<leftarrow> xs. cap)"
  by (induction rule: list_all2_induct) (auto simp: domain_ok_def)

text \<open>
  C22: what an accepted inventory is.  If the inspection under a decoded configuration
  succeeds, the snapshot lists the four domains in order, each on the device configured for
  it and no larger than its cap, the four devices are different, none is the host's, and all
  four together hold at most 720 MiB.
\<close>

theorem inspect_domains_bounded:
  assumes "wf obj" and "config_decode obj = Inr cfg" and "inspect_domains cfg probe bs w = (Inr snap, w')"
  shows "let records = dict_of (fld snap ''domains''); devices = map (\<lambda>(_, r). str_of (fld r ''device'')) records in
       map fst records = [''build'', ''daemon'', ''evidence'', ''diagnostic''] \<and>
       list_all2 (domain_ok cfg) CAPS records \<and> distinct devices \<and>
       str_of (fld (fld snap ''host'') ''device'') \<notin> set devices \<and>
       (\<Sum>(_, r) \<leftarrow> records. int_of (fld r ''capacity'')) \<le> 720 * 1024 * 1024"
proof -
  let ?r = "dict_of (fld snap ''domains'')"
  from inspect_domains_Inr [OF assms(3)] have r: "list_all2 (domain_ok cfg) CAPS ?r"
    and h: "str_of (fld (fld snap ''host'') ''device'') \<notin> snd ` set (cf_devices cfg)" by auto
  from config_decode_devices [OF assms(2,1)]
  have "distinct (map (\<lambda>(n, _). the (map_of (cf_devices cfg) n)) CAPS) \<and>
      set (map (\<lambda>(n, _). the (map_of (cf_devices cfg) n)) CAPS) = snd ` set (cf_devices cfg)"
    by (intro four_devices_distinct) auto
  moreover have "map fst ?r = [''build'', ''daemon'', ''evidence'', ''diagnostic'']"
    using list_all2_domain_names [OF r] by (simp add: CAPS_def)
  moreover have "(\<Sum>(_, r) \<leftarrow> ?r. int_of (fld r ''capacity'')) \<le> 720 * 1024 * 1024"
    using list_all2_domain_capacity [OF r] by (simp add: CAPS_def RES_MIB_def)
  ultimately show ?thesis using r h unfolding Let_def list_all2_domain_devices [OF r] by metis
qed

text \<open>A machine with four small disks mounted below \<open>/srv\<close>.\<close>

definition demo_object :: pyval where
  "demo_object = PDict [(''schema_version'', PInt 1), (''root'', PStr ''/srv''), (''host_path'', PStr ''/var''),
     (''devices'', PDict [(''build'', PStr ''8:1''), (''daemon'', PStr ''8:2''),
        (''evidence'', PStr ''8:3''), (''diagnostic'', PStr ''8:4'')])]"

definition demo_disks :: config where
  "demo_disks = \<lparr> cf_root = Path ''/'' [''srv''], cf_host_path = Path ''/'' [''var''],
     cf_devices = [(''build'', ''8:1''), (''daemon'', ''8:2''), (''evidence'', ''8:3''), (''diagnostic'', ''8:4'')] \<rparr>"

definition demo_table :: "mount list" where
  "demo_table = [demo_mount 1 ''8:0'' (Path ''/'' []), demo_mount 2 ''8:1'' (Path ''/'' [''srv'', ''build'']), demo_mount 3 ''8:2'' (Path ''/'' [''srv'', ''daemon'']),
     demo_mount 4 ''8:3'' (Path ''/'' [''srv'', ''evidence'']), demo_mount 5 ''8:4'' (Path ''/'' [''srv'', ''diagnostic''])]"

definition demo_minor :: "path \<Rightarrow> nat" where
  "demo_minor p = (if p = (Path ''/'' [''srv'', ''build'']) then 1 else if p = (Path ''/'' [''srv'', ''daemon'']) then 2
     else if p = (Path ''/'' [''srv'', ''evidence'']) then 3 else if p = (Path ''/'' [''srv'', ''diagnostic'']) then 4 else 0)"

definition demo_space :: "path \<Rightarrow> space" where
  "demo_space p = (if p = Path ''/'' [''var'']
        then \<lparr> f_frsize = 4096, f_blocks = 300000, f_bfree = 300000, f_bavail = 300000, f_files = 9, f_ffree = 9,
               f_favail = 9, f_fsid = 1 \<rparr>
        else \<lparr> f_frsize = 4096, f_blocks = 900, f_bfree = 800, f_bavail = 700, f_files = 9, f_ffree = 9,
               f_favail = 9, f_fsid = 2 \<rparr>)"

definition demo_info :: "path \<Rightarrow> stat_info" where
  "demo_info p = \<lparr> st_dev = (8, demo_minor p), st_ino = 2, st_mode = 4 * 4096 + 448, st_uid = 0,
     st_gid = 0, st_nlink = 2, st_size = 0,
     st_mtime_ns = 0, st_ctime_ns = 0 \<rparr>"

definition demo_probe :: "unit probe" where
  "demo_probe = \<lparr> pr_mounts = ret demo_table,
     pr_directory = (\<lambda>p. ret (demo_info p)),
     pr_space = (\<lambda>p. ret (demo_space p)),
     pr_device = (\<lambda>m. ret (''/sys/block/vda'', 4194304)), pr_geteuid = ret 0 \<rparr>"

lemma demo_disks_decoded: "config_decode demo_object = Inr demo_disks"
  by code_simp

lemma demo_covering:
  "covering demo_table (Path ''/'' [''var'']) = Inr (demo_mount 1 ''8:0'' (Path ''/'' []))"
  "covering demo_table (Path ''/'' [''srv'', ''build'']) = Inr (demo_mount 2 ''8:1'' (Path ''/'' [''srv'', ''build'']))"
  "covering demo_table (Path ''/'' [''srv'', ''daemon'']) = Inr (demo_mount 3 ''8:2'' (Path ''/'' [''srv'', ''daemon'']))"
  "covering demo_table (Path ''/'' [''srv'', ''evidence'']) = Inr (demo_mount 4 ''8:3'' (Path ''/'' [''srv'', ''evidence'']))"
  "covering demo_table (Path ''/'' [''srv'', ''diagnostic'']) = Inr (demo_mount 5 ''8:4'' (Path ''/'' [''srv'', ''diagnostic'']))"
  by code_simp+

lemma demo_paths:
  "path_join (Path ''/'' [''srv'']) ''build'' = Path ''/'' [''srv'', ''build'']"
  "path_join (Path ''/'' [''srv'']) ''daemon'' = Path ''/'' [''srv'', ''daemon'']"
  "path_join (Path ''/'' [''srv'']) ''evidence'' = Path ''/'' [''srv'', ''evidence'']"
  "path_join (Path ''/'' [''srv'']) ''diagnostic'' = Path ''/'' [''srv'', ''diagnostic'']"
  by code_simp+

lemma demo_devices:
  "device_text (8, Suc 0) = ''8:1''" "device_text (8, 0) = ''8:0''" "device_text (8, 1) = ''8:1''" "device_text (8, 2) = ''8:2''"
  "device_text (8, 3) = ''8:3''" "device_text (8, 4) = ''8:4''"
  by code_simp+

lemmas demo_simps = demo_covering demo_paths demo_devices demo_probe_def demo_disks_def demo_minor_def

lemma demo_flags: "mount_flags_ok False n (demo_mount i d p)"
  by (auto simp: mount_flags_ok_def demo_mount_def Let_def)

lemma demo_mount_sel [simp]:
  "m_ident (demo_mount i d p) = i" "m_device (demo_mount i d p) = d" "m_path (demo_mount i d p) = p"
  "m_root (demo_mount i d p) = ''/''" "m_kind (demo_mount i d p) = ''ext4''"
  by (simp_all add: demo_mount_def)

lemma demo_table_single:
  "count_list (map m_device demo_table) ''8:1'' = 1" "count_list (map m_device demo_table) ''8:2'' = 1"
  "count_list (map m_device demo_table) ''8:3'' = 1" "count_list (map m_device demo_table) ''8:4'' = 1"
  by (simp_all add: demo_table_def)

lemma demo_table_flat:
  "n \<in> {''build'', ''daemon'', ''evidence'', ''diagnostic''} \<Longrightarrow>
     \<not> list_ex (\<lambda>x. m_path x \<noteq> Path ''/'' [''srv'', n] \<and> below (m_path x) (Path ''/'' [''srv'', n])) demo_table"
  by (auto simp: demo_table_def below_code)

lemma demo_probe_sel [simp]:
  "pr_mounts demo_probe = ret demo_table" "pr_directory demo_probe p = ret (demo_info p)"
  "pr_space demo_probe p = ret (demo_space p)" "pr_device demo_probe m = ret (''/sys/block/vda'', 4194304)"
  "pr_geteuid demo_probe = ret 0"
  by (simp_all add: demo_probe_def)

lemma demo_info_sel [simp]:
  "st_dev (demo_info p) = (8, demo_minor p)" "st_uid (demo_info p) = 0" "permissions (demo_info p) = 448"
  by (simp_all add: demo_info_def permissions_def)

lemma demo_check_space:
  "n \<in> {''build'', ''daemon'', ''evidence'', ''diagnostic''} \<Longrightarrow>
     check_space demo_probe (Path ''/'' [''srv'', n]) 1 (Some 4194304) () = (Inr (demo_space (Path ''/'' [''srv'', n])), ())"
  "check_space demo_probe (Path ''/'' [''var'']) HOST_FREE None () = (Inr (demo_space (Path ''/'' [''var''])), ())"
  by (simp_all add: check_space_def demo_space_def HOST_FREE_def RES_MIB_def)

lemma demo_domain:
  assumes "(n, i, d) \<in> {(''build'', 2, ''8:1''), (''daemon'', 3, ''8:2''), (''evidence'', 4, ''8:3''), (''diagnostic'', 5, ''8:4'')}"
    and "4194304 \<le> cap"
  shows "inspect_domain demo_disks demo_probe False demo_table recs (n, cap) () = (Inr (recs @ [(n,
     domain_record (demo_mount i d (Path ''/'' [''srv'', n])) ''/sys/block/vda'' 4194304 (demo_space (Path ''/'' [''srv'', n]))
       (demo_info (Path ''/'' [''srv'', n])))]), ())"
  using assms
  by (elim insertE emptyE)
    (simp_all add: inspect_domain_def Let_def demo_disks_def demo_paths demo_covering demo_devices demo_minor_def demo_flags
      demo_table_single demo_table_flat demo_check_space)

lemma demo_domain_order:
  "foldA (inspect_domain demo_disks demo_probe False demo_table) [] CAPS () = (Inr
     (map (\<lambda>(n, i, d). (n, domain_record (demo_mount i d (Path ''/'' [''srv'', n])) ''/sys/block/vda'' 4194304
        (demo_space (Path ''/'' [''srv'', n])) (demo_info (Path ''/'' [''srv'', n]))))
       [(''build'', 2, ''8:1''), (''daemon'', 3, ''8:2''), (''evidence'', 4, ''8:3''), (''diagnostic'', 5, ''8:4'')]), ())"
  by (simp add: CAPS_def RES_MIB_def demo_domain)

lemma demo_disks_accepted:
  "inspect_domains demo_disks demo_probe False () = (Inr (snapshot_value (demo_mount 1 ''8:0'' (Path ''/'' []))
     (demo_space (Path ''/'' [''var'']))
     (map (\<lambda>(n, i, d). (n, domain_record (demo_mount i d (Path ''/'' [''srv'', n])) ''/sys/block/vda'' 4194304
        (demo_space (Path ''/'' [''srv'', n])) (demo_info (Path ''/'' [''srv'', n]))))
       [(''build'', 2, ''8:1''), (''daemon'', 3, ''8:2''), (''evidence'', 4, ''8:3''), (''diagnostic'', 5, ''8:4'')])), ())"
proof -
  have t: "list_all (\<lambda>m. below (m_path m) (Path ''/'' [''srv'']) \<longrightarrow> m_path m = Path ''/'' [''srv''] \<or>
      m_path m \<in> path_join (Path ''/'' [''srv'']) ` fst ` set CAPS) demo_table"
    by (simp add: demo_table_def below_code CAPS_def demo_paths)
  have d: "cf_root demo_disks = Path ''/'' [''srv'']" "cf_host_path demo_disks = Path ''/'' [''var'']"
    "snd ` set (cf_devices demo_disks) = {''8:1'', ''8:2'', ''8:3'', ''8:4''}"
    by (simp_all add: demo_disks_def)
  have m: "demo_minor (Path ''/'' [''srv'']) = 0" "demo_minor (Path ''/'' [''var'']) = 0"
    by (simp_all add: demo_minor_def)
  show ?thesis
    unfolding inspect_domains_def
    by (simp add: d m demo_covering demo_devices demo_check_space demo_domain_order t whenA_def)
qed

lemma inspect_domains_bounded_witness:
  "let snap = snapshot_value (demo_mount 1 ''8:0'' (Path ''/'' [])) (demo_space (Path ''/'' [''var'']))
       (map (\<lambda>(n, i, d). (n, domain_record (demo_mount i d (Path ''/'' [''srv'', n])) ''/sys/block/vda'' 4194304
          (demo_space (Path ''/'' [''srv'', n])) (demo_info (Path ''/'' [''srv'', n]))))
         [(''build'', 2, ''8:1''), (''daemon'', 3, ''8:2''), (''evidence'', 4, ''8:3''), (''diagnostic'', 5, ''8:4'')]);
       records = dict_of (fld snap ''domains''); devices = map (\<lambda>(_, r). str_of (fld r ''device'')) records in
     map fst records = [''build'', ''daemon'', ''evidence'', ''diagnostic''] \<and>
     list_all2 (domain_ok demo_disks) CAPS records \<and> distinct devices \<and>
     str_of (fld (fld snap ''host'') ''device'') \<notin> set devices \<and>
     (\<Sum>(_, r) \<leftarrow> records. int_of (fld r ''capacity'')) \<le> 720 * 1024 * 1024"
  unfolding Let_def
  by (rule inspect_domains_bounded [unfolded Let_def, OF _ demo_disks_decoded demo_disks_accepted])
    (simp add: demo_object_def)

end
