(* ===== verification/IsolationProps.thy ===== *)
theory IsolationProps
  imports Namespace ResourcesProps
begin

text \<open>
  Properties of the preparation boundary: the seccomp program refines its policy, the guard
  is an instance of the sticky contract, the setup child issues its system calls in order
  and validates last, and what an accepted mount table guarantees.
\<close>

subsection \<open>The seccomp filter\<close>

lemma bpf_load: "bpf d ((0x20, jt, jf, k) # p) a = (case load d k of None \<Rightarrow> None | Some x \<Rightarrow> bpf d p x)"
  by simp

lemma bpf_jeq: "bpf d ((0x15, jt, jf, k) # p) a = bpf d (drop (if a = of_nat k then jt else jf) p) a"
  by simp

lemma bpf_ret: "bpf d ((0x06, jt, jf, k) # p) a = Some (of_nat k)"
  by simp

text \<open>A list of denied numbers: refuse the ones in it, fall through to the rest.\<close>

lemma bpf_denied:
  "bpf d (concat (map (\<lambda>n. [(0x15, 0, 1, n), (0x06, 0, 0, e)]) ns) @ p) a =
     (if a \<in> of_nat ` set ns then Some (of_nat e) else bpf d p a)"
proof (induction ns)
  case Nil
  then show ?case by simp
next
  case (Cons n ns)
  then show ?case by (simp del: bpf.simps add: bpf_jeq bpf_ret)
qed

lemma bpf_head:
  "bpf d ([(0x20, 0, 0, 4), (0x15, 1, 0, arch), (0x06, 0, 0, 0x80000000),
           (0x20, 0, 0, 0), (0x45, 0, 1, 0x40000000), (0x06, 0, 0, 0x80000000)] @ rest) a =
     (if sd_arch d \<noteq> of_nat arch then Some 0x80000000
      else if sd_nr d AND 0x40000000 \<noteq> 0 then Some 0x80000000
      else bpf d rest (sd_nr d))"
  by (simp add: load_def)

lemma bpf_tail:
  "bpf d [(0x15, 0, 3, clone), (0x20, 0, 0, 16), (0x45, 0, 1, 0x7E020000),
           (0x06, 0, 0, 0x00050001), (0x06, 0, 0, 0x7FFF0000)] x =
     (if x = of_nat clone \<and> sd_arg0 d AND 0x7E020000 \<noteq> 0 then Some 0x00050001 else Some 0x7FFF0000)"
  by (simp add: load_def)

lemma bpf_program:
  "bpf d ([(0x20, 0, 0, 4), (0x15, 1, 0, arch), (0x06, 0, 0, 0x80000000),
           (0x20, 0, 0, 0), (0x45, 0, 1, 0x40000000), (0x06, 0, 0, 0x80000000)] @
          concat (map (\<lambda>number. [(0x15, 0, 1, number), (0x06, 0, 0, 0x00050001)]) (denied @ [425, 426, 427, 435])) @
          [(0x15, 0, 3, clone), (0x20, 0, 0, 16), (0x45, 0, 1, 0x7E020000),
           (0x06, 0, 0, 0x00050001), (0x06, 0, 0, 0x7FFF0000)]) a = Some (action (policy (arch, clone, denied) d))"
  unfolding bpf_head bpf_denied bpf_tail policy_def prod.case
  by (simp del: set_append)

text \<open>
  C19: the filter does what it is for.  On both supported machines the program always
  returns an action (it never runs off its end or loads outside the data), and it is the
  action of the policy: a foreign architecture or the x32 bit kills the process, the listed
  socket, IPC and io_uring calls and \<open>clone3\<close> fail with \<open>EPERM\<close>, \<open>clone\<close> fails exactly
  when it asks for a namespace, and every other call is allowed.  Any other machine is refused.
\<close>

theorem seccomp_program_policy:
  "case map_of seccomp_tables machine of
     None \<Rightarrow> isl (seccomp_program machine)
   | Some table \<Rightarrow> (\<exists>program. seccomp_program machine = Inr program \<and>
       (\<forall>d a. bpf d program a = Some (action (policy table d))))"
proof (cases "map_of seccomp_tables machine")
  case None
  then show ?thesis by (simp add: seccomp_program_def)
next
  case (Some table)
  obtain arch clone denied where t: "table = (arch, clone, denied)" by (rule prod_cases3)
  show ?thesis
    unfolding Some seccomp_program_def t option.case prod.case
    by (rule exI, rule conjI, rule refl) (intro allI bpf_program)
qed

subsection \<open>The guard is sticky\<close>

definition kept_boundary :: "'w isolation_guard \<Rightarrow> 'w isolation_guard \<Rightarrow> bool" where
  "kept_boundary s t = (ig_initial s = None \<or> ig_initial t = ig_initial s)"

interpretation kb: state_order kept_boundary
  by unfold_locales (auto simp: kept_boundary_def)

lemma kept_guarded: "keeps kept_boundary (guarded m)"
  by (simp add: keeps_def guarded_def kept_boundary_def split: prod.split)

lemma kept_upd:
  "keeps kept_boundary (upd (\<lambda>s. s\<lparr>ig_groups := g\<rparr>))"
  "keeps kept_boundary (upd (\<lambda>s. s\<lparr>ig_failure := f\<rparr>))"
  by (auto simp: keeps_def upd_def kept_boundary_def)

lemma kept_stop: "keeps kept_boundary (stop_isolation x)"
  by (simp add: stop_isolation_def Let_def kb.keeps_sqn kb.keeps_lft kept_upd)

lemma kept_check_cgroups: "keeps kept_boundary (check_cgroups k c probe)"
  unfolding check_cgroups_def groups_body_def
  by (intro kb.keeps_intros kb.keeps_branches kept_guarded kept_upd kept_stop)

lemma kept_settle: "keeps kept_boundary (settle_boundary current)"
  by (auto simp: settle_boundary_def keeps_def kept_boundary_def bnd_def sqn_def get_def whenA_def upd_def ret_def ensure_def)

lemma kept_boundary_body: "keeps kept_boundary (boundary_body k c probe)"
  unfolding boundary_body_def
  by (intro kb.keeps_bnd kb.keeps_prod kb.keeps_lft kept_guarded kept_check_cgroups kept_settle)

lemma settle_boundary_Inr:
  assumes "settle_boundary current s = (Inr x, t)"
  shows "ig_initial t \<noteq> None \<and> fst x = fst (the (ig_initial t)) \<and> set (snd x) = set (snd (the (ig_initial t)))"
  using assms unfolding settle_boundary_def
  by (elim bndE sqnE) (auto simp: whenA_def get_eq upd_eq ret_eq ensure_Inr split: if_splits)

lemma boundary_body_Inr:
  assumes "boundary_body k c probe s = (Inr x, t)"
  shows "\<exists>i. ig_initial t = Some i \<and> fst x = fst i \<and> set (snd x) = set (snd i)"
proof -
  from assms have "ig_initial t \<noteq> None \<and> fst x = fst (the (ig_initial t)) \<and> set (snd x) = set (snd (the (ig_initial t)))"
    unfolding boundary_body_def
    by (auto split: prod.splits elim!: bndE dest!: settle_boundary_Inr)
  then show ?thesis by (cases "ig_initial t") simp_all
qed

lemma isolation_check_shut:
  "ig_failure s = Some m \<Longrightarrow> isolation_check k c probe s = (Inl (ValueError m), s)"
  by (simp add: isolation_check_def)

lemma isolation_check_open:
  assumes "ig_failure s = None"
  shows "isolation_check k c probe s = (case boundary_body k c probe s of
     (Inr x, t) \<Rightarrow> (Inr x, t)
   | (Inl e, t) \<Rightarrow> (if iso_caught e
       then (Inl (ValueError (''preparation isolation stopped: '' @ exn_str e)),
             t\<lparr>ig_failure := Some (''preparation isolation stopped: '' @ exn_str e)\<rparr>)
       else (Inl e, t)))"
  using assms
  by (simp add: isolation_check_def stop_isolation_def handle_if_def Let_def split: prod.splits sum.splits)

interpretation ig: sticky_guard "isolation_check k c probe" "\<lambda>s. map_option ValueError (ig_failure s)" ig_initial
    "\<lambda>x i. fst x = fst i \<and> set (snd x) = set (snd i)" "\<lambda>e. \<exists>m. e = ValueError m"
    "\<lambda>g. \<forall>s. ig_failure (g s) = ig_failure s \<and> ig_initial (g s) = ig_initial s"
  for k :: "'w kernel" and c :: contract and probe :: "'w isolation_probe"
proof unfold_locales
  fix s :: "'w isolation_guard" and e t
  assume c: "isolation_check k c probe s = (Inl e, t)" and fatal: "\<exists>m. e = ValueError m"
  show "map_option ValueError (ig_failure t) = Some e"
  proof (cases "ig_failure s")
    case None
    from c fatal show ?thesis
      unfolding isolation_check_open [OF None] by (auto simp: iso_caught_def split: prod.splits sum.splits if_splits)
  next
    case (Some x)
    with c show ?thesis by (auto simp: isolation_check_shut)
  qed
next
  fix s :: "'w isolation_guard" and x t
  assume c: "isolation_check k c probe s = (Inr x, t)"
  show "\<exists>i. ig_initial t = Some i \<and> fst x = fst i \<and> set (snd x) = set (snd i)"
  proof (cases "ig_failure s")
    case None
    from c have "boundary_body k c probe s = (Inr x, t)"
      unfolding isolation_check_open [OF None] by (auto split: prod.splits sum.splits if_splits)
    then show ?thesis by (rule boundary_body_Inr)
  next
    case (Some e)
    with c show ?thesis by (simp add: isolation_check_shut)
  qed
next
  fix s :: "'w isolation_guard" and r t i
  assume c: "isolation_check k c probe s = (r, t)" and i: "ig_initial s = Some i"
  show "ig_initial t = Some i"
  proof (cases "ig_failure s")
    case None
    obtain r' u where b: "boundary_body k c probe s = (r', u)" by (rule prod.exhaust)
    then have "kept_boundary s u" using kept_boundary_body by (rule keepsD [rotated])
    with i have "ig_initial u = Some i" by (simp add: kept_boundary_def)
    with c show ?thesis
      unfolding isolation_check_open [OF None] b by (auto split: sum.splits if_splits)
  next
    case (Some e)
    with c i show ?thesis by (simp add: isolation_check_shut)
  qed
next
  fix s :: "'w isolation_guard" and e
  assume "map_option ValueError (ig_failure s) = Some e"
  then show "isolation_check k c probe s = (Inl e, s)" by (auto simp: isolation_check_shut)
qed simp_all

text \<open>
  One boundary.  However the kernel changes between the checks of an isolation guard,
  every success reports the same three domains (mount, device, inode, capacity) and the
  same three cgroup inodes as the first one did.
\<close>

lemma isolation_guard_identity:
  "\<exists>i. list_all (\<lambda>r. case r of Inl _ \<Rightarrow> True | Inr x \<Rightarrow> fst x = fst i \<and> set (snd x) = set (snd i))
     (check_run (isolation_check k c probe) (map (\<lambda>g s. s\<lparr>ig_world := g (ig_world s)\<rparr>) gs) (isolation_guard w))"
  by (rule ig.one_identity) (simp add: list_all_iff)

subsection \<open>The order of the setup\<close>

text \<open>A kernel that records the system calls it is asked for.\<close>

definition lifted :: "('w, 'a) act \<Rightarrow> ('w \<times> syscall list, 'a) act" where
  "lifted m = (\<lambda>(w, l). case m w of (r, w') \<Rightarrow> (r, w', l))"

definition traced :: "'w kernel \<Rightarrow> ('w \<times> syscall list) kernel" where
  "traced k = \<lparr> k_uname = lifted (k_uname k), k_geteuid = lifted (k_geteuid k), k_getpid = lifted (k_getpid k),
     k_resolve = lifted \<circ> k_resolve k, k_stat = lifted \<circ> k_stat k, k_lstat = lifted \<circ> k_lstat k,
     k_statvfs = lifted \<circ> k_statvfs k, k_exists = lifted \<circ> k_exists k, k_read_text = lifted \<circ> k_read_text k,
     k_read_path = (\<lambda>p. lifted \<circ> k_read_path k p), k_readlink = lifted \<circ> k_readlink k,
     k_iterdir = lifted \<circ> k_iterdir k, k_open = (\<lambda>p. lifted \<circ> k_open k p),
     k_open_at = (\<lambda>d p. lifted \<circ> k_open_at k d p), k_read = (\<lambda>d. lifted \<circ> k_read k d),
     k_write = (\<lambda>d. lifted \<circ> k_write k d), k_close = lifted \<circ> k_close k, k_fstat = lifted \<circ> k_fstat k,
     k_stat_at = (\<lambda>d. lifted \<circ> k_stat_at k d), k_listdir = lifted \<circ> k_listdir k, k_fstatfs = lifted \<circ> k_fstatfs k,
     k_call = (\<lambda>c (w, l). case k_call k c w of (r, w') \<Rightarrow> (r, w', l @ [c])) \<rparr>"

definition quiet :: "('w \<times> syscall list, 'a) act \<Rightarrow> bool" where
  "quiet m = keeps (\<lambda>s t. snd s = snd t) m"

lemma quiet_intros:
  "quiet (lifted m)" "quiet (ret x)" "quiet (lft r)" "quiet (ensure c e)"
  by (simp_all add: quiet_def keeps_def lifted_def lft_def ret_def ensure_def split: prod.split)

lemma quiet_bnd: "quiet m \<Longrightarrow> (\<And>x. quiet (f x)) \<Longrightarrow> quiet (bnd m f)"
  unfolding quiet_def by (rule same.keeps_bnd)

lemma quiet_sqn: "quiet m \<Longrightarrow> quiet k \<Longrightarrow> quiet (sqn m k)"
  unfolding quiet_def by (rule same.keeps_sqn)

lemma quietD:
  assumes "quiet m" and "m s = (r, t)"
  shows "snd t = snd s"
proof -
  from assms(1) have "snd s = snd (snd (m s))" by (simp only: quiet_def keeps_def)
  with assms(2) show ?thesis by simp
qed

lemma traced_sel:
  "k_uname (traced k) = lifted (k_uname k)" "k_geteuid (traced k) = lifted (k_geteuid k)"
  "k_resolve (traced k) p = lifted (k_resolve k p)" "k_stat (traced k) p = lifted (k_stat k p)"
  "k_iterdir (traced k) p = lifted (k_iterdir k p)" "k_read_text (traced k) p = lifted (k_read_text k p)"
  "k_open (traced k) p fl = lifted (k_open k p fl)" "k_close (traced k) fd = lifted (k_close k fd)"
  by (simp_all add: traced_def)

lemma quiet_mountpoints: "quiet (mountpoints (traced k) c)"
proof -
  have q: "quiet (mountpoint (traced k) c p)" for p
    unfolding mountpoint_def whenA_def by (auto intro!: quiet_bnd quiet_sqn quiet_intros simp: traced_sel)
  show ?thesis unfolding mountpoints_def by (auto intro!: quiet_bnd quiet_sqn quiet_intros q simp: traced_sel)
qed

lemma syscall_traced:
  assumes "syscall (traced k) c m s = (Inr u, t)"
  shows "snd t = snd s @ [c]"
  using assms by (cases s) (auto simp: syscall_def traced_def checked_def act_simps split: prod.splits if_splits)

lemma syscalls_traced:
  assumes "eachA (\<lambda>x. syscall (traced k) (f x) m) xs s = (Inr u, t)"
  shows "snd t = snd s @ map f xs"
  using assms
  by (induction xs arbitrary: s) (auto simp: ret_eq sqn_Inr dest!: syscall_traced)

text \<open>The calls of a complete setup, for a last capability, a machine's program and three descriptors.\<close>

definition setup_calls :: "contract \<Rightarrow> nat \<Rightarrow> filter_row list \<Rightarrow> int list \<Rightarrow> syscall list" where
  "setup_calls c last_cap program fds =
     [Unshare 0x48020000, MountPrivate 0x44000, MountSetattr 442 (path_of ''/'') 0x8000 1,
      MountTmpfs (work_path c) 14 (tmpfs_options (128 * MIB) 32768 (ic_uid c) (ic_gid c)),
      MountTmpfs (result_path c) 14 (tmpfs_options (8 * MIB) 4096 (ic_uid c) (ic_gid c)),
      Setrlimit ''RLIMIT_CORE'' 0, Setrlimit ''RLIMIT_FSIZE'' (128 * MIB), Prctl 38 1] @
     map (Prctl 24) [0..<Suc last_cap] @
     [Prctl 47 4, Setgroups [], Setresgid (ic_gid c), Setresuid (ic_uid c), Capset 0x20080522] @
     map (\<lambda>(fd, d). Dup2 fd d) (zip fds [0, 1, 2]) @ [SeccompFilter program]"

lemma private_traced:
  assumes "private_namespace (traced k) s = (Inr u, t)"
  shows "snd t = snd s @ [Unshare 0x48020000, MountPrivate 0x44000]"
  using assms unfolding private_namespace_def by (auto simp: sqn_Inr dest!: syscall_traced)

lemma drop_identity_traced:
  assumes "drop_identity (traced k) uid gid s = (Inr u, t)"
  shows "\<exists>n < 64. snd t = snd s @ [Setrlimit ''RLIMIT_CORE'' 0, Setrlimit ''RLIMIT_FSIZE'' (128 * MIB), Prctl 38 1] @
     map (Prctl 24) [0..<Suc n] @ [Prctl 47 4, Setgroups [], Setresgid gid, Setresuid uid, Capset 0x20080522]"
  using assms unfolding drop_identity_def
  apply (elim bndE sqnE)
  apply (drule syscall_traced syscalls_traced)+
  apply (simp only: ensure_Inr lft_eq traced_sel)
  apply (elim conjE)
  apply (drule quietD [OF quiet_intros(1)])
  subgoal for u1 t1 u2 t2 u3 t3 raw t4 n t5
    by (rule exI [of _ "nat n"]) (simp add: nat_less_iff)
  done

lemma stdio_target_traced:
  assumes "stdio_target (traced k) (d, p, fl) s = (Inr u, t)"
  shows "\<exists>fd. snd t = snd s @ [Dup2 fd d]"
proof -
  from assms obtain fd s1 s2 where o1: "lifted (k_open k p (fl @ [''NOFOLLOW'', ''CLOEXEC''])) s = (Inr fd, s1)"
    and d: "syscall (traced k) (Dup2 fd d) ''dup2'' s1 = (Inr u, s2)"
    and c: "whenA (fd \<noteq> d) (k_close (traced k) fd) s2 = (Inr (), t)"
    unfolding stdio_target_def prod.case by (auto simp: bnd_Inr try_finally_Inr traced_sel)
  have "quiet (whenA (fd \<noteq> d) (k_close (traced k) fd))"
    by (simp add: whenA_def traced_sel quiet_intros)
  from quietD [OF quiet_intros(1) o1] syscall_traced [OF d] quietD [OF this c] show ?thesis by auto
qed

lemma stdio_traced:
  assumes "stdio (traced k) p s = (Inr u, t)"
  shows "\<exists>fds. length fds = 3 \<and> snd t = snd s @ map (\<lambda>(fd, d). Dup2 fd d) (zip fds [0, 1, 2])"
proof -
  from assms obtain a b c where "snd t = snd s @ [Dup2 a 0, Dup2 b 1, Dup2 c 2]"
    unfolding stdio_def by (auto simp: sqn_Inr ret_eq dest!: stdio_target_traced)
  then show ?thesis by (intro exI [of _ "[a, b, c]"]) simp
qed

lemma restrict_traced:
  assumes "restrict_syscalls (traced k) s = (Inr u, t)"
  shows "\<exists>machine program. seccomp_program machine = Inr program \<and> snd t = snd s @ [SeccompFilter program]"
  using assms unfolding restrict_syscalls_def
  apply (elim bndE)
  apply (split prod.split_asm)
  apply (elim bndE)
  apply (drule syscall_traced)
  apply (simp only: lft_eq traced_sel)
  apply (elim conjE)
  apply (drule quietD [OF quiet_intros(1)])
  by metis

text \<open>
  C20: the setup is complete and in order.  When \<open>confine_worker\<close> returns, the child has
  issued exactly these calls, in this order: new namespaces before any mount, the read-only
  remount before the two bounded tmpfs, every capability dropped from the bounding set,
  groups, gid and uid in that order, the capability sets cleared, the three descriptors
  redirected, and the filter of its machine last; only then has \<open>validate\<close> run, and it
  succeeded.
\<close>

theorem confine_worker_order:
  assumes "confine_worker (traced k) c (lifted validate) (w, []) = (Inr u, (w', calls))"
  shows "\<exists>last_cap machine program fds w1. last_cap < 64 \<and> length fds = 3 \<and>
    seccomp_program machine = Inr program \<and> calls = setup_calls c last_cap program fds \<and> validate w1 = (Inr u, w')"
proof -
  from assms obtain s1 s2 s3 s4 s5 s6 s7 s8 u1 u2 u3 u4 u5 u6 u7 u8 where
    c1: "mountpoints (traced k) c (w, []) = (Inr u1, s1)" and
    c2: "private_namespace (traced k) s1 = (Inr u2, s2)" and
    c3: "readonly (traced k) (path_of ''/'') True s2 = (Inr u3, s3)" and
    c4: "tmpfs (traced k) (work_path c) (the (map_of STORAGE ''work'')) 32768 (ic_uid c) (ic_gid c) s3 = (Inr u4, s4)" and
    c5: "tmpfs (traced k) (result_path c) (the (map_of STORAGE ''result'')) 4096 (ic_uid c) (ic_gid c) s4 = (Inr u5, s5)" and
    c6: "drop_identity (traced k) (ic_uid c) (ic_gid c) s5 = (Inr u6, s6)" and
    c7: "stdio (traced k) (result_path c) s6 = (Inr u7, s7)" and
    c8: "restrict_syscalls (traced k) s7 = (Inr u8, s8)" and
    v: "lifted validate s8 = (Inr u, (w', calls))"
    unfolding confine_worker_def by (elim sqnE)
  have "snd s5 = [Unshare 0x48020000, MountPrivate 0x44000, MountSetattr 442 (path_of ''/'') 0x8000 1,
      MountTmpfs (work_path c) 14 (tmpfs_options (128 * MIB) 32768 (ic_uid c) (ic_gid c)),
      MountTmpfs (result_path c) 14 (tmpfs_options (8 * MIB) 4096 (ic_uid c) (ic_gid c))]"
    using quietD [OF quiet_mountpoints c1] private_traced [OF c2] syscall_traced [OF c3 [unfolded readonly_def]]
      syscall_traced [OF c4 [unfolded tmpfs_def]] syscall_traced [OF c5 [unfolded tmpfs_def]]
    by (simp add: STORAGE_def)
  moreover obtain n where "n < 64" "snd s6 = snd s5 @ [Setrlimit ''RLIMIT_CORE'' 0, Setrlimit ''RLIMIT_FSIZE'' (128 * MIB), Prctl 38 1] @
     map (Prctl 24) [0..<Suc n] @ [Prctl 47 4, Setgroups [], Setresgid (ic_gid c), Setresuid (ic_uid c), Capset 0x20080522]"
    using drop_identity_traced [OF c6] by blast
  moreover obtain fds where "length fds = 3" "snd s7 = snd s6 @ map (\<lambda>(fd, d). Dup2 fd d) (zip fds [0, 1, 2])"
    using stdio_traced [OF c7] by blast
  moreover obtain machine program where "seccomp_program machine = Inr program" "snd s8 = snd s7 @ [SeccompFilter program]"
    using restrict_traced [OF c8] by blast
  moreover have "calls = snd s8" using quietD [OF quiet_intros(1) v] by simp
  moreover have "validate (fst s8) = (Inr u, w')"
    using v by (cases s8) (auto simp: lifted_def split: prod.splits)
  ultimately show ?thesis
    by (intro exI [of _ n] exI [of _ machine] exI [of _ program] exI [of _ fds] exI [of _ "fst s8"])
      (simp add: setup_calls_def)
qed

definition demo_kernel :: "unit kernel" where
  "demo_kernel = \<lparr> k_uname = ret (''Linux'', ''aarch64''), k_geteuid = ret 0, k_getpid = ret 7, k_resolve = ret,
     k_stat = (\<lambda>_. ret \<lparr> st_dev = (0, 1), st_ino = 2, st_mode = 4 * 4096 + 493, st_uid = 0, st_gid = 0, st_nlink = 1, st_size = 0,
     st_mtime_ns = 0, st_ctime_ns = 0 \<rparr>),
     k_lstat = (\<lambda>_. lft (Inl (OSError []))), k_statvfs = (\<lambda>_. lft (Inl (OSError []))), k_exists = (\<lambda>_. ret True),
     k_read_text = (\<lambda>_. ret (''1'' @ nl)), k_read_path = (\<lambda>_ _. ret []), k_readlink = (\<lambda>_. ret []),
     k_iterdir = (\<lambda>_. ret []), k_open = (\<lambda>_ _. ret 9), k_open_at = (\<lambda>_ _ _. ret 9), k_read = (\<lambda>_ _. ret []),
     k_write = (\<lambda>_ _. ret 0), k_close = (\<lambda>_. ret ()), k_fstat = (\<lambda>_. lft (Inl (OSError []))),
     k_stat_at = (\<lambda>_ _. lft (Inl (OSError []))), k_listdir = (\<lambda>_. ret []), k_fstatfs = (\<lambda>_. ret 0), k_call = (\<lambda>_. ret 0) \<rparr>"

definition demo_contract :: contract where
  "demo_contract = \<lparr> ic_nonce = replicate 32 (CHR ''a''), ic_manifest = replicate 64 (CHR ''b''),
     ic_root = Path ''/'' [''run'', ''r''], ic_input = Path ''/'' [''input''], ic_uid = 1000, ic_gid = 1001 \<rparr>"

lemma demo_confined:
  "\<exists>calls. confine_worker (traced demo_kernel) demo_contract (lifted (ret ())) ((), []) = (Inr (), ((), calls))"
proof -
  have "base_int 10 (''1'' @ nl) = Inr 1" by code_simp
  moreover have "\<exists>p. seccomp_program ''aarch64'' = Inr p" by (simp add: seccomp_program_def seccomp_tables_def)
  ultimately show ?thesis
    by (auto simp: confine_worker_def mountpoints_def mountpoint_def private_namespace_def readonly_def tmpfs_def
      drop_identity_def stdio_def stdio_target_def restrict_syscalls_def syscall_def traced_def demo_kernel_def lifted_def checked_def
      ret_def lft_def bnd_def sqn_def ensure_def whenA_def try_finally_def S_IS_def not_shared_writable_def)
qed

lemma confine_worker_order_witness:
  "\<exists>calls last_cap machine program fds w1. last_cap < 64 \<and> length fds = 3 \<and> seccomp_program machine = Inr program \<and>
     calls = setup_calls demo_contract last_cap program fds \<and> ret () w1 = (Inr (), ())"
proof -
  obtain calls where "confine_worker (traced demo_kernel) demo_contract (lifted (ret ())) ((), []) = (Inr (), ((), calls))"
    using demo_confined by blast
  from confine_worker_order [OF this] show ?thesis by blast
qed

subsection \<open>What an accepted mount table guarantees\<close>

lemma foldE_append_each:
  assumes "\<And>b x y. x \<in> set xs \<Longrightarrow> f b x = Inr y \<Longrightarrow> \<exists>r. y = b @ [r] \<and> P x r"
    and "foldE f b xs = Inr y"
  shows "\<exists>rs. y = b @ rs \<and> list_all2 P xs rs"
  using assms
proof (induction xs arbitrary: b)
  case Nil
  then show ?case by simp
next
  case (Cons x xs)
  from Cons.prems(2) obtain c where c: "f b x = Inr c" "foldE f c xs = Inr y" by (auto simp: res_simps)
  from Cons.prems(1) [OF _ c(1)] obtain r where r: "c = b @ [r]" "P x r" by auto
  have "\<exists>rs. y = c @ rs \<and> list_all2 P xs rs"
    by (rule Cons.IH [OF _ c(2)]) (rule Cons.prems(1), simp_all)
  with r show ?case by auto
qed

definition domain_in_cap :: "string \<times> path \<Rightarrow> string \<times> domain_key \<Rightarrow> bool" where
  "domain_in_cap = (\<lambda>(role, _) (r, _, _, _, bytes, _). r = role \<and> 0 < bytes \<and> bytes \<le> int (the (map_of STORAGE role)))"

lemma worker_domain_Inr:
  assumes "worker_domain ms spaces ds x = Inr ds'"
  shows "\<exists>r. ds' = ds @ [r] \<and> domain_in_cap x r"
proof -
  obtain role path where x: "x = (role, path)" by (cases x)
  from assms obtain m info where s: "space_ok role m info" and
    d: "ds' = ds @ [(role, (m_ident m, m_device m, int_of (fld info ''inode''), int_of (fld info ''bytes''),
          int_of (fld info ''inodes'')))]"
    unfolding worker_domain_def x prod.case bindE_Inr require_Inr by (auto simp only: sum.inject)
  from s have "0 < int_of (fld info ''bytes'')" "int_of (fld info ''bytes'') \<le> int (the (map_of STORAGE role))"
    unfolding space_ok_def by blast+
  then show ?thesis by (simp add: d x domain_in_cap_def)
qed

text \<open>
  C21: nothing else is writable.  If the worker's mount table is accepted, its three domains
  are listed in order on three devices, hold at most 392 MiB together, and every path of
  the worker whose mount is determined lies below the work or the result directory or is on
  a mount that is read-only.
\<close>

theorem worker_mounts_confined:
  "case verify_worker_mounts c raw spaces v of
     Inl _ \<Rightarrow> True
   | Inr domains \<Rightarrow>
       map fst domains = [''input'', ''work'', ''result''] \<and>
       (\<Sum>(_, _, _, _, bytes, _) \<leftarrow> domains. bytes) \<le> 392 * 1024 * 1024 \<and>
       distinct (map (\<lambda>(_, _, device, _). device) domains) \<and>
       (\<exists>ms. parse_mounts raw = Inr ms \<and>
         (\<forall>p. case covering ms p of Inl _ \<Rightarrow> True
             | Inr m \<Rightarrow> below p (work_path c) \<or> below p (result_path c) \<or> (''ro'' \<in> m_options m \<and> ''rw'' \<notin> m_options m)))"
proof (cases "verify_worker_mounts c raw spaces v")
  case (Inr domains)
  then obtain ms where ms: "parse_mounts raw = Inr ms"
    and f: "foldE (worker_domain ms spaces) [] (domain_paths c) = Inr domains"
    and ro: "list_all (\<lambda>m. m_path m \<in> {work_path c, result_path c} \<or> (''ro'' \<in> m_options m \<and> ''rw'' \<notin> m_options m)) ms"
    and d: "card (set (map (fst \<circ> snd \<circ> snd) domains)) = 3"
    unfolding verify_worker_mounts_def require_Inr bindE_Inr by (auto simp only: sum.inject)
  have "\<exists>rs. domains = [] @ rs \<and> list_all2 domain_in_cap (domain_paths c) rs"
    by (rule foldE_append_each [OF _ f]) (rule worker_domain_Inr)
  then obtain r1 r2 r3 where r: "domains = [r1, r2, r3]" "domain_in_cap (''input'', ic_input c) r1"
      "domain_in_cap (''work'', work_path c) r2" "domain_in_cap (''result'', result_path c) r3"
    by (auto simp: domain_paths_def list_all2_Cons1)
  then have "map fst domains = [''input'', ''work'', ''result'']"
    and "(\<Sum>(_, _, _, _, bytes, _) \<leftarrow> domains. bytes) \<le> 392 * 1024 * 1024"
    by (auto simp: domain_in_cap_def STORAGE_def MIB_def split: prod.splits)
  moreover have "distinct (map (\<lambda>(_, _, device, _). device) domains)"
  proof -
    have "map (fst \<circ> snd \<circ> snd) domains = map (\<lambda>(_, _, device, _). device) domains" by auto
    with d have "card (set (map (\<lambda>(_, _, device, _). device) domains)) = 3" by simp
    then show ?thesis by (intro card_distinct) (simp add: r)
  qed
  moreover have "case covering ms p of Inl _ \<Rightarrow> True
      | Inr m \<Rightarrow> below p (work_path c) \<or> below p (result_path c) \<or> (''ro'' \<in> m_options m \<and> ''rw'' \<notin> m_options m)" for p
  proof (cases "covering ms p")
    case (Inr m)
    then have "m \<in> set ms" "below p (m_path m)" using covering_sound by auto
    with ro Inr show ?thesis by (auto simp: list_all_iff)
  qed simp
  ultimately show ?thesis using Inr ms by simp
qed simp

end
