(* ===== verification/Export.thy ===== *)
theory Export
  imports Channels
begin

text \<open>
  The result export of \<open>sw_i5_preparation_channels.py\<close>: the checks of a supervision
  report, the collection of the pinned result directory (\<open>ResultExport\<close>) and the
  validation of the packet on the other side.  SHA-256 is an argument.
\<close>

subsection \<open>Supervision reports\<close>

definition supervision_fields :: "string list" where
  "supervision_fields = [''schema_version'', ''scope'', ''uuid'', ''nonce'', ''manifest_sha256'', ''i5_ready'',
     ''passed'', ''failure'', ''cleanup_errors'', ''admitted'', ''worker_exit'', ''population_empty'', ''reaped'']"

definition short_str :: "nat \<Rightarrow> pyval \<Rightarrow> bool" where
  "short_str n v = (is_str v \<and> length (str_of v) \<le> n)"

definition supervision_expected :: "pyval \<Rightarrow> bool" where
  "supervision_expected v =
     (truthy (fld v ''admitted'') \<and> pyeq (fld v ''worker_exit'') (PInt 0) \<and> truthy (fld v ''population_empty'') \<and>
      truthy (fld v ''reaped'') \<and> \<not> truthy (fld v ''failure'') \<and> \<not> truthy (fld v ''cleanup_errors''))"

definition validate_supervision :: "pyval \<Rightarrow> string \<Rightarrow> string \<Rightarrow> unit res" where
  "validate_supervision v nonce manifest_sha256 =
     bindE (check_fields v supervision_fields) (\<lambda>_.
     require (fld v ''schema_version'' = PInt 1 \<and> fld v ''scope'' = PStr ''i5-preparation-supervision'' \<and>
              fld v ''uuid'' = PStr UUID \<and> fld v ''nonce'' = PStr nonce \<and>
              fld v ''manifest_sha256'' = PStr manifest_sha256 \<and> fld v ''i5_ready'' = PBool False) ''supervision binding'' (
     require (list_all (\<lambda>k. is_bool (fld v k)) [''passed'', ''admitted'', ''population_empty'', ''reaped''] \<and>
              (fld v ''worker_exit'' = PNone \<or> is_int (fld v ''worker_exit'')) \<and>
              (fld v ''failure'' = PNone \<or> short_str 2048 (fld v ''failure'')) \<and>
              is_list (fld v ''cleanup_errors'') \<and> length (list_of (fld v ''cleanup_errors'')) \<le> 16 \<and>
              list_all (short_str 2048) (list_of (fld v ''cleanup_errors''))) ''supervision fields'' (
     require (fld v ''passed'' = PBool (supervision_expected v)) ''contradictory supervision result'' (Inr ()))))"

subsection \<open>Collecting the result directory\<close>

record export =
  xp_nonce :: string
  xp_manifest :: string
  xp_dirs :: "(string \<times> int) list"

definition export_init :: "pyval \<Rightarrow> pyval \<Rightarrow> export res" where
  "export_init nonce manifest_sha256 =
     bindE (lease_init nonce manifest_sha256 (PInt 0) (PFloat (Fin GUEST_SECONDS)) (PFloat (Fin LEASE_SECONDS)) (PStr ''guest'')) (\<lambda>_.
     Inr \<lparr> xp_nonce = str_of nonce, xp_manifest = str_of manifest_sha256, xp_dirs = [] \<rparr>)"

definition pin_directory :: "'w kernel \<Rightarrow> export \<Rightarrow> string \<Rightarrow> path \<Rightarrow> string \<Rightarrow> int \<Rightarrow> ('w, export) act" where
  "pin_directory k x role path device inode =
     sqn (ensure (role = ''result'' \<and> role \<notin> fst ` set (xp_dirs x)) ''duplicate export directory'') (
     bnd (k_open k path [''RDONLY'', ''DIRECTORY'', ''NOFOLLOW'', ''CLOEXEC'']) (\<lambda>fd.
     on_error
       (bnd (k_fstat k fd) (\<lambda>info.
        sqn (ensure (device_text (st_dev info) = device \<and> st_ino info = inode) ''export directory identity changed'') (
        ret (x\<lparr>xp_dirs := xp_dirs x @ [(role, fd)]\<rparr>))))
       (k_close k fd)))"

definition pin :: "'w kernel \<Rightarrow> export \<Rightarrow> int \<Rightarrow> 'v isolation_guard \<Rightarrow> contract \<Rightarrow> ('w, export) act" where
  "pin k x pid guard c =
     sqn (ensure (xp_dirs x = [] \<and> ig_initial guard \<noteq> None) ''validated worker before export pin'') (
     bnd (lft (case map_of (fst (the (ig_initial guard))) ''result'' of
                 None \<Rightarrow> Inl (KeyError ''result'') | Some d \<Rightarrow> Inr d)) (\<lambda>(_, device, inode, _, _).
     pin_directory k x ''result'' (path_join (proc_path pid ''root'') (dropWhile (\<lambda>ch. ch = CHR ''/'') (path_str (result_path c))))
       device inode))"

definition export_close :: "'w kernel \<Rightarrow> export \<Rightarrow> ('w, export) act" where
  "export_close k x = sqn (eachA (\<lambda>(_, fd). k_close k fd) (xp_dirs x)) (ret (x\<lparr>xp_dirs := []\<rparr>))"

record 'w collecting =
  co_world :: 'w
  co_used :: nat
  co_artifacts :: "pyval list"
  co_errors :: "string list"
  co_preparation :: pyval

abbreviation co :: "('w, 'a) act \<Rightarrow> ('w collecting, 'a) act" where
  "co \<equiv> zoom co_world co_world_update"

definition file_identity :: "stat_info \<Rightarrow> (nat \<times> nat) \<times> int list" where
  "file_identity i = (st_dev i, [st_ino i, st_size i, st_mtime_ns i, st_ctime_ns i, st_nlink i])"

fun read_file :: "nat \<Rightarrow> 'w kernel \<Rightarrow> ('w, unit) act \<Rightarrow> int \<Rightarrow> nat \<Rightarrow> string \<Rightarrow> ('w, string) act" where
  "read_file 0 k checkpoint fd cap raw = lft (Inl OutOfFuel)"
| "read_file (Suc n) k checkpoint fd cap raw =
     (if cap \<le> length raw then ret raw else
      sqn checkpoint (
      bnd (k_read k fd (min 65536 (cap - length raw))) (\<lambda>chunk.
      if chunk = [] then ret raw else read_file n k checkpoint fd cap (raw @ chunk))))"

definition artifact_value :: "(string \<Rightarrow> string) \<Rightarrow> string \<Rightarrow> int \<Rightarrow> string \<Rightarrow> bool \<Rightarrow> pyval" where
  "artifact_value sha name bytes raw truncated = PDict
     [(''name'', PStr name), (''bytes'', PInt bytes), (''saved_bytes'', PInt (int (length raw))),
      (''sha256'', PStr (sha raw)), (''base64'', PStr (b64encode raw)), (''truncated'', PBool truncated)]"

definition collect_open_file ::
    "nat \<Rightarrow> (string \<Rightarrow> string) \<Rightarrow> 'w kernel \<Rightarrow> ('w, unit) act \<Rightarrow> export \<Rightarrow> int \<Rightarrow> string \<Rightarrow> string \<Rightarrow> int \<Rightarrow> ('w collecting, unit) act" where
  "collect_open_file fuel sha k checkpoint x dirfd name leaf fd =
     bnd (co (k_fstat k fd)) (\<lambda>before.
     bnd (co (if S_ISREG before \<and> st_nlink before = 1
              then bnd (k_fstat k dirfd) (\<lambda>p. ret (st_dev before = st_dev p)) else ret False)) (\<lambda>safe.
     sqn (ensure safe (''unsafe export file: '' @ name)) (
     bnd (get co_used) (\<lambda>used.
     let cap = min (if name = ''result/result.json'' then SUMMARY_LIMIT else FILE_LIMIT) (DATA_LIMIT - used) in
     bnd (co (read_file fuel k checkpoint fd cap [])) (\<lambda>raw.
     bnd (co (k_fstat k fd)) (\<lambda>after.
     bnd (co (if file_identity before = file_identity after
              then bnd (k_stat_at k dirfd leaf) (\<lambda>i. ret (file_identity after = file_identity i)) else ret False)) (\<lambda>unchanged.
     sqn (ensure unchanged (''export file changed: '' @ name)) (
     let truncated = (int (length raw) \<noteq> st_size before) in
     sqn (upd (\<lambda>s. s\<lparr>co_used := co_used s + length raw,
                     co_artifacts := co_artifacts s @ [artifact_value sha name (st_size before) raw truncated]\<rparr>)) (
     sqn (whenA truncated (upd (\<lambda>s. s\<lparr>co_errors := co_errors s @ [''export quota: '' @ name]\<rparr>))) (
     whenA (name = ''result/result.json'' \<and> \<not> truncated)
       (bnd (lft (validate_result raw (xp_nonce x) (xp_manifest x))) (\<lambda>r.
        upd (\<lambda>s. s\<lparr>co_preparation := r\<rparr>)))))))))))))"

definition collect_artifact ::
    "nat \<Rightarrow> (string \<Rightarrow> string) \<Rightarrow> 'w kernel \<Rightarrow> ('w, unit) act \<Rightarrow> export \<Rightarrow> string \<Rightarrow> ('w collecting, unit) act" where
  "collect_artifact fuel sha k checkpoint x name =
     sqn (co checkpoint) (
     case map_of (xp_dirs x) ''result'' of None \<Rightarrow> lft (Inl (KeyError ''result'')) | Some dirfd \<Rightarrow>
     let leaf = drop 7 name in
     bnd (handle_if (is_os_class FileNotFoundError)
            (bnd (co (k_open_at k dirfd leaf [''RDONLY'', ''NOFOLLOW'', ''NONBLOCK'', ''CLOEXEC''])) (\<lambda>fd. ret (Some fd)))
            (\<lambda>_. ret None)) (\<lambda>opened.
     case opened of None \<Rightarrow> ret ()
     | Some fd \<Rightarrow> try_finally (collect_open_file fuel sha k checkpoint x dirfd name leaf fd) (co (k_close k fd))))"

definition required_artifacts :: "pyval \<Rightarrow> string set" where
  "required_artifacts preparation =
     {''result/result.json'', ''result/worker.stdout'', ''result/worker.stderr''} \<union>
     set (concat (map (\<lambda>s. artifact_names (str_of (fld s ''label''))) (list_of (fld preparation ''steps''))))"

definition collect_body ::
    "nat \<Rightarrow> (string \<Rightarrow> string) \<Rightarrow> 'w kernel \<Rightarrow> ('w, unit) act \<Rightarrow> export \<Rightarrow> pyval \<Rightarrow> ('w collecting, unit) act" where
  "collect_body fuel sha k checkpoint x report =
     sqn (lft (validate_supervision report (xp_nonce x) (xp_manifest x))) (
     sqn (ensure (truthy (fld report ''population_empty'') \<and> truthy (fld report ''reaped''))
            ''cannot export while worker descendants remain'') (
     sqn (ensure (fst ` set (xp_dirs x) = {''result''}) ''export directories not pinned'') (
     sqn (eachA (collect_artifact fuel sha k checkpoint x) ARTIFACTS) (
     bnd (get co_artifacts) (\<lambda>artifacts.
     bnd (get co_preparation) (\<lambda>preparation.
     sqn (ensure (preparation \<noteq> PNone) ''preparation summary missing'') (
     ensure (required_artifacts preparation \<subseteq> set (map (\<lambda>a. str_of (fld a ''name'')) artifacts))
       ''completed step diagnostics missing'')))))))"

definition export_packet :: "export \<Rightarrow> pyval \<Rightarrow> bool \<Rightarrow> 'w collecting \<Rightarrow> pyval" where
  "export_packet x report passed s = PDict
     [(''schema_version'', PInt 1), (''scope'', PStr EXPORT_SCOPE), (''nonce'', PStr (xp_nonce x)), (''uuid'', PStr UUID),
      (''manifest_sha256'', PStr (xp_manifest x)), (''evidence_kind'', PStr ''synthetic''), (''i5_ready'', PBool False),
      (''passed'', PBool passed), (''supervision'', report), (''preparation'', co_preparation s),
      (''artifacts'', PList (co_artifacts s)), (''export_errors'', PList (map PStr (co_errors s)))]"

definition collect ::
    "nat \<Rightarrow> (string \<Rightarrow> string) \<Rightarrow> (rat \<Rightarrow> string) \<Rightarrow> 'w kernel \<Rightarrow> ('w, unit) act \<Rightarrow> export \<Rightarrow> pyval \<Rightarrow> ('w collecting, pyval) act" where
  "collect fuel sha fr k checkpoint x report =
     sqn (handle (collect_body fuel sha k checkpoint x report)
            (\<lambda>e. upd (\<lambda>s. s\<lparr>co_errors := co_errors s @ [take 2048 (exn_str e)]\<rparr>))) (
     bnd (lft (item report ''passed'')) (\<lambda>rp.
     bnd (get (\<lambda>s. s)) (\<lambda>s.
     let passed = (truthy rp \<and> truthy (co_preparation s) \<and> truthy (fld (co_preparation s) ''passed'') \<and> co_errors s = []);
         packet = export_packet x report passed s in
     sqn (ensure (length (encode fr packet) \<le> EXPORT_LIMIT) ''serialized export limit'') (ret packet))))"

subsection \<open>Validating the packet\<close>

definition export_fields :: "string list" where
  "export_fields = [''schema_version'', ''scope'', ''nonce'', ''uuid'', ''manifest_sha256'', ''evidence_kind'',
     ''i5_ready'', ''passed'', ''supervision'', ''preparation'', ''artifacts'', ''export_errors'']"

record export_seen =
  se_names :: "string list"
  se_used :: nat
  se_summary :: pyval

definition entry_ok :: "pyval \<Rightarrow> string list \<Rightarrow> bool" where
  "entry_ok entry names =
     (let name = fld entry ''name'' in
      is_str name \<and> str_of name \<in> set ARTIFACTS \<and> str_of name \<notin> set names \<and>
      is_int (fld entry ''bytes'') \<and> 0 \<le> int_of (fld entry ''bytes'') \<and>
      is_int (fld entry ''saved_bytes'') \<and> 0 \<le> int_of (fld entry ''saved_bytes'') \<and>
      int_of (fld entry ''saved_bytes'') \<le> int_of (fld entry ''bytes'') \<and>
      int_of (fld entry ''saved_bytes'') \<le> int (if str_of name = ''result/result.json'' then SUMMARY_LIMIT else FILE_LIMIT) \<and>
      fld entry ''truncated'' = PBool (int_of (fld entry ''saved_bytes'') < int_of (fld entry ''bytes'')) \<and>
      is_str (fld entry ''base64''))"

definition check_artifact ::
    "(string \<Rightarrow> string) \<Rightarrow> string \<Rightarrow> string \<Rightarrow> pyval \<Rightarrow> export_seen \<Rightarrow> pyval \<Rightarrow> export_seen res" where
  "check_artifact sha nonce manifest_sha256 errors seen entry =
     bindE (check_fields entry [''name'', ''bytes'', ''saved_bytes'', ''sha256'', ''base64'', ''truncated'']) (\<lambda>_.
     require (entry_ok entry (se_names seen)) ''export artifact fields'' (
     let name = str_of (fld entry ''name''); truncated = (fld entry ''truncated'' = PBool True) in
     bindE (b64decode (str_of (fld entry ''base64''))) (\<lambda>data.
     require (b64encode data = str_of (fld entry ''base64'') \<and>
              int (length data) = int_of (fld entry ''saved_bytes'') \<and> PStr (sha data) = fld entry ''sha256'')
       ''artifact bytes/digest'' (
     let seen' = seen\<lparr>se_names := se_names seen @ [name], se_used := se_used seen + length data\<rparr> in
     require (se_used seen' \<le> DATA_LIMIT \<and> (\<not> truncated \<or> truthy errors)) ''artifact total/truncation'' (
     if name = ''result/result.json'' \<and> \<not> truncated then
       (case validate_result data nonce manifest_sha256 of
          Inr r \<Rightarrow> Inr (seen'\<lparr>se_summary := r\<rparr>)
        | Inl (ValueError m) \<Rightarrow> require (truthy errors) ''invalid summary without export failure'' (Inr seen')
        | Inl e \<Rightarrow> Inl e)
     else Inr seen')))))"

definition passing_complete :: "pyval \<Rightarrow> export_seen \<Rightarrow> unit res" where
  "passing_complete packet seen =
     require (se_summary seen \<noteq> PNone) ''passing export requires summary'' (
     require (required_artifacts (se_summary seen) \<subseteq> set (se_names seen) \<and>
              truthy (fld (se_summary seen) ''passed'') \<and> truthy (fld (fld packet ''supervision'') ''passed'') \<and>
              \<not> truthy (fld packet ''export_errors'')) ''incomplete export cannot pass'' (Inr ()))"

definition validate_packet :: "(string \<Rightarrow> string) \<Rightarrow> pyval \<Rightarrow> string \<Rightarrow> string \<Rightarrow> pyval res" where
  "validate_packet sha packet nonce manifest_sha256 =
     bindE (check_fields packet export_fields) (\<lambda>_.
     require (fld packet ''schema_version'' = PInt 1 \<and> fld packet ''scope'' = PStr EXPORT_SCOPE \<and>
              fld packet ''nonce'' = PStr nonce \<and> fld packet ''uuid'' = PStr UUID \<and>
              fld packet ''manifest_sha256'' = PStr manifest_sha256 \<and> fld packet ''evidence_kind'' = PStr ''synthetic'' \<and>
              fld packet ''i5_ready'' = PBool False \<and> is_bool (fld packet ''passed'')) ''export binding'' (
     bindE (validate_supervision (fld packet ''supervision'') nonce manifest_sha256) (\<lambda>_.
     let artifacts = fld packet ''artifacts''; errors = fld packet ''export_errors'' in
     require (is_list artifacts \<and> length (list_of artifacts) \<le> length ARTIFACTS \<and> is_list errors \<and>
              length (list_of errors) \<le> length ARTIFACTS + 1 \<and>
              list_all (\<lambda>e. short_str 2048 e \<and> str_of e \<noteq> []) (list_of errors)) ''export lists'' (
     bindE (foldE (check_artifact sha nonce manifest_sha256 errors)
              \<lparr> se_names = [], se_used = 0, se_summary = PNone \<rparr> (list_of artifacts)) (\<lambda>seen.
     require (pyeq (fld packet ''preparation'') (se_summary seen)) ''export summary mismatch'' (
     bindE (if truthy (fld packet ''passed'') then passing_complete packet seen
            else require (truthy errors \<or> \<not> truthy (fld (fld packet ''supervision'') ''passed'') \<or>
                          (se_summary seen \<noteq> PNone \<and> \<not> truthy (fld (se_summary seen) ''passed'')))
                   ''unexplained export failure'' (Inr ())) (\<lambda>_.
     Inr packet)))))))"

end
