(* ===== verification/NativeExport.thy ===== *)
theory NativeExport
  imports Export
begin

text \<open>
  The validation of a native lifecycle export (\<open>validate_native_export\<close>): the registry of
  created objects, the twice observed initialization facts, the cleanup record, the nested
  task export, and the verdict they must add up to.
\<close>

subsection \<open>Conditions that may raise\<close>

definition andE :: "bool res \<Rightarrow> bool res \<Rightarrow> bool res" where
  "andE a b = bindE a (\<lambda>x. if x then b else Inr False)"

fun allE :: "('a \<Rightarrow> bool res) \<Rightarrow> 'a list \<Rightarrow> bool res" where
  "allE f [] = Inr True"
| "allE f (x # xs) = andE (f x) (allE f xs)"

definition ensureE :: "bool res \<Rightarrow> string \<Rightarrow> unit res" where
  "ensureE c m = bindE c (\<lambda>x. require x m (Inr ()))"

definition attribute_error :: exn where
  "attribute_error = OtherError ''AttributeError'' ''object has no attribute''"

definition positive_int :: "pyval \<Rightarrow> bool" where
  "positive_int v = (is_int v \<and> 0 < int_of v)"

definition keys :: "pyval \<Rightarrow> string set" where
  "keys v = fst ` set (dict_of v)"

text \<open>The members that \<open>set(v)\<close> iterates over, and \<open>v == sorted(set(v))\<close> for strings.\<close>

fun members :: "pyval \<Rightarrow> pyval list res" where
  "members (PDict d) = Inr (map (PStr \<circ> fst) d)"
| "members (PStr s) = Inr (map (\<lambda>c. PStr [c]) s)"
| "members (PList xs) = (if list_all hashable xs then Inr xs else Inl (TypeError ''unhashable type''))"
| "members _ = Inl (TypeError ''object is not iterable'')"

definition incomparable :: "pyval \<Rightarrow> pyval \<Rightarrow> bool" where
  "incomparable x y = (is_str x \<noteq> is_str y \<or> ((x = PNone \<or> y = PNone) \<and> x \<noteq> y))"

definition sorted_strings :: "pyval \<Rightarrow> bool res" where
  "sorted_strings v =
     (if \<not> is_list v then Inr False else
      bindE (members v) (\<lambda>xs.
      if list_ex (\<lambda>x. list_ex (incomparable x) xs) xs then Inl (TypeError ''not supported between instances'')
      else Inr (list_all is_str xs \<and> map str_of xs = sort (remdups (map str_of xs)))))"

subsection \<open>The registry of objects\<close>

type_synonym registry = "(string \<times> pyval) list"

definition roles_in :: "string \<Rightarrow> pyval list \<Rightarrow> string list" where
  "roles_in state events = map (\<lambda>e. str_of (fld e ''role'')) (filter (\<lambda>e. fld e ''state'' = PStr state) events)"

definition state_of :: "registry \<Rightarrow> string \<Rightarrow> pyval" where
  "state_of reg role = (case map_of reg role of None \<Rightarrow> PNone | Some row \<Rightarrow> fld row ''state'')"

definition register_fields :: "pyval \<Rightarrow> bool" where
  "register_fields v =
     (let role = fld v ''role''; state = fld v ''state'' in
      is_str role \<and> str_of role \<in> set NATIVE_CREATE_ORDER \<and>
      (state = PStr ''intent'' \<or> state = PStr ''bound'' \<or> state = PStr ''cleaned'') \<and> fld v ''sequence'' = PNone \<and>
      fld v ''bytes'' = PInt (if str_of role = ''lease'' \<or> str_of role = ''ack'' then 1024 else 0))"

definition intent_ok :: "registry \<Rightarrow> pyval list \<Rightarrow> string \<Rightarrow> pyval \<Rightarrow> bool" where
  "intent_ok reg events role ident =
     (let intended = roles_in ''intent'' events in
      ident = PNone \<and> role \<notin> fst ` set reg \<and> role \<notin> set intended \<and>
      list_all (\<lambda>(_, row). fld row ''state'' = PStr ''bound'') reg \<and>
      roles_in ''cleaned'' events = [] \<and>
      intended @ [role] = take (length intended + 1) NATIVE_CREATE_ORDER)"

definition register_object :: "registry \<times> pyval list \<Rightarrow> pyval \<Rightarrow> (registry \<times> pyval list) res" where
  "register_object = (\<lambda>(reg, events) v.
     bindE (check_fields v [''role'', ''state'', ''identity'', ''bytes'', ''sequence'']) (\<lambda>_.
     require (register_fields v) ''native object registration fields'' (
     let role = str_of (fld v ''role''); state = str_of (fld v ''state''); ident = fld v ''identity'' in
     bindE (if state = ''intent'' then
              require (intent_ok reg events role ident) ''native duplicate/out-of-order intent'' (Inr ())
            else
              require (is_list ident \<and> length (list_of ident) = 2 \<and> list_all positive_int (list_of ident))
                ''native registration identity'' (
              require (role \<in> fst ` set reg \<and>
                       (if state = ''bound'' then state_of reg role = PStr ''intent''
                        else state_of reg role = PStr ''bound'' \<and> pyeq (fld (the (map_of reg role)) ''identity'') ident))
                ''native registration order'' (Inr ()))) (\<lambda>_.
     require (length events < 27) ''native registration count'' (
     let cleaned = roles_in ''cleaned'' events @ [role] in
     require (state \<noteq> ''cleaned'' \<or> cleaned = filter (\<lambda>r. r \<in> set cleaned) NATIVE_CLEAN_ORDER)
       ''native cleanup registration order'' (
     Inr (if state = ''cleaned'' then filter (\<lambda>(r, _). r \<noteq> role) reg else AList.update role v reg, events @ [v])))))))"

subsection \<open>Observations\<close>

definition prerequisite_fields :: "string list" where
  "prerequisite_fields = [''dev'', ''ino'', ''mount_id'', ''path'', ''device'', ''filesystem'', ''filesystem_magic'',
     ''mount_options'', ''super_options'', ''capacity_bytes'', ''inodes'']"

definition options_of :: "pyval \<Rightarrow> string \<Rightarrow> string set" where
  "options_of v k = str_of ` set (list_of (fld v k))"

definition check_prerequisite :: "pyval \<Rightarrow> string \<times> pyval \<Rightarrow> unit res" where
  "check_prerequisite rec = (\<lambda>(role, v).
     bindE (check_fields v prerequisite_fields) (\<lambda>_.
     bindE (ensureE (andE (Inr (list_all (\<lambda>k. positive_int (fld v k)) [''dev'', ''ino'', ''mount_id'', ''filesystem_magic''] \<and>
                               is_str (fld v ''device'') \<and> is_str (fld v ''path'') \<and> startswith (str_of (fld v ''path'')) ''/''))
                         (allE (\<lambda>k. sorted_strings (fld v k)) [''mount_options'', ''super_options'']))
             ''native prerequisite fields'') (\<lambda>_.
     let mo = options_of v ''mount_options''; so = options_of v ''super_options'' in
     if role = ''cgroup_root'' then
       require (fld v ''path'' = PStr ''/sys/fs/cgroup/radishlink-i5-preparation'' \<and> fld v ''filesystem'' = PStr ''cgroup2'' \<and>
                fld v ''filesystem_magic'' = PInt NATIVE_CGROUP2 \<and> fld v ''capacity_bytes'' = PNone \<and>
                fld v ''inodes'' = PNone \<and> ''rw'' \<in> mo \<and> ''rw'' \<in> so) ''native cgroup prerequisite'' (Inr ())
     else
       let maximum = (if role = ''root_parent'' then NATIVE_ROOT_BYTES else the (map_of STORAGE ''input'')) in
       require (positive_int (fld v ''capacity_bytes'') \<and> int_of (fld v ''capacity_bytes'') \<le> int maximum \<and>
                positive_int (fld v ''inodes'')) ''native prerequisite capacity'' (
       if role = ''root_parent'' then
         require (fld v ''path'' = PStr ''/run/radishlink-i5-preparation'' \<and> fld v ''filesystem'' = PStr ''tmpfs'' \<and>
                  fld v ''filesystem_magic'' = PInt NATIVE_TMPFS \<and> int_of (fld v ''inodes'') \<le> int NATIVE_ROOT_INODES \<and>
                  {''rw'', ''nosuid'', ''nodev'', ''noexec''} \<subseteq> mo \<and> {''rw'', ''noswap''} \<subseteq> so \<and> ''ro'' \<notin> mo \<union> so)
           ''native root prerequisite'' (Inr ())
       else if \<not> hashable (fld v ''filesystem'') then Inl (TypeError ''unhashable type'')
       else
         require (is_str (fld v ''filesystem'') \<and> (case map_of NATIVE_INPUT_FS (str_of (fld v ''filesystem'')) of None \<Rightarrow> False
                    | Some n \<Rightarrow> fld v ''filesystem_magic'' = PInt n) \<and>
                  ''ro'' \<in> mo \<and> ''ro'' \<in> so \<and> ''rw'' \<notin> mo \<union> so \<and>
                  int_of (fld rec ''input_bytes'') \<le> int_of (fld v ''capacity_bytes''))
           ''native input prerequisite'' (Inr ())))))"

text \<open>\<open>verify_cgroup\<close> on the dict of a JSON document, its identity converted to a tuple.\<close>

definition event_get :: "pyval \<Rightarrow> string \<Rightarrow> pyval res" where
  "event_get v k = (if is_dict v then Inr (get_or v k PNone) else Inl attribute_error)"

definition limits_value :: "string \<Rightarrow> pyval" where
  "limits_value role = PDict (map (\<lambda>(k, v). (k, PStr v)) (the (map_of LIMITS role)))"

definition cgroup_fields :: "string list" where
  "cgroup_fields = [''path'', ''identity'', ''type'', ''procs'', ''subtree'', ''children'', ''limits'', ''events'',
     ''memory_events'', ''pids_events'']"

definition verify_cgroup_value :: "pyval \<Rightarrow> string \<Rightarrow> unit res" where
  "verify_cgroup_value v role =
     bindE (check_fields v cgroup_fields) (\<lambda>_.
     require (role \<in> fst ` set LIMITS \<and> pyeq (fld v ''type'') (PStr ''domain'') \<and>
              pyeq (fld v ''limits'') (limits_value role)) ''cgroup hard limits mismatch'' (
     require (is_list (fld v ''identity'') \<and> length (list_of (fld v ''identity'')) = 2 \<and>
              list_all positive_int (list_of (fld v ''identity''))) ''cgroup inode binding required'' (
     require (pyeq (fld v ''subtree'') (PStr (if role = ''parent'' then ''cpu memory pids'' else []))) ''unexpected cgroup delegation'' (
     require (pyeq (fld v ''children'') (PList (if role = ''parent'' then [PStr ''supervisor'', PStr ''worker''] else [])))
       ''unexpected cgroup descendants'' (
     require (is_list (fld v ''procs'') \<and> list_all positive_int (list_of (fld v ''procs''))) ''invalid cgroup PIDs'' (
     require (role \<noteq> ''parent'' \<or> \<not> truthy (fld v ''procs'')) ''parent cgroup must have no processes'' (
     bindE (event_get (fld v ''events'') ''populated'') (\<lambda>populated.
     if \<not> hashable populated then Inl (TypeError ''unhashable type'') else
     require ((pyeq populated (PInt 0) \<or> pyeq populated (PInt 1)) \<and> pyeq (get_or (fld v ''events'') ''frozen'' PNone) (PInt 0))
       ''cgroup population/frozen state unknown'' (
     bindE (eachE (\<lambda>key. bindE (event_get (fld v ''memory_events'') key) (\<lambda>n.
              require (pyeq n (PInt 0)) (''memory limit/OOM event: '' @ key) (Inr ())))
              [''max'', ''oom'', ''oom_kill'', ''oom_group_kill'']) (\<lambda>_.
     bindE (event_get (fld v ''pids_events'') ''max'') (\<lambda>n.
     require (pyeq n (PInt 0)) ''PID limit event'' (Inr ()))))))))))))"

definition check_initial_group :: "string \<times> pyval \<Rightarrow> unit res" where
  "check_initial_group = (\<lambda>(role, v).
     bindE (check_fields v cgroup_fields) (\<lambda>_.
     require (is_list (fld v ''identity'') \<and> list_all positive_int (list_of (fld v ''identity'')))
       ''native cgroup identity types'' (
     bindE (verify_cgroup_value v role) (\<lambda>_.
     require (fld v ''procs'' = PList [] \<and> pyeq (fld (fld v ''events'') ''populated'') (PInt 0))
       ''native initial cgroup must be empty'' (
     eachE (\<lambda>name. require (is_dict (fld v name) \<and> list_all (\<lambda>(_, n). n = PInt 0) (dict_of (fld v name)))
              ''native cgroup strict zero counters'' (Inr ()))
       [''events'', ''memory_events'', ''pids_events''])))))"

definition object_paths :: "string \<Rightarrow> string \<Rightarrow> (string \<times> string) list" where
  "object_paths nonce input_path =
     (let root = ''/run/radishlink-i5-preparation/'' @ nonce; cgroup = ''/sys/fs/cgroup/radishlink-i5-preparation/'' @ nonce in
      [(''guest_root'', root), (''work'', root @ ''/work''), (''result'', root @ ''/result''), (''control'', root @ ''/control''),
       (''lease'', root @ ''/control/lease.slot''), (''ack'', root @ ''/control/ack.slot''), (''cgroup_parent'', cgroup),
       (''cgroup_supervisor'', cgroup @ ''/supervisor''), (''cgroup_worker'', cgroup @ ''/worker''),
       (''readonly_input'', input_path)])"

definition observer_of :: "string \<Rightarrow> string" where
  "observer_of observation = (if observation = ''before'' then ''preexisting-observer''
     else if observation = ''after'' then ''creator'' else ''independent-reader'')"

definition observation_fields :: "string list" where
  "observation_fields = [''observer'', ''realm'', ''role'', ''path'', ''nonce'', ''manifest_sha256'', ''dev'', ''ino'', ''uid'',
     ''gid'', ''mode'', ''kind'', ''nlink'', ''bytes'', ''sha256'', ''symlink'', ''limits'']"

definition check_observation ::
    "(string \<Rightarrow> string) \<Rightarrow> pyval \<Rightarrow> string \<Rightarrow> string \<Rightarrow> string \<Rightarrow> string \<Rightarrow> pyval \<Rightarrow> string \<times> pyval \<Rightarrow> unit res" where
  "check_observation sha rec nonce digest_v role path after = (\<lambda>(observation, v).
     if v = PNone then Inr () else
     bindE (check_fields v observation_fields) (\<lambda>_.
     require (fld v ''observer'' = PStr (observer_of observation) \<and> fld v ''realm'' = PStr ''guest'' \<and> fld v ''role'' = PStr role \<and>
              fld v ''path'' = PStr path \<and> fld v ''nonce'' = PStr nonce \<and> fld v ''manifest_sha256'' = PStr digest_v \<and>
              list_all (\<lambda>k. positive_int (fld v k)) [''dev'', ''ino'', ''nlink''] \<and>
              list_all (\<lambda>k. fld v k = PInt 0) [''uid'', ''gid''] \<and> is_int (fld v ''mode'') \<and> is_int (fld v ''bytes'') \<and>
              fld v ''symlink'' = PBool False) ''native object observation identity/types'' (
     let slot = (role = ''lease'' \<or> role = ''ack''); readonly = (role = ''readonly_input'') in
     require (fld v ''mode'' = PInt (if slot then 384 else if readonly then 365 else 448) \<and>
              fld v ''kind'' = PStr (if slot then ''regular'' else if readonly then ''readonly-tree'' else ''directory'') \<and>
              fld v ''bytes'' = (if slot then PInt 1024 else if readonly then fld rec ''input_bytes'' else PInt 0) \<and>
              fld v ''sha256'' = (if slot then PStr (sha (replicate 1024 (CHR 0x00))) else if readonly then PStr digest_v else PNone) \<and>
              (\<not> slot \<or> fld v ''nlink'' = PInt 1)) ''native object observation content'' (
     require (if startswith role ''cgroup_'' then pyeq (fld v ''limits'') (limits_value (removeprefix role ''cgroup_''))
              else fld v ''limits'' = PNone) ''native object limits'' (
     if \<not> is_dict after then Inl attribute_error else
     require (pyeq (without [''observer''] v) (without [''observer''] after)) ''native object independent readback mismatch'' (Inr ()))))))"

definition check_object ::
    "(string \<Rightarrow> string) \<Rightarrow> pyval \<Rightarrow> string \<Rightarrow> string \<Rightarrow> (int \<times> int) list \<Rightarrow> string \<times> pyval \<Rightarrow> (int \<times> int) list res" where
  "check_object sha rec nonce digest_v identities = (\<lambda>(role, row).
     let prerequisites = fld rec ''prerequisite_observations''; groups = fld rec ''cgroup_snapshots'' in
     bindE (check_fields row [''before'', ''after'', ''independent_readback'']) (\<lambda>_.
     require ((fld row ''before'' \<noteq> PNone) = (role = ''readonly_input'')) ''native object creation baseline'' (
     let after = fld row ''after'';
         path = the (map_of (object_paths nonce (str_of (fld (fld prerequisites ''readonly_input'') ''path''))) role) in
     bindE (eachE (check_observation sha rec nonce digest_v role path after) (dict_of row)) (\<lambda>_.
     if after = PNone then Inl (TypeError ''not subscriptable'') else
     let domain = fld prerequisites (if role = ''readonly_input'' then ''readonly_input''
                    else if startswith role ''cgroup_'' then ''cgroup_root'' else ''root_parent'') in
     require (fld after ''dev'' = fld domain ''dev'') ''native object backing domain'' (
     require (role \<noteq> ''readonly_input'' \<or> fld after ''ino'' = fld domain ''ino'') ''native input prerequisite identity'' (
     let snapshot = fld groups (removeprefix role ''cgroup_'') in
     require (\<not> startswith role ''cgroup_'' \<or>
              (pyeq (fld snapshot ''identity'') (PList [fld after ''dev'', fld after ''ino'']) \<and>
               pyeq (fld snapshot ''path'') (fld after ''path''))) ''native cgroup object/snapshot binding'' (
     Inr (identities @ [(int_of (fld after ''dev''), int_of (fld after ''ino''))]))))))))"

definition input_path_ok :: "string \<Rightarrow> string \<Rightarrow> bool" where
  "input_path_ok base input_path =
     (let p = path_of input_path; r = path_of base in
      path_str p = input_path \<and> is_absolute p \<and> ''..'' \<notin> set (comps p) \<and> p \<noteq> path_of ''/'' \<and>
      \<not> below p r \<and> \<not> below r p \<and> list_all (\<lambda>c. is_alnum c \<or> c \<in> set ''_./-'') input_path)"

definition record_fields :: "string list" where
  "record_fields = [''schema_version'', ''scope'', ''uuid'', ''nonce'', ''manifest_sha256'', ''backend_kind'',
     ''cgroup_snapshots'', ''prerequisite_observations'', ''objects'', ''input_bytes'', ''input_files_sha256''] @ NATIVE_FALSE_FLAGS"

definition check_record :: "(string \<Rightarrow> string) \<Rightarrow> string \<Rightarrow> string \<Rightarrow> pyval \<Rightarrow> unit res" where
  "check_record sha nonce digest_v rec =
     bindE (check_fields rec record_fields) (\<lambda>_.
     bindE (ensureE (andE (Inr (fld rec ''scope'' = PStr ''i5-preparation-native-initialization'' \<and>
              fld rec ''schema_version'' = PInt 1 \<and> fld rec ''uuid'' = PStr UUID \<and> fld rec ''nonce'' = PStr nonce \<and>
              fld rec ''manifest_sha256'' = PStr digest_v \<and> fld rec ''backend_kind'' = PStr ''injected-offline'' \<and>
              list_all (\<lambda>f. fld rec f = PBool False) NATIVE_FALSE_FLAGS))
            (bindE (members (fld rec ''objects'')) (\<lambda>ms.
             Inr (set ms = PStr ` set (NATIVE_CREATE_ORDER @ [''readonly_input''])))))
          ''native lifecycle initialization facts'') (\<lambda>_.
     require (positive_int (fld rec ''input_bytes'') \<and> int_of (fld rec ''input_bytes'') \<le> int (the (map_of STORAGE ''input'')) \<and>
              digest (fld rec ''input_files_sha256'')) ''native input projection'' (
     let prerequisites = fld rec ''prerequisite_observations'' in
     bindE (check_fields prerequisites [''root_parent'', ''cgroup_root'', ''readonly_input'']) (\<lambda>_.
     bindE (eachE (check_prerequisite rec) (dict_of prerequisites)) (\<lambda>_.
     bindE (eachE (\<lambda>key. require (card (set (map (\<lambda>(_, v). fld v key) (dict_of prerequisites))) = 3)
              ''native prerequisite domain alias'' (Inr ())) [''dev'', ''mount_id'', ''device'']) (\<lambda>_.
     bindE (check_fields (fld rec ''cgroup_snapshots'') [''parent'', ''supervisor'', ''worker'']) (\<lambda>_.
     bindE (eachE check_initial_group (dict_of (fld rec ''cgroup_snapshots''))) (\<lambda>_.
     bindE (check_fields (fld rec ''objects'') (NATIVE_CREATE_ORDER @ [''readonly_input''])) (\<lambda>_.
     require (input_path_ok (''/run/radishlink-i5-preparation/'' @ nonce) (str_of (fld (fld prerequisites ''readonly_input'') ''path'')))
       ''native readonly input lexical/disjoint path'' (
     bindE (foldE (check_object sha rec nonce digest_v) [] (dict_of (fld rec ''objects''))) (\<lambda>identities.
     require (card (set identities) = 10) ''native object identity alias'' (Inr ()))))))))))))"

definition validate_observations :: "(string \<Rightarrow> string) \<Rightarrow> pyval \<Rightarrow> pyval \<Rightarrow> string \<Rightarrow> string \<Rightarrow> unit res" where
  "validate_observations sha initialization readback nonce digest_v =
     bindE (check_record sha nonce digest_v initialization) (\<lambda>_.
     bindE (check_record sha nonce digest_v readback) (\<lambda>_.
     require (pyeq initialization readback) ''native independent readback changed'' (Inr ())))"

subsection \<open>The native facts\<close>

definition NATIVE_EXPORT_SCOPE :: string where "NATIVE_EXPORT_SCOPE = ''i5-preparation-native-lifecycle-export''"
definition NATIVE_FACT_SCOPE :: string where "NATIVE_FACT_SCOPE = ''i5-preparation-native-lifecycle-facts''"
definition NATIVE_FACT_LIMIT :: nat where "NATIVE_FACT_LIMIT = 128 * 1024"

definition NATIVE_LIFECYCLE_FLAGS :: "string list" where
  "NATIVE_LIFECYCLE_FLAGS = [''execution_authorized'', ''install_authorized'', ''physical_verified'', ''i5_ready'']"

definition native_export_fields :: "string list" where
  "native_export_fields = [''schema_version'', ''scope'', ''uuid'', ''nonce'', ''manifest_sha256'', ''evidence_kind'',
     ''i5_ready'', ''passed'', ''task_export'', ''native_lifecycle'']"

definition fact_fields :: "string list" where
  "fact_fields = [''schema_version'', ''scope'', ''uuid'', ''nonce'', ''manifest_sha256'', ''delivery_sha256'', ''backend_kind'',
     ''execution_authorized'', ''install_authorized'', ''physical_verified'', ''i5_ready'', ''initialization'',
     ''independent_readback'', ''cleanup'', ''registered'', ''pending'', ''processes'', ''owner_exit'', ''owner_reaped'',
     ''fd_closed'', ''task_supervisor_reaped'', ''task_worker_reaped'', ''first_failure'', ''cleanup_errors'']"

definition message_ok :: "pyval \<Rightarrow> bool" where
  "message_ok v = (is_str v \<and> 0 < length (str_of v) \<and> length (str_of v) \<le> 1000)"

definition none_or :: "(pyval \<Rightarrow> bool) \<Rightarrow> pyval \<Rightarrow> bool" where
  "none_or p v = (v = PNone \<or> p v)"

definition check_facts :: "(rat \<Rightarrow> string) \<Rightarrow> pyval \<Rightarrow> string \<Rightarrow> string \<Rightarrow> unit res" where
  "check_facts fr facts nonce manifest_sha256 =
     bindE (check_fields facts fact_fields) (\<lambda>_.
     require (fld facts ''schema_version'' = PInt 1 \<and> fld facts ''scope'' = PStr NATIVE_FACT_SCOPE \<and>
              fld facts ''uuid'' = PStr UUID \<and> fld facts ''nonce'' = PStr nonce \<and>
              fld facts ''manifest_sha256'' = PStr manifest_sha256 \<and> digest (fld facts ''delivery_sha256'') \<and>
              fld facts ''backend_kind'' = PStr ''injected-offline'' \<and>
              list_all (\<lambda>f. fld facts f = PBool False) NATIVE_LIFECYCLE_FLAGS) ''native facts binding/STOP flags'' (
     require (length (encode fr facts) \<le> NATIVE_FACT_LIMIT \<and> is_list (fld facts ''registered'') \<and>
              is_dict (fld facts ''pending'') \<and> is_list (fld facts ''cleanup_errors'') \<and>
              length (list_of (fld facts ''cleanup_errors'')) \<le> 12 \<and> list_all message_ok (list_of (fld facts ''cleanup_errors'')) \<and>
              none_or message_ok (fld facts ''first_failure'')) ''native facts limits/types'' (
     require (list_all (\<lambda>f. is_bool (fld facts f)) [''owner_reaped'', ''fd_closed'', ''task_supervisor_reaped'', ''task_worker_reaped''])
       ''native lifecycle boolean state'' (
     require (none_or is_int (fld facts ''owner_exit'') \<and>
              fld facts ''owner_reaped'' = PBool (fld facts ''owner_exit'' \<noteq> PNone)) ''native owner reap/exit contradiction'' (
     Inr ())))))"

definition check_processes :: "pyval \<Rightarrow> unit res" where
  "check_processes facts =
     (let processes = fld facts ''processes'';
          pids = filter (\<lambda>v. v \<noteq> PNone) (map snd (dict_of processes)) in
      bindE (check_fields processes [''owner'', ''supervisor'', ''worker'']) (\<lambda>_.
      require (is_int (fld processes ''owner'') \<and> 1 < int_of (fld processes ''owner'') \<and>
               list_all (\<lambda>v. is_int v \<and> 1 < int_of v) pids \<and> card (set pids) = length pids \<and>
               (\<not> truthy (fld facts ''task_supervisor_reaped'') \<or> fld processes ''supervisor'' \<noteq> PNone) \<and>
               (\<not> truthy (fld facts ''task_worker_reaped'') \<or> fld processes ''worker'' \<noteq> PNone))
        ''native process tickets/reap binding'' (Inr ())))"

definition replay :: "pyval list \<Rightarrow> (registry \<times> pyval list) res" where
  "replay registered = foldE register_object ([], []) registered"

definition check_bound :: "string \<Rightarrow> string \<Rightarrow> pyval \<Rightarrow> string \<times> pyval \<Rightarrow> unit res" where
  "check_bound nonce manifest_sha256 init = (\<lambda>(role, ident).
     eachE (\<lambda>key.
       let v = fld (fld (fld init ''objects'') role) key in
       require (pyeq (PList [fld v ''dev'', fld v ''ino'']) ident \<and> fld v ''role'' = PStr role \<and>
                fld v ''nonce'' = PStr nonce \<and> fld v ''manifest_sha256'' = PStr manifest_sha256)
         ''native initialization/registration identity mismatch'' (Inr ())) [''after'', ''independent_readback''])"

definition bound_identities :: "pyval list \<Rightarrow> (string \<times> pyval) list" where
  "bound_identities events =
     foldl (\<lambda>d e. AList.update (str_of (fld e ''role'')) (fld e ''identity'') d) []
       (filter (\<lambda>e. fld e ''state'' = PStr ''bound'') events)"

definition check_initialization ::
    "(string \<Rightarrow> string) \<Rightarrow> pyval \<Rightarrow> pyval list \<Rightarrow> string \<Rightarrow> string \<Rightarrow> unit res" where
  "check_initialization sha facts events nonce manifest_sha256 =
     (let init = fld facts ''initialization''; readback = fld facts ''independent_readback'' in
      require ((init = PNone) = (readback = PNone)) ''native initialization readback pair'' (
      if init = PNone then Inr () else
      bindE (validate_observations sha init readback nonce manifest_sha256) (\<lambda>_.
      let bound = bound_identities events in
      require (fst ` set bound = set NATIVE_CREATE_ORDER) ''native initialization registry incomplete'' (
      eachE (check_bound nonce manifest_sha256 init) bound))))"

definition cleanup_fields :: "string list" where
  "cleanup_fields = [''schema_version'', ''scope'', ''uuid'', ''nonce'', ''manifest_sha256'', ''backend_kind'', ''errors'',
     ''cleaned'', ''pending''] @ NATIVE_FALSE_FLAGS"

definition check_cleanup ::
    "(rat \<Rightarrow> string) \<Rightarrow> pyval \<Rightarrow> registry \<Rightarrow> pyval list \<Rightarrow> string \<Rightarrow> string \<Rightarrow> unit res" where
  "check_cleanup fr facts reg events nonce manifest_sha256 =
     (let cleanup = fld facts ''cleanup'' in
      if cleanup = PNone then Inr () else
      bindE (check_fields cleanup cleanup_fields) (\<lambda>_.
      require (fld cleanup ''schema_version'' = PInt 1 \<and> fld cleanup ''scope'' = PStr ''i5-preparation-native-cleanup'' \<and>
               fld cleanup ''uuid'' = PStr UUID \<and> fld cleanup ''nonce'' = PStr nonce \<and>
               fld cleanup ''manifest_sha256'' = PStr manifest_sha256 \<and> fld cleanup ''backend_kind'' = PStr ''injected-offline'' \<and>
               list_all (\<lambda>f. fld cleanup f = PBool False) NATIVE_FALSE_FLAGS) ''native cleanup scope/binding'' (
      require (is_list (fld cleanup ''errors'') \<and> is_list (fld cleanup ''cleaned'') \<and> is_dict (fld cleanup ''pending'') \<and>
               length (list_of (fld cleanup ''errors'')) \<le> 12 \<and> list_all message_ok (list_of (fld cleanup ''errors'')) \<and>
               set (list_of (fld cleanup ''errors'')) \<subseteq> set (list_of (fld facts ''cleanup_errors'')) \<and>
               fld cleanup ''cleaned'' = PList (map PStr (roles_in ''cleaned'' events)) \<and>
               encode fr (fld cleanup ''pending'') = encode fr (PDict (map (\<lambda>(key, row).
                 (key, PDict [(''state'', fld row ''state''), (''identity'', fld row ''identity'')])) reg)))
        ''native cleanup/registry mismatch'' (Inr ()))))"

definition native_expected :: "pyval \<Rightarrow> pyval \<Rightarrow> registry \<Rightarrow> bool" where
  "native_expected facts task reg =
     (fld facts ''first_failure'' = PNone \<and> pyeq (fld facts ''owner_exit'') (PInt 0) \<and> truthy (fld facts ''owner_reaped'') \<and>
      truthy (fld facts ''fd_closed'') \<and> truthy (fld facts ''task_supervisor_reaped'') \<and>
      truthy (fld facts ''task_worker_reaped'') \<and> fld facts ''initialization'' \<noteq> PNone \<and> fld facts ''cleanup'' \<noteq> PNone \<and>
      reg = [] \<and> \<not> truthy (fld (fld facts ''cleanup'') ''errors'') \<and> \<not> truthy (fld facts ''cleanup_errors'') \<and>
      truthy task \<and> truthy (fld task ''passed''))"

text \<open>
  A nested task export is encoded and validated again; its scope has been checked before,
  so that validation is the one of a packet, and the recursion of the code stops there.
\<close>

definition check_task :: "(string \<Rightarrow> string) \<Rightarrow> (rat \<Rightarrow> string) \<Rightarrow> pyval \<Rightarrow> pyval \<Rightarrow> string \<Rightarrow> string \<Rightarrow> unit res" where
  "check_task sha fr facts task nonce manifest_sha256 =
     (if task = PNone then Inr () else
      require (is_dict task \<and> get_or task ''scope'' PNone = PStr EXPORT_SCOPE) ''native recursive task export rejected'' (
      bindE (decode (encode fr task) EXPORT_LIMIT) (\<lambda>packet.
      bindE (validate_packet sha packet nonce manifest_sha256) (\<lambda>_.
      require (\<not> truthy (fld facts ''task_worker_reaped'') \<or> truthy (fld (fld task ''supervision'') ''reaped''))
        ''native task reap contradiction'' (Inr ())))))"

definition validate_native_export ::
    "(string \<Rightarrow> string) \<Rightarrow> (rat \<Rightarrow> string) \<Rightarrow> string \<Rightarrow> string \<Rightarrow> string \<Rightarrow> pyval res" where
  "validate_native_export sha fr raw nonce manifest_sha256 =
     bindE (decode raw EXPORT_LIMIT) (\<lambda>v.
     bindE (check_fields v native_export_fields) (\<lambda>_.
     require (fld v ''schema_version'' = PInt 1 \<and> fld v ''scope'' = PStr NATIVE_EXPORT_SCOPE \<and> fld v ''uuid'' = PStr UUID \<and>
              fld v ''nonce'' = PStr nonce \<and> fld v ''manifest_sha256'' = PStr manifest_sha256 \<and>
              fld v ''evidence_kind'' = PStr ''synthetic'' \<and> fld v ''i5_ready'' = PBool False \<and> is_bool (fld v ''passed''))
       ''native export scope/binding'' (
     let facts = fld v ''native_lifecycle''; task = fld v ''task_export'' in
     bindE (check_facts fr facts nonce manifest_sha256) (\<lambda>_.
     bindE (check_processes facts) (\<lambda>_.
     bindE (replay (list_of (fld facts ''registered''))) (\<lambda>(reg, events).
     require (encode fr (PDict reg) = encode fr (fld facts ''pending'')) ''native registration/pending mismatch'' (
     bindE (check_initialization sha facts events nonce manifest_sha256) (\<lambda>_.
     bindE (check_cleanup fr facts reg events nonce manifest_sha256) (\<lambda>_.
     bindE (check_task sha fr facts task nonce manifest_sha256) (\<lambda>_.
     let expected = native_expected facts task reg in
     require (fld v ''passed'' = PBool expected \<and>
              (expected \<or> truthy (fld facts ''first_failure'') \<or> truthy (fld facts ''cleanup_errors'') \<or>
               \<not> pyeq (fld facts ''owner_exit'') (PInt 0))) ''native lifecycle completion contradiction'' (
     Inr v)))))))))))"

definition validate_export ::
    "(string \<Rightarrow> string) \<Rightarrow> (rat \<Rightarrow> string) \<Rightarrow> string \<Rightarrow> string \<Rightarrow> string \<Rightarrow> pyval res" where
  "validate_export sha fr raw nonce manifest_sha256 =
     bindE (decode raw EXPORT_LIMIT) (\<lambda>packet.
     if is_dict packet \<and> get_or packet ''scope'' PNone = PStr NATIVE_EXPORT_SCOPE
     then validate_native_export sha fr raw nonce manifest_sha256
     else validate_packet sha packet nonce manifest_sha256)"

end
