(* ===== verification/ExportProps.thy ===== *)
theory ExportProps
  imports NativeExport
begin

text \<open>
  Properties of the export channel: base64 round trip, the order of the object registry,
  and what a passing export proves about the run it reports.
\<close>

subsection \<open>Base64\<close>

text \<open>
  Artifact bytes survive the channel: whatever bytes an artifact holds, the strict decoder gives them back from their base64 text, and the text is a third longer.
\<close>

lemma artifact_roundtrip:
  "b64decode (b64encode data) = Inr data \<and> length (b64encode data) = 4 * ((length data + 2) div 3)"
  by (simp add: b64decode_encode length_b64encode)

subsection \<open>The order of the registry\<close>

lemma roles_in_snoc:
  "roles_in st (events @ [v]) = roles_in st events @ (if fld v ''state'' = PStr st then [str_of (fld v ''role'')] else [])"
  by (simp add: roles_in_def)

definition clean_order :: "string list \<Rightarrow> bool" where
  "clean_order cleaned = (cleaned = filter (\<lambda>r. r \<in> set cleaned) NATIVE_CLEAN_ORDER)"

definition registry_inv :: "registry \<times> pyval list \<Rightarrow> bool" where
  "registry_inv = (\<lambda>(reg, events).
     let intended = roles_in ''intent'' events; cleaned = roles_in ''cleaned'' events in
     prefix intended NATIVE_CREATE_ORDER \<and>
     map fst reg = filter (\<lambda>r. r \<notin> set cleaned) intended \<and> clean_order cleaned \<and>
     set cleaned \<subseteq> set intended \<and> set (roles_in ''bound'' events) \<subseteq> set intended \<and> length events \<le> 27)"

lemma registry_inv_start: "registry_inv ([], [])"
  by (simp add: registry_inv_def roles_in_def Let_def clean_order_def)

lemma fst_update: "map fst (AList.update k v d) = (if k \<in> fst ` set d then map fst d else map fst d @ [k])"
  by (simp add: update_keys)

lemma distinct_create_order: "distinct NATIVE_CREATE_ORDER"
  by (simp add: NATIVE_CREATE_ORDER_def)

lemma registry_intent:
  assumes inv: "registry_inv (reg, events)" and ok: "intent_ok reg events role ident"
    and st: "fld v ''state'' = PStr ''intent''" and role: "str_of (fld v ''role'') = role" and n: "length events < 27"
  shows "registry_inv (AList.update role v reg, events @ [v])"
proof -
  from ok have o: "role \<notin> fst ` set reg" "roles_in ''cleaned'' events = []"
    "roles_in ''intent'' events @ [role] = take (length (roles_in ''intent'' events) + 1) NATIVE_CREATE_ORDER"
    by (auto simp: intent_ok_def Let_def)
  from inv o(2) have r: "map fst reg = roles_in ''intent'' events"
    and b: "set (roles_in ''bound'' events) \<subseteq> set (roles_in ''intent'' events)"
    by (auto simp: registry_inv_def Let_def)
  have i: "roles_in ''intent'' (events @ [v]) = roles_in ''intent'' events @ [role]"
    and c: "roles_in ''cleaned'' (events @ [v]) = []"
    and b': "roles_in ''bound'' (events @ [v]) = roles_in ''bound'' events"
    by (simp_all add: roles_in_snoc st role o(2))
  have k: "map fst (AList.update role v reg) = roles_in ''intent'' events @ [role]"
    using o(1) r by (simp add: fst_update)
  have p: "prefix (roles_in ''intent'' events @ [role]) NATIVE_CREATE_ORDER"
    unfolding o(3) by (rule take_is_prefix)
  show ?thesis
    unfolding registry_inv_def prod.case Let_def i c b' k
    by (intro conjI p) (use b n in \<open>auto simp: clean_order_def\<close>)
qed

lemma keys_of_filter: "map fst d = filter P xs \<Longrightarrow> fst ` set d \<subseteq> set xs"
  using filter_is_subset [of P xs] by (simp flip: set_map)

lemma registry_bound:
  assumes inv: "registry_inv (reg, events)" and role: "str_of (fld v ''role'') \<in> fst ` set reg"
    and st: "fld v ''state'' = PStr ''bound''" and n: "length events < 27"
  shows "registry_inv (AList.update (str_of (fld v ''role'')) v reg, events @ [v])"
proof -
  from inv have "map fst reg = filter (\<lambda>r. r \<notin> set (roles_in ''cleaned'' events)) (roles_in ''intent'' events)"
    by (simp add: registry_inv_def Let_def)
  then have "fst ` set reg \<subseteq> set (roles_in ''intent'' events)" by (rule keys_of_filter)
  with role have r: "str_of (fld v ''role'') \<in> set (roles_in ''intent'' events)" by blast
  have i: "roles_in ''intent'' (events @ [v]) = roles_in ''intent'' events"
    and c: "roles_in ''cleaned'' (events @ [v]) = roles_in ''cleaned'' events"
    and b: "roles_in ''bound'' (events @ [v]) = roles_in ''bound'' events @ [str_of (fld v ''role'')]"
    by (simp_all add: roles_in_snoc st)
  have k: "map fst (AList.update (str_of (fld v ''role'')) v reg) = map fst reg"
    using role by (simp add: fst_update)
  from inv show ?thesis
    unfolding registry_inv_def prod.case Let_def i c b k using r n by simp
qed

lemma registry_cleaned:
  assumes inv: "registry_inv (reg, events)" and role: "str_of (fld v ''role'') \<in> fst ` set reg"
    and st: "fld v ''state'' = PStr ''cleaned''" and n: "length events < 27"
    and order: "clean_order (roles_in ''cleaned'' events @ [str_of (fld v ''role'')])"
  shows "registry_inv (filter (\<lambda>(r, _). r \<noteq> str_of (fld v ''role'')) reg, events @ [v])"
proof -
  let ?r = "str_of (fld v ''role'')"
  from inv have m: "map fst reg = filter (\<lambda>r. r \<notin> set (roles_in ''cleaned'' events)) (roles_in ''intent'' events)"
    by (simp add: registry_inv_def Let_def)
  then have "fst ` set reg \<subseteq> set (roles_in ''intent'' events)" by (rule keys_of_filter)
  moreover have "map fst (filter (\<lambda>(r, _). r \<noteq> ?r) reg) = filter (\<lambda>r. r \<noteq> ?r) (map fst reg)"
    by (induction reg) auto
  then have "map fst (filter (\<lambda>(r, _). r \<noteq> ?r) reg) =
      filter (\<lambda>r. r \<notin> set (roles_in ''cleaned'' events @ [?r])) (roles_in ''intent'' events)"
    by (simp only: m) (auto intro: filter_cong)
  moreover have "roles_in ''intent'' (events @ [v]) = roles_in ''intent'' events"
    "roles_in ''cleaned'' (events @ [v]) = roles_in ''cleaned'' events @ [?r]"
    "roles_in ''bound'' (events @ [v]) = roles_in ''bound'' events"
    by (simp_all add: roles_in_snoc st)
  moreover from inv have "prefix (roles_in ''intent'' events) NATIVE_CREATE_ORDER"
    "set (roles_in ''cleaned'' events) \<subseteq> set (roles_in ''intent'' events)"
    "set (roles_in ''bound'' events) \<subseteq> set (roles_in ''intent'' events)" by (simp_all add: registry_inv_def Let_def)
  ultimately show ?thesis
    unfolding registry_inv_def prod.case Let_def using role n order by simp blast
qed

lemma register_object_Inr:
  assumes "register_object (reg, events) v = Inr t"
  shows "register_fields v \<and> length events < 27 \<and>
    (if str_of (fld v ''state'') = ''intent'' then intent_ok reg events (str_of (fld v ''role'')) (fld v ''identity'')
     else str_of (fld v ''role'') \<in> fst ` set reg) \<and>
    (str_of (fld v ''state'') \<noteq> ''cleaned'' \<or> clean_order (roles_in ''cleaned'' events @ [str_of (fld v ''role'')])) \<and>
    t = (if str_of (fld v ''state'') = ''cleaned'' then filter (\<lambda>(r, _). r \<noteq> str_of (fld v ''role'')) reg
         else AList.update (str_of (fld v ''role'')) v reg, events @ [v])"
proof (cases "str_of (fld v ''state'') = ''intent''")
  case True
  with assms show ?thesis unfolding register_object_def prod.case Let_def by (simp add: res_simps clean_order_def)
next
  case False
  with assms show ?thesis unfolding register_object_def prod.case Let_def by (simp add: res_simps clean_order_def)
qed

lemma register_object_inv:
  assumes "registry_inv s" and "register_object s v = Inr t"
  shows "registry_inv t"
proof -
  obtain reg events where s: "s = (reg, events)" by (cases s)
  let ?role = "str_of (fld v ''role'')" and ?state = "str_of (fld v ''state'')" and ?ident = "fld v ''identity''"
  from assms(2) have f: "register_fields v" and n: "length events < 27"
    and i: "?state = ''intent'' \<Longrightarrow> intent_ok reg events ?role ?ident"
    and b: "?state \<noteq> ''intent'' \<Longrightarrow> ?role \<in> fst ` set reg"
    and o: "?state = ''cleaned'' \<Longrightarrow> clean_order (roles_in ''cleaned'' events @ [?role])"
    and t: "t = (if ?state = ''cleaned'' then filter (\<lambda>(r, _). r \<noteq> ?role) reg else AList.update ?role v reg, events @ [v])"
    using register_object_Inr [OF assms(2) [unfolded s]] by presburger+
  from f consider "fld v ''state'' = PStr ''intent''" | "fld v ''state'' = PStr ''bound''" | "fld v ''state'' = PStr ''cleaned''"
    by (auto simp: register_fields_def Let_def)
  then show ?thesis
  proof cases
    case 1
    with i assms(1) n show ?thesis unfolding t s by (auto intro: registry_intent)
  next
    case 2
    with b assms(1) n show ?thesis unfolding t s by (auto intro: registry_bound)
  next
    case 3
    then have st: "?state = ''cleaned''" by simp
    have "registry_inv (filter (\<lambda>(r, _). r \<noteq> ?role) reg, events @ [v])"
      by (rule registry_cleaned [OF assms(1) [unfolded s] _ 3 n o [OF st]]) (use b st in simp)
    with st show ?thesis unfolding t by simp
  qed
qed

lemma replay_inv: "replay rs = Inr s \<Longrightarrow> registry_inv s"
  unfolding replay_def by (rule foldE_invariant [where I = registry_inv]) (auto intro: registry_inv_start register_object_inv)

text \<open>
  C30: the registry is ordered.  Every accepted sequence of registrations announces objects
  in creation order without gaps, cleans them only in the reverse order and only after they
  were announced, and the registry holds exactly the announced objects that have not been
  cleaned, in creation order.
\<close>

theorem replay_registry_order:
  "case replay registered of
     Inl _ \<Rightarrow> True
   | Inr (reg, events) \<Rightarrow>
       let intended = roles_in ''intent'' events; cleaned = roles_in ''cleaned'' events in
       prefix intended NATIVE_CREATE_ORDER \<and>
       cleaned = filter (\<lambda>r. r \<in> set cleaned) (rev NATIVE_CREATE_ORDER) \<and> set cleaned \<subseteq> set intended \<and>
       map fst reg = filter (\<lambda>r. r \<notin> set cleaned) intended \<and> length events \<le> 27"
  using replay_inv [of registered]
  unfolding registry_inv_def clean_order_def NATIVE_CLEAN_ORDER_def Let_def
  by (auto split: sum.split prod.split)

subsection \<open>What a passing export proves\<close>

definition authentic :: "(string \<Rightarrow> string) \<Rightarrow> pyval \<Rightarrow> bool" where
  "authentic sha entry = (\<exists>data. fld entry ''base64'' = PStr (b64encode data) \<and> fld entry ''sha256'' = PStr (sha data) \<and>
     fld entry ''saved_bytes'' = PInt (int (length data)) \<and> length data \<le> SUMMARY_LIMIT)"

lemma check_artifact_Inr:
  assumes "check_artifact sha nonce m errors seen entry = Inr seen'"
  shows "authentic sha entry \<and> is_str (fld entry ''name'') \<and> str_of (fld entry ''name'') \<notin> set (se_names seen) \<and>
    se_names seen' = se_names seen @ [str_of (fld entry ''name'')] \<and>
    se_used seen' = se_used seen + nat (int_of (fld entry ''saved_bytes'')) \<and> se_used seen' \<le> DATA_LIMIT"
proof -
  from assms obtain data where e: "entry_ok entry (se_names seen)"
    and d: "b64encode data = str_of (fld entry ''base64'')" "int (length data) = int_of (fld entry ''saved_bytes'')"
      "PStr (sha data) = fld entry ''sha256''"
    and u: "se_used seen + length data \<le> DATA_LIMIT"
    and r: "se_names seen' = se_names seen @ [str_of (fld entry ''name'')]" "se_used seen' = se_used seen + length data"
    unfolding check_artifact_def Let_def bindE_Inr require_Inr
    by (auto simp: require_Inr split: if_splits sum.splits exn.splits)
  from e have t: "is_str (fld entry ''name'')" "is_str (fld entry ''base64'')" "is_int (fld entry ''saved_bytes'')"
    "str_of (fld entry ''name'') \<notin> set (se_names seen)"
    and b: "int_of (fld entry ''saved_bytes'') \<le> int (if str_of (fld entry ''name'') = ''result/result.json'' then SUMMARY_LIMIT else FILE_LIMIT)"
    unfolding entry_ok_def Let_def by blast+
  have "length data \<le> SUMMARY_LIMIT" using b d(2) by (simp add: SUMMARY_LIMIT_def FILE_LIMIT_def split: if_splits)
  moreover have "fld entry ''base64'' = PStr (b64encode data)" "fld entry ''saved_bytes'' = PInt (int (length data))"
    using t d by (auto simp: is_str_iff is_int_iff)
  ultimately have "authentic sha entry" using d(3) unfolding authentic_def by (intro exI [of _ data]) simp
  with t u r d(2) show ?thesis by (metis nat_int)
qed

lemma check_artifacts_Inr:
  assumes "foldE (check_artifact sha nonce m errors) seen xs = Inr seen'"
  shows "list_all (authentic sha) xs \<and> se_names seen' = se_names seen @ map (\<lambda>e. str_of (fld e ''name'')) xs \<and>
    (distinct (se_names seen) \<longrightarrow> distinct (se_names seen')) \<and>
    se_used seen' = se_used seen + (\<Sum>e \<leftarrow> xs. nat (int_of (fld e ''saved_bytes''))) \<and>
    (se_used seen \<le> DATA_LIMIT \<longrightarrow> se_used seen' \<le> DATA_LIMIT)"
  using assms
proof (induction xs arbitrary: seen)
  case Nil
  then show ?case by simp
next
  case (Cons x xs)
  then obtain s where s: "check_artifact sha nonce m errors seen x = Inr s"
    and f: "foldE (check_artifact sha nonce m errors) s xs = Inr seen'" by (auto simp: bindE_Inr)
  from check_artifact_Inr [OF s] Cons.IH [OF f] show ?case by auto blast
qed

definition supervision_clean :: "pyval \<Rightarrow> bool" where
  "supervision_clean v = (fld v ''admitted'' = PBool True \<and> fld v ''worker_exit'' = PInt 0 \<and>
     fld v ''population_empty'' = PBool True \<and> fld v ''reaped'' = PBool True)"

lemma supervision_passed:
  assumes "validate_supervision v nonce m = Inr u" and "truthy (fld v ''passed'')"
  shows "supervision_clean v"
proof -
  from assms(1) have b: "list_all (\<lambda>k. is_bool (fld v k)) [''passed'', ''admitted'', ''population_empty'', ''reaped'']"
    and w: "fld v ''worker_exit'' = PNone \<or> is_int (fld v ''worker_exit'')"
    and p: "fld v ''passed'' = PBool (supervision_expected v)"
    unfolding validate_supervision_def bindE_Inr require_Inr by blast+
  from p assms(2) have "supervision_expected v" by simp
  with b w show ?thesis
    by (auto simp: supervision_expected_def supervision_clean_def is_bool_iff is_int_iff)
qed

text \<open>
  C18: what an accepted export proves.  Every artifact of a validated packet is authentic
  (its text decodes to bytes of the stated length and digest), names are not repeated, and
  all saved bytes together stay within the budget.  If the packet says it passed, the
  supervisor admitted the worker, saw it exit with 0 and reaped everything, no export error
  was recorded, and the three fixed files and both streams of every step are present.
\<close>

theorem validated_export:
  "case validate_packet sha packet nonce manifest_sha256 of
     Inl _ \<Rightarrow> True
   | Inr p \<Rightarrow>
       let artifacts = list_of (fld p ''artifacts''); names = map (\<lambda>e. str_of (fld e ''name'')) artifacts in
       p = packet \<and> list_all (authentic sha) artifacts \<and> distinct names \<and>
       (\<Sum>e \<leftarrow> artifacts. nat (int_of (fld e ''saved_bytes''))) \<le> DATA_LIMIT \<and>
       (if fld p ''passed'' = PBool True
        then supervision_clean (fld p ''supervision'') \<and> fld p ''export_errors'' = PList [] \<and>
          {''result/result.json'', ''result/worker.stdout'', ''result/worker.stderr''} \<subseteq> set names \<and>
          (\<exists>summary. pyeq (fld p ''preparation'') summary \<and> truthy (fld summary ''passed'') \<and>
             required_artifacts summary \<subseteq> set names)
        else True)"
proof (cases "validate_packet sha packet nonce manifest_sha256")
  case (Inr p)
  let ?a = "list_of (fld packet ''artifacts'')" and ?e = "fld packet ''export_errors''"
  from Inr obtain seen u where p: "packet = p"
    and sup: "validate_supervision (fld packet ''supervision'') nonce manifest_sha256 = Inr u"
    and l: "is_list ?e"
    and f: "foldE (check_artifact sha nonce manifest_sha256 ?e) \<lparr> se_names = [], se_used = 0, se_summary = PNone \<rparr> ?a = Inr seen"
    and eq: "pyeq (fld packet ''preparation'') (se_summary seen)"
    and pass: "truthy (fld packet ''passed'') \<Longrightarrow> passing_complete packet seen = Inr ()"
    unfolding validate_packet_def Let_def bindE_Inr require_Inr
    apply (elim exE conjE)
    apply (rule that)
         apply (simp only: sum.inject)
        apply assumption+
    subgoal for w x y z by (cases z) (simp only: if_True)
    done
  from check_artifacts_Inr [OF f] have a: "list_all (authentic sha) ?a" "distinct (map (\<lambda>e. str_of (fld e ''name'')) ?a)"
    "(\<Sum>e \<leftarrow> ?a. nat (int_of (fld e ''saved_bytes''))) \<le> DATA_LIMIT"
    and n: "se_names seen = map (\<lambda>e. str_of (fld e ''name'')) ?a" by auto
  have q: "supervision_clean (fld packet ''supervision'') \<and> ?e = PList [] \<and>
      required_artifacts (se_summary seen) \<subseteq> set (se_names seen) \<and> truthy (fld (se_summary seen) ''passed'')"
    if t: "fld packet ''passed'' = PBool True"
  proof -
    from pass t have c: "required_artifacts (se_summary seen) \<subseteq> set (se_names seen)" "truthy (fld (se_summary seen) ''passed'')"
      "truthy (fld (fld packet ''supervision'') ''passed'')" "\<not> truthy ?e"
      unfolding passing_complete_def require_Inr by auto
    from supervision_passed [OF sup c(3)] c l show ?thesis by (auto simp: is_list_iff)
  qed
  have three: "{''result/result.json'', ''result/worker.stdout'', ''result/worker.stderr''} \<subseteq> required_artifacts s" for s
    unfolding required_artifacts_def by blast
  show ?thesis
  proof (cases "fld packet ''passed'' = PBool True")
    case True
    from q [OF True] eq have "\<exists>summary. pyeq (fld packet ''preparation'') summary \<and> truthy (fld summary ''passed'') \<and>
        required_artifacts summary \<subseteq> set (map (\<lambda>e. str_of (fld e ''name'')) ?a)" unfolding n by blast
    moreover have "{''result/result.json'', ''result/worker.stdout'', ''result/worker.stderr''} \<subseteq>
        set (map (\<lambda>e. str_of (fld e ''name'')) ?a)"
      using q [OF True] three unfolding n by (meson order_trans)
    ultimately show ?thesis
      using a q [OF True] unfolding Inr sum.case Let_def p [symmetric] if_P [OF True] by (intro conjI) blast+
  next
    case False
    then show ?thesis using a unfolding Inr sum.case Let_def p [symmetric] if_not_P [OF False] by blast
  qed
qed simp

subsection \<open>What a passing native lifecycle proves\<close>

lemma bound_identities_keys: "fst ` set (bound_identities events) = set (roles_in ''bound'' events)"
proof -
  have "fst ` set (foldl (\<lambda>d e. AList.update (str_of (fld e ''role'')) (fld e ''identity'') d) d es) =
      fst ` set d \<union> (\<lambda>e. str_of (fld e ''role'')) ` set es" for d and es :: "pyval list"
  proof (induction es arbitrary: d)
    case (Cons e es)
    have "fst ` set (AList.update k v d) = insert k (fst ` set d)" for k :: string and v :: pyval
      using arg_cong [OF fst_update, of set k v d] by auto
    then show ?case by (simp add: Cons)
  qed simp
  then show ?thesis by (simp add: bound_identities_def roles_in_def)
qed

lemma registry_complete:
  assumes "registry_inv ([], events)" and "set (roles_in ''bound'' events) = set NATIVE_CREATE_ORDER"
  shows "roles_in ''intent'' events = NATIVE_CREATE_ORDER \<and> roles_in ''cleaned'' events = NATIVE_CLEAN_ORDER"
proof -
  let ?i = "roles_in ''intent'' events" and ?c = "roles_in ''cleaned'' events"
  from assms have p: "prefix ?i NATIVE_CREATE_ORDER" and sub: "set NATIVE_CREATE_ORDER \<subseteq> set ?i"
    and empty: "filter (\<lambda>r. r \<notin> set ?c) ?i = []" and c: "clean_order ?c"
    by (simp_all add: registry_inv_def Let_def)
  from p obtain zs where z: "NATIVE_CREATE_ORDER = ?i @ zs" by (rule prefixE)
  have "distinct (?i @ zs)" using distinct_create_order unfolding z [symmetric] .
  then have "zs = []" using sub unfolding z by (cases zs) auto
  with z have i: "?i = NATIVE_CREATE_ORDER" by simp
  from empty have "set ?i \<subseteq> set ?c" by (auto simp: filter_empty_conv)
  then have "filter (\<lambda>r. r \<in> set ?c) NATIVE_CLEAN_ORDER = NATIVE_CLEAN_ORDER"
    unfolding i by (auto simp: filter_id_conv NATIVE_CLEAN_ORDER_def)
  with c have "?c = NATIVE_CLEAN_ORDER" unfolding clean_order_def by (rule trans)
  with i show ?thesis by simp
qed

text \<open>
  C29: what a passing native lifecycle proves.  If a native export is accepted and says it
  passed, its registrations replay to an empty registry in which all nine objects were
  announced in creation order and cleaned in exactly the reverse order, the owner was reaped
  with exit code 0, no failure or cleanup error was recorded, and its task export is itself
  a packet that validates and passed.
\<close>

theorem native_pass_complete:
  "case validate_native_export sha fr raw nonce manifest_sha256 of
     Inl _ \<Rightarrow> True
   | Inr v \<Rightarrow>
       let facts = fld v ''native_lifecycle'' in
       if fld v ''passed'' = PBool True
       then (\<exists>events. replay (list_of (fld facts ''registered'')) = Inr ([], events) \<and>
               roles_in ''intent'' events = NATIVE_CREATE_ORDER \<and> roles_in ''cleaned'' events = NATIVE_CLEAN_ORDER) \<and>
             fld facts ''owner_exit'' = PInt 0 \<and> fld facts ''first_failure'' = PNone \<and> fld facts ''cleanup_errors'' = PList [] \<and>
             (\<exists>packet. decode (encode fr (fld v ''task_export'')) EXPORT_LIMIT = Inr packet \<and>
               validate_packet sha packet nonce manifest_sha256 = Inr packet)
       else True"
proof (cases "validate_native_export sha fr raw nonce manifest_sha256")
  case (Inr v)
  let ?f = "fld v ''native_lifecycle''" and ?t = "fld v ''task_export''"
  from Inr obtain reg events u1 u2 u3 u4 where
    f: "check_facts fr ?f nonce manifest_sha256 = Inr u1" and
    r: "replay (list_of (fld ?f ''registered'')) = Inr (reg, events)" and
    i: "check_initialization sha ?f events nonce manifest_sha256 = Inr u2" and
    t: "check_task sha fr ?f ?t nonce manifest_sha256 = Inr u4" and
    p: "fld v ''passed'' = PBool (native_expected ?f ?t reg)"
    unfolding validate_native_export_def Let_def bindE_Inr require_Inr by (auto simp: bindE_Inr require_Inr split: prod.splits)
  show ?thesis
  proof (cases "native_expected ?f ?t reg")
    case True
    then have x: "fld ?f ''first_failure'' = PNone" "pyeq (fld ?f ''owner_exit'') (PInt 0)" "fld ?f ''initialization'' \<noteq> PNone"
      "reg = []" "\<not> truthy (fld ?f ''cleanup_errors'')" "truthy ?t"
      unfolding native_expected_def by blast+
    from f have "is_list (fld ?f ''cleanup_errors'')" "none_or is_int (fld ?f ''owner_exit'')"
      unfolding check_facts_def bindE_Inr require_Inr by blast+
    with x have o: "fld ?f ''owner_exit'' = PInt 0" "fld ?f ''cleanup_errors'' = PList []"
      by (auto simp: is_list_iff none_or_def is_int_iff)
    from i x(3) have "fst ` set (bound_identities events) = set NATIVE_CREATE_ORDER"
      unfolding check_initialization_def Let_def bindE_Inr require_Inr by (simp add: bindE_Inr require_Inr)
    then have "set (roles_in ''bound'' events) = set NATIVE_CREATE_ORDER" by (simp only: bound_identities_keys)
    moreover have "registry_inv ([], events)" using replay_inv [OF r] x(4) by simp
    ultimately have c: "roles_in ''intent'' events = NATIVE_CREATE_ORDER \<and> roles_in ''cleaned'' events = NATIVE_CLEAN_ORDER"
      by (intro registry_complete)
    from t x(6) obtain packet q where k: "decode (encode fr ?t) EXPORT_LIMIT = Inr packet"
      "validate_packet sha packet nonce manifest_sha256 = Inr q"
      unfolding check_task_def bindE_Inr require_Inr by (auto simp: bindE_Inr require_Inr split: if_splits)
    moreover from k(2) have "q = packet"
      unfolding validate_packet_def Let_def bindE_Inr require_Inr by blast
    ultimately show ?thesis
      using r x(1,4) o c p True unfolding Inr sum.case Let_def by auto
  next
    case False
    with p show ?thesis unfolding Inr sum.case Let_def by simp
  qed
qed simp

end
