(* ===== verification/Mailbox.thy ===== *)
theory Mailbox
  imports Channels
begin

text \<open>
  The fixed 1024 byte slots through which lease frames and acknowledgements cross into the
  guest (\<open>pack_slot\<close>, \<open>unpack_slot\<close>, \<open>SlotFile\<close>, \<open>GuestMailbox\<close> of
  \<open>sw_i5_preparation_transport.py\<close>).  SHA-256 is a parameter: \<open>dig\<close> gives the 32 bytes of
  \<open>.digest()\<close>, and \<open>hexdigest dig\<close> is the text of \<open>.hexdigest()\<close>.
\<close>

subsection \<open>Slots\<close>

definition SLOT_BYTES :: nat where "SLOT_BYTES = 1024"
definition SLOT_MAGIC :: string where "SLOT_MAGIC = ''I5M1''"

definition hexdigest :: "(string \<Rightarrow> string) \<Rightarrow> string \<Rightarrow> string" where
  "hexdigest dig x = concat (map (\<lambda>c. [hex_char (code c div 16), hex_char (code c mod 16)]) (dig x))"

text \<open>\<open>n.to_bytes(4, "big")\<close> and \<open>int.from_bytes(b, "big")\<close>.\<close>

definition zeros :: "nat \<Rightarrow> string" where
  "zeros n = replicate n (CHR 0x00)"

definition big_endian4 :: "nat \<Rightarrow> string" where
  "big_endian4 n = [byte (n div 16777216), byte (n div 65536), byte (n div 256), byte n]"

fun from_big_endian :: "string \<Rightarrow> nat" where
  "from_big_endian b = foldl (\<lambda>n c. n * 256 + code c) 0 b"

definition pack_slot :: "(string \<Rightarrow> string) \<Rightarrow> string \<Rightarrow> string res" where
  "pack_slot dig frame =
     require (0 < length frame \<and> length frame \<le> MAX_FRAME) ''mailbox frame size'' (
     let packed = SLOT_MAGIC @ big_endian4 (length frame) @ dig frame @ frame in
     Inr (packed @ zeros (SLOT_BYTES - length packed)))"

text \<open>\<open>None\<close> for an empty slot and for every torn or foreign one.\<close>

definition unpack_slot :: "(string \<Rightarrow> string) \<Rightarrow> string \<Rightarrow> string option res" where
  "unpack_slot dig raw =
     require (length raw = SLOT_BYTES) ''mailbox size'' (
     if raw = zeros SLOT_BYTES then Inr None else
     let n = from_big_endian (slice 4 8 raw) in
     if take 4 raw \<noteq> SLOT_MAGIC \<or> \<not> (0 < n \<and> n \<le> MAX_FRAME) then Inr None else
     let frame = slice 40 (40 + n) raw in
     if slice 8 40 raw \<noteq> dig frame \<or> list_ex (\<lambda>c. c \<noteq> CHR 0x00) (drop (40 + n) raw) then Inr None
     else Inr (Some frame))"

text \<open>\<open>unbase64\<close>: bounded and canonical.\<close>

definition unbase64 :: "pyval \<Rightarrow> nat \<Rightarrow> string res" where
  "unbase64 text_v limit =
     require (is_str text_v \<and> length (str_of text_v) \<le> 4 * ((limit + 2) div 3)) ''RPC base64 limit'' (
     bindE (b64decode (str_of text_v)) (\<lambda>raw.
     require (length raw \<le> limit \<and> b64encode raw = str_of text_v) ''noncanonical RPC base64'' (Inr raw)))"

subsection \<open>Slot files\<close>

record 'w file_kernel = "'w kernel" +
  k_pread :: "int \<Rightarrow> nat \<Rightarrow> nat \<Rightarrow> ('w, string) act"
  k_pwrite :: "int \<Rightarrow> string \<Rightarrow> nat \<Rightarrow> ('w, nat) act"

record slot_file =
  sf_path :: path
  sf_fd :: int
  sf_owner :: int
  sf_identity :: "(nat \<times> nat) \<times> int"

definition slot_info_ok :: "slot_file \<Rightarrow> stat_info \<Rightarrow> bool" where
  "slot_info_ok f i =
     (S_ISREG i \<and> (st_dev i, st_ino i) = sf_identity f \<and> st_uid i = sf_owner f \<and> st_mode i mod 4096 = 384 \<and>
      st_nlink i = 1 \<and> st_size i = int SLOT_BYTES)"

definition slot_check :: "'w file_kernel \<Rightarrow> slot_file \<Rightarrow> ('w, unit) act" where
  "slot_check k f =
     bnd (k_fstat k (sf_fd f)) (\<lambda>a. bnd (k_lstat k (sf_path f)) (\<lambda>b.
     sqn (ensure (slot_info_ok f a) ''mailbox identity/mode/size changed'') (
     sqn (ensure (slot_info_ok f b) ''mailbox identity/mode/size changed'') (
     bnd (k_resolve k (sf_path f)) (\<lambda>p. ensure (p = sf_path f) ''mailbox ancestor changed'')))))"

definition slot_flags :: "bool \<Rightarrow> string list" where
  "slot_flags writable = [if writable then ''RDWR'' else ''RDONLY'', ''NOFOLLOW'', ''NONBLOCK'', ''CLOEXEC'']"

definition slot_open :: "'w file_kernel \<Rightarrow> path \<Rightarrow> int \<Rightarrow> bool \<Rightarrow> ('w, slot_file) act" where
  "slot_open k path owner writable =
     sqn (ensure (is_absolute path) ''canonical mailbox path'') (
     bnd (k_resolve k path) (\<lambda>p. sqn (ensure (p = path) ''canonical mailbox path'') (
     bnd (k_open k path (slot_flags writable)) (\<lambda>fd.
     on_error
       (bnd (k_fstat k fd) (\<lambda>i.
        let f = \<lparr> sf_path = path, sf_fd = fd, sf_owner = owner, sf_identity = (st_dev i, st_ino i) \<rparr> in
        sqn (slot_check k f) (ret f)))
       (k_close k fd)))))"

definition slot_read :: "'w file_kernel \<Rightarrow> slot_file \<Rightarrow> ('w, string) act" where
  "slot_read k f =
     sqn (slot_check k f) (
     bnd (k_pread k (sf_fd f) (SLOT_BYTES + 1) 0) (\<lambda>raw.
     sqn (slot_check k f) (
     sqn (ensure (length raw = SLOT_BYTES) ''mailbox short/oversized read'') (ret raw))))"

definition slot_write :: "(string \<Rightarrow> string) \<Rightarrow> 'w file_kernel \<Rightarrow> slot_file \<Rightarrow> string \<Rightarrow> ('w, unit) act" where
  "slot_write dig k f frame =
     sqn (slot_check k f) (
     bnd (lft (pack_slot dig frame)) (\<lambda>raw.
     bnd (k_pwrite k (sf_fd f) raw 0) (\<lambda>n. sqn (ensure (n = SLOT_BYTES) ''mailbox short write'') (
     bnd (slot_read k f) (\<lambda>now. ensure (now = raw) ''mailbox write readback mismatch'')))))"

definition slot_close :: "'w file_kernel \<Rightarrow> slot_file \<Rightarrow> ('w, unit) act" where
  "slot_close k f = k_close k (sf_fd f)"

subsection \<open>The guest's mailbox\<close>

record mailbox =
  mb_lease :: slot_file
  mb_ack :: slot_file
  mb_nonce :: string
  mb_manifest :: string
  mb_previous :: string

text \<open>\<open>Lease(nonce, manifest_sha256, started=0)\<close>, built only for its checks.\<close>

definition binding_ok :: "pyval \<Rightarrow> pyval \<Rightarrow> lease res" where
  "binding_ok nonce manifest =
     lease_init nonce manifest (PInt 0) (PFloat (Fin GUEST_SECONDS)) (PFloat (Fin LEASE_SECONDS)) (PStr ''guest'')"

definition mailbox_init ::
    "'w file_kernel \<Rightarrow> slot_file \<Rightarrow> slot_file \<Rightarrow> pyval \<Rightarrow> pyval \<Rightarrow> ('w, mailbox) act" where
  "mailbox_init k lease_slot ack_slot nonce manifest =
     sqn (lft (binding_ok nonce manifest)) (
     sqn (ensure (sf_identity lease_slot \<noteq> sf_identity ack_slot) ''fresh distinct mailbox required'') (
     bnd (slot_read k ack_slot) (\<lambda>raw.
     sqn (ensure (raw = zeros SLOT_BYTES) ''fresh distinct mailbox required'') (
     ret \<lparr> mb_lease = lease_slot, mb_ack = ack_slot, mb_nonce = str_of nonce, mb_manifest = str_of manifest,
           mb_previous = zeros SLOT_BYTES \<rparr>))))"

text \<open>A returned read gives the mailbox it leaves; a read that raises leaves it as it was.\<close>

definition read_pending ::
    "(string \<Rightarrow> string) \<Rightarrow> 'w file_kernel \<Rightarrow> mailbox \<Rightarrow> ('w, mailbox \<times> string option) act" where
  "read_pending dig k m =
     bnd (slot_read k (mb_lease m)) (\<lambda>raw.
     if raw = mb_previous m then ret (m, None) else
     bnd (lft (unpack_slot dig raw)) (\<lambda>frame.
     case frame of None \<Rightarrow> ret (m, None) | Some f \<Rightarrow> ret (m\<lparr>mb_previous := raw\<rparr>, Some f)))"

definition ack_value :: "string \<Rightarrow> string \<Rightarrow> int \<Rightarrow> pyval" where
  "ack_value nonce manifest sequence = PDict [(''schema_version'', PInt 1), (''scope'', PStr ''i5-preparation-guest-ack''),
     (''uuid'', PStr UUID), (''nonce'', PStr nonce), (''manifest_sha256'', PStr manifest), (''sequence'', PInt sequence)]"

text \<open>The value holds no float, so the float formatter of \<open>encode\<close> is irrelevant.\<close>

definition acknowledge :: "(string \<Rightarrow> string) \<Rightarrow> 'w file_kernel \<Rightarrow> mailbox \<Rightarrow> int \<Rightarrow> ('w, unit) act" where
  "acknowledge dig k m sequence =
     slot_write dig k (mb_ack m) (encode (\<lambda>_. []) (ack_value (mb_nonce m) (mb_manifest m) sequence))"

end
