(* ===== verification/Rpc.thy ===== *)
theory Rpc
  imports NativeExport Mailbox
begin

text \<open>
  The RPC layer of \<open>sw_i5_preparation_rpc.py\<close>: validation of requests, responses and
  native invocation descriptors, and the process bridge that runs one bounded child per
  call.  The child, its pipes, the selector and the clock are a record over an arbitrary
  world; the text of a float is the parameter \<open>fr\<close>, SHA-256 is \<open>dig\<close>.
\<close>

subsection \<open>Constants and Python helpers\<close>

definition REQUEST_LIMIT :: nat where "REQUEST_LIMIT = 96 * 1024"
definition RESPONSE_LIMIT :: nat where "RESPONSE_LIMIT = 6 * MIB"
definition STDERR_LIMIT :: nat where "STDERR_LIMIT = 65536"

fun type_name :: "pyval \<Rightarrow> string" where
  "type_name PNone = ''NoneType''"
| "type_name (PBool _) = ''bool''"
| "type_name (PInt _) = ''int''"
| "type_name (PFloat _) = ''float''"
| "type_name (PStr _) = ''str''"
| "type_name (PList _) = ''list''"
| "type_name (PDict _) = ''dict''"

text \<open>\<open>type(a) is type(b) and a == b\<close>.\<close>

definition typed_eq :: "pyval \<Rightarrow> pyval \<Rightarrow> bool" where
  "typed_eq a b = (type_name a = type_name b \<and> pyeq a b)"

text \<open>\<open>repr\<close> of a string and of a list of strings.\<close>

definition repr_char :: "char \<Rightarrow> char \<Rightarrow> string" where
  "repr_char q c =
     (let n = code c in
      if c = q \<or> n = 92 then [CHR 0x5C, c]
      else if n = 9 then [CHR 0x5C, CHR ''t''] else if n = 10 then [CHR 0x5C, CHR ''n'']
      else if n = 13 then [CHR 0x5C, CHR ''r'']
      else if n < 32 \<or> (127 \<le> n \<and> n \<le> 160) \<or> n = 173 then [CHR 0x5C, CHR ''x'', hex_char (n div 16), hex_char (n mod 16)]
      else [c])"

definition repr_str :: "string \<Rightarrow> string" where
  "repr_str s = (let q = (if CHR 0x27 \<in> set s \<and> CHR 0x22 \<notin> set s then CHR 0x22 else CHR 0x27) in
     [q] @ concat (map (repr_char q) s) @ [q])"

definition repr_strs :: "string list \<Rightarrow> string" where
  "repr_strs xs = ''['' @ join '', '' (map repr_str xs) @ '']''"

text \<open>\<open>not isinstance(exc, Exception)\<close>: what neither class of handler may swallow.\<close>

fun base_only :: "exn \<Rightarrow> bool" where
  "base_only (OtherError n m) = (n \<in> set [''KeyboardInterrupt'', ''SystemExit'', ''GeneratorExit''])"
| "base_only _ = False"

subsection \<open>Descriptors and requests\<close>

definition descriptor_fields :: "string list" where
  "descriptor_fields = [''schema_version'', ''scope'', ''uuid'', ''nonce'', ''manifest_sha256'', ''delivery_sha256'']"

definition validate_invocation_descriptor :: "(rat \<Rightarrow> string) \<Rightarrow> pyval \<Rightarrow> pyval \<Rightarrow> pyval \<Rightarrow> pyval res" where
  "validate_invocation_descriptor fr v nonce manifest =
     bindE (binding_ok nonce manifest) (\<lambda>_.
     bindE (check_fields v descriptor_fields) (\<lambda>_.
     require (fld v ''schema_version'' = PInt 1 \<and> fld v ''scope'' = PStr ''i5-preparation-native-library-invocation'' \<and>
              fld v ''uuid'' = PStr UUID \<and> fld v ''nonce'' = nonce \<and> fld v ''manifest_sha256'' = manifest \<and>
              digest (fld v ''delivery_sha256'')) ''native invocation descriptor binding'' (
     bindE (rpc_encode fr v) (\<lambda>raw.
     require (length raw \<le> 48 * 1024) ''native invocation descriptor limit'' (decode raw (48 * 1024))))))"

definition request_fields :: "string list" where
  "request_fields = [''schema_version'', ''scope'', ''uuid'', ''nonce'', ''manifest_sha256'', ''sequence'', ''action'', ''args'']"

definition action_fields :: "(string \<times> string list) list" where
  "action_fields = [(''identify'', []), (''open'', [''role'']), (''read'', [''handle'']), (''write'', [''handle'', ''data'']),
     (''execute'', [''program_base64'', ''program_sha256'']), (''execute-native'', [''descriptor'']),
     (''native-ready'', [''process'']), (''result'', [''process'']), (''close'', [''handle''])]"

definition rpc_int :: "int \<Rightarrow> pyval \<Rightarrow> bool" where
  "rpc_int low v = (is_int v \<and> low \<le> int_of v \<and> int_of v < 2 ^ 53)"

definition check_handle :: "pyval \<Rightarrow> string \<Rightarrow> unit res" where
  "check_handle args key = require (key \<in> keys args \<longrightarrow> rpc_int 1 (fld args key)) ''RPC handle'' (Inr ())"

definition check_input :: "(string \<Rightarrow> string) \<Rightarrow> bool \<Rightarrow> pyval \<Rightarrow> unit res" where
  "check_input dig write args =
     (let text_v = fld args (if write then ''data'' else ''program_base64'');
          maximum = (if write then 1024 else 48 * 1024) in
      require (is_str text_v \<and> 0 < length (str_of text_v) \<and> length (str_of text_v) \<le> 4 * ((maximum + 2) div 3)) ''RPC input size'' (
      bindE (b64decode (str_of text_v)) (\<lambda>raw.
      require (0 < length raw \<and> length raw \<le> maximum \<and> b64encode raw = str_of text_v) ''RPC input base64'' (
      if write then require (length raw = 1024) ''RPC slot size'' (Inr ())
      else require (digest (fld args ''program_sha256'') \<and> PStr (hexdigest dig raw) = fld args ''program_sha256'')
             ''RPC program digest'' (Inr ())))))"

definition check_args :: "(string \<Rightarrow> string) \<Rightarrow> (rat \<Rightarrow> string) \<Rightarrow> string \<Rightarrow> pyval \<Rightarrow> pyval \<Rightarrow> pyval \<Rightarrow> unit res" where
  "check_args dig fr action args nonce manifest =
     bindE (eachE (check_handle args) [''handle'', ''process'']) (\<lambda>_.
     require (action = ''open'' \<longrightarrow> fld args ''role'' = PStr ''lease'' \<or> fld args ''role'' = PStr ''ack'') ''RPC mailbox role'' (
     bindE (if action = ''execute-native''
            then bindE (validate_invocation_descriptor fr (fld args ''descriptor'') nonce manifest) (\<lambda>_. Inr ())
            else Inr ()) (\<lambda>_.
     if action = ''write'' \<or> action = ''execute'' then check_input dig (action = ''write'') args else Inr ())))"

definition validate_request :: "(string \<Rightarrow> string) \<Rightarrow> (rat \<Rightarrow> string) \<Rightarrow> pyval \<Rightarrow> pyval \<Rightarrow> pyval \<Rightarrow> string res" where
  "validate_request dig fr request nonce manifest =
     bindE (binding_ok nonce manifest) (\<lambda>_.
     bindE (check_fields request request_fields) (\<lambda>_.
     require (fld request ''schema_version'' = PInt 1 \<and> fld request ''scope'' = PStr ''i5-preparation-utm-rpc'' \<and>
              fld request ''uuid'' = PStr UUID \<and> fld request ''nonce'' = nonce \<and> fld request ''manifest_sha256'' = manifest \<and>
              rpc_int 0 (fld request ''sequence'')) ''RPC request binding'' (
     let action = fld request ''action''; args = fld request ''args'' in
     require (is_str action \<and> str_of action \<in> fst ` set action_fields) ''RPC action'' (
     bindE (check_fields args (the (map_of action_fields (str_of action)))) (\<lambda>_.
     bindE (check_args dig fr (str_of action) args nonce manifest) (\<lambda>_.
     bindE (rpc_encode fr request) (\<lambda>raw.
     require (length raw \<le> REQUEST_LIMIT) ''RPC request limit'' (Inr raw))))))))"

definition response_fields :: "string list" where
  "response_fields = [''schema_version'', ''scope'', ''uuid'', ''nonce'', ''manifest_sha256'', ''sequence'', ''action'', ''value'']"

definition echoed_fields :: "string list" where
  "echoed_fields = [''schema_version'', ''uuid'', ''nonce'', ''manifest_sha256'', ''sequence'', ''action'']"

definition validate_response :: "string \<Rightarrow> pyval \<Rightarrow> nat \<Rightarrow> pyval res" where
  "validate_response raw request limit =
     require (0 < length raw \<and> length raw \<le> limit) ''RPC response limit'' (
     bindE (utf8 raw) (\<lambda>s.
     bindE (decode_text s limit) (\<lambda>v.
     bindE (check_fields v response_fields) (\<lambda>_.
     bindE (ensureE
       (if fld v ''scope'' \<noteq> PStr ''i5-preparation-utm-rpc-result'' then Inr False
        else allE (\<lambda>k. bindE (item request k) (\<lambda>w. Inr (typed_eq (fld v k) w))) echoed_fields) ''RPC response binding'') (\<lambda>_.
     Inr v)))))"

subsection \<open>The process bridge\<close>

record process_rpc =
  pr_argv :: "string list"
  pr_nonce :: pyval
  pr_digest :: pyval

definition process_rpc_init :: "string list \<Rightarrow> pyval \<Rightarrow> pyval \<Rightarrow> process_rpc res" where
  "process_rpc_init argv nonce manifest =
     require (argv \<noteq> [] \<and> list_all (\<lambda>a. a \<noteq> [] \<and> CHR 0x00 \<notin> set a) argv) ''RPC explicit argv required'' (
     require (is_absolute (path_of (hd argv))) ''RPC executable must be absolute'' (
     bindE (binding_ok nonce manifest) (\<lambda>_.
     Inr \<lparr> pr_argv = argv, pr_nonce = nonce, pr_digest = manifest \<rparr>)))"

text \<open>
  \<open>q_interrupted\<close> reads the list of signals the installed handlers have collected;
  \<open>q_poll\<close> gives the return code once the child was reaped; \<open>q_select\<close> the registered
  streams that are ready.
\<close>

record 'w child_env =
  q_now :: "('w, rat) act"
  q_install :: "('w, unit) act"
  q_restore :: "('w, unit) act"
  q_interrupted :: "('w, int list) act"
  q_cancelled :: "('w, bool) act"
  q_launch :: "string list \<Rightarrow> ('w, unit) act"
  q_register :: "string \<Rightarrow> ('w, unit) act"
  q_select :: "string list \<Rightarrow> rat \<Rightarrow> ('w, string list) act"
  q_write :: "string \<Rightarrow> ('w, nat) act"
  q_read :: "string \<Rightarrow> nat \<Rightarrow> ('w, string) act"
  q_poll :: "('w, int option) act"
  q_kill :: "('w, unit) act"
  q_wait :: "rat \<Rightarrow> ('w, unit) act"
  q_close :: "string \<Rightarrow> ('w, unit) act"

record 'w bridge =
  br_world :: 'w
  br_started :: bool
  br_open :: "string list"
  br_stdout :: string
  br_stderr :: string
  br_sent :: nat
  br_failure :: "exn option"
  br_cleanup :: "string list"

abbreviation br :: "('w, 'a) act \<Rightarrow> ('w bridge, 'a) act" where
  "br \<equiv> zoom br_world br_world_update"

definition stream_names :: "string list" where
  "stream_names = [''stdin'', ''stdout'', ''stderr'']"

definition finish_stream :: "'w child_env \<Rightarrow> string \<Rightarrow> ('w bridge, unit) act" where
  "finish_stream q name =
     sqn (upd (\<lambda>s. s\<lparr>br_open := filter (\<lambda>n. n \<noteq> name) (br_open s)\<rparr>)) (br (q_close q name))"

definition pump_stdin :: "'w child_env \<Rightarrow> string \<Rightarrow> ('w bridge, unit) act" where
  "pump_stdin q raw =
     bnd (get br_sent) (\<lambda>sent.
     bnd (handle_if would_block (bnd (br (q_write q (slice sent (sent + 65536) raw))) (\<lambda>c. ret (Some c))) (\<lambda>_. ret None)) (\<lambda>count.
     case count of None \<Rightarrow> ret ()
     | Some c \<Rightarrow>
         sqn (ensure (0 < c) ''RPC zero stdin write'') (
         sqn (upd (\<lambda>s. s\<lparr>br_sent := sent + c\<rparr>)) (
         whenA (sent + c = length raw) (finish_stream q ''stdin'')))))"

definition buffered :: "string \<Rightarrow> 'w bridge \<Rightarrow> string" where
  "buffered name s = (if name = ''stdout'' then br_stdout s else br_stderr s)"

definition extend :: "string \<Rightarrow> string \<Rightarrow> 'w bridge \<Rightarrow> 'w bridge" where
  "extend name d s = (if name = ''stdout'' then s\<lparr>br_stdout := br_stdout s @ d\<rparr> else s\<lparr>br_stderr := br_stderr s @ d\<rparr>)"

definition pump_output :: "'w child_env \<Rightarrow> nat \<Rightarrow> string \<Rightarrow> ('w bridge, unit) act" where
  "pump_output q limit name =
     bnd (get (buffered name)) (\<lambda>b.
     let budget = (if name = ''stdout'' then limit else STDERR_LIMIT) - length b in
     bnd (handle_if would_block (bnd (br (q_read q name (min 65536 (budget + 1)))) (\<lambda>d. ret (Some d))) (\<lambda>_. ret None)) (\<lambda>chunk.
     case chunk of None \<Rightarrow> ret ()
     | Some d \<Rightarrow>
         if d = [] then finish_stream q name
         else sqn (ensure (length d \<le> budget) (''RPC '' @ name @ '' limit'')) (upd (extend name d))))"

definition pump :: "'w child_env \<Rightarrow> string \<Rightarrow> nat \<Rightarrow> string \<Rightarrow> ('w bridge, unit) act" where
  "pump q raw limit name = (if name = ''stdin'' then pump_stdin q raw else pump_output q limit name)"

definition not_cancelled :: "'w child_env \<Rightarrow> ('w bridge, unit) act" where
  "not_cancelled q =
     bnd (br (q_interrupted q)) (\<lambda>i. sqn (ensure (i = []) ''RPC cancelled'') (
     bnd (br (q_cancelled q)) (\<lambda>c. ensure (\<not> c) ''RPC cancelled'')))"

text \<open>The loop condition \<open>selector.get_map() or process.poll() is None\<close>: \<open>Some c\<close> ends it.\<close>

definition child_done :: "'w child_env \<Rightarrow> ('w bridge, int option) act" where
  "child_done q = bnd (get br_open) (\<lambda>names. if names \<noteq> [] then ret None else br (q_poll q))"

fun pump_loop :: "nat \<Rightarrow> 'w child_env \<Rightarrow> string \<Rightarrow> nat \<Rightarrow> rat \<Rightarrow> ('w bridge, int) act" where
  "pump_loop 0 q raw limit io_deadline = lft (Inl OutOfFuel)"
| "pump_loop (Suc n) q raw limit io_deadline =
     bnd (child_done q) (\<lambda>c. case c of Some c \<Rightarrow> ret c | None \<Rightarrow>
     sqn (not_cancelled q) (
     bnd (br (q_now q)) (\<lambda>t.
     let remaining = io_deadline - t in
     bnd (get br_open) (\<lambda>names.
     sqn (if remaining \<le> 0 then bnd (br (q_poll q)) (\<lambda>p.
            ensure (p = None \<or> names = []) ''RPC pipe still open after child exit; descendant cleanup unconfirmed'') else ret ()) (
     sqn (ensure (0 < remaining) ''RPC process deadline'') (
     bnd (br (q_select q names (min remaining (1 / 100)))) (\<lambda>ready.
     sqn (eachA (pump q raw limit) ready) (pump_loop n q raw limit io_deadline))))))))"

definition bridge_body ::
    "nat \<Rightarrow> 'w child_env \<Rightarrow> process_rpc \<Rightarrow> pyval \<Rightarrow> string \<Rightarrow> nat \<Rightarrow> rat \<Rightarrow> ('w bridge, string) act" where
  "bridge_body fuel q p request raw limit io_deadline =
     sqn (br (q_install q)) (
     bnd (br (q_cancelled q)) (\<lambda>c. sqn (ensure (\<not> c) ''RPC cancelled'') (
     bnd (br (q_interrupted q)) (\<lambda>i. sqn (ensure (i = []) ''RPC cancelled'') (
     bnd (br (q_now q)) (\<lambda>t. sqn (ensure (t < io_deadline) ''RPC process deadline before launch'') (
     sqn (br (q_launch q (pr_argv p))) (
     sqn (upd (\<lambda>s. s\<lparr>br_started := True\<rparr>)) (
     sqn (eachA (\<lambda>name. sqn (br (q_register q name)) (upd (\<lambda>s. s\<lparr>br_open := br_open s @ [name]\<rparr>))) stream_names) (
     bnd (pump_loop fuel q raw limit io_deadline) (\<lambda>status.
     bnd (get br_sent) (\<lambda>sent. sqn (ensure (sent = length raw) ''RPC incomplete stdin'') (
     sqn (ensure (status = 0) (''RPC child exit/signal: '' @ show_int status)) (
     bnd (get br_stderr) (\<lambda>err. sqn (ensure (err = []) ''RPC child stderr is nonempty'') (
     bnd (get br_stdout) (\<lambda>result.
     sqn (lft (validate_response result request limit)) (
     bnd (br (q_now q)) (\<lambda>t. sqn (ensure (t < io_deadline) ''late RPC response'') (ret result))))))))))))))))))))"

definition note_cleanup :: "string \<Rightarrow> ('w bridge, unit) act" where
  "note_cleanup m = upd (\<lambda>s. s\<lparr>br_cleanup := br_cleanup s @ [m]\<rparr>)"

definition wait_failed :: "exn \<Rightarrow> bool" where
  "wait_failed e = (is_oserror e \<or> exn_name e = ''TimeoutExpired'')"

definition bridge_cleanup :: "'w child_env \<Rightarrow> rat \<Rightarrow> ('w bridge, unit) act" where
  "bridge_cleanup q deadline =
     bnd (get br_started) (\<lambda>started.
     sqn (whenA started
       (sqn (handle_if is_oserror (bnd (br (q_poll q)) (\<lambda>c. whenA (c = None) (br (q_kill q)))) (\<lambda>x. note_cleanup (''kill: '' @ exn_str x))) (
        sqn (handle_if wait_failed (bnd (br (q_now q)) (\<lambda>t. br (q_wait q (max 0 (deadline - t)))))
               (\<lambda>x. note_cleanup (''direct child reap unconfirmed: '' @ exn_name x))) (
        eachA (\<lambda>name. handle_if is_oserror (br (q_close q name)) (\<lambda>x. note_cleanup (''close: '' @ exn_str x))) stream_names)))) (
     br (q_restore q)))"

definition bridge_failure :: "exn option \<Rightarrow> int list \<Rightarrow> string option" where
  "bridge_failure original signals =
     (let failure = map_option (\<lambda>x. exn_name x @ '': '' @ exn_str x) original in
      case signals of [] \<Rightarrow> failure
      | n # _ \<Rightarrow> Some ((case failure of None \<Rightarrow> [] | Some f \<Rightarrow> f @ ''; '') @ ''RPC cancelled by signal '' @ show_int n))"

definition bridge_verdict :: "exn option \<Rightarrow> int list \<Rightarrow> string list \<Rightarrow> unit res" where
  "bridge_verdict original signals cleanup =
     (let failure = bridge_failure original signals in
      if failure = None \<and> cleanup = [] then Inr () else
      let message = ''preparation RPC process: '' @ (case failure of None \<Rightarrow> ''cleanup failed'' | Some f \<Rightarrow> f) @
                    ''; cleanup='' @ repr_strs cleanup in
      case original of Some x \<Rightarrow> (if base_only x then Inl x else Inl (ValueError message)) | None \<Rightarrow> Inl (ValueError message))"

text \<open>\<open>failure\<close> is never the empty string: it starts with the name of the exception's class.\<close>

definition bridge_run ::
    "nat \<Rightarrow> 'w child_env \<Rightarrow> process_rpc \<Rightarrow> pyval \<Rightarrow> string \<Rightarrow> nat \<Rightarrow> rat \<Rightarrow> rat \<Rightarrow> ('w bridge, string) act" where
  "bridge_run fuel q p request raw limit io_deadline deadline =
     bnd (try_finally
            (handle_if any_exn (bridge_body fuel q p request raw limit io_deadline)
               (\<lambda>x. sqn (upd (\<lambda>s. s\<lparr>br_failure := Some x\<rparr>)) (ret [])))
            (bridge_cleanup q deadline)) (\<lambda>result.
     bnd (br (q_interrupted q)) (\<lambda>signals. bnd (get br_failure) (\<lambda>original. bnd (get br_cleanup) (\<lambda>cleanup.
     sqn (lft (bridge_verdict original signals cleanup)) (
     bnd (br (q_now q)) (\<lambda>t. sqn (ensure (t < deadline) ''RPC completion deadline'') (ret result)))))))"

definition bridge_start :: "'w \<Rightarrow> 'w bridge" where
  "bridge_start w = \<lparr> br_world = w, br_started = False, br_open = [], br_stdout = [], br_stderr = [], br_sent = 0,
     br_failure = None, br_cleanup = [] \<rparr>"

text \<open>\<open>ProcessRPC.__call__\<close>.\<close>

definition budget_ok :: "pyval \<Rightarrow> bool" where
  "budget_ok timeout = (case finite_num timeout of None \<Rightarrow> False | Some t \<Rightarrow> 0 < t \<and> t \<le> 2)"

definition process_rpc_call ::
    "nat \<Rightarrow> (string \<Rightarrow> string) \<Rightarrow> (rat \<Rightarrow> string) \<Rightarrow> 'w child_env \<Rightarrow> process_rpc \<Rightarrow> pyval \<Rightarrow> pyval \<Rightarrow> nat \<Rightarrow> ('w, string) act" where
  "process_rpc_call fuel dig fr q p request timeout_v limit =
     bnd (q_now q) (\<lambda>started.
     sqn (ensure (budget_ok timeout_v \<and> 0 < limit \<and> limit \<le> RESPONSE_LIMIT) ''RPC process budget'') (
     let timeout = the (finite_num timeout_v); deadline = started + timeout in
     bnd (lft (validate_request dig fr request (pr_nonce p) (pr_digest p))) (\<lambda>raw.
     let io_deadline = deadline - min (1 / 4) (timeout / 4) in
     (\<lambda>w. case bridge_run fuel q p request raw limit io_deadline deadline (bridge_start w) of (r, s) \<Rightarrow> (r, br_world s)))))"

end
