(* ===== verification/Transport.thy ===== *)
theory Transport
  imports Rpc
begin

text \<open>
  The UTM transport (\<open>sw_i5_preparation_transport.run_transport\<close>): it adapts the pipes of
  the watchdog to bounded RPCs.  It opens the two mailbox slots, forwards one lease frame at
  a time, acknowledges only what the guest acknowledged, and reads the result once.  The
  injected RPC and clock are arguments; every RPC is counted, because the sequence number of
  its envelope is that count.
\<close>

subsection \<open>Requests\<close>

definition RPC_LIMIT :: nat where "RPC_LIMIT = 6 * MIB"
definition NATIVE_SCOPE :: string where "NATIVE_SCOPE = ''i5-preparation-native-lifecycle-transport''"

definition transport_request :: "(string \<Rightarrow> string) \<Rightarrow> pyval \<Rightarrow> pyval \<Rightarrow> string \<Rightarrow> pyval res" where
  "transport_request dig nonce manifest program =
     bindE (binding_ok nonce manifest) (\<lambda>_.
     require (0 < length program \<and> length program \<le> 48 * 1024) ''reviewed guest program size'' (
     Inr (PDict [(''schema_version'', PInt 1), (''scope'', PStr ''i5-preparation-utm-transport''), (''uuid'', PStr UUID),
       (''nonce'', nonce), (''manifest_sha256'', manifest), (''program_sha256'', PStr (hexdigest dig program)),
       (''program_base64'', PStr (b64encode program))])))"

definition native_transport_request :: "(rat \<Rightarrow> string) \<Rightarrow> pyval \<Rightarrow> pyval res" where
  "native_transport_request fr descriptor =
     require (is_dict descriptor) ''native invocation descriptor'' (
     bindE (validate_invocation_descriptor fr descriptor (get_or descriptor ''nonce'' PNone)
              (get_or descriptor ''manifest_sha256'' PNone)) (\<lambda>d.
     Inr (PDict [(''schema_version'', PInt 1), (''scope'', PStr NATIVE_SCOPE), (''uuid'', PStr UUID),
       (''nonce'', fld d ''nonce''), (''manifest_sha256'', fld d ''manifest_sha256''), (''descriptor'', d)])))"

definition validate_transport_request :: "(string \<Rightarrow> string) \<Rightarrow> (rat \<Rightarrow> string) \<Rightarrow> pyval \<Rightarrow> bool res" where
  "validate_transport_request dig fr request =
     require (is_dict request) ''transport request type'' (
     let native = (get_or request ''scope'' PNone = PStr NATIVE_SCOPE) in
     bindE
       (if native then
          bindE (check_fields request [''schema_version'', ''scope'', ''uuid'', ''nonce'', ''manifest_sha256'', ''descriptor'']) (\<lambda>_.
          native_transport_request fr (fld request ''descriptor''))
        else
          bindE (check_fields request [''schema_version'', ''scope'', ''uuid'', ''nonce'', ''manifest_sha256'',
                   ''program_sha256'', ''program_base64'']) (\<lambda>_.
          bindE (unbase64 (fld request ''program_base64'') (48 * 1024)) (\<lambda>program.
          transport_request dig (fld request ''nonce'') (fld request ''manifest_sha256'') program))) (\<lambda>expected.
     require (is_int (fld request ''schema_version'') \<and> pyeq request expected) ''transport request binding'' (Inr native)))"

definition ready_value :: "pyval \<Rightarrow> pyval \<Rightarrow> pyval \<Rightarrow> pyval" where
  "ready_value nonce digest_v delivery = PDict [(''schema_version'', PInt 1),
     (''scope'', PStr ''i5-preparation-native-lifecycle-ready''), (''uuid'', PStr UUID), (''nonce'', nonce),
     (''manifest_sha256'', digest_v), (''ready'', PBool True), (''delivery_sha256'', delivery)]"

definition validate_native_ready :: "pyval \<Rightarrow> pyval \<Rightarrow> pyval \<Rightarrow> pyval \<Rightarrow> pyval res" where
  "validate_native_ready v nonce digest_v delivery =
     require (is_dict v \<and> pyeq v (ready_value nonce digest_v delivery) \<and> is_int (fld v ''schema_version'') \<and>
              fld v ''ready'' = PBool True) ''native initialization ready binding'' (Inr v)"

subsection \<open>The attempt's state\<close>

record 'w transport =
  tr_world :: 'w
  tr_lease :: lease
  tr_calls :: nat
  tr_handles :: "(string \<times> int) list"
  tr_pending :: "int option"
  tr_previous :: int
  tr_executed :: bool
  tr_failure :: "string option"
  tr_cleanup :: "string list"

abbreviation tr :: "('w, 'a) act \<Rightarrow> ('w transport, 'a) act" where
  "tr \<equiv> zoom tr_world tr_world_update"

text \<open>What one attempt is given.\<close>

record 'w adapter =
  ad_ipc :: "'w ipc"
  ad_rpc :: "pyval \<Rightarrow> rat \<Rightarrow> nat \<Rightarrow> ('w, string) act"
  ad_clock :: "('w, rat) act"
  ad_control :: int
  ad_output :: int
  ad_ack :: int
  ad_request :: pyval
  ad_dig :: "string \<Rightarrow> string"
  ad_native :: bool

definition ad_nonce :: "'w adapter \<Rightarrow> pyval" where "ad_nonce a = fld (ad_request a) ''nonce''"
definition ad_digest :: "'w adapter \<Rightarrow> pyval" where "ad_digest a = fld (ad_request a) ''manifest_sha256''"

definition rpc_envelope :: "'w adapter \<Rightarrow> nat \<Rightarrow> string \<Rightarrow> (string \<times> pyval) list \<Rightarrow> pyval" where
  "rpc_envelope a n action args = PDict [(''schema_version'', PInt 1), (''scope'', PStr ''i5-preparation-utm-rpc''),
     (''uuid'', PStr UUID), (''nonce'', ad_nonce a), (''manifest_sha256'', ad_digest a), (''sequence'', PInt (int n)),
     (''action'', PStr action), (''args'', PDict args)]"

definition rpc_call :: "'w adapter \<Rightarrow> rat \<Rightarrow> string \<Rightarrow> (string \<times> pyval) list \<Rightarrow> ('w transport, pyval) act" where
  "rpc_call a deadline action args =
     bnd (tr (ad_clock a)) (\<lambda>t. sqn (ensure (0 < deadline - t) ''UTM transport deadline'') (
     bnd (get tr_calls) (\<lambda>n.
     let request = rpc_envelope a n action args in
     sqn (upd (\<lambda>s. s\<lparr>tr_calls := n + 1\<rparr>)) (
     bnd (tr (ad_rpc a request (min 2 (deadline - t)) RPC_LIMIT)) (\<lambda>raw.
     bnd (tr (ad_clock a)) (\<lambda>t. sqn (ensure (t < deadline) ''late UTM RPC response'') (
     bnd (lft (validate_response raw request RPC_LIMIT)) (\<lambda>v. ret (fld v ''value'')))))))))"

definition handle_of :: "string \<Rightarrow> 'w transport \<Rightarrow> int" where
  "handle_of role s = (case map_of (tr_handles s) role of None \<Rightarrow> 0 | Some h \<Rightarrow> h)"

definition read_slot :: "'w adapter \<Rightarrow> rat \<Rightarrow> string \<Rightarrow> ('w transport, string) act" where
  "read_slot a deadline role =
     bnd (get (handle_of role)) (\<lambda>h.
     bnd (rpc_call a deadline ''read'' [(''handle'', PInt h)]) (\<lambda>v. lft (unbase64 v SLOT_BYTES)))"

text \<open>The lease of the state, checked, fed and drained at the clock.\<close>

definition check_lease :: "'w adapter \<Rightarrow> ('w transport, unit) act" where
  "check_lease a = bnd (tr (ad_clock a)) (\<lambda>t. bnd (get tr_lease) (\<lambda>l. lft (lease_check l (time_value t) True)))"

definition feed_lease :: "'w adapter \<Rightarrow> string \<Rightarrow> ('w transport, unit) act" where
  "feed_lease a raw = bnd (tr (ad_clock a)) (\<lambda>t. (\<lambda>s.
     case lease_feed (tr_lease s) raw (time_value t) of (l, r) \<Rightarrow> (bindE r (\<lambda>_. Inr ()), s\<lparr>tr_lease := l\<rparr>)))"

definition control_ready :: "'w adapter \<Rightarrow> rat \<Rightarrow> ('w transport, bool) act" where
  "control_ready a wait = bnd (tr (io_readable (ad_ipc a) [ad_control a] wait)) (\<lambda>ready. ret (ready \<noteq> []))"

definition native_control :: "'w adapter \<Rightarrow> ('w transport, unit) act" where
  "native_control a =
     sqn (check_lease a) (
     bnd (control_ready a 0) (\<lambda>ready.
     if \<not> ready then ret () else
     bnd (tr (io_read (ad_ipc a) (ad_control a) MAX_FRAME)) (\<lambda>raw.
     sqn (ensure (raw \<noteq> []) ''UTM control channel closed while native initialization pending'') (
     sqn (feed_lease a raw) (lft (Inl (ValueError ''UTM renewal before native initialization acknowledgement'')))))))"

text \<open>\<open>channels.initial_lease(control_fd, lease)\<close>, on the lease of the state.\<close>

definition first_lease :: "nat \<Rightarrow> 'w adapter \<Rightarrow> ('w transport, unit) act" where
  "first_lease fuel a =
     bnd (get tr_lease) (\<lambda>l.
     bnd (tr (initial_lease fuel (ad_ipc a) (ad_control a) l (ret ()))) (\<lambda>l'.
     upd (\<lambda>s. s\<lparr>tr_lease := l'\<rparr>)))"

subsection \<open>Admission\<close>

definition process_handle :: "pyval \<Rightarrow> ('w transport, int) act" where
  "process_handle v = sqn (ensure (is_int v \<and> 0 < int_of v) ''missing UTM process handle'') (ret (int_of v))"

fun native_ready :: "nat \<Rightarrow> 'w adapter \<Rightarrow> rat \<Rightarrow> int \<Rightarrow> ('w transport, unit) act" where
  "native_ready 0 a deadline process = lft (Inl OutOfFuel)"
| "native_ready (Suc n) a deadline process =
     sqn (native_control a) (
     bnd (rpc_call a deadline ''native-ready'' [(''process'', PInt process)]) (\<lambda>ready.
     sqn (native_control a) (
     if ready \<noteq> PNone then
       sqn (lft (validate_native_ready ready (ad_nonce a) (ad_digest a)
                   (fld (fld (ad_request a) ''descriptor'') ''delivery_sha256''))) (ret ())
     else
       bnd (tr (ad_clock a)) (\<lambda>t. sqn (ensure (t < deadline) ''native initialization ready deadline'') (
       sqn (tr (io_sleep (ad_ipc a) (1 / 50))) (native_ready n a deadline process))))))"

definition native_execute :: "nat \<Rightarrow> 'w adapter \<Rightarrow> rat \<Rightarrow> ('w transport, int) act" where
  "native_execute fuel a deadline =
     sqn (first_lease fuel a) (
     sqn (upd (\<lambda>s. s\<lparr>tr_executed := True\<rparr>)) (
     bnd (rpc_call a deadline ''execute-native'' [(''descriptor'', fld (ad_request a) ''descriptor'')]) (\<lambda>v.
     bnd (process_handle v) (\<lambda>process.
     sqn (native_ready fuel a deadline process) (ret process)))))"

definition open_slot :: "'w adapter \<Rightarrow> rat \<Rightarrow> string \<Rightarrow> ('w transport, unit) act" where
  "open_slot a deadline role =
     bnd (rpc_call a deadline ''open'' [(''role'', PStr role)]) (\<lambda>v.
     bnd (get tr_handles) (\<lambda>handles.
     sqn (ensure (is_int v \<and> 0 < int_of v \<and> int_of v \<notin> set (map snd handles)) ''invalid mailbox handle'') (
     sqn (upd (\<lambda>s. s\<lparr>tr_handles := handles @ [(role, int_of v)]\<rparr>)) (
     bnd (read_slot a deadline role) (\<lambda>raw. ensure (raw = zeros SLOT_BYTES) ''UTM mailbox not fresh'')))))"

text \<open>Writing a slot and reading it back; \<open>response_checked\<close> where the code looks at the answer.\<close>

definition lease_slot :: "'w adapter \<Rightarrow> ('w transport, string) act" where
  "lease_slot a = bnd (get tr_lease) (\<lambda>l. lft (pack_slot (ad_dig a) (lease_frame l (l_sequence l) ''renew'')))"

definition write_slot :: "'w adapter \<Rightarrow> rat \<Rightarrow> bool \<Rightarrow> string \<Rightarrow> ('w transport, unit) act" where
  "write_slot a deadline response_checked slot =
     bnd (get (handle_of ''lease'')) (\<lambda>h.
     bnd (rpc_call a deadline ''write'' [(''handle'', PInt h), (''data'', PStr (b64encode slot))]) (\<lambda>v.
     sqn (ensure (response_checked \<longrightarrow> v = PNone) ''unexpected mailbox write response'') (
     bnd (read_slot a deadline ''lease'') (\<lambda>raw. ensure (raw = slot) ''UTM lease write readback''))))"

definition legacy_execute :: "'w adapter \<Rightarrow> rat \<Rightarrow> ('w transport, int) act" where
  "legacy_execute a deadline =
     sqn (upd (\<lambda>s. s\<lparr>tr_executed := True\<rparr>)) (
     bnd (rpc_call a deadline ''execute'' [(''program_base64'', fld (ad_request a) ''program_base64''),
            (''program_sha256'', fld (ad_request a) ''program_sha256'')]) (\<lambda>v. process_handle v))"

subsection \<open>The main loop\<close>

definition renewal :: "'w adapter \<Rightarrow> rat \<Rightarrow> ('w transport, unit) act" where
  "renewal a deadline =
     bnd (control_ready a 0) (\<lambda>ready.
     if \<not> ready then ret () else
     bnd (tr (io_read (ad_ipc a) (ad_control a) MAX_FRAME)) (\<lambda>raw.
     sqn (ensure (raw \<noteq> []) ''UTM control channel closed'') (
     bnd (get (\<lambda>s. l_sequence (tr_lease s))) (\<lambda>before.
     sqn (feed_lease a raw) (
     bnd (get (\<lambda>s. l_sequence (tr_lease s))) (\<lambda>now.
     bnd (get tr_pending) (\<lambda>pending.
     whenA (now \<noteq> before) (
       sqn (ensure (pending = None) ''UTM renewal before acknowledgement'') (
       sqn (upd (\<lambda>s. s\<lparr>tr_pending := Some now\<rparr>)) (
       bnd (lease_slot a) (\<lambda>slot. write_slot a deadline False slot)))))))))))"

text \<open>\<open>ack == expected and type(ack["sequence"]) is int and type(ack["schema_version"]) is int\<close>.\<close>

definition ack_bound :: "'w adapter \<Rightarrow> pyval \<Rightarrow> int \<Rightarrow> bool" where
  "ack_bound a ack sequence =
     (pyeq ack (ack_value (str_of (ad_nonce a)) (str_of (ad_digest a)) sequence) \<and> is_int (fld ack ''sequence'') \<and>
      is_int (fld ack ''schema_version''))"

definition acknowledgement :: "'w adapter \<Rightarrow> rat \<Rightarrow> ('w transport, unit) act" where
  "acknowledgement a deadline =
     bnd (get tr_pending) (\<lambda>pending. case pending of None \<Rightarrow> ret () | Some sequence \<Rightarrow>
     bnd (read_slot a deadline ''ack'') (\<lambda>raw.
     bnd (lft (unpack_slot (ad_dig a) raw)) (\<lambda>frame. case frame of None \<Rightarrow> ret () | Some f \<Rightarrow>
     bnd (lft (decode f MAX_FRAME)) (\<lambda>ack.
     sqn (ensure (is_dict ack) ''UTM guest ACK type'') (
     bnd (get tr_previous) (\<lambda>previous.
     if pyeq (get_or ack ''sequence'' PNone) (PInt previous)
     then ensure (ack_bound a ack previous) ''UTM stale ACK binding''
     else
       sqn (ensure (ack_bound a ack sequence) ''UTM guest ACK binding'') (
       sqn (tr (write_frame (ad_ipc a) (ad_ack a) f)) (
       upd (\<lambda>s. s\<lparr>tr_previous := sequence, tr_pending := None\<rparr>)))))))))"

definition exit_fields :: "string list" where
  "exit_fields = [''exited'', ''exit_code'', ''signal_code'', ''stdout_base64'', ''stderr_base64'']"

definition export_matches :: "'w adapter \<Rightarrow> pyval \<Rightarrow> unit res" where
  "export_matches a exported =
     (if ad_native a then
        require (fld exported ''scope'' = PStr NATIVE_EXPORT_SCOPE \<and>
                 pyeq (fld (fld exported ''native_lifecycle'') ''delivery_sha256'')
                      (fld (fld (ad_request a) ''descriptor'') ''delivery_sha256''))
          ''native transport export scope/delivery binding'' (Inr ())
      else require (fld exported ''scope'' = PStr EXPORT_SCOPE) ''legacy transport export scope'' (Inr ()))"

text \<open>The exit of the guest program: its raw export and the exit code that the verdict demands.\<close>

definition finished :: "'w adapter \<Rightarrow> pyval \<Rightarrow> (string \<times> int) res" where
  "finished a result =
     bindE (check_fields result exit_fields) (\<lambda>_.
     require (is_int (fld result ''exit_code'') \<and> int_of (fld result ''exit_code'') \<in> set [0, 2] \<and>
              fld result ''signal_code'' = PInt 0) ''UTM guest exit/signal'' (
     bindE (unbase64 (fld result ''stdout_base64'') EXPORT_LIMIT) (\<lambda>raw.
     bindE (unbase64 (fld result ''stderr_base64'') 65536) (\<lambda>err.
     require (err = []) ''UTM guest stderr'' (
     bindE (validate_export (hexdigest (ad_dig a)) (io_float (ad_ipc a)) raw (str_of (ad_nonce a)) (str_of (ad_digest a))) (\<lambda>exported.
     bindE (export_matches a exported) (\<lambda>_.
     let result_exit = (if truthy (fld exported ''passed'') then 0 else 2) in
     require (int_of (fld result ''exit_code'') = result_exit) ''UTM guest result/exit mismatch'' (Inr (raw, result_exit)))))))))"

fun transport_loop :: "nat \<Rightarrow> 'w adapter \<Rightarrow> rat \<Rightarrow> int \<Rightarrow> ('w transport, string \<times> int) act" where
  "transport_loop 0 a deadline process = lft (Inl OutOfFuel)"
| "transport_loop (Suc n) a deadline process =
     sqn (check_lease a) (
     sqn (renewal a deadline) (
     sqn (acknowledgement a deadline) (
     bnd (rpc_call a deadline ''result'' [(''process'', PInt process)]) (\<lambda>result.
     sqn (ensure (is_dict result \<and> is_bool (get_or result ''exited'' PNone)) ''UTM result status'') (
     if truthy (fld result ''exited'') then
       bnd (lft (finished a result)) (\<lambda>done. sqn (check_lease a) (ret done))
     else
       bnd (control_ready a (1 / 50)) (\<lambda>_. transport_loop n a deadline process))))))"

definition transport_body :: "nat \<Rightarrow> 'w adapter \<Rightarrow> rat \<Rightarrow> ('w transport, string \<times> int) act" where
  "transport_body fuel a deadline =
     bnd (rpc_call a deadline ''identify'' []) (\<lambda>identity.
     sqn (ensure (pyeq identity (PDict [(''uuid'', PStr UUID), (''status'', PStr ''started'')])) ''UTM target not started'') (
     bnd (if ad_native a then native_execute fuel a deadline else ret 0) (\<lambda>process0.
     sqn (eachA (open_slot a deadline) [''lease'', ''ack'']) (
     sqn (if ad_native a then native_control a else first_lease fuel a) (
     bnd (get (\<lambda>s. l_sequence (tr_lease s))) (\<lambda>sequence.
     sqn (upd (\<lambda>s. s\<lparr>tr_pending := Some sequence\<rparr>)) (
     bnd (lease_slot a) (\<lambda>slot.
     sqn (write_slot a deadline True slot) (
     bnd (if ad_native a then ret process0 else legacy_execute a deadline) (\<lambda>process.
     transport_loop fuel a deadline process))))))))))"

definition close_handle :: "'w adapter \<Rightarrow> rat \<Rightarrow> string \<times> int \<Rightarrow> ('w transport, unit) act" where
  "close_handle a deadline = (\<lambda>(role, h).
     handle (bnd (rpc_call a deadline ''close'' [(''handle'', PInt h)]) (\<lambda>v. ensure (v = PNone) ''unexpected close response''))
       (\<lambda>x. upd (\<lambda>s. s\<lparr>tr_cleanup := tr_cleanup s @ [role @ '': '' @ exn_str x]\<rparr>)))"

definition transport_cleanup :: "'w adapter \<Rightarrow> ('w transport, unit) act" where
  "transport_cleanup a =
     bnd (tr (ad_clock a)) (\<lambda>t. bnd (get tr_handles) (\<lambda>handles. eachA (close_handle a (t + 4)) handles))"

text \<open>
  \<open>if failure or cleanup\<close>: the text of the caught exception, when it is not empty, or a
  cleanup entry.
\<close>

definition transport_verdict :: "'w transport \<Rightarrow> unit res" where
  "transport_verdict s =
     (let failure = (case tr_failure s of None \<Rightarrow> [] | Some m \<Rightarrow> m) in
      require (failure = [] \<and> tr_cleanup s = [])
        (''UTM preparation transport: '' @ (if failure = [] then ''close failed'' else failure) @ ''; executed='' @
         (if tr_executed s then ''True'' else ''False'') @ ''; cleanup='' @ repr_strs (tr_cleanup s)) (Inr ()))"

definition transport_run :: "nat \<Rightarrow> 'w adapter \<Rightarrow> rat \<Rightarrow> ('w transport, int) act" where
  "transport_run fuel a deadline =
     bnd (try_finally
            (handle (bnd (transport_body fuel a deadline) (\<lambda>d. ret (Some d)))
               (\<lambda>x. sqn (upd (\<lambda>s. s\<lparr>tr_failure := Some (exn_str x)\<rparr>)) (ret None)))
            (transport_cleanup a)) (\<lambda>done.
     bnd (\<lambda>s. (transport_verdict s, s)) (\<lambda>_.
     bnd (tr (io_now (ad_ipc a))) (\<lambda>t.
     case done of None \<Rightarrow> lft (Inl (ValueError ''channel output limit''))
     | Some (raw, result_exit) \<Rightarrow>
         sqn (tr (write_bounded fuel (ad_ipc a) (ad_output a) raw (t + 2) (ret ()))) (ret result_exit))))"

definition transport_start :: "lease \<Rightarrow> 'w \<Rightarrow> 'w transport" where
  "transport_start l w = \<lparr> tr_world = w, tr_lease = l, tr_calls = 0, tr_handles = [], tr_pending = None, tr_previous = -1,
     tr_executed = False, tr_failure = None, tr_cleanup = [] \<rparr>"

definition run_transport :: "nat \<Rightarrow> 'w adapter \<Rightarrow> pyval \<Rightarrow> ('w, int) act" where
  "run_transport fuel a0 total_v =
     bnd (lft (validate_transport_request (ad_dig a0) (io_float (ad_ipc a0)) (ad_request a0))) (\<lambda>native.
     sqn (ensure (case finite_num total_v of None \<Rightarrow> False | Some t \<Rightarrow> 0 < t \<and> t \<le> 600) ''transport work budget'') (
     let a = a0\<lparr>ad_native := native\<rparr> in
     bnd (ad_clock a) (\<lambda>t.
     let deadline = t + the (finite_num total_v) in
     bnd (ad_clock a) (\<lambda>t0.
     bnd (lft (lease_init (ad_nonce a) (ad_digest a) (time_value t0) (PFloat (Fin GUEST_SECONDS)) (PFloat (Fin LEASE_SECONDS)) (PStr ''guest''))) (\<lambda>l.
     (\<lambda>w. case transport_run fuel a deadline (transport_start l w) of (r, s) \<Rightarrow> (r, tr_world s)))))))"

end
