(* ===== verification/TransportProps.thy ===== *)
theory TransportProps
  imports Transport
begin

text \<open>
  What the transport sends to the guest: every RPC of an attempt carries its binding and the
  next sequence number, and at most one of them starts a guest process, on every path,
  failures and cleanup included.
\<close>

subsection \<open>A recorded attempt\<close>

text \<open>\<open>log\<close> observes the requests of a world: an RPC adds its request, nothing else does.\<close>

definition silent :: "('w \<Rightarrow> pyval list) \<Rightarrow> ('w, 'a) act \<Rightarrow> bool" where
  "silent logged m = keeps (\<lambda>w w'. logged w = logged w') m"

definition recording :: "('w \<Rightarrow> pyval list) \<Rightarrow> 'w adapter \<Rightarrow> bool" where
  "recording logged a =
     ((\<forall>r t n w. logged (snd (ad_rpc a r t n w)) = logged w @ [r]) \<and> silent logged (ad_clock a) \<and>
      silent logged (io_now (ad_ipc a)) \<and> (\<forall>d. silent logged (io_sleep (ad_ipc a) d)) \<and>
      (\<forall>fd. silent logged (io_nonblocking (ad_ipc a) fd)) \<and> (\<forall>fds d. silent logged (io_readable (ad_ipc a) fds d)) \<and>
      (\<forall>fd d. silent logged (io_writable (ad_ipc a) fd d)) \<and> (\<forall>fd n. silent logged (io_read (ad_ipc a) fd n)) \<and>
      (\<forall>fd raw. silent logged (io_write (ad_ipc a) fd raw)))"

definition starts :: "pyval \<Rightarrow> bool" where
  "starts r = (fld r ''action'' \<in> set [PStr ''execute'', PStr ''execute-native''])"

definition in_order :: "'w adapter \<Rightarrow> pyval list \<Rightarrow> bool" where
  "in_order a rs = (map (\<lambda>r. fld r ''sequence'') rs = map (\<lambda>n. PInt (int n)) [0..<length rs] \<and>
     list_all (\<lambda>r. fld r ''nonce'' = ad_nonce a \<and> fld r ''manifest_sha256'' = ad_digest a) rs)"

definition started_count :: "('w \<Rightarrow> pyval list) \<Rightarrow> 'w transport \<Rightarrow> nat" where
  "started_count logged s = length (filter starts (logged (tr_world s)))"

text \<open>The requests after the base \<open>b\<close> are in order and counted.\<close>

definition ordered_log :: "('w \<Rightarrow> pyval list) \<Rightarrow> 'w adapter \<Rightarrow> pyval list \<Rightarrow> 'w transport \<Rightarrow> bool" where
  "ordered_log logged a b s = (\<exists>rs. logged (tr_world s) = b @ rs \<and> in_order a rs \<and> tr_calls s = length rs)"

text \<open>A part that starts nothing, and one that starts at most one process.\<close>

definition calm_step :: "('w \<Rightarrow> pyval list) \<Rightarrow> 'w adapter \<Rightarrow> pyval list \<Rightarrow> 'w transport \<Rightarrow> 'w transport \<Rightarrow> bool" where
  "calm_step logged a b s t =
     ((ordered_log logged a b s \<longrightarrow> ordered_log logged a b t) \<and> started_count logged t = started_count logged s)"

definition once :: "('w \<Rightarrow> pyval list) \<Rightarrow> 'w adapter \<Rightarrow> pyval list \<Rightarrow> ('w transport, 'a) act \<Rightarrow> bool" where
  "once logged a b m = (\<forall>s. (ordered_log logged a b s \<longrightarrow> ordered_log logged a b (snd (m s))) \<and>
     started_count logged (snd (m s)) \<le> Suc (started_count logged s))"

interpretation calm: state_order "calm_step logged a b" for logged a b
  by unfold_locales (auto simp: calm_step_def)

lemma calm_once: "keeps (calm_step logged a b) m \<Longrightarrow> once logged a b m"
  by (auto simp: keeps_def once_def calm_step_def)

lemma once_after:
  assumes "keeps (calm_step logged a b) m" and "\<And>x. once logged a b (f x)"
  shows "once logged a b (bnd m f)"
  unfolding once_def
proof
  fix s
  obtain r t where m: "m s = (r, t)" by (cases "m s")
  from keepsD [OF assms(1) m] have t: "ordered_log logged a b s \<longrightarrow> ordered_log logged a b t"
    "started_count logged t = started_count logged s" by (simp_all add: calm_step_def)
  show "(ordered_log logged a b s \<longrightarrow> ordered_log logged a b (snd (bnd m f s))) \<and>
      started_count logged (snd (bnd m f s)) \<le> Suc (started_count logged s)"
  proof (cases r)
    case (Inl e)
    with m t show ?thesis by simp
  next
    case (Inr x)
    have "(ordered_log logged a b t \<longrightarrow> ordered_log logged a b (snd (f x t))) \<and>
        started_count logged (snd (f x t)) \<le> Suc (started_count logged t)"
      using assms(2) [of x] by (simp add: once_def)
    with m t Inr show ?thesis by simp
  qed
qed

lemma once_before:
  assumes "once logged a b m" and "\<And>x. keeps (calm_step logged a b) (f x)"
  shows "once logged a b (bnd m f)"
  unfolding once_def
proof
  fix s
  obtain r t where m: "m s = (r, t)" by (cases "m s")
  with assms(1) have t: "ordered_log logged a b s \<longrightarrow> ordered_log logged a b t" "started_count logged t \<le> Suc (started_count logged s)"
    unfolding once_def by (metis snd_conv)+
  show "(ordered_log logged a b s \<longrightarrow> ordered_log logged a b (snd (bnd m f s))) \<and>
      started_count logged (snd (bnd m f s)) \<le> Suc (started_count logged s)"
  proof (cases r)
    case (Inl e)
    with m t show ?thesis by simp
  next
    case (Inr x)
    have "calm_step logged a b t (snd (f x t))" using assms(2) [of x] by (simp add: keeps_def)
    with m t Inr show ?thesis by (simp add: calm_step_def)
  qed
qed

lemma once_after_sqn: "keeps (calm_step logged a b) m \<Longrightarrow> once logged a b k \<Longrightarrow> once logged a b (sqn m k)"
  unfolding sqn_def by (rule once_after)

lemma once_before_sqn: "once logged a b m \<Longrightarrow> keeps (calm_step logged a b) k \<Longrightarrow> once logged a b (sqn m k)"
  unfolding sqn_def by (rule once_before)

subsection \<open>The parts\<close>

lemma calm_tr: "silent logged m \<Longrightarrow> keeps (calm_step logged a b) (tr m)"
  by (auto simp: keeps_def silent_def zoom_def calm_step_def ordered_log_def started_count_def split: prod.splits)
    (metis snd_conv)+

lemma calm_upd: "(\<And>s. tr_world (f s) = tr_world s \<and> tr_calls (f s) = tr_calls s) \<Longrightarrow> keeps (calm_step logged a b) (upd f)"
  by (auto simp: keeps_def upd_def calm_step_def ordered_log_def started_count_def)

lemma recordingD:
  assumes "recording logged a"
  shows "logged (snd (ad_rpc a r t n w)) = logged w @ [r]" "silent logged (ad_clock a)" "silent logged (io_now (ad_ipc a))"
    "silent logged (io_sleep (ad_ipc a) d)" "silent logged (io_nonblocking (ad_ipc a) fd)"
    "silent logged (io_readable (ad_ipc a) fds d)" "silent logged (io_writable (ad_ipc a) fd d)"
    "silent logged (io_read (ad_ipc a) fd m)" "silent logged (io_write (ad_ipc a) fd raw)"
  using assms by (simp_all add: recording_def)

text \<open>One RPC appends the next envelope; it starts a process only with an execute action.\<close>

lemma envelope_fields:
  "fld (rpc_envelope a n action args) ''sequence'' = PInt (int n)"
  "fld (rpc_envelope a n action args) ''nonce'' = ad_nonce a"
  "fld (rpc_envelope a n action args) ''manifest_sha256'' = ad_digest a"
  "starts (rpc_envelope a n action args) \<longleftrightarrow> action = ''execute'' \<or> action = ''execute-native''"
  by (auto simp: rpc_envelope_def starts_def)

lemma in_order_snoc: "in_order a rs \<Longrightarrow> in_order a (rs @ [rpc_envelope a (length rs) action args])"
  by (simp add: in_order_def envelope_fields)

lemma tr_snd: "tr_world (snd (tr m s)) = snd (m (tr_world s))" "tr_calls (snd (tr m s)) = tr_calls s"
  by (simp_all add: zoom_def split: prod.split)

text \<open>The state after the call of the code itself, before its answer is looked at.\<close>

definition sent_state :: "'w adapter \<Rightarrow> rat \<Rightarrow> string \<Rightarrow> (string \<times> pyval) list \<Rightarrow> 'w transport \<Rightarrow> string res \<times> 'w transport" where
  "sent_state a d action args s =
     tr (ad_rpc a (rpc_envelope a (tr_calls s) action args) d RPC_LIMIT) (s\<lparr>tr_calls := tr_calls s + 1\<rparr>)"

lemma sent_step:
  assumes "recording logged a"
  shows "ordered_log logged a b s \<Longrightarrow> ordered_log logged a b (snd (sent_state a d action args s))"
    and "started_count logged (snd (sent_state a d action args s)) =
      started_count logged s + (if action = ''execute'' \<or> action = ''execute-native'' then 1 else 0)"
proof -
  let ?r = "rpc_envelope a (tr_calls s) action args" and ?t = "snd (sent_state a d action args s)"
  have l: "logged (tr_world ?t) = logged (tr_world s) @ [?r]" "tr_calls ?t = tr_calls s + 1"
    by (simp_all add: sent_state_def tr_snd recordingD(1) [OF assms])
  show "started_count logged ?t = started_count logged s + (if action = ''execute'' \<or> action = ''execute-native'' then 1 else 0)"
    by (simp add: started_count_def l envelope_fields)
  assume "ordered_log logged a b s"
  then obtain rs where "logged (tr_world s) = b @ rs" "in_order a rs" "tr_calls s = length rs" by (auto simp: ordered_log_def)
  with l in_order_snoc [of a rs action args] show "ordered_log logged a b ?t"
    unfolding ordered_log_def by (intro exI [of _ "rs @ [?r]"]) simp
qed

lemma rpc_call_run:
  "rpc_call a deadline action args =
     bnd (tr (ad_clock a)) (\<lambda>t. sqn (ensure (0 < deadline - t) ''UTM transport deadline'') (\<lambda>s.
     bnd (sent_state a (min 2 (deadline - t)) action args) (\<lambda>raw.
       bnd (tr (ad_clock a)) (\<lambda>t'. sqn (ensure (t' < deadline) ''late UTM RPC response'') (
       bnd (lft (validate_response raw (rpc_envelope a (tr_calls s) action args) RPC_LIMIT)) (\<lambda>v. ret (fld v ''value''))))) s))"
  unfolding rpc_call_def Let_def
  by (intro arg_cong2 [where f = bnd] refl ext) (simp add: bnd_def sqn_def get_def upd_def sent_state_def split: prod.splits sum.splits)

lemma calm_bnd_state:
  assumes "\<And>s. calm_step logged a b s (snd (m s))" and "\<And>x s. keeps (calm_step logged a b) (f s x)"
  shows "keeps (calm_step logged a b) (\<lambda>s. bnd m (f s) s)"
  unfolding keeps_def
proof
  fix s
  have "keeps (calm_step logged a b) (bnd m (f s))"
    using assms by (intro calm.keeps_intros) (simp_all add: keeps_def)
  then show "calm_step logged a b s (snd (bnd m (f s) s))" by (simp add: keeps_def)
qed

lemma calm_sent:
  "recording logged a \<Longrightarrow> action \<noteq> ''execute'' \<Longrightarrow> action \<noteq> ''execute-native'' \<Longrightarrow>
     calm_step logged a b s (snd (sent_state a d action args s))"
  using sent_step(1) [of logged a b s d action args] sent_step(2) [of logged a d action args s] by (simp add: calm_step_def)

lemma calm_rpc_call:
  assumes "recording logged a" and "action \<noteq> ''execute''" and "action \<noteq> ''execute-native''"
  shows "keeps (calm_step logged a b) (rpc_call a deadline action args)"
  unfolding rpc_call_run
  by (intro calm.keeps_intros calm_tr recordingD [OF assms(1)] calm_bnd_state calm_sent assms)

lemma once_sent: "recording logged a \<Longrightarrow> once logged a b (sent_state a d action args)"
  using sent_step(1) [of logged a b _ d action args] sent_step(2) [of logged a d action args] by (simp add: once_def)

lemma once_bnd_state:
  assumes "once logged a b m" and "\<And>x s. keeps (calm_step logged a b) (f s x)"
  shows "once logged a b (\<lambda>s. bnd m (f s) s)"
proof -
  have "once logged a b (bnd m (f s))" for s using assms by (intro once_before)
  then show ?thesis by (simp add: once_def)
qed

lemma once_rpc_call:
  assumes "recording logged a"
  shows "once logged a b (rpc_call a deadline action args)"
  unfolding rpc_call_run
  by (intro once_after [OF calm_tr] once_after_sqn [OF calm.keeps_ensure] once_bnd_state once_sent calm.keeps_intros calm_tr
      recordingD [OF assms] assms)

subsection \<open>The channels are silent\<close>

lemma silent_write_frame:
  assumes "recording logged a"
  shows "silent logged (write_frame (ad_ipc a) fd raw)"
  using recordingD [OF assms] unfolding silent_def write_frame_def by (intro same.keeps_intros) simp_all

lemma silent_write_loop:
  assumes "recording logged a"
  shows "silent logged (write_loop fuel (ad_ipc a) fd raw deadline (ret ()))"
  using recordingD [OF assms] unfolding silent_def
  by (induction fuel arbitrary: raw)
    (auto intro!: same.keeps_intros same.keeps_if same.keeps_option simp: handle_if_def split del: if_split)

lemma silent_initial_lease:
  assumes "recording logged a"
  shows "silent logged (initial_lease fuel (ad_ipc a) fd l (ret ()))"
  using recordingD [OF assms] unfolding silent_def
  by (induction fuel arbitrary: l)
    (auto intro!: same.keeps_intros same.keeps_if same.keeps_prod split del: if_split)

lemma silent_write_bounded:
  assumes "recording logged a"
  shows "silent logged (write_bounded fuel (ad_ipc a) fd raw deadline (ret ()))"
  using recordingD [OF assms] silent_write_loop [OF assms] unfolding silent_def write_bounded_def
  by (intro same.keeps_intros) simp_all

subsection \<open>The parts of an attempt\<close>

lemma calm_feed_lease:
  assumes "recording logged a"
  shows "keeps (calm_step logged a b) (feed_lease a raw)"
proof -
  have "keeps (calm_step logged a b) (\<lambda>s. case lease_feed (tr_lease s) raw (time_value t) of (l, r) \<Rightarrow> (bindE r (\<lambda>_. Inr ()), s\<lparr>tr_lease := l\<rparr>))" for t
    by (auto simp: keeps_def calm_step_def ordered_log_def started_count_def split: prod.split)
  then show ?thesis unfolding feed_lease_def by (intro calm.keeps_bnd calm_tr recordingD [OF assms])
qed

lemmas calm_intros = calm.keeps_intros calm.keeps_if calm.keeps_option calm_tr

lemma calm_read_slot: "recording logged a \<Longrightarrow> keeps (calm_step logged a b) (read_slot a deadline role)"
  unfolding read_slot_def by (intro calm_intros calm_rpc_call) simp_all

lemma calm_control_ready: "recording logged a \<Longrightarrow> keeps (calm_step logged a b) (control_ready a wait)"
  unfolding control_ready_def by (intro calm_intros recordingD)

lemma calm_check_lease: "recording logged a \<Longrightarrow> keeps (calm_step logged a b) (check_lease a)"
  unfolding check_lease_def by (intro calm_intros recordingD)

lemma calm_native_control: "recording logged a \<Longrightarrow> keeps (calm_step logged a b) (native_control a)"
  unfolding native_control_def by (intro calm_intros recordingD calm_check_lease calm_control_ready calm_feed_lease)

lemma calm_first_lease: "recording logged a \<Longrightarrow> keeps (calm_step logged a b) (first_lease fuel a)"
  unfolding first_lease_def by (intro calm_intros silent_initial_lease calm_upd) simp_all

lemma calm_native_ready: "recording logged a \<Longrightarrow> keeps (calm_step logged a b) (native_ready fuel a deadline process)"
  by (induction fuel)
    (auto intro!: calm_intros calm_native_control calm_rpc_call recordingD split del: if_split)

lemma calm_open_slot: "recording logged a \<Longrightarrow> keeps (calm_step logged a b) (open_slot a deadline role)"
  unfolding open_slot_def by (intro calm_intros calm_rpc_call calm_upd calm_read_slot) simp_all

lemma calm_lease_slot: "keeps (calm_step logged a b) (lease_slot a)"
  unfolding lease_slot_def by (intro calm_intros)

lemma calm_write_slot: "recording logged a \<Longrightarrow> keeps (calm_step logged a b) (write_slot a deadline checked slot)"
  unfolding write_slot_def by (intro calm_intros calm_rpc_call calm_read_slot) simp_all

lemma calm_renewal: "recording logged a \<Longrightarrow> keeps (calm_step logged a b) (renewal a deadline)"
  unfolding renewal_def
  by (intro calm_intros calm_control_ready recordingD calm_feed_lease calm_upd calm_lease_slot calm_write_slot) simp_all

lemma calm_acknowledgement: "recording logged a \<Longrightarrow> keeps (calm_step logged a b) (acknowledgement a deadline)"
  unfolding acknowledgement_def
  by (intro calm_intros calm_read_slot silent_write_frame calm_upd) simp_all

lemma calm_transport_loop: "recording logged a \<Longrightarrow> keeps (calm_step logged a b) (transport_loop fuel a deadline process)"
  by (induction fuel)
    (auto intro!: calm_intros calm_check_lease calm_renewal calm_acknowledgement calm_rpc_call calm_control_ready split del: if_split)

lemma calm_cleanup: "recording logged a \<Longrightarrow> keeps (calm_step logged a b) (transport_cleanup a)"
  unfolding transport_cleanup_def close_handle_def
  by (intro calm_intros recordingD calm.keeps_prod calm_rpc_call calm_upd) simp_all

lemma once_native_execute: "recording logged a \<Longrightarrow> once logged a b (native_execute fuel a deadline)"
  unfolding native_execute_def process_handle_def
  by (intro once_after_sqn [OF calm_first_lease] once_after_sqn [OF calm_upd] once_before [OF once_rpc_call] calm_intros calm_native_ready) simp_all

lemma once_legacy_execute: "recording logged a \<Longrightarrow> once logged a b (legacy_execute a deadline)"
  unfolding legacy_execute_def process_handle_def
  by (intro once_after_sqn [OF calm_upd] once_before [OF once_rpc_call] calm_intros) simp_all

lemma once_body:
  assumes "recording logged a"
  shows "once logged a b (transport_body fuel a deadline)"
proof (cases "ad_native a")
  case True
  show ?thesis
    unfolding transport_body_def if_P [OF True]
    by (intro once_after [OF calm_rpc_call [OF assms]] once_after_sqn [OF calm.keeps_ensure] once_before [OF once_native_execute]
        calm_intros calm_open_slot calm_native_control calm_upd calm_lease_slot calm_write_slot calm_transport_loop assms) simp_all
next
  case False
  show ?thesis
    unfolding transport_body_def if_not_P [OF False]
    by (intro once_after [OF calm_rpc_call [OF assms]] once_after_sqn [OF calm.keeps_ensure] once_after [OF calm.keeps_ret]
        once_after_sqn [OF calm.keeps_eachA] once_after_sqn [OF calm_first_lease] once_after [OF calm.keeps_get]
        once_after_sqn [OF calm_upd] once_after [OF calm_lease_slot] once_after_sqn [OF calm_write_slot] once_before [OF once_legacy_execute]
        calm_open_slot calm_transport_loop assms) simp_all
qed

lemma once_handle:
  assumes "once logged a b m" and "\<And>e. keeps (calm_step logged a b) (h e)"
  shows "once logged a b (handle m h)"
  unfolding once_def
proof
  fix s
  obtain r t where m: "m s = (r, t)" by (cases "m s")
  with assms(1) have t: "ordered_log logged a b s \<longrightarrow> ordered_log logged a b t" "started_count logged t \<le> Suc (started_count logged s)"
    unfolding once_def by (metis snd_conv)+
  have "calm_step logged a b t (snd (h e t))" for e using assms(2) [of e] by (simp add: keeps_def)
  with m t show "(ordered_log logged a b s \<longrightarrow> ordered_log logged a b (snd (handle m h s))) \<and>
      started_count logged (snd (handle m h s)) \<le> Suc (started_count logged s)"
    by (cases r) (auto simp: handle_def calm_step_def)
qed

lemma once_try_finally:
  assumes "once logged a b m" and "keeps (calm_step logged a b) k"
  shows "once logged a b (try_finally m k)"
  unfolding once_def
proof
  fix s
  obtain r t where m: "m s = (r, t)" by (cases "m s")
  obtain q u where k: "k t = (q, u)" by (cases "k t")
  from m assms(1) have t: "ordered_log logged a b s \<longrightarrow> ordered_log logged a b t" "started_count logged t \<le> Suc (started_count logged s)"
    unfolding once_def by (metis snd_conv)+
  from keepsD [OF assms(2) k] m k t show "(ordered_log logged a b s \<longrightarrow> ordered_log logged a b (snd (try_finally m k s))) \<and>
      started_count logged (snd (try_finally m k s)) \<le> Suc (started_count logged s)"
    by (cases q) (auto simp: try_finally_def calm_step_def)
qed

lemma once_transport_run:
  assumes "recording logged a"
  shows "once logged a b (transport_run fuel a deadline)"
proof -
  have verdict: "keeps (calm_step logged a b) (\<lambda>s. (transport_verdict s, s))"
    by (simp add: keeps_def calm_step_def)
  show ?thesis
    unfolding transport_run_def
    by (intro once_before [OF once_try_finally [OF once_handle]] once_before [OF once_body] calm_cleanup calm_intros verdict
        recordingD silent_write_bounded calm_upd calm.keeps_prod assms) simp_all
qed

text \<open>
  C17: At most one start.  For every behaviour of the RPC peer, the clock and the pipes, the
  requests that one attempt of the transport issues are numbered 0, 1, 2, ... without gap or
  repetition, all carry the nonce and the manifest digest of the attempt, and at most one of
  them starts a process in the guest: nothing is retried, on failure paths and in the
  cleanup included.
\<close>

theorem transport_requests:
  assumes "recording logged a"
  shows "case run_transport fuel a total_v w of (_, w') \<Rightarrow>
     (\<exists>rs. logged w' = logged w @ rs \<and> in_order a rs \<and> length (filter starts rs) \<le> 1)"
proof -
  obtain r w' where run: "run_transport fuel a total_v w = (r, w')" by (cases "run_transport fuel a total_v w")
  have rec: "recording logged (a\<lparr>ad_native := n\<rparr>)" and ord: "in_order (a\<lparr>ad_native := n\<rparr>) = in_order a" for n
    using assms by (auto simp: recording_def in_order_def ad_nonce_def ad_digest_def fun_eq_iff)
  define good where "good u = (\<exists>rs. logged u = logged w @ rs \<and> in_order a rs \<and> length (filter starts rs) \<le> 1)" for u
  have none: "good u" if "logged u = logged w" for u
    using that unfolding good_def by (intro exI [of _ "[]"]) (simp add: in_order_def)
  have some: "good (tr_world (snd (transport_run fuel (a\<lparr>ad_native := n\<rparr>) deadline (transport_start l u))))"
    if "logged u = logged w" for n deadline l u
  proof -
    let ?s = "transport_start l u"
    have "ordered_log logged (a\<lparr>ad_native := n\<rparr>) (logged w) ?s"
      using that by (simp add: ordered_log_def transport_start_def in_order_def)
    with once_transport_run [OF rec [of n], where b = "logged w" and fuel = fuel and deadline = deadline]
    have "ordered_log logged (a\<lparr>ad_native := n\<rparr>) (logged w) (snd (transport_run fuel (a\<lparr>ad_native := n\<rparr>) deadline ?s))"
      "started_count logged (snd (transport_run fuel (a\<lparr>ad_native := n\<rparr>) deadline ?s)) \<le> Suc (started_count logged ?s)"
      by (simp_all add: once_def)
    then obtain rs where rs: "logged (tr_world (snd (transport_run fuel (a\<lparr>ad_native := n\<rparr>) deadline ?s))) = logged w @ rs"
      "in_order a rs" and "length (filter starts (logged w @ rs)) \<le> Suc (length (filter starts (logged u)))"
      by (auto simp: ordered_log_def ord started_count_def transport_start_def)
    with that show ?thesis by (auto simp: good_def)
  qed
  have clk: "logged v = logged u" if "ad_clock a u = (q, v)" for u q v
    using keepsD [OF recordingD(2) [OF assms, unfolded silent_def] that] by simp
  have "good w'"
    using run by (cases r) (auto simp: run_transport_def act_simps Let_def case_prod_unfold intro: none some dest!: clk)
  then show ?thesis using run by (simp add: good_def)
qed

text \<open>A peer that never answers, on a world that is the list of its requests.\<close>

definition mute_ipc :: "pyval list ipc" where
  "mute_ipc = \<lparr> io_now = ret 0, io_sleep = (\<lambda>_. ret ()), io_nonblocking = (\<lambda>_. ret ()), io_readable = (\<lambda>_ _. ret []),
     io_writable = (\<lambda>_ _. ret True), io_read = (\<lambda>_ _. ret []), io_write = (\<lambda>_ raw. ret (length raw)), io_close = (\<lambda>_. ret ()),
     io_closerange = (\<lambda>_ _. ret ()), io_open_max = ret 256, io_pipe = ret (3, 4), io_fork = ret 7, io_detach = ret (),
     io_waitpid = (\<lambda>_. ret (Some 0)), io_kill = (\<lambda>_ _. ret ()), io_killpg = (\<lambda>_ _. ret ()), io_float = (\<lambda>_. []) \<rparr>"

definition mute_adapter :: "pyval list adapter" where
  "mute_adapter = \<lparr> ad_ipc = mute_ipc, ad_rpc = (\<lambda>r _ _ w. (Inl (ValueError ''no answer''), w @ [r])), ad_clock = ret 0,
     ad_control = 3, ad_output = 4, ad_ack = 5, ad_request = PDict [(''nonce'', PStr demo_nonce), (''manifest_sha256'', PStr demo_manifest)],
     ad_dig = (\<lambda>_. replicate 32 (CHR ''x'')), ad_native = False \<rparr>"

lemma mute_recording: "recording (\<lambda>w. w) mute_adapter"
  by (simp add: recording_def mute_adapter_def mute_ipc_def silent_def same.keeps_ret)

theorem transport_requests_witness:
  "case run_transport 5 mute_adapter (PInt 60) [] of (_, w') \<Rightarrow>
     (\<exists>rs. w' = [] @ rs \<and> in_order mute_adapter rs \<and> length (filter starts rs) \<le> 1)"
  by (rule transport_requests [OF mute_recording])

end
