(* ===== verification/Worker.thy ===== *)
theory Worker
  imports Supervise Export Mailbox
begin

text \<open>
  The process wiring around the supervisor (\<open>sw_i5_preparation_supervisor.py\<close>): the
  blocked worker \<open>ForkWorker\<close>, the reaper, and \<open>fork_supervisor\<close> with its two sides, the
  child that supervises and the parent that admits it.  \<open>os.fork\<close> gives the parent's pid;
  what a child runs until its \<open>os._exit\<close> is a definition of its own, whose value is the
  exit status.
\<close>

subsection \<open>Process calls\<close>

record 'w proc = "'w ipc" +
  io_dup :: "int \<Rightarrow> ('w, int) act"
  io_default_signals :: "('w, unit) act"
  io_getpid :: "('w, int) act"
  io_getppid :: "('w, int) act"
  io_waitpid_any :: "('w, (int \<times> int) option) act"

text \<open>\<open>s.encode("utf-8")\<close> of a text with code points below 256.\<close>

definition utf8_encode :: "string \<Rightarrow> string" where
  "utf8_encode s = concat (map (\<lambda>c. if code c < 128 then [c]
     else [char_of (192 + code c div 64), char_of (128 + code c mod 64)]) s)"

definition diagnostic :: "exn \<Rightarrow> string" where
  "diagnostic x = take 480 (utf8_encode (exn_name x @ '': '' @ exn_str x))"

text \<open>\<open>code if type(code) is int and 0 <= code <= 255 else 2\<close>.\<close>

definition exit_status :: "pyval \<Rightarrow> int" where
  "exit_status v = (if is_int v \<and> 0 \<le> int_of v \<and> int_of v \<le> 255 then int_of v else 2)"

subsection \<open>The blocked worker\<close>

record worker =
  wk_pid :: "int option"
  wk_release :: "int option"
  wk_ready :: "int option"
  wk_admission :: "int option"
  wk_code :: "int option"

definition worker_init :: worker where
  "worker_init = \<lparr> wk_pid = None, wk_release = None, wk_ready = None, wk_admission = None, wk_code = None \<rparr>"

record 'w forked =
  fw_world :: 'w
  fw_worker :: worker
  fw_lease :: lease

abbreviation fw :: "('w, 'a) act \<Rightarrow> ('w forked, 'a) act" where
  "fw \<equiv> zoom fw_world fw_world_update"

definition set_worker :: "(worker \<Rightarrow> worker) \<Rightarrow> ('w forked, unit) act" where
  "set_worker f = upd (\<lambda>s. s\<lparr>fw_worker := f (fw_worker s)\<rparr>)"

definition fd_of :: "int option \<Rightarrow> ('s, int) act" where
  "fd_of x = (case x of None \<Rightarrow> lft (Inl (TypeError ''an integer is required'')) | Some fd \<Rightarrow> ret fd)"

text \<open>The two halves of the child's life; a failure of the first is reported on the ready pipe.\<close>

definition worker_setup :: "'w proc \<Rightarrow> ('w, unit) act \<Rightarrow> int \<Rightarrow> int \<Rightarrow> int \<Rightarrow> int \<Rightarrow> ('w, unit) act" where
  "worker_setup e prepare read_fd write_fd ready_read ready_write =
     sqn (io_close e write_fd) (
     sqn (io_close e ready_read) (
     sqn (io_default_signals e) (
     bnd (io_open_max e) (\<lambda>m.
     bnd (foldA (\<lambda>first fd. sqn (io_closerange e first fd) (ret (fd + 1))) 3 (sort [read_fd, ready_write])) (\<lambda>first.
     sqn (io_closerange e first m) (
     bnd (io_read e read_fd 1) (\<lambda>permit. sqn (ensure (permit = ''S'') ''worker setup admission cancelled'') (
     sqn prepare (
     bnd (io_write e ready_write ''P'') (\<lambda>n. sqn (ensure (n = 1) ''worker setup acknowledgement'') (
     io_close e ready_write)))))))))))"

definition worker_tool :: "'w proc \<Rightarrow> ('w, pyval) act \<Rightarrow> int \<Rightarrow> ('w, int) act" where
  "worker_tool e work read_fd =
     bnd (io_read e read_fd 1) (\<lambda>permit. sqn (ensure (permit = ''G'') ''worker tool admission cancelled'') (
     sqn (io_close e read_fd) (
     bnd work (\<lambda>v. ret (exit_status v)))))"

definition worker_failed :: "'w proc \<Rightarrow> int \<Rightarrow> string \<Rightarrow> exn \<Rightarrow> ('w, int) act" where
  "worker_failed e fd mark x =
     sqn (handle_if is_oserror (bnd (io_write e fd (mark @ diagnostic x)) (\<lambda>_. ret ())) (\<lambda>_. ret ())) (ret 2)"

definition worker_child ::
    "'w proc \<Rightarrow> ('w, unit) act \<Rightarrow> ('w, pyval) act \<Rightarrow> int \<Rightarrow> int \<Rightarrow> int \<Rightarrow> int \<Rightarrow> ('w, int) act" where
  "worker_child e prepare work read_fd write_fd ready_read ready_write =
     bnd (trial (worker_setup e prepare read_fd write_fd ready_read ready_write)) (\<lambda>r. case r of
       Inl x \<Rightarrow> worker_failed e ready_write ''E'' x
     | Inr _ \<Rightarrow> bnd (trial (worker_tool e work read_fd)) (\<lambda>r. case r of
         Inl x \<Rightarrow> worker_failed e 2 [] x
       | Inr status \<Rightarrow> ret status))"

definition spawn :: "'w proc \<Rightarrow> ('w forked, int) act" where
  "spawn e =
     bnd (fw (io_pipe e)) (\<lambda>(read_fd, write_fd).
     bnd (fw (io_pipe e)) (\<lambda>(ready_read, ready_write).
     bnd (on_error (fw (io_fork e)) (eachA (\<lambda>fd. fw (io_close e fd)) [read_fd, write_fd, ready_read, ready_write])) (\<lambda>pid.
     sqn (fw (io_close e read_fd)) (
     sqn (fw (io_close e ready_write)) (
     sqn (set_worker (\<lambda>w. w\<lparr>wk_pid := Some pid, wk_release := Some write_fd, wk_ready := Some ready_read,
                            wk_admission := Some read_fd\<rparr>)) (ret pid))))))"

definition admit_setup :: "'w proc \<Rightarrow> ('w forked, unit) act" where
  "admit_setup e = bnd (get (wk_release \<circ> fw_worker)) (\<lambda>x. bnd (fd_of x) (\<lambda>fd.
     bnd (fw (io_write e fd ''S'')) (\<lambda>n. ensure (n = 1) ''setup admission short write'')))"

text \<open>The message repeats the bytes read; undecodable ones are not replaced here.\<close>

definition ready :: "'w proc \<Rightarrow> ('w forked, bool) act" where
  "ready e = bnd (get (wk_ready \<circ> fw_worker)) (\<lambda>x. bnd (fd_of x) (\<lambda>fd.
     bnd (fw (io_readable e [fd] 0)) (\<lambda>r.
     if r = [] then ret False else
     bnd (fw (io_read e fd MAX_FRAME)) (\<lambda>response.
     sqn (ensure (response = ''P'') (''worker setup failed: '' @ response)) (
     sqn (fw (io_close e fd)) (
     sqn (set_worker (\<lambda>w. w\<lparr>wk_ready := None\<rparr>)) (ret True)))))))"

definition release :: "'w proc \<Rightarrow> ('w forked, unit) act" where
  "release e = bnd (get (wk_release \<circ> fw_worker)) (\<lambda>x.
     sqn (ensure (x \<noteq> None) ''worker already released'') (
     try_finally (bnd (fw (io_write e (the x) ''G'')) (\<lambda>n. ensure (n = 1) ''admission short write''))
       (sqn (fw (io_close e (the x))) (set_worker (\<lambda>w. w\<lparr>wk_release := None\<rparr>)))))"

definition poll :: "'w proc \<Rightarrow> ('w forked, int option) act" where
  "poll e = bnd (get fw_worker) (\<lambda>w.
     if wk_code w \<noteq> None then ret (wk_code w) else
     bnd (fd_of (wk_pid w)) (\<lambda>pid.
     bnd (fw (io_waitpid e pid)) (\<lambda>done.
     sqn (set_worker (\<lambda>w. w\<lparr>wk_code := done\<rparr>)) (ret done))))"

definition close_option :: "'w proc \<Rightarrow> int option \<Rightarrow> (worker \<Rightarrow> worker) \<Rightarrow> ('w forked, unit) act" where
  "close_option e x f = (case x of None \<Rightarrow> ret () | Some fd \<Rightarrow> sqn (fw (io_close e fd)) (set_worker f))"

definition cancel_admission :: "'w proc \<Rightarrow> ('w forked, unit) act" where
  "cancel_admission e =
     bnd (get (wk_release \<circ> fw_worker)) (\<lambda>x. sqn (close_option e x (\<lambda>w. w\<lparr>wk_release := None\<rparr>)) (
     bnd (get (wk_ready \<circ> fw_worker)) (\<lambda>x. close_option e x (\<lambda>w. w\<lparr>wk_ready := None\<rparr>))))"

fun reap_descendants :: "nat \<Rightarrow> 'w proc \<Rightarrow> ('w forked, bool) act" where
  "reap_descendants 0 e = lft (Inl OutOfFuel)"
| "reap_descendants (Suc n) e =
     bnd (handle_if (is_os_class ChildProcessError)
            (bnd (fw (io_waitpid_any e)) (\<lambda>d. ret (Some d))) (\<lambda>_. ret None)) (\<lambda>r. case r of
       None \<Rightarrow> ret True
     | Some None \<Rightarrow> ret False
     | Some (Some (pid, status)) \<Rightarrow>
         sqn (set_worker (\<lambda>w. if wk_pid w = Some pid then w\<lparr>wk_code := Some status\<rparr> else w)) (reap_descendants n e))"

subsection \<open>What the forked supervisor is given\<close>

record 'w duties =
  du_fds :: "int list"
  du_admit_supervisor :: "('w, unit) act"
  du_subreaper :: "('w, unit) act"
  du_is_subreaper :: bool
  du_before_admission :: "('w, unit) act"
  du_populated :: "('w, bool) act"
  du_attach :: "int \<Rightarrow> ('w, unit) act"
  du_bind_worker :: "int \<Rightarrow> int option \<Rightarrow> ('w, unit) act"
  du_check_cgroups :: "('w, unit) act"
  du_guard_check :: "('w, unit) act"
  du_kill :: "('w, unit) act"

record 'w exporter =
  xe_pin :: "int \<Rightarrow> ('w, unit) act"
  xe_collect :: "pyval \<Rightarrow> ('w forked, unit) act \<Rightarrow> ('w forked, pyval) act"
  xe_close :: "('w, unit) act"

record 'w mail =
  ml_fds :: "int list"
  ml_read :: "('w, string option) act"
  ml_acknowledge :: "int \<Rightarrow> ('w, unit) act"

record 'w forking =
  fk_proc :: "'w proc"
  fk_clock :: "'w \<Rightarrow> rat \<times> 'w"
  fk_pause :: "rat \<Rightarrow> 'w \<Rightarrow> 'w"
  fk_interrupted :: "'w \<Rightarrow> bool \<times> 'w"
  fk_duties :: "'w duties"
  fk_exporter :: "'w exporter option"
  fk_nonce :: pyval
  fk_manifest :: pyval
  fk_total :: pyval
  fk_silence :: pyval
  fk_control :: "int option"
  fk_mailbox :: "'w mail option"
  fk_ack :: "int option"
  fk_keep :: "int list"
  fk_register_supervisor :: "(int \<Rightarrow> ('w, unit) act) option"
  fk_register_worker :: "(int \<Rightarrow> ('w, unit) act) option"
  fk_absolute :: "rat option"
  fk_cleanup_seconds :: rat
  fk_retire :: "(int \<Rightarrow> ('w, unit) act) option"

text \<open>\<open>time.monotonic\<close> never raises; \<open>io f\<close> are the process calls with that clock.\<close>

definition now :: "'w forking \<Rightarrow> ('w, rat) act" where
  "now f = (\<lambda>w. let (t, w') = fk_clock f w in (Inr t, w'))"

definition io :: "'w forking \<Rightarrow> 'w proc" where
  "io f = (fk_proc f)\<lparr>io_now := now f\<rparr>"

definition ipc_of :: "'w proc \<Rightarrow> 'w ipc" where
  "ipc_of p = \<lparr> io_now = io_now p, io_sleep = io_sleep p, io_nonblocking = io_nonblocking p, io_readable = io_readable p,
     io_writable = io_writable p, io_read = io_read p, io_write = io_write p, io_close = io_close p,
     io_closerange = io_closerange p, io_open_max = io_open_max p, io_pipe = io_pipe p, io_fork = io_fork p,
     io_detach = io_detach p, io_waitpid = io_waitpid p, io_kill = io_kill p, io_killpg = io_killpg p, io_float = io_float p \<rparr>"

subsection \<open>The supervising child\<close>

text \<open>One poll of the lease channel, and the acknowledgement of an accepted frame.\<close>

definition read_channel :: "'w forking \<Rightarrow> int option \<Rightarrow> ('w, string option) act" where
  "read_channel f lease_fd = (case (fk_mailbox f, lease_fd) of
     (Some m, _) \<Rightarrow> ml_read m
   | (None, Some fd) \<Rightarrow> bnd (io_readable (io f) [fd] 0) (\<lambda>r.
       if r = [] then ret None else bnd (io_read (io f) fd MAX_FRAME) (\<lambda>raw. ret (Some raw)))
   | (None, None) \<Rightarrow> lft (Inl (TypeError ''an integer is required'')))"

definition acknowledge_lease :: "'w forking \<Rightarrow> int \<Rightarrow> ('w, unit) act" where
  "acknowledge_lease f n = (case (fk_ack f, fk_mailbox f) of
     (Some fd, _) \<Rightarrow> write_frame (ipc_of (io f)) fd (encode (\<lambda>_. []) (ack_value (str_of (fk_nonce f)) (str_of (fk_manifest f)) n))
   | (None, Some m) \<Rightarrow> ml_acknowledge m n
   | (None, None) \<Rightarrow> ret ())"

definition drain_forked :: "'w forking \<Rightarrow> int option \<Rightarrow> bool \<Rightarrow> ('w forked, bool) act" where
  "drain_forked f lease_fd require_started =
     bnd (fw (now f)) (\<lambda>t. bnd (fw (read_channel f lease_fd)) (\<lambda>raw.
     bnd (\<lambda>s. case drain_lease (fk_mailbox f = None) raw (fw_lease s) (time_value t) require_started of
            (l, r) \<Rightarrow> (r, s\<lparr>fw_lease := l\<rparr>)) (\<lambda>(renewed, ack).
     sqn (case ack of None \<Rightarrow> ret () | Some n \<Rightarrow> fw (acknowledge_lease f n)) (ret renewed))))"

fun await_lease :: "nat \<Rightarrow> 'w forking \<Rightarrow> int option \<Rightarrow> ('w forked, unit) act" where
  "await_lease 0 f lease_fd = lft (Inl OutOfFuel)"
| "await_lease (Suc n) f lease_fd =
     bnd (get (l_sequence \<circ> fw_lease)) (\<lambda>q. if 0 \<le> q then ret () else
     sqn (drain_forked f lease_fd False) (
     bnd (get (l_sequence \<circ> fw_lease)) (\<lambda>q.
     sqn (whenA (q < 0) (fw (io_sleep (io f) (1 / 100)))) (await_lease n f lease_fd))))"

definition worker_env :: "nat \<Rightarrow> 'w forking \<Rightarrow> int option \<Rightarrow> 'w forked sup_env" where
  "worker_env fuel f lease_fd =
     \<lparr> e_clock = (\<lambda>s. let (t, w) = fk_clock f (fw_world s) in (t, s\<lparr>fw_world := w\<rparr>)),
       e_is_fd = (fk_mailbox f = None),
       e_read = fw (read_channel f lease_fd),
       e_acknowledge = (\<lambda>n. fw (acknowledge_lease f n)),
       e_interrupted = (\<lambda>s. let (b, w) = fk_interrupted f (fw_world s) in (b, s\<lparr>fw_world := w\<rparr>)),
       e_pause = (\<lambda>d s. s\<lparr>fw_world := fk_pause f d (fw_world s)\<rparr>),
       e_before_admission = fw (du_before_admission (fk_duties f)),
       e_populated = fw (du_populated (fk_duties f)),
       e_spawn = spawn (io f),
       e_register_worker = map_option (\<lambda>g pid. fw (g pid)) (fk_register_worker f),
       e_attach = (\<lambda>pid. fw (du_attach (fk_duties f) pid)),
       e_bind_worker = (\<lambda>pid. bnd (get (wk_admission \<circ> fw_worker)) (\<lambda>fd. fw (du_bind_worker (fk_duties f) pid fd))),
       e_admit_setup = admit_setup (io f),
       e_ready = ready (io f),
       e_check_cgroups = fw (du_check_cgroups (fk_duties f)),
       e_guard_check = fw (du_guard_check (fk_duties f)),
       e_pin = map_option (\<lambda>x pid. fw (xe_pin x pid)) (fk_exporter f),
       e_release = release (io f),
       e_poll = poll (io f),
       e_cancel_admission = cancel_admission (io f),
       e_kill = fw (du_kill (fk_duties f)),
       e_reap = (if du_is_subreaper (fk_duties f) then Some (reap_descendants fuel (io f)) else None) \<rparr>"

definition supervision_value :: "supervision \<Rightarrow> pyval" where
  "supervision_value v = PDict
     [(''schema_version'', PInt 1), (''scope'', PStr ''i5-preparation-supervision''), (''uuid'', PStr UUID),
      (''nonce'', PStr (v_nonce v)), (''manifest_sha256'', PStr (v_manifest v)), (''i5_ready'', PBool False),
      (''passed'', PBool (v_passed v)), (''failure'', case v_failure v of None \<Rightarrow> PNone | Some m \<Rightarrow> PStr m),
      (''cleanup_errors'', PList (map PStr (v_cleanup_errors v))), (''admitted'', PBool (v_admitted v)),
      (''worker_exit'', case v_worker_exit v of None \<Rightarrow> PNone | Some c \<Rightarrow> PInt c),
      (''population_empty'', PBool (v_population_empty v)), (''reaped'', PBool (v_reaped v))]"

text \<open>\<open>supervise\<close> on the forked worker: its lease is the one of the process.\<close>

definition supervise_forked :: "nat \<Rightarrow> 'w forking \<Rightarrow> int option \<Rightarrow> ('w forked, supervision) act" where
  "supervise_forked fuel f lease_fd = (\<lambda>s.
     case supervise fuel (worker_env fuel f lease_fd) (fk_cleanup_seconds f) (fk_absolute f) (sup_start s (fw_lease s)) of
       (r, t) \<Rightarrow> (r, (s_world t)\<lparr>fw_lease := s_lease t\<rparr>))"

definition close_inherited :: "'w forking \<Rightarrow> int list \<Rightarrow> int \<Rightarrow> int \<Rightarrow> ('w, unit) act" where
  "close_inherited f lease_fds report_write gate_read =
     bnd (foldA (\<lambda>first fd. sqn (io_closerange (io f) first fd) (ret (fd + 1))) 3
       (sorted_list_of_set (set (lease_fds @ [report_write, gate_read] @ fk_keep f @
          filter (\<lambda>fd. 3 \<le> fd) (du_fds (fk_duties f)) @ (case fk_ack f of None \<Rightarrow> [] | Some fd \<Rightarrow> [fd]))))) (\<lambda>first.
     bnd (io_open_max (io f)) (\<lambda>m. io_closerange (io f) first m))"

text \<open>The first lease of the supervisor, which ends early enough for the cleanup.\<close>

definition supervisor_lease :: "'w forking \<Rightarrow> ('w, lease) act" where
  "supervisor_lease f =
     bnd (now f) (\<lambda>t.
     bnd (lft (lease_init (fk_nonce f) (fk_manifest f) (time_value t) (fk_total f) (fk_silence f) (PStr ''guest''))) (\<lambda>l.
     ret (case fk_absolute f of None \<Rightarrow> l | Some d \<Rightarrow> l\<lparr>l_deadline := min (l_deadline l) (d - fk_cleanup_seconds f)\<rparr>)))"

definition MAX_REPORT :: nat where "MAX_REPORT = 16384"

definition report_exported :: "nat \<Rightarrow> 'w forking \<Rightarrow> int option \<Rightarrow> int \<Rightarrow> 'w exporter \<Rightarrow> pyval \<Rightarrow> ('w forked, int) act" where
  "report_exported fuel f lease_fd report_write x report =
     bnd (try_finally
       (bnd (xe_collect x report (bnd (drain_forked f lease_fd True) (\<lambda>_. ret ()))) (\<lambda>packet.
        bnd (get (l_deadline \<circ> fw_lease)) (\<lambda>d. bnd (fw (now f)) (\<lambda>t.
        sqn (fw (write_bounded fuel (ipc_of (io f)) report_write (encode (io_float (io f)) packet) (min d (t + 2)) (ret ()))) (
        ret packet)))))
       (fw (xe_close x))) (\<lambda>packet.
     ret (if truthy (fld packet ''passed'') then 0 else 2))"

definition report_plain :: "'w forking \<Rightarrow> int \<Rightarrow> supervision \<Rightarrow> ('w forked, int) act" where
  "report_plain f report_write v =
     (let raw = encode (io_float (io f)) (supervision_value v) in
      sqn (ensure (length raw \<le> MAX_REPORT) ''supervisor report limit'') (
      sqn (fw (io_nonblocking (io f) report_write)) (
      bnd (fw (io_write (io f) report_write raw)) (\<lambda>n. sqn (ensure (n = length raw) ''supervisor report short write'') (
      ret (if v_passed v then 0 else 2))))))"

definition supervisor_work :: "nat \<Rightarrow> 'w forking \<Rightarrow> int option \<Rightarrow> int \<Rightarrow> int \<Rightarrow> ('w forked, int) act" where
  "supervisor_work fuel f lease_fd report_write gate_read =
     sqn (fw (close_inherited f (case fk_mailbox f of None \<Rightarrow> (case lease_fd of None \<Rightarrow> [] | Some fd \<Rightarrow> [fd]) | Some m \<Rightarrow> ml_fds m)
            report_write gate_read)) (
     sqn (fw (io_detach (io f))) (
     bnd (fw (io_read (io f) gate_read 1)) (\<lambda>permit. sqn (ensure (permit = ''G'') ''supervisor admission cancelled'') (
     sqn (fw (io_close (io f) gate_read)) (
     sqn (fw (du_admit_supervisor (fk_duties f))) (
     sqn (fw (du_subreaper (fk_duties f))) (
     bnd (fw (supervisor_lease f)) (\<lambda>l.
     sqn (upd (\<lambda>s. s\<lparr>fw_lease := l\<rparr>)) (
     sqn (await_lease fuel f lease_fd) (
     bnd (supervise_forked fuel f lease_fd) (\<lambda>v.
     case fk_exporter f of
       Some x \<Rightarrow> report_exported fuel f lease_fd report_write x (supervision_value v)
     | None \<Rightarrow> report_plain f report_write v)))))))))))"

definition failed_report :: "'w forking \<Rightarrow> exn \<Rightarrow> pyval" where
  "failed_report f x = PDict
     [(''schema_version'', PInt 1), (''scope'', PStr ''i5-preparation-supervision''), (''uuid'', PStr UUID),
      (''nonce'', fk_nonce f), (''manifest_sha256'', fk_manifest f), (''i5_ready'', PBool False), (''passed'', PBool False),
      (''failure'', PStr (take 2048 (exn_name x @ '': '' @ exn_str x))), (''cleanup_errors'', PList []),
      (''admitted'', PBool False), (''worker_exit'', PNone), (''population_empty'', PBool False), (''reaped'', PBool False)]"

definition supervisor_child :: "nat \<Rightarrow> 'w forking \<Rightarrow> int option \<Rightarrow> int \<Rightarrow> int \<Rightarrow> ('w forked, int) act" where
  "supervisor_child fuel f lease_fd report_write gate_read =
     handle_if any_exn (supervisor_work fuel f lease_fd report_write gate_read) (\<lambda>x.
       case fk_exporter f of None \<Rightarrow> ret 2
       | Some xp \<Rightarrow> sqn (handle_if any_exn
           (bnd (xe_collect xp (failed_report f x) (ret ())) (\<lambda>packet.
            bnd (fw (now f)) (\<lambda>t.
            sqn (fw (write_bounded fuel (ipc_of (io f)) report_write (encode (io_float (io f)) packet) (t + 2) (ret ()))) (
            fw (xe_close xp)))))
           (\<lambda>_. ret ())) (ret 2))"

subsection \<open>The parent\<close>

text \<open>
  The parent of the supervisor, with the attributes that the code hangs on the exception of a
  failed admission (\<open>pid\<close>, \<open>reaped\<close>, \<open>exit_code\<close>) and whether the caller's retirement returned.
  The last component is a history variable, which the code has not and no operation reads: the
  write of the gate byte has returned, so the child may pass its gate and work.
\<close>

record 'w forks =
  fs_world :: 'w
  fs_pid :: "int option"
  fs_reaped :: bool
  fs_exit :: "int option"
  fs_retired :: bool
  fs_granted :: bool

abbreviation fks :: "('w, 'a) act \<Rightarrow> ('w forks, 'a) act" where
  "fks \<equiv> zoom fs_world fs_world_update"

text \<open>Waiting for the direct child until a limit: its exit status, or none.\<close>

fun reap_until :: "nat \<Rightarrow> 'w forking \<Rightarrow> int \<Rightarrow> rat \<Rightarrow> ('w, int option) act" where
  "reap_until 0 f pid limit = lft (Inl OutOfFuel)"
| "reap_until (Suc n) f pid limit =
     bnd (now f) (\<lambda>t. if limit \<le> t then ret None else
     bnd (io_waitpid (io f) pid) (\<lambda>done. if done \<noteq> None then ret done else
     sqn (io_sleep (io f) (1 / 200)) (reap_until n f pid limit)))"

text \<open>An exception raised with the attributes \<open>pid\<close>, \<open>reaped\<close> and, when the child is reaped, \<open>exit_code\<close>.\<close>

definition raise_marked :: "int \<Rightarrow> int option \<Rightarrow> exn \<Rightarrow> ('w forks, 'a) act" where
  "raise_marked pid status x =
     sqn (upd (\<lambda>s. s\<lparr>fs_pid := Some pid, fs_reaped := status \<noteq> None, fs_exit := status\<rparr>)) (lft (Inl x))"

definition unconfirmed :: "string \<Rightarrow> int \<Rightarrow> exn" where
  "unconfirmed m pid = RuntimeError (''supervisor '' @ m @ ''unconfirmed for PID '' @ show_int pid)"

text \<open>
  The gate was never opened: the pipes are closed and the child, which can do no work, is
  reaped, with a kill halfway.  The original failure is raised again.
\<close>

definition abandon ::
    "nat \<Rightarrow> 'w forking \<Rightarrow> int \<Rightarrow> int option \<Rightarrow> int option \<Rightarrow> int \<Rightarrow> int \<Rightarrow> int \<Rightarrow> exn \<Rightarrow> ('w forks, 'a) act" where
  "abandon fuel f pid lease_fd lease_write report_read report_write gate_write failure =
     sqn (fks (io_close (io f) gate_write)) (
     sqn (case lease_fd of None \<Rightarrow> ret () | Some fd \<Rightarrow> fks (io_close (io f) fd)) (
     sqn (case lease_write of None \<Rightarrow> ret () | Some fd \<Rightarrow> fks (io_close (io f) fd)) (
     sqn (fks (io_close (io f) report_read)) (
     sqn (fks (io_close (io f) report_write)) (
     sqn (case fk_retire f of None \<Rightarrow> ret ()
          | Some g \<Rightarrow> sqn (handle_if any_exn (fks (g pid)) (\<lambda>_. raise_marked pid None (unconfirmed ''retirement '' pid)))
              (upd (\<lambda>s. s\<lparr>fs_retired := True\<rparr>))) (
     bnd (fks (now f)) (\<lambda>t.
     let until = (case fk_absolute f of None \<Rightarrow> t + min 2 (fk_cleanup_seconds f)
                  | Some d \<Rightarrow> min (t + min 2 (fk_cleanup_seconds f)) d) in
     bnd (fks (now f)) (\<lambda>t1. bnd (fks (now f)) (\<lambda>t2.
     bnd (fks (reap_until fuel f pid (t1 + max 0 (until - t2) / 2))) (\<lambda>status.
     bnd (if status \<noteq> None then ret status else
          sqn (handle_if (is_os_class ProcessLookupError) (fks (io_kill (io f) pid ''KILL'')) (\<lambda>_. ret ())) (
          fks (reap_until fuel f pid until))) (\<lambda>status.
     raise_marked pid status (if status \<noteq> None then failure else unconfirmed ''registration failed; reap '' pid))))))))))))"

definition fork_marked :: "nat \<Rightarrow> 'w forking \<Rightarrow> ('w forks, int \<times> int option \<times> int) act" where
  "fork_marked fuel f =
     sqn (ensure (fk_mailbox f = None \<or> (fk_control f = None \<and> fk_ack f = None)) ''one control transport required'') (
     bnd (case (fk_mailbox f, fk_control f) of
            (Some _, _) \<Rightarrow> ret (None, None)
          | (None, None) \<Rightarrow> bnd (fks (io_pipe (io f))) (\<lambda>(r, w). ret (Some r, Some w))
          | (None, Some fd) \<Rightarrow> bnd (fks (io_dup (io f) fd)) (\<lambda>r. ret (Some r, None))) (\<lambda>(lease_fd, lease_write).
     bnd (fks (io_pipe (io f))) (\<lambda>(report_read, report_write).
     bnd (fks (io_pipe (io f))) (\<lambda>(gate_read, gate_write).
     bnd (on_error (fks (io_fork (io f))) (eachA (\<lambda>fd. fks (io_close (io f) fd))
            ((case lease_fd of None \<Rightarrow> [] | Some fd \<Rightarrow> [fd]) @ (case lease_write of None \<Rightarrow> [] | Some fd \<Rightarrow> [fd]) @
             [report_read, report_write, gate_read, gate_write]))) (\<lambda>pid.
     sqn (fks (io_close (io f) gate_read)) (
     sqn (handle_if any_exn
       (sqn (case fk_register_supervisor f of None \<Rightarrow> ret () | Some g \<Rightarrow> fks (g pid)) (
        bnd (fks (io_write (io f) gate_write ''G'')) (\<lambda>n.
        sqn (ensure (n = 1) ''supervisor admission write'') (upd (\<lambda>s. s\<lparr>fs_granted := True\<rparr>)))))
       (abandon fuel f pid lease_fd lease_write report_read report_write gate_write)) (
     sqn (fks (io_close (io f) gate_write)) (
     sqn (case lease_fd of None \<Rightarrow> ret () | Some fd \<Rightarrow> fks (io_close (io f) fd)) (
     sqn (fks (io_close (io f) report_write)) (
     ret (pid, lease_write, report_read)))))))))))"

text \<open>For a caller that looks at no attribute.\<close>

definition unmarked :: "'w \<Rightarrow> 'w forks" where
  "unmarked w = \<lparr> fs_world = w, fs_pid = None, fs_reaped = False, fs_exit = None, fs_retired = False,
     fs_granted = False \<rparr>"

definition fork_supervisor :: "nat \<Rightarrow> 'w forking \<Rightarrow> ('w, int \<times> int option \<times> int) act" where
  "fork_supervisor fuel f = (\<lambda>w. case fork_marked fuel f (unmarked w) of (r, s) \<Rightarrow> (r, fs_world s))"

end
