(* ===== verification/Watchdog.thy ===== *)
theory Watchdog
  imports Worker NativeExport
begin

text \<open>
  The independent host watchdog: the loop that watches a transport under the host lease
  (\<open>sw_i5_preparation_supervisor.watch_transport\<close>), the process that starts the transport,
  relays lease renewals and recovers once (\<open>sw_i5_preparation_channels.fork_watchdog\<close>), and
  the guest endpoint \<open>serve_preparation\<close>.
\<close>

subsection \<open>The watchdog's state\<close>

record 'w watchdog =
  wd_world :: 'w
  wd_lease :: lease
  wd_guest :: lease
  wd_data :: string
  wd_closed :: bool
  wd_recovered :: bool
  wd_export :: pyval
  wd_guest_write :: "int option"
  wd_stream_read :: "int option"
  wd_ack_read :: "int option"
  wd_child :: "int option"
  wd_exit :: "int option"
  wd_watch :: "(string \<times> pyval) list"
  wd_cleanup :: "string list"

abbreviation wd :: "('w, 'a) act \<Rightarrow> ('w watchdog, 'a) act" where
  "wd \<equiv> zoom wd_world wd_world_update"

definition host_clock :: "'w proc \<Rightarrow> ('w watchdog, rat) act" where
  "host_clock e = wd (io_now e)"

text \<open>\<open>drain_lease(fd, lease, time.monotonic())\<close> on the host lease, which acknowledges nothing.\<close>

definition drain_host :: "'w proc \<Rightarrow> int \<Rightarrow> ('w watchdog, bool) act" where
  "drain_host e fd =
     bnd (host_clock e) (\<lambda>t.
     bnd (wd (io_readable e [fd] 0)) (\<lambda>r.
     bnd (if r = [] then ret None else bnd (wd (io_read e fd MAX_FRAME)) (\<lambda>raw. ret (Some raw))) (\<lambda>obs. (\<lambda>s.
       case drain_lease True obs (wd_lease s) (time_value t) True of
         (l, r) \<Rightarrow> (bindE r (\<lambda>p. Inr (fst p)), s\<lparr>wd_lease := l\<rparr>)))))"

subsection \<open>Watching a transport\<close>

record 'w watch =
  wa_control :: int
  wa_result :: int
  wa_limit :: nat
  wa_validate :: "string \<Rightarrow> ('w watchdog, unit) act"
  wa_recover :: "('w watchdog, pyval) act"
  wa_renewed :: "('w watchdog, unit) act"
  wa_cancelled :: "('w watchdog, bool) act"

definition not_stopped :: "'w watch \<Rightarrow> ('w watchdog, unit) act" where
  "not_stopped a = bnd (wa_cancelled a) (\<lambda>c. ensure (\<not> c) ''host watchdog cancelled'')"

definition renew :: "'w proc \<Rightarrow> 'w watch \<Rightarrow> ('w watchdog, unit) act" where
  "renew e a = bnd (drain_host e (wa_control a)) (\<lambda>renewed. whenA renewed (wa_renewed a))"

fun watch_result :: "nat \<Rightarrow> 'w proc \<Rightarrow> 'w watch \<Rightarrow> ('w watchdog, unit) act" where
  "watch_result 0 e a = lft (Inl OutOfFuel)"
| "watch_result (Suc n) e a =
     sqn (not_stopped a) (
     sqn (renew e a) (
     bnd (get (l_deadline \<circ> wd_lease)) (\<lambda>d. bnd (host_clock e) (\<lambda>t.
     bnd (wd (io_readable e [wa_control a, wa_result a] (min (1 / 20) (max 0 (d - t))))) (\<lambda>ready.
     if wa_result a \<notin> set ready then watch_result n e a else
     bnd (get wd_data) (\<lambda>data.
     bnd (wd (io_read e (wa_result a) (min 65536 (wa_limit a - length data + 1)))) (\<lambda>chunk.
     if chunk \<noteq> [] then
       sqn (ensure (length data + length chunk \<le> wa_limit a) ''host transport overflow'') (
       sqn (upd (\<lambda>s. s\<lparr>wd_data := data @ chunk\<rparr>)) (watch_result n e a))
     else
       sqn (ensure (data \<noteq> []) ''transport closed without result'') (
       sqn (wa_validate a data) (
       sqn (not_stopped a) (renew e a))))))))))"

definition watched :: "bool \<Rightarrow> pyval \<Rightarrow> pyval \<Rightarrow> (string \<times> pyval) list" where
  "watched arrived failure recovery = [(''transport_complete'', PBool arrived), (''failure'', failure),
     (''recovery'', recovery), (''i5_ready'', PBool False)]"

text \<open>The recovery after a failure; when it fails itself, that is recorded in its place.\<close>

definition recover_after :: "'w watch \<Rightarrow> exn \<Rightarrow> ('w watchdog, (string \<times> pyval) list) act" where
  "recover_after a x =
     bnd (handle (wa_recover a)
            (\<lambda>y. ret (PDict [(''stopped'', PBool False), (''failure'', PStr (exn_str y))]))) (\<lambda>recovery.
     ret (watched False (PStr (exn_str x)) recovery))"

definition watch_transport :: "nat \<Rightarrow> 'w proc \<Rightarrow> 'w watch \<Rightarrow> ('w watchdog, (string \<times> pyval) list) act" where
  "watch_transport fuel e a =
     sqn (ensure (0 < wa_limit a \<and> wa_limit a \<le> 6 * 1024 * 1024) ''host transport limit'') (
     bnd (get (l_side \<circ> wd_lease)) (\<lambda>side. sqn (ensure (side = ''host'') ''separate host lease required'') (
     sqn (upd (\<lambda>s. s\<lparr>wd_data := []\<rparr>)) (
     handle (sqn (watch_result fuel e a) (ret (watched True PNone PNone))) (recover_after a)))))"

subsection \<open>What the forked watchdog is given\<close>

record 'w guarding =
  gd_proc :: "'w proc"
  gd_dig :: "string \<Rightarrow> string"
  gd_transport :: "int \<Rightarrow> int \<Rightarrow> int \<Rightarrow> ('w, pyval) act"
  gd_recover :: bool
  gd_interrupted :: "('w, bool) act"
  gd_nonce :: pyval
  gd_manifest :: pyval
  gd_total :: pyval
  gd_silence :: pyval
  gd_cleanup_seconds :: rat
  gd_recovery_seconds :: rat
  gd_registration :: "int option"
  gd_admission :: "int option"
  gd_absolute :: "rat option"
  gd_reap_seconds :: rat
  gd_defer :: bool
  gd_transport_fds :: "int list"

definition attached :: "'w guarding \<Rightarrow> bool" where
  "attached g = (gd_registration g \<noteq> None \<or> gd_admission g \<noteq> None)"

definition extra_fds :: "'w guarding \<Rightarrow> int list" where
  "extra_fds g = (if attached g then [the (gd_registration g), the (gd_admission g)] else [])"

text \<open>\<open>until(seconds)\<close>.\<close>

definition until :: "'w guarding \<Rightarrow> rat \<Rightarrow> ('w, rat) act" where
  "until g seconds = bnd (io_now (gd_proc g)) (\<lambda>t. ret (case gd_absolute g of None \<Rightarrow> t + seconds | Some d \<Rightarrow> min (t + seconds) d))"

definition host_lease :: "'w guarding \<Rightarrow> rat \<Rightarrow> lease res" where
  "host_lease g t = lease_init (gd_nonce g) (gd_manifest g) (time_value t) (gd_total g) (gd_silence g) (PStr ''host'')"

definition checkpoint_host :: "'w guarding \<Rightarrow> ('w, unit) act" where
  "checkpoint_host g = bnd (gd_interrupted g) (\<lambda>i. ensure (\<not> i) ''host watchdog cancelled'')"

text \<open>\<open>recover_once\<close>: at most one recovery, within its own and the absolute deadline.\<close>

definition recover_once :: "nat \<Rightarrow> 'w guarding \<Rightarrow> ('w watchdog, pyval) act" where
  "recover_once fuel g =
     bnd (get wd_recovered) (\<lambda>r. sqn (ensure (\<not> r) ''recovery already attempted'') (
     sqn (upd (\<lambda>s. s\<lparr>wd_recovered := True\<rparr>)) (
     if gd_defer g then
       ret (PDict [(''stopped'', PBool False), (''passed'', PBool False), (''i5_ready'', PBool False), (''deferred'', PBool True)])
     else
       bnd (wd (until g (gd_recovery_seconds g))) (\<lambda>u. bnd (wd (io_now (gd_proc g))) (\<lambda>t.
       let seconds = min (gd_recovery_seconds g) (u - t) in
       sqn (ensure (0 < seconds) ''watchdog recovery absolute deadline'') (
       wd (bounded_recovery fuel (ipc_of (gd_proc g)) seconds)))))))"

subsection \<open>The transport's process\<close>

definition admission_value :: "'w guarding \<Rightarrow> int \<Rightarrow> int \<Rightarrow> pyval" where
  "admission_value g pid owner = PDict [(''schema_version'', PInt 1), (''scope'', PStr ''i5-preparation-transport-admission''),
     (''uuid'', PStr UUID), (''nonce'', gd_nonce g), (''manifest_sha256'', gd_manifest g), (''pid'', PInt pid),
     (''watchdog_pid'', PInt owner)]"

fun await_permit :: "nat \<Rightarrow> 'w proc \<Rightarrow> int \<Rightarrow> int \<Rightarrow> rat \<Rightarrow> ('w, unit) act" where
  "await_permit 0 e fd owner limit = lft (Inl OutOfFuel)"
| "await_permit (Suc n) e fd owner limit =
     bnd (io_now e) (\<lambda>t. sqn (ensure (t < limit) ''transport admission deadline'') (
     bnd (io_readable e [fd] (1 / 100)) (\<lambda>ready.
     if ready = [] then await_permit n e fd owner limit else
     bnd (io_read e fd 2) (\<lambda>permit.
     sqn (ensure (permit = ''1'') ''transport owner admission lost'') (
     bnd (io_getppid e) (\<lambda>pp. ensure (pp = owner) ''transport owner admission lost''))))))"

definition admitted_transport :: "nat \<Rightarrow> 'w guarding \<Rightarrow> int \<Rightarrow> ('w, unit) act" where
  "admitted_transport fuel g owner =
     (let e = gd_proc g; reg = the (gd_registration g); adm = the (gd_admission g) in
      bnd (io_getpid e) (\<lambda>pid.
      sqn (write_frame (ipc_of e) reg (encode (\<lambda>_. []) (admission_value g pid owner))) (
      sqn (io_close e reg) (
      bnd (until g 2) (\<lambda>limit.
      sqn (await_permit fuel e adm owner limit) (io_close e adm))))))"

definition transport_error :: "'w guarding \<Rightarrow> exn \<Rightarrow> pyval" where
  "transport_error g x = PDict [(''schema_version'', PInt 1), (''scope'', PStr ''i5-preparation-transport-error''),
     (''uuid'', PStr UUID), (''nonce'', gd_nonce g), (''manifest_sha256'', gd_manifest g),
     (''failure'', PStr (take 2048 (exn_name x @ '': '' @ exn_str x))), (''i5_ready'', PBool False)]"

definition transport_child :: "nat \<Rightarrow> 'w guarding \<Rightarrow> int \<Rightarrow> int \<Rightarrow> int \<Rightarrow> ('w, int) act" where
  "transport_child fuel g guest_read stream_write guest_ack_write =
     (let e = gd_proc g in
      bnd (trial (
        sqn (close_except (ipc_of e) ([guest_read, stream_write, guest_ack_write] @ extra_fds g @ gd_transport_fds g)) (
        bnd (io_getppid e) (\<lambda>owner.
        sqn (io_detach e) (
        sqn (io_default_signals e) (
        sqn (whenA (attached g) (admitted_transport fuel g owner)) (
        bnd (gd_transport g guest_read stream_write guest_ack_write) (\<lambda>v. ret (exit_status v))))))))) (\<lambda>r. case r of
        Inr status \<Rightarrow> ret status
      | Inl x \<Rightarrow> bnd (trial (
          bnd (until g 1) (\<lambda>d.
          write_bounded fuel (ipc_of e) stream_write (encode (\<lambda>_. []) (transport_error g x)) d (ret ())))) (\<lambda>_. ret 2)))"

subsection \<open>Relaying renewals\<close>

definition guest_ack_bound :: "'w guarding \<Rightarrow> pyval \<Rightarrow> int \<Rightarrow> bool res" where
  "guest_ack_bound g receipt sequence =
     (if \<not> pyeq receipt (ack_value (str_of (gd_nonce g)) (str_of (gd_manifest g)) sequence) then Inr False
      else Inr (is_int (fld receipt ''sequence'') \<and> is_int (fld receipt ''schema_version'')))"

text \<open>\<open>True\<close>: the guest acknowledged; \<open>False\<close>: its control ended.\<close>

fun await_guest :: "nat \<Rightarrow> 'w guarding \<Rightarrow> int \<Rightarrow> int \<Rightarrow> ('w watchdog, bool) act" where
  "await_guest 0 g control_fd ack_fd = lft (Inl OutOfFuel)"
| "await_guest (Suc n) g control_fd ack_fd =
     (let e = gd_proc g in
      sqn (wd (checkpoint_host g)) (
      bnd (host_clock e) (\<lambda>t. bnd (get wd_lease) (\<lambda>l. sqn (lft (lease_check l (time_value t) True)) (
      bnd (wd (io_readable e [ack_fd, control_fd] (1 / 100))) (\<lambda>ready.
      sqn (if control_fd \<in> set ready
           then bnd (drain_host e control_fd) (\<lambda>renewed. ensure (\<not> renewed) ''renewal before guest acknowledgement'')
           else ret ()) (
      if ack_fd \<notin> set ready then await_guest n g control_fd ack_fd else
      bnd (wd (io_read e ack_fd MAX_FRAME)) (\<lambda>raw.
      if raw = [] then sqn (upd (\<lambda>s. s\<lparr>wd_closed := True\<rparr>)) (ret False) else
      bnd (lft (decode raw MAX_FRAME)) (\<lambda>receipt.
      bnd (get (l_sequence \<circ> wd_lease)) (\<lambda>sequence.
      sqn (lft (ensureE (guest_ack_bound g receipt sequence) ''guest acknowledgement binding'')) (ret True)))))))))))"

definition host_ack :: "'w guarding \<Rightarrow> int \<Rightarrow> pyval" where
  "host_ack g sequence = PDict [(''schema_version'', PInt 1), (''scope'', PStr ''i5-preparation-host-ack''), (''uuid'', PStr UUID),
     (''nonce'', gd_nonce g), (''manifest_sha256'', gd_manifest g), (''sequence'', PInt sequence)]"

definition relay :: "nat \<Rightarrow> 'w guarding \<Rightarrow> int \<Rightarrow> int \<Rightarrow> int \<Rightarrow> int \<Rightarrow> ('w watchdog, unit) act" where
  "relay fuel g control_fd guest_write guest_ack_read ack_write =
     bnd (get wd_closed) (\<lambda>closed. sqn (ensure (\<not> closed) ''renewal after guest control ended'') (
     bnd (get (\<lambda>s. lease_frame (wd_guest s) (l_sequence (wd_lease s)) ''renew'')) (\<lambda>frame.
     bnd (handle_if (is_os_class BrokenPipeError)
            (sqn (wd (write_frame (ipc_of (gd_proc g)) guest_write frame)) (ret True)) (\<lambda>_. ret False)) (\<lambda>sent.
     if \<not> sent then upd (\<lambda>s. s\<lparr>wd_closed := True\<rparr>) else
     bnd (await_guest fuel g control_fd guest_ack_read) (\<lambda>acknowledged.
     whenA acknowledged
       (bnd (get (l_sequence \<circ> wd_lease)) (\<lambda>sequence.
        wd (write_frame (ipc_of (gd_proc g)) ack_write (encode (\<lambda>_. []) (host_ack g sequence))))))))))"

subsection \<open>The report of the transport\<close>

definition transport_failure :: "'w guarding \<Rightarrow> pyval \<Rightarrow> unit res" where
  "transport_failure g v =
     bindE (check_fields v [''schema_version'', ''scope'', ''uuid'', ''nonce'', ''manifest_sha256'', ''failure'', ''i5_ready'']) (\<lambda>_.
     require (fld v ''schema_version'' = PInt 1 \<and> fld v ''uuid'' = PStr UUID \<and> fld v ''nonce'' = gd_nonce g \<and>
              fld v ''manifest_sha256'' = gd_manifest g \<and> fld v ''i5_ready'' = PBool False \<and> is_str (fld v ''failure'') \<and>
              0 < length (str_of (fld v ''failure'')) \<and> length (str_of (fld v ''failure'')) \<le> 2048)
       ''transport failure binding'' (Inl (ValueError (str_of (fld v ''failure'')))))"

definition validate_report :: "'w guarding \<Rightarrow> string \<Rightarrow> ('w watchdog, unit) act" where
  "validate_report g raw =
     bnd (lft (decode raw (6 * MIB))) (\<lambda>v.
     sqn (if is_dict v \<and> get_or v ''scope'' PNone = PStr ''i5-preparation-transport-error''
          then lft (transport_failure g v) else ret ()) (
     bnd (lft (validate_export (hexdigest (gd_dig g)) (io_float (gd_proc g)) raw (str_of (gd_nonce g)) (str_of (gd_manifest g)))) (\<lambda>x.
     sqn (upd (\<lambda>s. s\<lparr>wd_export := x\<rparr>)) (
     ensure (truthy (fld x ''passed'')) ''guest preparation/export failed''))))"

subsection \<open>The watchdog process\<close>

definition host_watch :: "nat \<Rightarrow> 'w guarding \<Rightarrow> int \<Rightarrow> int \<Rightarrow> int \<Rightarrow> int \<Rightarrow> int \<Rightarrow> 'w watch" where
  "host_watch fuel g control_fd stream_read guest_write guest_ack_read ack_write =
     \<lparr> wa_control = control_fd, wa_result = stream_read, wa_limit = 6 * 1024 * 1024, wa_validate = validate_report g,
       wa_recover = recover_once fuel g, wa_renewed = relay fuel g control_fd guest_write guest_ack_read ack_write,
       wa_cancelled = wd (gd_interrupted g) \<rparr>"

definition watchdog_body :: "nat \<Rightarrow> 'w guarding \<Rightarrow> int \<Rightarrow> int \<Rightarrow> ('w watchdog, unit) act" where
  "watchdog_body fuel g control_fd ack_write =
     (let e = gd_proc g in
      bnd (host_clock e) (\<lambda>t. bnd (lft (host_lease g t)) (\<lambda>l.
      bnd (wd (initial_lease fuel (ipc_of e) control_fd l (checkpoint_host g))) (\<lambda>l.
      sqn (upd (\<lambda>s. s\<lparr>wd_lease := l\<rparr>)) (
      bnd (wd (io_pipe e)) (\<lambda>(guest_read, guest_write).
      sqn (upd (\<lambda>s. s\<lparr>wd_guest_write := Some guest_write\<rparr>)) (
      bnd (wd (io_pipe e)) (\<lambda>(stream_read, stream_write).
      sqn (upd (\<lambda>s. s\<lparr>wd_stream_read := Some stream_read\<rparr>)) (
      bnd (wd (io_pipe e)) (\<lambda>(guest_ack_read, guest_ack_write).
      sqn (upd (\<lambda>s. s\<lparr>wd_ack_read := Some guest_ack_read\<rparr>)) (
      bnd (wd (io_fork e)) (\<lambda>child.
      sqn (upd (\<lambda>s. s\<lparr>wd_child := Some child\<rparr>)) (
      sqn (eachA (\<lambda>fd. wd (io_close e fd)) ([guest_read, stream_write, guest_ack_write] @ extra_fds g @ gd_transport_fds g)) (
      bnd (host_clock e) (\<lambda>t0.
      bnd (lft (lease_init (gd_nonce g) (gd_manifest g) (time_value t0) (PFloat (Fin GUEST_SECONDS)) (PFloat (Fin LEASE_SECONDS)) (PStr ''guest''))) (\<lambda>guest.
      sqn (upd (\<lambda>s. s\<lparr>wd_guest := guest\<rparr>)) (
      sqn (relay fuel g control_fd guest_write guest_ack_read ack_write) (
      bnd (watch_transport fuel e (host_watch fuel g control_fd stream_read guest_write guest_ack_read ack_write)) (\<lambda>w.
      upd (\<lambda>s. s\<lparr>wd_watch := w\<rparr>))))))))))))))))))))"

text \<open>Recording a recovery, or why it failed.\<close>

definition set_recovery :: "pyval \<Rightarrow> (string \<times> pyval) list \<Rightarrow> (string \<times> pyval) list" where
  "set_recovery v w = map (\<lambda>(k, x). (k, if k = ''recovery'' then v else x)) w"

definition recover_recorded :: "nat \<Rightarrow> 'w guarding \<Rightarrow> ('w watchdog, unit) act" where
  "recover_recorded fuel g =
     handle (bnd (recover_once fuel g) (\<lambda>v. upd (\<lambda>s. s\<lparr>wd_watch := set_recovery v (wd_watch s)\<rparr>)))
       (\<lambda>x. upd (\<lambda>s. s\<lparr>wd_cleanup := wd_cleanup s @ [''recovery: '' @ exn_str x]\<rparr>))"

definition watchdog_failed :: "nat \<Rightarrow> 'w guarding \<Rightarrow> exn \<Rightarrow> ('w watchdog, unit) act" where
  "watchdog_failed fuel g x =
     sqn (upd (\<lambda>s. s\<lparr>wd_watch := watched False (PStr (exn_str x)) PNone\<rparr>)) (
     bnd (get wd_recovered) (\<lambda>r. whenA (\<not> r) (recover_recorded fuel g)))"

definition close_some :: "'w proc \<Rightarrow> int option \<Rightarrow> ('w watchdog, unit) act" where
  "close_some e x = (case x of None \<Rightarrow> ret () | Some fd \<Rightarrow> wd (io_close e fd))"

definition reap_transport :: "nat \<Rightarrow> 'w guarding \<Rightarrow> int \<Rightarrow> ('w watchdog, unit) act" where
  "reap_transport fuel g child =
     (let e = gd_proc g; i = ipc_of e in
      bnd (wd (until g (gd_cleanup_seconds g))) (\<lambda>d. bnd (wd (wait_child fuel i child d)) (\<lambda>code.
      sqn (upd (\<lambda>s. s\<lparr>wd_exit := code\<rparr>)) (
      whenA (code = None)
        (sqn (upd (\<lambda>s. s\<lparr>wd_cleanup := wd_cleanup s @ [''transport reap deadline'']\<rparr>)) (
         sqn (handle_if (is_os_class ProcessLookupError) (wd (io_killpg e child ''KILL''))
                (\<lambda>_. handle_if (is_os_class ProcessLookupError) (wd (io_kill e child ''KILL'')) (\<lambda>_. ret ()))) (
         bnd (wd (until g (gd_reap_seconds g))) (\<lambda>d. bnd (wd (wait_child fuel i child d)) (\<lambda>code.
         sqn (upd (\<lambda>s. s\<lparr>wd_exit := code\<rparr>)) (
         whenA (code = None) (upd (\<lambda>s. s\<lparr>wd_cleanup := wd_cleanup s @ [''transport kill/reap unconfirmed'']\<rparr>))))))))))))"

definition watchdog_cleanup :: "nat \<Rightarrow> 'w guarding \<Rightarrow> ('w watchdog, unit) act" where
  "watchdog_cleanup fuel g =
     bnd (get (\<lambda>s. s)) (\<lambda>s.
     sqn (close_some (gd_proc g) (wd_guest_write s)) (
     sqn (close_some (gd_proc g) (wd_stream_read s)) (
     sqn (close_some (gd_proc g) (wd_ack_read s)) (
     case wd_child s of None \<Rightarrow> ret () | Some child \<Rightarrow> reap_transport fuel g child))))"

definition watch_passed :: "bool \<Rightarrow> 'w watchdog \<Rightarrow> bool" where
  "watch_passed sig s =
     (wd_watch s \<noteq> [] \<and> fld (PDict (wd_watch s)) ''transport_complete'' = PBool True \<and> wd_exit s = Some 0 \<and>
      wd_cleanup s = [] \<and> \<not> sig)"

definition late_cancel :: "(string \<times> pyval) list \<Rightarrow> (string \<times> pyval) list" where
  "late_cancel w = (if fld (PDict w) ''failure'' = PNone
     then map (\<lambda>(k, x). (k, if k = ''failure'' then PStr ''host watchdog cancelled during transport cleanup'' else x)) w else w)"

definition host_report :: "'w guarding \<Rightarrow> bool \<Rightarrow> 'w watchdog \<Rightarrow> pyval" where
  "host_report g passed s = PDict
     [(''schema_version'', PInt 1), (''scope'', PStr ''i5-preparation-host-report''), (''nonce'', gd_nonce g), (''uuid'', PStr UUID),
      (''manifest_sha256'', gd_manifest g), (''evidence_kind'', PStr ''synthetic''), (''i5_ready'', PBool False),
      (''passed'', PBool passed), (''export'', wd_export s), (''watchdog'', PDict (wd_watch s)),
      (''transport_exit'', case wd_exit s of None \<Rightarrow> PNone | Some c \<Rightarrow> PInt c),
      (''cleanup_errors'', PList (map PStr (wd_cleanup s)))]"

text \<open>After the transport settled: the verdict, the recovery it may owe, and the report.\<close>

definition watchdog_settle :: "nat \<Rightarrow> 'w guarding \<Rightarrow> ('w watchdog, bool) act" where
  "watchdog_settle fuel g =
     bnd (wd (gd_interrupted g)) (\<lambda>i.
     bnd (get (watch_passed i)) (\<lambda>passed.
     bnd (wd (gd_interrupted g)) (\<lambda>i.
     sqn (whenA i (upd (\<lambda>s. s\<lparr>wd_watch := late_cancel (wd_watch s)\<rparr>))) (
     bnd (get wd_recovered) (\<lambda>r.
     sqn (whenA (\<not> passed \<and> \<not> r) (recover_recorded fuel g)) (ret passed))))))"

definition watchdog_report :: "nat \<Rightarrow> 'w guarding \<Rightarrow> int \<Rightarrow> bool \<Rightarrow> ('w watchdog, int) act" where
  "watchdog_report fuel g report_write passed =
     handle
       (bnd (get (host_report g passed)) (\<lambda>packet.
        bnd (wd (until g 2)) (\<lambda>d.
        sqn (wd (write_bounded fuel (ipc_of (gd_proc g)) report_write (encode (io_float (gd_proc g)) packet) d
               (if passed then checkpoint_host g else ret ()))) (
        ret (if passed then 0 else 2)))))
       (\<lambda>_. bnd (get wd_recovered) (\<lambda>r.
          sqn (whenA (\<not> r) (handle (bnd (recover_once fuel g) (\<lambda>_. ret ())) (\<lambda>_. ret ()))) (ret 2)))"

definition watchdog_start :: "lease \<Rightarrow> 'w \<Rightarrow> 'w watchdog" where
  "watchdog_start l w = \<lparr> wd_world = w, wd_lease = l, wd_guest = l, wd_data = [], wd_closed = False, wd_recovered = False,
     wd_export = PNone, wd_guest_write = None, wd_stream_read = None, wd_ack_read = None, wd_child = None, wd_exit = None,
     wd_watch = [], wd_cleanup = [] \<rparr>"

definition watchdog_child :: "nat \<Rightarrow> 'w guarding \<Rightarrow> int \<Rightarrow> int \<Rightarrow> int \<Rightarrow> ('w watchdog, int) act" where
  "watchdog_child fuel g control_fd report_write ack_write =
     sqn (wd (close_except (ipc_of (gd_proc g)) ([control_fd, report_write, ack_write] @ extra_fds g @ gd_transport_fds g))) (
     sqn (wd (io_detach (gd_proc g))) (
     sqn (try_finally (handle (watchdog_body fuel g control_fd ack_write) (watchdog_failed fuel g)) (watchdog_cleanup fuel g)) (
     bnd (watchdog_settle fuel g) (watchdog_report fuel g report_write))))"

subsection \<open>The caller's side\<close>

definition check_owner :: "'w guarding \<Rightarrow> ('w, unit) act" where
  "check_owner g =
     sqn (ensure (\<not> attached g \<or> (case (gd_registration g, gd_admission g) of (Some a, Some b) \<Rightarrow> 3 \<le> a \<and> 3 \<le> b \<and> a \<noteq> b | _ \<Rightarrow> False))
            ''owner admission descriptors'') (
     sqn (case gd_absolute g of None \<Rightarrow> ret ()
          | Some d \<Rightarrow> bnd (io_now (gd_proc g)) (\<lambda>t. ensure (t < d) ''watchdog absolute deadline'')) (
     sqn (ensure (0 < gd_reap_seconds g \<and> gd_reap_seconds g \<le> 2) ''watchdog reap deadline'') (
     sqn (ensure (\<not> gd_defer g \<or> (attached g \<and> \<not> gd_recover g)) ''deferred recovery requires attached lifecycle owner and no callback'') (
     sqn (ensure (length (gd_transport_fds g) \<le> 1 \<and> list_all (\<lambda>fd. 3 \<le> fd \<and> fd \<notin> set (extra_fds g)) (gd_transport_fds g))
            ''explicit staging descriptor whitelist'') (
     sqn (ensure (0 < gd_cleanup_seconds g \<and> gd_cleanup_seconds g \<le> 25) ''transport cleanup deadline'') (
     sqn (ensure (0 < gd_recovery_seconds g \<and> gd_recovery_seconds g \<le> 120) ''recovery deadline'') (
     bnd (lft (lease_init (gd_nonce g) (gd_manifest g) (PInt 0) (gd_total g) (gd_silence g) (PStr ''host''))) (\<lambda>_. ret ()))))))))"

definition fork_watchdog :: "'w guarding \<Rightarrow> ('w, int \<times> int \<times> int \<times> int) act" where
  "fork_watchdog g =
     (let e = gd_proc g in
      sqn (check_owner g) (
      bnd (io_pipe e) (\<lambda>(control_read, control_write).
      bnd (io_pipe e) (\<lambda>(report_read, report_write).
      bnd (io_pipe e) (\<lambda>(ack_read, ack_write).
      bnd (on_error (io_fork e)
             (eachA (io_close e) [control_read, control_write, report_read, report_write, ack_read, ack_write])) (\<lambda>pid.
      sqn (io_close e control_read) (
      sqn (io_close e report_write) (
      sqn (io_close e ack_write) (
      ret (pid, control_write, report_read, ack_read))))))))))"

subsection \<open>The guest endpoint\<close>

fun serve_loop :: "nat \<Rightarrow> 'w ipc \<Rightarrow> int \<Rightarrow> int \<Rightarrow> rat \<Rightarrow> nat \<Rightarrow> ('w, unit) act" where
  "serve_loop 0 e reader output_fd deadline bytes = lft (Inl OutOfFuel)"
| "serve_loop (Suc n) e reader output_fd deadline bytes =
     bnd (io_now e) (\<lambda>t. sqn (ensure (t < deadline) ''guest report deadline'') (
     bnd (io_readable e [reader] (1 / 20)) (\<lambda>ready.
     if reader \<notin> set ready then serve_loop n e reader output_fd deadline bytes else
     bnd (io_read e reader (min 65536 (EXPORT_LIMIT - bytes + 1))) (\<lambda>raw.
     if raw = [] then ret () else
     sqn (ensure (bytes + length raw \<le> EXPORT_LIMIT) ''guest report overflow'') (
     sqn (write_bounded n e output_fd raw deadline (ret ())) (
     serve_loop n e reader output_fd deadline (bytes + length raw)))))))"

definition settle_supervisor :: "nat \<Rightarrow> 'w ipc \<Rightarrow> int \<Rightarrow> int \<Rightarrow> bool \<Rightarrow> ('w, unit) act" where
  "settle_supervisor fuel e reader pid settled =
     sqn (io_close e reader) (
     whenA (\<not> settled)
       (sqn (handle_if (is_os_class ProcessLookupError) (io_kill e pid ''TERM'') (\<lambda>_. ret ())) (
        bnd (io_now e) (\<lambda>t.
        bnd (wait_child fuel e pid (t + CLEANUP_SECONDS + 3)) (\<lambda>status.
        ensure (status \<noteq> None) ''supervisor cleanup unconfirmed; host recovery required'')))))"

text \<open>\<open>status\<close> is set by the last statements of the body, which then returns it.\<close>

definition serve_body :: "nat \<Rightarrow> 'w ipc \<Rightarrow> int \<Rightarrow> int \<Rightarrow> int \<Rightarrow> rat \<Rightarrow> ('w, int) act" where
  "serve_body fuel e reader output_fd pid deadline =
     sqn (serve_loop fuel e reader output_fd deadline 0) (
     bnd (wait_child fuel e pid deadline) (\<lambda>status.
     sqn (ensure (status \<noteq> None) ''guest supervisor reap deadline'') (ret (the status))))"

text \<open>The arguments that \<open>serve_preparation\<close> leaves at their defaults.\<close>

definition guest_forking :: "'w forking \<Rightarrow> int \<Rightarrow> int \<Rightarrow> 'w forking" where
  "guest_forking f control_fd ack_fd = f\<lparr>fk_control := Some control_fd, fk_ack := Some ack_fd, fk_mailbox := None,
     fk_register_supervisor := None, fk_register_worker := None, fk_absolute := None,
     fk_cleanup_seconds := CLEANUP_SECONDS, fk_retire := None\<rparr>"

definition serve_preparation :: "nat \<Rightarrow> 'w forking \<Rightarrow> int \<Rightarrow> int \<Rightarrow> int \<Rightarrow> ('w, int) act" where
  "serve_preparation fuel f control_fd output_fd ack_fd =
     (let e = ipc_of (io f) in
      bnd (fork_supervisor fuel (guest_forking f control_fd ack_fd)) (\<lambda>(pid, writer, reader).
      sqn (ensure (writer = None) ''transport must not own guest renewal writer'') (
      sqn (io_close e control_fd) (
      sqn (io_close e ack_fd) (
      bnd (io_now e) (\<lambda>t.
      case finite_num (fk_total f) of None \<Rightarrow> lft (Inl (TypeError ''unsupported operand type''))
      | Some total_seconds \<Rightarrow>
          bnd (trial (serve_body fuel e reader output_fd pid (t + total_seconds + CLEANUP_SECONDS + 3))) (\<lambda>r.
          sqn (settle_supervisor fuel e reader pid (\<not> isl r)) (lft r))))))))"

end
