(* ===== verification/Capacity.thy ===== *)
theory Capacity
  imports Cgroups Rpc
begin

text \<open>
  The review of a capacity declaration (\<open>sw_i5_preparation_plan.py\<close>): every write surface
  is charged to one domain, inside its whole device (D) or as an extra hard reserve (H), and
  D plus H must fit the cap (C) of the domain.  All numbers are Python integers.  The second
  part is the time budget of the lifecycle (\<open>sw_i5_preparation_lifecycle.Budget\<close>).
\<close>

subsection \<open>Constants\<close>

definition NODE_BYTES :: int where "NODE_BYTES = 768 * RES_MIB - sum_list (map snd CAPS)"

definition FLAGS :: "string list" where
  "FLAGS = [''authorized'', ''install_authorized'', ''i5_ready'', ''physical_verified'']"

definition EXECUTION_BLOCKERS :: "string list" where
  "EXECUTION_BLOCKERS = [''review-only: no current execution authorization'',
     ''actual path ancestry, no-symlink and independent identity readback unverified'',
     ''actual kernel limits, complete physical backing and rejection behavior unverified'',
     ''real Linux/UTM initialization, recovery and new execution-source contract absent'']"

definition COMMON_SURFACES :: "string list" where
  "COMMON_SURFACES = [''guest_root_var'', ''efi_firmware'', ''guest_swap'', ''guest_system_tmpfs'', ''utm_qemu_logs_state'',
     ''host_swap_crash'', ''host_jxa_source'', ''host_evidence_export_source'', ''host_evidence_retained'']"

definition PREP_SURFACES :: "string list" where
  "PREP_SURFACES = COMMON_SURFACES @ [''readonly_input'', ''input_media_creation'', ''input_media_staging_copy'',
     ''preparation_work'', ''preparation_result'', ''host_backing_metadata'']"

definition I5_SURFACES :: "string list" where
  "I5_SURFACES = COMMON_SURFACES @ [''build'', ''daemon'', ''containerd'', ''builder'', ''evidence'', ''diagnostic'', ''node_tmpfs''] @
     map (\<lambda>(d, _). ''host_backing_'' @ d) CAPS"

definition PREP_CAPS :: "(string \<times> int) list" where
  "PREP_CAPS = map (\<lambda>(d, n). (d, int n)) STORAGE @ [(''host_retention'', 32 * RES_MIB)]"

definition PREP_OWNERS :: "(string \<times> string) list" where
  "PREP_OWNERS = [(''readonly_input'', ''input''), (''preparation_work'', ''work''), (''preparation_result'', ''result''),
     (''host_evidence_export_source'', ''host_retention''), (''host_evidence_retained'', ''host_retention'')]"

definition I5_OWNERS :: "(string \<times> string) list" where
  "I5_OWNERS = [(''build'', ''build''), (''daemon'', ''daemon''), (''containerd'', ''daemon''), (''builder'', ''daemon''),
     (''evidence'', ''evidence''), (''diagnostic'', ''diagnostic''), (''node_tmpfs'', ''node_tmpfs''),
     (''host_jxa_source'', ''diagnostic''), (''host_evidence_export_source'', ''diagnostic''),
     (''host_evidence_retained'', ''evidence'')] @ map (\<lambda>(d, _). (''host_backing_'' @ d, d)) CAPS"

definition HARD_MECHANISMS :: "(string \<times> string) list" where
  "HARD_MECHANISMS = [(''fixed-block'', ''fixed-block-device''), (''quota-filesystem'', ''aggregate-filesystem-hard-quota''),
     (''host-quota'', ''aggregate-host-hard-quota''), (''noswap-tmpfs'', ''kernel-size-and-noswap''),
     (''readonly-media'', ''existing-readonly-bound-input'')]"

definition DISABLED :: "(string \<times> string) list" where
  "DISABLED = [(''guest_swap'', ''guest-all-swap-disabled''), (''host_swap_crash'', ''host-swap-and-crash-disabled'')]"

subsection \<open>Checks with a path in their message\<close>

definition check_at :: "bool \<Rightarrow> string \<Rightarrow> string \<Rightarrow> 'a res \<Rightarrow> 'a res" where
  "check_at ok path message k = require ok (path @ '': '' @ message) k"

lemma check_at_Inr [res_simps]: "check_at c p m k = Inr x \<longleftrightarrow> c \<and> k = Inr x"
  by (simp add: check_at_def require_Inr)

lemma check_at_cong [fundef_cong]: "c = c' \<Longrightarrow> (c' \<Longrightarrow> k = k') \<Longrightarrow> check_at c p m k = check_at c' p m k'"
  by (simp add: check_at_def require_def)

definition field_difference :: "pyval \<Rightarrow> string list \<Rightarrow> string list" where
  "field_difference v names =
     (let ks = map fst (dict_of v) in
      sort (remdups (filter (\<lambda>k. k \<notin> set names) ks @ filter (\<lambda>n. n \<notin> set ks) names)))"

definition fields_at :: "pyval \<Rightarrow> string list \<Rightarrow> string \<Rightarrow> unit res" where
  "fields_at v names path =
     check_at (is_dict v) path ''object required'' (
     check_at (has_fields v names) path (''unknown/missing fields '' @ repr_strs (field_difference v names)) (Inr ()))"

lemma fields_at_Inr [res_simps]: "fields_at v names path = Inr u \<longleftrightarrow> has_fields v names"
  by (auto simp: fields_at_def res_simps has_fields_def)

definition int_between :: "int \<Rightarrow> int \<Rightarrow> pyval \<Rightarrow> bool" where
  "int_between low high v = (is_int v \<and> low \<le> int_of v \<and> int_of v \<le> high)"

definition integer_at :: "pyval \<Rightarrow> string \<Rightarrow> int \<Rightarrow> int \<Rightarrow> unit res" where
  "integer_at v path low high = check_at (int_between low high v) path ''integer outside allowed range'' (Inr ())"

lemma integer_at_Inr [res_simps]: "integer_at v path low high = Inr u \<longleftrightarrow> int_between low high v"
  by (simp add: integer_at_def res_simps)

abbreviation max_int :: int where "max_int \<equiv> 2 ^ 63 - 1"

text \<open>\<open>decode(raw, scope)\<close>; what \<open>apt.decode\<close> raises is repeated under the scope.\<close>

definition rescope :: "string \<Rightarrow> exn \<Rightarrow> exn" where
  "rescope scope x = (case x of ValueError m \<Rightarrow> ValueError (scope @ '': '' @ m) | TypeError m \<Rightarrow> ValueError (scope @ '': '' @ m) | _ \<Rightarrow> x)"

definition plan_decode :: "string \<Rightarrow> string \<Rightarrow> pyval res" where
  "plan_decode raw scope =
     (case check_at (length raw \<le> 256 * 1024) scope ''JSON byte limit'' (bindE (utf8 raw) (\<lambda>s. decode_text s (256 * 1024))) of
        Inl x \<Rightarrow> Inl (rescope scope x) | Inr v \<Rightarrow> Inr v)"

definition plan_binding :: "pyval \<Rightarrow> pyval \<Rightarrow> pyval \<Rightarrow> string \<Rightarrow> unit res" where
  "plan_binding v nonce manifest scope =
     check_at (fld v ''schema_version'' = PInt 1) (scope @ ''.schema_version'') ''unsupported schema'' (
     check_at (fld v ''scope'' = PStr scope) (scope @ ''.scope'') ''wrong scope'' (
     check_at (nonce_ok nonce \<and> fld v ''nonce'' = nonce) (scope @ ''.nonce'') ''nonce binding'' (
     check_at (fld v ''uuid'' = PStr UUID) (scope @ ''.uuid'') ''UUID binding'' (
     check_at (digest manifest \<and> fld v ''manifest_sha256'' = manifest) (scope @ ''.manifest_sha256'') ''manifest binding'' (
     check_at (fld v ''kind'' = PStr ''synthetic'' \<or> fld v ''kind'' = PStr ''offline-candidate'') (scope @ ''.kind'') ''offline kind required'' (
     eachE (\<lambda>name. check_at (fld v name = PBool False) (scope @ ''.'' @ name) ''review-only flag must be false'' (Inr ())) FLAGS))))))"

text \<open>\<open>re.fullmatch(r"[A-Za-z0-9_.:-]{1,n}", s)\<close>.\<close>

definition label_ok :: "nat \<Rightarrow> pyval \<Rightarrow> bool" where
  "label_ok n v = (is_str v \<and> 0 < length (str_of v) \<and> length (str_of v) \<le> n \<and>
     list_all (\<lambda>c. is_alnum c \<or> c \<in> set ''_.:-'') (str_of v))"

definition source_at :: "pyval \<Rightarrow> string \<Rightarrow> unit res" where
  "source_at v path =
     bindE (fields_at v [''kind'', ''reference''] path) (\<lambda>_.
     check_at (fld v ''kind'' = PStr ''synthetic'' \<or> fld v ''kind'' = PStr ''offline-declaration'') (path @ ''.kind'') ''offline source only'' (
     check_at (label_ok 160 (fld v ''reference'')) (path @ ''.reference'') ''source reference required'' (Inr ())))"

definition report :: "string \<Rightarrow> string list \<Rightarrow> pyval \<Rightarrow> pyval \<Rightarrow> (string \<times> pyval) list \<Rightarrow> pyval" where
  "report scope blockers nonce manifest extra = PDict
     ([(''schema_version'', PInt 1), (''scope'', PStr scope), (''review_only'', PBool True), (''review_passed'', PBool (blockers = [])),
       (''uuid'', PStr UUID), (''nonce'', nonce), (''manifest_sha256'', manifest),
       (''review_blockers'', PList (map PStr blockers)), (''execution_blockers'', PList (map PStr EXECUTION_BLOCKERS))] @
      map (\<lambda>name. (name, PBool False)) FLAGS @ extra)"

subsection \<open>Domains\<close>

record domain =
  dm_cap :: int
  dm_device :: int
  dm_surface :: int
  dm_extra :: int

type_synonym domains = "(string \<times> domain) list"

definition caps_of :: "bool \<Rightarrow> (string \<times> int option) list" where
  "caps_of prep = (if prep then map (\<lambda>(d, n). (d, Some n)) PREP_CAPS @ [(''environment'', None)]
     else map (\<lambda>(d, n). (d, Some n)) CAPS @ [(''node_tmpfs'', Some NODE_BYTES)])"

definition check_domain :: "bool \<Rightarrow> pyval \<Rightarrow> domains \<Rightarrow> string \<times> int option \<Rightarrow> domains res" where
  "check_domain prep table ds = (\<lambda>(name, fixed).
     let path = ''capacity.domains.'' @ name; row = fld table name; cap = int_of (fld row ''cap_bytes'');
         device = int_of (fld row ''guest_device_bytes'') in
     bindE (fields_at row [''cap_bytes'', ''guest_device_bytes''] path) (\<lambda>_.
     bindE (integer_at (fld row ''cap_bytes'') (path @ ''.cap_bytes'') 1 max_int) (\<lambda>_.
     bindE (integer_at (fld row ''guest_device_bytes'') (path @ ''.guest_device_bytes'') 0 max_int) (\<lambda>_.
     check_at (prep \<or> Some cap = fixed) (path @ ''.cap_bytes'') ''fixed I5 domain cap'' (
     check_at (prep \<or> (if name \<in> fst ` set CAPS then 0 < device else device = 0)) (path @ ''.guest_device_bytes'')
       ''whole guest device required for each disk domain only'' (
     check_at (\<not> prep \<or> (case fixed of None \<Rightarrow> True | Some n \<Rightarrow> cap \<le> n)) (path @ ''.cap_bytes'') ''preparation candidate ceiling'' (
     check_at (device \<le> cap) path ''device exceeds domain cap'' (
     Inr (ds @ [(name, \<lparr> dm_cap = cap, dm_device = device, dm_surface = 0, dm_extra = 0 \<rparr>)])))))))))"

subsection \<open>Surfaces\<close>

record ledger =
  lg_seen :: "string list"
  lg_blockers :: "string list"
  lg_domains :: domains

definition surface_fields :: "string list" where
  "surface_fields = [''owner_domain'', ''charge'', ''state'', ''logical_bytes'', ''copies'', ''peak_bytes'', ''hard_limit_bytes'',
     ''representation'', ''backing'', ''mechanism'', ''observation_source'']"

definition bound_fields :: "string list" where
  "bound_fields = [''logical_bytes'', ''copies'', ''peak_bytes'', ''hard_limit_bytes'']"

definition host_written :: "string \<Rightarrow> bool" where
  "host_written name = (startswith name ''host_'' \<or>
     name \<in> set [''utm_qemu_logs_state'', ''input_media_creation'', ''input_media_staging_copy''])"

definition device_payload :: "string list" where
  "device_payload = [''build'', ''daemon'', ''containerd'', ''builder'', ''evidence'', ''diagnostic'', ''readonly_input'']"

definition memory_reserves :: "string list" where
  "memory_reserves = [''node_tmpfs'', ''guest_system_tmpfs'', ''preparation_work'', ''preparation_result'']"

text \<open>Who owns the surface, how it is charged, and in which state it is.\<close>

definition check_charge :: "bool \<Rightarrow> domains \<Rightarrow> string \<Rightarrow> pyval \<Rightarrow> string \<Rightarrow> unit res" where
  "check_charge prep ds name row path =
     (let owners = (if prep then PREP_OWNERS else I5_OWNERS); owner = fld row ''owner_domain'' in
      check_at (is_str owner \<and> str_of owner \<in> fst ` set ds) (path @ ''.owner_domain'') ''explicit domain ownership required'' (
      check_at (case map_of owners name of None \<Rightarrow> True | Some d \<Rightarrow> owner = PStr d) (path @ ''.owner_domain'')
        ''fixed surface/domain ownership'' (
      check_at (\<not> prep \<or> name \<in> fst ` set owners \<or> owner = PStr ''environment'') (path @ ''.owner_domain'')
        ''complete system/host preparation budget required'' (
      check_at (fld row ''charge'' = PStr ''D'' \<or> fld row ''charge'' = PStr ''H'') (path @ ''.charge'') ''D or H required'' (
      check_at (\<not> host_written name \<or> fld row ''charge'' = PStr ''H'') (path @ ''.charge'')
        ''independent host writes must be extra reserves'' (
      check_at (name \<notin> set device_payload \<or> fld row ''charge'' = PStr ''D'') (path @ ''.charge'')
        ''guest payload belongs inside full device D'' (
      check_at (name \<notin> set memory_reserves \<or> fld row ''charge'' = PStr ''H'') (path @ ''.charge'')
        ''noswap memory reservation is outside disk D'' (
      check_at (fld row ''state'' \<in> set [PStr ''bounded'', PStr ''disabled'', PStr ''unknown'']) (path @ ''.state'') ''unknown state'' (
      Inr ())))))))))"

definition check_unknown :: "pyval \<Rightarrow> string \<Rightarrow> unit res" where
  "check_unknown row path =
     check_at (list_all (\<lambda>k. fld row k = PNone) (bound_fields @ [''representation'']) \<and> fld row ''backing'' = PStr ''unknown'' \<and>
               fld row ''mechanism'' = PStr ''unknown'') path ''unknown cannot be counted as zero or bounded'' (
     if fld row ''observation_source'' = PNone then Inr ()
     else source_at (fld row ''observation_source'') (path @ ''.observation_source''))"

definition disabled_ok :: "string \<Rightarrow> pyval \<Rightarrow> bool" where
  "disabled_ok name row = (case map_of DISABLED name of None \<Rightarrow> False | Some m \<Rightarrow>
     fld row ''mechanism'' = PStr m \<and> fld row ''backing'' = PStr ''disabled'' \<and>
     list_all (\<lambda>k. fld row k = PInt 0) bound_fields \<and> fld row ''representation'' = PNone)"

definition amount :: "pyval \<Rightarrow> string \<Rightarrow> int" where
  "amount row k = int_of (fld row k)"

definition mechanism_ok :: "pyval \<Rightarrow> bool" where
  "mechanism_ok row = (is_str (fld row ''backing'') \<and> (case map_of HARD_MECHANISMS (str_of (fld row ''backing'')) of
     None \<Rightarrow> False | Some m \<Rightarrow> fld row ''mechanism'' = PStr m))"

definition removeprefix_preparation :: "string \<Rightarrow> string" where
  "removeprefix_preparation name = removeprefix name ''preparation_''"

definition check_bounded :: "string list \<Rightarrow> string \<Rightarrow> pyval \<Rightarrow> string \<Rightarrow> unit res" where
  "check_bounded seen name row path =
     bindE (eachE (\<lambda>k. integer_at (fld row k) (path @ ''.'' @ k) 1 (if k = ''copies'' then 16 else max_int)) bound_fields) (\<lambda>_.
     check_at (amount row ''logical_bytes'' * amount row ''copies'' \<le> amount row ''peak_bytes'' \<and>
               amount row ''peak_bytes'' \<le> amount row ''hard_limit_bytes'') path ''independent copy peak/reserve undercount'' (
     check_at (label_ok 100 (fld row ''representation'')) (path @ ''.representation'') ''physical charge identity required'' (
     check_at (str_of (fld row ''representation'') \<notin> set seen) (path @ ''.representation'')
       ''duplicate representation; aggregate same representation in one surface'' (
     check_at (mechanism_ok row) path ''complete hard mechanism/backing required; sampling/logical limits insufficient'' (
     check_at (fld row ''backing'' \<noteq> PStr ''readonly-media'' \<or> name = ''readonly_input'') path
       ''readonly cannot cover new media or other write surfaces'' (
     check_at (name \<notin> set memory_reserves \<or> fld row ''backing'' = PStr ''noswap-tmpfs'') (path @ ''.backing'')
       ''bounded noswap memory required'' (
     check_at (name \<notin> set [''preparation_work'', ''preparation_result''] \<or>
               amount row ''hard_limit_bytes'' = int (the (map_of STORAGE (removeprefix_preparation name))))
       (path @ ''.hard_limit_bytes'') ''existing preparation tmpfs size must be fully reserved'' (
     check_at (name \<noteq> ''node_tmpfs'' \<or> amount row ''hard_limit_bytes'' = NODE_BYTES)
       (path @ ''.hard_limit_bytes'') ''fixed three-node 48 MiB'' (
     Inr ())))))))))"

definition charge_domain :: "bool \<Rightarrow> int \<Rightarrow> domain \<Rightarrow> domain" where
  "charge_domain inside n d = (if inside then d\<lparr>dm_surface := dm_surface d + n\<rparr> else d\<lparr>dm_extra := dm_extra d + n\<rparr>)"

definition charge_owner :: "domains \<Rightarrow> string \<Rightarrow> bool \<Rightarrow> int \<Rightarrow> domains" where
  "charge_owner ds owner inside n = map (\<lambda>(k, d). (k, if k = owner then charge_domain inside n d else d)) ds"

definition check_surface :: "bool \<Rightarrow> pyval \<Rightarrow> ledger \<Rightarrow> string \<Rightarrow> ledger res" where
  "check_surface prep table l name =
     (let path = ''capacity.surfaces.'' @ name; row = fld table name in
      bindE (fields_at row surface_fields path) (\<lambda>_.
      bindE (check_charge prep (lg_domains l) name row path) (\<lambda>_.
      if fld row ''state'' = PStr ''unknown'' then
        bindE (check_unknown row path) (\<lambda>_.
        Inr (l\<lparr>lg_blockers := lg_blockers l @ [path @ '': complete hard bound/backing unknown'']\<rparr>))
      else
        bindE (source_at (fld row ''observation_source'') (path @ ''.observation_source'')) (\<lambda>_.
        if fld row ''state'' = PStr ''disabled'' then
          check_at (disabled_ok name row) path ''only independently declared swap/crash disablement may charge zero'' (Inr l)
        else
          bindE (check_bounded (lg_seen l) name row path) (\<lambda>_.
          Inr (l\<lparr>lg_seen := lg_seen l @ [str_of (fld row ''representation'')],
                 lg_domains := charge_owner (lg_domains l) (str_of (fld row ''owner_domain'')) (fld row ''charge'' = PStr ''D'')
                   (amount row ''hard_limit_bytes'')\<rparr>))))))"

subsection \<open>The ledger\<close>

definition check_reserves :: "string \<times> domain \<Rightarrow> unit res" where
  "check_reserves = (\<lambda>(name, d).
     let path = ''capacity.domains.'' @ name in
     check_at (dm_surface d \<le> dm_device d) path ''surface reservations exceed whole device D'' (
     check_at (dm_device d + dm_extra d \<le> dm_cap d) path ''whole guest device D plus extra hard reserves H exceeds C'' (Inr ())))"

definition total_cap :: "domains \<Rightarrow> int" where
  "total_cap ds = sum_list (map (dm_cap \<circ> snd) ds)"

definition check_ledger :: "bool \<Rightarrow> pyval \<Rightarrow> ledger res" where
  "check_ledger prep v =
     (let names = (if prep then PREP_SURFACES else I5_SURFACES); caps = caps_of prep; envelope = int_of (fld v ''envelope_bytes'') in
      bindE (fields_at (fld v ''domains'') (map fst caps) ''capacity.domains'') (\<lambda>_.
      bindE (fields_at (fld v ''surfaces'') names ''capacity.surfaces'') (\<lambda>_.
      bindE (foldE (check_domain prep (fld v ''domains'')) [] caps) (\<lambda>ds.
      bindE (integer_at (fld v ''envelope_bytes'') ''capacity.envelope_bytes'' 1 max_int) (\<lambda>_.
      check_at (total_cap ds \<le> envelope) ''capacity.envelope_bytes'' ''all domains must fit explicit complete envelope'' (
      check_at (prep \<or> envelope = 768 * RES_MIB) ''capacity.envelope_bytes'' ''fixed I5 768 MiB envelope'' (
      bindE (foldE (check_surface prep (fld v ''surfaces'')) \<lparr> lg_seen = [], lg_blockers = [], lg_domains = ds \<rparr> names) (\<lambda>l.
      bindE (eachE check_reserves (lg_domains l)) (\<lambda>_. Inr l)))))))))"

definition domain_value :: "domain \<Rightarrow> pyval" where
  "domain_value d = PDict [(''cap_bytes'', PInt (dm_cap d)), (''guest_device_bytes'', PInt (dm_device d)),
     (''device_surface_reserve_bytes'', PInt (dm_surface d)), (''extra_reserve_bytes'', PInt (dm_extra d))]"

definition capacity_fields :: "string list" where
  "capacity_fields = [''schema_version'', ''scope'', ''kind'', ''uuid'', ''nonce'', ''manifest_sha256'', ''profile'', ''domains'',
     ''surfaces'', ''envelope_bytes''] @ FLAGS"

definition validate_capacity :: "string \<Rightarrow> string \<Rightarrow> pyval \<Rightarrow> pyval \<Rightarrow> pyval res" where
  "validate_capacity raw profile nonce manifest =
     bindE (plan_decode raw ''i5-review-capacity'') (\<lambda>v.
     bindE (fields_at v capacity_fields ''capacity'') (\<lambda>_.
     bindE (plan_binding v nonce manifest ''i5-review-capacity'') (\<lambda>_.
     check_at ((profile = ''preparation'' \<or> profile = ''i5-runtime'') \<and> fld v ''profile'' = PStr profile) ''capacity.profile'' ''profile mismatch'' (
     bindE (check_ledger (profile = ''preparation'') v) (\<lambda>l.
     Inr (report ''i5-review-capacity-report'' (lg_blockers l) nonce manifest
       [(''profile'', PStr profile), (''domains'', PDict (map (\<lambda>(k, d). (k, domain_value d)) (lg_domains l))),
        (''envelope_bytes'', fld v ''envelope_bytes''), (''budget_status'', PStr ''review-declaration-only'')]))))))"

subsection \<open>The time budget of the lifecycle\<close>

definition PHASE_CAPS :: "(string \<times> rat) list" where
  "PHASE_CAPS = [(''init'', 6), (''start'', 60), (''readiness'', 60), (''active'', 600), (''watchdog_cleanup'', 25),
     (''watchdog_report'', 2), (''shutdown'', 120), (''persist'', 6), (''output'', 2), (''reap'', 2)]"

definition REAP_SLOTS :: "string list" where
  "REAP_SLOTS = [''evidence_init_abort'', ''start'', ''readiness'', ''watchdog_transport_kill'', ''watchdog'',
     ''transport_group'', ''shutdown'', ''evidence_persist'']"

record budget =
  bu_caps :: "(string \<times> rat) list"
  bu_total :: rat
  bu_silence :: rat
  bu_worst :: rat

definition cap :: "(string \<times> rat) list \<Rightarrow> string \<Rightarrow> rat" where
  "cap caps k = the (map_of caps k)"

text \<open>\<open>dict(CAPS, **caps)\<close>, and the number of a value that is one.\<close>

definition override :: "(string \<times> pyval) list \<Rightarrow> (string \<times> pyval) list" where
  "override caps = map (\<lambda>(k, n). (k, case map_of caps k of None \<Rightarrow> PFloat (Fin n) | Some v \<Rightarrow> v)) PHASE_CAPS"

definition number :: "pyval \<Rightarrow> rat" where
  "number v = (case finite_num v of None \<Rightarrow> 0 | Some q \<Rightarrow> q)"

definition set_active :: "rat \<Rightarrow> (string \<times> rat) list \<Rightarrow> (string \<times> rat) list" where
  "set_active n = map (\<lambda>(k, v). (k, if k = ''active'' then n else v))"

definition fixed_seconds :: "(string \<times> rat) list \<Rightarrow> rat" where
  "fixed_seconds caps =
     sum_list (map snd (filter (\<lambda>(k, v). k \<noteq> ''active'' \<and> k \<noteq> ''reap'') caps)) + of_nat (length REAP_SLOTS) * cap caps ''reap''"

definition budget_init :: "pyval \<Rightarrow> pyval \<Rightarrow> (string \<times> pyval) list \<Rightarrow> budget res" where
  "budget_init total_v silence_v caps_v =
     require (finite_num total_v \<noteq> None \<and> 0 < number total_v \<and> number total_v \<le> 900) ''lifecycle total budget'' (
     require (list_all (\<lambda>(k, _). k \<in> fst ` set PHASE_CAPS) caps_v) ''unknown lifecycle budget'' (
     let over = override caps_v; caps = map (\<lambda>(k, v). (k, number v)) over in
     require (list_all (\<lambda>(k, v). finite_num v \<noteq> None \<and> 0 < number v \<and> number v \<le> cap PHASE_CAPS k) over) ''lifecycle phase budget'' (
     require (6 < cap caps ''active'' \<and> finite_num silence_v \<noteq> None \<and> 0 < number silence_v \<and>
              number silence_v \<le> min 15 (cap caps ''active'')) ''lifecycle lease/work budget'' (
     let fixed = fixed_seconds caps; active = min (cap caps ''active'') (number total_v - fixed) in
     require (6 < active) ''insufficient lifecycle cleanup reserves'' (
     Inr \<lparr> bu_caps = set_active active caps, bu_total = number total_v, bu_silence = min (number silence_v) active,
           bu_worst = fixed + active \<rparr>)))))"

text \<open>\<open>tail\<close> calls itself for the later stages, down to \<open>persist\<close>.\<close>

definition tail_shutdown :: "budget \<Rightarrow> rat" where
  "tail_shutdown b = cap (bu_caps b) ''persist'' + cap (bu_caps b) ''output'' + 2 * cap (bu_caps b) ''reap''"

definition tail_active :: "budget \<Rightarrow> rat" where
  "tail_active b = cap (bu_caps b) ''watchdog_cleanup'' + cap (bu_caps b) ''watchdog_report'' + tail_shutdown b +
     cap (bu_caps b) ''shutdown'' + 3 * cap (bu_caps b) ''reap''"

definition tail :: "budget \<Rightarrow> string \<Rightarrow> rat" where
  "tail b stage =
     (let c = cap (bu_caps b) in
      if stage = ''init'' then c ''start'' + c ''readiness'' + c ''active'' + tail_active b + 3 * c ''reap''
      else if stage = ''start'' then c ''readiness'' + c ''active'' + tail_active b + 2 * c ''reap''
      else if stage = ''readiness'' then c ''active'' + tail_active b + c ''reap''
      else if stage = ''active'' then tail_active b
      else if stage = ''shutdown'' then tail_shutdown b
      else if stage = ''persist'' then c ''output'' + c ''reap''
      else 0)"

definition stage_deadline :: "budget \<Rightarrow> string \<Rightarrow> rat \<Rightarrow> rat \<Rightarrow> rat" where
  "stage_deadline b stage t absolute = min (t + cap (bu_caps b) stage) (absolute - tail b stage)"

end
