(* ===== verification/Staging.thy ===== *)
theory Staging
  imports Rpc
begin

text \<open>
  The bounded staging client (\<open>sw_i5_preparation_staging.StagingClient\<close>) and the adapter
  that stages one assembled source per call and runs it through the process bridge
  (\<open>assemble_jxa\<close>, \<open>JXAProcessRPC\<close>).  The client is a value of the state; an operation
  that raises still leaves the client it changed.
\<close>

subsection \<open>The client\<close>

definition HEADER_LIMIT :: nat where "HEADER_LIMIT = 2048"

text \<open>\<open>plan.assembled_source_bound\<close>.\<close>

definition assembled_source_bound :: "nat \<Rightarrow> nat" where
  "assembled_source_bound source_bytes = source_bytes + 6 * REQUEST_LIMIT + 4096"

record client =
  sc_fd :: int
  sc_root :: string
  sc_source_limit :: nat
  sc_binding :: "(string \<times> pyval) list"
  sc_failed :: bool
  sc_sequence :: int

definition client_init :: "int \<Rightarrow> string \<Rightarrow> pyval \<Rightarrow> nat \<Rightarrow> string \<Rightarrow> string \<Rightarrow> client res" where
  "client_init fd root_dir root_id source_limit nonce digest_v =
     require (3 \<le> fd \<and> 0 < source_limit \<and> source_limit \<le> assembled_source_bound (128 * 1024))
       ''explicit bound staging descriptor/limit'' (
     Inr \<lparr> sc_fd = fd, sc_root = root_dir, sc_source_limit = source_limit,
           sc_binding = [(''schema_version'', PInt 1), (''scope'', PStr ''i5-synthetic-staging''), (''uuid'', PStr UUID),
             (''nonce'', PStr nonce), (''manifest_sha256'', PStr digest_v), (''root_identity'', root_id)],
           sc_failed = False, sc_sequence = -1 \<rparr>)"

record 'w staging =
  sg_world :: 'w
  sg_client :: client

abbreviation sg :: "('w, 'a) act \<Rightarrow> ('w staging, 'a) act" where
  "sg \<equiv> zoom sg_world sg_world_update"

definition staged_path :: "client \<Rightarrow> int \<Rightarrow> string" where
  "staged_path c sequence = sc_root c @ ''/rpc-'' @ show_int sequence @ ''.js''"

definition staging_header ::
    "(string \<Rightarrow> string) \<Rightarrow> client \<Rightarrow> string \<Rightarrow> int \<Rightarrow> rat \<Rightarrow> string \<Rightarrow> pyval" where
  "staging_header dig c operation sequence deadline src = PDict (sc_binding c @
     [(''operation'', PStr operation), (''sequence'', PInt sequence), (''deadline'', time_value deadline),
      (''bytes'', PInt (int (length src))), (''sha256'', PStr (hexdigest dig src))])"

definition reply_fields :: "string list" where
  "reply_fields = [''schema_version'', ''scope'', ''uuid'', ''nonce'', ''manifest_sha256'', ''root_identity'', ''operation'',
     ''sequence'', ''path'', ''error'']"

text \<open>\<open>str(reply["error"])\<close> for the message; only its text for a string is modelled exactly.\<close>

definition check_reply :: "client \<Rightarrow> string \<Rightarrow> int \<Rightarrow> pyval \<Rightarrow> unit res" where
  "check_reply c operation sequence reply =
     bindE (check_fields reply reply_fields) (\<lambda>_.
     require (list_all (\<lambda>(k, v). typed_eq (fld reply k) v) (sc_binding c)) ''staging response identity binding'' (
     require (fld reply ''operation'' = PStr operation \<and> fld reply ''sequence'' = PInt sequence) ''staging response binding'' (
     require (fld reply ''error'' = PNone) (''staging worker: '' @ str_of (fld reply ''error'')) (
     require (fld reply ''path'' = PStr (staged_path c sequence)) ''staging bound source path'' (Inr ())))))"

definition exchange_body ::
    "nat \<Rightarrow> (string \<Rightarrow> string) \<Rightarrow> 'w ipc \<Rightarrow> string \<Rightarrow> int \<Rightarrow> rat \<Rightarrow> string \<Rightarrow> ('w staging, string) act" where
  "exchange_body fuel dig e operation sequence deadline src =
     bnd (get sg_client) (\<lambda>c.
     sqn (sg (send fuel e (sc_fd c) (encode (io_float e) (staging_header dig c operation sequence deadline src) @ src) deadline)) (
     bnd (sg (receive fuel e (sc_fd c) deadline 2048 True False)) (\<lambda>raw.
     bnd (lft (decode raw HEADER_LIMIT)) (\<lambda>reply.
     sqn (lft (check_reply c operation sequence reply)) (
     bnd (sg (io_now e)) (\<lambda>t. sqn (ensure (t < deadline) ''late staging response'') (
     ret (staged_path c sequence))))))))"

definition set_client :: "(client \<Rightarrow> client) \<Rightarrow> ('w staging, unit) act" where
  "set_client f = upd (\<lambda>s. s\<lparr>sg_client := f (sg_client s)\<rparr>)"

definition exchange ::
    "nat \<Rightarrow> (string \<Rightarrow> string) \<Rightarrow> 'w ipc \<Rightarrow> string \<Rightarrow> int \<Rightarrow> rat \<Rightarrow> string \<Rightarrow> ('w staging, string) act" where
  "exchange fuel dig e operation sequence deadline src =
     bnd (get sg_client) (\<lambda>c.
     sqn (ensure (\<not> sc_failed c) ''staging IPC previously failed; no retry'') (
     sqn (ensure (0 \<le> sequence \<and> sequence < 2 ^ 53 \<and> operation \<in> set [''stage'', ''clean'']) ''staging sequence/action'') (
     sqn (whenA (operation = ''stage'')
       (sqn (ensure (sc_sequence c < sequence \<and> 0 < length src \<and> length src \<le> sc_source_limit c)
               ''staging source reservation/sequence'')
            (set_client (\<lambda>c. c\<lparr>sc_sequence := sequence\<rparr>)))) (
     on_error (exchange_body fuel dig e operation sequence deadline src)
       (set_client (\<lambda>c. c\<lparr>sc_failed := True\<rparr>))))))"

definition stage :: "nat \<Rightarrow> (string \<Rightarrow> string) \<Rightarrow> 'w ipc \<Rightarrow> int \<Rightarrow> string \<Rightarrow> rat \<Rightarrow> ('w staging, string) act" where
  "stage fuel dig e sequence src deadline = exchange fuel dig e ''stage'' sequence deadline src"

definition clean :: "nat \<Rightarrow> (string \<Rightarrow> string) \<Rightarrow> 'w ipc \<Rightarrow> int \<Rightarrow> rat \<Rightarrow> ('w staging, string) act" where
  "clean fuel dig e sequence deadline = exchange fuel dig e ''clean'' sequence deadline []"

subsection \<open>The assembled source\<close>

definition jxa_source_ok :: "(string \<Rightarrow> string) \<Rightarrow> string \<Rightarrow> pyval \<Rightarrow> bool" where
  "jxa_source_ok dig src src_sha256 =
     (0 < length src \<and> length src \<le> 128 * 1024 \<and> digest src_sha256 \<and> PStr (hexdigest dig src) = src_sha256)"

definition jxa_prefix :: string where
  "jxa_prefix = ''var i5InternalRPC = (function () {'' @ nl"

definition jxa_suffix :: "string \<Rightarrow> string" where
  "jxa_suffix raw =
     nl @ ''return function () { preparationRPCStream(preparationFoundationIO(), '' @ quote raw @
     '', function () { return preparationNativeAPI(Application('' @ [CHR 0x27] @ ''com.utmapp.UTM'' @ [CHR 0x27] @ '')); }); };'' @ nl @
     ''}());'' @ nl @
     ''function run(argv) { if (argv.length !== 0) { throw new Error('' @ [CHR 0x27] @ ''internal RPC arguments'' @ [CHR 0x27] @
     ''); } i5InternalRPC(); }'' @ nl"

text \<open>Decoding the source and encoding the whole again leaves its bytes unchanged.\<close>

definition assemble_jxa :: "(string \<Rightarrow> string) \<Rightarrow> (rat \<Rightarrow> string) \<Rightarrow> string \<Rightarrow> pyval \<Rightarrow> pyval \<Rightarrow> string res" where
  "assemble_jxa dig fr src src_sha256 request =
     require (jxa_source_ok dig src src_sha256) ''JXA source digest'' (
     bindE (item request ''nonce'') (\<lambda>nonce. bindE (item request ''manifest_sha256'') (\<lambda>manifest.
     bindE (validate_request dig fr request nonce manifest) (\<lambda>raw.
     bindE (utf8 src) (\<lambda>_. Inr (jxa_prefix @ src @ jxa_suffix raw))))))"

subsection \<open>The staged call\<close>

record 'w stager =
  st_stage :: "int \<Rightarrow> string \<Rightarrow> rat \<Rightarrow> ('w, string) act"
  st_clean :: "int \<Rightarrow> rat \<Rightarrow> ('w, string) act"

record 'w jxa =
  jx_source :: string
  jx_source_sha256 :: pyval
  jx_nonce :: pyval
  jx_digest :: pyval
  jx_launcher :: "'w child_env option"
  jx_stager :: "'w stager option"

definition jxa_init ::
    "(string \<Rightarrow> string) \<Rightarrow> string \<Rightarrow> pyval \<Rightarrow> pyval \<Rightarrow> pyval \<Rightarrow> 'w child_env option \<Rightarrow> 'w stager option \<Rightarrow> 'w jxa res" where
  "jxa_init dig src src_sha256 nonce manifest launcher stager =
     require (jxa_source_ok dig src src_sha256) ''JXA source digest'' (
     bindE (binding_ok nonce manifest) (\<lambda>_.
     Inr \<lparr> jx_source = src, jx_source_sha256 = src_sha256, jx_nonce = nonce, jx_digest = manifest,
           jx_launcher = launcher, jx_stager = stager \<rparr>))"

definition with_stager :: "(string \<Rightarrow> string) \<Rightarrow> 'w jxa \<Rightarrow> 'w stager option \<Rightarrow> 'w jxa res" where
  "with_stager dig j stager = jxa_init dig (jx_source j) (jx_source_sha256 j) (jx_nonce j) (jx_digest j) (jx_launcher j) stager"

definition osascript_argv :: "string \<Rightarrow> string list" where
  "osascript_argv path = [''/usr/bin/osascript'', ''-l'', ''JavaScript'', path]"

text \<open>The verdict on what the body raised and what the cleanup raised.\<close>

fun staged_verdict :: "exn option \<Rightarrow> exn option \<Rightarrow> unit res" where
  "staged_verdict None None = Inr ()"
| "staged_verdict (Some x) None = Inl x"
| "staged_verdict (Some x) (Some y) =
     (if base_only x then Inl x
      else Inl (ValueError (''JXA RPC: '' @ exn_str x @ ''; source cleanup: '' @ exn_str y)))"
| "staged_verdict None (Some y) = Inl (ValueError (''JXA RPC source cleanup: '' @ exn_str y))"

text \<open>\<open>path\<close> is set once the source was staged; a failed \<open>stage\<close> has nothing to clean.\<close>

definition jxa_work ::
    "nat \<Rightarrow> (string \<Rightarrow> string) \<Rightarrow> (rat \<Rightarrow> string) \<Rightarrow> 'w child_env \<Rightarrow> 'w jxa \<Rightarrow> pyval \<Rightarrow> rat \<Rightarrow> rat \<Rightarrow> nat \<Rightarrow>
     string \<Rightarrow> ('w, string) act" where
  "jxa_work fuel dig fr q j request timeout deadline limit path =
     bnd (q_now q) (\<lambda>t.
     let remaining = deadline - t - min (1 / 4) (timeout / 4) in
     sqn (ensure (0 < remaining) ''RPC source staging deadline'') (
     bnd (lft (process_rpc_init (osascript_argv path) (jx_nonce j) (jx_digest j))) (\<lambda>p.
     process_rpc_call fuel dig fr q p request (time_value remaining) limit)))"

definition jxa_staged ::
    "nat \<Rightarrow> (string \<Rightarrow> string) \<Rightarrow> (rat \<Rightarrow> string) \<Rightarrow> 'w child_env \<Rightarrow> 'w stager \<Rightarrow> 'w jxa \<Rightarrow> pyval \<Rightarrow> rat \<Rightarrow> rat \<Rightarrow>
     nat \<Rightarrow> string \<Rightarrow> ('w, string) act" where
  "jxa_staged fuel dig fr q g j request timeout deadline limit src =
     (let sequence = int_of (fld request ''sequence'') in
      bnd (trial (st_stage g sequence src deadline)) (\<lambda>staged.
      case staged of Inl x \<Rightarrow> lft (Inl x)
      | Inr path \<Rightarrow>
          bnd (trial (jxa_work fuel dig fr q j request timeout deadline limit path)) (\<lambda>result.
          bnd (trial (st_clean g sequence deadline)) (\<lambda>cleaned.
          sqn (lft (staged_verdict (case result of Inl x \<Rightarrow> Some x | Inr _ \<Rightarrow> None) (case cleaned of Inl y \<Rightarrow> Some y | Inr _ \<Rightarrow> None))) (
          bnd (q_now q) (\<lambda>t. sqn (ensure (t < deadline) ''RPC source cleanup deadline'') (lft result)))))))"

text \<open>\<open>JXAProcessRPC.__call__\<close>; \<open>q0\<close> is the clock it reads before it looks at the launcher.\<close>

definition jxa_call ::
    "nat \<Rightarrow> (string \<Rightarrow> string) \<Rightarrow> (rat \<Rightarrow> string) \<Rightarrow> ('w, rat) act \<Rightarrow> 'w jxa \<Rightarrow> pyval \<Rightarrow> pyval \<Rightarrow> nat \<Rightarrow> ('w, string) act" where
  "jxa_call fuel dig fr q0 j request timeout_v limit =
     bnd q0 (\<lambda>started.
     sqn (ensure (jx_launcher j \<noteq> None) ''I5_NATIVE_RPC_INTERNAL_ONLY'') (
     sqn (ensure (jx_stager j \<noteq> None) ''I5_BOUND_STAGING_REQUIRED'') (
     sqn (ensure (budget_ok timeout_v) ''RPC process budget'') (
     sqn (lft (validate_request dig fr request (jx_nonce j) (jx_digest j))) (
     sqn (ensure (str_of (fld request ''action'') \<notin> set [''execute-native'', ''native-ready''])
            ''I5_NATIVE_LIFECYCLE_REAL_ADAPTER_STOP: use an explicitly injected offline RPC'') (
     bnd (lft (assemble_jxa dig fr (jx_source j) (jx_source_sha256 j) request)) (\<lambda>src.
     let timeout = the (finite_num timeout_v) in
     jxa_staged fuel dig fr (the (jx_launcher j)) (the (jx_stager j)) j request timeout (started + timeout) limit src)))))))"

end
