(* ===== verification/Evidence.thy ===== *)
theory Evidence
  imports NativeExport Mailbox
begin

text \<open>
  The evidence documents of \<open>sw_i5_preparation_evidence.py\<close>: the host report, the lifecycle
  record with its actions, the initialization record, and the attempt that binds them.
  SHA-256 is \<open>sha\<close>, the text of a float is \<open>fr\<close>.
\<close>

subsection \<open>Constants\<close>

definition STORE_LIMIT :: nat where "STORE_LIMIT = 4 * MIB"
definition RECEIPT_LIMIT :: nat where "RECEIPT_LIMIT = 8192"
definition PERSIST_SECONDS :: rat where "PERSIST_SECONDS = 6"
definition LIFECYCLE_LIMIT :: nat where "LIFECYCLE_LIMIT = 5 * 1024"
definition FIRST_ERROR_BYTES :: nat where "FIRST_ERROR_BYTES = 1536"
definition CLEANUP_BYTES :: nat where "CLEANUP_BYTES = 768"

subsection \<open>The host report\<close>

text \<open>A nonempty string of at most \<open>n\<close> characters, and a list of at most 16 of them.\<close>

definition error_text_ok :: "nat \<Rightarrow> pyval \<Rightarrow> bool" where
  "error_text_ok n v = (is_str v \<and> 0 < length (str_of v) \<and> length (str_of v) \<le> n)"

definition error_texts_ok :: "pyval \<Rightarrow> bool" where
  "error_texts_ok v = (is_list v \<and> length (list_of v) \<le> 16 \<and> list_all (error_text_ok 2048) (list_of v))"

definition host_report_fields :: "string list" where
  "host_report_fields = [''schema_version'', ''scope'', ''nonce'', ''uuid'', ''manifest_sha256'', ''evidence_kind'',
     ''i5_ready'', ''passed'', ''export'', ''watchdog'', ''transport_exit'', ''cleanup_errors'']"

definition recovery_ok :: "pyval \<Rightarrow> bool" where
  "recovery_ok r = (is_dict r \<and> is_bool (get_or r ''stopped'' PNone) \<and> get_or r ''passed'' (PBool False) = PBool False \<and>
     get_or r ''i5_ready'' (PBool False) = PBool False)"

definition host_expected :: "pyval \<Rightarrow> bool" where
  "host_expected v = (let watch = fld v ''watchdog'' in
     fld watch ''transport_complete'' = PBool True \<and> fld watch ''failure'' = PNone \<and> fld watch ''recovery'' = PNone \<and>
     fld v ''transport_exit'' = PInt 0 \<and> list_of (fld v ''cleanup_errors'') = [])"

text \<open>The export of the report, when it carries one.\<close>

definition host_export :: "(string \<Rightarrow> string) \<Rightarrow> (rat \<Rightarrow> string) \<Rightarrow> pyval \<Rightarrow> string \<Rightarrow> string \<Rightarrow> pyval res" where
  "host_export sha fr v nonce manifest =
     (if fld v ''export'' = PNone then Inr PNone
      else validate_export sha fr (encode fr (fld v ''export'')) nonce manifest)"

definition validate_host_report :: "(string \<Rightarrow> string) \<Rightarrow> (rat \<Rightarrow> string) \<Rightarrow> string \<Rightarrow> string \<Rightarrow> string \<Rightarrow> pyval res" where
  "validate_host_report sha fr raw nonce manifest =
     bindE (decode raw HOST_REPORT_LIMIT) (\<lambda>v.
     bindE (check_fields v host_report_fields) (\<lambda>_.
     require (fld v ''schema_version'' = PInt 1 \<and> fld v ''scope'' = PStr ''i5-preparation-host-report'' \<and>
              fld v ''uuid'' = PStr UUID \<and> fld v ''nonce'' = PStr nonce \<and> fld v ''manifest_sha256'' = PStr manifest \<and>
              fld v ''evidence_kind'' = PStr ''synthetic'' \<and> fld v ''i5_ready'' = PBool False \<and> is_bool (fld v ''passed''))
       ''host report binding'' (
     require ((fld v ''transport_exit'' = PNone \<or> is_int (fld v ''transport_exit'')) \<and> error_texts_ok (fld v ''cleanup_errors''))
       ''host cleanup fields'' (
     let watch = fld v ''watchdog'' in
     bindE (check_fields watch [''transport_complete'', ''failure'', ''recovery'', ''i5_ready'']) (\<lambda>_.
     require (is_bool (fld watch ''transport_complete'') \<and> fld watch ''i5_ready'' = PBool False \<and>
              (fld watch ''failure'' = PNone \<or> error_text_ok 2048 (fld watch ''failure''))) ''watchdog fields'' (
     require (fld watch ''recovery'' = PNone \<or> recovery_ok (fld watch ''recovery'')) ''recovery cannot grant success'' (
     bindE (host_export sha fr v nonce manifest) (\<lambda>exported.
     require (fld watch ''transport_complete'' = PBool True \<longrightarrow> exported \<noteq> PNone \<and> truthy (fld exported ''passed''))
       ''complete transport requires valid export'' (
     require (fld v ''passed'' = PBool (host_expected v) \<and>
              (host_expected v \<or> truthy (fld watch ''failure'') \<or> truthy (fld v ''cleanup_errors'') \<or> fld v ''transport_exit'' \<noteq> PInt 0))
       ''contradictory host result'' (Inr v))))))))))"

definition payload_fingerprint :: "(string \<Rightarrow> string) \<Rightarrow> string \<Rightarrow> pyval" where
  "payload_fingerprint sha raw = PDict [(''bytes'', PInt (int (length raw))), (''sha256'', PStr (sha raw))]"

subsection \<open>The lifecycle record\<close>

definition ACTION_STATUS :: "(string \<times> string) list" where
  "ACTION_STATUS = [(''start'', ''started''), (''readiness'', ''ready''), (''shutdown'', ''stopped'')]"

definition action_result_fields :: "string list" where
  "action_result_fields = [''schema_version'', ''scope'', ''uuid'', ''nonce'', ''manifest_sha256'', ''action'', ''mode'', ''status'', ''forced_stop'']"

text \<open>\<open>action\<close> is one of the three; \<open>mode\<close> is \<open>None\<close> when any mode will do.\<close>

definition validate_action_result :: "pyval \<Rightarrow> string \<Rightarrow> string \<Rightarrow> string \<Rightarrow> string option \<Rightarrow> pyval res" where
  "validate_action_result v nonce manifest action mode =
     bindE (check_fields v action_result_fields) (\<lambda>_.
     require (fld v ''schema_version'' = PInt 1 \<and> fld v ''scope'' = PStr ''i5-preparation-lifecycle-action-result'' \<and>
              fld v ''uuid'' = PStr UUID \<and> fld v ''nonce'' = PStr nonce \<and> fld v ''manifest_sha256'' = PStr manifest \<and>
              fld v ''action'' = PStr action \<and> map_of ACTION_STATUS action = Some (str_of (fld v ''status'')) \<and> is_str (fld v ''status'') \<and>
              is_bool (fld v ''forced_stop'') \<and> (action = ''shutdown'' \<or> fld v ''forced_stop'' = PBool False) \<and>
              fld v ''mode'' \<in> set (if action = ''shutdown'' then [PStr ''normal'', PStr ''recovery''] else [PStr ''work'']) \<and>
              (case mode of None \<Rightarrow> True | Some m \<Rightarrow> fld v ''mode'' = PStr m)) ''lifecycle action binding/status'' (Inr v))"

definition lifecycle_fields :: "string list" where
  "lifecycle_fields = [''schema_version'', ''scope'', ''uuid'', ''nonce'', ''manifest_sha256'', ''evidence_kind'', ''i5_ready'',
     ''total_seconds'', ''attempt_ready'', ''start_attempted'', ''start'', ''readiness'', ''shutdown_attempted'', ''shutdown'',
     ''transport_registered'', ''sessions_reaped'', ''frozen'', ''first_failure'', ''failure_truncated'', ''cleanup_errors'',
     ''cleanup_truncated'', ''passed'']"

definition lifecycle_flags :: "string list" where
  "lifecycle_flags = [''attempt_ready'', ''start_attempted'', ''shutdown_attempted'', ''transport_registered'', ''sessions_reaped'',
     ''frozen'', ''passed'', ''failure_truncated'', ''cleanup_truncated'']"

definition check_actions :: "pyval \<Rightarrow> string \<Rightarrow> string \<Rightarrow> unit res" where
  "check_actions v nonce manifest =
     eachE (\<lambda>action. if fld v action = PNone then Inr ()
       else bindE (validate_action_result (fld v action) nonce manifest action None) (\<lambda>_. Inr ()))
       [''start'', ''readiness'', ''shutdown'']"

text \<open>A flag of the record, and whether an action of it has a result.\<close>

definition flag :: "pyval \<Rightarrow> string \<Rightarrow> bool" where
  "flag v k = (fld v k = PBool True)"

definition given :: "pyval \<Rightarrow> string \<Rightarrow> bool" where
  "given v k = (fld v k \<noteq> PNone)"

definition no_cleanup_errors :: "pyval \<Rightarrow> bool" where
  "no_cleanup_errors v = (list_of (fld v ''cleanup_errors'') = [])"

definition lifecycle_ordered :: "pyval \<Rightarrow> bool \<Rightarrow> bool" where
  "lifecycle_ordered v host_passed =
     ((flag v ''start_attempted'' \<or> (\<not> given v ''start'' \<and> \<not> given v ''readiness'' \<and> \<not> flag v ''shutdown_attempted'' \<and>
         \<not> flag v ''transport_registered'')) \<and>
      (\<not> flag v ''start_attempted'' \<or> flag v ''attempt_ready'') \<and>
      (given v ''start'' \<or> \<not> given v ''readiness'') \<and>
      (\<not> flag v ''transport_registered'' \<or> given v ''readiness'') \<and>
      (flag v ''shutdown_attempted'' \<or> \<not> given v ''shutdown'') \<and>
      flag v ''shutdown_attempted'' = flag v ''start_attempted'' \<and>
      (\<not> host_passed \<or> (flag v ''transport_registered'' \<and> given v ''start'' \<and> given v ''readiness'')) \<and>
      flag v ''sessions_reaped'' = (no_cleanup_errors v \<and> \<not> flag v ''cleanup_truncated''))"

definition lifecycle_stopped :: "pyval \<Rightarrow> bool" where
  "lifecycle_stopped v = (given v ''shutdown'' \<and> fld (fld v ''shutdown'') ''mode'' = PStr ''normal'' \<and>
     \<not> truthy (fld (fld v ''shutdown'') ''forced_stop''))"

definition lifecycle_expected :: "pyval \<Rightarrow> bool \<Rightarrow> bool" where
  "lifecycle_expected v host_passed =
     (host_passed \<and> flag v ''attempt_ready'' \<and> flag v ''start_attempted'' \<and> given v ''start'' \<and> given v ''readiness'' \<and>
      flag v ''shutdown_attempted'' \<and> lifecycle_stopped v \<and> flag v ''transport_registered'' \<and> flag v ''sessions_reaped'' \<and>
      \<not> given v ''first_failure'' \<and> no_cleanup_errors v \<and> \<not> flag v ''cleanup_truncated'')"

definition validate_lifecycle :: "(rat \<Rightarrow> string) \<Rightarrow> pyval \<Rightarrow> string \<Rightarrow> string \<Rightarrow> bool \<Rightarrow> pyval res" where
  "validate_lifecycle fr v nonce manifest host_passed =
     bindE (check_fields v lifecycle_fields) (\<lambda>_.
     require (fld v ''schema_version'' = PInt 1 \<and> fld v ''scope'' = PStr ''i5-preparation-lifecycle'' \<and> fld v ''uuid'' = PStr UUID \<and>
              fld v ''nonce'' = PStr nonce \<and> fld v ''manifest_sha256'' = PStr manifest \<and> fld v ''evidence_kind'' = PStr ''synthetic'' \<and>
              fld v ''i5_ready'' = PBool False \<and> flag v ''frozen'' \<and>
              (case finite_num (fld v ''total_seconds'') of None \<Rightarrow> False | Some q \<Rightarrow> 0 < q \<and> q \<le> 900) \<and>
              list_all (\<lambda>k. is_bool (fld v k)) lifecycle_flags) ''lifecycle fields/binding'' (
     require (\<not> given v ''first_failure'' \<or> error_text_ok 2048 (fld v ''first_failure'')) ''lifecycle first failure'' (
     require (error_texts_ok (fld v ''cleanup_errors'')) ''lifecycle cleanup errors'' (
     require (length (encode fr v) \<le> LIFECYCLE_LIMIT \<and> length (encode fr (fld v ''first_failure'')) \<le> FIRST_ERROR_BYTES \<and>
              length (encode fr (fld v ''cleanup_errors'')) \<le> CLEANUP_BYTES \<and>
              (\<not> flag v ''failure_truncated'' \<or> (given v ''first_failure'' \<and> endswith (str_of (fld v ''first_failure'')) '' [truncated]'')))
       ''lifecycle diagnostic byte limits'' (
     bindE (check_actions v nonce manifest) (\<lambda>_.
     require (lifecycle_ordered v host_passed) ''lifecycle attempt ordering'' (
     require (\<not> given v ''shutdown'' \<or> fld (fld v ''shutdown'') ''mode'' \<noteq> PStr ''normal'' \<or> host_passed) ''normal stop requires host success'' (
     require (fld v ''passed'' = PBool (lifecycle_expected v host_passed) \<and>
              (lifecycle_expected v host_passed \<or> truthy (fld v ''first_failure'') \<or> truthy (fld v ''cleanup_errors'')))
       ''lifecycle passed/failure contradiction'' (Inr v)))))))))"

subsection \<open>The initialization record\<close>

definition initialization_fields :: "string list" where
  "initialization_fields = [''schema_version'', ''scope'', ''kind'', ''uuid'', ''nonce'', ''manifest_sha256'', ''plan_sha256'',
     ''ledger_sha256'', ''source_sha256'', ''host_ready'', ''guest_ready'', ''guest_cleanup'', ''host_cleanup'', ''objects'',
     ''registry_sha256'', ''registrations'', ''pending'', ''pending_objects'', ''authorized'', ''install_authorized'',
     ''physical_verified'', ''i5_ready'']"

definition HOST_ROLES :: "string list" where
  "HOST_ROLES = [''host_jxa_root'', ''host_evidence_parent'', ''host_attempt'']"

definition GUEST_ROLES :: "string list" where
  "GUEST_ROLES = [''guest_root'', ''work'', ''result'', ''cgroup_parent'', ''cgroup_supervisor'', ''cgroup_worker'', ''control'',
     ''lease'', ''ack'', ''readonly_input'']"

definition UNREGISTERED :: "string list" where
  "UNREGISTERED = [''host_evidence_parent'', ''host_attempt'', ''readonly_input'']"

text \<open>\<open>[device, inode]\<close>, and an integer in a range.\<close>

definition in_range :: "int \<Rightarrow> int \<Rightarrow> pyval \<Rightarrow> bool" where
  "in_range low high v = (is_int v \<and> low \<le> int_of v \<and> int_of v \<le> high)"

definition ident_ok :: "pyval \<Rightarrow> bool" where
  "ident_ok v = (is_list v \<and> length (list_of v) = 2 \<and> list_all (\<lambda>n. is_int n \<and> 0 < int_of n) (list_of v))"

text \<open>A pending row is \<open>[state, identity, size, sequence]\<close>.\<close>

definition row_at :: "pyval \<Rightarrow> nat \<Rightarrow> pyval" where
  "row_at row n = list_of row ! n"

definition row_ok :: "string \<Rightarrow> pyval \<Rightarrow> bool" where
  "row_ok role row =
     (is_list row \<and> length (list_of row) = 4 \<and> row_at row 0 \<in> set [PStr ''intent'', PStr ''bound''] \<and>
      in_range 0 (1024 * 1024) (row_at row 2) \<and>
      (if role = ''source'' then in_range 0 (2 ^ 53 - 1) (row_at row 3) else row_at row 3 = PNone) \<and>
      (if row_at row 0 = PStr ''intent'' then row_at row 1 = PNone else ident_ok (row_at row 1)))"

definition row_size_ok :: "pyval \<Rightarrow> string \<Rightarrow> pyval \<Rightarrow> bool" where
  "row_size_ok objects role row =
     ((if role = ''source'' then 0 < int_of (row_at row 2)
       else int_of (row_at row 2) = (if role = ''lease'' \<or> role = ''ack'' then 1024 else 0)) \<and>
      (role = ''source'' \<or> row_at row 0 \<noteq> PStr ''intent'' \<or> role \<notin> keys objects))"

definition check_row :: "pyval \<Rightarrow> string \<times> pyval \<Rightarrow> unit res" where
  "check_row objects = (\<lambda>(role, row).
     require (row_ok role row) ''initialization pending identity/state'' (
     require (row_size_ok objects role row) ''initialization pending size/binding contradiction'' (
     require (row_at row 0 = PStr ''bound'' \<and> role \<noteq> ''source'' \<longrightarrow> pyeq (fld objects role) (row_at row 1))
       ''initialization pending object identity mismatch'' (Inr ()))))"

definition identities_in :: "pyval \<Rightarrow> string list \<Rightarrow> pyval list" where
  "identities_in objects roles = map (fld objects) (filter (\<lambda>r. r \<in> keys objects) roles)"

definition cleanup_states :: "pyval list" where
  "cleanup_states = map PStr [''not-attempted'', ''complete'', ''failed'', ''unconfirmed'']"

definition cleaned :: "pyval \<Rightarrow> string \<Rightarrow> bool" where
  "cleaned v realm = (fld v realm = PStr ''complete'')"

definition initialization_ordered :: "pyval \<Rightarrow> pyval \<Rightarrow> bool" where
  "initialization_ordered v lifecycle =
     (let host = flag v ''host_ready''; guest = flag v ''guest_ready''; ks = keys (fld v ''objects'') in
      (\<not> host \<or> set HOST_ROLES \<subseteq> ks) \<and>
      (\<not> guest \<or> host \<and> ks = set (HOST_ROLES @ GUEST_ROLES)) \<and>
      (\<not> guest \<or> given lifecycle ''start'' \<and> given lifecycle ''readiness'') \<and>
      (\<not> flag lifecycle ''start_attempted'' \<or> host) \<and>
      (\<not> flag lifecycle ''transport_registered'' \<or> guest) \<and>
      (\<not> flag lifecycle ''passed'' \<or> host \<and> guest \<and> fld v ''pending'' = PInt 0 \<and> cleaned v ''guest_cleanup'' \<and> cleaned v ''host_cleanup''))"

definition initialization_binding_ok :: "pyval \<Rightarrow> string \<Rightarrow> string \<Rightarrow> bool" where
  "initialization_binding_ok v nonce manifest =
     (fld v ''schema_version'' = PInt 1 \<and> fld v ''scope'' = PStr ''i5-synthetic-initialization'' \<and> fld v ''kind'' = PStr ''synthetic'' \<and>
      fld v ''uuid'' = PStr UUID \<and> fld v ''nonce'' = PStr nonce \<and> fld v ''manifest_sha256'' = PStr manifest \<and>
      list_all (\<lambda>k. fld v k = PBool False) [''authorized'', ''install_authorized'', ''physical_verified'', ''i5_ready''] \<and>
      list_all (\<lambda>k. digest (fld v k)) [''plan_sha256'', ''ledger_sha256'', ''source_sha256'', ''registry_sha256''])"

definition initialization_counters_ok :: "pyval \<Rightarrow> bool" where
  "initialization_counters_ok v =
     (is_bool (fld v ''host_ready'') \<and> is_bool (fld v ''guest_ready'') \<and>
      fld v ''guest_cleanup'' \<in> set cleanup_states \<and> fld v ''host_cleanup'' \<in> set cleanup_states \<and>
      in_range 0 (2 ^ 53 - 1) (fld v ''registrations'') \<and> in_range 0 11 (fld v ''pending'') \<and>
      int_of (fld v ''pending'') \<le> int_of (fld v ''registrations''))"

definition registered_minimum :: "pyval \<Rightarrow> nat" where
  "registered_minimum objects = 2 * card (keys objects - set UNREGISTERED)"

definition validate_initialization ::
    "(string \<Rightarrow> string) \<Rightarrow> (rat \<Rightarrow> string) \<Rightarrow> pyval \<Rightarrow> string \<Rightarrow> string \<Rightarrow> pyval \<Rightarrow> pyval res" where
  "validate_initialization sha fr v nonce manifest lifecycle =
     bindE (check_fields v initialization_fields) (\<lambda>_.
     require (initialization_binding_ok v nonce manifest) ''synthetic initialization binding/STOP flags'' (
     require (initialization_counters_ok v) ''initialization state/counters'' (
     let objects = fld v ''objects''; pending = fld v ''pending_objects''; roles = HOST_ROLES @ GUEST_ROLES in
     require (is_dict objects \<and> keys objects \<subseteq> set roles \<and> list_all (\<lambda>(_, i). ident_ok i) (dict_of objects))
       ''initialization actual object identities'' (
     require (is_dict pending \<and> int (length (dict_of pending)) = int_of (fld v ''pending'') \<and>
              keys pending \<subseteq> set (roles @ [''source'']) - set UNREGISTERED) ''initialization pending role set'' (
     bindE (eachE (check_row objects) (dict_of pending)) (\<lambda>_.
     require ((\<not> cleaned v ''guest_cleanup'' \<or> keys pending \<inter> set GUEST_ROLES = {}) \<and>
              (\<not> cleaned v ''host_cleanup'' \<or> keys pending \<inter> {''host_jxa_root'', ''source''} = {}))
       ''completed realm cleanup retains pending objects'' (
     require (distinct (identities_in objects HOST_ROLES) \<and> distinct (identities_in objects GUEST_ROLES))
       ''initialization object identity aliases'' (
     require (initialization_ordered v lifecycle) ''initialization ordering/cleanup contradiction'' (
     require (\<not> cleaned v ''guest_cleanup'' \<or> \<not> cleaned v ''host_cleanup'' \<or> fld v ''pending'' = PInt 0)
       ''completed initialization cleanup has pending objects'' (
     require (int (registered_minimum objects) \<le> int_of (fld v ''registrations'') \<and>
              (fld v ''registrations'' \<noteq> PInt 0 \<or> fld v ''registry_sha256'' = PStr (sha [])))
       ''initialization registration/object contradiction'' (
     require (length (encode fr v) \<le> 2500) ''initialization evidence byte limit'' (Inr v))))))))))))"

subsection \<open>The attempt\<close>

definition binding_fields :: "string list" where
  "binding_fields = [''plan_sha256'', ''ledger_sha256'', ''source_sha256'']"

text \<open>\<open>binding\<close> is \<open>None\<close> (\<open>PNone\<close>) for an attempt without initialization.\<close>

definition attempt_value :: "string \<Rightarrow> string \<Rightarrow> pyval \<Rightarrow> pyval" where
  "attempt_value nonce manifest binding = PDict
     ([(''schema_version'', PInt (if binding = PNone then 1 else 2)), (''scope'', PStr ''i5-preparation-evidence-attempt''),
       (''nonce'', PStr nonce), (''uuid'', PStr UUID), (''manifest_sha256'', PStr manifest), (''i5_ready'', PBool False)] @
      (if binding = PNone then [] else [(''expected_receipt_version'', PInt 3), (''initialization_binding'', binding)]))"

definition validate_attempt :: "string \<Rightarrow> string \<Rightarrow> string \<Rightarrow> pyval res" where
  "validate_attempt raw nonce manifest =
     bindE (decode raw RECEIPT_LIMIT) (\<lambda>v.
     require (is_dict v \<and> (get_or v ''schema_version'' PNone = PInt 1 \<or> get_or v ''schema_version'' PNone = PInt 2))
       ''evidence attempt version'' (
     let binding = get_or v ''initialization_binding'' PNone; second = (fld v ''schema_version'' = PInt 2) in
     bindE (if second then
              bindE (check_fields binding binding_fields) (\<lambda>_.
              require (get_or v ''i5_ready'' PNone = PBool False \<and> list_all (\<lambda>(_, d). digest d) (dict_of binding) \<and>
                       get_or v ''expected_receipt_version'' PNone = PInt 3) ''initialization attempt source/version binding'' (Inr ()))
            else Inr ()) (\<lambda>_.
     require (pyeq v (attempt_value nonce manifest (if second then binding else PNone))) ''evidence attempt binding'' (Inr v))))"

end
