(* ===== verification/Plan.thy ===== *)
theory Plan
  imports Capacity Staging Evidence
begin

text \<open>
  The review of an initialization plan (\<open>sw_i5_preparation_plan.py\<close>): the fixed object
  roles with their paths, owners and modes, the stage allocations, the offline observations
  of every object, and the joint review of a plan and its capacity ledger.
\<close>

subsection \<open>Paths\<close>

definition lexical :: "pyval \<Rightarrow> string \<Rightarrow> path res" where
  "lexical v path =
     check_at (is_str v \<and> length (str_of v) \<le> 1024 \<and> fullmatch isolation_path_rx (str_of v)) path ''absolute lexical path required'' (
     let p = path_of (str_of v) in
     check_at (path_str p = str_of v \<and> str_of v \<noteq> ''/'' \<and> ''..'' \<notin> set (comps p)) path ''noncanonical path'' (Inr p))"

subsection \<open>Object specifications\<close>

record spec =
  sp_path :: path
  sp_realm :: string
  sp_kind :: string
  sp_uid :: int
  sp_gid :: int
  sp_mode :: int
  sp_creator :: string
  sp_consumers :: "string list"
  sp_stage :: string
  sp_policy :: string
  sp_bytes :: int
  sp_sha256 :: pyval
  sp_limits :: "(string \<times> string) list option"

type_synonym specs = "(string \<times> spec) list"

definition cleanup_policy :: "string \<Rightarrow> spec \<Rightarrow> string" where
  "cleanup_policy role s = (if role = ''host_attempt'' then ''retain-consumed-attempt''
     else if sp_policy s = ''bind'' then ''preserve-bound-input'' else ''identity-bound-after-reap'')"

definition limits_pyval :: "(string \<times> string) list option \<Rightarrow> pyval" where
  "limits_pyval x = (case x of None \<Rightarrow> PNone | Some l \<Rightarrow> PDict (map (\<lambda>(k, v). (k, PStr v)) l))"

definition spec_value :: "string \<Rightarrow> spec \<Rightarrow> (string \<times> pyval) list" where
  "spec_value role s = [(''path'', PStr (path_str (sp_path s))), (''realm'', PStr (sp_realm s)), (''kind'', PStr (sp_kind s)),
     (''uid'', PInt (sp_uid s)), (''gid'', PInt (sp_gid s)), (''mode'', PInt (sp_mode s)), (''creator'', PStr (sp_creator s)),
     (''consumers'', PList (map PStr (sp_consumers s))), (''before_stage'', PStr (sp_stage s)), (''policy'', PStr (sp_policy s)),
     (''readback'', PStr ''independent-before-consumption''), (''cleanup'', PStr (cleanup_policy role s)),
     (''bytes'', PInt (sp_bytes s)), (''sha256'', sp_sha256 s), (''limits'', limits_pyval (sp_limits s))]"

text \<open>The defaults of \<open>add\<close>: a fresh root-owned directory of mode 0700.\<close>

definition fresh :: "path \<Rightarrow> string \<Rightarrow> string \<Rightarrow> string list \<Rightarrow> string \<Rightarrow> spec" where
  "fresh p realm creator consumers before = \<lparr> sp_path = p, sp_realm = realm, sp_kind = ''directory'', sp_uid = 0, sp_gid = 0,
     sp_mode = 448, sp_creator = creator, sp_consumers = consumers, sp_stage = before, sp_policy = ''fresh'', sp_bytes = 0,
     sp_sha256 = PNone, sp_limits = None \<rparr>"

definition owned :: "pyval \<Rightarrow> spec \<Rightarrow> spec" where
  "owned v s = s\<lparr>sp_uid := int_of (fld v ''host_uid''), sp_gid := int_of (fld v ''host_gid'')\<rparr>"

definition host_specs :: "pyval \<Rightarrow> path \<Rightarrow> path \<Rightarrow> specs" where
  "host_specs v staging evidence =
     [(''host_jxa_root'', owned v (fresh staging ''host'' ''host-initializer'' [''rpc-stager''] ''start'')),
      (''host_evidence_parent'', owned v ((fresh evidence ''host'' ''preexisting-owner'' [''evidence-owner''] ''start'')\<lparr>sp_policy := ''bind''\<rparr>)),
      (''host_attempt'', owned v (fresh (path_join evidence (str_of (fld v ''nonce''))) ''host'' ''evidence-owner'' [''evidence-reader''] ''start''))]"

definition guest_fresh :: "path \<Rightarrow> string list \<Rightarrow> spec" where
  "guest_fresh p consumers = fresh p ''guest'' ''guest-initializer'' consumers ''transport-open''"

definition slot_spec :: "(string \<Rightarrow> string) \<Rightarrow> path \<Rightarrow> spec" where
  "slot_spec dig p = (guest_fresh p [''supervisor'', ''host-transport''])\<lparr>sp_kind := ''regular'', sp_mode := 384,
     sp_bytes := int SLOT_BYTES, sp_sha256 := PStr (hexdigest dig (zeros SLOT_BYTES))\<rparr>"

definition guest_specs :: "(string \<Rightarrow> string) \<Rightarrow> pyval \<Rightarrow> contract \<Rightarrow> path \<Rightarrow> specs" where
  "guest_specs dig v c input_path =
     [(''guest_root'', guest_fresh (ic_root c) [''namespace-setup'', ''supervisor'']),
      (''work'', guest_fresh (work_path c) [''namespace-setup'']), (''result'', guest_fresh (result_path c) [''namespace-setup''])] @
     map (\<lambda>(role, l). (''cgroup_'' @ role, (guest_fresh (role_path c role) [''supervisor''])\<lparr>sp_limits := Some l\<rparr>)) LIMITS @
     [(''control'', guest_fresh (path_join (ic_root c) ''control'') [''supervisor'', ''host-transport'']),
      (''lease'', slot_spec dig (path_join (path_join (ic_root c) ''control'') ''lease.slot'')),
      (''ack'', slot_spec dig (path_join (path_join (ic_root c) ''control'') ''ack.slot'')),
      (''readonly_input'', (fresh input_path ''guest'' ''preexisting-owner'' [''namespace-setup'', ''worker''] ''transport-open'')
         \<lparr>sp_policy := ''bind'', sp_kind := ''readonly-tree'', sp_mode := 365,
          sp_bytes := int_of (fld (fld v ''readonly_input'') ''bytes''), sp_sha256 := fld (fld v ''readonly_input'') ''sha256''\<rparr>)]"

definition edges :: "(string \<times> string) list" where
  "edges = [(''host_evidence_parent'', ''host_attempt''), (''guest_root'', ''work''), (''guest_root'', ''result''),
     (''guest_root'', ''control''), (''guest_root'', ''lease''), (''guest_root'', ''ack''), (''control'', ''lease''),
     (''control'', ''ack''), (''cgroup_parent'', ''cgroup_worker''), (''cgroup_parent'', ''cgroup_supervisor'')]"

definition check_pair :: "string \<times> spec \<Rightarrow> string \<times> spec \<Rightarrow> unit res" where
  "check_pair = (\<lambda>(a, left) (b, right).
     if a = b \<or> sp_realm left \<noteq> sp_realm right then Inr () else
     check_at (sp_path left \<noteq> sp_path right) (''plan.objects.'' @ b) (''path aliases '' @ a) (
     check_at (\<not> below (sp_path right) (sp_path left) \<or> (a, b) \<in> set edges) (''plan.objects.'' @ b)
       (''unexpected path overlap with '' @ a) (Inr ())))"

definition isolation_contract :: "pyval \<Rightarrow> path \<Rightarrow> contract res" where
  "isolation_contract v input_path =
     (case contract_parse (dumps_spaced (\<lambda>_. []) (PDict
         [(''schema_version'', PInt 1), (''scope'', PStr ''i5-preparation-isolation''), (''nonce'', fld v ''nonce''), (''uuid'', PStr UUID),
          (''manifest_sha256'', fld v ''manifest_sha256''),
          (''root'', PStr (''/run/radishlink-i5-preparation/'' @ str_of (fld v ''nonce''))),
          (''input'', PStr (path_str input_path)), (''uid'', fld v ''guest_uid''), (''gid'', fld v ''guest_gid''), (''i5_ready'', PBool False)]))
         (fld v ''nonce'') (fld v ''manifest_sha256'') of
       Inl (ValueError m) \<Rightarrow> Inl (ValueError (''plan.readonly_input: '' @ m)) | r \<Rightarrow> r)"

definition object_specs :: "(string \<Rightarrow> string) \<Rightarrow> pyval \<Rightarrow> specs res" where
  "object_specs dig v =
     bindE (lexical (fld v ''host_jxa_root'') ''plan.host_jxa_root'') (\<lambda>staging.
     bindE (lexical (fld v ''host_evidence_parent'') ''plan.host_evidence_parent'') (\<lambda>evidence.
     check_at (PStr (path_name staging) = fld v ''nonce'') ''plan.host_jxa_root'' ''fresh nonce staging root required'' (
     bindE (lexical (fld (fld v ''readonly_input'') ''path'') ''plan.readonly_input.path'') (\<lambda>input_path.
     bindE (isolation_contract v input_path) (\<lambda>c.
     let rows = host_specs v staging evidence @ guest_specs dig v c input_path in
     bindE (eachE (\<lambda>left. eachE (check_pair left) rows) rows) (\<lambda>_. Inr rows))))))"

subsection \<open>Stage allocations\<close>

definition INIT_TASKS :: "string list" where "INIT_TASKS = [''jxa_parent'', ''evidence_parent'', ''attempt_create_readback'']"
definition READY_TASKS :: "string list" where
  "READY_TASKS = [''guest_directories'', ''cgroup_hierarchy'', ''control_slots'', ''readonly_input'', ''independent_readback'']"
definition ACTIVE_ORDER :: "string list" where "ACTIVE_ORDER = [''open_lease'', ''open_ack'', ''execute_once'']"

definition phase_cap :: "string \<Rightarrow> int" where
  "phase_cap phase = \<lfloor>cap PHASE_CAPS phase\<rfloor>"

definition check_phase :: "pyval \<Rightarrow> string \<times> string list \<Rightarrow> unit res" where
  "check_phase v = (\<lambda>(phase, tasks).
     let row = fld v phase; path = ''plan.stage_allocations.'' @ phase in
     bindE (fields_at row tasks path) (\<lambda>_.
     bindE (eachE (\<lambda>task. integer_at (fld row task) (path @ ''.'' @ task) 1 (phase_cap phase)) tasks) (\<lambda>_.
     check_at (sum_list (map (\<lambda>(_, x). int_of x) (dict_of row)) \<le> phase_cap phase) path ''shared existing phase ceiling exceeded'' (Inr ()))))"

definition active_fields :: "string list" where
  "active_fields = [''order'', ''rpc_seconds'', ''close_seconds'', ''output_seconds'', ''work_seconds'', ''source_policy'']"

definition check_active :: "pyval \<Rightarrow> unit res" where
  "check_active a =
     (let path = ''plan.stage_allocations.active'' in
      bindE (fields_at a active_fields path) (\<lambda>_.
      check_at (pyeq (fld a ''order'') (PList (map PStr ACTIVE_ORDER))) (path @ ''.order'') ''slots open before single execute'' (
      bindE (eachE (\<lambda>(name, fixed). integer_at (fld a name) (path @ ''.'' @ name) 1 fixed)
        [(''rpc_seconds'', 2), (''close_seconds'', 4), (''output_seconds'', 2), (''work_seconds'', phase_cap ''active'' - 6)]) (\<lambda>_.
      check_at (fld a ''source_policy'' = PStr ''exclusive-per-rpc-create-readback-cleanup-inside-rpc-deadline'') (path @ ''.source_policy'')
        ''per-RPC staging obligation required'' (
      check_at (amount a ''work_seconds'' + amount a ''close_seconds'' + amount a ''output_seconds'' \<le> phase_cap ''active'') path
        ''active subwindows exceed existing phase'' (Inr ()))))))"

definition validate_stages :: "pyval \<Rightarrow> pyval res" where
  "validate_stages v =
     bindE (fields_at v [''init'', ''readiness'', ''active''] ''plan.stage_allocations'') (\<lambda>_.
     bindE (eachE (check_phase v) [(''init'', INIT_TASKS), (''readiness'', READY_TASKS)]) (\<lambda>_.
     bindE (check_active (fld v ''active'')) (\<lambda>_.
     bindE (budget_init (PInt 900) (PInt 15) []) (\<lambda>b.
     Inr (PDict [(''worst_seconds'', PInt \<lfloor>bu_worst b\<rfloor>), (''absolute_seconds'', PInt \<lfloor>bu_total b\<rfloor>),
                 (''stage_allocations_are_subsets'', PBool True)])))))"

subsection \<open>Observations\<close>

definition plan_observation_fields :: "string list" where
  "plan_observation_fields = [''observer'', ''realm'', ''role'', ''path'', ''nonce'', ''manifest_sha256'', ''dev'', ''ino'', ''uid'',
     ''gid'', ''mode'', ''kind'', ''nlink'', ''bytes'', ''sha256'', ''symlink'', ''limits'']"

definition declared_fields :: "string list" where
  "declared_fields = [''realm'', ''path'', ''uid'', ''gid'', ''mode'', ''kind'', ''bytes'', ''sha256'', ''limits'']"

definition observe :: "pyval \<Rightarrow> spec \<Rightarrow> string \<Rightarrow> pyval \<Rightarrow> pyval \<Rightarrow> string \<Rightarrow> (string \<times> int \<times> int) res" where
  "observe v s role nonce manifest path =
     bindE (fields_at v plan_observation_fields path) (\<lambda>_.
     check_at (fld v ''observer'' \<in> set [PStr ''creator'', PStr ''independent-reader'', PStr ''preexisting-observer'']) (path @ ''.observer'')
       ''fixed observer role'' (
     bindE (eachE (\<lambda>k. check_at (typed_eq (fld v k) (fld (PDict (spec_value role s)) k)) (path @ ''.'' @ k)
                          ''object declaration mismatch'' (Inr ())) declared_fields) (\<lambda>_.
     check_at (fld v ''role'' = PStr role \<and> fld v ''nonce'' = nonce \<and> fld v ''manifest_sha256'' = manifest) path
       ''observation role/nonce/manifest binding'' (
     bindE (eachE (\<lambda>k. integer_at (fld v k) (path @ ''.'' @ k) 1 max_int) [''dev'', ''ino'', ''nlink'']) (\<lambda>_.
     check_at (fld v ''kind'' \<noteq> PStr ''regular'' \<or> fld v ''nlink'' = PInt 1) (path @ ''.nlink'') ''slot must have one link'' (
     check_at (fld v ''symlink'' = PBool False) (path @ ''.symlink'') ''declared symlink rejected; actual ancestry unverified'' (
     Inr (sp_realm s, amount v ''dev'', amount v ''ino''))))))))"

definition expected_observer :: "string \<Rightarrow> string" where
  "expected_observer phase = (if phase = ''independent_readback'' then ''independent-reader''
     else if phase = ''before'' then ''preexisting-observer'' else ''creator'')"

record observing =
  ob_blockers :: "string list"
  ob_identities :: "(string \<times> int \<times> int) list"

definition check_snapshot ::
    "pyval \<Rightarrow> pyval \<Rightarrow> string \<times> spec \<Rightarrow> pyval \<Rightarrow> string \<Rightarrow> observing \<Rightarrow> string \<Rightarrow> observing res" where
  "check_snapshot nonce manifest = (\<lambda>(role, s) row path o0 phase.
     let snapshot = fld row phase in
     if snapshot = PNone then
       Inr (if phase \<noteq> ''before'' \<or> sp_policy s = ''bind''
            then o0\<lparr>ob_blockers := ob_blockers o0 @ [path @ ''.'' @ phase @ '': offline identity/readback missing'']\<rparr> else o0)
     else
       bindE (observe snapshot s role nonce manifest (path @ ''.'' @ phase)) (\<lambda>i.
       check_at (fld snapshot ''observer'' = PStr (expected_observer phase)) (path @ ''.'' @ phase) ''independent reader/creator roles required'' (
       if phase = ''after'' then
         check_at (i \<notin> set (ob_identities o0)) path ''object inode aliases another role in same realm'' (
         Inr (o0\<lparr>ob_identities := ob_identities o0 @ [i]\<rparr>))
       else Inr o0)))"

definition comparable_value :: "pyval \<Rightarrow> pyval" where
  "comparable_value v = PDict (filter (\<lambda>(k, _). k \<noteq> ''observer'') (dict_of v))"

definition check_observed :: "pyval \<Rightarrow> pyval \<Rightarrow> pyval \<Rightarrow> observing \<Rightarrow> string \<times> spec \<Rightarrow> observing res" where
  "check_observed nonce manifest table o0 = (\<lambda>(role, s).
     let path = ''plan.offline_observations.objects.'' @ role; row = fld table role in
     bindE (fields_at row [''before'', ''after'', ''independent_readback''] path) (\<lambda>_.
     check_at (sp_policy s \<noteq> ''fresh'' \<or> fld row ''before'' = PNone) (path @ ''.before'')
       ''fresh object already exists; do not resume/overwrite'' (
     bindE (foldE (check_snapshot nonce manifest (role, s) row path) o0 [''before'', ''after'', ''independent_readback'']) (\<lambda>o1.
     check_at (fld row ''after'' = PNone \<or> fld row ''independent_readback'' = PNone \<or>
               pyeq (comparable_value (fld row ''after'')) (comparable_value (fld row ''independent_readback''))) path
       ''independent readback identity replacement'' (
     check_at (sp_policy s \<noteq> ''bind'' \<or> fld row ''before'' = PNone \<or> fld row ''after'' = PNone \<or>
               pyeq (comparable_value (fld row ''before'')) (comparable_value (fld row ''after''))) path
       ''bound existing object replaced'' (Inr o1))))))"

subsection \<open>The plan\<close>

definition plan_fields :: "string list" where
  "plan_fields = [''schema_version'', ''scope'', ''kind'', ''uuid'', ''nonce'', ''manifest_sha256'', ''capacity_sha256'', ''host_uid'',
     ''host_gid'', ''guest_uid'', ''guest_gid'', ''host_jxa_root'', ''host_evidence_parent'', ''readonly_input'', ''jxa_source'',
     ''objects'', ''stage_allocations'', ''offline_observations'', ''used_nonces''] @ FLAGS"

text \<open>Identities, sizes and digests, and the list of consumed nonces.\<close>

definition check_inputs_declared :: "pyval \<Rightarrow> unit res" where
  "check_inputs_declared v =
     check_at (digest (fld v ''capacity_sha256'')) ''plan.capacity_sha256'' ''ledger digest required'' (
     bindE (eachE (\<lambda>(name, low). integer_at (fld v name) (''plan.'' @ name) low 65533)
       [(''host_uid'', 1), (''host_gid'', 0), (''guest_uid'', 1000), (''guest_gid'', 1000)]) (\<lambda>_.
     let inp = fld v ''readonly_input''; src = fld v ''jxa_source'' in
     bindE (fields_at inp [''path'', ''bytes'', ''sha256''] ''plan.readonly_input'') (\<lambda>_.
     bindE (integer_at (fld inp ''bytes'') ''plan.readonly_input.bytes'' 1 (int (the (map_of STORAGE ''input'')))) (\<lambda>_.
     check_at (digest (fld inp ''sha256'')) ''plan.readonly_input.sha256'' ''input digest required'' (
     bindE (fields_at src [''bytes'', ''sha256''] ''plan.jxa_source'') (\<lambda>_.
     bindE (integer_at (fld src ''bytes'') ''plan.jxa_source.bytes'' 1 (128 * 1024)) (\<lambda>_.
     check_at (digest (fld src ''sha256'')) ''plan.jxa_source.sha256'' ''reviewed source digest required'' (Inr ()))))))))"

definition check_nonces :: "pyval \<Rightarrow> pyval \<Rightarrow> unit res" where
  "check_nonces v nonce =
     (let used = fld v ''used_nonces'' in
      check_at (is_list used \<and> length (list_of used) \<le> 1024 \<and> list_all nonce_ok (list_of used)) ''plan.used_nonces''
        ''bounded consumed nonce list required'' (
      check_at (distinct (list_of used) \<and> nonce \<notin> set (list_of used)) ''plan.used_nonces'' ''duplicate or consumed nonce'' (Inr ())))"

definition check_declared :: "pyval \<Rightarrow> string \<times> spec \<Rightarrow> unit res" where
  "check_declared table = (\<lambda>(role, s).
     let row = fld table role; expected = spec_value role s in
     bindE (fields_at row (map fst expected) (''plan.objects.'' @ role)) (\<lambda>_.
     check_at (pyeq row (PDict expected) \<and> list_all (\<lambda>(k, x). type_name (fld row k) = type_name x) expected) (''plan.objects.'' @ role)
       ''fixed role/path/identity/stage/readback/cleanup declaration mismatch'' (Inr ())))"

definition plan_report :: "pyval \<Rightarrow> pyval \<Rightarrow> pyval \<Rightarrow> pyval \<Rightarrow> nat \<Rightarrow> string list \<Rightarrow> pyval" where
  "plan_report v nonce manifest timing n blockers =
     report ''i5-review-initialization-report'' blockers nonce manifest
       [(''timing'', timing), (''capacity_sha256'', fld v ''capacity_sha256''), (''object_count'', PInt (int n)),
        (''jxa_assembled_source_bytes_upper_bound'',
         PInt (int (assembled_source_bound (nat (amount (fld v ''jxa_source'') ''bytes'')))))]"

definition validate_plan :: "(string \<Rightarrow> string) \<Rightarrow> string \<Rightarrow> pyval \<Rightarrow> pyval \<Rightarrow> pyval res" where
  "validate_plan dig raw nonce manifest =
     bindE (plan_decode raw ''i5-review-initialization'') (\<lambda>v.
     bindE (fields_at v plan_fields ''plan'') (\<lambda>_.
     bindE (plan_binding v nonce manifest ''i5-review-initialization'') (\<lambda>_.
     bindE (check_inputs_declared v) (\<lambda>_.
     bindE (check_nonces v nonce) (\<lambda>_.
     bindE (object_specs dig v) (\<lambda>specs.
     bindE (fields_at (fld v ''objects'') (map fst specs) ''plan.objects'') (\<lambda>_.
     bindE (eachE (check_declared (fld v ''objects'')) specs) (\<lambda>_.
     bindE (validate_stages (fld v ''stage_allocations'')) (\<lambda>timing.
     let off = fld v ''offline_observations'' in
     bindE (fields_at off [''kind'', ''objects''] ''plan.offline_observations'') (\<lambda>_.
     check_at (fld off ''kind'' = PStr ''synthetic'') ''plan.offline_observations.kind'' ''synthetic only; self-report is no proof'' (
     bindE (fields_at (fld off ''objects'') (map fst specs) ''plan.offline_observations.objects'') (\<lambda>_.
     bindE (foldE (check_observed nonce manifest (fld off ''objects'')) \<lparr> ob_blockers = [], ob_identities = [] \<rparr> specs) (\<lambda>o1.
     Inr (plan_report v nonce manifest timing (length specs) (ob_blockers o1)))))))))))))))"

subsection \<open>The joint review\<close>

definition required_copies :: "pyval \<Rightarrow> (string \<times> int) list" where
  "required_copies declaration =
     (let inp = amount (fld declaration ''readonly_input'') ''bytes'' in
      [(''readonly_input'', inp), (''input_media_creation'', inp), (''input_media_staging_copy'', inp),
       (''host_jxa_source'', int (assembled_source_bound (nat (amount (fld declaration ''jxa_source'') ''bytes'')))),
       (''guest_system_tmpfs'', int (2 * SLOT_BYTES)), (''host_evidence_export_source'', int STORE_LIMIT),
       (''host_evidence_retained'', int STORE_LIMIT)])"

definition check_copy :: "pyval \<Rightarrow> string \<times> int \<Rightarrow> unit res" where
  "check_copy table = (\<lambda>(surface, n).
     let row = fld table surface in
     check_at (fld row ''state'' = PStr ''unknown'' \<or> n \<le> amount row ''logical_bytes'') (''capacity.surfaces.'' @ surface)
       ''bound source/input bytes exceed declared copy peak'' (Inr ()))"

definition review :: "(string \<Rightarrow> string) \<Rightarrow> string \<Rightarrow> string \<Rightarrow> pyval \<Rightarrow> pyval \<Rightarrow> pyval res" where
  "review dig plan_raw ledger_raw nonce manifest =
     bindE (validate_plan dig plan_raw nonce manifest) (\<lambda>plan.
     check_at (PStr (hexdigest dig ledger_raw) = fld plan ''capacity_sha256'') ''plan.capacity_sha256'' ''exact ledger bytes changed'' (
     bindE (validate_capacity ledger_raw ''preparation'' nonce manifest) (\<lambda>capacity.
     bindE (plan_decode plan_raw ''i5-review-initialization'') (\<lambda>declaration.
     bindE (plan_decode ledger_raw ''i5-review-capacity'') (\<lambda>l.
     bindE (eachE (check_copy (fld l ''surfaces'')) (required_copies declaration)) (\<lambda>_.
     Inr (report ''i5-review-preparation-report''
       (map str_of (list_of (fld plan ''review_blockers'')) @ map str_of (list_of (fld capacity ''review_blockers''))) nonce manifest
       [(''initialization'', plan), (''capacity'', capacity)])))))))"

end
