(* ===== verification/Coverage.thy ===== *)
theory Coverage
  imports Plan
begin

text \<open>
  The review of a host write coverage (\<open>sw_i5_preparation_plan.review_host_coverage\<close>): the
  fixed inventory of write surfaces and their components, projected onto the existing
  capacity ledger, with physical domains that never alias and raw facts that are bound by
  digest.
\<close>

subsection \<open>The inventory\<close>

definition HOST_COVERAGE_SCOPE :: string where "HOST_COVERAGE_SCOPE = ''i5-preparation-host-coverage-candidate''"

definition COVERAGE_COMPONENTS :: "(string \<times> (string \<times> string) list) list" where
  "COVERAGE_COMPONENTS =
     [(''guest_root_var'', [(''root_var'', ''guest-system-owner'')]),
      (''efi_firmware'', [(''guest_efi_firmware'', ''guest-system-owner'')]),
      (''guest_swap'', [(''all_guest_swap'', ''guest-system-owner'')]),
      (''guest_system_tmpfs'', [(''initialization_root'', ''guest-initializer''), (''other_system_tmpfs'', ''guest-system-owner'')]),
      (''utm_qemu_logs_state'', [(''utm_qemu_state_logs'', ''host-vm-owner''), (''firmware_state'', ''host-vm-owner''),
         (''host_global_logs'', ''host-system-owner'')]),
      (''host_swap_crash'', [(''host_swap'', ''host-system-owner''), (''host_crash'', ''host-system-owner'')]),
      (''host_jxa_source'', [(''jxa_source'', ''evidence-worker''), (''library_source_assembly'', ''library-assembler'')]),
      (''host_evidence_export_source'', [(''export_source'', ''evidence-worker'')]),
      (''host_evidence_retained'', [(''retained_evidence'', ''evidence-owner'')]),
      (''readonly_input'', [(''apt_media'', ''media-provisioner''), (''library_media'', ''media-provisioner'')]),
      (''input_media_creation'', [(''apt_media_creation'', ''media-provisioner''), (''library_media_creation'', ''media-provisioner'')]),
      (''input_media_staging_copy'', [(''apt_media_staging'', ''media-provisioner''), (''library_media_staging'', ''media-provisioner'')]),
      (''preparation_work'', [(''work'', ''guest-worker'')]),
      (''preparation_result'', [(''result'', ''guest-worker'')]),
      (''host_backing_metadata'', [(''backing_snapshots_metadata'', ''host-vm-owner'')])]"

definition MACOS_UNBOUNDED_SURFACES :: "string list" where
  "MACOS_UNBOUNDED_SURFACES = [''utm_qemu_logs_state'', ''host_swap_crash'']"

definition COVERAGE_HOST_SURFACES :: "string list" where
  "COVERAGE_HOST_SURFACES = [''utm_qemu_logs_state'', ''host_swap_crash'', ''host_jxa_source'', ''host_evidence_export_source'',
     ''host_evidence_retained'', ''input_media_creation'', ''input_media_staging_copy'', ''host_backing_metadata'']"

subsection \<open>State\<close>

record coverage =
  cv_used :: "string list"
  cv_ids :: "string list"
  cv_identities :: "(string \<times> int \<times> int) list"
  cv_devices :: "(string \<times> int) list"
  cv_roots :: "(string \<times> path \<times> string) list"
  cv_mounts :: "int list"
  cv_whole :: "(string \<times> int) list"

text \<open>One raw fact: its declared size and digest bind the bytes handed in under its name.\<close>

definition blob_ref :: "(string \<Rightarrow> string) \<Rightarrow> string \<Rightarrow> pyval" where
  "blob_ref dig raw = PDict [(''bytes'', PInt (int (length raw))), (''sha256'', PStr (hexdigest dig raw))]"

definition fact ::
    "(string \<Rightarrow> string) \<Rightarrow> (string \<times> string) list \<Rightarrow> pyval \<Rightarrow> string \<Rightarrow> coverage \<Rightarrow> (pyval \<times> coverage) res" where
  "fact dig blobs ref name c =
     bindE (fields_at ref [''bytes'', ''sha256''] name) (\<lambda>_.
     bindE (integer_at (fld ref ''bytes'') (name @ ''.bytes'') 1 (256 * 1024)) (\<lambda>_.
     check_at (digest (fld ref ''sha256'')) name ''raw fact digest required'' (
     check_at (case map_of blobs name of None \<Rightarrow> False | Some raw \<Rightarrow> pyeq ref (blob_ref dig raw)) name ''raw fact fingerprint mismatch'' (
     bindE (plan_decode (the (map_of blobs name)) name) (\<lambda>v. Inr (v, c\<lparr>cv_used := cv_used c @ [name]\<rparr>))))))"

subsection \<open>Components\<close>

text \<open>The totals of logical bytes, copied bytes and peaks of a surface's components.\<close>

type_synonym totals = "int \<times> int \<times> int"

definition component_fields :: "string list" where
  "component_fields = [''owner'', ''logical_bytes'', ''copies'', ''peak_bytes'', ''physical_domain'']"

definition copied :: "pyval \<Rightarrow> int" where
  "copied part = amount part ''logical_bytes'' * amount part ''copies''"

definition add_component :: "pyval \<Rightarrow> pyval \<Rightarrow> string \<Rightarrow> totals \<Rightarrow> totals res" where
  "add_component state part prefix_path = (\<lambda>(logical, copy_bytes, peak).
     if state = PStr ''unknown'' then
       check_at (list_all (\<lambda>k. fld part k = PNone) [''logical_bytes'', ''copies'', ''peak_bytes'']) prefix_path
         ''unknown component cannot be charged zero'' (Inr (logical, copy_bytes, peak))
     else
       (let low = (if state = PStr ''disabled'' then 0 else 1) in
        bindE (integer_at (fld part ''logical_bytes'') (prefix_path @ ''.logical_bytes'') low max_int) (\<lambda>_.
        bindE (integer_at (fld part ''copies'') (prefix_path @ ''.copies'') low 16) (\<lambda>_.
        bindE (integer_at (fld part ''peak_bytes'') (prefix_path @ ''.peak_bytes'') low max_int) (\<lambda>_.
        check_at (copied part \<le> amount part ''peak_bytes'') prefix_path ''copy peak undercount'' (
        check_at (state \<noteq> PStr ''disabled'' \<or> list_all (\<lambda>k. pyeq (fld part k) (PInt 0)) [''logical_bytes'', ''copies'', ''peak_bytes'']) prefix_path
          ''disabled component must be zero'' (
        Inr (logical + amount part ''logical_bytes'', copy_bytes + copied part, peak + amount part ''peak_bytes''))))))))"

definition check_component :: "pyval \<Rightarrow> string \<Rightarrow> totals \<Rightarrow> string \<times> string \<Rightarrow> totals res" where
  "check_component row path total_sums = (\<lambda>(component, owner).
     let part = fld (fld row ''components'') component; prefix_path = path @ ''.components.'' @ component in
     bindE (fields_at part component_fields prefix_path) (\<lambda>_.
     check_at (fld part ''owner'' = PStr owner) (prefix_path @ ''.owner'') ''fixed responsible owner required'' (
     bindE (add_component (fld row ''state'') part prefix_path total_sums) (\<lambda>r.
     check_at (if fld row ''state'' \<noteq> PStr ''bounded'' then fld part ''physical_domain'' = PNone
               else label_ok 100 (fld part ''physical_domain'')) (prefix_path @ ''.physical_domain'')
       ''bounded components require an explicit physical domain; other states cannot claim one'' (Inr r)))))"

subsection \<open>Physical domains\<close>

definition physical_fields :: "string list" where
  "physical_fields = [''realm'', ''path'', ''dev'', ''ino'', ''mount_id'', ''filesystem_id'', ''representation'', ''hard_reserve_bytes'',
     ''whole_device_bytes'', ''inode_limit'']"

definition check_mount :: "pyval \<Rightarrow> string \<Rightarrow> coverage \<Rightarrow> coverage res" where
  "check_mount d path c =
     (if fld d ''realm'' = PStr ''guest'' then
        bindE (integer_at (fld d ''mount_id'') (path @ ''.physical_domains.mount_id'') 1 max_int) (\<lambda>_.
        check_at (amount d ''mount_id'' \<notin> set (cv_mounts c)) path ''guest physical mount identity reused'' (
        Inr (c\<lparr>cv_mounts := cv_mounts c @ [amount d ''mount_id'']\<rparr>)))
      else check_at (fld d ''mount_id'' = PNone) path
             ''host mount identity is represented by filesystem ID, not a Linux mount ID'' (Inr c))"

definition check_reserve :: "pyval \<Rightarrow> pyval \<Rightarrow> string \<Rightarrow> pyval \<Rightarrow> string \<Rightarrow> unit res" where
  "check_reserve row bounds domain_id d path =
     (let half = (fld row ''charge'' = PStr ''H'') in
      bindE (eachE (\<lambda>k. integer_at (fld d k) (path @ ''.physical_domains.'' @ k) 1 max_int) [''dev'', ''ino'']) (\<lambda>_.
      bindE (if fld bounds ''backing'' = PStr ''noswap-tmpfs''
             then integer_at (fld d ''inode_limit'') (path @ ''.physical_domains.inode_limit'') 1 max_int
             else check_at (fld d ''inode_limit'' = PNone) path ''inode quota declaration is reserved for bounded tmpfs'' (Inr ())) (\<lambda>_.
      bindE (integer_at (fld d ''hard_reserve_bytes'') (path @ ''.physical_domains.hard_reserve_bytes'') 1 max_int) (\<lambda>_.
      bindE (integer_at (fld d ''whole_device_bytes'') (path @ ''.physical_domains.whole_device_bytes'') (if half then 0 else 1) max_int) (\<lambda>_.
      check_at (if half then amount d ''whole_device_bytes'' = 0 else amount d ''hard_reserve_bytes'' \<le> amount d ''whole_device_bytes'') path
        ''D requires the complete physical device; H cannot hide another device charge'' (
      check_at (sum_list (map (\<lambda>(_, part). amount part ''peak_bytes'')
                  (filter (\<lambda>(_, part). fld part ''physical_domain'' = PStr domain_id) (dict_of (fld row ''components'')))) \<le>
                amount d ''hard_reserve_bytes'') path
        ''domain component peaks exceed its share of the existing hard reserve'' (Inr ())))))))"

definition check_alias :: "string \<Rightarrow> pyval \<Rightarrow> path \<Rightarrow> string \<Rightarrow> coverage \<Rightarrow> coverage res" where
  "check_alias domain_id d root_path path c =
     (let realm = str_of (fld d ''realm''); i = (realm, amount d ''dev'', amount d ''ino''); dev = (realm, amount d ''dev'');
          fsid = str_of (fld d ''filesystem_id'') in
      check_at (domain_id \<notin> set (cv_ids c) \<and> i \<notin> set (cv_identities c) \<and> dev \<notin> set (cv_devices c)) path
        ''physical domains cannot alias or share a filesystem quota'' (
      check_at (list_all (\<lambda>(r, _, f). r \<noteq> realm \<or> f \<noteq> fsid) (cv_roots c)) path ''physical filesystem identity reused'' (
      check_at (list_all (\<lambda>(r, other, _). r \<noteq> realm \<or> (\<not> below other root_path \<and> \<not> below root_path other)) (cv_roots c)) path
        ''physical roots overlap; aggregate or remain unknown'' (
      Inr (c\<lparr>cv_ids := cv_ids c @ [domain_id], cv_identities := cv_identities c @ [i], cv_devices := cv_devices c @ [dev],
             cv_roots := cv_roots c @ [(realm, root_path, fsid)]\<rparr>)))))"

definition add_whole :: "string \<Rightarrow> int \<Rightarrow> (string \<times> int) list \<Rightarrow> (string \<times> int) list" where
  "add_whole owner n = map (\<lambda>(k, x). (k, if k = owner then x + n else x))"

definition check_physical ::
    "string \<Rightarrow> pyval \<Rightarrow> pyval \<Rightarrow> string \<Rightarrow> int \<times> coverage \<Rightarrow> string \<times> pyval \<Rightarrow> (int \<times> coverage) res" where
  "check_physical name row bounds path = (\<lambda>(reserved, c) (domain_id, d).
     bindE (fields_at d physical_fields (path @ ''.physical_domains.'' @ domain_id)) (\<lambda>_.
     check_at (label_ok 100 (fld d ''filesystem_id'')) (path @ ''.physical_domains.filesystem_id'') ''stable physical identity required'' (
     check_at (fld d ''realm'' = PStr (if name \<in> set COVERAGE_HOST_SURFACES then ''host'' else ''guest'')) path
       ''fixed physical realm required'' (
     bindE (check_mount d path c) (\<lambda>c.
     bindE (lexical (fld d ''path'') (path @ ''.physical_domains.path'')) (\<lambda>root_path.
     bindE (check_reserve row bounds domain_id d path) (\<lambda>_.
     let c = c\<lparr>cv_whole := add_whole (str_of (fld row ''owner_domain'')) (amount d ''whole_device_bytes'') (cv_whole c)\<rparr> in
     check_at (pyeq (fld d ''representation'') (fld bounds ''representation'')) path
       ''physical representation must bind existing capacity surface'' (
     bindE (check_alias domain_id d root_path path c) (\<lambda>c.
     Inr (reserved + amount d ''hard_reserve_bytes'', c))))))))))"

subsection \<open>Surfaces\<close>

definition coverage_surface_fields :: "string list" where
  "coverage_surface_fields = [''owner_domain'', ''charge'', ''state'', ''components'', ''physical_domains'', ''configuration'', ''observation'']"

definition claim :: "string \<Rightarrow> pyval \<Rightarrow> pyval \<Rightarrow> pyval \<Rightarrow> string \<Rightarrow> pyval \<Rightarrow> pyval \<Rightarrow> (string \<times> pyval) list \<Rightarrow> pyval" where
  "claim scope nonce manifest capacity name row bounds extra = PDict
     ([(''schema_version'', PInt 1), (''scope'', PStr scope), (''uuid'', PStr UUID), (''nonce'', nonce), (''manifest_sha256'', manifest),
       (''capacity'', capacity), (''surface'', PStr name), (''owner_domain'', fld row ''owner_domain''), (''charge'', fld row ''charge''),
       (''state'', fld row ''state''), (''mechanism'', fld bounds ''mechanism''), (''hard_limit_bytes'', fld bounds ''hard_limit_bytes''),
       (''components'', fld row ''components''), (''physical_domains'', fld row ''physical_domains''),
       (''configured_before_start'', PBool True)] @ extra)"

text \<open>Comparison of the two sorted serializations, which rejects an infinity.\<close>

definition same_json :: "(rat \<Rightarrow> string) \<Rightarrow> pyval \<Rightarrow> pyval \<Rightarrow> bool res" where
  "same_json fr a b = bindE (rpc_encode fr a) (\<lambda>x. bindE (rpc_encode fr b) (\<lambda>y. Inr (x = y)))"

definition check_claims ::
    "(string \<Rightarrow> string) \<Rightarrow> (rat \<Rightarrow> string) \<Rightarrow> (string \<times> string) list \<Rightarrow> pyval \<Rightarrow> pyval \<Rightarrow> pyval \<Rightarrow> string \<Rightarrow> pyval \<Rightarrow>
     pyval \<Rightarrow> string \<Rightarrow> coverage \<Rightarrow> coverage res" where
  "check_claims dig fr blobs nonce manifest capacity name row bounds path c =
     bindE (fact dig blobs (fld row ''configuration'') (''configuration.'' @ name) c) (\<lambda>(configured, c).
     bindE (same_json fr configured
       (claim ''i5-preparation-boundary-configuration-claim'' nonce manifest capacity name row bounds [])) (\<lambda>ok.
     check_at ok (path @ ''.configuration'') ''configuration claim does not match exact existing boundary'' (
     bindE (fact dig blobs (fld row ''observation'') (''observation.'' @ name) c) (\<lambda>(observed, c).
     bindE (same_json fr observed
       (claim ''i5-preparation-boundary-observation-claim'' nonce manifest capacity name row bounds
          [(''configuration'', fld row ''configuration''), (''evidence_kind'', PStr ''injected-offline'')])) (\<lambda>ok.
     check_at ok (path @ ''.observation'') ''independent observation claim must bind configuration and same physical identity'' (Inr c))))))"

definition referenced :: "pyval \<Rightarrow> string set" where
  "referenced row = str_of ` set (filter (\<lambda>v. v \<noteq> PNone) (map (\<lambda>(_, part). fld part ''physical_domain'') (dict_of (fld row ''components''))))"

definition check_boundary ::
    "(string \<Rightarrow> string) \<Rightarrow> (rat \<Rightarrow> string) \<Rightarrow> (string \<times> string) list \<Rightarrow> pyval \<Rightarrow> pyval \<Rightarrow> pyval \<Rightarrow> string \<Rightarrow> pyval \<Rightarrow>
     pyval \<Rightarrow> string \<Rightarrow> totals \<Rightarrow> coverage \<Rightarrow> coverage res" where
  "check_boundary dig fr blobs nonce manifest capacity name row bounds path = (\<lambda>(logical, copy_bytes, peak) c.
     let physical = fld row ''physical_domains'' in
     check_at (logical \<le> amount bounds ''logical_bytes'' \<and> copy_bytes \<le> amount bounds ''logical_bytes'' * amount bounds ''copies'' \<and>
               peak \<le> amount bounds ''peak_bytes'') path ''component copy peaks exceed existing capacity surface'' (
     check_at (is_dict physical \<and> keys physical = referenced row) (path @ ''.physical_domains'') ''exact referenced physical domains required'' (
     check_at (fld row ''state'' \<noteq> PStr ''disabled'' \<or> dict_of physical = []) (path @ ''.physical_domains'')
       ''disabled surface has no physical write domain'' (
     check_at (\<not> (name = ''readonly_input'' \<and> fld row ''state'' = PStr ''bounded'') \<or> length (dict_of physical) = 2) path
       ''APT and library media require distinct physical domains'' (
     bindE (foldE (check_physical name row bounds path) (0, c) (dict_of physical)) (\<lambda>(reserved, c).
     check_at (reserved \<le> amount bounds ''hard_limit_bytes'') path ''physical reserves exceed existing capacity surface'' (
     check_claims dig fr blobs nonce manifest capacity name row bounds path c)))))))"

definition cover_surface ::
    "(string \<Rightarrow> string) \<Rightarrow> (rat \<Rightarrow> string) \<Rightarrow> (string \<times> string) list \<Rightarrow> pyval \<Rightarrow> pyval \<Rightarrow> pyval \<Rightarrow> pyval \<Rightarrow> coverage \<Rightarrow> string \<Rightarrow> coverage res" where
  "cover_surface dig fr blobs nonce manifest v lg c name =
     (let path = ''coverage.surfaces.'' @ name; row = fld (fld v ''surfaces'') name; bounds = fld (fld lg ''surfaces'') name;
          inventory = the (map_of COVERAGE_COMPONENTS name) in
      bindE (fields_at row coverage_surface_fields path) (\<lambda>_.
      bindE (eachE (\<lambda>k. check_at (typed_eq (fld row k) (fld bounds k)) (path @ ''.'' @ k) ''existing capacity projection required'' (Inr ()))
        [''owner_domain'', ''charge'', ''state'']) (\<lambda>_.
      bindE (fields_at (fld row ''components'') (map fst inventory) (path @ ''.components'')) (\<lambda>_.
      bindE (foldE (check_component row path) (0, 0, 0) inventory) (\<lambda>totals.
      check_at (\<not> (fld v ''backend'' = PStr ''macos-utm'' \<and> name \<in> set MACOS_UNBOUNDED_SURFACES) \<or> fld row ''state'' = PStr ''unknown'') path
        ''current macOS/UTM system writes have no complete hard boundary'' (
      if fld row ''state'' = PStr ''unknown'' then
        check_at (pyeq (fld row ''physical_domains'') (PDict []) \<and> fld row ''configuration'' = PNone \<and> fld row ''observation'' = PNone) path
          ''unknown boundary cannot carry completion facts'' (Inr c)
      else check_boundary dig fr blobs nonce manifest (fld v ''capacity'') name row bounds path totals c))))))"

subsection \<open>The review\<close>

definition coverage_fields :: "string list" where
  "coverage_fields = [''schema_version'', ''scope'', ''kind'', ''uuid'', ''nonce'', ''manifest_sha256'', ''capacity'', ''backend'', ''surfaces''] @ FLAGS"

definition start_coverage :: "pyval \<Rightarrow> coverage" where
  "start_coverage lg = \<lparr> cv_used = [], cv_ids = [], cv_identities = [], cv_devices = [], cv_roots = [], cv_mounts = [],
     cv_whole = map (\<lambda>(k, _). (k, 0)) (dict_of (fld lg ''domains'')) \<rparr>"

definition check_whole :: "pyval \<Rightarrow> string \<times> int \<Rightarrow> unit res" where
  "check_whole lg = (\<lambda>(name, n). check_at (n \<le> amount (fld (fld lg ''domains'') name) ''guest_device_bytes'')
     (''coverage.domains.'' @ name) ''complete physical devices exceed existing D allocation'' (Inr ()))"

definition coverage_blockers :: "pyval \<Rightarrow> bool \<Rightarrow> string list" where
  "coverage_blockers capacity_report macos =
     map str_of (list_of (fld capacity_report ''review_blockers'')) @
     [''physical identities, hard limits and independent observation provenance remain unverified'',
      if macos then ''macos-utm: host swap, crash and global logs lack a complete hard boundary; APFS volume quotas cannot close this gate''
      else ''injected-offline: synthetic coverage cannot admit a native backend'']"

definition review_host_coverage ::
    "(string \<Rightarrow> string) \<Rightarrow> (rat \<Rightarrow> string) \<Rightarrow> string \<Rightarrow> string \<Rightarrow> pyval \<Rightarrow> pyval \<Rightarrow> (string \<times> string) list \<Rightarrow> pyval res" where
  "review_host_coverage dig fr raw capacity_raw nonce manifest blobs =
     bindE (plan_decode raw HOST_COVERAGE_SCOPE) (\<lambda>v.
     bindE (fields_at v coverage_fields ''coverage'') (\<lambda>_.
     bindE (plan_binding v nonce manifest HOST_COVERAGE_SCOPE) (\<lambda>_.
     bindE (fields_at (fld v ''capacity'') [''bytes'', ''sha256''] ''coverage.capacity'') (\<lambda>_.
     bindE (integer_at (fld (fld v ''capacity'') ''bytes'') ''coverage.capacity.bytes'' 1 (256 * 1024)) (\<lambda>_.
     check_at (pyeq (fld v ''capacity'') (blob_ref dig capacity_raw)) ''coverage.capacity'' ''exact capacity bytes required'' (
     bindE (validate_capacity capacity_raw ''preparation'' nonce manifest) (\<lambda>capacity_report.
     bindE (plan_decode capacity_raw ''i5-review-capacity'') (\<lambda>lg.
     check_at (fld v ''backend'' = PStr ''macos-utm'' \<or> fld v ''backend'' = PStr ''injected-offline'') ''coverage.backend''
       ''reviewed backend required'' (
     bindE (fields_at (fld v ''surfaces'') PREP_SURFACES ''coverage.surfaces'') (\<lambda>_.
     check_at (sum_list (map (length \<circ> snd) blobs) + length raw + length capacity_raw \<le> 32 * MIB) ''coverage.blobs''
       ''aggregate candidate input limit'' (
     bindE (foldE (cover_surface dig fr blobs nonce manifest v lg) (start_coverage lg) PREP_SURFACES) (\<lambda>c.
     bindE (eachE (check_whole lg) (cv_whole c)) (\<lambda>_.
     check_at (set (map fst blobs) = set (cv_used c)) ''coverage.blobs'' ''exact fact set required; extra unbound facts rejected'' (
     let macos = (fld v ''backend'' = PStr ''macos-utm'') in
     Inr (report ''i5-preparation-host-coverage-review'' (coverage_blockers capacity_report macos) nonce manifest
       [(''backend'', fld v ''backend''), (''capacity'', fld v ''capacity''), (''complete_write_boundary'', PBool False),
        (''feasibility'', PStr (if macos then ''blocked-host-system-writes'' else ''injected-offline-only'')),
        (''authenticity_verified'', PBool False), (''execution_authorized'', PBool False)])))))))))))))))"

end
