(* ===== verification/EvidenceStore.thy ===== *)
theory EvidenceStore
  imports Evidence
begin

text \<open>
  The evidence store of \<open>sw_i5_preparation_evidence.py\<close>: a private directory per attempt, in
  which files are published by a link and never overwritten, the receipt last; the persisting
  child with its deadline; and the reader that accepts only a complete and consistent record.
  The object under construction or use is part of the state, because its counters survive a
  failure.
\<close>

subsection \<open>Kernel and state\<close>

record 'w store_kernel = "'w kernel" +
  k_getuid :: "('w, int) act"
  k_mkdir_at :: "int \<Rightarrow> string \<Rightarrow> ('w, unit) act"
  k_fsync :: "int \<Rightarrow> ('w, unit) act"
  k_link_at :: "int \<Rightarrow> string \<Rightarrow> string \<Rightarrow> ('w, unit) act"
  k_unlink_at :: "int \<Rightarrow> string \<Rightarrow> ('w, unit) act"

record store =
  es_path :: path
  es_fd :: "int option"
  es_identity :: "(nat \<times> nat) \<times> int"
  es_written :: nat
  es_consumed :: bool
  es_nonce :: string
  es_manifest :: string
  es_binding :: pyval

record 'w storing =
  sv_world :: 'w
  sv_store :: store

abbreviation sv :: "('w, 'a) act \<Rightarrow> ('w storing, 'a) act" where
  "sv \<equiv> zoom sv_world sv_world_update"

definition set_store :: "(store \<Rightarrow> store) \<Rightarrow> ('w storing, unit) act" where
  "set_store f = upd (\<lambda>s. s\<lparr>sv_store := f (sv_store s)\<rparr>)"

definition dir_flags :: "string list" where
  "dir_flags = [''RDONLY'', ''DIRECTORY'', ''NOFOLLOW'', ''CLOEXEC'']"

text \<open>\<open>info.st_mode & 0o077 == 0\<close>.\<close>

definition private_mode :: "stat_info \<Rightarrow> bool" where
  "private_mode i = (st_mode i mod 64 = 0)"

subsection \<open>Reading one file\<close>

text \<open>Every nonempty chunk shortens what is left, so \<open>limit + 2\<close> rounds always suffice.\<close>

fun read_upto :: "nat \<Rightarrow> 'w store_kernel \<Rightarrow> int \<Rightarrow> nat \<Rightarrow> string \<Rightarrow> ('w, string) act" where
  "read_upto 0 k fd limit data = lft (Inl OutOfFuel)"
| "read_upto (Suc n) k fd limit data =
     (if limit < length data then ret data else
      bnd (k_read k fd (min 65536 (limit - length data + 1))) (\<lambda>chunk.
      if chunk = [] then ret data else read_upto n k fd limit (data @ chunk)))"

definition evidence_file_ok :: "stat_info \<Rightarrow> stat_info \<Rightarrow> int \<Rightarrow> nat \<Rightarrow> bool" where
  "evidence_file_ok before info uid limit =
     (S_ISREG before \<and> st_nlink before = 1 \<and> st_uid before = uid \<and> st_dev before = st_dev info \<and> private_mode before \<and>
      st_size before \<le> int limit)"

definition same_version :: "stat_info \<Rightarrow> stat_info \<Rightarrow> bool" where
  "same_version a b = (st_ino a = st_ino b \<and> st_size a = st_size b \<and> st_mtime_ns a = st_mtime_ns b \<and> st_ctime_ns a = st_ctime_ns b)"

definition read_evidence_file :: "'w store_kernel \<Rightarrow> int \<Rightarrow> stat_info \<Rightarrow> string \<Rightarrow> nat \<Rightarrow> ('w, string) act" where
  "read_evidence_file k fd info name limit =
     bnd (k_open_at k fd name [''RDONLY'', ''NONBLOCK'', ''NOFOLLOW'', ''CLOEXEC'']) (\<lambda>stream.
     try_finally
       (bnd (k_fstat k stream) (\<lambda>before. bnd (k_getuid k) (\<lambda>uid.
        sqn (ensure (evidence_file_ok before info uid limit) ''unsafe evidence file'') (
        bnd (read_upto (limit + 2) k stream limit []) (\<lambda>data.
        bnd (k_fstat k stream) (\<lambda>after.
        bnd (if int (length data) = st_size before \<and> length data \<le> limit \<and> same_version before after
             then bnd (k_stat_at k fd name) (\<lambda>i. ret (st_ino i = st_ino after)) else ret False) (\<lambda>unchanged.
        sqn (ensure unchanged ''evidence changed while reading'') (ret data))))))))
       (k_close k stream))"

subsection \<open>The store\<close>

definition store_close :: "'w store_kernel \<Rightarrow> ('w storing, unit) act" where
  "store_close k =
     bnd (get (\<lambda>s. es_fd (sv_store s))) (\<lambda>fd. case fd of None \<Rightarrow> ret ()
     | Some f \<Rightarrow> sqn (sv (k_close k f)) (set_store (\<lambda>s. s\<lparr>es_fd := None\<rparr>)))"

text \<open>\<open>path.is_symlink()\<close> is false for a path that does not exist.\<close>

definition is_symlink :: "'w store_kernel \<Rightarrow> path \<Rightarrow> ('w, bool) act" where
  "is_symlink k p = handle_if (is_os_class FileNotFoundError) (bnd (k_lstat k p) (\<lambda>i. ret (S_ISLNK i))) (\<lambda>_. ret False)"

definition resolves :: "'w store_kernel \<Rightarrow> path \<Rightarrow> ('w, bool) act" where
  "resolves k p = bnd (k_resolve k p) (\<lambda>q. ret (q = p))"

definition directory_ok :: "'w store_kernel \<Rightarrow> store \<Rightarrow> ('w, bool) act" where
  "directory_ok k s =
     bnd (k_lstat k (es_path s)) (\<lambda>i.
     bnd (if S_ISDIR i then is_symlink k (es_path s) else ret True) (\<lambda>link.
     bnd (if \<not> link then resolves k (es_path s) else ret False) (\<lambda>canonical.
     bnd (k_getuid k) (\<lambda>uid.
     ret (canonical \<and> (st_dev i, st_ino i) = es_identity s \<and> st_uid i = uid \<and> private_mode i)))))"

definition store_check :: "'w store_kernel \<Rightarrow> ('w storing, unit) act" where
  "store_check k =
     bnd (get sv_store) (\<lambda>s.
     sqn (ensure (es_fd s \<noteq> None) ''evidence store closed'') (
     bnd (sv (directory_ok k s)) (\<lambda>ok. ensure ok ''evidence directory replaced'')))"

definition store_file_limit :: "string \<Rightarrow> nat" where
  "store_file_limit name = (if name = ''host-report.bin'' then HOST_REPORT_LIMIT else RECEIPT_LIMIT)"

text \<open>Every write takes at least one byte, so as many rounds as bytes, and one more, suffice.\<close>

fun write_all :: "nat \<Rightarrow> 'w store_kernel \<Rightarrow> int \<Rightarrow> string \<Rightarrow> ('w, unit) act" where
  "write_all 0 k fd raw = lft (Inl OutOfFuel)"
| "write_all (Suc n) k fd raw =
     (if raw = [] then ret () else
      bnd (k_write k fd (take 65536 raw)) (\<lambda>written.
      sqn (ensure (0 < written) ''zero evidence write'') (write_all n k fd (drop written raw))))"

definition create_flags :: "string list" where
  "create_flags = [''WRONLY'', ''CREAT'', ''EXCL'', ''NOFOLLOW'', ''CLOEXEC'']"

definition store_write :: "'w store_kernel \<Rightarrow> string \<Rightarrow> string \<Rightarrow> ('w storing, unit) act" where
  "store_write k name raw =
     sqn (store_check k) (
     bnd (get (\<lambda>s. es_written (sv_store s))) (\<lambda>written.
     sqn (ensure (name \<in> set [''attempt.json'', ''host-report.bin'', ''receipt.json''] \<and> length raw \<le> store_file_limit name \<and>
                  written + length raw \<le> STORE_LIMIT) ''evidence write quota'') (
     sqn (set_store (\<lambda>s. s\<lparr>es_written := es_written s + length raw\<rparr>)) (
     bnd (get (\<lambda>s. the (es_fd (sv_store s)))) (\<lambda>dirfd.
     let partial = name @ ''.partial'' in
     bnd (sv (k_open_at k dirfd partial create_flags)) (\<lambda>fd.
     sqn (sv (try_finally (sqn (write_all (length raw + 1) k fd raw) (k_fsync k fd)) (k_close k fd))) (
     sqn (store_check k) (
     sqn (sv (k_link_at k dirfd partial name)) (
     sqn (sv (k_fsync k dirfd)) (
     sqn (sv (k_unlink_at k dirfd partial)) (
     sv (k_fsync k dirfd))))))))))))"

text \<open>\<open>EvidenceStore.__init__\<close>, on the object of the state.\<close>

definition new_store :: "path \<Rightarrow> string \<Rightarrow> string \<Rightarrow> pyval \<Rightarrow> store" where
  "new_store path nonce manifest binding = \<lparr> es_path = path, es_fd = None, es_identity = ((0, 0), 0), es_written = 0,
     es_consumed = False, es_nonce = nonce, es_manifest = manifest, es_binding = binding \<rparr>"

definition create_attempt :: "(rat \<Rightarrow> string) \<Rightarrow> 'w store_kernel \<Rightarrow> int \<Rightarrow> string \<Rightarrow> string \<Rightarrow> pyval \<Rightarrow> ('w storing, unit) act" where
  "create_attempt fr k parent_fd nonce manifest binding =
     bnd (sv (k_fstat k parent_fd)) (\<lambda>info. bnd (sv (k_getuid k)) (\<lambda>uid.
     sqn (ensure (st_uid info = uid \<and> private_mode info) ''private owned evidence parent required'') (
     sqn (sv (k_mkdir_at k parent_fd nonce)) (
     sqn (sv (k_fsync k parent_fd)) (
     bnd (sv (k_open_at k parent_fd nonce dir_flags)) (\<lambda>fd.
     sqn (set_store (\<lambda>s. s\<lparr>es_fd := Some fd\<rparr>)) (
     bnd (sv (k_fstat k fd)) (\<lambda>a. bnd (sv (k_fstat k fd)) (\<lambda>b.
     sqn (set_store (\<lambda>s. s\<lparr>es_identity := (st_dev a, st_ino b)\<rparr>)) (
     let raw = encode fr (attempt_value nonce manifest binding) in
     sqn (lft (validate_attempt raw nonce manifest)) (store_write k ''attempt.json'' raw)))))))))))"

definition store_init :: "(rat \<Rightarrow> string) \<Rightarrow> 'w store_kernel \<Rightarrow> path \<Rightarrow> pyval \<Rightarrow> pyval \<Rightarrow> pyval \<Rightarrow> ('w storing, unit) act" where
  "store_init fr k directory nonce manifest binding =
     sqn (lft (binding_ok nonce manifest)) (
     sqn (ensure (is_absolute directory) ''canonical evidence parent required'') (
     bnd (sv (resolves k directory)) (\<lambda>canonical.
     sqn (ensure canonical ''canonical evidence parent required'') (
     bnd (sv (k_open k directory dir_flags)) (\<lambda>parent_fd.
     sqn (set_store (\<lambda>_. new_store (path_join directory (str_of nonce)) (str_of nonce) (str_of manifest) binding)) (
     try_finally
       (on_error (create_attempt fr k parent_fd (str_of nonce) (str_of manifest) binding) (store_close k))
       (sv (k_close k parent_fd))))))))"

definition verify_attempt :: "'w store_kernel \<Rightarrow> ('w storing, unit) act" where
  "verify_attempt k =
     sqn (store_check k) (
     bnd (get sv_store) (\<lambda>s. let fd = the (es_fd s) in
     bnd (sv (k_listdir k fd)) (\<lambda>names.
     sqn (ensure (set names = {''attempt.json''}) ''interrupted attempt initialization'') (
     bnd (sv (k_fstat k fd)) (\<lambda>info.
     bnd (sv (read_evidence_file k fd info ''attempt.json'' RECEIPT_LIMIT)) (\<lambda>raw.
     bnd (lft (validate_attempt raw (es_nonce s) (es_manifest s))) (\<lambda>attempt.
     sqn (ensure (pyeq (get_or attempt ''initialization_binding'' PNone) (es_binding s)) ''attempt initialization binding changed'') (
     store_check k))))))))"

subsection \<open>Reading an attempt back\<close>

definition receipt_fields :: "int \<Rightarrow> string list" where
  "receipt_fields revision = [''schema_version'', ''scope'', ''nonce'', ''uuid'', ''manifest_sha256'', ''i5_ready'', ''evidence_kind'',
     ''accepted'', ''passed'', ''process_exit'', ''failure'', ''payload''] @
     (if 2 \<le> revision then [''lifecycle''] else []) @ (if revision = 3 then [''initialization''] else [])"

definition receipt_bound :: "(string \<Rightarrow> string) \<Rightarrow> pyval \<Rightarrow> int \<Rightarrow> string \<Rightarrow> string \<Rightarrow> string \<Rightarrow> bool" where
  "receipt_bound sha r revision nonce manifest raw =
     (fld r ''schema_version'' = PInt revision \<and> fld r ''scope'' = PStr ''i5-preparation-evidence-receipt'' \<and>
      fld r ''nonce'' = PStr nonce \<and> fld r ''uuid'' = PStr UUID \<and> fld r ''manifest_sha256'' = PStr manifest \<and>
      fld r ''i5_ready'' = PBool False \<and> fld r ''evidence_kind'' = PStr ''synthetic'' \<and> is_bool (fld r ''accepted'') \<and>
      is_bool (fld r ''passed'') \<and> (fld r ''process_exit'' = PNone \<or> is_int (fld r ''process_exit'')) \<and>
      pyeq (fld r ''payload'') (payload_fingerprint sha raw) \<and> is_int (fld (fld r ''payload'') ''bytes''))"

text \<open>The verdict on an accepted and on a rejected report; \<open>host_passed\<close> is its value.\<close>

definition check_accepted ::
    "(string \<Rightarrow> string) \<Rightarrow> (rat \<Rightarrow> string) \<Rightarrow> pyval \<Rightarrow> int \<Rightarrow> string \<Rightarrow> string \<Rightarrow> string \<Rightarrow> bool res" where
  "check_accepted sha fr r revision nonce manifest raw =
     (if flag r ''accepted'' then
        bindE (validate_host_report sha fr raw nonce manifest) (\<lambda>v.
        let host_passed = flag v ''passed'' in
        bindE (if 2 \<le> revision then bindE (validate_lifecycle fr (fld r ''lifecycle'') nonce manifest host_passed) (\<lambda>_. Inr ())
               else Inr ()) (\<lambda>_.
        require (fld r ''failure'' = PNone \<and>
                 fld r ''passed'' = PBool (host_passed \<and> (revision = 1 \<or> flag (fld r ''lifecycle'') ''passed'')) \<and>
                 fld r ''process_exit'' = PInt (if host_passed then 0 else 2)) ''evidence acceptance mismatch'' (Inr host_passed)))
      else
        require (fld r ''passed'' = PBool False \<and> error_text_ok 2048 (fld r ''failure'')) ''failed evidence cannot pass'' (Inr False))"

definition check_receipt ::
    "(string \<Rightarrow> string) \<Rightarrow> (rat \<Rightarrow> string) \<Rightarrow> pyval \<Rightarrow> string \<Rightarrow> string \<Rightarrow> string \<Rightarrow> pyval \<Rightarrow> unit res" where
  "check_receipt sha fr attempt raw nonce manifest r =
     (let revision = (if is_dict r then get_or r ''schema_version'' PNone else PNone); n = int_of revision in
      require (is_int revision \<and> n \<in> set [1, 2, 3]) ''evidence receipt version'' (
      require ((fld attempt ''schema_version'' = PInt 2 \<and> n = 3) \<or> (fld attempt ''schema_version'' = PInt 1 \<and> n \<in> set [1, 2]))
        ''attempt/receipt version mismatch; initialization downgrade rejected'' (
      bindE (check_fields r (receipt_fields n)) (\<lambda>_.
      require (receipt_bound sha r n nonce manifest raw) ''evidence receipt binding/digest'' (
      bindE (check_accepted sha fr r n nonce manifest raw) (\<lambda>host_passed.
      bindE (if 2 \<le> n then bindE (validate_lifecycle fr (fld r ''lifecycle'') nonce manifest host_passed) (\<lambda>_. Inr ())
             else Inr ()) (\<lambda>_.
      if n = 3 then
        bindE (validate_initialization sha fr (fld r ''initialization'') nonce manifest (fld r ''lifecycle'')) (\<lambda>_.
        require (list_all (\<lambda>(key, v). pyeq (fld (fld r ''initialization'') key) v) (dict_of (fld attempt ''initialization_binding'')))
          ''attempt/receipt initialization digest mismatch'' (Inr ()))
      else Inr ())))))))"

definition EVIDENCE_FILES :: "string set" where
  "EVIDENCE_FILES = {''attempt.json'', ''host-report.bin'', ''receipt.json''}"

definition still_complete :: "'w store_kernel \<Rightarrow> path \<Rightarrow> int \<Rightarrow> stat_info \<Rightarrow> ('w, bool) act" where
  "still_complete k path fd info =
     bnd (k_lstat k path) (\<lambda>current.
     bnd (if S_ISDIR current then resolves k path else ret False) (\<lambda>canonical.
     if canonical \<and> (st_dev current, st_ino current) = (st_dev info, st_ino info)
     then bnd (k_listdir k fd) (\<lambda>names. ret (set names = EVIDENCE_FILES)) else ret False))"

definition read_record ::
    "(string \<Rightarrow> string) \<Rightarrow> (rat \<Rightarrow> string) \<Rightarrow> 'w store_kernel \<Rightarrow> path \<Rightarrow> int \<Rightarrow> string \<Rightarrow> string \<Rightarrow> ('w, pyval) act" where
  "read_record sha fr k path fd nonce manifest =
     bnd (k_fstat k fd) (\<lambda>info. bnd (k_getuid k) (\<lambda>uid.
     sqn (ensure (st_uid info = uid \<and> private_mode info) ''private evidence directory required'') (
     bnd (k_listdir k fd) (\<lambda>names.
     sqn (ensure (set names = EVIDENCE_FILES) ''interrupted or extra evidence files'') (
     bnd (read_evidence_file k fd info ''attempt.json'' RECEIPT_LIMIT) (\<lambda>raw_attempt.
     bnd (lft (validate_attempt raw_attempt nonce manifest)) (\<lambda>attempt.
     bnd (read_evidence_file k fd info ''host-report.bin'' HOST_REPORT_LIMIT) (\<lambda>raw.
     bnd (read_evidence_file k fd info ''receipt.json'' RECEIPT_LIMIT) (\<lambda>raw_receipt.
     bnd (lft (decode raw_receipt RECEIPT_LIMIT)) (\<lambda>r.
     sqn (lft (check_receipt sha fr attempt raw nonce manifest r)) (
     bnd (still_complete k path fd info) (\<lambda>complete.
     sqn (ensure complete ''evidence directory changed while reading'') (ret r)))))))))))))"

definition read_evidence ::
    "(string \<Rightarrow> string) \<Rightarrow> (rat \<Rightarrow> string) \<Rightarrow> 'w store_kernel \<Rightarrow> path \<Rightarrow> pyval \<Rightarrow> pyval \<Rightarrow> ('w, pyval) act" where
  "read_evidence sha fr k path nonce manifest =
     sqn (lft (binding_ok nonce manifest)) (
     sqn (ensure (is_absolute path) ''evidence path binding'') (
     bnd (resolves k path) (\<lambda>canonical.
     sqn (ensure (canonical \<and> PStr (path_name path) = nonce) ''evidence path binding'') (
     bnd (k_open k path dir_flags) (\<lambda>fd.
     try_finally (read_record sha fr k path fd (str_of nonce) (str_of manifest)) (k_close k fd))))))"

subsection \<open>Persisting\<close>

text \<open>The verdict on the raw report: accepted, passed, and the failure that remains.\<close>

definition judge_report ::
    "(string \<Rightarrow> string) \<Rightarrow> (rat \<Rightarrow> string) \<Rightarrow> store \<Rightarrow> string \<Rightarrow> pyval \<Rightarrow> pyval \<Rightarrow> (bool \<times> bool \<times> pyval) res" where
  "judge_report sha fr s raw process_exit failure =
     (if failure \<noteq> PNone then Inr (False, False, failure)
      else case bindE (validate_host_report sha fr raw (es_nonce s) (es_manifest s)) (\<lambda>v.
               require (process_exit = PInt (if flag v ''passed'' then 0 else 2)) ''host process/report exit mismatch''
                 (Inr (flag v ''passed''))) of
             Inr passed \<Rightarrow> Inr (True, passed, PNone)
           | Inl x \<Rightarrow> if caught x then Inr (False, False, PStr (take 2048 (exn_str x))) else Inl x)"

definition receipt_value ::
    "(string \<Rightarrow> string) \<Rightarrow> store \<Rightarrow> string \<Rightarrow> pyval \<Rightarrow> bool \<Rightarrow> bool \<Rightarrow> pyval \<Rightarrow> pyval \<Rightarrow> pyval \<Rightarrow> pyval" where
  "receipt_value sha s raw process_exit accepted passed failure lifecycle initialization = PDict
     ([(''schema_version'', PInt (if initialization \<noteq> PNone then 3 else if lifecycle \<noteq> PNone then 2 else 1)),
       (''scope'', PStr ''i5-preparation-evidence-receipt''), (''nonce'', PStr (es_nonce s)), (''uuid'', PStr UUID),
       (''manifest_sha256'', PStr (es_manifest s)), (''i5_ready'', PBool False), (''evidence_kind'', PStr ''synthetic''),
       (''accepted'', PBool accepted),
       (''passed'', if lifecycle = PNone then PBool passed else if passed then fld lifecycle ''passed'' else PBool False),
       (''process_exit'', process_exit), (''failure'', failure), (''payload'', payload_fingerprint sha raw)] @
      (if lifecycle = PNone then [] else [(''lifecycle'', lifecycle)]) @
      (if initialization = PNone then [] else [(''initialization'', initialization)]))"

definition persist_checks ::
    "(string \<Rightarrow> string) \<Rightarrow> (rat \<Rightarrow> string) \<Rightarrow> store \<Rightarrow> bool \<Rightarrow> pyval \<Rightarrow> pyval \<Rightarrow> unit res" where
  "persist_checks sha fr s passed lifecycle initialization =
     bindE (if lifecycle = PNone then Inr ()
            else bindE (validate_lifecycle fr lifecycle (es_nonce s) (es_manifest s) passed) (\<lambda>_. Inr ())) (\<lambda>_.
     bindE (if initialization = PNone then Inr ()
            else require (lifecycle \<noteq> PNone) ''initialization requires lifecycle receipt'' (
                 bindE (validate_initialization sha fr initialization (es_nonce s) (es_manifest s) lifecycle) (\<lambda>_. Inr ()))) (\<lambda>_.
     require ((initialization = PNone) = (es_binding s = PNone) \<and>
              (initialization = PNone \<or> list_all (\<lambda>(key, v). pyeq (fld initialization key) v) (dict_of (es_binding s))))
       ''attempt/receipt initialization source binding'' (Inr ())))"

definition persist ::
    "(string \<Rightarrow> string) \<Rightarrow> (rat \<Rightarrow> string) \<Rightarrow> 'w store_kernel \<Rightarrow> string \<Rightarrow> pyval \<Rightarrow> pyval \<Rightarrow> pyval \<Rightarrow> pyval \<Rightarrow> ('w storing, pyval) act" where
  "persist sha fr k raw process_exit failure lifecycle initialization =
     bnd (get sv_store) (\<lambda>s.
     sqn (ensure (\<not> es_consumed s) ''evidence attempt consumed'') (
     sqn (set_store (\<lambda>s. s\<lparr>es_consumed := True\<rparr>)) (
     sqn (ensure (length raw \<le> HOST_REPORT_LIMIT) ''host evidence byte limit'') (
     sqn (ensure (process_exit = PNone \<or> is_int process_exit) ''host process exit type'') (
     sqn (ensure (failure = PNone \<or> error_text_ok 2048 failure) ''evidence failure type'') (
     bnd (lft (judge_report sha fr s raw process_exit failure)) (\<lambda>(accepted, passed, failure').
     sqn (lft (persist_checks sha fr s passed lifecycle initialization)) (
     sqn (store_write k ''host-report.bin'' raw) (
     sqn (store_write k ''receipt.json''
            (encode fr (receipt_value sha s raw process_exit accepted passed failure' lifecycle initialization))) (
     sv (read_evidence sha fr k (es_path s) (PStr (es_nonce s)) (PStr (es_manifest s)))))))))))))"

subsection \<open>The persisting child\<close>

text \<open>What the child runs until its \<open>os._exit\<close>; the value is the exit status.\<close>

definition persist_message :: "pyval res \<Rightarrow> pyval" where
  "persist_message r = (case r of
     Inr receipt \<Rightarrow> PDict [(''receipt'', receipt), (''error'', PNone)]
   | Inl x \<Rightarrow> PDict [(''receipt'', PNone), (''error'', PStr (take 2048 (exn_name x @ '': '' @ exn_str x)))])"

definition persist_child ::
    "nat \<Rightarrow> (string \<Rightarrow> string) \<Rightarrow> (rat \<Rightarrow> string) \<Rightarrow> 'w store_kernel \<Rightarrow> 'w ipc \<Rightarrow> int \<Rightarrow> string \<Rightarrow> pyval \<Rightarrow> pyval \<Rightarrow> rat \<Rightarrow>
     ('w storing, int) act" where
  "persist_child fuel sha fr k e writer raw process_exit failure deadline =
     bnd (get (\<lambda>s. es_fd (sv_store s))) (\<lambda>fd.
     bnd (trial (sqn (case fd of None \<Rightarrow> lft (Inl (TypeError ''unorderable descriptors'')) | Some f \<Rightarrow> sv (close_except e [writer, f])) (
                 persist sha fr k raw process_exit failure PNone PNone))) (\<lambda>r.
     handle_if any_exn
       (sqn (sv (write_bounded fuel e writer (encode fr (persist_message r)) deadline (ret ()))) (ret (if isl r then 2 else 0)))
       (\<lambda>_. ret 2)))"

fun persist_read :: "nat \<Rightarrow> 'w ipc \<Rightarrow> int \<Rightarrow> rat \<Rightarrow> string \<Rightarrow> ('w, string) act" where
  "persist_read 0 e reader deadline data = lft (Inl OutOfFuel)"
| "persist_read (Suc n) e reader deadline data =
     bnd (io_now e) (\<lambda>t. sqn (ensure (t < deadline) ''persistence deadline; outcome unconfirmed'') (
     bnd (io_readable e [reader] (1 / 100)) (\<lambda>ready.
     if ready = [] then persist_read n e reader deadline data else
     bnd (io_read e reader (min 4096 (RECEIPT_LIMIT - length data + 1))) (\<lambda>chunk.
     if chunk = [] then ret data else
     sqn (ensure (length (data @ chunk) \<le> RECEIPT_LIMIT) ''persistence reply limit'') (
     persist_read n e reader deadline (data @ chunk))))))"

record 'w persisting =
  pc_world :: 'w
  pc_code :: "int option"

abbreviation pc :: "('w, 'a) act \<Rightarrow> ('w persisting, 'a) act" where
  "pc \<equiv> zoom pc_world pc_world_update"

definition persist_reply :: "nat \<Rightarrow> 'w ipc \<Rightarrow> int \<Rightarrow> int \<Rightarrow> rat \<Rightarrow> ('w persisting, pyval) act" where
  "persist_reply fuel e pid reader deadline =
     bnd (pc (persist_read fuel e reader deadline [])) (\<lambda>data.
     bnd (pc (wait_child fuel e pid deadline)) (\<lambda>status.
     sqn (upd (\<lambda>s. s\<lparr>pc_code := status\<rparr>)) (
     bnd (lft (decode data RECEIPT_LIMIT)) (\<lambda>message.
     sqn (lft (check_fields message [''receipt'', ''error''])) (
     sqn (ensure (status = Some 0 \<and> fld message ''error'' = PNone) (''persistence failed: '' @ str_of (fld message ''error''))) (
     ret (fld message ''receipt'')))))))"

definition persist_reap :: "nat \<Rightarrow> 'w ipc \<Rightarrow> int \<Rightarrow> int \<Rightarrow> ('w persisting, unit) act" where
  "persist_reap fuel e pid reader =
     sqn (pc (io_close e reader)) (
     bnd (get pc_code) (\<lambda>status.
     whenA (status = None)
       (sqn (handle_if (is_os_class ProcessLookupError) (pc (io_kill e pid ''KILL'')) (\<lambda>_. ret ())) (
        bnd (pc (io_now e)) (\<lambda>t.
        bnd (pc (wait_child fuel e pid (t + 2))) (\<lambda>c.
        sqn (upd (\<lambda>s. s\<lparr>pc_code := c\<rparr>)) (
        ensure (c \<noteq> None) (''persistence child kill/reap unconfirmed: '' @ show_int pid))))))))"

text \<open>The parent's side: the store is consumed as soon as the child exists.\<close>

definition persist_bounded :: "nat \<Rightarrow> 'w ipc \<Rightarrow> rat \<Rightarrow> ('w storing, pyval) act" where
  "persist_bounded fuel e seconds =
     bnd (get (\<lambda>s. es_consumed (sv_store s))) (\<lambda>consumed.
     sqn (ensure (\<not> consumed \<and> 0 < seconds \<and> seconds \<le> PERSIST_SECONDS) ''persistence attempt/deadline'') (
     bnd (sv (io_pipe e)) (\<lambda>(reader, writer).
     bnd (sv (io_now e)) (\<lambda>t.
     bnd (sv (on_error (io_fork e) (sqn (io_close e reader) (io_close e writer)))) (\<lambda>pid.
     sqn (set_store (\<lambda>s. s\<lparr>es_consumed := True\<rparr>)) (
     sqn (sv (io_close e writer)) (
     sv (\<lambda>w. case try_finally (persist_reply fuel e pid reader (t + seconds)) (persist_reap fuel e pid reader)
                    \<lparr> pc_world = w, pc_code = None \<rparr> of (r, s) \<Rightarrow> (r, pc_world s)))))))))"

end
