(* ===== verification/Lifecycle.thy ===== *)
theory Lifecycle
  imports Watchdog Capacity EvidenceStore Staging Transport "HOL-Library.AList"
begin

text \<open>
  The owner of one preparation (\<open>sw_i5_preparation_lifecycle._Owner\<close>): the facts it collects,
  how it notes failures, the registrations of created objects it acknowledges, its bounded
  waits for messages and children, and the adapter actions (start, readiness, shutdown), each
  run in a child.  The evidence worker's process is here too.  The watchdog's owner and the
  whole run are in \<open>LifecycleRun\<close>.
\<close>

subsection \<open>Bounded diagnostics\<close>

definition encode_text :: "string \<Rightarrow> string" where
  "encode_text t = encode (\<lambda>_. []) (PStr t)"

definition encode_texts :: "string list \<Rightarrow> string" where
  "encode_texts ts = encode (\<lambda>_. []) (PList (map PStr ts))"

definition truncation :: string where
  "truncation = '' [truncated]''"

text \<open>The binary search for the longest prefix that still fits with the suffix.\<close>

function fit_search :: "string \<Rightarrow> nat \<Rightarrow> nat \<Rightarrow> nat \<Rightarrow> nat" where
  "fit_search text limit low high =
     (if low < high then
        let middle = (low + high + 1) div 2 in
        if length (encode_text (take middle text @ truncation)) \<le> limit then fit_search text limit middle high
        else fit_search text limit low (middle - 1)
      else low)"
  by auto
termination by (relation "measure (\<lambda>(text, limit, low, high). high - low)") (auto simp: Let_def)

declare fit_search.simps [simp del]

definition bounded_text :: "string \<Rightarrow> nat \<Rightarrow> string \<times> bool" where
  "bounded_text text limit =
     (if length (encode_text text) \<le> limit then (text, False)
      else (take (fit_search text limit 0 (length text)) text @ truncation, True))"

subsection \<open>The facts of an attempt\<close>

record facts =
  lf_attempt_ready :: bool
  lf_start_attempted :: bool
  lf_start :: pyval
  lf_readiness :: pyval
  lf_shutdown_attempted :: bool
  lf_shutdown :: pyval
  lf_registered :: bool
  lf_reaped :: bool
  lf_frozen :: bool
  lf_failure :: "string option"
  lf_failure_truncated :: bool
  lf_cleanup :: "string list"
  lf_cleanup_truncated :: bool
  lf_passed :: bool

definition initial_facts :: facts where
  "initial_facts = \<lparr> lf_attempt_ready = False, lf_start_attempted = False, lf_start = PNone, lf_readiness = PNone,
     lf_shutdown_attempted = False, lf_shutdown = PNone, lf_registered = False, lf_reaped = True, lf_frozen = False,
     lf_failure = None, lf_failure_truncated = False, lf_cleanup = [], lf_cleanup_truncated = False, lf_passed = False \<rparr>"

definition facts_value :: "string \<Rightarrow> string \<Rightarrow> pyval \<Rightarrow> facts \<Rightarrow> pyval" where
  "facts_value nonce manifest total_v f = PDict
     [(''schema_version'', PInt 1), (''scope'', PStr ''i5-preparation-lifecycle''), (''uuid'', PStr UUID),
      (''nonce'', PStr nonce), (''manifest_sha256'', PStr manifest), (''evidence_kind'', PStr ''synthetic''),
      (''i5_ready'', PBool False), (''total_seconds'', total_v), (''attempt_ready'', PBool (lf_attempt_ready f)),
      (''start_attempted'', PBool (lf_start_attempted f)), (''start'', lf_start f), (''readiness'', lf_readiness f),
      (''shutdown_attempted'', PBool (lf_shutdown_attempted f)), (''shutdown'', lf_shutdown f),
      (''transport_registered'', PBool (lf_registered f)), (''sessions_reaped'', PBool (lf_reaped f)),
      (''frozen'', PBool (lf_frozen f)),
      (''first_failure'', case lf_failure f of None \<Rightarrow> PNone | Some m \<Rightarrow> PStr m),
      (''failure_truncated'', PBool (lf_failure_truncated f)), (''cleanup_errors'', PList (map PStr (lf_cleanup f))),
      (''cleanup_truncated'', PBool (lf_cleanup_truncated f)), (''passed'', PBool (lf_passed f))]"

text \<open>\<open>fail\<close> keeps the first failure.\<close>

definition note_failure :: "string \<Rightarrow> facts \<Rightarrow> facts" where
  "note_failure reason f = (case lf_failure f of Some _ \<Rightarrow> f | None \<Rightarrow>
     (let (text, truncated) = bounded_text reason FIRST_ERROR_BYTES in
      f\<lparr>lf_failure := Some (if text = [] then ''lifecycle failed'' else text),
        lf_failure_truncated := truncated \<or> endswith text truncation\<rparr>))"

definition note_cleanup_error :: "string \<Rightarrow> facts \<Rightarrow> facts" where
  "note_cleanup_error reason f0 =
     (let f = (note_failure reason f0)\<lparr>lf_reaped := False\<rparr>;
          (text, truncated) = bounded_text reason (CLEANUP_BYTES div 2);
          fits = (length (lf_cleanup f) < 16 \<and> length (encode_texts (lf_cleanup f @ [text])) \<le> CLEANUP_BYTES)
      in f\<lparr>lf_cleanup := (if fits then lf_cleanup f @ [text] else lf_cleanup f),
           lf_cleanup_truncated := lf_cleanup_truncated f \<or> truncated \<or> \<not> fits \<or> endswith text truncation\<rparr>)"

subsection \<open>The owner\<close>

text \<open>The synthetic initialization, as far as the owner reads it.\<close>

record setup_plan =
  in_facts :: "(string \<times> pyval) list"
  in_roles :: "string set"
  in_root :: string
  in_source_limit :: nat
  in_source :: string
  in_source_sha256 :: pyval
  in_nonce :: pyval
  in_manifest :: pyval
  in_parent :: string

type_synonym 'w rpc = "pyval \<Rightarrow> rat \<Rightarrow> nat \<Rightarrow> ('w, string) act"

record 'w owning =
  oe_proc :: "'w proc"
  oe_dig :: "string \<Rightarrow> string"
  oe_signal :: "('w, int option) act"
  oe_getpgid :: "int \<Rightarrow> ('w, int) act"
  oe_socketpair :: "('w, int \<times> int) act"
  oe_cancel :: int
  oe_report :: int
  oe_request :: pyval
  oe_adapter :: "string \<Rightarrow> pyval \<Rightarrow> ('w, pyval) act"
  oe_rpc :: "'w rpc"
  oe_with_stager :: "client \<Rightarrow> 'w rpc res"
  oe_budget :: budget
  oe_total :: pyval
  oe_absolute :: rat
  oe_init_deadline :: rat
  oe_init :: "setup_plan option"
  oe_nonce :: string
  oe_digest :: string

record 'w owner =
  ow_world :: 'w
  ow_facts :: facts
  ow_frozen :: bool
  ow_raw :: string
  ow_exit :: "int option"
  ow_host_passed :: bool
  ow_delivery :: "string list"
  ow_init_facts :: "(string \<times> pyval) list"
  ow_registry :: "(string \<times> pyval) list"
  ow_registered :: string
  ow_stage_client :: "int option"
  ow_stage_worker :: "int option"
  ow_rpc :: "'w rpc"
  ow_evidence :: "int option"
  ow_command :: "int option"
  ow_result :: "int option"

abbreviation ow :: "('w, 'a) act \<Rightarrow> ('w owner, 'a) act" where
  "ow \<equiv> zoom ow_world ow_world_update"

definition owner_start :: "'w owning \<Rightarrow> 'w \<Rightarrow> 'w owner" where
  "owner_start e w = \<lparr> ow_world = w, ow_facts = initial_facts, ow_frozen = False, ow_raw = [], ow_exit = None,
     ow_host_passed = False, ow_delivery = [], ow_init_facts = (case oe_init e of None \<Rightarrow> [] | Some p \<Rightarrow> in_facts p),
     ow_registry = [], ow_registered = [], ow_stage_client = None, ow_stage_worker = None, ow_rpc = oe_rpc e,
     ow_evidence = None, ow_command = None, ow_result = None \<rparr>"

text \<open>\<open>except Exception\<close>.\<close>

definition ordinary :: "exn \<Rightarrow> bool" where
  "ordinary x = (any_exn x \<and> \<not> base_only x)"

definition set_facts :: "(facts \<Rightarrow> facts) \<Rightarrow> ('w owner, unit) act" where
  "set_facts f = upd (\<lambda>s. s\<lparr>ow_facts := f (ow_facts s)\<rparr>)"

definition now_of :: "'w owning \<Rightarrow> ('w owner, rat) act" where
  "now_of e = ow (io_now (oe_proc e))"

definition cap_of :: "'w owning \<Rightarrow> string \<Rightarrow> rat" where
  "cap_of e k = cap (bu_caps (oe_budget e)) k"

definition fail :: "string \<Rightarrow> ('w owner, unit) act" where
  "fail reason = set_facts (note_failure reason)"

definition owner_cleanup :: "string \<Rightarrow> ('w owner, unit) act" where
  "owner_cleanup reason = upd (\<lambda>s.
     if ow_frozen s then
       (if length (encode_texts (ow_delivery s)) < CLEANUP_BYTES div 2
        then s\<lparr>ow_delivery := ow_delivery s @ [fst (bounded_text reason (CLEANUP_BYTES div 2))]\<rparr> else s)
     else s\<lparr>ow_facts := note_cleanup_error reason (ow_facts s)\<rparr>)"

definition failure_text :: "facts \<Rightarrow> string" where
  "failure_text f = (case lf_failure f of None \<Rightarrow> ''lifecycle failed'' | Some m \<Rightarrow> m)"

text \<open>The liveness of the controller and a pending signal, looked at until the facts are frozen.\<close>

definition check_cancel :: "'w owning \<Rightarrow> ('w owner, unit) act" where
  "check_cancel e =
     bnd (ow (io_readable (oe_proc e) [oe_cancel e] 0)) (\<lambda>ready.
     sqn (whenA (ready \<noteq> [])
            (bnd (ow (io_read (oe_proc e) (oe_cancel e) 1)) (\<lambda>data.
             fail (if data \<noteq> [] then ''controller cancelled'' else ''controller liveness EOF''))))
         (bnd (ow (oe_signal e)) (\<lambda>sig. case sig of None \<Rightarrow> ret ()
            | Some n \<Rightarrow> fail (''lifecycle owner cancelled by signal '' @ show_int n))))"

definition owner_checkpoint :: "'w owning \<Rightarrow> bool \<Rightarrow> ('w owner, unit) act" where
  "owner_checkpoint e abort =
     bnd (get ow_frozen) (\<lambda>frozen.
     sqn (whenA (\<not> frozen) (check_cancel e)) (
     bnd (now_of e) (\<lambda>t.
     sqn (ensure (t < oe_absolute e) ''lifecycle absolute deadline'') (
     bnd (get ow_facts) (\<lambda>f.
     ensure (abort \<longrightarrow> lf_failure f = None) (failure_text f))))))"

definition stage_until :: "'w owning \<Rightarrow> string \<Rightarrow> ('w owner, rat) act" where
  "stage_until e phase =
     bnd (now_of e) (\<lambda>t. let deadline = stage_deadline (oe_budget e) phase t (oe_absolute e) in
     bnd (now_of e) (\<lambda>t'. sqn (ensure (t' < deadline) (phase @ '' has no reserved work window'')) (ret deadline)))"

subsection \<open>Registrations\<close>

definition REGISTERED_ROLES :: "string list" where
  "REGISTERED_ROLES = [''host_jxa_root'', ''guest_root'', ''work'', ''result'', ''control'', ''lease'', ''ack'',
     ''cgroup_parent'', ''cgroup_worker'', ''cgroup_supervisor'', ''source'']"

definition registration_fields :: "string list" where
  "registration_fields = [''schema_version'', ''scope'', ''uuid'', ''nonce'', ''manifest_sha256'', ''deadline'', ''registration'']"

text \<open>The envelope of a registration, whose deadline bounds the acknowledgement.\<close>

definition registration_envelope :: "'w owning \<Rightarrow> pyval \<Rightarrow> rat \<Rightarrow> rat res" where
  "registration_envelope e m deadline =
     bindE (check_fields m registration_fields) (\<lambda>_.
     require (fld m ''schema_version'' = PInt 1 \<and> fld m ''scope'' = PStr ''i5-synthetic-registration'' \<and> fld m ''uuid'' = PStr UUID \<and>
              fld m ''nonce'' = PStr (oe_nonce e) \<and> fld m ''manifest_sha256'' = PStr (oe_digest e)) ''registration scope/identity'' (
     case finite_num (fld m ''deadline'') of None \<Rightarrow> Inl (ValueError ''registration absolute deadline'')
     | Some d \<Rightarrow> Inr (min deadline d)))"

definition registration_ok :: "setup_plan \<Rightarrow> pyval \<Rightarrow> bool" where
  "registration_ok p v =
     (let role = fld v ''role''; state = fld v ''state''; ident = fld v ''identity'' in
      role \<in> PStr ` set REGISTERED_ROLES \<and> state \<in> set [PStr ''intent'', PStr ''bound'', PStr ''cleaned''] \<and>
      in_range 0 (int (in_source_limit p)) (fld v ''bytes'') \<and>
      (if state = PStr ''intent'' then ident = PNone else ident_ok ident) \<and>
      (if role = PStr ''source'' then in_range 0 (2 ^ 53 - 1) (fld v ''sequence'') else fld v ''sequence'' = PNone))"

definition registration_value :: "setup_plan option \<Rightarrow> pyval \<Rightarrow> unit res" where
  "registration_value i v =
     bindE (check_fields v [''role'', ''state'', ''identity'', ''bytes'', ''sequence'']) (\<lambda>_.
     case i of None \<Rightarrow> Inl (ValueError ''initialization registration fields'')
     | Some p \<Rightarrow> if \<not> hashable (fld v ''role'') then Inl (TypeError ''unhashable type'')
         else require (registration_ok p v) ''initialization registration fields'' (Inr ()))"

text \<open>
  The registry of pending objects: an intent opens an entry, a binding gives it an identity, a
  cleaning of the same identity removes it.  This is the last part of \<open>register\<close>; the binding and
  the fields of a message are checked before (\<open>registration_envelope\<close>, \<open>registration_value\<close>).
\<close>

definition registry_follows :: "pyval \<Rightarrow> pyval \<Rightarrow> bool" where
  "registry_follows row v =
     ((if fld v ''state'' = PStr ''bound'' then fld row ''state'' = PStr ''intent''
       else fld row ''state'' = PStr ''bound'' \<and> pyeq (fld row ''identity'') (fld v ''identity'')) \<and>
      pyeq (fld row ''sequence'') (fld v ''sequence'') \<and> pyeq (fld row ''bytes'') (fld v ''bytes''))"

definition registry_step :: "pyval \<Rightarrow> (string \<times> pyval) list \<Rightarrow> (string \<times> pyval) list res" where
  "registry_step v registry =
     (let role = str_of (fld v ''role''); state = fld v ''state'' in
      require (if state = PStr ''intent'' then map_of registry role = None \<and> length registry < 12 else True)
        ''registration duplicate/bound'' (
      require (state = PStr ''intent'' \<or> (case map_of registry role of None \<Rightarrow> False | Some row \<Rightarrow> registry_follows row v))
        ''registration identity/order'' (
      Inr (if state = PStr ''cleaned'' then AList.delete role registry else AList.update role v registry))))"

definition put_all :: "(string \<times> pyval) list \<Rightarrow> (string \<times> pyval) list \<Rightarrow> (string \<times> pyval) list" where
  "put_all kvs d = fold (\<lambda>(k, v). AList.update k v) kvs d"

definition put_object :: "string \<Rightarrow> pyval \<Rightarrow> (string \<times> pyval) list \<Rightarrow> (string \<times> pyval) list" where
  "put_object role ident d = AList.update ''objects'' (PDict (AList.update role ident (dict_of (fld (PDict d) ''objects'')))) d"

definition pending_row :: "pyval \<Rightarrow> pyval" where
  "pending_row row = PList [fld row ''state'', fld row ''identity'', fld row ''bytes'', fld row ''sequence'']"

definition init_registered :: "(string \<Rightarrow> string) \<Rightarrow> string \<Rightarrow> (string \<times> pyval) list \<Rightarrow> (string \<times> pyval) list \<Rightarrow> (string \<times> pyval) list" where
  "init_registered sha hashed registry d = put_all
     [(''registry_sha256'', PStr (sha hashed)), (''registrations'', PInt (int_of (fld (PDict d) ''registrations'') + 1)),
      (''pending'', PInt (int (length registry))), (''pending_objects'', PDict (map (\<lambda>(k, row). (k, pending_row row)) registry))] d"

text \<open>Registered before it is acknowledged.\<close>

definition registered :: "'w owning \<Rightarrow> pyval \<Rightarrow> (string \<times> pyval) list \<Rightarrow> 'w owner \<Rightarrow> 'w owner" where
  "registered e v registry s =
     (let hashed = ow_registered s @ encode (io_float (oe_proc e)) v;
          role = str_of (fld v ''role'');
          facts = (if fld v ''state'' = PStr ''bound'' \<and> role \<noteq> ''source''
                   then put_object role (fld v ''identity'') (ow_init_facts s) else ow_init_facts s)
      in s\<lparr>ow_registry := registry, ow_registered := hashed,
           ow_init_facts := init_registered (hexdigest (oe_dig e)) hashed registry facts\<rparr>)"

definition register :: "nat \<Rightarrow> 'w owning \<Rightarrow> pyval \<Rightarrow> rat \<Rightarrow> ('w owner, unit) act" where
  "register fuel e m deadline0 =
     bnd (lft (registration_envelope e m deadline0)) (\<lambda>deadline. let v = fld m ''registration'' in
     sqn (lft (registration_value (oe_init e) v)) (
     bnd (get ow_registry) (\<lambda>registry0.
     bnd (lft (registry_step v registry0)) (\<lambda>registry.
     sqn (upd (registered e v registry)) (
     bnd (get ow_command) (\<lambda>command. bnd (fd_of command) (\<lambda>fd.
     ow (send fuel (ipc_of (oe_proc e)) fd (encode (io_float (oe_proc e)) (PDict [(''registered'', v)])) deadline))))))))"

subsection \<open>One bounded message\<close>

fun message_loop :: "nat \<Rightarrow> 'w owning \<Rightarrow> int \<Rightarrow> rat \<Rightarrow> bool \<Rightarrow> string \<Rightarrow> ('w owner, pyval) act" where
  "message_loop 0 e fd deadline abort raw = lft (Inl OutOfFuel)"
| "message_loop (Suc n) e fd deadline abort raw =
     sqn (owner_checkpoint e abort) (
     bnd (now_of e) (\<lambda>t. sqn (ensure (t < deadline) ''lifecycle response deadline'') (
     bnd (ow (io_readable (oe_proc e) [fd] (1 / 100))) (\<lambda>ready.
     if ready = [] then message_loop n e fd deadline abort raw else
     bnd (ow (io_read (oe_proc e) fd (min 4096 (RECEIPT_LIMIT - length raw + 1)))) (\<lambda>data.
     sqn (ensure (data \<noteq> []) ''lifecycle response EOF'') (
     sqn (ensure (length (raw @ data) \<le> RECEIPT_LIMIT) ''lifecycle response byte limit'') (
     case split1 (CHR 0x0A) (raw @ data) of None \<Rightarrow> message_loop n e fd deadline abort (raw @ data)
     | Some (line, extra) \<Rightarrow>
         sqn (ensure (extra = []) ''multiple lifecycle responses'') (
         bnd (lft (decode line RECEIPT_LIMIT)) (\<lambda>m.
         if oe_init e \<noteq> None \<and> is_dict m \<and> ''registration'' \<in> keys m
         then sqn (register n e m deadline) (message_loop n e fd deadline abort [])
         else bnd (now_of e) (\<lambda>t. sqn (ensure (t < deadline) ''late lifecycle response'') (ret m)))))))))))"

definition message :: "nat \<Rightarrow> 'w owning \<Rightarrow> int \<Rightarrow> rat \<Rightarrow> bool \<Rightarrow> ('w owner, pyval) act" where
  "message fuel e fd deadline abort =
     sqn (ow (io_nonblocking (oe_proc e) fd)) (message_loop fuel e fd deadline abort [])"

text \<open>\<open>str\<close> of the error of a reply, whose text is modelled for a string.\<close>

definition initialization_command :: "nat \<Rightarrow> 'w owning \<Rightarrow> string \<Rightarrow> rat \<Rightarrow> ('w owner, pyval) act" where
  "initialization_command fuel e operation deadline =
     bnd (get ow_command) (\<lambda>command. bnd (fd_of command) (\<lambda>fd.
     sqn (ow (send fuel (ipc_of (oe_proc e)) fd (encode (io_float (oe_proc e))
            (PDict [(''operation'', PStr operation), (''deadline'', time_value deadline)])) deadline)) (
     bnd (get ow_result) (\<lambda>result. bnd (fd_of result) (\<lambda>rfd.
     bnd (message fuel e rfd deadline (operation = ''guest'')) (\<lambda>m.
     sqn (lft (check_fields m [''operation'', ''result'', ''error''])) (
     sqn (ensure (fld m ''operation'' = PStr operation \<and> fld m ''error'' = PNone) (operation @ '': '' @ str_of (fld m ''error''))) (
     ret (fld m ''result'')))))))))"

subsection \<open>Ending a child\<close>

definition poll_child :: "'w owning \<Rightarrow> int \<Rightarrow> int option \<Rightarrow> ('w owner, int option) act" where
  "poll_child e pid status = (if status \<noteq> None then ret status else ow (io_waitpid (oe_proc e) pid))"

text \<open>Poll until a status or a deadline, and until the group is gone (\<open>False\<close>: it stayed).\<close>

fun poll_until :: "nat \<Rightarrow> 'w owning \<Rightarrow> int \<Rightarrow> rat \<Rightarrow> int option \<Rightarrow> ('w owner, int option) act" where
  "poll_until 0 e pid deadline status = lft (Inl OutOfFuel)"
| "poll_until (Suc n) e pid deadline status =
     (if status \<noteq> None then ret status else
      bnd (now_of e) (\<lambda>t. if deadline \<le> t then ret None else
      bnd (poll_child e pid None) (\<lambda>status.
      sqn (whenA (status = None) (ow (io_sleep (oe_proc e) (1 / 200)))) (
      poll_until n e pid deadline status))))"

text \<open>The same for the exception path of \<open>finish\<close>, which gives up when polling fails.\<close>

fun poll_quietly :: "nat \<Rightarrow> 'w owning \<Rightarrow> int \<Rightarrow> rat \<Rightarrow> int option \<Rightarrow> ('w owner, int option) act" where
  "poll_quietly 0 e pid deadline status = lft (Inl OutOfFuel)"
| "poll_quietly (Suc n) e pid deadline status =
     (if status \<noteq> None then ret status else
      bnd (now_of e) (\<lambda>t. if deadline \<le> t then ret None else
      bnd (handle_if is_oserror (bnd (poll_child e pid None) (\<lambda>c. ret (Some c))) (\<lambda>_. ret None)) (\<lambda>polled.
      case polled of None \<Rightarrow> ret None
      | Some status \<Rightarrow>
          sqn (whenA (status = None) (ow (io_sleep (oe_proc e) (1 / 200)))) (
          poll_quietly n e pid deadline status))))"

fun group_gone :: "nat \<Rightarrow> 'w owning \<Rightarrow> int \<Rightarrow> rat \<Rightarrow> ('w owner, bool) act" where
  "group_gone 0 e pid deadline = lft (Inl OutOfFuel)"
| "group_gone (Suc n) e pid deadline =
     bnd (now_of e) (\<lambda>t. if deadline \<le> t then ret False else
     bnd (handle_if (is_os_class ProcessLookupError) (sqn (ow (io_killpg (oe_proc e) pid ''0'')) (ret False)) (\<lambda>_. ret True)) (\<lambda>gone.
     if gone then ret True else
     sqn (ow (io_sleep (oe_proc e) (1 / 200))) (group_gone n e pid deadline)))"

text \<open>Kill the group, else the process; another failure of the first is a diagnostic.\<close>

definition group_kill :: "'w owning \<Rightarrow> int \<Rightarrow> int option \<Rightarrow> string \<Rightarrow> ('w owner, unit) act" where
  "group_kill e pid status context =
     handle_if is_oserror (ow (io_killpg (oe_proc e) pid ''KILL'')) (\<lambda>x.
       if is_os_class ProcessLookupError x
       then whenA (status = None)
              (handle_if (is_os_class ProcessLookupError) (ow (io_kill (oe_proc e) pid ''KILL'')) (\<lambda>_. ret ()))
       else owner_cleanup (context @ exn_str x))"

text \<open>After the exit: descendants that stayed in the group are killed and reported.\<close>

definition end_group :: "nat \<Rightarrow> 'w owning \<Rightarrow> int \<Rightarrow> string \<Rightarrow> rat \<Rightarrow> ('w owner, unit) act" where
  "end_group fuel e pid label deadline =
     bnd (handle_if is_oserror (sqn (ow (io_killpg (oe_proc e) pid ''0'')) (ret True)) (\<lambda>x.
            if is_os_class ProcessLookupError x then ret False
            else sqn (owner_cleanup (label @ '' group check: '' @ exn_str x)) (ret False))) (\<lambda>remained.
     whenA remained
       (sqn (owner_cleanup (label @ '' descendants remained after leader exit'')) (
        sqn (handle_if (is_os_class ProcessLookupError) (ow (io_killpg (oe_proc e) pid ''KILL'')) (\<lambda>_. ret ())) (
        bnd (group_gone fuel e pid deadline) (\<lambda>gone.
        whenA (\<not> gone) (owner_cleanup (label @ '' group cleanup unconfirmed'')))))))"

definition finish_child :: "nat \<Rightarrow> 'w owning \<Rightarrow> int \<Rightarrow> int option \<Rightarrow> string \<Rightarrow> bool \<Rightarrow> rat \<Rightarrow> ('w owner, int option) act" where
  "finish_child fuel e pid status0 label kill deadline =
     bnd (poll_child e pid status0) (\<lambda>status.
     bnd (now_of e) (\<lambda>t.
     bnd (if \<not> kill \<and> status = None
          then bnd (poll_until fuel e pid (min deadline (t + min (1 / 4) (cap_of e ''reap'' / 2))) None) (\<lambda>status.
               sqn (whenA (status = None) (owner_cleanup (label @ '' did not exit after response''))) (ret (status, True)))
          else ret (status, kill)) (\<lambda>(status, kill).
     sqn (whenA (kill \<and> status = None) (group_kill e pid status (label @ '' kill: ''))) (
     bnd (poll_until fuel e pid deadline status) (\<lambda>status.
     if status = None then sqn (owner_cleanup (label @ '' reap unconfirmed'')) (ret None)
     else sqn (end_group fuel e pid label deadline) (ret status))))))"

definition finish_failed :: "nat \<Rightarrow> 'w owning \<Rightarrow> int \<Rightarrow> int option \<Rightarrow> string \<Rightarrow> rat \<Rightarrow> exn \<Rightarrow> ('w owner, int option) act" where
  "finish_failed fuel e pid status label deadline x =
     sqn (owner_cleanup (label @ '' cleanup exception: '' @ exn_name x @ '': '' @ exn_str x)) (
     bnd (get ow_frozen) (\<lambda>frozen.
     sqn (whenA (\<not> frozen) (fail (label @ '' cleanup exception: '' @ exn_str x))) (
     sqn (group_kill e pid status (label @ '' emergency kill: '')) (
     poll_quietly fuel e pid deadline status))))"

definition finish :: "nat \<Rightarrow> 'w owning \<Rightarrow> int \<Rightarrow> int option \<Rightarrow> string \<Rightarrow> bool \<Rightarrow> ('w owner, int option) act" where
  "finish fuel e pid status label kill =
     bnd (now_of e) (\<lambda>t. let deadline = min (oe_absolute e) (t + cap_of e ''reap'') in
     handle_if ordinary (finish_child fuel e pid status label kill deadline) (finish_failed fuel e pid status label deadline))"

subsection \<open>The adapter actions\<close>

definition action_request :: "string \<Rightarrow> string \<Rightarrow> string \<Rightarrow> string \<Rightarrow> pyval" where
  "action_request nonce manifest action mode = PDict
     [(''schema_version'', PInt 1), (''scope'', PStr ''i5-preparation-lifecycle-action''), (''uuid'', PStr UUID),
      (''nonce'', PStr nonce), (''manifest_sha256'', PStr manifest), (''action'', PStr action), (''mode'', PStr mode)]"

text \<open>What the forked child runs; the value is its exit status.\<close>

definition action_result :: "'w owning \<Rightarrow> string \<Rightarrow> pyval \<Rightarrow> int \<Rightarrow> rat \<Rightarrow> ('w, string) act" where
  "action_result e action request writer deadline =
     (let p = oe_proc e in
      sqn (close_except (ipc_of p) [writer]) (
      sqn (io_detach p) (
      sqn (io_default_signals p) (
      bnd (io_now p) (\<lambda>t. sqn (ensure (t < deadline) (action @ '' deadline before callback'')) (
      bnd (oe_adapter e action request) (\<lambda>result.
      let raw = encode (io_float p) (PDict [(''result'', result), (''error'', PNone)]) in
      sqn (ensure (length raw \<le> RECEIPT_LIMIT) ''action reply limit'') (ret raw))))))))"

definition action_child :: "nat \<Rightarrow> 'w owning \<Rightarrow> string \<Rightarrow> pyval \<Rightarrow> int \<Rightarrow> rat \<Rightarrow> ('w, int) act" where
  "action_child fuel e action request writer deadline =
     (let p = oe_proc e; i = ipc_of p in
      handle_if any_exn
        (bnd (action_result e action request writer deadline) (\<lambda>raw.
         sqn (write_bounded fuel i writer raw deadline (ret ())) (ret 0)))
        (\<lambda>x. sqn (handle_if any_exn
           (write_bounded fuel i writer (encode (io_float p) (PDict [(''result'', PNone),
              (''error'', PStr (fst (bounded_text (exn_name x @ '': '' @ exn_str x) FIRST_ERROR_BYTES)))])) deadline (ret ()))
           (\<lambda>_. ret ())) (ret 2)))"

text \<open>The owner's side.\<close>

record 'w acting =
  ac_owner :: "'w owner"
  ac_writer :: "int option"
  ac_pid :: "int option"
  ac_code :: "int option"

abbreviation ac :: "('w owner, 'a) act \<Rightarrow> ('w acting, 'a) act" where
  "ac \<equiv> zoom ac_owner ac_owner_update"

fun await_exit :: "nat \<Rightarrow> 'w owning \<Rightarrow> string \<Rightarrow> int \<Rightarrow> rat \<Rightarrow> ('w acting, unit) act" where
  "await_exit 0 e action pid deadline = lft (Inl OutOfFuel)"
| "await_exit (Suc n) e action pid deadline =
     bnd (get ac_code) (\<lambda>status. if status \<noteq> None then ret () else
     sqn (ac (owner_checkpoint e (action \<noteq> ''shutdown''))) (
     bnd (ac (now_of e)) (\<lambda>t. sqn (ensure (t < deadline) (action @ '' child exit deadline'')) (
     bnd (ac (poll_child e pid None)) (\<lambda>status.
     sqn (upd (\<lambda>s. s\<lparr>ac_code := status\<rparr>)) (
     sqn (whenA (status = None) (ac (ow (io_sleep (oe_proc e) (1 / 200))))) (
     await_exit n e action pid deadline)))))))"

definition str_code :: "int option \<Rightarrow> string" where
  "str_code x = (case x of None \<Rightarrow> ''None'' | Some n \<Rightarrow> show_int n)"

definition action_body :: "nat \<Rightarrow> 'w owning \<Rightarrow> string \<Rightarrow> string \<Rightarrow> rat \<Rightarrow> int \<Rightarrow> int \<Rightarrow> ('w acting, pyval) act" where
  "action_body fuel e action mode deadline reader writer =
     bnd (ac (now_of e)) (\<lambda>t. sqn (ensure (t < deadline) (action @ '' deadline before fork'')) (
     bnd (ac (ow (io_fork (oe_proc e)))) (\<lambda>pid.
     sqn (upd (\<lambda>s. s\<lparr>ac_pid := Some pid\<rparr>)) (
     sqn (ac (ow (io_close (oe_proc e) writer))) (
     sqn (upd (\<lambda>s. s\<lparr>ac_writer := None\<rparr>)) (
     bnd (ac (message fuel e reader deadline (action \<noteq> ''shutdown''))) (\<lambda>m.
     sqn (lft (check_fields m [''result'', ''error''])) (
     sqn (ensure (fld m ''error'' = PNone) (action @ '' callback: '' @ str_of (fld m ''error''))) (
     bnd (lft (validate_action_result (fld m ''result'') (oe_nonce e) (oe_digest e) action (Some mode))) (\<lambda>result.
     sqn (await_exit fuel e action pid deadline) (
     bnd (get ac_code) (\<lambda>status.
     sqn (ensure (status = Some 0) (action @ '' process failed: '' @ str_code status)) (ret result)))))))))))))"

definition action_cleanup :: "nat \<Rightarrow> 'w owning \<Rightarrow> string \<Rightarrow> int \<Rightarrow> ('w acting, unit) act" where
  "action_cleanup fuel e action reader =
     sqn (ac (ow (io_close (oe_proc e) reader))) (
     bnd (get (\<lambda>s. s)) (\<lambda>s.
     sqn (case ac_writer s of None \<Rightarrow> ret () | Some fd \<Rightarrow> ac (ow (io_close (oe_proc e) fd))) (
     case ac_pid s of None \<Rightarrow> ret ()
     | Some pid \<Rightarrow> bnd (ac (finish fuel e pid (ac_code s) action (ac_code s = None))) (\<lambda>_. ret ()))))"

definition acting :: "(('w acting, 'a) act) \<Rightarrow> int \<Rightarrow> ('w owner, 'a) act" where
  "acting m writer = (\<lambda>o1. case m \<lparr> ac_owner = o1, ac_writer = Some writer, ac_pid = None, ac_code = None \<rparr> of
     (r, s) \<Rightarrow> (r, ac_owner s))"

definition do_action :: "nat \<Rightarrow> 'w owning \<Rightarrow> string \<Rightarrow> string \<Rightarrow> rat option \<Rightarrow> ('w owner, pyval) act" where
  "do_action fuel e action mode deadline0 =
     bnd (case deadline0 of None \<Rightarrow> stage_until e action | Some d \<Rightarrow> ret d) (\<lambda>deadline.
     bnd (ow (io_pipe (oe_proc e))) (\<lambda>(reader, writer).
     acting (try_finally
       (handle_if ordinary (action_body fuel e action mode deadline reader writer) (\<lambda>x.
          sqn (ac (fail (action @ '': '' @ exn_name x @ '': '' @ exn_str x))) (lft (Inl x))))
       (action_cleanup fuel e action reader)) writer))"

subsection \<open>The evidence worker's process\<close>

record 'w evidencing =
  ev_storing :: "'w storing"
  ev_created :: bool
  ev_initialized :: bool

abbreviation ev :: "('w storing, 'a) act \<Rightarrow> ('w evidencing, 'a) act" where
  "ev \<equiv> zoom ev_storing ev_storing_update"

definition evidence_ready :: "string \<Rightarrow> string \<Rightarrow> pyval" where
  "evidence_ready nonce manifest = PDict
     [(''schema_version'', PInt 1), (''scope'', PStr ''i5-preparation-evidence-ready''), (''uuid'', PStr UUID),
      (''nonce'', PStr nonce), (''manifest_sha256'', PStr manifest)]"

fun command_header :: "nat \<Rightarrow> 'w ipc \<Rightarrow> int \<Rightarrow> rat \<Rightarrow> string \<Rightarrow> ('w, string) act" where
  "command_header 0 e fd absolute header = lft (Inl OutOfFuel)"
| "command_header (Suc n) e fd absolute header =
     (if CHR 0x0A \<in> set header then ret header else
      bnd (io_now e) (\<lambda>t. sqn (ensure (t < absolute) ''evidence command absolute deadline'') (
      bnd (io_readable e [fd] (1 / 20)) (\<lambda>ready.
      if ready = [] then command_header n e fd absolute header else
      bnd (io_read e fd 1) (\<lambda>data.
      sqn (ensure (data \<noteq> []) ''evidence owner closed before commit'') (
      sqn (ensure (length (header @ data) \<le> RECEIPT_LIMIT) ''evidence command header limit'') (
      command_header n e fd absolute (header @ data))))))))"

fun command_report :: "nat \<Rightarrow> 'w ipc \<Rightarrow> int \<Rightarrow> rat \<Rightarrow> nat \<Rightarrow> string \<Rightarrow> ('w, string) act" where
  "command_report 0 e fd absolute expected raw = lft (Inl OutOfFuel)"
| "command_report (Suc n) e fd absolute expected raw =
     (if expected \<le> length raw then ret raw else
      bnd (io_now e) (\<lambda>t. sqn (ensure (t < absolute) ''evidence input absolute deadline'') (
      bnd (io_readable e [fd] (1 / 20)) (\<lambda>ready.
      if ready = [] then command_report n e fd absolute expected raw else
      bnd (io_read e fd (min 65536 (expected - length raw))) (\<lambda>data.
      sqn (ensure (data \<noteq> []) ''evidence report incomplete'') (
      command_report n e fd absolute expected (raw @ data)))))))"

text \<open>The command: the header, exactly one report, and the end of the input.\<close>

definition read_command :: "nat \<Rightarrow> 'w ipc \<Rightarrow> int \<Rightarrow> rat \<Rightarrow> ('w, pyval \<times> string) act" where
  "read_command fuel e fd absolute =
     bnd (command_header fuel e fd absolute []) (\<lambda>header.
     bnd (lft (decode header RECEIPT_LIMIT)) (\<lambda>m.
     sqn (lft (check_fields m [''report_bytes'', ''process_exit'', ''lifecycle''])) (
     sqn (ensure (in_range 0 (int HOST_REPORT_LIMIT) (fld m ''report_bytes'')) ''evidence report byte limit'') (
     bnd (command_report fuel e fd absolute (nat (int_of (fld m ''report_bytes''))) []) (\<lambda>raw.
     bnd (io_read e fd 1) (\<lambda>extra.
     sqn (ensure (extra = []) ''evidence accepts only one report'') (ret (m, raw))))))))"

definition evidence_work ::
    "nat \<Rightarrow> (string \<Rightarrow> string) \<Rightarrow> 'w store_kernel \<Rightarrow> 'w proc \<Rightarrow> path \<Rightarrow> string \<Rightarrow> string \<Rightarrow> int \<Rightarrow> int \<Rightarrow> rat \<Rightarrow> ('w evidencing, int) act" where
  "evidence_work fuel sha k p directory nonce manifest command_fd result_fd absolute =
     (let i = ipc_of p; fr = io_float p in
      sqn (ev (sv (close_except i [command_fd, result_fd]))) (
      sqn (ev (sv (io_detach p))) (
      sqn (ev (sv (io_default_signals p))) (
      sqn (ev (store_init fr k directory (PStr nonce) (PStr manifest) PNone)) (
      sqn (upd (\<lambda>s. s\<lparr>ev_created := True\<rparr>)) (
      sqn (ev (verify_attempt k)) (
      sqn (upd (\<lambda>s. s\<lparr>ev_initialized := True\<rparr>)) (
      sqn (ev (sv (write_frame i result_fd (encode fr (PDict [(''ready'', evidence_ready nonce manifest), (''error'', PNone)]))))) (
      bnd (ev (sv (read_command fuel i command_fd absolute))) (\<lambda>(m, raw).
      bnd (ev (persist sha fr k raw (fld m ''process_exit'') PNone (fld m ''lifecycle'') PNone)) (\<lambda>receipt.
      sqn (ev (sv (write_bounded fuel i result_fd (encode fr (PDict [(''receipt'', receipt), (''error'', PNone)])) absolute (ret ())))) (
      sqn (ev (store_close k)) (ret 0)))))))))))))"

definition evidence_failed :: "nat \<Rightarrow> 'w store_kernel \<Rightarrow> 'w proc \<Rightarrow> int \<Rightarrow> rat \<Rightarrow> exn \<Rightarrow> ('w evidencing, int) act" where
  "evidence_failed fuel k p result_fd absolute x =
     bnd (get (\<lambda>s. s)) (\<lambda>s.
     let reply = PDict [(if ev_initialized s then ''receipt'' else ''ready'', PNone),
                        (''error'', PStr (fst (bounded_text (exn_name x @ '': '' @ exn_str x) FIRST_ERROR_BYTES)))] in
     sqn (handle_if any_exn (ev (sv (write_bounded fuel (ipc_of p) result_fd (encode (io_float p) reply) absolute (ret ()))))
            (\<lambda>_. ret ())) (
     sqn (whenA (ev_created s) (ev (store_close k))) (ret 2)))"

text \<open>An exception out of the handler still ends in \<open>os._exit(2)\<close>.\<close>

definition evidence_worker ::
    "nat \<Rightarrow> (string \<Rightarrow> string) \<Rightarrow> 'w store_kernel \<Rightarrow> 'w proc \<Rightarrow> path \<Rightarrow> string \<Rightarrow> string \<Rightarrow> int \<Rightarrow> int \<Rightarrow> rat \<Rightarrow> ('w evidencing, int) act" where
  "evidence_worker fuel sha k p directory nonce manifest command_fd result_fd absolute =
     handle_if any_exn
       (handle_if any_exn (evidence_work fuel sha k p directory nonce manifest command_fd result_fd absolute)
          (evidence_failed fuel k p result_fd absolute))
       (\<lambda>_. ret 2)"

subsection \<open>Starting the evidence worker\<close>

definition HOST_OBJECTS :: "string set" where
  "HOST_OBJECTS = {''host_jxa_root'', ''host_evidence_parent'', ''host_attempt''}"

definition close_fd :: "'w owning \<Rightarrow> int \<Rightarrow> ('w owner, unit) act" where
  "close_fd e fd = ow (io_close (oe_proc e) fd)"

definition evidence_fork :: "nat \<Rightarrow> 'w owning \<Rightarrow> ('w owner, int) act" where
  "evidence_fork fuel e =
     bnd (ow (io_pipe (oe_proc e))) (\<lambda>(command_read, command_write).
     bnd (ow (io_pipe (oe_proc e))) (\<lambda>(result_read, result_write).
     sqn (whenA (oe_init e \<noteq> None) (bnd (ow (oe_socketpair e)) (\<lambda>(client, worker).
            upd (\<lambda>s. s\<lparr>ow_stage_client := Some client, ow_stage_worker := Some worker\<rparr>)))) (
     bnd (on_error (ow (io_fork (oe_proc e))) (eachA (close_fd e) [command_read, command_write, result_read, result_write])) (\<lambda>pid.
     sqn (close_fd e command_read) (
     sqn (close_fd e result_write) (
     sqn (upd (\<lambda>s. s\<lparr>ow_evidence := Some pid, ow_command := Some command_write, ow_result := Some result_read\<rparr>)) (
     bnd (get ow_stage_worker) (\<lambda>worker.
     sqn (case worker of None \<Rightarrow> ret ()
          | Some fd \<Rightarrow> sqn (close_fd e fd) (upd (\<lambda>s. s\<lparr>ow_stage_worker := None\<rparr>))) (ret result_read)))))))))"

text \<open>The reply of the synthetic worker: its objects, checked against the registry.\<close>

definition host_objects_bound :: "(string \<times> pyval) list \<Rightarrow> pyval \<Rightarrow> bool res" where
  "host_objects_bound registry objects =
     (if keys objects \<noteq> HOST_OBJECTS then Inr False
      else bindE (item (PDict registry) ''host_jxa_root'') (\<lambda>row. Inr (pyeq (fld objects ''host_jxa_root'') (fld row ''identity''))))"

definition evidence_objects :: "'w owning \<Rightarrow> setup_plan \<Rightarrow> pyval \<Rightarrow> ('w owner, unit) act" where
  "evidence_objects e p m =
     sqn (lft (check_fields m [''ready'', ''attempt_ready'', ''error''])) (
     sqn (ensure (is_bool (fld m ''attempt_ready'') \<and> is_dict (fld m ''ready'')) ''initialization ready fields'') (
     sqn (set_facts (\<lambda>f. f\<lparr>lf_attempt_ready := (fld m ''attempt_ready'' = PBool True)\<rparr>)) (
     sqn (ensure (fld m ''error'' = PNone) (''initialization: '' @ str_of (fld m ''error''))) (
     bnd (get ow_registry) (\<lambda>registry.
     bnd (lft (host_objects_bound registry (fld m ''ready''))) (\<lambda>bound.
     sqn (ensure bound ''host initialization readback binding'') (
     sqn (upd (\<lambda>s. s\<lparr>ow_init_facts := AList.update ''host_ready'' (PBool True)
            (AList.update ''objects'' (PDict (put_all (dict_of (fld m ''ready'')) (dict_of (fld (PDict (ow_init_facts s)) ''objects''))))
              (ow_init_facts s))\<rparr>)) (
     bnd (get ow_stage_client) (\<lambda>client. bnd (fd_of client) (\<lambda>fd.
     bnd (lft (client_init fd (in_root p) (fld (fld m ''ready'') ''host_jxa_root'') (in_source_limit p) (oe_nonce e) (oe_digest e))) (\<lambda>c.
     bnd (lft (oe_with_stager e c)) (\<lambda>rpc. upd (\<lambda>s. s\<lparr>ow_rpc := rpc\<rparr>)))))))))))))"

definition evidence_plain :: "'w owning \<Rightarrow> pyval \<Rightarrow> ('w owner, unit) act" where
  "evidence_plain e m =
     sqn (lft (check_fields m [''ready'', ''error''])) (
     sqn (ensure (fld m ''error'' = PNone \<and> pyeq (fld m ''ready'') (evidence_ready (oe_nonce e) (oe_digest e)) \<and>
                  is_int (fld (fld m ''ready'') ''schema_version'')) (''evidence initialization: '' @ str_of (fld m ''error''))) (
     set_facts (\<lambda>f. f\<lparr>lf_attempt_ready := True\<rparr>)))"

definition evidence_start :: "nat \<Rightarrow> 'w owning \<Rightarrow> ('w owner, unit) act" where
  "evidence_start fuel e =
     bnd (evidence_fork fuel e) (\<lambda>result_read.
     bnd (message fuel e result_read (oe_init_deadline e) True) (\<lambda>m.
     case oe_init e of Some p \<Rightarrow> evidence_objects e p m | None \<Rightarrow> evidence_plain e m))"

end
