(* ===== verification/LifecycleRun.thy ===== *)
theory LifecycleRun
  imports Lifecycle
begin

text \<open>
  The owner's attempt (\<open>sw_i5_preparation_lifecycle._Owner.host\<close>, \<open>commit\<close>, \<open>run\<close> and
  \<open>fork_lifecycle\<close>): it watches the watchdog under the host lease, stops what it started,
  freezes its facts and hands them to the evidence worker.
\<close>

subsection \<open>Watching the watchdog\<close>

record 'w hosting =
  ho_owner :: "'w owner"
  ho_watchdog :: "int option"
  ho_code :: "int option"
  ho_child :: "int option"
  ho_reg_write :: "int option"
  ho_admit_read :: "int option"
  ho_admit_write :: "int option"
  ho_lease_write :: "int option"
  ho_report_read :: "int option"
  ho_ack_read :: "int option"
  ho_registration :: string
  ho_report :: string
  ho_ack :: string
  ho_reg_eof :: bool
  ho_report_eof :: bool
  ho_cancelled :: bool
  ho_pending :: "int option"
  ho_sequence :: int
  ho_next :: rat
  ho_lease :: lease

abbreviation ho :: "('w owner, 'a) act \<Rightarrow> ('w hosting, 'a) act" where
  "ho \<equiv> zoom ho_owner ho_owner_update"

abbreviation hw :: "('w, 'a) act \<Rightarrow> ('w hosting, 'a) act" where
  "hw m \<equiv> ho (ow m)"

text \<open>The deadlines of the active phase, and the end of the registration pipe.\<close>

record window =
  wi_active :: rat
  wi_phase :: rat
  wi_reg_read :: int

definition host_facts :: "'w hosting \<Rightarrow> facts" where
  "host_facts s = ow_facts (ho_owner s)"

text \<open>\<open>if fd is not None: os.close(fd); fd = None\<close>.\<close>

definition drop_fd :: "'w owning \<Rightarrow> ('w hosting \<Rightarrow> int option) \<Rightarrow> ('w hosting \<Rightarrow> 'w hosting) \<Rightarrow> ('w hosting, unit) act" where
  "drop_fd e look clear = bnd (get look) (\<lambda>x. case x of None \<Rightarrow> ret ()
     | Some fd \<Rightarrow> sqn (hw (io_close (oe_proc e) fd)) (upd clear))"

definition drop_admit :: "'w owning \<Rightarrow> ('w hosting, unit) act" where
  "drop_admit e = drop_fd e ho_admit_write (\<lambda>s. s\<lparr>ho_admit_write := None\<rparr>)"

definition drop_lease :: "'w owning \<Rightarrow> ('w hosting, unit) act" where
  "drop_lease e = drop_fd e ho_lease_write (\<lambda>s. s\<lparr>ho_lease_write := None\<rparr>)"

definition poll_watchdog :: "'w owning \<Rightarrow> int \<Rightarrow> ('w hosting, unit) act" where
  "poll_watchdog e watchdog =
     bnd (get ho_code) (\<lambda>status0. bnd (ho (poll_child e watchdog status0)) (\<lambda>status. upd (\<lambda>s. s\<lparr>ho_code := status\<rparr>)))"

definition cancel_watchdog :: "'w owning \<Rightarrow> int \<Rightarrow> ('w hosting, unit) act" where
  "cancel_watchdog e watchdog =
     sqn (upd (\<lambda>s. s\<lparr>ho_cancelled := True\<rparr>)) (
     sqn (drop_admit e) (
     sqn (drop_lease e) (
     bnd (get (\<lambda>s. s)) (\<lambda>s.
     sqn (whenA (ho_code s = None)
            (handle_if (is_os_class ProcessLookupError) (hw (io_kill (oe_proc e) watchdog ''TERM'')) (\<lambda>_. ret ()))) (
     case ho_child s of None \<Rightarrow> ret ()
     | Some child \<Rightarrow> handle_if (is_os_class ProcessLookupError) (hw (io_killpg (oe_proc e) child ''KILL'')) (\<lambda>_. ret ()))))))"

text \<open>The checks of one round before it waits, and the renewal it may owe.\<close>

definition watch_checks :: "'w owning \<Rightarrow> window \<Rightarrow> int \<Rightarrow> ('w hosting, unit) act" where
  "watch_checks e w watchdog =
     sqn (ho (owner_checkpoint e False)) (
     bnd (ho (now_of e)) (\<lambda>t.
     sqn (whenA (wi_active w \<le> t) (ho (fail ''lifecycle active deadline''))) (
     sqn (poll_watchdog e watchdog) (
     bnd (get ho_code) (\<lambda>status.
     sqn (whenA (status \<notin> {None, Some 0, Some 2}) (ho (fail (''watchdog exit/signal: '' @ str_code status)))) (
     bnd (get (\<lambda>s. s)) (\<lambda>s.
     sqn (whenA (lf_failure (host_facts s) \<noteq> None \<and> \<not> ho_cancelled s) (cancel_watchdog e watchdog)) (
     bnd (ho (now_of e)) (\<lambda>t. ensure (t < wi_phase w) ''watchdog report/cleanup deadline'')))))))))"

definition host_renewal :: "'w owning \<Rightarrow> ('w hosting, unit) act" where
  "host_renewal e =
     bnd (get (\<lambda>s. s)) (\<lambda>s.
     if ho_cancelled s \<or> ho_code s \<noteq> None \<or> ho_pending s \<noteq> None then ret () else
     bnd (ho (now_of e)) (\<lambda>t. whenA (ho_next s \<le> t)
       (bnd (fd_of (ho_lease_write s)) (\<lambda>fd.
        sqn (hw (write_frame (ipc_of (oe_proc e)) fd (lease_frame (ho_lease s) (ho_sequence s) ''renew''))) (
        sqn (upd (\<lambda>s. s\<lparr>ho_pending := Some (ho_sequence s)\<rparr>)) (
        bnd (ho (now_of e)) (\<lambda>t. upd (\<lambda>s. s\<lparr>ho_next := t + min 5 (bu_silence (oe_budget e) / 3)\<rparr>))))))))"

subsection \<open>The channels of a round\<close>

text \<open>A registration of the synthetic worker, one byte at a time.\<close>

fun registration_frame :: "nat \<Rightarrow> 'w owning \<Rightarrow> int \<Rightarrow> rat \<Rightarrow> string \<Rightarrow> ('w owner, string) act" where
  "registration_frame 0 e fd deadline frame = lft (Inl OutOfFuel)"
| "registration_frame (Suc n) e fd deadline frame =
     (if endswith frame nl then ret frame else
      sqn (owner_checkpoint e True) (
      bnd (now_of e) (\<lambda>t. sqn (ensure (t < deadline) ''registration read deadline'') (
      bnd (ow (io_readable (oe_proc e) [fd] (1 / 100))) (\<lambda>ready.
      if ready = [] then registration_frame n e fd deadline frame else
      bnd (ow (io_read (oe_proc e) fd 1)) (\<lambda>data.
      sqn (ensure (data \<noteq> [] \<and> length frame < HEADER_LIMIT) ''registration EOF/limit'') (
      registration_frame n e fd deadline (frame @ data))))))))"

definition see_result :: "nat \<Rightarrow> 'w owning \<Rightarrow> window \<Rightarrow> int \<Rightarrow> ('w hosting, unit) act" where
  "see_result fuel e w fd =
     ho (bnd (now_of e) (\<lambda>t. let deadline = min (wi_active w) (t + 2) in
         bnd (registration_frame fuel e fd deadline []) (\<lambda>frame.
         bnd (lft (decode frame HEADER_LIMIT)) (\<lambda>m. register fuel e m deadline))))"

text \<open>The admission of the transport: recorded before anything is asked of it.\<close>

definition transport_pid :: "'w owning \<Rightarrow> int \<Rightarrow> pyval \<Rightarrow> int res" where
  "transport_pid e watchdog v =
     bindE (check_fields v [''schema_version'', ''scope'', ''uuid'', ''nonce'', ''manifest_sha256'', ''pid'', ''watchdog_pid'']) (\<lambda>_.
     require (fld v ''schema_version'' = PInt 1 \<and> fld v ''scope'' = PStr ''i5-preparation-transport-admission'' \<and>
              fld v ''uuid'' = PStr UUID \<and> fld v ''nonce'' = PStr (oe_nonce e) \<and> fld v ''manifest_sha256'' = PStr (oe_digest e) \<and>
              is_int (fld v ''pid'') \<and> 0 < int_of (fld v ''pid'') \<and> fld v ''watchdog_pid'' = PInt watchdog)
       ''transport registration binding'' (Inr (int_of (fld v ''pid''))))"

definition admit_transport :: "'w owning \<Rightarrow> int \<Rightarrow> int \<Rightarrow> ('w hosting, unit) act" where
  "admit_transport e watchdog child =
     sqn (upd (\<lambda>s. s\<lparr>ho_child := Some child\<rparr>)) (
     sqn (ho (set_facts (\<lambda>f. f\<lparr>lf_registered := True\<rparr>))) (
     bnd (hw (oe_getpgid e child)) (\<lambda>pg. sqn (ensure (pg = child) ''transport session not established'') (
     sqn (poll_watchdog e watchdog) (
     sqn (ho (owner_checkpoint e False)) (
     bnd (get (\<lambda>s. s)) (\<lambda>s.
     sqn (whenA (ho_code s = None \<and> lf_failure (host_facts s) = None)
            (bnd (fd_of (ho_admit_write s)) (\<lambda>fd. hw (write_frame (ipc_of (oe_proc e)) fd ''1'')))) (
     drop_admit e))))))))"

definition see_registration :: "'w owning \<Rightarrow> int \<Rightarrow> int \<Rightarrow> ('w hosting, unit) act" where
  "see_registration e watchdog fd =
     bnd (get ho_registration) (\<lambda>raw0.
     bnd (hw (io_read (oe_proc e) fd (MAX_FRAME - length raw0 + 1))) (\<lambda>data.
     if data = [] then upd (\<lambda>s. s\<lparr>ho_reg_eof := True\<rparr>) else
     let raw = raw0 @ data in
     sqn (upd (\<lambda>s. s\<lparr>ho_registration := raw\<rparr>)) (
     sqn (ensure (length raw \<le> MAX_FRAME) ''transport registration limit'') (
     case split1 (CHR 0x0A) raw of None \<Rightarrow> ret ()
     | Some (line, extra) \<Rightarrow>
         bnd (get ho_child) (\<lambda>child0. sqn (ensure (extra = [] \<and> child0 = None) ''duplicate transport registration'') (
         bnd (lft (decode line MAX_FRAME)) (\<lambda>v.
         bnd (lft (transport_pid e watchdog v)) (\<lambda>child. admit_transport e watchdog child)))))))) "

definition host_ack_value :: "'w owning \<Rightarrow> int \<Rightarrow> pyval" where
  "host_ack_value e sequence = PDict [(''schema_version'', PInt 1), (''scope'', PStr ''i5-preparation-host-ack''), (''uuid'', PStr UUID),
     (''nonce'', PStr (oe_nonce e)), (''manifest_sha256'', PStr (oe_digest e)), (''sequence'', PInt sequence)]"

definition host_ack_ok :: "'w owning \<Rightarrow> pyval \<Rightarrow> int option \<Rightarrow> bool" where
  "host_ack_ok e v pending = (case pending of None \<Rightarrow> False
     | Some n \<Rightarrow> pyeq v (host_ack_value e n) \<and> is_int (fld v ''sequence'') \<and> is_int (fld v ''schema_version''))"

definition see_ack :: "'w owning \<Rightarrow> int \<Rightarrow> ('w hosting, unit) act" where
  "see_ack e fd =
     bnd (get ho_ack) (\<lambda>raw0.
     bnd (hw (io_read (oe_proc e) fd (MAX_FRAME - length raw0 + 1))) (\<lambda>data.
     if data = [] then sqn (hw (io_close (oe_proc e) fd)) (upd (\<lambda>s. s\<lparr>ho_ack_read := None\<rparr>)) else
     let raw = raw0 @ data in
     sqn (upd (\<lambda>s. s\<lparr>ho_ack := raw\<rparr>)) (
     sqn (ensure (length raw \<le> MAX_FRAME) ''host ACK limit'') (
     case split1 (CHR 0x0A) raw of None \<Rightarrow> ret ()
     | Some (line, extra) \<Rightarrow>
         bnd (lft (decode line MAX_FRAME)) (\<lambda>v.
         bnd (get ho_pending) (\<lambda>pending.
         sqn (ensure (extra = [] \<and> host_ack_ok e v pending) ''host ACK binding'') (
         upd (\<lambda>s. s\<lparr>ho_sequence := the pending + 1, ho_pending := None, ho_ack := []\<rparr>))))))))"

definition see_report :: "'w owning \<Rightarrow> int \<Rightarrow> ('w hosting, unit) act" where
  "see_report e fd =
     bnd (get ho_report) (\<lambda>raw.
     bnd (hw (io_read (oe_proc e) fd (min 65536 (HOST_REPORT_LIMIT - length raw + 1)))) (\<lambda>data.
     if data = [] then upd (\<lambda>s. s\<lparr>ho_report_eof := True\<rparr>) else
     let available = HOST_REPORT_LIMIT - length raw in
     sqn (upd (\<lambda>s. s\<lparr>ho_report := raw @ take available data\<rparr>)) (
     ensure (length data \<le> available) ''host report byte limit'')))"

definition see_channel :: "nat \<Rightarrow> 'w owning \<Rightarrow> window \<Rightarrow> int \<Rightarrow> int \<Rightarrow> ('w hosting, unit) act" where
  "see_channel fuel e w watchdog fd =
     bnd (get (\<lambda>s. s)) (\<lambda>s.
     if oe_init e \<noteq> None \<and> Some fd = ow_result (ho_owner s) then see_result fuel e w fd
     else if fd = wi_reg_read w then see_registration e watchdog fd
     else if Some fd = ho_ack_read s then see_ack e fd
     else see_report e fd)"

definition list_of_option :: "'a option \<Rightarrow> 'a list" where
  "list_of_option x = (case x of None \<Rightarrow> [] | Some y \<Rightarrow> [y])"

definition watched_fds :: "'w owning \<Rightarrow> window \<Rightarrow> 'w hosting \<Rightarrow> int list" where
  "watched_fds e w s =
     (if ho_reg_eof s then [] else [wi_reg_read w]) @ (if ho_report_eof s then [] else list_of_option (ho_report_read s)) @
     list_of_option (ho_ack_read s) @ (if oe_init e = None then [] else list_of_option (ow_result (ho_owner s)))"

fun host_loop :: "nat \<Rightarrow> 'w owning \<Rightarrow> window \<Rightarrow> int \<Rightarrow> ('w hosting, unit) act" where
  "host_loop 0 e w watchdog = lft (Inl OutOfFuel)"
| "host_loop (Suc n) e w watchdog =
     bnd (get (\<lambda>s. s)) (\<lambda>s.
     if ho_report_eof s \<and> ho_code s \<noteq> None \<and> ho_reg_eof s then ret () else
     sqn (watch_checks e w watchdog) (
     sqn (host_renewal e) (
     bnd (get (watched_fds e w)) (\<lambda>fds.
     bnd (hw (io_readable (oe_proc e) fds (1 / 100))) (\<lambda>ready.
     sqn (eachA (see_channel n e w watchdog) ready) (
     host_loop n e w watchdog))))))"

subsection \<open>The active phase\<close>

definition transport_adapter :: "nat \<Rightarrow> 'w owning \<Rightarrow> rat \<Rightarrow> 'w rpc \<Rightarrow> int \<Rightarrow> int \<Rightarrow> int \<Rightarrow> ('w, pyval) act" where
  "transport_adapter fuel e active_until rpc reader writer ack_writer =
     bnd (io_now (oe_proc e)) (\<lambda>t. let work = min 594 (active_until - t - 6) in
     sqn (ensure (0 < work) ''transport work window exhausted'') (
     bnd (run_transport fuel
            \<lparr> ad_ipc = ipc_of (oe_proc e), ad_rpc = rpc, ad_clock = io_now (oe_proc e), ad_control = reader, ad_output = writer,
              ad_ack = ack_writer, ad_request = oe_request e, ad_dig = oe_dig e, ad_native = False \<rparr> (time_value work)) (\<lambda>n.
     ret (PInt n))))"

definition host_guarding :: "nat \<Rightarrow> 'w owning \<Rightarrow> window \<Rightarrow> rat \<Rightarrow> int \<Rightarrow> int \<Rightarrow> 'w owner \<Rightarrow> 'w guarding" where
  "host_guarding fuel e w t reg_write admit_read s =
     \<lparr> gd_proc = oe_proc e, gd_dig = oe_dig e, gd_transport = transport_adapter fuel e (wi_active w) (ow_rpc s), gd_recover = False,
       gd_interrupted = bnd (oe_signal e) (\<lambda>n. ret (n \<noteq> None)), gd_nonce = PStr (oe_nonce e), gd_manifest = PStr (oe_digest e),
       gd_total = time_value (min (cap_of e ''active'') (wi_active w - t)), gd_silence = time_value (bu_silence (oe_budget e)),
       gd_cleanup_seconds = cap_of e ''watchdog_cleanup'', gd_recovery_seconds = min 120 (cap_of e ''shutdown''),
       gd_registration = Some reg_write, gd_admission = Some admit_read, gd_absolute = Some (wi_phase w),
       gd_reap_seconds = cap_of e ''reap'', gd_defer = True, gd_transport_fds = list_of_option (ow_stage_client s) \<rparr>"

definition start_watchdog :: "nat \<Rightarrow> 'w owning \<Rightarrow> window \<Rightarrow> int \<Rightarrow> int \<Rightarrow> ('w hosting, int) act" where
  "start_watchdog fuel e w reg_write admit_read =
     bnd (ho (now_of e)) (\<lambda>t.
     bnd (get ho_owner) (\<lambda>o1.
     bnd (hw (fork_watchdog (host_guarding fuel e w t reg_write admit_read o1))) (\<lambda>(pid, lease_write, report_read, ack_read).
     sqn (upd (\<lambda>s. s\<lparr>ho_watchdog := Some pid, ho_lease_write := Some lease_write, ho_report_read := Some report_read,
                     ho_ack_read := Some ack_read\<rparr>)) (
     sqn (case ow_stage_client o1 of None \<Rightarrow> ret ()
          | Some fd \<Rightarrow> sqn (hw (io_close (oe_proc e) fd)) (ho (upd (\<lambda>o1. o1\<lparr>ow_stage_client := None\<rparr>)))) (
     sqn (drop_fd e ho_reg_write (\<lambda>s. s\<lparr>ho_reg_write := None\<rparr>)) (
     sqn (drop_fd e ho_admit_read (\<lambda>s. s\<lparr>ho_admit_read := None\<rparr>)) (
     sqn (eachA (\<lambda>fd. hw (io_nonblocking (oe_proc e) fd)) [wi_reg_read w, report_read, ack_read]) (
     bnd (ho (now_of e)) (\<lambda>t.
     bnd (lft (lease_init (PStr (oe_nonce e)) (PStr (oe_digest e)) (time_value t) (time_value (cap_of e ''active''))
                 (time_value (bu_silence (oe_budget e))) (PStr ''host''))) (\<lambda>l.
     sqn (upd (\<lambda>s. s\<lparr>ho_lease := l\<rparr>)) (ret pid)))))))))))"

text \<open>The verdict on the watchdog's report.\<close>

definition host_verdict :: "'w owning \<Rightarrow> ('w hosting, unit) act" where
  "host_verdict e =
     sqn (upd (\<lambda>s. s\<lparr>ho_owner := (ho_owner s)\<lparr>ow_raw := ho_report s, ow_exit := ho_code s\<rparr>\<rparr>)) (
     bnd (get (\<lambda>s. s)) (\<lambda>s.
     bnd (lft (validate_host_report (hexdigest (oe_dig e)) (io_float (oe_proc e)) (ho_report s) (oe_nonce e) (oe_digest e))) (\<lambda>v.
     let passed = (fld v ''passed'' = PBool True) in
     sqn (ensure (ho_code s = Some (if passed then 0 else 2)) ''watchdog report/exit mismatch'') (
     sqn (ho (upd (\<lambda>o1. o1\<lparr>ow_host_passed := passed\<rparr>))) (
     let reason = fld (fld v ''watchdog'') ''failure'' in
     whenA (\<not> passed) (ho (fail (if truthy reason then str_of reason else ''host preparation failed''))))))))"

definition host_body :: "nat \<Rightarrow> 'w owning \<Rightarrow> window \<Rightarrow> int \<Rightarrow> int \<Rightarrow> ('w hosting, unit) act" where
  "host_body fuel e w reg_write admit_read =
     bnd (start_watchdog fuel e w reg_write admit_read) (\<lambda>watchdog.
     sqn (host_loop fuel e w watchdog) (host_verdict e))"

definition close_given :: "'w owning \<Rightarrow> int option \<Rightarrow> ('w hosting, unit) act" where
  "close_given e x = (case x of None \<Rightarrow> ret () | Some fd \<Rightarrow> hw (io_close (oe_proc e) fd))"

text \<open>The transport's group: only checked and killed here, its reaper is the watchdog.\<close>

definition end_transport :: "nat \<Rightarrow> 'w owning \<Rightarrow> int \<Rightarrow> ('w owner, unit) act" where
  "end_transport fuel e child =
     bnd (now_of e) (\<lambda>t. let deadline = min (oe_absolute e) (t + cap_of e ''reap'') in
     bnd (handle_if (is_os_class ProcessLookupError) (sqn (ow (io_killpg (oe_proc e) child ''0'')) (ret True)) (\<lambda>_. ret False)) (\<lambda>remained.
     whenA remained
       (sqn (owner_cleanup ''transport group remained after watchdog exit'') (
        sqn (ow (io_killpg (oe_proc e) child ''KILL'')) (
        bnd (group_gone fuel e child deadline) (\<lambda>gone.
        whenA (\<not> gone) (owner_cleanup ''transport group cleanup unconfirmed''))))))) "

definition host_cleanup :: "nat \<Rightarrow> 'w owning \<Rightarrow> window \<Rightarrow> ('w hosting, unit) act" where
  "host_cleanup fuel e w =
     sqn (upd (\<lambda>s. s\<lparr>ho_owner := (ho_owner s)\<lparr>ow_raw := ho_report s, ow_exit := ho_code s\<rparr>\<rparr>)) (
     bnd (get (\<lambda>s. s)) (\<lambda>s.
     sqn (eachA (close_given e) [Some (wi_reg_read w), ho_reg_write s, ho_admit_read s, ho_admit_write s, ho_lease_write s,
            ho_report_read s, ho_ack_read s]) (
     sqn (case ho_watchdog s of None \<Rightarrow> ret ()
          | Some pid \<Rightarrow> bnd (ho (finish fuel e pid (ho_code s) ''watchdog'' (ho_code s = None))) (\<lambda>_. ret ())) (
     case ho_child s of Some child \<Rightarrow> ho (end_transport fuel e child)
     | None \<Rightarrow> whenA (ho_registration s \<noteq> [] \<or> \<not> ho_reg_eof s \<or> (ho_watchdog s \<noteq> None \<and> ho_code s \<noteq> Some 0))
                (ho (owner_cleanup ''transport registration/cleanup unconfirmed''))))))"

definition host_window :: "'w owning \<Rightarrow> rat \<Rightarrow> int \<Rightarrow> window" where
  "host_window e active_until reg_read =
     \<lparr> wi_active = active_until,
       wi_phase = min (oe_absolute e - tail (oe_budget e) ''shutdown'' - cap_of e ''shutdown'' - 2 * cap_of e ''reap'')
                    (active_until + cap_of e ''watchdog_cleanup'' + cap_of e ''reap'' + cap_of e ''watchdog_report''),
       wi_reg_read = reg_read \<rparr>"

text \<open>The lease is made after the watchdog; until then the state holds a blank one.\<close>

definition blank_lease :: lease where
  "blank_lease = \<lparr> l_side = [], l_scope = [], l_nonce = [], l_manifest = [], l_deadline = 0, l_last = 0, l_silence = 0,
     l_sequence = -1, l_buffer = [], l_cancelled = False \<rparr>"

definition hosting_start :: "rat \<Rightarrow> int \<Rightarrow> int \<Rightarrow> int \<Rightarrow> 'w owner \<Rightarrow> 'w hosting" where
  "hosting_start t reg_write admit_read admit_write s =
     \<lparr> ho_owner = s, ho_watchdog = None, ho_code = None, ho_child = None, ho_reg_write = Some reg_write,
       ho_admit_read = Some admit_read, ho_admit_write = Some admit_write, ho_lease_write = None, ho_report_read = None,
       ho_ack_read = None, ho_registration = [], ho_report = [], ho_ack = [], ho_reg_eof = False, ho_report_eof = False,
       ho_cancelled = False, ho_pending = None, ho_sequence = 0, ho_next = t, ho_lease = blank_lease \<rparr>"

definition host_phase :: "nat \<Rightarrow> 'w owning \<Rightarrow> ('w owner, unit) act" where
  "host_phase fuel e =
     bnd (stage_until e ''active'') (\<lambda>active_until.
     bnd (ow (io_pipe (oe_proc e))) (\<lambda>(reg_read, reg_write).
     bnd (ow (io_pipe (oe_proc e))) (\<lambda>(admit_read, admit_write).
     bnd (now_of e) (\<lambda>t. let w = host_window e active_until reg_read in
     (\<lambda>s. case try_finally
              (handle_if ordinary (host_body fuel e w reg_write admit_read) (\<lambda>x.
                 sqn (ho (fail (''host: '' @ exn_name x @ '': '' @ exn_str x))) (lft (Inl x))))
              (host_cleanup fuel e w) (hosting_start t reg_write admit_read admit_write s) of
            (r, h) \<Rightarrow> (r, ho_owner h))))))"

subsection \<open>Handing the facts over\<close>

definition owner_facts :: "'w owning \<Rightarrow> 'w owner \<Rightarrow> pyval" where
  "owner_facts e s = facts_value (oe_nonce e) (oe_digest e) (oe_total e) (ow_facts s)"

definition exit_value :: "int option \<Rightarrow> pyval" where
  "exit_value x = (case x of None \<Rightarrow> PNone | Some n \<Rightarrow> PInt n)"

definition commit_header :: "'w owning \<Rightarrow> rat \<Rightarrow> 'w owner \<Rightarrow> pyval" where
  "commit_header e deadline s = PDict
     ([(''report_bytes'', PInt (int (length (ow_raw s)))), (''process_exit'', exit_value (ow_exit s)), (''lifecycle'', owner_facts e s)] @
      (if oe_init e = None then [] else [(''initialization'', PDict (ow_init_facts s)), (''deadline'', time_value deadline)]))"

fun commit_loop :: "nat \<Rightarrow> 'w owning \<Rightarrow> int \<Rightarrow> rat \<Rightarrow> string \<Rightarrow> ('w owner, unit) act" where
  "commit_loop 0 e fd deadline raw = lft (Inl OutOfFuel)"
| "commit_loop (Suc n) e fd deadline raw =
     (if raw = [] then ret () else
      sqn (owner_checkpoint e False) (
      bnd (now_of e) (\<lambda>t. sqn (ensure (t < deadline) ''lifecycle persistence input deadline'') (
      bnd (ow (io_writable (oe_proc e) fd (1 / 100))) (\<lambda>ready.
      if \<not> ready then commit_loop n e fd deadline raw else
      bnd (ow (handle_if (is_os_class BlockingIOError)
             (bnd (io_write (oe_proc e) fd (take 65536 raw)) (\<lambda>c. ret (Some c))) (\<lambda>_. ret None))) (\<lambda>written.
      case written of None \<Rightarrow> commit_loop n e fd deadline raw
      | Some c \<Rightarrow> sqn (ensure (0 < c) ''evidence command zero write'') (
          commit_loop n e fd deadline (drop c raw))))))))"

definition commit :: "nat \<Rightarrow> 'w owning \<Rightarrow> ('w owner, pyval) act" where
  "commit fuel e =
     bnd (stage_until e ''persist'') (\<lambda>deadline.
     bnd (get (\<lambda>s. s)) (\<lambda>s.
     bnd (fd_of (ow_command s)) (\<lambda>fd.
     sqn (ow (io_nonblocking (oe_proc e) fd)) (
     sqn (commit_loop fuel e fd deadline (encode (io_float (oe_proc e)) (commit_header e deadline s) @ ow_raw s)) (
     sqn (ow (io_close (oe_proc e) fd)) (
     sqn (upd (\<lambda>s. s\<lparr>ow_command := None\<rparr>)) (
     bnd (fd_of (ow_result s)) (\<lambda>rfd.
     bnd (message fuel e rfd deadline False) (\<lambda>m.
     sqn (lft (check_fields m [''receipt'', ''error''])) (
     sqn (ensure (fld m ''error'' = PNone \<and> is_dict (fld m ''receipt'')) (''lifecycle persistence: '' @ str_of (fld m ''error''))) (
     ret (fld m ''receipt''))))))))))))"

subsection \<open>The run\<close>

text \<open>The objects the guest reports, each equal to its registration.\<close>

definition guest_objects_bound :: "(string \<times> pyval) list \<Rightarrow> pyval \<Rightarrow> unit res" where
  "guest_objects_bound registry objects =
     eachE (\<lambda>(role, ident). if role = ''readonly_input'' then Inr ()
        else bindE (item (PDict registry) role) (\<lambda>row.
             require (pyeq ident (fld row ''identity'')) ''guest independent readback registry mismatch'' (Inr ())))
       (dict_of objects)"

definition guest_initialized :: "nat \<Rightarrow> 'w owning \<Rightarrow> setup_plan \<Rightarrow> rat \<Rightarrow> ('w owner, unit) act" where
  "guest_initialized fuel e p deadline =
     bnd (initialization_command fuel e ''guest'' deadline) (\<lambda>objects.
     sqn (ensure (is_dict objects \<and> keys objects = in_roles p - HOST_OBJECTS) ''guest initialized object set'') (
     bnd (get ow_registry) (\<lambda>registry.
     sqn (lft (guest_objects_bound registry objects)) (
     upd (\<lambda>s. s\<lparr>ow_init_facts := AList.update ''guest_ready'' (PBool True)
            (AList.update ''objects'' (PDict (put_all (dict_of objects) (dict_of (fld (PDict (ow_init_facts s)) ''objects''))))
              (ow_init_facts s))\<rparr>)))))"

definition lifecycle_attempt :: "nat \<Rightarrow> 'w owning \<Rightarrow> ('w owner, unit) act" where
  "lifecycle_attempt fuel e =
     sqn (owner_checkpoint e True) (
     sqn (evidence_start fuel e) (
     sqn (owner_checkpoint e True) (
     sqn (set_facts (\<lambda>f. f\<lparr>lf_start_attempted := True\<rparr>)) (
     bnd (do_action fuel e ''start'' ''work'' None) (\<lambda>started.
     sqn (set_facts (\<lambda>f. f\<lparr>lf_start := started\<rparr>)) (
     sqn (owner_checkpoint e True) (
     bnd (stage_until e ''readiness'') (\<lambda>ready_until.
     bnd (do_action fuel e ''readiness'' ''work'' (Some ready_until)) (\<lambda>ready_v.
     sqn (case oe_init e of None \<Rightarrow> ret () | Some p \<Rightarrow> guest_initialized fuel e p ready_until) (
     sqn (set_facts (\<lambda>f. f\<lparr>lf_readiness := ready_v\<rparr>)) (
     sqn (owner_checkpoint e True) (host_phase fuel e))))))))))))"

text \<open>Cleaning one realm of the initialization; its outcome is a fact, its errors are cleanup errors.\<close>

definition set_init :: "string \<Rightarrow> pyval \<Rightarrow> ('w owner, unit) act" where
  "set_init k v = upd (\<lambda>s. s\<lparr>ow_init_facts := AList.update k v (ow_init_facts s)\<rparr>)"

definition clean_realm :: "nat \<Rightarrow> 'w owning \<Rightarrow> bool \<Rightarrow> string \<Rightarrow> rat \<Rightarrow> ('w owner, unit) act" where
  "clean_realm fuel e sessions_safe realm deadline =
     sqn (set_init (realm @ ''_cleanup'') (PStr ''unconfirmed'')) (
     handle_if ordinary
       (sqn (ensure sessions_safe ''transport sessions unconfirmed; preserve initialized objects'') (
        bnd (initialization_command fuel e (realm @ ''-cleanup'') deadline) (\<lambda>errors.
        sqn (ensure (is_list errors \<and> length (list_of errors) \<le> 12 \<and> list_all is_str (list_of errors)) ''cleanup result fields'') (
        sqn (set_init (realm @ ''_cleanup'') (PStr (if list_of errors \<noteq> [] then ''failed'' else ''complete''))) (
        eachA (\<lambda>error. owner_cleanup (realm @ '' cleanup: '' @ str_of error)) (list_of errors))))))
       (\<lambda>x. owner_cleanup (realm @ '' cleanup: '' @ exn_str x)))"

definition stop_mode :: "'w owner \<Rightarrow> string" where
  "stop_mode s = (if ow_host_passed s \<and> lf_failure (ow_facts s) = None \<and> lf_cleanup (ow_facts s) = [] then ''normal'' else ''recovery'')"

definition stop :: "nat \<Rightarrow> 'w owning \<Rightarrow> rat \<Rightarrow> ('w owner, unit) act" where
  "stop fuel e deadline =
     sqn (set_facts (\<lambda>f. f\<lparr>lf_shutdown_attempted := True\<rparr>)) (
     bnd (get stop_mode) (\<lambda>mode.
     handle_if ordinary
       (bnd (do_action fuel e ''shutdown'' mode (Some deadline)) (\<lambda>result.
        sqn (set_facts (\<lambda>f. f\<lparr>lf_shutdown := result\<rparr>)) (
        whenA (truthy (fld result ''forced_stop'')) (fail ''forced shutdown cannot pass''))))
       (\<lambda>x. sqn (fail (''shutdown: '' @ exn_str x)) (owner_cleanup (''shutdown: '' @ exn_str x)))))"

fun is_value_error :: "exn \<Rightarrow> bool" where
  "is_value_error (ValueError m) = True"
| "is_value_error _ = False"

definition freeze_facts :: "bool \<Rightarrow> facts \<Rightarrow> facts" where
  "freeze_facts host_passed f0 =
     (let f = (if \<not> host_passed \<and> lf_failure f0 = None then note_failure ''host result not accepted'' f0 else f0)
      in f\<lparr>lf_frozen := True, lf_passed := (host_passed \<and> lf_failure f = None \<and> lf_cleanup f = [] \<and> lf_reaped f)\<rparr>)"

text \<open>The cancellation cut: the last look at the controller, then the facts are final.\<close>

definition freeze :: "'w owning \<Rightarrow> ('w owner, unit) act" where
  "freeze e =
     sqn (handle_if is_value_error (owner_checkpoint e False) (\<lambda>x. fail (exn_str x))) (
     upd (\<lambda>s. s\<lparr>ow_facts := freeze_facts (ow_host_passed s) (ow_facts s), ow_frozen := True\<rparr>))"

definition stop_all :: "nat \<Rightarrow> 'w owning \<Rightarrow> ('w owner, unit) act" where
  "stop_all fuel e =
     bnd (now_of e) (\<lambda>t. let stop_until = stage_deadline (oe_budget e) ''shutdown'' t (oe_absolute e);
        synthetic = (oe_init e \<noteq> None); reserve = (if synthetic then min 2 (cap_of e ''shutdown'' / 4) else 0) in
     bnd (now_of e) (\<lambda>t.
     sqn (whenA (stop_until \<le> t) (fail ''shutdown has no reserved work window'')) (
     bnd (get (lf_reaped \<circ> ow_facts)) (\<lambda>sessions_safe.
     bnd (get ow_evidence) (\<lambda>pid.
     sqn (whenA (synthetic \<and> pid \<noteq> None)
            (bnd (now_of e) (\<lambda>t. clean_realm fuel e sessions_safe ''guest'' (min (t + reserve) (stop_until - 2 * reserve))))) (
     bnd (get (lf_start_attempted \<circ> ow_facts)) (\<lambda>started.
     sqn (whenA started (stop fuel e (stop_until - reserve - (if synthetic then cap_of e ''reap'' else 0)))) (
     sqn (whenA (synthetic \<and> pid \<noteq> None) (clean_realm fuel e sessions_safe ''host'' stop_until)) (
     freeze e)))))))))"

subsection \<open>The result of the run\<close>

record 'w closing =
  cl_owner :: "'w owner"
  cl_receipt :: pyval
  cl_error :: "string option"
  cl_code :: "int option"
  cl_finished :: bool

abbreviation cl :: "('w owner, 'a) act \<Rightarrow> ('w closing, 'a) act" where
  "cl \<equiv> zoom cl_owner cl_owner_update"

definition receipt_matches :: "'w owning \<Rightarrow> pyval \<Rightarrow> 'w owner \<Rightarrow> bool" where
  "receipt_matches e r s =
     (pyeq (get_or r ''schema_version'' PNone) (PInt (if oe_init e \<noteq> None then 3 else 2)) \<and>
      pyeq (get_or r ''lifecycle'' PNone) (owner_facts e s) \<and>
      pyeq (get_or r ''passed'' PNone) (PBool (lf_passed (ow_facts s))))"

definition persist_facts :: "nat \<Rightarrow> 'w owning \<Rightarrow> ('w closing, unit) act" where
  "persist_facts fuel e =
     handle_if ordinary
       (bnd (cl (commit fuel e)) (\<lambda>r.
        sqn (upd (\<lambda>s. s\<lparr>cl_receipt := r\<rparr>)) (
        bnd (get (ow_evidence \<circ> cl_owner)) (\<lambda>pid. bnd (fd_of pid) (\<lambda>pid.
        bnd (cl (finish fuel e pid None ''evidence persist'' False)) (\<lambda>status.
        sqn (upd (\<lambda>s. s\<lparr>cl_code := status, cl_finished := True\<rparr>)) (
        bnd (get cl_owner) (\<lambda>s.
        sqn (ensure (status = Some 0 \<and> ow_delivery s = []) (''evidence process exit/reap failed: '' @ repr_strs (ow_delivery s))) (
        ensure (receipt_matches e r s) ''persisted lifecycle receipt mismatch'')))))))))
       (\<lambda>x. upd (\<lambda>s. s\<lparr>cl_error := Some (fst (bounded_text (exn_str x) FIRST_ERROR_BYTES))\<rparr>))"

definition end_evidence :: "nat \<Rightarrow> 'w owning \<Rightarrow> ('w closing, unit) act" where
  "end_evidence fuel e =
     bnd (get (\<lambda>s. s)) (\<lambda>s.
     sqn (case ow_evidence (cl_owner s) of None \<Rightarrow> ret ()
          | Some pid \<Rightarrow> whenA (\<not> cl_finished s)
              (bnd (cl (finish fuel e pid (cl_code s) ''evidence aborted'' True)) (\<lambda>status. upd (\<lambda>s. s\<lparr>cl_code := status\<rparr>)))) (
     bnd (get cl_owner) (\<lambda>o1.
     eachA (\<lambda>x. case x of None \<Rightarrow> ret () | Some fd \<Rightarrow> cl (close_fd e fd))
       [ow_command o1, ow_result o1, ow_stage_client o1, ow_stage_worker o1])))"

definition packet_passed :: "'w closing \<Rightarrow> bool res" where
  "packet_passed s =
     (if \<not> truthy (cl_receipt s) then Inr False
      else bindE (item (cl_receipt s) ''passed'') (\<lambda>v. Inr (truthy v \<and> cl_error s = None \<and> cl_code s = Some 0)))"

definition lifecycle_packet :: "'w owning \<Rightarrow> bool \<Rightarrow> 'w closing \<Rightarrow> pyval" where
  "lifecycle_packet e passed s = PDict
     ([(''schema_version'', PInt 1), (''scope'', PStr ''i5-preparation-lifecycle-result''), (''uuid'', PStr UUID),
       (''nonce'', PStr (oe_nonce e)), (''manifest_sha256'', PStr (oe_digest e)), (''evidence_kind'', PStr ''synthetic''),
       (''i5_ready'', PBool False), (''passed'', PBool passed), (''lifecycle'', owner_facts e (cl_owner s)),
       (''receipt'', cl_receipt s), (''persistence_error'', case cl_error s of None \<Rightarrow> PNone | Some m \<Rightarrow> PStr m),
       (''delivery_errors'', PList (map PStr (ow_delivery (cl_owner s))))] @
      (if oe_init e = None then [] else [(''initialization'', PDict (ow_init_facts (cl_owner s)))]))"

definition deliver :: "nat \<Rightarrow> 'w owning \<Rightarrow> bool \<Rightarrow> ('w closing, int) act" where
  "deliver fuel e passed =
     handle
       (bnd (get (lifecycle_packet e passed)) (\<lambda>packet. let raw = encode (io_float (oe_proc e)) packet in
        sqn (ensure (length raw \<le> 2 * RECEIPT_LIMIT) ''lifecycle result byte limit'') (
        bnd (cl (now_of e)) (\<lambda>t.
        sqn (cl (ow (write_bounded fuel (ipc_of (oe_proc e)) (oe_report e) raw (min (oe_absolute e) (t + cap_of e ''output'')) (ret ())))) (
        ret (if passed then 0 else 2))))))
       (\<lambda>_. ret 2)"

definition conclude :: "nat \<Rightarrow> 'w owning \<Rightarrow> ('w closing, int) act" where
  "conclude fuel e =
     bnd (get (lf_attempt_ready \<circ> ow_facts \<circ> cl_owner)) (\<lambda>initialized.
     sqn (whenA initialized (persist_facts fuel e)) (
     sqn (end_evidence fuel e) (
     bnd (get packet_passed) (\<lambda>r. bnd (lft r) (\<lambda>passed. deliver fuel e passed)))))"

definition closing_start :: "'w owner \<Rightarrow> 'w closing" where
  "closing_start s = \<lparr> cl_owner = s, cl_receipt = PNone, cl_error = None, cl_code = None, cl_finished = False \<rparr>"

text \<open>The attempt's failure is noted; stopping and freezing happen however it ended.\<close>

definition attempt_and_stop :: "nat \<Rightarrow> 'w owning \<Rightarrow> ('w owner, unit) act" where
  "attempt_and_stop fuel e =
     sqn (handle_if any_exn (lifecycle_attempt fuel e) (\<lambda>x.
            whenA (ordinary x) (fail (exn_name x @ '': '' @ exn_str x)))) (stop_all fuel e)"

definition lifecycle_run :: "nat \<Rightarrow> 'w owning \<Rightarrow> 'w owner \<Rightarrow> int res \<times> 'w closing" where
  "lifecycle_run fuel e s0 = (case attempt_and_stop fuel e s0 of
     (Inl x, s) \<Rightarrow> (Inl x, closing_start s)
   | (Inr _, s) \<Rightarrow> conclude fuel e (closing_start s))"

subsection \<open>Forking the owner\<close>

text \<open>What the caller gives: the budget's arguments, and \<open>snapshot()\<close> of an initialization.\<close>

record 'w launching =
  la_env :: "'w owning"
  la_total :: pyval
  la_silence :: pyval
  la_caps :: "(string \<times> pyval) list"
  la_parent :: string
  la_snapshot :: "setup_plan res option"
  la_jxa :: "'w jxa option"
  la_call :: "'w jxa \<Rightarrow> 'w rpc"

text \<open>The caller's budget, and the copy that is validated once more.\<close>

definition launch_budget :: "'w launching \<Rightarrow> budget res" where
  "launch_budget l =
     bindE (budget_init (la_total l) (la_silence l) (la_caps l)) (\<lambda>b.
     budget_init (la_total l) (time_value (bu_silence b)) (map (\<lambda>(k, v). (k, time_value v)) (bu_caps b)))"

text \<open>An initialization comes with the bound source of the RPC adapter, which is built anew.\<close>

definition launch_rpc :: "'w launching \<Rightarrow> setup_plan \<Rightarrow> 'w rpc res" where
  "launch_rpc l p =
     (let nonce = fld (oe_request (la_env l)) ''nonce''; manifest = fld (oe_request (la_env l)) ''manifest_sha256'' in
      require (pyeq (in_nonce p) nonce \<and> pyeq (in_manifest p) manifest \<and> in_parent p = la_parent l) ''initialization lifecycle binding'' (
      case la_jxa l of None \<Rightarrow> Inl (ValueError ''initialization RPC source identity/explicit launcher'')
      | Some j \<Rightarrow>
          require (jx_source j = in_source p \<and> pyeq (jx_source_sha256 j) (in_source_sha256 p) \<and> pyeq (jx_nonce j) nonce \<and>
                   pyeq (jx_digest j) manifest \<and> jx_launcher j \<noteq> None) ''initialization RPC source identity/explicit launcher'' (
          bindE (jxa_init (oe_dig (la_env l)) (in_source p) (in_source_sha256 p) nonce manifest (jx_launcher j) None) (\<lambda>j'.
          Inr (la_call l j')))))"

definition launch :: "'w launching \<Rightarrow> rat \<Rightarrow> 'w owning res" where
  "launch l started =
     bindE (launch_budget l) (\<lambda>b.
     let e = la_env l; absolute = started + bu_total b in
     require (is_dict (oe_request e)) ''lifecycle transport request'' (
     bindE (validate_transport_request (oe_dig e) (io_float (oe_proc e)) (oe_request e)) (\<lambda>native.
     require (\<not> native \<or> la_snapshot l = None) ''native lifecycle requires guest-owned initialization'' (
     bindE (case la_snapshot l of None \<Rightarrow> Inr (None, oe_rpc e)
            | Some snapshot \<Rightarrow> bindE snapshot (\<lambda>p. bindE (launch_rpc l p) (\<lambda>rpc. Inr (Some p, rpc)))) (\<lambda>(init, rpc).
     Inr (e\<lparr>oe_budget := b, oe_total := la_total l, oe_absolute := absolute, oe_rpc := rpc, oe_init := init,
            oe_init_deadline := stage_deadline b ''init'' started absolute,
            oe_nonce := str_of (fld (oe_request e) ''nonce''), oe_digest := str_of (fld (oe_request e) ''manifest_sha256'')\<rparr>))))))"

definition fork_lifecycle :: "'w launching \<Rightarrow> ('w, 'w owning \<times> int \<times> int \<times> int) act" where
  "fork_lifecycle l =
     (let p = oe_proc (la_env l) in
      bnd (io_now p) (\<lambda>started.
      bnd (lft (launch l started)) (\<lambda>e.
      bnd (io_pipe p) (\<lambda>(cancel_read, cancel_write).
      bnd (io_pipe p) (\<lambda>(report_read, report_write).
      bnd (on_error (io_fork p) (eachA (io_close p) [cancel_read, cancel_write, report_read, report_write])) (\<lambda>pid.
      sqn (io_close p cancel_read) (
      sqn (io_close p report_write) (
      ret (e\<lparr>oe_cancel := cancel_read, oe_report := report_write\<rparr>, pid, cancel_write, report_read)))))))))"

text \<open>The forked owner; the value is its exit status.\<close>

definition lifecycle_child :: "nat \<Rightarrow> 'w owning \<Rightarrow> ('w, int) act" where
  "lifecycle_child fuel e =
     handle_if any_exn
       (sqn (close_except (ipc_of (oe_proc e)) [oe_cancel e, oe_report e]) (
        sqn (io_detach (oe_proc e)) (
        (\<lambda>w. case lifecycle_run fuel e (owner_start e w) of (r, s) \<Rightarrow> (r, ow_world (cl_owner s))))))
       (\<lambda>_. ret 2)"

end
