(* ===== verification/LifecycleProps.thy ===== *)
theory LifecycleProps
  imports LifecycleRun Triples
begin

text \<open>
  What the owner of a preparation guarantees: diagnostics fit their limits exactly, and the
  facts it freezes and hands to the evidence worker are accepted by the validator that
  \<open>sw_i5_preparation_evidence.py\<close> applies to them, however the attempt went.
\<close>

subsection \<open>Bounded diagnostics\<close>

lemma esc_char_pos: "0 < length (esc_char c)"
  by (simp add: esc_char_def)

lemma length_quote_sum: "length (quote t) = 2 + sum_list (map (\<lambda>c. length (esc_char c)) t)"
  by (simp add: quote_def length_concat o_def)

lemma length_encode_text: "length (encode_text t) = 3 + sum_list (map (\<lambda>c. length (esc_char c)) t)"
  by (simp add: encode_text_def encode_def length_quote_sum)

lemma sum_esc_ge: "length t \<le> sum_list (map (\<lambda>c. length (esc_char c)) t)"
proof (induction t)
  case (Cons c t)
  have "1 \<le> length (esc_char c)" using esc_char_pos [of c] by linarith
  with Cons show ?case by simp
qed simp

lemma encode_text_ge: "length t \<le> length (encode_text t)"
  using sum_esc_ge [of t] by (simp add: length_encode_text)

text \<open>What cutting the text at \<open>k\<close> costs, a function that grows with \<open>k\<close>.\<close>

definition cut :: "string \<Rightarrow> nat \<Rightarrow> nat" where
  "cut text k = length (encode_text (take k text @ truncation))"

lemma sum_take_mono: "k \<le> l \<Longrightarrow> sum_list (map f (take k t)) \<le> sum_list (map f (take l t))" for f :: "'a \<Rightarrow> nat"
proof -
  assume "k \<le> l"
  then have "take l t = take k t @ take (l - k) (drop k t)"
    by (metis le_add_diff_inverse take_add)
  then show ?thesis by simp
qed

lemma cut_mono: "k \<le> l \<Longrightarrow> cut text k \<le> cut text l"
  by (simp add: cut_def length_encode_text sum_take_mono)

lemma fit_search_result:
  assumes "cut t low \<le> limit" and "low \<le> high" and "\<forall>k. high < k \<and> k \<le> n \<longrightarrow> limit < cut t k"
  shows "low \<le> fit_search t limit low high \<and> fit_search t limit low high \<le> high \<and>
    cut t (fit_search t limit low high) \<le> limit \<and>
    (\<forall>k. fit_search t limit low high < k \<and> k \<le> n \<longrightarrow> limit < cut t k)"
  using assms
proof (induction t limit low high rule: fit_search.induct)
  case (1 t limit low high)
  show ?case
  proof (cases "low < high")
    case False
    with 1(3-5) show ?thesis by (subst (1 2 3 4) fit_search.simps) auto
  next
    case True
    define m where "m = (low + high + 1) div 2"
    have m: "low < m" "m \<le> high" using True by (auto simp: m_def)
    show ?thesis
    proof (cases "cut t m \<le> limit")
      case fits: True
      have "fit_search t limit low high = fit_search t limit m high"
        using True fits by (subst fit_search.simps) (simp add: m_def cut_def Let_def)
      moreover have "m \<le> fit_search t limit m high \<and> fit_search t limit m high \<le> high \<and>
          cut t (fit_search t limit m high) \<le> limit \<and> (\<forall>k. fit_search t limit m high < k \<and> k \<le> n \<longrightarrow> limit < cut t k)"
        by (rule 1(1) [OF True m_def]) (use fits m 1(5) in \<open>auto simp: cut_def\<close>)
      ultimately show ?thesis using m by simp
    next
      case over: False
      have "fit_search t limit low high = fit_search t limit low (m - 1)"
        using True over by (subst fit_search.simps) (simp add: m_def cut_def Let_def)
      moreover have "limit < cut t k" if "m - 1 < k" for k
      proof -
        from that m have "m \<le> k" by linarith
        with over cut_mono [of m k t] show ?thesis by linarith
      qed
      then have "low \<le> fit_search t limit low (m - 1) \<and> fit_search t limit low (m - 1) \<le> m - 1 \<and>
          cut t (fit_search t limit low (m - 1)) \<le> limit \<and> (\<forall>k. fit_search t limit low (m - 1) < k \<and> k \<le> n \<longrightarrow> limit < cut t k)"
        by (intro 1(2) [OF True m_def]) (use over m 1(3) in \<open>auto simp: cut_def\<close>)
      ultimately show ?thesis using m by (simp, linarith)
    qed
  qed
qed

lemma truncation_length: "length (encode_text truncation) = 15"
  by code_simp

text \<open>
  C24: A bounded diagnostic always fits its limit (of at least the fifteen bytes that the bare
  suffix takes), a text that fits is unchanged, and a text that does not is cut at the longest
  prefix that fits with the suffix: no truncation loses more than it must.
\<close>

theorem bounded_text_exact:
  assumes "15 \<le> limit"
  shows "(case bounded_text text limit of (out, truncated) \<Rightarrow>
      length (encode_text out) \<le> limit \<and>
      truncated = (limit < length (encode_text text)) \<and>
      (\<not> truncated \<longrightarrow> out = text) \<and>
      (truncated \<longrightarrow> (\<exists>k < length text. out = take k text @ truncation \<and>
        (\<forall>l. k < l \<and> l \<le> length text \<longrightarrow> limit < length (encode_text (take l text @ truncation))))))"
proof (cases "length (encode_text text) \<le> limit")
  case True
  then show ?thesis by (simp add: bounded_text_def)
next
  case False
  define k where "k = fit_search text limit 0 (length text)"
  have start: "cut text 0 \<le> limit" using assms by (simp add: cut_def truncation_length)
  have k: "k \<le> length text" "cut text k \<le> limit" "\<forall>l. k < l \<and> l \<le> length text \<longrightarrow> limit < cut text l"
    using fit_search_result [OF start, of "length text" "length text"] by (auto simp: k_def)
  have "length (encode_text text) \<le> cut text (length text)" by (simp add: cut_def length_encode_text)
  with False k(2) have "k \<noteq> length text" by auto
  with k(1) have "k < length text" by simp
  with False k show ?thesis by (auto simp: bounded_text_def k_def [symmetric] cut_def)
qed

theorem bounded_text_exact_witness:
  "15 \<le> (19 :: nat) \<and> bounded_text ''a long diagnostic'' 19 = (''a lo [truncated]'', True) \<and>
   length (encode_text ''a lo [truncated]'') \<le> 19"
proof -
  have b: "bounded_text ''a long diagnostic'' 19 = (''a lo [truncated]'', True)" by code_simp
  with bounded_text_exact [of 19 "''a long diagnostic''"] show ?thesis by simp
qed

subsection \<open>Facts whose diagnostics are in order\<close>

definition bounded_facts :: "facts \<Rightarrow> bool" where
  "bounded_facts f =
     ((case lf_failure f of None \<Rightarrow> \<not> lf_failure_truncated f
       | Some m \<Rightarrow> m \<noteq> [] \<and> length (encode_text m) \<le> FIRST_ERROR_BYTES \<and> (lf_failure_truncated f \<longrightarrow> endswith m truncation)) \<and>
      list_all (\<lambda>m. m \<noteq> [] \<and> length m \<le> 2048) (lf_cleanup f) \<and> length (lf_cleanup f) \<le> 16 \<and>
      length (encode_texts (lf_cleanup f)) \<le> CLEANUP_BYTES)"

definition good :: "facts \<Rightarrow> bool" where
  "good f = (lf_reaped f = (lf_cleanup f = [] \<and> \<not> lf_cleanup_truncated f) \<and> (lf_reaped f \<or> lf_failure f \<noteq> None) \<and> bounded_facts f)"

definition progress :: "facts \<Rightarrow> bool \<times> pyval \<times> pyval \<times> bool \<times> pyval \<times> bool" where
  "progress f = (lf_start_attempted f, lf_start f, lf_readiness f, lf_shutdown_attempted f, lf_shutdown f, lf_frozen f)"

text \<open>Noting diagnostics moves nothing else, and a failure stays.\<close>

definition steady :: "facts \<Rightarrow> facts \<Rightarrow> bool" where
  "steady f g = (progress g = progress f \<and> (good f \<longrightarrow> good g) \<and> (lf_failure g = None \<longrightarrow> lf_failure f = None))"

lemma bounded_text_out:
  assumes "15 \<le> limit" and "bounded_text t limit = (out, truncated)"
  shows "length (encode_text out) \<le> limit" and "length out \<le> limit" and "truncated \<Longrightarrow> endswith out truncation"
    and "t \<noteq> [] \<Longrightarrow> out \<noteq> []"
proof -
  have e: "length (encode_text out) \<le> limit \<and> (truncated \<longrightarrow> endswith out truncation) \<and> (t \<noteq> [] \<longrightarrow> out \<noteq> [])"
  proof (cases "length (encode_text t) \<le> limit")
    case True
    with assms(2) show ?thesis by (auto simp: bounded_text_def)
  next
    case False
    have "cut t 0 \<le> limit" using assms(1) by (simp add: cut_def truncation_length)
    with fit_search_result [of t 0 limit "length t" "length t"]
    have "cut t (fit_search t limit 0 (length t)) \<le> limit" by simp
    moreover have "endswith (u @ truncation) truncation" "u @ truncation \<noteq> []" for u
      by (simp_all add: endswith_def suffixI truncation_def)
    ultimately show ?thesis using False assms(2) by (auto simp: bounded_text_def cut_def)
  qed
  then show "length (encode_text out) \<le> limit" and "truncated \<Longrightarrow> endswith out truncation" and "t \<noteq> [] \<Longrightarrow> out \<noteq> []"
    by auto
  with encode_text_ge [of out] show "length out \<le> limit" by linarith
qed

lemma not_truncated_Nil: "\<not> endswith [] truncation"
  by (simp add: endswith_def truncation_def)

lemma lifecycle_failed_fits: "length (encode_text ''lifecycle failed'') \<le> FIRST_ERROR_BYTES"
  by code_simp

lemma steady_note_failure: "steady f (note_failure reason f)"
proof (cases "lf_failure f")
  case (Some m)
  then show ?thesis by (simp add: steady_def note_failure_def)
next
  case None
  obtain out truncated where b: "bounded_text reason FIRST_ERROR_BYTES = (out, truncated)" by fastforce
  have "(15 :: nat) \<le> FIRST_ERROR_BYTES" by (simp add: FIRST_ERROR_BYTES_def)
  note o = bounded_text_out [OF this b]
  have "out = [] \<Longrightarrow> \<not> truncated" using o(3) not_truncated_Nil by auto
  with None o lifecycle_failed_fits not_truncated_Nil show ?thesis
    by (auto simp: steady_def note_failure_def b good_def bounded_facts_def progress_def)
qed

lemma note_failure_some: "lf_failure (note_failure reason f) \<noteq> None"
  by (simp add: note_failure_def split: option.split prod.split)

lemma steady_note_cleanup_error:
  assumes "reason \<noteq> []"
  shows "steady f (note_cleanup_error reason f)"
proof -
  define g where "g = note_failure reason f"
  obtain out truncated where b: "bounded_text reason (CLEANUP_BYTES div 2) = (out, truncated)" by fastforce
  have "(15 :: nat) \<le> CLEANUP_BYTES div 2" by (simp add: CLEANUP_BYTES_def)
  note o = bounded_text_out [OF this b]
  have out: "out \<noteq> []" "length out \<le> 2048" using o(2) o(4) [OF assms] by (auto simp: CLEANUP_BYTES_def)
  have fg: "steady f g" by (simp add: g_def steady_note_failure)
  have some: "lf_failure g \<noteq> None" by (simp add: g_def note_failure_some)
  with fg out show ?thesis
    by (auto simp: note_cleanup_error_def g_def [symmetric] b steady_def good_def bounded_facts_def progress_def Let_def
        split: option.splits)
qed

subsection \<open>What the operations of the owner keep\<close>

definition lively :: "'w owner \<Rightarrow> 'w owner \<Rightarrow> bool" where
  "lively s t = (ow_frozen t = ow_frozen s \<and> steady (ow_facts s) (ow_facts t))"

definition calm :: "'w owner \<Rightarrow> 'w owner \<Rightarrow> bool" where
  "calm s t = (lively s t \<and> ow_host_passed t = ow_host_passed s \<and> lf_registered (ow_facts t) = lf_registered (ow_facts s))"

interpretation calm: state_order calm
  by unfold_locales (auto simp: calm_def lively_def steady_def)

interpretation lively: state_order lively
  by unfold_locales (auto simp: lively_def steady_def)

interpretation acting: state_order "\<lambda>s t. calm (ac_owner s) (ac_owner t)"
  by unfold_locales (auto intro: calm.R_refl calm.R_trans)

interpretation hosting: state_order "\<lambda>s t. lively (ho_owner s) (ho_owner t)"
  by unfold_locales (auto intro: lively.R_refl lively.R_trans)

lemma calm_lively: "calm s t \<Longrightarrow> lively s t"
  by (simp add: calm_def)

lemma calm_ow: "keeps calm (ow m)"
  by (rule keeps_zoom_frame) (simp add: calm_def lively_def steady_def)

lemma calm_other:
  assumes "\<And>s. ow_facts (f s) = ow_facts s" "\<And>s. ow_frozen (f s) = ow_frozen s" "\<And>s. ow_host_passed (f s) = ow_host_passed s"
  shows "keeps calm (upd f)"
  by (rule calm.keeps_upd) (simp add: calm_def lively_def steady_def assms)

lemma registered_note [simp]:
  "lf_registered (note_failure r f) = lf_registered f" "lf_registered (note_cleanup_error r f) = lf_registered f"
  by (auto simp: note_failure_def note_cleanup_error_def Let_def split: option.split prod.split)

lemma calm_fail: "keeps calm (fail r)"
  unfolding fail_def set_facts_def
  by (rule calm.keeps_upd) (simp add: calm_def lively_def steady_note_failure)

lemma calm_owner_cleanup: "r \<noteq> [] \<Longrightarrow> keeps calm (owner_cleanup r)"
  unfolding owner_cleanup_def
  by (rule calm.keeps_upd) (simp add: calm_def lively_def steady_note_cleanup_error, simp add: steady_def)

lemma calm_fd_of: "keeps calm (fd_of x)"
  by (simp add: fd_of_def calm.keeps_lft calm.keeps_ret split: option.split)

lemmas calm_intros = calm.keeps_intros calm.keeps_branches calm_ow calm_fail calm_owner_cleanup calm_fd_of calm.keeps_on_error

lemma calm_now: "keeps calm (now_of e)"
  by (simp add: now_of_def calm_ow)

lemma calm_checkpoint: "keeps calm (owner_checkpoint e abort)"
  unfolding owner_checkpoint_def check_cancel_def by (intro calm_intros calm_now)

lemma calm_stage: "keeps calm (stage_until e p)"
  unfolding stage_until_def by (intro calm_intros calm_now)

lemma calm_registered: "keeps calm (upd (registered e v registry))"
  by (rule calm_other) (simp_all add: registered_def Let_def)

lemma calm_register: "keeps calm (register fuel e m d)"
  unfolding register_def by (intro calm_intros calm_registered)

lemma calm_message_loop: "keeps calm (message_loop fuel e fd d abort raw)"
proof (induction fuel arbitrary: raw)
  case (Suc n)
  show ?case unfolding message_loop.simps
    by (intro calm_intros calm_now calm_checkpoint calm_register Suc.IH)
qed (simp only: message_loop.simps calm.keeps_lft)

lemma calm_message: "keeps calm (message fuel e fd d abort)"
  unfolding message_def by (intro calm_intros calm_message_loop)

lemma calm_initialization_command: "keeps calm (initialization_command fuel e operation d)"
  unfolding initialization_command_def by (intro calm_intros calm_message)

lemma calm_poll: "keeps calm (poll_child e pid status)"
  unfolding poll_child_def by (intro calm_intros)

lemma calm_poll_until: "keeps calm (poll_until fuel e pid d status)"
proof (induction fuel arbitrary: status)
  case (Suc n)
  show ?case unfolding poll_until.simps by (intro calm_intros calm_now calm_poll Suc.IH)
qed (simp only: poll_until.simps calm.keeps_lft)

lemma calm_poll_quietly: "keeps calm (poll_quietly fuel e pid d status)"
proof (induction fuel arbitrary: status)
  case (Suc n)
  show ?case unfolding poll_quietly.simps by (intro calm_intros calm_now calm_poll Suc.IH)
qed (simp only: poll_quietly.simps calm.keeps_lft)

lemma calm_group_gone: "keeps calm (group_gone fuel e pid d)"
proof (induction fuel)
  case (Suc n)
  show ?case unfolding group_gone.simps by (intro calm_intros calm_now Suc.IH)
qed (simp only: group_gone.simps calm.keeps_lft)

lemma calm_group_kill: "context \<noteq> [] \<Longrightarrow> keeps calm (group_kill e pid status context)"
  unfolding group_kill_def by (intro calm_intros) simp_all

lemma calm_finish: "keeps calm (finish fuel e pid status label kill)"
  unfolding finish_def finish_child_def finish_failed_def end_group_def Let_def
  by (intro calm_intros calm_now calm_poll calm_poll_until calm_poll_quietly calm_group_gone calm_group_kill) simp_all

subsection \<open>Actions, the evidence worker and the active phase\<close>

lemma acting_ac: "keeps calm m \<Longrightarrow> keeps (\<lambda>s t. calm (ac_owner s) (ac_owner t)) (ac m)"
  by (rule keeps_zoom) simp_all

lemma acting_upd: "(\<And>s. ac_owner (f s) = ac_owner s) \<Longrightarrow> keeps (\<lambda>s t. calm (ac_owner s) (ac_owner t)) (upd f)"
  by (rule acting.keeps_upd) (simp add: calm.R_refl)

lemmas acting_intros = acting.keeps_intros acting.keeps_branches acting_ac

lemma acting_await_exit: "keeps (\<lambda>s t. calm (ac_owner s) (ac_owner t)) (await_exit fuel e action pid d)"
proof (induction fuel)
  case (Suc n)
  show ?case unfolding await_exit.simps
    by (intro acting_intros acting_upd calm_intros calm_now calm_poll calm_checkpoint Suc.IH) simp_all
qed (simp only: await_exit.simps acting.keeps_lft)

lemma calm_do_action: "keeps calm (do_action fuel e action mode d)"
proof -
  have run: "keeps calm (acting m writer)" if "keeps (\<lambda>s t. calm (ac_owner s) (ac_owner t)) m" for m :: "('a acting, pyval) act" and writer
    unfolding keeps_def
  proof
    fix s :: "'a owner"
    obtain r h where m: "m \<lparr> ac_owner = s, ac_writer = Some writer, ac_pid = None, ac_code = None \<rparr> = (r, h)" by fastforce
    from keepsD [OF that m] show "calm s (snd (acting m writer s))" by (simp add: acting_def m)
  qed
  show ?thesis unfolding do_action_def action_body_def action_cleanup_def
    by (intro calm_intros calm_stage run acting_intros acting_upd acting_await_exit calm_now calm_message calm_finish) simp_all
qed

lemma do_action_value:
  assumes "do_action fuel e action mode d s = (Inr v, t)"
  shows "validate_action_result v (oe_nonce e) (oe_digest e) action (Some mode) = Inr v"
proof -
  have same: "validate_action_result x n m a o1 = Inr y \<Longrightarrow> y = x" for x y n m a o1
    by (simp add: validate_action_result_def bindE_Inr require_Inr)
  have raising: "handle_if p m (\<lambda>x. sqn (h x) (lft (Inl x))) s = (Inr y, t) \<Longrightarrow> m s = (Inr y, t)" for p m h s y t
    by (auto simp: handle_if_def act_simps split: prod.splits sum.splits if_splits)
  from assms obtain dl reader writer o1 where
    "acting (try_finally (handle_if ordinary (action_body fuel e action mode dl reader writer) (\<lambda>x.
        sqn (ac (fail (action @ '': '' @ exn_name x @ '': '' @ exn_str x))) (lft (Inl x))))
      (action_cleanup fuel e action reader)) writer o1 = (Inr v, t)"
    by (auto simp: do_action_def bnd_Inr)
  then obtain s0 s1 where "action_body fuel e action mode dl reader writer s0 = (Inr v, s1)"
    by (auto simp: acting_def try_finally_Inr split: prod.splits dest!: raising)
  then show ?thesis by (auto simp: action_body_def act_simps dest: same)
qed

lemma calm_set_init: "keeps calm (set_init k v)"
  unfolding set_init_def by (rule calm_other) simp_all

lemma calm_ready: "(\<And>f. steady f (g f) \<and> lf_registered (g f) = lf_registered f) \<Longrightarrow> keeps calm (set_facts g)"
  unfolding set_facts_def by (rule calm.keeps_upd) (simp add: calm_def lively_def)

lemma steady_ready: "steady f (f\<lparr>lf_attempt_ready := b\<rparr>)"
  by (auto simp: steady_def progress_def good_def bounded_facts_def split: option.split)

lemma calm_evidence_start: "keeps calm (evidence_start fuel e)"
  unfolding evidence_start_def evidence_fork_def evidence_objects_def evidence_plain_def close_fd_def
  by (intro calm_intros calm_message calm_ready calm_other) (simp_all add: steady_ready)

lemma calm_guest: "keeps calm (guest_initialized fuel e p d)"
  unfolding guest_initialized_def by (intro calm_intros calm_initialization_command calm_other) simp_all

lemma calm_clean_realm: "keeps calm (clean_realm fuel e safe realm d)"
  unfolding clean_realm_def by (intro calm_intros calm_initialization_command calm_set_init) simp_all

lemma hosting_ho: "keeps calm m \<Longrightarrow> keeps (\<lambda>s t. lively (ho_owner s) (ho_owner t)) (ho m)"
  by (rule keeps_zoom) (auto simp: keeps_def calm_lively)

lemma hosting_lively: "keeps lively m \<Longrightarrow> keeps (\<lambda>s t. lively (ho_owner s) (ho_owner t)) (ho m)"
  by (rule keeps_zoom) simp_all

lemma hosting_upd: "(\<And>s. lively (ho_owner s) (ho_owner (f s))) \<Longrightarrow> keeps (\<lambda>s t. lively (ho_owner s) (ho_owner t)) (upd f)"
  by (rule hosting.keeps_upd)

lemma lively_facts_same: "ow_facts t = ow_facts s \<Longrightarrow> ow_frozen t = ow_frozen s \<Longrightarrow> lively s t"
  by (simp add: lively_def steady_def)

lemmas hosting_intros = hosting.keeps_intros hosting.keeps_branches hosting_ho

lemma hosting_fd_of: "keeps (\<lambda>s t. lively (ho_owner s) (ho_owner t)) (fd_of x)"
  by (simp add: fd_of_def hosting.keeps_lft hosting.keeps_ret split: option.split)

lemma hosting_drop: "(\<And>s. ho_owner (f s) = ho_owner s) \<Longrightarrow> keeps (\<lambda>s t. lively (ho_owner s) (ho_owner t)) (drop_fd e look f)"
  unfolding drop_fd_def by (intro hosting_intros calm_intros hosting_upd) (simp add: lively.R_refl)

lemma hosting_poll: "keeps (\<lambda>s t. lively (ho_owner s) (ho_owner t)) (poll_watchdog e pid)"
  unfolding poll_watchdog_def by (intro hosting_intros calm_poll hosting_upd) (simp add: lively.R_refl)

lemma hosting_checks: "keeps (\<lambda>s t. lively (ho_owner s) (ho_owner t)) (watch_checks e w pid)"
  unfolding watch_checks_def cancel_watchdog_def drop_admit_def drop_lease_def
  by (intro hosting_intros hosting_poll hosting_drop hosting_upd calm_intros calm_now calm_checkpoint) (simp_all add: lively.R_refl)

lemma hosting_renewal: "keeps (\<lambda>s t. lively (ho_owner s) (ho_owner t)) (host_renewal e)"
  unfolding host_renewal_def
  by (intro hosting_intros hosting_fd_of hosting_upd calm_intros calm_now) (simp_all add: lively.R_refl)

lemma calm_registration_frame: "keeps calm (registration_frame fuel e fd d frame)"
proof (induction fuel arbitrary: frame)
  case (Suc n)
  show ?case unfolding registration_frame.simps by (intro calm_intros calm_now calm_checkpoint Suc.IH)
qed (simp only: registration_frame.simps calm.keeps_lft)

lemma steady_registered: "steady f (f\<lparr>lf_registered := True\<rparr>)"
  by (auto simp: steady_def progress_def good_def bounded_facts_def split: option.split)

lemma hosting_admit: "keeps (\<lambda>s t. lively (ho_owner s) (ho_owner t)) (admit_transport e watchdog child)"
proof -
  have "keeps lively (set_facts (\<lambda>f. f\<lparr>lf_registered := True\<rparr>))"
    unfolding set_facts_def by (rule lively.keeps_upd) (simp add: lively_def steady_registered)
  then show ?thesis unfolding admit_transport_def drop_admit_def
    by (intro hosting.keeps_intros hosting_lively [of "set_facts f" for f] hosting_intros hosting_poll hosting_drop
        hosting_upd hosting_fd_of calm_intros calm_checkpoint) (simp_all add: lively.R_refl)
qed

lemma hosting_channel: "keeps (\<lambda>s t. lively (ho_owner s) (ho_owner t)) (see_channel fuel e w watchdog fd)"
  unfolding see_channel_def see_result_def see_registration_def see_ack_def see_report_def
  by (intro hosting_intros hosting_upd hosting_admit calm_intros calm_now calm_registration_frame calm_register)
    (simp_all add: lively.R_refl)

lemma hosting_loop: "keeps (\<lambda>s t. lively (ho_owner s) (ho_owner t)) (host_loop fuel e w watchdog)"
proof (induction fuel)
  case (Suc n)
  show ?case unfolding host_loop.simps
    by (intro hosting_intros hosting_checks hosting_renewal hosting_channel calm_intros Suc.IH)
qed (simp only: host_loop.simps hosting.keeps_lft)

lemma hosting_body: "keeps (\<lambda>s t. lively (ho_owner s) (ho_owner t)) (host_body fuel e w reg_write admit_read)"
proof -
  have "keeps lively (upd (\<lambda>s. s\<lparr>ow_host_passed := p\<rparr>))" for p :: bool
    by (rule lively.keeps_upd) (simp add: lively_facts_same)
  note passed = hosting_lively [OF this]
  show ?thesis unfolding host_body_def start_watchdog_def host_verdict_def
    by (intro hosting.keeps_intros hosting.keeps_branches passed hosting_ho hosting_upd hosting_drop hosting_loop calm_intros calm_now calm_other)
      (simp_all add: lively_facts_same)
qed

lemma hosting_cleanup: "keeps (\<lambda>s t. lively (ho_owner s) (ho_owner t)) (host_cleanup fuel e w)"
  unfolding host_cleanup_def close_given_def end_transport_def
  by (intro hosting_intros hosting_upd calm_intros calm_now calm_finish calm_group_gone)
    (simp_all add: lively_facts_same)

lemma lively_host_phase: "keeps lively (host_phase fuel e)"
proof -
  have run: "keeps lively (\<lambda>s. case m (start s) of (r, h) \<Rightarrow> (r, ho_owner h))"
    if "keeps (\<lambda>s t. lively (ho_owner s) (ho_owner t)) m" and "\<And>s. ho_owner (start s) = s" for m :: "('a hosting, unit) act" and start
    using that by (auto simp: keeps_def split: prod.split) (metis snd_conv)
  have up: "keeps calm m \<Longrightarrow> keeps lively m" for m :: "('a owner, 'b) act"
    by (auto simp: keeps_def calm_lively)
  show ?thesis unfolding host_phase_def
    by (intro lively.keeps_intros lively.keeps_branches up [OF calm_stage] up [OF calm_ow] up [OF calm_now] run
        hosting_intros hosting_body hosting_cleanup calm_intros) (simp_all add: hosting_start_def)
qed

subsection \<open>The order of an attempt\<close>

definition action_valid :: "'w owning \<Rightarrow> string \<Rightarrow> pyval \<Rightarrow> bool" where
  "action_valid e action v = (v = PNone \<or> (\<exists>mode. validate_action_result v (oe_nonce e) (oe_digest e) action (Some mode) = Inr v))"

definition ordered :: "'w owning \<Rightarrow> 'w owner \<Rightarrow> bool" where
  "ordered e s = (let f = ow_facts s in
     good f \<and> (lf_start_attempted f \<or> (lf_start f = PNone \<and> lf_readiness f = PNone \<and> \<not> lf_registered f)) \<and>
     (lf_start f \<noteq> PNone \<or> lf_readiness f = PNone) \<and> (lf_registered f \<longrightarrow> lf_readiness f \<noteq> PNone) \<and>
     (ow_host_passed s \<longrightarrow> lf_readiness f \<noteq> PNone) \<and> action_valid e ''start'' (lf_start f) \<and>
     action_valid e ''readiness'' (lf_readiness f))"

definition going :: "'w owning \<Rightarrow> 'w owner \<Rightarrow> bool" where
  "going e s = (ordered e s \<and> lf_shutdown (ow_facts s) = PNone \<and> \<not> lf_shutdown_attempted (ow_facts s))"

lemma calm_going: "calm s t \<Longrightarrow> going e s \<Longrightarrow> going e t"
  by (simp add: calm_def lively_def steady_def progress_def going_def ordered_def Let_def)

lemma lively_going: "lively s t \<Longrightarrow> going e s \<and> lf_readiness (ow_facts s) \<noteq> PNone \<Longrightarrow> going e t \<and> lf_readiness (ow_facts t) \<noteq> PNone"
  by (auto simp: lively_def steady_def progress_def going_def ordered_def Let_def)

lemma calm_progress: "calm s t \<Longrightarrow> progress (ow_facts t) = progress (ow_facts s)"
  by (simp add: calm_def lively_def steady_def)

lemma validated_some: "validate_action_result v n m a o1 = Inr v \<Longrightarrow> v \<noteq> PNone"
  by (auto simp: validate_action_result_def bindE_Inr has_fields_def check_fields_Inr)

lemma triple_calm:
  assumes "keeps calm m" and "\<And>s t. calm s t \<Longrightarrow> P s \<Longrightarrow> P t" and "\<And>s. P s \<Longrightarrow> E s"
  shows "triple P m (\<lambda>_. P) E"
  by (rule triple_weaken [OF triple_keeps [OF assms(1,2)]]) (use assms(3) in auto)

definition before_start :: "'w owning \<Rightarrow> 'w owner \<Rightarrow> bool" where
  "before_start e s = (going e s \<and> lf_start (ow_facts s) = PNone)"

definition starting :: "'w owning \<Rightarrow> 'w owner \<Rightarrow> bool" where
  "starting e s = (going e s \<and> lf_start_attempted (ow_facts s) \<and> lf_start (ow_facts s) = PNone)"

definition started :: "'w owning \<Rightarrow> 'w owner \<Rightarrow> bool" where
  "started e s = (going e s \<and> lf_start_attempted (ow_facts s) \<and> lf_start (ow_facts s) \<noteq> PNone)"

lemmas attempt_states = before_start_def starting_def started_def

lemma calm_attempt:
  "calm s t \<Longrightarrow> before_start e s \<Longrightarrow> before_start e t"
  "calm s t \<Longrightarrow> starting e s \<Longrightarrow> starting e t"
  "calm s t \<Longrightarrow> started e s \<Longrightarrow> started e t"
  using calm_going calm_progress by (fastforce simp: attempt_states progress_def)+

lemma attempt_going_of: "before_start e s \<Longrightarrow> going e s" "starting e s \<Longrightarrow> going e s" "started e s \<Longrightarrow> going e s"
  by (simp_all add: attempt_states)

lemma good_progress:
  "good (f\<lparr>lf_start_attempted := b\<rparr>) = good f" "good (f\<lparr>lf_start := v\<rparr>) = good f" "good (f\<lparr>lf_readiness := v\<rparr>) = good f"
  "good (f\<lparr>lf_shutdown_attempted := b\<rparr>) = good f" "good (f\<lparr>lf_shutdown := v\<rparr>) = good f"
  "good (f\<lparr>lf_frozen := b, lf_passed := b'\<rparr>) = good f"
  by (auto simp: good_def bounded_facts_def split: option.splits)

lemma start_attempted_step: "before_start e s \<Longrightarrow> starting e (s\<lparr>ow_facts := ow_facts s\<lparr>lf_start_attempted := True\<rparr>\<rparr>)"
  by (auto simp: attempt_states going_def ordered_def Let_def good_progress)

lemma start_step:
  "validate_action_result v (oe_nonce e) (oe_digest e) ''start'' (Some mode) = Inr v \<and> starting e s \<Longrightarrow>
    started e (s\<lparr>ow_facts := ow_facts s\<lparr>lf_start := v\<rparr>\<rparr>)"
  by (auto simp: attempt_states going_def ordered_def Let_def good_progress action_valid_def dest: validated_some)

lemma readiness_step:
  "validate_action_result v (oe_nonce e) (oe_digest e) ''readiness'' (Some mode) = Inr v \<and> started e s \<Longrightarrow>
    going e (s\<lparr>ow_facts := ow_facts s\<lparr>lf_readiness := v\<rparr>\<rparr>) \<and> v \<noteq> PNone"
  by (auto simp: attempt_states going_def ordered_def Let_def good_progress action_valid_def dest: validated_some)

lemma attempt_going: "triple (before_start e) (lifecycle_attempt fuel e) (\<lambda>_. going e) (going e)"
proof -
  have act: "triple P (do_action fuel e a mode d) (\<lambda>v s. validate_action_result v (oe_nonce e) (oe_digest e) a (Some mode) = Inr v \<and> P s) (going e)"
    if "\<And>s t. calm s t \<Longrightarrow> P s \<Longrightarrow> P t" and "\<And>s. P s \<Longrightarrow> going e s" for P a mode d
    by (rule triple_value [OF triple_calm [OF calm_do_action that]]) (auto dest: do_action_value)
  have step: "triple P m (\<lambda>_. P) (going e)" if "keeps calm m" and "P \<in> {before_start e, started e}" for P and m :: "('a owner, 'b) act"
    using that(2) calm_attempt attempt_going_of by (intro triple_calm [OF that(1)]) blast+
  have calm3: "keeps calm (case oe_init e of None \<Rightarrow> ret () | Some p \<Rightarrow> guest_initialized fuel e p d)" for d
    by (intro calm_intros calm_guest)
  show ?thesis
    unfolding lifecycle_attempt_def
    apply (rule triple_sqn [OF step [OF calm_checkpoint]], simp)
    apply (rule triple_sqn [OF step [OF calm_evidence_start]], simp)
    apply (rule triple_sqn [OF step [OF calm_checkpoint]], simp)
    apply (rule triple_sqn [where Q = "starting e"], unfold set_facts_def, rule triple_upd, erule start_attempted_step)
    apply (rule triple_bnd [OF act], erule (1) calm_attempt, erule attempt_going_of)
    apply (rule triple_sqn [where Q = "started e"], rule triple_upd, erule start_step)
    apply (rule triple_sqn [OF step [OF calm_checkpoint]], simp)
    apply (rule triple_bnd [OF step [OF calm_stage]], simp)
    apply (rule triple_bnd [OF act], erule (1) calm_attempt, erule attempt_going_of)
    apply (rule triple_sqn [OF triple_calm [OF calm3]], (blast intro: calm_attempt), blast intro: attempt_going_of)
    apply (rule triple_sqn [where Q = "\<lambda>s. going e s \<and> lf_readiness (ow_facts s) \<noteq> PNone"], rule triple_upd)
     apply (frule readiness_step, simp)
    apply (rule triple_sqn [OF triple_calm [OF calm_checkpoint]], erule lively_going [OF calm_lively], assumption, simp)
    apply (rule triple_weaken [OF triple_keeps [OF lively_host_phase]], (erule (1) lively_going), auto)
    done
qed

subsection \<open>Stopping and freezing\<close>

text \<open>A shutdown is attempted if and only if a start was; a normal one needs the host's success.\<close>

definition normal_stop :: "pyval \<Rightarrow> bool" where
  "normal_stop v = (v \<noteq> PNone \<and> fld v ''mode'' = PStr ''normal'' \<and> \<not> truthy (fld v ''forced_stop''))"

definition stopped :: "'w owning \<Rightarrow> 'w owner \<Rightarrow> bool" where
  "stopped e s = (let f = ow_facts s in
     ordered e s \<and> lf_shutdown_attempted f = lf_start_attempted f \<and> (lf_shutdown f \<noteq> PNone \<longrightarrow> lf_shutdown_attempted f) \<and>
     action_valid e ''shutdown'' (lf_shutdown f) \<and> (fld (lf_shutdown f) ''mode'' = PStr ''normal'' \<longrightarrow> ow_host_passed s) \<and>
     (lf_start_attempted f \<and> ow_host_passed s \<and> lf_failure f = None \<longrightarrow> normal_stop (lf_shutdown f)))"

lemma calm_ordered: "calm s t \<Longrightarrow> ordered e s \<Longrightarrow> ordered e t"
  by (simp add: calm_def lively_def steady_def progress_def ordered_def Let_def)

lemma calm_stopped: "calm s t \<Longrightarrow> stopped e s \<Longrightarrow> stopped e t"
  using calm_ordered [of s t e]
  by (auto simp: calm_def lively_def steady_def progress_def stopped_def Let_def)

definition stopping :: "'w owning \<Rightarrow> 'w owner \<Rightarrow> bool" where
  "stopping e s = (let f = ow_facts s in
     ordered e s \<and> lf_start_attempted f \<and> lf_shutdown_attempted f \<and> lf_shutdown f = PNone)"

definition mode_bound :: "string \<Rightarrow> 'w owner \<Rightarrow> bool" where
  "mode_bound mode s = ((mode = ''normal'' \<longrightarrow> ow_host_passed s) \<and> (ow_host_passed s \<and> lf_failure (ow_facts s) = None \<longrightarrow> mode = ''normal''))"

lemma calm_stopping: "calm s t \<Longrightarrow> stopping e s \<and> mode_bound mode s \<Longrightarrow> stopping e t \<and> mode_bound mode t"
  using calm_ordered [of s t e]
  by (auto simp: calm_def lively_def steady_def progress_def stopping_def mode_bound_def Let_def)

lemma good_no_errors: "good f \<Longrightarrow> lf_failure f = None \<Longrightarrow> lf_cleanup f = [] \<and> \<not> lf_cleanup_truncated f \<and> lf_reaped f"
  by (auto simp: good_def)

lemma stop_mode_bound: "stopping e s \<Longrightarrow> mode_bound (stop_mode s) s"
  by (auto simp: stop_mode_def mode_bound_def stopping_def ordered_def Let_def dest: good_no_errors)

lemma shutdown_mode:
  assumes "validate_action_result v n m ''shutdown'' (Some mode) = Inr v"
  shows "fld v ''mode'' = PStr mode \<and> v \<noteq> PNone"
  using assms validated_some [OF assms] by (simp add: validate_action_result_def bindE_Inr require_Inr)

lemma shutdown_step:
  assumes "validate_action_result v (oe_nonce e) (oe_digest e) ''shutdown'' (Some mode) = Inr v"
    and "stopping e s \<and> mode_bound mode s"
    and f: "f = (if truthy (fld v ''forced_stop'') then note_failure ''forced shutdown cannot pass'' (ow_facts s\<lparr>lf_shutdown := v\<rparr>)
                 else ow_facts s\<lparr>lf_shutdown := v\<rparr>)"
  shows "stopped e (s\<lparr>ow_facts := f\<rparr>)"
proof -
  note v = shutdown_mode [OF assms(1)]
  let ?g = "ow_facts s\<lparr>lf_shutdown := v\<rparr>"
  have st: "steady ?g (note_failure r ?g)" for r by (rule steady_note_failure)
  show ?thesis
    using assms(1,2) v st [of "''forced shutdown cannot pass''"] note_failure_some [of "''forced shutdown cannot pass''" ?g]
    by (auto simp: f stopped_def stopping_def mode_bound_def ordered_def Let_def good_progress action_valid_def normal_stop_def
        steady_def progress_def)
qed

definition failed_stop :: "'w owning \<Rightarrow> 'w owner \<Rightarrow> bool" where
  "failed_stop e s = (stopping e s \<and> lf_failure (ow_facts s) \<noteq> None)"

lemma calm_failed_stop: "calm s t \<Longrightarrow> failed_stop e s \<Longrightarrow> failed_stop e t"
  using calm_ordered [of s t e]
  by (auto simp: calm_def lively_def steady_def progress_def failed_stop_def stopping_def Let_def)

lemma failed_stop_stopped: "failed_stop e s \<Longrightarrow> stopped e s"
  by (auto simp: failed_stop_def stopping_def stopped_def Let_def action_valid_def fld_def)

lemma failed_stop_intro: "stopping e s \<Longrightarrow> failed_stop e (s\<lparr>ow_facts := note_failure r (ow_facts s)\<rparr>)"
  using steady_note_failure [of "ow_facts s" r] note_failure_some [of r "ow_facts s"]
  by (auto simp: failed_stop_def stopping_def ordered_def Let_def steady_def progress_def)

lemma stop_stopped:
  "triple (\<lambda>s. going e s \<and> lf_start_attempted (ow_facts s)) (stop fuel e d) (\<lambda>_. stopped e) (\<lambda>_. True)"
proof -
  have raise: "triple (stopping e) (sqn (fail r) (owner_cleanup (''shutdown: '' @ r'))) (\<lambda>_. stopped e) (\<lambda>_. True)" for r r'
  proof (rule triple_sqn)
    show "triple (stopping e) (fail r) (\<lambda>_. failed_stop e) (\<lambda>_. True)"
      unfolding fail_def set_facts_def by (rule triple_upd) (erule failed_stop_intro)
    have "keeps calm (owner_cleanup (''shutdown: '' @ r'))" by (rule calm_owner_cleanup) simp
    then show "triple (failed_stop e) (owner_cleanup (''shutdown: '' @ r')) (\<lambda>_. stopped e) (\<lambda>_. True)"
      by (intro triple_weaken [OF triple_calm [where E = "\<lambda>_. True" and P = "failed_stop e"]]) (auto intro: calm_failed_stop failed_stop_stopped)
  qed
  have record_result: "triple (\<lambda>s. validate_action_result v (oe_nonce e) (oe_digest e) ''shutdown'' (Some mode) = Inr v \<and> stopping e s \<and> mode_bound mode s)
      (sqn (set_facts (\<lambda>f. f\<lparr>lf_shutdown := v\<rparr>)) (whenA (truthy (fld v ''forced_stop'')) (fail ''forced shutdown cannot pass'')))
      (\<lambda>_. stopped e) (stopping e)" for v mode
    by (rule tripleI) (auto simp: act_simps set_facts_def fail_def whenA_def intro: shutdown_step split: if_splits)
  have act: "triple (\<lambda>s. stopping e s \<and> mode_bound mode s) (do_action fuel e ''shutdown'' mode d')
      (\<lambda>v s. validate_action_result v (oe_nonce e) (oe_digest e) ''shutdown'' (Some mode) = Inr v \<and> stopping e s \<and> mode_bound mode s) (stopping e)" for mode d'
    by (rule triple_value [OF triple_calm [OF calm_do_action]], erule (1) calm_stopping, simp) (auto dest: do_action_value)
  show ?thesis unfolding stop_def
  proof (rule triple_sqn [where Q = "stopping e"])
    show "triple (\<lambda>s. going e s \<and> lf_start_attempted (ow_facts s)) (set_facts (lf_shutdown_attempted_update (\<lambda>_. True))) (\<lambda>_. stopping e) (\<lambda>_. True)"
      unfolding set_facts_def
      by (rule triple_upd) (auto simp: going_def stopping_def ordered_def Let_def good_progress)
    show "triple (stopping e) (bnd (get stop_mode) (\<lambda>mode.
        handle_if ordinary
          (bnd (do_action fuel e ''shutdown'' mode (Some d)) (\<lambda>result.
           sqn (set_facts (\<lambda>f. f\<lparr>lf_shutdown := result\<rparr>)) (
           whenA (truthy (fld result ''forced_stop'')) (fail ''forced shutdown cannot pass''))))
          (\<lambda>x. sqn (fail (''shutdown: '' @ exn_str x)) (owner_cleanup (''shutdown: '' @ exn_str x)))))
        (\<lambda>_. stopped e) (\<lambda>_. True)"
    proof (rule triple_bnd [where Q = "\<lambda>mode s. stopping e s \<and> mode_bound mode s"])
      show "triple (stopping e) (get stop_mode) (\<lambda>mode s. stopping e s \<and> mode_bound mode s) (\<lambda>_. True)"
        by (rule triple_get) (simp add: stop_mode_bound)
    qed (rule triple_handle_if [OF triple_bnd [OF act record_result] raise], simp)
  qed
qed

definition final :: "'w owning \<Rightarrow> 'w owner \<Rightarrow> bool" where
  "final e s = (let f = ow_facts s in
     stopped e s \<and> lf_frozen f \<and> (ow_host_passed s \<or> lf_failure f \<noteq> None) \<and>
     lf_passed f = (ow_host_passed s \<and> lf_failure f = None \<and> lf_cleanup f = [] \<and> lf_reaped f))"

lemma stopped_frozen: "stopped e (s\<lparr>ow_facts := f\<lparr>lf_frozen := True, lf_passed := b\<rparr>, ow_frozen := True\<rparr>) = stopped e (s\<lparr>ow_facts := f\<rparr>)"
  by (simp add: stopped_def ordered_def Let_def good_progress)

lemma freeze_final: "triple (stopped e) (freeze e) (\<lambda>_. final e) (\<lambda>_. True)"
proof -
  have look: "triple (stopped e) (handle_if is_value_error (owner_checkpoint e False) (\<lambda>x. fail (exn_str x))) (\<lambda>_. stopped e) (\<lambda>_. True)"
    by (rule triple_calm, intro calm_intros calm_checkpoint, erule (1) calm_stopped, simp)
  have "final e (s\<lparr>ow_facts := freeze_facts (ow_host_passed s) (ow_facts s), ow_frozen := True\<rparr>)" if s: "stopped e s" for s
  proof -
    define g where "g = (if \<not> ow_host_passed s \<and> lf_failure (ow_facts s) = None
      then note_failure ''host result not accepted'' (ow_facts s) else ow_facts s)"
    have "calm s (s\<lparr>ow_facts := g\<rparr>)"
      by (simp add: g_def calm_def lively_def steady_note_failure) (simp add: steady_def)
    with s have "stopped e (s\<lparr>ow_facts := g\<rparr>)" by (rule calm_stopped [rotated])
    moreover have "ow_host_passed s \<or> lf_failure g \<noteq> None" using note_failure_some [of "''host result not accepted''" "ow_facts s"] by (auto simp: g_def)
    ultimately show ?thesis
      by (simp add: final_def freeze_facts_def g_def [symmetric] Let_def stopped_frozen)
  qed
  then show ?thesis unfolding freeze_def by (intro triple_sqn [OF look] triple_upd)
qed

lemma stop_all_final: "triple (going e) (stop_all fuel e) (\<lambda>_. final e) (\<lambda>_. True)"
proof -
  have calm_going_T: "keeps calm m \<Longrightarrow> triple (going e) m (\<lambda>_. going e) (\<lambda>_. True)" for m :: "('a owner, 'b) act"
    by (rule triple_calm) (auto intro: calm_going)
  have calm_stopped_T: "keeps calm m \<Longrightarrow> triple (stopped e) m (\<lambda>_. stopped e) (\<lambda>_. True)" for m :: "('a owner, 'b) act"
    by (rule triple_calm) (auto intro: calm_stopped)
  have never: "stopped e s" if "going e s" and "\<not> lf_start_attempted (ow_facts s)" for s
    using that by (auto simp: going_def stopped_def Let_def action_valid_def fld_def)
  have stop_step: "triple (\<lambda>s. going e s \<and> lf_start_attempted (ow_facts s) = started) (whenA started (stop fuel e d)) (\<lambda>_. stopped e) (\<lambda>_. True)" for started d
    by (rule triple_whenA, rule triple_weaken [OF stop_stopped]) (auto intro: never)
  show ?thesis unfolding stop_all_def Let_def
    apply (rule triple_bnd [OF calm_going_T [OF calm_now]])+
    apply (rule triple_sqn [OF calm_going_T], (intro calm_intros))
    apply (rule triple_bnd [OF calm_going_T], (intro calm_intros))+
    apply (rule triple_sqn [OF calm_going_T], (intro calm_intros calm_now calm_clean_realm))
    apply (rule triple_bnd [where Q = "\<lambda>started s. going e s \<and> lf_start_attempted (ow_facts s) = started"], rule triple_get, simp)
    apply (rule triple_sqn [OF stop_step])
    apply (rule triple_sqn [OF calm_stopped_T], (intro calm_intros calm_clean_realm))
    apply (rule freeze_final)
    done
qed

lemma run_final:
  assumes "attempt_and_stop fuel e (owner_start e w) = (Inr (), s)"
  shows "final e s"
proof -
  have noted: "triple (before_start e) (handle_if any_exn (lifecycle_attempt fuel e) (\<lambda>x.
      whenA (ordinary x) (fail (exn_name x @ '': '' @ exn_str x)))) (\<lambda>_. going e) (\<lambda>_. True)"
  proof (rule triple_handle_if [OF attempt_going])
    show "triple (going e) (whenA (ordinary x) (fail (exn_name x @ '': '' @ exn_str x))) (\<lambda>_. going e) (\<lambda>_. True)" for x
      by (rule triple_calm) (auto intro: calm_intros calm_going)
  qed simp
  have "before_start e (owner_start e w)"
    by (simp add: attempt_states going_def ordered_def owner_start_def initial_facts_def action_valid_def good_def
        bounded_facts_def encode_texts_def encode_def CLEANUP_BYTES_def)
  moreover have "triple (before_start e) (attempt_and_stop fuel e) (\<lambda>_. final e) (\<lambda>_. True)"
    unfolding attempt_and_stop_def by (rule triple_sqn [OF noted stop_all_final])
  ultimately show ?thesis using tripleD_Inr assms by fastforce
qed

subsection \<open>The reader accepts what the owner froze\<close>

lemma encode_text_fr: "encode fr (PStr m) = encode_text m"
  by (simp add: encode_def encode_text_def)

lemma encode_texts_fr: "encode fr (PList (map PStr ts)) = encode_texts ts"
  by (simp add: encode_def encode_texts_def o_def)

lemma any_mode: "validate_action_result v n d a (Some mode) = Inr v \<Longrightarrow> validate_action_result v n d a None = Inr v"
  by (auto simp: validate_action_result_def bindE_Inr require_Inr)

lemmas facts_simps = owner_facts_def facts_value_def fld_def

lemma facts_flags:
  "flag (owner_facts e s) ''attempt_ready'' = lf_attempt_ready (ow_facts s)"
  "flag (owner_facts e s) ''start_attempted'' = lf_start_attempted (ow_facts s)"
  "flag (owner_facts e s) ''shutdown_attempted'' = lf_shutdown_attempted (ow_facts s)"
  "flag (owner_facts e s) ''transport_registered'' = lf_registered (ow_facts s)"
  "flag (owner_facts e s) ''sessions_reaped'' = lf_reaped (ow_facts s)"
  "flag (owner_facts e s) ''frozen'' = lf_frozen (ow_facts s)"
  "flag (owner_facts e s) ''failure_truncated'' = lf_failure_truncated (ow_facts s)"
  "flag (owner_facts e s) ''cleanup_truncated'' = lf_cleanup_truncated (ow_facts s)"
  by (simp_all add: flag_def facts_simps)

lemma facts_given:
  "given (owner_facts e s) ''start'' = (lf_start (ow_facts s) \<noteq> PNone)"
  "given (owner_facts e s) ''readiness'' = (lf_readiness (ow_facts s) \<noteq> PNone)"
  "given (owner_facts e s) ''shutdown'' = (lf_shutdown (ow_facts s) \<noteq> PNone)"
  "given (owner_facts e s) ''first_failure'' = (lf_failure (ow_facts s) \<noteq> None)"
  "no_cleanup_errors (owner_facts e s) = (lf_cleanup (ow_facts s) = [])"
  by (simp_all add: given_def no_cleanup_errors_def facts_simps split: option.split)

lemma facts_values:
  "fld (owner_facts e s) ''schema_version'' = PInt 1" "fld (owner_facts e s) ''scope'' = PStr ''i5-preparation-lifecycle''"
  "fld (owner_facts e s) ''uuid'' = PStr UUID" "fld (owner_facts e s) ''nonce'' = PStr (oe_nonce e)"
  "fld (owner_facts e s) ''manifest_sha256'' = PStr (oe_digest e)" "fld (owner_facts e s) ''evidence_kind'' = PStr ''synthetic''"
  "fld (owner_facts e s) ''i5_ready'' = PBool False" "fld (owner_facts e s) ''total_seconds'' = oe_total e"
  "fld (owner_facts e s) ''start'' = lf_start (ow_facts s)" "fld (owner_facts e s) ''readiness'' = lf_readiness (ow_facts s)"
  "fld (owner_facts e s) ''shutdown'' = lf_shutdown (ow_facts s)"
  "fld (owner_facts e s) ''first_failure'' = (case lf_failure (ow_facts s) of None \<Rightarrow> PNone | Some m \<Rightarrow> PStr m)"
  "fld (owner_facts e s) ''cleanup_errors'' = PList (map PStr (lf_cleanup (ow_facts s)))"
  "fld (owner_facts e s) ''passed'' = PBool (lf_passed (ow_facts s))"
  by (simp_all add: facts_simps)

lemma facts_fields: "check_fields (owner_facts e s) lifecycle_fields = Inr ()"
  by (simp add: check_fields_def has_fields_def lifecycle_fields_def owner_facts_def facts_value_def)

lemma facts_bools: "list_all (\<lambda>k. is_bool (fld (owner_facts e s) k)) lifecycle_flags"
  by (simp add: lifecycle_flags_def facts_simps)

lemma facts_actions:
  assumes "stopped e s"
  shows "check_actions (owner_facts e s) (oe_nonce e) (oe_digest e) = Inr ()"
  using assms
  by (auto simp: check_actions_def eachE_Inr facts_values stopped_def ordered_def Let_def action_valid_def bindE_def dest!: any_mode)

lemma facts_diagnostics:
  assumes "good (ow_facts s)"
  shows "(given (owner_facts e s) ''first_failure'' \<longrightarrow> error_text_ok 2048 (fld (owner_facts e s) ''first_failure''))"
    and "error_texts_ok (fld (owner_facts e s) ''cleanup_errors'')"
    and "length (encode fr (fld (owner_facts e s) ''first_failure'')) \<le> FIRST_ERROR_BYTES"
    and "length (encode fr (fld (owner_facts e s) ''cleanup_errors'')) \<le> CLEANUP_BYTES"
    and "flag (owner_facts e s) ''failure_truncated'' \<longrightarrow> given (owner_facts e s) ''first_failure'' \<and>
           endswith (str_of (fld (owner_facts e s) ''first_failure'')) '' [truncated]''"
proof -
  note b = assms [unfolded good_def bounded_facts_def]
  show "given (owner_facts e s) ''first_failure'' \<longrightarrow> error_text_ok 2048 (fld (owner_facts e s) ''first_failure'')"
  proof (cases "lf_failure (ow_facts s)")
    case None
    then show ?thesis by (simp add: facts_given)
  next
    case (Some m)
    with b have "m \<noteq> []" "length (encode_text m) \<le> 1536" by (auto simp: FIRST_ERROR_BYTES_def)
    moreover have "length m \<le> length (encode_text m)" by (rule encode_text_ge)
    ultimately show ?thesis by (simp add: Some facts_values error_text_ok_def)
  qed
  show "error_texts_ok (fld (owner_facts e s) ''cleanup_errors'')"
    using b by (auto simp: error_texts_ok_def facts_values list_all_iff error_text_ok_def)
  show "length (encode fr (fld (owner_facts e s) ''first_failure'')) \<le> FIRST_ERROR_BYTES"
  proof (cases "lf_failure (ow_facts s)")
    case None
    then show ?thesis by (simp add: facts_values encode_def FIRST_ERROR_BYTES_def)
  next
    case (Some m)
    with b show ?thesis by (auto simp: facts_values encode_text_fr)
  qed
  show "length (encode fr (fld (owner_facts e s) ''cleanup_errors'')) \<le> CLEANUP_BYTES"
    using b by (simp add: facts_values encode_texts_fr)
  show "flag (owner_facts e s) ''failure_truncated'' \<longrightarrow> given (owner_facts e s) ''first_failure'' \<and>
      endswith (str_of (fld (owner_facts e s) ''first_failure'')) '' [truncated]''"
    using b by (auto simp: facts_flags facts_given facts_values truncation_def split: option.splits)
qed

lemma final_verdict:
  assumes "final e s" and "lf_start_attempted (ow_facts s) \<longrightarrow> lf_attempt_ready (ow_facts s)"
    and "ow_host_passed s \<longrightarrow> lf_registered (ow_facts s)"
  shows "lifecycle_ordered (owner_facts e s) (ow_host_passed s)"
    and "\<not> given (owner_facts e s) ''shutdown'' \<or> fld (fld (owner_facts e s) ''shutdown'') ''mode'' \<noteq> PStr ''normal'' \<or> ow_host_passed s"
    and "lf_passed (ow_facts s) = lifecycle_expected (owner_facts e s) (ow_host_passed s)"
    and "lifecycle_expected (owner_facts e s) (ow_host_passed s) \<or> truthy (fld (owner_facts e s) ''first_failure'') \<or>
           truthy (fld (owner_facts e s) ''cleanup_errors'')"
proof -
  let ?f = "ow_facts s"
  from assms(1) have st: "stopped e s" and pass: "lf_passed ?f = (ow_host_passed s \<and> lf_failure ?f = None \<and> lf_cleanup ?f = [] \<and> lf_reaped ?f)"
    and fail: "ow_host_passed s \<or> lf_failure ?f \<noteq> None" by (simp_all add: final_def Let_def)
  then have ord: "ordered e s" and gd: "good ?f" by (auto simp: stopped_def ordered_def Let_def)
  have tidy: "lf_reaped ?f = (lf_cleanup ?f = [] \<and> \<not> lf_cleanup_truncated ?f)" using gd by (simp add: good_def)
  have run: "lf_readiness ?f \<noteq> PNone \<Longrightarrow> lf_start ?f \<noteq> PNone \<and> lf_start_attempted ?f"
    using ord by (auto simp: ordered_def Let_def)
  have hp: "ow_host_passed s \<Longrightarrow> lf_registered ?f \<and> lf_readiness ?f \<noteq> PNone"
    using ord assms(3) by (auto simp: ordered_def Let_def)
  have stop: "lf_shutdown_attempted ?f = lf_start_attempted ?f" "lf_shutdown ?f \<noteq> PNone \<longrightarrow> lf_shutdown_attempted ?f"
    using st by (auto simp: stopped_def Let_def)
  show "lifecycle_ordered (owner_facts e s) (ow_host_passed s)"
    using ord assms(2) tidy run hp stop by (auto simp: lifecycle_ordered_def facts_flags facts_given ordered_def Let_def)
  show "\<not> given (owner_facts e s) ''shutdown'' \<or> fld (fld (owner_facts e s) ''shutdown'') ''mode'' \<noteq> PStr ''normal'' \<or> ow_host_passed s"
    using st by (auto simp: stopped_def Let_def facts_values)
  have normal: "ow_host_passed s \<Longrightarrow> lf_failure ?f = None \<Longrightarrow> normal_stop (lf_shutdown ?f)"
    using st hp run by (auto simp: stopped_def Let_def)
  show verdict: "lf_passed ?f = lifecycle_expected (owner_facts e s) (ow_host_passed s)"
    using pass assms(2) hp run stop normal tidy
    by (auto simp: lifecycle_expected_def lifecycle_stopped_def facts_flags facts_given facts_values normal_stop_def)
  have "lf_failure ?f \<noteq> None \<Longrightarrow> truthy (fld (owner_facts e s) ''first_failure'')"
    using gd by (auto simp: good_def bounded_facts_def facts_values split: option.splits)
  with fail pass gd good_no_errors [OF gd] show "lifecycle_expected (owner_facts e s) (ow_host_passed s) \<or>
      truthy (fld (owner_facts e s) ''first_failure'') \<or> truthy (fld (owner_facts e s) ''cleanup_errors'')"
    unfolding verdict [symmetric] by blast
qed

text \<open>
  C7: Which frozen facts the evidence validator accepts.  However an attempt of the owner goes
  (an adapter that fails, hangs or lies, a cancelled controller, a signal, a watchdog that dies, a
  child that cannot be reaped), of all the checks of the validator on the record the owner has
  frozen only three can fail, and it is accepted exactly when they do not: a start was attempted
  only with the attempt directory ready, a host that passed had registered its transport, and the
  record fits its byte limit.  Everything else the validator asks for holds by construction:
  the fields and bindings, attempts in order, a shutdown exactly when a start was attempted, a
  normal one only after the host's success, diagnostics within their byte limits, and \<open>passed\<close>
  exactly what the validator computes.  The only assumption is the range of the budget's total.
\<close>

theorem lifecycle_facts_accepted:
  assumes "attempt_and_stop fuel e (owner_start e w) = (Inr (), s)"
    and "finite_num (oe_total e) = Some q" and "0 < q" and "q \<le> 900"
  shows "validate_lifecycle fr (owner_facts e s) (oe_nonce e) (oe_digest e) (ow_host_passed s) = Inr (owner_facts e s) \<longleftrightarrow>
    (lf_start_attempted (ow_facts s) \<longrightarrow> lf_attempt_ready (ow_facts s)) \<and>
    (ow_host_passed s \<longrightarrow> lf_registered (ow_facts s)) \<and>
    length (encode fr (owner_facts e s)) \<le> LIFECYCLE_LIMIT"
    (is "?accepted \<longleftrightarrow> ?ready \<and> ?registered \<and> ?fits")
proof
  assume ?accepted
  then have "lifecycle_ordered (owner_facts e s) (ow_host_passed s)" and ?fits
    unfolding validate_lifecycle_def by (auto simp: bindE_Inr require_Inr)
  then show "?ready \<and> ?registered \<and> ?fits" by (auto simp: lifecycle_ordered_def facts_flags)
next
  assume ok: "?ready \<and> ?registered \<and> ?fits"
  have fin: "final e s" using assms(1) by (rule run_final)
  then have st: "stopped e s" and gd: "good (ow_facts s)" and frozen: "lf_frozen (ow_facts s)"
    by (auto simp: final_def stopped_def ordered_def Let_def)
  show ?accepted
    unfolding validate_lifecycle_def
    using facts_diagnostics [OF gd, where e = e] final_verdict [OF fin] ok assms(2-4) frozen
    by (auto simp: facts_fields facts_bools facts_actions [OF st] facts_values(1-8,14) facts_flags(6))
qed

subsection \<open>A run\<close>

text \<open>
  A host on which the evidence worker is ready (the world is whether it has said so) and every
  adapter closes its pipe without a reply: the attempt fails and the facts are frozen.
\<close>

definition ready_line :: string where
  "ready_line = dumps (\<lambda>_. []) (PDict [(''ready'', evidence_ready ''n'' ''d''), (''error'', PNone)])"

definition silent_adapters :: "bool proc" where
  "silent_adapters =
     \<lparr> io_now = ret 0, io_sleep = (\<lambda>_. ret ()), io_nonblocking = (\<lambda>_. ret ()), io_readable = (\<lambda>fds _. ret (filter (\<lambda>fd. fd \<noteq> 9) fds)),
       io_writable = (\<lambda>_ _. ret True),
       io_read = (\<lambda>_ _ said. (Inr (if said then [] else ready_line @ [CHR 0x0A]), True)),
       io_write = (\<lambda>_ raw. ret (length raw)), io_close = (\<lambda>_. ret ()), io_closerange = (\<lambda>_ _. ret ()), io_open_max = ret 256,
       io_pipe = ret (3, 4), io_fork = ret 100, io_detach = ret (), io_waitpid = (\<lambda>_. ret (Some 0)), io_kill = (\<lambda>_ _. ret ()),
       io_killpg = (\<lambda>_ _. lft (Inl (SubOSError ProcessLookupError []))), io_float = (\<lambda>_. ''0.0''),
       io_dup = (\<lambda>fd. ret fd), io_default_signals = ret (), io_getpid = ret 50, io_getppid = ret 1, io_waitpid_any = ret None \<rparr>"

definition silent_owning :: "bool owning" where
  "silent_owning =
     \<lparr> oe_proc = silent_adapters, oe_dig = (\<lambda>x. x), oe_signal = ret None, oe_getpgid = ret, oe_socketpair = ret (5, 6), oe_cancel = 9,
       oe_report = 8, oe_request = PNone, oe_adapter = (\<lambda>_ _. ret PNone), oe_rpc = (\<lambda>_ _ _. ret []),
       oe_with_stager = (\<lambda>_. Inl (ValueError [])),
       oe_budget = \<lparr> bu_caps = PHASE_CAPS, bu_total = 900, bu_silence = 15, bu_worst = 900 \<rparr>, oe_total = PInt 900,
       oe_absolute = 900, oe_init_deadline = 6, oe_init = None, oe_nonce = ''n'', oe_digest = ''d'' \<rparr>"

lemma silent_simps:
  "io_now silent_adapters = ret 0" "io_nonblocking silent_adapters fd = ret ()" "io_close silent_adapters fd = ret ()"
  "io_readable silent_adapters fds d = ret (filter (\<lambda>fd. fd \<noteq> 9) fds)" "io_pipe silent_adapters = ret (3, 4)"
  "io_fork silent_adapters = ret 100" "io_waitpid silent_adapters pid = ret (Some 0)"
  "io_killpg silent_adapters pid sig = lft (Inl (SubOSError ProcessLookupError []))"
  "io_read silent_adapters fd n said = (Inr (if said then [] else ready_line @ [CHR 0x0A]), True)"
  "oe_proc silent_owning = silent_adapters" "oe_signal silent_owning = ret None" "oe_cancel silent_owning = 9"
  "oe_absolute silent_owning = 900" "oe_init silent_owning = None" "oe_nonce silent_owning = ''n''" "oe_digest silent_owning = ''d''"
  "oe_init_deadline silent_owning = 6"
  by (simp_all add: silent_adapters_def silent_owning_def)

lemma ready_decoded: "decode ready_line RECEIPT_LIMIT = Inr (PDict [(''ready'', evidence_ready ''n'' ''d''), (''error'', PNone)])"
  by code_simp

lemma ready_split: "split1 (CHR 0x0A) (ready_line @ [CHR 0x0A]) = Some (ready_line, [])"
  by code_simp

lemma ready_length: "length ready_line < RECEIPT_LIMIT"
  by code_simp

lemma zoom_run: "m (look s) = (r, w) \<Longrightarrow> zoom look change m s = (r, change (\<lambda>_. w) s)"
  by (simp add: zoom_def)

lemma silent_now: "now_of silent_owning s = (Inr 0, s)"
  by (simp add: now_of_def silent_simps zoom_def ret_def)

lemma silent_checkpoint:
  "abort \<longrightarrow> lf_failure (ow_facts s) = None \<Longrightarrow> owner_checkpoint silent_owning abort s = (Inr (), s)"
  by (simp add: owner_checkpoint_def check_cancel_def silent_simps zoom_def bnd_def sqn_def get_def ret_def whenA_def
      silent_now ensure_def)

lemma silent_ow: "m (ow_world s) = (r, w) \<Longrightarrow> ow m s = (r, s\<lparr>ow_world := w\<rparr>)"
  by (simp add: zoom_def)

lemma silent_evidence:
  assumes "\<not> ow_world s" and "ow_stage_worker s = None" and "lf_failure (ow_facts s) = None"
  shows "evidence_start (Suc 0) silent_owning s =
    (Inr (), s\<lparr>ow_world := True, ow_evidence := Some 100, ow_command := Some 4, ow_result := Some 3,
       ow_facts := ow_facts s\<lparr>lf_attempt_ready := True\<rparr>\<rparr>)"
proof -
  define s1 where "s1 = s\<lparr>ow_evidence := Some 100, ow_command := Some 4, ow_result := Some 3\<rparr>"
  have fork: "evidence_fork (Suc 0) silent_owning s = (Inr 3, s1)"
    by (simp add: evidence_fork_def close_fd_def silent_simps zoom_def bnd_def sqn_def get_def ret_def upd_def whenA_def on_error_def
        assms(2) s1_def)
  have w: "\<not> ow_world s1" by (simp add: s1_def assms)
  have look: "owner_checkpoint silent_owning True s1 = (Inr (), s1)"
    by (rule silent_checkpoint) (simp add: s1_def assms)
  have "message (Suc 0) silent_owning 3 6 True s1 =
      (Inr (PDict [(''ready'', evidence_ready ''n'' ''d''), (''error'', PNone)]), s1\<lparr>ow_world := True\<rparr>)"
    using ready_length w
    by (simp add: message_def sqn_def bnd_def look silent_now silent_simps zoom_def ret_def ensure_def lft_def ready_split ready_decoded)
  then show ?thesis
    by (simp add: evidence_start_def fork silent_simps bnd_def sqn_def evidence_plain_def check_fields_def has_fields_def ensure_def
        fld_def evidence_ready_def set_facts_def upd_def lft_def s1_def)
qed

lemma silent_finish: "finish (Suc 0) silent_owning pid None label True s = (Inr (Some 0), s)"
  by (simp add: finish_def finish_child_def end_group_def poll_child_def poll_until.simps silent_now silent_simps bnd_def sqn_def ret_def
      whenA_def handle_if_def zoom_def lft_def)

definition closed_early :: "string \<Rightarrow> string" where
  "closed_early action = action @ '': ValueError: lifecycle response EOF''"

lemma silent_action:
  assumes "ow_world s" and "action \<noteq> ''shutdown'' \<longrightarrow> lf_failure (ow_facts s) = None" and "0 < d"
  shows "do_action (Suc 0) silent_owning action mode (Some d) s =
    (Inl (ValueError ''lifecycle response EOF''), s\<lparr>ow_facts := note_failure (closed_early action) (ow_facts s)\<rparr>)"
proof -
  have look: "owner_checkpoint silent_owning (action \<noteq> ''shutdown'') s = (Inr (), s)"
    by (rule silent_checkpoint) (use assms in auto)
  have "message (Suc 0) silent_owning 3 d (action \<noteq> ''shutdown'') s = (Inl (ValueError ''lifecycle response EOF''), s)"
    using assms(1,3)
    by (simp add: message_def sqn_def bnd_def look silent_now silent_simps zoom_def ret_def ensure_def)
  then show ?thesis using assms(1,3)
    by (simp add: do_action_def acting_def action_body_def action_cleanup_def silent_now silent_simps bnd_def sqn_def ret_def
        zoom_def ensure_def upd_def get_def handle_if_def try_finally_def ordinary_def any_exn_def fail_def set_facts_def lft_def
        silent_finish closed_early_def)
qed

lemma silent_caps: "stage_deadline (oe_budget silent_owning) ''start'' 0 900 = 60" "stage_deadline (oe_budget silent_owning) ''shutdown'' 0 900 = 120"
  by (simp_all add: silent_owning_def stage_deadline_def tail_def tail_active_def tail_shutdown_def Let_def cap_def PHASE_CAPS_def)

definition silent_facts :: facts where
  "silent_facts = note_failure (closed_early ''start'') (initial_facts\<lparr>lf_attempt_ready := True, lf_start_attempted := True\<rparr>)"

definition silent_final :: facts where
  "silent_final = freeze_facts False (note_cleanup_error ''shutdown: lifecycle response EOF''
     (note_failure ''shutdown: lifecycle response EOF''
       (note_failure (closed_early ''shutdown'') (silent_facts\<lparr>lf_shutdown_attempted := True\<rparr>))))"

lemma silent_run:
  "\<exists>s. attempt_and_stop (Suc 0) silent_owning (owner_start silent_owning False) = (Inr (), s) \<and> ow_facts s = silent_final \<and>
     \<not> ow_host_passed s"
proof -
  define s0 where "s0 = owner_start silent_owning False"
  have s0: "\<not> ow_world s0" "ow_stage_worker s0 = None" "ow_facts s0 = initial_facts" "\<not> ow_host_passed s0" "\<not> ow_frozen s0"
    by (simp_all add: s0_def owner_start_def)
  define s1 where "s1 = s0\<lparr>ow_world := True, ow_evidence := Some 100, ow_command := Some 4, ow_result := Some 3,
     ow_facts := initial_facts\<lparr>lf_attempt_ready := True, lf_start_attempted := True\<rparr>\<rparr>"
  have no: "lf_failure initial_facts = None" by (simp add: initial_facts_def)
  have opened: "evidence_start (Suc 0) silent_owning s0 = (Inr (), s1\<lparr>ow_facts := initial_facts\<lparr>lf_attempt_ready := True\<rparr>\<rparr>)"
    using silent_evidence [of s0] s0 no by (simp add: s1_def)
  have start: "do_action (Suc 0) silent_owning ''start'' ''work'' None s1 =
      (Inl (ValueError ''lifecycle response EOF''), s1\<lparr>ow_facts := silent_facts\<rparr>)"
    using silent_action [of s1 "''start''" 60 "''work''"] no
    by (simp add: do_action_def stage_until_def silent_now silent_simps silent_caps bnd_def sqn_def ensure_def ret_def s1_def silent_facts_def)
  have look: "owner_checkpoint silent_owning True s = (Inr (), s)" if "lf_failure (ow_facts s) = None" for s
    using that by (simp add: silent_checkpoint)
  have att: "lifecycle_attempt (Suc 0) silent_owning s0 = (Inl (ValueError ''lifecycle response EOF''), s1\<lparr>ow_facts := silent_facts\<rparr>)"
    using start no s0 by (simp add: lifecycle_attempt_def sqn_def bnd_def look opened set_facts_def upd_def) (simp add: s1_def)
  define s2 where "s2 = s1\<lparr>ow_facts := silent_facts\<rparr>"
  have f2: "lf_failure silent_facts \<noteq> None" by (simp only: silent_facts_def note_failure_some not_False_eq_True)
  have noted: "note_failure r silent_facts = silent_facts" for r using f2 by (auto simp: note_failure_def)
  have att': "handle_if any_exn (lifecycle_attempt (Suc 0) silent_owning) (\<lambda>x. whenA (ordinary x) (fail (exn_name x @ '': '' @ exn_str x))) s0 =
      (Inr (), s2)"
    by (simp add: handle_if_def att any_exn_def ordinary_def whenA_def fail_def set_facts_def upd_def noted s2_def)
  define s3 where "s3 = s2\<lparr>ow_facts := silent_facts\<lparr>lf_shutdown_attempted := True\<rparr>\<rparr>"
  define s4 where "s4 = s2\<lparr>ow_facts := note_cleanup_error ''shutdown: lifecycle response EOF''
     (note_failure ''shutdown: lifecycle response EOF'' (note_failure (closed_early ''shutdown'') (silent_facts\<lparr>lf_shutdown_attempted := True\<rparr>)))\<rparr>"
  have w: "ow_world s3" "\<not> ow_host_passed s3" "\<not> ow_frozen s3" "lf_start_attempted (ow_facts s2)" "lf_reaped (ow_facts s2)"
    using s0 no by (auto simp: s3_def s2_def s1_def silent_facts_def note_failure_def initial_facts_def split: prod.split)
  have "do_action (Suc 0) silent_owning ''shutdown'' ''recovery'' (Some 120) s3 =
      (Inl (ValueError ''lifecycle response EOF''), s3\<lparr>ow_facts := note_failure (closed_early ''shutdown'') (ow_facts s3)\<rparr>)"
    using w by (simp add: silent_action)
  moreover have "ow_facts s2 = silent_facts" by (simp add: s2_def)
  ultimately have stopping: "stop (Suc 0) silent_owning 120 s2 = (Inr (), s4)"
    using w by (simp add: stop_def sqn_def bnd_def set_facts_def upd_def get_def stop_mode_def handle_if_def ordinary_def any_exn_def
        fail_def owner_cleanup_def s3_def s4_def)
  have look': "owner_checkpoint silent_owning False s = (Inr (), s)" for s by (simp add: silent_checkpoint)
  have "stop_all (Suc 0) silent_owning s2 = (Inr (), s4\<lparr>ow_facts := freeze_facts False (ow_facts s4), ow_frozen := True\<rparr>)"
    using w stopping
    by (simp add: stop_all_def Let_def sqn_def bnd_def silent_now silent_simps silent_caps whenA_def get_def ret_def freeze_def
        handle_if_def look' upd_def) (simp add: s4_def s3_def s2_def)
  moreover have "attempt_and_stop (Suc 0) silent_owning s0 = stop_all (Suc 0) silent_owning s2"
    unfolding attempt_and_stop_def using att' by (rule sqn_run(1))
  ultimately show ?thesis
    by (intro exI [of _ "s4\<lparr>ow_facts := freeze_facts False (ow_facts s4), ow_frozen := True\<rparr>"])
      (use w in \<open>simp add: s0_def [symmetric] s4_def s3_def silent_final_def\<close>)
qed

theorem lifecycle_facts_accepted_witness:
  "\<exists>s. attempt_and_stop (Suc 0) silent_owning (owner_start silent_owning False) = (Inr (), s) \<and>
     lf_start_attempted (ow_facts s) \<and> lf_attempt_ready (ow_facts s) \<and>
     lf_failure (ow_facts s) = Some ''start: ValueError: lifecycle response EOF'' \<and>
     validate_lifecycle (\<lambda>_. []) (owner_facts silent_owning s) ''n'' ''d'' False = Inr (owner_facts silent_owning s)"
proof -
  obtain s where s: "attempt_and_stop (Suc 0) silent_owning (owner_start silent_owning False) = (Inr (), s)"
      "ow_facts s = silent_final" "\<not> ow_host_passed s"
    using silent_run by blast
  have f: "lf_start_attempted silent_final" "lf_attempt_ready silent_final"
      "lf_failure silent_final = Some ''start: ValueError: lifecycle response EOF''"
      "length (encode (\<lambda>_. []) (facts_value ''n'' ''d'' (PInt 900) silent_final)) \<le> LIFECYCLE_LIMIT"
    by code_simp+
  have t: "oe_total silent_owning = PInt 900" "finite_num (PInt 900) = Some 900" by (simp_all add: silent_owning_def)
  have n: "length (encode (\<lambda>_. []) (owner_facts silent_owning s)) \<le> LIFECYCLE_LIMIT"
    using f(4) by (simp add: owner_facts_def s(2) t silent_simps)
  have "validate_lifecycle (\<lambda>_. []) (owner_facts silent_owning s) (oe_nonce silent_owning) (oe_digest silent_owning) (ow_host_passed s) =
      Inr (owner_facts silent_owning s)"
    using lifecycle_facts_accepted [OF s(1), of 900 "\<lambda>_. []"] s f n t by simp
  with s f show ?thesis by (intro exI [of _ s]) (simp add: silent_simps)
qed

end
