(* ===== verification/Native.thy ===== *)
theory Native
  imports Isolation NativeExport
begin

text \<open>
  The native guest initializer (\<open>sw_i5_preparation_native.py\<close>): its injected system calls as a
  record over an arbitrary world, the owner's state (\<open>entries\<close>, pinned descriptors, observed
  identities), and the checks it makes before it creates anything: pinned ancestors, mount
  prerequisites, the immutable input tree.  The creation and the cleanup are in \<open>NativeRun\<close>.
  The state carries one component the code has not: the list of the registrations and of the
  calls that create or remove an object, in order.
\<close>

subsection \<open>System calls\<close>

text \<open>
  \<open>open\<close> and its kin with the flags and the mode the code passes; a descriptor or none as
  \<open>dir_fd\<close>.  The one-line methods of \<open>LinuxNativeSyscalls\<close> are calls of the operating system.
\<close>

record 'w native_sys =
  ns_platform :: "('w, string) act"
  ns_euid :: "('w, int) act"
  ns_clock :: "('w, rat) act"
  ns_open :: "int option \<Rightarrow> string \<Rightarrow> string list \<Rightarrow> nat \<Rightarrow> ('w, int) act"
  ns_close :: "int \<Rightarrow> ('w, unit) act"
  ns_fstat :: "int \<Rightarrow> ('w, stat_info) act"
  ns_stat :: "int \<Rightarrow> string \<Rightarrow> ('w, stat_info) act"
  ns_listdir :: "int \<Rightarrow> ('w, string list) act"
  ns_read :: "int \<Rightarrow> nat \<Rightarrow> ('w, string) act"
  ns_write :: "int \<Rightarrow> string \<Rightarrow> ('w, nat) act"
  ns_mkdir :: "int \<Rightarrow> string \<Rightarrow> nat \<Rightarrow> ('w, unit) act"
  ns_unlink :: "int \<Rightarrow> string \<Rightarrow> ('w, unit) act"
  ns_rmdir :: "int \<Rightarrow> string \<Rightarrow> ('w, unit) act"
  ns_statvfs :: "int \<Rightarrow> ('w, space) act"
  ns_fstype :: "int \<Rightarrow> ('w, int) act"
  ns_mounts :: "('w, string) act"
  ns_uid_idle :: "int \<Rightarrow> ('w, unit) act"

definition native_kernel_read :: "'w kernel \<Rightarrow> path \<Rightarrow> nat \<Rightarrow> ('w, string) act" where
  "native_kernel_read k path maximum =
     bnd (k_read_path k path (maximum + 1)) (\<lambda>raw.
     sqn (ensure (length raw \<le> maximum) ''native kernel observation limit'') (lft (ascii raw)))"

definition native_mounts :: "'w kernel \<Rightarrow> ('w, string) act" where
  "native_mounts k = native_kernel_read k (path_of ''/proc/self/mountinfo'') (256 * 1024)"

definition native_idle_entry :: "'w kernel \<Rightarrow> int \<Rightarrow> string \<Rightarrow> ('w, unit) act" where
  "native_idle_entry k uid entry =
     bnd (handle_if (is_os_class FileNotFoundError)
            (bnd (native_kernel_read k (path_join (path_join (path_of ''/proc'') entry) ''status'') 8192) (\<lambda>t. ret (Some t)))
            (\<lambda>_. ret None)) (\<lambda>status.
     case status of None \<Rightarrow> ret () | Some t \<Rightarrow>
     let rows = map (\<lambda>line. tl (words line)) (filter (\<lambda>line. startswith line ''Uid:'') (splitlines t)) in
     sqn (ensure (length rows = 1 \<and> length (hd rows) = 4 \<and> list_all isdigit (hd rows)) ''native process UID observation invalid'') (
     bnd (lft (mapE int_text (hd rows))) (\<lambda>uids.
     ensure (uid \<notin> set uids) ''native target UID already in use'')))"

definition native_uid_idle :: "'w kernel \<Rightarrow> int \<Rightarrow> ('w, unit) act" where
  "native_uid_idle k uid =
     bnd (k_iterdir k (path_of ''/proc'')) (\<lambda>names.
     let entries = filter isdigit names in
     sqn (ensure (length entries \<le> 8192) ''native process inventory limit'') (
     eachA (native_idle_entry k uid) entries))"

definition linux_native_syscalls :: "'w kernel \<Rightarrow> 'w native_sys \<Rightarrow> 'w native_sys" where
  "linux_native_syscalls k os = os\<lparr>
     ns_platform := bnd (k_uname k) (\<lambda>(sysname, _). ret sysname), ns_euid := k_geteuid k,
     ns_close := k_close k, ns_fstat := k_fstat k, ns_stat := k_stat_at k, ns_listdir := k_listdir k,
     ns_read := k_read k, ns_write := k_write k, ns_fstype := k_fstatfs k, ns_mounts := native_mounts k,
     ns_uid_idle := native_uid_idle k\<rparr>"

subsection \<open>The initializer\<close>

record fixed_id =
  fi_dev :: int
  fi_ino :: int
  fi_mount :: int

record 'w native_init =
  ni_sys :: "'w native_sys"
  ni_sha :: "string \<Rightarrow> string"
  ni_contract :: contract
  ni_expected :: "(string \<times> fixed_id) list"
  ni_backend :: string
  ni_files :: "(string \<times> pyval) list"
  ni_bytes :: int
  ni_files_digest :: string

definition native_expected_id :: "pyval \<Rightarrow> fixed_id" where
  "native_expected_id row = \<lparr> fi_dev = int_of (fld row ''dev''), fi_ino = int_of (fld row ''ino''),
     fi_mount = int_of (fld row ''mount_id'') \<rparr>"

definition check_expected_row :: "string \<times> pyval \<Rightarrow> unit res" where
  "check_expected_row = (\<lambda>(_, row).
     bindE (check_fields row [''dev'', ''ino'', ''mount_id'']) (\<lambda>_.
     require (list_all (\<lambda>(_, n). positive_int n) (dict_of row)) ''native expected identity requires positive integers'' (Inr ())))"

text \<open>
  \<open>__init__\<close>, up to the empty dictionaries that \<open>native_owner\<close> below starts from.  The
  argument \<open>backend\<close> is the kind of the syscall object that was handed in.
\<close>

definition native_init_of ::
    "(string \<Rightarrow> string) \<Rightarrow> 'w native_sys \<Rightarrow> string \<Rightarrow> string \<Rightarrow> string \<Rightarrow> pyval \<Rightarrow> ('w, 'w native_init) act" where
  "native_init_of sha sys backend contract_raw manifest_raw expected =
     bnd (lft (decode contract_raw 8192)) (\<lambda>declaration.
     bnd (lft (event_get declaration ''nonce'')) (\<lambda>nonce.
     bnd (lft (event_get declaration ''manifest_sha256'')) (\<lambda>digest_v.
     bnd (lft (contract_parse contract_raw nonce digest_v)) (\<lambda>c.
     sqn (ensure (PStr (sha manifest_raw) = digest_v) ''native manifest bytes binding'') (
     bnd (lft (validate_manifest manifest_raw (ic_nonce c))) (\<lambda>manifest.
     sqn (lft (check_fields expected [''root_parent'', ''cgroup_root'', ''readonly_input''])) (
     sqn (lft (eachE check_expected_row (dict_of expected))) (
     bnd (andA (bnd (ns_platform sys) (\<lambda>p. ret (p = ''Linux''))) (bnd (ns_euid sys) (\<lambda>u. ret (u = 0)))) (\<lambda>root.
     sqn (ensure root ''native Linux root initializer required'') (
     let files = expected_inputs manifest in
     ret \<lparr> ni_sys = sys, ni_sha = sha, ni_contract = c,
           ni_expected = map (\<lambda>(k, row). (k, native_expected_id row)) (dict_of expected), ni_backend = backend,
           ni_files = files, ni_bytes = (\<Sum>(_, row) \<leftarrow> files. int_of (fld row ''bytes'')),
           ni_files_digest = sha (dumps (\<lambda>_. []) (sort_keys (PDict files))) \<rparr>))))))))))"

definition native_path :: "contract \<Rightarrow> string \<Rightarrow> path" where
  "native_path c role = the (map_of
     [(''guest_root'', ic_root c), (''work'', work_path c), (''result'', result_path c),
      (''control'', path_join (ic_root c) ''control''), (''lease'', path_join (ic_root c) ''control/lease.slot''),
      (''ack'', path_join (ic_root c) ''control/ack.slot''), (''cgroup_parent'', cgroup_path c),
      (''cgroup_supervisor'', path_join (cgroup_path c) ''supervisor''),
      (''cgroup_worker'', path_join (cgroup_path c) ''worker''), (''readonly_input'', ic_input c)] role)"

definition path_parent :: "path \<Rightarrow> path" where
  "path_parent p = Path (path_root p) (butlast (comps p))"

subsection \<open>The owner's state\<close>

text \<open>The ghost log: a registration handed to \<open>register\<close>, a creating call, a removing call.\<close>

datatype native_op =
    Register string string "(int \<times> int) option"
  | Make string
  | Remove string "int \<times> int"

record observed =
  ob_before :: pyval
  ob_after :: pyval
  ob_readback :: pyval

record 'w native =
  nv_world :: 'w
  nv_entries :: "(string \<times> string \<times> (int \<times> int) option) list"
  nv_pinned :: "(string \<times> int) list"
  nv_parents :: "(string \<times> int) list"
  nv_pseudo :: "((string \<times> string) \<times> int \<times> int) list"
  nv_observations :: "(string \<times> observed) list"
  nv_started :: bool
  nv_closed :: bool
  nv_groups :: "(string \<times> cgroup_state) list"
  nv_prerequisites :: "(string \<times> pyval) list"
  nv_log :: "native_op list"

definition native_owner :: "'w \<Rightarrow> 'w native" where
  "native_owner w = \<lparr> nv_world = w, nv_entries = [], nv_pinned = [], nv_parents = [], nv_pseudo = [],
     nv_observations = [], nv_started = False, nv_closed = False, nv_groups = [], nv_prerequisites = [], nv_log = [] \<rparr>"

definition nw :: "('w, 'a) act \<Rightarrow> ('w native, 'a) act" where
  "nw m = zoom nv_world (\<lambda>f s. s\<lparr>nv_world := f (nv_world s)\<rparr>) m"

definition native_key :: "(string \<times> 'a) list \<Rightarrow> string \<Rightarrow> 'a res" where
  "native_key d key = (case map_of d key of None \<Rightarrow> Inl (KeyError key) | Some v \<Rightarrow> Inr v)"

definition is_slot :: "string \<Rightarrow> bool" where
  "is_slot role = (role = ''lease'' \<or> role = ''ack'')"

definition DIR_FLAGS :: "string list" where
  "DIR_FLAGS = [''RDONLY'', ''DIRECTORY'', ''NOFOLLOW'', ''CLOEXEC'']"

definition READ_FLAGS :: "string list" where
  "READ_FLAGS = [''RDONLY'', ''NOFOLLOW'', ''CLOEXEC'']"

definition native_tick :: "'w native_init \<Rightarrow> rat \<Rightarrow> ('w native, unit) act" where
  "native_tick t deadline =
     bnd (get nv_closed) (\<lambda>closed.
     bnd (andA (ret (\<not> closed \<and> 0 < deadline)) (bnd (nw (ns_clock (ni_sys t))) (\<lambda>now. ret (now < deadline)))) (\<lambda>ok.
     ensure ok ''native initialization deadline''))"

text \<open>The descent from the root: the parent descriptor is closed once the child is open.\<close>

fun native_descend :: "'w native_init \<Rightarrow> rat \<Rightarrow> int \<Rightarrow> string list \<Rightarrow> ('w native, int) act" where
  "native_descend t deadline fd [] = ret fd"
| "native_descend t deadline fd (name # names) =
     bnd (on_error
       (sqn (native_tick t deadline) (
        bnd (nw (ns_open (ni_sys t) (Some fd) name DIR_FLAGS 384)) (\<lambda>child.
        sqn (nw (ns_close (ni_sys t) fd)) (ret child))))
       (nw (ns_close (ni_sys t) fd))) (\<lambda>child.
     native_descend t deadline child names)"

definition native_directory :: "'w native_init \<Rightarrow> path \<Rightarrow> rat \<Rightarrow> ('w native, int) act" where
  "native_directory t path deadline =
     sqn (native_tick t deadline) (
     bnd (nw (ns_open (ni_sys t) None ''/'' DIR_FLAGS 384)) (\<lambda>fd. native_descend t deadline fd (comps path)))"

definition native_names :: "'w native_init \<Rightarrow> int \<Rightarrow> nat \<Rightarrow> ('w native, string list) act" where
  "native_names t fd maximum =
     bnd (nw (ns_listdir (ni_sys t) fd)) (\<lambda>entries.
     sqn (ensure (length entries \<le> maximum \<and> distinct entries \<and>
                  list_all (\<lambda>n. n \<noteq> [] \<and> n \<noteq> ''.'' \<and> n \<noteq> ''..'' \<and> CHR ''/'' \<notin> set n) entries)
            ''native directory entry limit/type'') (
     ret entries))"

definition s_imode :: "stat_info \<Rightarrow> nat" where
  "s_imode info = st_mode info mod 4096"

definition safe_info :: "stat_info \<Rightarrow> bool \<Rightarrow> nat \<Rightarrow> ('s, unit) act" where
  "safe_info info is_file mode =
     ensure ((if is_file then S_ISREG info else S_ISDIR info) \<and> st_uid info = 0 \<and> st_gid info = 0 \<and>
             s_imode info = mode \<and> (\<not> is_file \<or> st_nlink info = 1))
       ''native object type/ownership/mode/link mismatch''"

definition native_parent :: "string \<Rightarrow> ('w native, int) act" where
  "native_parent role =
     (if role = ''guest_root'' then bnd (get nv_parents) (\<lambda>ps. lft (native_key ps ''root_parent''))
      else if role = ''cgroup_parent'' then bnd (get nv_parents) (\<lambda>ps. lft (native_key ps ''cgroup_root''))
      else if role = ''cgroup_supervisor'' \<or> role = ''cgroup_worker'' then bnd (get nv_pinned) (\<lambda>ps. lft (native_key ps ''cgroup_parent''))
      else if is_slot role then bnd (get nv_pinned) (\<lambda>ps. lft (native_key ps ''control''))
      else bnd (get nv_pinned) (\<lambda>ps. lft (native_key ps ''guest_root'')))"

definition native_ident :: "'w native_init \<Rightarrow> int \<Rightarrow> ('w native, int \<times> int) act" where
  "native_ident t fd = bnd (nw (ns_fstat (ni_sys t) fd)) (\<lambda>info. ret (inode_key info))"

definition check_pin :: "'w native_init \<Rightarrow> string \<Rightarrow> int \<Rightarrow> ('w native, stat_info) act" where
  "check_pin t role fd =
     bnd (nw (ns_fstat (ni_sys t) fd)) (\<lambda>info.
     bnd (get nv_entries) (\<lambda>es.
     bnd (lft (native_key es role)) (\<lambda>(_, expected).
     bnd (andA (ret (Some (inode_key info) = expected))
            (bnd (get nv_pinned) (\<lambda>ps. bnd (lft (native_key ps role)) (\<lambda>pinned.
             bnd (native_ident t pinned) (\<lambda>i. ret (expected = Some i)))))) (\<lambda>same.
     sqn (ensure same (''native pinned identity changed: '' @ role)) (ret info)))))"

subsection \<open>Mount prerequisites\<close>

definition prerequisite_path :: "contract \<Rightarrow> string \<Rightarrow> path" where
  "prerequisite_path c role =
     (if role = ''root_parent'' then path_parent (ic_root c)
      else if role = ''cgroup_root'' then path_parent (cgroup_path c) else ic_input c)"

definition sorted_texts :: "string set \<Rightarrow> pyval" where
  "sorted_texts s = PList (map PStr (sorted_list_of_set s))"

definition prerequisite_value :: "contract \<Rightarrow> string \<Rightarrow> stat_info \<Rightarrow> mount \<Rightarrow> int \<Rightarrow> space option \<Rightarrow> pyval" where
  "prerequisite_value c role info m magic sp = PDict
     [(''dev'', PInt (makedev (st_dev info))), (''ino'', PInt (st_ino info)), (''mount_id'', PInt (m_ident m)),
      (''path'', PStr (path_str (prerequisite_path c role))), (''device'', PStr (m_device m)),
      (''filesystem'', PStr (m_kind m)), (''filesystem_magic'', PInt magic),
      (''mount_options'', sorted_texts (m_options m)), (''super_options'', sorted_texts (m_super_options m)),
      (''capacity_bytes'', case sp of None \<Rightarrow> PNone | Some s \<Rightarrow> PInt (f_blocks s * f_frsize s)),
      (''inodes'', case sp of None \<Rightarrow> PNone | Some s \<Rightarrow> PInt (f_files s))]"

text \<open>\<open>space\<close> is looked at for the two bounded domains only.\<close>

definition check_domain_kind ::
    "'w native_init \<Rightarrow> string \<Rightarrow> int \<Rightarrow> mount list \<Rightarrow> mount \<Rightarrow> path \<Rightarrow> ('w native, space option) act" where
  "check_domain_kind t role fd mounts m path =
     (let fstype = nw (ns_fstype (ni_sys t) fd) in
      if role = ''cgroup_root'' then
        bnd (andA (ret (m_kind m = ''cgroup2'' \<and> ''rw'' \<in> m_options m \<and> ''rw'' \<in> m_super_options m))
               (bnd fstype (\<lambda>n. ret (n = NATIVE_CGROUP2)))) (\<lambda>ok.
        sqn (ensure ok ''native cgroup2 filesystem required'') (ret None))
      else
        sqn (ensure (m_path m = path \<and> m_root m = ''/'' \<and> count_list (map m_device mounts) (m_device m) = 1)
               ''native independent prerequisite domain required'') (
        bnd (nw (ns_statvfs (ni_sys t) fd)) (\<lambda>s.
        if role = ''root_parent'' then
          bnd (andA (ret (m_kind m = ''tmpfs'')) (andA (bnd fstype (\<lambda>n. ret (n = NATIVE_TMPFS)))
                 (ret ({''rw'', ''nosuid'', ''nodev'', ''noexec''} \<subseteq> m_options m \<and> {''rw'', ''noswap''} \<subseteq> m_super_options m \<and>
                       ''ro'' \<notin> m_options m \<and> ''ro'' \<notin> m_super_options m \<and>
                       0 < f_blocks s * f_frsize s \<and> f_blocks s * f_frsize s \<le> int NATIVE_ROOT_BYTES \<and>
                       0 < f_files s \<and> f_files s \<le> int NATIVE_ROOT_INODES)))) (\<lambda>ok.
          sqn (ensure ok ''native root parent bounded noswap tmpfs required'') (ret (Some s)))
        else
          bnd (andA (ret (m_kind m \<in> fst ` set NATIVE_INPUT_FS))
                 (andA (bnd fstype (\<lambda>n. ret (map_of NATIVE_INPUT_FS (m_kind m) = Some n)))
                   (ret (''ro'' \<in> m_options m \<and> ''ro'' \<in> m_super_options m \<and> ''rw'' \<notin> m_options m \<and>
                         ''rw'' \<notin> m_super_options m \<and> 0 < f_blocks s * f_frsize s \<and>
                         f_blocks s * f_frsize s \<le> int (the (map_of STORAGE ''input'')))))) (\<lambda>ok.
          sqn (ensure ok ''native readonly immutable input required'') (ret (Some s))))))"

text \<open>\<open>parse_mounts\<close> has accepted \<open>raw\<close>, so every line has a first word and a separator.\<close>

definition native_mount :: "'w native_init \<Rightarrow> string \<Rightarrow> int \<Rightarrow> mount list \<Rightarrow> string \<Rightarrow> ('w native, mount) act" where
  "native_mount t role fd mounts raw =
     (let path = prerequisite_path (ni_contract t) role in
      bnd (nw (ns_fstat (ni_sys t) fd)) (\<lambda>info.
      bnd (lft (native_key (ni_expected t) role)) (\<lambda>expected.
      sqn (ensure (inode_key info = (fi_dev expected, fi_ino expected)) (''native prerequisite identity changed: '' @ role)) (
      bnd (lft (covering mounts path)) (\<lambda>m.
      sqn (ensure (m_ident m = fi_mount expected \<and> m_device m = device_text (st_dev info))
             (''native prerequisite mount identity changed: '' @ role)) (
      let line = filter (\<lambda>line. take 1 (words line) = [show_int (m_ident m)]) (splitlines raw) in
      sqn (ensure (length line = 1 \<and> index_of (words (hd line)) ''-'' = 6) ''native private mount required'') (
      sqn (ensure (\<not> list_ex (\<lambda>x. m_path x \<noteq> m_path m \<and> below (m_path x) path) mounts) ''native nested prerequisite mount'') (
      bnd (check_domain_kind t role fd mounts m path) (\<lambda>sp.
      bnd (nw (ns_fstype (ni_sys t) fd)) (\<lambda>magic.
      sqn (upd (\<lambda>s. s\<lparr>nv_prerequisites := AList.update role (prerequisite_value (ni_contract t) role info m magic sp)
                        (nv_prerequisites s)\<rparr>)) (
      ret m)))))))))))"

definition native_mount_table :: "'w native_init \<Rightarrow> ('w native, string \<times> mount list) act" where
  "native_mount_table t =
     bnd (nw (ns_mounts (ni_sys t))) (\<lambda>raw.
     sqn (ensure (utf8_length raw \<le> 256 * 1024) ''native mount inventory limit'') (
     bnd (lft (parse_mounts raw)) (\<lambda>mounts. ret (raw, mounts))))"

definition check_ancestor :: "'w native_init \<Rightarrow> rat \<Rightarrow> string \<Rightarrow> mount list \<Rightarrow> string \<Rightarrow> ('w native, unit) act" where
  "check_ancestor t deadline raw mounts role =
     bnd (get nv_parents) (\<lambda>ps. case map_of ps role of None \<Rightarrow> ret () | Some pinned \<Rightarrow>
     bnd (native_directory t (prerequisite_path (ni_contract t) role) deadline) (\<lambda>fd.
     try_finally
       (bnd (lft (native_key (ni_expected t) role)) (\<lambda>expected.
        bnd (andA (bnd (native_ident t fd) (\<lambda>i. ret (i = (fi_dev expected, fi_ino expected))))
               (bnd (native_ident t pinned) (\<lambda>i. ret ((fi_dev expected, fi_ino expected) = i)))) (\<lambda>same.
        sqn (ensure same ''native fixed ancestor identity changed'') (
        bnd (nw (ns_fstat (ni_sys t) fd)) (\<lambda>info.
        sqn (safe_info info False 448) (
        bnd (native_mount t role fd mounts raw) (\<lambda>_. ret ())))))))
       (nw (ns_close (ni_sys t) fd))))"

definition check_ancestors :: "'w native_init \<Rightarrow> rat \<Rightarrow> ('w native, unit) act" where
  "check_ancestors t deadline =
     bnd (native_mount_table t) (\<lambda>(raw, mounts).
     eachA (check_ancestor t deadline raw mounts) [''root_parent'', ''cgroup_root''])"

subsection \<open>Opened roles and cgroup files\<close>

definition open_role :: "'w native_init \<Rightarrow> string \<Rightarrow> rat \<Rightarrow> ('w native, int) act" where
  "open_role t role deadline =
     sqn (check_ancestors t deadline) (
     let path = native_path (ni_contract t) role in
     bnd (native_directory t (path_parent path) deadline) (\<lambda>parent.
     try_finally
       (sqn (if role = ''readonly_input'' then ret () else
          bnd (native_ident t parent) (\<lambda>i.
          bnd (native_parent role) (\<lambda>p.
          bnd (native_ident t p) (\<lambda>j. ensure (i = j) (''native parent identity changed: '' @ role))))) (
        bnd (nw (ns_open (ni_sys t) (Some parent) (path_name path)
               (READ_FLAGS @ (if is_slot role then [] else [''DIRECTORY''])) 384)) (\<lambda>fd.
        on_error
          (sqn (if role = ''readonly_input'' then ret () else bnd (check_pin t role fd) (\<lambda>_. ret ())) (ret fd))
          (nw (ns_close (ni_sys t) fd)))))
       (nw (ns_close (ni_sys t) parent))))"

definition pseudo_read :: "'w native_init \<Rightarrow> string \<Rightarrow> int \<Rightarrow> rat \<Rightarrow> string \<Rightarrow> ('w native, string) act" where
  "pseudo_read t role fd deadline name =
     sqn (native_tick t deadline) (
     bnd (nw (ns_open (ni_sys t) (Some fd) name READ_FLAGS 384)) (\<lambda>stream.
     try_finally
       (bnd (nw (ns_fstat (ni_sys t) stream)) (\<lambda>info.
        sqn (ensure (S_ISREG info \<and> st_uid info = 0 \<and> not_shared_writable info) ''unsafe native cgroup pseudo-file'') (
        bnd (get nv_pseudo) (\<lambda>ps.
        sqn (case map_of ps (role, name) of
               Some i \<Rightarrow> ensure (inode_key info = i) ''native cgroup pseudo-file identity changed''
             | None \<Rightarrow> upd (\<lambda>s. s\<lparr>nv_pseudo := AList.update (role, name) (inode_key info) (nv_pseudo s)\<rparr>)) (
        bnd (nw (ns_read (ni_sys t) stream 8193)) (\<lambda>raw.
        sqn (ensure (length raw \<le> 8192) ''native cgroup read limit'') (
        bnd (lft (ascii raw)) (\<lambda>t. ret (strip t)))))))))
       (nw (ns_close (ni_sys t) stream))))"

definition pseudo_write :: "'w native_init \<Rightarrow> string \<Rightarrow> int \<Rightarrow> rat \<Rightarrow> string \<Rightarrow> string \<Rightarrow> ('w native, unit) act" where
  "pseudo_write t role fd deadline name v =
     bnd (pseudo_read t role fd deadline name) (\<lambda>_.
     sqn (native_tick t deadline) (
     bnd (nw (ns_open (ni_sys t) (Some fd) name [''WRONLY'', ''NOFOLLOW'', ''CLOEXEC''] 384)) (\<lambda>stream.
     try_finally
       (bnd (native_ident t stream) (\<lambda>i.
        bnd (get nv_pseudo) (\<lambda>ps.
        sqn (ensure (map_of ps (role, name) = Some i) ''native cgroup write identity changed'') (
        bnd (lft (ascii (v @ nl))) (\<lambda>raw.
        bnd (nw (ns_write (ni_sys t) stream raw)) (\<lambda>n.
        ensure (n = length raw) ''short native cgroup write''))))))
       (nw (ns_close (ni_sys t) stream)))))"

definition pseudo_words :: "'w native_init \<Rightarrow> string \<Rightarrow> int \<Rightarrow> rat \<Rightarrow> string \<Rightarrow> ('w native, string list) act" where
  "pseudo_words t role fd deadline name = bnd (pseudo_read t role fd deadline name) (\<lambda>v. ret (words v))"

definition CONTROLLERS :: "string set" where
  "CONTROLLERS = {''cpu'', ''memory'', ''pids''}"

definition prerequisite ::
    "'w native_init \<Rightarrow> rat \<Rightarrow> string \<Rightarrow> mount list \<Rightarrow> (string \<times> mount) list \<Rightarrow> string \<Rightarrow> ('w native, (string \<times> mount) list) act" where
  "prerequisite t deadline raw mounts observed role =
     bnd (native_directory t (prerequisite_path (ni_contract t) role) deadline) (\<lambda>fd.
     let close = nw (ns_close (ni_sys t) fd);
         body = bnd (nw (ns_fstat (ni_sys t) fd)) (\<lambda>info.
                sqn (safe_info info False (if role = ''readonly_input'' then 365 else 448))
                  (native_mount t role fd mounts raw)) in
     bnd (get nv_parents) (\<lambda>ps. case map_of ps role of
       Some pinned \<Rightarrow>
         bnd (try_finally
           (bnd body (\<lambda>m.
            bnd (native_ident t fd) (\<lambda>i.
            bnd (native_ident t pinned) (\<lambda>j.
            sqn (ensure (i = j) ''native prerequisite pinned identity changed'') (ret m)))))
           close) (\<lambda>m. ret (observed @ [(role, m)]))
     | None \<Rightarrow>
         bnd (on_error body close) (\<lambda>m.
         sqn (upd (\<lambda>s. s\<lparr>nv_parents := AList.update role fd (nv_parents s)\<rparr>)) (ret (observed @ [(role, m)])))))"

definition native_prerequisites :: "'w native_init \<Rightarrow> rat \<Rightarrow> ('w native, unit) act" where
  "native_prerequisites t deadline =
     sqn (native_tick t deadline) (
     sqn (nw (ns_uid_idle (ni_sys t) (ic_uid (ni_contract t)))) (
     sqn (native_tick t deadline) (
     bnd (native_mount_table t) (\<lambda>(raw, mounts).
     bnd (foldA (prerequisite t deadline raw mounts) [] [''root_parent'', ''cgroup_root'', ''readonly_input'']) (\<lambda>observed.
     sqn (ensure (card (set (map (m_device \<circ> snd) observed)) = 3) ''native prerequisite device aliases'') (
     bnd (get nv_parents) (\<lambda>ps.
     bnd (lft (native_key ps ''cgroup_root'')) (\<lambda>fd.
     bnd (andA (bnd (pseudo_read t ''delegate'' fd deadline ''cgroup.type'') (\<lambda>v. ret (v = ''domain'')))
         (andA (bnd (pseudo_read t ''delegate'' fd deadline ''cgroup.procs'') (\<lambda>v. ret (v = [])))
         (andA (bnd (pseudo_words t ''delegate'' fd deadline ''cgroup.controllers'') (\<lambda>ws. ret (CONTROLLERS \<subseteq> set ws)))
               (bnd (pseudo_words t ''delegate'' fd deadline ''cgroup.subtree_control'') (\<lambda>ws. ret (set ws = CONTROLLERS)))))) (\<lambda>ok.
     ensure ok ''native preconfigured cgroup delegation required'')))))))))"

end
