(* ===== verification/NativeRun.thy ===== *)
theory NativeRun
  imports Native
begin

text \<open>
  The operations of the native guest initializer (\<open>sw_i5_preparation_native.py\<close>): the read of the
  immutable input tree, the creation of the nine objects, the read back, the cleanup and the
  close.  A failed operation leaves its state: the owner that raised in \<open>initialize\<close> is the one
  that is cleaned up.
\<close>

subsection \<open>The immutable input tree\<close>

text \<open>
  The reads of one file.  Every nonempty chunk makes \<open>sz\<close> larger and a \<open>sz\<close> beyond the
  declared length raises, so the length and two are enough rounds.
\<close>

fun input_read :: "nat \<Rightarrow> 'w native_init \<Rightarrow> rat \<Rightarrow> int \<Rightarrow> nat \<Rightarrow> string \<Rightarrow> ('w native, string) act" where
  "input_read 0 t deadline stream declared seen = lft (Inl OutOfFuel)"
| "input_read (Suc n) t deadline stream declared seen =
     sqn (native_tick t deadline) (
     bnd (nw (ns_read (ni_sys t) stream (min 65536 (declared - length seen + 1)))) (\<lambda>chunk.
     if chunk = [] then ret seen else
     sqn (ensure (length seen + length chunk \<le> declared) ''native input byte limit'') (
     input_read n t deadline stream declared (seen @ chunk))))"

definition input_file :: "'w native_init \<Rightarrow> rat \<Rightarrow> int \<Rightarrow> string \<Rightarrow> int \<Rightarrow> stat_info \<Rightarrow> string \<Rightarrow> ('w native, unit) act" where
  "input_file t deadline dirfd name stream entry relative =
     (let row = fld (PDict (ni_files t)) relative; declared = nat (int_of (fld row ''bytes'')) in
      sqn (ensure (st_size entry = int_of (fld row ''bytes'')) ''native input file length mismatch'') (
      bnd (input_read (declared + 2) t deadline stream declared []) (\<lambda>data.
      sqn (ensure (length data = declared \<and> PStr (ni_sha t data) = fld row ''sha256'') ''native input digest mismatch'') (
      bnd (nw (ns_stat (ni_sys t) dirfd name)) (\<lambda>again.
      ensure (inode_key again = inode_key entry) ''native input file replaced after read'')))))"

definition input_directory :: "'w native_init \<Rightarrow> string \<Rightarrow> bool" where
  "input_directory t relative = list_ex (\<lambda>(n, _). relative \<in> parents n) (ni_files t)"

text \<open>One directory entry; \<open>walk\<close> is the walk of a subdirectory with its prefix.\<close>

definition input_entry ::
    "(int \<Rightarrow> string \<Rightarrow> string list \<Rightarrow> ('w native, string list) act) \<Rightarrow> 'w native_init \<Rightarrow> rat \<Rightarrow> nat \<times> nat \<Rightarrow>
     int \<Rightarrow> string \<Rightarrow> string list \<Rightarrow> string \<Rightarrow> ('w native, string list) act" where
  "input_entry walk t deadline device dirfd pre seen name =
     sqn (native_tick t deadline) (
     let relative = pre @ name; is_dir = input_directory t relative in
     bnd (nw (ns_stat (ni_sys t) dirfd name)) (\<lambda>entry.
     sqn (ensure (is_dir \<or> relative \<in> fst ` set (ni_files t)) ''unexpected native input entry'') (
     sqn (safe_info entry (\<not> is_dir) (if is_dir then 365 else 292)) (
     bnd (nw (ns_open (ni_sys t) (Some dirfd) name (READ_FLAGS @ (if is_dir then [''DIRECTORY''] else [])) 384)) (\<lambda>stream.
     try_finally
       (bnd (native_ident t stream) (\<lambda>i.
        sqn (ensure (i = inode_key entry \<and> st_dev entry = device) ''native input entry replaced/device alias'') (
        if is_dir then walk stream (relative @ ''/'') seen
        else sqn (input_file t deadline dirfd name stream entry relative) (ret (seen @ [relative])))))
       (nw (ns_close (ni_sys t) stream)))))))"

fun input_walk ::
    "nat \<Rightarrow> 'w native_init \<Rightarrow> rat \<Rightarrow> nat \<times> nat \<Rightarrow> int \<Rightarrow> string \<Rightarrow> string list \<Rightarrow> ('w native, string list) act" where
  "input_walk 0 t deadline device dirfd pre seen = lft (Inl OutOfFuel)"
| "input_walk (Suc n) t deadline device dirfd pre seen =
     bnd (native_names t dirfd 128) (\<lambda>names.
     foldA (input_entry (\<lambda>fd p s. input_walk n t deadline device fd p s) t deadline device dirfd pre) seen names)"

text \<open>
  A directory's name is a proper prefix of a file's name and longer than its parent's, so the
  longest name bounds the depth.
\<close>

definition walk_depth :: "'w native_init \<Rightarrow> nat" where
  "walk_depth t = foldr (\<lambda>(n, _) d. max (length n) d) (ni_files t) 0 + 1"

subsection \<open>Observations and registrations\<close>

definition native_observation :: "'w native_init \<Rightarrow> string \<Rightarrow> stat_info \<Rightarrow> string \<Rightarrow> pyval" where
  "native_observation t role info observer = PDict
     [(''observer'', PStr observer), (''realm'', PStr ''guest''), (''role'', PStr role),
      (''path'', PStr (path_str (native_path (ni_contract t) role))), (''nonce'', PStr (ic_nonce (ni_contract t))),
      (''manifest_sha256'', PStr (ic_manifest (ni_contract t))), (''dev'', PInt (makedev (st_dev info))),
      (''ino'', PInt (st_ino info)), (''uid'', PInt (st_uid info)), (''gid'', PInt (st_gid info)),
      (''mode'', PInt (int (s_imode info))),
      (''kind'', PStr (if is_slot role then ''regular'' else if role = ''readonly_input'' then ''readonly-tree'' else ''directory'')),
      (''nlink'', PInt (st_nlink info)),
      (''bytes'', PInt (if is_slot role then 1024 else if role = ''readonly_input'' then ni_bytes t else 0)),
      (''sha256'', if is_slot role then PStr (ni_sha t (replicate 1024 (CHR 0x00)))
                   else if role = ''readonly_input'' then PStr (ic_manifest (ni_contract t)) else PNone),
      (''symlink'', PBool False),
      (''limits'', if startswith role ''cgroup_'' then limits_value (removeprefix role ''cgroup_'') else PNone)]"

definition ident_value :: "(int \<times> int) option \<Rightarrow> pyval" where
  "ident_value ident = (case ident of None \<Rightarrow> PNone | Some (dev, ino) \<Rightarrow> PList [PInt dev, PInt ino])"

definition event_value :: "string \<Rightarrow> string \<Rightarrow> (int \<times> int) option \<Rightarrow> pyval" where
  "event_value role state ident = PDict
     [(''role'', PStr role), (''state'', PStr state), (''identity'', ident_value ident),
      (''bytes'', PInt (if is_slot role then 1024 else 0)), (''sequence'', PNone)]"

definition logged :: "native_op \<Rightarrow> ('w native, unit) act" where
  "logged op = upd (\<lambda>s. s\<lparr>nv_log := nv_log s @ [op]\<rparr>)"

definition native_event ::
    "(pyval \<Rightarrow> ('w, unit) act) \<Rightarrow> string \<Rightarrow> string \<Rightarrow> (int \<times> int) option \<Rightarrow> ('w native, unit) act" where
  "native_event register role state ident =
     sqn (logged (Register role state ident)) (nw (register (event_value role state ident)))"

definition input_readback :: "'w native_init \<Rightarrow> rat \<Rightarrow> string \<Rightarrow> ('w native, pyval) act" where
  "input_readback t deadline observer =
     bnd (native_directory t (ic_input (ni_contract t)) deadline) (\<lambda>fd.
     try_finally
       (bnd (nw (ns_fstat (ni_sys t) fd)) (\<lambda>info.
        sqn (safe_info info False 365) (
        bnd (get nv_parents) (\<lambda>ps.
        bnd (lft (native_key ps ''readonly_input'')) (\<lambda>pinned.
        bnd (native_ident t pinned) (\<lambda>i.
        sqn (ensure (inode_key info = i) ''native readonly input identity changed'') (
        bnd (input_walk (walk_depth t) t deadline (st_dev info) fd [] []) (\<lambda>seen.
        sqn (ensure (set seen = fst ` set (ni_files t)) ''native input file set mismatch'') (
        ret (native_observation t ''readonly_input'' info observer))))))))))
       (nw (ns_close (ni_sys t) fd)))"

subsection \<open>Creation\<close>

definition put_entry :: "string \<Rightarrow> string \<Rightarrow> (int \<times> int) option \<Rightarrow> ('w native, unit) act" where
  "put_entry role state ident = upd (\<lambda>s. s\<lparr>nv_entries := AList.update role (state, ident) (nv_entries s)\<rparr>)"

definition make_object :: "'w native_init \<Rightarrow> string \<Rightarrow> ('w native, int) act" where
  "make_object t role =
     bnd (native_parent role) (\<lambda>parent.
     let name = path_name (native_path (ni_contract t) role) in
     sqn (logged (Make role)) (
     if is_slot role then nw (ns_open (ni_sys t) (Some parent) name [''WRONLY'', ''CREAT'', ''EXCL'', ''NOFOLLOW'', ''CLOEXEC''] 384)
     else sqn (nw (ns_mkdir (ni_sys t) parent name 448)) (nw (ns_open (ni_sys t) (Some parent) name DIR_FLAGS 384))))"

definition fill_cgroup :: "'w native_init \<Rightarrow> string \<Rightarrow> int \<Rightarrow> rat \<Rightarrow> ('w native, unit) act" where
  "fill_cgroup t role fd deadline =
     bnd (andA (bnd (nw (ns_fstype (ni_sys t) fd)) (\<lambda>n. ret (n = NATIVE_CGROUP2)))
         (andA (bnd (pseudo_read t role fd deadline ''cgroup.type'') (\<lambda>v. ret (v = ''domain'')))
         (andA (bnd (pseudo_read t role fd deadline ''cgroup.procs'') (\<lambda>v. ret (v = [])))
               (bnd (pseudo_read t role fd deadline ''cgroup.subtree_control'') (\<lambda>v. ret (v = [])))))) (\<lambda>fresh.
     sqn (ensure fresh ''native fresh empty cgroup domain required'') (
     sqn (eachA (\<lambda>(key, v). pseudo_write t role fd deadline key v) (the (map_of LIMITS (removeprefix role ''cgroup_'')))) (
     whenA (role = ''cgroup_parent'') (
       bnd (pseudo_words t role fd deadline ''cgroup.controllers'') (\<lambda>ws.
       sqn (ensure (CONTROLLERS \<subseteq> set ws) ''native child cgroup controllers missing'') (
       pseudo_write t role fd deadline ''cgroup.subtree_control'' ''+cpu +memory +pids''))))))"

definition create_parent :: "'w native_init \<Rightarrow> string \<Rightarrow> rat \<Rightarrow> ('w native, unit) act" where
  "create_parent t role deadline =
     bnd (native_directory t (path_parent (native_path (ni_contract t) role)) deadline) (\<lambda>fd.
     try_finally
       (bnd (native_ident t fd) (\<lambda>i.
        bnd (native_parent role) (\<lambda>p.
        bnd (native_ident t p) (\<lambda>j. ensure (i = j) ''native creation parent changed''))))
       (nw (ns_close (ni_sys t) fd)))"

definition create_finish :: "'w native_init \<Rightarrow> string \<Rightarrow> rat \<Rightarrow> int \<Rightarrow> stat_info \<Rightarrow> ('w native, unit) act" where
  "create_finish t role deadline fd info =
     sqn (native_tick t deadline) (
     sqn (if is_slot role then
            bnd (nw (ns_write (ni_sys t) fd (replicate 1024 (CHR 0x00)))) (\<lambda>n. ensure (n = 1024) ''short native control slot write'')
          else whenA (startswith role ''cgroup_'') (fill_cgroup t role fd deadline)) (
     upd (\<lambda>s. s\<lparr>nv_observations := AList.update role
       \<lparr> ob_before = PNone, ob_after = native_observation t role info ''creator'', ob_readback = PNone \<rparr> (nv_observations s)\<rparr>)))"

definition native_create :: "'w native_init \<Rightarrow> rat \<Rightarrow> (pyval \<Rightarrow> ('w, unit) act) \<Rightarrow> string \<Rightarrow> ('w native, unit) act" where
  "native_create t deadline register role =
     sqn (native_tick t deadline) (
     sqn (check_ancestors t deadline) (
     sqn (create_parent t role deadline) (
     sqn (sqn (put_entry role ''intent'' None) (native_event register role ''intent'' None)) (
     sqn (native_tick t deadline) (
     bnd (make_object t role) (\<lambda>fd.
     sqn (upd (\<lambda>s. s\<lparr>nv_pinned := AList.update role fd (nv_pinned s)\<rparr>)) (
     bnd (nw (ns_fstat (ni_sys t) fd)) (\<lambda>info.
     sqn (safe_info info (is_slot role) (if is_slot role then 384 else 448)) (
     sqn (sqn (put_entry role ''bound'' (Some (inode_key info))) (native_event register role ''bound'' (Some (inode_key info)))) (
     create_finish t role deadline fd info))))))))))"

subsection \<open>Reading back\<close>

definition child_directories :: "'w native_init \<Rightarrow> int \<Rightarrow> ('w native, string list) act" where
  "child_directories t fd =
     bnd (native_names t fd 256) (\<lambda>names.
     bnd (mapA (\<lambda>n. bnd (nw (ns_stat (ni_sys t) fd n)) (\<lambda>i. ret (n, S_ISDIR i))) names) (\<lambda>kinds.
     ret (map fst (filter snd kinds))))"

definition group_readback :: "'w native_init \<Rightarrow> string \<Rightarrow> int \<Rightarrow> rat \<Rightarrow> bool \<Rightarrow> bool \<Rightarrow> ('w native, cgroup_state) act" where
  "group_readback t role fd deadline cleaning removing =
     (let read = pseudo_read t role fd deadline;
          counts = (\<lambda>name. bnd (read name) (\<lambda>v. lft (counters v))) in
      bnd (nw (ns_fstype (ni_sys t) fd)) (\<lambda>n.
      sqn (ensure (n = NATIVE_CGROUP2) ''native cgroup2 readback required'') (
      bnd (child_directories t fd) (\<lambda>children.
      bnd (native_ident t fd) (\<lambda>ident.
      bnd (read ''cgroup.type'') (\<lambda>kind.
      bnd (read ''cgroup.procs'') (\<lambda>procs.
      bnd (lft (mapE (base_int 10) (words procs))) (\<lambda>pids.
      bnd (read ''cgroup.subtree_control'') (\<lambda>subtree.
      bnd (mapA (\<lambda>name. bnd (read name) (\<lambda>v. ret (name, v))) limit_files) (\<lambda>limits.
      bnd (counts ''cgroup.events'') (\<lambda>events.
      bnd (counts ''memory.events'') (\<lambda>memory_events.
      bnd (counts ''pids.events'') (\<lambda>pids_events.
      let snapshot = \<lparr> cs_path = path_str (native_path (ni_contract t) role), cs_identity = ident, cs_type = kind,
            cs_procs = pids, cs_children = sort children, cs_subtree = join '' '' (sort (words subtree)), cs_limits = limits,
            cs_events = events, cs_memory_events = memory_events, cs_pids_events = pids_events \<rparr> in
      sqn (ensure (pids = [] \<and> map_of events ''populated'' = Some 0 \<and> (\<not> removing \<or> children = [])) ''native cgroup not reaped/empty'') (
      sqn (if cleaning then ret () else lft (verify_cgroup snapshot (removeprefix role ''cgroup_''))) (
      ret snapshot)))))))))))))))"

definition cgroup_value :: "cgroup_state \<Rightarrow> pyval" where
  "cgroup_value s =
     (let counts = (\<lambda>xs. PDict (map (\<lambda>(k, n). (k, PInt n)) xs)) in PDict
      [(''path'', PStr (cs_path s)), (''identity'', PList [PInt (fst (cs_identity s)), PInt (snd (cs_identity s))]),
       (''type'', PStr (cs_type s)), (''procs'', PList (map PInt (cs_procs s))), (''subtree'', PStr (cs_subtree s)),
       (''children'', PList (map PStr (cs_children s))), (''limits'', PDict (map (\<lambda>(k, v). (k, PStr v)) (cs_limits s))),
       (''events'', counts (cs_events s)), (''memory_events'', counts (cs_memory_events s)),
       (''pids_events'', counts (cs_pids_events s))])"

definition observed_value :: "observed \<Rightarrow> pyval" where
  "observed_value b = PDict [(''before'', ob_before b), (''after'', ob_after b), (''independent_readback'', ob_readback b)]"

definition native_result :: "'w native_init \<Rightarrow> 'w native \<Rightarrow> pyval" where
  "native_result t s = PDict
     ([(''schema_version'', PInt 1), (''scope'', PStr ''i5-preparation-native-initialization''), (''uuid'', PStr UUID),
       (''nonce'', PStr (ic_nonce (ni_contract t))), (''manifest_sha256'', PStr (ic_manifest (ni_contract t))),
       (''backend_kind'', PStr (ni_backend t)),
       (''cgroup_snapshots'', PDict (map (\<lambda>(role, g). (role, cgroup_value g)) (nv_groups s))),
       (''prerequisite_observations'', PDict (nv_prerequisites s)),
       (''objects'', PDict (map (\<lambda>(role, b). (role, observed_value b)) (nv_observations s))),
       (''input_bytes'', PInt (ni_bytes t)), (''input_files_sha256'', PStr (ni_files_digest t))] @
      map (\<lambda>flag. (flag, PBool False)) NATIVE_FALSE_FLAGS)"

definition set_observed :: "string \<Rightarrow> (observed \<Rightarrow> observed) \<Rightarrow> ('w native, unit) act" where
  "set_observed role f =
     bnd (get nv_observations) (\<lambda>os.
     bnd (lft (native_key os role)) (\<lambda>b.
     upd (\<lambda>s. s\<lparr>nv_observations := AList.update role (f b) (nv_observations s)\<rparr>)))"

definition expected_names :: "string \<Rightarrow> string set" where
  "expected_names role = (if role = ''guest_root'' then {''work'', ''result'', ''control''}
     else if role = ''control'' then {''lease.slot'', ''ack.slot''} else {})"

definition readback_role :: "'w native_init \<Rightarrow> rat \<Rightarrow> string \<Rightarrow> ('w native, unit) act" where
  "readback_role t deadline role =
     bnd (open_role t role deadline) (\<lambda>fd.
     try_finally
       (bnd (check_pin t role fd) (\<lambda>info.
        sqn (safe_info info (is_slot role) (if is_slot role then 384 else 448)) (
        sqn (if is_slot role then
               bnd (andA (ret (st_size info = 1024))
                      (bnd (nw (ns_read (ni_sys t) fd 1025)) (\<lambda>raw. ret (raw = replicate 1024 (CHR 0x00))))) (\<lambda>ok.
               ensure ok ''native control slot initial readback'')
             else if startswith role ''cgroup_'' then
               bnd (group_readback t role fd deadline False False) (\<lambda>g.
               upd (\<lambda>s. s\<lparr>nv_groups := AList.update (removeprefix role ''cgroup_'') g (nv_groups s)\<rparr>))
             else
               bnd (native_names t fd 256) (\<lambda>names.
               ensure (set names = expected_names role) ''native initialization unexpected directory entries'')) (
        let snapshot = native_observation t role info ''independent-reader'' in
        bnd (get nv_observations) (\<lambda>os.
        bnd (lft (native_key os role)) (\<lambda>b.
        sqn (ensure (pyeq (without [''observer''] snapshot) (without [''observer''] (ob_after b)))
               ''native independent observation changed'') (
        set_observed role (\<lambda>b. b\<lparr>ob_readback := snapshot\<rparr>))))))))
       (nw (ns_close (ni_sys t) fd)))"

definition native_readback :: "'w native_init \<Rightarrow> rat \<Rightarrow> ('w native, pyval) act" where
  "native_readback t deadline =
     bnd (get (\<lambda>s. nv_started s \<and> fst ` set (nv_observations s) = set (NATIVE_CREATE_ORDER @ [''readonly_input'']))) (\<lambda>complete.
     sqn (ensure complete ''native complete initialization required'') (
     sqn (native_prerequisites t deadline) (
     bnd (input_readback t deadline ''independent-reader'') (\<lambda>v.
     sqn (set_observed ''readonly_input'' (\<lambda>b. b\<lparr>ob_readback := v\<rparr>)) (
     sqn (eachA (readback_role t deadline) NATIVE_CREATE_ORDER) (
     get (native_result t)))))))"

definition with_observer :: "string \<Rightarrow> pyval \<Rightarrow> pyval" where
  "with_observer observer v = PDict (AList.update ''observer'' (PStr observer) (dict_of v))"

definition observe_created :: "'w native_init \<Rightarrow> string \<Rightarrow> ('w native, unit) act" where
  "observe_created t role =
     bnd (get nv_pinned) (\<lambda>ps.
     bnd (lft (native_key ps role)) (\<lambda>fd.
     bnd (nw (ns_fstat (ni_sys t) fd)) (\<lambda>info.
     set_observed role (\<lambda>b. b\<lparr>ob_after := native_observation t role info ''creator''\<rparr>))))"

definition native_initialize :: "'w native_init \<Rightarrow> rat \<Rightarrow> (pyval \<Rightarrow> ('w, unit) act) \<Rightarrow> ('w native, pyval) act" where
  "native_initialize t deadline register =
     bnd (get nv_started) (\<lambda>started.
     sqn (ensure (\<not> started) ''native initialization is single use'') (
     sqn (upd (\<lambda>s. s\<lparr>nv_started := True\<rparr>)) (
     sqn (native_prerequisites t deadline) (
     bnd (input_readback t deadline ''preexisting-observer'') (\<lambda>v.
     sqn (upd (\<lambda>s. s\<lparr>nv_observations := AList.update ''readonly_input''
       \<lparr> ob_before = v, ob_after = with_observer ''creator'' v, ob_readback = PNone \<rparr> (nv_observations s)\<rparr>)) (
     sqn (eachA (native_create t deadline register) NATIVE_CREATE_ORDER) (
     sqn (eachA (observe_created t) NATIVE_CREATE_ORDER) (
     native_readback t deadline))))))))"

subsection \<open>Cleanup\<close>

text \<open>\<open>text.encode("utf-8")[:n].decode("utf-8", "ignore")\<close> for code points below 256.\<close>

fun utf8_clip :: "nat \<Rightarrow> string \<Rightarrow> string" where
  "utf8_clip n [] = []"
| "utf8_clip n (c # cs) = (let w = (if code c < 128 then 1 else 2) in if w \<le> n then c # utf8_clip (n - w) cs else [])"

definition native_error :: "string \<Rightarrow> exn \<Rightarrow> string" where
  "native_error role x = utf8_clip 400 (role @ '': '' @ exn_name x @ '': '' @ exn_str x)"

record cleaning =
  cl_errors :: "string list"
  cl_cleaned :: "string list"

definition native_cleanup_result :: "'w native_init \<Rightarrow> cleaning \<Rightarrow> 'w native \<Rightarrow> pyval" where
  "native_cleanup_result t c s = PDict
     ([(''schema_version'', PInt 1), (''scope'', PStr ''i5-preparation-native-cleanup''), (''uuid'', PStr UUID),
       (''nonce'', PStr (ic_nonce (ni_contract t))), (''manifest_sha256'', PStr (ic_manifest (ni_contract t))),
       (''backend_kind'', PStr (ni_backend t)), (''errors'', PList (map PStr (cl_errors c))),
       (''cleaned'', PList (map PStr (cl_cleaned c))),
       (''pending'', PDict (map (\<lambda>(role, state, ident).
          (role, PDict [(''state'', PStr state), (''identity'', ident_value ident)])) (nv_entries s)))] @
      map (\<lambda>flag. (flag, PBool False)) NATIVE_FALSE_FLAGS)"

text \<open>The barrier: every created cgroup is bound, still the same, and empty.\<close>

definition barrier_role :: "'w native_init \<Rightarrow> rat \<Rightarrow> string \<Rightarrow> ('w native, unit) act" where
  "barrier_role t deadline role =
     bnd (get nv_entries) (\<lambda>es.
     if \<not> startswith role ''cgroup_'' then ret () else
     case map_of es role of None \<Rightarrow> ret () | Some (state, _) \<Rightarrow>
     sqn (ensure (state = ''bound'') ''native cgroup identity unconfirmed; preserve all'') (
     bnd (open_role t role deadline) (\<lambda>fd.
     try_finally
       (bnd (group_readback t role fd deadline True False) (\<lambda>snapshot.
        bnd (get nv_entries) (\<lambda>es.
        let allowed = (if role = ''cgroup_parent''
          then map (\<lambda>child. path_name (native_path (ni_contract t) child))
                 (filter (\<lambda>child. child \<in> fst ` set es) [''cgroup_supervisor'', ''cgroup_worker''])
          else []) in
        ensure (set (cs_children snapshot) = set allowed) ''native cgroup unknown/missing descendants; preserve all'')))
       (nw (ns_close (ni_sys t) fd)))))"

definition cleanup_barrier :: "'w native_init \<Rightarrow> rat \<Rightarrow> ('w native, unit) act" where
  "cleanup_barrier t deadline =
     bnd (get nv_entries) (\<lambda>es.
     sqn (whenA (es \<noteq> []) (check_ancestors t deadline)) (
     eachA (barrier_role t deadline) NATIVE_CREATE_ORDER))"

text \<open>The last look at the name, and the removing call.\<close>

definition remove_object :: "'w native_init \<Rightarrow> string \<Rightarrow> (int \<times> int) option \<Rightarrow> ('w native, unit) act" where
  "remove_object t role expected =
     (let name = path_name (native_path (ni_contract t) role) in
      bnd (native_parent role) (\<lambda>parent.
      bnd (nw (ns_stat (ni_sys t) parent name)) (\<lambda>current.
      sqn (ensure (Some (inode_key current) = expected) ''native cleanup final identity changed'') (
      bnd (native_parent role) (\<lambda>parent.
      sqn (logged (Remove role (inode_key current))) (
      if is_slot role then nw (ns_unlink (ni_sys t) parent name) else nw (ns_rmdir (ni_sys t) parent name)))))))"

definition cleanup_checked :: "'w native_init \<Rightarrow> rat \<Rightarrow> string \<Rightarrow> int \<Rightarrow> ('w native, unit) act" where
  "cleanup_checked t deadline role fd =
     bnd (check_pin t role fd) (\<lambda>info.
     sqn (safe_info info (is_slot role) (if is_slot role then 384 else 448)) (
     if is_slot role then ensure (st_size info = 1024) ''native cleanup slot length changed''
     else if startswith role ''cgroup_'' then bnd (group_readback t role fd deadline True True) (\<lambda>_. ret ())
     else bnd (native_names t fd 256) (\<lambda>names. ensure (names = []) ''native cleanup unknown entry; preserve'')))"

text \<open>\<open>pinned.pop\<close> comes before the close, \<open>entries.pop\<close> and the registration after it.\<close>

definition forget_object ::
    "'w native_init \<Rightarrow> (pyval \<Rightarrow> ('w, unit) act) \<Rightarrow> string \<Rightarrow> (int \<times> int) option \<Rightarrow> (cleaning \<times> 'w native, unit) act" where
  "forget_object t register role ident =
     (let on = zoom snd (\<lambda>f (c, s). (c, f s)) in
      bnd (get (nv_pinned \<circ> snd)) (\<lambda>ps.
      bnd (lft (native_key ps role)) (\<lambda>fd.
      sqn (on (upd (\<lambda>s. s\<lparr>nv_pinned := AList.delete role (nv_pinned s)\<rparr>))) (
      sqn (on (nw (ns_close (ni_sys t) fd))) (
      sqn (sqn (upd (\<lambda>(c, s). (c\<lparr>cl_cleaned := cl_cleaned c @ [role]\<rparr>, s\<lparr>nv_entries := AList.delete role (nv_entries s)\<rparr>)))
             (on (native_event register role ''cleaned'' ident))) (ret ()))))))"

definition cleanup_attempt ::
    "'w native_init \<Rightarrow> rat \<Rightarrow> (pyval \<Rightarrow> ('w, unit) act) \<Rightarrow> string \<Rightarrow> string \<times> (int \<times> int) option \<Rightarrow> (cleaning \<times> 'w native, unit) act" where
  "cleanup_attempt t deadline register role = (\<lambda>(state, ident).
     let on = zoom snd (\<lambda>f (c, s). (c, f s)) in
     sqn (on (sqn (native_tick t deadline) (
       sqn (ensure (state = ''bound'') ''native creation identity unconfirmed; preserve'') (
       bnd (open_role t role deadline) (\<lambda>fd.
       try_finally
         (sqn (cleanup_checked t deadline role fd) (
          sqn (native_tick t deadline) (remove_object t role ident)))
         (nw (ns_close (ni_sys t) fd))))))) (
     forget_object t register role ident))"

definition cleanup_role ::
    "'w native_init \<Rightarrow> rat \<Rightarrow> (pyval \<Rightarrow> ('w, unit) act) \<Rightarrow> string \<Rightarrow> (cleaning \<times> 'w native, unit) act" where
  "cleanup_role t deadline register role =
     bnd (get (nv_entries \<circ> snd)) (\<lambda>es. case map_of es role of None \<Rightarrow> ret () | Some row \<Rightarrow>
     handle_if any_exn (cleanup_attempt t deadline register role row)
       (\<lambda>x. upd (\<lambda>(c, s). (c\<lparr>cl_errors := cl_errors c @ [native_error role x]\<rparr>, s))))"

definition native_cleanup :: "'w native_init \<Rightarrow> rat \<Rightarrow> (pyval \<Rightarrow> ('w, unit) act) \<Rightarrow> ('w native, pyval) act" where
  "native_cleanup t deadline register =
     bnd (trial (cleanup_barrier t deadline)) (\<lambda>barrier.
     case barrier of
       Inl x \<Rightarrow> get (native_cleanup_result t \<lparr> cl_errors = [native_error ''cleanup precondition'' x], cl_cleaned = [] \<rparr>)
     | Inr _ \<Rightarrow> (\<lambda>s. case eachA (cleanup_role t deadline register) NATIVE_CLEAN_ORDER (\<lparr> cl_errors = [], cl_cleaned = [] \<rparr>, s) of
         (Inl e, (c, s')) \<Rightarrow> (Inl e, s')
       | (Inr _, (c, s')) \<Rightarrow> (Inr (native_cleanup_result t c s'), s')))"

subsection \<open>Close\<close>

definition close_each :: "'w native_init \<Rightarrow> string list \<Rightarrow> int list \<Rightarrow> ('w native, string list) act" where
  "close_each t errors fds = foldA (\<lambda>errors fd.
     handle_if is_oserror (sqn (nw (ns_close (ni_sys t) fd)) (ret errors)) (\<lambda>x. ret (errors @ [exn_str x]))) errors fds"

definition native_close :: "'w native_init \<Rightarrow> ('w native, unit) act" where
  "native_close t =
     bnd (get nv_pinned) (\<lambda>pinned.
     bnd (close_each t [] (map snd pinned)) (\<lambda>errors.
     sqn (upd (\<lambda>s. s\<lparr>nv_pinned := []\<rparr>)) (
     bnd (get nv_parents) (\<lambda>ps.
     bnd (close_each t errors (map snd ps)) (\<lambda>errors.
     sqn (upd (\<lambda>s. s\<lparr>nv_parents := [], nv_closed := True\<rparr>)) (
     ensure (errors = []) (''native descriptor close errors: '' @ join ''; '' errors)))))))"

end
