(* ===== verification/NativeProps.thy ===== *)
theory NativeProps
  imports NativeRun Triples ExportProps
begin

text \<open>
  What the native initializer guarantees: objects are announced and made in the fixed order,
  the cleanup removes only what it has confirmed and in the reverse order, and the
  registrations of a run are those that the validator of \<open>sw_i5_preparation_channels.py\<close> replays.
\<close>

subsection \<open>Operations that neither create nor remove\<close>

definition still :: "'w native \<Rightarrow> 'w native \<Rightarrow> bool" where
  "still s t = (nv_entries t = nv_entries s \<and> nv_log t = nv_log s)"

interpretation still: state_order still
  by unfold_locales (auto simp: still_def)

lemma still_nw: "keeps still (nw m)"
  unfolding nw_def by (rule keeps_zoom_frame) (simp add: still_def)

lemma still_upd:
  assumes "\<And>s. nv_entries (f s) = nv_entries s" and "\<And>s. nv_log (f s) = nv_log s"
  shows "keeps still (upd f)"
  by (rule still.keeps_upd) (simp add: still_def assms)

lemmas still_intros = still.keeps_intros still.keeps_branches still_nw still.keeps_on_error still.keeps_mapA

lemma still_andA: "keeps still a \<Longrightarrow> keeps still b \<Longrightarrow> keeps still (andA a b)"
  unfolding andA_def by (intro still_intros)

lemma still_tick: "keeps still (native_tick t d)"
  unfolding native_tick_def by (intro still_intros still_andA)

lemma still_descend: "keeps still (native_descend t d fd names)"
proof (induction names arbitrary: fd)
  case (Cons n names)
  show ?case unfolding native_descend.simps by (intro still_intros still_tick Cons.IH)
qed (simp only: native_descend.simps still.keeps_ret)

lemma still_directory: "keeps still (native_directory t p d)"
  unfolding native_directory_def by (intro still_intros still_tick still_descend)

lemma still_names: "keeps still (native_names t fd n)"
  unfolding native_names_def by (intro still_intros)

lemma still_safe_info: "keeps still (safe_info info r m)"
  unfolding safe_info_def by (intro still_intros)

lemma still_parent: "keeps still (native_parent r)"
  unfolding native_parent_def by (intro still_intros)

lemma still_ident: "keeps still (native_ident t fd)"
  unfolding native_ident_def by (intro still_intros)

lemma still_check_pin: "keeps still (check_pin t r fd)"
  unfolding check_pin_def by (intro still_intros still_andA still_ident)

lemmas still_basics = still_intros still_andA still_tick still_directory still_names still_safe_info still_parent still_ident
  still_check_pin

lemma still_domain_kind: "keeps still (check_domain_kind t r fd ms m p)"
  unfolding check_domain_kind_def Let_def by (intro still_basics)

lemma still_mount: "keeps still (native_mount t r fd ms raw)"
  unfolding native_mount_def Let_def by (intro still_basics still_domain_kind still_upd) simp_all

lemma still_mount_table: "keeps still (native_mount_table t)"
  unfolding native_mount_table_def by (intro still_basics)

lemma still_ancestors: "keeps still (check_ancestors t d)"
  unfolding check_ancestors_def check_ancestor_def by (intro still_basics still_mount_table still_mount)

lemma still_open_role: "keeps still (open_role t r d)"
  unfolding open_role_def Let_def by (intro still_basics still_ancestors)

lemma still_pseudo_read: "keeps still (pseudo_read t r fd d n)"
  unfolding pseudo_read_def by (intro still_basics still_upd) simp_all

lemma still_pseudo_write: "keeps still (pseudo_write t r fd d n v)"
  unfolding pseudo_write_def by (intro still_basics still_pseudo_read)

lemma still_pseudo_words: "keeps still (pseudo_words t r fd d n)"
  unfolding pseudo_words_def by (intro still_basics still_pseudo_read)

lemma still_prerequisites: "keeps still (native_prerequisites t d)"
  unfolding native_prerequisites_def prerequisite_def Let_def
  by (intro still_basics still_mount_table still_mount still_pseudo_read still_pseudo_words still_upd) simp_all

lemma still_input_read: "keeps still (input_read n t d stream m seen)"
proof (induction n arbitrary: seen)
  case (Suc n)
  show ?case unfolding input_read.simps by (intro still_basics Suc.IH)
qed (simp only: input_read.simps still.keeps_lft)

lemma still_input_walk: "keeps still (input_walk n t d dev fd p seen)"
proof (induction n arbitrary: fd p seen)
  case (Suc n)
  show ?case unfolding input_walk.simps input_entry_def input_file_def Let_def
    by (intro still_basics still_input_read Suc.IH)
qed (simp only: input_walk.simps still.keeps_lft)

lemma still_input_readback: "keeps still (input_readback t d obs)"
  unfolding input_readback_def by (intro still_basics still_input_walk)

lemma still_fill_cgroup: "keeps still (fill_cgroup t r fd d)"
  unfolding fill_cgroup_def by (intro still_basics still_pseudo_read still_pseudo_write still_pseudo_words)

lemma still_create_parent: "keeps still (create_parent t r d)"
  unfolding create_parent_def by (intro still_basics)

lemma still_create_finish: "keeps still (create_finish t r d fd info)"
  unfolding create_finish_def by (intro still_basics still_fill_cgroup still_upd) simp_all

lemma still_group_readback: "keeps still (group_readback t r fd d c m)"
  unfolding group_readback_def child_directories_def Let_def by (intro still_basics still_pseudo_read)

lemma still_set_observed: "keeps still (set_observed r f)"
  unfolding set_observed_def by (intro still_basics still_upd) simp_all

lemma still_readback: "keeps still (native_readback t d)"
  unfolding native_readback_def readback_role_def Let_def
  by (intro still_basics still_prerequisites still_input_readback still_open_role still_group_readback still_set_observed still_upd)
    simp_all

lemma still_observe_created: "keeps still (observe_created t r)"
  unfolding observe_created_def by (intro still_basics still_set_observed)

lemma still_barrier: "keeps still (cleanup_barrier t d)"
  unfolding cleanup_barrier_def barrier_role_def Let_def
  by (intro still_basics still_ancestors still_open_role still_group_readback)

lemma still_cleanup_checked: "keeps still (cleanup_checked t d r fd)"
  unfolding cleanup_checked_def by (intro still_basics still_group_readback)


subsection \<open>Creation\<close>

text \<open>What the log and the entries are once the objects of \<open>ids\<close> are created, and in between.\<close>

definition made :: "(string \<times> int \<times> int) list \<Rightarrow> native_op list" where
  "made ids = concat (map (\<lambda>(r, i). [Register r ''intent'' None, Make r, Register r ''bound'' (Some i)]) ids)"

definition bound_rows :: "(string \<times> int \<times> int) list \<Rightarrow> (string \<times> string \<times> (int \<times> int) option) list" where
  "bound_rows ids = map (\<lambda>(r, i). (r, ''bound'', Some i)) ids"

definition created :: "(string \<times> int \<times> int) list \<Rightarrow> 'w native \<Rightarrow> bool" where
  "created ids s = (prefix (map fst ids) NATIVE_CREATE_ORDER \<and> nv_log s = made ids \<and> nv_entries s = bound_rows ids)"

definition announced :: "(string \<times> int \<times> int) list \<Rightarrow> string \<Rightarrow> native_op list \<Rightarrow> 'w native \<Rightarrow> bool" where
  "announced ids r ops s = (prefix (map fst ids @ [r]) NATIVE_CREATE_ORDER \<and>
     nv_log s = made ids @ Register r ''intent'' None # ops \<and> nv_entries s = bound_rows ids @ [(r, ''intent'', None)])"

definition partly :: "'w native \<Rightarrow> bool" where
  "partly s = (\<exists>ids. created ids s \<or> (\<exists>r. announced ids r [] s \<or> announced ids r [Make r] s))"

lemma made_snoc: "made (ids @ [(r, i)]) = made ids @ [Register r ''intent'' None, Make r, Register r ''bound'' (Some i)]"
  by (simp add: made_def)

lemma fresh_role:
  assumes "prefix (map fst ids @ [r]) NATIVE_CREATE_ORDER"
  shows "r \<notin> fst ` set ids" and "distinct (map fst ids)"
proof -
  from assms obtain zs where "NATIVE_CREATE_ORDER = map fst ids @ r # zs" by (auto simp: prefix_def)
  with distinct_create_order have "distinct (map fst ids @ r # zs)" by simp
  then show "r \<notin> fst ` set ids" and "distinct (map fst ids)" by auto
qed

lemma update_fresh: "k \<notin> fst ` set xs \<Longrightarrow> AList.update k v (xs @ [(k, w)]) = xs @ [(k, v)]"
  by (induction xs) auto

lemma update_new_key: "k \<notin> fst ` set xs \<Longrightarrow> AList.update k v xs = xs @ [(k, v)]"
  by (induction xs) auto

lemma keys_bound_rows [simp]: "fst ` set (bound_rows ids) = fst ` set ids"
  by (force simp: bound_rows_def)

definition lasting :: "('w native \<Rightarrow> bool) \<Rightarrow> ('w native \<Rightarrow> bool) \<Rightarrow> bool" where
  "lasting E P = ((\<forall>s t. still s t \<longrightarrow> P s \<longrightarrow> P t) \<and> (\<forall>s. P s \<longrightarrow> E s))"

lemma triple_still: "keeps still m \<Longrightarrow> lasting E P \<Longrightarrow> triple P m (\<lambda>_. P) E"
  unfolding lasting_def by (rule tripleI) (blast dest: keepsD)+

lemma lasting_stages: "lasting partly (created ids)" "lasting partly (announced ids r [])"
  "lasting partly (announced ids r [Make r])" "lasting partly (\<lambda>s. \<exists>ids. Q ids \<and> created ids s)"
  by (auto simp: lasting_def still_def created_def announced_def partly_def)

lemma sqn_assoc: "sqn (sqn a b) c = sqn a (sqn b c)"
  by (rule ext) (auto simp: sqn_def bnd_def split: prod.split sum.split)

lemma triple_ex: "(\<And>x. triple (P x) m Q E) \<Longrightarrow> triple (\<lambda>s. \<exists>x. P x s) m Q E"
  by (rule tripleI) (blast dest: tripleD_Inr tripleD_Inl)+

lemma triple_announce:
  assumes "\<And>s. P s \<Longrightarrow> Q (s\<lparr>nv_entries := AList.update r (st, i) (nv_entries s), nv_log := nv_log s @ [Register r st i]\<rparr>)"
    and "lasting partly Q"
  shows "triple P (sqn (put_entry r st i) (native_event register r st i)) (\<lambda>_. Q) partly"
proof -
  have "triple P (sqn (put_entry r st i) (logged (Register r st i))) (\<lambda>_. Q) partly"
    unfolding put_entry_def logged_def by (rule tripleI) (auto simp: act_simps assms(1))
  moreover have "triple Q (nw (register (event_value r st i))) (\<lambda>_. Q) partly"
    by (rule triple_still [OF still_nw assms(2)])
  ultimately have "triple P (sqn (sqn (put_entry r st i) (logged (Register r st i))) (nw (register (event_value r st i)))) (\<lambda>_. Q) partly"
    by (rule triple_sqn)
  then show ?thesis by (simp only: native_event_def sqn_assoc)
qed

lemmas triple_created = triple_still [OF _ lasting_stages(1)]
lemmas triple_announced = triple_still [OF _ lasting_stages(2)]
lemmas triple_making = triple_still [OF _ lasting_stages(3)]

lemma triple_make_object: "triple (announced ids r []) (make_object t r) (\<lambda>_. announced ids r [Make r]) partly"
proof -
  have log: "triple (announced ids r []) (logged (Make r)) (\<lambda>_. announced ids r [Make r]) partly"
    unfolding logged_def by (rule triple_upd) (simp add: announced_def)
  show ?thesis unfolding make_object_def Let_def
    by (rule triple_bnd [OF triple_announced [OF still_parent]], rule triple_sqn [OF log], rule triple_making) (intro still_basics)
qed

lemma triple_create:
  assumes order: "prefix (map fst ids @ [r]) NATIVE_CREATE_ORDER"
  shows "triple (created ids) (native_create t d register r) (\<lambda>_ s. \<exists>i. created (ids @ [(r, i)]) s) partly"
proof -
  note fresh = fresh_role [OF order]
  have intent: "triple (created ids) (sqn (put_entry r ''intent'' None) (native_event register r ''intent'' None)) (\<lambda>_. announced ids r []) partly"
    by (rule triple_announce [OF _ lasting_stages(2)]) (simp_all add: created_def announced_def order fresh update_new_key)
  have done_r: "triple (announced ids r [Make r]) (sqn (put_entry r ''bound'' (Some i)) (native_event register r ''bound'' (Some i)))
      (\<lambda>_. created (ids @ [(r, i)])) partly" for i
    by (rule triple_announce [OF _ lasting_stages(1)])
      (simp_all add: created_def announced_def order fresh update_fresh made_snoc, simp add: bound_rows_def)
  have finish: "triple (created (ids @ [(r, i)])) (create_finish t r d fd info) (\<lambda>_ s. \<exists>i. created (ids @ [(r, i)]) s) partly" for i fd info
    by (rule triple_weaken [OF triple_created [OF still_create_finish]]) blast+
  show ?thesis unfolding native_create_def
    by (rule triple_sqn [OF triple_created [OF still_tick]] triple_sqn [OF triple_created [OF still_ancestors]]
        triple_sqn [OF triple_created [OF still_create_parent]] triple_sqn [OF intent] triple_sqn [OF triple_announced [OF still_tick]]
        triple_bnd [OF triple_make_object] triple_sqn [OF triple_making [OF still_upd]]
        triple_bnd [OF triple_making [OF still_nw]] triple_sqn [OF triple_making [OF still_safe_info]]
        triple_sqn [OF done_r] finish | simp)+
qed


lemma triple_create_all:
  assumes "prefix (before @ rest) NATIVE_CREATE_ORDER"
  shows "triple (\<lambda>s. \<exists>ids. map fst ids = before \<and> created ids s) (eachA (native_create t d register) rest)
    (\<lambda>_ s. \<exists>ids. map fst ids = before @ rest \<and> created ids s) partly"
  using assms
proof (induction rest arbitrary: before)
  case Nil
  show ?case unfolding eachA.simps by (rule triple_ret) simp
next
  case (Cons r rest)
  have "triple (\<lambda>s. map fst ids = before \<and> created ids s) (native_create t d register r)
      (\<lambda>_ s. \<exists>ids. map fst ids = before @ [r] \<and> created ids s) partly" for ids
  proof (cases "map fst ids = before")
    case True
    have "prefix (map fst ids @ [r]) NATIVE_CREATE_ORDER" using Cons.prems True by (auto simp: prefix_def)
    from triple_create [OF this] show ?thesis
    proof (rule triple_weaken)
      fix s assume "\<exists>i. created (ids @ [(r, i)]) s"
      then obtain i where "created (ids @ [(r, i)]) s" ..
      with True show "\<exists>ids. map fst ids = before @ [r] \<and> created ids s"
        by (intro exI [of _ "ids @ [(r, i)]"]) simp
    qed simp_all
  qed (simp add: triple_def)
  then have "triple (\<lambda>s. \<exists>ids. map fst ids = before \<and> created ids s) (native_create t d register r)
      (\<lambda>_ s. \<exists>ids. map fst ids = before @ [r] \<and> created ids s) partly" by (rule triple_ex)
  from triple_sqn [OF this Cons.IH [of "before @ [r]"]] Cons.prems show ?case by simp
qed

lemma native_initialize_triple:
  "triple (created []) (native_initialize t d register) (\<lambda>_ s. \<exists>ids. map fst ids = NATIVE_CREATE_ORDER \<and> created ids s) partly"
proof -
  have all: "triple (created []) (eachA (native_create t d register) NATIVE_CREATE_ORDER)
      (\<lambda>_ s. \<exists>ids. map fst ids = NATIVE_CREATE_ORDER \<and> created ids s) partly"
    by (rule triple_weaken [OF triple_create_all [where before = "[]"]]) (auto intro!: exI [of _ "[]"])
  have observe: "keeps still (eachA (observe_created t) NATIVE_CREATE_ORDER)"
    by (intro still_basics still_observe_created)
  show ?thesis unfolding native_initialize_def
    by (rule triple_bnd [OF triple_created [OF still.keeps_get]] triple_sqn [OF triple_created [OF still.keeps_ensure]]
        triple_sqn [OF triple_created [OF still_upd]] triple_sqn [OF triple_created [OF still_prerequisites]]
        triple_bnd [OF triple_created [OF still_input_readback]] triple_sqn [OF all]
        triple_sqn [OF triple_still [OF observe lasting_stages(4)]] triple_still [OF still_readback lasting_stages(4)] | simp)+
qed

lemma created_owner: "created [] (native_owner w)"
  by (simp add: created_def native_owner_def made_def bound_rows_def)


lemma native_initialize_partly:
  assumes "native_initialize t d register (native_owner w) = (x, s)"
  shows "partly s"
proof (cases x)
  case (Inl e)
  with assms show ?thesis by (auto dest: tripleD_Inl [OF native_initialize_triple created_owner])
next
  case (Inr v)
  with assms show ?thesis by (auto simp: partly_def dest: tripleD_Inr [OF native_initialize_triple created_owner])
qed

lemma prefix_made: "prefix (map fst ids) roles \<Longrightarrow> \<exists>full. map fst full = roles \<and> prefix (made ids) (made full)"
proof -
  assume "prefix (map fst ids) roles"
  then obtain rest where "roles = map fst ids @ rest" by (auto simp: prefix_def)
  then show ?thesis by (intro exI [of _ "ids @ map (\<lambda>r. (r, (0, 0))) rest"]) (simp add: made_def o_def)
qed

lemma partly_prefix: "partly s \<Longrightarrow> \<exists>ids. map fst ids = NATIVE_CREATE_ORDER \<and> prefix (nv_log s) (made ids)"
  unfolding partly_def
proof (elim exE disjE)
  fix ids assume "created ids s"
  then show ?thesis using prefix_made [of ids NATIVE_CREATE_ORDER] by (simp add: created_def)
next
  fix ids r assume a: "announced ids r [] s"
  with prefix_made [of "ids @ [(r, (0, 0))]" NATIVE_CREATE_ORDER] show ?thesis
    by (auto simp: announced_def made_snoc dest!: append_prefixD [of "made ids @ [Register r ''intent'' None]" "[_, _]", simplified])
next
  fix ids r assume a: "announced ids r [Make r] s"
  with prefix_made [of "ids @ [(r, (0, 0))]" NATIVE_CREATE_ORDER] show ?thesis
    by (auto simp: announced_def made_snoc dest!: append_prefixD [of "made ids @ [Register r ''intent'' None, Make r]" "[_]", simplified])
qed

text \<open>
  C13: objects are created in the fixed order, each announced before it is made and bound
  after.  Whatever the kernel and the registrar do, the calls of an initialization, with
  its registrations, are a prefix of the full schedule over the nine roles; an
  initialization that returns has run through all of it and its entries are the bound ones.
\<close>

theorem native_creation_order:
  "case native_initialize t d register (native_owner w) of (x, s) \<Rightarrow>
     \<exists>ids. map fst ids = NATIVE_CREATE_ORDER \<and> prefix (nv_log s) (made ids) \<and>
       (case x of Inl _ \<Rightarrow> True | Inr _ \<Rightarrow> nv_log s = made ids \<and> nv_entries s = bound_rows ids)"
proof -
  obtain x s where i: "native_initialize t d register (native_owner w) = (x, s)"
    by (cases "native_initialize t d register (native_owner w)")
  show ?thesis
  proof (cases x)
    case (Inl e)
    with partly_prefix [OF native_initialize_partly [OF i]] i show ?thesis by simp
  next
    case (Inr v)
    with i have "\<exists>ids. map fst ids = NATIVE_CREATE_ORDER \<and> created ids s"
      by (auto dest: tripleD_Inr [OF native_initialize_triple created_owner])
    with Inr i show ?thesis by (auto simp: created_def)
  qed
qed

subsection \<open>Cleanup\<close>

text \<open>
  The abstract cleanup: a role is left alone, or its removal is tried, or it is removed and
  forgotten; the last two only for a bound entry, with the identity that was registered.
\<close>

type_synonym rows = "(string \<times> string \<times> (int \<times> int) option) list"

inductive clean_step :: "string \<Rightarrow> rows \<Rightarrow> native_op list \<Rightarrow> rows \<Rightarrow> bool" where
  left_alone: "clean_step r es [] es"
| tried: "map_of es r = Some (''bound'', Some i) \<Longrightarrow> clean_step r es [Remove r i] es"
| gone: "map_of es r = Some (''bound'', Some i) \<Longrightarrow>
    clean_step r es [Remove r i, Register r ''cleaned'' (Some i)] (AList.delete r es)"

inductive cleans :: "string list \<Rightarrow> rows \<Rightarrow> native_op list \<Rightarrow> rows \<Rightarrow> bool" where
  no_role: "cleans [] es [] es"
| one_role: "clean_step r es ops es' \<Longrightarrow> cleans rs es' ops' es'' \<Longrightarrow> cleans (r # rs) es (ops @ ops') es''"

definition cleaned_roles :: "native_op list \<Rightarrow> string list" where
  "cleaned_roles ops = concat (map (\<lambda>op. case op of Register r st i \<Rightarrow> if st = ''cleaned'' then [r] else [] | _ \<Rightarrow> []) ops)"

lemma triple_try_finally:
  assumes m: "triple P m (\<lambda>_. Q) E" and k: "triple Q k (\<lambda>_. Q) E" "triple E k (\<lambda>_. E) E"
  shows "triple P (try_finally m k) (\<lambda>_. Q) E"
proof (rule tripleI)
  fix s x t assume "P s" and "try_finally m k s = (Inr x, t)"
  then show "Q t" by (auto simp: try_finally_Inr dest: tripleD_Inr [OF m] tripleD_Inr [OF k(1)])
next
  fix s x t assume P: "P s" and f: "try_finally m k s = (Inl x, t)"
  obtain y u where y: "m s = (y, u)" by (cases "m s")
  show "E t"
  proof (cases y)
    case (Inl e)
    with P y have "E u" by (auto dest: tripleD_Inl [OF m])
    with f y Inl show ?thesis
      by (auto simp: try_finally_def split: prod.splits sum.splits if_splits dest: tripleD_Inl [OF k(2)] tripleD_Inr [OF k(2)])
  next
    case (Inr z)
    with P y have "Q u" by (auto dest: tripleD_Inr [OF m])
    with f y Inr show ?thesis
      by (auto simp: try_finally_def split: prod.splits sum.splits dest: tripleD_Inl [OF k(1)])
  qed
qed

definition at_log :: "rows \<Rightarrow> native_op list \<Rightarrow> 'w native \<Rightarrow> bool" where
  "at_log es l s = (nv_entries s = es \<and> nv_log s = l)"

lemma triple_remove:
  assumes E: "E = (\<lambda>s. at_log es l s \<or> (\<exists>i. expected = Some i \<and> at_log es (l @ [Remove r i]) s))"
  shows "triple (at_log es l) (remove_object t r expected) (\<lambda>_ s. \<exists>i. expected = Some i \<and> at_log es (l @ [Remove r i]) s) E"
proof -
  have P: "lasting E (at_log es l)" and Q: "lasting E (\<lambda>s. \<exists>i. expected = Some i \<and> at_log es (l @ [Remove r i]) s)"
    by (auto simp: lasting_def at_log_def still_def E)
  have check: "triple (at_log es l) (ensure (Some j = expected) m) (\<lambda>_ s. expected = Some j \<and> at_log es l s) E" for j m
    by (rule tripleI) (auto simp: act_simps E split: if_splits)
  have parent: "triple (\<lambda>s. expected = Some j \<and> at_log es l s) (native_parent r) (\<lambda>_ s. expected = Some j \<and> at_log es l s) E" for j
    by (rule triple_still [OF still_parent]) (auto simp: lasting_def at_log_def still_def E)
  have log: "triple (\<lambda>s. expected = Some j \<and> at_log es l s) (logged (Remove r j))
      (\<lambda>_ s. \<exists>i. expected = Some i \<and> at_log es (l @ [Remove r i]) s) E" for j
    unfolding logged_def by (rule triple_upd) (simp add: at_log_def)
  have last: "keeps still (if is_slot r then nw a else nw b)" for a b by (intro still_basics)
  show ?thesis unfolding remove_object_def Let_def
    by (rule triple_bnd [OF triple_still [OF still_parent P]] triple_bnd [OF triple_still [OF still_nw P]]
        triple_sqn [OF check] triple_bnd [OF parent] triple_sqn [OF log] triple_still [OF last Q])+
qed

definition removing :: "'w native_init \<Rightarrow> rat \<Rightarrow> string \<Rightarrow> string \<times> (int \<times> int) option \<Rightarrow> ('w native, unit) act" where
  "removing t deadline role = (\<lambda>(state, ident).
     sqn (native_tick t deadline) (
     sqn (ensure (state = ''bound'') ''native creation identity unconfirmed; preserve'') (
     bnd (open_role t role deadline) (\<lambda>fd.
     try_finally
       (sqn (cleanup_checked t deadline role fd) (
        sqn (native_tick t deadline) (remove_object t role ident)))
       (nw (ns_close (ni_sys t) fd))))))"

lemma triple_removing:
  assumes E: "E = (\<lambda>s. at_log es l s \<or> (\<exists>i. row = (''bound'', Some i) \<and> at_log es (l @ [Remove r i]) s))"
  shows "triple (at_log es l) (removing t d r row) (\<lambda>_ s. \<exists>i. row = (''bound'', Some i) \<and> at_log es (l @ [Remove r i]) s) E"
proof (cases row)
  case (Pair st ident)
  show ?thesis
  proof (cases "st = ''bound''")
    case True
    have E': "E = (\<lambda>s. at_log es l s \<or> (\<exists>i. ident = Some i \<and> at_log es (l @ [Remove r i]) s))"
      using E Pair True by simp
    have P: "lasting E (at_log es l)" and Q: "lasting E (\<lambda>s. \<exists>i. ident = Some i \<and> at_log es (l @ [Remove r i]) s)" and EE: "lasting E E"
      by (auto simp: lasting_def at_log_def still_def E')
    have "triple (at_log es l) (removing t d r row) (\<lambda>_ s. \<exists>i. ident = Some i \<and> at_log es (l @ [Remove r i]) s) E"
      unfolding removing_def Pair prod.case
      by (rule triple_sqn [OF triple_still [OF still_tick P]] triple_sqn [OF triple_still [OF still.keeps_ensure P]]
          triple_bnd [OF triple_still [OF still_open_role P]] triple_try_finally triple_sqn [OF triple_still [OF still_cleanup_checked P]]
          triple_remove [OF E'] triple_still [OF still_nw Q] triple_still [OF still_nw EE])+
    with Pair True show ?thesis by simp
  next
    case False
    have P: "lasting E (at_log es l)" by (auto simp: lasting_def at_log_def still_def E)
    have "triple (at_log es l) (removing t d r row) (\<lambda>_ _. False) E"
      unfolding removing_def Pair prod.case
      by (rule triple_sqn [OF triple_still [OF still_tick P]]) (rule tripleI, auto simp: act_simps False E)
    then show ?thesis by (rule triple_weaken) auto
  qed
qed

lemma cleanup_attempt_removing:
  "cleanup_attempt t d register r row = sqn (zoom snd (\<lambda>f (c, s). (c, f s)) (removing t d r row)) (forget_object t register r (snd row))"
  by (cases row) (simp add: cleanup_attempt_def removing_def Let_def)

lemma forget_object_outcome:
  assumes "forget_object t register r ident (c, s) = (x, c', s')"
  shows "(c' = c \<and> nv_entries s' = nv_entries s \<and> nv_log s' = nv_log s \<and> x \<noteq> Inr ()) \<or>
    (c' = c\<lparr>cl_cleaned := cl_cleaned c @ [r]\<rparr> \<and> nv_entries s' = AList.delete r (nv_entries s) \<and>
     nv_log s' = nv_log s @ [Register r ''cleaned'' ident])"
  using assms
  by (auto simp: forget_object_def native_key_def zoom_def nw_def logged_def native_event_def sqn_def bnd_def get_def lft_def
      upd_def ret_def Let_def split: option.splits prod.splits sum.splits)

lemma cleaned_roles_simps [simp]:
  "cleaned_roles [] = []" "cleaned_roles (xs @ ys) = cleaned_roles xs @ cleaned_roles ys"
  "cleaned_roles (Remove r i # ops) = cleaned_roles ops"
  "cleaned_roles (Register r st ident # ops) = (if st = ''cleaned'' then [r] else []) @ cleaned_roles ops"
  by (simp_all add: cleaned_roles_def)

lemma keys_delete: "fst ` set (AList.delete k xs) = fst ` set xs - {k}"
  by (auto simp: AList.delete_eq image_iff)

lemma cleanup_role_step:
  assumes "cleanup_role t d register r (c, s) = (x, c', s')"
  shows "\<exists>ops errs. nv_log s' = nv_log s @ ops \<and> clean_step r (nv_entries s) ops (nv_entries s') \<and>
    cl_cleaned c' = cl_cleaned c @ cleaned_roles ops \<and> cl_errors c' = cl_errors c @ errs \<and>
    (x = Inr () \<and> errs = [] \<longrightarrow> r \<notin> fst ` set (nv_entries s'))"
proof (cases "map_of (nv_entries s) r")
  case None
  with assms have "x = Inr ()" "c' = c" "s' = s" by (simp_all add: cleanup_role_def)
  with None show ?thesis by (auto simp: map_of_eq_None_iff intro: left_alone)
next
  case (Some row)
  let ?E = "\<lambda>u. at_log (nv_entries s) (nv_log s) u \<or>
      (\<exists>i. row = (''bound'', Some i) \<and> at_log (nv_entries s) (nv_log s @ [Remove r i]) u)"
  obtain y u where y: "removing t d r row s = (y, u)" by (cases "removing t d r row s")
  have z: "zoom snd (\<lambda>f (c, s). (c, f s)) (removing t d r row) (c, s) = (y, (c, u))" by (simp add: zoom_def y)
  have at: "at_log (nv_entries s) (nv_log s) s" by (simp add: at_log_def)
  have noted: "\<exists>errs. cl_errors c' = cl_errors c1 @ errs \<and> cl_cleaned c' = cl_cleaned c1 \<and> s' = s1 \<and> (x = Inr () \<and> errs = [] \<longrightarrow> False)"
    if "cleanup_attempt t d register r row (c, s) = (Inl e, c1, s1)" for e c1 s1
    using assms that Some by (auto simp: cleanup_role_def handle_if_def split: if_splits)
  show ?thesis
  proof (cases y)
    case (Inl e)
    with y at have "?E u" by (auto dest: tripleD_Inl [OF triple_removing [OF refl]])
    then have "\<exists>ops. nv_log u = nv_log s @ ops \<and> clean_step r (nv_entries s) ops (nv_entries u) \<and> cleaned_roles ops = []"
      using Some by (auto simp: at_log_def intro!: clean_step.intros)
    moreover from z Inl have "cleanup_attempt t d register r row (c, s) = (Inl e, c, u)" by (simp add: cleanup_attempt_removing)
    note noted [OF this]
    ultimately show ?thesis by fastforce
  next
    case (Inr v)
    with y at obtain i where i: "row = (''bound'', Some i)" and u: "at_log (nv_entries s) (nv_log s @ [Remove r i]) u"
      by (metis tripleD_Inr [OF triple_removing [OF refl]])
    obtain z2 c2 s2 where f: "forget_object t register r (Some i) (c, u) = (z2, c2, s2)"
      by (cases "forget_object t register r (Some i) (c, u)") auto
    with z Inr i have a: "cleanup_attempt t d register r row (c, s) = (z2, c2, s2)" by (simp add: cleanup_attempt_removing)
    from forget_object_outcome [OF f] u have o: "(c2 = c \<and> nv_entries s2 = nv_entries s \<and> nv_log s2 = nv_log s @ [Remove r i] \<and> z2 \<noteq> Inr ()) \<or>
      (c2 = c\<lparr>cl_cleaned := cl_cleaned c @ [r]\<rparr> \<and> nv_entries s2 = AList.delete r (nv_entries s) \<and>
       nv_log s2 = nv_log s @ [Remove r i, Register r ''cleaned'' (Some i)])" by (auto simp: at_log_def)
    show ?thesis
    proof (cases z2)
      case (Inl e)
      with noted a obtain errs where "cl_errors c' = cl_errors c2 @ errs" "cl_cleaned c' = cl_cleaned c2" "s' = s2"
        "\<not> (x = Inr () \<and> errs = [])" by blast
      with o Some i show ?thesis
        by (elim disjE) (auto intro!: exI [of _ "[Remove r i]"] exI [of _ "[Remove r i, Register r ''cleaned'' (Some i)]"] clean_step.intros)
    next
      case (Inr w)
      with assms a Some have "x = Inr ()" "c' = c2" "s' = s2" by (auto simp: cleanup_role_def handle_if_def)
      with o Some i Inr show ?thesis
        by (auto intro!: exI [of _ "[Remove r i, Register r ''cleaned'' (Some i)]"] exI [of _ "[]"] clean_step.intros simp: keys_delete)
    qed
  qed
qed

lemma clean_step_keys: "clean_step r es ops es' \<Longrightarrow> fst ` set es' \<subseteq> fst ` set es"
  by (erule clean_step.cases) (simp_all add: keys_delete)

lemma cleans_keys: "cleans rs es ops es' \<Longrightarrow> fst ` set es' \<subseteq> fst ` set es"
  by (induction rule: cleans.induct) (simp, rule order_trans [OF _ clean_step_keys])

lemma cleans_nothing: "cleans rs es [] es"
  by (induction rs) (use one_role [OF left_alone] in \<open>auto intro: no_role\<close>)

lemma cleanup_loop_cleans:
  assumes "eachA (cleanup_role t d register) rs (c, s) = (x, c', s')"
  shows "\<exists>ops errs. nv_log s' = nv_log s @ ops \<and> cleans rs (nv_entries s) ops (nv_entries s') \<and>
    cl_cleaned c' = cl_cleaned c @ cleaned_roles ops \<and> cl_errors c' = cl_errors c @ errs \<and>
    (x = Inr () \<and> errs = [] \<longrightarrow> set rs \<inter> fst ` set (nv_entries s') = {})"
  using assms
proof (induction rs arbitrary: c s)
  case Nil
  then show ?case by (auto intro: no_role)
next
  case (Cons r rs)
  obtain y c1 s1 where r: "cleanup_role t d register r (c, s) = (y, c1, s1)"
    by (cases "cleanup_role t d register r (c, s)") auto
  from cleanup_role_step [OF r] obtain ops errs where o: "nv_log s1 = nv_log s @ ops"
    "clean_step r (nv_entries s) ops (nv_entries s1)" "cl_cleaned c1 = cl_cleaned c @ cleaned_roles ops"
    "cl_errors c1 = cl_errors c @ errs" "y = Inr () \<and> errs = [] \<longrightarrow> r \<notin> fst ` set (nv_entries s1)" by blast
  show ?case
  proof (cases y)
    case (Inl e)
    have "cleans (r # rs) (nv_entries s) (ops @ []) (nv_entries s1)"
      using o(2) cleans_nothing by (rule one_role)
    with Cons.prems r Inl o show ?thesis by auto
  next
    case (Inr u)
    with Cons.prems r have "eachA (cleanup_role t d register) rs (c1, s1) = (x, c', s')" by simp
    from Cons.IH [OF this] obtain ops' errs' where o': "nv_log s' = nv_log s1 @ ops'" "cleans rs (nv_entries s1) ops' (nv_entries s')"
      "cl_cleaned c' = cl_cleaned c1 @ cleaned_roles ops'" "cl_errors c' = cl_errors c1 @ errs'"
      "x = Inr () \<and> errs' = [] \<longrightarrow> set rs \<inter> fst ` set (nv_entries s') = {}" by blast
    have "cleans (r # rs) (nv_entries s) (ops @ ops') (nv_entries s')" using o(2) o'(2) by (rule one_role)
    with o o' cleans_keys [OF o'(2)] Inr show ?thesis by (intro exI [of _ "ops @ ops'"] exI [of _ "errs @ errs'"]) auto
  qed
qed

definition removed :: "native_op list \<Rightarrow> (string \<times> int \<times> int) list" where
  "removed ops = concat (map (\<lambda>op. case op of Remove r i \<Rightarrow> [(r, i)] | _ \<Rightarrow> []) ops)"

lemma removed_simps [simp]:
  "removed [] = []" "removed (xs @ ys) = removed xs @ removed ys"
  "removed (Remove r i # ops) = (r, i) # removed ops" "removed (Register r st ident # ops) = removed ops"
  by (simp_all add: removed_def)

definition confirmed :: "rows \<Rightarrow> bool" where
  "confirmed es = list_all (\<lambda>r. case map_of es r of None \<Rightarrow> True | Some (st, _) \<Rightarrow> st = ''bound'')
     [''cgroup_parent'', ''cgroup_supervisor'', ''cgroup_worker'']"

lemma clean_step_facts:
  assumes "clean_step r es ops es'"
  shows "(\<forall>(x, i) \<in> set (removed ops). map_of es x = Some (''bound'', Some i))" and "subseq (map fst (removed ops)) [r]"
    and "subseq (cleaned_roles ops) [r]" and "fst ` set es' = fst ` set es - set (cleaned_roles ops)"
    and "map_of es' x = Some row \<Longrightarrow> map_of es x = Some row"
  using assms by (cases rule: clean_step.cases; simp add: keys_delete delete_conv split: if_splits)+

lemma cleans_facts:
  assumes "cleans rs es ops es'"
  shows "(\<forall>(x, i) \<in> set (removed ops). map_of es x = Some (''bound'', Some i)) \<and> subseq (map fst (removed ops)) rs \<and>
    subseq (cleaned_roles ops) rs \<and> fst ` set es' = fst ` set es - set (cleaned_roles ops)"
  using assms
proof (induction rule: cleans.induct)
  case (one_role r es ops es' rs ops' es'')
  note h = clean_step_facts [OF one_role.hyps(1)]
  have "subseq (map fst (removed ops) @ map fst (removed ops')) ([r] @ rs)"
    and "subseq (cleaned_roles ops @ cleaned_roles ops') ([r] @ rs)"
    using h(2,3) one_role.IH by (blast intro: list_emb_append_mono)+
  with h(1,4,5) one_role.IH show ?case by auto
qed simp

lemma trial_outcome:
  assumes "trial m s = (r, u)"
  shows "(\<exists>x. r = Inr (Inr x) \<and> m s = (Inr x, u)) \<or> (\<exists>e. r = Inr (Inl e) \<and> m s = (Inl e, u)) \<or> (r = Inl OutOfFuel \<and> m s = (Inl OutOfFuel, u))"
  using assms by (auto simp: trial_def handle_if_def any_exn_def bnd_def ret_def split: prod.splits sum.splits if_splits)

lemma eachA_visits:
  assumes "eachA f xs s = (Inr (), s')" and "x \<in> set xs" and "\<And>y. keeps still (f y)"
  shows "\<exists>u u'. still s u \<and> f x u = (Inr (), u')"
  using assms(1,2)
proof (induction xs arbitrary: s)
  case (Cons y ys)
  from Cons.prems obtain u where u: "f y s = (Inr (), u)" "eachA f ys u = (Inr (), s')" by (auto simp: sqn_Inr)
  from u(1) have su: "still s u" by (rule keepsD [OF assms(3)])
  show ?case
  proof (cases "x = y")
    case True
    with u(1) show ?thesis by (blast intro: still.R_refl)
  next
    case False
    with Cons.IH [OF u(2)] Cons.prems(2) su show ?thesis by (auto intro: still.R_trans)
  qed
qed simp

lemma barrier_role_bound:
  assumes "barrier_role t d r s = (Inr (), s')" and "startswith r ''cgroup_''"
  shows "case map_of (nv_entries s) r of None \<Rightarrow> True | Some (st, _) \<Rightarrow> st = ''bound''"
  using assms by (auto simp: barrier_role_def act_simps split: option.splits if_splits)

lemma barrier_confirmed:
  assumes "cleanup_barrier t d s = (Inr (), s')"
  shows "confirmed (nv_entries s)"
proof -
  from assms obtain u where u: "whenA (nv_entries s \<noteq> []) (check_ancestors t d) s = (Inr (), u)"
    and e: "eachA (barrier_role t d) NATIVE_CREATE_ORDER u = (Inr (), s')"
    by (auto simp: cleanup_barrier_def act_simps)
  have "keeps still (whenA (nv_entries s \<noteq> []) (check_ancestors t d))" by (intro still_basics still_ancestors)
  from keepsD [OF this u] have su: "still s u" .
  have each: "keeps still (barrier_role t d r)" for r
    unfolding barrier_role_def Let_def by (intro still_basics still_ancestors still_open_role still_group_readback)
  have "case map_of (nv_entries s) r of None \<Rightarrow> True | Some (st, _) \<Rightarrow> st = ''bound''"
    if r: "r \<in> set NATIVE_CREATE_ORDER" "startswith r ''cgroup_''" for r
  proof -
    from eachA_visits [OF e r(1) each] obtain v v' where "still u v" "barrier_role t d r v = (Inr (), v')" by blast
    with barrier_role_bound [OF this(2) r(2)] su show ?thesis by (simp add: still_def)
  qed
  then show ?thesis by (simp add: confirmed_def NATIVE_CREATE_ORDER_def startswith_def)
qed

lemma native_cleanup_outcome:
  assumes "native_cleanup t d register s = (x, s')"
  shows "\<exists>ops c. nv_log s' = nv_log s @ ops \<and> cleans NATIVE_CLEAN_ORDER (nv_entries s) ops (nv_entries s') \<and>
    (confirmed (nv_entries s) \<or> ops = []) \<and> cl_cleaned c = cleaned_roles ops \<and>
    (\<forall>v. x = Inr v \<longrightarrow> v = native_cleanup_result t c s' \<and>
      (cl_errors c = [] \<longrightarrow> set NATIVE_CLEAN_ORDER \<inter> fst ` set (nv_entries s') = {}))"
proof -
  obtain b u where b: "trial (cleanup_barrier t d) s = (b, u)" by (cases "trial (cleanup_barrier t d) s")
  have "keeps still (trial (cleanup_barrier t d))" unfolding trial_def by (intro still_basics still_barrier)
  from keepsD [OF this b] have su: "still s u" .
  from trial_outcome [OF b] consider "b = Inr (Inr ())" "cleanup_barrier t d s = (Inr (), u)" | e where "b = Inr (Inl e)" | "b = Inl OutOfFuel"
    by (metis (full_types) old.unit.exhaust)
  then show ?thesis
  proof cases
    case 1
    let ?c = "\<lparr> cl_errors = [], cl_cleaned = [] \<rparr>"
    obtain y c' v where l: "eachA (cleanup_role t d register) NATIVE_CLEAN_ORDER (?c, u) = (y, c', v)"
      by (cases "eachA (cleanup_role t d register) NATIVE_CLEAN_ORDER (?c, u)") auto
    from assms b 1(1) l have x: "s' = v" "x = (case y of Inl e \<Rightarrow> Inl e | Inr _ \<Rightarrow> Inr (native_cleanup_result t c' v))"
      by (auto simp: native_cleanup_def split: sum.splits)
    from cleanup_loop_cleans [OF l] barrier_confirmed [OF 1(2)] x su show ?thesis
      by (auto simp: still_def split: sum.splits)
  next
    case (2 e)
    with assms b have "s' = u" "x = Inr (native_cleanup_result t \<lparr> cl_errors = [native_error ''cleanup precondition'' e], cl_cleaned = [] \<rparr> u)"
      by (auto simp: native_cleanup_def)
    with su show ?thesis
      by (intro exI [of _ "[]"] exI [of _ "\<lparr> cl_errors = [native_error ''cleanup precondition'' e], cl_cleaned = [] \<rparr>"])
        (simp add: still_def cleans_nothing)
  next
    case 3
    with assms b have "s' = u" "x = Inl OutOfFuel" by (simp_all add: native_cleanup_def)
    with su show ?thesis
      by (intro exI [of _ "[]"] exI [of _ "\<lparr> cl_errors = [], cl_cleaned = [] \<rparr>"]) (simp add: still_def cleans_nothing)
  qed
qed

text \<open>
  C12: the cleanup removes only what it has confirmed.  Whatever the state, the clock and the
  kernel, the calls that remove an object go through the roles in the reverse creation order,
  each at most once; each is for an entry whose creation was bound, and was made after the
  name still had the identity bound to it; and nothing at all is removed while the creation
  of one of the three cgroups is unconfirmed.
\<close>

theorem native_cleanup_confirmed:
  "case native_cleanup t d register s of (_, s') \<Rightarrow>
     \<exists>ops. nv_log s' = nv_log s @ ops \<and> subseq (map fst (removed ops)) (rev NATIVE_CREATE_ORDER) \<and>
       list_all (\<lambda>(r, i). map_of (nv_entries s) r = Some (''bound'', Some i)) (removed ops) \<and>
       (confirmed (nv_entries s) \<or> ops = []) \<and>
       fst ` set (nv_entries s') = fst ` set (nv_entries s) - set (cleaned_roles ops)"
proof -
  obtain x s' where c: "native_cleanup t d register s = (x, s')" by (cases "native_cleanup t d register s")
  from native_cleanup_outcome [OF c] obtain ops where ops: "nv_log s' = nv_log s @ ops"
    "cleans NATIVE_CLEAN_ORDER (nv_entries s) ops (nv_entries s')" "confirmed (nv_entries s) \<or> ops = []" by blast
  from cleans_facts [OF ops(2)] ops(1,3) c show ?thesis
    by (auto simp: list_all_iff NATIVE_CLEAN_ORDER_def)
qed

subsection \<open>The registrations of a run\<close>

definition registrations :: "native_op list \<Rightarrow> pyval list" where
  "registrations ops = concat (map (\<lambda>op. case op of Register r st i \<Rightarrow> [event_value r st i] | _ \<Rightarrow> []) ops)"

definition registry_of :: "rows \<Rightarrow> registry" where
  "registry_of es = map (\<lambda>(r, st, i). (r, event_value r st i)) es"

fun positive_op :: "native_op \<Rightarrow> bool" where
  "positive_op (Register r st (Some (dev, ino))) = (0 < dev \<and> 0 < ino)"
| "positive_op _ = True"

lemma registrations_simps [simp]:
  "registrations [] = []" "registrations (xs @ ys) = registrations xs @ registrations ys"
  "registrations (Register r st i # ops) = event_value r st i # registrations ops"
  "registrations (Make r # ops) = registrations ops" "registrations (Remove r j # ops) = registrations ops"
  by (simp_all add: registrations_def)

lemma event_fields [simp]:
  "fld (event_value r st i) ''role'' = PStr r" "fld (event_value r st i) ''state'' = PStr st"
  "fld (event_value r st i) ''identity'' = ident_value i" "fld (event_value r st i) ''sequence'' = PNone"
  "fld (event_value r st i) ''bytes'' = PInt (if is_slot r then 1024 else 0)"
  "has_fields (event_value r st i) [''role'', ''state'', ''identity'', ''bytes'', ''sequence'']"
  by (simp_all add: event_value_def fld_def has_fields_def)

lemma register_event_fields:
  "r \<in> set NATIVE_CREATE_ORDER \<Longrightarrow> st \<in> {''intent'', ''bound'', ''cleaned''} \<Longrightarrow> register_fields (event_value r st i)"
  by (auto simp: register_fields_def is_slot_def)

lemma register_intent:
  assumes "r \<in> set NATIVE_CREATE_ORDER" and "intent_ok reg events r PNone" and "length events < 27"
  shows "register_object (reg, events) (event_value r ''intent'' None) =
    Inr (AList.update r (event_value r ''intent'' None) reg, events @ [event_value r ''intent'' None])"
  using assms register_event_fields [of r "''intent''" None]
  by (simp add: register_object_def check_fields_def bindE_def require_def ident_value_def Let_def)

lemma register_bound:
  assumes "r \<in> set NATIVE_CREATE_ORDER" and "r \<in> fst ` set reg" and "state_of reg r = PStr ''intent''"
    and "length events < 27" and "positive_op (Register r ''bound'' (Some i))"
  shows "register_object (reg, events) (event_value r ''bound'' (Some i)) =
    Inr (AList.update r (event_value r ''bound'' (Some i)) reg, events @ [event_value r ''bound'' (Some i)])"
  using assms register_event_fields [of r "''bound''" "Some i"]
  by (cases i) (simp add: register_object_def check_fields_def bindE_def require_def ident_value_def positive_int_def Let_def)

lemma register_cleaned:
  assumes "r \<in> set NATIVE_CREATE_ORDER" and "map_of reg r = Some (event_value r ''bound'' (Some i))"
    and "length events < 27" and "positive_op (Register r ''cleaned'' (Some i))"
    and "clean_order (roles_in ''cleaned'' events @ [r])"
  shows "register_object (reg, events) (event_value r ''cleaned'' (Some i)) =
    Inr (filter (\<lambda>(r', _). r' \<noteq> r) reg, events @ [event_value r ''cleaned'' (Some i)])"
proof -
  have "r \<in> fst ` set reg" using assms(2) by (force dest: map_of_SomeD)
  with assms register_event_fields [of r "''cleaned''" "Some i"] show ?thesis
    by (cases i) (simp add: register_object_def check_fields_def bindE_def require_def ident_value_def positive_int_def
        state_of_def clean_order_def Let_def)
qed

lemma roles_registrations:
  "roles_in ''intent'' (registrations (made ids)) = map fst ids" "roles_in ''bound'' (registrations (made ids)) = map fst ids"
  "roles_in ''cleaned'' (registrations (made ids)) = []" "length (registrations (made ids)) = 2 * length ids"
  by (induction ids) (auto simp: made_def roles_in_def)

lemma registry_of_bound: "registry_of (bound_rows ids) = map (\<lambda>(r, i). (r, event_value r ''bound'' (Some i))) ids"
  by (simp add: registry_of_def bound_rows_def case_prod_unfold)

lemma keys_registry_of [simp]: "fst ` set (registry_of es) = fst ` set es"
  by (force simp: registry_of_def)

lemma replay_append: "replay (xs @ ys) = bindE (replay xs) (\<lambda>s. foldE register_object s ys)"
  by (simp add: replay_def foldE_append)

lemma prefix_order_length: "prefix xs NATIVE_CREATE_ORDER \<Longrightarrow> length xs \<le> 9"
  by (drule prefix_length_le) (simp add: NATIVE_CREATE_ORDER_def)

lemma prefix_order_take: "prefix (xs @ [r]) NATIVE_CREATE_ORDER \<Longrightarrow> xs @ [r] = take (length xs + 1) NATIVE_CREATE_ORDER"
  by (metis append_eq_conv_conj length_append_singleton prefixE Suc_eq_plus1)

lemma register_next_intent:
  assumes "prefix (map fst ids @ [r]) NATIVE_CREATE_ORDER"
  shows "register_object (registry_of (bound_rows ids), registrations (made ids)) (event_value r ''intent'' None) =
    Inr (registry_of (bound_rows ids @ [(r, ''intent'', None)]), registrations (made ids) @ [event_value r ''intent'' None])"
proof -
  note fresh = fresh_role [OF assms]
  from prefix_order_length [OF assms] have n: "length ids < 9" by simp
  from set_mono_prefix [OF assms] have r: "r \<in> set NATIVE_CREATE_ORDER" by simp
  have all_bound: "list_all (\<lambda>(_, row). fld row ''state'' = PStr ''bound'') (registry_of (bound_rows ids))"
    by (auto simp: registry_of_bound list_all_iff)
  have "intent_ok (registry_of (bound_rows ids)) (registrations (made ids)) r PNone"
    using fresh prefix_order_take [OF assms] all_bound by (simp add: intent_ok_def roles_registrations Let_def)
  from register_intent [OF r this] n fresh show ?thesis
    by (simp add: roles_registrations update_new_key) (simp add: registry_of_def)
qed

lemma register_next_bound:
  assumes "prefix (map fst ids @ [r]) NATIVE_CREATE_ORDER" and "positive_op (Register r ''bound'' (Some i))"
  shows "register_object (registry_of (bound_rows ids @ [(r, ''intent'', None)]), registrations (made ids) @ [event_value r ''intent'' None])
      (event_value r ''bound'' (Some i)) =
    Inr (registry_of (bound_rows (ids @ [(r, i)])), registrations (made (ids @ [(r, i)])))"
proof -
  note fresh = fresh_role [OF assms(1)]
  from prefix_order_length [OF assms(1)] have n: "length ids < 9" by simp
  from set_mono_prefix [OF assms(1)] have r: "r \<in> set NATIVE_CREATE_ORDER" by simp
  have reg: "registry_of (bound_rows ids @ [(r, ''intent'', None)]) = registry_of (bound_rows ids) @ [(r, event_value r ''intent'' None)]"
    by (simp add: registry_of_def)
  have "map_of (registry_of (bound_rows ids)) r = None" using fresh by (simp add: map_of_eq_None_iff)
  then have "state_of (registry_of (bound_rows ids) @ [(r, event_value r ''intent'' None)]) r = PStr ''intent''"
    by (simp add: state_of_def map_add_def)
  from register_bound [OF r _ this _ assms(2)] n fresh show ?thesis
    by (simp add: reg roles_registrations update_fresh) (simp add: registry_of_def bound_rows_def made_snoc)
qed

lemma replay_made:
  assumes "prefix (map fst ids) NATIVE_CREATE_ORDER" and "list_all positive_op (made ids)"
  shows "replay (registrations (made ids)) = Inr (registry_of (bound_rows ids), registrations (made ids))"
  using assms
proof (induction ids rule: rev_induct)
  case Nil
  show ?case by (simp add: replay_def made_def registry_of_def bound_rows_def)
next
  case (snoc x ids)
  obtain r i where x: "x = (r, i)" by (cases x)
  from snoc.prems x have p: "prefix (map fst ids @ [r]) NATIVE_CREATE_ORDER" "prefix (map fst ids) NATIVE_CREATE_ORDER"
    and q: "list_all positive_op (made ids)" "positive_op (Register r ''bound'' (Some i))"
    by (auto simp: made_snoc prefix_def)
  have e: "registrations (made (ids @ [x])) = registrations (made ids) @ [event_value r ''intent'' None, event_value r ''bound'' (Some i)]"
    by (simp add: x made_snoc)
  show ?case unfolding e replay_append snoc.IH [OF p(2) q(1)]
    by (simp add: register_next_intent [OF p(1)] register_next_bound [OF p(1) q(2)] x made_snoc)
qed

lemma announced_replays:
  assumes "announced ids r ops s" and "registrations ops = []" and "list_all positive_op (nv_log s)"
  shows "replay (registrations (nv_log s)) = Inr (registry_of (nv_entries s), registrations (nv_log s)) \<and>
    roles_in ''cleaned'' (registrations (nv_log s)) = [] \<and> length (registrations (nv_log s)) \<le> 18 \<and>
    prefix (map fst (nv_entries s)) NATIVE_CREATE_ORDER"
proof -
  from assms(1) have p: "prefix (map fst ids @ [r]) NATIVE_CREATE_ORDER" and l: "nv_log s = made ids @ Register r ''intent'' None # ops"
    "nv_entries s = bound_rows ids @ [(r, ''intent'', None)]" by (simp_all add: announced_def)
  from p have p': "prefix (map fst ids) NATIVE_CREATE_ORDER" by (auto simp: prefix_def)
  from assms(3) l have q: "list_all positive_op (made ids)" by simp
  from prefix_order_length [OF p] p show ?thesis
    by (simp add: l assms(2) replay_append replay_made [OF p' q] register_next_intent [OF p] roles_in_snoc roles_registrations)
      (simp add: bound_rows_def case_prod_unfold o_def)
qed

text \<open>What holds when the cleanup starts.\<close>

definition replayed :: "rows \<Rightarrow> pyval list \<Rightarrow> string list \<Rightarrow> bool" where
  "replayed es events gone_roles =
     (roles_in ''cleaned'' events = gone_roles \<and> length events \<le> 18 + length gone_roles \<and> fst ` set es \<subseteq> set NATIVE_CREATE_ORDER)"

lemma partly_replayed:
  assumes "partly s" and "list_all positive_op (nv_log s)"
  shows "replay (registrations (nv_log s)) = Inr (registry_of (nv_entries s), registrations (nv_log s))"
    and "replayed (nv_entries s) (registrations (nv_log s)) []" and "distinct (map fst (nv_entries s))"
    and "prefix (map fst (nv_entries s)) NATIVE_CREATE_ORDER"
proof -
  have "replay (registrations (nv_log s)) = Inr (registry_of (nv_entries s), registrations (nv_log s)) \<and>
    roles_in ''cleaned'' (registrations (nv_log s)) = [] \<and> length (registrations (nv_log s)) \<le> 18 \<and>
    prefix (map fst (nv_entries s)) NATIVE_CREATE_ORDER"
    using assms(1) unfolding partly_def
  proof (elim exE disjE)
    fix ids assume c: "created ids s"
    then have p: "prefix (map fst ids) NATIVE_CREATE_ORDER" and l: "nv_log s = made ids" "nv_entries s = bound_rows ids"
      by (simp_all add: created_def)
    from prefix_order_length [OF p] replay_made [OF p] assms(2) p show ?thesis
      by (simp add: l roles_registrations bound_rows_def case_prod_unfold o_def)
  next
    fix ids r assume "announced ids r [] s"
    with announced_replays [of ids r "[]" s] assms(2) show ?thesis by simp
  next
    fix ids r assume "announced ids r [Make r] s"
    with announced_replays [of ids r "[Make r]" s] assms(2) show ?thesis by simp
  qed
  then show "replay (registrations (nv_log s)) = Inr (registry_of (nv_entries s), registrations (nv_log s))"
    and p: "prefix (map fst (nv_entries s)) NATIVE_CREATE_ORDER"
    and "replayed (nv_entries s) (registrations (nv_log s)) []"
    using set_mono_prefix [of "map fst (nv_entries s)" NATIVE_CREATE_ORDER] by (simp_all add: replayed_def)
  obtain zs where "NATIVE_CREATE_ORDER = map fst (nv_entries s) @ zs" using p by (auto simp: prefix_def)
  with distinct_create_order have "distinct (map fst (nv_entries s) @ zs)" by simp
  then show "distinct (map fst (nv_entries s))" by simp
qed

lemma map_of_registry: "map_of (registry_of es) r = map_option (\<lambda>(st, i). event_value r st i) (map_of es r)"
  by (induction es) (auto simp: registry_of_def)

lemma registry_of_delete: "registry_of (AList.delete r es) = filter (\<lambda>(r', _). r' \<noteq> r) (registry_of es)"
  by (induction es) (auto simp: registry_of_def)

lemma clean_order_next:
  assumes "NATIVE_CLEAN_ORDER = before @ r # rs" and "gone_roles = filter (\<lambda>x. x \<in> set gone_roles) before"
  shows "clean_order (gone_roles @ [r])" and "r \<notin> set gone_roles" and "length gone_roles < 9"
    and "gone_roles = filter (\<lambda>x. x \<in> set gone_roles) (before @ [r])"
    and "gone_roles @ [r] = filter (\<lambda>x. x \<in> set (gone_roles @ [r])) (before @ [r])" and "r \<in> set NATIVE_CREATE_ORDER"
proof -
  have d: "distinct (before @ r # rs)" and l: "length (before @ r # rs) = 9" and m: "set (before @ r # rs) = set NATIVE_CREATE_ORDER"
    unfolding assms(1) [symmetric] by (simp_all add: NATIVE_CLEAN_ORDER_def NATIVE_CREATE_ORDER_def insert_commute)
  have sub: "set gone_roles \<subseteq> set before" by (subst assms(2)) auto
  then show r: "r \<notin> set gone_roles" using d by auto
  show "length gone_roles < 9" using l length_filter_le [of "\<lambda>x. x \<in> set gone_roles" before] assms(2) by simp
  show "gone_roles = filter (\<lambda>x. x \<in> set gone_roles) (before @ [r])" using r assms(2) by simp
  have b: "filter (\<lambda>x. x = r \<or> x \<in> set gone_roles) before = gone_roles"
    using d by (subst (2) assms(2), intro filter_cong) auto
  then show "gone_roles @ [r] = filter (\<lambda>x. x \<in> set (gone_roles @ [r])) (before @ [r])" by simp
  have "filter (\<lambda>x. x = r \<or> x \<in> set gone_roles) rs = []"
    using d sub by (auto simp: filter_empty_conv)
  with b show "clean_order (gone_roles @ [r])" by (simp add: clean_order_def assms(1))
  show "r \<in> set NATIVE_CREATE_ORDER" using m by auto
qed

lemma cleans_replays:
  assumes "cleans rs es ops es'" and "NATIVE_CLEAN_ORDER = before @ rs" and "replayed es events gone_roles"
    and "gone_roles = filter (\<lambda>x. x \<in> set gone_roles) before" and "list_all positive_op ops"
  shows "foldE register_object (registry_of es, events) (registrations ops) = Inr (registry_of es', events @ registrations ops)"
  using assms
proof (induction arbitrary: before events gone_roles rule: cleans.induct)
  case (one_role r es ops es' rs ops' es'')
  note order = clean_order_next [OF one_role.prems(1,3)]
  from one_role.prems(4) have pos: "list_all positive_op ops" "list_all positive_op ops'" by simp_all
  have c: "NATIVE_CLEAN_ORDER = (before @ [r]) @ rs" using one_role.prems(1) by simp
  from one_role.hyps(1) show ?case
  proof (cases rule: clean_step.cases)
    case left_alone
    with one_role.IH [OF c _ order(4) pos(2)] one_role.prems(2) show ?thesis by simp
  next
    case (tried i)
    with one_role.IH [OF c _ order(4) pos(2)] one_role.prems(2) show ?thesis by simp
  next
    case (gone i)
    from one_role.prems(2) have roles: "roles_in ''cleaned'' events = gone_roles" and n: "length events < 27"
      using order(3) by (simp_all add: replayed_def)
    have m: "map_of (registry_of es) r = Some (event_value r ''bound'' (Some i))" using gone by (simp add: map_of_registry)
    have step: "register_object (registry_of es, events) (event_value r ''cleaned'' (Some i)) =
        Inr (registry_of es', events @ [event_value r ''cleaned'' (Some i)])"
      using register_cleaned [OF order(6) m n] order(1) pos(1) gone roles by (simp add: registry_of_delete)
    have "replayed es' (events @ [event_value r ''cleaned'' (Some i)]) (gone_roles @ [r])"
      using one_role.prems(2) gone by (auto simp: replayed_def roles_in_snoc keys_delete)
    from one_role.IH [OF c this order(5) pos(2)] step gone show ?thesis by simp
  qed
qed simp

definition announced_roles :: "native_op list \<Rightarrow> string list" where
  "announced_roles ops = roles_in ''intent'' (registrations ops)"

lemma partly_announced:
  assumes "partly s"
  shows "announced_roles (nv_log s) = map fst (nv_entries s)" and "prefix (map fst (nv_entries s)) NATIVE_CREATE_ORDER"
  using assms unfolding partly_def
  by (auto simp: created_def announced_def announced_roles_def roles_registrations roles_in_snoc bound_rows_def case_prod_unfold o_def)

lemma cleans_cleaned: "cleans rs es ops es' \<Longrightarrow> set (cleaned_roles ops) \<subseteq> fst ` set es"
proof (induction rule: cleans.induct)
  case (one_role r es ops es' rs ops' es'')
  from one_role.hyps(1) have "set (cleaned_roles ops) \<subseteq> fst ` set es"
    by (cases rule: clean_step.cases) (auto dest: map_of_SomeD intro: image_eqI [rotated])
  with one_role.IH clean_step_keys [OF one_role.hyps(1)] show ?case by auto
qed simp

lemma subseq_filter_set: "subseq xs zs \<Longrightarrow> distinct zs \<Longrightarrow> filter (\<lambda>x. x \<in> set xs) zs = xs"
proof (induction rule: list_emb.induct)
  case (list_emb_Cons xs ys y)
  from list_emb_Cons.hyps have "set xs \<subseteq> set ys" by (auto dest: list_emb_set)
  with list_emb_Cons show ?case by auto
next
  case (list_emb_Cons2 x y xs ys)
  then have "filter (\<lambda>z. z = y \<or> z \<in> set xs) ys = filter (\<lambda>z. z \<in> set xs) ys" by (intro filter_cong) auto
  with list_emb_Cons2 show ?case by simp
qed simp

lemma subseq_of_rev_prefix:
  assumes "subseq xs (rev zs)" and "prefix ys zs" and "set xs = set ys" and "distinct zs"
  shows "xs = rev ys"
proof -
  from assms(2) have "subseq (rev ys) (rev zs)" by (auto simp: prefix_def)
  with assms subseq_filter_set [of xs "rev zs"] subseq_filter_set [of "rev ys" "rev zs"] show ?thesis by simp
qed

text \<open>A cleanup without errors leaves no entry.\<close>

lemma cleanup_complete:
  assumes p: "partly s" and "native_cleanup t d' register s = (Inr v, s')" and "fld v ''errors'' = PList []"
  shows "nv_entries s' = [] \<and> fld v ''pending'' = PDict [] \<and>
    fld v ''cleaned'' = PList (map PStr (rev (announced_roles (nv_log s))))"
proof -
  from native_cleanup_outcome [OF assms(2)] obtain ops c where o: "cleans NATIVE_CLEAN_ORDER (nv_entries s) ops (nv_entries s')"
    and c: "cl_cleaned c = cleaned_roles ops" "v = native_cleanup_result t c s'"
      "cl_errors c = [] \<longrightarrow> set NATIVE_CLEAN_ORDER \<inter> fst ` set (nv_entries s') = {}" by blast
  have "cl_errors c = []" using assms(3) c(2) by (simp add: native_cleanup_result_def fld_def)
  with c(3) have none: "set NATIVE_CLEAN_ORDER \<inter> fst ` set (nv_entries s') = {}" by simp
  from partly_announced [OF p] have a: "announced_roles (nv_log s) = map fst (nv_entries s)"
    and pre: "prefix (map fst (nv_entries s)) NATIVE_CREATE_ORDER" by auto
  note f = cleans_facts [OF o]
  have sub: "fst ` set (nv_entries s) \<subseteq> set NATIVE_CREATE_ORDER" using set_mono_prefix [OF pre] by simp
  with f none have e: "fst ` set (nv_entries s') = {}" by (auto simp: NATIVE_CLEAN_ORDER_def)
  have "set (cleaned_roles ops) \<subseteq> fst ` set (nv_entries s)" using cleans_cleaned [OF o] .
  with f e have same: "set (cleaned_roles ops) = fst ` set (nv_entries s)" by auto
  have "cleaned_roles ops = rev (map fst (nv_entries s))"
    using f same by (intro subseq_of_rev_prefix [OF _ pre _ distinct_create_order]) (simp_all add: NATIVE_CLEAN_ORDER_def)
  with e a c(1,2) show ?thesis by (simp add: native_cleanup_result_def fld_def)
qed

end
