(* ===== verification/NativeRegistry.thy ===== *)
theory NativeRegistry
  imports NativeProps
begin

text \<open>
  A whole run of the native initializer, an initialization however it went and one cleanup: its
  registrations are accepted by the validator of the channels, and a cleanup without errors is
  complete.  A small concrete kernel shows a run that fails once the first object is bound.
\<close>

subsection \<open>The two properties\<close>

text \<open>
  C5: the registrations of a run are the ones its export is judged by.  Whatever the kernel
  does in an initialization and in the cleanup that follows it, replaying all registrations
  the owner sent in the validator of the channels accepts every one of them, and the registry
  that results is exactly the owner's own list of entries.  The identities the kernel reports
  have to be positive, which is what device and inode numbers are.
\<close>

theorem native_registrations_accepted:
  assumes "native_initialize t d register (native_owner w) = (x, s)" and "native_cleanup t d' register s = (y, s')"
    and "list_all positive_op (nv_log s')"
  shows "replay (registrations (nv_log s')) = Inr (registry_of (nv_entries s'), registrations (nv_log s'))"
proof -
  from native_initialize_partly [OF assms(1)] have p: "partly s" .
  from native_cleanup_outcome [OF assms(2)] obtain ops where o: "nv_log s' = nv_log s @ ops"
    "cleans NATIVE_CLEAN_ORDER (nv_entries s) ops (nv_entries s')" by blast
  from assms(3) o(1) have pos: "list_all positive_op (nv_log s)" "list_all positive_op ops" by simp_all
  note r = partly_replayed [OF p pos(1)]
  from cleans_replays [OF o(2) _ r(2) _ pos(2), of "[]"] show ?thesis
    by (simp add: o(1) replay_append r(1))
qed

text \<open>
  C14: a cleanup without errors is complete.  After any initialization, a cleanup that reports
  no error leaves no entry, and lists as cleaned exactly the objects that were announced, in the
  reverse order.
\<close>

theorem native_cleanup_complete:
  assumes "native_initialize t d register (native_owner w) = (x, s)" and "native_cleanup t d' register s = (Inr v, s')"
    and "fld v ''errors'' = PList []"
  shows "nv_entries s' = [] \<and> fld v ''pending'' = PDict [] \<and>
    fld v ''cleaned'' = PList (map PStr (rev (announced_roles (nv_log s))))"
  by (rule cleanup_complete [OF native_initialize_partly [OF assms(1)] assms(2,3)])

subsection \<open>A kernel\<close>

definition demo_fd :: "string \<Rightarrow> int" where
  "demo_fd name = (if name = ''/'' then 1 else if name = ''r'' then 2 else if name = ''n'' then 3 else if name = ''sys'' then 4
     else if name = ''fs'' then 5 else if name = ''cgroup'' then 6 else if name = ''radishlink-i5-preparation'' then 7
     else if name = ''i'' then 8 else if name = ''cgroup.type'' then 11 else if name = ''cgroup.procs'' then 12
     else if name = ''cgroup.controllers'' then 13 else 14)"
definition demo_stat :: "int \<Rightarrow> stat_info" where
  "demo_stat fd = \<lparr> st_dev = (0, if fd = 8 then 8 else if fd = 7 then 7 else 2), st_ino = fd,
     st_mode = (if fd = 8 then 16749 else if fd < 9 then 16832 else 33060),
     st_uid = 0, st_gid = 0, st_nlink = 1, st_size = 0, st_mtime_ns = 0, st_ctime_ns = 0 \<rparr>"
definition demo_mounts :: string where
  "demo_mounts = ''1 0 0:2 / /r rw,nosuid,nodev,noexec - tmpfs t rw,noswap'' @ nl @
    ''2 0 0:7 / /sys/fs/cgroup/radishlink-i5-preparation rw - cgroup2 c rw'' @ nl @ ''3 0 0:8 / /i ro - squashfs s ro''"
definition demo_sys :: "unit native_sys" where
  "demo_sys = \<lparr> ns_platform = ret ''Linux'', ns_euid = ret 0, ns_clock = ret 0, ns_open = (\<lambda>d n f m. ret (demo_fd n)),
     ns_close = (\<lambda>fd. ret ()), ns_fstat = (\<lambda>fd. ret (demo_stat fd)), ns_stat = (\<lambda>fd n. ret (demo_stat (demo_fd n))),
     ns_listdir = (\<lambda>fd. ret []), ns_read = (\<lambda>fd n. ret (if fd = 11 then ''domain'' else if fd = 12 then [] else ''cpu memory pids'')),
     ns_write = (\<lambda>fd r. ret (length r)), ns_mkdir = (\<lambda>fd n m. ret ()), ns_unlink = (\<lambda>fd n. ret ()), ns_rmdir = (\<lambda>fd n. ret ()),
     ns_statvfs = (\<lambda>fd. ret \<lparr> f_frsize = 1, f_blocks = 1, f_bfree = 1, f_bavail = 1, f_files = 1, f_ffree = 1, f_favail = 1, f_fsid = 1 \<rparr>),
     ns_fstype = (\<lambda>fd. ret (if fd = 2 then NATIVE_TMPFS else if fd = 8 then 0x73717368 else NATIVE_CGROUP2)),
     ns_mounts = ret demo_mounts, ns_uid_idle = (\<lambda>u. ret ()) \<rparr>"
definition demo_init :: "unit native_init" where
  "demo_init = \<lparr> ni_sys = demo_sys, ni_sha = (\<lambda>s. []), ni_contract = \<lparr> ic_nonce = ''n'', ic_manifest = [], ic_root = path_of ''/r/n'',
       ic_input = path_of ''/i'', ic_uid = 1000, ic_gid = 1000 \<rparr>,
     ni_expected = [(''root_parent'', \<lparr> fi_dev = 2, fi_ino = 2, fi_mount = 1 \<rparr>), (''cgroup_root'', \<lparr> fi_dev = 7, fi_ino = 7, fi_mount = 2 \<rparr>),
       (''readonly_input'', \<lparr> fi_dev = 8, fi_ino = 8, fi_mount = 3 \<rparr>)],
     ni_backend = ''injected-offline'', ni_files = [], ni_bytes = 0, ni_files_digest = [] \<rparr>"
definition demo_register :: "pyval \<Rightarrow> (unit, unit) act" where
  "demo_register v = (if fld v ''state'' = PStr ''bound'' then lft (Inl (ValueError ''lost'')) else ret ())"

lemma demo_table: "parse_mounts demo_mounts = Inr [
   \<lparr> m_ident = 1, m_device = ''0:2'', m_root = ''/'', m_path = Path ''/'' [''r''], m_options = {''rw'', ''nosuid'', ''nodev'', ''noexec''},
     m_kind = ''tmpfs'', m_source = ''t'', m_super_options = {''rw'', ''noswap''} \<rparr>,
   \<lparr> m_ident = 2, m_device = ''0:7'', m_root = ''/'', m_path = Path ''/'' [''sys'', ''fs'', ''cgroup'', ''radishlink-i5-preparation''],
     m_options = {''rw''}, m_kind = ''cgroup2'', m_source = ''c'', m_super_options = {''rw''} \<rparr>,
   \<lparr> m_ident = 3, m_device = ''0:8'', m_root = ''/'', m_path = Path ''/'' [''i''], m_options = {''ro''},
     m_kind = ''squashfs'', m_source = ''s'', m_super_options = {''ro''} \<rparr>]"
  by code_simp

lemma demo_nw: "nw (ret v) s = (Inr v, s)" for s :: "unit native"
  by (simp add: nw_def zoom_def)

lemma demo_sys_sel:
  "ns_clock (ni_sys demo_init) = ret 0" "ns_open (ni_sys demo_init) d n f m = ret (demo_fd n)"
  "ns_close (ni_sys demo_init) fd = ret ()" "ns_fstat (ni_sys demo_init) fd = ret (demo_stat fd)"
  "ns_stat (ni_sys demo_init) fd n = ret (demo_stat (demo_fd n))" "ns_listdir (ni_sys demo_init) fd = ret []"
  "ns_mkdir (ni_sys demo_init) fd n m = ret ()" "ns_rmdir (ni_sys demo_init) fd n = ret ()"
  "ns_statvfs (ni_sys demo_init) fd = ret \<lparr> f_frsize = 1, f_blocks = 1, f_bfree = 1, f_bavail = 1, f_files = 1, f_ffree = 1, f_favail = 1, f_fsid = 1 \<rparr>"
  "ns_fstype (ni_sys demo_init) fd = ret (if fd = 2 then NATIVE_TMPFS else if fd = 8 then 0x73717368 else NATIVE_CGROUP2)"
  "ns_read (ni_sys demo_init) fd k = ret (if fd = 11 then ''domain'' else if fd = 12 then [] else ''cpu memory pids'')"
  "ns_mounts (ni_sys demo_init) = ret demo_mounts" "ns_uid_idle (ni_sys demo_init) u = ret ()"
  "ni_files demo_init = []"
  by (simp_all add: demo_init_def demo_sys_def)

lemmas demo_eval = demo_nw demo_sys_sel

lemma demo_tick: "\<not> nv_closed s \<Longrightarrow> native_tick demo_init 1 s = (Inr (), s)"
  by (simp add: native_tick_def andA_def demo_eval)

lemma demo_descend: "\<not> nv_closed s \<Longrightarrow> native_descend demo_init 1 fd names s = (Inr (if names = [] then fd else demo_fd (last names)), s)"
proof (induction names arbitrary: fd)
  case (Cons n names)
  then show ?case by (simp add: on_error_def demo_tick demo_eval)
qed simp

lemma demo_directory: "\<not> nv_closed s \<Longrightarrow>
   native_directory demo_init p 1 s = (Inr (if comps p = [] then 1 else demo_fd (last (comps p))), s)"
  by (simp add: native_directory_def demo_tick demo_descend demo_eval) (simp add: demo_fd_def)

lemma native_demo_paths: "path_of ''/r/n'' = Path ''/'' [''r'', ''n'']" "path_of ''/i'' = Path ''/'' [''i'']"
  "path_of ''/sys/fs/cgroup/radishlink-i5-preparation'' = Path ''/'' [''sys'', ''fs'', ''cgroup'', ''radishlink-i5-preparation'']"
  "path_of ''n'' = Path [] [''n'']"
  by code_simp+

lemma demo_contract:
  "ic_root (ni_contract demo_init) = Path ''/'' [''r'', ''n'']" "ic_input (ni_contract demo_init) = Path ''/'' [''i'']"
  "cgroup_path (ni_contract demo_init) = Path ''/'' [''sys'', ''fs'', ''cgroup'', ''radishlink-i5-preparation'', ''n'']"
  by (simp_all add: demo_init_def cgroup_path_def path_join_def native_demo_paths Let_def is_absolute_def)

lemma demo_mount_paths:
  "prerequisite_path (ni_contract demo_init) ''root_parent'' = Path ''/'' [''r'']"
  "prerequisite_path (ni_contract demo_init) ''cgroup_root'' = Path ''/'' [''sys'', ''fs'', ''cgroup'', ''radishlink-i5-preparation'']"
  "prerequisite_path (ni_contract demo_init) ''readonly_input'' = Path ''/'' [''i'']"
  "native_path (ni_contract demo_init) ''guest_root'' = Path ''/'' [''r'', ''n'']"
  by (simp_all add: prerequisite_path_def demo_contract path_parent_def native_path_def)

definition demo_rows :: "mount list" where
  "demo_rows = (case parse_mounts demo_mounts of Inr ms \<Rightarrow> ms | Inl _ \<Rightarrow> [])"

lemma native_demo_covering:
  "covering demo_rows (Path ''/'' [''r'']) = Inr (demo_rows ! 0)"
  "covering demo_rows (Path ''/'' [''sys'', ''fs'', ''cgroup'', ''radishlink-i5-preparation'']) = Inr (demo_rows ! 1)"
  "covering demo_rows (Path ''/'' [''i'']) = Inr (demo_rows ! 2)"
  by (simp_all add: demo_rows_def demo_table covering_def below_def part_count_def demand_def)

lemma demo_utf8: "utf8_length demo_mounts \<le> 262144"
  by (simp add: utf8_length_def demo_mounts_def code_def)

lemma demo_mount_table: "native_mount_table demo_init s = (Inr (demo_mounts, demo_rows), s)"
  by (simp add: native_mount_table_def demo_eval demo_rows_def demo_table demo_utf8)

definition demo_noted :: "string \<Rightarrow> pyval" where
  "demo_noted role =
     (let n = (if role = ''root_parent'' then 0 else if role = ''cgroup_root'' then 1 else 2);
          fd = (if role = ''root_parent'' then 2 else if role = ''cgroup_root'' then 7 else 8);
          sp = \<lparr> f_frsize = 1, f_blocks = 1, f_bfree = 1, f_bavail = 1, f_files = 1, f_ffree = 1, f_favail = 1, f_fsid = 1 \<rparr>;
          magic = (if fd = 2 then NATIVE_TMPFS else if fd = 8 then 0x73717368 else NATIVE_CGROUP2)
      in prerequisite_value (ni_contract demo_init) role (demo_stat fd) (demo_rows ! n) magic (if n = 1 then None else Some sp))"

lemma demo_line:
  "filter (\<lambda>line. take (Suc 0) (words line) = [show_int 1]) (splitlines demo_mounts) = [''1 0 0:2 / /r rw,nosuid,nodev,noexec - tmpfs t rw,noswap'']"
  "filter (\<lambda>line. take (Suc 0) (words line) = [show_int 2]) (splitlines demo_mounts) = [''2 0 0:7 / /sys/fs/cgroup/radishlink-i5-preparation rw - cgroup2 c rw'']"
  "filter (\<lambda>line. take (Suc 0) (words line) = [show_int 3]) (splitlines demo_mounts) = [''3 0 0:8 / /i ro - squashfs s ro'']"
  by code_simp+

lemma demo_dash:
  "index_of (words ''1 0 0:2 / /r rw,nosuid,nodev,noexec - tmpfs t rw,noswap'') ''-'' = 6"
  "index_of (words ''2 0 0:7 / /sys/fs/cgroup/radishlink-i5-preparation rw - cgroup2 c rw'') ''-'' = 6"
  "index_of (words ''3 0 0:8 / /i ro - squashfs s ro'') ''-'' = 6"
  by code_simp+

lemma demo_dev: "makedev (0, 2) = 2" "makedev (0, 7) = 7" "makedev (0, 8) = 8"
  by (simp_all add: makedev_def)

lemma demo_device: "device_text (0, 2) = ''0:2''" "device_text (0, 7) = ''0:7''" "device_text (0, 8) = ''0:8''"
  by code_simp+

lemma native_demo_expected: "native_key (ni_expected demo_init) ''root_parent'' = Inr \<lparr> fi_dev = 2, fi_ino = 2, fi_mount = 1 \<rparr>"
  "native_key (ni_expected demo_init) ''cgroup_root'' = Inr \<lparr> fi_dev = 7, fi_ino = 7, fi_mount = 2 \<rparr>"
  "native_key (ni_expected demo_init) ''readonly_input'' = Inr \<lparr> fi_dev = 8, fi_ino = 8, fi_mount = 3 \<rparr>"
  by (simp_all add: native_key_def demo_init_def)

lemma demo_kinds:
  "check_domain_kind demo_init ''root_parent'' 2 demo_rows (demo_rows ! 0) (Path ''/'' [''r'']) s =
     (Inr (Some \<lparr> f_frsize = 1, f_blocks = 1, f_bfree = 1, f_bavail = 1, f_files = 1, f_ffree = 1, f_favail = 1, f_fsid = 1 \<rparr>), s)"
  "check_domain_kind demo_init ''cgroup_root'' 7 demo_rows (demo_rows ! Suc 0) p s = (Inr None, s)"
  "check_domain_kind demo_init ''readonly_input'' 8 demo_rows (demo_rows ! 2) (Path ''/'' [''i'']) s =
     (Inr (Some \<lparr> f_frsize = 1, f_blocks = 1, f_bfree = 1, f_bavail = 1, f_files = 1, f_ffree = 1, f_favail = 1, f_fsid = 1 \<rparr>), s)"
  by (simp_all add: check_domain_kind_def Let_def demo_eval andA_def demo_rows_def demo_table NATIVE_ROOT_BYTES_def MIB_def
      NATIVE_ROOT_INODES_def NATIVE_INPUT_FS_def STORAGE_def)

lemma demo_row: "m_ident (demo_rows ! 0) = 1" "m_ident (demo_rows ! Suc 0) = 2" "m_ident (demo_rows ! 2) = 3"
  "m_device (demo_rows ! 0) = ''0:2''" "m_device (demo_rows ! Suc 0) = ''0:7''" "m_device (demo_rows ! 2) = ''0:8''"
  by (simp_all add: demo_rows_def demo_table)

lemma demo_nested:
  "\<not> list_ex (\<lambda>x. m_path x \<noteq> m_path (demo_rows ! 0) \<and> below (m_path x) (Path ''/'' [''r''])) demo_rows"
  "\<not> list_ex (\<lambda>x. m_path x \<noteq> m_path (demo_rows ! Suc 0) \<and>
     below (m_path x) (Path ''/'' [''sys'', ''fs'', ''cgroup'', ''radishlink-i5-preparation''])) demo_rows"
  "\<not> list_ex (\<lambda>x. m_path x \<noteq> m_path (demo_rows ! 2) \<and> below (m_path x) (Path ''/'' [''i''])) demo_rows"
  by (simp_all add: demo_rows_def demo_table below_def)

definition noted :: "string \<Rightarrow> unit native \<Rightarrow> unit native" where
  "noted role s = s\<lparr>nv_prerequisites := AList.update role (demo_noted role) (nv_prerequisites s)\<rparr>"

lemma demo_native_mount:
  "native_mount demo_init ''root_parent'' 2 demo_rows demo_mounts s = (Inr (demo_rows ! 0), noted ''root_parent'' s)"
  "native_mount demo_init ''cgroup_root'' 7 demo_rows demo_mounts s = (Inr (demo_rows ! 1), noted ''cgroup_root'' s)"
  "native_mount demo_init ''readonly_input'' 8 demo_rows demo_mounts s = (Inr (demo_rows ! 2), noted ''readonly_input'' s)"
  by (simp_all add: native_mount_def Let_def demo_mount_paths demo_eval native_demo_expected native_demo_covering inode_key_def demo_stat_def demo_dev
      demo_kinds noted_def demo_noted_def demo_row demo_device demo_line demo_dash demo_nested)


definition demo_started :: "unit native" where
  "demo_started = (native_owner ())\<lparr>nv_started := True\<rparr>"

definition demo_ready :: "unit native" where
  "demo_ready = (noted ''readonly_input'' (noted ''cgroup_root'' (noted ''root_parent'' demo_started)))
     \<lparr>nv_parents := [(''root_parent'', 2), (''cgroup_root'', 7), (''readonly_input'', 8)],
      nv_pseudo := map (\<lambda>(n, i). ((''delegate'', n), (2, i)))
        [(''cgroup.type'', 11), (''cgroup.procs'', 12), (''cgroup.controllers'', 13), (''cgroup.subtree_control'', 14)]\<rparr>"

lemma demo_descriptors: "demo_fd ''r'' = 2" "demo_fd ''n'' = 3" "demo_fd ''radishlink-i5-preparation'' = 7" "demo_fd ''i'' = 8"
  "demo_fd ''cgroup.type'' = 11" "demo_fd ''cgroup.procs'' = 12" "demo_fd ''cgroup.controllers'' = 13" "demo_fd ''cgroup.subtree_control'' = 14"
  by (simp_all add: demo_fd_def)

lemma demo_modes:
  "safe_info (demo_stat 2) False 448 s = (Inr (), s)" "safe_info (demo_stat 7) False 448 s = (Inr (), s)"
  "safe_info (demo_stat 8) False 365 s = (Inr (), s)" "safe_info (demo_stat 3) False 448 s = (Inr (), s)"
  by (simp_all add: safe_info_def demo_stat_def S_IS_def s_imode_def)

lemma demo_keys: "inode_key (demo_stat 2) = (2, 2)" "inode_key (demo_stat 3) = (2, 3)" "inode_key (demo_stat 7) = (7, 7)" "inode_key (demo_stat 8) = (8, 8)"
  "inode_key (demo_stat 11) = (2, 11)" "inode_key (demo_stat 12) = (2, 12)" "inode_key (demo_stat 13) = (2, 13)" "inode_key (demo_stat 14) = (2, 14)"
  by (simp_all add: inode_key_def demo_stat_def demo_dev)

lemma demo_ident: "native_ident demo_init fd s = (Inr (inode_key (demo_stat fd)), s)"
  by (simp add: native_ident_def demo_eval)

lemma noted_sel [simp]: "nv_closed (noted r s) = nv_closed s" "nv_parents (noted r s) = nv_parents s" "nv_entries (noted r s) = nv_entries s"
  "nv_log (noted r s) = nv_log s" "nv_pseudo (noted r s) = nv_pseudo s" "nv_pinned (noted r s) = nv_pinned s"
  by (simp_all add: noted_def)

lemma noted_parents [simp]: "noted r (s\<lparr>nv_parents := ps\<rparr>) = (noted r s)\<lparr>nv_parents := ps\<rparr>"
  by (simp add: noted_def)

lemma demo_pseudo_files: "S_ISREG (demo_stat n) \<and> st_uid (demo_stat n) = 0 \<and> not_shared_writable (demo_stat n)" if "9 \<le> n" for n
  using that by (simp add: demo_stat_def S_IS_def not_shared_writable_def)

definition seen_file :: "string \<Rightarrow> unit native \<Rightarrow> unit native" where
  "seen_file n s = s\<lparr>nv_pseudo := AList.update (''delegate'', n) (inode_key (demo_stat (demo_fd n))) (nv_pseudo s)\<rparr>"

lemma demo_pseudo_read:
  assumes "\<not> nv_closed s" and "map_of (nv_pseudo s) (''delegate'', n) = None" and "9 \<le> demo_fd n"
  shows "pseudo_read demo_init ''delegate'' 7 1 n s =
    (Inr (if demo_fd n = 11 then ''domain'' else if demo_fd n = 12 then [] else ''cpu memory pids''), seen_file n s)"
proof -
  have "strip ''domain'' = ''domain''" "strip [] = []" "strip ''cpu memory pids'' = ''cpu memory pids''"
    "ascii ''domain'' = Inr ''domain''" "ascii [] = Inr []" "ascii ''cpu memory pids'' = Inr ''cpu memory pids''" by code_simp+
  then show ?thesis using assms demo_pseudo_files [OF assms(3)]
    by (simp add: pseudo_read_def demo_tick demo_eval try_finally_def seen_file_def)
qed


definition demo_fd_of :: "string \<Rightarrow> int" where
  "demo_fd_of role = (if role = ''root_parent'' then 2 else if role = ''cgroup_root'' then 7 else 8)"

definition demo_row_of :: "string \<Rightarrow> mount" where
  "demo_row_of role = (if role = ''root_parent'' then demo_rows ! 0 else if role = ''cgroup_root'' then demo_rows ! 1 else demo_rows ! 2)"

lemma demo_prerequisite:
  assumes "\<not> nv_closed s" and "map_of (nv_parents s) role = None" and "role \<in> {''root_parent'', ''cgroup_root'', ''readonly_input''}"
  shows "prerequisite demo_init 1 demo_mounts demo_rows obs role s =
    (Inr (obs @ [(role, demo_row_of role)]), (noted role s)\<lparr>nv_parents := AList.update role (demo_fd_of role) (nv_parents s)\<rparr>)"
  using assms
  by (auto simp: prerequisite_def Let_def demo_directory demo_mount_paths demo_descriptors on_error_def demo_eval demo_modes
      demo_native_mount demo_fd_of_def demo_row_of_def)

lemma demo_words: "words ''cpu memory pids'' = [''cpu'', ''memory'', ''pids'']"
  by code_simp

lemma demo_prerequisites: "native_prerequisites demo_init 1 demo_started = (Inr (), demo_ready)"
proof -
  have u: "\<not> nv_closed demo_started" "nv_parents demo_started = []" "nv_pseudo demo_started = []"
    by (simp_all add: demo_started_def native_owner_def)
  have d: "card {m_device (demo_rows ! 0), m_device (demo_rows ! 1), m_device (demo_rows ! 2)} = 3"
    by (simp add: demo_row)
  show ?thesis
    unfolding native_prerequisites_def
    by (simp add: demo_tick u demo_eval demo_mount_table demo_prerequisite demo_row_of_def demo_fd_of_def d demo_row native_key_def
        andA_def pseudo_words_def demo_pseudo_read demo_descriptors demo_words CONTROLLERS_def seen_file_def demo_keys demo_ready_def)
qed


definition noted_ancestors :: "unit native \<Rightarrow> unit native" where
  "noted_ancestors s = noted ''cgroup_root'' (noted ''root_parent'' s)"

lemma demo_ancestors:
  assumes "\<not> nv_closed s" and "nv_parents s = nv_parents demo_ready"
  shows "check_ancestors demo_init 1 s = (Inr (), noted_ancestors s)"
  using assms
  by (simp add: check_ancestors_def check_ancestor_def demo_mount_table demo_ready_def demo_directory demo_mount_paths demo_descriptors
      try_finally_def native_demo_expected andA_def demo_ident demo_keys demo_eval demo_modes demo_native_mount noted_ancestors_def)

lemma demo_input: "\<exists>v. input_readback demo_init 1 obs demo_ready = (Inr v, demo_ready)"
proof -
  have "walk_depth demo_init = Suc 0" by (simp add: walk_depth_def demo_eval)
  then show ?thesis
    by (simp add: input_readback_def demo_contract demo_directory demo_ready_def demo_started_def native_owner_def demo_descriptors
        try_finally_def demo_eval demo_modes native_key_def demo_ident demo_keys native_names_def)
qed

lemma demo_root_parent: "nv_parents s = nv_parents demo_ready \<Longrightarrow> native_parent ''guest_root'' s = (Inr 2, s)"
  by (simp add: native_parent_def native_key_def demo_ready_def)

lemma demo_root_name: "path_parent (native_path (ni_contract demo_init) ''guest_root'') = Path ''/'' [''r'']"
  "path_name (native_path (ni_contract demo_init) ''guest_root'') = ''n''"
  by (simp_all add: demo_mount_paths path_parent_def path_name_def)

lemma demo_create_parent:
  assumes "\<not> nv_closed s" and "nv_parents s = nv_parents demo_ready"
  shows "create_parent demo_init ''guest_root'' 1 s = (Inr (), s)"
  using assms by (simp add: create_parent_def demo_root_name demo_directory demo_descriptors try_finally_def demo_ident demo_root_parent demo_eval)

lemma demo_make:
  assumes "nv_parents s = nv_parents demo_ready"
  shows "make_object demo_init ''guest_root'' s = (Inr 3, s\<lparr>nv_log := nv_log s @ [Make ''guest_root'']\<rparr>)"
  using assms by (simp add: make_object_def demo_root_parent demo_root_name logged_def is_slot_def demo_eval demo_descriptors)

lemma demo_event: "native_event demo_register r st i s =
    (if st = ''bound'' then Inl (ValueError ''lost'') else Inr (), s\<lparr>nv_log := nv_log s @ [Register r st i]\<rparr>)"
  by (simp add: native_event_def logged_def demo_register_def nw_def zoom_def)

lemma noted_ancestors_sel: "nv_closed (noted_ancestors s) = nv_closed s" "nv_parents (noted_ancestors s) = nv_parents s"
  "nv_entries (noted_ancestors s) = nv_entries s" "nv_log (noted_ancestors s) = nv_log s" "nv_pinned (noted_ancestors s) = nv_pinned s"
  by (simp_all add: noted_ancestors_def)

lemma demo_create:
  assumes "\<not> nv_closed s" and "nv_parents s = nv_parents demo_ready" and "nv_entries s = []" "nv_log s = []" "nv_pinned s = []"
  shows "\<exists>s'. native_create demo_init 1 demo_register ''guest_root'' s = (Inl (ValueError ''lost''), s') \<and>
     \<not> nv_closed s' \<and> nv_parents s' = nv_parents demo_ready \<and> nv_pinned s' = [(''guest_root'', 3)] \<and>
     nv_entries s' = [(''guest_root'', ''bound'', Some (2, 3))] \<and> nv_log s' = made [(''guest_root'', 2, 3)]"
  using assms
  by (simp add: native_create_def demo_tick demo_ancestors demo_create_parent put_entry_def demo_event noted_ancestors_sel demo_make
      demo_eval is_slot_def demo_modes demo_keys made_def)

lemma eachA_first: "xs = r # rs \<Longrightarrow> f r s = (Inl e, t) \<Longrightarrow> eachA f xs s = (Inl e, t)"
  by simp

lemma initialize_fails:
  assumes "\<not> nv_started s" and "native_prerequisites t d (s\<lparr>nv_started := True\<rparr>) = (Inr (), s1)"
    and "input_readback t d ''preexisting-observer'' s1 = (Inr v, s2)"
    and "eachA (native_create t d register) NATIVE_CREATE_ORDER (s2\<lparr>nv_observations := AList.update ''readonly_input''
       \<lparr> ob_before = v, ob_after = with_observer ''creator'' v, ob_readback = PNone \<rparr> (nv_observations s2)\<rparr>) = (Inl e, s3)"
  shows "native_initialize t d register s = (Inl e, s3)"
  using assms by (simp add: native_initialize_def)

lemma demo_initialize:
  "\<exists>s. native_initialize demo_init 1 demo_register (native_owner ()) = (Inl (ValueError ''lost''), s) \<and>
     \<not> nv_closed s \<and> nv_parents s = nv_parents demo_ready \<and> nv_pinned s = [(''guest_root'', 3)] \<and>
     nv_entries s = [(''guest_root'', ''bound'', Some (2, 3))] \<and> nv_log s = made [(''guest_root'', 2, 3)]"
proof -
  obtain v where v: "input_readback demo_init 1 ''preexisting-observer'' demo_ready = (Inr v, demo_ready)"
    using demo_input by blast
  have u: "\<not> nv_started (native_owner ())" "(native_owner ())\<lparr>nv_started := True\<rparr> = demo_started"
    by (simp_all add: native_owner_def demo_started_def)
  define s where "s = demo_ready\<lparr>nv_observations := AList.update ''readonly_input''
       \<lparr> ob_before = v, ob_after = with_observer ''creator'' v, ob_readback = PNone \<rparr> (nv_observations demo_ready)\<rparr>"
  have "\<not> nv_closed s" "nv_parents s = nv_parents demo_ready" "nv_entries s = []" "nv_log s = []" "nv_pinned s = []"
    by (simp_all add: s_def demo_ready_def demo_started_def native_owner_def)
  from demo_create [OF this] obtain s' where c: "native_create demo_init 1 demo_register ''guest_root'' s = (Inl (ValueError ''lost''), s')"
    and s': "\<not> nv_closed s'" "nv_parents s' = nv_parents demo_ready" "nv_pinned s' = [(''guest_root'', 3)]"
      "nv_entries s' = [(''guest_root'', ''bound'', Some (2, 3))]" "nv_log s' = made [(''guest_root'', 2, 3)]" by blast
  have e: "eachA (native_create demo_init 1 demo_register) NATIVE_CREATE_ORDER s = (Inl (ValueError ''lost''), s')"
    by (rule eachA_first [where f = "native_create demo_init 1 demo_register", OF NATIVE_CREATE_ORDER_def c])
  have p: "native_prerequisites demo_init 1 ((native_owner ())\<lparr>nv_started := True\<rparr>) = (Inr (), demo_ready)"
    unfolding u(2) by (rule demo_prerequisites)
  have "native_initialize demo_init 1 demo_register (native_owner ()) = (Inl (ValueError ''lost''), s')"
    by (rule initialize_fails [OF u(1) p v e [unfolded s_def]])
  with s' show ?thesis by blast
qed


subsection \<open>Its cleanup\<close>

lemma demo_pin:
  assumes "nv_pinned s = [(''guest_root'', 3)]" and "nv_entries s = [(''guest_root'', ''bound'', Some (2, 3))]"
  shows "check_pin demo_init ''guest_root'' 3 s = (Inr (demo_stat 3), s)"
  using assms by (simp add: check_pin_def demo_eval native_key_def andA_def demo_ident demo_keys)

lemma demo_open_root:
  assumes "\<not> nv_closed s" and "nv_parents s = nv_parents demo_ready"
    and "nv_pinned s = [(''guest_root'', 3)]" and "nv_entries s = [(''guest_root'', ''bound'', Some (2, 3))]"
  shows "open_role demo_init ''guest_root'' 1 s = (Inr 3, noted_ancestors s)"
  using assms
  by (simp add: open_role_def Let_def demo_ancestors noted_ancestors_sel demo_directory demo_root_name demo_descriptors try_finally_def
      demo_ident demo_root_parent demo_eval on_error_def demo_pin)

lemma demo_remove:
  assumes "nv_parents s = nv_parents demo_ready"
  shows "remove_object demo_init ''guest_root'' (Some (2, 3)) s = (Inr (), s\<lparr>nv_log := nv_log s @ [Remove ''guest_root'' (2, 3)]\<rparr>)"
  using assms
  by (simp add: remove_object_def Let_def demo_root_parent demo_root_name demo_eval demo_descriptors demo_keys logged_def is_slot_def)

lemma demo_removing:
  assumes "\<not> nv_closed s" and "nv_parents s = nv_parents demo_ready"
    and "nv_pinned s = [(''guest_root'', 3)]" and "nv_entries s = [(''guest_root'', ''bound'', Some (2, 3))]"
  shows "removing demo_init 1 ''guest_root'' (''bound'', Some (2, 3)) s =
    (Inr (), (noted_ancestors s)\<lparr>nv_log := nv_log s @ [Remove ''guest_root'' (2, 3)]\<rparr>)"
  using assms
  by (simp add: removing_def demo_tick demo_open_root try_finally_def cleanup_checked_def noted_ancestors_sel demo_pin is_slot_def
      demo_modes native_names_def demo_eval demo_remove startswith_def)

lemma barrier_role_absent: "map_of (nv_entries s) r = None \<or> \<not> startswith r ''cgroup_'' \<Longrightarrow> barrier_role t d r s = (Inr (), s)"
  by (auto simp: barrier_role_def)

lemma demo_cleanup:
  assumes "\<not> nv_closed s" and "nv_parents s = nv_parents demo_ready"
    and "nv_pinned s = [(''guest_root'', 3)]" and "nv_entries s = [(''guest_root'', ''bound'', Some (2, 3))]"
  shows "\<exists>v s'. native_cleanup demo_init 1 demo_register s = (Inr v, s') \<and> fld v ''errors'' = PList [] \<and>
    nv_log s' = nv_log s @ [Remove ''guest_root'' (2, 3), Register ''guest_root'' ''cleaned'' (Some (2, 3))]"
proof -
  have b: "trial (cleanup_barrier demo_init 1) s = (Inr (Inr ()), noted_ancestors s)"
    using assms by (simp add: trial_def handle_if_def cleanup_barrier_def whenA_def demo_ancestors noted_ancestors_sel
        NATIVE_CREATE_ORDER_def barrier_role_absent startswith_def)
  show ?thesis
    using assms
    by (simp add: native_cleanup_def b NATIVE_CLEAN_ORDER_def NATIVE_CREATE_ORDER_def cleanup_role_def noted_ancestors_sel
        cleanup_attempt_removing handle_if_def zoom_def demo_removing forget_object_def Let_def native_key_def demo_eval demo_event
        native_cleanup_result_def fld_def)
qed


theorem native_registrations_accepted_witness:
  "\<exists>x s y s'. native_initialize demo_init 1 demo_register (native_owner ()) = (x, s) \<and>
     native_cleanup demo_init 1 demo_register s = (y, s') \<and> length (registrations (nv_log s')) = 3 \<and>
     replay (registrations (nv_log s')) = Inr (registry_of (nv_entries s'), registrations (nv_log s'))"
proof -
  obtain x s where s: "native_initialize demo_init 1 demo_register (native_owner ()) = (x, s)" "\<not> nv_closed s"
    "nv_parents s = nv_parents demo_ready" "nv_pinned s = [(''guest_root'', 3)]"
    "nv_entries s = [(''guest_root'', ''bound'', Some (2, 3))]" "nv_log s = made [(''guest_root'', 2, 3)]"
    using demo_initialize by blast
  obtain v s' where c: "native_cleanup demo_init 1 demo_register s = (Inr v, s')"
    "nv_log s' = nv_log s @ [Remove ''guest_root'' (2, 3), Register ''guest_root'' ''cleaned'' (Some (2, 3))]"
    using demo_cleanup [OF s(2-5)] by blast
  have "list_all positive_op (nv_log s')" "length (registrations (nv_log s')) = 3" by (simp_all add: c(2) s(6) made_def)
  with s(1) c(1) native_registrations_accepted [OF s(1) c(1)] show ?thesis by blast
qed

theorem native_cleanup_complete_witness:
  "\<exists>x s v s'. native_initialize demo_init 1 demo_register (native_owner ()) = (x, s) \<and>
     native_cleanup demo_init 1 demo_register s = (Inr v, s') \<and> nv_entries s \<noteq> [] \<and> nv_entries s' = [] \<and>
     fld v ''cleaned'' = PList [PStr ''guest_root'']"
proof -
  obtain x s where s: "native_initialize demo_init 1 demo_register (native_owner ()) = (x, s)" "\<not> nv_closed s"
    "nv_parents s = nv_parents demo_ready" "nv_pinned s = [(''guest_root'', 3)]"
    "nv_entries s = [(''guest_root'', ''bound'', Some (2, 3))]" "nv_log s = made [(''guest_root'', 2, 3)]"
    using demo_initialize by blast
  obtain v s' where c: "native_cleanup demo_init 1 demo_register s = (Inr v, s')" "fld v ''errors'' = PList []"
    using demo_cleanup [OF s(2-5)] by blast
  have "announced_roles (nv_log s) = [''guest_root'']" by (simp add: s(6) made_def announced_roles_def roles_in_def)
  with native_cleanup_complete [OF s(1) c] s(1,5) c(1) show ?thesis by (intro exI conjI) (assumption | simp)+
qed

end
