(* ===== verification/Synthetic.thy ===== *)
theory Synthetic
  imports LifecycleRun NativeRun Plan
begin

text \<open>
  The synthetic initialization (\<open>sw_i5_preparation_initialization.py\<close>): the snapshot that binds
  a reviewed plan, its ledger, the source and a mapped guest tree, and the operations of
  \<open>MappedSyntheticGuest\<close> on that tree.  The worker that calls them is in \<open>SyntheticWorker\<close>.
\<close>

subsection \<open>Environment\<close>

text \<open>The kernel of the evidence store with two more calls, the process calls, and SHA-256.\<close>

record 'w synth_env =
  ye_kernel :: "'w store_kernel"
  ye_proc :: "'w proc"
  ye_getgid :: "('w, int) act"
  ye_rmdir :: "int \<Rightarrow> string \<Rightarrow> ('w, unit) act"
  ye_dig :: "string \<Rightarrow> string"

text \<open>
  \<open>directory\<close>: the descent from the root, one component at a time without following links.
  The descriptor that is open when a step fails is closed.
\<close>

fun synth_descend :: "'w store_kernel \<Rightarrow> int \<Rightarrow> string list \<Rightarrow> ('w, int) act" where
  "synth_descend k fd [] = ret fd"
| "synth_descend k fd (name # names) =
     bnd (on_error
       (bnd (k_open_at k fd name dir_flags) (\<lambda>child. sqn (k_close k fd) (ret child)))
       (k_close k fd)) (\<lambda>child.
     synth_descend k child names)"

text \<open>A constraint that is not given is not checked.\<close>

definition wanted :: "'a option \<Rightarrow> 'a \<Rightarrow> bool" where
  "wanted x y = (case x of None \<Rightarrow> True | Some z \<Rightarrow> y = z)"

definition synth_directory ::
    "'w synth_env \<Rightarrow> path \<Rightarrow> int option \<Rightarrow> int option \<Rightarrow> nat option \<Rightarrow> ('w, int) act" where
  "synth_directory e p uid gid mode =
     (let k = ye_kernel e in
      sqn (ensure (is_absolute p \<and> ''..'' \<notin> set (comps p)) ''canonical initialization path'') (
      bnd (k_open k (path_of ''/'') [''RDONLY'', ''DIRECTORY'', ''CLOEXEC'']) (\<lambda>top_fd.
      bnd (synth_descend k top_fd (comps p)) (\<lambda>fd.
      on_error
        (bnd (k_fstat k fd) (\<lambda>info.
         sqn (ensure (wanted uid (st_uid info) \<and> wanted gid (st_gid info) \<and> wanted mode (s_imode info))
                ''initialization directory ownership/mode'') (
         ret fd)))
        (k_close k fd)))))"

definition plain_directory :: "'w synth_env \<Rightarrow> path \<Rightarrow> ('w, int) act" where
  "plain_directory e p = synth_directory e p None None None"

text \<open>\<open>identity(os.fstat(fd))\<close>.\<close>

definition fd_identity :: "'w synth_env \<Rightarrow> int \<Rightarrow> ('w, int \<times> int) act" where
  "fd_identity e fd = bnd (k_fstat (ye_kernel e) fd) (\<lambda>info. ret (inode_key info))"

subsection \<open>The bound snapshot\<close>

record synthetic =
  sy_plan :: string
  sy_ledger :: string
  sy_source :: string
  sy_root :: string
  sy_input :: string
  sy_value :: pyval
  sy_limit :: nat

fun disjoint_paths :: "path list \<Rightarrow> bool" where
  "disjoint_paths [] = True"
| "disjoint_paths (left # rest) = (list_all (\<lambda>right. \<not> below left right \<and> \<not> below right left) rest \<and> disjoint_paths rest)"

text \<open>\<open>__init__\<close>; the backend is given by its two paths, which are all that \<open>snapshot\<close> keeps of it.\<close>

definition synthetic_init ::
    "(string \<Rightarrow> string) \<Rightarrow> string \<Rightarrow> string \<Rightarrow> string \<Rightarrow> string \<Rightarrow> string \<Rightarrow> synthetic res" where
  "synthetic_init dig plan_raw ledger_raw src base_path input_path =
     bindE (plan_decode plan_raw ''i5-review-initialization'') (\<lambda>declaration.
     bindE (item declaration ''nonce'') (\<lambda>nonce. bindE (item declaration ''manifest_sha256'') (\<lambda>manifest.
     bindE (review dig plan_raw ledger_raw nonce manifest) (\<lambda>reviewed.
     bindE (plan_decode ledger_raw ''capacity'') (\<lambda>ledger.
     require (fld declaration ''kind'' = PStr ''synthetic'' \<and> fld ledger ''kind'' = PStr ''synthetic'' \<and> truthy (fld reviewed ''review_passed''))
       ''synthetic initialization requires complete offline review; no execution authority'' (
     require (pyeq (fld declaration ''jxa_source'') (payload_fingerprint (hexdigest dig) src)) ''initialization exact JXA source binding'' (
     bindE (mapE (\<lambda>v. lexical v ''synthetic backend'')
       [PStr base_path, PStr input_path, fld declaration ''host_jxa_root'', fld declaration ''host_evidence_parent'']) (\<lambda>paths.
     require (disjoint_paths paths) ''mapped synthetic paths overlap host evidence/source/input'' (
     Inr \<lparr> sy_plan = plan_raw, sy_ledger = ledger_raw, sy_source = src, sy_root = base_path, sy_input = input_path,
           sy_value = declaration, sy_limit = assembled_source_bound (length src) \<rparr>)))))))))"

definition synthetic_snapshot :: "(string \<Rightarrow> string) \<Rightarrow> synthetic \<Rightarrow> synthetic res" where
  "synthetic_snapshot dig c = synthetic_init dig (sy_plan c) (sy_ledger c) (sy_source c) (sy_root c) (sy_input c)"

definition synthetic_facts :: "(string \<Rightarrow> string) \<Rightarrow> synthetic \<Rightarrow> (string \<times> pyval) list" where
  "synthetic_facts dig c =
     [(''schema_version'', PInt 1), (''scope'', PStr ''i5-synthetic-initialization''), (''kind'', PStr ''synthetic''), (''uuid'', PStr UUID),
      (''nonce'', fld (sy_value c) ''nonce''), (''manifest_sha256'', fld (sy_value c) ''manifest_sha256''),
      (''plan_sha256'', PStr (hexdigest dig (sy_plan c))), (''ledger_sha256'', PStr (hexdigest dig (sy_ledger c))),
      (''source_sha256'', PStr (hexdigest dig (sy_source c))), (''host_ready'', PBool False), (''guest_ready'', PBool False),
      (''guest_cleanup'', PStr ''not-attempted''), (''host_cleanup'', PStr ''not-attempted''), (''objects'', PDict []),
      (''registry_sha256'', PStr (hexdigest dig [])), (''registrations'', PInt 0), (''pending'', PInt 0), (''pending_objects'', PDict []),
      (''authorized'', PBool False), (''install_authorized'', PBool False), (''physical_verified'', PBool False), (''i5_ready'', PBool False)]"

text \<open>What the lifecycle owner reads of the snapshot.\<close>

definition synthetic_setup :: "(string \<Rightarrow> string) \<Rightarrow> synthetic \<Rightarrow> setup_plan" where
  "synthetic_setup dig c =
     \<lparr> in_facts = synthetic_facts dig c, in_roles = set (map fst (dict_of (fld (sy_value c) ''objects''))),
       in_root = str_of (fld (sy_value c) ''host_jxa_root''), in_source_limit = sy_limit c, in_source = sy_source c,
       in_source_sha256 = fld (fld (sy_value c) ''jxa_source'') ''sha256'', in_nonce = fld (sy_value c) ''nonce'',
       in_manifest = fld (sy_value c) ''manifest_sha256'', in_parent = str_of (fld (sy_value c) ''host_evidence_parent'') \<rparr>"

subsection \<open>The mapped guest\<close>

definition MAPPED_NAMES :: "(string \<times> string) list" where
  "MAPPED_NAMES = [(''guest_root'', ''guest''), (''work'', ''guest/work''), (''result'', ''guest/result''), (''control'', ''guest/control''),
     (''lease'', ''guest/control/lease.slot''), (''ack'', ''guest/control/ack.slot''), (''cgroup_parent'', ''cgroup''),
     (''cgroup_supervisor'', ''cgroup/supervisor''), (''cgroup_worker'', ''cgroup/worker'')]"

definition mapped_path :: "synthetic \<Rightarrow> string \<Rightarrow> path res" where
  "mapped_path c role =
     (if role = ''readonly_input'' then Inr (path_of (sy_input c))
      else case map_of MAPPED_NAMES role of None \<Rightarrow> Inl (ValueError ''fixed synthetic guest role'')
        | Some name \<Rightarrow> Inr (path_join (path_of (sy_root c)) name))"

type_synonym limit_key = "string \<times> string"

record 'w mapped =
  mp_world :: 'w
  mp_metadata :: "(string \<times> pyval) list"
  mp_limits :: "(limit_key \<times> int \<times> int) list"
  mp_pinned :: "(string \<times> int) list"
  mp_limit_fds :: "(limit_key \<times> int) list"

definition mp :: "('w, 'a) act \<Rightarrow> (('w, 'x) mapped_scheme, 'a) act" where
  "mp m = zoom mp_world (\<lambda>f s. s\<lparr>mp_world := f (mp_world s)\<rparr>) m"

definition pin_role :: "string \<Rightarrow> int \<Rightarrow> (('w, 'x) mapped_scheme, unit) act" where
  "pin_role role fd = upd (\<lambda>s. s\<lparr>mp_pinned := AList.update role fd (mp_pinned s)\<rparr>)"

definition note_spec :: "string \<Rightarrow> pyval \<Rightarrow> (('w, 'x) mapped_scheme, unit) act" where
  "note_spec role spec = upd (\<lambda>s. s\<lparr>mp_metadata := AList.update role spec (mp_metadata s)\<rparr>)"

definition pinned_fd :: "string \<Rightarrow> (('w, 'x) mapped_scheme, int) act" where
  "pinned_fd role = bnd (get mp_pinned) (\<lambda>ps. lft (native_key ps role))"

definition is_regular :: "pyval \<Rightarrow> bool" where
  "is_regular spec = (fld spec ''kind'' = PStr ''regular'')"

definition mapped_create :: "'w synth_env \<Rightarrow> synthetic \<Rightarrow> string \<Rightarrow> pyval \<Rightarrow> (('w, 'x) mapped_scheme, int \<times> int) act" where
  "mapped_create e c role spec =
     (let k = ye_kernel e in
      bnd (lft (mapped_path c role)) (\<lambda>p.
      bnd (mp (plain_directory e (path_parent p))) (\<lambda>fd.
      try_finally
        (if is_regular spec then
           bnd (mp (k_open_at k fd (path_name p) create_flags)) (\<lambda>stream.
           sqn (pin_role role stream) (sqn (note_spec role spec) (mp (fd_identity e stream))))
         else
           sqn (mp (k_mkdir_at k fd (path_name p))) (
           sqn (note_spec role spec) (
           bnd (mp (k_open_at k fd (path_name p) dir_flags)) (\<lambda>opened.
           sqn (pin_role role opened) (
           bnd (mp (k_stat_at k fd (path_name p))) (\<lambda>info. ret (inode_key info)))))))
        (mp (k_close k fd)))))"

text \<open>The limits of a cgroup role, as the plan declares them.\<close>

definition spec_limits :: "pyval \<Rightarrow> (string \<times> string) list" where
  "spec_limits spec = map (\<lambda>(name, v). (name, str_of v)) (dict_of (fld spec ''limits''))"

definition write_limit :: "'w synth_env \<Rightarrow> string \<Rightarrow> int \<Rightarrow> string \<times> string \<Rightarrow> (('w, 'x) mapped_scheme, unit) act" where
  "write_limit e role folder = (\<lambda>(name, text).
     let k = ye_kernel e in
     bnd (mp (k_open_at k folder name create_flags)) (\<lambda>fd.
     bnd (mp (fd_identity e fd)) (\<lambda>ident.
     sqn (upd (\<lambda>s. s\<lparr>mp_limits := AList.update (role, name) ident (mp_limits s)\<rparr>)) (
     sqn (upd (\<lambda>s. s\<lparr>mp_limit_fds := AList.update (role, name) fd (mp_limit_fds s)\<rparr>)) (
     bnd (mp (k_write k fd (utf8_encode text))) (\<lambda>n. ensure (n = length text) ''short synthetic cgroup write''))))))"

definition populate_slot :: "'w synth_env \<Rightarrow> int \<Rightarrow> path \<Rightarrow> int \<times> int \<Rightarrow> (('w, 'x) mapped_scheme, unit) act" where
  "populate_slot e dirfd p expected =
     (let k = ye_kernel e in
      bnd (mp (fd_identity e dirfd)) (\<lambda>i. bnd (pinned_fd ''control'') (\<lambda>control. bnd (mp (fd_identity e control)) (\<lambda>j.
      sqn (ensure (i = j) ''synthetic control directory replaced'') (
      bnd (mp (k_open_at k dirfd (path_name p) [''WRONLY'', ''NOFOLLOW'', ''CLOEXEC''])) (\<lambda>fd.
      try_finally
        (bnd (mp (fd_identity e fd)) (\<lambda>i.
         sqn (ensure (i = expected) ''synthetic slot changed before write'') (
         bnd (mp (k_write k fd (zeros 1024))) (\<lambda>n. ensure (n = 1024) ''short synthetic control slot write''))))
        (mp (k_close k fd))))))))"

definition mapped_populate :: "'w synth_env \<Rightarrow> synthetic \<Rightarrow> string \<Rightarrow> pyval \<Rightarrow> int \<times> int \<Rightarrow> (('w, 'x) mapped_scheme, unit) act" where
  "mapped_populate e c role spec expected =
     (let k = ye_kernel e in
      bnd (lft (mapped_path c role)) (\<lambda>p.
      if is_regular spec then
        bnd (mp (plain_directory e (path_parent p))) (\<lambda>dirfd.
        try_finally (populate_slot e dirfd p expected) (mp (k_close k dirfd)))
      else if startswith role ''cgroup_'' then
        bnd (mp (plain_directory e p)) (\<lambda>folder.
        try_finally
          (bnd (andA (bnd (mp (fd_identity e folder)) (\<lambda>i. ret (i = expected)))
                  (bnd (pinned_fd role) (\<lambda>pinned. bnd (mp (fd_identity e pinned)) (\<lambda>i. ret (expected = i))))) (\<lambda>same.
           sqn (ensure same ''synthetic cgroup directory replaced'') (
           eachA (write_limit e role folder) (spec_limits spec))))
          (mp (k_close k folder)))
      else ret ()))"

subsection \<open>Reading a mapped object back\<close>

definition slot_readback :: "'w synth_env \<Rightarrow> int \<Rightarrow> stat_info \<Rightarrow> path \<Rightarrow> bool \<Rightarrow> ('w, unit) act" where
  "slot_readback e fd info p initial =
     (let k = ye_kernel e in
      bnd (k_fstat k fd) (\<lambda>dir.
      bnd (read_evidence_file k fd dir (path_name p) 1024) (\<lambda>raw.
      ensure (st_nlink info = 1 \<and> length raw = 1024 \<and> (\<not> initial \<or> raw = zeros 1024)) ''synthetic slot readback'')))"

definition synthetic_input_readback :: "'w synth_env \<Rightarrow> int \<Rightarrow> stat_info \<Rightarrow> pyval \<Rightarrow> ('w, unit) act" where
  "synthetic_input_readback e fd info spec =
     (let k = ye_kernel e in
      bnd (k_listdir k fd) (\<lambda>names.
      sqn (ensure (set names = {''payload.bin''}) ''fixed synthetic input tree'') (
      bnd (read_evidence_file k fd info ''payload.bin'' (the (map_of STORAGE ''input''))) (\<lambda>raw.
      ensure (pyeq (payload_fingerprint (hexdigest (ye_dig e)) raw)
                (PDict [(''bytes'', fld spec ''bytes''), (''sha256'', fld spec ''sha256'')])) ''readonly input bytes changed''))))"

definition mapped_children :: "'w synth_env \<Rightarrow> int \<Rightarrow> ('w, string list) act" where
  "mapped_children e fd =
     bnd (k_listdir (ye_kernel e) fd) (\<lambda>names.
     bnd (mapA (\<lambda>n. bnd (k_stat_at (ye_kernel e) fd n) (\<lambda>i. ret (n, S_ISDIR i))) names) (\<lambda>kinds.
     ret (sort (map fst (filter snd kinds)))))"

text \<open>The limits are read back from the files; population and events are the constants of the simulation.\<close>

definition mapped_cgroup :: "pyval \<Rightarrow> stat_info \<Rightarrow> string \<Rightarrow> (string \<times> string) list \<Rightarrow> string list \<Rightarrow> cgroup_state" where
  "mapped_cgroup spec info kind limits children =
     \<lparr> cs_path = str_of (fld spec ''path''), cs_identity = inode_key info, cs_type = ''domain'', cs_procs = [],
       cs_children = children, cs_subtree = (if kind = ''parent'' then ''cpu memory pids'' else []), cs_limits = limits,
       cs_events = [(''populated'', 0), (''frozen'', 0)],
       cs_memory_events = [(''max'', 0), (''oom'', 0), (''oom_kill'', 0), (''oom_group_kill'', 0)], cs_pids_events = [(''max'', 0)] \<rparr>"

definition mapped_group_readback :: "'w synth_env \<Rightarrow> int \<Rightarrow> stat_info \<Rightarrow> string \<Rightarrow> pyval \<Rightarrow> ('w, unit) act" where
  "mapped_group_readback e fd info role spec =
     (let kind = removeprefix role ''cgroup_'' in
      bnd (lft (native_key LIMITS kind)) (\<lambda>wanted_limits.
      bnd (mapA (\<lambda>(name, _). bnd (read_evidence_file (ye_kernel e) fd info name 64) (\<lambda>raw.
             bnd (lft (utf8 raw)) (\<lambda>t. ret (name, t)))) wanted_limits) (\<lambda>limits.
      bnd (mapped_children e fd) (\<lambda>children.
      lft (verify_cgroup (mapped_cgroup spec info kind limits children) kind)))))"

definition mapped_object_ok :: "'w synth_env \<Rightarrow> stat_info \<Rightarrow> pyval \<Rightarrow> ('w, bool) act" where
  "mapped_object_ok e info spec =
     bnd (k_getuid (ye_kernel e)) (\<lambda>uid.
     andA (ret (st_uid info = uid)) (bnd (ye_getgid e) (\<lambda>gid.
     ret (st_gid info = gid \<and> s_imode info = (if is_regular spec then 384 else 448)))))"

definition object_type_ok :: "stat_info \<Rightarrow> pyval \<Rightarrow> bool" where
  "object_type_ok info spec = (if is_regular spec then S_ISREG info else S_ISDIR info)"

definition mapped_readback :: "'w synth_env \<Rightarrow> synthetic \<Rightarrow> string \<Rightarrow> pyval \<Rightarrow> bool \<Rightarrow> ('w, int \<times> int) act" where
  "mapped_readback e c role spec initial =
     (let k = ye_kernel e in
      bnd (lft (mapped_path c role)) (\<lambda>p.
      bnd (plain_directory e (if is_regular spec then path_parent p else p)) (\<lambda>fd.
      try_finally
        (bnd (if is_regular spec then k_stat_at k fd (path_name p) else k_fstat k fd) (\<lambda>info.
         bnd (mapped_object_ok e info spec) (\<lambda>safe.
         sqn (ensure safe ''unsafe mapped synthetic object'') (
         sqn (ensure (object_type_ok info spec) ''synthetic object type'') (
         sqn (whenA (is_regular spec) (slot_readback e fd info p initial)) (
         sqn (whenA (role = ''readonly_input'') (synthetic_input_readback e fd info spec)) (
         sqn (whenA (startswith role ''cgroup_'') (mapped_group_readback e fd info role spec)) (
         ret (inode_key info)))))))))
        (k_close k fd))))"

subsection \<open>Removing a mapped object\<close>

text \<open>The looks before anything is removed: the name, and the pinned descriptor behind it.\<close>

definition removal_identity :: "'w synth_env \<Rightarrow> string \<Rightarrow> pyval \<Rightarrow> stat_info \<Rightarrow> int \<times> int \<Rightarrow> (('w, 'x) mapped_scheme, bool) act" where
  "removal_identity e role spec info expected =
     andA (ret (inode_key info = expected)) (
     andA (bnd (mp (k_getuid (ye_kernel e))) (\<lambda>uid. ret (st_uid info = uid))) (
     bnd (get mp_pinned) (\<lambda>ps. case map_of ps role of None \<Rightarrow> ret False | Some fd \<Rightarrow>
     bnd (mp (fd_identity e fd)) (\<lambda>i. ret (i = expected \<and> object_type_ok info spec)))))"

definition check_limit :: "'w synth_env \<Rightarrow> string \<Rightarrow> int \<Rightarrow> string \<Rightarrow> (('w, 'x) mapped_scheme, unit) act" where
  "check_limit e role folder name =
     bnd (mp (k_stat_at (ye_kernel e) folder name)) (\<lambda>entry.
     bnd (get mp_limits) (\<lambda>limits.
     bnd (andA (ret (map_of limits (role, name) = Some (inode_key entry) \<and> S_ISREG entry \<and> st_nlink entry = 1))
            (bnd (mp (k_getuid (ye_kernel e))) (\<lambda>uid. ret (st_uid entry = uid)))) (\<lambda>same.
     ensure same ''synthetic cgroup limit replaced'')))"

definition remove_limit :: "'w synth_env \<Rightarrow> string \<Rightarrow> int \<Rightarrow> string \<Rightarrow> (('w, 'x) mapped_scheme, unit) act" where
  "remove_limit e role folder name =
     sqn (mp (k_unlink_at (ye_kernel e) folder name)) (
     bnd (get mp_limit_fds) (\<lambda>fds. case map_of fds (role, name) of
       None \<Rightarrow> lft (Inl (KeyError (role @ '', '' @ name)))
     | Some fd \<Rightarrow> sqn (upd (\<lambda>s. s\<lparr>mp_limit_fds := AList.delete (role, name) (mp_limit_fds s)\<rparr>)) (mp (k_close (ye_kernel e) fd))))"

definition remove_limits :: "'w synth_env \<Rightarrow> path \<Rightarrow> string \<Rightarrow> pyval \<Rightarrow> (('w, 'x) mapped_scheme, unit) act" where
  "remove_limits e p role spec =
     (let names = map fst (spec_limits spec) in
      bnd (mp (plain_directory e p)) (\<lambda>folder.
      try_finally
        (bnd (mp (k_listdir (ye_kernel e) folder)) (\<lambda>entries.
         sqn (ensure (set entries = set names) ''unexpected synthetic cgroup cleanup entry'') (
         sqn (eachA (check_limit e role folder) names) (eachA (remove_limit e role folder) names))))
        (mp (k_close (ye_kernel e) folder))))"

definition unpin_role :: "'w synth_env \<Rightarrow> string \<Rightarrow> (('w, 'x) mapped_scheme, unit) act" where
  "unpin_role e role =
     bnd (pinned_fd role) (\<lambda>fd.
     sqn (upd (\<lambda>s. s\<lparr>mp_pinned := AList.delete role (mp_pinned s)\<rparr>)) (mp (k_close (ye_kernel e) fd)))"

definition mapped_remove :: "'w synth_env \<Rightarrow> synthetic \<Rightarrow> string \<Rightarrow> pyval \<Rightarrow> int \<times> int \<Rightarrow> (('w, 'x) mapped_scheme, unit) act" where
  "mapped_remove e c role spec expected =
     (let k = ye_kernel e in
      bnd (lft (mapped_path c role)) (\<lambda>p.
      bnd (mp (plain_directory e (path_parent p))) (\<lambda>fd.
      try_finally
        (bnd (mp (k_stat_at k fd (path_name p))) (\<lambda>info.
         bnd (removal_identity e role spec info expected) (\<lambda>same.
         sqn (ensure same ''synthetic cleanup identity mismatch'') (
         sqn (whenA (startswith role ''cgroup_'') (remove_limits e p role spec)) (
         sqn (mp (if is_regular spec then k_unlink_at k fd (path_name p) else ye_rmdir e fd (path_name p))) (
         unpin_role e role))))))
        (mp (k_close k fd)))))"

definition mapped_close :: "'w synth_env \<Rightarrow> (('w, 'x) mapped_scheme, unit) act" where
  "mapped_close e =
     bnd (get (map snd \<circ> mp_pinned)) (\<lambda>fds.
     sqn (eachA (\<lambda>fd. mp (k_close (ye_kernel e) fd)) fds) (
     sqn (upd (\<lambda>s. s\<lparr>mp_pinned := []\<rparr>)) (
     bnd (get (map snd \<circ> mp_limit_fds)) (\<lambda>fds.
     sqn (eachA (\<lambda>fd. mp (k_close (ye_kernel e) fd)) fds) (
     upd (\<lambda>s. s\<lparr>mp_limit_fds := []\<rparr>))))))"

end
