(* ===== verification/SyntheticWorker.thy ===== *)
theory SyntheticWorker
  imports Synthetic
begin

text \<open>
  The evidence worker of a synthetic initialization (\<open>sw_i5_preparation_initialization.py\<close>):
  \<open>InitializationWorker\<close>, which creates, registers, reads back and removes the objects, and the
  loop of \<open>worker_main\<close>, whose value is the exit status.  The state carries one component the
  code has not: the registrations handed to \<open>register\<close>, in order.
\<close>

subsection \<open>State\<close>

text \<open>A registration, which is also the row of an entry.\<close>

record init_row =
  ir_role :: string
  ir_state :: string
  ir_identity :: "(int \<times> int) option"
  ir_bytes :: int
  ir_sequence :: "int option"

definition row_value :: "init_row \<Rightarrow> pyval" where
  "row_value r = PDict [(''role'', PStr (ir_role r)), (''state'', PStr (ir_state r)), (''identity'', ident_value (ir_identity r)),
     (''bytes'', PInt (ir_bytes r)), (''sequence'', case ir_sequence r of None \<Rightarrow> PNone | Some n \<Rightarrow> PInt n)]"

record 'w init_worker = "'w mapped" +
  iw_root_fd :: "int option"
  iw_parent_fd :: "int option"
  iw_root_identity :: "(int \<times> int) option"
  iw_entries :: "(string \<times> init_row) list"
  iw_sequence :: int
  iw_source :: "string option"
  iw_source_fd :: "int option"
  iw_store :: store
  iw_stored :: bool
  iw_deadline :: rat
  iw_log :: "init_row list"

text \<open>What does not change: the snapshot, the binding, the descriptors and the absolute deadline.\<close>

record 'w init_env =
  ie_env :: "'w synth_env"
  ie_config :: synthetic
  ie_parent :: path
  ie_nonce :: string
  ie_digest :: string
  ie_command :: int
  ie_result :: int
  ie_stage :: int
  ie_absolute :: rat

abbreviation iv :: "'w init_env \<Rightarrow> pyval" where
  "iv g \<equiv> sy_value (ie_config g)"

abbreviation host_uid_of :: "'w init_env \<Rightarrow> int" where
  "host_uid_of g \<equiv> int_of (fld (iv g) ''host_uid'')"

abbreviation ik :: "'w init_env \<Rightarrow> 'w store_kernel" where
  "ik g \<equiv> ye_kernel (ie_env g)"

definition on_store :: "('w storing, 'a) act \<Rightarrow> ('w init_worker, 'a) act" where
  "on_store m = (\<lambda>s. case m \<lparr> sv_world = mp_world s, sv_store = iw_store s \<rparr> of
     (r, t) \<Rightarrow> (r, s\<lparr>mp_world := sv_world t, iw_store := sv_store t\<rparr>))"

definition worker_of :: "'w \<Rightarrow> rat \<Rightarrow> 'w init_worker" where
  "worker_of w deadline = \<lparr> mp_world = w, mp_metadata = [], mp_limits = [], mp_pinned = [], mp_limit_fds = [],
     iw_root_fd = None, iw_parent_fd = None, iw_root_identity = None, iw_entries = [], iw_sequence = -1, iw_source = None,
     iw_source_fd = None, iw_store = new_store (path_of []) [] [] PNone, iw_stored = False, iw_deadline = deadline, iw_log = [] \<rparr>"

subsection \<open>Registering\<close>

definition init_reply :: "nat \<Rightarrow> 'w init_env \<Rightarrow> pyval \<Rightarrow> ('w init_worker, unit) act" where
  "init_reply fuel g v =
     (let p = ye_proc (ie_env g) in
      bnd (get iw_deadline) (\<lambda>d. mp (send fuel (ipc_of p) (ie_result g) (encode (io_float p) v) d)))"

definition registration_message :: "'w init_env \<Rightarrow> rat \<Rightarrow> init_row \<Rightarrow> pyval" where
  "registration_message g d row = PDict
     [(''schema_version'', PInt 1), (''scope'', PStr ''i5-synthetic-registration''), (''uuid'', PStr UUID), (''nonce'', PStr (ie_nonce g)),
      (''manifest_sha256'', PStr (ie_digest g)), (''deadline'', time_value d), (''registration'', row_value row)]"

definition init_register :: "nat \<Rightarrow> 'w init_env \<Rightarrow> init_row \<Rightarrow> ('w init_worker, unit) act" where
  "init_register fuel g row =
     sqn (upd (\<lambda>s. s\<lparr>iw_log := iw_log s @ [row]\<rparr>)) (
     bnd (get iw_deadline) (\<lambda>d.
     sqn (init_reply fuel g (registration_message g d row)) (
     bnd (get iw_deadline) (\<lambda>d.
     bnd (mp (receive fuel (ipc_of (ye_proc (ie_env g))) (ie_command g) d RECEIPT_LIMIT True False)) (\<lambda>raw.
     bnd (lft (decode raw RECEIPT_LIMIT)) (\<lambda>m.
     ensure (pyeq m (PDict [(''registered'', row_value row)])) ''initialization registration ACK lost/mismatched''))))))"

definition set_entry :: "string \<Rightarrow> init_row \<Rightarrow> ('w init_worker, unit) act" where
  "set_entry role row = upd (\<lambda>s. s\<lparr>iw_entries := AList.update role row (iw_entries s)\<rparr>)"

definition init_event ::
    "nat \<Rightarrow> 'w init_env \<Rightarrow> string \<Rightarrow> string \<Rightarrow> (int \<times> int) option \<Rightarrow> int \<Rightarrow> ('w init_worker, unit) act" where
  "init_event fuel g role state ident amount_bytes =
     bnd (get iw_sequence) (\<lambda>sequence.
     let row = \<lparr> ir_role = role, ir_state = state, ir_identity = ident, ir_bytes = amount_bytes,
                 ir_sequence = (if role = ''source'' then Some sequence else None) \<rparr> in
     bnd (get iw_entries) (\<lambda>es.
     sqn (if state = ''intent'' then
            sqn (ensure (role \<notin> fst ` set es) ''initialization duplicate reservation'') (set_entry role row)
          else if state = ''bound'' then
            sqn (ensure (map_option ir_state (map_of es role) = Some ''intent'') ''initialization binding order'') (set_entry role row)
          else if state = ''cleaned'' then
            (if role \<in> fst ` set es then upd (\<lambda>s. s\<lparr>iw_entries := AList.delete role (iw_entries s)\<rparr>) else lft (Inl (KeyError role)))
          else ret ()) (
     init_register fuel g row)))"

subsection \<open>The host objects\<close>

definition observed_before :: "pyval \<Rightarrow> string \<Rightarrow> int \<times> int" where
  "observed_before v role =
     (let before = fld (fld (fld (fld v ''offline_observations'') ''objects'') role) ''before'' in
      (int_of (fld before ''dev''), int_of (fld before ''ino'')))"

definition host_directory :: "'w init_env \<Rightarrow> path \<Rightarrow> ('w, int) act" where
  "host_directory g p = synth_directory (ie_env g) p (Some (host_uid_of g)) (Some (int_of (fld (iv g) ''host_gid''))) (Some 448)"

text \<open>The evidence parent, opened again and compared with the identity in the plan.\<close>

definition parent_unchanged :: "'w init_env \<Rightarrow> path \<Rightarrow> ('w, unit) act" where
  "parent_unchanged g p =
     bnd (host_directory g p) (\<lambda>fd.
     try_finally
       (bnd (fd_identity (ie_env g) fd) (\<lambda>i.
        ensure (i = observed_before (iv g) ''host_evidence_parent'') ''evidence parent actual identity changed''))
       (k_close (ik g) fd))"

definition host_root :: "'w init_env \<Rightarrow> path" where
  "host_root g = path_of (str_of (fld (iv g) ''host_jxa_root''))"

definition root_reopened :: "'w init_env \<Rightarrow> (int \<times> int) option \<Rightarrow> ('w, unit) act" where
  "root_reopened g ident =
     bnd (host_directory g (host_root g)) (\<lambda>fd.
     try_finally
       (bnd (andA (bnd (fd_identity (ie_env g) fd) (\<lambda>i. ret (Some i = ident)))
               (bnd (k_listdir (ik g) fd) (\<lambda>names. ret (names = [])))) (\<lambda>same.
        ensure same ''JXA root independent readback''))
       (k_close (ik g) fd))"

definition host_objects :: "(int \<times> int) option \<Rightarrow> int \<times> int \<Rightarrow> store \<Rightarrow> pyval" where
  "host_objects base_id dirfd s = PDict
     [(''host_jxa_root'', ident_value base_id), (''host_evidence_parent'', ident_value (Some dirfd)),
      (''host_attempt'', PList [PInt (makedev (fst (es_identity s))), PInt (snd (es_identity s))])]"

definition init_host :: "nat \<Rightarrow> 'w init_env \<Rightarrow> ('w init_worker, pyval) act" where
  "init_host fuel g =
     (let k = ik g; name = path_name (host_root g) in
      sqn (mp (parent_unchanged g (path_of (str_of (fld (iv g) ''host_evidence_parent''))))) (
      sqn (on_store (verify_attempt k)) (
      bnd (mp (host_directory g (path_parent (host_root g)))) (\<lambda>parent_fd.
      sqn (upd (\<lambda>s. s\<lparr>iw_parent_fd := Some parent_fd\<rparr>)) (
      sqn (init_event fuel g ''host_jxa_root'' ''intent'' None 0) (
      sqn (mp (k_mkdir_at k parent_fd name)) (
      bnd (mp (k_open_at k parent_fd name dir_flags)) (\<lambda>fd.
      sqn (upd (\<lambda>s. s\<lparr>iw_root_fd := Some fd\<rparr>)) (
      bnd (mp (fd_identity (ie_env g) fd)) (\<lambda>i.
      sqn (upd (\<lambda>s. s\<lparr>iw_root_identity := Some i\<rparr>)) (
      sqn (init_event fuel g ''host_jxa_root'' ''bound'' (Some i) 0) (
      sqn (mp (root_reopened g (Some i))) (
      get (\<lambda>s. host_objects (Some i) (observed_before (iv g) ''host_evidence_parent'') (iw_store s)))))))))))))))"

subsection \<open>The guest objects\<close>

definition spec_of :: "'w init_env \<Rightarrow> string \<Rightarrow> pyval" where
  "spec_of g role = fld (fld (iv g) ''objects'') role"

definition spec_bytes :: "'w init_env \<Rightarrow> string \<Rightarrow> int" where
  "spec_bytes g role = int_of (fld (spec_of g role) ''bytes'')"

definition guest_base :: "'w init_env \<Rightarrow> ('w, unit) act" where
  "guest_base g =
     bnd (k_getuid (ik g)) (\<lambda>uid. bnd (ye_getgid (ie_env g)) (\<lambda>gid.
     bnd (synth_directory (ie_env g) (path_of (sy_root (ie_config g))) (Some uid) (Some gid) (Some 448)) (\<lambda>fd. k_close (ik g) fd)))"

definition guest_object ::
    "nat \<Rightarrow> 'w init_env \<Rightarrow> (string \<times> int \<times> int) list \<Rightarrow> string \<Rightarrow> ('w init_worker, (string \<times> int \<times> int) list) act" where
  "guest_object fuel g created role =
     (let spec = spec_of g role in
      sqn (init_event fuel g role ''intent'' None (spec_bytes g role)) (
      bnd (mapped_create (ie_env g) (ie_config g) role spec) (\<lambda>ident.
      sqn (init_event fuel g role ''bound'' (Some ident) (spec_bytes g role)) (
      sqn (mapped_populate (ie_env g) (ie_config g) role spec ident) (
      ret (created @ [(role, ident)]))))))"

definition guest_confirm :: "'w init_env \<Rightarrow> string \<times> int \<times> int \<Rightarrow> ('w, unit) act" where
  "guest_confirm g = (\<lambda>(role, ident).
     bnd (mapped_readback (ie_env g) (ie_config g) role (spec_of g role) True) (\<lambda>i.
     ensure (i = ident) (''guest independent readback identity changed: '' @ role)))"

definition init_guest :: "nat \<Rightarrow> 'w init_env \<Rightarrow> ('w init_worker, pyval) act" where
  "init_guest fuel g =
     sqn (mp (guest_base g)) (
     bnd (mp (mapped_readback (ie_env g) (ie_config g) ''readonly_input'' (spec_of g ''readonly_input'') True)) (\<lambda>i.
     sqn (ensure (i = observed_before (iv g) ''readonly_input'') ''readonly input actual identity changed'') (
     bnd (foldA (guest_object fuel g) [(''readonly_input'', i)] NATIVE_CREATE_ORDER) (\<lambda>created.
     sqn (eachA (\<lambda>row. mp (guest_confirm g row)) created) (
     ret (PDict (map (\<lambda>(role, ident). (role, ident_value (Some ident))) created)))))))"

subsection \<open>Staging sources\<close>

definition check_root :: "'w init_env \<Rightarrow> ('w init_worker, unit) act" where
  "check_root g =
     bnd (get (\<lambda>s. (iw_root_fd s, iw_root_identity s))) (\<lambda>(root_fd, ident).
     bnd (case root_fd of None \<Rightarrow> ret False | Some fd \<Rightarrow> bnd (mp (fd_identity (ie_env g) fd)) (\<lambda>i. ret (Some i = ident))) (\<lambda>same.
     sqn (ensure same ''JXA root descriptor identity'') (
     mp (bnd (host_directory g (host_root g)) (\<lambda>fd.
       try_finally
         (bnd (fd_identity (ie_env g) fd) (\<lambda>i. ensure (Some i = ident) ''JXA root replaced''))
         (k_close (ik g) fd))))))"

definition stage_fields :: "string list" where
  "stage_fields = [''schema_version'', ''scope'', ''uuid'', ''nonce'', ''manifest_sha256'', ''root_identity'', ''operation'', ''sequence'',
     ''deadline'', ''bytes'', ''sha256'']"

definition stage_binding :: "'w init_env \<Rightarrow> (int \<times> int) option \<Rightarrow> (string \<times> pyval) list" where
  "stage_binding g ident = [(''schema_version'', PInt 1), (''scope'', PStr ''i5-synthetic-staging''), (''uuid'', PStr UUID),
     (''nonce'', fld (iv g) ''nonce''), (''manifest_sha256'', fld (iv g) ''manifest_sha256''), (''root_identity'', ident_value ident)]"

function write_chunks :: "'w store_kernel \<Rightarrow> int \<Rightarrow> string \<Rightarrow> ('w, unit) act" where
  "write_chunks k fd raw =
     (if raw = [] then ret () else
      let chunk = take 65536 raw in
      bnd (k_write k fd chunk) (\<lambda>n.
      sqn (ensure (n = length chunk) ''short staged source write'') (write_chunks k fd (drop 65536 raw))))"
  by auto
termination by (relation "measure (\<lambda>(k, fd, raw). length raw)") auto

declare write_chunks.simps [simp del]

definition source_name :: "int \<Rightarrow> string" where
  "source_name sequence = ''rpc-'' @ show_int sequence @ ''.js''"

definition stage_source :: "nat \<Rightarrow> 'w init_env \<Rightarrow> pyval \<Rightarrow> string \<Rightarrow> ('w init_worker, unit) act" where
  "stage_source fuel g m raw =
     (let k = ik g; limit = sy_limit (ie_config g); sequence = int_of (fld m ''sequence''); name = source_name sequence in
      bnd (get (\<lambda>s. iw_sequence s < sequence \<and> iw_source s = None)) (\<lambda>next_source.
      sqn (ensure (next_source \<and> 0 < length raw \<and> length raw \<le> limit \<and> pyeq (PInt (int (length raw))) (fld m ''bytes'') \<and>
                   PStr (hexdigest (ye_dig (ie_env g)) raw) = fld m ''sha256'') ''staging exact bytes/reservation'') (
      sqn (upd (\<lambda>s. s\<lparr>iw_sequence := sequence, iw_source := Some name\<rparr>)) (
      sqn (init_event fuel g ''source'' ''intent'' None (int (length raw))) (
      bnd (get iw_root_fd) (\<lambda>root_fd. bnd (fd_of root_fd) (\<lambda>root_fd.
      bnd (mp (k_open_at k root_fd name create_flags)) (\<lambda>fd.
      sqn (upd (\<lambda>s. s\<lparr>iw_source_fd := Some fd\<rparr>)) (
      bnd (mp (fd_identity (ie_env g) fd)) (\<lambda>ident.
      sqn (init_event fuel g ''source'' ''bound'' (Some ident) (int (length raw))) (
      sqn (mp (write_chunks k fd raw)) (
      bnd (mp (k_fstat k root_fd)) (\<lambda>dir.
      bnd (mp (read_evidence_file k root_fd dir name limit)) (\<lambda>back_raw.
      sqn (ensure (back_raw = raw) ''staged source independent readback'') (
      bnd (mp (k_stat_at k root_fd name)) (\<lambda>info.
      ensure (inode_key info = ident) ''staged source replaced''))))))))))))))))"

text \<open>The looks before a source is removed.\<close>

definition source_identity :: "'w init_env \<Rightarrow> stat_info \<Rightarrow> (int \<times> int) option \<Rightarrow> ('w init_worker, bool) act" where
  "source_identity g info ident =
     (if \<not> (Some (inode_key info) = ident \<and> S_ISREG info \<and> st_nlink info = 1) then ret False else
      bnd (get iw_source_fd) (\<lambda>fd. case fd of None \<Rightarrow> ret False | Some fd \<Rightarrow>
      bnd (mp (fd_identity (ie_env g) fd)) (\<lambda>i.
      ret (Some i = ident \<and> st_uid info = host_uid_of g \<and> s_imode info = 384))))"

definition clean_source :: "nat \<Rightarrow> 'w init_env \<Rightarrow> ('w init_worker, unit) act" where
  "clean_source fuel g =
     (let k = ik g in
      bnd (get iw_source) (\<lambda>src. case src of None \<Rightarrow> ret () | Some name \<Rightarrow>
      sqn (check_root g) (
      bnd (get (\<lambda>s. map_of (iw_entries s) ''source'')) (\<lambda>entry.
      sqn (ensure (map_option ir_state entry = Some ''bound'') ''source creation identity unconfirmed; preserve residue'') (
      let row = the entry in
      bnd (get iw_root_fd) (\<lambda>root_fd. bnd (fd_of root_fd) (\<lambda>root_fd.
      bnd (mp (k_stat_at k root_fd name)) (\<lambda>info.
      bnd (source_identity g info (ir_identity row)) (\<lambda>same.
      sqn (ensure same ''source cleanup identity mismatch'') (
      sqn (mp (k_unlink_at k root_fd name)) (
      bnd (get iw_source_fd) (\<lambda>fd. bnd (fd_of fd) (\<lambda>fd.
      sqn (mp (k_close k fd)) (
      sqn (upd (\<lambda>s. s\<lparr>iw_source_fd := None\<rparr>)) (
      sqn (init_event fuel g ''source'' ''cleaned'' (ir_identity row) (ir_bytes row)) (
      upd (\<lambda>s. s\<lparr>iw_source := None\<rparr>)))))))))))))))))"

definition clean_request_ok :: "'w init_env \<Rightarrow> pyval \<Rightarrow> string \<Rightarrow> 'w init_worker \<Rightarrow> bool" where
  "clean_request_ok g m raw s =
     (int_of (fld m ''sequence'') = iw_sequence s \<and> iw_source s = Some (source_name (int_of (fld m ''sequence''))) \<and> raw = [] \<and>
      pyeq (fld m ''bytes'') (PInt 0) \<and> fld m ''sha256'' = PStr (hexdigest (ye_dig (ie_env g)) []))"

definition init_stage :: "nat \<Rightarrow> 'w init_env \<Rightarrow> pyval \<Rightarrow> string \<Rightarrow> ('w init_worker, string) act" where
  "init_stage fuel g m raw =
     sqn (lft (check_fields m stage_fields)) (
     bnd (get iw_root_identity) (\<lambda>ident.
     sqn (ensure (list_all (\<lambda>(k, v). typed_eq (fld m k) v) (stage_binding g ident)) ''staging worker identity binding'') (
     sqn (ensure (in_range 0 (2 ^ 53 - 1) (fld m ''sequence'') \<and> fld m ''operation'' \<in> set [PStr ''stage'', PStr ''clean''])
            ''staging worker request'') (
     sqn (check_root g) (
     sqn (if fld m ''operation'' = PStr ''stage'' then stage_source fuel g m raw
          else bnd (get (clean_request_ok g m raw)) (\<lambda>ok. sqn (ensure ok ''staging cleanup sequence'') (clean_source fuel g))) (
     ret (str_of (fld (iv g) ''host_jxa_root'') @ ''/'' @ source_name (int_of (fld m ''sequence'')))))))))"

subsection \<open>Cleanup\<close>

definition note_diagnostic :: "string list \<Rightarrow> string \<Rightarrow> string list" where
  "note_diagnostic errors reason =
     (let text = fst (bounded_text reason 400); full_text = ''cleanup diagnostics [truncated]'' in
      if length (encode_texts (errors @ [text])) \<le> 1400 then errors @ [text]
      else if errors = [] \<or> last errors \<noteq> full_text then errors @ [full_text] else errors)"

definition clean_role :: "nat \<Rightarrow> 'w init_env \<Rightarrow> string \<Rightarrow> init_row \<Rightarrow> ('w init_worker, unit) act" where
  "clean_role fuel g role row =
     sqn (ensure (ir_state row = ''bound'') (role @ '' creation identity unconfirmed'')) (
     sqn (mapped_remove (ie_env g) (ie_config g) role (spec_of g role) (the (ir_identity row))) (
     init_event fuel g role ''cleaned'' (ir_identity row) (ir_bytes row)))"

definition clean_guest_role :: "nat \<Rightarrow> 'w init_env \<Rightarrow> string list \<Rightarrow> string \<Rightarrow> ('w init_worker, string list) act" where
  "clean_guest_role fuel g errors role =
     bnd (get (\<lambda>s. map_of (iw_entries s) role)) (\<lambda>entry. case entry of None \<Rightarrow> ret errors | Some row \<Rightarrow>
     handle_if ordinary (sqn (clean_role fuel g role row) (ret errors))
       (\<lambda>x. ret (note_diagnostic errors (role @ '': '' @ exn_str x))))"

definition clean_root :: "nat \<Rightarrow> 'w init_env \<Rightarrow> ('w init_worker, unit) act" where
  "clean_root fuel g =
     bnd (get (\<lambda>s. map_of (iw_entries s) ''host_jxa_root'')) (\<lambda>entry. case entry of None \<Rightarrow> ret () | Some row \<Rightarrow>
     sqn (ensure (ir_state row = ''bound'') ''JXA root creation identity unconfirmed'') (
     sqn (check_root g) (
     bnd (get iw_root_fd) (\<lambda>root_fd. bnd (fd_of root_fd) (\<lambda>root_fd.
     bnd (mp (k_listdir (ik g) root_fd)) (\<lambda>names.
     sqn (ensure (names = []) ''unexpected JXA root entries; preserve'') (
     bnd (get iw_parent_fd) (\<lambda>parent_fd. bnd (fd_of parent_fd) (\<lambda>parent_fd.
     sqn (mp (ye_rmdir (ie_env g) parent_fd (path_name (host_root g)))) (
     bnd (get iw_root_identity) (\<lambda>ident. init_event fuel g ''host_jxa_root'' ''cleaned'' ident 0)))))))))))"

definition init_cleanup :: "nat \<Rightarrow> 'w init_env \<Rightarrow> string \<Rightarrow> ('w init_worker, string list) act" where
  "init_cleanup fuel g realm =
     (if realm = ''guest'' then foldA (clean_guest_role fuel g) [] NATIVE_CLEAN_ORDER
      else sqn (ensure (realm = ''host'') ''fixed cleanup realm'') (
        handle_if ordinary (sqn (clean_source fuel g) (sqn (clean_root fuel g) (ret [])))
          (\<lambda>x. ret (note_diagnostic [] (''host: '' @ exn_str x)))))"

definition init_close :: "'w init_env \<Rightarrow> ('w init_worker, unit) act" where
  "init_close g =
     sqn (mapped_close (ie_env g)) (
     bnd (get (\<lambda>s. [iw_root_fd s, iw_parent_fd s, iw_source_fd s])) (\<lambda>fds.
     eachA (\<lambda>fd. case fd of None \<Rightarrow> ret () | Some fd \<Rightarrow> mp (k_close (ik g) fd)) fds))"

subsection \<open>The worker's loop\<close>

definition init_error :: "exn \<Rightarrow> string" where
  "init_error x = fst (bounded_text (exn_name x @ '': '' @ exn_str x) 900)"

definition init_now :: "'w init_env \<Rightarrow> ('w init_worker, rat) act" where
  "init_now g = mp (io_now (ye_proc (ie_env g)))"

definition set_deadline :: "rat \<Rightarrow> ('w init_worker, unit) act" where
  "set_deadline d = upd (\<lambda>s. s\<lparr>iw_deadline := d\<rparr>)"

definition init_receive :: "nat \<Rightarrow> 'w init_env \<Rightarrow> int \<Rightarrow> nat \<Rightarrow> bool \<Rightarrow> bool \<Rightarrow> ('w init_worker, string) act" where
  "init_receive fuel g fd limit line allow_eof =
     bnd (get iw_deadline) (\<lambda>d. mp (receive fuel (ipc_of (ye_proc (ie_env g))) fd d limit line allow_eof))"

text \<open>\<open>type(d) in (int, float) and time.monotonic() < d <= limit\<close>, and the deadline it denotes.\<close>

definition deadline_within :: "'w init_env \<Rightarrow> pyval \<Rightarrow> rat \<Rightarrow> ('w init_worker, bool) act" where
  "deadline_within g v limit =
     (case finite_num v of None \<Rightarrow> ret False | Some d \<Rightarrow> bnd (init_now g) (\<lambda>t. ret (t < d \<and> d \<le> limit)))"

definition deadline_of :: "pyval \<Rightarrow> rat" where
  "deadline_of v = the (finite_num v)"

definition init_binding :: "'w init_env \<Rightarrow> pyval" where
  "init_binding g = PDict (filter (\<lambda>(k, _). k \<in> set [''plan_sha256'', ''ledger_sha256'', ''source_sha256''])
     (synthetic_facts (ye_dig (ie_env g)) (ie_config g)))"

text \<open>The attempt is consumed only after the parent has been compared with the plan.\<close>

definition init_attempt :: "'w init_env \<Rightarrow> ('w init_worker, unit) act" where
  "init_attempt g =
     sqn (mp (parent_unchanged g (ie_parent g))) (
     sqn (on_store (store_init (io_float (ye_proc (ie_env g))) (ik g) (ie_parent g) (PStr (ie_nonce g)) (PStr (ie_digest g))
            (init_binding g))) (
     sqn (upd (\<lambda>s. s\<lparr>iw_stored := True\<rparr>)) (
     on_store (verify_attempt (ik g)))))"

definition ready_message :: "pyval \<Rightarrow> bool \<Rightarrow> string option \<Rightarrow> pyval" where
  "ready_message objects attempt_ready failure = PDict
     [(''ready'', objects), (''attempt_ready'', PBool attempt_ready),
      (''error'', case failure of None \<Rightarrow> PNone | Some m \<Rightarrow> PStr m)]"

definition init_start :: "nat \<Rightarrow> 'w init_env \<Rightarrow> ('w init_worker, unit) act" where
  "init_start fuel g =
     bnd (handle_if ordinary (sqn (init_attempt g) (ret None)) (\<lambda>x. ret (Some (init_error x)))) (\<lambda>failed.
     bnd (case failed of Some m \<Rightarrow> ret (ready_message (PDict []) False (Some m))
          | None \<Rightarrow> handle_if ordinary (bnd (init_host fuel g) (\<lambda>objects. ret (ready_message objects True None)))
              (\<lambda>x. ret (ready_message (PDict []) True (Some (init_error x))))) (\<lambda>m.
     init_reply fuel g m))"

text \<open>Waiting for the end of the command stream behind the report.\<close>

fun commit_eof :: "nat \<Rightarrow> 'w init_env \<Rightarrow> ('w init_worker, unit) act" where
  "commit_eof 0 g = lft (Inl OutOfFuel)"
| "commit_eof (Suc n) g =
     (let p = ye_proc (ie_env g) in
      bnd (init_now g) (\<lambda>t. bnd (get iw_deadline) (\<lambda>d.
      sqn (ensure (t < d) ''initialized evidence commit EOF deadline'') (
      bnd (mp (io_readable p [ie_command g] (1 / 100))) (\<lambda>ready.
      if ready = [] then commit_eof n g else
      bnd (mp (handle_if (is_os_class BlockingIOError) (bnd (io_read p (ie_command g) 1) (\<lambda>x. ret (Some x))) (\<lambda>_. ret None))) (\<lambda>extra.
      case extra of None \<Rightarrow> commit_eof n g | Some x \<Rightarrow> ensure (x = []) ''one initialized evidence commit''))))))"

definition commit_fields :: "string list" where
  "commit_fields = [''report_bytes'', ''process_exit'', ''lifecycle'', ''initialization'', ''deadline'']"

definition init_commit :: "nat \<Rightarrow> 'w init_env \<Rightarrow> pyval \<Rightarrow> ('w init_worker, int) act" where
  "init_commit fuel g m =
     sqn (lft (check_fields m commit_fields)) (
     bnd (get (\<lambda>s. iw_stored s)) (\<lambda>stored.
     sqn (ensure (stored \<and> in_range 0 (int HOST_REPORT_LIMIT) (fld m ''report_bytes'')) ''initialized evidence report limit'') (
     bnd (deadline_within g (fld m ''deadline'') (ie_absolute g)) (\<lambda>timely.
     sqn (ensure timely ''initialized evidence commit deadline'') (
     sqn (set_deadline (deadline_of (fld m ''deadline''))) (
     bnd (if fld m ''report_bytes'' = PInt 0 then ret []
          else init_receive fuel g (ie_command g) (nat (int_of (fld m ''report_bytes''))) False False) (\<lambda>raw.
     sqn (commit_eof fuel g) (
     bnd (on_store (persist (hexdigest (ye_dig (ie_env g))) (io_float (ye_proc (ie_env g))) (ik g) raw (fld m ''process_exit'') PNone
            (fld m ''lifecycle'') (fld m ''initialization''))) (\<lambda>receipt.
     sqn (init_reply fuel g (PDict [(''receipt'', receipt), (''error'', PNone)])) (
     sqn (on_store (store_close (ik g))) (
     sqn (init_close g) (ret 0))))))))))))"

definition operation_reply :: "pyval \<Rightarrow> pyval \<Rightarrow> pyval \<Rightarrow> pyval" where
  "operation_reply operation result failure = PDict [(''operation'', operation), (''result'', result), (''error'', failure)]"

definition init_operation :: "nat \<Rightarrow> 'w init_env \<Rightarrow> pyval \<Rightarrow> ('w init_worker, unit) act" where
  "init_operation fuel g m =
     sqn (lft (check_fields m [''operation'', ''deadline''])) (
     bnd (andA (ret (fld m ''operation'' \<in> set [PStr ''guest'', PStr ''guest-cleanup'', PStr ''host-cleanup'']))
            (deadline_within g (fld m ''deadline'') (ie_absolute g))) (\<lambda>fixed.
     sqn (ensure fixed ''fixed initialization command/deadline'') (
     sqn (set_deadline (deadline_of (fld m ''deadline''))) (
     let operation = fld m ''operation'' in
     handle_if ordinary
       (bnd (if operation = PStr ''guest'' then init_guest fuel g
             else bnd (init_cleanup fuel g (if operation = PStr ''guest-cleanup'' then ''guest'' else ''host''))
                    (\<lambda>errors. ret (PList (map PStr errors)))) (\<lambda>result.
        init_reply fuel g (operation_reply operation result PNone)))
       (\<lambda>x. init_reply fuel g (operation_reply operation PNone (PStr (init_error x))))))))"

text \<open>One message of the owner: an exit status when it was the commit.\<close>

definition init_command :: "nat \<Rightarrow> 'w init_env \<Rightarrow> ('w init_worker, int option) act" where
  "init_command fuel g =
     sqn (set_deadline (ie_absolute g)) (
     bnd (init_receive fuel g (ie_command g) RECEIPT_LIMIT True False) (\<lambda>raw.
     bnd (lft (decode raw RECEIPT_LIMIT)) (\<lambda>m.
     if ''report_bytes'' \<in> set (map fst (dict_of m)) then bnd (init_commit fuel g m) (\<lambda>n. ret (Some n))
     else sqn (init_operation fuel g m) (ret None))))"

definition stage_binding_fields :: "string list" where
  "stage_binding_fields = [''schema_version'', ''scope'', ''uuid'', ''nonce'', ''manifest_sha256'', ''root_identity'']"

definition stage_reply :: "pyval \<Rightarrow> pyval \<Rightarrow> pyval \<Rightarrow> pyval" where
  "stage_reply m path failure = PDict
     ([(''operation'', fld m ''operation''), (''sequence'', fld m ''sequence''), (''path'', path), (''error'', failure)] @
      map (\<lambda>key. (key, fld m key)) stage_binding_fields)"

text \<open>\<open>except (ValueError, OSError)\<close>.\<close>

definition undelivered :: "exn \<Rightarrow> bool" where
  "undelivered x = (is_oserror x \<or> (case x of ValueError _ \<Rightarrow> True | _ \<Rightarrow> False))"

text \<open>A reply that its consumer no longer takes is dropped; the residue stays registered.\<close>

definition init_stage_work :: "nat \<Rightarrow> 'w init_env \<Rightarrow> pyval \<Rightarrow> ('w init_worker, unit) act" where
  "init_stage_work fuel g m =
     bnd (handle_if ordinary
            (bnd (if fld m ''bytes'' = PInt 0 then ret []
                  else init_receive fuel g (ie_stage g) (nat (int_of (fld m ''bytes''))) False False) (\<lambda>raw.
             bnd (init_stage fuel g m raw) (\<lambda>path. ret (stage_reply m (PStr path) PNone))))
            (\<lambda>x. ret (stage_reply m PNone (PStr (init_error x))))) (\<lambda>packet.
     let p = ye_proc (ie_env g) in
     handle_if undelivered
       (bnd (get iw_deadline) (\<lambda>d. mp (send fuel (ipc_of p) (ie_stage g) (encode (io_float p) packet) d)))
       (\<lambda>_. ret ()))"

text \<open>One staging request; the value tells whether the channel is still open.\<close>

definition init_staging :: "nat \<Rightarrow> 'w init_env \<Rightarrow> ('w init_worker, bool) act" where
  "init_staging fuel g =
     bnd (init_now g) (\<lambda>t.
     sqn (set_deadline (min (ie_absolute g) (t + 2))) (
     bnd (init_receive fuel g (ie_stage g) 2048 True True) (\<lambda>header.
     if header = [] then ret False else
     bnd (lft (decode header HEADER_LIMIT)) (\<lambda>m.
     sqn (lft (check_fields m stage_fields)) (
     bnd (get iw_deadline) (\<lambda>d.
     bnd (andA (deadline_within g (fld m ''deadline'') d)
            (ret (in_range 0 (int (sy_limit (ie_config g))) (fld m ''bytes'')))) (\<lambda>timely.
     sqn (ensure timely ''staging upload budget'') (
     sqn (set_deadline (deadline_of (fld m ''deadline''))) (
     sqn (init_stage_work fuel g m) (ret True))))))))))"

fun init_loop :: "nat \<Rightarrow> nat \<Rightarrow> 'w init_env \<Rightarrow> bool \<Rightarrow> ('w init_worker, int) act" where
  "init_loop 0 fuel g stage_open = lft (Inl OutOfFuel)"
| "init_loop (Suc n) fuel g stage_open =
     (let p = ye_proc (ie_env g) in
      bnd (init_now g) (\<lambda>t.
      if ie_absolute g \<le> t then lft (Inl (ValueError ''initialized evidence absolute deadline'')) else
      bnd (init_now g) (\<lambda>t.
      bnd (mp (io_readable p ([ie_command g] @ (if stage_open then [ie_stage g] else [])) (min (1 / 20) (max 0 (ie_absolute g - t))))) (\<lambda>ready.
      if ie_command g \<in> set ready then
        bnd (init_command fuel g) (\<lambda>done. case done of Some status \<Rightarrow> ret status | None \<Rightarrow> init_loop n fuel g stage_open)
      else if ie_stage g \<in> set ready then bnd (init_staging fuel g) (\<lambda>still. init_loop n fuel g still)
      else init_loop n fuel g stage_open))))"

text \<open>
  \<open>worker_main\<close>.  Every way out is an \<open>os._exit\<close>, so its \<open>finally\<close> clause is never reached.
\<close>

definition synthetic_worker :: "nat \<Rightarrow> 'w init_env \<Rightarrow> ('w init_worker, int) act" where
  "synthetic_worker fuel g =
     (let p = ye_proc (ie_env g) in
      handle_if any_exn
        (sqn (mp (close_except (ipc_of p) [ie_command g, ie_result g, ie_stage g])) (
         sqn (mp (io_detach p)) (
         sqn (mp (io_default_signals p)) (
         sqn (init_start fuel g) (
         init_loop fuel fuel g True)))))
        (\<lambda>_. ret 2))"

end
