(* ===== verification/SyntheticProps.thy ===== *)
theory SyntheticProps
  imports SyntheticWorker Triples
begin

text \<open>
  The worker of a synthetic initialization against the owner that acknowledges its
  registrations: however the worker ends, the owner's registry accepts everything the worker
  has sent, in order, and then holds exactly the worker's own entries.
\<close>

subsection \<open>The owner's registry\<close>

definition owner_registry :: "init_row list \<Rightarrow> (string \<times> pyval) list res" where
  "owner_registry rows = foldE (\<lambda>registry row. registry_step (row_value row) registry) [] rows"

definition entry_values :: "(string \<times> init_row) list \<Rightarrow> (string \<times> pyval) list" where
  "entry_values es = map (\<lambda>(role, row). (role, row_value row)) es"

lemma owner_registry_snoc:
  "owner_registry rows = Inr reg \<Longrightarrow> owner_registry (rows @ [row]) = registry_step (row_value row) reg"
  by (simp add: owner_registry_def foldE_append bindE_def split: sum.split)

lemma row_value_fields [simp]:
  "fld (row_value r) ''role'' = PStr (ir_role r)" "fld (row_value r) ''state'' = PStr (ir_state r)"
  "fld (row_value r) ''identity'' = ident_value (ir_identity r)" "fld (row_value r) ''bytes'' = PInt (ir_bytes r)"
  "fld (row_value r) ''sequence'' = (case ir_sequence r of None \<Rightarrow> PNone | Some n \<Rightarrow> PInt n)"
  by (simp_all add: row_value_def)

lemma map_of_entry_values [simp]: "map_of (entry_values es) k = map_option row_value (map_of es k)"
  by (simp add: entry_values_def map_of_map)

lemma length_entry_values [simp]: "length (entry_values es) = length es"
  by (simp add: entry_values_def)

lemma update_entry_values: "AList.update k (row_value r) (entry_values es) = entry_values (AList.update k r es)"
  by (induction es) (auto simp: entry_values_def)

lemma delete_entry_values: "AList.delete k (entry_values es) = entry_values (AList.delete k es)"
  by (induction es) (auto simp: entry_values_def)

lemma row_parts_equal: "pyeq (ident_value i) (ident_value i)" "pyeq (case q of None \<Rightarrow> PNone | Some n \<Rightarrow> PInt n) (case q of None \<Rightarrow> PNone | Some n \<Rightarrow> PInt n)"
  by (simp_all add: ident_value_def split: option.split prod.split)

subsection \<open>The invariant\<close>

definition worker_entry_ok :: "'w init_worker \<Rightarrow> string \<Rightarrow> init_row \<Rightarrow> bool" where
  "worker_entry_ok s role row =
     (ir_role row = role \<and> ir_sequence row = (if role = ''source'' then Some (iw_sequence s) else None) \<and>
      (role = ''host_jxa_root'' \<and> ir_state row = ''bound'' \<longrightarrow> ir_identity row = iw_root_identity s \<and> ir_bytes row = 0))"

definition coherent_worker :: "'w init_worker \<Rightarrow> bool" where
  "coherent_worker s =
     (owner_registry (iw_log s) = Inr (entry_values (iw_entries s)) \<and>
      distinct (map fst (iw_entries s)) \<and> fst ` set (iw_entries s) \<subseteq> set REGISTERED_ROLES \<and>
      (\<forall>role row. map_of (iw_entries s) role = Some row \<longrightarrow> worker_entry_ok s role row) \<and>
      (iw_source s = None \<longrightarrow> map_of (iw_entries s) ''source'' = None))"

definition same_entries :: "'w init_worker \<Rightarrow> 'w init_worker \<Rightarrow> bool" where
  "same_entries s t =
     (iw_log t = iw_log s \<and> iw_entries t = iw_entries s \<and> iw_sequence t = iw_sequence s \<and> iw_source t = iw_source s \<and>
      iw_root_identity t = iw_root_identity s)"

interpretation same_entries: state_order same_entries
  by unfold_locales (auto simp: same_entries_def)

text \<open>What a condition on the registered part of the state says, it says after any other step.\<close>

definition registered_part :: "('w init_worker \<Rightarrow> bool) \<Rightarrow> bool" where
  "registered_part P = (\<forall>s t. same_entries s t \<longrightarrow> P s \<longrightarrow> P t)"

lemma registered_part_coherent: "registered_part coherent_worker"
  by (auto simp: registered_part_def same_entries_def coherent_worker_def worker_entry_ok_def)

lemma triple_same_entries:
  assumes "keeps same_entries m" and "registered_part P" and "\<And>s. P s \<Longrightarrow> coherent_worker s"
  shows "triple P m (\<lambda>_. P) coherent_worker"
  by (rule triple_weaken [OF triple_keeps [where P = P, OF assms(1)]]) (use assms(2,3) in \<open>auto simp: registered_part_def\<close>)

lemma triple_coherent: "keeps same_entries m \<Longrightarrow> triple coherent_worker m (\<lambda>_. coherent_worker) coherent_worker"
  by (rule triple_same_entries [OF _ registered_part_coherent])

subsection \<open>Steps that register nothing\<close>

lemma same_entries_mp: "keeps same_entries (mp m :: ('w init_worker, 'a) act)"
  unfolding mp_def by (rule keeps_zoom_frame) (simp add: same_entries_def)

lemma same_entries_on_store: "keeps same_entries (on_store m)"
  by (auto simp: keeps_def on_store_def same_entries_def split: prod.split)

lemma same_entries_upd: "(\<And>s. same_entries s (f s)) \<Longrightarrow> keeps same_entries (upd f)"
  by (rule same_entries.keeps_upd)

lemmas same_entries_intros = same_entries.keeps_intros same_entries.keeps_branches same_entries_mp same_entries_on_store
  same_entries_upd

lemma same_entries_andA: "keeps same_entries a \<Longrightarrow> keeps same_entries b \<Longrightarrow> keeps same_entries (andA a b)"
  unfolding andA_def by (intro same_entries_intros)

lemma same_entries_fd_of: "keeps same_entries (fd_of x)"
  unfolding fd_of_def by (intro same_entries_intros)

lemma same_entries_pins:
  "keeps same_entries (pin_role r fd)" "keeps same_entries (note_spec r v)" "keeps same_entries (pinned_fd r)"
  unfolding pin_role_def note_spec_def pinned_fd_def by (intro same_entries_intros; simp add: same_entries_def)+

lemmas same_entries_basics = same_entries_intros same_entries_andA same_entries_fd_of same_entries_pins

lemma same_entries_create: "keeps same_entries (mapped_create e c r v)"
  unfolding mapped_create_def Let_def by (intro same_entries_basics)

lemma same_entries_limit: "keeps same_entries (write_limit e r fd x)"
  unfolding write_limit_def Let_def by (intro same_entries_basics) (simp_all add: same_entries_def)

lemma same_entries_slot: "keeps same_entries (populate_slot e d p x)"
  unfolding populate_slot_def Let_def by (intro same_entries_basics)

lemma same_entries_populate: "keeps same_entries (mapped_populate e c r v x)"
  unfolding mapped_populate_def Let_def by (intro same_entries_basics same_entries_limit same_entries_slot)

lemma same_entries_remove: "keeps same_entries (mapped_remove e c r v x)"
  unfolding mapped_remove_def removal_identity_def remove_limits_def check_limit_def remove_limit_def unpin_role_def Let_def
  by (intro same_entries_basics) (simp_all add: same_entries_def)

lemma same_entries_close: "keeps same_entries (init_close g)"
  unfolding init_close_def mapped_close_def by (intro same_entries_basics) (simp_all add: same_entries_def)

lemma same_entries_reply: "keeps same_entries (init_reply n g v)"
  unfolding init_reply_def Let_def by (intro same_entries_basics)

lemma same_entries_deadline: "keeps same_entries (set_deadline d)"
  unfolding set_deadline_def by (intro same_entries_basics) (simp add: same_entries_def)

lemma same_entries_within: "keeps same_entries (deadline_within g v d)"
  unfolding deadline_within_def init_now_def by (intro same_entries_basics)

lemma same_entries_receive: "keeps same_entries (init_receive n g fd k b c)"
  unfolding init_receive_def by (intro same_entries_basics)

lemma same_entries_eof: "keeps same_entries (commit_eof n g)"
proof (induction n)
  case (Suc n)
  show ?case unfolding commit_eof.simps Let_def init_now_def by (intro same_entries_basics Suc.IH)
qed (simp only: commit_eof.simps same_entries.keeps_lft)

lemmas same_entries_steps = same_entries_basics same_entries_create same_entries_populate same_entries_remove
  same_entries_close same_entries_reply same_entries_deadline same_entries_within same_entries_receive same_entries_eof

lemma same_entries_commit: "keeps same_entries (init_commit n g m)"
  unfolding init_commit_def by (intro same_entries_steps)

lemma same_entries_check_root: "keeps same_entries (check_root g)"
  unfolding check_root_def by (intro same_entries_steps)

lemma same_entries_source_identity: "keeps same_entries (source_identity g i x)"
  unfolding source_identity_def by (intro same_entries_steps)

subsection \<open>Registering one object\<close>

definition event_row :: "'w init_worker \<Rightarrow> string \<Rightarrow> string \<Rightarrow> (int \<times> int) option \<Rightarrow> int \<Rightarrow> init_row" where
  "event_row s role state ident n = \<lparr> ir_role = role, ir_state = state, ir_identity = ident, ir_bytes = n,
     ir_sequence = (if role = ''source'' then Some (iw_sequence s) else None) \<rparr>"

definition event_step :: "init_row \<Rightarrow> (string \<times> init_row) list \<Rightarrow> (string \<times> init_row) list res" where
  "event_step row es =
     (let role = ir_role row in
      if ir_state row = ''intent'' then
        require (role \<notin> fst ` set es) ''initialization duplicate reservation'' (Inr (AList.update role row es))
      else if ir_state row = ''bound'' then
        require (map_option ir_state (map_of es role) = Some ''intent'') ''initialization binding order'' (Inr (AList.update role row es))
      else if ir_state row = ''cleaned'' then
        (if role \<in> fst ` set es then Inr (AList.delete role es) else Inl (KeyError role))
      else Inr es)"

lemma init_event_run:
  "init_event n g role state ident b s =
     (case event_step (event_row s role state ident b) (iw_entries s) of
        Inl x \<Rightarrow> (Inl x, s)
      | Inr es \<Rightarrow> init_register n g (event_row s role state ident b) (s\<lparr>iw_entries := es\<rparr>))"
proof -
  define row where "row = event_row s role state ident b"
  have row: "ir_role row = role" "ir_state row = state" by (simp_all add: row_def event_row_def)
  have "init_event n g role state ident b s =
      sqn (if state = ''intent'' then
             sqn (ensure (role \<notin> fst ` set (iw_entries s)) ''initialization duplicate reservation'') (set_entry role row)
           else if state = ''bound'' then
             sqn (ensure (map_option ir_state (map_of (iw_entries s) role) = Some ''intent'') ''initialization binding order'') (set_entry role row)
           else if state = ''cleaned'' then
             (if role \<in> fst ` set (iw_entries s) then upd (\<lambda>s. s\<lparr>iw_entries := AList.delete role (iw_entries s)\<rparr>) else lft (Inl (KeyError role)))
           else ret ()) (init_register n g row) s"
    by (simp add: init_event_def row_def event_row_def Let_def)
  also have "\<dots> = (case event_step row (iw_entries s) of Inl x \<Rightarrow> (Inl x, s) | Inr es \<Rightarrow> init_register n g row (s\<lparr>iw_entries := es\<rparr>))"
    by (auto simp: event_step_def row Let_def set_entry_def require_def sqn_def bnd_def)
  finally show ?thesis unfolding row_def .
qed

lemma triple_register:
  assumes "\<And>s. P s \<Longrightarrow> Q (s\<lparr>iw_log := iw_log s @ [row]\<rparr>)" and "registered_part Q" and "\<And>s. Q s \<Longrightarrow> coherent_worker s"
  shows "triple P (init_register n g row) (\<lambda>_. Q) coherent_worker"
proof -
  have "keeps same_entries (bnd (get iw_deadline) (\<lambda>d. sqn (init_reply n g (registration_message g d row)) (k d)))"
    if "\<And>d. keeps same_entries (k d)" for k :: "rat \<Rightarrow> ('a init_worker, unit) act"
    by (intro same_entries_steps that)
  note rest = triple_same_entries [OF this assms(2,3)]
  show ?thesis unfolding init_register_def
    by (rule triple_sqn [OF triple_upd rest]) (intro assms(1) same_entries_steps | assumption)+
qed

lemma triple_event:
  assumes "\<And>s es. P s \<Longrightarrow> event_step (event_row s role state ident b) (iw_entries s) = Inr es \<Longrightarrow>
      Q (s\<lparr>iw_entries := es, iw_log := iw_log s @ [event_row s role state ident b]\<rparr>)"
    and "registered_part Q" and "\<And>s. Q s \<Longrightarrow> coherent_worker s" and "\<And>s. P s \<Longrightarrow> coherent_worker s"
  shows "triple P (init_event n g role state ident b) (\<lambda>_. Q) coherent_worker"
proof -
  have run: "triple (\<lambda>t. t = s\<lparr>iw_entries := es\<rparr>) (init_register n g (event_row s role state ident b)) (\<lambda>_. Q) coherent_worker"
    if "P s" and "event_step (event_row s role state ident b) (iw_entries s) = Inr es" for s es
    by (rule triple_register [OF _ assms(2,3)]) (use assms(1) [OF that] in simp)
  show ?thesis
    by (rule tripleI)
       (auto simp: init_event_run assms(4) split: sum.splits dest: tripleD_Inr [OF run refl] tripleD_Inl [OF run refl])
qed

text \<open>An object that is announced, with its declared size, and not yet bound.\<close>

definition announced_entry :: "string \<Rightarrow> int \<Rightarrow> 'w init_worker \<Rightarrow> bool" where
  "announced_entry role n s =
     (coherent_worker s \<and> (\<exists>row. map_of (iw_entries s) role = Some row \<and> ir_state row = ''intent'' \<and> ir_bytes row = n))"

lemma registered_part_announced: "registered_part (announced_entry role n)"
  using registered_part_coherent by (auto simp: registered_part_def announced_entry_def same_entries_def)

lemma entries_below_bound:
  assumes "coherent_worker s" and "map_of (iw_entries s) role = None"
  shows "length (iw_entries s) < 12"
proof -
  have "length (iw_entries s) = card (fst ` set (iw_entries s))"
    using assms(1) by (metis coherent_worker_def distinct_card length_map list.set_map)
  also have "\<dots> \<le> card (set REGISTERED_ROLES)"
    using assms(1) by (intro card_mono) (auto simp: coherent_worker_def)
  also have "\<dots> \<le> 11" by (rule order_trans [OF card_length]) (simp add: REGISTERED_ROLES_def)
  finally show ?thesis by simp
qed

lemma distinct_update: "distinct (map fst es) \<Longrightarrow> distinct (map fst (AList.update k v es))"
  by (rule AList.distinct_update)

lemma distinct_delete: "distinct (map fst es) \<Longrightarrow> distinct (map fst (AList.delete k es))"
  by (simp add: AList.distinct_delete)

lemma delete_members: "x \<in> set (AList.delete k es) \<Longrightarrow> x \<in> set es"
  by (simp add: AList.delete_eq)

lemma event_intent:
  assumes "role \<in> set REGISTERED_ROLES"
  shows "triple (\<lambda>s. coherent_worker s \<and> (role = ''source'' \<longrightarrow> iw_source s \<noteq> None)) (init_event n g role ''intent'' None b)
    (\<lambda>_. announced_entry role b) coherent_worker"
proof (rule triple_event [OF _ registered_part_announced])
  fix s :: "'a init_worker" and es
  let ?row = "event_row s role ''intent'' None b"
  assume s: "coherent_worker s \<and> (role = ''source'' \<longrightarrow> iw_source s \<noteq> None)" and "event_step ?row (iw_entries s) = Inr es"
  then have new: "map_of (iw_entries s) role = None" and es: "es = AList.update role ?row (iw_entries s)"
    by (auto simp: event_step_def event_row_def require_Inr map_of_eq_None_iff)
  have "owner_registry (iw_log s @ [?row]) = Inr (entry_values es)"
    using s new entries_below_bound [of s role]
    by (simp add: coherent_worker_def owner_registry_snoc registry_step_def event_row_def require_def es update_entry_values)
  then show "announced_entry role b (s\<lparr>iw_entries := es, iw_log := iw_log s @ [?row]\<rparr>)"
    using s assms by (auto simp: announced_entry_def coherent_worker_def es distinct_update dom_update AList.update_conv' worker_entry_ok_def event_row_def)
qed (simp_all add: announced_entry_def)

lemma event_bound:
  shows "triple (\<lambda>s. announced_entry role b s \<and> (role = ''host_jxa_root'' \<longrightarrow> iw_root_identity s = ident \<and> b = 0))
    (init_event n g role ''bound'' ident b) (\<lambda>_. coherent_worker) coherent_worker"
proof (rule triple_event [OF _ registered_part_coherent])
  fix s :: "'a init_worker" and es
  let ?row = "event_row s role ''bound'' ident b"
  assume s: "announced_entry role b s \<and> (role = ''host_jxa_root'' \<longrightarrow> iw_root_identity s = ident \<and> b = 0)"
    and "event_step ?row (iw_entries s) = Inr es"
  then obtain row where row: "map_of (iw_entries s) role = Some row" "ir_state row = ''intent''" "ir_bytes row = b" "worker_entry_ok s role row"
    and c: "coherent_worker s" and es: "es = AList.update role ?row (iw_entries s)"
    by (auto simp: announced_entry_def event_step_def event_row_def require_Inr coherent_worker_def)
  have "owner_registry (iw_log s @ [?row]) = Inr (entry_values es)"
    using c row row_parts_equal
    by (simp add: coherent_worker_def owner_registry_snoc registry_step_def registry_follows_def event_row_def require_def es
        update_entry_values worker_entry_ok_def)
  moreover have "role \<in> set REGISTERED_ROLES"
    using c row(1) by (auto simp: coherent_worker_def dest!: map_of_SomeD)
  moreover have "iw_source s = None \<longrightarrow> role \<noteq> ''source''" using c row(1) by (auto simp: coherent_worker_def)
  ultimately show "coherent_worker (s\<lparr>iw_entries := es, iw_log := iw_log s @ [?row]\<rparr>)"
    using c s by (auto simp: coherent_worker_def es distinct_update dom_update AList.update_conv' worker_entry_ok_def event_row_def)
qed (simp_all add: announced_entry_def)

text \<open>An entry is cleaned with the identity and the size it was bound with.\<close>

definition bound_entry :: "string \<Rightarrow> (int \<times> int) option \<Rightarrow> int \<Rightarrow> 'w init_worker \<Rightarrow> bool" where
  "bound_entry role ident b s =
     (coherent_worker s \<and> (\<exists>row. map_of (iw_entries s) role = Some row \<and> ir_state row = ''bound'' \<and> ir_identity row = ident \<and> ir_bytes row = b))"

definition cleaned_entry :: "string \<Rightarrow> 'w init_worker \<Rightarrow> bool" where
  "cleaned_entry role s = (coherent_worker s \<and> map_of (iw_entries s) role = None)"

lemma registered_part_bound: "registered_part (bound_entry role i b)"
  using registered_part_coherent by (auto simp: registered_part_def bound_entry_def same_entries_def)

lemma registered_part_cleaned: "registered_part (cleaned_entry role)"
  using registered_part_coherent by (auto simp: registered_part_def cleaned_entry_def same_entries_def)

lemma event_cleaned:
  "triple (bound_entry role ident b) (init_event n g role ''cleaned'' ident b) (\<lambda>_. cleaned_entry role) coherent_worker"
proof (rule triple_event [OF _ registered_part_cleaned])
  fix s :: "'a init_worker" and es
  let ?row = "event_row s role ''cleaned'' ident b"
  assume "bound_entry role ident b s" and "event_step ?row (iw_entries s) = Inr es"
  then obtain row where row: "map_of (iw_entries s) role = Some row" "ir_state row = ''bound''" "ir_identity row = ident" "ir_bytes row = b"
      "worker_entry_ok s role row"
    and c: "coherent_worker s" and es: "es = AList.delete role (iw_entries s)"
    by (auto simp: bound_entry_def event_step_def event_row_def coherent_worker_def split: if_splits)
  have "owner_registry (iw_log s @ [?row]) = Inr (entry_values es)"
    using c row row_parts_equal
    by (simp add: coherent_worker_def owner_registry_snoc registry_step_def registry_follows_def event_row_def require_def es
        delete_entry_values worker_entry_ok_def)
  then show "cleaned_entry role (s\<lparr>iw_entries := es, iw_log := iw_log s @ [?row]\<rparr>)"
    using c by (auto simp: cleaned_entry_def coherent_worker_def es distinct_delete AList.delete_conv' worker_entry_ok_def dest: delete_members)
qed (simp_all add: bound_entry_def cleaned_entry_def)

subsection \<open>The operations\<close>

lemma announced_coherent: "announced_entry role b s \<Longrightarrow> coherent_worker s" by (simp add: announced_entry_def)

lemma triple_announced_step:
  "keeps same_entries m \<Longrightarrow> triple (announced_entry role b) m (\<lambda>_. announced_entry role b) coherent_worker"
  by (rule triple_same_entries [OF _ registered_part_announced]) (simp_all add: announced_coherent)

lemmas coherent_steps = triple_coherent [THEN triple_sqn] triple_coherent [THEN triple_bnd]
lemmas announced_steps = triple_announced_step [THEN triple_sqn] triple_announced_step [THEN triple_bnd]

lemma coherent_weaken:
  assumes "triple P m (\<lambda>_. Q) coherent_worker" and "\<And>s. P' s \<Longrightarrow> P s" and "\<And>s. Q s \<Longrightarrow> coherent_worker s"
  shows "triple P' m (\<lambda>_. coherent_worker) coherent_worker"
  by (rule triple_weaken [OF assms(1)]) (auto intro: assms)

lemma coherent_intent:
  "role \<in> set REGISTERED_ROLES \<Longrightarrow> role \<noteq> ''source'' \<Longrightarrow>
   triple coherent_worker (init_event n g role ''intent'' None b) (\<lambda>_. announced_entry role b) coherent_worker"
  by (rule triple_weaken [OF event_intent]) auto

lemma coherent_bound:
  "role \<noteq> ''host_jxa_root'' \<Longrightarrow>
   triple (announced_entry role b) (init_event n g role ''bound'' ident b) (\<lambda>_. coherent_worker) coherent_worker"
  by (rule triple_weaken [OF event_bound]) auto

lemma host_bound:
  "triple (announced_entry ''host_jxa_root'' 0)
     (sqn (upd (\<lambda>s. s\<lparr>iw_root_identity := Some i\<rparr>)) (init_event n g ''host_jxa_root'' ''bound'' (Some i) 0))
     (\<lambda>_. coherent_worker) coherent_worker"
proof (rule triple_sqn [OF triple_upd event_bound])
  fix s :: "'a init_worker" assume "announced_entry ''host_jxa_root'' 0 s"
  then show "announced_entry ''host_jxa_root'' 0 (s\<lparr>iw_root_identity := Some i\<rparr>) \<and>
      (''host_jxa_root'' = ''host_jxa_root'' \<longrightarrow> iw_root_identity (s\<lparr>iw_root_identity := Some i\<rparr>) = Some i \<and> (0 :: int) = 0)"
    by (auto simp: announced_entry_def coherent_worker_def worker_entry_ok_def)
qed

lemma sqn_split: "sqn a (sqn b c) = sqn (sqn a b) c"
  by (simp add: sqn_def bnd_def fun_eq_iff split: prod.split sum.split)

lemma coherent_host: "triple coherent_worker (init_host n g) (\<lambda>_. coherent_worker) coherent_worker"
proof -
  note root = coherent_intent [of "''host_jxa_root''", simplified REGISTERED_ROLES_def, simplified]
  show ?thesis unfolding init_host_def Let_def
    by (rule coherent_steps same_entries_mp same_entries_on_store same_entries_upd triple_sqn [OF root]
        announced_steps triple_sqn [OF host_bound, unfolded sqn_split [symmetric]] triple_coherent [OF same_entries.keeps_get]
        | simp add: same_entries_def)+
qed

lemma coherent_object:
  assumes "role \<in> set NATIVE_CREATE_ORDER"
  shows "triple coherent_worker (guest_object n g c role) (\<lambda>_. coherent_worker) coherent_worker"
proof -
  have "role \<in> set REGISTERED_ROLES" "role \<noteq> ''source''" "role \<noteq> ''host_jxa_root''"
    using assms by (auto simp: NATIVE_CREATE_ORDER_def REGISTERED_ROLES_def)
  then have intent: "triple coherent_worker (init_event n g role ''intent'' None b) (\<lambda>_. announced_entry role b) coherent_worker"
    and bound: "triple (announced_entry role b) (init_event n g role ''bound'' i b) (\<lambda>_. coherent_worker) coherent_worker" for b i
    by (simp_all add: coherent_intent coherent_bound)
  show ?thesis unfolding guest_object_def Let_def
    by (rule triple_sqn [OF intent] triple_sqn [OF bound] announced_steps coherent_steps same_entries_create
        same_entries_populate triple_coherent [OF same_entries.keeps_ret])+
qed

lemma coherent_guest: "triple coherent_worker (init_guest n g) (\<lambda>_. coherent_worker) coherent_worker"
  unfolding init_guest_def
  by (rule coherent_steps same_entries_mp same_entries.keeps_ensure same_entries.keeps_eachA triple_bnd [OF triple_foldA [OF coherent_object]]
      triple_coherent [OF same_entries.keeps_ret] | assumption)+

lemma source_reserved:
  assumes "coherent_worker s" and "iw_source s = None"
  shows "coherent_worker (s\<lparr>iw_sequence := q, iw_source := Some name\<rparr>)"
  using assms by (auto simp: coherent_worker_def worker_entry_ok_def)

lemma coherent_stage_source: "triple coherent_worker (stage_source n g m raw) (\<lambda>_. coherent_worker) coherent_worker"
proof -
  let ?q = "int_of (fld m ''sequence'')"
  let ?name = "source_name ?q"
  have free: "triple coherent_worker (get (\<lambda>s. iw_sequence s < ?q \<and> iw_source s = None))
      (\<lambda>x s. coherent_worker s \<and> (x \<longrightarrow> iw_source s = None)) coherent_worker"
    by (rule triple_get) simp
  have checked: "triple (\<lambda>s. coherent_worker s \<and> (x \<longrightarrow> iw_source s = None)) (ensure (x \<and> c) e)
      (\<lambda>_ s. coherent_worker s \<and> iw_source s = None) coherent_worker" for x c e
    by (rule triple_ensure) auto
  have reserve: "triple (\<lambda>s. coherent_worker s \<and> iw_source s = None) (upd (\<lambda>s. s\<lparr>iw_sequence := ?q, iw_source := Some ?name\<rparr>))
      (\<lambda>_ s. coherent_worker s \<and> (''source'' = ''source'' \<longrightarrow> iw_source s \<noteq> None)) coherent_worker"
    by (rule triple_upd) (auto intro: source_reserved)
  have intent: "triple (\<lambda>s. coherent_worker s \<and> (''source'' = ''source'' \<longrightarrow> iw_source s \<noteq> None)) (init_event n g ''source'' ''intent'' None b)
      (\<lambda>_. announced_entry ''source'' b) coherent_worker" for b
    by (rule event_intent) (simp add: REGISTERED_ROLES_def)
  have bound: "triple (announced_entry ''source'' b) (init_event n g ''source'' ''bound'' i b) (\<lambda>_. coherent_worker) coherent_worker" for b i
    by (rule coherent_bound) simp
  show ?thesis unfolding stage_source_def Let_def
    by (rule triple_bnd [OF free] triple_sqn [OF checked] triple_sqn [OF reserve] triple_sqn [OF intent] triple_sqn [OF bound]
        announced_steps coherent_steps same_entries_mp same_entries_upd same_entries_fd_of same_entries.keeps_get same_entries.keeps_ensure
        triple_coherent [OF same_entries.keeps_ensure] | simp add: same_entries_def)+
qed

lemma triple_bound_step:
  "keeps same_entries m \<Longrightarrow> triple (bound_entry role i b) m (\<lambda>_. bound_entry role i b) coherent_worker"
  by (rule triple_same_entries [OF _ registered_part_bound]) (simp_all add: bound_entry_def)

lemmas triple_bound = triple_bound_step [THEN triple_sqn] triple_bound_step [THEN triple_bnd]

text \<open>The row of an entry, and the check that it is bound.\<close>

lemma triple_entry:
  "triple coherent_worker (get (\<lambda>s. map_of (iw_entries s) role)) (\<lambda>x s. coherent_worker s \<and> map_of (iw_entries s) role = x) coherent_worker"
  by (rule triple_get) simp

lemma triple_is_bound:
  "triple (\<lambda>s. coherent_worker s \<and> map_of (iw_entries s) role = x) (ensure (map_option ir_state x = Some ''bound'') e)
     (\<lambda>_. bound_entry role (ir_identity (the x)) (ir_bytes (the x))) coherent_worker"
  by (rule triple_ensure) (auto simp: bound_entry_def)

lemma triple_row_bound:
  "triple (\<lambda>s. coherent_worker s \<and> map_of (iw_entries s) role = Some row) (ensure (ir_state row = ''bound'') e)
     (\<lambda>_. bound_entry role (ir_identity row) (ir_bytes row)) coherent_worker"
  by (rule triple_ensure) (auto simp: bound_entry_def)

lemma coherent_clean_source: "triple coherent_worker (clean_source n g) (\<lambda>_. coherent_worker) coherent_worker"
proof -
  have forget: "triple (cleaned_entry ''source'') (upd (\<lambda>s. s\<lparr>iw_source := None\<rparr>)) (\<lambda>_. coherent_worker) coherent_worker"
    by (rule triple_upd) (auto simp: cleaned_entry_def coherent_worker_def worker_entry_ok_def)
  have work: "triple coherent_worker (sqn (check_root g) (bnd (get (\<lambda>s. map_of (iw_entries s) ''source'')) k)) (\<lambda>_. coherent_worker) coherent_worker"
    if "\<And>x. triple (\<lambda>s. coherent_worker s \<and> map_of (iw_entries s) ''source'' = x) (k x) (\<lambda>_. coherent_worker) coherent_worker" for k
    by (rule triple_sqn [OF triple_coherent [OF same_entries_check_root] triple_bnd [OF triple_entry that]])
  show ?thesis unfolding clean_source_def Let_def
    by (rule triple_bnd [OF triple_coherent [OF same_entries.keeps_get]] triple_option triple_coherent [OF same_entries.keeps_ret] work
        triple_sqn [OF triple_is_bound] triple_bound triple_sqn [OF event_cleaned] forget same_entries_mp same_entries_upd same_entries_fd_of
        same_entries_source_identity same_entries.keeps_get same_entries.keeps_ensure | simp add: same_entries_def)+
qed

lemma coherent_clean_role:
  "triple (\<lambda>s. coherent_worker s \<and> map_of (iw_entries s) role = Some row) (clean_role n g role row) (\<lambda>_. coherent_worker) coherent_worker"
  unfolding clean_role_def
  by (rule triple_sqn [OF triple_row_bound] triple_bound same_entries_remove coherent_weaken [OF event_cleaned] | simp add: cleaned_entry_def)+

lemma coherent_guest_role: "triple coherent_worker (clean_guest_role n g errors role) (\<lambda>_. coherent_worker) coherent_worker"
  unfolding clean_guest_role_def
  by (rule triple_bnd [OF triple_entry] triple_option triple_handle_if triple_sqn [OF coherent_clean_role]
      triple_coherent [OF same_entries.keeps_ret] coherent_weaken [OF triple_coherent [OF same_entries.keeps_ret]] | simp)+

lemma coherent_clean_root: "triple coherent_worker (clean_root n g) (\<lambda>_. coherent_worker) coherent_worker"
proof -
  have ident: "triple (bound_entry ''host_jxa_root'' i b) (bnd (get iw_root_identity) (\<lambda>ident. init_event n g ''host_jxa_root'' ''cleaned'' ident 0))
      (\<lambda>_. coherent_worker) coherent_worker" for i b
  proof (rule triple_bnd [OF triple_get])
    fix s :: "'a init_worker" assume s: "bound_entry ''host_jxa_root'' i b s"
    then show "bound_entry ''host_jxa_root'' (iw_root_identity s) 0 s" by (auto simp: bound_entry_def coherent_worker_def worker_entry_ok_def)
  qed (rule coherent_weaken [OF event_cleaned], simp_all add: cleaned_entry_def)
  show ?thesis unfolding clean_root_def
    by (rule triple_bnd [OF triple_entry] triple_option triple_sqn [OF triple_row_bound] coherent_weaken [OF triple_coherent [OF same_entries.keeps_ret]]
        ident triple_bound same_entries_mp same_entries_fd_of same_entries_check_root same_entries.keeps_get same_entries.keeps_ensure | simp)+
qed

lemma coherent_cleanup: "triple coherent_worker (init_cleanup n g realm) (\<lambda>_. coherent_worker) coherent_worker"
proof -
  note steps = triple_foldA [OF coherent_guest_role] triple_sqn [OF coherent_clean_source] triple_sqn [OF coherent_clean_root]
    triple_coherent [OF same_entries.keeps_ret] coherent_steps(1) [OF same_entries.keeps_ensure] triple_handle_if
  show ?thesis unfolding init_cleanup_def by (cases "realm = ''guest''") (simp_all, (rule steps | assumption)+)
qed

subsection \<open>The worker\<close>

lemmas coherent_plain = triple_coherent [OF same_entries.keeps_ret] triple_coherent [OF same_entries.keeps_lft]
  triple_coherent [OF same_entries_reply] triple_coherent [OF same_entries_mp] triple_coherent [OF same_entries_on_store]

lemma coherent_stage: "triple coherent_worker (init_stage n g m raw) (\<lambda>_. coherent_worker) coherent_worker"
proof -
  have clean: "triple coherent_worker (bnd (get f) (\<lambda>ok. sqn (ensure ok e) (clean_source n g))) (\<lambda>_. coherent_worker) coherent_worker" for f e
    by (rule coherent_steps(2) [OF same_entries.keeps_get], rule coherent_steps(1) [OF same_entries.keeps_ensure], rule coherent_clean_source)
  have work: "triple coherent_worker (if c then stage_source n g m raw else bnd (get f) (\<lambda>ok. sqn (ensure ok e) (clean_source n g)))
      (\<lambda>_. coherent_worker) coherent_worker" for c f e
    by (rule triple_if [OF coherent_stage_source clean])
  show ?thesis unfolding init_stage_def
    by (rule triple_sqn [OF work] coherent_steps same_entries.keeps_lft same_entries.keeps_get same_entries.keeps_ensure same_entries_check_root
        coherent_plain(1))+
qed

lemma coherent_start: "triple coherent_worker (init_start n g) (\<lambda>_. coherent_worker) coherent_worker"
proof -
  have tried: "keeps same_entries (handle_if ordinary (sqn (init_attempt g) (ret None)) (\<lambda>x. ret (Some (init_error x))))"
    unfolding init_attempt_def by (intro same_entries_steps) (simp_all add: same_entries_def)
  have host: "triple coherent_worker (handle_if ordinary (bnd (init_host n g) (\<lambda>v. ret (f v))) (\<lambda>x. ret (h x))) (\<lambda>_. coherent_worker) coherent_worker" for f h
    by (rule triple_handle_if [OF triple_bnd [OF coherent_host coherent_plain(1)] coherent_plain(1)])
  show ?thesis unfolding init_start_def
    by (rule coherent_steps(2) [OF tried], rule triple_bnd [OF triple_option [OF host coherent_plain(1)] coherent_plain(3)])
qed

lemma coherent_operation: "triple coherent_worker (init_operation n g m) (\<lambda>_. coherent_worker) coherent_worker"
proof -
  have listed: "triple coherent_worker (bnd (init_cleanup n g realm) (\<lambda>errors. ret (f errors))) (\<lambda>_. coherent_worker) coherent_worker" for realm f
    by (rule triple_bnd [OF coherent_cleanup coherent_plain(1)])
  have work: "triple coherent_worker (handle_if ordinary
      (bnd (if c then init_guest n g else bnd (init_cleanup n g realm) (\<lambda>errors. ret (f errors))) (\<lambda>v. init_reply n g (h v)))
      (\<lambda>x. init_reply n g (k x))) (\<lambda>_. coherent_worker) coherent_worker" for c realm f h k
    by (rule triple_handle_if [OF triple_bnd [OF triple_if [OF coherent_guest listed] coherent_plain(3)] coherent_plain(3)])
  show ?thesis unfolding init_operation_def Let_def
    by (rule coherent_steps same_entries_steps work)+
qed

lemma coherent_command: "triple coherent_worker (init_command n g) (\<lambda>_. coherent_worker) coherent_worker"
  unfolding init_command_def
  by (rule coherent_steps same_entries_steps triple_if same_entries_commit coherent_plain triple_sqn [OF coherent_operation])+

lemma coherent_stage_work: "triple coherent_worker (init_stage_work n g m) (\<lambda>_. coherent_worker) coherent_worker"
proof -
  have take: "keeps same_entries (if c then ret [] else init_receive n g fd k b d)" for c fd k b d
    by (intro same_entries_steps)
  have staged: "triple coherent_worker (handle_if ordinary
      (bnd (if c then ret [] else init_receive n g fd k b d) (\<lambda>raw. bnd (init_stage n g m raw) (\<lambda>path. ret (f path)))) (\<lambda>x. ret (h x)))
      (\<lambda>_. coherent_worker) coherent_worker" for c fd k b d f h
    by (rule triple_handle_if [OF coherent_steps(2) [OF take triple_bnd [OF coherent_stage coherent_plain(1)]] coherent_plain(1)])
  have sent: "keeps same_entries (handle_if undelivered (bnd (get iw_deadline) (\<lambda>d. mp (x d))) (\<lambda>_. ret ()) :: ('a init_worker, unit) act)" for x
    by (intro same_entries_steps)
  show ?thesis unfolding init_stage_work_def Let_def by (rule triple_bnd [OF staged triple_coherent [OF sent]])
qed

lemma coherent_staging: "triple coherent_worker (init_staging n g) (\<lambda>_. coherent_worker) coherent_worker"
  unfolding init_staging_def init_now_def
  by (rule coherent_steps same_entries_steps triple_if coherent_plain(1) triple_sqn [OF coherent_stage_work])+

lemma coherent_loop: "triple coherent_worker (init_loop i n g open_stage) (\<lambda>_. coherent_worker) coherent_worker"
proof (induction i arbitrary: open_stage)
  case (Suc i)
  show ?case unfolding init_loop.simps Let_def init_now_def
    by (rule coherent_steps(2) [OF same_entries_mp] triple_if triple_option coherent_plain(1,2) triple_bnd [OF coherent_command]
        triple_bnd [OF coherent_staging] Suc.IH)+
qed (simp only: init_loop.simps coherent_plain)

lemma coherent_main: "triple coherent_worker (synthetic_worker n g) (\<lambda>_. coherent_worker) coherent_worker"
  unfolding synthetic_worker_def Let_def
  by (rule triple_handle_if coherent_steps(1) [OF same_entries_mp] triple_sqn [OF coherent_start] coherent_loop coherent_plain(1) | assumption)+

lemma worker_start: "coherent_worker (worker_of w d)"
  by (simp add: coherent_worker_def worker_of_def owner_registry_def entry_values_def)

text \<open>
  C6: However the evidence worker of a synthetic initialization ends, the transitions of the registry of the
  lifecycle owner (\<open>registry_step\<close>) accept the registrations it has sent, one after the other (no
  object is announced twice, bound without announcement, or cleaned under another identity, size
  or sequence number), and lead to exactly the entries of the worker.
\<close>

theorem worker_registrations_accepted:
  "owner_registry (iw_log (snd (synthetic_worker fuel g (worker_of w d)))) =
     Inr (entry_values (iw_entries (snd (synthetic_worker fuel g (worker_of w d)))))"
proof -
  have "coherent_worker (snd (synthetic_worker fuel g (worker_of w d)))"
    by (rule triple_final [OF coherent_main worker_start])
  then show ?thesis by (simp add: coherent_worker_def)
qed

end
