(* ===== verification/NativeOwner.thy ===== *)
theory NativeOwner
  imports NativeRun Worker
begin

text \<open>
  The owner process of a native guest invocation (\<open>sw_i5_preparation_native_lifecycle._owner\<close>):
  it alone constructs the initializer, forks the independent supervisor of the task, asks the
  parent to acknowledge every registration, and cleans up only when the task group is known to
  be reaped and empty.  The configuration and the phase budgets come first.
\<close>

subsection \<open>Configuration and budgets\<close>

record guest_config =
  gc_contract :: string
  gc_manifest :: string
  gc_expected :: pyval
  gc_delivery :: string
  gc_nonce :: string
  gc_digest :: string

definition check_config_row :: "string \<times> pyval \<Rightarrow> unit res" where
  "check_config_row = (\<lambda>(_, row).
     bindE (check_fields row [''dev'', ''ino'', ''mount_id'']) (\<lambda>_.
     require (list_all (\<lambda>(_, n). positive_int n) (dict_of row)) ''native lifecycle expected identity'' (Inr ())))"

text \<open>The expected identities are copied through their JSON text.\<close>

definition guest_config_of :: "(string \<Rightarrow> string) \<Rightarrow> string \<Rightarrow> string \<Rightarrow> pyval \<Rightarrow> pyval \<Rightarrow> guest_config res" where
  "guest_config_of sha contract_raw manifest_raw expected delivery =
     require (digest delivery) ''native lifecycle immutable bytes/delivery binding'' (
     bindE (decode contract_raw 8192) (\<lambda>v.
     bindE (event_get v ''nonce'') (\<lambda>nonce.
     bindE (event_get v ''manifest_sha256'') (\<lambda>manifest_sha256.
     bindE (contract_parse contract_raw nonce manifest_sha256) (\<lambda>c.
     require (sha manifest_raw = ic_manifest c) ''native lifecycle manifest binding'' (
     bindE (validate_manifest manifest_raw (ic_nonce c)) (\<lambda>_.
     bindE (check_fields expected [''root_parent'', ''cgroup_root'', ''readonly_input'']) (\<lambda>_.
     bindE (eachE check_config_row (dict_of expected)) (\<lambda>_.
     bindE (loads (dumps (\<lambda>_. []) expected)) (\<lambda>copy.
     Inr \<lparr> gc_contract = contract_raw, gc_manifest = manifest_raw, gc_expected = copy, gc_delivery = str_of delivery,
           gc_nonce = ic_nonce c, gc_digest = ic_manifest c \<rparr>))))))))))"

definition config_snapshot :: "(string \<Rightarrow> string) \<Rightarrow> guest_config \<Rightarrow> guest_config res" where
  "config_snapshot sha g = guest_config_of sha (gc_contract g) (gc_manifest g) (gc_expected g) (PStr (gc_delivery g))"

record native_budget =
  nb_init :: rat
  nb_active :: rat
  nb_cleanup :: rat
  nb_reap :: rat
  nb_output :: rat
  nb_silence :: rat
  nb_total :: rat

definition NATIVE_CAPS :: "(string \<times> rat) list" where
  "NATIVE_CAPS = [(''init'', 6), (''active'', 528), (''cleanup'', 2), (''reap'', 2), (''output'', 2), (''silence'', 15)]"

text \<open>The keyword arguments given override the defaults, which are the caps.\<close>

definition native_budget_of :: "(string \<times> pyval) list \<Rightarrow> native_budget res" where
  "native_budget_of given =
     (let values = map (\<lambda>(k, c). (k, case map_of given k of None \<Rightarrow> time_value c | Some v \<Rightarrow> v)) NATIVE_CAPS;
          seconds = (\<lambda>k. the (finite_num (the (map_of values k)))) in
      require (list_all (\<lambda>(k, c). case finite_num (the (map_of values k)) of None \<Rightarrow> False | Some q \<Rightarrow> 0 < q \<and> q \<le> c) NATIVE_CAPS \<and>
               seconds ''silence'' \<le> seconds ''active'') ''native lifecycle bounded phase budgets'' (
      let total = seconds ''init'' + seconds ''active'' + seconds ''cleanup'' + seconds ''reap'' + seconds ''output'' in
      require (total \<le> GUEST_SECONDS) ''native lifecycle guest window'' (
      Inr \<lparr> nb_init = seconds ''init'', nb_active = seconds ''active'', nb_cleanup = seconds ''cleanup'',
            nb_reap = seconds ''reap'', nb_output = seconds ''output'', nb_silence = seconds ''silence'', nb_total = total \<rparr>)))"

record native_deadlines =
  nd_init :: rat
  nd_task :: rat
  nd_cleanup :: rat
  nd_work :: rat
  nd_result :: rat

definition native_deadlines_of :: "native_budget \<Rightarrow> rat \<Rightarrow> native_deadlines" where
  "native_deadlines_of b started =
     \<lparr> nd_init = started + nb_init b, nd_task = started + nb_init b + nb_active b,
       nd_cleanup = started + nb_init b + nb_active b + nb_cleanup b,
       nd_work = started + nb_init b + nb_active b + nb_cleanup b,
       nd_result = started + nb_total b - nb_output b \<rparr>"

subsection \<open>Processes and the registration channel\<close>

text \<open>
  \<open>factory\<close> builds the system calls and tells whether they are the kernel's own.  A signal that
  cancels the owner is the \<open>InterruptedError\<close> that the call it interrupts raises.
\<close>

record 'w native_env =
  ne_fork :: "'w forking"
  ne_sha :: "string \<Rightarrow> string"
  ne_factory :: "('w, ('w native_sys \<times> bool) option) act"
  ne_catch :: "('w, unit) act"
  ne_ignore :: "('w, unit) act"

record owner_fds =
  of_control :: int
  of_output :: int
  of_ack :: int
  of_registry :: int

definition REG_LIMIT :: nat where "REG_LIMIT = NATIVE_FACT_LIMIT"

abbreviation ne_io :: "'w native_env \<Rightarrow> 'w proc" where
  "ne_io e \<equiv> io (ne_fork e)"

abbreviation ne_float :: "'w native_env \<Rightarrow> rat \<Rightarrow> string" where
  "ne_float e \<equiv> io_float (ne_io e)"

definition owner_error :: "exn \<Rightarrow> string" where
  "owner_error x = utf8_clip 1000 (exn_name x @ '': '' @ exn_str x)"

definition poll_process :: "'w proc \<Rightarrow> int \<Rightarrow> int option \<Rightarrow> ('w, int option) act" where
  "poll_process p pid known = (case known of Some c \<Rightarrow> ret (Some c) | None \<Rightarrow> io_waitpid p pid)"

definition signal_process :: "'w proc \<Rightarrow> int \<Rightarrow> string \<Rightarrow> ('w, unit) act" where
  "signal_process p pid number =
     handle_if (is_os_class ProcessLookupError) (io_killpg p pid number)
       (\<lambda>_. handle_if (is_os_class ProcessLookupError) (io_kill p pid number) (\<lambda>_. ret ()))"

fun read_stream :: "nat \<Rightarrow> 'w proc \<Rightarrow> int \<Rightarrow> nat \<Rightarrow> rat \<Rightarrow> string \<Rightarrow> ('w, string) act" where
  "read_stream 0 p fd limit deadline raw = lft (Inl OutOfFuel)"
| "read_stream (Suc n) p fd limit deadline raw =
     bnd (io_now p) (\<lambda>t. sqn (ensure (t < deadline) ''native task result deadline'') (
     bnd (io_readable p [fd] (1 / 100)) (\<lambda>r.
     if r = [] then read_stream n p fd limit deadline raw else
     bnd (io_read p fd (min 65536 (limit - length raw + 1))) (\<lambda>data.
     if data = [] then ret raw else
     sqn (ensure (length (raw @ data) \<le> limit) ''native result byte limit'') (
     read_stream n p fd limit deadline (raw @ data))))))"

definition read_stream_of :: "nat \<Rightarrow> 'w proc \<Rightarrow> int \<Rightarrow> nat \<Rightarrow> rat \<Rightarrow> ('w, string) act" where
  "read_stream_of fuel p fd limit deadline = sqn (io_nonblocking p fd) (read_stream fuel p fd limit deadline [])"

text \<open>A registration is sent and its acknowledgement, which repeats it, is awaited.\<close>

definition request_value :: "string \<Rightarrow> pyval \<Rightarrow> pyval" where
  "request_value kind v = PDict [(''kind'', PStr kind), (''value'', v)]"

definition register_at :: "nat \<Rightarrow> 'w native_env \<Rightarrow> owner_fds \<Rightarrow> rat \<Rightarrow> string \<Rightarrow> pyval \<Rightarrow> ('w, unit) act" where
  "register_at fuel e fds deadline kind v =
     (let request = request_value kind v; p = ipc_of (ne_io e) in
      sqn (send fuel p (of_registry fds) (encode (ne_float e) request) deadline) (
      bnd (receive fuel p (of_registry fds) deadline REG_LIMIT True False) (\<lambda>raw.
      bnd (lft (decode raw REG_LIMIT)) (\<lambda>answer.
      ensure (pyeq answer (PDict [(''ack'', request)])) ''native registration ACK lost/mismatched''))))"

definition retiring_value :: "int \<Rightarrow> pyval \<Rightarrow> pyval \<Rightarrow> pyval" where
  "retiring_value pid reaped vacated = PDict [(''pid'', PInt pid), (''worker_reaped'', reaped), (''population_empty'', vacated)]"

text \<open>A supervisor whose admission failed: its ticket is registered, stopped and retired.\<close>

definition retire_failed :: "nat \<Rightarrow> 'w native_env \<Rightarrow> owner_fds \<Rightarrow> rat \<Rightarrow> int \<Rightarrow> ('w, unit) act" where
  "retire_failed fuel e fds deadline pid =
     sqn (register_at fuel e fds deadline ''supervisor-unconfirmed'' (PInt pid)) (
     sqn (register_at fuel e fds deadline ''task-stop'' (PInt pid)) (
     register_at fuel e fds deadline ''task-retiring'' (retiring_value pid (PBool False) (PBool False))))"

definition owner_forking ::
    "nat \<Rightarrow> 'w native_env \<Rightarrow> guest_config \<Rightarrow> native_budget \<Rightarrow> native_deadlines \<Rightarrow> owner_fds \<Rightarrow> 'w forking" where
  "owner_forking fuel e g b d fds =
     (let reg = register_at fuel e fds (nd_work d) in
      (ne_fork e)\<lparr>fk_nonce := PStr (gc_nonce g), fk_manifest := PStr (gc_digest g), fk_total := time_value (nb_active b),
        fk_silence := time_value (nb_silence b), fk_control := Some (of_control fds), fk_mailbox := None,
        fk_ack := Some (of_ack fds), fk_keep := [of_registry fds],
        fk_register_supervisor := Some (\<lambda>pid. reg ''supervisor'' (PInt pid)),
        fk_register_worker := Some (\<lambda>pid. reg ''worker'' (PInt pid)), fk_absolute := Some (nd_task d),
        fk_cleanup_seconds := min 1 (nb_cleanup b / 2), fk_retire := Some (retire_failed fuel e fds (nd_work d))\<rparr>)"

subsection \<open>The owner's state\<close>

text \<open>
  \<open>go_granted\<close> is a history variable: in some fork of the owner the write of the gate byte
  has returned (\<open>fs_granted\<close>).  No operation reads it.
\<close>

record 'w guest_owner =
  go_world :: 'w
  go_native :: "('w native_init \<times> 'w native) option"
  go_pid :: "int option"
  go_status :: "int option"
  go_reader :: "int option"
  go_control :: "int option"
  go_ack :: "int option"
  go_marks :: "(int \<times> bool \<times> int option) option"
  go_retired :: bool
  go_export :: "pyval option"
  go_failure :: "string option"
  go_errors :: "string list"
  go_initialization :: pyval
  go_readback :: pyval
  go_cleanup :: pyval
  go_closed :: bool
  go_exit :: "int option"
  go_reaped :: bool
  go_worker :: pyval
  go_granted :: bool

definition guest_owner_start :: "'w \<Rightarrow> owner_fds \<Rightarrow> 'w guest_owner" where
  "guest_owner_start w fds = \<lparr> go_world = w, go_native = None, go_pid = None, go_status = None, go_reader = None,
     go_control = Some (of_control fds), go_ack = Some (of_ack fds), go_marks = None, go_retired = False, go_export = None,
     go_failure = None, go_errors = [], go_initialization = PNone, go_readback = PNone, go_cleanup = PNone,
     go_closed = False, go_exit = None, go_reaped = False, go_worker = PBool False,
     go_granted = False \<rparr>"

abbreviation go :: "('w, 'a) act \<Rightarrow> ('w guest_owner, 'a) act" where
  "go \<equiv> zoom go_world go_world_update"

text \<open>A call of the initializer, which shares the outside world with its process.\<close>

definition on_native :: "('w native_init \<Rightarrow> ('w native, 'a) act) \<Rightarrow> ('w guest_owner, 'a) act" where
  "on_native m = (\<lambda>s. case go_native s of
     None \<Rightarrow> (Inl attribute_error, s)
   | Some (t, n) \<Rightarrow> (case m t (n\<lparr>nv_world := go_world s\<rparr>) of
       (r, n') \<Rightarrow> (r, s\<lparr>go_world := nv_world n', go_native := Some (t, n')\<rparr>)))"

definition noting :: "('w guest_owner, unit) act \<Rightarrow> ('w guest_owner, unit) act" where
  "noting m = handle_if any_exn m (\<lambda>x. upd (\<lambda>s. s\<lparr>go_errors := go_errors s @ [owner_error x]\<rparr>))"

definition owner_fork :: "nat \<Rightarrow> 'w forking \<Rightarrow> ('w guest_owner, unit) act" where
  "owner_fork fuel f = (\<lambda>s. case fork_marked fuel f (unmarked (go_world s)) of
     (r, k) \<Rightarrow>
       let s' = s\<lparr>go_world := fs_world k, go_retired := (go_retired s \<or> fs_retired k),
                  go_granted := (go_granted s \<or> fs_granted k),
                  go_marks := map_option (\<lambda>pid. (pid, fs_reaped k, fs_exit k)) (fs_pid k)\<rparr> in
       case r of
         Inl x \<Rightarrow> (Inl x, s')
       | Inr (pid, writer, reader) \<Rightarrow>
           (if writer = None then Inr () else Inl (ValueError ''native owner must not hold renewal writer''),
            s'\<lparr>go_pid := Some pid, go_reader := Some reader\<rparr>))"

fun owner_wait :: "nat \<Rightarrow> 'w native_env \<Rightarrow> int \<Rightarrow> rat \<Rightarrow> ('w guest_owner, unit) act" where
  "owner_wait 0 e pid limit = lft (Inl OutOfFuel)"
| "owner_wait (Suc n) e pid limit =
     bnd (get go_status) (\<lambda>c. if c \<noteq> None then ret () else
     bnd (go (io_now (ne_io e))) (\<lambda>t. if limit \<le> t then ret () else
     bnd (go (poll_process (ne_io e) pid c)) (\<lambda>c.
     sqn (upd (\<lambda>s. s\<lparr>go_status := c\<rparr>)) (
     sqn (whenA (c = None) (go (io_sleep (ne_io e) (1 / 200)))) (
     owner_wait n e pid limit)))))"

subsection \<open>Creating the guest and running the task\<close>

definition owner_prepare ::
    "nat \<Rightarrow> 'w native_env \<Rightarrow> guest_config \<Rightarrow> native_deadlines \<Rightarrow> owner_fds \<Rightarrow> ('w guest_owner, unit) act" where
  "owner_prepare fuel e g d fds =
     (let reg = register_at fuel e fds (nd_work d) in
      sqn (go (close_except (ipc_of (ne_io e)) [of_control fds, of_output fds, of_ack fds, of_registry fds])) (
      sqn (go (io_detach (ne_io e))) (
      sqn (go (ne_catch e)) (
      bnd (go (ne_factory e)) (\<lambda>system.
      sqn (ensure (case system of None \<Rightarrow> False | Some (_, linux) \<Rightarrow> \<not> linux) ''offline native lifecycle requires explicitly injected syscalls'') (
      bnd (go (native_init_of (ne_sha e) (fst (the system)) ''injected-offline'' (gc_contract g) (gc_manifest g) (gc_expected g))) (\<lambda>t.
      sqn (upd (\<lambda>s. s\<lparr>go_native := Some (t, native_owner (go_world s))\<rparr>)) (
      sqn (ensure (ni_backend t = ''injected-offline'') ''offline lifecycle backend kind'') (
      bnd (on_native (\<lambda>t. native_initialize t (nd_init d) (reg ''object''))) (\<lambda>v.
      sqn (upd (\<lambda>s. s\<lparr>go_initialization := v\<rparr>)) (
      bnd (on_native (\<lambda>t. native_readback t (nd_init d))) (\<lambda>v'.
      sqn (upd (\<lambda>s. s\<lparr>go_readback := v'\<rparr>)) (
      go (reg ''ready'' (PDict [(''initialization'', v), (''independent_readback'', v')])))))))))))))))"

definition task_report :: "nat \<Rightarrow> 'w native_env \<Rightarrow> guest_config \<Rightarrow> native_deadlines \<Rightarrow> ('w guest_owner, pyval) act" where
  "task_report fuel e g d =
     bnd (get go_reader) (\<lambda>r. bnd (fd_of r) (\<lambda>fd.
     bnd (go (read_stream_of fuel (ne_io e) fd EXPORT_LIMIT (nd_task d))) (\<lambda>raw.
     bnd (lft (decode raw EXPORT_LIMIT)) (\<lambda>v.
     bnd (lft (event_get v ''scope'')) (\<lambda>scope.
     sqn (ensure (pyeq scope (PStr EXPORT_SCOPE)) ''native task requires original export scope'') (
     bnd (lft (validate_export (ne_sha e) (ne_float e) raw (gc_nonce g) (gc_digest g))) (\<lambda>x.
     sqn (upd (\<lambda>s. s\<lparr>go_export := Some x\<rparr>)) (ret x))))))))"

definition status_value :: "int option \<Rightarrow> pyval" where
  "status_value c = (case c of None \<Rightarrow> PNone | Some n \<Rightarrow> PInt n)"

definition task_settled ::
    "nat \<Rightarrow> 'w native_env \<Rightarrow> native_deadlines \<Rightarrow> owner_fds \<Rightarrow> int \<Rightarrow> pyval \<Rightarrow> ('w guest_owner, unit) act" where
  "task_settled fuel e d fds pid x =
     (let reg = (\<lambda>kind v. go (register_at fuel e fds (nd_work d) kind v));
          reaped = fld (fld x ''supervision'') ''reaped''; vacated = fld (fld x ''supervision'') ''population_empty'' in
      sqn (whenA (\<not> (truthy reaped \<and> truthy vacated)) (reg ''task-stop'' (PInt pid))) (
      sqn (reg ''task-retiring'' (retiring_value pid reaped vacated)) (
      sqn (upd (\<lambda>s. s\<lparr>go_retired := True\<rparr>)) (
      sqn (owner_wait fuel e pid (nd_task d)) (
      bnd (get go_status) (\<lambda>c.
      sqn (ensure (c \<noteq> None) ''native task supervisor reap unconfirmed'') (
      sqn (upd (\<lambda>s. s\<lparr>go_exit := c, go_reaped := True, go_worker := reaped\<rparr>)) (
      sqn (reg ''task-reaped'' (PDict [(''pid'', PInt pid), (''code'', status_value c), (''worker_reaped'', reaped)])) (
      sqn (ensure (c = Some (if truthy (fld x ''passed'') then 0 else 2)) ''native task result/exit mismatch'') (
      ensure (truthy (fld x ''passed'')) ''native task failed''))))))))))"

definition owner_task ::
    "nat \<Rightarrow> 'w native_env \<Rightarrow> guest_config \<Rightarrow> native_budget \<Rightarrow> native_deadlines \<Rightarrow> owner_fds \<Rightarrow> ('w guest_owner, unit) act" where
  "owner_task fuel e g b d fds =
     sqn (owner_fork fuel (owner_forking fuel e g b d fds)) (
     sqn (go (io_close (ne_io e) (of_control fds))) (
     sqn (upd (\<lambda>s. s\<lparr>go_control := None\<rparr>)) (
     sqn (go (io_close (ne_io e) (of_ack fds))) (
     sqn (upd (\<lambda>s. s\<lparr>go_ack := None\<rparr>)) (
     bnd (task_report fuel e g d) (\<lambda>x.
     bnd (get go_pid) (\<lambda>pid. task_settled fuel e d fds (the pid) x)))))))"

subsection \<open>Failure, cleanup and report\<close>

text \<open>
  A fork may have succeeded although its admission failed: the exception then carries the pid,
  which is registered as an unconfirmed ticket.
\<close>

definition owner_failed :: "nat \<Rightarrow> 'w native_env \<Rightarrow> native_deadlines \<Rightarrow> owner_fds \<Rightarrow> exn \<Rightarrow> ('w guest_owner, unit) act" where
  "owner_failed fuel e d fds x =
     (let reg = (\<lambda>kind v. go (register_at fuel e fds (nd_work d) kind v)) in
      bnd (get go_pid) (\<lambda>known. bnd (get go_marks) (\<lambda>marks.
      sqn (case (known, marks) of
             (None, Some (pid, reaped, status)) \<Rightarrow>
               sqn (upd (\<lambda>s. s\<lparr>go_pid := Some pid\<rparr>)) (
               sqn (noting (reg ''supervisor-unconfirmed'' (PInt pid))) (
               whenA reaped
                 (sqn (upd (\<lambda>s. s\<lparr>go_status := status, go_exit := status, go_reaped := status \<noteq> None\<rparr>))
                   (noting (reg ''task-reaped'' (PDict [(''pid'', PInt pid), (''code'', status_value status),
                      (''worker_reaped'', PBool False)]))))))
           | _ \<Rightarrow> ret ())
        (upd (\<lambda>s. s\<lparr>go_failure := Some (owner_error x)\<rparr>)))))"

text \<open>
  The parent retires its ticket before the owner may wait for the supervisor: without that
  acknowledgement the owner neither waits nor reaps.
\<close>

definition owner_settle ::
    "nat \<Rightarrow> 'w native_env \<Rightarrow> native_budget \<Rightarrow> native_deadlines \<Rightarrow> owner_fds \<Rightarrow> int \<Rightarrow> ('w guest_owner, unit) act" where
  "owner_settle fuel e b d fds pid =
     (let reg = (\<lambda>kind v. go (register_at fuel e fds (nd_work d) kind v)) in
      bnd (get go_retired) (\<lambda>retired.
      sqn (whenA (\<not> retired) (noting (
        sqn (reg ''task-stop'' (PInt pid)) (
        sqn (reg ''task-retiring'' (retiring_value pid (PBool False) (PBool False)))
          (upd (\<lambda>s. s\<lparr>go_retired := True\<rparr>)))))) (
      bnd (get go_retired) (\<lambda>retired.
      sqn (whenA retired (bnd (go (io_now (ne_io e))) (\<lambda>t. owner_wait fuel e pid (min (nd_cleanup d) (t + nb_cleanup b / 2))))) (
      upd (\<lambda>s. s\<lparr>go_exit := go_status s, go_reaped := go_status s \<noteq> None,
                 go_worker := (case go_export s of None \<Rightarrow> go_worker s | Some x \<Rightarrow> fld (fld x ''supervision'') ''reaped'')\<rparr>))))))"

definition owner_safe :: "'w guest_owner \<Rightarrow> bool" where
  "owner_safe s = (go_pid s = None \<or>
     (go_reaped s \<and> truthy (go_worker s) \<and>
      (case go_export s of None \<Rightarrow> False | Some x \<Rightarrow> truthy (fld (fld x ''supervision'') ''population_empty''))))"

definition owner_remove ::
    "nat \<Rightarrow> 'w native_env \<Rightarrow> native_budget \<Rightarrow> native_deadlines \<Rightarrow> owner_fds \<Rightarrow> ('w guest_owner, unit) act" where
  "owner_remove fuel e b d fds =
     bnd (go (io_now (ne_io e))) (\<lambda>t.
     let deadline = min (nd_cleanup d) (t + nb_cleanup b); reg = register_at fuel e fds deadline in
     sqn (go (reg ''cleanup-start'' PNone)) (
     bnd (on_native (\<lambda>t. native_cleanup t deadline (reg ''object''))) (\<lambda>v.
     upd (\<lambda>s. s\<lparr>go_cleanup := v, go_errors := go_errors s @ map str_of (list_of (fld v ''errors''))\<rparr>))))"

definition owner_clean ::
    "nat \<Rightarrow> 'w native_env \<Rightarrow> native_budget \<Rightarrow> native_deadlines \<Rightarrow> owner_fds \<Rightarrow> ('w guest_owner, unit) act" where
  "owner_clean fuel e b d fds =
     bnd (get owner_safe) (\<lambda>safe.
     bnd (get go_native) (\<lambda>n. whenA (n \<noteq> None)
       (sqn (noting (if safe then owner_remove fuel e b d fds
                     else upd (\<lambda>s. s\<lparr>go_errors := go_errors s @ [''task population/reaping unconfirmed; preserve initialized objects'']\<rparr>)))
         (noting (sqn (on_native native_close) (upd (\<lambda>s. s\<lparr>go_closed := True\<rparr>)))))))"

definition close_quietly :: "'w native_env \<Rightarrow> int option \<Rightarrow> ('w guest_owner, unit) act" where
  "close_quietly e x = (case x of None \<Rightarrow> ret () | Some fd \<Rightarrow> handle_if is_oserror (go (io_close (ne_io e) fd)) (\<lambda>_. ret ()))"

definition owner_result :: "'w guest_owner \<Rightarrow> pyval" where
  "owner_result s = PDict
     [(''initialization'', go_initialization s), (''independent_readback'', go_readback s), (''cleanup'', go_cleanup s),
      (''fd_closed'', PBool (go_closed s)), (''task_supervisor_exit'', status_value (go_exit s)),
      (''task_supervisor_reaped'', PBool (go_reaped s)), (''task_worker_reaped'', go_worker s),
      (''task_export'', case go_export s of None \<Rightarrow> PNone | Some x \<Rightarrow> x),
      (''first_failure'', case go_failure s of None \<Rightarrow> PNone | Some m \<Rightarrow> PStr m),
      (''cleanup_errors'', PList (map PStr (go_errors s)))]"

definition owner_report :: "nat \<Rightarrow> 'w native_env \<Rightarrow> native_deadlines \<Rightarrow> owner_fds \<Rightarrow> ('w guest_owner, int) act" where
  "owner_report fuel e d fds =
     bnd (get owner_result) (\<lambda>facts.
     let raw = encode (ne_float e) facts in
     bnd (trial (sqn (ensure (length raw \<le> EXPORT_LIMIT) ''native owner result byte limit'') (
        go (write_bounded fuel (ipc_of (ne_io e)) (of_output fds) raw (nd_result d) (ret ()))))) (\<lambda>r.
     get (\<lambda>s. if isl r then 2 else if go_failure s = None \<and> go_errors s = [] then 0 else 2)))"

definition owner_finish ::
    "nat \<Rightarrow> 'w native_env \<Rightarrow> native_budget \<Rightarrow> native_deadlines \<Rightarrow> owner_fds \<Rightarrow> ('w guest_owner, int) act" where
  "owner_finish fuel e b d fds =
     sqn (go (ne_ignore e)) (
     bnd (get go_pid) (\<lambda>pid. bnd (get go_reaped) (\<lambda>reaped.
     sqn (whenA (pid \<noteq> None \<and> \<not> reaped) (owner_settle fuel e b d fds (the pid))) (
     sqn (owner_clean fuel e b d fds) (
     bnd (get (\<lambda>s. [go_control s, go_ack s, go_reader s])) (\<lambda>open_fds.
     sqn (eachA (close_quietly e) open_fds) (
     owner_report fuel e d fds)))))))"

text \<open>The value is the exit status; an exception is one that leaves the function in the child.\<close>

definition owner_body ::
    "nat \<Rightarrow> 'w native_env \<Rightarrow> guest_config \<Rightarrow> native_budget \<Rightarrow> native_deadlines \<Rightarrow> owner_fds \<Rightarrow> ('w guest_owner, unit) act" where
  "owner_body fuel e g b d fds = sqn (owner_prepare fuel e g d fds) (owner_task fuel e g b d fds)"

definition owner_run ::
    "nat \<Rightarrow> 'w native_env \<Rightarrow> guest_config \<Rightarrow> native_budget \<Rightarrow> native_deadlines \<Rightarrow> owner_fds \<Rightarrow> ('w guest_owner, int) act" where
  "owner_run fuel e g b d fds =
     sqn (handle_if any_exn (owner_body fuel e g b d fds) (owner_failed fuel e d fds)) (owner_finish fuel e b d fds)"

end
