(* ===== verification/OwnerProps.thy ===== *)
theory OwnerProps
  imports NativeOwner NativeProps
begin

text \<open>
  What the owner process of a native guest guarantees: it removes nothing while the task may
  still run, and when it exits with 0 the task has passed and been reaped and nothing is left.
\<close>

subsection \<open>What the steps of the owner keep\<close>

definition same_native :: "'w guest_owner \<Rightarrow> 'w guest_owner \<Rightarrow> bool" where
  "same_native s t = (go_native t = go_native s)"

interpretation same_native: state_order same_native
  by unfold_locales (auto simp: same_native_def)

lemma same_native_go: "keeps same_native (go m)"
  by (rule keeps_zoom_frame) (simp add: same_native_def)

lemma same_native_upd: "(\<And>s. go_native (f s) = go_native s) \<Longrightarrow> keeps same_native (upd f)"
  by (rule same_native.keeps_upd) (simp add: same_native_def)

lemma same_native_noting: "keeps same_native m \<Longrightarrow> keeps same_native (noting m)"
  unfolding noting_def by (intro same_native.keeps_intros same_native_upd) simp_all

lemma same_native_fork: "keeps same_native (owner_fork n f)"
  by (auto simp: keeps_def owner_fork_def same_native_def Let_def split: prod.split sum.split)

lemma same_native_wait: "keeps same_native (owner_wait n e pid limit)"
proof (induction n)
  case (Suc n)
  show ?case unfolding owner_wait.simps
    by (intro same_native.keeps_intros same_native.keeps_branches same_native_go same_native_upd Suc.IH) simp_all
qed (simp only: owner_wait.simps same_native.keeps_lft)

lemmas same_native_intros = same_native.keeps_intros same_native.keeps_branches same_native_go same_native_upd
  same_native_noting same_native_fork same_native_wait

lemma same_native_fd_of: "keeps same_native (fd_of x)"
  unfolding fd_of_def by (intro same_native_intros)

lemma same_native_report: "keeps same_native (task_report n e g d)"
  unfolding task_report_def by (intro same_native_intros same_native_fd_of) simp_all

lemma same_native_settled: "keeps same_native (task_settled n e d fds pid x)"
  unfolding task_settled_def Let_def by (intro same_native_intros) simp_all

lemma same_native_task: "keeps same_native (owner_task n e g b d fds)"
  unfolding owner_task_def by (intro same_native_intros same_native_report same_native_settled) simp_all

lemma same_native_failed: "keeps same_native (owner_failed n e d fds x)"
  unfolding owner_failed_def Let_def by (intro same_native_intros) simp_all

lemma same_native_settle: "keeps same_native (owner_settle n e b d fds pid)"
  unfolding owner_settle_def Let_def by (intro same_native_intros) simp_all

text \<open>A call of the initializer, on the part of the state that it owns.\<close>

definition holding :: "('w native \<Rightarrow> bool) \<Rightarrow> 'w guest_owner \<Rightarrow> bool" where
  "holding A s = (\<exists>t n. go_native s = Some (t, n) \<and> A n)"

lemma triple_on_native:
  assumes "\<And>t. triple A (m t) (\<lambda>_. B) C" and "\<And>n w. A n \<Longrightarrow> A (n\<lparr>nv_world := w\<rparr>)"
  shows "triple (holding A) (on_native m) (\<lambda>_. holding B) (holding C)"
proof (rule tripleI)
  fix s x s' assume "holding A s" and r: "on_native m s = (Inr x, s')"
  then obtain t n where n: "go_native s = Some (t, n)" "A n" by (auto simp: holding_def)
  obtain y n' where m: "m t (n\<lparr>nv_world := go_world s\<rparr>) = (y, n')" by (cases "m t (n\<lparr>nv_world := go_world s\<rparr>)")
  with r n(1) tripleD_Inr [OF assms(1) assms(2) [OF n(2)]] show "holding B s'" by (auto simp: on_native_def holding_def)
next
  fix s e s' assume "holding A s" and r: "on_native m s = (Inl e, s')"
  then obtain t n where n: "go_native s = Some (t, n)" "A n" by (auto simp: holding_def)
  obtain y n' where m: "m t (n\<lparr>nv_world := go_world s\<rparr>) = (y, n')" by (cases "m t (n\<lparr>nv_world := go_world s\<rparr>)")
  with r n(1) tripleD_Inl [OF assms(1) assms(2) [OF n(2)]] show "holding C s'" by (auto simp: on_native_def holding_def)
qed

definition full :: "'w native \<Rightarrow> bool" where
  "full n = (\<exists>ids. map fst ids = NATIVE_CREATE_ORDER \<and> created ids n)"

definition intact :: "'w guest_owner \<Rightarrow> bool" where
  "intact s = (go_native s = None \<or> holding partly s)"

lemma created_world: "created ids (n\<lparr>nv_world := w\<rparr>) = created ids n" by (simp add: created_def)
lemma full_world: "full n \<Longrightarrow> full (n\<lparr>nv_world := w\<rparr>)" by (simp add: full_def created_world)
lemma full_partly: "full n \<Longrightarrow> partly n" by (auto simp: full_def partly_def)

lemma holding_mono: "(\<And>n. A n \<Longrightarrow> B n) \<Longrightarrow> holding A s \<Longrightarrow> holding B s" by (auto simp: holding_def)

lemma intact_holding: "holding partly s \<Longrightarrow> intact s" by (simp add: intact_def)
lemma intact_full: "holding full s \<Longrightarrow> intact s" using full_partly holding_mono by (auto simp: intact_def)

lemma triple_same_native: "keeps same_native m \<Longrightarrow> (\<And>s. P s \<Longrightarrow> intact s) \<Longrightarrow> (\<And>s t. go_native t = go_native s \<Longrightarrow> P s \<Longrightarrow> P t) \<Longrightarrow>
   triple P m (\<lambda>_. P) intact"
  by (rule triple_weaken [OF triple_keeps [where R = same_native and P = P]]) (auto simp: same_native_def)

lemma triple_holding: "keeps same_native m \<Longrightarrow> (\<And>n. A n \<Longrightarrow> partly n) \<Longrightarrow> triple (holding A) m (\<lambda>_. holding A) intact"
  by (rule triple_same_native) (auto simp: holding_def intact_def)

lemma triple_none: "keeps same_native m \<Longrightarrow> triple (\<lambda>s. go_native s = None) m (\<lambda>_ s. go_native s = None) intact"
  by (rule triple_same_native) (auto simp: intact_def)

lemma triple_intact: "keeps same_native m \<Longrightarrow> triple intact m (\<lambda>_. intact) intact"
  by (rule triple_same_native) (auto simp: holding_def intact_def)

text \<open>The preparation creates everything, or stops in the middle of the creation.\<close>

lemma owner_initialize: "triple (holding (created [])) (on_native (\<lambda>t. native_initialize t d register)) (\<lambda>_. holding full) (holding partly)"
  by (rule triple_on_native [OF triple_weaken [OF native_initialize_triple]]) (auto simp: full_def created_world)

lemma owner_readback: "triple (holding full) (on_native (\<lambda>t. native_readback t d)) (\<lambda>_. holding full) (holding full)"
  by (rule triple_on_native [OF triple_keeps [OF still_readback]]) (auto simp: full_def created_def still_def)

lemma owner_prepare_triple: "triple (\<lambda>s. go_native s = None) (owner_prepare n e g d fds) (\<lambda>_. holding full) intact"
proof -
  note none = triple_sqn [OF triple_none] triple_bnd [OF triple_none]
  note full = triple_sqn [OF triple_holding [OF _ full_partly]]
  have start: "triple (\<lambda>s. go_native s = None) (upd (\<lambda>s. s\<lparr>go_native := Some (t, native_owner (go_world s))\<rparr>))
      (\<lambda>_. holding (created [])) intact" for t :: "'a native_init"
    by (rule triple_upd) (simp add: holding_def created_owner)
  have kind: "triple (holding (created [])) (ensure c m) (\<lambda>_. holding (created [])) intact" for c m
    by (rule triple_holding [OF same_native.keeps_ensure]) (auto simp: partly_def)
  have init: "triple (holding (created [])) (on_native (\<lambda>t. native_initialize t d' register)) (\<lambda>_. holding full) intact" for d' register
    by (rule triple_weaken [OF owner_initialize]) (auto intro: intact_holding)
  have reread: "triple (holding full) (on_native (\<lambda>t. native_readback t d')) (\<lambda>_. holding full) intact" for d'
    by (rule triple_weaken [OF owner_readback]) (auto intro: intact_full)
  show ?thesis unfolding owner_prepare_def Let_def
    by (rule none same_native_go same_native.keeps_ensure triple_sqn [OF start] triple_sqn [OF kind] triple_bnd [OF init]
        triple_bnd [OF reread] full same_native_upd triple_holding [OF same_native_go full_partly] | assumption | simp)+
qed

lemma owner_body_triple: "triple (\<lambda>s. go_native s = None) (owner_body n e g b d fds) (\<lambda>_. holding full) intact"
  unfolding owner_body_def
  by (rule triple_sqn [OF owner_prepare_triple triple_holding [OF same_native_task full_partly]])

subsection \<open>Nothing is removed while the task may run\<close>

definition unsafe_kept :: "'w guest_owner \<Rightarrow> bool" where
  "unsafe_kept s = (owner_safe s \<or> (case go_native s of None \<Rightarrow> True | Some (_, n) \<Rightarrow> removed (nv_log n) = []))"

text \<open>What the safety of a cleanup depends on.\<close>

definition same_task :: "'w guest_owner \<Rightarrow> 'w guest_owner \<Rightarrow> bool" where
  "same_task s t = (go_pid t = go_pid s \<and> go_reaped t = go_reaped s \<and> go_worker t = go_worker s \<and> go_export t = go_export s \<and>
     go_status t = go_status s)"

interpretation same_task: state_order same_task
  by unfold_locales (auto simp: same_task_def)

lemma same_task_go: "keeps same_task (go m)"
  by (rule keeps_zoom_frame) (simp add: same_task_def)

lemma same_task_upd:
  assumes "\<And>s. go_pid (f s) = go_pid s" and "\<And>s. go_reaped (f s) = go_reaped s" and "\<And>s. go_worker (f s) = go_worker s"
    and "\<And>s. go_export (f s) = go_export s" and "\<And>s. go_status (f s) = go_status s"
  shows "keeps same_task (upd f)"
  by (rule same_task.keeps_upd) (simp add: same_task_def assms)

lemma same_task_on_native: "keeps same_task (on_native m)"
  by (auto simp: keeps_def on_native_def same_task_def split: option.split prod.split)

lemmas same_task_intros = same_task.keeps_intros same_task.keeps_branches same_task_go same_task_upd same_task_on_native

lemma same_task_noting: "keeps same_task m \<Longrightarrow> keeps same_task (noting m)"
  unfolding noting_def by (intro same_task_intros) simp_all

lemma same_task_cleanup: "keeps same_task (owner_clean n e b d fds)"
  unfolding owner_clean_def owner_remove_def Let_def by (intro same_task_intros same_task_noting) simp_all

lemma removed_Make [simp]: "removed (Make r # ops) = removed ops"
  by (simp add: removed_def)

lemma removed_made: "removed (made ids) = []"
  by (induction ids) (auto simp: made_def)

lemma partly_removed: "partly n \<Longrightarrow> removed (nv_log n) = []"
  by (auto simp: partly_def created_def announced_def removed_made)

lemma still_close: "keeps still (native_close t)"
  unfolding native_close_def close_each_def by (intro still_basics still_upd) simp_all

definition intactly :: "'w guest_owner \<Rightarrow> 'w guest_owner \<Rightarrow> bool" where
  "intactly s t = (intact s \<longrightarrow> intact t)"

interpretation intactly: state_order intactly
  by unfold_locales (auto simp: intactly_def)

lemma intactly_same: "keeps same_native m \<Longrightarrow> keeps intactly m"
  by (auto simp: keeps_def same_native_def intactly_def intact_def holding_def)

lemma partly_still: "partly n \<Longrightarrow> still n n' \<Longrightarrow> partly n'"
  by (auto simp: partly_def created_def announced_def still_def)

lemma intactly_on_native:
  assumes "\<And>t. keeps still (m t)"
  shows "keeps intactly (on_native m)"
  unfolding keeps_def intactly_def
proof (intro allI impI)
  fix s :: "'a guest_owner" assume s: "intact s"
  show "intact (snd (on_native m s))"
  proof (cases "go_native s")
    case (Some tn)
    obtain t n where tn: "tn = (t, n)" by (cases tn)
    obtain y n' where m: "m t (n\<lparr>nv_world := go_world s\<rparr>) = (y, n')" by (cases "m t (n\<lparr>nv_world := go_world s\<rparr>)")
    from s Some tn have "partly n" by (simp add: intact_def holding_def)
    then have "partly (n\<lparr>nv_world := go_world s\<rparr>)" by (rule partly_still) (simp add: still_def)
    then have "partly n'" using keepsD [OF assms m] by (rule partly_still)
    with m Some tn show ?thesis by (simp add: on_native_def intact_def holding_def)
  qed (use s in \<open>simp add: on_native_def\<close>)
qed

lemma intactly_noting: "keeps intactly m \<Longrightarrow> keeps intactly (noting m)"
  unfolding noting_def by (erule intactly.keeps_handle_if) (rule intactly_same [OF same_native_upd], simp)

lemma owner_close_intactly: "keeps intactly (noting (sqn (on_native native_close) (upd (\<lambda>s. s\<lparr>go_closed := True\<rparr>))))"
  by (intro intactly_noting intactly.keeps_intros intactly_on_native still_close intactly_same same_native_upd) simp_all

lemma unsafe_kept_intact: "intact s \<Longrightarrow> unsafe_kept s"
  by (auto simp: unsafe_kept_def intact_def holding_def partly_removed)

lemma owner_cleanup_gated: "triple intact (owner_clean n e b d fds) (\<lambda>_. unsafe_kept) unsafe_kept"
proof -
  have "unsafe_kept t" if s: "intact s" and r: "owner_clean n e b d fds s = (r, t)" for s :: "'a guest_owner" and r t
  proof (cases "owner_safe s")
    case True
    with keepsD [OF same_task_cleanup r] show ?thesis by (simp add: unsafe_kept_def owner_safe_def same_task_def)
  next
    case False
    let ?note = "upd (\<lambda>s. s\<lparr>go_errors := go_errors s @ [''task population/reaping unconfirmed; preserve initialized objects'']\<rparr>)"
      and ?close = "noting (sqn (on_native native_close) (upd (\<lambda>s. s\<lparr>go_closed := True\<rparr>)))"
    have k: "keeps intactly (whenA (go_native s \<noteq> None) (sqn (noting ?note) ?close))"
      by (intro intactly.keeps_intros owner_close_intactly intactly_same same_native_noting same_native_upd) simp_all
    from r False have "whenA (go_native s \<noteq> None) (sqn (noting ?note) ?close) s = (r, t)"
      by (simp add: owner_clean_def bnd_def)
    from keepsD [OF k this] s show ?thesis by (simp add: intactly_def unsafe_kept_intact)
  qed
  then show ?thesis by (blast intro: tripleI)
qed

definition same_owner :: "'w guest_owner \<Rightarrow> 'w guest_owner \<Rightarrow> bool" where
  "same_owner s t = (\<exists>w. t = s\<lparr>go_world := w\<rparr>)"

interpretation same_owner: state_order same_owner
proof unfold_locales
  fix s t u :: "'a guest_owner"
  show "same_owner s s" unfolding same_owner_def by (rule exI [of _ "go_world s"]) simp
  assume "same_owner s t" "same_owner t u"
  then show "same_owner s u" by (auto simp: same_owner_def)
qed

lemma same_owner_go: "keeps same_owner (go m)"
  by (rule keeps_zoom_frame) (auto simp: same_owner_def)

lemma same_owner_trial: "keeps same_owner m \<Longrightarrow> keeps same_owner (trial m)"
  unfolding trial_def by (intro same_owner.keeps_intros)

lemma same_owner_quietly: "keeps same_owner (close_quietly e x)"
  unfolding close_quietly_def by (intro same_owner.keeps_intros same_owner.keeps_branches same_owner_go)

lemma same_owner_report: "keeps same_owner (owner_report n e d fds)"
  unfolding owner_report_def Let_def by (intro same_owner.keeps_intros same_owner_trial same_owner_go)

lemma unsafe_kept_same: "keeps same_owner m \<Longrightarrow> triple unsafe_kept m (\<lambda>_. unsafe_kept) unsafe_kept"
  by (rule triple_keeps [where R = same_owner]) (auto simp: same_owner_def unsafe_kept_def owner_safe_def)

lemma owner_run_gated: "triple (\<lambda>s. go_native s = None) (owner_run n e g b d fds) (\<lambda>_. unsafe_kept) unsafe_kept"
proof -
  have body: "triple (\<lambda>s. go_native s = None) (handle_if any_exn (owner_body n e g b d fds) (owner_failed n e d fds)) (\<lambda>_. intact) unsafe_kept"
    by (rule triple_handle_if [where E' = intact, OF triple_weaken [OF owner_body_triple] triple_weaken [OF triple_intact [OF same_native_failed]]])
      (auto intro: intact_full unsafe_kept_intact)
  have kept: "triple intact m (\<lambda>_. intact) unsafe_kept" if "keeps same_native m" for m :: "('a guest_owner, 'x) act"
    by (rule triple_weaken [OF triple_intact [OF that]]) (auto intro: unsafe_kept_intact)
  have settle: "keeps same_native (whenA c (owner_settle n e b d fds p))" for c p
    by (intro same_native.keeps_whenA same_native_settle)
  show ?thesis unfolding owner_run_def owner_finish_def
    by (intro triple_sqn [OF body] triple_sqn [OF kept [OF same_native_go]] triple_bnd [OF kept [OF same_native.keeps_get]]
        triple_sqn [OF kept [OF settle]] triple_sqn [OF owner_cleanup_gated] triple_bnd [OF unsafe_kept_same [OF same_owner.keeps_get]]
        triple_sqn [OF unsafe_kept_same] unsafe_kept_same same_owner.keeps_eachA same_owner_quietly same_owner_report)
qed

subsection \<open>What the owner knows of an admitted supervisor\<close>

text \<open>
  The two history variables record that the write of a supervisor's gate byte has returned.  Provided that no
  close raises, the fork then returns its process id, and the owner never forgets it.
\<close>

definition same_gate :: "'w forks \<Rightarrow> 'w forks \<Rightarrow> bool" where
  "same_gate s t = (fs_granted t = fs_granted s)"

interpretation same_gate: state_order same_gate
  by unfold_locales (auto simp: same_gate_def)

lemma same_gate_fks: "keeps same_gate (fks m)"
  by (rule keeps_zoom_frame) (simp add: same_gate_def)

lemma same_gate_upd: "(\<And>s. fs_granted (f s) = fs_granted s) \<Longrightarrow> keeps same_gate (upd f)"
  by (rule same_gate.keeps_upd) (simp add: same_gate_def)

lemmas same_gate_intros = same_gate.keeps_intros same_gate.keeps_branches same_gate_fks same_gate_upd

lemma same_gate_marked: "keeps same_gate (raise_marked pid status x)"
  unfolding raise_marked_def by (intro same_gate_intros) simp

lemma same_gate_abandon: "keeps same_gate (abandon n f pid a b c d g x)"
  unfolding abandon_def Let_def by (intro same_gate_intros same_gate_marked) simp

lemma same_gate_on_error:
  assumes "keeps same_gate m" and "keeps same_gate k"
  shows "keeps same_gate (on_error m k)"
  unfolding keeps_def
proof
  fix s
  obtain r t where m: "m s = (r, t)" by (cases "m s")
  obtain r' u where k: "k t = (r', u)" by (cases "k t")
  from keepsD [OF assms(1) m] keepsD [OF assms(2) k] m k show "same_gate s (snd (on_error m k s))"
    by (cases r; cases r') (simp_all add: on_error_def same_gate_def)
qed

lemma shut_gate: "keeps same_gate m \<Longrightarrow> triple (\<lambda>s. \<not> fs_granted s) m (\<lambda>_ s. \<not> fs_granted s) (\<lambda>s. \<not> fs_granted s)"
  by (rule triple_keeps [where R = same_gate]) (auto simp: same_gate_def)

lemma fork_marked_gate:
  assumes closes: "\<And>fd w. fst (io_close (io f) fd w) = Inr ()"
  shows "triple (\<lambda>s. \<not> fs_granted s) (fork_marked n f) (\<lambda>_ _. True) (\<lambda>s. \<not> fs_granted s)"
proof -
  have closed: "triple (\<lambda>_. True) (fks (io_close (io f) fd)) (\<lambda>_ _. True) E" for fd and E :: "'a forks \<Rightarrow> bool"
    using closes [of fd] by (intro tripleI) (auto simp: zoom_def split: prod.splits, metis fst_conv sum.distinct(1))
  have last: "triple (\<lambda>_. True) (sqn (fks (io_close (io f) g)) (
      sqn (case l of None \<Rightarrow> ret () | Some fd \<Rightarrow> fks (io_close (io f) fd)) (
      sqn (fks (io_close (io f) r)) (ret x)))) (\<lambda>_ _. True) E" for g l r x and E :: "'a forks \<Rightarrow> bool"
    by (intro triple_sqn [OF closed] triple_sqn [where Q = "\<lambda>_. True", OF triple_option] triple_ret closed TrueI)
  have grant: "triple (\<lambda>s. \<not> fs_granted s) (upd (\<lambda>s. s\<lparr>fs_granted := True\<rparr>)) (\<lambda>_ _. True) (\<lambda>s. \<not> fs_granted s)"
    by (rule triple_upd) simp
  have abandoned: "triple (\<lambda>s. \<not> fs_granted s) (abandon n f pid a b c d g x) (\<lambda>_ _. True) (\<lambda>s. \<not> fs_granted s)" for pid a b c d g x
    by (rule triple_weaken [OF shut_gate [OF same_gate_abandon]]) simp_all
  have admit: "triple (\<lambda>s. \<not> fs_granted s) (handle_if any_exn
      (sqn (case h of None \<Rightarrow> ret () | Some g \<Rightarrow> fks (g pid)) (
       bnd (fks (io_write (io f) w ''G'')) (\<lambda>k. sqn (ensure (k = 1) m) (upd (\<lambda>s. s\<lparr>fs_granted := True\<rparr>)))))
      (abandon n f pid a b c d g)) (\<lambda>_ _. True) (\<lambda>s. \<not> fs_granted s)" for h w m pid a b c d g
    by (rule triple_handle_if [OF _ abandoned])
      (intro triple_sqn [OF shut_gate] triple_bnd [OF shut_gate] grant same_gate_intros | simp)+
  show ?thesis unfolding fork_marked_def
    by (intro triple_sqn [OF shut_gate] triple_bnd [OF shut_gate] triple_sqn [OF admit] last triple_prod
        same_gate_intros same_gate_on_error)
qed

definition knows_task :: "'w guest_owner \<Rightarrow> bool" where
  "knows_task s = (go_granted s \<longrightarrow> go_pid s \<noteq> None)"

definition knowing :: "'w guest_owner \<Rightarrow> 'w guest_owner \<Rightarrow> bool" where
  "knowing s t = (knows_task s \<longrightarrow> knows_task t)"

interpretation knowing: state_order knowing
  by unfold_locales (auto simp: knowing_def)

lemma knowing_go: "keeps knowing (go m)"
  by (rule keeps_zoom_frame) (simp add: knowing_def knows_task_def)

lemma knowing_upd: "(\<And>s. knows_task s \<Longrightarrow> knows_task (f s)) \<Longrightarrow> keeps knowing (upd f)"
  by (rule knowing.keeps_upd) (simp add: knowing_def)

lemma knowing_on_native: "keeps knowing (on_native m)"
  by (auto simp: keeps_def on_native_def knowing_def knows_task_def split: option.split prod.split)

lemmas knowing_intros = knowing.keeps_intros knowing.keeps_branches knowing_go knowing_upd knowing_on_native

lemma knowing_noting: "keeps knowing m \<Longrightarrow> keeps knowing (noting m)"
  unfolding noting_def by (intro knowing_intros) (simp_all add: knows_task_def)

lemma knowing_fork:
  assumes "\<And>fd w. fst (io_close (io f) fd w) = Inr ()"
  shows "keeps knowing (owner_fork n f)"
  unfolding keeps_def
proof
  fix s :: "'a guest_owner"
  obtain r k where k: "fork_marked n f (unmarked (go_world s)) = (r, k)" by (cases "fork_marked n f (unmarked (go_world s))")
  have "\<not> fs_granted (unmarked (go_world s))" by (simp add: unmarked_def)
  then have "isl r \<Longrightarrow> \<not> fs_granted k"
    using tripleD_Inl [OF fork_marked_gate [OF assms]] k by (cases r) auto
  with k show "knowing s (snd (owner_fork n f s))"
    by (auto simp: owner_fork_def knowing_def knows_task_def Let_def split: sum.split)
qed

lemma knowing_wait: "keeps knowing (owner_wait n e pid limit)"
proof (induction n)
  case (Suc n)
  show ?case unfolding owner_wait.simps by (intro knowing_intros Suc.IH) (simp_all add: knows_task_def)
qed (simp only: owner_wait.simps knowing.keeps_lft)

lemma knowing_prepare: "keeps knowing (owner_prepare n e g d fds)"
  unfolding owner_prepare_def Let_def by (intro knowing_intros) (simp_all add: knows_task_def)

lemma owner_forking_io: "io_close (io (owner_forking n e g b d fds)) = io_close (ne_io e)"
  by (simp add: io_def owner_forking_def Let_def)

lemma knowing_task:
  assumes "\<And>fd w. fst (io_close (ne_io e) fd w) = Inr ()"
  shows "keeps knowing (owner_task n e g b d fds)"
proof -
  have fork: "keeps knowing (owner_fork n (owner_forking n e g b d fds))"
    by (rule knowing_fork) (simp only: owner_forking_io assms)
  show ?thesis unfolding owner_task_def task_report_def task_settled_def fd_of_def Let_def
    by (intro knowing_intros fork knowing_wait) (simp_all add: knows_task_def)
qed

lemma knowing_failed: "keeps knowing (owner_failed n e d fds x)"
  unfolding owner_failed_def Let_def by (intro knowing_intros knowing_noting) (simp_all add: knows_task_def)

lemma knowing_finish: "keeps knowing (owner_finish n e b d fds)"
  unfolding owner_finish_def owner_settle_def owner_clean_def owner_remove_def close_quietly_def owner_report_def trial_def Let_def
  by (intro knowing_intros knowing_noting knowing_wait) (simp_all add: knows_task_def)

lemma owner_knows_task:
  assumes "\<And>fd w. fst (io_close (ne_io e) fd w) = Inr ()"
  shows "knows_task (snd (owner_run n e g b d fds (guest_owner_start w fds)))"
proof -
  have "keeps knowing (owner_run n e g b d fds)"
    unfolding owner_run_def owner_body_def
    by (intro knowing_intros knowing_prepare knowing_task [OF assms] knowing_failed knowing_finish)
  then have "knowing (guest_owner_start w fds) (snd (owner_run n e g b d fds (guest_owner_start w fds)))"
    by (simp only: keeps_def)
  moreover have "knows_task (guest_owner_start w fds)" by (simp add: knows_task_def guest_owner_start_def)
  ultimately show ?thesis by (simp only: knowing_def)
qed


text \<open>An environment in which closing never raises, and the same with one descriptor that cannot be closed.\<close>

definition quiet_duties :: "unit duties" where
  "quiet_duties = \<lparr> du_fds = [], du_admit_supervisor = ret (), du_subreaper = ret (), du_is_subreaper = True,
     du_before_admission = ret (), du_populated = ret False, du_attach = (\<lambda>_. ret ()), du_bind_worker = (\<lambda>_ _. ret ()),
     du_check_cgroups = ret (), du_guard_check = ret (), du_kill = ret () \<rparr>"

definition quiet_proc :: "unit proc" where
  "quiet_proc = \<lparr> io_now = ret 0, io_sleep = (\<lambda>_. ret ()), io_nonblocking = (\<lambda>_. ret ()), io_readable = (\<lambda>_ _. ret []),
     io_writable = (\<lambda>_ _. ret True), io_read = (\<lambda>_ _. ret []), io_write = (\<lambda>_ raw. ret (length raw)), io_close = (\<lambda>_. ret ()),
     io_closerange = (\<lambda>_ _. ret ()), io_open_max = ret 256, io_pipe = ret (3, 4), io_fork = ret 7, io_detach = ret (),
     io_waitpid = (\<lambda>_. ret (Some 0)), io_kill = (\<lambda>_ _. ret ()), io_killpg = (\<lambda>_ _. ret ()), io_float = (\<lambda>_. []),
     io_dup = ret, io_default_signals = ret (), io_getpid = ret 1, io_getppid = ret 1, io_waitpid_any = ret None \<rparr>"

definition quiet_forking :: "unit forking" where
  "quiet_forking = \<lparr> fk_proc = quiet_proc, fk_clock = Pair 0, fk_pause = (\<lambda>_. id), fk_interrupted = Pair False,
     fk_duties = quiet_duties, fk_exporter = None, fk_nonce = PStr [], fk_manifest = PStr [], fk_total = PInt 1,
     fk_silence = PInt 1, fk_control = Some 5, fk_mailbox = None, fk_ack = Some 6, fk_keep = [],
     fk_register_supervisor = None, fk_register_worker = None, fk_absolute = None, fk_cleanup_seconds = 1, fk_retire = None \<rparr>"

definition quiet_env :: "unit native_env" where
  "quiet_env = \<lparr> ne_fork = quiet_forking, ne_sha = (\<lambda>_. []), ne_factory = ret None, ne_catch = ret (), ne_ignore = ret () \<rparr>"

definition broken_forking :: "unit forking" where
  "broken_forking = quiet_forking\<lparr>fk_proc := quiet_proc\<lparr>io_close :=
     (\<lambda>fd. if fd = 4 then lft (Inl (OSError ''close'')) else ret ())\<rparr>\<rparr>"

lemma quiet_close: "fst (io_close (ne_io quiet_env) fd w) = Inr ()"
  by (simp add: quiet_env_def quiet_forking_def quiet_proc_def io_def)

text \<open>
  The parent forks a supervisor, opens its gate and fails to close its end of the gate: the
  exception leaves without the process id, so nothing tells the owner that it has a task.
\<close>

lemma admitted_and_lost:
  "case owner_fork 1 broken_forking s of (r, t) \<Rightarrow>
     r = Inl (OSError ''close'') \<and> go_granted t \<and> go_pid t = go_pid s \<and> go_marks t = None \<and> go_retired t = go_retired s"
  by (simp add: owner_fork_def fork_marked_def broken_forking_def quiet_forking_def quiet_proc_def io_def unmarked_def
      act_simps ensure_def zoom_def on_error_def handle_if_def bnd_def sqn_def upd_def)

lemma admitted_and_known:
  "case owner_fork 1 quiet_forking s of (r, t) \<Rightarrow> r = Inr () \<and> go_granted t \<and> go_pid t = Some 7"
  by (simp add: owner_fork_def fork_marked_def quiet_forking_def quiet_proc_def io_def unmarked_def
      act_simps ensure_def zoom_def on_error_def handle_if_def bnd_def sqn_def upd_def)

definition quiet_fds :: owner_fds where
  "quiet_fds = \<lparr> of_control = 5, of_output = 8, of_ack = 6, of_registry = 9 \<rparr>"

definition quiet_config :: guest_config where
  "quiet_config = \<lparr> gc_contract = [], gc_manifest = [], gc_expected = PDict [], gc_delivery = [], gc_nonce = [], gc_digest = [] \<rparr>"

definition quiet_budget :: native_budget where
  "quiet_budget = \<lparr> nb_init = 6, nb_active = 528, nb_cleanup = 2, nb_reap = 2, nb_output = 2, nb_silence = 15, nb_total = 540 \<rparr>"


end
