(* ===== verification/OwnerExit.thy ===== *)
theory OwnerExit
  imports OwnerProps
begin

text \<open>
  An owner process that exits with 0: the task has passed, everything it started is reaped, and
  everything it created is gone.
\<close>

subsection \<open>A task that passed\<close>

lemma cleanup_errors_list: "native_cleanup t d register s = (Inr v, s') \<Longrightarrow> \<exists>errors. fld v ''errors'' = PList (map PStr errors)"
  using native_cleanup_outcome [of t d register s "Inr v" s'] by (auto simp: native_cleanup_result_def fld_def)

lemma packet_supervised:
  assumes "validate_packet sha p nonce m = Inr x" and "truthy (fld x ''passed'')"
  shows "supervision_clean (fld x ''supervision'')"
proof -
  from assms(1) obtain seen u where p: "p = x" and sup: "validate_supervision (fld p ''supervision'') nonce m = Inr u"
    and f: "foldE (check_artifact sha nonce m (fld p ''export_errors'')) \<lparr> se_names = [], se_used = 0, se_summary = PNone \<rparr>
      (list_of (fld p ''artifacts'')) = Inr seen"
    and pass: "truthy (fld p ''passed'') \<Longrightarrow> passing_complete p seen = Inr ()"
    unfolding validate_packet_def Let_def bindE_Inr require_Inr
    apply (elim exE conjE)
    apply (rule that)
       apply (simp only: sum.inject)
      apply assumption+
    subgoal for w y z v by (cases v) (simp only: if_True)
    done
  from pass assms(2) p have "truthy (fld (fld p ''supervision'') ''passed'')"
    unfolding passing_complete_def require_Inr by auto
  from supervision_passed [OF sup this] p show ?thesis by simp
qed

lemma export_supervised:
  assumes "validate_export sha fr raw nonce m = Inr x" and "decode raw EXPORT_LIMIT = Inr v" and "event_get v ''scope'' = Inr sc"
    and "pyeq sc (PStr EXPORT_SCOPE)" and "truthy (fld x ''passed'')"
  shows "supervision_clean (fld x ''supervision'')"
proof -
  have "sc = PStr EXPORT_SCOPE" using assms(4) by (cases sc) auto
  with assms(3) have "\<not> (is_dict v \<and> get_or v ''scope'' PNone = PStr NATIVE_EXPORT_SCOPE)"
    by (auto simp: event_get_def EXPORT_SCOPE_def NATIVE_EXPORT_SCOPE_def split: if_splits)
  with assms(1,2) have "validate_packet sha v nonce m = Inr x" by (auto simp: validate_export_def bindE_def)
  then show ?thesis using assms(5) by (rule packet_supervised)
qed

definition outcome :: "'w guest_owner \<Rightarrow> 'w guest_owner \<Rightarrow> bool" where
  "outcome s t = (go_failure t = go_failure s \<and> go_errors t = go_errors s)"

interpretation outcome: state_order outcome
  by unfold_locales (auto simp: outcome_def)

lemma outcome_go: "keeps outcome (go m)"
  by (rule keeps_zoom_frame) (simp add: outcome_def)

lemma outcome_upd: "(\<And>s. go_failure (f s) = go_failure s) \<Longrightarrow> (\<And>s. go_errors (f s) = go_errors s) \<Longrightarrow> keeps outcome (upd f)"
  by (rule outcome.keeps_upd) (simp add: outcome_def)

lemma outcome_on_native: "keeps outcome (on_native m)"
  by (auto simp: keeps_def on_native_def outcome_def split: option.split prod.split)

lemma outcome_fork: "keeps outcome (owner_fork n f)"
  by (auto simp: keeps_def owner_fork_def outcome_def Let_def split: prod.split sum.split)

lemmas outcome_intros = outcome.keeps_intros outcome.keeps_branches outcome_go outcome_upd outcome_on_native outcome_fork

lemma outcome_wait: "keeps outcome (owner_wait n e pid limit)"
proof (induction n)
  case (Suc n)
  show ?case unfolding owner_wait.simps by (intro outcome_intros Suc.IH) simp_all
qed (simp only: owner_wait.simps outcome.keeps_lft)

lemma outcome_body: "keeps outcome (owner_body n e g b d fds)"
  unfolding owner_body_def owner_prepare_def owner_task_def task_report_def task_settled_def fd_of_def Let_def
  by (intro outcome_intros outcome_wait) simp_all

lemma go_run: "go m s = (r, t) \<Longrightarrow> \<exists>w. t = s\<lparr>go_world := w\<rparr>"
  by (auto simp: zoom_def split: prod.splits)

lemma task_settled_Inr:
  assumes "task_settled n e d fds pid x s = (Inr u, t)"
  shows "go_status t = Some 0 \<and> go_reaped t \<and> go_worker t = fld (fld x ''supervision'') ''reaped'' \<and> truthy (fld x ''passed'')"
  using assms unfolding task_settled_def Let_def
  by (auto simp: act_simps dest!: go_run split: if_splits)

definition same_export :: "'w guest_owner \<Rightarrow> 'w guest_owner \<Rightarrow> bool" where
  "same_export s t = (go_export t = go_export s \<and> go_pid t = go_pid s)"

interpretation same_export: state_order same_export
  by unfold_locales (auto simp: same_export_def)

lemma same_export_go: "keeps same_export (go m)"
  by (rule keeps_zoom_frame) (simp add: same_export_def)

lemma same_export_upd: "(\<And>s. go_export (f s) = go_export s) \<Longrightarrow> (\<And>s. go_pid (f s) = go_pid s) \<Longrightarrow> keeps same_export (upd f)"
  by (rule same_export.keeps_upd) (simp add: same_export_def)

lemmas same_export_intros = same_export.keeps_intros same_export.keeps_branches same_export_go same_export_upd

lemma same_export_settled: "keeps same_export (task_settled n e d fds pid x)"
proof -
  have "keeps same_export (owner_wait n e pid limit)" for n limit
  proof (induction n)
    case (Suc n)
    show ?case unfolding owner_wait.simps by (intro same_export_intros Suc.IH) simp_all
  qed (simp only: owner_wait.simps same_export.keeps_lft)
  then show ?thesis unfolding task_settled_def Let_def by (intro same_export_intros) simp_all
qed

lemma fd_of_Inr: "fd_of x s = (Inr fd, t) \<longleftrightarrow> x = Some fd \<and> t = s"
  by (auto simp: fd_of_def act_simps split: option.split)

lemma task_report_Inr:
  assumes "task_report n e g d s = (Inr x, t)"
  shows "go_export t = Some x \<and> go_pid t = go_pid s \<and>
    (truthy (fld x ''passed'') \<longrightarrow> supervision_clean (fld x ''supervision''))"
  using assms unfolding task_report_def
  by (auto simp: act_simps fd_of_Inr intro: export_supervised dest!: go_run split: if_splits)

text \<open>What is known once the body of the owner has returned.\<close>

definition task_done :: "'w guest_owner \<Rightarrow> bool" where
  "task_done s = (\<exists>x. go_export s = Some x \<and> go_pid s \<noteq> None \<and> go_status s = Some 0 \<and> go_reaped s \<and>
     go_worker s = fld (fld x ''supervision'') ''reaped'' \<and> truthy (fld x ''passed'') \<and> supervision_clean (fld x ''supervision''))"

lemma owner_fork_Inr: "owner_fork n f s = (Inr u, t) \<Longrightarrow> go_pid t \<noteq> None"
  by (auto simp: owner_fork_def Let_def split: prod.splits sum.splits if_splits)

lemma owner_task_Inr:
  assumes "owner_task n e g b d fds s = (Inr u, t)"
  shows "task_done t"
proof -
  have "\<exists>s2 x s3. go_pid s2 \<noteq> None \<and> task_report n e g d s2 = (Inr x, s3) \<and>
      task_settled n e d fds (the (go_pid s3)) x s3 = (Inr u, t)"
    using assms unfolding owner_task_def
    apply (auto simp: act_simps dest!: go_run owner_fork_Inr)
    subgoal for s1 y x w s3 by (rule exI [of _ "s1\<lparr>go_control := None, go_world := w, go_ack := None\<rparr>"]) auto
    done
  then obtain s2 x s3 where p: "go_pid s2 \<noteq> None" and r: "task_report n e g d s2 = (Inr x, s3)"
    and w: "task_settled n e d fds (the (go_pid s3)) x s3 = (Inr u, t)" by blast
  from task_report_Inr [OF r] task_settled_Inr [OF w] keepsD [OF same_export_settled w] p
  show ?thesis by (auto simp: task_done_def same_export_def)
qed

lemma task_done_safe: "task_done s \<Longrightarrow> owner_safe s"
  by (auto simp: task_done_def owner_safe_def supervision_clean_def)

subsection \<open>The exit status 0\<close>

lemma noting_clean:
  assumes "noting m s = (Inr u, t)" and "go_errors t = []"
  shows "m s = (Inr u, t)"
  using assms unfolding noting_def handle_if_def by (auto split: prod.splits sum.splits if_splits)

definition errors_grow :: "'w guest_owner \<Rightarrow> 'w guest_owner \<Rightarrow> bool" where
  "errors_grow s t = (prefix (go_errors s) (go_errors t) \<and> go_failure t = go_failure s)"

interpretation errors_grow: state_order errors_grow
  by unfold_locales (auto simp: errors_grow_def intro: prefix_order.trans)

lemma errors_grow_outcome: "keeps outcome m \<Longrightarrow> keeps errors_grow m"
  by (auto simp: keeps_def outcome_def errors_grow_def)

lemma errors_grow_noting: "keeps errors_grow m \<Longrightarrow> keeps errors_grow (noting m)"
  unfolding noting_def
  by (erule errors_grow.keeps_handle_if) (rule errors_grow.keeps_upd, simp add: errors_grow_def)

lemma full_announced:
  assumes "full k"
  shows "announced_roles (nv_log k) = NATIVE_CREATE_ORDER"
proof -
  from assms obtain ids where i: "map fst ids = NATIVE_CREATE_ORDER" and c: "created ids k" by (auto simp: full_def)
  have "announced_roles (nv_log k) = map fst (nv_entries k)" by (rule partly_announced(1) [OF full_partly [OF assms]])
  also have "nv_entries k = bound_rows ids" using c by (simp add: created_def)
  also have "map fst (bound_rows ids) = map fst ids" by (simp add: bound_rows_def case_prod_beta comp_def)
  finally show ?thesis by (simp add: i)
qed

definition nothing_left :: "'w guest_owner \<Rightarrow> bool" where
  "nothing_left s = (fld (go_cleanup s) ''cleaned'' = PList (map PStr (rev NATIVE_CREATE_ORDER)) \<and>
     (\<exists>t k. go_native s = Some (t, k) \<and> nv_entries k = []))"

lemma owner_remove_clean:
  assumes "owner_remove n e b d fds s = (Inr u, t)" and "holding full s" and "go_errors t = []"
  shows "nothing_left t"
proof -
  from assms(1) obtain deadline register v s1 w where c: "on_native (\<lambda>t. native_cleanup t deadline register) (s\<lparr>go_world := w\<rparr>) = (Inr v, s1)"
    and t: "t = s1\<lparr>go_cleanup := v, go_errors := go_errors s1 @ map str_of (list_of (fld v ''errors''))\<rparr>"
    unfolding owner_remove_def Let_def by (auto simp: act_simps dest!: go_run)
  from assms(2) obtain i k where k: "go_native s = Some (i, k)" "full k" by (auto simp: holding_def)
  from c k obtain k' where n: "native_cleanup i deadline register (k\<lparr>nv_world := w\<rparr>) = (Inr v, k')"
    and s1: "go_native s1 = Some (i, k')"
    by (auto simp: on_native_def split: prod.splits)
  from assms(3) t have "list_of (fld v ''errors'') = []" by auto
  with cleanup_errors_list [OF n] have e: "fld v ''errors'' = PList []" by auto
  from cleanup_complete [OF full_partly [OF full_world [OF k(2)]] n e] full_announced [OF k(2)] t s1
  show ?thesis by (simp add: nothing_left_def)
qed

lemma close_keeps:
  assumes "sqn (on_native native_close) (upd (\<lambda>s. s\<lparr>go_closed := True\<rparr>)) s = (Inr u, t)" and "nothing_left s"
  shows "nothing_left t \<and> go_closed t"
proof -
  from assms(1) obtain s1 where c: "on_native native_close s = (Inr (), s1)" and t: "t = s1\<lparr>go_closed := True\<rparr>"
    by (auto simp: act_simps)
  from assms(2) obtain i k where k: "go_native s = Some (i, k)" "nv_entries k = []" by (auto simp: nothing_left_def)
  from c k obtain k' where n: "native_close i (k\<lparr>nv_world := go_world s\<rparr>) = (Inr (), k')"
    and s1: "s1 = s\<lparr>go_world := nv_world k', go_native := Some (i, k')\<rparr>"
    by (auto simp: on_native_def split: prod.splits)
  from keepsD [OF still_close n] k(2) have "nv_entries k' = []" by (simp add: still_def)
  with assms(2) t s1 show ?thesis by (simp add: nothing_left_def)
qed

lemma owner_cleanup_clean:
  assumes "owner_clean n e b d fds s = (Inr u, t)" and "owner_safe s" and "holding full s" and "go_errors t = []"
  shows "nothing_left t \<and> go_closed t"
proof -
  let ?close = "sqn (on_native native_close) (upd (\<lambda>s. s\<lparr>go_closed := True\<rparr>))"
  from assms(3) have "go_native s \<noteq> None" by (auto simp: holding_def)
  with assms(1,2) obtain s1 where r: "noting (owner_remove n e b d fds) s = (Inr (), s1)" and c: "noting ?close s1 = (Inr (), t)"
    unfolding owner_clean_def by (auto simp: act_simps whenA_def)
  from noting_clean [OF c assms(4)] have c': "?close s1 = (Inr (), t)" .
  have "keeps outcome ?close" by (intro outcome_intros) simp_all
  from keepsD [OF this c'] assms(4) have "go_errors s1 = []" by (simp add: outcome_def)
  from owner_remove_clean [OF noting_clean [OF r this] assms(3) this] show ?thesis by (rule close_keeps [OF c'])
qed

lemma owner_report_zero: "owner_report n e d fds s = (Inr 0, t) \<Longrightarrow> go_failure t = None \<and> go_errors t = []"
  unfolding owner_report_def Let_def by (auto simp: act_simps split: if_splits)

lemma errors_grow_finish_steps:
  "keeps errors_grow (owner_settle n e b d fds pid)" "keeps errors_grow (owner_clean n e b d fds)"
  "keeps errors_grow (close_quietly e x)"
proof -
  have wait: "keeps errors_grow (owner_wait n e pid limit)" for n pid limit by (intro errors_grow_outcome outcome_wait)
  have noted: "keeps errors_grow (upd (\<lambda>s. s\<lparr>go_errors := go_errors s @ xs s\<rparr>))" for xs :: "'a guest_owner \<Rightarrow> string list"
    by (rule errors_grow.keeps_upd) (simp add: errors_grow_def)
  have cleaned: "keeps errors_grow (upd (\<lambda>s. s\<lparr>go_cleanup := v, go_errors := go_errors s @ xs\<rparr>))" for v xs
    by (rule errors_grow.keeps_upd) (simp add: errors_grow_def)
  note intros = errors_grow.keeps_intros errors_grow.keeps_branches errors_grow_noting errors_grow_outcome [OF outcome_go]
    errors_grow_outcome [OF outcome_upd] errors_grow_outcome [OF outcome_on_native] wait noted cleaned
  show "keeps errors_grow (owner_settle n e b d fds pid)" unfolding owner_settle_def Let_def by (intro intros) simp_all
  show "keeps errors_grow (close_quietly e x)" unfolding close_quietly_def by (intro intros)
  have "keeps errors_grow (owner_remove n e b d fds)" unfolding owner_remove_def Let_def by (intro intros)
  then show "keeps errors_grow (owner_clean n e b d fds)"
    unfolding owner_clean_def
    by (intro errors_grow.keeps_bnd errors_grow.keeps_get errors_grow.keeps_whenA errors_grow.keeps_sqn errors_grow_noting
        errors_grow.keeps_if noted errors_grow_outcome [OF outcome_on_native] errors_grow_outcome [OF outcome_upd]) simp_all
qed

lemma owner_failed_failure: "owner_failed n e d fds x s = (Inr u, t) \<Longrightarrow> go_failure t \<noteq> None"
  unfolding owner_failed_def Let_def by (auto simp: act_simps)

lemma owner_body_Inr:
  assumes "owner_body n e g b d fds (guest_owner_start w fds) = (Inr u, t)"
  shows "task_done t \<and> holding full t \<and> go_failure t = None"
proof -
  from assms have "task_done t" unfolding owner_body_def by (auto simp: act_simps dest: owner_task_Inr)
  moreover have "holding full t" by (rule tripleD_Inr [OF owner_body_triple _ assms]) (simp add: guest_owner_start_def)
  moreover have "go_failure t = None" using keepsD [OF outcome_body assms] by (simp add: outcome_def guest_owner_start_def)
  ultimately show ?thesis by simp
qed

lemma task_done_world: "task_done s \<Longrightarrow> task_done (s\<lparr>go_world := w\<rparr>)" by (simp add: task_done_def)

lemma owner_finish_zero:
  assumes r: "owner_finish n e b d fds s = (Inr 0, t)"
  shows "go_failure s = None" and "task_done s \<and> holding full s \<Longrightarrow> nothing_left t \<and> go_closed t \<and> task_done t \<and> go_errors t = [] \<and> go_failure t = None"
proof -
  from r obtain w s1 s2 s3 where s1: "whenA (go_pid s \<noteq> None \<and> \<not> go_reaped s) (owner_settle n e b d fds (the (go_pid s))) (s\<lparr>go_world := w\<rparr>) = (Inr (), s1)"
    and s2: "owner_clean n e b d fds s1 = (Inr (), s2)"
    and s3: "eachA (close_quietly e) [go_control s2, go_ack s2, go_reader s2] s2 = (Inr (), s3)"
    and t: "owner_report n e d fds s3 = (Inr 0, t)"
    unfolding owner_finish_def by (auto simp: act_simps dest!: go_run)
  have quiet: "keeps same_owner (eachA (close_quietly e) xs)" for xs by (intro same_owner.keeps_eachA same_owner_quietly)
  from keepsD [OF quiet s3] keepsD [OF same_owner_report t] obtain w' where t2: "t = s2\<lparr>go_world := w'\<rparr>"
    by (auto simp: same_owner_def)
  from owner_report_zero [OF t] t2 have z: "go_failure s2 = None" "go_errors s2 = []" by auto
  have "keeps errors_grow (whenA c (owner_settle n e b d fds p))" for c p
    by (intro errors_grow.keeps_whenA errors_grow_finish_steps)
  from keepsD [OF this s1] keepsD [OF errors_grow_finish_steps(2) s2] z show "go_failure s = None"
    by (simp add: errors_grow_def)
  assume a: "task_done s \<and> holding full s"
  then have "go_reaped s" by (auto simp: task_done_def)
  with s1 have s1': "s1 = s\<lparr>go_world := w\<rparr>" by (simp add: whenA_def act_simps)
  with a have full: "holding full s1" and safe: "owner_safe s1" and td: "task_done s1"
    by (auto simp: holding_def intro: task_done_safe task_done_world)
  from owner_cleanup_clean [OF s2 safe full z(2)] have c: "nothing_left s2 \<and> go_closed s2" .
  with keepsD [OF same_task_cleanup s2] td have "task_done s2" by (simp add: task_done_def same_task_def)
  with c z t2 show "nothing_left t \<and> go_closed t \<and> task_done t \<and> go_errors t = [] \<and> go_failure t = None"
    by (simp add: nothing_left_def task_done_def)
qed

text \<open>
  C1: an owner that exits with 0 has left nothing.  The task's export validated and passed, with
  a supervision that reaped its worker and saw the group empty; the supervisor was reaped with
  exit code 0; nothing failed; and all nine objects of the guest were created and have been
  removed, in the reverse order, with no entry left and the descriptors closed.
\<close>

theorem owner_exit_complete:
  "case owner_run n e g b d fds (guest_owner_start w fds) of
     (Inl _, _) \<Rightarrow> True
   | (Inr status, s) \<Rightarrow>
       if status = 0
       then go_failure s = None \<and> go_errors s = [] \<and> go_closed s \<and> go_status s = Some 0 \<and> go_reaped s \<and>
         (\<exists>x. go_export s = Some x \<and> truthy (fld x ''passed'') \<and> supervision_clean (fld x ''supervision'')) \<and>
         fld (go_cleanup s) ''cleaned'' = PList (map PStr (rev NATIVE_CREATE_ORDER)) \<and>
         (\<exists>t k. go_native s = Some (t, k) \<and> nv_entries k = [])
       else True"
proof (cases "owner_run n e g b d fds (guest_owner_start w fds)")
  case (Pair r s)
  show ?thesis
  proof (cases "r = Inr 0")
    case True
    with Pair obtain s1 where h: "handle_if any_exn (owner_body n e g b d fds) (owner_failed n e d fds) (guest_owner_start w fds) = (Inr (), s1)"
      and f: "owner_finish n e b d fds s1 = (Inr 0, s)" by (auto simp: owner_run_def act_simps)
    have none: "go_failure s1 = None" by (rule owner_finish_zero(1) [OF f])
    from h none have "owner_body n e g b d fds (guest_owner_start w fds) = (Inr (), s1)"
      unfolding handle_if_def by (auto split: prod.splits sum.splits if_splits dest: owner_failed_failure)
    from owner_body_Inr [OF this] owner_finish_zero(2) [OF f]
    have "nothing_left s \<and> go_closed s \<and> task_done s \<and> go_errors s = [] \<and> go_failure s = None" by blast
    then show ?thesis unfolding Pair True by (auto simp: nothing_left_def task_done_def)
  qed (simp add: Pair split: sum.split)
qed

end
