(* ===== verification/NativeGuest.thy ===== *)
theory NativeGuest
  imports NativeOwner
begin

text \<open>
  The parent of a native guest invocation (\<open>run_native_guest\<close>): it forks the owner, acknowledges
  its registrations, forwards the control channel, enforces the phase deadlines, signals only
  tickets that have not retired, and writes an export that it has validated itself.
  The state carries one component the code has not: the list of the signals sent to a ticket,
  of the owner's reaping and of the retirement of the task's ticket, in order.
\<close>

subsection \<open>Environment and state\<close>

record 'w guest_env =
  ge_env :: "'w native_env"
  ge_catch :: "('w, unit) act"
  ge_interrupted :: "('w, int option) act"
  ge_restore :: "('w, unit) act"
  ge_socketpair :: "('w, int \<times> int) act"

record guest_run =
  gr_config :: guest_config
  gr_budget :: native_budget
  gr_deadlines :: native_deadlines
  gr_absolute :: rat
  gr_pid :: int
  gr_control :: int
  gr_output :: int
  gr_result :: int
  gr_registry :: int

datatype guest_op =
    Signalled int string
  | OwnerReaped
  | Retired

record 'w guest =
  gs_world :: 'w
  gs_registry :: registry
  gs_events :: "pyval list"
  gs_roles :: "(string \<times> pyval) list"
  gs_groups :: "(string \<times> int) list"
  gs_raw :: string
  gs_buffer :: string
  gs_code :: "int option"
  gs_message :: pyval
  gs_failure :: "string option"
  gs_ready :: bool
  gs_retired :: bool
  gs_stopped :: bool
  gs_task_reaped :: bool
  gs_worker_reaped :: bool
  gs_errors :: "string list"
  gs_until :: "rat option"
  gs_eof :: bool
  gs_open :: bool
  gs_cleanup :: "rat option"
  gs_child :: "int option"
  gs_ready_fd :: "int option"
  gs_log :: "guest_op list"

definition guest_start :: "'w \<Rightarrow> int \<Rightarrow> int option \<Rightarrow> 'w guest" where
  "guest_start w child ready_fd = \<lparr> gs_world = w, gs_registry = [], gs_events = [], gs_roles = [], gs_groups = [], gs_raw = [],
     gs_buffer = [], gs_code = None, gs_message = PNone, gs_failure = None, gs_ready = False, gs_retired = False,
     gs_stopped = False, gs_task_reaped = False, gs_worker_reaped = False, gs_errors = [], gs_until = None, gs_eof = False,
     gs_open = True, gs_cleanup = None, gs_child = Some child, gs_ready_fd = ready_fd, gs_log = [] \<rparr>"

abbreviation gs :: "('w, 'a) act \<Rightarrow> ('w guest, 'a) act" where
  "gs \<equiv> zoom gs_world gs_world_update"

abbreviation ge_io :: "'w guest_env \<Rightarrow> 'w proc" where
  "ge_io e \<equiv> ne_io (ge_env e)"

definition guest_log :: "guest_op \<Rightarrow> ('w guest, unit) act" where
  "guest_log x = upd (\<lambda>s. s\<lparr>gs_log := gs_log s @ [x]\<rparr>)"

subsection \<open>Signals and failure\<close>

definition note_error :: "exn \<Rightarrow> ('w guest, unit) act" where
  "note_error x = upd (\<lambda>s. s\<lparr>gs_errors := gs_errors s @ [owner_error x]\<rparr>)"

definition signal_owned :: "'w guest_env \<Rightarrow> int \<Rightarrow> string \<Rightarrow> ('w guest, unit) act" where
  "signal_owned e ticket number =
     sqn (guest_log (Signalled ticket number)) (
     handle_if is_oserror (gs (signal_process (ge_io e) ticket number)) note_error)"

text \<open>\<open>"supervisor" in groups and not task_retired\<close>, with the ticket.\<close>

definition live_ticket :: "'w guest \<Rightarrow> int option" where
  "live_ticket s = (if gs_retired s then None else map_of (gs_groups s) ''supervisor'')"

definition signal_live :: "'w guest_env \<Rightarrow> string \<Rightarrow> ('w guest, unit) act" where
  "signal_live e number = bnd (get live_ticket) (\<lambda>x. case x of None \<Rightarrow> ret () | Some p \<Rightarrow> signal_owned e p number)"

definition signal_child :: "'w guest_env \<Rightarrow> guest_run \<Rightarrow> string \<Rightarrow> ('w guest, unit) act" where
  "signal_child e c number = bnd (get gs_code) (\<lambda>k. whenA (k = None) (signal_owned e (gr_pid c) number))"

definition guest_fail :: "'w guest_env \<Rightarrow> guest_run \<Rightarrow> string \<Rightarrow> ('w guest, unit) act" where
  "guest_fail e c reason =
     bnd (get gs_failure) (\<lambda>f. whenA (f = None) (
     sqn (upd (\<lambda>s. s\<lparr>gs_failure := Some (take 1000 reason)\<rparr>)) (
     bnd (gs (io_now (ge_io e))) (\<lambda>t.
     sqn (upd (\<lambda>s. s\<lparr>gs_until := Some (min (nd_result (gr_deadlines c)) (t + nb_cleanup (gr_budget c) + nb_reap (gr_budget c)))\<rparr>)) (
     bnd (get gs_child) (\<lambda>w.
     sqn (case w of None \<Rightarrow> ret () | Some fd \<Rightarrow> sqn (gs (io_close (ge_io e) fd)) (upd (\<lambda>s. s\<lparr>gs_child := None\<rparr>))) (
     sqn (signal_live e ''TERM'') (
     signal_child e c ''TERM''))))))))"

definition guest_poll :: "'w guest_env \<Rightarrow> guest_run \<Rightarrow> ('w guest, unit) act" where
  "guest_poll e c =
     bnd (get gs_code) (\<lambda>k. bnd (gs (poll_process (ge_io e) (gr_pid c) k)) (\<lambda>k'.
     sqn (upd (\<lambda>s. s\<lparr>gs_code := k'\<rparr>)) (whenA (k = None \<and> k' \<noteq> None) (guest_log OwnerReaped))))"

fun guest_reap :: "nat \<Rightarrow> 'w guest_env \<Rightarrow> guest_run \<Rightarrow> rat \<Rightarrow> ('w guest, unit) act" where
  "guest_reap 0 e c limit = lft (Inl OutOfFuel)"
| "guest_reap (Suc n) e c limit =
     bnd (get gs_code) (\<lambda>k. if k \<noteq> None then ret () else
     bnd (gs (io_now (ge_io e))) (\<lambda>t. if limit \<le> t then ret () else
     sqn (guest_poll e c) (
     bnd (get gs_code) (\<lambda>k.
     sqn (whenA (k = None) (gs (io_sleep (ge_io e) (1 / 200)))) (
     guest_reap n e c limit)))))"

definition reap_window :: "nat \<Rightarrow> 'w guest_env \<Rightarrow> guest_run \<Rightarrow> ('w guest, unit) act" where
  "reap_window fuel e c =
     bnd (gs (io_now (ge_io e))) (\<lambda>t.
     guest_reap fuel e c (min (gr_absolute c - nb_output (gr_budget c)) (t + nb_reap (gr_budget c))))"

subsection \<open>Registrations\<close>

definition ready_packet :: "guest_config \<Rightarrow> pyval" where
  "ready_packet g = PDict
     [(''schema_version'', PInt 1), (''scope'', PStr ''i5-preparation-native-lifecycle-ready''), (''uuid'', PStr UUID),
      (''nonce'', PStr (gc_nonce g)), (''manifest_sha256'', PStr (gc_digest g)), (''ready'', PBool True),
      (''delivery_sha256'', PStr (gc_delivery g))]"

definition event_object :: "pyval \<Rightarrow> ('w guest, unit) act" where
  "event_object v = (\<lambda>s. case register_object (gs_registry s, gs_events s) v of
     Inl x \<Rightarrow> (Inl x, s) | Inr (reg, events) \<Rightarrow> (Inr (), s\<lparr>gs_registry := reg, gs_events := events\<rparr>))"

definition all_bound :: "registry \<Rightarrow> bool" where
  "all_bound reg = (fst ` set reg = set NATIVE_CREATE_ORDER \<and> list_all (\<lambda>(_, row). fld row ''state'' = PStr ''bound'') reg)"

definition event_ready :: "nat \<Rightarrow> 'w guest_env \<Rightarrow> guest_run \<Rightarrow> pyval \<Rightarrow> ('w guest, unit) act" where
  "event_ready fuel e c v =
     bnd (get (\<lambda>s. \<not> gs_ready s \<and> all_bound (gs_registry s))) (\<lambda>ok.
     sqn (ensure ok ''native ready registration barrier'') (
     sqn (lft (check_fields v [''initialization'', ''independent_readback''])) (
     sqn (upd (\<lambda>s. s\<lparr>gs_roles := foldl (\<lambda>d (k, x). AList.update k x d) (gs_roles s) (dict_of v)\<rparr>)) (
     sqn (lft (validate_observations (ne_sha (ge_env e)) (fld v ''initialization'') (fld v ''independent_readback'')
            (gc_nonce (gr_config c)) (gc_digest (gr_config c)))) (
     sqn (upd (\<lambda>s. s\<lparr>gs_ready := True\<rparr>)) (
     bnd (get gs_ready_fd) (\<lambda>x. case x of None \<Rightarrow> ret () | Some fd \<Rightarrow>
       sqn (gs (write_bounded fuel (ipc_of (ge_io e)) fd (encode (ne_float (ge_env e)) (ready_packet (gr_config c)))
              (nd_init (gr_deadlines c)) (ret ()))) (
       sqn (gs (io_close (ge_io e) fd)) (upd (\<lambda>s. s\<lparr>gs_ready_fd := None\<rparr>))))))))))"

text \<open>\<open>type(value) is int and value > 1 and value != pid\<close>: a process id that may become a ticket.\<close>

definition ticket_ok :: "guest_run \<Rightarrow> pyval \<Rightarrow> bool" where
  "ticket_ok c v = (is_int v \<and> 1 < int_of v \<and> int_of v \<noteq> gr_pid c)"

definition set_group :: "string \<Rightarrow> pyval \<Rightarrow> ('w guest, unit) act" where
  "set_group kind v = upd (\<lambda>s. s\<lparr>gs_groups := AList.update kind (int_of v) (gs_groups s)\<rparr>)"

definition event_process :: "guest_run \<Rightarrow> string \<Rightarrow> pyval \<Rightarrow> ('w guest, unit) act" where
  "event_process c kind v =
     bnd (get (\<lambda>s. gs_ready s \<and> kind \<notin> fst ` set (gs_groups s) \<and> ticket_ok c v \<and> int_of v \<notin> snd ` set (gs_groups s))) (\<lambda>ok.
     sqn (ensure ok ''native task PID registration'') (set_group kind v))"

definition event_unconfirmed :: "guest_run \<Rightarrow> pyval \<Rightarrow> ('w guest, unit) act" where
  "event_unconfirmed c v =
     bnd (get (\<lambda>s. ticket_ok c v \<and> (case map_of (gs_groups s) ''supervisor'' of None \<Rightarrow> True | Some p \<Rightarrow> p = int_of v))) (\<lambda>ok.
     sqn (ensure ok ''native unconfirmed supervisor ticket'') (set_group ''supervisor'' v))"

definition is_ticket :: "'w guest \<Rightarrow> pyval \<Rightarrow> bool" where
  "is_ticket s v = pyeq v (case map_of (gs_groups s) ''supervisor'' of None \<Rightarrow> PNone | Some p \<Rightarrow> PInt p)"

definition event_reaped :: "pyval \<Rightarrow> ('w guest, unit) act" where
  "event_reaped v =
     sqn (lft (check_fields v [''pid'', ''code'', ''worker_reaped''])) (
     bnd (get (\<lambda>s. is_ticket s (fld v ''pid'') \<and> is_int (fld v ''code'') \<and> is_bool (fld v ''worker_reaped''))) (\<lambda>ok.
     sqn (ensure ok ''native task reap binding'') (
     upd (\<lambda>s. s\<lparr>gs_task_reaped := True, gs_worker_reaped := truthy (fld v ''worker_reaped'')\<rparr>))))"

definition event_retiring :: "pyval \<Rightarrow> ('w guest, unit) act" where
  "event_retiring v =
     sqn (lft (check_fields v [''pid'', ''worker_reaped'', ''population_empty''])) (
     bnd (get (\<lambda>s. is_ticket s (fld v ''pid'') \<and> is_bool (fld v ''worker_reaped'') \<and> is_bool (fld v ''population_empty'') \<and>
                   ((truthy (fld v ''worker_reaped'') \<and> truthy (fld v ''population_empty'')) \<or> gs_stopped s))) (\<lambda>ok.
     sqn (ensure ok ''native task retirement binding'') (
     sqn (upd (\<lambda>s. s\<lparr>gs_retired := True\<rparr>)) (guest_log Retired))))"

definition event_stop :: "'w guest_env \<Rightarrow> pyval \<Rightarrow> ('w guest, unit) act" where
  "event_stop e v =
     bnd (get (\<lambda>s. is_int v \<and> is_ticket s v \<and> \<not> gs_retired s \<and> \<not> gs_stopped s)) (\<lambda>ok.
     sqn (ensure ok ''native failed task stop ticket'') (
     sqn (signal_owned e (int_of v) ''TERM'') (
     sqn (signal_owned e (int_of v) ''KILL'') (
     upd (\<lambda>s. s\<lparr>gs_stopped := True\<rparr>)))))"

definition event_cleanup :: "guest_run \<Rightarrow> rat \<Rightarrow> pyval \<Rightarrow> ('w guest, unit) act" where
  "event_cleanup c t v =
     bnd (get (\<lambda>s. v = PNone \<and> gs_cleanup s = None)) (\<lambda>ok.
     sqn (ensure ok ''native duplicate cleanup phase'') (
     upd (\<lambda>s. s\<lparr>gs_cleanup := Some (min (nd_cleanup (gr_deadlines c)) (t + nb_cleanup (gr_budget c)))\<rparr>)))"

definition guest_event :: "nat \<Rightarrow> 'w guest_env \<Rightarrow> guest_run \<Rightarrow> rat \<Rightarrow> pyval \<Rightarrow> ('w guest, unit) act" where
  "guest_event fuel e c t event =
     (let v = fld event ''value'' in
      case fld event ''kind'' of
        PStr kind \<Rightarrow>
          if kind = ''object'' then event_object v
          else if kind = ''ready'' then event_ready fuel e c v
          else if kind = ''supervisor'' \<or> kind = ''worker'' then event_process c kind v
          else if kind = ''supervisor-unconfirmed'' then event_unconfirmed c v
          else if kind = ''task-reaped'' then event_reaped v
          else if kind = ''task-retiring'' then event_retiring v
          else if kind = ''task-stop'' then event_stop e v
          else if kind = ''cleanup-start'' then event_cleanup c t v
          else lft (Inl (ValueError ''native registration unknown kind''))
      | _ \<Rightarrow> lft (Inl (ValueError ''native registration unknown kind'')))"

definition guest_frame :: "nat \<Rightarrow> 'w guest_env \<Rightarrow> guest_run \<Rightarrow> rat \<Rightarrow> string \<Rightarrow> ('w guest, unit) act" where
  "guest_frame fuel e c t line =
     bnd (lft (decode line REG_LIMIT)) (\<lambda>event.
     sqn (lft (check_fields event [''kind'', ''value''])) (
     sqn (guest_event fuel e c t event) (
     gs (send fuel (ipc_of (ge_io e)) (gr_registry c) (encode (ne_float (ge_env e)) (PDict [(''ack'', event)]))
           (min (nd_work (gr_deadlines c)) (t + 1 / 2))))))"

definition guest_registration :: "nat \<Rightarrow> 'w guest_env \<Rightarrow> guest_run \<Rightarrow> rat \<Rightarrow> ('w guest, unit) act" where
  "guest_registration fuel e c t =
     bnd (get gs_buffer) (\<lambda>buffer.
     bnd (gs (io_read (ge_io e) (gr_registry c) (REG_LIMIT - length buffer + 1))) (\<lambda>chunk.
     if chunk = [] then ret () else
     sqn (upd (\<lambda>s. s\<lparr>gs_buffer := buffer @ chunk\<rparr>)) (
     sqn (ensure (length (buffer @ chunk) \<le> REG_LIMIT) ''native registration limit'') (
     if CHR 0x0A \<notin> set (buffer @ chunk) then ret () else
     let line = takeWhile (\<lambda>x. x \<noteq> CHR 0x0A) (buffer @ chunk); extra = tl (dropWhile (\<lambda>x. x \<noteq> CHR 0x0A) (buffer @ chunk)) in
     sqn (ensure (extra = []) ''native registration one outstanding frame'') (
     sqn (upd (\<lambda>s. s\<lparr>gs_buffer := []\<rparr>)) (
     guest_frame fuel e c t line))))))"

subsection \<open>The watching loop\<close>

text \<open>
  Lease validation stays with the supervisor: the parent forwards bytes.  A broken pipe says that
  the supervisor has finished; it grants nothing.
\<close>

definition guest_control :: "nat \<Rightarrow> 'w guest_env \<Rightarrow> guest_run \<Rightarrow> rat \<Rightarrow> ('w guest, unit) act" where
  "guest_control fuel e c t =
     bnd (gs (io_read (ge_io e) (gr_control c) MAX_FRAME)) (\<lambda>data.
     if data = [] then sqn (upd (\<lambda>s. s\<lparr>gs_open := False\<rparr>)) (guest_fail e c ''native guest control EOF'') else
     bnd (get gs_failure) (\<lambda>f. whenA (f = None) (
     bnd (get gs_child) (\<lambda>w.
     sqn (ensure (w \<noteq> None) ''native control closed'') (
     handle_if (is_os_class BrokenPipeError)
       (gs (write_bounded fuel (ipc_of (ge_io e)) (the w) data (min (nd_task (gr_deadlines c)) (t + 1 / 5)) (ret ())))
       (\<lambda>_. sqn (gs (io_close (ge_io e) (the w))) (upd (\<lambda>s. s\<lparr>gs_child := None\<rparr>))))))))"

definition guest_output :: "'w guest_env \<Rightarrow> guest_run \<Rightarrow> ('w guest, unit) act" where
  "guest_output e c =
     bnd (get gs_raw) (\<lambda>raw.
     bnd (gs (io_read (ge_io e) (gr_result c) (min 65536 (EXPORT_LIMIT - length raw + 1)))) (\<lambda>data.
     if data = [] then upd (\<lambda>s. s\<lparr>gs_eof := True\<rparr>) else
     sqn (upd (\<lambda>s. s\<lparr>gs_raw := raw @ data\<rparr>)) (
     ensure (length (raw @ data) \<le> EXPORT_LIMIT) ''native parent result limit'')))"

definition guest_readable :: "nat \<Rightarrow> 'w guest_env \<Rightarrow> guest_run \<Rightarrow> rat \<Rightarrow> int \<Rightarrow> ('w guest, unit) act" where
  "guest_readable fuel e c t fd =
     (if fd = gr_control c then guest_control fuel e c t
      else if fd = gr_registry c then guest_registration fuel e c t
      else guest_output e c)"

definition phase_deadline :: "guest_run \<Rightarrow> bool \<Rightarrow> rat" where
  "phase_deadline c is_ready = (if is_ready then nd_task (gr_deadlines c) else nd_init (gr_deadlines c))"

definition passed_by :: "rat \<Rightarrow> rat option \<Rightarrow> bool" where
  "passed_by t limit = (case limit of None \<Rightarrow> False | Some d \<Rightarrow> d \<le> t)"

definition guest_interrupted :: "'w guest_env \<Rightarrow> guest_run \<Rightarrow> ('w guest, unit) act" where
  "guest_interrupted e c =
     bnd (gs (ge_interrupted e)) (\<lambda>i. case i of None \<Rightarrow> ret ()
       | Some number \<Rightarrow> guest_fail e c (''native guest parent cancelled by signal '' @ show_int number))"

fun guest_loop :: "nat \<Rightarrow> nat \<Rightarrow> 'w guest_env \<Rightarrow> guest_run \<Rightarrow> ('w guest, unit) act" where
  "guest_loop 0 fuel e c = lft (Inl OutOfFuel)"
| "guest_loop (Suc n) fuel e c =
     bnd (get (\<lambda>s. gs_eof s \<and> gs_code s \<noteq> None)) (\<lambda>finished. if finished then ret () else
     bnd (gs (io_now (ge_io e))) (\<lambda>t.
     sqn (guest_poll e c) (
     sqn (guest_interrupted e c) (
     bnd (get gs_cleanup) (\<lambda>cleanup_until.
     if passed_by t cleanup_until then
       sqn (guest_fail e c ''native guest cleanup deadline'') (signal_child e c ''KILL'')
     else
     bnd (get gs_ready) (\<lambda>is_ready.
     sqn (whenA (phase_deadline c is_ready \<le> t) (guest_fail e c ''native guest phase deadline'')) (
     bnd (get gs_until) (\<lambda>failure_until.
     if nd_result (gr_deadlines c) \<le> t \<or> passed_by t failure_until then
       sqn (signal_child e c ''KILL'') (signal_live e ''KILL'')
     else
     bnd (get (\<lambda>s. [gr_result c, gr_registry c] @ (if gs_open s then [gr_control c] else []))) (\<lambda>watched.
     bnd (gs (io_readable (ge_io e) watched (1 / 100))) (\<lambda>r.
     sqn (eachA (guest_readable fuel e c t) r) (
     guest_loop n fuel e c)))))))))))"

definition message_fields :: "string list" where
  "message_fields = [''initialization'', ''independent_readback'', ''cleanup'', ''fd_closed'', ''task_supervisor_exit'',
     ''task_supervisor_reaped'', ''task_worker_reaped'', ''task_export'', ''first_failure'', ''cleanup_errors'']"

text \<open>The text of a first failure that is no string is outside the text domain.\<close>

definition guest_message :: "'w guest_env \<Rightarrow> guest_run \<Rightarrow> ('w guest, unit) act" where
  "guest_message e c =
     bnd (get (\<lambda>s. (gs_eof s, gs_raw s))) (\<lambda>(eof, raw).
     if eof \<and> raw \<noteq> [] then
       bnd (lft (decode raw EXPORT_LIMIT)) (\<lambda>m.
       sqn (upd (\<lambda>s. s\<lparr>gs_message := m\<rparr>)) (
       sqn (lft (check_fields m message_fields)) (
       case fld m ''first_failure'' of PNone \<Rightarrow> ret () | PStr reason \<Rightarrow> guest_fail e c reason | _ \<Rightarrow> lft (Inl OutOfModel))))
     else guest_fail e c ''native owner result lost; registered objects remain pending'')"

definition guest_body :: "nat \<Rightarrow> 'w guest_env \<Rightarrow> guest_run \<Rightarrow> ('w guest, unit) act" where
  "guest_body fuel e c =
     sqn (eachA (\<lambda>fd. gs (io_nonblocking (ge_io e) fd)) [gr_control c, gr_result c, gr_registry c]) (
     sqn (guest_loop fuel fuel e c) (
     sqn (reap_window fuel e c) (
     guest_message e c)))"

definition guest_failed :: "nat \<Rightarrow> 'w guest_env \<Rightarrow> guest_run \<Rightarrow> exn \<Rightarrow> ('w guest, unit) act" where
  "guest_failed fuel e c x =
     sqn (guest_fail e c (owner_error x)) (
     sqn (signal_child e c ''KILL'') (
     sqn (signal_live e ''KILL'') (
     reap_window fuel e c)))"

subsection \<open>The last stop of an admitted task\<close>

text \<open>Is the group still there at the limit?  An unexpected error ends the watch.\<close>

fun probe_group :: "nat \<Rightarrow> 'w guest_env \<Rightarrow> int \<Rightarrow> rat \<Rightarrow> ('w guest, bool) act" where
  "probe_group 0 e target limit = lft (Inl OutOfFuel)"
| "probe_group (Suc n) e target limit =
     bnd (gs (io_now (ge_io e))) (\<lambda>t. if limit \<le> t then ret True else
     bnd (handle_if is_oserror (sqn (gs (io_killpg (ge_io e) target ''0'')) (ret None)) (\<lambda>x. ret (Some x))) (\<lambda>r.
     case r of
       None \<Rightarrow> sqn (gs (io_sleep (ge_io e) (1 / 200))) (probe_group n e target limit)
     | Some x \<Rightarrow> if is_os_class ProcessLookupError x then ret False else sqn (note_error x) (ret True)))"

definition kill_target :: "'w guest_env \<Rightarrow> int \<Rightarrow> ('w guest, bool) act" where
  "kill_target e target =
     sqn (guest_log (Signalled target ''KILL'')) (
     handle_if is_oserror (sqn (gs (io_killpg (ge_io e) target ''KILL'')) (ret True))
       (\<lambda>x. if is_os_class ProcessLookupError x then ret False else sqn (note_error x) (ret True)))"

definition guest_settle :: "nat \<Rightarrow> 'w guest_env \<Rightarrow> guest_run \<Rightarrow> ('w guest, unit) act" where
  "guest_settle fuel e c =
     bnd (get live_ticket) (\<lambda>x. case x of None \<Rightarrow> ret () | Some target \<Rightarrow>
     bnd (gs (io_now (ge_io e))) (\<lambda>t.
     let until = min (gr_absolute c - nb_output (gr_budget c)) (t + nb_reap (gr_budget c)) in
     sqn (signal_owned e target ''TERM'') (
     bnd (gs (io_now (ge_io e))) (\<lambda>t.
     bnd (probe_group fuel e target (min until (t + nb_reap (gr_budget c) / 2))) (\<lambda>present.
     bnd (if present then kill_target e target else ret False) (\<lambda>present.
     whenA present (bnd (probe_group fuel e target until) (\<lambda>_. ret ()))))))))"

definition guest_closings :: "'w guest_env \<Rightarrow> guest_run \<Rightarrow> ('w guest, unit) act" where
  "guest_closings e c =
     bnd (get (\<lambda>s. [Some (gr_control c), gs_child s, Some (gr_result c), Some (gr_registry c), gs_ready_fd s])) (\<lambda>open_fds.
     eachA (\<lambda>x. case x of None \<Rightarrow> ret () | Some fd \<Rightarrow> handle_if is_oserror (gs (io_close (ge_io e) fd)) (\<lambda>_. ret ())) open_fds)"

definition guest_session :: "nat \<Rightarrow> 'w guest_env \<Rightarrow> guest_run \<Rightarrow> ('w guest, unit) act" where
  "guest_session fuel e c =
     try_finally
       (handle_if any_exn (guest_body fuel e c) (guest_failed fuel e c))
       (sqn (guest_settle fuel e c) (sqn (gs (ge_restore e)) (guest_closings e c)))"

subsection \<open>The export\<close>

definition message_item :: "pyval \<Rightarrow> string \<Rightarrow> pyval \<Rightarrow> pyval res" where
  "message_item m k d = (if truthy m then item m k else Inr d)"

definition message_flag :: "pyval \<Rightarrow> string \<Rightarrow> bool \<Rightarrow> pyval res" where
  "message_flag m k also = bindE (message_item m k (PBool False)) (\<lambda>v. Inr (PBool (truthy v \<and> also)))"

definition native_header :: "guest_config \<Rightarrow> (string \<times> pyval) list" where
  "native_header g =
     [(''schema_version'', PInt 1), (''scope'', PStr NATIVE_FACT_SCOPE), (''uuid'', PStr UUID), (''nonce'', PStr (gc_nonce g)),
      (''manifest_sha256'', PStr (gc_digest g)), (''delivery_sha256'', PStr (gc_delivery g)),
      (''backend_kind'', PStr ''injected-offline'')] @ map (\<lambda>flag. (flag, PBool False)) NATIVE_LIFECYCLE_FLAGS"

definition group_value :: "'w guest \<Rightarrow> string \<Rightarrow> pyval" where
  "group_value s kind = (case map_of (gs_groups s) kind of None \<Rightarrow> PNone | Some p \<Rightarrow> PInt p)"

definition guest_errors :: "'w guest \<Rightarrow> pyval res" where
  "guest_errors s =
     bindE (message_item (gs_message s) ''cleanup_errors'' (PList [PStr ''owner result unavailable''])) (\<lambda>v.
     if is_list v then Inr (PList (list_of v @ map PStr (gs_errors s)))
     else Inl (TypeError ''unsupported operand type''))"

definition guest_facts :: "guest_run \<Rightarrow> 'w guest \<Rightarrow> pyval res" where
  "guest_facts c s =
     (let m = gs_message s; role = (\<lambda>k. case map_of (gs_roles s) k of None \<Rightarrow> PNone | Some v \<Rightarrow> v) in
      bindE (message_item m ''cleanup'' PNone) (\<lambda>cleanup.
      bindE (message_flag m ''fd_closed'' True) (\<lambda>fd_closed.
      bindE (message_flag m ''task_supervisor_reaped'' (gs_task_reaped s)) (\<lambda>supervisor_reaped.
      bindE (message_flag m ''task_worker_reaped'' (gs_worker_reaped s)) (\<lambda>worker_reaped.
      bindE (guest_errors s) (\<lambda>errors.
      Inr (PDict (native_header (gr_config c) @
        [(''initialization'', role ''initialization''), (''independent_readback'', role ''independent_readback''),
         (''cleanup'', cleanup), (''registered'', PList (gs_events s)), (''pending'', PDict (gs_registry s)),
         (''owner_exit'', status_value (gs_code s)),
         (''processes'', PDict [(''owner'', PInt (gr_pid c)), (''supervisor'', group_value s ''supervisor''),
            (''worker'', group_value s ''worker'')]),
         (''owner_reaped'', PBool (gs_code s \<noteq> None)), (''fd_closed'', fd_closed),
         (''task_supervisor_reaped'', supervisor_reaped), (''task_worker_reaped'', worker_reaped),
         (''first_failure'', case gs_failure s of None \<Rightarrow> PNone | Some f \<Rightarrow> PStr f), (''cleanup_errors'', errors)]))))))))"

definition guest_verdict :: "'w guest \<Rightarrow> pyval \<Rightarrow> pyval \<Rightarrow> bool res" where
  "guest_verdict s facts task =
     andE (Inr (gs_failure s = None \<and> gs_code s = Some 0 \<and> gs_registry s = [] \<and> truthy (fld facts ''cleanup'') \<and>
                \<not> truthy (fld facts ''cleanup_errors'') \<and> truthy (fld facts ''task_supervisor_reaped'') \<and>
                truthy (fld facts ''task_worker_reaped'') \<and> truthy (fld facts ''fd_closed'') \<and> truthy task))
       (bindE (item task ''passed'') (\<lambda>v. Inr (truthy v)))"

definition guest_packet :: "guest_run \<Rightarrow> 'w guest \<Rightarrow> (bool \<times> pyval) res" where
  "guest_packet c s =
     bindE (guest_facts c s) (\<lambda>facts.
     bindE (message_item (gs_message s) ''task_export'' PNone) (\<lambda>task.
     bindE (guest_verdict s facts task) (\<lambda>passed.
     Inr (passed, PDict
       [(''schema_version'', PInt 1), (''scope'', PStr NATIVE_EXPORT_SCOPE), (''uuid'', PStr UUID),
        (''nonce'', PStr (gc_nonce (gr_config c))), (''manifest_sha256'', PStr (gc_digest (gr_config c))),
        (''evidence_kind'', PStr ''synthetic''), (''i5_ready'', PBool False), (''passed'', PBool passed),
        (''task_export'', task), (''native_lifecycle'', facts)]))))"

definition guest_report :: "nat \<Rightarrow> 'w guest_env \<Rightarrow> guest_run \<Rightarrow> ('w guest, int) act" where
  "guest_report fuel e c =
     bnd (get (guest_packet c)) (\<lambda>r.
     bnd (lft r) (\<lambda>(passed, packet).
     let raw = encode (ne_float (ge_env e)) packet in
     bnd (lft (validate_native_export (ne_sha (ge_env e)) (ne_float (ge_env e)) raw (gc_nonce (gr_config c)) (gc_digest (gr_config c)))) (\<lambda>_.
     bnd (gs (io_now (ge_io e))) (\<lambda>t.
     sqn (gs (write_bounded fuel (ipc_of (ge_io e)) (gr_output c) raw (min (gr_absolute c) (t + nb_output (gr_budget c))) (ret ()))) (
     ret (if passed then 0 else 2))))))"

text \<open>From the fork on; the state it leaves is the one that the properties look at.\<close>

definition guest_run_all :: "nat \<Rightarrow> 'w guest_env \<Rightarrow> guest_run \<Rightarrow> ('w guest, int) act" where
  "guest_run_all fuel e c = sqn (guest_session fuel e c) (guest_report fuel e c)"

subsection \<open>The invocation\<close>

definition budget_snapshot :: "native_budget \<Rightarrow> native_budget res" where
  "budget_snapshot b = native_budget_of
     [(''init'', time_value (nb_init b)), (''active'', time_value (nb_active b)), (''cleanup'', time_value (nb_cleanup b)),
      (''reap'', time_value (nb_reap b)), (''output'', time_value (nb_output b)), (''silence'', time_value (nb_silence b))]"

text \<open>\<open>os.fork\<close> gives the owner's pid; what the owner runs is \<open>owner_run\<close>.\<close>

definition run_native_guest ::
    "nat \<Rightarrow> 'w guest_env \<Rightarrow> guest_config \<Rightarrow> native_budget option \<Rightarrow> int \<Rightarrow> int \<Rightarrow> int \<Rightarrow> int option \<Rightarrow> ('w, int) act" where
  "run_native_guest fuel e config budget control_fd output_fd ack_fd ready_fd =
     bnd (io_now (ge_io e)) (\<lambda>started.
     bnd (lft (config_snapshot (ne_sha (ge_env e)) config)) (\<lambda>g.
     bnd (lft (case budget of None \<Rightarrow> native_budget_of [] | Some b \<Rightarrow> Inr b)) (\<lambda>b.
     bnd (lft (budget_snapshot b)) (\<lambda>b.
     let fds = [control_fd, output_fd, ack_fd] @ (case ready_fd of None \<Rightarrow> [] | Some fd \<Rightarrow> [fd]) in
     sqn (ensure (list_all (\<lambda>fd. 3 \<le> fd) fds \<and> distinct fds) ''native lifecycle private FDs'') (
     sqn (close_except (ipc_of (ge_io e)) fds) (
     bnd (io_pipe (ge_io e)) (\<lambda>(child_read, child_write).
     bnd (io_pipe (ge_io e)) (\<lambda>(result_read, result_write).
     bnd (ge_socketpair e) (\<lambda>(reg_parent, reg_child).
     bnd (on_error (io_fork (ge_io e))
            (eachA (io_close (ge_io e)) [child_read, child_write, result_read, result_write, reg_parent, reg_child])) (\<lambda>pid.
     sqn (eachA (io_close (ge_io e)) [child_read, result_write, reg_child, ack_fd]) (
     sqn (ge_catch e) (
     let c = \<lparr> gr_config = g, gr_budget = b, gr_deadlines = native_deadlines_of b started, gr_absolute = started + nb_total b,
               gr_pid = pid, gr_control = control_fd, gr_output = output_fd, gr_result = result_read, gr_registry = reg_parent \<rparr> in
     (\<lambda>w. case guest_run_all fuel e c (guest_start w child_write ready_fd) of (r, s) \<Rightarrow> (r, gs_world s))))))))))))))"

end
