(* ===== verification/GuestProps.thy ===== *)
theory GuestProps
  imports NativeGuest NativeProps
begin

text \<open>
  What the parent of a native guest guarantees: it signals a ticket only before the ticket has
  retired and the owner only before it is reaped, its registry is always the replay of what it
  acknowledged, and a run that returns has written an export that validates.
\<close>

subsection \<open>Signals\<close>

fun signals_ok :: "int \<Rightarrow> bool \<Rightarrow> bool \<Rightarrow> guest_op list \<Rightarrow> bool" where
  "signals_ok pid reaped retired [] = True"
| "signals_ok pid reaped retired (Signalled t k # ops) =
     ((if t = pid then \<not> reaped else \<not> retired) \<and> signals_ok pid reaped retired ops)"
| "signals_ok pid reaped retired (OwnerReaped # ops) = signals_ok pid True retired ops"
| "signals_ok pid reaped retired (Retired # ops) = signals_ok pid reaped True ops"

fun targets :: "int \<Rightarrow> int option \<Rightarrow> guest_op \<Rightarrow> bool" where
  "targets pid ticket (Signalled t k) = (t = pid \<or> ticket = Some t)"
| "targets pid ticket OwnerReaped = True"
| "targets pid ticket Retired = True"

lemma signals_ok_append:
  "signals_ok pid r q (xs @ ys) =
     (signals_ok pid r q xs \<and> signals_ok pid (r \<or> OwnerReaped \<in> set xs) (q \<or> Retired \<in> set xs) ys)"
  by (induction pid r q xs rule: signals_ok.induct) auto

abbreviation ticket_of :: "'w guest \<Rightarrow> int option" where
  "ticket_of s \<equiv> map_of (gs_groups s) ''supervisor''"

definition coherent :: "int \<Rightarrow> 'w guest \<Rightarrow> bool" where
  "coherent pid s = (signals_ok pid False False (gs_log s) \<and> list_all (targets pid (ticket_of s)) (gs_log s) \<and>
     (OwnerReaped \<in> set (gs_log s) \<longrightarrow> gs_code s \<noteq> None) \<and> (Retired \<in> set (gs_log s) \<longrightarrow> gs_retired s) \<and>
     ticket_of s \<noteq> Some pid \<and> replay (gs_events s) = Inr (gs_registry s, gs_events s))"

definition orderly :: "int \<Rightarrow> 'w guest \<Rightarrow> 'w guest \<Rightarrow> bool" where
  "orderly pid s t = (coherent pid s \<longrightarrow> coherent pid t)"

interpretation orderly: state_order "orderly pid" for pid
  by unfold_locales (auto simp: orderly_def)

text \<open>What every operation but a registration leaves alone.\<close>

definition settled :: "'w guest \<Rightarrow> 'w guest \<Rightarrow> bool" where
  "settled s t = (gs_log t = gs_log s \<and> gs_groups t = gs_groups s \<and> gs_code t = gs_code s \<and> gs_retired t = gs_retired s \<and>
     gs_registry t = gs_registry s \<and> gs_events t = gs_events s)"

interpretation settled: state_order settled
  by unfold_locales (auto simp: settled_def)

lemma settled_orderly: "keeps settled m \<Longrightarrow> keeps (orderly pid) m"
  by (auto simp: keeps_def settled_def orderly_def coherent_def)

lemma settled_gs: "keeps settled (gs m)"
  by (rule keeps_zoom_frame) (simp add: settled_def)

lemma settled_upd:
  assumes "\<And>s. gs_log (f s) = gs_log s" and "\<And>s. gs_groups (f s) = gs_groups s" and "\<And>s. gs_code (f s) = gs_code s"
    and "\<And>s. gs_retired (f s) = gs_retired s" and "\<And>s. gs_registry (f s) = gs_registry s" and "\<And>s. gs_events (f s) = gs_events s"
  shows "keeps settled (upd f)"
  by (rule settled.keeps_upd) (simp add: settled_def assms)

lemma settled_note_error: "keeps settled (note_error x)"
  unfolding note_error_def by (rule settled_upd) simp_all

text \<open>A signal to a target that may still be signalled.\<close>

definition may_signal :: "int \<Rightarrow> int \<Rightarrow> 'w guest \<Rightarrow> bool" where
  "may_signal pid ticket s = (coherent pid s \<and>
     (if ticket = pid then gs_code s = None else \<not> gs_retired s \<and> ticket_of s = Some ticket))"

lemma may_signal_log: "triple (may_signal pid ticket) (guest_log (Signalled ticket k)) (\<lambda>_. may_signal pid ticket) (coherent pid)"
  unfolding guest_log_def
  by (rule triple_upd) (auto simp: may_signal_def coherent_def signals_ok_append split: if_splits)

lemma may_signal_settled: "keeps settled m \<Longrightarrow> triple (may_signal pid ticket) m (\<lambda>_. may_signal pid ticket) (may_signal pid ticket)"
  by (rule triple_keeps [where R = settled]) (auto simp: settled_def may_signal_def coherent_def)

lemma may_signal_owned: "triple (may_signal pid ticket) (signal_owned e ticket k) (\<lambda>_. may_signal pid ticket) (coherent pid)"
  unfolding signal_owned_def
  by (rule triple_sqn [OF may_signal_log triple_weaken [OF may_signal_settled]])
    (auto intro!: settled.keeps_handle_if settled_gs settled_note_error simp: may_signal_def)

lemma orderly_triple: "triple (coherent pid) m (\<lambda>_. coherent pid) (coherent pid) \<Longrightarrow> keeps (orderly pid) m"
  unfolding keeps_def orderly_def triple_def by (metis (no_types, lifting) old.sum.exhaust case_prod_beta' prod.collapse sum.case)

lemma orderly_signal_live: "keeps (orderly pid) (signal_live e k)"
proof (rule orderly_triple)
  have look: "triple (coherent pid) (get live_ticket) (\<lambda>x s. case x of None \<Rightarrow> coherent pid s | Some p \<Rightarrow> may_signal pid p s) (coherent pid)"
    by (rule triple_get) (auto simp: live_ticket_def may_signal_def coherent_def split: option.split)
  show "triple (coherent pid) (signal_live e k) (\<lambda>_. coherent pid) (coherent pid)"
    unfolding signal_live_def
  proof (rule triple_bnd [OF look])
    fix x show "triple (\<lambda>s. case x of None \<Rightarrow> coherent pid s | Some p \<Rightarrow> may_signal pid p s)
      (case x of None \<Rightarrow> ret () | Some p \<Rightarrow> signal_owned e p k) (\<lambda>_. coherent pid) (coherent pid)"
      by (cases x) (auto intro: triple_ret triple_weaken [OF may_signal_owned] simp: may_signal_def)
  qed
qed

lemma orderly_signal_child: "gr_pid c = pid \<Longrightarrow> keeps (orderly pid) (signal_child e c k)"
proof (rule orderly_triple)
  assume c: "gr_pid c = pid"
  have look: "triple (coherent pid) (get gs_code) (\<lambda>x s. coherent pid s \<and> gs_code s = x) (coherent pid)"
    by (rule triple_get) simp
  show "triple (coherent pid) (signal_child e c k) (\<lambda>_. coherent pid) (coherent pid)"
    unfolding signal_child_def
    unfolding c
    by (rule triple_bnd [OF look]) (rule triple_whenA [OF triple_weaken [OF may_signal_owned]], auto simp: may_signal_def)
qed

lemmas orderly_intros = orderly.keeps_intros orderly.keeps_branches orderly.keeps_on_error

lemmas settled_basics = settled.keeps_intros settled.keeps_branches settled.keeps_on_error settled_gs settled_note_error settled_upd

lemma orderly_gs: "keeps (orderly pid) (gs m)"
  by (rule settled_orderly [OF settled_gs])

lemma orderly_upd:
  assumes "\<And>s. gs_log (f s) = gs_log s" and "\<And>s. gs_groups (f s) = gs_groups s" and "\<And>s. gs_code (f s) = gs_code s"
    and "\<And>s. gs_retired (f s) = gs_retired s" and "\<And>s. gs_registry (f s) = gs_registry s" and "\<And>s. gs_events (f s) = gs_events s"
  shows "keeps (orderly pid) (upd f)"
  by (rule settled_orderly [OF settled_upd]) (simp_all add: assms)

lemma orderly_fail: "gr_pid c = pid \<Longrightarrow> keeps (orderly pid) (guest_fail e c reason)"
  unfolding guest_fail_def
  by (intro orderly_intros orderly_gs orderly_upd orderly_signal_live orderly_signal_child) simp_all

lemma orderly_poll: "keeps (orderly pid) (guest_poll e c)"
  unfolding keeps_def orderly_def
proof (intro allI impI)
  fix s :: "'a guest" assume s: "coherent pid s"
  show "coherent pid (snd (guest_poll e c s))"
  proof (cases "gs_code s")
    case None
    with s show ?thesis
      by (auto simp: guest_poll_def bnd_def sqn_def zoom_def guest_log_def whenA_def coherent_def signals_ok_append
          split: prod.split sum.split)
  next
    case (Some k)
    with s show ?thesis
      by (simp add: guest_poll_def bnd_def sqn_def zoom_def poll_process_def whenA_def coherent_def)
  qed
qed

lemma orderly_reap: "keeps (orderly pid) (guest_reap n e c limit)"
proof (induction n)
  case (Suc n)
  show ?case unfolding guest_reap.simps by (intro orderly_intros orderly_gs orderly_poll Suc.IH)
qed (simp only: guest_reap.simps orderly.keeps_lft)

lemma orderly_reap_window: "keeps (orderly pid) (reap_window n e c)"
  unfolding reap_window_def by (intro orderly_intros orderly_gs orderly_reap)

subsection \<open>Registrations\<close>

lemma targets_mono: "ticket = None \<or> ticket = Some p \<Longrightarrow> list_all (targets pid ticket) ops \<Longrightarrow> list_all (targets pid (Some p)) ops"
  by (induction ops) (auto elim!: targets.elims)

lemma map_of_None: "k \<notin> fst ` set d \<longleftrightarrow> map_of d k = None"
  by (simp add: map_of_eq_None_iff)

text \<open>A ticket once registered is not replaced, and it is never the owner's.\<close>

lemma coherent_group:
  assumes "coherent pid s" and "kind = ''supervisor'' \<longrightarrow> ticket_of s = None \<or> ticket_of s = Some p" and "p \<noteq> pid"
  shows "coherent pid (s\<lparr>gs_groups := AList.update kind p (gs_groups s)\<rparr>)"
  using assms by (auto simp: coherent_def update_conv' intro: targets_mono)

lemma orderly_checked:
  assumes "\<And>s. coherent pid s \<Longrightarrow> f s \<Longrightarrow> coherent pid (snd (k s))"
  shows "keeps (orderly pid) (bnd (get f) (\<lambda>ok. sqn (ensure ok m) k))"
  using assms by (simp add: keeps_def orderly_def bnd_def sqn_def)

lemma orderly_event_process: "gr_pid c = pid \<Longrightarrow> keeps (orderly pid) (event_process c kind v)"
  unfolding event_process_def set_group_def
  by (rule orderly_checked) (auto simp: map_of_None ticket_ok_def intro!: coherent_group)

lemma orderly_event_unconfirmed: "gr_pid c = pid \<Longrightarrow> keeps (orderly pid) (event_unconfirmed c v)"
  unfolding event_unconfirmed_def set_group_def
  by (rule orderly_checked) (auto simp: ticket_ok_def intro!: coherent_group split: option.splits)

lemma orderly_event_retiring: "keeps (orderly pid) (event_retiring v)"
  unfolding event_retiring_def guest_log_def
  by (intro orderly_intros orderly_checked) (simp add: coherent_def signals_ok_append sqn_def bnd_def)

lemma orderly_event_stop: "keeps (orderly pid) (event_stop e v)"
proof -
  have stop: "triple (may_signal pid t) (sqn (signal_owned e t ''TERM'') (sqn (signal_owned e t ''KILL'')
      (upd (\<lambda>s. s\<lparr>gs_stopped := True\<rparr>)))) (\<lambda>_. coherent pid) (coherent pid)" for t
    by (rule triple_sqn [OF may_signal_owned triple_sqn [OF may_signal_owned triple_upd]])
      (auto simp: may_signal_def coherent_def split: if_splits)
  have ticket: "may_signal pid (int_of v) s" if "coherent pid s" "is_int v \<and> is_ticket s v \<and> \<not> gs_retired s \<and> \<not> gs_stopped s" for s :: "'a guest"
    using that by (auto simp: may_signal_def is_ticket_def is_int_iff coherent_def split: option.splits)
  show ?thesis unfolding event_stop_def
  proof (rule orderly_checked)
    fix s :: "'a guest" assume "coherent pid s" "is_int v \<and> is_ticket s v \<and> \<not> gs_retired s \<and> \<not> gs_stopped s"
    then have m: "may_signal pid (int_of v) s" by (rule ticket)
    from stop [of "int_of v"] m show "coherent pid (snd ((sqn (signal_owned e (int_of v) ''TERM'') (sqn (signal_owned e (int_of v) ''KILL'')
      (upd (\<lambda>s. s\<lparr>gs_stopped := True\<rparr>)))) s))"
      by (rule triple_final)
  qed
qed

lemma register_object_events: "register_object (reg, events) v = Inr (reg', events') \<Longrightarrow> events' = events @ [v]"
  unfolding register_object_def Let_def prod.case bindE_Inr require_Inr by auto

lemma replay_step:
  assumes "replay events = Inr (reg, events)" and "register_object (reg, events) v = Inr (reg', events')"
  shows "replay events' = Inr (reg', events')"
  using assms register_object_events [OF assms(2)] by (simp add: replay_append)

lemma orderly_event_object: "keeps (orderly pid) (event_object v)"
  by (auto simp: keeps_def orderly_def event_object_def coherent_def intro: replay_step split: sum.split)

lemma orderly_event_ready: "keeps (orderly pid) (event_ready n e c v)"
  unfolding event_ready_def by (intro orderly_intros orderly_gs orderly_upd) simp_all

text \<open>The two case distinctions on a received value.\<close>

lemma orderly_text:
  "(\<And>k. keeps (orderly pid) (f k)) \<Longrightarrow> keeps (orderly pid) a \<Longrightarrow> keeps (orderly pid) (case v of PStr k \<Rightarrow> f k | _ \<Rightarrow> a)"
  by (cases v) simp_all

lemma orderly_optional_text:
  "keeps (orderly pid) b \<Longrightarrow> (\<And>k. keeps (orderly pid) (f k)) \<Longrightarrow> keeps (orderly pid) a \<Longrightarrow>
   keeps (orderly pid) (case v of PNone \<Rightarrow> b | PStr k \<Rightarrow> f k | _ \<Rightarrow> a)"
  by (cases v) simp_all

lemma orderly_event_reaped: "keeps (orderly pid) (event_reaped v)"
  unfolding event_reaped_def by (intro orderly_intros orderly_upd) simp_all

lemma orderly_event_cleanup: "keeps (orderly pid) (event_cleanup c t v)"
  unfolding event_cleanup_def by (intro orderly_intros orderly_upd) simp_all

lemma orderly_event: "gr_pid c = pid \<Longrightarrow> keeps (orderly pid) (guest_event n e c t event)"
  unfolding guest_event_def Let_def
  by (intro orderly_text orderly.keeps_if orderly.keeps_lft orderly_event_object orderly_event_ready orderly_event_process
      orderly_event_unconfirmed orderly_event_reaped orderly_event_retiring orderly_event_stop orderly_event_cleanup)

lemma orderly_registration: "gr_pid c = pid \<Longrightarrow> keeps (orderly pid) (guest_registration n e c t)"
  unfolding guest_registration_def guest_frame_def Let_def
  by (intro orderly_intros orderly_gs orderly_upd orderly_event) simp_all

lemma orderly_control: "gr_pid c = pid \<Longrightarrow> keeps (orderly pid) (guest_control n e c t)"
  unfolding guest_control_def by (intro orderly_intros orderly_gs orderly_upd orderly_fail) simp_all

lemma orderly_output: "keeps (orderly pid) (guest_output e c)"
  unfolding guest_output_def by (intro orderly_intros orderly_gs orderly_upd) simp_all

lemma orderly_loop: "gr_pid c = pid \<Longrightarrow> keeps (orderly pid) (guest_loop n fuel e c)"
proof (induction n)
  case (Suc n)
  show ?case unfolding guest_loop.simps guest_interrupted_def guest_readable_def
    by (intro orderly_intros orderly_gs orderly_poll orderly_fail orderly_signal_child orderly_signal_live orderly_control
        orderly_registration orderly_output Suc.IH Suc.prems)
qed (simp only: guest_loop.simps orderly.keeps_lft)

lemma orderly_message: "gr_pid c = pid \<Longrightarrow> keeps (orderly pid) (guest_message e c)"
  unfolding guest_message_def by (intro orderly_intros orderly_optional_text orderly_upd orderly_fail) simp_all

lemma orderly_body: "gr_pid c = pid \<Longrightarrow> keeps (orderly pid) (guest_body n e c)"
  unfolding guest_body_def by (intro orderly_intros orderly_gs orderly_loop orderly_reap_window orderly_message)

lemma orderly_failed: "gr_pid c = pid \<Longrightarrow> keeps (orderly pid) (guest_failed n e c x)"
  unfolding guest_failed_def by (intro orderly_intros orderly_fail orderly_signal_child orderly_signal_live orderly_reap_window)

lemma orderly_settle: "keeps (orderly pid) (guest_settle n e c)"
proof (rule orderly_triple)
  have probe: "keeps settled (probe_group n e target limit)" for n target limit
  proof (induction n)
    case (Suc n)
    show ?case unfolding probe_group.simps by (intro settled_basics Suc.IH)
  qed (simp only: probe_group.simps settled.keeps_lft)
  have kill: "triple (may_signal pid p) (kill_target e p) (\<lambda>_. may_signal pid p) (coherent pid)" for p
  proof -
    have "keeps settled (handle_if is_oserror (sqn (gs (io_killpg (ge_io e) p ''KILL'')) (ret True))
        (\<lambda>x. if is_os_class ProcessLookupError x then ret False else sqn (note_error x) (ret True)))"
      by (intro settled_basics)
    then show ?thesis unfolding kill_target_def
      by (intro triple_sqn [OF may_signal_log] triple_weaken [OF may_signal_settled]) (auto simp: may_signal_def)
  qed
  have weak: "triple (may_signal pid p) m (\<lambda>_. may_signal pid p) (coherent pid)" if "keeps settled m" for p m
    using that by (rule triple_weaken [OF may_signal_settled]) (auto simp: may_signal_def)
  have look: "triple (coherent pid) (get live_ticket) (\<lambda>x s. case x of None \<Rightarrow> coherent pid s | Some p \<Rightarrow> may_signal pid p s) (coherent pid)"
    by (rule triple_get) (auto simp: live_ticket_def may_signal_def coherent_def split: option.split)
  have last: "triple (may_signal pid p) (whenA present (bnd (probe_group n e p limit) (\<lambda>_. ret ()))) (\<lambda>_. coherent pid) (coherent pid)" for p present limit
  proof -
    have "keeps settled (whenA present (bnd (probe_group n e p limit) (\<lambda>_. ret ())))" by (intro settled_basics probe)
    from weak [OF this, of p] show ?thesis by (rule triple_weaken) (simp_all add: may_signal_def)
  qed
  have again: "triple (may_signal pid p) (if present then kill_target e p else ret False) (\<lambda>_. may_signal pid p) (coherent pid)" for p present
    by (cases present) (simp_all add: kill weak settled.keeps_ret)
  show "triple (coherent pid) (guest_settle n e c) (\<lambda>_. coherent pid) (coherent pid)"
    unfolding guest_settle_def
  proof (rule triple_bnd [OF look])
    fix x show "triple (\<lambda>s. case x of None \<Rightarrow> coherent pid s | Some p \<Rightarrow> may_signal pid p s)
      (case x of None \<Rightarrow> ret () | Some target \<Rightarrow>
        bnd (gs (io_now (ge_io e))) (\<lambda>t.
        let until = min (gr_absolute c - nb_output (gr_budget c)) (t + nb_reap (gr_budget c)) in
        sqn (signal_owned e target ''TERM'') (
        bnd (gs (io_now (ge_io e))) (\<lambda>t.
        bnd (probe_group n e target (min until (t + nb_reap (gr_budget c) / 2))) (\<lambda>present.
        bnd (if present then kill_target e target else ret False) (\<lambda>present.
        whenA present (bnd (probe_group n e target until) (\<lambda>_. ret ()))))))))
      (\<lambda>_. coherent pid) (coherent pid)"
    proof (cases x)
      case (Some p)
      show ?thesis unfolding Some option.case Let_def
        by (intro triple_bnd [OF weak [OF settled_gs]] triple_sqn [OF may_signal_owned] triple_bnd [OF weak [OF probe]]
            triple_bnd [OF again] last)
    qed (auto intro: triple_ret)
  qed
qed

lemma orderly_closings: "keeps (orderly pid) (guest_closings e c)"
  unfolding guest_closings_def by (intro orderly_intros orderly_gs)

lemma orderly_report: "keeps (orderly pid) (guest_report n e c)"
  unfolding guest_report_def Let_def by (intro orderly_intros orderly_gs)

lemma orderly_run: "gr_pid c = pid \<Longrightarrow> keeps (orderly pid) (guest_run_all n e c)"
  unfolding guest_run_all_def guest_session_def
  by (intro orderly_intros orderly_gs orderly_body orderly_failed orderly_settle orderly_closings orderly_report)

lemma guest_coherent:
  assumes "guest_run_all n e c (guest_start w child ready_fd) = (r, s)"
  shows "coherent (gr_pid c) s"
proof -
  have "coherent (gr_pid c) (guest_start w child ready_fd)" by (simp add: coherent_def guest_start_def replay_def)
  with keepsD [OF orderly_run assms] show ?thesis by (simp add: orderly_def)
qed

text \<open>
  C2: the parent never signals a process it no longer holds.  Whatever the owner registers, the
  control channel carries and the clock says, every signal of a run goes to the owner or to the
  one registered supervisor; the owner is signalled only before the parent has reaped it, and the
  supervisor only before its ticket retired, after which the owner may reap it and its process
  id may be given to another process.
\<close>

theorem guest_signals_held:
  "case guest_run_all n e c (guest_start w child ready_fd) of (_, s) \<Rightarrow>
     signals_ok (gr_pid c) False False (gs_log s) \<and>
     list_all (targets (gr_pid c) (map_of (gs_groups s) ''supervisor'')) (gs_log s)"
  using guest_coherent by (fastforce simp: coherent_def split: prod.split)

subsection \<open>The verdict\<close>

lemma guest_packet_world: "guest_packet c (s\<lparr>gs_world := w\<rparr>) = guest_packet c s"
  by (simp add: guest_packet_def guest_facts_def guest_errors_def guest_verdict_def group_value_def Let_def cong: if_cong)

lemma zoom_gs_state: "gs m s = (r, t) \<Longrightarrow> \<exists>w. t = s\<lparr>gs_world := w\<rparr>"
  by (auto simp: zoom_def split: prod.splits)

lemma zoom_gs_world: "gs m s = (r, t) \<Longrightarrow> m (gs_world s) = (r, gs_world t)"
  by (auto simp: zoom_def split: prod.splits)

lemma guest_report_Inr:
  assumes "guest_report n e c s = (Inr v, t)"
  shows "\<exists>passed packet x now w. guest_packet c t = Inr (passed, packet) \<and> v = (if passed then 0 else 2) \<and>
    validate_native_export (ne_sha (ge_env e)) (ne_float (ge_env e)) (encode (ne_float (ge_env e)) packet)
      (gc_nonce (gr_config c)) (gc_digest (gr_config c)) = Inr x \<and>
    io_now (ge_io e) (gs_world s) = (Inr now, w) \<and>
    write_bounded n (ipc_of (ge_io e)) (gr_output c) (encode (ne_float (ge_env e)) packet)
      (min (gr_absolute c) (now + nb_output (gr_budget c))) (ret ()) w = (Inr (), gs_world t)"
proof -
  from assms obtain passed packet x now s1 where p: "guest_packet c s = Inr (passed, packet)" "v = (if passed then 0 else 2)"
    and x: "validate_native_export (ne_sha (ge_env e)) (ne_float (ge_env e)) (encode (ne_float (ge_env e)) packet)
      (gc_nonce (gr_config c)) (gc_digest (gr_config c)) = Inr x"
    and clock: "gs (io_now (ge_io e)) s = (Inr now, s1)"
    and written: "gs (write_bounded n (ipc_of (ge_io e)) (gr_output c) (encode (ne_float (ge_env e)) packet)
      (min (gr_absolute c) (now + nb_output (gr_budget c))) (ret ())) s1 = (Inr (), t)"
    unfolding guest_report_def Let_def by (auto simp: act_simps)
  from zoom_gs_state [OF clock] zoom_gs_state [OF written] p(1) have "guest_packet c t = Inr (passed, packet)"
    by (auto simp: guest_packet_world)
  with p(2) x zoom_gs_world [OF clock] zoom_gs_world [OF written] show ?thesis by blast
qed

lemma guest_verdict_True:
  assumes "guest_packet c s = Inr (True, packet)"
  shows "gs_failure s = None \<and> gs_code s = Some 0 \<and> gs_registry s = [] \<and> gs_task_reaped s \<and> gs_worker_reaped s"
proof -
  from assms obtain facts task where f: "guest_facts c s = Inr facts" and v: "guest_verdict s facts task = Inr True"
    unfolding guest_packet_def by (auto simp: bindE_Inr)
  from v have x: "gs_failure s = None" "gs_code s = Some 0" "gs_registry s = []" "truthy (fld facts ''task_supervisor_reaped'')"
    "truthy (fld facts ''task_worker_reaped'')"
    unfolding guest_verdict_def andE_def by (auto simp: bindE_Inr split: if_splits)
  with f show ?thesis
    unfolding guest_facts_def Let_def message_flag_def
    by (auto simp: bindE_Inr native_header_def NATIVE_LIFECYCLE_FLAGS_def)
qed

lemma cleaned_all:
  assumes "registry_inv ([], events)"
  shows "roles_in ''cleaned'' events = filter (\<lambda>r. r \<in> set (roles_in ''intent'' events)) NATIVE_CLEAN_ORDER"
proof -
  let ?i = "roles_in ''intent'' events" and ?c = "roles_in ''cleaned'' events"
  from assms have e: "filter (\<lambda>r. r \<notin> set ?c) ?i = []" and c: "clean_order ?c" and sub: "set ?c \<subseteq> set ?i"
    by (simp_all add: registry_inv_def Let_def)
  from e sub have "set ?c = set ?i" by (auto simp: filter_empty_conv)
  with c show ?thesis by (simp add: clean_order_def)
qed

text \<open>
  C4: what a native guest invocation reports.  A run that returns ends, once its session is
  over, with a completed bounded write to its output of an export that the validator of the
  channels accepts.  Replaying the registrations that the run acknowledged gives exactly the objects that
  are pending.  Its status is 0 or 2, and 0 exactly when the
  export says it passed; then the owner exited with 0 and nothing failed, the task was reaped
  under an acknowledged registration, no object is pending, and every object that was announced
  has been cleaned, in the fixed order.
\<close>

theorem guest_export_earned:
  "case guest_run_all n e c (guest_start w child ready_fd) of
     (Inl _, _) \<Rightarrow> True
   | (Inr status, s) \<Rightarrow>
       (\<exists>s0 packet x now w1. guest_session n e c (guest_start w child ready_fd) = (Inr (), s0) \<and>
         guest_packet c s = Inr (status = 0, packet) \<and> (status = 0 \<or> status = 2) \<and>
         validate_native_export (ne_sha (ge_env e)) (ne_float (ge_env e)) (encode (ne_float (ge_env e)) packet)
           (gc_nonce (gr_config c)) (gc_digest (gr_config c)) = Inr x \<and>
         io_now (ge_io e) (gs_world s0) = (Inr now, w1) \<and>
         write_bounded n (ipc_of (ge_io e)) (gr_output c) (encode (ne_float (ge_env e)) packet)
           (min (gr_absolute c) (now + nb_output (gr_budget c))) (ret ()) w1 = (Inr (), gs_world s)) \<and>
       replay (gs_events s) = Inr (gs_registry s, gs_events s) \<and>
       (if status = 0
        then gs_code s = Some 0 \<and> gs_failure s = None \<and> gs_task_reaped s \<and> gs_worker_reaped s \<and> gs_registry s = [] \<and>
          roles_in ''cleaned'' (gs_events s) = filter (\<lambda>r. r \<in> set (roles_in ''intent'' (gs_events s))) NATIVE_CLEAN_ORDER
        else True)"
proof (cases "guest_run_all n e c (guest_start w child ready_fd)")
  case (Pair r s)
  show ?thesis
  proof (cases r)
    case (Inr status)
    from Pair Inr obtain s0 where session: "guest_session n e c (guest_start w child ready_fd) = (Inr (), s0)"
      and report: "guest_report n e c s0 = (Inr status, s)" by (auto simp: guest_run_all_def act_simps)
    from guest_report_Inr [OF report] obtain passed packet x now w1 where p: "guest_packet c s = Inr (passed, packet)"
      "status = (if passed then 0 else 2)"
      "validate_native_export (ne_sha (ge_env e)) (ne_float (ge_env e)) (encode (ne_float (ge_env e)) packet)
         (gc_nonce (gr_config c)) (gc_digest (gr_config c)) = Inr x" "io_now (ge_io e) (gs_world s0) = (Inr now, w1)"
      "write_bounded n (ipc_of (ge_io e)) (gr_output c) (encode (ne_float (ge_env e)) packet)
         (min (gr_absolute c) (now + nb_output (gr_budget c))) (ret ()) w1 = (Inr (), gs_world s)"
      by blast
    from guest_coherent [OF Pair] have m: "replay (gs_events s) = Inr (gs_registry s, gs_events s)" by (simp add: coherent_def)
    have v: "gs_failure s = None \<and> gs_code s = Some 0 \<and> gs_registry s = [] \<and> gs_task_reaped s \<and> gs_worker_reaped s" if passed
      using guest_verdict_True [of c s packet] p(1) that by simp
    have o: "roles_in ''cleaned'' (gs_events s) = filter (\<lambda>r. r \<in> set (roles_in ''intent'' (gs_events s))) NATIVE_CLEAN_ORDER" if passed
      using replay_inv [OF m] v [OF that] by (intro cleaned_all) simp
    from session p m v o show ?thesis unfolding Pair Inr by (cases passed) auto
  qed (simp add: Pair)
qed

end
