(* ===== verification/CapacityProps.thy ===== *)
theory CapacityProps
  imports Capacity
begin

text \<open>
  What an accepted capacity ledger and a constructed lifecycle budget guarantee: the bytes
  that all bounded surfaces may ever hold fit the declared envelope, and every stage that
  keeps its deadline leaves each later stage its whole time.
\<close>

subsection \<open>Charging one surface\<close>

definition charged :: "domains \<Rightarrow> int" where
  "charged ds = sum_list (map (\<lambda>(_, d). dm_surface d + dm_extra d) ds)"

definition shape :: "domains \<Rightarrow> (string \<times> int \<times> int) list" where
  "shape ds = map (\<lambda>(k, d). (k, dm_cap d, dm_device d)) ds"

lemma shape_charge_owner [simp]: "shape (charge_owner ds owner inside n) = shape ds"
  by (auto simp: shape_def charge_owner_def charge_domain_def)

lemma keys_shape: "map fst ds = map fst (shape ds)"
  by (auto simp: shape_def)

lemma charge_owner_other: "owner \<notin> fst ` set ds \<Longrightarrow> charge_owner ds owner inside n = ds"
  by (induction ds) (auto simp: charge_owner_def)

lemma charge_owner_Cons:
  "charge_owner ((k, d) # ds) owner inside n =
     (k, if k = owner then charge_domain inside n d else d) # charge_owner ds owner inside n"
  by (simp add: charge_owner_def)

lemma charged_Cons: "charged ((k, d) # ds) = dm_surface d + dm_extra d + charged ds"
  by (simp add: charged_def)

lemma charged_charge_owner:
  "distinct (map fst ds) \<Longrightarrow> owner \<in> fst ` set ds \<Longrightarrow> charged (charge_owner ds owner inside n) = charged ds + n"
proof (induction ds)
  case Nil
  then show ?case by simp
next
  case (Cons p ds)
  obtain k d where p: "p = (k, d)" by (cases p)
  show ?case
  proof (cases "k = owner")
    case True
    with Cons.prems p have "charge_owner ds owner inside n = ds" by (intro charge_owner_other) auto
    with True p show ?thesis by (simp add: charge_owner_Cons charged_Cons charge_domain_def)
  next
    case False
    with Cons p show ?thesis by (auto simp: charge_owner_Cons charged_Cons)
  qed
qed

subsection \<open>All surfaces\<close>

definition rows_in :: "string \<Rightarrow> pyval \<Rightarrow> string list \<Rightarrow> pyval list" where
  "rows_in state table names = filter (\<lambda>r. fld r ''state'' = PStr state) (map (fld table) names)"

definition reserved :: "pyval \<Rightarrow> string list \<Rightarrow> int" where
  "reserved table names = sum_list (map (\<lambda>r. amount r ''hard_limit_bytes'') (rows_in ''bounded'' table names))"

definition copied_bytes :: "pyval \<Rightarrow> string list \<Rightarrow> int" where
  "copied_bytes table names =
     sum_list (map (\<lambda>r. amount r ''logical_bytes'' * amount r ''copies'') (rows_in ''bounded'' table names))"

lemma check_charge_Inr:
  "check_charge prep ds name row path = Inr u \<Longrightarrow>
     str_of (fld row ''owner_domain'') \<in> fst ` set ds \<and>
     fld row ''state'' \<in> {PStr ''bounded'', PStr ''disabled'', PStr ''unknown''}"
  by (auto simp: check_charge_def Let_def res_simps)

lemma check_bounded_Inr:
  "check_bounded seen name row path = Inr u \<Longrightarrow>
     amount row ''logical_bytes'' * amount row ''copies'' \<le> amount row ''hard_limit_bytes''"
  unfolding check_bounded_def bindE_Inr check_at_Inr by (elim exE conjE) linarith

text \<open>One accepted surface: it is reported unknown, or disabled, or its reserve is charged.\<close>

lemma check_surface_Inr:
  assumes "check_surface prep table l name = Inr l'" and "distinct (map fst (lg_domains l))"
  shows "shape (lg_domains l') = shape (lg_domains l) \<and>
    charged (lg_domains l') = charged (lg_domains l) + reserved table [name] \<and>
    copied_bytes table [name] \<le> reserved table [name] \<and>
    length (lg_blockers l') = length (lg_blockers l) + length (rows_in ''unknown'' table [name])"
proof -
  let ?row = "fld table name"
  from assms(1) have o0: "str_of (fld ?row ''owner_domain'') \<in> fst ` set (lg_domains l)"
    and st: "fld ?row ''state'' \<in> {PStr ''bounded'', PStr ''disabled'', PStr ''unknown''}"
    unfolding check_surface_def Let_def bindE_Inr by (auto dest: check_charge_Inr)
  from st consider "fld ?row ''state'' = PStr ''unknown''" | "fld ?row ''state'' = PStr ''disabled''"
    | "fld ?row ''state'' = PStr ''bounded''" by auto
  then show ?thesis
  proof cases
    case 1
    with assms(1) show ?thesis
      by (auto simp: check_surface_def Let_def bindE_Inr reserved_def copied_bytes_def rows_in_def)
  next
    case 2
    with assms(1) show ?thesis
      by (auto simp: check_surface_def Let_def bindE_Inr check_at_Inr reserved_def copied_bytes_def rows_in_def)
  next
    case 3
    with assms(1) obtain u where b: "check_bounded (lg_seen l) name ?row (''capacity.surfaces.'' @ name) = Inr u"
      and l': "l' = l\<lparr>lg_seen := lg_seen l @ [str_of (fld ?row ''representation'')],
        lg_domains := charge_owner (lg_domains l) (str_of (fld ?row ''owner_domain'')) (fld ?row ''charge'' = PStr ''D'')
          (amount ?row ''hard_limit_bytes'')\<rparr>"
      by (auto simp: check_surface_def Let_def bindE_Inr)
    from check_bounded_Inr [OF b] 3 assms(2) o0 l' show ?thesis
      by (simp add: charged_charge_owner reserved_def copied_bytes_def rows_in_def)
  qed
qed

lemma rows_in_Cons: "rows_in state table (n # ns) = rows_in state table [n] @ rows_in state table ns"
  by (simp add: rows_in_def)

lemma reserved_Cons: "reserved table (n # ns) = reserved table [n] + reserved table ns"
  unfolding reserved_def by (subst rows_in_Cons) simp

lemma copied_bytes_Cons: "copied_bytes table (n # ns) = copied_bytes table [n] + copied_bytes table ns"
  unfolding copied_bytes_def by (subst rows_in_Cons) simp

lemma check_surfaces_Inr:
  assumes "foldE (check_surface prep table) l names = Inr l'" and "distinct (map fst (lg_domains l))"
  shows "shape (lg_domains l') = shape (lg_domains l) \<and>
    charged (lg_domains l') = charged (lg_domains l) + reserved table names \<and>
    copied_bytes table names \<le> reserved table names \<and>
    length (lg_blockers l') = length (lg_blockers l) + length (rows_in ''unknown'' table names)"
  using assms
proof (induction names arbitrary: l)
  case Nil
  then show ?case by (simp add: reserved_def copied_bytes_def rows_in_def)
next
  case (Cons n ns)
  from Cons.prems(1) obtain m where m: "check_surface prep table l n = Inr m"
    and r: "foldE (check_surface prep table) m ns = Inr l'" by (auto simp: bindE_Inr)
  note one = check_surface_Inr [OF m Cons.prems(2)]
  then have "distinct (map fst (lg_domains m))" using Cons.prems(2) by (metis keys_shape)
  from Cons.IH [OF r this] one show ?case
    unfolding reserved_Cons [of table n ns] copied_bytes_Cons [of table n ns] rows_in_Cons [of _ table n ns]
    by auto
qed

subsection \<open>The domains\<close>

lemma check_domain_fold:
  "foldE (check_domain prep table) ds caps = Inr ds' \<Longrightarrow>
     charged ds' = charged ds \<and> map fst ds' = map fst ds @ map fst caps"
proof (induction caps arbitrary: ds)
  case Nil
  then show ?case by simp
next
  case (Cons c caps)
  from Cons.prems obtain e where e: "check_domain prep table ds c = Inr e"
    and r: "foldE (check_domain prep table) e caps = Inr ds'" by (auto simp: bindE_Inr)
  from e have "\<exists>d. e = ds @ [(fst c, d)] \<and> dm_surface d = 0 \<and> dm_extra d = 0"
    by (cases c) (auto simp: check_domain_def Let_def bindE_Inr check_at_Inr)
  with Cons.IH [OF r] show ?case by (auto simp: charged_def)
qed

lemma check_reserves_Inr:
  "eachE check_reserves ds = Inr u \<Longrightarrow> charged ds \<le> total_cap ds"
  by (induction ds) (auto simp: charged_def total_cap_def check_reserves_def Let_def check_at_Inr bindE_Inr split: prod.splits)

lemma total_cap_shape: "total_cap ds = sum_list (map (\<lambda>(_, c, _). c) (shape ds))"
  by (induction ds) (auto simp: total_cap_def shape_def)

lemma caps_distinct: "distinct (map fst (caps_of prep))"
  by (simp add: caps_of_def PREP_CAPS_def STORAGE_def CAPS_def)

definition surface_names :: "bool \<Rightarrow> string list" where
  "surface_names prep = (if prep then PREP_SURFACES else I5_SURFACES)"

lemma check_ledger_Inr:
  assumes "check_ledger prep v = Inr l"
  shows "copied_bytes (fld v ''surfaces'') (surface_names prep) \<le> reserved (fld v ''surfaces'') (surface_names prep)"
    and "reserved (fld v ''surfaces'') (surface_names prep) \<le> int_of (fld v ''envelope_bytes'')"
    and "length (lg_blockers l) = length (rows_in ''unknown'' (fld v ''surfaces'') (surface_names prep))"
proof -
  let ?names = "surface_names prep" and ?table = "fld v ''surfaces''"
  from assms obtain ds u where ds: "foldE (check_domain prep (fld v ''domains'')) [] (caps_of prep) = Inr ds"
    and cap: "total_cap ds \<le> int_of (fld v ''envelope_bytes'')"
    and sf: "foldE (check_surface prep ?table) \<lparr> lg_seen = [], lg_blockers = [], lg_domains = ds \<rparr> ?names = Inr l"
    and rs: "eachE check_reserves (lg_domains l) = Inr u"
    unfolding check_ledger_def Let_def surface_names_def bindE_Inr check_at_Inr by blast
  from check_domain_fold [OF ds] have d: "charged ds = 0" "distinct (map fst ds)"
    using caps_distinct by (simp_all add: charged_def)
  from check_surfaces_Inr [OF sf] d
  have s: "shape (lg_domains l) = shape ds" "charged (lg_domains l) = reserved ?table ?names"
    "copied_bytes ?table ?names \<le> reserved ?table ?names"
    "length (lg_blockers l) = length (rows_in ''unknown'' ?table ?names)" by simp_all
  from check_reserves_Inr [OF rs] s(1,2) cap have "reserved ?table ?names \<le> int_of (fld v ''envelope_bytes'')"
    by (simp add: total_cap_shape)
  with s show "copied_bytes ?table ?names \<le> reserved ?table ?names"
    "reserved ?table ?names \<le> int_of (fld v ''envelope_bytes'')"
    "length (lg_blockers l) = length (rows_in ''unknown'' ?table ?names)" by simp_all
qed

text \<open>
  C23: Accepted capacity.  When a ledger is accepted, the copies that all bounded surfaces
  hold fit their hard limits, and these together fit the declared envelope (768 MiB for the
  runtime profile); the review has one blocker for every surface whose bound is unknown, so
  it passes only if none is.
\<close>

theorem capacity_within_envelope:
  "case validate_capacity raw profile nonce manifest of Inl _ \<Rightarrow> True
   | Inr r \<Rightarrow> \<exists>v. plan_decode raw ''i5-review-capacity'' = Inr v \<and>
       (let table = fld v ''surfaces''; names = surface_names (profile = ''preparation'') in
        copied_bytes table names \<le> reserved table names \<and>
        reserved table names \<le> int_of (fld v ''envelope_bytes'') \<and>
        (fld r ''review_passed'' = PBool True \<longleftrightarrow> rows_in ''unknown'' table names = []))"
proof (cases "validate_capacity raw profile nonce manifest")
  case (Inr r)
  then obtain v l where v: "plan_decode raw ''i5-review-capacity'' = Inr v"
    and l: "check_ledger (profile = ''preparation'') v = Inr l"
    and r: "\<exists>extra. r = report ''i5-review-capacity-report'' (lg_blockers l) nonce manifest extra"
    unfolding validate_capacity_def bindE_Inr check_at_Inr by blast
  have "fld r ''review_passed'' = PBool (lg_blockers l = [])" using r by (auto simp: report_def)
  with check_ledger_Inr [OF l] v Inr show ?thesis
    by (auto simp: Let_def)
qed simp

end
