(* ===== verification/BudgetProps.thy ===== *)
theory BudgetProps
  imports Capacity
begin

text \<open>
  The lifecycle budget nests: its worst case fits the total, and a stage that keeps its own
  deadline, with the cleanup reserve between the stages used up, leaves the next stage its
  whole time.
\<close>

text \<open>Consecutive stages, and what may pass between them.\<close>

definition handovers :: "budget \<Rightarrow> (string \<times> rat \<times> string) list" where
  "handovers b = (let c = cap (bu_caps b) in
     [(''init'', c ''reap'', ''start''), (''start'', c ''reap'', ''readiness''), (''readiness'', c ''reap'', ''active''),
      (''active'', c ''watchdog_cleanup'' + c ''watchdog_report'' + 3 * c ''reap'', ''shutdown''),
      (''shutdown'', c ''reap'', ''persist''), (''persist'', c ''reap'', ''output'')])"

lemmas tails = tail_def tail_active_def tail_shutdown_def Let_def

lemma handover_tail:
  "list_all (\<lambda>(s, gap, s'). tail b s = gap + cap (bu_caps b) s' + tail b s') (handovers b)"
  by (simp add: handovers_def tails)

lemma stage_deadline_next:
  assumes "tail b s = gap + cap (bu_caps b) s' + tail b s'"
  shows "stage_deadline b s' (min t (stage_deadline b s t0 absolute + gap)) absolute =
    min t (stage_deadline b s t0 absolute + gap) + cap (bu_caps b) s'"
  using assms by (simp add: stage_deadline_def min_def)

lemma budget_init_Inr:
  assumes "budget_init total_v silence_v caps_v = Inr b"
  shows "\<exists>caps active. map fst caps = map fst PHASE_CAPS \<and> bu_caps b = set_active active caps \<and> 6 < active \<and>
    bu_total b = number total_v \<and> number total_v \<le> 900 \<and> active \<le> number total_v - fixed_seconds caps \<and>
    bu_worst b = fixed_seconds caps + active \<and> 0 < bu_silence b \<and> bu_silence b \<le> active"
proof -
  define over where "over = override caps_v"
  define caps where "caps = map (\<lambda>(k, v). (k, number v)) over"
  define active where "active = min (cap caps ''active'') (number total_v - fixed_seconds caps)"
  have "map fst caps = map fst PHASE_CAPS"
    by (simp add: caps_def over_def override_def PHASE_CAPS_def)
  moreover from assms have "bu_caps b = set_active active caps \<and> 6 < active \<and> bu_total b = number total_v \<and>
      number total_v \<le> 900 \<and> bu_worst b = fixed_seconds caps + active \<and> 0 < number silence_v \<and>
      bu_silence b = min (number silence_v) active"
    by (simp add: budget_init_def require_Inr Let_def over_def [symmetric] caps_def [symmetric] active_def [symmetric])
      (auto simp: active_def)
  moreover have "active \<le> number total_v - fixed_seconds caps" by (simp add: active_def)
  ultimately show ?thesis by (intro exI [of _ caps] exI [of _ active]) auto
qed

lemma caps_sum:
  assumes "map fst caps = map fst PHASE_CAPS" and "bu_caps b = set_active active caps"
  shows "cap (bu_caps b) ''init'' + tail b ''init'' = fixed_seconds caps + active \<and> cap (bu_caps b) ''active'' = active"
proof -
  have "\<exists>v1 v2 v3 v4 v5 v6 v7 v8 v9 v10. caps = [(''init'', v1), (''start'', v2), (''readiness'', v3), (''active'', v4),
      (''watchdog_cleanup'', v5), (''watchdog_report'', v6), (''shutdown'', v7), (''persist'', v8), (''output'', v9), (''reap'', v10)]"
    using assms(1) by (auto simp: PHASE_CAPS_def Cons_eq_map_conv map_eq_Cons_conv)
  then show ?thesis
    by (elim exE) (simp add: assms(2) set_active_def tails fixed_seconds_def cap_def REAP_SLOTS_def)
qed

text \<open>
  C32: Lifecycle budget.  A budget that is constructed covers its worst case: the caps of all
  stages and the eight reaping slots fit the total, which is at most 900 seconds; the active
  stage keeps more than 6 seconds and the lease silence fits it.  A lifecycle that ends each
  stage by its deadline plus the reserve between the two stages gives the next stage, and so
  every later one, its whole cap, and the first one has its whole cap from the start.
\<close>

theorem budget_nests:
  "case budget_init total_v silence_v caps_v of Inl _ \<Rightarrow> True
   | Inr b \<Rightarrow>
       cap (bu_caps b) ''init'' + tail b ''init'' = bu_worst b \<and> bu_worst b \<le> bu_total b \<and> bu_total b \<le> 900 \<and>
       6 < cap (bu_caps b) ''active'' \<and> 0 < bu_silence b \<and> bu_silence b \<le> cap (bu_caps b) ''active'' \<and>
       stage_deadline b ''init'' start (start + bu_total b) = start + cap (bu_caps b) ''init'' \<and>
       list_all (\<lambda>(s, gap, s').
           let handed = min t (stage_deadline b s t0 absolute + gap) in
           stage_deadline b s' handed absolute = handed + cap (bu_caps b) s') (handovers b)"
proof (cases "budget_init total_v silence_v caps_v")
  case (Inr b)
  from budget_init_Inr [OF this] obtain caps active where c: "map fst caps = map fst PHASE_CAPS"
    "bu_caps b = set_active active caps" and b: "6 < active" "bu_total b = number total_v" "number total_v \<le> 900"
    "active \<le> number total_v - fixed_seconds caps" "bu_worst b = fixed_seconds caps + active"
    "0 < bu_silence b" "bu_silence b \<le> active" by blast
  note sums = caps_sum [OF c]
  have "list_all (\<lambda>(s, gap, s').
      let handed = min t (stage_deadline b s t0 absolute + gap) in
      stage_deadline b s' handed absolute = handed + cap (bu_caps b) s') (handovers b)"
    using handover_tail [of b] by (auto simp: list_all_iff Let_def stage_deadline_next)
  moreover from sums b have "stage_deadline b ''init'' start (start + bu_total b) = start + cap (bu_caps b) ''init''"
    by (simp add: stage_deadline_def min_def)
  ultimately show ?thesis using sums b Inr by simp
qed simp

end
