(* ===== verification/MailboxProps.thy ===== *)
theory MailboxProps
  imports Mailbox
begin

text \<open>
  The slot format is a faithful carrier: a slot is accepted as a frame exactly when it is the
  one slot that packing the frame gives, so a torn, stale or foreign slot is never read as one.
\<close>

subsection \<open>The length field\<close>

lemma code_byte: "code (byte n) = n mod 256"
  by (simp add: byte_def code_def)

lemma length_big_endian4 [simp]: "length (big_endian4 n) = 4"
  by (simp add: big_endian4_def)

lemma horner_step: "n div (256 * m) * 256 + n div m mod 256 = n div (m::nat)"
  by (metis div_mod_decomp div_mult2_eq mult.commute)

lemma from_big_endian4: "n < 4294967296 \<Longrightarrow> from_big_endian (big_endian4 n) = n"
  using horner_step [of n 65536] horner_step [of n 256] horner_step [of n 1]
  by (simp add: big_endian4_def code_byte)

lemma div_step: "c < 256 \<Longrightarrow> (a * 256 + c) div 256 = (a::nat)"
  by simp

lemma big_endian4_from: "length b = 4 \<Longrightarrow> big_endian4 (from_big_endian b) = b"
proof -
  assume "length b = 4"
  then obtain p q r s where b: "b = [p, q, r, s]"
    by (auto simp: numeral_eq_Suc length_Suc_conv)
  have l: "code p < 256" "code q < 256" "code r < 256" "code s < 256" by (simp_all add: code_lt)
  let ?n = "from_big_endian b"
  have n: "?n = ((code p * 256 + code q) * 256 + code r) * 256 + code s" by (simp add: b)
  have d1: "?n div 256 = (code p * 256 + code q) * 256 + code r" using l(4) unfolding n by (rule div_step)
  have "?n div 65536 = ?n div 256 div 256" by (simp add: div_mult2_eq [symmetric])
  with d1 l(3) have d2: "?n div 65536 = code p * 256 + code q" by (metis div_step)
  have "?n div 16777216 = ?n div 65536 div 256" by (simp add: div_mult2_eq [symmetric])
  with d2 l(2) have d3: "?n div 16777216 = code p" by (metis div_step)
  have m: "byte (a * 256 + c) = byte c" for a c by (simp add: byte_def)
  show ?thesis unfolding big_endian4_def d1 d2 d3 unfolding n m by (simp add: b byte_code)
qed

declare from_big_endian.simps [simp del]

subsection \<open>Packing and unpacking\<close>

lemma slice_append: "length a = i \<Longrightarrow> length b = j - i \<Longrightarrow> i \<le> j \<Longrightarrow> slice i j (a @ b @ c) = b"
  by (simp add: slice_def)

lemma slice_drop: "i \<le> j \<Longrightarrow> slice i j s @ drop j s = drop i s"
  unfolding slice_def by (metis append_take_drop_id drop_drop le_add_diff_inverse2)

lemma unpack_pack:
  assumes "\<And>x. length (dig x) = 32" and "pack_slot dig f = Inr raw"
  shows "unpack_slot dig raw = Inr (Some f)"
proof -
  let ?pad = "zeros (SLOT_BYTES - (40 + length f))"
  from assms have n: "0 < length f" "length f \<le> MAX_FRAME"
    and raw: "raw = SLOT_MAGIC @ big_endian4 (length f) @ dig f @ f @ ?pad"
    by (auto simp: pack_slot_def require_Inr Let_def SLOT_MAGIC_def)
  have len: "length raw = SLOT_BYTES"
    using n assms(1) by (simp add: raw SLOT_MAGIC_def zeros_def SLOT_BYTES_def MAX_FRAME_def)
  have be: "from_big_endian (slice 4 8 raw) = length f"
    using n slice_append [of SLOT_MAGIC 4 "big_endian4 (length f)" 8 "dig f @ f @ ?pad"]
    by (simp add: raw SLOT_MAGIC_def MAX_FRAME_def from_big_endian4)
  have fr: "slice 40 (40 + length f) raw = f"
    using slice_append [of "SLOT_MAGIC @ big_endian4 (length f) @ dig f" 40 f "40 + length f" ?pad] assms(1)
    by (simp add: raw SLOT_MAGIC_def)
  have dg: "slice 8 40 raw = dig f"
    using slice_append [of "SLOT_MAGIC @ big_endian4 (length f)" 8 "dig f" 40 "f @ ?pad"] assms(1)
    by (simp add: raw SLOT_MAGIC_def)
  have pd: "drop (40 + length f) raw = ?pad"
  proof -
    have "raw = (SLOT_MAGIC @ big_endian4 (length f) @ dig f @ f) @ ?pad" by (simp add: raw)
    then have "drop (length (SLOT_MAGIC @ big_endian4 (length f) @ dig f @ f)) raw = ?pad" by (metis append_eq_conv_conj)
    then show ?thesis using assms(1) by (simp add: SLOT_MAGIC_def)
  qed
  have "take 4 raw = SLOT_MAGIC" by (simp add: raw SLOT_MAGIC_def)
  moreover have "hd raw \<noteq> hd (zeros SLOT_BYTES)"
    by (simp add: raw SLOT_MAGIC_def zeros_def SLOT_BYTES_def hd_replicate)
  then have "raw \<noteq> zeros SLOT_BYTES" by auto
  ultimately show ?thesis using len be fr dg pd n
    by (simp add: unpack_slot_def require_True Let_def zeros_def list_ex_iff)
qed

lemma all_zero: "\<not> list_ex (\<lambda>c. c \<noteq> CHR 0x00) s \<Longrightarrow> s = zeros (length s)"
  by (simp add: list_ex_iff zeros_def replicate_length_same)

lemma pack_unpack:
  assumes "unpack_slot dig raw = Inr (Some f)"
  shows "pack_slot dig f = Inr raw"
proof -
  define n where "n = from_big_endian (slice 4 8 raw)"
  from assms have len: "length raw = 1024" and mg: "take 4 raw = SLOT_MAGIC" and n: "0 < n" "n \<le> MAX_FRAME"
    and f: "f = slice 40 (40 + n) raw" and dg: "slice 8 40 raw = dig f"
    and "\<not> list_ex (\<lambda>c. c \<noteq> CHR 0x00) (drop (40 + n) raw)"
    by (auto simp: unpack_slot_def require_Inr Let_def n_def [symmetric] SLOT_BYTES_def split: if_splits)
  from this(7) have z: "drop (40 + n) raw = zeros (length (drop (40 + n) raw))" by (rule all_zero)
  have lf: "length f = n" using len n by (simp add: f length_slice MAX_FRAME_def)
  have be: "big_endian4 n = slice 4 8 raw" unfolding n_def by (rule big_endian4_from) (simp add: length_slice len)
  have ld: "length (dig f) = 32" unfolding dg [symmetric] using len by (simp add: length_slice)
  have "raw = take 4 raw @ slice 4 8 raw @ slice 8 40 raw @ slice 40 (40 + n) raw @ drop (40 + n) raw"
    by (simp add: slice_drop)
  also have "\<dots> = SLOT_MAGIC @ big_endian4 n @ dig f @ f @ zeros (1024 - (40 + n))"
    using mg be dg f z len by simp
  finally show ?thesis using n lf ld
    by (simp add: pack_slot_def require_True Let_def SLOT_BYTES_def SLOT_MAGIC_def)
qed

text \<open>
  C27: Mailbox slots.  For a digest of 32 bytes, a slot is read as a frame exactly when it is
  the slot that packing this frame writes: what the host sends is what the guest receives,
  and no torn, truncated, padded or foreign slot is ever taken for a frame.
\<close>

theorem slot_exact:
  assumes "\<And>x. length (dig x) = 32"
  shows "unpack_slot dig raw = Inr (Some f) \<longleftrightarrow> pack_slot dig f = Inr raw"
  using unpack_pack [of dig f raw, OF assms] pack_unpack by blast

theorem slot_exact_witness:
  "let dig = (\<lambda>x. take 32 (x @ zeros 32)) in
   \<forall>raw. unpack_slot dig raw = Inr (Some ''frame'') \<longleftrightarrow> pack_slot dig ''frame'' = Inr raw"
  unfolding Let_def by (intro allI slot_exact) (simp add: zeros_def)

end
