(* ===== verification/StagingProps.thy ===== *)
theory StagingProps
  imports Staging
begin

text \<open>
  The staging client never retries: what one exchange does to the client, and what a whole
  history of exchanges can look like.
\<close>

subsection \<open>One exchange\<close>

text \<open>The client without the two fields that an exchange may change.\<close>

definition client_binding :: "client \<Rightarrow> int \<times> string \<times> nat \<times> (string \<times> pyval) list" where
  "client_binding c = (sc_fd c, sc_root c, sc_source_limit c, sc_binding c)"

lemma keeps_sg: "keeps (\<lambda>s t. sg_client s = sg_client t) (sg m)"
  by (auto simp: keeps_def zoom_def split: prod.splits)

lemma exchange_body_client:
  "keeps (\<lambda>s t. sg_client s = sg_client t) (exchange_body fuel dig e operation sequence deadline src)"
  unfolding exchange_body_def by (intro same.keeps_intros keeps_sg)

text \<open>The client after its guards passed: a stage took its sequence number.\<close>

definition admitted :: "string \<Rightarrow> int \<Rightarrow> client \<Rightarrow> client" where
  "admitted operation sequence c = (if operation = ''stage'' then c\<lparr>sc_sequence := sequence\<rparr> else c)"

definition admits :: "string \<Rightarrow> int \<Rightarrow> client \<Rightarrow> bool" where
  "admits operation sequence c = (\<not> sc_failed c \<and> (if operation = ''stage'' then sc_sequence c < sequence else operation = ''clean''))"

text \<open>The three ways an exchange can end: refused without effect, failed for good, or done.\<close>

lemma exchange_cases:
  assumes "exchange fuel dig e operation sequence deadline src s = (r, s')" and "r \<noteq> Inl OutOfFuel"
  obtains (refused) x where "r = Inl x" "s' = s"
  | (failed) x where "r = Inl x" "admits operation sequence (sg_client s)"
      "sg_client s' = (admitted operation sequence (sg_client s))\<lparr>sc_failed := True\<rparr>"
  | (sent) "r = Inr (staged_path (sg_client s) sequence)" "admits operation sequence (sg_client s)"
      "sg_client s' = admitted operation sequence (sg_client s)"
proof -
  let ?c = "sg_client s" and ?s = "s\<lparr>sg_client := admitted operation sequence (sg_client s)\<rparr>"
  let ?body = "exchange_body fuel dig e operation sequence deadline src"
  let ?step = "on_error ?body (set_client (\<lambda>c. c\<lparr>sc_failed := True\<rparr>)) ?s"
  have "exchange fuel dig e operation sequence deadline src s = (r, s) \<and> isl r \<or>
      admits operation sequence ?c \<and> exchange fuel dig e operation sequence deadline src s = ?step"
    using assms(1)
    by (auto simp: exchange_def admits_def admitted_def ensure_def whenA_def set_client_def bnd_def sqn_def get_def upd_def ret_def
        split: if_splits)
  then show ?thesis
  proof (elim disjE conjE)
    assume "exchange fuel dig e operation sequence deadline src s = (r, s)" "isl r"
    with assms(1) show ?thesis by (auto simp: isl_def intro: refused)
  next
    assume ok: "admits operation sequence ?c" and "exchange fuel dig e operation sequence deadline src s = ?step"
    with assms(1) have step: "?step = (r, s')" by simp
    obtain q t where b: "?body ?s = (q, t)" by (cases "?body ?s")
    with keepsD [OF exchange_body_client b] have t: "sg_client t = admitted operation sequence ?c" by simp
    show ?thesis
    proof (cases q)
      case (Inl x)
      with b t step assms(2) show ?thesis
        by (intro failed [of x, OF _ ok]) (auto simp: on_error_def set_client_def split: if_splits)
    next
      case (Inr p)
      with b have "p = staged_path (admitted operation sequence ?c) sequence"
        by (auto simp: exchange_body_def act_simps)
      with Inr b t step show ?thesis
        by (intro sent [OF _ ok]) (auto simp: on_error_def staged_path_def admitted_def)
    qed
  qed
qed

subsection \<open>A history of exchanges\<close>

type_synonym exchange_call = "string \<times> int \<times> rat \<times> string"

text \<open>Each call with its outcome, and whether it touched the world.\<close>

fun exchanges ::
    "nat \<Rightarrow> (string \<Rightarrow> string) \<Rightarrow> 'w ipc \<Rightarrow> exchange_call list \<Rightarrow> 'w staging \<Rightarrow> (exchange_call \<times> string res) list \<times> 'w staging" where
  "exchanges fuel dig e [] s = ([], s)"
| "exchanges fuel dig e ((operation, sequence, deadline, src) # calls) s =
     (case exchange fuel dig e operation sequence deadline src s of (r, s') \<Rightarrow>
      case exchanges fuel dig e calls s' of (out, s'') \<Rightarrow> (((operation, sequence, deadline, src), r) # out, s''))"

definition staged :: "(exchange_call \<times> string res) list \<Rightarrow> int list" where
  "staged out = map (\<lambda>((_, sequence, _), _). sequence) (filter (\<lambda>((operation, _), r). operation = ''stage'' \<and> \<not> isl r) out)"

definition no_fuel_out :: "(exchange_call \<times> string res) list \<Rightarrow> bool" where
  "no_fuel_out out = list_all (\<lambda>(_, r). r \<noteq> Inl OutOfFuel) out"

definition successes :: "(exchange_call \<times> string res) list \<Rightarrow> (exchange_call \<times> string res) list" where
  "successes out = filter (\<lambda>(_, r). \<not> isl r) out"

definition paths_bound :: "client \<Rightarrow> (exchange_call \<times> string res) list \<Rightarrow> bool" where
  "paths_bound c out = list_all (\<lambda>((_, sequence, _), r). case r of Inl _ \<Rightarrow> True | Inr p \<Rightarrow> p = staged_path c sequence) out"

lemma admitted_fields [simp]:
  "client_binding (admitted operation sequence c) = client_binding c"
  "client_binding (c\<lparr>sc_failed := b\<rparr>) = client_binding c"
  "sc_failed (admitted operation sequence c) = sc_failed c"
  by (simp_all add: client_binding_def admitted_def)

lemma admitted_sequence: "admits operation sequence c \<Longrightarrow> sc_sequence c \<le> sc_sequence (admitted operation sequence c)"
  by (auto simp: admits_def admitted_def)

lemma staged_path_binding: "client_binding c = client_binding d \<Longrightarrow> staged_path c = staged_path d"
  by (auto simp: client_binding_def staged_path_def)

lemma paths_bound_binding: "client_binding c = client_binding d \<Longrightarrow> paths_bound c out \<Longrightarrow> paths_bound d out"
  unfolding paths_bound_def using staged_path_binding [of c d] by simp

text \<open>A failed client refuses everything.\<close>

lemma exchange_failed:
  assumes "sc_failed (sg_client s)"
  shows "exchange fuel dig e operation sequence deadline src s =
    (Inl (ValueError ''staging IPC previously failed; no retry''), s)"
  using assms by (simp add: exchange_def)

lemma exchanges_failed:
  assumes "sc_failed (sg_client s)" and "exchanges fuel dig e calls s = (out, s')"
  shows "s' = s \<and> successes out = []"
  using assms(2)
  by (induction calls arbitrary: out) (auto simp: exchange_failed [OF assms(1)] successes_def split: prod.splits)

lemma exchanges_sound:
  assumes "exchanges fuel dig e calls s = (out, s')" and "no_fuel_out out"
  shows "sorted_wrt (<) (sc_sequence (sg_client s) # staged out) \<and>
    sc_sequence (sg_client s) \<le> sc_sequence (sg_client s') \<and>
    client_binding (sg_client s') = client_binding (sg_client s) \<and> paths_bound (sg_client s) out \<and>
    (\<not> sc_failed (sg_client s') \<longrightarrow> exchanges fuel dig e (map fst (successes out)) s = (successes out, s'))"
  using assms
proof (induction calls arbitrary: s out)
  case Nil
  then show ?case by (simp add: staged_def paths_bound_def successes_def)
next
  case (Cons call calls)
  obtain operation sequence deadline src where call: "call = (operation, sequence, deadline, src)" by (cases call)
  obtain r t where r: "exchange fuel dig e operation sequence deadline src s = (r, t)"
    by (cases "exchange fuel dig e operation sequence deadline src s")
  with Cons.prems call obtain out' where rest: "exchanges fuel dig e calls t = (out', s')"
    and out: "out = (call, r) # out'" by (auto split: prod.splits)
  from Cons.prems(2) out have ok: "r \<noteq> Inl OutOfFuel" "no_fuel_out out'" by (simp_all add: no_fuel_out_def)
  note IH = Cons.IH [OF rest ok(2)]
  show ?case
  using r ok(1)
  proof (cases rule: exchange_cases)
    case (refused x)
    with IH show ?thesis by (simp add: out staged_def paths_bound_def successes_def call)
  next
    case (failed x)
    from failed(3) have f: "sc_failed (sg_client t)" by simp
    from exchanges_failed [OF this rest] have "s' = t" "successes out' = []" by simp_all
    moreover from this have "staged out' = []" by (auto simp: staged_def successes_def filter_empty_conv)
    moreover from IH failed(3) have "paths_bound (sg_client s) out'"
      using paths_bound_binding [of "sg_client t" "sg_client s"] by simp
    ultimately show ?thesis using f failed admitted_sequence [OF failed(2)]
      by (simp add: out staged_def paths_bound_def successes_def call)
  next
    case sent
    from sent(3) have b: "client_binding (sg_client t) = client_binding (sg_client s)" by simp
    have q: "sc_sequence (sg_client t) = (if operation = ''stage'' then sequence else sc_sequence (sg_client s))"
      "operation = ''stage'' \<Longrightarrow> sc_sequence (sg_client s) < sequence"
      using sent(2,3) by (auto simp: admitted_def admits_def)
    have "paths_bound (sg_client s) out"
      using paths_bound_binding [OF b] IH sent(1) by (simp add: paths_bound_def out call)
    moreover have "staged out = (if operation = ''stage'' then sequence # staged out' else staged out')"
      using sent(1) by (simp add: staged_def out call)
    moreover have "successes out = (call, r) # successes out'"
      using sent(1) by (simp add: successes_def out)
    ultimately show ?thesis using IH q b r call by (auto split: prod.splits)
  qed
qed

text \<open>
  C28: No retry.  Whatever the peer and the kernel do, the sequence numbers of the sources a
  client stages rise strictly; each accepted exchange returns the one path bound to its
  sequence number; a refused call changes nothing, so a history that leaves the client
  usable is its successful calls alone; and once an exchange failed on the channel, every
  later call is refused without touching it.
\<close>

theorem staging_history:
  "case exchanges fuel dig e calls s of (out, s') \<Rightarrow>
     if no_fuel_out out then
       sorted_wrt (<) (sc_sequence (sg_client s) # staged out) \<and> paths_bound (sg_client s) out \<and>
       client_binding (sg_client s') = client_binding (sg_client s) \<and>
       (if sc_failed (sg_client s') then
          case exchanges fuel dig e later s' of (out', s'') \<Rightarrow> s'' = s' \<and> successes out' = []
        else exchanges fuel dig e (map fst (successes out)) s = (successes out, s'))
     else True"
proof -
  obtain out s' where run: "exchanges fuel dig e calls s = (out, s')" by (cases "exchanges fuel dig e calls s")
  obtain out' s'' where again: "exchanges fuel dig e later s' = (out', s'')" by (cases "exchanges fuel dig e later s'")
  show ?thesis
  proof (cases "no_fuel_out out")
    case True
    from exchanges_sound [OF run True] exchanges_failed [OF _ again] run again show ?thesis by auto
  qed (simp add: run)
qed

end
