(* ===== verification/Spec2Isabelle.thy ===== *)
theory Spec2Isabelle
  imports ChannelProps SuperviseTime AptProps AptPrepareProps IsolationProps ExportProps TransportProps Watchdog Coverage LifecycleProps NativeRegistry SyntheticProps OwnerExit GuestProps CapacityProps BudgetProps MailboxProps StagingProps
begin

text \<open>
  RadishLink is an offline ad hoc communication project.  The core of its Python code
  (\<open>scripts/\<close>) is the tooling of the software stage I5: a Linux guest in UTM in which a fixed
  set of Debian packages is verified and its installation simulated under strict limits,
  watched from the host.  This library models that code and proves what it promises.  All file names below are
  under \<open>src/scripts/\<close>.

  \<^bold>\<open>How the program works.\<close>  On the host, \<open>fork_lifecycle\<close> (\<open>sw_i5_preparation_lifecycle.py\<close>)
  forks the owner of one attempt, which starts the VM through an adapter, runs the active phase,
  stops the VM and hands the facts of the attempt to an evidence worker.  For the active phase
  \<open>fork_watchdog\<close> (\<open>sw_i5_preparation_channels.py\<close>)
  forks a watchdog, which forks the transport (\<open>sw_i5_preparation_transport.py\<close>).  The
  transport talks to the guest by bounded RPCs (\<open>sw_i5_preparation_rpc.py\<close>,
  \<open>sw_i5_preparation_staging.py\<close>): it opens two mailbox slots, starts one guest program,
  forwards lease frames and reads one result.  In the guest, \<open>serve_preparation\<close> forks the
  independent supervisor (\<open>sw_i5_preparation_supervisor.py\<close>), which admits a blocked worker to
  its cgroup, releases it under the lease, and always kills and reaps it.  The worker confines
  itself (\<open>sw_i5_preparation_isolation.py\<close>) and runs the staged preparation of \<open>sw_i5_apt.py\<close>.
  A guard checks the storage domains (\<open>sw_i5_resources.py\<close>) and the isolation before every
  step.  The guest's directories, slots and cgroups are created, read back and removed by the native
  initializer (\<open>sw_i5_preparation_native.py\<close>), which registers each of them.  It lives in the owner
  process of \<open>sw_i5_preparation_native_lifecycle.py\<close>: the invocation parent acknowledges its
  registrations and enforces the phases, the owner forks the supervisor of the task and cleans
  up once the task is known to be gone.  For offline tests \<open>sw_i5_preparation_initialization.py\<close>
  does the same on a mapped tree of ordinary files, from inside the evidence worker.  The result is exported as one JSON packet.  \<open>sw_i5_preparation_plan.py\<close> reviews, before
  anything runs, the capacity ledger, the object plan and the coverage of host writes; the
  lifecycle budget divides the time.

  \<^bold>\<open>How it is modelled.\<close>  A JSON value is a \<open>pyval\<close>; Python's integers are \<open>int\<close>, its finite
  floats and clock readings are rationals, strings and bytes are lists of characters below 256.
  An exception is a value of \<open>exn\<close>, a fallible function returns \<open>'a res\<close> (\<open>exn + 'a\<close>), and an
  effectful one is an \<open>act\<close>, a function from a state to an outcome and the state it leaves
  (also when it raises).  What the code is handed or reaches through the operating system (the
  kernel, pipes, clocks, child processes, RPC peers, injected callbacks) is a record of such
  functions over an arbitrary world, so every theorem holds for every behaviour of them;
  SHA-256, the text of a float, the RFC 2822 date reader and the decompressors are function
  arguments.  \<open>os.fork\<close> is the parent's side; the child's side is a definition of its own whose
  value is the exit status.

  \<^bold>\<open>Theories.\<close>
  \<^item> \<open>Prelude\<close>, \<open>Effects\<close>, \<open>Paths\<close>: exceptions, \<open>require\<close>, sequencing, the relation \<open>keeps\<close> and
    the locale \<open>state_order\<close> with its two interpretations (an observation that stays, a log that
    grows), which the proofs about effects use; POSIX paths and the kernel interface.
  \<^item> \<open>PyVal\<close>, \<open>Json\<close>, \<open>JsonProps\<close>, \<open>Text\<close>, \<open>Base64\<close>: Python values with \<open>==\<close> and \<open>type\<close>,
    \<open>json.dumps\<close> and \<open>json.loads\<close> with the hooks of \<open>apt.decode\<close>, string methods, regular
    expressions by derivatives, base64 as \<open>binascii\<close> decodes it.  Shown: the decoder comes to an
    end, reads the text of a value back exactly and rejects one that repeats a key with the first
    such key; \<open>fullmatch\<close> decides its language.
  \<^item> \<open>Lease\<close>, \<open>LeaseProps\<close>: \<open>Lease\<close>, \<open>drain_lease\<close>.  Shown: the deadline is absolute, renewals
    are never replayed, fragments do not matter, cancellation and bursts are final; an action that
    is a list or an object escapes as \<open>TypeError\<close>.
  \<^item> \<open>Supervise\<close>, \<open>SuperviseProps\<close>, \<open>SuperviseTime\<close>: \<open>supervise\<close> with a trace of its calls.
    Shown: release only behind a full admission; one kill of the group if a worker was spawned
    and cancelling its admission did not raise, and none otherwise; a passed report is earned;
    termination.
  \<^item> \<open>Worker\<close>, \<open>Watchdog\<close>: \<open>ForkWorker\<close>, \<open>reap_descendants\<close>, \<open>fork_supervisor\<close>,
    \<open>watch_transport\<close>, \<open>fork_watchdog\<close>, \<open>serve_preparation\<close>, composed of the definitions above.
  \<^item> \<open>Apt\<close>, \<open>AptText\<close>, \<open>AptResult\<close>, \<open>AptRun\<close>, \<open>AptPrepare\<close> with \<open>AptProps\<close> and
    \<open>AptPrepareProps\<close>: \<open>sw_i5_apt.py\<close>, from the manifest to \<open>exercise_preparation\<close>.  Shown:
    accepted media are exact, simulations only add, the configuration in force is the generated
    one, runs respect their byte budgets and kill their group, a passed preparation carries
    every step.
  \<^item> \<open>Resources\<close>, \<open>Guards\<close>, \<open>ResourcesProps\<close>: \<open>sw_i5_resources.py\<close>.  \<open>Guards\<close> holds the locale of
    the two sticky guards; \<open>ResourcesProps\<close> and \<open>IsolationProps\<close> interpret it on the two models.
  \<^item> \<open>Cgroups\<close>, \<open>Isolation\<close>, \<open>Namespace\<close>, \<open>IsolationProps\<close>: \<open>sw_i5_preparation_isolation.py\<close>.
    Shown: the seccomp program, run by a BPF machine, implements its policy; the order of the
    confinement; what accepted mounts allow.
  \<^item> \<open>Channels\<close>, \<open>Export\<close>, \<open>NativeExport\<close> with \<open>ChannelProps\<close>, \<open>ExportProps\<close>: bounded channels, the
    result packet and the native lifecycle packet.  Shown: a bounded write delivers a leading part
    of its message and, when it returns, all of it; what a validated packet proves.
  \<^item> \<open>Mailbox\<close>, \<open>Rpc\<close>, \<open>Staging\<close>, \<open>Transport\<close> with \<open>MailboxProps\<close>, \<open>StagingProps\<close>,
    \<open>TransportProps\<close>: slots, requests and responses, the staging client, the process bridge, the
    attempt.  Shown: slots are exact, a failed client never retries, at most one guest start.
  \<^item> \<open>Capacity\<close>, \<open>Plan\<close>, \<open>Coverage\<close> with \<open>CapacityProps\<close>, \<open>BudgetProps\<close>:
    \<open>sw_i5_preparation_plan.py\<close> and the \<open>Budget\<close> class.  Shown: accepted ledgers fit their
    envelope, stage deadlines nest.

  \<^item> \<open>Lifecycle\<close>, \<open>LifecycleRun\<close>, \<open>Triples\<close>, \<open>LifecycleProps\<close>: \<open>_Owner\<close> and \<open>fork_lifecycle\<close>.  The
    owner's state is the record \<open>owner\<close>, its facts the record \<open>facts\<close>; \<open>Triples\<close> has the pre- and
    postconditions of effectful computations.  Shown: of the checks that the
    validator of the evidence makes on the facts an owner freezes, however the attempt went, only
    three can fail, which are named; diagnostics are cut exactly.
  \<^item> \<open>Native\<close>, \<open>NativeRun\<close>, \<open>NativeProps\<close>, \<open>NativeRegistry\<close>: \<open>NativeGuestInitialization\<close> over its
    injected system calls, its state the record \<open>native\<close> with a ghost log of registrations and
    of creating and removing calls.  Shown: objects are created in the fixed order, each announced
    first; the cleanup removes only confirmed objects, in reverse, and refines the relation
    \<open>cleans\<close>; the registrations of a run are those \<open>NativeExport\<close> accepts.
  \<^item> \<open>NativeOwner\<close>, \<open>NativeGuest\<close> with \<open>OwnerProps\<close>, \<open>OwnerExit\<close>, \<open>GuestProps\<close>: \<open>_owner\<close> (state
    \<open>guest_owner\<close>) and \<open>run_native_guest\<close> (state \<open>guest\<close>, with a ghost log of signals and
    retirement).  Shown: nothing is removed once the owner has admitted a supervisor, until that
    is settled, provided that closing a descriptor never raises (a lemma shows the run in which it
    does); exit 0 leaves nothing; a process is signalled only while its ticket is held; a run that
    returns ends with the completed write of an export that validates.  The history variables
    \<open>fs_granted\<close> and \<open>go_granted\<close> record that the write of a supervisor's gate byte has returned;
    no operation reads them.
  \<^item> \<open>Synthetic\<close>, \<open>SyntheticWorker\<close>, \<open>SyntheticProps\<close>: \<open>sw_i5_preparation_initialization.py\<close>, the bound
    snapshot, the mapped guest tree (state \<open>mapped\<close>) and the evidence worker with its objects and
    staged sources (state \<open>init_worker\<close>, with a ghost log of registrations).  Shown: the transitions of
    the lifecycle owner's registry (\<open>registry_step\<close>) follow the worker's entries step by step.
  \<^item> \<open>Evidence\<close>, \<open>EvidenceStore\<close>: \<open>sw_i5_preparation_evidence.py\<close>, the validators of the host
    report, the lifecycle and initialization records and the attempt; the store, whose state is
    the record \<open>store\<close>, its receipt, and the bounded child that persists it.

  \<^bold>\<open>Fuel.\<close>  A loop that the code leaves by a deadline takes fuel and yields \<open>OutOfFuel\<close>, which is no
  Python exception and no handler catches, when it runs out.  \<open>supervise_returns\<close> proves for the
  supervisor that 62001 rounds are enough: a round of its setup loop sleeps 1/100 s, one of its
  watch 1/20 s, one of its cleanup 1/50 s (or until the deadline), and a host lease lasts at
  most 620 s.  The JSON decoder supplies its own fuel, proved to be enough
  (\<open>decode_fuel\<close>).  The walk of the input tree and the reads of
  its files get theirs from the longest file name and the declared length.  For the other polling loops the fuel bounds the polls of one wait; the
  theorems about them hold for every amount of fuel, and say so where they exclude running out.

  \<^bold>\<open>Not modelled.\<close>  Signal handlers are observed where the code looks at their flag
  (\<open>e_interrupted\<close> and its kin).  Code points above 255, the text of library exceptions and
  \<open>repr\<close> of non-strings are abstracted.  The remaining scripts, listed with reasons in
  the manifest, are not part of this library: the one-shot license review runs and the
  monitors, the repository linter, the guest inspector and the UTM control (command sequences
  around external tools), the image build, and, of the preparation itself, the
  candidate bundle and the execution contract of the native initialization (zip files and Python
  syntax trees).  Tests, shell, Go, Rust and JavaScript
  are outside.
\<close>

end
